(* ===== verification/Prelude.thy ===== *)
theory Prelude
  imports Main "HOL-Library.Char_ord" "HOL-Library.List_Lexorder" "HOL-Library.Product_Lexorder"
    "HOL-Library.Sublist"
begin

text \<open>
  The part of Go's standard library that the modelled code rests on, and the lemmas and
  collections the component theories share.

  A Go \<open>string\<close> is a sequence of bytes: here a \<open>char list\<close>, one \<open>char\<close> per byte, so
  \<open>length\<close> is Go's \<open>len\<close> and the order is the bytewise order Go's \<open><\<close> uses.
  \<open>TrimSpace\<close> removes every Unicode white space, in its UTF-8 encoding.
  \<open>ToLower\<close>, \<open>ToUpper\<close> and \<open>EqualFold\<close> fold the ASCII letters and leave the bytes of
  other runes alone; they agree with Go on every ASCII string.
\<close>

named_theorems go_str "rewrite rules for the string functions"
named_theorems norm_simps "normalised strings are fixed points of the normalisers"

type_synonym gostring = string
type_synonym ('e, 'a) result = "'e + 'a"

section \<open>Bytes\<close>

abbreviation byte :: "char \<Rightarrow> nat" where
  "byte c \<equiv> of_char c"

definition is_upper_byte :: "char \<Rightarrow> bool" where
  "is_upper_byte c \<longleftrightarrow> 65 \<le> byte c \<and> byte c \<le> 90"

definition is_lower_byte :: "char \<Rightarrow> bool" where
  "is_lower_byte c \<longleftrightarrow> 97 \<le> byte c \<and> byte c \<le> 122"

definition is_digit_byte :: "char \<Rightarrow> bool" where
  "is_digit_byte c \<longleftrightarrow> 48 \<le> byte c \<and> byte c \<le> 57"

definition lower_byte :: "char \<Rightarrow> char" where
  "lower_byte c = (if is_upper_byte c then char_of (byte c + 32) else c)"

definition upper_byte :: "char \<Rightarrow> char" where
  "upper_byte c = (if is_lower_byte c then char_of (byte c - 32) else c)"

lemma byte_lower_byte: "byte (lower_byte c) = (if is_upper_byte c then byte c + 32 else byte c)"
  by (auto simp: lower_byte_def is_upper_byte_def)

lemma byte_upper_byte: "byte (upper_byte c) = (if is_lower_byte c then byte c - 32 else byte c)"
  by (auto simp: upper_byte_def is_lower_byte_def)

lemma byte_eq_iff: "c = d \<longleftrightarrow> byte c = byte d"
  by simp

lemma lower_byte_idem [simp]: "lower_byte (lower_byte c) = lower_byte c"
  by (simp only: byte_eq_iff byte_lower_byte) (auto simp: is_upper_byte_def byte_lower_byte)

lemma upper_byte_idem [simp]: "upper_byte (upper_byte c) = upper_byte c"
  by (simp only: byte_eq_iff byte_upper_byte) (auto simp: is_lower_byte_def byte_upper_byte)

section \<open>White space\<close>

text \<open>
  The encodings of the runes \<open>unicode.IsSpace\<close> accepts: one byte for the ASCII ones,
  two for U+0085 and U+00A0, three for U+1680, U+2000 to U+200A, U+2028, U+2029, U+202F,
  U+205F and U+3000.
\<close>

definition ws1 :: "char \<Rightarrow> bool" where
  "ws1 a \<longleftrightarrow> (9 \<le> byte a \<and> byte a \<le> 13) \<or> byte a = 32"

definition ws2 :: "char \<Rightarrow> char \<Rightarrow> bool" where
  "ws2 a b \<longleftrightarrow> byte a = 194 \<and> (byte b = 133 \<or> byte b = 160)"

definition ws3 :: "char \<Rightarrow> char \<Rightarrow> char \<Rightarrow> bool" where
  "ws3 a b c \<longleftrightarrow>
     (byte a = 225 \<and> byte b = 154 \<and> byte c = 128) \<or>
     (byte a = 226 \<and> byte b = 128 \<and>
        ((128 \<le> byte c \<and> byte c \<le> 138) \<or> byte c = 168 \<or> byte c = 169 \<or> byte c = 175)) \<or>
     (byte a = 226 \<and> byte b = 129 \<and> byte c = 159) \<or>
     (byte a = 227 \<and> byte b = 128 \<and> byte c = 128)"

fun skip_ws :: "(char \<Rightarrow> char \<Rightarrow> bool) \<Rightarrow> (char \<Rightarrow> char \<Rightarrow> char \<Rightarrow> bool) \<Rightarrow> string \<Rightarrow> string" where
  "skip_ws p2 p3 [] = []"
| "skip_ws p2 p3 [a] = (if ws1 a then [] else [a])"
| "skip_ws p2 p3 [a, b] =
     (if ws1 a then skip_ws p2 p3 [b] else if p2 a b then [] else [a, b])"
| "skip_ws p2 p3 (a # b # c # s) =
     (if ws1 a then skip_ws p2 p3 (b # c # s)
      else if p2 a b then skip_ws p2 p3 (c # s)
      else if p3 a b c then skip_ws p2 p3 s
      else a # b # c # s)"

definition TrimLeftSpace :: "string \<Rightarrow> string" where
  "TrimLeftSpace s = skip_ws ws2 ws3 s"

definition TrimRightSpace :: "string \<Rightarrow> string" where
  "TrimRightSpace s = rev (skip_ws (\<lambda>a b. ws2 b a) (\<lambda>a b c. ws3 c b a) (rev s))"

definition TrimSpace :: "string \<Rightarrow> string" where
  "TrimSpace s = TrimRightSpace (TrimLeftSpace s)"

definition starts_ws :: "(char \<Rightarrow> char \<Rightarrow> bool) \<Rightarrow> (char \<Rightarrow> char \<Rightarrow> char \<Rightarrow> bool) \<Rightarrow> string \<Rightarrow> bool" where
  "starts_ws p2 p3 s = (case s of [] \<Rightarrow> False
     | a # s1 \<Rightarrow> ws1 a \<or> (case s1 of [] \<Rightarrow> False
         | b # s2 \<Rightarrow> p2 a b \<or> (case s2 of [] \<Rightarrow> False | c # _ \<Rightarrow> p3 a b c)))"

lemma skip_ws_suffix: "suffix (skip_ws p2 p3 s) s"
  by (induction p2 p3 s rule: skip_ws.induct) (auto simp: suffix_Cons)

lemma skip_ws_not_starts: "\<not> starts_ws p2 p3 (skip_ws p2 p3 s)"
  by (induction p2 p3 s rule: skip_ws.induct) (auto simp: starts_ws_def)

lemma skip_ws_id: "\<not> starts_ws p2 p3 s \<Longrightarrow> skip_ws p2 p3 s = s"
  by (cases "(p2, p3, s)" rule: skip_ws.cases) (auto simp: starts_ws_def)

lemma skip_ws_idem [simp]: "skip_ws p2 p3 (skip_ws p2 p3 s) = skip_ws p2 p3 s"
  by (rule skip_ws_id) (rule skip_ws_not_starts)

lemma starts_ws_prefix: "prefix p s \<Longrightarrow> starts_ws p2 p3 p \<Longrightarrow> starts_ws p2 p3 s"
  by (auto simp: starts_ws_def prefix_def split: list.splits)

lemma TrimRightSpace_prefix: "prefix (TrimRightSpace s) s"
  using skip_ws_suffix[of "\<lambda>a b. ws2 b a" "\<lambda>a b c. ws3 c b a" "rev s"]
  by (simp add: TrimRightSpace_def suffix_to_prefix)

lemma TrimLeftSpace_idem [simp]: "TrimLeftSpace (TrimLeftSpace s) = TrimLeftSpace s"
  by (simp add: TrimLeftSpace_def)

lemma TrimRightSpace_idem [simp]: "TrimRightSpace (TrimRightSpace s) = TrimRightSpace s"
  by (simp add: TrimRightSpace_def)

lemma TrimLeftSpace_TrimSpace [simp]: "TrimLeftSpace (TrimSpace s) = TrimSpace s"
proof -
  have "\<not> starts_ws ws2 ws3 (TrimLeftSpace s)"
    by (simp add: TrimLeftSpace_def skip_ws_not_starts)
  then have "\<not> starts_ws ws2 ws3 (TrimSpace s)"
    unfolding TrimSpace_def using TrimRightSpace_prefix starts_ws_prefix by blast
  then show ?thesis by (simp add: TrimLeftSpace_def skip_ws_id)
qed

lemma TrimSpace_idem [simp, go_str, norm_simps]: "TrimSpace (TrimSpace s) = TrimSpace s"
  by (simp add: TrimSpace_def[of "TrimSpace s"]) (simp add: TrimSpace_def)

lemma TrimSpace_Nil [simp]: "TrimSpace [] = []"
  by (simp add: TrimSpace_def TrimLeftSpace_def TrimRightSpace_def)

lemma length_TrimSpace: "length (TrimSpace s) \<le> length s"
proof -
  have "length (TrimSpace s) \<le> length (TrimLeftSpace s)"
    unfolding TrimSpace_def by (rule prefix_length_le[OF TrimRightSpace_prefix])
  also have "\<dots> \<le> length s"
    unfolding TrimLeftSpace_def by (rule suffix_length_le[OF skip_ws_suffix])
  finally show ?thesis .
qed

lemma set_TrimSpace: "set (TrimSpace s) \<subseteq> set s"
proof -
  have "set (TrimSpace s) \<subseteq> set (TrimLeftSpace s)"
    unfolding TrimSpace_def by (rule set_mono_prefix[OF TrimRightSpace_prefix])
  also have "\<dots> \<subseteq> set s"
    unfolding TrimLeftSpace_def by (rule set_mono_suffix[OF skip_ws_suffix])
  finally show ?thesis .
qed

text \<open>A string whose bytes are all ASCII and not white space is already trimmed.\<close>

definition plain_byte :: "char \<Rightarrow> bool" where
  "plain_byte c \<longleftrightarrow> 33 \<le> byte c \<and> byte c < 128"

lemma skip_ws_plain_head:
  assumes "plain_byte a" and "\<And>b. \<not> p2 a b" and "\<And>b c. \<not> p3 a b c"
  shows "skip_ws p2 p3 (a # s) = a # s"
  using assms by (intro skip_ws_id) (auto simp: starts_ws_def plain_byte_def ws1_def split: list.splits)

lemma TrimSpace_plain_ends:
  assumes "plain_byte (hd s)" and "plain_byte (last s)" and "s \<noteq> []"
  shows "TrimSpace s = s"
proof -
  from assms obtain a t where s: "s = a # t" "plain_byte a" by (cases s) auto
  from assms obtain u b where r: "s = u @ [b]" "plain_byte b"
    by (metis append_butlast_last_id)
  have "TrimLeftSpace s = s"
    unfolding TrimLeftSpace_def s(1)
    by (rule skip_ws_plain_head) (use s(2) in \<open>auto simp: ws2_def ws3_def plain_byte_def\<close>)
  moreover have "skip_ws (\<lambda>a b. ws2 b a) (\<lambda>a b c. ws3 c b a) (b # rev u) = b # rev u"
    by (rule skip_ws_plain_head) (use r(2) in \<open>auto simp: ws2_def ws3_def plain_byte_def\<close>)
  ultimately show ?thesis by (simp add: TrimSpace_def TrimRightSpace_def r(1))
qed

lemma TrimSpace_plain: "\<forall>c \<in> set s. plain_byte c \<Longrightarrow> TrimSpace s = s"
  by (cases "s = []") (auto intro!: TrimSpace_plain_ends)

section \<open>Case folding\<close>

definition ToLower :: "string \<Rightarrow> string" where
  "ToLower s = map lower_byte s"

definition ToUpper :: "string \<Rightarrow> string" where
  "ToUpper s = map upper_byte s"

definition EqualFold :: "string \<Rightarrow> string \<Rightarrow> bool" where
  "EqualFold s t \<longleftrightarrow> ToLower s = ToLower t"

lemma ToLower_idem [simp, go_str, norm_simps]: "ToLower (ToLower s) = ToLower s"
  by (simp add: ToLower_def)

lemma ToUpper_idem [simp, go_str]: "ToUpper (ToUpper s) = ToUpper s"
  by (simp add: ToUpper_def)

lemma ToLower_Nil [simp]: "ToLower [] = []" and ToUpper_Nil [simp]: "ToUpper [] = []"
  by (simp_all add: ToLower_def ToUpper_def)

lemma ToLower_eq_Nil [simp]: "ToLower s = [] \<longleftrightarrow> s = []"
  by (simp add: ToLower_def)

lemma length_ToLower [simp]: "length (ToLower s) = length s"
  by (simp add: ToLower_def)

lemma ToLower_append: "ToLower (s @ t) = ToLower s @ ToLower t"
  by (simp add: ToLower_def)

lemma ws_lower_byte [simp]:
  "ws1 (lower_byte a) = ws1 a" "ws2 (lower_byte a) (lower_byte b) = ws2 a b"
  "ws3 (lower_byte a) (lower_byte b) (lower_byte c) = ws3 a b c"
  by (auto simp: ws1_def ws2_def ws3_def byte_lower_byte is_upper_byte_def)

lemma skip_ws_map:
  assumes "\<And>a. ws1 (f a) = ws1 a" and "\<And>a b. p2 (f a) (f b) = p2 a b"
    and "\<And>a b c. p3 (f a) (f b) (f c) = p3 a b c"
  shows "skip_ws p2 p3 (map f s) = map f (skip_ws p2 p3 s)"
  using assms by (induction p2 p3 s rule: skip_ws.induct) auto

lemma TrimSpace_ToLower [go_str, norm_simps]: "TrimSpace (ToLower s) = ToLower (TrimSpace s)"
proof -
  have "TrimLeftSpace (ToLower t) = ToLower (TrimLeftSpace t)" for t
    unfolding TrimLeftSpace_def ToLower_def by (rule skip_ws_map) simp_all
  moreover have "TrimRightSpace (ToLower t) = ToLower (TrimRightSpace t)" for t
    unfolding TrimRightSpace_def ToLower_def rev_map by (subst skip_ws_map) (simp_all add: rev_map)
  ultimately show ?thesis by (simp add: TrimSpace_def)
qed

lemma ws_upper_byte [simp]:
  "ws1 (upper_byte a) = ws1 a" "ws2 (upper_byte a) (upper_byte b) = ws2 a b"
  "ws3 (upper_byte a) (upper_byte b) (upper_byte c) = ws3 a b c"
  by (auto simp: ws1_def ws2_def ws3_def byte_upper_byte is_lower_byte_def)

lemma TrimSpace_ToUpper: "TrimSpace (ToUpper s) = ToUpper (TrimSpace s)"
proof -
  have "TrimLeftSpace (ToUpper t) = ToUpper (TrimLeftSpace t)" for t
    unfolding TrimLeftSpace_def ToUpper_def by (rule skip_ws_map) simp_all
  moreover have "TrimRightSpace (ToUpper t) = ToUpper (TrimRightSpace t)" for t
    unfolding TrimRightSpace_def ToUpper_def rev_map by (subst skip_ws_map) (simp_all add: rev_map)
  ultimately show ?thesis by (simp add: TrimSpace_def)
qed

lemma EqualFold_refl [simp]: "EqualFold s s" and EqualFold_sym: "EqualFold s t = EqualFold t s"
  by (auto simp: EqualFold_def)

section \<open>Results\<close>

lemma map_sum_id_Inl [simp]: "map_sum id g r = Inl e \<longleftrightarrow> r = Inl e"
  and map_sum_id_Inr: "map_sum id g r = Inr y \<longleftrightarrow> (\<exists>x. r = Inr x \<and> y = g x)"
  by (cases r; auto)+

end
