(* ===== verification/GoStrings.thy ===== *)
theory GoStrings
  imports Prelude
begin

text \<open>
  The functions of Go's \<open>strings\<close> package that search, cut and join, and the loops over a
  \<open>seen\<close> set that most components share.
\<close>

section \<open>Searching\<close>

definition HasPrefix :: "string \<Rightarrow> string \<Rightarrow> bool" where
  "HasPrefix s p = prefix p s"

definition HasSuffix :: "string \<Rightarrow> string \<Rightarrow> bool" where
  "HasSuffix s p = suffix p s"

definition TrimPrefix :: "string \<Rightarrow> string \<Rightarrow> string" where
  "TrimPrefix s p = (if prefix p s then drop (length p) s else s)"

definition TrimSuffix :: "string \<Rightarrow> string \<Rightarrow> string" where
  "TrimSuffix s p = (if suffix p s then take (length s - length p) s else s)"

fun Contains :: "string \<Rightarrow> string \<Rightarrow> bool" where
  "Contains [] sub = (sub = [])"
| "Contains (c # s) sub = (prefix sub (c # s) \<or> Contains s sub)"

definition ContainsAny :: "string \<Rightarrow> string \<Rightarrow> bool" where
  "ContainsAny s chars = list_ex (\<lambda>c. c \<in> set chars) s"

lemma Contains_sublist: "Contains s sub \<longleftrightarrow> sublist sub s"
  by (induction s) (auto simp: sublist_Cons_right)

lemma Contains_refl [simp]: "Contains s s"
  by (simp add: Contains_sublist)

lemma Contains_Nil [simp]: "Contains s []"
  by (simp add: Contains_sublist)

lemma HasPrefix_append [simp]: "HasPrefix (p @ s) p" and TrimPrefix_append [simp]: "TrimPrefix (p @ s) p = s"
  by (simp_all add: HasPrefix_def TrimPrefix_def)

lemma HasPrefix_ConsI: "HasPrefix s [c] \<longleftrightarrow> s \<noteq> [] \<and> hd s = c"
  by (cases s) (auto simp: HasPrefix_def)

lemma TrimPrefix_HasPrefix: "HasPrefix s p \<Longrightarrow> p @ TrimPrefix s p = s"
  by (auto simp: HasPrefix_def TrimPrefix_def prefix_def)

section \<open>Cutting and joining\<close>

text \<open>\<open>cut1 c s\<close> is \<open>strings.Cut\<close> (and \<open>SplitN\<close> with limit 2) for a one-byte separator.\<close>

fun cut1 :: "char \<Rightarrow> string \<Rightarrow> (string \<times> string) option" where
  "cut1 c [] = None"
| "cut1 c (d # s) = (if d = c then Some ([], s)
     else (case cut1 c s of None \<Rightarrow> None | Some (a, b) \<Rightarrow> Some (d # a, b)))"

lemma cut1_Some: "cut1 c s = Some (a, b) \<Longrightarrow> s = a @ c # b \<and> c \<notin> set a"
  by (induction s arbitrary: a) (auto split: if_splits option.splits)

lemma cut1_None: "cut1 c s = None \<longleftrightarrow> c \<notin> set s"
  by (induction s) (auto split: option.splits)

lemma cut1_append: "c \<notin> set a \<Longrightarrow> cut1 c (a @ c # b) = Some (a, b)"
  by (induction a) auto

fun Split1 :: "char \<Rightarrow> string \<Rightarrow> string list" where
  "Split1 c [] = [[]]"
| "Split1 c (d # s) = (if d = c then [] # Split1 c s
     else (case Split1 c s of [] \<Rightarrow> [[d]] | x # xs \<Rightarrow> (d # x) # xs))"

fun Join :: "string list \<Rightarrow> string \<Rightarrow> string" where
  "Join [] sep = []"
| "Join [s] sep = s"
| "Join (s # t # ss) sep = s @ sep @ Join (t # ss) sep"

lemma Split1_not_Nil [simp]: "Split1 c s \<noteq> []"
  by (induction s) (auto split: list.splits)

lemma Join_Cons: "ss \<noteq> [] \<Longrightarrow> Join (s # ss) sep = s @ sep @ Join ss sep"
  by (cases ss) auto

lemma Join_Split1: "Join (Split1 c s) [c] = s"
proof (induction s)
  case (Cons d s)
  show ?case
  proof (cases "Split1 c s")
    case (Cons x xs)
    then show ?thesis using Cons.IH by (cases xs) (auto simp: Join_Cons)
  qed simp
qed simp

definition ReplaceByte :: "char \<Rightarrow> string \<Rightarrow> string \<Rightarrow> string" where
  "ReplaceByte c new s = concat (map (\<lambda>d. if d = c then new else [d]) s)"

lemma ReplaceByte_id: "c \<notin> set s \<Longrightarrow> ReplaceByte c new s = s"
  by (induction s) (auto simp: ReplaceByte_def)

section \<open>Runes\<close>

text \<open>
  The width in bytes of the first rune of a non-empty string (\<open>utf8.DecodeRune\<close>); a byte that
  starts no valid encoding is a rune of its own.
\<close>

definition cont_byte :: "nat \<Rightarrow> nat \<Rightarrow> char \<Rightarrow> bool" where
  "cont_byte lo hi c \<longleftrightarrow> lo \<le> byte c \<and> byte c \<le> hi"

definition rune_width :: "string \<Rightarrow> nat" where
  "rune_width s = (case s of
     a # b # t \<Rightarrow>
       (let x = byte a; k = cont_byte 128 191;
            lo = (if x = 224 then 160 else if x = 240 then 144 else 128);
            hi = (if x = 237 then 159 else if x = 244 then 143 else 191) in
        if 194 \<le> x \<and> x \<le> 223 \<and> k b then 2
        else if 224 \<le> x \<and> x \<le> 239 \<and> cont_byte lo hi b \<and> t \<noteq> [] \<and> k (hd t) then 3
        else if 240 \<le> x \<and> x \<le> 244 \<and> cont_byte lo hi b \<and> length t \<ge> 2 \<and> k (t ! 0) \<and> k (t ! 1) then 4
        else 1)
   | _ \<Rightarrow> 1)"

lemma rune_width_pos: "0 < rune_width s"
  by (auto simp: rune_width_def Let_def split: list.splits)

function rune_count :: "string \<Rightarrow> nat" where
  "rune_count [] = 0"
| "rune_count (c # s) = Suc (rune_count (drop (rune_width (c # s)) (c # s)))"
  by pat_completeness auto
termination
  by (relation "measure length") (use rune_width_pos in auto)

lemma rune_count_ascii: "\<forall>c \<in> set s. byte c < 128 \<Longrightarrow> rune_count s = length s"
proof (induction s)
  case (Cons c s)
  then have "rune_width (c # s) = 1"
    by (auto simp: rune_width_def Let_def split: list.splits)
  with Cons show ?case by simp
qed simp

section \<open>Loops over a seen set\<close>

text \<open>
  The idiom \<open>if seen[x] { continue }; seen[x] = true; out = append(out, x)\<close>: each element
  once, in the order of its first occurrence.
\<close>

fun uniq_from :: "'a list \<Rightarrow> 'a list \<Rightarrow> 'a list" where
  "uniq_from seen [] = []"
| "uniq_from seen (x # xs) =
     (if x \<in> set seen then uniq_from seen xs else x # uniq_from (x # seen) xs)"

definition uniq :: "'a list \<Rightarrow> 'a list" where
  "uniq xs = uniq_from [] xs"

lemma set_uniq_from: "set (uniq_from seen xs) = set xs - set seen"
  by (induction seen xs rule: uniq_from.induct) auto

lemma distinct_uniq_from: "distinct (uniq_from seen xs)"
  by (induction seen xs rule: uniq_from.induct) (auto simp: set_uniq_from)

lemma set_uniq [simp]: "set (uniq xs) = set xs" and distinct_uniq [simp]: "distinct (uniq xs)"
  by (simp_all add: uniq_def set_uniq_from distinct_uniq_from)

lemma uniq_from_distinct: "distinct xs \<Longrightarrow> set xs \<inter> set seen = {} \<Longrightarrow> uniq_from seen xs = xs"
  by (induction seen xs rule: uniq_from.induct) auto

lemma uniq_id: "distinct xs \<Longrightarrow> uniq xs = xs"
  by (simp add: uniq_def uniq_from_distinct)

lemma uniq_idem [simp]: "uniq (uniq xs) = uniq xs"
  by (simp add: uniq_id)

lemma uniq_Nil [simp]: "uniq [] = []"
  by (simp add: uniq_def)

lemma uniq_eq_Nil [simp]: "uniq xs = [] \<longleftrightarrow> xs = []"
  by (metis set_empty set_uniq)

section \<open>Fallible loops\<close>

text \<open>
  A loop that stops at the first error, and one that accumulates: the shape
  \<open>for _, x := range xs { y, err := f(x); if err != nil { return err } }\<close>.
\<close>

fun check_all :: "('a \<Rightarrow> 'e option) \<Rightarrow> 'a list \<Rightarrow> 'e option" where
  "check_all f [] = None"
| "check_all f (x # xs) = (case f x of Some e \<Rightarrow> Some e | None \<Rightarrow> check_all f xs)"

fun map_result :: "('a \<Rightarrow> ('e, 'b) result) \<Rightarrow> 'a list \<Rightarrow> ('e, 'b list) result" where
  "map_result f [] = Inr []"
| "map_result f (x # xs) = (case f x of Inl e \<Rightarrow> Inl e
     | Inr y \<Rightarrow> (case map_result f xs of Inl e \<Rightarrow> Inl e | Inr ys \<Rightarrow> Inr (y # ys)))"

lemma check_all_None: "check_all f xs = None \<longleftrightarrow> (\<forall>x \<in> set xs. f x = None)"
  by (induction xs) (auto split: option.splits)

lemma check_all_Some: "check_all f xs = Some e \<Longrightarrow> \<exists>x \<in> set xs. f x = Some e"
  by (induction xs) (auto split: option.splits)

lemma check_all_append: "check_all f (xs @ ys) = (case check_all f xs of None \<Rightarrow> check_all f ys | e \<Rightarrow> e)"
  by (induction xs) (auto split: option.splits)

lemma map_result_Inr: "map_result f xs = Inr ys \<longleftrightarrow> list_all2 (\<lambda>x y. f x = Inr y) xs ys"
proof (induction xs arbitrary: ys)
  case (Cons x xs)
  show ?case
    by (cases ys; cases "f x"; cases "map_result f xs") (simp_all add: Cons.IH[symmetric])
qed auto

lemma map_result_cong [fundef_cong]:
  "xs = ys \<Longrightarrow> (\<And>x. x \<in> set ys \<Longrightarrow> f x = g x) \<Longrightarrow> map_result f xs = map_result g ys"
  by (induction xs arbitrary: ys) (auto split: sum.splits)

lemma map_result_length: "map_result f xs = Inr ys \<Longrightarrow> length ys = length xs"
  by (auto simp: map_result_Inr dest: list_all2_lengthD)

lemma map_result_Inl: "map_result f xs = Inl e \<Longrightarrow> \<exists>x \<in> set xs. f x = Inl e"
  by (induction xs) (auto split: sum.splits)

end
