(* ===== verification/GoNumbers.thy ===== *)
theory GoNumbers
  imports GoStrings
begin

text \<open>
  Go's \<open>strconv\<close>: decimal integers with the range check of \<open>int64\<close>, and \<open>float64\<close> values
  as an exact binary fraction with a sign, an infinity or a NaN. \<open>ParseFloat\<close> rounds the
  decimal it reads to the nearest of them (ties to even) and fails on overflow, \<open>FormatFloat\<close>
  with verb \<open>'f'\<close> and precision -1 writes the shortest decimal that reads back as the same
  number.
\<close>

section \<open>Integers\<close>

definition digit_val :: "char \<Rightarrow> nat" where
  "digit_val c = byte c - 48"

fun digits_val :: "nat \<Rightarrow> string \<Rightarrow> nat" where
  "digits_val acc [] = acc"
| "digits_val acc (c # s) = digits_val (10 * acc + digit_val c) s"

definition all_digits :: "string \<Rightarrow> bool" where
  "all_digits s \<longleftrightarrow> s \<noteq> [] \<and> list_all is_digit_byte s"

definition int64_min :: int where "int64_min = - 9223372036854775808"
definition int64_max :: int where "int64_max = 9223372036854775807"

definition ParseInt10 :: "string \<Rightarrow> int option" where
  "ParseInt10 s =
     (let (neg, body) = (case s of [] \<Rightarrow> (False, [])
        | c # t \<Rightarrow> if c = CHR ''-'' then (True, t) else if c = CHR ''+'' then (False, t) else (False, s))
      in if \<not> all_digits body then None
         else let v = (if neg then - int (digits_val 0 body) else int (digits_val 0 body))
              in if int64_min \<le> v \<and> v \<le> int64_max then Some v else None)"

lemma ParseInt10_range: "ParseInt10 s = Some v \<Longrightarrow> int64_min \<le> v \<and> v \<le> int64_max"
  by (auto simp: ParseInt10_def Let_def split: if_splits list.splits)

text \<open>\<open>strconv.Itoa\<close> on a natural number, and decimal digits padded to a width.\<close>

fun nat_digits :: "nat \<Rightarrow> string" where
  "nat_digits n = (if n < 10 then [char_of (48 + n)] else nat_digits (n div 10) @ [char_of (48 + n mod 10)])"

declare nat_digits.simps [simp del]

definition Itoa :: "int \<Rightarrow> string" where
  "Itoa i = (if i < 0 then CHR ''-'' # nat_digits (nat (- i)) else nat_digits (nat i))"

definition pad_digits :: "nat \<Rightarrow> nat \<Rightarrow> string" where
  "pad_digits w n = (let d = nat_digits n in replicate (w - length d) (CHR ''0'') @ d)"

lemma nat_digits_not_Nil [simp]: "nat_digits n \<noteq> []"
  by (subst nat_digits.simps) simp

lemma is_digit_byte_char_of: "(n::nat) < 10 \<Longrightarrow> is_digit_byte (char_of (48 + n))"
  by (simp add: is_digit_byte_def)

lemma nat_digits_all_digits: "list_all is_digit_byte (nat_digits n)"
proof (induction n rule: nat_digits.induct)
  case (1 n)
  then show ?case
    by (subst nat_digits.simps) (simp add: is_digit_byte_char_of)
qed

lemma digits_val_append: "digits_val acc (s @ t) = digits_val (digits_val acc s) t"
  by (induction acc s rule: digits_val.induct) auto

lemma digits_val_nat_digits: "digits_val 0 (nat_digits n) = n"
proof (induction n rule: nat_digits.induct)
  case (1 n)
  then show ?case
    by (subst nat_digits.simps) (auto simp: digits_val_append digit_val_def)
qed

lemma all_digits_nat_digits [simp]: "all_digits (nat_digits n)"
  by (simp add: all_digits_def nat_digits_all_digits)

lemma ParseInt10_nat_digits:
  assumes "int n \<le> int64_max"
  shows "ParseInt10 (nat_digits n) = Some (int n)"
proof -
  obtain c t where ct: "nat_digits n = c # t" by (cases "nat_digits n") auto
  then have "is_digit_byte c" using nat_digits_all_digits[of n] by simp
  then have "c \<noteq> CHR ''-''" "c \<noteq> CHR ''+''" by (auto simp: is_digit_byte_def)
  moreover have "all_digits (c # t)" "digits_val 0 (c # t) = n"
    using all_digits_nat_digits[of n] digits_val_nat_digits[of n] by (simp_all add: ct)
  ultimately show ?thesis
    using assms by (simp add: ParseInt10_def ct int64_min_def int64_max_def)
qed

section \<open>Floating point\<close>

text \<open>\<open>FFin neg m e\<close> is \<open>m * 2 ^ e\<close>, negated when \<open>neg\<close>; \<open>-0\<close> is \<open>FFin True 0 e\<close>.\<close>

datatype f64 = FNaN | FInf bool | FFin bool nat int

fun bitlen :: "nat \<Rightarrow> nat" where
  "bitlen n = (if n = 0 then 0 else Suc (bitlen (n div 2)))"

declare bitlen.simps [simp del]

definition div_half_even :: "nat \<Rightarrow> nat \<Rightarrow> nat" where
  "div_half_even a b = (let q = a div b; r = a mod b
     in if 2 * r < b then q else if b < 2 * r then q + 1 else if even q then q else q + 1)"

definition ge_pow2 :: "nat \<Rightarrow> nat \<Rightarrow> int \<Rightarrow> bool" where
  "ge_pow2 num den l = (if 0 \<le> l then den * 2 ^ nat l \<le> num else den \<le> num * 2 ^ nat (- l))"

text \<open>The \<open>float64\<close> nearest to \<open>num / den\<close>; \<open>None\<close> is \<open>ErrRange\<close>.\<close>

definition round_f64 :: "bool \<Rightarrow> nat \<Rightarrow> nat \<Rightarrow> f64 option" where
  "round_f64 neg num den =
     (if num = 0 then Some (FFin neg 0 0)
      else let l = int (bitlen num) - int (bitlen den);
               e0 = (if ge_pow2 num den l then l else l - 1);
               e = max (e0 - 52) (-1074);
               m = (if 0 \<le> e then div_half_even num (den * 2 ^ nat e)
                    else div_half_even (num * 2 ^ nat (- e)) den)
           in if 0 \<le> e \<and> 2 ^ 1024 \<le> m * 2 ^ nat e then None else Some (FFin neg m e))"

subsection \<open>Comparison\<close>

definition signed_mant :: "bool \<Rightarrow> nat \<Rightarrow> int" where
  "signed_mant neg m = (if neg then - int m else int m)"

definition align :: "int \<Rightarrow> int \<Rightarrow> int \<Rightarrow> int" where
  "align v e k = v * 2 ^ nat (e - k)"

fun f_eq :: "f64 \<Rightarrow> f64 \<Rightarrow> bool" where
  "f_eq (FFin n1 m1 e1) (FFin n2 m2 e2) \<longleftrightarrow>
     align (signed_mant n1 m1) e1 (min e1 e2) = align (signed_mant n2 m2) e2 (min e1 e2)"
| "f_eq (FInf a) (FInf b) \<longleftrightarrow> a = b"
| "f_eq _ _ \<longleftrightarrow> False"

fun f_less :: "f64 \<Rightarrow> f64 \<Rightarrow> bool" where
  "f_less (FFin n1 m1 e1) (FFin n2 m2 e2) \<longleftrightarrow>
     align (signed_mant n1 m1) e1 (min e1 e2) < align (signed_mant n2 m2) e2 (min e1 e2)"
| "f_less (FInf a) (FInf b) \<longleftrightarrow> a \<and> \<not> b"
| "f_less (FInf a) (FFin _ _ _) \<longleftrightarrow> a"
| "f_less (FFin _ _ _) (FInf b) \<longleftrightarrow> \<not> b"
| "f_less _ _ \<longleftrightarrow> False"

definition f_le :: "f64 \<Rightarrow> f64 \<Rightarrow> bool" where
  "f_le a b \<longleftrightarrow> f_less a b \<or> f_eq a b"

fun f_neg :: "f64 \<Rightarrow> f64" where
  "f_neg FNaN = FNaN"
| "f_neg (FInf b) = FInf (\<not> b)"
| "f_neg (FFin n m e) = FFin (\<not> n) m e"

definition f_of_nat :: "nat \<Rightarrow> f64" where
  "f_of_nat n = (case round_f64 False n 1 of None \<Rightarrow> FInf False | Some f \<Rightarrow> f)"

definition f_zero :: f64 where "f_zero = FFin False 0 0"

lemma f_eq_sym: "f_eq a b = f_eq b a"
  by (cases a; cases b) (auto simp: min.commute)

lemma f_eq_refl: "a \<noteq> FNaN \<Longrightarrow> f_eq a a"
  by (cases a) auto

lemma f_trichotomy:
  assumes "a \<noteq> FNaN" and "b \<noteq> FNaN"
  shows "f_less a b \<or> f_eq a b \<or> f_less b a"
  using assms by (cases a; cases b) (auto simp: min.commute)

lemma f_less_not_le: "f_less a b \<Longrightarrow> \<not> f_le b a"
  by (cases a; cases b) (auto simp: f_le_def min.commute)

subsection \<open>Parsing\<close>

definition hex_val :: "char \<Rightarrow> nat option" where
  "hex_val c = (let l = lower_byte c in
     if is_digit_byte c then Some (byte c - 48)
     else if 97 \<le> byte l \<and> byte l \<le> 102 then Some (byte l - 87) else None)"

text \<open>
  The digit loop of \<open>readFloat\<close>: mantissa so far, digits after the point, whether the point
  and any digit was seen, and the rest of the input. Underscores are skipped here and
  checked by \<open>underscore_ok\<close>.
\<close>

fun read_mant :: "nat \<Rightarrow> nat \<Rightarrow> nat \<Rightarrow> bool \<Rightarrow> bool \<Rightarrow> string \<Rightarrow> nat \<times> nat \<times> bool \<times> string" where
  "read_mant base m frac dot dig [] = (m, frac, dig, [])"
| "read_mant base m frac dot dig (c # s) =
     (if c = CHR ''_'' then read_mant base m frac dot dig s
      else if c = CHR ''.'' then
        (if dot then (m, frac, dig, c # s) else read_mant base m frac True dig s)
      else case (if base = 16 then hex_val c else if is_digit_byte c then Some (digit_val c) else None) of
        None \<Rightarrow> (m, frac, dig, c # s)
      | Some d \<Rightarrow> read_mant base (base * m + d) (if dot then frac + 1 else frac) dot True s)"

fun read_exp :: "nat \<Rightarrow> string \<Rightarrow> nat \<times> string" where
  "read_exp e [] = (e, [])"
| "read_exp e (c # s) =
     (if c = CHR ''_'' then read_exp e s
      else if is_digit_byte c then read_exp (if e < 10000 then 10 * e + digit_val c else e) s
      else (e, c # s))"

fun underscore_scan :: "bool \<Rightarrow> char \<Rightarrow> string \<Rightarrow> bool" where
  "underscore_scan hex i [] \<longleftrightarrow> i \<noteq> CHR ''_''"
| "underscore_scan hex i (c # s) \<longleftrightarrow>
     (if is_digit_byte c \<or> (hex \<and> hex_val c \<noteq> None) then underscore_scan hex (CHR ''0'') s
      else if c = CHR ''_'' then i = CHR ''0'' \<and> underscore_scan hex (CHR ''_'') s
      else i \<noteq> CHR ''_'' \<and> underscore_scan hex (CHR ''!'') s)"

definition strip_sign :: "string \<Rightarrow> bool \<times> string" where
  "strip_sign s = (case s of [] \<Rightarrow> (False, [])
     | c # t \<Rightarrow> if c = CHR ''-'' then (True, t) else if c = CHR ''+'' then (False, t) else (False, s))"

definition underscore_ok :: "string \<Rightarrow> bool" where
  "underscore_ok s = (case snd (strip_sign s) of
       a # b # t \<Rightarrow> (if a = CHR ''0'' \<and> lower_byte b \<in> {CHR ''b'', CHR ''o'', CHR ''x''}
          then underscore_scan (lower_byte b = CHR ''x'') (CHR ''0'') t
          else underscore_scan False (CHR ''^'') (a # b # t))
     | t \<Rightarrow> underscore_scan False (CHR ''^'') t)"

definition scale_round :: "bool \<Rightarrow> nat \<Rightarrow> nat \<Rightarrow> int \<Rightarrow> f64 option" where
  "scale_round neg m b e = (if 0 \<le> e then round_f64 neg (m * b ^ nat e) 1 else round_f64 neg m (b ^ nat (- e)))"

definition read_tail :: "char \<Rightarrow> string \<Rightarrow> (int \<times> string) option" where
  "read_tail ec s = (case s of
       c # t \<Rightarrow> (if lower_byte c = ec then
          (let (eneg, u) = strip_sign t in
            (case u of d # _ \<Rightarrow> if is_digit_byte d
                then (let (e, r) = read_exp 0 u in Some (if eneg then - int e else int e, r)) else None
             | [] \<Rightarrow> None))
          else Some (0, s))
     | [] \<Rightarrow> Some (0, []))"

definition ParseFloat :: "string \<Rightarrow> f64 option" where
  "ParseFloat s =
     (let (neg, body) = strip_sign s; low = ToLower body in
      if low = ''inf'' \<or> low = ''infinity'' then Some (FInf neg)
      else if ToLower s = ''nan'' then Some FNaN
      else if CHR ''_'' \<in> set s \<and> \<not> underscore_ok s then None
      else if HasPrefix low ''0x'' then
        (case read_mant 16 0 0 False False (drop 2 body) of (m, frac, dig, r) \<Rightarrow>
          if \<not> dig \<or> r = [] then None
          else if lower_byte (hd r) \<noteq> CHR ''p'' then None
          else (case read_tail (CHR ''p'') r of
             Some (e, []) \<Rightarrow> scale_round neg m 2 (e - 4 * int frac)
           | _ \<Rightarrow> None))
      else
        (case read_mant 10 0 0 False False body of (m, frac, dig, r) \<Rightarrow>
          if \<not> dig then None
          else (case read_tail (CHR ''e'') r of
             Some (e, []) \<Rightarrow> scale_round neg m 10 (e - int frac)
           | _ \<Rightarrow> None)))"

subsection \<open>Formatting\<close>

definition fin_num :: "nat \<Rightarrow> int \<Rightarrow> nat" where
  "fin_num m e = (if 0 \<le> e then m * 2 ^ nat e else m)"

definition fin_den :: "int \<Rightarrow> nat" where
  "fin_den e = (if 0 \<le> e then 1 else 2 ^ nat (- e))"

text \<open>Decimal exponent \<open>dp\<close> with \<open>10 ^ (dp - 1) \<le> num / den < 10 ^ dp\<close>.\<close>

definition dec_point :: "nat \<Rightarrow> nat \<Rightarrow> int" where
  "dec_point num den =
     (if den \<le> num then int (length (nat_digits (num div den)))
      else 1 - int (length (nat_digits ((den + num - 1) div num - 1))))"

definition dec_scaled :: "nat \<Rightarrow> nat \<Rightarrow> int \<Rightarrow> nat \<times> nat" where
  "dec_scaled num den k = (if 0 \<le> k then (num * 10 ^ nat k, den) else (num, den * 10 ^ nat (- k)))"

definition reads_back :: "f64 \<Rightarrow> nat \<Rightarrow> int \<Rightarrow> bool" where
  "reads_back f d e = (case scale_round False d 10 e of None \<Rightarrow> False | Some g \<Rightarrow> f_eq f g)"

fun shortest :: "f64 \<Rightarrow> nat \<Rightarrow> nat \<Rightarrow> int \<Rightarrow> nat \<Rightarrow> nat \<Rightarrow> nat \<times> nat" where
  "shortest f num den dp nd 0 = (let (a, b) = dec_scaled num den (int nd - dp) in (div_half_even a b, nd))"
| "shortest f num den dp nd (Suc k) =
     (let (a, b) = dec_scaled num den (int nd - dp); q = a div b;
          down = reads_back f q (dp - int nd); up = reads_back f (q + 1) (dp - int nd)
      in if down \<and> up then (if 2 * (a mod b) < b then q else q + 1, nd)
         else if down then (q, nd) else if up then (q + 1, nd)
         else shortest f num den dp (nd + 1) k)"

definition fixed_digits :: "nat \<Rightarrow> nat \<Rightarrow> int \<Rightarrow> string" where
  "fixed_digits d nd dp =
     (let ds = pad_digits nd d; dp' = dp + int (length ds) - int nd;
          ipart = (if 0 < dp' then take (nat dp') ds @ replicate (nat dp' - length ds) (CHR ''0'') else ''0'');
          fpart = rev (dropWhile (\<lambda>c. c = CHR ''0'')
                    (rev (if 0 < dp' then drop (nat dp') ds else replicate (nat (- dp')) (CHR ''0'') @ ds)))
      in if fpart = [] then ipart else ipart @ CHR ''.'' # fpart)"

fun FormatFloat :: "f64 \<Rightarrow> string" where
  "FormatFloat FNaN = ''NaN''"
| "FormatFloat (FInf b) = (if b then ''-Inf'' else ''+Inf'')"
| "FormatFloat (FFin neg m e) = (if neg then ''-'' else []) @
     (if m = 0 then ''0''
      else let num = fin_num m e; den = fin_den e; dp = dec_point num den;
               (d, nd) = shortest (FFin False m e) num den dp 1 16
           in fixed_digits d nd dp)"

end
