(* ===== verification/GoTime.thy ===== *)
theory GoTime
  imports GoNumbers
begin

text \<open>
  Go's \<open>time\<close>: an instant is a count of seconds since 1970-01-01 UTC and of nanoseconds, with
  a location that gives the offset from UTC at each instant. \<open>time.Parse\<close> is modelled over
  the layout elements the program uses, with the leniency of the library: one-digit hours,
  spaces that match any number of spaces, and fractional seconds after the seconds.
\<close>

record gotime =
  t_sec :: int
  t_nsec :: nat
  t_off :: "int \<Rightarrow> int"

definition utc :: "int \<Rightarrow> int" where "utc = (\<lambda>_. 0)"

section \<open>The calendar\<close>

definition is_leap :: "int \<Rightarrow> bool" where
  "is_leap y \<longleftrightarrow> y mod 4 = 0 \<and> (y mod 100 \<noteq> 0 \<or> y mod 400 = 0)"

definition days_in_month :: "int \<Rightarrow> int \<Rightarrow> int" where
  "days_in_month y m =
     (if m = 2 then (if is_leap y then 29 else 28)
      else if m = 4 \<or> m = 6 \<or> m = 9 \<or> m = 11 then 30 else 31)"

text \<open>Days from 1970-01-01 to the date, and back.\<close>

definition days_from_civil :: "int \<Rightarrow> int \<Rightarrow> int \<Rightarrow> int" where
  "days_from_civil y m d =
     (let y' = (if m \<le> 2 then y - 1 else y); m' = (if m > 2 then m - 3 else m + 9)
      in 365 * y' + y' div 4 - y' div 100 + y' div 400 + (153 * m' + 2) div 5 + d - 1 - 719468)"

definition civil_from_days :: "int \<Rightarrow> int \<times> int \<times> int" where
  "civil_from_days z0 =
     (let z = z0 + 719468; era = z div 146097; doe = z mod 146097;
          yoe = (doe - doe div 1460 + doe div 36524 - doe div 146096) div 365;
          doy = doe - (365 * yoe + yoe div 4 - yoe div 100);
          mp = (5 * doy + 2) div 153; d = doy - (153 * mp + 2) div 5 + 1;
          m = (if mp < 10 then mp + 3 else mp - 9)
      in (yoe + era * 400 + (if m \<le> 2 then 1 else 0), m, d))"

section \<open>Instants\<close>

definition time_Equal :: "gotime \<Rightarrow> gotime \<Rightarrow> bool" where
  "time_Equal a b \<longleftrightarrow> t_sec a = t_sec b \<and> t_nsec a = t_nsec b"

definition time_Before :: "gotime \<Rightarrow> gotime \<Rightarrow> bool" where
  "time_Before a b \<longleftrightarrow> t_sec a < t_sec b \<or> t_sec a = t_sec b \<and> t_nsec a < t_nsec b"

definition time_After :: "gotime \<Rightarrow> gotime \<Rightarrow> bool" where
  "time_After a b \<longleftrightarrow> time_Before b a"

definition time_IsZero :: "gotime \<Rightarrow> bool" where
  "time_IsZero a \<longleftrightarrow> t_sec a = - 62135596800 \<and> t_nsec a = 0"

text \<open>\<open>time.Sub\<close> in nanoseconds; a \<open>Duration\<close> is clamped to 64 bits.\<close>

definition time_Sub :: "gotime \<Rightarrow> gotime \<Rightarrow> int" where
  "time_Sub a b = max int64_min (min int64_max
     ((t_sec a - t_sec b) * 1000000000 + int (t_nsec a) - int (t_nsec b)))"

definition time_civil :: "gotime \<Rightarrow> int \<times> int \<times> int" where
  "time_civil t = civil_from_days ((t_sec t + t_off t (t_sec t)) div 86400)"

text \<open>\<open>time.Date\<close> at midnight in a location: the offset is looked up at a first guess.\<close>

definition local_to_unix :: "(int \<Rightarrow> int) \<Rightarrow> int \<Rightarrow> int" where
  "local_to_unix loc s = (if loc s = 0 then s else s - loc (s - loc s))"

definition time_midnight :: "gotime \<Rightarrow> gotime" where
  "time_midnight t = (case time_civil t of (y, m, d) \<Rightarrow>
     \<lparr>t_sec = local_to_unix (t_off t) (days_from_civil y m d * 86400), t_nsec = 0, t_off = t_off t\<rparr>)"

lemma time_trichotomy: "time_Before a b \<or> time_Equal a b \<or> time_After a b"
  by (auto simp: time_Before_def time_Equal_def time_After_def)

lemma time_Before_irrefl: "time_Before a b \<Longrightarrow> \<not> time_After a b \<and> \<not> time_Equal a b"
  by (auto simp: time_Before_def time_Equal_def time_After_def)

lemma time_Equal_sym: "time_Equal a b = time_Equal b a"
  by (auto simp: time_Equal_def)

section \<open>Layouts\<close>

datatype chunk = Lit char | Year4 | Month2 | Day2 | Hour2 | Min2 | Sec2 | ZoneColon

record time_fields =
  f_year :: int
  f_month :: int
  f_day :: int
  f_hour :: int
  f_min :: int
  f_sec :: int
  f_nsec :: nat
  f_zone :: "int option"

definition no_fields :: time_fields where
  "no_fields = \<lparr>f_year = 0, f_month = 1, f_day = 1, f_hour = 0, f_min = 0, f_sec = 0, f_nsec = 0, f_zone = None\<rparr>"

definition date_chunks :: "chunk list" where
  "date_chunks = [Year4, Lit (CHR ''-''), Month2, Lit (CHR ''-''), Day2]"

definition layout_RFC3339 :: "chunk list" where
  "layout_RFC3339 = date_chunks @
     [Lit (CHR ''T''), Hour2, Lit (CHR '':''), Min2, Lit (CHR '':''), Sec2, ZoneColon]"

definition layout_T_minutes :: "chunk list" where
  "layout_T_minutes = date_chunks @ [Lit (CHR ''T''), Hour2, Lit (CHR '':''), Min2]"

definition layout_space_minutes :: "chunk list" where
  "layout_space_minutes = date_chunks @ [Lit (CHR '' ''), Hour2, Lit (CHR '':''), Min2]"

definition layout_space_seconds :: "chunk list" where
  "layout_space_seconds = date_chunks @
     [Lit (CHR '' ''), Hour2, Lit (CHR '':''), Min2, Lit (CHR '':''), Sec2]"

definition getnum :: "string \<Rightarrow> bool \<Rightarrow> (int \<times> string) option" where
  "getnum s fixed = (case s of [] \<Rightarrow> None
     | a # t \<Rightarrow> if \<not> is_digit_byte a then None
       else (case t of
           b # u \<Rightarrow> (if is_digit_byte b then Some (int (10 * digit_val a + digit_val b), u)
             else if fixed then None else Some (int (digit_val a), t))
         | [] \<Rightarrow> if fixed then None else Some (int (digit_val a), t)))"

definition in_range :: "int \<Rightarrow> int \<Rightarrow> (int \<times> string) option \<Rightarrow> (int \<times> string) option" where
  "in_range lo hi r = (case r of Some (v, s) \<Rightarrow> if lo \<le> v \<and> v \<le> hi then Some (v, s) else None | None \<Rightarrow> None)"

definition is_comma_or_period :: "char \<Rightarrow> bool" where
  "is_comma_or_period c \<longleftrightarrow> c = CHR ''.'' \<or> c = CHR '',''"

text \<open>Fractional seconds after the seconds, although the layout has none.\<close>

definition take_fraction :: "string \<Rightarrow> nat \<times> string" where
  "take_fraction s = (case s of
       a # b # t \<Rightarrow> (if is_comma_or_period a \<and> is_digit_byte b
          then let ds = takeWhile is_digit_byte (b # t); d9 = take 9 ds
               in (digits_val 0 d9 * 10 ^ (9 - length d9), dropWhile is_digit_byte (b # t))
          else (0, s))
     | _ \<Rightarrow> (0, s))"

definition take_zone :: "string \<Rightarrow> (int \<times> string) option" where
  "take_zone s = (case s of
       c # t \<Rightarrow> (if c = CHR ''Z'' then Some (0, t)
          else if length s < 6 \<or> s ! 3 \<noteq> CHR '':'' then None
          else (case (getnum (take 2 t) True, getnum (take 2 (drop 4 s)) True) of
              (Some (hr, _), Some (mm, _)) \<Rightarrow>
                (if hr > 24 \<or> mm > 60 then None
                 else if c = CHR ''+'' then Some (hr * 3600 + mm * 60, drop 6 s)
                 else if c = CHR ''-'' then Some (- (hr * 3600 + mm * 60), drop 6 s)
                 else None)
            | _ \<Rightarrow> None))
     | [] \<Rightarrow> None)"

fun parse_chunks :: "chunk list \<Rightarrow> string \<Rightarrow> time_fields \<Rightarrow> time_fields option" where
  "parse_chunks [] s f = (if s = [] then Some f else None)"
| "parse_chunks (Lit c # cs) s f =
     (if c = CHR '' '' then
        (if s \<noteq> [] \<and> hd s \<noteq> CHR '' '' then None
         else parse_chunks cs (dropWhile (\<lambda>d. d = CHR '' '') s) f)
      else (case s of [] \<Rightarrow> None | d # t \<Rightarrow> if d = c then parse_chunks cs t f else None))"
| "parse_chunks (Year4 # cs) s f =
     (if length s < 4 \<or> \<not> list_all is_digit_byte (take 4 s) then None
      else parse_chunks cs (drop 4 s) (f\<lparr>f_year := int (digits_val 0 (take 4 s))\<rparr>))"
| "parse_chunks (Month2 # cs) s f =
     (case in_range 1 12 (getnum s True) of None \<Rightarrow> None | Some (v, t) \<Rightarrow> parse_chunks cs t (f\<lparr>f_month := v\<rparr>))"
| "parse_chunks (Day2 # cs) s f =
     (case getnum s True of None \<Rightarrow> None | Some (v, t) \<Rightarrow> parse_chunks cs t (f\<lparr>f_day := v\<rparr>))"
| "parse_chunks (Hour2 # cs) s f =
     (case in_range 0 23 (getnum s False) of None \<Rightarrow> None | Some (v, t) \<Rightarrow> parse_chunks cs t (f\<lparr>f_hour := v\<rparr>))"
| "parse_chunks (Min2 # cs) s f =
     (case in_range 0 59 (getnum s True) of None \<Rightarrow> None | Some (v, t) \<Rightarrow> parse_chunks cs t (f\<lparr>f_min := v\<rparr>))"
| "parse_chunks (Sec2 # cs) s f =
     (case in_range 0 59 (getnum s True) of None \<Rightarrow> None
      | Some (v, t) \<Rightarrow> (case take_fraction t of (ns, u) \<Rightarrow>
          parse_chunks cs u (f\<lparr>f_sec := v, f_nsec := ns\<rparr>)))"
| "parse_chunks (ZoneColon # cs) s f =
     (case take_zone s of None \<Rightarrow> None | Some (z, t) \<Rightarrow> parse_chunks cs t (f\<lparr>f_zone := Some z\<rparr>))"

definition time_of_fields :: "time_fields \<Rightarrow> gotime option" where
  "time_of_fields f =
     (if f_day f < 1 \<or> days_in_month (f_year f) (f_month f) < f_day f then None
      else let z = (case f_zone f of None \<Rightarrow> 0 | Some z \<Rightarrow> z)
           in Some \<lparr>t_sec = days_from_civil (f_year f) (f_month f) (f_day f) * 86400
                      + f_hour f * 3600 + f_min f * 60 + f_sec f - z,
                    t_nsec = f_nsec f, t_off = (\<lambda>_. z)\<rparr>)"

definition time_Parse :: "chunk list \<Rightarrow> string \<Rightarrow> gotime option" where
  "time_Parse layout s = Option.bind (parse_chunks layout s no_fields) time_of_fields"

fun first_parse :: "chunk list list \<Rightarrow> string \<Rightarrow> gotime option" where
  "first_parse [] s = None"
| "first_parse (l # ls) s = (case time_Parse l s of Some t \<Rightarrow> Some t | None \<Rightarrow> first_parse ls s)"

section \<open>Formatting\<close>

definition pad2 :: "int \<Rightarrow> string" where
  "pad2 v = pad_digits 2 (nat v)"

definition format_year :: "int \<Rightarrow> string" where
  "format_year y = (if y < 0 then CHR ''-'' # pad_digits 4 (nat (- y)) else pad_digits 4 (nat y))"

definition format_zone :: "int \<Rightarrow> string" where
  "format_zone off =
     (let m = (if off < 0 then - ((- off) div 60) else off div 60)
      in if off = 0 then ''Z''
         else (if m < 0 then CHR ''-'' else CHR ''+'') # pad2 (\<bar>m\<bar> div 60) @ CHR '':'' # pad2 (\<bar>m\<bar> mod 60))"

definition format_RFC3339 :: "gotime \<Rightarrow> string" where
  "format_RFC3339 t =
     (let off = t_off t (t_sec t); l = t_sec t + off; sod = l mod 86400
      in case civil_from_days (l div 86400) of (y, m, d) \<Rightarrow>
         format_year y @ CHR ''-'' # pad2 m @ CHR ''-'' # pad2 d @ CHR ''T'' # pad2 (sod div 3600) @
         CHR '':'' # pad2 (sod mod 3600 div 60) @ CHR '':'' # pad2 (sod mod 60) @ format_zone off)"

text \<open>The layouts \<open>2006-01-02\<close> and \<open>2006-01-02T15:04\<close>.\<close>

definition format_date :: "gotime \<Rightarrow> string" where
  "format_date t = (case civil_from_days ((t_sec t + t_off t (t_sec t)) div 86400) of (y, m, d) \<Rightarrow>
     format_year y @ CHR ''-'' # pad2 m @ CHR ''-'' # pad2 d)"

definition format_minutes :: "gotime \<Rightarrow> string" where
  "format_minutes t = (let sod = (t_sec t + t_off t (t_sec t)) mod 86400 in
     format_date t @ CHR ''T'' # pad2 (sod div 3600) @ CHR '':'' # pad2 (sod mod 3600 div 60))"

end
