(* ===== verification/ExprScan.thy ===== *)
theory ExprScan
  imports GoTime
begin

text \<open>
  The tokens of the expression language and its scanner (\<open>scanExpressionTokens\<close> in
  \<open>internal/db/ExpressionEval.go\<close>). The scanner walks over bytes and classifies each as if
  it were a rune, so the predicates below are those of the first 256 runes.
\<close>

datatype expr_error =
    UnterminatedString
  | UnexpectedChar char
  | UnexpectedToken string
  | ExpectedArgSeparator
  | ExpectedRParen
  | InvalidNumber string
  | UnaryNeedsNumber
  | UnsupportedUnary string
  | WrongArgCount string nat
  | UnsupportedFunction string
  | BoolComparisonUnsupported string
  | UnsupportedComparison string
  | OutOfFuel

datatype tok_type = TEOF | TIdent | TString | TNumber | TBool | TEmpty | TOp | TLParen | TRParen | TComma

datatype token = Token (tok_typ: tok_type) (tok_val: string)

section \<open>Latin-1 classes\<close>

definition l1_space :: "char \<Rightarrow> bool" where
  "l1_space c \<longleftrightarrow> ws1 c \<or> byte c = 133 \<or> byte c = 160"

definition l1_letter :: "char \<Rightarrow> bool" where
  "l1_letter c \<longleftrightarrow> is_upper_byte c \<or> is_lower_byte c \<or> byte c = 170 \<or> byte c = 181 \<or> byte c = 186
     \<or> (192 \<le> byte c \<and> byte c \<noteq> 215 \<and> byte c \<noteq> 247)"

text \<open>\<open>strings.Builder.WriteRune(rune(b))\<close>: a byte above 127 is written as two.\<close>

definition write_rune :: "char \<Rightarrow> string" where
  "write_rune c = (if byte c < 128 then [c] else [char_of (192 + byte c div 64), char_of (128 + byte c mod 64)])"

section \<open>The scanner\<close>

definition unescape :: "char \<Rightarrow> string" where
  "unescape c = (if c = CHR ''n'' then [CHR 0x0A]
     else if c = CHR ''t'' then [CHR 0x09] else write_rune c)"

definition backslash :: char where "backslash = CHR 0x5C"
definition squote :: char where "squote = CHR 0x27"
definition dquote :: char where "dquote = CHR 0x22"

text \<open>The body of a string literal after its opening quote: its value and the rest.\<close>

fun scan_string :: "char \<Rightarrow> string \<Rightarrow> (string \<times> string) option" where
  "scan_string q [] = None"
| "scan_string q [c] = (if c = q then Some ([], []) else None)"
| "scan_string q (c # d # s) =
     (if c = backslash then map_option (\<lambda>(v, r). (unescape d @ v, r)) (scan_string q s)
      else if c = q then Some ([], d # s)
      else map_option (\<lambda>(v, r). (write_rune c @ v, r)) (scan_string q (d # s)))"

definition scanExpressionOperator :: "string \<Rightarrow> string" where
  "scanExpressionOperator s =
     (if HasPrefix s ''&&'' then ''&&'' else if HasPrefix s ''||'' then ''||''
      else if HasPrefix s ''!='' then ''!='' else if HasPrefix s ''=='' then ''==''
      else if HasPrefix s ''<='' then ''<='' else if HasPrefix s ''>='' then ''>=''
      else if HasPrefix s ''='' then ''='' else if HasPrefix s ''<'' then ''<''
      else if HasPrefix s ''>'' then ''>'' else if HasPrefix s ''!'' then ''!''
      else if HasPrefix s ''-'' then ''-'' else [])"

definition isComparisonOperator :: "string \<Rightarrow> bool" where
  "isComparisonOperator op \<longleftrightarrow> op \<in> {''='', ''=='', ''!='', ''<'', ''<='', ''>'', ''>=''}"

definition number_byte :: "char \<Rightarrow> bool" where
  "number_byte c \<longleftrightarrow> is_digit_byte c \<or> c = CHR ''.''"

definition ident_start :: "char \<Rightarrow> bool" where
  "ident_start c \<longleftrightarrow> l1_letter c \<or> c = CHR ''_''"

definition ident_byte :: "char \<Rightarrow> bool" where
  "ident_byte c \<longleftrightarrow> l1_letter c \<or> is_digit_byte c \<or> c = CHR ''_'' \<or> c = CHR ''.''"

definition word_token :: "string \<Rightarrow> token" where
  "word_token v = (let l = ToLower (TrimSpace v) in
     if l = ''true'' \<or> l = ''false'' then Token TBool v
     else if l = ''empty'' then Token TEmpty v else Token TIdent v)"

lemma scan_string_length: "scan_string q s = Some (v, r) \<Longrightarrow> length r < length s"
  by (induction q s arbitrary: v rule: scan_string.induct) (auto split: if_splits)

lemma scanExpressionOperator_length: "scanExpressionOperator s \<noteq> [] \<Longrightarrow> s \<noteq> []"
  by (auto simp: scanExpressionOperator_def HasPrefix_def split: if_splits)

text \<open>\<open>tokens = append(tokens, t)\<close>, in the order the scan meets them.\<close>

definition add_token :: "token \<Rightarrow> (expr_error, token list) result \<Rightarrow> (expr_error, token list) result" where
  "add_token t r = (case r of Inl e \<Rightarrow> Inl e | Inr ts \<Rightarrow> Inr (t # ts))"

lemma add_token_simps [simp]: "add_token t (Inl e) = Inl e" "add_token t (Inr ts) = Inr (t # ts)"
  by (simp_all add: add_token_def)

lemma add_token_Inr: "add_token t r = Inr ts \<longleftrightarrow> (\<exists>us. r = Inr us \<and> ts = t # us)"
  by (cases r) auto

function scan_tokens :: "string \<Rightarrow> (expr_error, token list) result" where
  "scan_tokens [] = Inr [Token TEOF []]"
| "scan_tokens (c # s) =
     (if l1_space c then scan_tokens s
      else if c = CHR ''('' then add_token (Token TLParen ''('') (scan_tokens s)
      else if c = CHR '')'' then add_token (Token TRParen '')'') (scan_tokens s)
      else if c = CHR '','' then add_token (Token TComma '','') (scan_tokens s)
      else if c = squote \<or> c = dquote then
        (case scan_string c s of None \<Rightarrow> Inl UnterminatedString
         | Some (v, r) \<Rightarrow> add_token (Token TString v) (scan_tokens r))
      else if scanExpressionOperator (c # s) \<noteq> [] then
        add_token (Token TOp (scanExpressionOperator (c # s)))
          (scan_tokens (drop (length (scanExpressionOperator (c # s)) - 1) s))
      else if is_digit_byte c then
        add_token (Token TNumber (c # takeWhile number_byte s)) (scan_tokens (dropWhile number_byte s))
      else if ident_start c then
        add_token (word_token (c # takeWhile ident_byte s)) (scan_tokens (dropWhile ident_byte s))
      else Inl (UnexpectedChar c))"
  by pat_completeness auto
termination
  by (relation "measure length") (auto dest: scan_string_length simp: length_dropWhile_le less_Suc_eq_le)

declare scan_tokens.simps(2) [simp del]

definition scanExpressionTokens :: "string \<Rightarrow> (expr_error, token list) result" where
  "scanExpressionTokens expr = scan_tokens (TrimSpace expr)"

text \<open>Every scan ends with the end-of-input token, and with no other.\<close>

definition eof_ended :: "token list \<Rightarrow> bool" where
  "eof_ended ts \<longleftrightarrow> (\<exists>us. ts = us @ [Token TEOF []] \<and> (\<forall>t \<in> set us. tok_typ t \<noteq> TEOF))"

lemma eof_ended_Cons: "tok_typ t \<noteq> TEOF \<Longrightarrow> eof_ended (t # ts) = eof_ended ts"
  unfolding eof_ended_def by (cases ts) (auto simp: Cons_eq_append_conv)

lemma word_token_not_eof [simp]: "tok_typ (word_token v) \<noteq> TEOF"
  by (simp add: word_token_def Let_def)

lemma scan_tokens_eof: "scan_tokens s = Inr ts \<Longrightarrow> eof_ended ts"
proof (induction "length s" arbitrary: s ts rule: less_induct)
  case less
  show ?case
  proof (cases s)
    case Nil
    with less.prems show ?thesis by (auto simp: eof_ended_def)
  next
    case (Cons c t)
    have IH: "scan_tokens u = Inr us \<Longrightarrow> length u \<le> length t \<Longrightarrow> eof_ended us" for u us
      using less.hyps[of u us] Cons by simp
    from less.prems show ?thesis unfolding Cons
      by (subst (asm) scan_tokens.simps)
        (auto simp: add_token_Inr eof_ended_Cons length_dropWhile_le elim!: IH
          dest!: scan_string_length split: if_split_asm option.split_asm)
  qed
qed

end
