(* ===== verification/Parsing.thy ===== *)
theory Parsing
  imports Prelude
begin

text \<open>
  The combinators the parsers of the program share. A parser's state is the list of tokens not
  consumed yet; mutual recursion carries fuel, and \<open>None\<close> is running out of it. \<open>yields\<close> states
  that a run has not run out, that an error is none of the ones to exclude, and what holds of the
  result and the tokens left on success.
\<close>

type_synonym ('e, 't, 'a) parsed = "('e, 'a \<times> 't list) result option"

definition ok :: "'a \<Rightarrow> 't list \<Rightarrow> ('e, 't, 'a) parsed" where "ok x ts = Some (Inr (x, ts))"
definition fail :: "'e \<Rightarrow> ('e, 't, 'a) parsed" where "fail e = Some (Inl e)"

definition bind_p :: "('e, 't, 'a) parsed \<Rightarrow> ('a \<Rightarrow> 't list \<Rightarrow> ('e, 't, 'b) parsed) \<Rightarrow> ('e, 't, 'b) parsed" where
  "bind_p r f = (case r of None \<Rightarrow> None | Some (Inl e) \<Rightarrow> Some (Inl e) | Some (Inr (x, ts)) \<Rightarrow> f x ts)"

lemma bind_p_simps [simp]:
  "bind_p None f = None" "bind_p (Some (Inl e)) f = Some (Inl e)"
  "bind_p (Some (Inr (x, ts))) f = f x ts"
  by (simp_all add: bind_p_def)

lemma bind_p_cong [fundef_cong]:
  "r = r' \<Longrightarrow> (\<And>x ts. r' = Some (Inr (x, ts)) \<Longrightarrow> f x ts = g x ts) \<Longrightarrow> bind_p r f = bind_p r' g"
  by (auto simp: bind_p_def split: option.splits sum.splits)

lemma bind_p_InrE:
  assumes "bind_p r f = Some (Inr (y, us))"
  obtains x ts where "r = Some (Inr (x, ts))" "f x ts = Some (Inr (y, us))"
  using assms by (auto simp: bind_p_def split: option.splits sum.splits)

section \<open>What a run yields\<close>

definition yields :: "('e \<Rightarrow> bool) \<Rightarrow> ('a \<Rightarrow> 't list \<Rightarrow> bool) \<Rightarrow> ('e, 't, 'a) parsed \<Rightarrow> bool" where
  "yields bad P r \<longleftrightarrow> (case r of None \<Rightarrow> False | Some (Inl e) \<Rightarrow> \<not> bad e | Some (Inr (x, us)) \<Rightarrow> P x us)"

lemma yields_simps [simp]:
  "yields bad P (fail e) \<longleftrightarrow> \<not> bad e" "yields bad P (Some (Inl e)) \<longleftrightarrow> \<not> bad e"
  "yields bad P (ok x us) \<longleftrightarrow> P x us" "yields bad P (Some (Inr (x, us))) \<longleftrightarrow> P x us"
  "\<not> yields bad P None"
  by (simp_all add: yields_def ok_def fail_def)

lemma yields_bind:
  assumes "yields bad P r" and "\<And>x vs. r = Some (Inr (x, vs)) \<Longrightarrow> P x vs \<Longrightarrow> yields bad Q (f x vs)"
  shows "yields bad Q (bind_p r f)"
  using assms by (auto simp: yields_def bind_p_def split: option.splits sum.splits)

lemma yields_mono: "yields bad P r \<Longrightarrow> (\<And>x us. P x us \<Longrightarrow> Q x us) \<Longrightarrow> yields bad Q r"
  by (auto simp: yields_def split: option.splits sum.splits)

section \<open>More fuel changes nothing\<close>

definition le_p :: "'a option \<Rightarrow> 'a option \<Rightarrow> bool" where
  "le_p a b \<longleftrightarrow> a = None \<or> a = b"

lemma le_p_simps [simp]: "le_p None b" "le_p a a" "le_p (Some x) b \<longleftrightarrow> b = Some x"
  by (auto simp: le_p_def)

lemma le_p_bind: "le_p r r' \<Longrightarrow> (\<And>x us. le_p (f x us) (g x us)) \<Longrightarrow> le_p (bind_p r f) (bind_p r' g)"
  by (auto simp: le_p_def bind_p_def split: option.splits sum.splits)

end
