(* ===== verification/ExprParse.thy ===== *)
theory ExprParse
  imports ExprScan Parsing
begin

text \<open>
  The syntax trees and the recursive-descent parser of \<open>internal/db/ExpressionEval.go\<close>.
  The parser's state is the list of tokens not consumed yet. The mutual recursion carries
  fuel; \<open>None\<close> is running out of it, and the lemmas at the end show that
  \<open>8 * length ts + 9\<close> is always enough and that more fuel changes nothing.
\<close>

datatype expr_value = VStr string | VNum f64 | VBool bool | VTime gotime

datatype expr =
    Literal expr_value
  | Identifier string
  | Unary string expr
  | Binary string expr expr
  | Call string "expr list"

definition newExpressionStringValue :: "string \<Rightarrow> expr_value" where
  "newExpressionStringValue s = VStr (TrimSpace s)"

section \<open>The token cursor\<close>

definition peek :: "token list \<Rightarrow> token" where
  "peek ts = (case ts of [] \<Rightarrow> Token TEOF [] | t # _ \<Rightarrow> t)"

definition matchTok :: "tok_type \<Rightarrow> token list \<Rightarrow> bool" where
  "matchTok ty ts \<longleftrightarrow> tok_typ (peek ts) = ty"

definition matchOperator :: "string \<Rightarrow> token list \<Rightarrow> bool" where
  "matchOperator op ts \<longleftrightarrow> tok_typ (peek ts) = TOp \<and> tok_val (peek ts) = op"

definition at_comparison :: "token list \<Rightarrow> bool" where
  "at_comparison ts \<longleftrightarrow> tok_typ (peek ts) = TOp \<and> isComparisonOperator (tok_val (peek ts))"

definition at_unary :: "token list \<Rightarrow> bool" where
  "at_unary ts \<longleftrightarrow> tok_typ (peek ts) = TOp \<and> (tok_val (peek ts) = ''!'' \<or> tok_val (peek ts) = ''-'')"

lemma peek_simps [simp]: "peek [] = Token TEOF []" "peek (t # ts) = t"
  by (simp_all add: peek_def)

section \<open>The parser\<close>

type_synonym 'a pres = "(expr_error, token, 'a) parsed"

definition parse_literal :: "token \<Rightarrow> token list \<Rightarrow> expr pres" where
  "parse_literal t ts = (case tok_typ t of
       TString \<Rightarrow> ok (Literal (newExpressionStringValue (tok_val t))) ts
     | TNumber \<Rightarrow> (case ParseFloat (tok_val t) of None \<Rightarrow> fail (InvalidNumber (tok_val t))
         | Some n \<Rightarrow> ok (Literal (VNum n)) ts)
     | TBool \<Rightarrow> ok (Literal (VBool (EqualFold (tok_val t) ''true''))) ts
     | TEmpty \<Rightarrow> ok (Literal (newExpressionStringValue [])) ts
     | _ \<Rightarrow> fail (UnexpectedToken (tok_val t)))"

function (sequential) parseOr and loopOr and parseAnd and loopAnd and parseComparison and parseUnary
  and parsePrimary and parseArgs where
  "parseOr (0::nat) ts = (None :: expr pres)"
| "parseOr (Suc n) ts = bind_p (parseAnd n ts) (loopOr n)"
| "loopOr 0 node ts = (None :: expr pres)"
| "loopOr (Suc n) node ts =
     (if matchOperator ''||'' ts
      then bind_p (parseAnd n (tl ts)) (\<lambda>r us. loopOr n (Binary ''||'' node r) us)
      else ok node ts)"
| "parseAnd 0 ts = (None :: expr pres)"
| "parseAnd (Suc n) ts = bind_p (parseComparison n ts) (loopAnd n)"
| "loopAnd 0 node ts = (None :: expr pres)"
| "loopAnd (Suc n) node ts =
     (if matchOperator ''&&'' ts
      then bind_p (parseComparison n (tl ts)) (\<lambda>r us. loopAnd n (Binary ''&&'' node r) us)
      else ok node ts)"
| "parseComparison 0 ts = (None :: expr pres)"
| "parseComparison (Suc n) ts = bind_p (parseUnary n ts) (\<lambda>node us.
     if at_comparison us
     then bind_p (parseUnary n (tl us)) (\<lambda>r vs. ok (Binary (tok_val (peek us)) node r) vs)
     else ok node us)"
| "parseUnary 0 ts = (None :: expr pres)"
| "parseUnary (Suc n) ts =
     (if at_unary ts
      then bind_p (parseUnary n (tl ts)) (\<lambda>node us. ok (Unary (tok_val (peek ts)) node) us)
      else parsePrimary n ts)"
| "parsePrimary 0 ts = (None :: expr pres)"
| "parsePrimary (Suc n) ts =
     (case tok_typ (peek ts) of
        TIdent \<Rightarrow>
          (if matchTok TLParen (tl ts) then
             (if matchTok TRParen (tl (tl ts)) then ok (Call (tok_val (peek ts)) []) (tl (tl (tl ts)))
              else bind_p (parseArgs n (tl (tl ts))) (\<lambda>args us. ok (Call (tok_val (peek ts)) args) us))
           else ok (Identifier (tok_val (peek ts))) (tl ts))
      | TLParen \<Rightarrow> bind_p (parseOr n (tl ts)) (\<lambda>node us.
          if matchTok TRParen us then ok node (tl us) else fail ExpectedRParen)
      | _ \<Rightarrow> parse_literal (peek ts) (tl ts))"
| "parseArgs 0 ts = (None :: expr list pres)"
| "parseArgs (Suc n) ts = bind_p (parseOr n ts) (\<lambda>arg us.
     if matchTok TRParen us then ok [arg] (tl us)
     else if \<not> matchTok TComma us then fail ExpectedArgSeparator
     else bind_p (parseArgs n (tl us)) (\<lambda>args vs. ok (arg # args) vs))"

  by pat_completeness auto
termination by size_change

definition parse_fuel :: "token list \<Rightarrow> nat" where
  "parse_fuel ts = 8 * length ts + 9"

definition parseBooleanExpression :: "string \<Rightarrow> (expr_error, expr) result" where
  "parseBooleanExpression s =
     (case scanExpressionTokens s of Inl e \<Rightarrow> Inl e
      | Inr ts \<Rightarrow> (case parseOr (parse_fuel ts) ts of
            None \<Rightarrow> Inl OutOfFuel
          | Some (Inl e) \<Rightarrow> Inl e
          | Some (Inr (node, us)) \<Rightarrow>
              (if tok_typ (peek us) \<noteq> TEOF then Inl (UnexpectedToken (tok_val (peek us))) else Inr node)))"

definition validateBooleanExpressionSyntax :: "string \<Rightarrow> expr_error option" where
  "validateBooleanExpressionSyntax s = (case parseBooleanExpression s of Inl e \<Rightarrow> Some e | Inr _ \<Rightarrow> None)"

section \<open>Progress and enough fuel\<close>

text \<open>
  \<open>good k strict r ts\<close>: with the fuel \<open>k\<close> that was given the call returned, did not report
  running out of fuel, and on success left no more tokens than it was given (fewer, when
  strict).
\<close>

definition good :: "bool \<Rightarrow> 'a pres \<Rightarrow> token list \<Rightarrow> bool" where
  "good strict r ts \<longleftrightarrow>
     yields (\<lambda>e. e = OutOfFuel) (\<lambda>x us. if strict then length us < length ts else length us \<le> length ts) r"

lemma good_simps [simp]:
  "good b (fail e) ts \<longleftrightarrow> e \<noteq> OutOfFuel" "good b (Some (Inl e)) ts \<longleftrightarrow> e \<noteq> OutOfFuel"
  "good True (ok x us) ts \<longleftrightarrow> length us < length ts" "good False (ok x us) ts \<longleftrightarrow> length us \<le> length ts"
  "\<not> good b None ts"
  by (simp_all add: good_def)

lemma good_bind:
  assumes "good b r us"
    and "\<And>x vs. r = Some (Inr (x, vs)) \<Longrightarrow> (if b then length vs < length us else length vs \<le> length us) \<Longrightarrow> good c (f x vs) ts"
  shows "good c (bind_p r f) ts"
  using assms unfolding good_def by (rule yields_bind)

lemma good_literal: "good True (parse_literal t (tl ts)) ts" if "ts \<noteq> []"
  using that by (cases t) (auto simp: parse_literal_def split: tok_type.splits option.splits)

lemma parse_literal_eof: "tok_typ t = TEOF \<Longrightarrow> parse_literal t ts = fail (UnexpectedToken (tok_val t))"
  by (simp add: parse_literal_def)

lemma not_eof_Cons: "tok_typ (peek ts) \<noteq> TEOF \<Longrightarrow> length (tl ts) < length ts \<and> ts \<noteq> []"
  by (cases ts) auto

lemma match_Cons:
  "matchOperator op ts \<Longrightarrow> length (tl ts) < length ts" "at_comparison ts \<Longrightarrow> length (tl ts) < length ts"
  "at_unary ts \<Longrightarrow> length (tl ts) < length ts"
  "matchTok ty ts \<Longrightarrow> ty \<noteq> TEOF \<Longrightarrow> length (tl ts) < length ts"
  using not_eof_Cons[of ts]
  by (auto simp: matchOperator_def at_comparison_def at_unary_def matchTok_def)

lemma good_weaken: "good False r us \<Longrightarrow> length us < length ts \<Longrightarrow> good True r ts"
  "good True r us \<Longrightarrow> length us \<le> length ts \<Longrightarrow> good True r ts"
  "good b r us \<Longrightarrow> length us \<le> length ts \<Longrightarrow> good False r ts"
  by (auto simp: good_def split: if_splits elim!: yields_mono)

definition parser_good_at :: "nat \<Rightarrow> bool" where
  "parser_good_at n \<longleftrightarrow>
     (\<forall>ts. 8 * length ts + 8 \<le> n \<longrightarrow> good True (parseOr n ts) ts) \<and>
     (\<forall>ts node. 8 * length ts + 7 \<le> n \<longrightarrow> good False (loopOr n node ts) ts) \<and>
     (\<forall>ts. 8 * length ts + 6 \<le> n \<longrightarrow> good True (parseAnd n ts) ts) \<and>
     (\<forall>ts node. 8 * length ts + 5 \<le> n \<longrightarrow> good False (loopAnd n node ts) ts) \<and>
     (\<forall>ts. 8 * length ts + 4 \<le> n \<longrightarrow> good True (parseComparison n ts) ts) \<and>
     (\<forall>ts. 8 * length ts + 3 \<le> n \<longrightarrow> good True (parseUnary n ts) ts) \<and>
     (\<forall>ts. 8 * length ts + 2 \<le> n \<longrightarrow> good True (parsePrimary n ts) ts) \<and>
     (\<forall>ts. 8 * length ts + 9 \<le> n \<longrightarrow> good True (parseArgs n ts) ts)"

lemma parser_good: "parser_good_at n"
proof (induction n)
  case 0
  then show ?case by (simp add: parser_good_at_def)
next
  case (Suc n)
  then have or: "8 * length ts + 8 \<le> n \<Longrightarrow> good True (parseOr n ts) ts"
    and lor: "8 * length ts + 7 \<le> n \<Longrightarrow> good False (loopOr n node ts) ts"
    and an: "8 * length ts + 6 \<le> n \<Longrightarrow> good True (parseAnd n ts) ts"
    and lan: "8 * length ts + 5 \<le> n \<Longrightarrow> good False (loopAnd n node ts) ts"
    and cmp: "8 * length ts + 4 \<le> n \<Longrightarrow> good True (parseComparison n ts) ts"
    and un: "8 * length ts + 3 \<le> n \<Longrightarrow> good True (parseUnary n ts) ts"
    and prim: "8 * length ts + 2 \<le> n \<Longrightarrow> good True (parsePrimary n ts) ts"
    and args: "8 * length ts + 9 \<le> n \<Longrightarrow> good True (parseArgs n ts) ts" for ts node
    by (auto simp: parser_good_at_def)
  have "good True (parseOr (Suc n) ts) ts" if "8 * length ts + 8 \<le> Suc n" for ts
    using that by (auto intro!: good_bind[OF an] good_weaken(1)[OF lor])
  moreover have "good False (loopOr (Suc n) node ts) ts" if "8 * length ts + 7 \<le> Suc n" for ts node
    using that by (auto dest!: match_Cons(1) intro!: good_bind[OF an] good_weaken(3)[OF lor])
  moreover have "good True (parseAnd (Suc n) ts) ts" if "8 * length ts + 6 \<le> Suc n" for ts
    using that by (auto intro!: good_bind[OF cmp] good_weaken(1)[OF lan])
  moreover have "good False (loopAnd (Suc n) node ts) ts" if "8 * length ts + 5 \<le> Suc n" for ts node
    using that by (auto dest!: match_Cons(1) intro!: good_bind[OF cmp] good_weaken(3)[OF lan])
  moreover have "good True (parseComparison (Suc n) ts) ts" if "8 * length ts + 4 \<le> Suc n" for ts
    using that by (auto dest!: match_Cons(2) intro!: good_bind[OF un])
  moreover have "good True (parseUnary (Suc n) ts) ts" if "8 * length ts + 3 \<le> Suc n" for ts
    using that by (auto dest!: match_Cons(3) intro!: good_bind[OF un] prim)
  moreover have "good True (parseArgs (Suc n) ts) ts" if "8 * length ts + 9 \<le> Suc n" for ts
    using that by (auto dest!: match_Cons(4) intro!: good_bind[OF or] good_bind[OF args])
  moreover have "good True (parsePrimary (Suc n) ts) ts" if "8 * length ts + 2 \<le> Suc n" for ts
  proof (cases "tok_typ (peek ts) = TEOF")
    case False
    then obtain t us where ts: "ts = t # us" by (cases ts) auto
    with that show ?thesis
      by (auto simp: good_literal[of "t # us", simplified] split: tok_type.splits
          dest!: match_Cons(4) intro!: good_bind[OF or] good_bind[OF args])
  qed (simp add: parse_literal_eof)
  ultimately show ?case by (simp add: parser_good_at_def)
qed

section \<open>More fuel changes nothing\<close>

definition parser_mono_at :: "nat \<Rightarrow> bool" where
  "parser_mono_at n \<longleftrightarrow>
     (\<forall>ts. le_p (parseOr n ts) (parseOr (Suc n) ts)) \<and>
     (\<forall>node ts. le_p (loopOr n node ts) (loopOr (Suc n) node ts)) \<and>
     (\<forall>ts. le_p (parseAnd n ts) (parseAnd (Suc n) ts)) \<and>
     (\<forall>node ts. le_p (loopAnd n node ts) (loopAnd (Suc n) node ts)) \<and>
     (\<forall>ts. le_p (parseComparison n ts) (parseComparison (Suc n) ts)) \<and>
     (\<forall>ts. le_p (parseUnary n ts) (parseUnary (Suc n) ts)) \<and>
     (\<forall>ts. le_p (parsePrimary n ts) (parsePrimary (Suc n) ts)) \<and>
     (\<forall>ts. le_p (parseArgs n ts) (parseArgs (Suc n) ts))"

lemma parser_mono: "parser_mono_at n"
proof (induction n)
  case 0
  then show ?case by (simp add: parser_mono_at_def)
next
  case (Suc n)
  define k where "k = Suc n"
  have IH: "le_p (parseOr n ts) (parseOr k ts)" "le_p (loopOr n node ts) (loopOr k node ts)"
    "le_p (parseAnd n ts) (parseAnd k ts)" "le_p (loopAnd n node ts) (loopAnd k node ts)"
    "le_p (parseComparison n ts) (parseComparison k ts)" "le_p (parseUnary n ts) (parseUnary k ts)"
    "le_p (parsePrimary n ts) (parsePrimary k ts)" "le_p (parseArgs n ts) (parseArgs k ts)" for ts node
    using Suc unfolding parser_mono_at_def k_def by blast+
  have "le_p (parseOr (Suc n) ts) (parseOr (Suc k) ts)" for ts by (auto intro!: le_p_bind IH)
  moreover have "le_p (loopOr (Suc n) node ts) (loopOr (Suc k) node ts)" for node ts by (auto intro!: le_p_bind IH)
  moreover have "le_p (parseAnd (Suc n) ts) (parseAnd (Suc k) ts)" for ts by (auto intro!: le_p_bind IH)
  moreover have "le_p (loopAnd (Suc n) node ts) (loopAnd (Suc k) node ts)" for node ts by (auto intro!: le_p_bind IH)
  moreover have "le_p (parseComparison (Suc n) ts) (parseComparison (Suc k) ts)" for ts by (auto intro!: le_p_bind IH)
  moreover have "le_p (parseUnary (Suc n) ts) (parseUnary (Suc k) ts)" for ts by (auto intro!: le_p_bind IH)
  moreover have "le_p (parsePrimary (Suc n) ts) (parsePrimary (Suc k) ts)" for ts
    by (auto intro!: le_p_bind IH split: tok_type.splits)
  moreover have "le_p (parseArgs (Suc n) ts) (parseArgs (Suc k) ts)" for ts by (auto intro!: le_p_bind IH)
  ultimately show ?case unfolding parser_mono_at_def k_def by blast
qed

lemma parse_mono_step:
  "parseOr n ts = Some r \<Longrightarrow> parseOr (Suc n) ts = Some r"
  "loopOr n node ts = Some r \<Longrightarrow> loopOr (Suc n) node ts = Some r"
  "parseAnd n ts = Some r \<Longrightarrow> parseAnd (Suc n) ts = Some r"
  "loopAnd n node ts = Some r \<Longrightarrow> loopAnd (Suc n) node ts = Some r"
  "parseComparison n ts = Some r \<Longrightarrow> parseComparison (Suc n) ts = Some r"
  "parseUnary n ts = Some r \<Longrightarrow> parseUnary (Suc n) ts = Some r"
  "parsePrimary n ts = Some r \<Longrightarrow> parsePrimary (Suc n) ts = Some r"
  "parseArgs n ts = Some q \<Longrightarrow> parseArgs (Suc n) ts = Some q"
  using parser_mono[of n] unfolding parser_mono_at_def by (metis le_p_simps(3))+

text \<open>The parser always returns: with the fuel \<open>parseBooleanExpression\<close> gives it, it never runs out.\<close>

lemma parseOr_fuel: "\<exists>r. parseOr (parse_fuel ts) ts = Some r \<and> r \<noteq> Inl OutOfFuel"
  using parser_good[of "parse_fuel ts"]
  unfolding parser_good_at_def parse_fuel_def good_def yields_def
  by (auto split: option.splits sum.splits dest: spec[of _ ts])

end
