(* ===== verification/ExprEval.thy ===== *)
theory ExprEval
  imports ExprParse
begin

text \<open>
  The evaluator of \<open>internal/db/ExpressionEval.go\<close>: coercions, comparison, the built-in
  functions and the short-circuit operators, over the form data, the current field and the
  current time. Errors are values of \<open>expr_error\<close>; the first one met in evaluation order
  is the result.
\<close>

record expr_context =
  formData :: "string \<rightharpoonup> string"
  currentField :: string
  currentTime :: gotime

definition normalizeIdentifier :: "string \<Rightarrow> string" where
  "normalizeIdentifier s = ToLower (TrimSpace s)"

lemma normalizeIdentifier_idem [simp, norm_simps]: "normalizeIdentifier (normalizeIdentifier s) = normalizeIdentifier s"
  by (simp add: normalizeIdentifier_def TrimSpace_ToLower)

section \<open>Coercions\<close>

fun rawString :: "expr_value \<Rightarrow> string" where
  "rawString (VBool b) = (if b then ''true'' else ''false'')"
| "rawString (VNum n) = FormatFloat n"
| "rawString (VTime t) = format_RFC3339 t"
| "rawString (VStr s) = TrimSpace s"

fun expressionTruthy :: "expr_value \<Rightarrow> bool" where
  "expressionTruthy (VBool b) = b"
| "expressionTruthy (VNum n) = (\<not> f_eq n f_zero)"
| "expressionTruthy (VTime t) = (\<not> time_IsZero t)"
| "expressionTruthy (VStr s) =
     (ToLower (TrimSpace (TrimSpace s)) \<notin> {[], ''0'', ''false'', ''no'', ''off''})"

fun coerceExpressionBool :: "expr_value \<Rightarrow> bool option" where
  "coerceExpressionBool (VBool b) = Some b"
| "coerceExpressionBool (VStr s) =
     (let l = ToLower (TrimSpace s) in
      if l \<in> {''true'', ''1'', ''yes'', ''on''} then Some True
      else if l \<in> {''false'', ''0'', ''no'', ''off'', []} then Some False
      else None)"
| "coerceExpressionBool _ = None"

fun coerceExpressionNumber :: "expr_value \<Rightarrow> f64 option" where
  "coerceExpressionNumber (VNum n) = Some n"
| "coerceExpressionNumber (VStr s) = ParseFloat (TrimSpace s)"
| "coerceExpressionNumber _ = None"

definition parseTimestamp :: "string \<Rightarrow> gotime option" where
  "parseTimestamp s = first_parse [layout_RFC3339, layout_T_minutes, layout_space_seconds] s"

fun coerceExpressionTime :: "expr_value \<Rightarrow> gotime option" where
  "coerceExpressionTime (VTime t) = Some t"
| "coerceExpressionTime (VStr s) =
     (let trimmed = TrimSpace s in
      if trimmed = [] then None
      else (case parseTimestamp trimmed of Some t \<Rightarrow> Some t | None \<Rightarrow> time_Parse date_chunks trimmed))"
| "coerceExpressionTime _ = None"

section \<open>Comparison\<close>

text \<open>
  The three switches over the operator; \<open>None\<close> is falling out of a switch that has no
  default case.
\<close>

definition cmp_number :: "string \<Rightarrow> f64 \<Rightarrow> f64 \<Rightarrow> bool option" where
  "cmp_number op a b =
     (if op = ''='' \<or> op = ''=='' then Some (f_eq a b)
      else if op = ''!='' then Some (\<not> f_eq a b)
      else if op = ''<'' then Some (f_less a b)
      else if op = ''<='' then Some (f_le a b)
      else if op = ''>'' then Some (f_less b a)
      else if op = ''>='' then Some (f_le b a)
      else None)"

definition cmp_time :: "string \<Rightarrow> gotime \<Rightarrow> gotime \<Rightarrow> bool option" where
  "cmp_time op a b =
     (if op = ''='' \<or> op = ''=='' then Some (time_Equal a b)
      else if op = ''!='' then Some (\<not> time_Equal a b)
      else if op = ''<'' then Some (time_Before a b)
      else if op = ''<='' then Some (time_Before a b \<or> time_Equal a b)
      else if op = ''>'' then Some (time_After a b)
      else if op = ''>='' then Some (time_After a b \<or> time_Equal a b)
      else None)"

definition cmp_string :: "string \<Rightarrow> string \<Rightarrow> string \<Rightarrow> (expr_error, bool) result" where
  "cmp_string op a b =
     (if op = ''='' \<or> op = ''=='' then Inr (a = b)
      else if op = ''!='' then Inr (a \<noteq> b)
      else if op = ''<'' then Inr (a < b)
      else if op = ''<='' then Inr (a \<le> b)
      else if op = ''>'' then Inr (b < a)
      else if op = ''>='' then Inr (b \<le> a)
      else Inl (UnsupportedComparison op))"

definition cmp_bool :: "string \<Rightarrow> bool \<Rightarrow> bool \<Rightarrow> (expr_error, bool) result" where
  "cmp_bool op a b =
     (if op = ''='' \<or> op = ''=='' then Inr (a = b)
      else if op = ''!='' then Inr (a \<noteq> b)
      else Inl (BoolComparisonUnsupported op))"

definition both :: "'a option \<Rightarrow> 'b option \<Rightarrow> ('a \<times> 'b) option" where
  "both a b = (case a of None \<Rightarrow> None | Some x \<Rightarrow> map_option (Pair x) b)"

definition compareExpressionValues :: "expr_value \<Rightarrow> expr_value \<Rightarrow> string \<Rightarrow> (expr_error, bool) result" where
  "compareExpressionValues l r op =
     (case both (coerceExpressionBool l) (coerceExpressionBool r) of
        Some (a, b) \<Rightarrow> cmp_bool op a b
      | None \<Rightarrow>
          (let by_number = (case both (coerceExpressionNumber l) (coerceExpressionNumber r) of
                 Some (a, b) \<Rightarrow> cmp_number op a b | None \<Rightarrow> None);
               by_time = (case both (coerceExpressionTime l) (coerceExpressionTime r) of
                 Some (a, b) \<Rightarrow> cmp_time op a b | None \<Rightarrow> None)
           in case by_number of Some x \<Rightarrow> Inr x
              | None \<Rightarrow> (case by_time of Some x \<Rightarrow> Inr x
                  | None \<Rightarrow> cmp_string op (rawString l) (rawString r))))"

section \<open>Nodes\<close>

definition lookup_ident :: "expr_context \<Rightarrow> string \<Rightarrow> expr_value" where
  "lookup_ident ctx n =
     (let name = TrimSpace n; get = (\<lambda>k. case formData ctx k of None \<Rightarrow> [] | Some v \<Rightarrow> v) in
      if EqualFold name ''value'' \<and> currentField ctx \<noteq> [] then newExpressionStringValue (get (currentField ctx))
      else case formData ctx name of Some v \<Rightarrow> newExpressionStringValue v
      | None \<Rightarrow> (case (if normalizeIdentifier name \<noteq> [] then formData ctx (normalizeIdentifier name) else None) of
            Some v \<Rightarrow> newExpressionStringValue v
          | None \<Rightarrow> newExpressionStringValue name))"

definition eval_unary :: "string \<Rightarrow> expr_value \<Rightarrow> (expr_error, expr_value) result" where
  "eval_unary op v =
     (if op = ''!'' then Inr (VBool (\<not> expressionTruthy v))
      else if op = ''-'' then (case coerceExpressionNumber v of None \<Rightarrow> Inl UnaryNeedsNumber
          | Some n \<Rightarrow> Inr (VNum (f_neg n)))
      else Inl (UnsupportedUnary op))"

definition call1 :: "string \<Rightarrow> expr_value list \<Rightarrow> (string \<Rightarrow> expr_value) \<Rightarrow> (expr_error, expr_value) result" where
  "call1 f args g = (case args of [a] \<Rightarrow> Inr (g (rawString a)) | _ \<Rightarrow> Inl (WrongArgCount f 1))"

definition call2 :: "string \<Rightarrow> expr_value list \<Rightarrow> (string \<Rightarrow> string \<Rightarrow> bool) \<Rightarrow> (expr_error, expr_value) result" where
  "call2 f args g = (case args of [a, b] \<Rightarrow> Inr (VBool (g (rawString a) (rawString b))) | _ \<Rightarrow> Inl (WrongArgCount f 2))"

definition eval_call :: "expr_context \<Rightarrow> string \<Rightarrow> expr_value list \<Rightarrow> (expr_error, expr_value) result" where
  "eval_call ctx name args =
     (let f = ToLower (TrimSpace name) in
      if f = ''len'' then call1 f args (\<lambda>s. VNum (f_of_nat (rune_count s)))
      else if f = ''lower'' then call1 f args (\<lambda>s. newExpressionStringValue (ToLower s))
      else if f = ''upper'' then call1 f args (\<lambda>s. newExpressionStringValue (ToUpper s))
      else if f = ''trim'' then call1 f args (\<lambda>s. newExpressionStringValue (TrimSpace s))
      else if f = ''empty'' then call1 f args (\<lambda>s. VBool (TrimSpace s = []))
      else if f = ''contains'' then call2 f args Contains
      else if f = ''startswith'' then call2 f args HasPrefix
      else if f = ''endswith'' then call2 f args HasSuffix
      else if f = ''now'' then (if args = [] then Inr (VTime (currentTime ctx)) else Inl (WrongArgCount f 0))
      else if f = ''today'' then
        (if args = [] then Inr (VTime (time_midnight (currentTime ctx))) else Inl (WrongArgCount f 0))
      else Inl (UnsupportedFunction name))"

text \<open>
  \<open>evalNode\<close> is the \<open>eval\<close> method of the five node types, \<open>evalArgs\<close> the loop over the
  arguments of a call.
\<close>

fun evalNode :: "expr_context \<Rightarrow> expr \<Rightarrow> (expr_error, expr_value) result"
  and evalArgs :: "expr_context \<Rightarrow> expr list \<Rightarrow> (expr_error, expr_value list) result" where
  "evalNode ctx (Literal v) = Inr v"
| "evalNode ctx (Identifier n) = Inr (lookup_ident ctx n)"
| "evalNode ctx (Unary op e) =
     (case evalNode ctx e of Inl x \<Rightarrow> Inl x | Inr v \<Rightarrow> eval_unary op v)"
| "evalNode ctx (Binary op l r) =
     (case evalNode ctx l of
        Inl x \<Rightarrow> Inl x
      | Inr lv \<Rightarrow>
          (if op = ''&&'' \<and> \<not> expressionTruthy lv then Inr (VBool False)
           else if op = ''||'' \<and> expressionTruthy lv then Inr (VBool True)
           else case evalNode ctx r of
               Inl x \<Rightarrow> Inl x
             | Inr rv \<Rightarrow>
                 (if op = ''&&'' \<or> op = ''||'' then Inr (VBool (expressionTruthy rv))
                  else map_sum id VBool (compareExpressionValues lv rv op))))"
| "evalNode ctx (Call name args) =
     (case evalArgs ctx args of Inl x \<Rightarrow> Inl x | Inr vs \<Rightarrow> eval_call ctx name vs)"
| "evalArgs ctx [] = Inr []"
| "evalArgs ctx (e # es) =
     (case evalNode ctx e of Inl x \<Rightarrow> Inl x
      | Inr v \<Rightarrow> (case evalArgs ctx es of Inl x \<Rightarrow> Inl x | Inr vs \<Rightarrow> Inr (v # vs)))"

definition evaluateBooleanExpression ::
  "gotime \<Rightarrow> string \<Rightarrow> (string \<rightharpoonup> string) \<Rightarrow> string \<Rightarrow> (expr_error, bool) result" where
  "evaluateBooleanExpression now expr form field =
     (case parseBooleanExpression expr of Inl e \<Rightarrow> Inl e
      | Inr node \<Rightarrow> map_sum id expressionTruthy
          (evalNode \<lparr>formData = form, currentField = TrimSpace field, currentTime = now\<rparr> node))"

section \<open>Laws\<close>

lemma evalArgs_map_result: "evalArgs ctx es = map_result (evalNode ctx) es"
  by (induction es) (auto split: sum.splits)

text \<open>Every string value is kept trimmed.\<close>

fun trimmed_value :: "expr_value \<Rightarrow> bool" where
  "trimmed_value (VStr s) \<longleftrightarrow> TrimSpace s = s"
| "trimmed_value _ \<longleftrightarrow> True"

lemma trimmed_newExpressionStringValue [simp]: "trimmed_value (newExpressionStringValue s)"
  by (simp add: newExpressionStringValue_def)

lemma trimmed_lookup_ident [simp]: "trimmed_value (lookup_ident ctx n)"
  by (simp add: lookup_ident_def Let_def split: option.splits)

lemma cmp_complement:
  "cmp_number ''!='' a b = map_option Not (cmp_number ''=='' a b)"
  "cmp_time ''!='' s t = map_option Not (cmp_time ''=='' s t)"
  "cmp_string ''!='' x y = map_sum id Not (cmp_string ''=='' x y)"
  "cmp_bool ''!='' p q = map_sum id Not (cmp_bool ''=='' p q)"
  by (simp_all add: cmp_number_def cmp_time_def cmp_string_def cmp_bool_def)

lemma cmp_equality_total:
  "op \<in> {''='', ''=='', ''!=''} \<Longrightarrow> \<exists>x. compareExpressionValues l r op = Inr x"
  by (auto simp: compareExpressionValues_def cmp_bool_def cmp_number_def cmp_time_def cmp_string_def
      Let_def split: option.splits)

lemma both_sym: "both a b = map_option (\<lambda>(x, y). (y, x)) (both b a)"
  by (cases a; cases b) (auto simp: both_def)

lemma cmp_flip:
  "cmp_number ''>'' a b = cmp_number ''<'' b a" "cmp_number ''>='' a b = cmp_number ''<='' b a"
  "cmp_time ''>'' s t = cmp_time ''<'' t s" "cmp_time ''>='' s t = cmp_time ''<='' t s"
  "cmp_string ''>'' x y = cmp_string ''<'' y x" "cmp_string ''>='' x y = cmp_string ''<='' y x"
  by (auto simp: cmp_number_def cmp_time_def cmp_string_def time_After_def time_Equal_sym)

end
