(* ===== verification/ExprPrint.thy ===== *)
theory ExprPrint
  imports ExprEval
begin

text \<open>
  A printer for the expression language, as a reference for the parser: it writes a tree with
  the fewest parentheses the grammar needs (\<open>||\<close> and \<open>&&\<close> associate to the left, a comparison
  does not associate), and the parser reads the tree back. The code has no printer; the
  theory is the specification of precedence, associativity and quoting.
\<close>

section \<open>Tokens of a tree\<close>

definition paren :: "token list \<Rightarrow> token list" where
  "paren ts = Token TLParen ''('' # ts @ [Token TRParen '')'']"

fun lit_token :: "expr_value \<Rightarrow> token" where
  "lit_token (VStr s) = Token TString s"
| "lit_token (VNum n) = Token TNumber (FormatFloat n)"
| "lit_token (VBool b) = Token TBool (if b then ''true'' else ''false'')"
| "lit_token (VTime t) = Token TString (format_RFC3339 t)"

definition op_level :: "string \<Rightarrow> nat" where
  "op_level op = (if op = ''||'' then 0 else if op = ''&&'' then 1 else 2)"

definition at_level :: "nat \<Rightarrow> nat \<Rightarrow> token list \<Rightarrow> token list" where
  "at_level k lev ts = (if k \<le> lev then ts else paren ts)"

fun toks :: "nat \<Rightarrow> expr \<Rightarrow> token list" and args_toks :: "expr list \<Rightarrow> token list" where
  "toks k (Literal v) = [lit_token v]"
| "toks k (Identifier n) = [Token TIdent n]"
| "toks k (Unary op e) = at_level k 3 (Token TOp op # toks 3 e)"
| "toks k (Binary op l r) = at_level k (op_level op)
     (if op = ''||'' then toks 0 l @ Token TOp op # toks 1 r
      else if op = ''&&'' then toks 1 l @ Token TOp op # toks 2 r
      else toks 3 l @ Token TOp op # toks 3 r)"
| "toks k (Call name args) = Token TIdent name # Token TLParen ''('' # args_toks args"
| "args_toks [] = [Token TRParen '')'']"
| "args_toks (e # es) = toks 0 e @
     (if es = [] then [Token TRParen '')''] else Token TComma '','' # args_toks es)"

text \<open>The trees the language can express.\<close>

definition number_ok :: "f64 \<Rightarrow> bool" where
  "number_ok n \<longleftrightarrow> ParseFloat (FormatFloat n) = Some n"

fun lit_ok :: "expr_value \<Rightarrow> bool" where
  "lit_ok (VStr s) \<longleftrightarrow> TrimSpace s = s"
| "lit_ok (VNum n) \<longleftrightarrow> number_ok n"
| "lit_ok (VBool b) \<longleftrightarrow> True"
| "lit_ok (VTime t) \<longleftrightarrow> False"

definition binary_op :: "string \<Rightarrow> bool" where
  "binary_op op \<longleftrightarrow> op = ''||'' \<or> op = ''&&'' \<or> isComparisonOperator op"

fun tree_ok :: "expr \<Rightarrow> bool" where
  "tree_ok (Literal v) \<longleftrightarrow> lit_ok v"
| "tree_ok (Identifier n) \<longleftrightarrow> True"
| "tree_ok (Unary op e) \<longleftrightarrow> (op = ''!'' \<or> op = ''-'') \<and> tree_ok e"
| "tree_ok (Binary op l r) \<longleftrightarrow> binary_op op \<and> tree_ok l \<and> tree_ok r"
| "tree_ok (Call name args) \<longleftrightarrow> list_all tree_ok args"

section \<open>Running the parser with enough fuel\<close>

definition ev :: "(nat \<Rightarrow> 'a option) \<Rightarrow> 'a \<Rightarrow> bool" where
  "ev F r \<longleftrightarrow> (\<exists>n. \<forall>m \<ge> n. F m = Some r)"

lemma evI:
  assumes "\<And>n r. F n = Some r \<Longrightarrow> F (Suc n) = Some r" and "F n = Some r"
  shows "ev F r"
proof -
  have "F m = Some r" if "m \<ge> n" for m
    using that by (induction rule: dec_induct) (auto simp: assms)
  then show ?thesis by (auto simp: ev_def)
qed

lemma ev_Suc: "ev (\<lambda>n. F (Suc n)) r \<Longrightarrow> ev F r"
  unfolding ev_def by (metis Suc_le_D Suc_le_mono)

lemma ev_const [simp]: "ev (\<lambda>n. Some r) r" "ev (\<lambda>n. ok x ts) (Inr (x, ts))"
  by (auto simp: ev_def ok_def)

lemma ev_bind:
  assumes "ev F (Inr (x, us))" and "ev (\<lambda>n. G n x us) r"
  shows "ev (\<lambda>n. bind_p (F n) (G n)) r"
proof -
  from assms obtain a b where "\<forall>m \<ge> a. F m = Some (Inr (x, us))" "\<forall>m \<ge> b. G m x us = Some r"
    by (auto simp: ev_def)
  then have "\<forall>m \<ge> max a b. bind_p (F m) (G m) = Some r" by simp
  then show ?thesis unfolding ev_def by blast
qed

lemma ev_parseOr:
  "ev (\<lambda>n. parseAnd n ts) (Inr (x, us)) \<Longrightarrow> ev (\<lambda>n. loopOr n x us) r \<Longrightarrow> ev (\<lambda>n. parseOr n ts) r"
  by (rule ev_Suc) (auto intro: ev_bind)

lemma ev_loopOr:
  "ev (\<lambda>n. parseAnd n ts) (Inr (x, us)) \<Longrightarrow> ev (\<lambda>n. loopOr n (Binary ''||'' node x) us) r
    \<Longrightarrow> ev (\<lambda>n. loopOr n node (Token TOp ''||'' # ts)) r"
  "\<not> matchOperator ''||'' us \<Longrightarrow> ev (\<lambda>n. loopOr n node us) (Inr (node, us))"
  by (rule ev_Suc, auto simp: matchOperator_def intro: ev_bind)+

lemma ev_parseAnd:
  "ev (\<lambda>n. parseComparison n ts) (Inr (x, us)) \<Longrightarrow> ev (\<lambda>n. loopAnd n x us) r \<Longrightarrow> ev (\<lambda>n. parseAnd n ts) r"
  by (rule ev_Suc) (auto intro: ev_bind)

lemma ev_loopAnd:
  "ev (\<lambda>n. parseComparison n ts) (Inr (x, us)) \<Longrightarrow> ev (\<lambda>n. loopAnd n (Binary ''&&'' node x) us) r
    \<Longrightarrow> ev (\<lambda>n. loopAnd n node (Token TOp ''&&'' # ts)) r"
  "\<not> matchOperator ''&&'' us \<Longrightarrow> ev (\<lambda>n. loopAnd n node us) (Inr (node, us))"
  by (rule ev_Suc, auto simp: matchOperator_def intro: ev_bind)+

lemma ev_parseComparison:
  "ev (\<lambda>n. parseUnary n ts) (Inr (x, us)) \<Longrightarrow> \<not> at_comparison us
    \<Longrightarrow> ev (\<lambda>n. parseComparison n ts) (Inr (x, us))"
  "ev (\<lambda>n. parseUnary n ts) (Inr (x, Token TOp op # us)) \<Longrightarrow> isComparisonOperator op
    \<Longrightarrow> ev (\<lambda>n. parseUnary n us) (Inr (y, vs)) \<Longrightarrow> ev (\<lambda>n. parseComparison n ts) (Inr (Binary op x y, vs))"
  by (rule ev_Suc, simp, rule ev_bind, assumption, auto simp: at_comparison_def intro: ev_bind)+

lemma ev_parseUnary:
  "op = ''!'' \<or> op = ''-'' \<Longrightarrow> ev (\<lambda>n. parseUnary n ts) (Inr (x, us))
    \<Longrightarrow> ev (\<lambda>n. parseUnary n (Token TOp op # ts)) (Inr (Unary op x, us))"
  "\<not> at_unary ts \<Longrightarrow> ev (\<lambda>n. parsePrimary n ts) r \<Longrightarrow> ev (\<lambda>n. parseUnary n ts) r"
  by (rule ev_Suc, auto simp: at_unary_def intro: ev_bind)+

lemma ev_parsePrimary_paren:
  "ev (\<lambda>n. parseOr n ts) (Inr (x, Token TRParen v # us))
    \<Longrightarrow> ev (\<lambda>n. parsePrimary n (Token TLParen w # ts)) (Inr (x, us))"
  by (rule ev_Suc) (auto simp: matchTok_def intro: ev_bind)

lemma ev_parsePrimary_literal:
  "lit_ok v \<Longrightarrow> ev (\<lambda>n. parsePrimary n (lit_token v # us)) (Inr (Literal v, us))"
  by (rule ev_Suc, cases v)
    (auto simp: parse_literal_def newExpressionStringValue_def number_ok_def EqualFold_def ToLower_def
      lower_byte_def is_upper_byte_def)

lemma ev_parsePrimary_ident:
  "\<not> matchTok TLParen us \<Longrightarrow> ev (\<lambda>n. parsePrimary n (Token TIdent name # us)) (Inr (Identifier name, us))"
  by (rule ev_Suc) auto

lemma ev_parsePrimary_call0:
  "ev (\<lambda>n. parsePrimary n (Token TIdent name # Token TLParen v # Token TRParen w # us)) (Inr (Call name [], us))"
  by (rule ev_Suc) (auto simp: matchTok_def)

lemma ev_parsePrimary_call:
  "\<not> matchTok TRParen ts \<Longrightarrow> ev (\<lambda>n. parseArgs n ts) (Inr (args, us))
    \<Longrightarrow> ev (\<lambda>n. parsePrimary n (Token TIdent name # Token TLParen v # ts)) (Inr (Call name args, us))"
  by (rule ev_Suc) (auto simp: matchTok_def intro: ev_bind)

lemma ev_parseArgs:
  "ev (\<lambda>n. parseOr n ts) (Inr (x, Token TRParen v # us)) \<Longrightarrow> ev (\<lambda>n. parseArgs n ts) (Inr ([x], us))"
  "ev (\<lambda>n. parseOr n ts) (Inr (x, Token TComma v # us)) \<Longrightarrow> ev (\<lambda>n. parseArgs n us) (Inr (xs, vs))
    \<Longrightarrow> ev (\<lambda>n. parseArgs n ts) (Inr (x # xs, vs))"
  by (rule ev_Suc, simp, rule ev_bind, assumption, auto simp: matchTok_def intro: ev_bind)+

section \<open>The parser reads back what the printer writes\<close>

text \<open>What must not follow an expression printed at a level: the operators that would extend it.\<close>

definition stops :: "nat \<Rightarrow> token list \<Rightarrow> bool" where
  "stops k ts \<longleftrightarrow> \<not> matchTok TLParen ts \<and> (k \<le> 2 \<longrightarrow> \<not> at_comparison ts) \<and>
     (k \<le> 1 \<longrightarrow> \<not> matchOperator ''&&'' ts) \<and> (k = 0 \<longrightarrow> \<not> matchOperator ''||'' ts)"

definition reads_or :: "expr \<Rightarrow> bool" where
  "reads_or e \<longleftrightarrow> (\<forall>ts r. stops 1 ts \<longrightarrow> ev (\<lambda>n. loopOr n e ts) r \<longrightarrow> ev (\<lambda>n. parseOr n (toks 0 e @ ts)) r)"

definition reads_and :: "expr \<Rightarrow> bool" where
  "reads_and e \<longleftrightarrow> (\<forall>ts r. stops 2 ts \<longrightarrow> ev (\<lambda>n. loopAnd n e ts) r \<longrightarrow> ev (\<lambda>n. parseAnd n (toks 1 e @ ts)) r)"

definition reads_cmp :: "expr \<Rightarrow> bool" where
  "reads_cmp e \<longleftrightarrow> (\<forall>ts. stops 2 ts \<longrightarrow> ev (\<lambda>n. parseComparison n (toks 2 e @ ts)) (Inr (e, ts)))"

definition reads_unary :: "expr \<Rightarrow> bool" where
  "reads_unary e \<longleftrightarrow> (\<forall>ts. stops 3 ts \<longrightarrow> ev (\<lambda>n. parseUnary n (toks 3 e @ ts)) (Inr (e, ts)))"

definition reads :: "expr \<Rightarrow> bool" where
  "reads e \<longleftrightarrow> reads_or e \<and> reads_and e \<and> reads_cmp e \<and> reads_unary e"

lemma stops_mono: "stops k ts \<Longrightarrow> k \<le> l \<Longrightarrow> stops l ts"
  by (auto simp: stops_def)

lemma stops_tokens [simp]:
  "stops k (Token TRParen v # ts)" "stops k (Token TComma v # ts)" "stops k [Token TEOF v]"
  "stops 1 (Token TOp ''||'' # ts)" "stops (Suc 0) (Token TOp ''||'' # ts)"
  "stops 2 (Token TOp ''&&'' # ts)" "stops 3 (Token TOp op # ts)"
  by (auto simp: stops_def matchTok_def at_comparison_def matchOperator_def isComparisonOperator_def)

lemma reads_or_complete: "reads_or e \<Longrightarrow> stops 0 ts \<Longrightarrow> ev (\<lambda>n. parseOr n (toks 0 e @ ts)) (Inr (e, ts))"
  unfolding reads_or_def using ev_loopOr(2)[of ts e] stops_mono[of 0 ts 1] by (auto simp: stops_def)

lemma reads_and_complete: "reads_and e \<Longrightarrow> stops 1 ts \<Longrightarrow> ev (\<lambda>n. parseAnd n (toks 1 e @ ts)) (Inr (e, ts))"
  unfolding reads_and_def using ev_loopAnd(2)[of ts e] stops_mono[of 1 ts 2] by (auto simp: stops_def)

lemma cmp_of_unary: "reads_unary e \<Longrightarrow> toks 2 e = toks 3 e \<Longrightarrow> reads_cmp e"
  by (auto simp: reads_unary_def reads_cmp_def stops_def intro: ev_parseComparison(1))

lemma and_of_cmp: "reads_cmp e \<Longrightarrow> toks 1 e = toks 2 e \<Longrightarrow> reads_and e"
  by (auto simp: reads_cmp_def reads_and_def intro: ev_parseAnd)

lemma or_of_and: "reads_and e \<Longrightarrow> toks 0 e = toks 1 e \<Longrightarrow> reads_or e"
  using reads_and_complete[of e] by (auto simp: reads_or_def intro: ev_parseOr)

lemma unary_of_or: "reads_or e \<Longrightarrow> toks 3 e = paren (toks 0 e) \<Longrightarrow> reads_unary e"
  using reads_or_complete[of e]
  by (auto simp: reads_unary_def paren_def at_unary_def
      intro!: ev_parseUnary(2) ev_parsePrimary_paren[where v = "'')''"])

lemma reads_of_unary:
  "reads_unary e \<Longrightarrow> toks 2 e = toks 3 e \<Longrightarrow> toks 1 e = toks 3 e \<Longrightarrow> toks 0 e = toks 3 e \<Longrightarrow> reads e"
  using cmp_of_unary and_of_cmp or_of_and by (auto simp: reads_def)

lemma reads_primary:
  assumes "\<And>k. toks k e = ts" and "\<not> at_unary ts" and "ts \<noteq> []"
    and "\<And>us. \<not> matchTok TLParen us \<Longrightarrow> ev (\<lambda>n. parsePrimary n (ts @ us)) (Inr (e, us))"
  shows "reads e"
proof (rule reads_of_unary)
  have "\<not> at_unary (ts @ us)" for us using assms(2,3) by (cases ts) (auto simp: at_unary_def)
  then show "reads_unary e"
    by (auto simp: reads_unary_def assms(1) stops_def intro: ev_parseUnary(2) assms(4))
qed (simp_all add: assms(1))

lemma reads_Unary: "reads e \<Longrightarrow> op = ''!'' \<or> op = ''-'' \<Longrightarrow> reads (Unary op e)"
  by (rule reads_of_unary) (auto simp: reads_def reads_unary_def at_level_def intro: ev_parseUnary(1))

lemma reads_Or:
  assumes "reads l" and "reads r" shows "reads (Binary ''||'' l r)"
proof -
  have "reads_or (Binary ''||'' l r)"
    unfolding reads_or_def
  proof (intro allI impI)
    fix ts x
    assume "stops 1 ts" and "ev (\<lambda>n. loopOr n (Binary ''||'' l r) ts) x"
    then have "ev (\<lambda>n. loopOr n l (Token TOp ''||'' # toks 1 r @ ts)) x"
      using assms(2) by (auto simp: reads_def simp del: One_nat_def
          intro!: ev_loopOr(1) reads_and_complete)
    then show "ev (\<lambda>n. parseOr n (toks 0 (Binary ''||'' l r) @ ts)) x"
      using assms(1) by (simp add: reads_def reads_or_def at_level_def op_level_def)
  qed
  then show ?thesis
    using unary_of_or cmp_of_unary and_of_cmp by (auto simp: reads_def at_level_def op_level_def)
qed

lemma reads_And:
  assumes "reads l" and "reads r" shows "reads (Binary ''&&'' l r)"
proof -
  have "reads_and (Binary ''&&'' l r)"
    unfolding reads_and_def
  proof (intro allI impI)
    fix ts x
    assume "stops 2 ts" and "ev (\<lambda>n. loopAnd n (Binary ''&&'' l r) ts) x"
    then have "ev (\<lambda>n. loopAnd n l (Token TOp ''&&'' # toks 2 r @ ts)) x"
      using assms(2) by (auto simp: reads_def reads_cmp_def intro!: ev_loopAnd(1))
    then show "ev (\<lambda>n. parseAnd n (toks 1 (Binary ''&&'' l r) @ ts)) x"
      using assms(1) by (simp add: reads_def reads_and_def at_level_def op_level_def)
  qed
  then show ?thesis
    using unary_of_or cmp_of_unary or_of_and by (auto simp: reads_def at_level_def op_level_def)
qed

lemma reads_Comparison:
  assumes "reads l" and "reads r" and "isComparisonOperator op" shows "reads (Binary op l r)"
proof -
  have op: "op \<noteq> ''||''" "op \<noteq> ''&&''" using assms(3) by (auto simp: isComparisonOperator_def)
  have un: "stops 3 us \<Longrightarrow> ev (\<lambda>n. parseUnary n (toks 3 l @ us)) (Inr (l, us))"
    "stops 3 us \<Longrightarrow> ev (\<lambda>n. parseUnary n (toks 3 r @ us)) (Inr (r, us))" for us
    using assms by (simp_all add: reads_def reads_unary_def)
  have "reads_cmp (Binary op l r)"
    unfolding reads_cmp_def
  proof (intro allI impI)
    fix ts
    assume "stops 2 ts"
    then have "stops 3 ts" by (rule stops_mono) simp
    from ev_parseComparison(2)[OF un(1) assms(3) un(2)[OF this]]
    show "ev (\<lambda>n. parseComparison n (toks 2 (Binary op l r) @ ts)) (Inr (Binary op l r, ts))"
      using op by (simp add: at_level_def op_level_def)
  qed
  then show ?thesis
    using unary_of_or and_of_cmp or_of_and op by (auto simp: reads_def at_level_def op_level_def)
qed

lemma toks_head: "tree_ok e \<Longrightarrow> toks k e \<noteq> [] \<and> tok_typ (hd (toks k e)) \<noteq> TRParen"
proof (induction e arbitrary: k)
  case (Literal v)
  then show ?case by (cases v) auto
next
  case (Binary op l r)
  then show ?case by (auto simp: at_level_def paren_def hd_append)
qed (auto simp: at_level_def paren_def)

lemma reads_args:
  "es \<noteq> [] \<Longrightarrow> \<forall>e \<in> set es. reads e \<Longrightarrow> ev (\<lambda>n. parseArgs n (args_toks es @ ts)) (Inr (es, ts))"
proof (induction es)
  case (Cons e es)
  then have or: "stops 0 us \<Longrightarrow> ev (\<lambda>n. parseOr n (toks 0 e @ us)) (Inr (e, us))" for us
    by (simp add: reads_def reads_or_complete)
  show ?case
  proof (cases "es = []")
    case True
    then show ?thesis using ev_parseArgs(1)[OF or[of "Token TRParen '')'' # ts"]] by simp
  next
    case False
    with Cons have "ev (\<lambda>n. parseArgs n (args_toks es @ ts)) (Inr (es, ts))" by simp
    then show ?thesis
      using False ev_parseArgs(2)[OF or[of "Token TComma '','' # args_toks es @ ts"]] by simp
  qed
qed simp

lemma reads_Call:
  assumes "\<forall>e \<in> set args. reads e" and "list_all tree_ok args" shows "reads (Call name args)"
proof (rule reads_primary)
  fix us
  show "ev (\<lambda>n. parsePrimary n ((Token TIdent name # Token TLParen ''('' # args_toks args) @ us)) (Inr (Call name args, us))"
  proof (cases args)
    case Nil
    then show ?thesis by (auto intro: ev_parsePrimary_call0)
  next
    case (Cons e es)
    then have "\<not> matchTok TRParen (args_toks args @ us)"
      using assms(2) toks_head[of e 0] by (cases "toks 0 e") (auto simp: matchTok_def)
    then show ?thesis
      using assms(1) Cons reads_args[of args us] by (auto intro: ev_parsePrimary_call)
  qed
qed (auto simp: at_unary_def)

lemma tree_reads: "tree_ok e \<Longrightarrow> reads e"
proof (induction e)
  case (Literal v)
  show ?case
  proof (rule reads_primary[where ts = "[lit_token v]"])
    show "\<not> at_unary [lit_token v]" by (cases v) (auto simp: at_unary_def)
    show "ev (\<lambda>n. parsePrimary n ([lit_token v] @ us)) (Inr (Literal v, us))" for us
      using Literal ev_parsePrimary_literal by simp
  qed simp_all
next
  case (Identifier n)
  show ?case
    by (rule reads_primary[where ts = "[Token TIdent n]"]) (auto simp: at_unary_def intro: ev_parsePrimary_ident)
next
  case (Binary op l r)
  then show ?case by (auto simp: binary_op_def intro: reads_Or reads_And reads_Comparison)
next
  case (Call name args)
  then show ?case by (auto intro!: reads_Call simp: list_all_iff)
qed (auto intro: reads_Unary)

lemma parse_toks:
  assumes "tree_ok e"
  shows "parseOr (parse_fuel (toks 0 e @ [Token TEOF []])) (toks 0 e @ [Token TEOF []]) = Some (Inr (e, [Token TEOF []]))"
proof -
  let ?ts = "toks 0 e @ [Token TEOF []]"
  have "ev (\<lambda>n. parseOr n ?ts) (Inr (e, [Token TEOF []]))"
    using tree_reads[OF assms] by (auto simp: reads_def intro: reads_or_complete)
  moreover obtain r where r: "parseOr (parse_fuel ?ts) ?ts = Some r" using parseOr_fuel by blast
  then have "ev (\<lambda>n. parseOr n ?ts) r"
    by (rule evI[where F = "\<lambda>n. parseOr n ?ts", rotated]) (rule parse_mono_step(1))
  ultimately show ?thesis using r by (auto simp: ev_def) (metis linorder_le_cases option.inject)
qed

section \<open>Text\<close>

definition ascii :: "string \<Rightarrow> bool" where
  "ascii s \<longleftrightarrow> list_all (\<lambda>c. byte c < 128) s"

definition escape :: "string \<Rightarrow> string" where
  "escape s = concat (map (\<lambda>c. if c = backslash \<or> c = dquote then [backslash, c] else [c]) s)"

definition tok_text :: "token \<Rightarrow> string" where
  "tok_text t = (if tok_typ t = TString then dquote # escape (tok_val t) @ [dquote] else tok_val t)"

definition render :: "token list \<Rightarrow> string" where
  "render ts = Join (map tok_text ts) '' ''"

definition printExpr :: "expr \<Rightarrow> string" where
  "printExpr e = render (toks 0 e)"

definition ident_ok :: "string \<Rightarrow> bool" where
  "ident_ok n \<longleftrightarrow> n \<noteq> [] \<and> ident_start (hd n) \<and> list_all ident_byte n \<and> list_all plain_byte n
     \<and> ToLower n \<notin> {''true'', ''false'', ''empty''}"

definition digits_text :: "string \<Rightarrow> bool" where
  "digits_text s \<longleftrightarrow> s \<noteq> [] \<and> is_digit_byte (hd s) \<and> list_all number_byte s"

text \<open>
  The trees that have a text: string literals are trimmed and ASCII, numbers are finite, not
  negative and read back, names are ASCII identifiers that are not keywords.
\<close>

fun expressible :: "expr \<Rightarrow> bool" where
  "expressible (Literal v) \<longleftrightarrow> lit_ok v \<and>
     (case v of VStr s \<Rightarrow> ascii s | VNum n \<Rightarrow> digits_text (FormatFloat n) | _ \<Rightarrow> True)"
| "expressible (Identifier n) \<longleftrightarrow> ident_ok n"
| "expressible (Unary op e) \<longleftrightarrow> (op = ''!'' \<or> op = ''-'') \<and> expressible e"
| "expressible (Binary op l r) \<longleftrightarrow> binary_op op \<and> expressible l \<and> expressible r"
| "expressible (Call name args) \<longleftrightarrow> ident_ok name \<and> list_all expressible args"

fun text_ok :: "token \<Rightarrow> bool" where
  "text_ok (Token TLParen v) \<longleftrightarrow> v = ''(''"
| "text_ok (Token TRParen v) \<longleftrightarrow> v = '')''"
| "text_ok (Token TComma v) \<longleftrightarrow> v = '',''"
| "text_ok (Token TOp v) \<longleftrightarrow> binary_op v \<or> v = ''!'' \<or> v = ''-''"
| "text_ok (Token TString v) \<longleftrightarrow> ascii v"
| "text_ok (Token TNumber v) \<longleftrightarrow> digits_text v"
| "text_ok (Token TBool v) \<longleftrightarrow> v = ''true'' \<or> v = ''false''"
| "text_ok (Token TIdent v) \<longleftrightarrow> ident_ok v"
| "text_ok (Token TEmpty v) \<longleftrightarrow> False"
| "text_ok (Token TEOF v) \<longleftrightarrow> False"

lemma expressible_tree_ok: "expressible e \<Longrightarrow> tree_ok e"
  by (induction e) (auto simp: list_all_iff)

lemma expressible_text_ok: "expressible e \<Longrightarrow> list_all text_ok (toks k e)"
  and args_text_ok: "list_all expressible es \<Longrightarrow> list_all text_ok (args_toks es)"
proof (induction k e and es rule: toks_args_toks.induct)
  case (1 k v)
  then show ?case by (cases v) auto
qed (auto simp: at_level_def paren_def binary_op_def)

lemma scan_string_escape: "ascii v \<Longrightarrow> scan_string dquote (escape v @ dquote # r) = Some (v, r)"
proof (induction v)
  case Nil
  then show ?case by (cases r) (auto simp: escape_def dquote_def backslash_def)
next
  case (Cons c v)
  then have IH: "scan_string dquote (escape v @ dquote # r) = Some (v, r)" and c: "byte c < 128"
    by (simp_all add: ascii_def)
  obtain d u where du: "escape v @ dquote # r = d # u"
    by (cases "escape v @ dquote # r") auto
  have nq: "dquote \<noteq> backslash" by (simp add: dquote_def backslash_def)
  show ?case
  proof (cases "c = backslash \<or> c = dquote")
    case True
    then have "unescape c = [c]" using c by (auto simp: unescape_def write_rune_def backslash_def dquote_def)
    with True IH show ?thesis using nq by (auto simp: escape_def)
  next
    case False
    with IH du c show ?thesis by (auto simp: escape_def write_rune_def)
  qed
qed

lemma scan_space: "scan_tokens (CHR '' '' # r) = scan_tokens r"
  by (subst scan_tokens.simps) (simp add: l1_space_def ws1_def)

definition ends_token :: "string \<Rightarrow> bool" where
  "ends_token r \<longleftrightarrow> r = [] \<or> hd r = CHR '' ''"

lemma ends_token_cases: "ends_token r \<Longrightarrow> (r = [] \<Longrightarrow> P) \<Longrightarrow> (\<And>s. r = CHR '' '' # s \<Longrightarrow> P) \<Longrightarrow> P"
  by (cases r) (auto simp: ends_token_def)

lemma takeWhile_ends:
  assumes "list_all p s" and "ends_token r" and "\<not> p (CHR '' '')"
  shows "takeWhile p (s @ r) = s \<and> dropWhile p (s @ r) = r"
  using assms(2) by (rule ends_token_cases) (use assms(1,3) in \<open>auto simp: list_all_iff\<close>)

lemmas byte_classes = l1_space_def ws1_def is_digit_byte_def ident_start_def l1_letter_def
  is_upper_byte_def is_lower_byte_def squote_def dquote_def number_byte_def ident_byte_def plain_byte_def

lemma no_operator:
  assumes "byte c \<notin> {38, 124, 33, 61, 60, 62, 45}"
  shows "scanExpressionOperator (c # s) = []"
proof -
  have "c \<noteq> CHR ''&''" "c \<noteq> CHR ''|''" "c \<noteq> CHR ''!''" "c \<noteq> CHR ''=''" "c \<noteq> CHR ''<''"
    "c \<noteq> CHR ''>''" "c \<noteq> CHR ''-''"
    using assms by auto
  then show ?thesis by (simp add: scanExpressionOperator_def HasPrefix_def)
qed

lemma operator_itself:
  assumes "binary_op op \<or> op = ''!'' \<or> op = ''-''" and "ends_token r"
  shows "scanExpressionOperator (op @ r) = op \<and> op \<noteq> [] \<and> byte (hd op) \<in> {38, 124, 33, 61, 60, 62, 45}"
proof -
  have "r = [] \<or> (\<exists>s. r = CHR '' '' # s)" using assms(2) by (cases r) (auto simp: ends_token_def)
  moreover have "op \<in> {''||'', ''&&'', ''='', ''=='', ''!='', ''<'', ''<='', ''>'', ''>='', ''!'', ''-''}"
    using assms(1) by (auto simp: binary_op_def isComparisonOperator_def)
  ultimately show ?thesis
    by (elim disjE exE insertE emptyE) (simp_all add: scanExpressionOperator_def HasPrefix_def)
qed

lemma scan_operator:
  assumes "binary_op op \<or> op = ''!'' \<or> op = ''-''" and "ends_token r"
  shows "scan_tokens (op @ r) = add_token (Token TOp op) (scan_tokens r)"
proof -
  obtain c u where op: "op = c # u" and c: "byte c \<in> {38, 124, 33, 61, 60, 62, 45}"
    using operator_itself[OF assms] by (cases op) auto
  have "c \<notin> {CHR ''('', CHR '')'', CHR '',''}" "\<not> l1_space c" "c \<noteq> squote" "c \<noteq> dquote"
    using c by (auto simp: l1_space_def ws1_def squote_def dquote_def)
  then show ?thesis
    using operator_itself[OF assms] unfolding op by (simp add: scan_tokens.simps(2))
qed

lemma scan_number:
  assumes "digits_text v" and "ends_token r"
  shows "scan_tokens (v @ r) = add_token (Token TNumber v) (scan_tokens r)"
proof -
  from assms(1) obtain c s where v: "v = c # s" and c: "is_digit_byte c" and s: "list_all number_byte s"
    by (cases v) (auto simp: digits_text_def)
  have "takeWhile number_byte (s @ r) = s \<and> dropWhile number_byte (s @ r) = r"
    using s assms(2) by (rule takeWhile_ends) (simp add: number_byte_def is_digit_byte_def)
  moreover have "scanExpressionOperator (c # s @ r) = []"
    by (rule no_operator) (use c in \<open>auto simp: is_digit_byte_def\<close>)
  moreover have "c \<notin> {CHR ''('', CHR '')'', CHR '',''}" "\<not> l1_space c" "c \<noteq> squote" "c \<noteq> dquote"
    using c by (auto simp: byte_classes)
  ultimately show ?thesis
    unfolding v using c by (simp add: scan_tokens.simps(2))
qed

lemma scan_word:
  assumes "v \<noteq> []" and "ident_start (hd v)" and "list_all ident_byte v" and "list_all plain_byte v" and "ends_token r"
  shows "scan_tokens (v @ r) = add_token (word_token v) (scan_tokens r)"
proof -
  from assms obtain c s where v: "v = c # s" and c: "ident_start c" "plain_byte c" and s: "list_all ident_byte s"
    by (cases v) auto
  have "takeWhile ident_byte (s @ r) = s \<and> dropWhile ident_byte (s @ r) = r"
    using s assms(5) by (rule takeWhile_ends) (simp add: byte_classes)
  moreover have "scanExpressionOperator (c # s @ r) = []"
    by (rule no_operator) (use c in \<open>auto simp: byte_classes\<close>)
  moreover have "c \<notin> {CHR ''('', CHR '')'', CHR '',''}" "\<not> l1_space c" "\<not> is_digit_byte c" "c \<noteq> squote" "c \<noteq> dquote"
    using c by (auto simp: byte_classes)
  ultimately show ?thesis
    unfolding v using c by (simp add: scan_tokens.simps(2))
qed

lemma scan_token:
  assumes "text_ok t" and "ends_token r"
  shows "scan_tokens (tok_text t @ r) = add_token t (scan_tokens r)"
  using assms
proof (cases t rule: text_ok.cases)
  case (4 v)
  with assms show ?thesis using scan_operator by (simp add: tok_text_def)
next
  case (5 v)
  with assms(1) have "ascii v" by simp
  then show ?thesis
    using 5 scan_string_escape[of v r]
    by (simp add: tok_text_def scan_tokens.simps(2) byte_classes)
next
  case (6 v)
  with assms show ?thesis using scan_number by (simp add: tok_text_def)
next
  case (7 v)
  then have "word_token v = Token TBool v"
    using assms(1) by (auto simp: word_token_def Let_def TrimSpace_plain plain_byte_def ToLower_def lower_byte_def is_upper_byte_def)
  moreover have "scan_tokens (v @ r) = add_token (word_token v) (scan_tokens r)"
    by (rule scan_word) (use 7 assms in \<open>auto simp: byte_classes\<close>)
  ultimately show ?thesis using 7 by (simp add: tok_text_def)
next
  case (8 v)
  then have "TrimSpace v = v" using assms(1) by (intro TrimSpace_plain) (auto simp: ident_ok_def list_all_iff)
  then have "word_token v = Token TIdent v"
    using 8 assms(1) by (auto simp: word_token_def Let_def ident_ok_def)
  moreover have "scan_tokens (v @ r) = add_token (word_token v) (scan_tokens r)"
    by (rule scan_word) (use 8 assms in \<open>auto simp: ident_ok_def\<close>)
  ultimately show ?thesis using 8 by (simp add: tok_text_def)
qed (auto simp: tok_text_def scan_tokens.simps(2) byte_classes)

lemma scan_render: "list_all text_ok ts \<Longrightarrow> scan_tokens (render ts) = Inr (ts @ [Token TEOF []])"
proof (induction ts)
  case (Cons t ts)
  show ?case
  proof (cases ts)
    case Nil
    then show ?thesis using Cons.prems scan_token[of t "[]"] by (simp add: render_def ends_token_def)
  next
    case (Cons u us)
    then show ?thesis
      using Cons.IH Cons.prems scan_token[of t "CHR '' '' # render ts"]
      by (simp add: render_def ends_token_def scan_space)
  qed
qed (simp add: render_def)

lemma plain_ends_join:
  assumes "ss \<noteq> []" and "\<forall>s \<in> set ss. s \<noteq> [] \<and> plain_byte (hd s) \<and> plain_byte (last s)"
  shows "Join ss sep \<noteq> [] \<and> plain_byte (hd (Join ss sep)) \<and> plain_byte (last (Join ss sep))"
  using assms
proof (induction ss)
  case (Cons s ss)
  then show ?case by (cases "ss = []") (auto simp: Join_Cons)
qed simp

lemma text_ok_ends:
  assumes "text_ok t"
  shows "tok_text t \<noteq> [] \<and> plain_byte (hd (tok_text t)) \<and> plain_byte (last (tok_text t))"
  using assms
proof (cases t rule: text_ok.cases)
  case (4 v)
  with assms show ?thesis
    by (auto simp: tok_text_def binary_op_def isComparisonOperator_def plain_byte_def)
next
  case (6 v)
  then have "v \<noteq> []" "number_byte (hd v)" "number_byte (last v)"
    using assms by (auto simp: digits_text_def list_all_iff)
  then show ?thesis using 6 by (auto simp: tok_text_def byte_classes)
next
  case (8 v)
  then have "v \<noteq> []" "plain_byte (hd v)" "plain_byte (last v)"
    using assms by (auto simp: ident_ok_def list_all_iff)
  then show ?thesis using 8 by (simp add: tok_text_def)
qed (auto simp: tok_text_def plain_byte_def dquote_def)

lemma TrimSpace_render:
  assumes "list_all text_ok ts" and "ts \<noteq> []"
  shows "TrimSpace (render ts) = render ts"
proof -
  have "render ts \<noteq> [] \<and> plain_byte (hd (render ts)) \<and> plain_byte (last (render ts))"
    unfolding render_def
    by (rule plain_ends_join) (use assms text_ok_ends in \<open>auto simp: list_all_iff\<close>)
  then show ?thesis by (intro TrimSpace_plain_ends) auto
qed

text \<open>
  C1: Round trip of the expression language. Every tree that has a text (any nesting of
  \<open>||\<close>, \<open>&&\<close>, comparisons, \<open>!\<close>, \<open>-\<close>, calls, names, and string, number and boolean literals) is
  printed with the fewest parentheses, and \<open>parseBooleanExpression\<close> on that text returns the
  same tree: the scanner and the parser implement the precedence, the left associativity and
  the quoting of the language.
\<close>
theorem parse_print:
  assumes "expressible e"
  shows "parseBooleanExpression (printExpr e) = Inr e"
proof -
  have ok: "list_all text_ok (toks 0 e)" using assms by (rule expressible_text_ok)
  have "toks 0 e \<noteq> []" using toks_head expressible_tree_ok assms by blast
  with ok have "scanExpressionTokens (printExpr e) = Inr (toks 0 e @ [Token TEOF []])"
    by (simp add: scanExpressionTokens_def printExpr_def TrimSpace_render scan_render)
  then show ?thesis
    using parse_toks[OF expressible_tree_ok[OF assms]]
    by (simp add: parseBooleanExpression_def)
qed

text \<open>A tree with a disjunction under a conjunction, a string literal and a call, and its text.\<close>

definition sample_tree :: expr where
  "sample_tree = Binary ''&&''
     (Binary ''||'' (Binary ''='' (Identifier ''status'') (Literal (VStr ''on hold''))) (Unary ''!'' (Identifier ''done'')))
     (Call ''contains'' [Identifier ''title'', Literal (VBool True)])"

theorem parse_print_witness:
  "printExpr sample_tree = ''( status = \"on hold\" || ! done ) && contains ( title , true )'' \<and>
   parseBooleanExpression (printExpr sample_tree) = Inr sample_tree"
proof
  show "printExpr sample_tree = ''( status = \"on hold\" || ! done ) && contains ( title , true )''"
    by (simp add: sample_tree_def printExpr_def render_def tok_text_def at_level_def op_level_def
        paren_def escape_def dquote_def backslash_def)
  have "TrimSpace ''on hold'' = ''on hold''"
    by (rule TrimSpace_plain_ends) (simp_all add: plain_byte_def)
  then have "expressible sample_tree"
    by (simp add: sample_tree_def binary_op_def isComparisonOperator_def ident_ok_def byte_classes
        ascii_def ToLower_def lower_byte_def)
  then show "parseBooleanExpression (printExpr sample_tree) = Inr sample_tree"
    by (rule parse_print)
qed

end
