(* ===== verification/ExprLaws.thy ===== *)
theory ExprLaws
  imports ExprPrint
begin

text \<open>
  What the expression language guarantees: parsing and evaluation always return, evaluation
  reads only the fields the expression names, and the algebra of its operators. The
  callers (validation rules, security rules, trigger conditions) rest on these facts.
\<close>

section \<open>Parsing and evaluating return\<close>

lemma scan_tokens_no_fuel: "scan_tokens s \<noteq> Inl OutOfFuel"
proof (induction "length s" arbitrary: s rule: less_induct)
  case less
  have add: "add_token t r = Inl OutOfFuel \<longleftrightarrow> r = Inl OutOfFuel" for t r
    by (cases r) auto
  show ?case
  proof (cases s)
    case (Cons c u)
    have IH: "length v \<le> length u \<Longrightarrow> scan_tokens v \<noteq> Inl OutOfFuel" for v
      using less[of v] Cons by simp
    show ?thesis unfolding Cons
      by (subst scan_tokens.simps)
        (auto simp: add IH length_dropWhile_le dest: scan_string_length split: option.splits)
  qed simp
qed

lemma eval_no_fuel:
  "evalNode ctx e \<noteq> Inl OutOfFuel" "evalArgs ctx es \<noteq> Inl OutOfFuel"
proof (induction ctx e and ctx es rule: evalNode_evalArgs.induct)
  case (4 ctx op l r)
  have "compareExpressionValues a b op \<noteq> Inl OutOfFuel" for a b
    by (auto simp: compareExpressionValues_def cmp_bool_def cmp_string_def Let_def split: option.splits)
  with 4 show ?case by (auto split: sum.splits)
next
  case (5 ctx name args)
  have "eval_call ctx name vs \<noteq> Inl OutOfFuel" for vs
    by (auto simp: eval_call_def call1_def call2_def Let_def split: list.splits)
  with 5 show ?case by (auto split: sum.splits)
qed (auto simp: eval_unary_def split: sum.splits option.splits)

text \<open>
  C22: Termination. \<open>parseBooleanExpression\<close> and \<open>evaluateBooleanExpression\<close> return a tree, a
  truth value or one of the code's errors for every input string: the fuel the model gives
  the recursive descent is never used up.
\<close>
theorem expression_returns:
  "parseBooleanExpression s \<noteq> Inl OutOfFuel \<and> evaluateBooleanExpression now s form field \<noteq> Inl OutOfFuel"
proof
  show p: "parseBooleanExpression s \<noteq> Inl OutOfFuel"
  proof (cases "scanExpressionTokens s")
    case (Inl e)
    then show ?thesis
      using scan_tokens_no_fuel by (auto simp: parseBooleanExpression_def scanExpressionTokens_def)
  next
    case (Inr ts)
    obtain r where "parseOr (parse_fuel ts) ts = Some r" "r \<noteq> Inl OutOfFuel" using parseOr_fuel by blast
    with Inr show ?thesis by (cases r) (auto simp: parseBooleanExpression_def split: prod.splits)
  qed
  show "evaluateBooleanExpression now s form field \<noteq> Inl OutOfFuel"
    using p eval_no_fuel(1)
    by (auto simp: evaluateBooleanExpression_def split: sum.splits)
qed

section \<open>Evaluation reads only the named fields\<close>

fun names_read :: "string \<Rightarrow> expr \<Rightarrow> string list" where
  "names_read field (Literal v) = []"
| "names_read field (Identifier n) =
     (let name = TrimSpace n in
      if EqualFold name ''value'' \<and> field \<noteq> [] then [field] else [name, normalizeIdentifier name])"
| "names_read field (Unary op e) = names_read field e"
| "names_read field (Binary op l r) = names_read field l @ names_read field r"
| "names_read field (Call name args) = concat (map (names_read field) args)"

lemma lookup_ident_frame:
  assumes "\<forall>k \<in> set (names_read field (Identifier n)). f k = g k"
  shows "lookup_ident \<lparr>formData = f, currentField = field, currentTime = t\<rparr> n =
         lookup_ident \<lparr>formData = g, currentField = field, currentTime = t\<rparr> n"
  using assms by (auto simp: lookup_ident_def Let_def split: if_splits option.splits)

lemma eval_call_form: "eval_call \<lparr>formData = f, currentField = field, currentTime = t\<rparr> n vs =
    eval_call \<lparr>formData = g, currentField = field, currentTime = t\<rparr> n vs"
  by (simp add: eval_call_def Let_def)

text \<open>
  Frame. The value of an expression depends on the form data only through the fields its
  identifiers name (their trimmed and their normalised spelling, or the current field for
  \<open>value\<close>): two forms that agree there give the same value or the same error.
\<close>
theorem eval_frame:
  assumes "\<forall>k \<in> set (names_read field e). f k = g k"
  shows "evalNode \<lparr>formData = f, currentField = field, currentTime = t\<rparr> e =
         evalNode \<lparr>formData = g, currentField = field, currentTime = t\<rparr> e"
  using assms
proof (induction e)
  case (Identifier n)
  then show ?case by (simp only: evalNode.simps lookup_ident_frame)
next
  case (Binary op l r)
  have "evalNode \<lparr>formData = f, currentField = field, currentTime = t\<rparr> l =
        evalNode \<lparr>formData = g, currentField = field, currentTime = t\<rparr> l"
    and "evalNode \<lparr>formData = f, currentField = field, currentTime = t\<rparr> r =
        evalNode \<lparr>formData = g, currentField = field, currentTime = t\<rparr> r"
    using Binary by auto
  then show ?case by (simp split: sum.split)
next
  case (Call n args)
  have "evalNode \<lparr>formData = f, currentField = field, currentTime = t\<rparr> a =
        evalNode \<lparr>formData = g, currentField = field, currentTime = t\<rparr> a" if "a \<in> set args" for a
    using Call that by auto
  then have "map_result (evalNode \<lparr>formData = f, currentField = field, currentTime = t\<rparr>) args =
        map_result (evalNode \<lparr>formData = g, currentField = field, currentTime = t\<rparr>) args"
    by (rule map_result_cong[OF refl])
  then show ?case
    by (simp add: evalArgs_map_result split: sum.split) (blast intro: eval_call_form)
qed simp_all

theorem eval_frame_witness:
  "evalNode \<lparr>formData = [''Owner'' \<mapsto> ''ann''], currentField = [], currentTime = \<lparr>t_sec = 0, t_nsec = 0, t_off = utc\<rparr>\<rparr>
     (Unary ''!'' (Identifier ''state'')) =
   evalNode \<lparr>formData = [''title'' \<mapsto> ''x''], currentField = [], currentTime = \<lparr>t_sec = 0, t_nsec = 0, t_off = utc\<rparr>\<rparr>
     (Unary ''!'' (Identifier ''state''))"
proof (rule eval_frame)
  have "TrimSpace ''state'' = ''state''" by (rule TrimSpace_plain) (simp add: plain_byte_def)
  then show "\<forall>k \<in> set (names_read [] (Unary ''!'' (Identifier ''state''))).
      [''Owner'' \<mapsto> ''ann''] k = [''title'' \<mapsto> ''x''] k"
    by (simp add: normalizeIdentifier_def ToLower_def lower_byte_def is_upper_byte_def Let_def)
qed

section \<open>The operators\<close>

text \<open>
  De Morgan. Negating a conjunction and disjoining the negations give the same result,
  errors and short-circuiting included, and dually.
\<close>
theorem eval_de_morgan:
  "evalNode ctx (Unary ''!'' (Binary ''&&'' a b)) = evalNode ctx (Binary ''||'' (Unary ''!'' a) (Unary ''!'' b)) \<and>
   evalNode ctx (Unary ''!'' (Binary ''||'' a b)) = evalNode ctx (Binary ''&&'' (Unary ''!'' a) (Unary ''!'' b))"
  by (auto simp: eval_unary_def split: sum.splits)

lemma compare_case:
  obtains (bools) a b where "\<And>op. compareExpressionValues l r op = cmp_bool op a b" "\<And>op. compareExpressionValues r l op = cmp_bool op b a"
  | (numbers) a b where
      "\<And>op. isComparisonOperator op \<Longrightarrow> Some (compareExpressionValues l r op) = map_option Inr (cmp_number op a b)"
      "\<And>op. isComparisonOperator op \<Longrightarrow> Some (compareExpressionValues r l op) = map_option Inr (cmp_number op b a)"
  | (times) a b where
      "\<And>op. isComparisonOperator op \<Longrightarrow> Some (compareExpressionValues l r op) = map_option Inr (cmp_time op a b)"
      "\<And>op. isComparisonOperator op \<Longrightarrow> Some (compareExpressionValues r l op) = map_option Inr (cmp_time op b a)"
  | (strings) "\<And>op. compareExpressionValues l r op = cmp_string op (rawString l) (rawString r)"
      "\<And>op. compareExpressionValues r l op = cmp_string op (rawString r) (rawString l)"
proof -
  let ?b = "both (coerceExpressionBool l) (coerceExpressionBool r)"
  let ?n = "both (coerceExpressionNumber l) (coerceExpressionNumber r)"
  let ?t = "both (coerceExpressionTime l) (coerceExpressionTime r)"
  note flip = both_sym[of "coerceExpressionBool r"] both_sym[of "coerceExpressionNumber r"] both_sym[of "coerceExpressionTime r"]
  consider (b) a b where "?b = Some (a, b)" | (n) a b where "?b = None" "?n = Some (a, b)"
    | (t) a b where "?b = None" "?n = None" "?t = Some (a, b)" | (s) "?b = None" "?n = None" "?t = None"
    by (cases ?b; cases ?n; cases ?t) auto
  then show thesis
  proof cases
    case b
    then show ?thesis by (intro bools) (simp_all add: compareExpressionValues_def flip)
  next
    case n
    show ?thesis
      by (rule numbers[of a b])
        (auto simp: compareExpressionValues_def flip n isComparisonOperator_def cmp_number_def)
  next
    case t
    show ?thesis
      by (rule times[of a b])
        (auto simp: compareExpressionValues_def flip t isComparisonOperator_def cmp_time_def)
  next
    case s
    then show ?thesis by (intro strings) (simp_all add: compareExpressionValues_def flip)
  qed
qed

text \<open>
  Comparison. Whatever kinds the two values are coerced to, \<open>==\<close> and \<open>!=\<close> never fail and
  are each other's negation, \<open>=\<close> means \<open>==\<close>, equality is symmetric, and \<open>>\<close> and \<open>>=\<close> are \<open><\<close>
  and \<open><=\<close> with the operands swapped.
\<close>
theorem compare_laws:
  "(\<exists>x. compareExpressionValues l r ''=='' = Inr x \<and> compareExpressionValues l r ''!='' = Inr (\<not> x)
      \<and> compareExpressionValues l r ''='' = Inr x \<and> compareExpressionValues r l ''=='' = Inr x)
   \<and> (compareExpressionValues l r ''>'' = Inr y) = (compareExpressionValues r l ''<'' = Inr y)
   \<and> (compareExpressionValues l r ''>='' = Inr y) = (compareExpressionValues r l ''<='' = Inr y)"
proof (cases rule: compare_case[of l r])
  case (bools a b)
  then show ?thesis by (auto simp: cmp_bool_def)
next
  case (numbers a b)
  show ?thesis
    using numbers[of "''==''"] numbers[of "''!=''"] numbers[of "''=''"] numbers[of "''<''"]
      numbers[of "''<=''"] numbers[of "''>''"] numbers[of "''>=''"]
    by (auto simp: isComparisonOperator_def cmp_number_def f_eq_sym)
next
  case (times a b)
  show ?thesis
    using times[of "''==''"] times[of "''!=''"] times[of "''=''"] times[of "''<''"]
      times[of "''<=''"] times[of "''>''"] times[of "''>=''"]
    by (auto simp: isComparisonOperator_def cmp_time_def time_Equal_sym time_After_def)
next
  case strings
  then show ?thesis by (auto simp: cmp_string_def)
qed

section \<open>Literals outside ASCII\<close>

text \<open>
  The scanner writes each byte of a string literal as a rune of its own, so a literal outside
  ASCII does not denote the string that was typed: here the two bytes of the UTF-8 encoding
  of U+00E9 are compared with a field that holds exactly these bytes, and differ.
\<close>

definition e_acute :: string where
  "e_acute = [CHR 0xC3, CHR 0xA9]"

text \<open>
  Literals outside ASCII are re-encoded byte by byte: comparing a field that holds U+00E9
  with the literal U+00E9 is false.
\<close>
theorem non_ascii_literal:
  "evaluateBooleanExpression now (''name='' @ dquote # e_acute @ [dquote]) [''name'' \<mapsto> e_acute] [] = Inr False"
proof -
  let ?text = "''name='' @ dquote # e_acute @ [dquote]"
  have "TrimSpace ?text = ?text"
    by (rule TrimSpace_plain_ends) (simp_all add: plain_byte_def dquote_def)
  moreover have "TrimSpace ''name'' = ''name''"
    by (rule TrimSpace_plain) (simp add: plain_byte_def)
  then have "word_token ''name'' = Token TIdent ''name''"
    by (simp add: word_token_def ToLower_def lower_byte_def is_upper_byte_def)
  ultimately have "scanExpressionTokens ?text =
    Inr [Token TIdent ''name'', Token TOp ''='', Token TString [CHR 0xC3, CHR 0x83, CHR 0xC2, CHR 0xA9], Token TEOF []]"
    by (simp add: scanExpressionTokens_def scan_tokens.simps(2) byte_classes e_acute_def
        scanExpressionOperator_def HasPrefix_def backslash_def write_rune_def char_of_def bit_0)
  moreover have trims: "TrimSpace [CHR 0xC3, CHR 0x83, CHR 0xC2, CHR 0xA9] = [CHR 0xC3, CHR 0x83, CHR 0xC2, CHR 0xA9]"
    "TrimSpace e_acute = e_acute" "TrimSpace ''name'' = ''name''"
    by (simp_all add: TrimSpace_def TrimLeftSpace_def TrimRightSpace_def ws1_def ws2_def ws3_def e_acute_def)
  ultimately have parsed: "parseBooleanExpression ?text =
    Inr (Binary ''='' (Identifier ''name'') (Literal (VStr [CHR 0xC3, CHR 0x83, CHR 0xC2, CHR 0xA9])))"
    by (simp add: parseBooleanExpression_def parse_fuel_def matchOperator_def at_comparison_def at_unary_def
        isComparisonOperator_def matchTok_def parse_literal_def newExpressionStringValue_def ok_def eval_nat_numeral)
  have "coerceExpressionBool (VStr e_acute) = None" "coerceExpressionNumber (VStr e_acute) = None"
    "coerceExpressionTime (VStr e_acute) = None"
    by (simp_all add: trims) (simp_all add: e_acute_def ToLower_def lower_byte_def is_upper_byte_def ParseFloat_def
        strip_sign_def HasPrefix_def is_digit_byte_def parseTimestamp_def time_Parse_def layout_RFC3339_def
        layout_T_minutes_def layout_space_seconds_def date_chunks_def)
  then have "compareExpressionValues (VStr e_acute) r ''='' = cmp_string ''='' e_acute (rawString r)" for r
    by (simp add: compareExpressionValues_def both_def trims)
  then show ?thesis
    unfolding evaluateBooleanExpression_def parsed
    by (simp add: lookup_ident_def Let_def trims EqualFold_def ToLower_def lower_byte_def
        is_upper_byte_def newExpressionStringValue_def cmp_string_def) (simp add: e_acute_def)
qed

end
