(* ===== verification/AppTypes.thy ===== *)
theory AppTypes
  imports ExprLaws
begin

text \<open>
  The data model of an application definition (\<open>internal/db/AppDefinition.go\<close>,
  \<open>internal/db/Types.go\<close>): one record per struct, in the order of the source. A pointer that
  may be nil is an option, \<open>sql.NullString\<close> is \<open>string option\<close>, and a Go \<open>map\<close> that is only
  looked up is a partial function. Identifiers, timestamps and database handles no modelled
  operation reads are left out of \<open>Table\<close> and \<open>Column\<close>.
\<close>

section \<open>Dynamic values\<close>

text \<open>
  A value of type \<open>any\<close>: what JSON and the database driver produce. \<open>GOther t\<close> is a value of
  any other dynamic type (a numeric, a byte array), given by its \<open>fmt.Sprint\<close> text, and \<open>GTime t s\<close>
  a timestamp with its text \<open>s\<close>, which names the zone.
\<close>

datatype gval =
    GNil
  | GStr string
  | GBool bool
  | GInt int
  | GFloat f64
  | GList "gval list"
  | GMap "(string \<times> gval) list"
  | GTime gotime string
  | GOther string

text \<open>\<open>%v\<close> of a \<open>float64\<close>: decimal exponents below -4 or from 6 on use scientific notation.\<close>

definition format_exp :: "int \<Rightarrow> string" where
  "format_exp e = (if e < 0 then CHR ''-'' else CHR ''+'') # pad_digits 2 (nat \<bar>e\<bar>)"

fun SprintFloat :: "f64 \<Rightarrow> string" where
  "SprintFloat FNaN = ''NaN''"
| "SprintFloat (FInf b) = (if b then ''-Inf'' else ''+Inf'')"
| "SprintFloat (FFin neg m e) = (if neg then ''-'' else []) @
     (if m = 0 then ''0''
      else let num = fin_num m e; den = fin_den e; dp0 = dec_point num den;
               (d, nd) = shortest (FFin False m e) num den dp0 1 16;
               ds = nat_digits d; dp = dp0 + int (length ds) - int nd; x = dp - 1
           in if x < -4 \<or> 6 \<le> x
              then (let fr = rev (dropWhile (\<lambda>c. c = CHR ''0'') (rev (tl ds)))
                    in hd ds # (if fr = [] then [] else CHR ''.'' # fr) @ CHR ''e'' # format_exp x)
              else fixed_digits d nd dp0)"

fun Sprint :: "gval \<Rightarrow> string" where
  "Sprint GNil = ''<nil>''"
| "Sprint (GStr s) = s"
| "Sprint (GBool b) = (if b then ''true'' else ''false'')"
| "Sprint (GInt i) = Itoa i"
| "Sprint (GFloat f) = SprintFloat f"
| "Sprint (GList vs) = ''['' @ Join (map Sprint vs) '' '' @ '']''"
| "Sprint (GMap kvs) = ''map['' @ Join (map (\<lambda>(k, s). k @ CHR '':'' # s)
     (sort_key fst (map (\<lambda>(k, v). (k, Sprint v)) kvs))) '' '' @ '']''"
| "Sprint (GTime t s) = s"
| "Sprint (GOther t) = t"

text \<open>The string a record value contributes to an expression (the type switch of the callers).\<close>

definition value_string :: "gval \<Rightarrow> string" where
  "value_string v = (case v of GNil \<Rightarrow> [] | GStr s \<Rightarrow> s | _ \<Rightarrow> Sprint v)"

section \<open>Definitions of an app\<close>

record ChoiceOption =
  ch_Value :: string
  ch_Label :: string

record Table =
  tb_ID :: string
  tb_NAME :: string
  tb_LABEL_SINGULAR :: string
  tb_LABEL_PLURAL :: string
  tb_DESCRIPTION :: string
  tb_DISPLAY_FIELD :: string

record Column =
  co_ID :: string
  co_NAME :: string
  co_LABEL :: string
  co_DATA_TYPE :: string
  co_IS_NULLABLE :: bool
  co_DEFAULT_VALUE :: "string option"
  co_IS_HIDDEN :: bool
  co_IS_READONLY :: bool
  co_VALIDATION_REGEX :: "string option"
  co_VALIDATION_EXPR :: "string option"
  co_CONDITION_EXPR :: "string option"
  co_VALIDATION_MSG :: "string option"
  co_REFERENCE_TABLE :: "string option"
  co_PREFIX :: "string option"
  co_CHOICES :: "ChoiceOption list"
  co_TABLE_ID :: string

record AppDefinitionColumn =
  dc_Name :: string
  dc_Label :: string
  dc_DataType :: string
  dc_IsNullable :: bool
  dc_DefaultValue :: string
  dc_Prefix :: string
  dc_ValidationRegex :: string
  dc_ValidationExpr :: string
  dc_ConditionExpr :: string
  dc_ValidationMessage :: string
  dc_ReferenceTable :: string
  dc_Choices :: "ChoiceOption list"

record AppDefinitionAction =
  ac_Name :: string
  ac_Label :: string
  ac_Call :: string
  ac_Roles :: "string list"

record AppDefinitionSecurityRule =
  sr_Name :: string
  sr_Description :: string
  sr_Order :: int
  sr_Effect :: string
  sr_Operation :: string
  sr_Table :: string
  sr_Field :: string
  sr_Condition :: string
  sr_Role :: string

record AppDefinitionSecurity =
  se_Roles :: "string list"
  se_Notes :: string
  se_Rules :: "AppDefinitionSecurityRule list"

record AppDefinitionForm =
  fo_Name :: string
  fo_Label :: string
  fo_Description :: string
  fo_Fields :: "string list"
  fo_Actions :: "AppDefinitionAction list"
  fo_Security :: AppDefinitionSecurity

record AppDefinitionList =
  li_Name :: string
  li_Label :: string
  li_Columns :: "string list"

record AppDefinitionDataPolicy =
  dp_Name :: string
  dp_Label :: string
  dp_Description :: string
  dp_Condition :: string
  dp_Action :: string
  dp_Enabled :: bool

record AppDefinitionRelatedList =
  rl_Name :: string
  rl_Label :: string
  rl_Table :: string
  rl_ReferenceField :: string
  rl_Columns :: "string list"

record AppDefinitionTrigger =
  tr_Name :: string
  tr_Label :: string
  tr_Description :: string
  tr_Event :: string
  tr_Table :: string
  tr_Condition :: string
  tr_Call :: string
  tr_Mode :: string
  tr_Order :: int
  tr_Enabled :: bool

record AppDefinitionTable =
  dt_Name :: string
  dt_Extends :: string
  dt_Extensible :: bool
  dt_LabelSingular :: string
  dt_LabelPlural :: string
  dt_Description :: string
  dt_DisplayField :: string
  dt_Columns :: "AppDefinitionColumn list"
  dt_Forms :: "AppDefinitionForm list"
  dt_Lists :: "AppDefinitionList list"
  dt_DataPolicies :: "AppDefinitionDataPolicy list"
  dt_Triggers :: "AppDefinitionTrigger list"
  dt_RelatedLists :: "AppDefinitionRelatedList list"
  dt_Security :: AppDefinitionSecurity

record AppDefinitionClientScript =
  cs_Name :: string
  cs_Label :: string
  cs_Description :: string
  cs_Table :: string
  cs_Event :: string
  cs_Field :: string
  cs_Language :: string
  cs_Script :: string
  cs_Enabled :: bool

record AppDefinitionPage =
  pg_Name :: string
  pg_Slug :: string
  pg_Label :: string
  pg_Description :: string
  pg_SearchKeywords :: string
  pg_EditorMode :: string
  pg_Status :: string
  pg_Content :: string
  pg_Actions :: "AppDefinitionAction list"
  pg_Security :: AppDefinitionSecurity

record AppDefinitionRole =
  ro_Name :: string
  ro_Label :: string
  ro_Description :: string

record AppDefinitionAssetForm =
  af_Name :: string
  af_Table :: string
  af_Label :: string
  af_Description :: string
  af_Fields :: "string list"
  af_Layout :: "string list"
  af_Actions :: "AppDefinitionAction list"
  af_Security :: AppDefinitionSecurity

record AppDefinitionScriptEndpoint =
  sp_Enabled :: bool
  sp_Method :: string
  sp_Path :: string
  sp_Roles :: "string list"

record AppDefinitionScript =
  sc_Name :: string
  sc_Label :: string
  sc_Description :: string
  sc_Language :: string
  sc_Code :: string
  sc_Roles :: "string list"
  sc_Endpoint :: AppDefinitionScriptEndpoint
  sc_Scope :: string
  sc_TriggerType :: string
  sc_TableName :: string
  sc_EventName :: string
  sc_ConditionExpr :: string
  sc_Enabled :: bool
  sc_Status :: string
  sc_Script :: string

record AppDefinitionDocumentation =
  do_Name :: string
  do_Label :: string
  do_Description :: string
  do_Category :: string
  do_Visibility :: string
  do_Content :: string
  do_Related :: "string list"

record AppDefinitionMethod =
  me_Name :: string
  me_Label :: string
  me_Description :: string
  me_Visibility :: string
  me_Language :: string
  me_Roles :: "string list"
  me_Script :: string

record AppDefinitionService =
  sv_Name :: string
  sv_Label :: string
  sv_Description :: string
  sv_Methods :: "AppDefinitionMethod list"

record AppDefinitionEndpoint =
  en_Name :: string
  en_Label :: string
  en_Description :: string
  en_Method :: string
  en_Path :: string
  en_Call :: string
  en_Roles :: "string list"
  en_Enabled :: bool

record AppDefinitionSchedule =
  sh_Name :: string
  sh_Label :: string
  sh_Description :: string
  sh_Cron :: string
  sh_Call :: string
  sh_Enabled :: bool

record AppDefinitionSeed =
  sd_Table :: string
  sd_Rows :: "(string \<times> gval) list list"

record AppDefinition =
  ad_Name :: string
  ad_Namespace :: string
  ad_Label :: string
  ad_Description :: string
  ad_Dependencies :: "string list"
  ad_Roles :: "AppDefinitionRole list"
  ad_Tables :: "AppDefinitionTable list"
  ad_Forms :: "AppDefinitionAssetForm list"
  ad_Pages :: "AppDefinitionPage list"
  ad_ClientScripts :: "AppDefinitionClientScript list"
  ad_Seeds :: "AppDefinitionSeed list"
  ad_Documentation :: "AppDefinitionDocumentation list"
  ad_Services :: "AppDefinitionService list"
  ad_Endpoints :: "AppDefinitionEndpoint list"
  ad_Triggers :: "AppDefinitionTrigger list"
  ad_Schedules :: "AppDefinitionSchedule list"

record RegisteredApp =
  ra_ID :: string
  ra_Name :: string
  ra_Namespace :: string
  ra_Label :: string
  ra_Description :: string
  ra_Status :: string
  ra_DefinitionYAML :: string
  ra_PublishedDefinitionYAML :: string
  ra_DefinitionVersion :: int
  ra_PublishedVersion :: int
  ra_Definition :: "AppDefinition option"
  ra_DraftDefinition :: "AppDefinition option"

text \<open>A Go map read in iteration order, as an association list, and its lookup.\<close>

type_synonym record_map = "(string \<times> gval) list"

abbreviation mapget :: "('k \<times> 'v) list \<Rightarrow> 'k \<Rightarrow> 'v option" where
  "mapget \<equiv> map_of"

end
