(* ===== verification/DataTypes.thy ===== *)
theory DataTypes
  imports AppTypes
begin

text \<open>
  Identifiers and column data types: \<open>internal/db/Identifiers.go\<close>, \<open>internal/utils/IsValidUUID.go\<close>,
  \<open>internal/db/MetadataGuards.go\<close> and the normalisers of \<open>internal/db/AppDefinition.go\<close>. The fixed
  regular expressions of the source are predicates over the bytes; all of them are anchored at
  both ends.
\<close>

datatype meta_error =
    UnsafeIdentifier string
  | InvalidTableName
  | ReservedTableName
  | TableNameTooLong
  | InvalidColumnName
  | ReservedColumnName
  | ColumnNameTooLong
  | DataTypeRequired
  | VarcharSizeOutOfRange
  | UnsupportedDataType string
  | ReferenceTableMismatch string string
  | InvalidAutoNumberPrefix
  | AssignedUserNeedsGroup
  | AssignedUserNotMember

section \<open>Identifiers\<close>

definition ident_head :: "char \<Rightarrow> bool" where
  "ident_head c \<longleftrightarrow> is_upper_byte c \<or> is_lower_byte c \<or> c = CHR ''_''"

definition ident_tail :: "char \<Rightarrow> bool" where
  "ident_tail c \<longleftrightarrow> ident_head c \<or> is_digit_byte c"

definition IsSafeIdentifier :: "string \<Rightarrow> bool" where
  "IsSafeIdentifier s = (case s of [] \<Rightarrow> False | c # t \<Rightarrow> ident_head c \<and> list_all ident_tail t)"

definition QuoteIdentifier :: "string \<Rightarrow> (meta_error, string) result" where
  "QuoteIdentifier s = (if IsSafeIdentifier s then Inr (dquote # s @ [dquote]) else Inl (UnsafeIdentifier s))"

definition QuoteIdentifierList :: "string list \<Rightarrow> (meta_error, string list) result" where
  "QuoteIdentifierList names = map_result (\<lambda>n. QuoteIdentifier (TrimSpace n)) names"

definition is_hex_byte :: "char \<Rightarrow> bool" where
  "is_hex_byte c \<longleftrightarrow> is_digit_byte c \<or> (65 \<le> byte c \<and> byte c \<le> 70) \<or> (97 \<le> byte c \<and> byte c \<le> 102)"

fun uuid_groups :: "nat list \<Rightarrow> string \<Rightarrow> bool" where
  "uuid_groups [] s \<longleftrightarrow> s = []"
| "uuid_groups [n] s \<longleftrightarrow> length s = n \<and> list_all is_hex_byte s"
| "uuid_groups (n # ns) s \<longleftrightarrow> n < length s \<and> list_all is_hex_byte (take n s) \<and> s ! n = CHR ''-'' \<and> uuid_groups ns (drop (n + 1) s)"

definition IsValidUUID :: "string \<Rightarrow> bool" where
  "IsValidUUID s = uuid_groups [8, 4, 4, 4, 12] s"

definition nonblank_uniq :: "string list \<Rightarrow> string list" where
  "nonblank_uniq xs = uniq (filter (\<lambda>x. x \<noteq> []) xs)"

definition normalizeIdentifierList :: "string list \<Rightarrow> string list" where
  "normalizeIdentifierList items = nonblank_uniq (map (\<lambda>i. TrimSpace (ToLower i)) items)"

text \<open>One pass of \<open>strings.ReplaceAll(value, "__", "_")\<close>, and the loop that repeats it.\<close>

fun replace_double :: "string \<Rightarrow> string" where
  "replace_double (a # b # s) = (if a = CHR ''_'' \<and> b = CHR ''_'' then CHR ''_'' # replace_double s
     else a # replace_double (b # s))"
| "replace_double s = s"

lemma length_replace_double_le: "length (replace_double s) \<le> length s"
  by (induction s rule: replace_double.induct) auto

lemma length_replace_double: "Contains s ''__'' \<Longrightarrow> length (replace_double s) < length s"
proof (induction s rule: replace_double.induct)
  case (1 a b s)
  then show ?case
    using length_replace_double_le[of s] by (auto simp: Contains_sublist sublist_Cons_right less_Suc_eq_le split: if_splits)
qed auto

function collapse_underscores :: "string \<Rightarrow> string" where
  "collapse_underscores s = (if Contains s ''__'' then collapse_underscores (replace_double s) else s)"
  by pat_completeness auto
termination
  by (relation "measure length") (auto simp: length_replace_double)

declare collapse_underscores.simps [simp del]

definition TrimByte :: "char \<Rightarrow> string \<Rightarrow> string" where
  "TrimByte c s = rev (dropWhile (\<lambda>d. d = c) (rev (dropWhile (\<lambda>d. d = c) s)))"

definition normalizeLooseIdentifier :: "string \<Rightarrow> string" where
  "normalizeLooseIdentifier v = TrimByte (CHR ''_'') (collapse_underscores
     (ReplaceByte (CHR '' '') ''_'' (ReplaceByte (CHR ''-'') ''_'' (TrimSpace (ToLower v)))))"

section \<open>Table names\<close>

definition protectedTableNames :: "string list" where
  "protectedTableNames = [''_user'', ''_table'', ''_column'', ''_menu'', ''_property'', ''_role'', ''_permission'',
     ''_role_permission'', ''_user_role'', ''_audit_log'', ''_audit_data_change'', ''_request_metric'',
     ''_record_comment'', ''_security_log'', ''_user_preference'', ''_user_auth_factor'', ''_user_recovery_code'',
     ''_seed_pack_release'', ''_schema_migration'', ''_demo_seed'', ''_app'', ''_item'', ''_docs_library'',
     ''_docs_article'', ''_docs_article_version'', ''_ai_provider'', ''_ai_connection'', ''_ai_model'', ''base_counters'']"

definition adminOnlyTableNames :: "string list" where
  "adminOnlyTableNames = [''_audit_log'', ''_request_metric'', ''_group'', ''_group_membership'', ''_group_role'',
     ''_permission'', ''_property'', ''_role'', ''_role_inheritance'', ''_role_permission'', ''_user_role'',
     ''_ai_provider'', ''_ai_connection'', ''_ai_model'']"

definition immutableTableNames :: "string list" where
  "immutableTableNames = [''_audit_log'', ''_audit_data_change'', ''_request_metric'', ''_security_log'']"

definition IsAdminOnlyTableName :: "string \<Rightarrow> bool" where
  "IsAdminOnlyTableName name \<longleftrightarrow> TrimSpace (ToLower name) \<in> set adminOnlyTableNames"

definition IsImmutableTableName :: "string \<Rightarrow> bool" where
  "IsImmutableTableName name \<longleftrightarrow> TrimSpace (ToLower name) \<in> set immutableTableNames"

definition IsProtectedTableName :: "string \<Rightarrow> bool" where
  "IsProtectedTableName name = (let n = ToLower (TrimSpace name) in
     if n = [] then False else if HasPrefix n ''_'' then True else n \<in> set protectedTableNames)"

definition validateBuilderTableName :: "string \<Rightarrow> meta_error option" where
  "validateBuilderTableName name =
     (if \<not> IsSafeIdentifier name then Some InvalidTableName
      else if HasPrefix name ''_'' then Some ReservedTableName
      else if 63 < length name then Some TableNameTooLong else None)"

definition validateBuilderColumnName :: "string \<Rightarrow> meta_error option" where
  "validateBuilderColumnName name =
     (if \<not> IsSafeIdentifier name then Some InvalidColumnName
      else if HasPrefix name ''_'' then Some ReservedColumnName
      else if 63 < length name then Some ColumnNameTooLong else None)"

text \<open>
  The write guard of \<open>base_task\<close>. \<open>member g u\<close> stands for the membership query of the
  database: \<open>None\<close> when there is no pool or the query fails, else its answer.
\<close>

definition form_get :: "(string \<rightharpoonup> string) \<Rightarrow> string \<Rightarrow> string" where
  "form_get form k = (case form k of None \<Rightarrow> [] | Some v \<Rightarrow> v)"

definition validateBaseTaskMetadataWrite ::
  "(string \<Rightarrow> string \<Rightarrow> bool option) \<Rightarrow> (string \<rightharpoonup> string) \<Rightarrow> meta_error option" where
  "validateBaseTaskMetadataWrite member form =
     (let groupID = TrimSpace (form_get form ''assignment_group_id'');
          userID = TrimSpace (form_get form ''assigned_user_id'') in
      if userID = [] then None
      else if groupID = [] then Some AssignedUserNeedsGroup
      else if \<not> IsValidUUID groupID \<or> \<not> IsValidUUID userID then None
      else (case member groupID userID of Some False \<Rightarrow> Some AssignedUserNotMember | _ \<Rightarrow> None))"

definition ValidateMetadataWrite ::
  "(string \<Rightarrow> string \<Rightarrow> bool option) \<Rightarrow> string \<Rightarrow> (string \<rightharpoonup> string) \<Rightarrow> meta_error option" where
  "ValidateMetadataWrite member tableName form =
     (if TrimSpace (ToLower tableName) = ''base_task'' then validateBaseTaskMetadataWrite member form else None)"

section \<open>Data types\<close>

definition ref_prefix :: string where "ref_prefix = ''reference:''"
definition code_prefix :: string where "code_prefix = ''code:''"

definition normalizeDataType :: "string \<Rightarrow> string" where
  "normalizeDataType dataType =
     (let dt = ToLower (TrimSpace dataType) in
      if dt \<in> {''longtext'', ''long-text''} then ''long_text''
      else if dt \<in> {''rich_text'', ''rich-text''} then ''richtext''
      else if dt \<in> {''autonumber'', ''auto_number'', ''auto-number''} then ''autnumber''
      else if HasPrefix dt ref_prefix then
        (let refTable = normalizeIdentifier (TrimSpace (TrimPrefix dt ref_prefix))
         in if refTable = [] then ''reference'' else ref_prefix @ refTable)
      else if HasPrefix dt code_prefix then
        (let lang = TrimSpace (TrimPrefix dt code_prefix)
         in if lang = [] then ''code'' else code_prefix @ lang)
      else dt)"

definition BaseDataType :: "string \<Rightarrow> string" where
  "BaseDataType dataType = (let dt = normalizeDataType dataType in
     if HasPrefix dt ref_prefix then ''reference'' else if HasPrefix dt code_prefix then ''code'' else dt)"

definition IsReferenceDataType :: "string \<Rightarrow> bool" where
  "IsReferenceDataType dt \<longleftrightarrow> BaseDataType dt = ''reference''"

definition IsCodeDataType :: "string \<Rightarrow> bool" where
  "IsCodeDataType dt \<longleftrightarrow> BaseDataType dt = ''code''"

definition IsRichTextDataType :: "string \<Rightarrow> bool" where
  "IsRichTextDataType dt \<longleftrightarrow> BaseDataType dt = ''richtext''"

definition IsAutoNumberDataType :: "string \<Rightarrow> bool" where
  "IsAutoNumberDataType dt \<longleftrightarrow> BaseDataType dt = ''autnumber''"

definition DataTypeReferenceTable :: "string \<Rightarrow> string" where
  "DataTypeReferenceTable dataType = (let dt = normalizeDataType dataType in
     if \<not> HasPrefix dt ref_prefix then [] else TrimSpace (TrimPrefix dt ref_prefix))"

definition DataTypeCodeLanguage :: "string \<Rightarrow> string" where
  "DataTypeCodeLanguage dataType = (let dt = normalizeDataType dataType in
     if \<not> HasPrefix dt code_prefix then [] else TrimSpace (TrimPrefix dt code_prefix))"

definition ResolveReferenceTable :: "string \<Rightarrow> string \<Rightarrow> (meta_error, string) result" where
  "ResolveReferenceTable dataType explicit =
     (let typed = DataTypeReferenceTable dataType; ex = normalizeIdentifier explicit in
      if typed \<noteq> [] \<and> ex \<noteq> [] \<and> typed \<noteq> ex then Inl (ReferenceTableMismatch ex (normalizeDataType dataType))
      else if typed \<noteq> [] then Inr typed else Inr ex)"

definition builtinDataTypes :: "string list" where
  "builtinDataTypes = [''text'', ''int'', ''integer'', ''bigint'', ''bigserial'', ''serial'', ''float'', ''double'',
     ''decimal'', ''numeric'', ''bool'', ''boolean'', ''date'', ''timestamp'', ''timestamptz'', ''datetime'',
     ''uuid'', ''json'', ''jsonb'', ''reference'', ''choice'', ''long_text'', ''richtext'', ''markdown'', ''email'',
     ''url'', ''phone'', ''code'', ''autnumber'']"

text \<open>\<open>^varchar\(([1-9][0-9]{0,4})\)$\<close>, with the digits it captures.\<close>

definition match_varchar :: "string \<Rightarrow> string option" where
  "match_varchar s =
     (if HasPrefix s ''varchar('' \<and> HasSuffix s '')'' \<and> 9 < length s then
        (let ds = take (length s - 9) (drop 8 s) in
         if list_all is_digit_byte ds \<and> hd ds \<noteq> CHR ''0'' \<and> length ds \<le> 5 then Some ds else None)
      else None)"

definition enum_byte :: "char \<Rightarrow> bool" where
  "enum_byte c \<longleftrightarrow> is_lower_byte c \<or> is_digit_byte c \<or> c = CHR ''_'' \<or> c = CHR ''-''"

definition match_enum :: "string \<Rightarrow> bool" where
  "match_enum s \<longleftrightarrow> HasPrefix s ''enum:'' \<and>
     (let parts = Split1 (CHR ''|'') (drop 5 s) in
      2 \<le> length parts \<and> list_all (\<lambda>p. p \<noteq> [] \<and> list_all enum_byte p) parts)"

definition match_reference :: "string \<Rightarrow> bool" where
  "match_reference s \<longleftrightarrow> HasPrefix s ref_prefix \<and>
     (case drop 10 s of [] \<Rightarrow> False
      | c # t \<Rightarrow> (is_lower_byte c \<or> c = CHR ''_'') \<and> list_all (\<lambda>d. is_lower_byte d \<or> is_digit_byte d \<or> d = CHR ''_'') t)"

definition match_code :: "string \<Rightarrow> bool" where
  "match_code s \<longleftrightarrow> s = ''code'' \<or> HasPrefix s code_prefix \<and>
     (case drop 5 s of [] \<Rightarrow> False
      | c # t \<Rightarrow> (is_lower_byte c \<or> is_digit_byte c) \<and>
          list_all (\<lambda>d. is_lower_byte d \<or> is_digit_byte d \<or> d \<in> set ''_+.-'') t)"

definition validateBuilderColumnDataType :: "string \<Rightarrow> meta_error option" where
  "validateBuilderColumnDataType dataType =
     (let dt = normalizeDataType dataType in
      if dt = [] then Some DataTypeRequired
      else if dt \<in> set builtinDataTypes then None
      else (case match_varchar dt of
          Some ds \<Rightarrow> (if digits_val 0 ds < 1 \<or> 65535 < digits_val 0 ds then Some VarcharSizeOutOfRange else None)
        | None \<Rightarrow> if match_enum dt \<or> match_reference dt \<or> match_code dt then None
            else Some (UnsupportedDataType dataType)))"

definition normalizeAutoNumberPrefix :: "string \<Rightarrow> string" where
  "normalizeAutoNumberPrefix p = ToUpper (TrimSpace p)"

definition validateAutoNumberPrefix :: "string \<Rightarrow> meta_error option" where
  "validateAutoNumberPrefix p = (let q = normalizeAutoNumberPrefix p in
     if (length q = 3 \<or> length q = 4) \<and> list_all is_upper_byte q then None else Some InvalidAutoNumberPrefix)"

end
