(* ===== verification/Validation.thy ===== *)
theory Validation
  imports DataTypes
begin

text \<open>
  Validation of a submitted form, \<open>internal/db/Validation.go\<close>: conditions, required fields, the
  check of a value against its data type, and the regular-expression and expression rules of a
  column.

  The pattern language of \<open>regexp\<close> and the grammars of \<open>net/mail\<close> and \<open>net/url\<close> are the fields of
  a record \<open>checkers\<close>, an argument of the functions that use them: \<open>ck_regex p v\<close> is \<open>None\<close> when
  the pattern does not compile and else whether it matches, \<open>ck_mail v\<close> and \<open>ck_uri v\<close> say whether
  the value parses as an address and as a request URI with a scheme and a host.
\<close>

record checkers =
  ck_regex :: "string \<Rightarrow> string \<Rightarrow> bool option"
  ck_mail :: "string \<Rightarrow> bool"
  ck_uri :: "string \<Rightarrow> bool"

datatype form_error =
    FieldRequired string
  | ExceedsMaxLength string int
  | MustBeInteger string
  | MustBeNumber string
  | MustBeBoolean string
  | MustBeUUID string
  | NotAllowedValue string
  | MustBeDate string
  | MustBeTimestamp string
  | MustBeEmail string
  | MustBeURL string
  | MustBePhone string
  | BadAutoNumberPrefix string
  | MustMatchAutoNumber string string
  | BadValidationExpr string
  | FailedWithMessage string string
  | FailedValidation string
  | BadValidationRegex string

section \<open>Data types\<close>

text \<open>\<open>(?i)^varchar\((\d+)\)$\<close> and \<open>parseMaxLength\<close>; 0 when there is no bound.\<close>

definition parseMaxLength :: "string \<Rightarrow> int" where
  "parseMaxLength dataType =
     (let s = ToLower dataType; ds = take (length s - 9) (drop 8 s) in
      if HasPrefix s ''varchar('' \<and> HasSuffix s '')'' \<and> 9 < length s \<and> list_all is_digit_byte ds
      then (case ParseInt10 ds of None \<Rightarrow> 0 | Some v \<Rightarrow> v) else 0)"

definition phone_byte :: "char \<Rightarrow> bool" where
  "phone_byte c \<longleftrightarrow> is_digit_byte c \<or> c \<in> set ''+- ().''"

definition looksLikePhoneNumber :: "string \<Rightarrow> bool" where
  "looksLikePhoneNumber v \<longleftrightarrow> list_all phone_byte v \<and> 6 \<le> length (filter is_digit_byte v)"

definition validateEnum :: "string \<Rightarrow> string \<Rightarrow> string \<Rightarrow> form_error option" where
  "validateEnum col enumList v =
     (if v \<in> set (map TrimSpace (Split1 (CHR ''|'') enumList)) then None else Some (NotAllowedValue col))"

definition validateChoices :: "string \<Rightarrow> ChoiceOption list \<Rightarrow> string \<Rightarrow> form_error option" where
  "validateChoices col choices v =
     (if v \<in> set (map (\<lambda>c. TrimSpace (ch_Value c)) choices) then None else Some (NotAllowedValue col))"

definition validateAutoNumberValue :: "string \<Rightarrow> string \<Rightarrow> string \<Rightarrow> form_error option" where
  "validateAutoNumberValue col pfx v =
     (let p = normalizeAutoNumberPrefix pfx; t = TrimSpace v; head = p @ ''-'' in
      if validateAutoNumberPrefix p \<noteq> None then Some (BadAutoNumberPrefix col)
      else if HasPrefix t head \<and> list_all is_digit_byte (TrimPrefix t head) \<and> 6 \<le> length (TrimPrefix t head)
        then None else Some (MustMatchAutoNumber col p))"

definition check :: "bool \<Rightarrow> 'e \<Rightarrow> 'e option" where
  "check b e = (if b then None else Some e)"

definition validateDataType ::
  "checkers \<Rightarrow> string \<Rightarrow> string \<Rightarrow> string \<Rightarrow> ChoiceOption list \<Rightarrow> string \<Rightarrow> form_error option" where
  "validateDataType ck col dataType v choices pfx =
     (let dt = normalizeDataType dataType; base = BaseDataType dt; maxLength = parseMaxLength dt in
      if 0 < maxLength \<and> maxLength < int (length v) then Some (ExceedsMaxLength col maxLength)
      else if base \<in> {''int'', ''integer'', ''bigint'', ''bigserial'', ''serial''}
        then check (ParseInt10 v \<noteq> None) (MustBeInteger col)
      else if base \<in> {''float'', ''double'', ''decimal'', ''numeric''}
        then check (ParseFloat v \<noteq> None) (MustBeNumber col)
      else if base \<in> {''bool'', ''boolean''}
        then check (ToLower v \<in> {''true'', ''false''}) (MustBeBoolean col)
      else if base \<in> {''uuid'', ''reference''} then check (IsValidUUID v) (MustBeUUID col)
      else if base = ''choice'' then validateChoices col choices v
      else if base = ''date'' then check (time_Parse date_chunks v \<noteq> None) (MustBeDate col)
      else if base \<in> {''timestamp'', ''timestamptz'', ''datetime''}
        then check (parseTimestamp v \<noteq> None) (MustBeTimestamp col)
      else if base = ''email'' then check (ck_mail ck v) (MustBeEmail col)
      else if base = ''url'' then check (ck_uri ck v) (MustBeURL col)
      else if base = ''phone'' then check (looksLikePhoneNumber v) (MustBePhone col)
      else if base = ''autnumber'' then validateAutoNumberValue col pfx v
      else if HasPrefix dt ''enum:'' then validateEnum col (TrimPrefix dt ''enum:'') v
      else None)"

definition null_string :: "string option \<Rightarrow> string" where
  "null_string s = (case s of None \<Rightarrow> [] | Some v \<Rightarrow> v)"

definition validateColumnValue :: "checkers \<Rightarrow> Column \<Rightarrow> string \<Rightarrow> form_error option" where
  "validateColumnValue ck c v =
     validateDataType ck (co_NAME c) (co_DATA_TYPE c) v (co_CHOICES c) (null_string (co_PREFIX c))"

section \<open>Rules of a column\<close>

definition conditionMatches :: "gotime \<Rightarrow> string option \<Rightarrow> (string \<rightharpoonup> string) \<Rightarrow> bool" where
  "conditionMatches now rule form =
     (case rule of None \<Rightarrow> True
      | Some r \<Rightarrow> (let expr = TrimSpace r in
          if expr = [] then True
          else (case evaluateBooleanExpression now expr form [] of Inl _ \<Rightarrow> True | Inr b \<Rightarrow> b)))"

definition validateExpressionRule :: "gotime \<Rightarrow> Column \<Rightarrow> (string \<rightharpoonup> string) \<Rightarrow> form_error option" where
  "validateExpressionRule now c form =
     (let expr = TrimSpace (null_string (co_VALIDATION_EXPR c)) in
      if expr = [] then None
      else (case evaluateBooleanExpression now expr form (co_NAME c) of
          Inl _ \<Rightarrow> Some (BadValidationExpr (co_NAME c))
        | Inr True \<Rightarrow> None
        | Inr False \<Rightarrow> (let message = TrimSpace (null_string (co_VALIDATION_MSG c)) in
            Some (if message \<noteq> [] then FailedWithMessage (co_NAME c) message else FailedValidation (co_NAME c)))))"

definition validateRegexRule :: "checkers \<Rightarrow> string \<Rightarrow> string option \<Rightarrow> string \<Rightarrow> form_error option" where
  "validateRegexRule ck col rule v =
     (let pattern = TrimSpace (null_string rule) in
      if pattern = [] then None
      else (case ck_regex ck pattern v of
          None \<Rightarrow> Some (BadValidationRegex col)
        | Some m \<Rightarrow> check m (FailedValidation col)))"

definition is_required :: "bool \<Rightarrow> Column \<Rightarrow> bool" where
  "is_required isCreate c \<longleftrightarrow> \<not> co_IS_NULLABLE c \<and> co_DEFAULT_VALUE c = None
     \<and> \<not> (isCreate \<and> IsAutoNumberDataType (co_DATA_TYPE c))"

definition or_else :: "'e option \<Rightarrow> 'e option \<Rightarrow> 'e option" where
  "or_else a b = (case a of Some e \<Rightarrow> Some e | None \<Rightarrow> b)"

lemma or_else_None [simp]: "or_else a b = None \<longleftrightarrow> a = None \<and> b = None"
  by (simp add: or_else_def split: option.splits)

text \<open>The body of the loop over the columns.\<close>

definition validate_column ::
  "checkers \<Rightarrow> gotime \<Rightarrow> (string \<rightharpoonup> string) \<Rightarrow> bool \<Rightarrow> Column \<Rightarrow> form_error option" where
  "validate_column ck now form isCreate c =
     (if HasPrefix (co_NAME c) ''_'' then None
      else if \<not> conditionMatches now (co_CONDITION_EXPR c) form then None
      else
        (let hasValue = (form (co_NAME c) \<noteq> None); trimmed = TrimSpace (form_get form (co_NAME c)) in
         if is_required isCreate c \<and> ((isCreate \<and> trimmed = []) \<or> (hasValue \<and> trimmed = []))
           then Some (FieldRequired (co_NAME c))
         else if \<not> hasValue \<or> trimmed = [] then validateExpressionRule now c form
         else or_else (validateColumnValue ck c trimmed)
           (or_else (validateRegexRule ck (co_NAME c) (co_VALIDATION_REGEX c) trimmed)
             (validateExpressionRule now c form))))"

definition ValidateFormWrite ::
  "checkers \<Rightarrow> gotime \<Rightarrow> Column list \<Rightarrow> (string \<rightharpoonup> string) \<Rightarrow> bool \<Rightarrow> form_error option" where
  "ValidateFormWrite ck now columns form isCreate = check_all (validate_column ck now form isCreate) columns"

section \<open>Specification\<close>

text \<open>When a column takes part in validation at all.\<close>

definition column_active :: "gotime \<Rightarrow> (string \<rightharpoonup> string) \<Rightarrow> Column \<Rightarrow> bool" where
  "column_active now form c \<longleftrightarrow> \<not> HasPrefix (co_NAME c) ''_'' \<and> conditionMatches now (co_CONDITION_EXPR c) form"

definition has_text :: "(string \<rightharpoonup> string) \<Rightarrow> Column \<Rightarrow> bool" where
  "has_text form c \<longleftrightarrow> form (co_NAME c) \<noteq> None \<and> TrimSpace (form_get form (co_NAME c)) \<noteq> []"

text \<open>What a well-formed write must satisfy for an active column, without an order of checks.\<close>

definition column_ok :: "checkers \<Rightarrow> gotime \<Rightarrow> (string \<rightharpoonup> string) \<Rightarrow> bool \<Rightarrow> Column \<Rightarrow> bool" where
  "column_ok ck now form isCreate c \<longleftrightarrow>
     (is_required isCreate c \<and> (isCreate \<or> form (co_NAME c) \<noteq> None) \<longrightarrow> has_text form c) \<and>
     (has_text form c \<longrightarrow>
        validateColumnValue ck c (TrimSpace (form_get form (co_NAME c))) = None \<and>
        validateRegexRule ck (co_NAME c) (co_VALIDATION_REGEX c) (TrimSpace (form_get form (co_NAME c))) = None) \<and>
     validateExpressionRule now c form = None"

definition column_admissible :: "checkers \<Rightarrow> gotime \<Rightarrow> (string \<rightharpoonup> string) \<Rightarrow> bool \<Rightarrow> Column \<Rightarrow> bool" where
  "column_admissible ck now form isCreate c =
     (if column_active now form c then column_ok ck now form isCreate c else True)"

lemma validate_column_spec:
  "validate_column ck now form isCreate c = None \<longleftrightarrow> column_admissible ck now form isCreate c"
  by (auto simp: validate_column_def column_admissible_def column_active_def column_ok_def has_text_def
      Let_def form_get_def split: if_splits option.splits)

text \<open>
  C21: \<open>ValidateFormWrite\<close> accepts a form exactly when every active column (not a system column,
  its condition holding) meets its declarative specification: a required field that must be
  present has a value, a value has the column's data type and matches its pattern, and the
  column's expression rule holds.
\<close>
theorem ValidateFormWrite_spec:
  "ValidateFormWrite ck now columns form isCreate = None \<longleftrightarrow>
     list_all (column_admissible ck now form isCreate) columns"
  by (simp add: ValidateFormWrite_def check_all_None list_all_iff validate_column_spec)

end
