(* ===== verification/AppLookup.thy ===== *)
theory AppLookup
  imports Validation
begin

text \<open>
  How the runtime finds its way through the registered apps: app names and namespaces
  (\<open>OOTBApp.go\<close>, \<open>ScriptScope.go\<close>, \<open>AppDefinition.go\<close>), the definition of an app that counts, the
  roles of an app, the gate of its entry points and the endpoints (\<open>AppRuntime.go\<close>).

  A loop over a Go map visits its entries in an order the runtime chooses. Where the result can
  depend on it, the function takes the list of entries in that order.
\<close>

abbreviation trim_lower :: "string \<Rightarrow> string" where
  "trim_lower s \<equiv> TrimSpace (ToLower s)"

datatype app_error =
    AppRequired
  | ServiceMethodNotFound string
  | QueryFailed string
  | ScriptFailed string
  | TableNameRequired
  | CyclicInheritance string
  | DefinitionNotAvailable string
  | ExtendedTableNotFound string

section \<open>Apps by name\<close>

definition runtimeDefinitionForApp :: "RegisteredApp \<Rightarrow> AppDefinition option" where
  "runtimeDefinitionForApp app = (case ra_Definition app of Some d \<Rightarrow> Some d | None \<Rightarrow> ra_DraftDefinition app)"

definition effectiveRegisteredAppDefinition :: "RegisteredApp \<Rightarrow> AppDefinition option" where
  "effectiveRegisteredAppDefinition app =
     (case ra_DraftDefinition app of Some d \<Rightarrow> Some d | None \<Rightarrow> ra_Definition app)"

definition isOOTBBaseAppName :: "string \<Rightarrow> string \<Rightarrow> bool" where
  "isOOTBBaseAppName appName namespace \<longleftrightarrow> normalizeIdentifier namespace = [] \<and> normalizeIdentifier appName = ''base''"

definition isOOTBAdminAppName :: "string \<Rightarrow> string \<Rightarrow> bool" where
  "isOOTBAdminAppName appName namespace \<longleftrightarrow> normalizeIdentifier namespace = [] \<and>
     (normalizeIdentifier appName = ''system'' \<or> normalizeIdentifier appName = ''base'')"

definition IsOOTBBaseApp :: "RegisteredApp \<Rightarrow> bool" where
  "IsOOTBBaseApp app = isOOTBBaseAppName (ra_Name app) (ra_Namespace app)"

definition appUsesOOTBLandingPage :: "RegisteredApp \<Rightarrow> bool" where
  "appUsesOOTBLandingPage app = isOOTBAdminAppName (ra_Name app) (ra_Namespace app)"

definition definitionOwnsPhysicalSchema :: "AppDefinition option \<Rightarrow> bool" where
  "definitionOwnsPhysicalSchema d = (case d of None \<Rightarrow> False
     | Some d \<Rightarrow> normalizeIdentifier (ad_Namespace d) \<noteq> [] \<or> isOOTBBaseAppName (ad_Name d) (ad_Namespace d))"

definition appOwnsPhysicalSchema :: "RegisteredApp \<Rightarrow> bool" where
  "appOwnsPhysicalSchema app \<longleftrightarrow>
     normalizeIdentifier (ra_Namespace app) \<noteq> [] \<or> isOOTBBaseAppName (ra_Name app) (ra_Namespace app)"

definition findExactRegisteredAppByNameOrNamespace :: "RegisteredApp list \<Rightarrow> string \<Rightarrow> RegisteredApp option" where
  "findExactRegisteredAppByNameOrNamespace apps rawName =
     (let name = normalizeIdentifier rawName in
      if name = [] then None
      else find (\<lambda>app. EqualFold (ra_Name app) name \<or> EqualFold (ra_Namespace app) name) apps)"

definition findRegisteredAppByNameOrNamespace :: "RegisteredApp list \<Rightarrow> string \<Rightarrow> RegisteredApp option" where
  "findRegisteredAppByNameOrNamespace apps rawName =
     (case findExactRegisteredAppByNameOrNamespace apps rawName of
        Some app \<Rightarrow> Some app
      | None \<Rightarrow> if normalizeIdentifier rawName = ''system'' then find IsOOTBBaseApp apps else None)"

definition mergeRegisteredApps :: "RegisteredApp list \<Rightarrow> RegisteredApp \<Rightarrow> RegisteredApp list" where
  "mergeRegisteredApps apps app =
     (let name = trim_lower (ra_Name app); namespace = trim_lower (ra_Namespace app);
          same = (\<lambda>c. EqualFold (ra_Name c) name \<or> (namespace \<noteq> [] \<and> EqualFold (ra_Namespace c) namespace))
      in map (\<lambda>c. if same c then app else c) apps @ (if list_ex same apps then [] else [app]))"

text \<open>
  The dependency apps of a definition, a Go map from the name of the app found; a later entry with
  the same name replaces the earlier one.
\<close>

definition dependency_map :: "RegisteredApp list \<Rightarrow> AppDefinition option \<Rightarrow> (string \<rightharpoonup> RegisteredApp)" where
  "dependency_map apps d = (case d of None \<Rightarrow> Map.empty
     | Some d \<Rightarrow> foldl (\<lambda>m dep. case findRegisteredAppByNameOrNamespace apps dep of
          Some app \<Rightarrow> m(ra_Name app \<mapsto> app) | None \<Rightarrow> m) Map.empty (ad_Dependencies d))"

definition runtimeDependencyApps :: "RegisteredApp list \<Rightarrow> RegisteredApp \<Rightarrow> (string \<rightharpoonup> RegisteredApp)" where
  "runtimeDependencyApps apps owner = dependency_map apps (runtimeDefinitionForApp owner)"

definition dependencyAppsForRegisteredApp :: "RegisteredApp list \<Rightarrow> RegisteredApp \<Rightarrow> (string \<rightharpoonup> RegisteredApp)" where
  "dependencyAppsForRegisteredApp apps owner = dependency_map apps (effectiveRegisteredAppDefinition owner)"

text \<open>A list of entries in which a loop over the map may visit it.\<close>

definition visits :: "'a list \<Rightarrow> (string \<rightharpoonup> 'a) \<Rightarrow> bool" where
  "visits xs m \<longleftrightarrow> (\<exists>ks. distinct ks \<and> set ks = dom m \<and> map Some xs = map m ks)"

lemma set_visits: "visits xs m \<Longrightarrow> set xs = ran m"
proof -
  assume "visits xs m"
  then obtain ks where ks: "set ks = dom m" "map Some xs = map m ks" by (auto simp: visits_def)
  then have "Some ` set xs = m ` dom m" by (metis list.set_map)
  also have "\<dots> = Some ` ran m" by (force simp: ran_def dom_def image_iff)
  finally show ?thesis by (simp add: inj_image_eq_iff)
qed

section \<open>Roles and entry points\<close>

definition appScopedRoleName :: "RegisteredApp \<Rightarrow> string \<Rightarrow> string" where
  "appScopedRoleName app roleName =
     (let role = trim_lower roleName;
          scope = (if trim_lower (ra_Namespace app) = [] then trim_lower (ra_Name app) else trim_lower (ra_Namespace app))
      in if role = [] then [] else if scope = [] then role else scope @ ''.'' @ role)"

definition AuthenticatedRole :: string where "AuthenticatedRole = ''authenticated''"

definition isReservedRoleName :: "string \<Rightarrow> bool" where
  "isReservedRoleName name \<longleftrightarrow> trim_lower name = AuthenticatedRole"

definition rolesGrantAnyAuthenticatedUser :: "string list \<Rightarrow> bool" where
  "rolesGrantAnyAuthenticatedUser roles = list_ex isReservedRoleName roles"

definition role_candidates :: "RegisteredApp \<Rightarrow> string \<Rightarrow> string list" where
  "role_candidates app r = (let role = trim_lower r in
     if role = [] then [] else [trim_lower (appScopedRoleName app role), trim_lower role])"

definition appRoleCandidates :: "RegisteredApp \<Rightarrow> string list \<Rightarrow> string list" where
  "appRoleCandidates app roles = nonblank_uniq (concat (map (role_candidates app) roles))"

text \<open>
  \<open>UserHasAnyRole\<close>; \<open>holds u a rs\<close> is the answer of its query, whether \<open>u\<close> effectively holds one
  of the roles \<open>rs\<close> in the scope of the app \<open>a\<close>.
\<close>

definition UserHasAnyRole ::
  "(string \<Rightarrow> string \<Rightarrow> string list \<Rightarrow> (app_error, bool) result) \<Rightarrow> string \<Rightarrow> string \<Rightarrow> string list
     \<Rightarrow> (app_error, bool) result" where
  "UserHasAnyRole holds userID appID roleNames =
     (let user = TrimSpace userID; names = nonblank_uniq (map trim_lower roleNames) in
      if user = [] \<or> roleNames = [] then Inr False
      else if names = [] then Inr False else holds user (TrimSpace appID) names)"

definition appEntryPointAccessAllowed ::
  "(string \<Rightarrow> string \<Rightarrow> string list \<Rightarrow> (app_error, bool) result) \<Rightarrow> RegisteredApp \<Rightarrow> string list \<Rightarrow> string
     \<Rightarrow> (app_error, bool) result" where
  "appEntryPointAccessAllowed holds app roles userID =
     (if rolesGrantAnyAuthenticatedUser roles then Inr (TrimSpace userID \<noteq> [])
      else if appRoleCandidates app roles = [] then Inr False
      else UserHasAnyRole holds userID (ra_ID app) (appRoleCandidates app roles))"

lemma trim_lower_idem [simp, norm_simps]: "trim_lower (trim_lower s) = trim_lower s"
  by (simp add: TrimSpace_ToLower [symmetric] del: TrimSpace_ToLower)

text \<open>A candidate is a declared role, with or without the scope of the app, and never blank.\<close>

lemma set_nonblank_uniq: "set (nonblank_uniq xs) = set xs - {[]}"
  by (auto simp: nonblank_uniq_def)

lemma appRoleCandidates_nonblank: "[] \<notin> set (appRoleCandidates app roles)"
  by (simp add: appRoleCandidates_def set_nonblank_uniq)

lemma nonblank_uniq_Nil_iff: "nonblank_uniq xs = [] \<longleftrightarrow> set xs \<subseteq> {[]}"
proof -
  have "nonblank_uniq xs = [] \<longleftrightarrow> set (nonblank_uniq xs) = {}" by simp
  then show ?thesis unfolding set_nonblank_uniq by blast
qed

lemma role_candidates_blank: "set (role_candidates app r) \<subseteq> {[]} \<longleftrightarrow> trim_lower r = []"
  by (cases "trim_lower r = []") (simp_all add: role_candidates_def Let_def)

lemma appRoleCandidates_Nil_iff: "appRoleCandidates app roles = [] \<longleftrightarrow> (\<forall>r \<in> set roles. trim_lower r = [])"
  unfolding appRoleCandidates_def nonblank_uniq_Nil_iff set_concat set_map
  by (simp only: role_candidates_blank [symmetric, of _ app]) blast

section \<open>Endpoints\<close>

definition normalizeHTTPMethod :: "string \<Rightarrow> string" where
  "normalizeHTTPMethod m = TrimSpace (ToUpper m)"

definition normalizeEndpointPath :: "string \<Rightarrow> string" where
  "normalizeEndpointPath path = (let p = TrimSpace path in
     if p = [] then [] else if HasPrefix p ''/'' then p else ''/'' @ p)"

definition TrimRightByte :: "char \<Rightarrow> string \<Rightarrow> string" where
  "TrimRightByte c s = rev (dropWhile (\<lambda>d. d = c) (rev s))"

definition normalizeRuntimePath :: "string \<Rightarrow> string" where
  "normalizeRuntimePath path =
     (let p = TrimSpace path; q = (if HasPrefix p ''/'' then p else ''/'' @ p) in
      if p = [] then ''/'' else if q \<noteq> ''/'' then TrimRightByte (CHR ''/'') q else q)"

fun firstNonEmpty :: "string list \<Rightarrow> string" where
  "firstNonEmpty [] = []"
| "firstNonEmpty (v # vs) = (if TrimSpace v \<noteq> [] then TrimSpace v else firstNonEmpty vs)"

definition endpoint_matches :: "string \<Rightarrow> string \<Rightarrow> AppDefinitionEndpoint \<Rightarrow> bool" where
  "endpoint_matches meth path e \<longleftrightarrow> en_Enabled e \<and> normalizeHTTPMethod (en_Method e) = meth
     \<and> normalizeRuntimePath (en_Path e) = path"

fun resolveAppRuntimeEndpointWithApps ::
  "RegisteredApp list \<Rightarrow> string \<Rightarrow> string \<Rightarrow> (RegisteredApp \<times> AppDefinitionEndpoint) option" where
  "resolveAppRuntimeEndpointWithApps [] meth path = None"
| "resolveAppRuntimeEndpointWithApps (app # apps) meth path =
     (case runtimeDefinitionForApp app of
        None \<Rightarrow> resolveAppRuntimeEndpointWithApps apps meth path
      | Some d \<Rightarrow> (case find (endpoint_matches (normalizeHTTPMethod meth) (normalizeRuntimePath path)) (ad_Endpoints d) of
            Some e \<Rightarrow> Some (app, e)
          | None \<Rightarrow> resolveAppRuntimeEndpointWithApps apps meth path))"

text \<open>\<open>ResolveAppRuntimeEndpoint\<close> reports a match only when the app it belongs to has a name.\<close>

definition ResolveAppRuntimeEndpoint ::
  "RegisteredApp list \<Rightarrow> string \<Rightarrow> string \<Rightarrow> (RegisteredApp \<times> AppDefinitionEndpoint) option" where
  "ResolveAppRuntimeEndpoint apps meth path = (case resolveAppRuntimeEndpointWithApps apps meth path of
     Some (app, e) \<Rightarrow> if ra_Name app = [] then None else Some (app, e) | None \<Rightarrow> None)"

definition AppEndpointAccessAllowed ::
  "(string \<Rightarrow> string \<Rightarrow> string list \<Rightarrow> (app_error, bool) result) \<Rightarrow> RegisteredApp \<times> AppDefinitionEndpoint
     \<Rightarrow> string \<Rightarrow> (app_error, bool) result" where
  "AppEndpointAccessAllowed holds e userID = appEntryPointAccessAllowed holds (fst e) (en_Roles (snd e)) userID"

definition AppServiceMethodAccessAllowed ::
  "(string \<Rightarrow> string \<Rightarrow> string list \<Rightarrow> (app_error, bool) result) \<Rightarrow> RegisteredApp \<Rightarrow> AppDefinitionMethod
     \<Rightarrow> string \<Rightarrow> (app_error, bool) result" where
  "AppServiceMethodAccessAllowed holds app m userID = appEntryPointAccessAllowed holds app (me_Roles m) userID"

lemma find_Some_mem: "find P xs = Some x \<Longrightarrow> x \<in> set xs \<and> P x"
  by (auto simp: find_Some_iff)

lemma resolveAppRuntimeEndpointWithApps_Some:
  "resolveAppRuntimeEndpointWithApps apps meth path = Some (app, e) \<Longrightarrow>
     app \<in> set apps \<and> (\<exists>d. runtimeDefinitionForApp app = Some d \<and> e \<in> set (ad_Endpoints d))
     \<and> endpoint_matches (normalizeHTTPMethod meth) (normalizeRuntimePath path) e"
  by (induction apps) (auto split: option.splits dest: find_Some_mem)

lemma resolveAppRuntimeEndpointWithApps_None:
  "resolveAppRuntimeEndpointWithApps apps meth path = None \<Longrightarrow> app \<in> set apps \<Longrightarrow>
     runtimeDefinitionForApp app = Some d \<Longrightarrow> e \<in> set (ad_Endpoints d) \<Longrightarrow>
     \<not> endpoint_matches (normalizeHTTPMethod meth) (normalizeRuntimePath path) e"
  by (induction apps) (auto split: option.splits simp: find_None_iff)

section \<open>The gate of the entry points\<close>

lemma set_appRoleCandidates_normal: "c \<in> set (appRoleCandidates app roles) \<Longrightarrow> trim_lower c = c"
  by (auto simp: appRoleCandidates_def set_nonblank_uniq role_candidates_def Let_def split: if_splits)

lemma nonblank_uniq_id: "distinct xs \<Longrightarrow> [] \<notin> set xs \<Longrightarrow> nonblank_uniq xs = xs"
proof -
  assume "distinct xs" "[] \<notin> set xs"
  then have "filter (\<lambda>x. x \<noteq> []) xs = xs" by (intro filter_True) auto
  with \<open>distinct xs\<close> show ?thesis by (simp add: nonblank_uniq_def uniq_id)
qed

lemma nonblank_uniq_candidates:
  "nonblank_uniq (map trim_lower (appRoleCandidates app roles)) = appRoleCandidates app roles"
proof -
  have "map trim_lower (appRoleCandidates app roles) = appRoleCandidates app roles"
    by (rule map_idI) (rule set_appRoleCandidates_normal)
  moreover have "distinct (appRoleCandidates app roles)" by (simp add: appRoleCandidates_def nonblank_uniq_def)
  ultimately show ?thesis by (simp add: nonblank_uniq_id appRoleCandidates_nonblank)
qed

text \<open>
  C20: an HTTP entry point of an app is open to a caller exactly when the caller is signed in and
  either the declaration names the reserved role of every signed-in user, or it names a role that
  is not blank and the caller effectively holds one of the candidates, the declared names with and
  without the scope of the app. In particular an empty or blank role list denies everyone.
\<close>
theorem entry_point_gate:
  "appEntryPointAccessAllowed holds app roles userID = Inr True \<longleftrightarrow>
     TrimSpace userID \<noteq> [] \<and>
     (rolesGrantAnyAuthenticatedUser roles \<or>
      appRoleCandidates app roles \<noteq> [] \<and>
      holds (TrimSpace userID) (TrimSpace (ra_ID app)) (appRoleCandidates app roles) = Inr True)"
  by (auto simp: appEntryPointAccessAllowed_def UserHasAnyRole_def Let_def nonblank_uniq_candidates)

end
