(* ===== verification/AppDispatch.thy ===== *)
theory AppDispatch
  imports AppLookup "HOL-Library.Multiset"
begin

text \<open>
  Service methods and record triggers, \<open>internal/db/AppRuntime.go\<close>: which method a call names,
  which triggers fire for a write and in which order, and the loop that runs them over the record.

  Two things are arguments. \<open>order\<close> lists the entries of the dependency map in the order the
  runtime visits them. \<open>engine\<close> is the JavaScript engine together with the transaction it runs
  in: the outcome of a script for given options. \<open>scopes\<close> is the outcome of \<open>GetScriptScope\<close>.
\<close>

section \<open>Service methods\<close>

definition findRuntimeServiceMethod :: "RegisteredApp \<Rightarrow> string \<Rightarrow> string \<Rightarrow> AppDefinitionMethod option" where
  "findRuntimeServiceMethod app serviceName methodName =
     (case runtimeDefinitionForApp app of None \<Rightarrow> None
      | Some d \<Rightarrow> find (\<lambda>m. trim_lower (me_Name m) = methodName)
          (concat (map sv_Methods (filter (\<lambda>s. trim_lower (sv_Name s) = serviceName) (ad_Services d)))))"

definition is_public :: "AppDefinitionMethod \<Rightarrow> bool" where
  "is_public m \<longleftrightarrow> trim_lower (me_Visibility m) = ''public''"

fun first_public :: "RegisteredApp list \<Rightarrow> string \<Rightarrow> string \<Rightarrow> (RegisteredApp \<times> AppDefinitionMethod) option" where
  "first_public [] sn mn = None"
| "first_public (dep # deps) sn mn =
     (case findRuntimeServiceMethod dep sn mn of
        Some m \<Rightarrow> if is_public m then Some (dep, m) else first_public deps sn mn
      | None \<Rightarrow> first_public deps sn mn)"

definition resolveRuntimeServiceMethodWithApps ::
  "((string \<rightharpoonup> RegisteredApp) \<Rightarrow> RegisteredApp list) \<Rightarrow> RegisteredApp list \<Rightarrow> RegisteredApp \<Rightarrow> string \<Rightarrow> bool
     \<Rightarrow> (RegisteredApp \<times> AppDefinitionMethod) option" where
  "resolveRuntimeServiceMethodWithApps order apps currentApp call requirePublic =
     (case cut1 (CHR ''.'') (trim_lower call) of
        None \<Rightarrow> None
      | Some (sn, mn) \<Rightarrow>
          if sn = [] \<or> mn = [] then None
          else (case findRuntimeServiceMethod currentApp sn mn of
              Some m \<Rightarrow> if \<not> requirePublic \<or> is_public m \<or> trim_lower (me_Visibility m) = []
                then Some (currentApp, m) else None
            | None \<Rightarrow> first_public (order (runtimeDependencyApps apps currentApp)) sn mn))"

record AppServiceMethodCall =
  mc_App :: RegisteredApp
  mc_Call :: string
  mc_TableName :: string
  mc_EventName :: string
  mc_TriggerType :: string
  mc_UserID :: string
  mc_System :: bool
  mc_RequestID :: string
  mc_Input :: gval
  mc_Payload :: gval
  mc_Record :: record_map
  mc_Previous :: record_map
  mc_RequirePublic :: bool

record ScriptExecutionOptions =
  so_Code :: string
  so_AppScope :: string
  so_TableName :: string
  so_EventName :: string
  so_TriggerType :: string
  so_Language :: string
  so_UserID :: string
  so_System :: bool
  so_RequestID :: string
  so_Input :: gval
  so_Payload :: gval
  so_Record :: record_map
  so_PreviousRecord :: record_map

record ScriptExecutionResult =
  rs_Result :: gval
  rs_Output :: string
  rs_CurrentRecord :: record_map

text \<open>The checks before the engine starts.\<close>

definition executeJavaScriptWithQuerier ::
  "(ScriptExecutionOptions \<Rightarrow> (app_error, ScriptExecutionResult) result) \<Rightarrow> ScriptExecutionOptions
     \<Rightarrow> (app_error, ScriptExecutionResult) result" where
  "executeJavaScriptWithQuerier engine opts =
     (let language = trim_lower (so_Language opts) in
      if TrimSpace (so_Code opts) = [] then Inl (ScriptFailed ''script code is required'')
      else if language \<noteq> [] \<and> language \<noteq> ''javascript'' then Inl (ScriptFailed ''unsupported script language'')
      else engine opts)"

definition method_options :: "AppServiceMethodCall \<Rightarrow> string \<Rightarrow> AppDefinitionMethod \<Rightarrow> ScriptExecutionOptions" where
  "method_options call scopeName m =
     \<lparr>so_Code = TrimSpace (me_Script m), so_AppScope = scopeName,
      so_TableName = trim_lower (mc_TableName call), so_EventName = trim_lower (mc_EventName call),
      so_TriggerType = trim_lower (mc_TriggerType call),
      so_Language = firstNonEmpty [me_Language m, ''javascript''], so_UserID = TrimSpace (mc_UserID call),
      so_System = mc_System call, so_RequestID = TrimSpace (mc_RequestID call), so_Input = mc_Input call,
      so_Payload = mc_Payload call, so_Record = mc_Record call, so_PreviousRecord = mc_Previous call\<rparr>"

definition executeAppServiceMethodWithQuerier ::
  "((string \<rightharpoonup> RegisteredApp) \<Rightarrow> RegisteredApp list) \<Rightarrow> (string \<Rightarrow> app_error option)
     \<Rightarrow> (ScriptExecutionOptions \<Rightarrow> (app_error, ScriptExecutionResult) result)
     \<Rightarrow> RegisteredApp list \<Rightarrow> AppServiceMethodCall \<Rightarrow> (app_error, ScriptExecutionResult) result" where
  "executeAppServiceMethodWithQuerier order scopes engine apps call =
     (if ra_Name (mc_App call) = [] \<and> ra_Namespace (mc_App call) = [] then Inl AppRequired
      else (case resolveRuntimeServiceMethodWithApps order apps (mc_App call) (mc_Call call) (mc_RequirePublic call) of
          None \<Rightarrow> Inl (ServiceMethodNotFound (mc_Call call))
        | Some (serviceApp, m) \<Rightarrow>
            (let scopeName = firstNonEmpty [ra_Name serviceApp, ra_Namespace serviceApp] in
             case scopes scopeName of Some e \<Rightarrow> Inl e
             | None \<Rightarrow> executeJavaScriptWithQuerier engine (method_options call scopeName m))))"

section \<open>Triggers\<close>

definition resolveRuntimeAppByTableWithApps :: "RegisteredApp list \<Rightarrow> string \<Rightarrow> RegisteredApp option" where
  "resolveRuntimeAppByTableWithApps apps tableName =
     find (\<lambda>app. case runtimeDefinitionForApp app of None \<Rightarrow> False
       | Some d \<Rightarrow> list_ex (\<lambda>t. trim_lower (dt_Name t) = trim_lower tableName) (ad_Tables d)) apps"

definition own_trigger :: "string \<Rightarrow> AppDefinitionTable \<Rightarrow> AppDefinitionTrigger \<Rightarrow> AppDefinitionTrigger" where
  "own_trigger tableName t tr = (if TrimSpace (tr_Table tr) = [] then tr\<lparr>tr_Table := dt_Name t\<rparr> else tr)"

definition definition_triggers :: "AppDefinition \<Rightarrow> string \<Rightarrow> string \<Rightarrow> AppDefinitionTrigger list" where
  "definition_triggers d tableName eventName =
     filter (\<lambda>tr. tr_Enabled tr \<and> trim_lower (tr_Table tr) = tableName \<and> trim_lower (tr_Event tr) = eventName)
       (ad_Triggers d)
     @ (case find (\<lambda>t. trim_lower (dt_Name t) = tableName) (ad_Tables d) of
          None \<Rightarrow> []
        | Some t \<Rightarrow> map (own_trigger tableName t)
            (filter (\<lambda>tr. tr_Enabled tr \<and> trim_lower (tr_Event tr) = eventName) (dt_Triggers t)))"

definition trigger_key :: "AppDefinitionTrigger \<Rightarrow> int \<times> string" where
  "trigger_key tr = (tr_Order tr, tr_Name tr)"

definition resolveRuntimeTriggersWithApps ::
  "RegisteredApp list \<Rightarrow> string \<Rightarrow> string \<Rightarrow> (RegisteredApp \<times> AppDefinitionTrigger) list" where
  "resolveRuntimeTriggersWithApps apps tableName eventName =
     (let tn = trim_lower tableName; en = trim_lower eventName in
      if tn = [] \<or> en = [] then []
      else (case resolveRuntimeAppByTableWithApps apps tn of None \<Rightarrow> []
        | Some app \<Rightarrow> (case runtimeDefinitionForApp app of None \<Rightarrow> []
            | Some d \<Rightarrow> map (Pair app) (sort_key trigger_key (definition_triggers d tn en)))))"

definition record_values :: "record_map \<Rightarrow> (string \<rightharpoonup> string)" where
  "record_values r = map_option value_string \<circ> mapget r"

definition runtimeTriggerConditionPasses :: "gotime \<Rightarrow> AppDefinitionTrigger \<Rightarrow> record_map \<Rightarrow> bool" where
  "runtimeTriggerConditionPasses now tr r =
     (let condition = TrimSpace (tr_Condition tr) in
      if condition = [] then True
      else evaluateBooleanExpression now condition (record_values r) [] = Inr True)"

definition trigger_call ::
  "string \<Rightarrow> string \<Rightarrow> string \<Rightarrow> string \<Rightarrow> record_map \<Rightarrow> record_map \<Rightarrow> RegisteredApp \<times> AppDefinitionTrigger
     \<Rightarrow> AppServiceMethodCall" where
  "trigger_call tn en userID requestID previous current at =
     \<lparr>mc_App = fst at, mc_Call = tr_Call (snd at), mc_TableName = tn, mc_EventName = en,
      mc_TriggerType = ''record'', mc_UserID = userID, mc_System = (TrimSpace userID = []),
      mc_RequestID = requestID, mc_Input = GNil, mc_Payload = GNil, mc_Record = current,
      mc_Previous = previous, mc_RequirePublic = False\<rparr>"

text \<open>The loop over the triggers, the record threaded through it.\<close>

fun run_triggers ::
  "gotime \<Rightarrow> (record_map \<Rightarrow> RegisteredApp \<times> AppDefinitionTrigger \<Rightarrow> (app_error, ScriptExecutionResult) result)
     \<Rightarrow> (RegisteredApp \<times> AppDefinitionTrigger) list \<Rightarrow> record_map \<Rightarrow> (app_error, record_map) result" where
  "run_triggers now exec [] current = Inr current"
| "run_triggers now exec (at # ats) current =
     (if \<not> runtimeTriggerConditionPasses now (snd at) current then run_triggers now exec ats current
      else (case exec current at of Inl e \<Rightarrow> Inl e
        | Inr res \<Rightarrow> run_triggers now exec ats
            (if rs_CurrentRecord res \<noteq> [] then rs_CurrentRecord res else current)))"

definition RunAppBeforeWriteTriggersWithQuerier ::
  "gotime \<Rightarrow> ((string \<rightharpoonup> RegisteredApp) \<Rightarrow> RegisteredApp list) \<Rightarrow> (string \<Rightarrow> app_error option)
     \<Rightarrow> (ScriptExecutionOptions \<Rightarrow> (app_error, ScriptExecutionResult) result)
     \<Rightarrow> (app_error, RegisteredApp list) result \<Rightarrow> string \<Rightarrow> string \<Rightarrow> string \<Rightarrow> string
     \<Rightarrow> record_map \<Rightarrow> record_map \<Rightarrow> (app_error, record_map) result" where
  "RunAppBeforeWriteTriggersWithQuerier now order scopes engine listApps tableName eventName userID requestID
       r previous =
     (let tn = trim_lower tableName; en = trim_lower eventName in
      if tn = [] \<or> en = [] then Inr r
      else (case listApps of Inl e \<Rightarrow> Inl e
        | Inr apps \<Rightarrow> run_triggers now
            (\<lambda>current at. executeAppServiceMethodWithQuerier order scopes engine apps
               (trigger_call tn en userID requestID previous current at))
            (resolveRuntimeTriggersWithApps apps tn en) r))"

section \<open>Laws\<close>

lemma first_public_Some:
  "first_public deps sn mn = Some (app, m) \<Longrightarrow>
     app \<in> set deps \<and> findRuntimeServiceMethod app sn mn = Some m \<and> is_public m"
  by (induction deps) (auto split: option.splits if_splits)

lemma first_public_None:
  "first_public deps sn mn = None \<Longrightarrow> app \<in> set deps \<Longrightarrow> findRuntimeServiceMethod app sn mn = Some m
     \<Longrightarrow> \<not> is_public m"
  by (induction deps) (auto split: option.splits if_splits)

lemma first_public_sole:
  assumes "app \<in> set deps" "findRuntimeServiceMethod app sn mn = Some m" "is_public m"
    and "\<And>a m'. a \<in> set deps \<Longrightarrow> findRuntimeServiceMethod a sn mn = Some m' \<Longrightarrow> is_public m' \<Longrightarrow> a = app"
  shows "first_public deps sn mn = Some (app, m)"
proof (cases "first_public deps sn mn")
  case None
  then show ?thesis using first_public_None[OF None] assms by blast
next
  case (Some am)
  obtain a m' where "am = (a, m')" by (cases am)
  with Some first_public_Some[of deps sn mn a m'] assms(2,4) show ?thesis by (metis option.inject)
qed

lemma first_public_set:
  assumes "set xs = set ys"
    and "\<And>a b m m'. a \<in> set xs \<Longrightarrow> b \<in> set xs \<Longrightarrow> findRuntimeServiceMethod a sn mn = Some m \<Longrightarrow>
      findRuntimeServiceMethod b sn mn = Some m' \<Longrightarrow> is_public m \<Longrightarrow> is_public m' \<Longrightarrow> a = b"
  shows "first_public xs sn mn = first_public ys sn mn"
proof (cases "first_public xs sn mn")
  case None
  have "first_public ys sn mn = Some am \<Longrightarrow> False" for am
    using first_public_Some[of ys sn mn "fst am" "snd am"] first_public_None[OF None] assms(1) by auto
  with None show ?thesis by (metis option.exhaust)
next
  case (Some am)
  obtain a m where am: "am = (a, m)" by (cases am)
  have a: "a \<in> set xs" "findRuntimeServiceMethod a sn mn = Some m" "is_public m"
    using first_public_Some[OF Some[unfolded am]] by auto
  then have "first_public ys sn mn = Some (a, m)"
    using assms by (intro first_public_sole) auto
  with Some am show ?thesis by simp
qed

lemma dependency_map_mem: "dependency_map apps d n = Some app \<Longrightarrow> app \<in> set apps"
proof -
  have find_mem: "findRegisteredAppByNameOrNamespace apps dep = Some a \<Longrightarrow> a \<in> set apps" for dep a
    by (auto simp: findRegisteredAppByNameOrNamespace_def findExactRegisteredAppByNameOrNamespace_def Let_def
        split: option.splits if_splits dest: find_Some_mem)
  have fold: "ran (foldl (\<lambda>m dep. case findRegisteredAppByNameOrNamespace apps dep of
      Some app \<Rightarrow> m(ra_Name app \<mapsto> app) | None \<Rightarrow> m) m deps) \<subseteq> set apps" if "ran m \<subseteq> set apps" for m deps
    using that
  proof (induction deps arbitrary: m)
    case (Cons x deps)
    have "ran (m(ra_Name a \<mapsto> a)) \<subseteq> set apps" if "findRegisteredAppByNameOrNamespace apps x = Some a" for a
      using Cons.prems find_mem[OF that] by (auto simp: ran_def)
    with Cons show ?case by (simp split: option.splits)
  qed simp
  assume "dependency_map apps d n = Some app"
  then show ?thesis
    using fold[of Map.empty] by (auto simp: dependency_map_def intro!: ranI split: option.splits)
qed

text \<open>What a script receives is the identity and table of the call, whichever method runs.\<close>

lemma executeAppServiceMethod_engine:
  assumes "executeAppServiceMethodWithQuerier order scopes engine apps call = Inr res"
  shows "\<exists>app m scopeName. resolveRuntimeServiceMethodWithApps order apps (mc_App call) (mc_Call call)
      (mc_RequirePublic call) = Some (app, m) \<and> engine (method_options call scopeName m) = Inr res"
  using assms by (auto simp: executeAppServiceMethodWithQuerier_def executeJavaScriptWithQuerier_def Let_def
      split: if_splits option.splits)

lemma run_triggers_append:
  "run_triggers now exec (xs @ ys) r =
     (case run_triggers now exec xs r of Inl e \<Rightarrow> Inl e | Inr r' \<Rightarrow> run_triggers now exec ys r')"
  by (induction xs arbitrary: r) (auto split: sum.splits)

lemma run_triggers_inv:
  assumes "\<And>at r res. at \<in> set ats \<Longrightarrow> I r \<Longrightarrow> runtimeTriggerConditionPasses now (snd at) r \<Longrightarrow>
      exec r at = Inr res \<Longrightarrow> I (if rs_CurrentRecord res \<noteq> [] then rs_CurrentRecord res else r)"
    and "I r" "run_triggers now exec ats r = Inr r'"
  shows "I r'"
  using assms
proof (induction ats arbitrary: r)
  case (Cons at ats)
  show ?case
  proof (cases "runtimeTriggerConditionPasses now (snd at) r")
    case False
    then have "run_triggers now exec ats r = Inr r'" using Cons.prems(3) by simp
    then show ?thesis using Cons.IH[of r] Cons.prems(1,2) by (meson list.set_intros(2))
  next
    case True
    then obtain res where res: "exec r at = Inr res" using Cons.prems(3) by (auto split: sum.splits)
    let ?r = "if rs_CurrentRecord res \<noteq> [] then rs_CurrentRecord res else r"
    have "I ?r" using Cons.prems(1)[of at r res] Cons.prems(2) True res by simp
    moreover have "run_triggers now exec ats ?r = Inr r'" using Cons.prems(3) True res by simp
    ultimately show ?thesis using Cons.IH[of ?r] Cons.prems(1) by (meson list.set_intros(2))
  qed
qed simp

lemma set_definition_triggers:
  "tr \<in> set (definition_triggers d tn en) \<Longrightarrow> tr_Enabled tr \<and> trim_lower (tr_Event tr) = en"
  by (auto simp: definition_triggers_def own_trigger_def split: option.splits)

section \<open>Properties\<close>

text \<open>
  The method a call resolves to is either a method of the calling app itself, which a call from
  outside reaches only when it is public or leaves its visibility blank, or a public method of a
  registered app that the calling app declares as a dependency.
\<close>
theorem service_method_visibility:
  assumes "resolveRuntimeServiceMethodWithApps order apps cur call requirePublic = Some (app, m)"
    and "visits (order (runtimeDependencyApps apps cur)) (runtimeDependencyApps apps cur)"
  shows "app = cur \<and> (if requirePublic then is_public m \<or> trim_lower (me_Visibility m) = [] else True) \<or>
    is_public m \<and> app \<in> set apps \<and> app \<in> ran (runtimeDependencyApps apps cur)"
proof -
  have deps: "set (order (runtimeDependencyApps apps cur)) = ran (runtimeDependencyApps apps cur)"
    by (rule set_visits) fact
  have reg: "a \<in> set apps" if "a \<in> ran (runtimeDependencyApps apps cur)" for a
    using that by (auto simp: ran_def runtimeDependencyApps_def dest: dependency_map_mem)
  show ?thesis
    using assms(1) by (auto simp: resolveRuntimeServiceMethodWithApps_def deps reg
        split: option.splits if_splits dest!: first_public_Some)
qed

text \<open>
  The order in which the runtime visits the dependency map decides which method runs only when
  two dependencies offer the same public method; when at most one does, every order resolves a call
  to the same method.
\<close>
theorem service_method_order:
  assumes "visits (order (runtimeDependencyApps apps cur)) (runtimeDependencyApps apps cur)"
    and "visits (order' (runtimeDependencyApps apps cur)) (runtimeDependencyApps apps cur)"
    and "\<And>a b sn mn m m'. a \<in> ran (runtimeDependencyApps apps cur) \<Longrightarrow> b \<in> ran (runtimeDependencyApps apps cur) \<Longrightarrow>
      findRuntimeServiceMethod a sn mn = Some m \<Longrightarrow> findRuntimeServiceMethod b sn mn = Some m' \<Longrightarrow>
      is_public m \<Longrightarrow> is_public m' \<Longrightarrow> a = b"
  shows "resolveRuntimeServiceMethodWithApps order apps cur call requirePublic =
    resolveRuntimeServiceMethodWithApps order' apps cur call requirePublic"
proof -
  let ?D = "runtimeDependencyApps apps cur"
  have sets: "set (order ?D) = ran ?D" "set (order' ?D) = ran ?D" using assms(1,2) by (simp_all add: set_visits)
  have "first_public (order ?D) sn mn = first_public (order' ?D) sn mn" for sn mn
    by (rule first_public_set) (use sets assms(3) in auto)
  then show ?thesis by (simp add: resolveRuntimeServiceMethodWithApps_def split: option.splits)
qed

text \<open>
  The triggers that fire for a write are the enabled triggers of the app that owns the table
  whose table and event match, app-level ones and those of the table, each as often as it is
  declared, in ascending order of their number and, within a number, of their name.
\<close>
theorem trigger_selection:
  assumes "resolveRuntimeAppByTableWithApps apps (trim_lower tableName) = Some app"
    and "runtimeDefinitionForApp app = Some d" and "trim_lower tableName \<noteq> []" "trim_lower eventName \<noteq> []"
  shows "sorted (map (trigger_key \<circ> snd) (resolveRuntimeTriggersWithApps apps tableName eventName)) \<and>
    mset (resolveRuntimeTriggersWithApps apps tableName eventName) =
      mset (map (Pair app) (definition_triggers d (trim_lower tableName) (trim_lower eventName)))"
  using assms by (simp add: resolveRuntimeTriggersWithApps_def Let_def o_def)

text \<open>
  A before-write trigger runs with the identity of the write: its script sees the acting user,
  it is a system run exactly when the write has no acting user, and it works on the table and event
  of the write. Replacing the engine by one that refuses any other options changes nothing.
\<close>
theorem trigger_scripts_run_as_the_writer:
  "RunAppBeforeWriteTriggersWithQuerier now order scopes engine listApps tableName eventName userID requestID r previous =
   RunAppBeforeWriteTriggersWithQuerier now order scopes
     (\<lambda>opts. if so_UserID opts = TrimSpace userID \<and> so_System opts = (TrimSpace userID = [])
          \<and> so_TableName opts = trim_lower tableName \<and> so_EventName opts = trim_lower eventName
          \<and> so_PreviousRecord opts = previous
        then engine opts else Inl (ScriptFailed refused))
     listApps tableName eventName userID requestID r previous"
proof -
  have "executeAppServiceMethodWithQuerier order scopes engine apps
      (trigger_call (trim_lower tableName) (trim_lower eventName) userID requestID previous current at) =
    executeAppServiceMethodWithQuerier order scopes
     (\<lambda>opts. if so_UserID opts = TrimSpace userID \<and> so_System opts = (TrimSpace userID = [])
          \<and> so_TableName opts = trim_lower tableName \<and> so_EventName opts = trim_lower eventName
          \<and> so_PreviousRecord opts = previous
        then engine opts else Inl (ScriptFailed refused)) apps
      (trigger_call (trim_lower tableName) (trim_lower eventName) userID requestID previous current at)"
    for apps current at
    by (simp add: executeAppServiceMethodWithQuerier_def executeJavaScriptWithQuerier_def method_options_def
        trigger_call_def Let_def split: option.split prod.split)
  then show ?thesis
    unfolding RunAppBeforeWriteTriggersWithQuerier_def Let_def by (simp only:)
qed

end
