(* ===== verification/GoJson.thy ===== *)
theory GoJson
  imports AppDispatch
begin

text \<open>
  \<open>json.Valid\<close>: the syntax of a JSON text as the scanner of \<open>encoding/json\<close> checks it. Each reader
  takes a value off the front of the text and returns the rest; a value nests at most 10000 deep.
\<close>

definition json_space :: "char \<Rightarrow> bool" where
  "json_space c \<longleftrightarrow> byte c = 32 \<or> byte c = 9 \<or> byte c = 10 \<or> byte c = 13"

abbreviation skip_json :: "string \<Rightarrow> string" where
  "skip_json \<equiv> dropWhile json_space"

text \<open>The rest of a string literal, after its opening quote.\<close>

fun json_string :: "string \<Rightarrow> string option" where
  "json_string [] = None"
| "json_string (c # s) =
     (if byte c = 34 then Some s
      else if byte c < 32 then None
      else if byte c = 92 then
        (case s of [] \<Rightarrow> None
         | d # t \<Rightarrow>
             if d \<in> set ''bfnrt/'' \<or> byte d = 92 \<or> byte d = 34 then json_string t
             else if d = CHR ''u'' then
               (case t of a # b # e # f # u \<Rightarrow>
                  if is_hex_byte a \<and> is_hex_byte b \<and> is_hex_byte e \<and> is_hex_byte f then json_string u else None
                | _ \<Rightarrow> None)
             else None)
      else json_string s)"

definition digits1 :: "string \<Rightarrow> string option" where
  "digits1 s = (if takeWhile is_digit_byte s = [] then None else Some (dropWhile is_digit_byte s))"

definition json_fraction :: "string \<Rightarrow> string option" where
  "json_fraction s = (case s of c # t \<Rightarrow> if c = CHR ''.'' then digits1 t else Some s | [] \<Rightarrow> Some [])"

definition json_exponent :: "string \<Rightarrow> string option" where
  "json_exponent s = (case s of [] \<Rightarrow> Some []
     | c # t \<Rightarrow> if c = CHR ''e'' \<or> c = CHR ''E'' then
         digits1 (case t of d # u \<Rightarrow> if d = CHR ''+'' \<or> d = CHR ''-'' then u else t | [] \<Rightarrow> [])
       else Some s)"

definition json_integer :: "string \<Rightarrow> string option" where
  "json_integer s = (case s of [] \<Rightarrow> None | c # t \<Rightarrow> if c = CHR ''0'' then Some t else digits1 s)"

definition json_number :: "string \<Rightarrow> string option" where
  "json_number s =
     Option.bind (Option.bind (json_integer (if HasPrefix s ''-'' then tl s else s)) json_fraction) json_exponent"

text \<open>The fuel bounds the recursion; twice the length of the text is enough.\<close>

fun json_value :: "nat \<Rightarrow> nat \<Rightarrow> string \<Rightarrow> string option"
  and json_members :: "nat \<Rightarrow> nat \<Rightarrow> string \<Rightarrow> string option"
  and json_elements :: "nat \<Rightarrow> nat \<Rightarrow> string \<Rightarrow> string option" where
  "json_value 0 depth s = None"
| "json_value (Suc n) depth s =
     (case skip_json s of [] \<Rightarrow> None
      | c # t \<Rightarrow>
          if c = CHR ''{'' then
            (if 10000 \<le> depth then None
             else if HasPrefix (skip_json t) ''}'' then Some (tl (skip_json t))
             else json_members n (Suc depth) t)
          else if c = CHR ''['' then
            (if 10000 \<le> depth then None
             else if HasPrefix (skip_json t) '']'' then Some (tl (skip_json t))
             else json_elements n (Suc depth) t)
          else if byte c = 34 then json_string t
          else if HasPrefix (c # t) ''true'' then Some (drop 4 (c # t))
          else if HasPrefix (c # t) ''false'' then Some (drop 5 (c # t))
          else if HasPrefix (c # t) ''null'' then Some (drop 4 (c # t))
          else json_number (c # t))"
| "json_members 0 depth s = None"
| "json_members (Suc n) depth s =
     (case skip_json s of [] \<Rightarrow> None
      | c # t \<Rightarrow> if byte c \<noteq> 34 then None
          else (case map_option skip_json (json_string t) of Some (d # u) \<Rightarrow>
              if d \<noteq> CHR '':'' then None
              else (case map_option skip_json (json_value n depth u) of
                  Some (e # v) \<Rightarrow> if e = CHR ''}'' then Some v
                    else if e = CHR '','' then json_members n depth v else None
                | _ \<Rightarrow> None)
            | _ \<Rightarrow> None))"
| "json_elements 0 depth s = None"
| "json_elements (Suc n) depth s =
     (case map_option skip_json (json_value n depth s) of
        Some (e # v) \<Rightarrow> if e = CHR '']'' then Some v
          else if e = CHR '','' then json_elements n depth v else None
      | _ \<Rightarrow> None)"

definition json_Valid :: "string \<Rightarrow> bool" where
  "json_Valid s \<longleftrightarrow> (case json_value (2 * length s + 2) 0 s of None \<Rightarrow> False | Some t \<Rightarrow> skip_json t = [])"

lemma json_Valid_scalars: "json_Valid ''null''" "json_Valid ''true''" "json_Valid '' -12.5e+3 ''"
  "\<not> json_Valid ''01''" "\<not> json_Valid []"
  by (simp_all add: json_Valid_def json_space_def HasPrefix_def json_number_def json_integer_def digits1_def
      json_fraction_def json_exponent_def is_digit_byte_def eval_nat_numeral)

end
