(* ===== verification/SaveValues.thy ===== *)
theory SaveValues
  imports GoJson
begin

text \<open>
  The values of a save request, \<open>internal/db/HandleSave.go\<close>: the form a submitted value takes
  before it is stored, when a blank becomes NULL, the comparison of a submission with the stored
  record, the classification of database errors, and the effects on sessions and caches of a
  saved authorization record. A form that a loop visits is an association list.
\<close>

section \<open>Requests and responses\<close>

text \<open>The SQLSTATE code and message of a \<open>PgError\<close>; the answer is the message and HTTP status.\<close>

definition classifySaveDatabaseError :: "(string \<times> string) option \<Rightarrow> (string \<times> nat) option" where
  "classifySaveDatabaseError e = (case e of None \<Rightarrow> None
     | Some (code, msg) \<Rightarrow>
         (let message = (if TrimSpace msg = [] then ''Invalid data'' else TrimSpace msg) in
          if code \<in> {''P0001'', ''23502'', ''23503'', ''23505'', ''23514'', ''22P02''} then Some (message, 400)
          else None))"

definition isSaveTransportField :: "string \<Rightarrow> bool" where
  "isSaveTransportField name \<longleftrightarrow> TrimSpace name \<in>
     {''expected_version'', ''expected_updated_at'', ''csrf_token'', ''realtime_client_id'', ''form_name''}"

definition normalizeRuntimeFormName :: "string \<Rightarrow> string" where
  "normalizeRuntimeFormName v = trim_lower v"

definition recordFormRedirectTarget :: "string \<Rightarrow> string \<Rightarrow> string \<Rightarrow> string" where
  "recordFormRedirectTarget tableName recordID formName =
     (let target = ''/f/'' @ tableName @ ''/'' @ recordID; fn = normalizeRuntimeFormName formName in
      if fn = [] \<or> fn = ''default'' then target else target @ ''?form='' @ fn)"

definition snapshot_get :: "record_map \<Rightarrow> string \<Rightarrow> gval" where
  "snapshot_get r k = (case mapget r k of None \<Rightarrow> GNil | Some v \<Rightarrow> v)"

definition snapshotStringValue :: "record_map \<Rightarrow> string \<Rightarrow> string" where
  "snapshotStringValue snapshot key = (if snapshot = [] then [] else TrimSpace (Sprint (snapshot_get snapshot key)))"

datatype authz_effect =
    InvalidateAuthzCache
  | InvalidateAuthzCacheForUser string
  | BumpUserSessionVersion string
  | BumpSessionVersionForRole string

definition nonblank :: "string list \<Rightarrow> string list" where
  "nonblank xs = filter (\<lambda>x. TrimSpace x \<noteq> []) xs"

definition applyAuthzSaveSideEffects :: "string \<Rightarrow> record_map \<Rightarrow> record_map \<Rightarrow> authz_effect list" where
  "applyAuthzSaveSideEffects tableName old new =
     (let t = ToLower (TrimSpace tableName);
          both = (\<lambda>k. [snapshotStringValue old k, snapshotStringValue new k]) in
      if t = ''_group'' \<or> t = ''_permission'' then [InvalidateAuthzCache]
      else if t = ''_group_membership'' \<or> t = ''_user_role'' then
        InvalidateAuthzCache # concat (map (\<lambda>u. [BumpUserSessionVersion u, InvalidateAuthzCacheForUser u])
          (nonblank (both ''user_id'')))
      else if t = ''_group_role'' then
        InvalidateAuthzCache # map BumpSessionVersionForRole (nonblank (both ''role_id''))
      else if t \<in> {''_role'', ''_role_permission'', ''_role_inheritance''} then
        InvalidateAuthzCache # map BumpSessionVersionForRole (nonblank (both ''_id'' @ both ''role_id''))
      else [])"

section \<open>Submitted values\<close>

definition NormalizeSubmittedValue :: "string \<Rightarrow> string \<Rightarrow> string option" where
  "NormalizeSubmittedValue dataType v =
     (let dt = normalizeDataType dataType in
      if dt = ''bool'' \<or> dt = ''boolean'' then
        Some (if ToLower v \<in> {''1'', ''true'', ''on'', ''yes''} then ''true'' else ''false'')
      else if dt = ''json'' \<or> dt = ''jsonb'' then
        (let t = TrimSpace v in if t = [] then Some ''null'' else if json_Valid t then Some t else None)
      else Some v)"

definition null_blank_types :: "string list" where
  "null_blank_types = [''uuid'', ''reference'', ''choice'', ''bool'', ''boolean'', ''int'', ''integer'', ''serial'',
     ''bigint'', ''bigserial'', ''float'', ''double'', ''decimal'', ''numeric'', ''date'', ''timestamp'',
     ''timestamptz'', ''datetime'']"

definition shouldStoreNullForBlankColumn :: "Column \<Rightarrow> string \<Rightarrow> string \<Rightarrow> bool" where
  "shouldStoreNullForBlankColumn c raw normalized =
     (let dt = normalizeDataType (co_DATA_TYPE c) in
      if \<not> co_IS_NULLABLE c then False
      else if TrimSpace raw \<noteq> [] then False
      else if dt \<in> set null_blank_types then True
      else if dt = ''json'' \<or> dt = ''jsonb'' then normalized = ''null''
      else False)"

text \<open>The stored value and whether it is NULL; \<open>None\<close> for text that is not valid JSON.\<close>

definition NormalizeSubmittedColumnValue :: "Column \<Rightarrow> string \<Rightarrow> (string \<times> bool) option" where
  "NormalizeSubmittedColumnValue c v =
     (let trimmed = TrimSpace v in
      case NormalizeSubmittedValue (co_DATA_TYPE c) trimmed of
        None \<Rightarrow> None
      | Some n \<Rightarrow> if shouldStoreNullForBlankColumn c trimmed n then Some ([], True) else Some (n, False))"

section \<open>Comparison with the stored record\<close>

definition is_timestamp_type :: "string \<Rightarrow> bool" where
  "is_timestamp_type dt \<longleftrightarrow> dt \<in> {''timestamp'', ''timestamptz'', ''datetime''}"

definition comparableSnapshotValue :: "Column \<Rightarrow> gval \<Rightarrow> string" where
  "comparableSnapshotValue c value =
     (let dt = normalizeDataType (co_DATA_TYPE c) in
      case value of
        GNil \<Rightarrow> []
      | GStr v \<Rightarrow>
          if dt = ''date'' then (if 10 \<le> length v then take 10 v else v)
          else if is_timestamp_type dt then
            (case time_Parse layout_RFC3339 v of Some t \<Rightarrow> format_minutes t
             | None \<Rightarrow> if 16 \<le> length v then take 16 v else v)
          else v
      | GBool b \<Rightarrow> if b then ''true'' else ''false''
      | GInt i \<Rightarrow> Itoa i
      | GFloat f \<Rightarrow> FormatFloat f
      | GTime t s \<Rightarrow> if dt = ''date'' then format_date t
          else if is_timestamp_type dt then format_minutes t else format_RFC3339 t
      | _ \<Rightarrow> Sprint value)"

definition comparableSnapshotValues :: "Column list \<Rightarrow> record_map \<Rightarrow> (string \<rightharpoonup> string)" where
  "comparableSnapshotValues columns snapshot =
     map_of (rev (map (\<lambda>c. (co_NAME c, comparableSnapshotValue c (snapshot_get snapshot (co_NAME c))))
       (filter (\<lambda>c. \<not> HasPrefix (co_NAME c) ''_'') columns)))"

type_synonym form_map = "(string \<times> string) list"

definition expected_value :: "string set \<Rightarrow> string \<times> string \<Rightarrow> string" where
  "expected_value nulls kv = (if fst kv \<in> nulls then [] else snd kv)"

definition submittedFormHasChanges :: "Column list \<Rightarrow> form_map \<Rightarrow> string set \<Rightarrow> record_map \<Rightarrow> bool" where
  "submittedFormHasChanges columns form nulls current =
     list_ex (\<lambda>kv. form_get (comparableSnapshotValues columns current) (fst kv) \<noteq> expected_value nulls kv) form"

definition ChangedRecordFields :: "Column list \<Rightarrow> record_map \<Rightarrow> form_map \<Rightarrow> string set \<Rightarrow> string list" where
  "ChangedRecordFields columns old form nulls =
     sort (map fst (filter (\<lambda>kv. \<not> HasPrefix (fst kv) ''_'' \<and>
       form_get (comparableSnapshotValues columns old) (fst kv) \<noteq> expected_value nulls kv) form))"

definition MergeRecordSnapshot :: "record_map \<Rightarrow> form_map \<Rightarrow> string set \<Rightarrow> record_map" where
  "MergeRecordSnapshot base form nulls =
     map (\<lambda>kv. (fst kv, if fst kv \<in> nulls then GNil else GStr (snd kv))) form
     @ filter (\<lambda>kv. fst kv \<notin> fst ` set form) base"

definition StringMapToAny :: "form_map \<Rightarrow> record_map" where
  "StringMapToAny form = map (\<lambda>kv. (fst kv, GStr (snd kv))) form"

section \<open>Laws\<close>

lemma map_of_map_values: "map_of (map (\<lambda>kv. (fst kv, f kv)) xs) k =
    (case find (\<lambda>kv. fst kv = k) xs of None \<Rightarrow> None | Some kv \<Rightarrow> Some (f kv))"
  by (induction xs) auto

lemma map_of_filter_key: "map_of (filter (\<lambda>kv. P (fst kv)) xs) k = (if P k then map_of xs k else None)"
  by (induction xs) auto

lemma map_of_find: "map_of xs k = map_option snd (find (\<lambda>kv. fst kv = k) xs)"
  by (induction xs) auto

lemma MergeRecordSnapshot_get:
  "mapget (MergeRecordSnapshot base form nulls) k =
     (case mapget form k of Some v \<Rightarrow> Some (if k \<in> nulls then GNil else GStr v) | None \<Rightarrow> mapget base k)"
proof (cases "mapget form k")
  case None
  then have "k \<notin> fst ` set form" "find (\<lambda>kv. fst kv = k) form = None"
    by (simp_all add: map_of_eq_None_iff find_None_iff) force
  with None show ?thesis
    by (simp add: MergeRecordSnapshot_def map_add_def map_of_map_values
        map_of_filter_key [where P = "\<lambda>k. k \<notin> fst ` set form"])
next
  case (Some v)
  then obtain kv where kv: "find (\<lambda>kv. fst kv = k) form = Some kv" "snd kv = v"
    by (auto simp: map_of_find)
  moreover have "fst kv = k" using find_Some_mem[OF kv(1)] by simp
  moreover have "k \<in> fst ` set form" using Some by (metis domI dom_map_of_conv_image_fst)
  ultimately show ?thesis using Some
    by (simp add: MergeRecordSnapshot_def map_add_def map_of_map_values
        map_of_filter_key [where P = "\<lambda>k. k \<notin> fst ` set form"])
qed

lemma TrimSpace_words [simp]:
  "TrimSpace ''null'' = ''null''" "TrimSpace ''true'' = ''true''" "TrimSpace ''false'' = ''false''"
  by (rule TrimSpace_plain; simp add: plain_byte_def)+

lemma if_either: "x = (if b then p else q) \<Longrightarrow> x = p \<or> x = q"
  by (cases b) simp_all

lemma NormalizeSubmittedValue_idem:
  assumes "NormalizeSubmittedValue dt v = Some n" "TrimSpace v = v"
  shows "NormalizeSubmittedValue dt n = Some n \<and> TrimSpace n = n \<and> (n = [] \<longrightarrow> v = [])"
proof -
  consider "normalizeDataType dt = ''bool'' \<or> normalizeDataType dt = ''boolean''"
    | "\<not> (normalizeDataType dt = ''bool'' \<or> normalizeDataType dt = ''boolean'')"
      "normalizeDataType dt = ''json'' \<or> normalizeDataType dt = ''jsonb''"
    | "\<not> (normalizeDataType dt = ''bool'' \<or> normalizeDataType dt = ''boolean'')"
      "\<not> (normalizeDataType dt = ''json'' \<or> normalizeDataType dt = ''jsonb'')" by blast
  then show ?thesis
  proof cases
    case 1
    then have val: "NormalizeSubmittedValue dt u =
        Some (if ToLower u \<in> {''1'', ''true'', ''on'', ''yes''} then ''true'' else ''false'')" for u
      by (simp only: NormalizeSubmittedValue_def Let_def if_True)
    have low: "ToLower ''true'' = ''true''" "ToLower ''false'' = ''false''"
      by (simp_all add: ToLower_def lower_byte_def is_upper_byte_def)
    have "n = ''true'' \<or> n = ''false''"
      by (rule if_either) (use assms(1)[unfolded val option.inject] in \<open>rule sym\<close>)
    then show ?thesis by (elim disjE) (simp_all add: val low)
  next
    case 2
    then have val: "NormalizeSubmittedValue dt u =
        (if TrimSpace u = [] then Some ''null'' else if json_Valid (TrimSpace u) then Some (TrimSpace u) else None)"
      for u by (simp only: NormalizeSubmittedValue_def Let_def if_True if_False)
    show ?thesis
    proof (cases "v = []")
      case True
      then have "n = ''null''" using assms(1) by (simp add: val)
      then show ?thesis using True by (simp add: val json_Valid_scalars)
    next
      case False
      then have "json_Valid v" "n = v" using assms by (simp_all add: val split: if_splits)
      then show ?thesis using assms by simp
    qed
  next
    case 3
    then show ?thesis using assms by (simp add: NormalizeSubmittedValue_def)
  qed
qed

text \<open>
  The value a column stores is a fixed point of the submission: what is stored, submitted
  again, is stored unchanged, whatever the data type, and blanks that became NULL become NULL again.
\<close>
theorem submitted_value_idempotent:
  assumes "NormalizeSubmittedColumnValue c v = Some (stored, isNull)"
  shows "NormalizeSubmittedColumnValue c stored = Some (stored, isNull)"
proof -
  obtain n where n: "NormalizeSubmittedValue (co_DATA_TYPE c) (TrimSpace v) = Some n"
    using assms by (auto simp: NormalizeSubmittedColumnValue_def Let_def split: option.splits)
  note idem = NormalizeSubmittedValue_idem[OF n TrimSpace_idem]
  show ?thesis
  proof (cases "shouldStoreNullForBlankColumn c (TrimSpace v) n")
    case True
    then have "TrimSpace v = []" by (simp add: shouldStoreNullForBlankColumn_def Let_def split: if_splits)
    with True n assms show ?thesis by (simp add: NormalizeSubmittedColumnValue_def)
  next
    case False
    then have "stored = n" "\<not> isNull" using assms n by (simp_all add: NormalizeSubmittedColumnValue_def)
    moreover have "\<not> shouldStoreNullForBlankColumn c n n"
    proof (cases "n = []")
      case True
      then show ?thesis using False idem by simp
    next
      case False
      then show ?thesis using idem by (simp add: shouldStoreNullForBlankColumn_def Let_def)
    qed
    ultimately show ?thesis using idem by (simp add: NormalizeSubmittedColumnValue_def)
  qed
qed

text \<open>
  The fields a save changes are, in sorted order, the submitted fields that are not system
  columns and whose submitted value differs from the stored one in its comparable form; the record
  the security rules judge agrees with the submission on every submitted field and with the stored
  record elsewhere.
\<close>
theorem changed_fields_and_proposed_record:
  "set (ChangedRecordFields columns old form nulls) = {k. \<not> HasPrefix k ''_'' \<and> (\<exists>v. (k, v) \<in> set form \<and>
      form_get (comparableSnapshotValues columns old) k \<noteq> (if k \<in> nulls then [] else v))}
   \<and> sorted (ChangedRecordFields columns old form nulls)
   \<and> mapget (MergeRecordSnapshot old form nulls) k =
      (case mapget form k of Some v \<Rightarrow> Some (if k \<in> nulls then GNil else GStr v) | None \<Rightarrow> mapget old k)"
proof (intro conjI)
  show "set (ChangedRecordFields columns old form nulls) = {k. \<not> HasPrefix k ''_'' \<and> (\<exists>v. (k, v) \<in> set form \<and>
      form_get (comparableSnapshotValues columns old) k \<noteq> (if k \<in> nulls then [] else v))}"
    by (force simp: ChangedRecordFields_def expected_value_def image_iff)
qed (simp_all add: ChangedRecordFields_def MergeRecordSnapshot_get)

text \<open>
  When a role is created or saved, the session effects include a bump for a role named \<open><nil>\<close>:
  the record of a role has no \<open>role_id\<close>, and the missing value prints as \<open><nil>\<close>, which is not blank.
\<close>
theorem role_save_bumps_nil:
  assumes "new \<noteq> []" "mapget new ''role_id'' = None"
  shows "BumpSessionVersionForRole ''<nil>'' \<in> set (applyAuthzSaveSideEffects ''_role'' old new)"
proof -
  have "TrimSpace ''<nil>'' = ''<nil>''" "TrimSpace ''_role'' = ''_role''"
    by (rule TrimSpace_plain; simp add: plain_byte_def)+
  moreover have "ToLower ''_role'' = ''_role''" by (simp add: ToLower_def lower_byte_def is_upper_byte_def)
  ultimately show ?thesis using assms
    by (simp add: applyAuthzSaveSideEffects_def nonblank_def snapshotStringValue_def snapshot_get_def Let_def)
qed

end
