(* ===== verification/SecurityRules.thy ===== *)
theory SecurityRules
  imports SaveValues
begin

text \<open>
  Row and field security, \<open>internal/db/SecurityRules.go\<close>: an evaluator is built from the security
  section of a table, form or page and the effective roles of a user; its rules are tried in order
  and the first that matches the role and whose condition holds decides. A nil evaluator is \<open>None\<close>.
  The set of role names of the user is a list; the answer of \<open>listEffectiveRoleNames\<close> is an argument.
\<close>

section \<open>Normal forms\<close>

definition normalizeSecurityOperation :: "string \<Rightarrow> string" where
  "normalizeSecurityOperation operation =
     (let op = TrimSpace (ToUpper operation) in
      if op \<in> {''C'', ''CREATE'', ''INSERT''} then ''C''
      else if op \<in> {''R'', ''READ'', ''SELECT'', ''VIEW''} then ''R''
      else if op \<in> {''U'', ''UPDATE'', ''WRITE'', ''EDIT''} then ''U''
      else if op \<in> {''D'', ''DELETE'', ''REMOVE''} then ''D''
      else op)"

definition normalizeSecurityEffect :: "string \<Rightarrow> string" where
  "normalizeSecurityEffect effect =
     (let e = TrimSpace (ToLower effect) in
      if e = [] then []
      else if e \<in> {''allow'', ''allowed'', ''permit'', ''permitted'', ''grant'', ''granted''} then ''allow''
      else if e \<in> {''deny'', ''denied'', ''block'', ''blocked'', ''forbid'', ''forbidden''} then ''deny''
      else e)"

text \<open>The order of evaluation, by number and within a number by name.\<close>

definition rule_key :: "AppDefinitionSecurityRule \<Rightarrow> int \<times> string" where
  "rule_key r = (sr_Order r, sr_Name r)"

definition normalize_rule :: "AppDefinitionSecurityRule \<Rightarrow> AppDefinitionSecurityRule" where
  "normalize_rule r = r\<lparr>sr_Name := normalizeLooseIdentifier (sr_Name r),
     sr_Description := TrimSpace (sr_Description r), sr_Effect := normalizeSecurityEffect (sr_Effect r),
     sr_Operation := normalizeSecurityOperation (sr_Operation r), sr_Table := trim_lower (sr_Table r),
     sr_Field := trim_lower (sr_Field r), sr_Condition := TrimSpace (sr_Condition r),
     sr_Role := trim_lower (sr_Role r)\<rparr>"

fun drop_repeated_names :: "string list \<Rightarrow> AppDefinitionSecurityRule list \<Rightarrow> AppDefinitionSecurityRule list" where
  "drop_repeated_names seen [] = []"
| "drop_repeated_names seen (r # rs) =
     (if sr_Name r \<noteq> [] \<and> sr_Name r \<in> set seen then drop_repeated_names seen rs
      else r # drop_repeated_names (if sr_Name r \<noteq> [] then sr_Name r # seen else seen) rs)"

definition normalizeAppDefinitionSecurityRules ::
  "AppDefinitionSecurityRule list \<Rightarrow> AppDefinitionSecurityRule list" where
  "normalizeAppDefinitionSecurityRules rules = sort_key rule_key (drop_repeated_names [] (map normalize_rule rules))"

definition normalizeAppDefinitionSecurity :: "AppDefinitionSecurity \<Rightarrow> AppDefinitionSecurity" where
  "normalizeAppDefinitionSecurity s = s\<lparr>se_Roles := normalizeIdentifierList (se_Roles s),
     se_Notes := TrimSpace (se_Notes s), se_Rules := normalizeAppDefinitionSecurityRules (se_Rules s)\<rparr>"

section \<open>The evaluator\<close>

record TableSecurityEvaluator =
  ev_app :: RegisteredApp
  ev_tableName :: string
  ev_roleGate :: "string list"
  ev_rules :: "AppDefinitionSecurityRule list"
  ev_userRoles :: "string list"

definition securityRuleTableName :: "AppDefinitionSecurityRule \<Rightarrow> string \<Rightarrow> string" where
  "securityRuleTableName r fallback =
     (if trim_lower (sr_Table r) \<noteq> [] then trim_lower (sr_Table r) else trim_lower fallback)"

definition securityRuleAllows :: "AppDefinitionSecurityRule \<Rightarrow> bool" where
  "securityRuleAllows r \<longleftrightarrow> normalizeSecurityEffect (sr_Effect r) \<noteq> ''deny''"

definition securityRuleConditionPasses :: "gotime \<Rightarrow> string \<Rightarrow> (string \<rightharpoonup> string) \<Rightarrow> string \<Rightarrow> bool" where
  "securityRuleConditionPasses now condition values field =
     (let c = TrimSpace condition in
      if c = [] then True
      else (case evaluateBooleanExpression now c values (TrimSpace field) of Inl _ \<Rightarrow> False | Inr b \<Rightarrow> b))"

definition securityRecordValues :: "record_map \<Rightarrow> (string \<rightharpoonup> string)" where
  "securityRecordValues r = map_option value_string \<circ> mapget r"

definition findRuntimeTable :: "RegisteredApp \<Rightarrow> string \<Rightarrow> AppDefinitionTable option" where
  "findRuntimeTable app tableName =
     (case runtimeDefinitionForApp app of None \<Rightarrow> None
      | Some d \<Rightarrow> find (\<lambda>t. trim_lower (dt_Name t) = trim_lower tableName) (ad_Tables d))"

text \<open>\<open>roles u a\<close> is the answer of \<open>listEffectiveRoleNames\<close>.\<close>

definition loadSecurityEvaluatorForConfig ::
  "(string \<Rightarrow> string \<Rightarrow> (app_error, string list) result) \<Rightarrow> RegisteredApp \<Rightarrow> string \<Rightarrow> AppDefinitionSecurity
     \<Rightarrow> string \<Rightarrow> (app_error, TableSecurityEvaluator option) result" where
  "loadSecurityEvaluatorForConfig roles app tableName security userID =
     (let tn = trim_lower tableName; user = TrimSpace userID;
          rules = sort_key rule_key (filter (\<lambda>r. securityRuleTableName r tn = tn) (se_Rules security)) in
      case (if user \<noteq> [] then roles user (ra_ID app) else Inr []) of
        Inl e \<Rightarrow> Inl e
      | Inr names \<Rightarrow> Inr (if se_Roles security = [] \<and> rules = [] then None
          else Some \<lparr>ev_app = app, ev_tableName = tn, ev_roleGate = se_Roles security, ev_rules = rules,
                     ev_userRoles = names\<rparr>))"

definition LoadTableSecurityEvaluator ::
  "(string \<Rightarrow> string \<Rightarrow> (app_error, string list) result) \<Rightarrow> (app_error, RegisteredApp list) result \<Rightarrow> string
     \<Rightarrow> string \<Rightarrow> (app_error, TableSecurityEvaluator option) result" where
  "LoadTableSecurityEvaluator roles listApps tableName userID =
     (let tn = trim_lower tableName in
      if tn = [] then Inr None
      else if tn \<in> set protectedTableNames then Inr None
      else (case listApps of Inl e \<Rightarrow> Inl e
        | Inr apps \<Rightarrow> (case resolveRuntimeAppByTableWithApps apps tn of None \<Rightarrow> Inr None
            | Some app \<Rightarrow> (case findRuntimeTable app tn of None \<Rightarrow> Inr None
                | Some t \<Rightarrow> loadSecurityEvaluatorForConfig roles app tn (dt_Security t) userID))))"

definition userHasRole :: "TableSecurityEvaluator \<Rightarrow> string \<Rightarrow> bool" where
  "userHasRole e role = list_ex (\<lambda>c. c \<in> set (ev_userRoles e)) (appRoleCandidates (ev_app e) [role])"

definition allowsRoleGate :: "TableSecurityEvaluator \<Rightarrow> bool" where
  "allowsRoleGate e \<longleftrightarrow> ev_roleGate e = [] \<or>
     list_ex (\<lambda>c. c \<in> set (ev_userRoles e)) (appRoleCandidates (ev_app e) (ev_roleGate e))"

definition hasAdminReadBypass :: "TableSecurityEvaluator \<Rightarrow> bool" where
  "hasAdminReadBypass e \<longleftrightarrow> ''admin'' \<in> set (ev_userRoles e)"

definition rule_in_scope :: "string \<Rightarrow> string \<Rightarrow> AppDefinitionSecurityRule \<Rightarrow> bool" where
  "rule_in_scope operation field r \<longleftrightarrow> sr_Operation r = operation \<and> trim_lower (sr_Field r) = field"

definition rulesFor :: "TableSecurityEvaluator \<Rightarrow> string \<Rightarrow> string \<Rightarrow> AppDefinitionSecurityRule list" where
  "rulesFor e operation field =
     filter (rule_in_scope (normalizeSecurityOperation operation) (trim_lower field)) (ev_rules e)"

text \<open>The loop over the rules of a scope; \<open>None\<close> when none matched.\<close>

definition rule_matches ::
  "gotime \<Rightarrow> TableSecurityEvaluator \<Rightarrow> (string \<rightharpoonup> string) \<Rightarrow> string \<Rightarrow> AppDefinitionSecurityRule \<Rightarrow> bool" where
  "rule_matches now e values field r \<longleftrightarrow>
     userHasRole e (sr_Role r) \<and> securityRuleConditionPasses now (sr_Condition r) values field"

definition scopeDecision ::
  "gotime \<Rightarrow> TableSecurityEvaluator \<Rightarrow> string \<Rightarrow> string \<Rightarrow> record_map \<Rightarrow> bool \<times> bool" where
  "scopeDecision now e operation field r =
     (let rules = rulesFor e operation field in
      if rules = [] then (False, True)
      else (case find (rule_matches now e (securityRecordValues r) field) rules of
          Some rule \<Rightarrow> (True, securityRuleAllows rule) | None \<Rightarrow> (True, False)))"

definition allowsFieldRules :: "gotime \<Rightarrow> TableSecurityEvaluator \<Rightarrow> string \<Rightarrow> string \<Rightarrow> record_map \<Rightarrow> bool" where
  "allowsFieldRules now e operation field r =
     (let f = trim_lower field in
      if f = [] then True
      else (case scopeDecision now e operation f r of (has, allowed) \<Rightarrow> if \<not> has then True else allowed))"

definition HasOperationRules :: "TableSecurityEvaluator option \<Rightarrow> string \<Rightarrow> bool" where
  "HasOperationRules sev operation = (case sev of None \<Rightarrow> False
     | Some e \<Rightarrow> list_ex (\<lambda>r. sr_Operation r = normalizeSecurityOperation operation) (ev_rules e))"

definition HasReadAccessControls :: "TableSecurityEvaluator option \<Rightarrow> bool" where
  "HasReadAccessControls sev = (case sev of None \<Rightarrow> False
     | Some e \<Rightarrow> ev_roleGate e \<noteq> [] \<or> HasOperationRules sev ''R'')"

definition AllowsRecord :: "gotime \<Rightarrow> TableSecurityEvaluator option \<Rightarrow> string \<Rightarrow> record_map \<Rightarrow> bool" where
  "AllowsRecord now sev operation r = (case sev of None \<Rightarrow> True
     | Some e \<Rightarrow> (let op = normalizeSecurityOperation operation in
         if op = ''R'' \<and> hasAdminReadBypass e then True
         else if \<not> allowsRoleGate e then False
         else (case scopeDecision now e op [] r of (has, allowed) \<Rightarrow> if \<not> has then True else allowed)))"

definition AllowsField ::
  "gotime \<Rightarrow> TableSecurityEvaluator option \<Rightarrow> string \<Rightarrow> string \<Rightarrow> record_map \<Rightarrow> bool" where
  "AllowsField now sev operation field r = (case sev of None \<Rightarrow> True
     | Some e \<Rightarrow> (let op = normalizeSecurityOperation operation in
         if op = ''R'' \<and> hasAdminReadBypass e then True
         else if \<not> AllowsRecord now sev op r then False
         else allowsFieldRules now e op field r))"

fun fields_allowed ::
  "gotime \<Rightarrow> TableSecurityEvaluator \<Rightarrow> string \<Rightarrow> record_map \<Rightarrow> string list \<Rightarrow> string list \<Rightarrow> bool" where
  "fields_allowed now e op r seen [] = True"
| "fields_allowed now e op r seen (f # fs) =
     (let f' = trim_lower f in
      if f' = [] \<or> f' \<in> set seen then fields_allowed now e op r seen fs
      else if \<not> allowsFieldRules now e op f' r then False
      else fields_allowed now e op r (f' # seen) fs)"

definition AllowsFields ::
  "gotime \<Rightarrow> TableSecurityEvaluator option \<Rightarrow> string \<Rightarrow> string list \<Rightarrow> record_map \<Rightarrow> bool" where
  "AllowsFields now sev operation fs r = (case sev of None \<Rightarrow> True
     | Some e \<Rightarrow> (let op = normalizeSecurityOperation operation in
         if op = ''R'' \<and> hasAdminReadBypass e then True
         else if \<not> AllowsRecord now sev op r then False
         else fields_allowed now e op r [] fs))"

text \<open>A record the user may see, its unreadable fields blanked.\<close>

definition FilterReadableRecord ::
  "gotime \<Rightarrow> TableSecurityEvaluator option \<Rightarrow> record_map \<Rightarrow> record_map option" where
  "FilterReadableRecord now sev r =
     (if \<not> AllowsRecord now sev ''R'' r then None
      else Some (map (\<lambda>kv. (fst kv, if AllowsField now sev ''R'' (fst kv) r then snd kv else GNil)) r))"

section \<open>The preview of a save\<close>

record TableSecuritySavePreview =
  pv_Operation :: string
  pv_SaveAllowed :: bool
  pv_RecordAllowed :: bool
  pv_ChangedFields :: "string list"
  pv_BlockedFields :: "string list"

definition BuildTableSecuritySavePreview ::
  "gotime \<Rightarrow> Column list \<Rightarrow> TableSecurityEvaluator option \<Rightarrow> bool \<Rightarrow> record_map \<Rightarrow> form_map \<Rightarrow> string set
     \<Rightarrow> TableSecuritySavePreview" where
  "BuildTableSecuritySavePreview now columns sev isCreate old form nulls =
     (let op = (if isCreate then ''C'' else ''U'');
          changed = ChangedRecordFields columns old form nulls;
          proposed = MergeRecordSnapshot old form nulls;
          blocked = filter (\<lambda>f. \<not> AllowsField now sev op f proposed) changed;
          preview = \<lparr>pv_Operation = op, pv_SaveAllowed = True, pv_RecordAllowed = True,
                     pv_ChangedFields = changed, pv_BlockedFields = []\<rparr> in
      if sev = None then preview
      else if \<not> isCreate \<and> changed = [] then preview
      else if \<not> AllowsRecord now sev op proposed then preview\<lparr>pv_SaveAllowed := False, pv_RecordAllowed := False\<rparr>
      else preview\<lparr>pv_BlockedFields := blocked, pv_SaveAllowed := (blocked = [])\<rparr>)"

definition MergeSecuritySavePreviews :: "TableSecuritySavePreview list \<Rightarrow> TableSecuritySavePreview" where
  "MergeSecuritySavePreviews previews =
     \<lparr>pv_Operation = (case find (\<lambda>p. pv_Operation p \<noteq> []) previews of None \<Rightarrow> [] | Some p \<Rightarrow> pv_Operation p),
      pv_SaveAllowed = list_all pv_SaveAllowed previews, pv_RecordAllowed = list_all pv_RecordAllowed previews,
      pv_ChangedFields = sort (uniq (concat (map pv_ChangedFields previews))),
      pv_BlockedFields = sort (uniq (concat (map pv_BlockedFields previews)))\<rparr>"

end
