(* ===== verification/SecurityLaws.thy ===== *)
theory SecurityLaws
  imports SecurityRules
begin

text \<open>
  The validation of a security section (\<open>validateAppDefinitionSecurity\<close> and
  \<open>validateSecurityRuleShadowing\<close>, \<open>internal/db/AppDefinition.go\<close>) and the laws that tie it to the
  evaluator: a rule that validation rejects as shadowed never decides.

  The locale \<open>first_match\<close> states what the client needs of rules tried in order, that a covered rule
  matches only where the rule covering it does; it is interpreted on the rules of the evaluator.
\<close>

section \<open>Validation\<close>

datatype security_error =
    UnknownRole string string
  | UnnamedRule string
  | DuplicateRule string string
  | RuleWithoutRole string string
  | RuleUnknownRole string string
  | BadOperation string string
  | BadEffect string string
  | WrongTable string string
  | FieldOnDelete string string
  | UnknownField string string
  | BadCondition string string expr_error
  | InertDeny AppDefinitionSecurityRule AppDefinitionSecurityRule
  | NeverApplies AppDefinitionSecurityRule AppDefinitionSecurityRule

definition validateIdentifierRoles :: "string list \<Rightarrow> string list \<Rightarrow> string \<Rightarrow> security_error option" where
  "validateIdentifierRoles roleSet roles ctx =
     check_all (\<lambda>r. if isReservedRoleName r then None
        else if r \<notin> set roleSet then Some (UnknownRole ctx r) else None) roles"

definition declaredRoles :: "string list \<Rightarrow> string list" where
  "declaredRoles roles = filter (\<lambda>r. TrimSpace r \<noteq> []) roles"

definition securityRuleScopeKey :: "AppDefinitionSecurityRule \<Rightarrow> string \<Rightarrow> string" where
  "securityRuleScopeKey r expectedTable =
     (if trim_lower (sr_Table r) = [] then trim_lower expectedTable else trim_lower (sr_Table r))
     @ CHR 0x00 # sr_Operation r @ CHR 0x00 # trim_lower (sr_Field r)"

definition shadows :: "string \<Rightarrow> AppDefinitionSecurityRule \<Rightarrow> AppDefinitionSecurityRule \<Rightarrow> bool" where
  "shadows expectedTable earlier later \<longleftrightarrow>
     securityRuleScopeKey earlier expectedTable = securityRuleScopeKey later expectedTable
     \<and> sr_Role earlier = sr_Role later
     \<and> (sr_Condition earlier = [] \<or> sr_Condition earlier = sr_Condition later)"

fun shadow_scan ::
  "string \<Rightarrow> AppDefinitionSecurityRule list \<Rightarrow> AppDefinitionSecurityRule list
     \<Rightarrow> (AppDefinitionSecurityRule \<times> AppDefinitionSecurityRule) option" where
  "shadow_scan t prev [] = None"
| "shadow_scan t prev (r # rs) = (case find (\<lambda>e. shadows t e r) prev of
     Some e \<Rightarrow> Some (e, r) | None \<Rightarrow> shadow_scan t (prev @ [r]) rs)"

definition validateSecurityRuleShadowing :: "AppDefinitionSecurityRule list \<Rightarrow> string \<Rightarrow> security_error option" where
  "validateSecurityRuleShadowing rules expectedTable =
     (if length rules < 2 then None
      else (case shadow_scan expectedTable [] (sort_key rule_key rules) of None \<Rightarrow> None
        | Some (e, l) \<Rightarrow> Some (if normalizeSecurityEffect (sr_Effect l) = ''deny'' then InertDeny e l
            else NeverApplies e l)))"

definition validate_rule ::
  "string list \<Rightarrow> string \<Rightarrow> string \<Rightarrow> string list option \<Rightarrow> AppDefinitionSecurityRule \<Rightarrow> security_error option" where
  "validate_rule roleSet ctx expectedTable allowed r =
     (if sr_Role r = [] then Some (RuleWithoutRole ctx (sr_Name r))
      else if sr_Role r \<notin> set roleSet then Some (RuleUnknownRole ctx (sr_Name r))
      else if sr_Operation r \<notin> {''C'', ''R'', ''U'', ''D''} then Some (BadOperation ctx (sr_Name r))
      else if sr_Effect r \<notin> {[], ''allow'', ''deny''} then Some (BadEffect ctx (sr_Name r))
      else if expectedTable \<noteq> [] \<and> sr_Table r \<noteq> [] \<and> sr_Table r \<noteq> expectedTable then Some (WrongTable ctx (sr_Name r))
      else if sr_Operation r = ''D'' \<and> sr_Field r \<noteq> [] then Some (FieldOnDelete ctx (sr_Name r))
      else if (case allowed of None \<Rightarrow> False | Some fs \<Rightarrow> sr_Field r \<noteq> [] \<and> sr_Field r \<notin> set fs)
        then Some (UnknownField ctx (sr_Name r))
      else if sr_Condition r \<noteq> [] then
        (case validateBooleanExpressionSyntax (sr_Condition r) of
           Some e \<Rightarrow> Some (BadCondition ctx (sr_Name r) e) | None \<Rightarrow> None)
      else None)"

fun validate_rules ::
  "string list \<Rightarrow> string \<Rightarrow> string \<Rightarrow> string list option \<Rightarrow> string list \<Rightarrow> AppDefinitionSecurityRule list
     \<Rightarrow> security_error option" where
  "validate_rules roleSet ctx t allowed seen [] = None"
| "validate_rules roleSet ctx t allowed seen (r # rs) =
     (if sr_Name r = [] then Some (UnnamedRule ctx)
      else if sr_Name r \<in> set seen then Some (DuplicateRule ctx (sr_Name r))
      else (case validate_rule roleSet ctx t allowed r of Some e \<Rightarrow> Some e
        | None \<Rightarrow> validate_rules roleSet ctx t allowed (sr_Name r # seen) rs))"

definition validateAppDefinitionSecurity ::
  "string list \<Rightarrow> AppDefinitionSecurity \<Rightarrow> string \<Rightarrow> string \<Rightarrow> string list option \<Rightarrow> security_error option" where
  "validateAppDefinitionSecurity roleSet security ctx expectedTable allowed =
     or_else (validateIdentifierRoles roleSet (se_Roles security) ctx)
       (or_else (validate_rules roleSet ctx expectedTable allowed [] (se_Rules security))
         (validateSecurityRuleShadowing (se_Rules security) expectedTable))"

definition validateAppDefinitionActionRoles ::
  "string list \<Rightarrow> AppDefinitionAction list \<Rightarrow> string \<Rightarrow> security_error option" where
  "validateAppDefinitionActionRoles roleSet actions ctx =
     check_all (\<lambda>a. validateIdentifierRoles roleSet (ac_Roles a) (ctx @ '' action '' @ ac_Name a)) actions"

section \<open>Rules tried in order\<close>

locale first_match =
  fixes matches :: "'s \<Rightarrow> 'r \<Rightarrow> bool"
    and covers :: "'r \<Rightarrow> 'r \<Rightarrow> bool"
  assumes covered: "covers a b \<Longrightarrow> matches s b \<Longrightarrow> matches s a"
begin

lemma find_without_covered:
  assumes "a \<in> set xs" "covers a b"
  shows "find (matches s) (xs @ b # ys) = find (matches s) (xs @ ys)"
proof (cases "find (matches s) xs")
  case None
  then have "\<not> matches s a" using assms(1) by (auto simp: find_None_iff)
  then have "\<not> matches s b" using covered[OF assms(2)] by blast
  then show ?thesis by (induction xs) auto
next
  case (Some r)
  then have "find (matches s) (xs @ zs) = Some r" for zs by (induction xs) (auto split: if_splits)
  then show ?thesis by simp
qed

lemma decided_by_first:
  assumes "find (matches s) rs = Some r"
  shows "\<exists>xs ys. rs = xs @ r # ys \<and> matches s r \<and> (\<forall>x \<in> set xs. \<not> matches s x)"
  using assms by (metis (no_types, lifting) find_Some_iff2 id_take_nth_drop in_set_conv_nth length_take
      min_less_iff_conj nth_take find_Some_iff)

end

text \<open>A subject is the moment, the evaluator, the values of the record and the field in question.\<close>

definition subject_matches ::
  "gotime \<times> TableSecurityEvaluator \<times> (string \<rightharpoonup> string) \<times> string \<Rightarrow> AppDefinitionSecurityRule \<Rightarrow> bool" where
  "subject_matches s r = (case s of (now, e, values, field) \<Rightarrow> rule_matches now e values field r)"

definition rule_covers :: "AppDefinitionSecurityRule \<Rightarrow> AppDefinitionSecurityRule \<Rightarrow> bool" where
  "rule_covers a b \<longleftrightarrow> sr_Role a = sr_Role b \<and> (sr_Condition a = [] \<or> sr_Condition a = sr_Condition b)"

lemma blank_condition [simp]: "securityRuleConditionPasses now [] values field"
  by (simp add: securityRuleConditionPasses_def)

interpretation security: first_match subject_matches rule_covers
proof
  fix a b s
  assume "rule_covers a b" "subject_matches s b"
  then show "subject_matches s a"
    by (auto simp: rule_covers_def subject_matches_def rule_matches_def split: prod.splits)
qed

lemma find_subject: "find (rule_matches now e values field) rs = find (subject_matches (now, e, values, field)) rs"
  by (rule arg_cong [where f = "\<lambda>p. find p rs"]) (simp add: subject_matches_def fun_eq_iff)

lemma subject_matches_eq: "subject_matches (now, e, values, field) r = rule_matches now e values field r"
  by (simp add: subject_matches_def)

lemma normalize_CRUD [simp]:
  "normalizeSecurityOperation ''C'' = ''C''" "normalizeSecurityOperation ''R'' = ''R''"
  "normalizeSecurityOperation ''U'' = ''U''" "normalizeSecurityOperation ''D'' = ''D''"
  by (simp_all add: normalizeSecurityOperation_def Let_def ToUpper_def upper_byte_def is_lower_byte_def
      TrimSpace_plain plain_byte_def)

lemma normalizeSecurityOperation_idem [simp]:
  "normalizeSecurityOperation (normalizeSecurityOperation op) = normalizeSecurityOperation op"
proof -
  let ?t = "TrimSpace (ToUpper op)"
  have up: "TrimSpace (ToUpper ?t) = ?t"
    by (simp add: TrimSpace_ToUpper)
  show ?thesis
  proof (cases "normalizeSecurityOperation op = ?t")
    case True
    have "normalizeSecurityOperation ?t = normalizeSecurityOperation op"
      unfolding normalizeSecurityOperation_def up ..
    with True show ?thesis by (metis (no_types))
  next
    case False
    then have "normalizeSecurityOperation op \<in> {''C'', ''R'', ''U'', ''D''}"
      unfolding normalizeSecurityOperation_def Let_def by (simp only: split: if_splits) simp_all
    then show ?thesis by (elim insertE emptyE) (simp_all only: normalize_CRUD)
  qed
qed

section \<open>Shadowed rules\<close>

lemma shadow_scan_Some:
  assumes "shadow_scan t prev rs = Some (e, l)"
  shows "\<exists>xs ys. rs = xs @ l # ys \<and> e \<in> set (prev @ xs) \<and> shadows t e l"
  using assms
proof (induction t prev rs rule: shadow_scan.induct)
  case (2 t prev r rs)
  show ?case
  proof (cases "find (\<lambda>e. shadows t e r) prev")
    case None
    then obtain xs ys where "rs = xs @ l # ys" "e \<in> set ((prev @ [r]) @ xs)" "shadows t e l" using 2 by auto
    then show ?thesis by (intro exI[of _ "r # xs"] exI[of _ ys]) auto
  next
    case (Some x)
    then have "r = l" "x = e" using 2(2) by auto
    then show ?thesis using find_Some_mem[OF Some] by (intro exI[of _ "[]"] exI[of _ rs]) auto
  qed
qed simp

lemma shadow_scan_None:
  assumes "shadow_scan t prev rs = None" "rs = xs @ l # ys" "e \<in> set (prev @ xs)"
  shows "\<not> shadows t e l"
  using assms
proof (induction t prev rs arbitrary: xs rule: shadow_scan.induct)
  case (2 t prev r rs)
  show ?case
  proof (cases xs)
    case Nil
    then show ?thesis using 2(2-4) by (auto simp: find_None_iff split: option.splits)
  next
    case (Cons x xs')
    then show ?thesis using 2 by (auto split: option.splits)
  qed
qed simp

lemma validate_rules_None:
  "validate_rules roleSet ctx t allowed seen rules = None \<Longrightarrow>
     (\<forall>r \<in> set rules. validate_rule roleSet ctx t allowed r = None \<and> sr_Name r \<noteq> [] \<and> sr_Name r \<notin> set seen)
     \<and> distinct (map sr_Name rules)"
proof (induction rules arbitrary: seen)
  case (Cons r rs)
  then have "sr_Name r \<noteq> []" "sr_Name r \<notin> set seen" "validate_rule roleSet ctx t allowed r = None"
    "validate_rules roleSet ctx t allowed (sr_Name r # seen) rs = None"
    by (auto split: if_splits option.splits)
  moreover from Cons.IH[OF this(4)] have "\<forall>x \<in> set rs. validate_rule roleSet ctx t allowed x = None \<and>
      sr_Name x \<noteq> [] \<and> sr_Name x \<noteq> sr_Name r \<and> sr_Name x \<notin> set seen" "distinct (map sr_Name rs)"
    by simp_all
  ultimately show ?case by (auto simp: image_iff)
qed simp

lemma validate_rule_operation:
  "validate_rule roleSet ctx t allowed r = None \<Longrightarrow> sr_Operation r \<in> {''C'', ''R'', ''U'', ''D''}"
  by (auto simp: validate_rule_def split: if_splits)

text \<open>The key of a scope names its table, operation and field unless a table name contains a NUL byte.\<close>

lemma append_NUL_inject:
  "(z :: char) \<notin> set a \<Longrightarrow> z \<notin> set b \<Longrightarrow> a @ z # x = b @ z # y \<longleftrightarrow> a = b \<and> x = y"
proof
  assume z: "z \<notin> set a" "z \<notin> set b" and eq: "a @ z # x = b @ z # y"
  have "Some (a, x) = cut1 z (a @ z # x)" by (rule cut1_append[OF z(1), symmetric])
  also have "\<dots> = Some (b, y)" unfolding eq by (rule cut1_append[OF z(2)])
  finally show "a = b \<and> x = y" by simp
qed simp

lemma NUL_trim: "z \<notin> set s \<Longrightarrow> z = CHR 0x00 \<Longrightarrow> z \<notin> set (trim_lower s)"
proof -
  have "lower_byte c = CHR 0x00 \<Longrightarrow> c = CHR 0x00" for c
  proof -
    assume "lower_byte c = CHR 0x00"
    then have "byte (lower_byte c) = byte (CHR 0x00)" by (rule arg_cong)
    then have "byte c = byte (CHR 0x00)" by (simp add: byte_lower_byte split: if_splits)
    then show ?thesis by (simp only: byte_eq_iff)
  qed
  then show "z \<notin> set s \<Longrightarrow> z = CHR 0x00 \<Longrightarrow> z \<notin> set (trim_lower s)"
    using set_TrimSpace[of "ToLower s"] unfolding ToLower_def set_map by (metis imageE subsetD)
qed

lemma scope_key_inject:
  assumes "securityRuleScopeKey a t = securityRuleScopeKey b t"
    and "sr_Operation a \<in> {''C'', ''R'', ''U'', ''D''}" "sr_Operation b \<in> {''C'', ''R'', ''U'', ''D''}"
    and "CHR 0x00 \<notin> set (sr_Table a)" "CHR 0x00 \<notin> set (sr_Table b)" "CHR 0x00 \<notin> set t"
  shows "securityRuleTableName a t = securityRuleTableName b t \<and> sr_Operation a = sr_Operation b
    \<and> trim_lower (sr_Field a) = trim_lower (sr_Field b)"
proof -
  let ?T = "\<lambda>r. if trim_lower (sr_Table r) = [] then trim_lower t else trim_lower (sr_Table r)"
  have nT: "CHR 0x00 \<notin> set (?T a)" "CHR 0x00 \<notin> set (?T b)" using assms(4-6) by (simp_all add: NUL_trim)
  have nO: "CHR 0x00 \<notin> set (sr_Operation a)" "CHR 0x00 \<notin> set (sr_Operation b)" using assms(2,3) by auto
  have eq: "?T a = ?T b \<and> sr_Operation a @ CHR 0x00 # trim_lower (sr_Field a) =
      sr_Operation b @ CHR 0x00 # trim_lower (sr_Field b)"
    by (rule append_NUL_inject[THEN iffD1, OF nT]) (rule assms(1)[unfolded securityRuleScopeKey_def])
  have "sr_Operation a = sr_Operation b \<and> trim_lower (sr_Field a) = trim_lower (sr_Field b)"
    by (rule append_NUL_inject[THEN iffD1, OF nO]) (rule eq[THEN conjunct2])
  with eq have "?T a = ?T b \<and> sr_Operation a = sr_Operation b \<and> trim_lower (sr_Field a) = trim_lower (sr_Field b)"
    by (rule conjI[OF conjunct1])
  then show ?thesis by (simp add: securityRuleTableName_def split: if_splits)
qed

text \<open>Two lists of rules that decide every scope alike.\<close>

definition decide_alike :: "AppDefinitionSecurityRule list \<Rightarrow> AppDefinitionSecurityRule list \<Rightarrow> bool" where
  "decide_alike R R' \<longleftrightarrow> (\<forall>op f s.
     (filter (rule_in_scope op f) R = [] \<longleftrightarrow> filter (rule_in_scope op f) R' = []) \<and>
     find (subject_matches s) (filter (rule_in_scope op f) R) = find (subject_matches s) (filter (rule_in_scope op f) R'))"

lemma rule_matches_rules [simp]: "rule_matches now (e\<lparr>ev_rules := R\<rparr>) = rule_matches now e"
  by (simp add: rule_matches_def userHasRole_def fun_eq_iff)

lemma scopeDecision_alike:
  assumes "decide_alike R R'"
  shows "scopeDecision now (e\<lparr>ev_rules := R\<rparr>) op f r = scopeDecision now (e\<lparr>ev_rules := R'\<rparr>) op f r"
proof -
  let ?S = "rule_in_scope (normalizeSecurityOperation op) (trim_lower f)"
  have "filter ?S R = [] \<longleftrightarrow> filter ?S R' = []"
    "find (subject_matches (now, e, securityRecordValues r, f)) (filter ?S R) =
     find (subject_matches (now, e, securityRecordValues r, f)) (filter ?S R')"
    using assms unfolding decide_alike_def by blast+
  then show ?thesis by (simp add: scopeDecision_def rulesFor_def Let_def find_subject)
qed

lemma AllowsRecord_alike:
  assumes "decide_alike R R'"
  shows "AllowsRecord now (Some (e\<lparr>ev_rules := R\<rparr>)) op r = AllowsRecord now (Some (e\<lparr>ev_rules := R'\<rparr>)) op r"
  by (simp add: AllowsRecord_def hasAdminReadBypass_def allowsRoleGate_def Let_def
      scopeDecision_alike[OF assms])

lemma AllowsField_alike:
  assumes "decide_alike R R'"
  shows "AllowsField now (Some (e\<lparr>ev_rules := R\<rparr>)) op f r = AllowsField now (Some (e\<lparr>ev_rules := R'\<rparr>)) op f r"
  by (simp add: AllowsField_def hasAdminReadBypass_def allowsFieldRules_def Let_def
      scopeDecision_alike[OF assms] AllowsRecord_alike[OF assms])

lemma find_filter_without_covered:
  assumes "e \<in> set xs" "rule_covers e l" "P l \<longrightarrow> P e"
  shows "find (subject_matches s) (filter P (xs @ l # ys)) = find (subject_matches s) (filter P (xs @ ys))"
    and "filter P (xs @ l # ys) = [] \<longleftrightarrow> filter P (xs @ ys) = []"
proof -
  show "find (subject_matches s) (filter P (xs @ l # ys)) = find (subject_matches s) (filter P (xs @ ys))"
  proof (cases "P l")
    case True
    then show ?thesis using assms security.find_without_covered[of e "filter P xs" l s "filter P ys"] by simp
  qed simp
  show "filter P (xs @ l # ys) = [] \<longleftrightarrow> filter P (xs @ ys) = []"
    using assms by (auto simp: filter_empty_conv)
qed

lemma shadowed_alike:
  assumes "e \<in> set xs" "rule_covers e l"
    and "sr_Operation e = sr_Operation l" "trim_lower (sr_Field e) = trim_lower (sr_Field l)" "Q l \<longrightarrow> Q e"
  shows "decide_alike (filter Q (xs @ l # ys)) (filter Q (xs @ ys))"
  unfolding decide_alike_def filter_filter
proof (intro allI conjI)
  fix op f s
  have imp: "(rule_in_scope op f l \<and> Q l) \<longrightarrow> (rule_in_scope op f e \<and> Q e)"
    using assms(3-5) by (simp add: rule_in_scope_def)
  show "find (subject_matches s) (filter (\<lambda>x. Q x \<and> rule_in_scope op f x) (xs @ l # ys)) =
      find (subject_matches s) (filter (\<lambda>x. Q x \<and> rule_in_scope op f x) (xs @ ys))"
    using imp by (intro find_filter_without_covered(1)[OF assms(1,2)]) blast
  show "filter (\<lambda>x. Q x \<and> rule_in_scope op f x) (xs @ l # ys) = [] \<longleftrightarrow>
      filter (\<lambda>x. Q x \<and> rule_in_scope op f x) (xs @ ys) = []"
    using imp by (intro find_filter_without_covered(2)[OF assms(1,2)]) blast
qed

lemma validate_rule_no_shadow:
  "validate_rule roleSet ctx t allowed r \<noteq> Some (InertDeny e l)"
  "validate_rule roleSet ctx t allowed r \<noteq> Some (NeverApplies e l)"
  unfolding validate_rule_def by (simp_all only: option.inject option.distinct security_error.distinct
      split: if_split option.split) simp_all

lemma shadow_error_dead:
  assumes "validateAppDefinitionSecurity roleSet sec ctx t allowed = Some err"
    and "err = InertDeny e l \<or> err = NeverApplies e l"
    and "\<forall>r \<in> set (se_Rules sec). CHR 0x00 \<notin> set (sr_Table r)" "CHR 0x00 \<notin> set t"
  shows "decide_alike (sort_key rule_key (filter (\<lambda>r. securityRuleTableName r (trim_lower t) = trim_lower t) (se_Rules sec)))
      (sort_key rule_key (filter (\<lambda>r. securityRuleTableName r (trim_lower t) = trim_lower t) (removeAll l (se_Rules sec))))"
proof -
  have "validateIdentifierRoles roleSet (se_Roles sec) ctx \<noteq> Some err"
    using assms(2) by (auto simp: validateIdentifierRoles_def dest!: check_all_Some split: if_splits)
  moreover have "validate_rules roleSet ctx t allowed seen rs \<noteq> Some err" for seen rs
    using assms(2) by (induction rs arbitrary: seen) (auto simp: validate_rule_no_shadow split: option.split)
  ultimately have rules: "validate_rules roleSet ctx t allowed [] (se_Rules sec) = None"
    and "validateSecurityRuleShadowing (se_Rules sec) t = Some err"
    using assms(1) by (auto simp: validateAppDefinitionSecurity_def or_else_def split: option.splits)
  then have "shadow_scan t [] (sort_key rule_key (se_Rules sec)) = Some (e, l)"
    using assms(2) by (auto simp: validateSecurityRuleShadowing_def split: if_splits option.splits)
  from shadow_scan_Some[OF this] obtain xs ys
    where split: "sort_key rule_key (se_Rules sec) = xs @ l # ys" "e \<in> set xs" "shadows t e l" by auto
  have mem: "e \<in> set (se_Rules sec)" "l \<in> set (se_Rules sec)"
    using split by (metis Un_iff in_set_conv_decomp set_append set_sort)+
  note valid = validate_rules_None[OF rules]
  have scope: "securityRuleTableName e t = securityRuleTableName l t \<and> sr_Operation e = sr_Operation l
    \<and> trim_lower (sr_Field e) = trim_lower (sr_Field l)"
  proof (rule scope_key_inject)
    show "securityRuleScopeKey e t = securityRuleScopeKey l t" using split(3) by (simp add: shadows_def)
    show "sr_Operation e \<in> {''C'', ''R'', ''U'', ''D''}" "sr_Operation l \<in> {''C'', ''R'', ''U'', ''D''}"
      using valid mem by (metis validate_rule_operation)+
  qed (use mem assms(3,4) in blast)+
  have cover: "rule_covers e l" using split(3) by (simp add: shadows_def rule_covers_def)
  have "distinct (sort_key rule_key (se_Rules sec))" using valid by (simp add: distinct_map)
  then have "removeAll l (xs @ l # ys) = xs @ ys" by (simp add: split(1))
  then have "sort_key rule_key (removeAll l (se_Rules sec)) = xs @ ys"
    unfolding removeAll_filter_not_eq filter_sort[symmetric] split(1) .
  moreover have "securityRuleTableName r (trim_lower t) = securityRuleTableName r t" for r
    by (simp add: securityRuleTableName_def)
  ultimately show ?thesis
    unfolding filter_sort[symmetric] split(1)
    using scope by (simp only:) (rule shadowed_alike[OF split(2) cover]; simp)
qed

section \<open>Properties of the evaluator\<close>

lemma map_of_map_key:
  "map_of (map (\<lambda>kv. (fst kv, if P (fst kv) then snd kv else d)) xs) k =
     map_option (\<lambda>v. if P k then v else d) (map_of xs k)"
  by (induction xs) auto

text \<open>
  C2: validation never refuses a rule that could matter. When it reports a rule as shadowed by an
  earlier one, the evaluators loaded with and without that rule allow and refuse the same records
  and fields, for every user, record and operation.
\<close>
theorem shadowed_rule_is_dead:
  assumes "validateAppDefinitionSecurity roleSet sec ctx t allowed = Some err"
    and "err = InertDeny e l \<or> err = NeverApplies e l"
    and "\<forall>r \<in> set (se_Rules sec). CHR 0x00 \<notin> set (sr_Table r)" "CHR 0x00 \<notin> set t"
    and "loadSecurityEvaluatorForConfig roles app t sec user = Inr (Some v)"
    and "loadSecurityEvaluatorForConfig roles app t (sec\<lparr>se_Rules := removeAll l (se_Rules sec)\<rparr>) user = Inr (Some v')"
  shows "AllowsRecord now (Some v) op r = AllowsRecord now (Some v') op r \<and>
    AllowsField now (Some v) op f r = AllowsField now (Some v') op f r"
proof -
  let ?P = "\<lambda>r. securityRuleTableName r (trim_lower t) = trim_lower t"
  let ?R = "sort_key rule_key (filter ?P (se_Rules sec))"
  let ?R' = "sort_key rule_key (filter ?P (removeAll l (se_Rules sec)))"
  have alike: "decide_alike ?R ?R'" by (rule shadow_error_dead[OF assms(1-4)])
  obtain names where names: "(if TrimSpace user \<noteq> [] then roles (TrimSpace user) (ra_ID app) else Inr []) = Inr names"
    using assms(5) by (cases "if TrimSpace user \<noteq> [] then roles (TrimSpace user) (ra_ID app) else Inr []")
      (simp_all add: loadSecurityEvaluatorForConfig_def)
  let ?v = "\<lparr>ev_app = app, ev_tableName = trim_lower t, ev_roleGate = se_Roles sec, ev_rules = [], ev_userRoles = names\<rparr>"
  have "v = ?v\<lparr>ev_rules := ?R\<rparr>" "v' = ?v\<lparr>ev_rules := ?R'\<rparr>"
    using assms(5,6) unfolding loadSecurityEvaluatorForConfig_def Let_def names
    by (simp_all split: if_split_asm)
  then show ?thesis by (simp only: AllowsRecord_alike[OF alike] AllowsField_alike[OF alike] simp_thms)
qed

text \<open>
  C3: the rules of a scope decide by first match, and an unmatched scope denies: when an operation
  has a rule for the record as a whole, the record is allowed, to a user through the role gate,
  exactly when some rule matches, none before it does, and its effect is not deny.
\<close>
theorem record_rules_first_match:
  assumes "rulesFor e op [] \<noteq> []" "\<not> (normalizeSecurityOperation op = ''R'' \<and> hasAdminReadBypass e)"
  shows "AllowsRecord now (Some e) op r \<longleftrightarrow> allowsRoleGate e \<and>
    (\<exists>xs rule ys. rulesFor e op [] = xs @ rule # ys \<and> securityRuleAllows rule \<and>
       rule_matches now e (securityRecordValues r) [] rule \<and>
       list_all (\<lambda>x. \<not> rule_matches now e (securityRecordValues r) [] x) xs)"
proof -
  let ?m = "rule_matches now e (securityRecordValues r) []"
  have scope: "rulesFor e (normalizeSecurityOperation op) [] = rulesFor e op []"
    by (simp add: rulesFor_def normalizeSecurityOperation_idem)
  have "AllowsRecord now (Some e) op r \<longleftrightarrow> allowsRoleGate e \<and>
      (\<exists>rule. find ?m (rulesFor e op []) = Some rule \<and> securityRuleAllows rule)"
    using assms by (auto simp: AllowsRecord_def scopeDecision_def Let_def scope split: option.split)
  also have "(\<exists>rule. find ?m (rulesFor e op []) = Some rule \<and> securityRuleAllows rule) \<longleftrightarrow>
    (\<exists>xs rule ys. rulesFor e op [] = xs @ rule # ys \<and> securityRuleAllows rule \<and> ?m rule \<and> (\<forall>x \<in> set xs. \<not> ?m x))"
    (is "?l = ?r")
  proof
    assume ?l
    then obtain rule where rule: "find ?m (rulesFor e op []) = Some rule" "securityRuleAllows rule" by blast
    from security.decided_by_first[OF rule(1)[unfolded find_subject]] rule(2) show ?r
      unfolding subject_matches_eq by blast
  next
    assume ?r
    then obtain xs rule ys where d: "rulesFor e op [] = xs @ rule # ys" "securityRuleAllows rule" "?m rule"
      "\<forall>x \<in> set xs. \<not> ?m x" by blast
    have "find ?m (xs @ rule # ys) = Some rule" using d(3,4) by (induction xs) auto
    then show ?l unfolding d(1) using d(2) by blast
  qed
  finally show ?thesis unfolding list_all_iff .
qed

lemma AllowsFields_all_fields:
  "AllowsFields now sev op fs r \<longleftrightarrow> AllowsRecord now sev op r \<and> (\<forall>f \<in> set fs. AllowsField now sev op f r)"
proof (cases sev)
  case (Some e)
  have rest: "fields_allowed now e op' r seen fs \<longleftrightarrow>
      (\<forall>f \<in> set fs. trim_lower f \<in> set seen \<or> allowsFieldRules now e op' f r)" for op' seen
  proof (induction fs arbitrary: seen)
    case (Cons f fs)
    have same: "trim_lower g = trim_lower f \<Longrightarrow> allowsFieldRules now e op' g r = allowsFieldRules now e op' f r" for g
      by (simp only: allowsFieldRules_def Let_def)
    have blank: "trim_lower f = [] \<Longrightarrow> allowsFieldRules now e op' f r" by (simp add: allowsFieldRules_def)
    show ?case
    proof (cases "trim_lower f = [] \<or> trim_lower f \<in> set seen")
      case True
      then show ?thesis using Cons.IH blank by (auto simp: Let_def)
    next
      case False
      then have "fields_allowed now e op' r seen (f # fs) \<longleftrightarrow>
          allowsFieldRules now e op' f r \<and> fields_allowed now e op' r (trim_lower f # seen) fs"
        using same[of "trim_lower f"] by (simp add: Let_def)
      also have "\<dots> \<longleftrightarrow> (\<forall>g \<in> set (f # fs). trim_lower g \<in> set seen \<or> allowsFieldRules now e op' g r)"
        unfolding Cons.IH list.set insert_iff using False same by blast
      finally show ?thesis .
    qed
  qed simp
  show ?thesis
    by (auto simp: Some AllowsFields_def AllowsField_def AllowsRecord_def Let_def rest normalizeSecurityOperation_idem)
qed (simp add: AllowsFields_def AllowsField_def AllowsRecord_def)

text \<open>
  C17: \<open>AllowsFields\<close> is \<open>AllowsField\<close> for each of the fields, together with the record itself; the
  order and repetition of the fields do not matter.
\<close>
theorem AllowsFields_all:
  "AllowsFields now sev op fs r \<longleftrightarrow> AllowsRecord now sev op r \<and> list_all (\<lambda>f. AllowsField now sev op f r) fs"
  by (simp add: AllowsFields_all_fields list_all_iff)

text \<open>
  A filtered record shows what the user may read and nothing else: it has the keys of the
  record in the same order, a field that is readable keeps its value and any other is blanked; with
  no evaluator, or for a user with the admin role, it is the record itself.
\<close>
theorem FilterReadableRecord_spec:
  assumes "FilterReadableRecord now sev r = Some shown"
  shows "AllowsRecord now sev ''R'' r \<and> map fst shown = map fst r \<and>
    mapget shown k = map_option (\<lambda>v. if AllowsField now sev ''R'' k r then v else GNil) (mapget r k) \<and>
    (case sev of None \<Rightarrow> shown = r | Some e \<Rightarrow> if hasAdminReadBypass e then shown = r else True)"
proof -
  have shown: "shown = map (\<lambda>kv. (fst kv, if AllowsField now sev ''R'' (fst kv) r then snd kv else GNil)) r"
    and allowed: "AllowsRecord now sev ''R'' r"
    using assms by (simp_all add: FilterReadableRecord_def split: if_splits)
  have "mapget shown k = map_option (\<lambda>v. if AllowsField now sev ''R'' k r then v else GNil) (mapget r k)"
    unfolding shown by (rule map_of_map_key)
  moreover have "shown = r" if "case sev of None \<Rightarrow> True | Some e \<Rightarrow> hasAdminReadBypass e"
  proof -
    have "AllowsField now sev ''R'' f r" for f
      using that by (simp add: AllowsField_def split: option.splits)
    then show ?thesis unfolding shown by (simp add: map_idI)
  qed
  ultimately show ?thesis using allowed by (auto simp: shown o_def split: option.splits)
qed

text \<open>
  C4: the preview of a save tells the truth: for a creation, or an update that changes something,
  it announces that the save is allowed exactly when the check the save handler makes,
  \<open>AllowsFields\<close> on the changed fields of the proposed record, passes.
\<close>
theorem save_preview_agrees_with_save:
  assumes "isCreate \<or> ChangedRecordFields columns old form nulls \<noteq> []"
  shows "pv_SaveAllowed (BuildTableSecuritySavePreview now columns sev isCreate old form nulls) \<longleftrightarrow>
    AllowsFields now sev (if isCreate then ''C'' else ''U'') (ChangedRecordFields columns old form nulls)
      (MergeRecordSnapshot old form nulls)"
  unfolding AllowsFields_all_fields using assms
  by (cases sev) (auto simp: BuildTableSecuritySavePreview_def Let_def AllowsRecord_def AllowsField_def
      filter_empty_conv)

text \<open>
  A section whose only role is the reserved \<open>authenticated\<close> passes validation, yet the role gate of
  the evaluator knows no reserved role: it refuses to update a record to every user who does not hold
  a stored role of that name, signed in or not.
\<close>
theorem reserved_role_gate_denies:
  assumes "se_Roles sec = [AuthenticatedRole]" "se_Rules sec = []"
    and "loadSecurityEvaluatorForConfig roles app t sec user = Inr (Some v)"
    and "\<forall>c \<in> set (role_candidates app AuthenticatedRole). c \<notin> set (ev_userRoles v)"
  shows "validateAppDefinitionSecurity roleSet sec ctx t allowed = None \<and> \<not> AllowsRecord now (Some v) ''U'' r"
proof
  have "isReservedRoleName AuthenticatedRole"
    by (simp add: isReservedRoleName_def AuthenticatedRole_def ToLower_def lower_byte_def is_upper_byte_def
        TrimSpace_plain plain_byte_def)
  then show "validateAppDefinitionSecurity roleSet sec ctx t allowed = None"
    by (simp add: validateAppDefinitionSecurity_def assms(1,2) validateIdentifierRoles_def
        validateSecurityRuleShadowing_def)
  have "ev_roleGate v = [AuthenticatedRole] \<and> ev_app v = app"
    using assms(1,3) unfolding loadSecurityEvaluatorForConfig_def Let_def
    by (auto split: sum.split_asm if_split_asm)
  then have "\<not> allowsRoleGate v"
    using assms(4) by (simp add: allowsRoleGate_def appRoleCandidates_def list_ex_iff set_nonblank_uniq)
  then show "\<not> AllowsRecord now (Some v) ''U'' r" by (simp add: AllowsRecord_def)
qed

end
