(* ===== verification/Samples.thy ===== *)
theory Samples
  imports SecurityLaws
begin

text \<open>
  Concrete apps, rules and records, and the properties of the preceding theories applied to them.
  The zero values are those of the Go structs.
\<close>

section \<open>Zero values\<close>

definition zero_security :: AppDefinitionSecurity where
  "zero_security = \<lparr>se_Roles = [], se_Notes = [], se_Rules = []\<rparr>"

definition zero_rule :: AppDefinitionSecurityRule where
  "zero_rule = \<lparr>sr_Name = [], sr_Description = [], sr_Order = 0, sr_Effect = [], sr_Operation = [], sr_Table = [],
     sr_Field = [], sr_Condition = [], sr_Role = []\<rparr>"

definition zero_column :: Column where
  "zero_column = \<lparr>co_ID = [], co_NAME = [], co_LABEL = [], co_DATA_TYPE = [], co_IS_NULLABLE = False,
     co_DEFAULT_VALUE = None, co_IS_HIDDEN = False, co_IS_READONLY = False, co_VALIDATION_REGEX = None,
     co_VALIDATION_EXPR = None, co_CONDITION_EXPR = None, co_VALIDATION_MSG = None, co_REFERENCE_TABLE = None,
     co_PREFIX = None, co_CHOICES = [], co_TABLE_ID = []\<rparr>"

definition zero_trigger :: AppDefinitionTrigger where
  "zero_trigger = \<lparr>tr_Name = [], tr_Label = [], tr_Description = [], tr_Event = [], tr_Table = [], tr_Condition = [],
     tr_Call = [], tr_Mode = [], tr_Order = 0, tr_Enabled = False\<rparr>"

definition zero_table :: AppDefinitionTable where
  "zero_table = \<lparr>dt_Name = [], dt_Extends = [], dt_Extensible = False, dt_LabelSingular = [], dt_LabelPlural = [],
     dt_Description = [], dt_DisplayField = [], dt_Columns = [], dt_Forms = [], dt_Lists = [], dt_DataPolicies = [],
     dt_Triggers = [], dt_RelatedLists = [], dt_Security = zero_security\<rparr>"

definition zero_definition :: AppDefinition where
  "zero_definition = \<lparr>ad_Name = [], ad_Namespace = [], ad_Label = [], ad_Description = [], ad_Dependencies = [],
     ad_Roles = [], ad_Tables = [], ad_Forms = [], ad_Pages = [], ad_ClientScripts = [], ad_Seeds = [],
     ad_Documentation = [], ad_Services = [], ad_Endpoints = [], ad_Triggers = [], ad_Schedules = []\<rparr>"

definition zero_app :: RegisteredApp where
  "zero_app = \<lparr>ra_ID = [], ra_Name = [], ra_Namespace = [], ra_Label = [], ra_Description = [], ra_Status = [],
     ra_DefinitionYAML = [], ra_PublishedDefinitionYAML = [], ra_DefinitionVersion = 0, ra_PublishedVersion = 0,
     ra_Definition = None, ra_DraftDefinition = None\<rparr>"

definition epoch :: gotime where
  "epoch = \<lparr>t_sec = 0, t_nsec = 0, t_off = utc\<rparr>"

lemmas zero_defs = zero_security_def zero_rule_def zero_column_def zero_trigger_def zero_table_def
  zero_definition_def zero_app_def

lemmas go_eval = ToLower_def ToUpper_def lower_byte_def upper_byte_def is_upper_byte_def is_lower_byte_def
  is_digit_byte_def

section \<open>Services and triggers\<close>

definition ping :: AppDefinitionMethod where
  "ping = \<lparr>me_Name = ''ping'', me_Label = [], me_Description = [], me_Visibility = ''public'', me_Language = [],
     me_Roles = [], me_Script = ''1''\<rparr>"

definition library_app :: RegisteredApp where
  "library_app = zero_app\<lparr>ra_ID := ''2'', ra_Name := ''lib'', ra_Definition := Some (zero_definition\<lparr>ad_Name := ''lib'',
     ad_Services := [\<lparr>sv_Name = ''net'', sv_Label = [], sv_Description = [], sv_Methods = [ping]\<rparr>]\<rparr>)\<rparr>"

definition audit_trigger :: AppDefinitionTrigger where
  "audit_trigger = zero_trigger\<lparr>tr_Name := ''audit'', tr_Event := ''record.update'', tr_Call := ''net.ping'',
     tr_Enabled := True\<rparr>"

definition ticket_table :: AppDefinitionTable where
  "ticket_table = zero_table\<lparr>dt_Name := ''ticket'', dt_Triggers := [audit_trigger]\<rparr>"

definition desk_definition :: AppDefinition where
  "desk_definition = zero_definition\<lparr>ad_Name := ''desk'', ad_Dependencies := [''lib''], ad_Tables := [ticket_table]\<rparr>"

definition desk_app :: RegisteredApp where
  "desk_app = zero_app\<lparr>ra_ID := ''1'', ra_Name := ''desk'', ra_Definition := Some desk_definition\<rparr>"

definition apps :: "RegisteredApp list" where
  "apps = [desk_app, library_app]"

text \<open>The visiting order of the map of these apps.\<close>

definition by_name :: "(string \<rightharpoonup> RegisteredApp) \<Rightarrow> RegisteredApp list" where
  "by_name m = (case m ''lib'' of None \<Rightarrow> [] | Some a \<Rightarrow> [a])"

lemma trim_words: "TrimSpace ''lib'' = ''lib''" "TrimSpace ''net.ping'' = ''net.ping''" "TrimSpace ''net'' = ''net''"
  "TrimSpace ''ping'' = ''ping''" "TrimSpace ''public'' = ''public''" "TrimSpace ''ticket'' = ''ticket''"
  "TrimSpace ''record.update'' = ''record.update''" "TrimSpace ''deny'' = ''deny''" "TrimSpace ''agent'' = ''agent''"
  "TrimSpace ''desk'' = ''desk''" "TrimSpace ''desk.agent'' = ''desk.agent''" "TrimSpace ''title'' = ''title''"
  "TrimSpace ''authenticated'' = ''authenticated''" "TrimSpace ''u1'' = ''u1''" "TrimSpace ''yes'' = ''yes''"
  by (rule TrimSpace_plain; simp add: plain_byte_def)+

lemma find_library: "findRegisteredAppByNameOrNamespace apps ''lib'' = Some library_app"
  by (simp add: zero_defs findRegisteredAppByNameOrNamespace_def findExactRegisteredAppByNameOrNamespace_def
      normalizeIdentifier_def apps_def desk_app_def library_app_def EqualFold_def trim_words go_eval Let_def)

lemma desk_dependencies: "runtimeDependencyApps apps desk_app = [''lib'' \<mapsto> library_app]"
proof -
  have "runtimeDefinitionForApp desk_app = Some desk_definition" "ra_Name library_app = ''lib''"
    by (simp_all add: runtimeDefinitionForApp_def desk_app_def library_app_def zero_app_def)
  then show ?thesis
    by (simp add: runtimeDependencyApps_def dependency_map_def find_library)
      (simp add: desk_definition_def zero_definition_def find_library)
qed

lemma by_name_visits: "visits (by_name (runtimeDependencyApps apps desk_app)) (runtimeDependencyApps apps desk_app)"
  by (auto simp: visits_def desk_dependencies by_name_def intro!: exI[of _ "[''lib'']"])

lemma desk_methods: "findRuntimeServiceMethod desk_app sn mn = None"
  by (simp add: findRuntimeServiceMethod_def runtimeDefinitionForApp_def desk_app_def desk_definition_def zero_defs)

lemma library_ping: "findRuntimeServiceMethod library_app ''net'' ''ping'' = Some ping" "is_public ping"
  by (simp_all add: findRuntimeServiceMethod_def runtimeDefinitionForApp_def library_app_def ping_def is_public_def
      zero_defs trim_words go_eval)

lemma desk_call: "resolveRuntimeServiceMethodWithApps by_name apps desk_app ''net.ping'' True = Some (library_app, ping)"
proof -
  have "cut1 (CHR ''.'') (trim_lower ''net.ping'') = Some (''net'', ''ping'')" by (simp add: trim_words go_eval)
  then show ?thesis
    by (simp add: resolveRuntimeServiceMethodWithApps_def desk_methods desk_dependencies by_name_def library_ping)
qed

lemma service_method_visibility_witness:
  "library_app = desk_app \<and> (if True then is_public ping \<or> trim_lower (me_Visibility ping) = [] else True) \<or>
    is_public ping \<and> library_app \<in> set apps \<and> library_app \<in> ran (runtimeDependencyApps apps desk_app)"
  by (rule service_method_visibility[OF desk_call by_name_visits])

lemma service_method_order_witness:
  "resolveRuntimeServiceMethodWithApps by_name apps desk_app ''net.ping'' True =
    resolveRuntimeServiceMethodWithApps (\<lambda>m. rev (by_name m)) apps desk_app ''net.ping'' True"
proof (rule service_method_order)
  show "visits (by_name (runtimeDependencyApps apps desk_app)) (runtimeDependencyApps apps desk_app)"
    by (rule by_name_visits)
  show "visits (rev (by_name (runtimeDependencyApps apps desk_app))) (runtimeDependencyApps apps desk_app)"
    using by_name_visits by (simp add: desk_dependencies by_name_def)
qed (simp add: desk_dependencies)

lemma desk_owns: "resolveRuntimeAppByTableWithApps apps (trim_lower ''ticket'') = Some desk_app"
  by (simp add: resolveRuntimeAppByTableWithApps_def apps_def desk_app_def desk_definition_def ticket_table_def
      runtimeDefinitionForApp_def zero_defs trim_words go_eval)

lemma trigger_selection_witness:
  "sorted (map (trigger_key \<circ> snd) (resolveRuntimeTriggersWithApps apps ''ticket'' ''record.update'')) \<and>
    mset (resolveRuntimeTriggersWithApps apps ''ticket'' ''record.update'') =
      mset (map (Pair desk_app) (definition_triggers desk_definition (trim_lower ''ticket'') (trim_lower ''record.update'')))"
  by (rule trigger_selection[OF desk_owns])
    (simp_all add: runtimeDefinitionForApp_def desk_app_def zero_defs trim_words go_eval)

section \<open>Values\<close>

definition flag :: Column where
  "flag = zero_column\<lparr>co_NAME := ''flag'', co_DATA_TYPE := ''text''\<rparr>"

lemma submitted_value_idempotent_witness:
  "NormalizeSubmittedColumnValue flag ''yes'' = Some (''yes'', False)"
proof -
  have "NormalizeSubmittedColumnValue flag ''yes'' = Some (''yes'', False)"
    by (simp add: NormalizeSubmittedColumnValue_def NormalizeSubmittedValue_def shouldStoreNullForBlankColumn_def
        normalizeDataType_def flag_def zero_column_def trim_words go_eval TrimSpace_plain plain_byte_def
        ref_prefix_def code_prefix_def HasPrefix_def)
  then show ?thesis by (rule submitted_value_idempotent)
qed

lemma role_save_bumps_nil_witness:
  "BumpSessionVersionForRole ''<nil>'' \<in> set (applyAuthzSaveSideEffects ''_role'' [] [(''_id'', GStr ''7'')])"
  by (rule role_save_bumps_nil) simp_all

section \<open>Security\<close>

text \<open>An unconditional allow for agents, and after it a deny that can never be reached.\<close>

definition open_rule :: AppDefinitionSecurityRule where
  "open_rule = zero_rule\<lparr>sr_Name := ''open'', sr_Order := 1, sr_Effect := ''allow'', sr_Operation := ''R'', sr_Role := ''agent''\<rparr>"

definition dead_rule :: AppDefinitionSecurityRule where
  "dead_rule = zero_rule\<lparr>sr_Name := ''shut'', sr_Order := 2, sr_Effect := ''deny'', sr_Operation := ''R'', sr_Role := ''agent''\<rparr>"

definition desk_security :: AppDefinitionSecurity where
  "desk_security = zero_security\<lparr>se_Rules := [open_rule, dead_rule]\<rparr>"

definition agent_evaluator :: "AppDefinitionSecurityRule list \<Rightarrow> TableSecurityEvaluator" where
  "agent_evaluator rules = \<lparr>ev_app = desk_app, ev_tableName = ''ticket'', ev_roleGate = [], ev_rules = rules,
     ev_userRoles = [''desk.agent'']\<rparr>"

lemma desk_rejected:
  "validateAppDefinitionSecurity [''agent''] desk_security [] ''ticket'' None = Some (InertDeny open_rule dead_rule)"
  by (simp add: validateAppDefinitionSecurity_def desk_security_def zero_defs validateIdentifierRoles_def validate_rule_def
      validateSecurityRuleShadowing_def rule_key_def open_rule_def dead_rule_def shadows_def securityRuleScopeKey_def
      normalizeSecurityEffect_def or_else_def trim_words go_eval)

lemma agent_loads:
  "loadSecurityEvaluatorForConfig (\<lambda>_ _. Inr [''desk.agent'']) desk_app ''ticket'' desk_security ''u1'' =
     Inr (Some (agent_evaluator [open_rule, dead_rule]))"
  "loadSecurityEvaluatorForConfig (\<lambda>_ _. Inr [''desk.agent'']) desk_app ''ticket''
     (desk_security\<lparr>se_Rules := removeAll dead_rule (se_Rules desk_security)\<rparr>) ''u1'' =
     Inr (Some (agent_evaluator [open_rule]))"
  by (simp_all add: loadSecurityEvaluatorForConfig_def desk_security_def zero_defs securityRuleTableName_def rule_key_def
      open_rule_def dead_rule_def agent_evaluator_def trim_words go_eval)

lemma shadowed_rule_is_dead_witness:
  "AllowsRecord epoch (Some (agent_evaluator [open_rule, dead_rule])) ''R'' [] =
     AllowsRecord epoch (Some (agent_evaluator [open_rule])) ''R'' [] \<and>
   AllowsField epoch (Some (agent_evaluator [open_rule, dead_rule])) ''R'' ''title'' [] =
     AllowsField epoch (Some (agent_evaluator [open_rule])) ''R'' ''title'' []"
  by (rule shadowed_rule_is_dead[OF desk_rejected disjI1[OF refl] _ _ agent_loads])
    (simp_all add: desk_security_def zero_defs open_rule_def dead_rule_def)

lemma agent_scope: "rulesFor (agent_evaluator [open_rule]) ''R'' [] = [open_rule]"
  by (simp add: rulesFor_def agent_evaluator_def rule_in_scope_def open_rule_def zero_rule_def)

lemma record_rules_first_match_witness:
  "AllowsRecord epoch (Some (agent_evaluator [open_rule])) ''R'' [] \<longleftrightarrow> allowsRoleGate (agent_evaluator [open_rule]) \<and>
    (\<exists>xs rule ys. rulesFor (agent_evaluator [open_rule]) ''R'' [] = xs @ rule # ys \<and> securityRuleAllows rule \<and>
       rule_matches epoch (agent_evaluator [open_rule]) (securityRecordValues []) [] rule \<and>
       list_all (\<lambda>x. \<not> rule_matches epoch (agent_evaluator [open_rule]) (securityRecordValues []) [] x) xs)"
proof (rule record_rules_first_match)
  show "rulesFor (agent_evaluator [open_rule]) ''R'' [] \<noteq> []" by (simp add: agent_scope)
qed (simp add: hasAdminReadBypass_def agent_evaluator_def)

lemma FilterReadableRecord_spec_witness:
  "AllowsRecord epoch None ''R'' [(''title'', GStr ''x'')] \<and> map fst [(''title'', GStr ''x'')] = map fst [(''title'', GStr ''x'')] \<and>
    mapget [(''title'', GStr ''x'')] ''title'' =
      map_option (\<lambda>v. if AllowsField epoch None ''R'' ''title'' [(''title'', GStr ''x'')] then v else GNil)
        (mapget [(''title'', GStr ''x'')] ''title'') \<and>
    (case None of None \<Rightarrow> [(''title'', GStr ''x'')] = [(''title'', GStr ''x'')]
     | Some e \<Rightarrow> if hasAdminReadBypass e then [(''title'', GStr ''x'')] = [(''title'', GStr ''x'')] else True)"
  by (rule FilterReadableRecord_spec) (simp add: FilterReadableRecord_def AllowsRecord_def AllowsField_def)

lemma save_preview_agrees_with_save_witness:
  "pv_SaveAllowed (BuildTableSecuritySavePreview epoch [flag] (Some (agent_evaluator [open_rule])) True [] [] {}) \<longleftrightarrow>
    AllowsFields epoch (Some (agent_evaluator [open_rule])) (if True then ''C'' else ''U'') (ChangedRecordFields [flag] [] [] {})
      (MergeRecordSnapshot [] [] {})"
  by (rule save_preview_agrees_with_save) simp

lemma reserved_role_gate_denies_witness:
  "validateAppDefinitionSecurity [] (zero_security\<lparr>se_Roles := [AuthenticatedRole]\<rparr>) [] ''ticket'' None = None \<and>
   \<not> AllowsRecord epoch (Some \<lparr>ev_app = desk_app, ev_tableName = ''ticket'', ev_roleGate = [AuthenticatedRole],
       ev_rules = [], ev_userRoles = [''user'']\<rparr>) ''U'' []"
  by (rule reserved_role_gate_denies[where roles = "\<lambda>_ _. Inr [''user'']" and app = desk_app and user = "''u1''"])
    (simp_all add: zero_security_def loadSecurityEvaluatorForConfig_def role_candidates_def appScopedRoleName_def
      AuthenticatedRole_def desk_app_def zero_app_def trim_words go_eval TrimSpace_plain plain_byte_def Let_def)

end
