(* ===== verification/AppNormalize.thy ===== *)
theory AppNormalize
  imports SecurityRules
begin

text \<open>
  The normalisation of an app definition, \<open>normalizeAppDefinition\<close> of \<open>internal/db/AppDefinition.go\<close>,
  section by section in the order of the source. The source writes the normal form into the
  definition as it goes and returns at the first error; here the result is the error or the normal
  form. The sections share one loop: prepare an entry, refuse it without a name, with an unsafe or a
  repeated name, then fill in its defaults.
\<close>

datatype section_kind =
    KDependency | KRole | KTable | KColumn string | KForm string | KList string | KPolicy string
  | KTableTrigger string | KRelated string | KAssetForm | KService | KMethod string | KTrigger
  | KSchedule | KEndpoint | KClientScript | KDocumentation

datatype definition_error =
    NamespaceTooLong
  | NameRequired section_kind
  | InvalidName section_kind string
  | DuplicateName section_kind string
  | SystemTableName string
  | BaseTableName string
  | TablePrefix string string
  | TableNameAfterPrefix string
  | BadColumn string string meta_error
  | PrefixWithoutAutoNumber string string
  | InvalidDisplayField string string
  | FormNeedsTable string
  | FormOfUnknownTable string string

definition and_then :: "('e, 'a) result \<Rightarrow> ('a \<Rightarrow> ('e, 'b) result) \<Rightarrow> ('e, 'b) result" where
  "and_then r f = (case r of Inl e \<Rightarrow> Inl e | Inr x \<Rightarrow> f x)"

lemma and_then_simps [simp]: "and_then (Inl e) f = Inl e" "and_then (Inr x) f = f x"
  by (simp_all add: and_then_def)

lemma and_then_Inr: "and_then r f = Inr y \<longleftrightarrow> (\<exists>x. r = Inr x \<and> f x = Inr y)"
  by (cases r) auto

lemma and_then_InrE:
  assumes "and_then r f = Inr y"
  obtains x where "r = Inr x" "f x = Inr y"
  using assms by (auto simp: and_then_Inr)

section \<open>Labels\<close>

text \<open>
  \<open>strings.ToUpper(part[:1])\<close> converts a single byte: one that is not ASCII is not valid UTF-8 by
  itself and becomes the encoding of the replacement character.
\<close>

definition upper_first :: "string \<Rightarrow> string" where
  "upper_first p = (case p of [] \<Rightarrow> []
     | c # s \<Rightarrow> (if byte c < 128 then [upper_byte c] else [CHR 0xEF, CHR 0xBF, CHR 0xBD]) @ s)"

definition humanizeIdentifier :: "string \<Rightarrow> string" where
  "humanizeIdentifier v = (let w = trim_lower v in
     if w = [] then [] else Join (map upper_first (Split1 (CHR ''_'') w)) '' '')"

definition label_or :: "string \<Rightarrow> string \<Rightarrow> string" where
  "label_or label name = (if label = [] then humanizeIdentifier name else label)"

definition or_default :: "string \<Rightarrow> string \<Rightarrow> string" where
  "or_default s d = (if s = [] then d else s)"

section \<open>Named entries\<close>

fun normalize_entries ::
  "section_kind \<Rightarrow> ('a \<Rightarrow> string) \<Rightarrow> (string \<Rightarrow> definition_error option) \<Rightarrow> ('a \<Rightarrow> (definition_error, 'a) result)
     \<Rightarrow> string list \<Rightarrow> 'a list \<Rightarrow> (definition_error, 'a list) result" where
  "normalize_entries kind nm extra finish seen [] = Inr []"
| "normalize_entries kind nm extra finish seen (x # xs) =
     (if nm x = [] then Inl (NameRequired kind)
      else if \<not> IsSafeIdentifier (nm x) then Inl (InvalidName kind (nm x))
      else (case extra (nm x) of Some e \<Rightarrow> Inl e
        | None \<Rightarrow> if nm x \<in> set seen then Inl (DuplicateName kind (nm x))
            else and_then (finish x) (\<lambda>y.
              and_then (normalize_entries kind nm extra finish (nm x # seen) xs) (\<lambda>ys. Inr (y # ys)))))"

definition no_extra :: "string \<Rightarrow> definition_error option" where "no_extra n = None"

section \<open>Dependencies and roles\<close>

fun normalize_dependencies ::
  "string \<Rightarrow> string \<Rightarrow> string list \<Rightarrow> string list \<Rightarrow> (definition_error, string list) result" where
  "normalize_dependencies name namespace seen [] = Inr []"
| "normalize_dependencies name namespace seen (x # xs) =
     (let d = trim_lower x in
      if d = [] \<or> d \<in> set seen then normalize_dependencies name namespace seen xs
      else if \<not> IsSafeIdentifier d then Inl (InvalidName KDependency d)
      else if d = name \<or> d = namespace then normalize_dependencies name namespace seen xs
      else and_then (normalize_dependencies name namespace (d # seen) xs) (\<lambda>ys. Inr (d # ys)))"

definition prepare_role :: "AppDefinitionRole \<Rightarrow> AppDefinitionRole" where
  "prepare_role r = r\<lparr>ro_Name := normalizeLooseIdentifier (ro_Name r), ro_Label := TrimSpace (ro_Label r),
     ro_Description := TrimSpace (ro_Description r)\<rparr>"

definition finish_role :: "AppDefinitionRole \<Rightarrow> (definition_error, AppDefinitionRole) result" where
  "finish_role r = Inr (r\<lparr>ro_Label := label_or (ro_Label r) (ro_Name r)\<rparr>)"

text \<open>A role without a name is dropped before any test.\<close>

definition normalize_roles :: "AppDefinitionRole list \<Rightarrow> (definition_error, AppDefinitionRole list) result" where
  "normalize_roles rs = normalize_entries KRole ro_Name no_extra finish_role []
     (filter (\<lambda>r. ro_Name r \<noteq> []) (map prepare_role rs))"

section \<open>Columns\<close>

fun normalize_choices :: "string list \<Rightarrow> ChoiceOption list \<Rightarrow> ChoiceOption list" where
  "normalize_choices seen [] = []"
| "normalize_choices seen (c # cs) =
     (let v = TrimSpace (ch_Value c); l = TrimSpace (ch_Label c) in
      if v = [] \<or> v \<in> set seen then normalize_choices seen cs
      else \<lparr>ch_Value = v, ch_Label = label_or l (ToLower v)\<rparr> # normalize_choices (v # seen) cs)"

definition normalizeChoiceOptions :: "ChoiceOption list \<Rightarrow> ChoiceOption list" where
  "normalizeChoiceOptions options = normalize_choices [] options"

definition prepare_column :: "AppDefinitionColumn \<Rightarrow> AppDefinitionColumn" where
  "prepare_column c = c\<lparr>dc_Name := trim_lower (dc_Name c), dc_Label := TrimSpace (dc_Label c),
     dc_DataType := normalizeDataType (dc_DataType c), dc_DefaultValue := TrimSpace (dc_DefaultValue c),
     dc_Prefix := normalizeAutoNumberPrefix (dc_Prefix c), dc_ValidationRegex := TrimSpace (dc_ValidationRegex c),
     dc_ValidationExpr := TrimSpace (dc_ValidationExpr c), dc_ConditionExpr := TrimSpace (dc_ConditionExpr c),
     dc_ValidationMessage := TrimSpace (dc_ValidationMessage c),
     dc_ReferenceTable := trim_lower (dc_ReferenceTable c), dc_Choices := normalizeChoiceOptions (dc_Choices c)\<rparr>"

definition finish_column :: "string \<Rightarrow> AppDefinitionColumn \<Rightarrow> (definition_error, AppDefinitionColumn) result" where
  "finish_column table c =
     (let c1 = c\<lparr>dc_Label := label_or (dc_Label c) (dc_Name c), dc_DataType := or_default (dc_DataType c) ''text''\<rparr> in
      case validateBuilderColumnDataType (dc_DataType c1) of
        Some e \<Rightarrow> Inl (BadColumn (dc_Name c) table e)
      | None \<Rightarrow>
          if IsAutoNumberDataType (dc_DataType c1)
          then (case validateAutoNumberPrefix (dc_Prefix c1) of
              Some e \<Rightarrow> Inl (BadColumn (dc_Name c) table e) | None \<Rightarrow> Inr c1)
          else if dc_Prefix c1 \<noteq> [] then Inl (PrefixWithoutAutoNumber (dc_Name c) table)
          else Inr c1)"

definition normalize_columns ::
  "string \<Rightarrow> AppDefinitionColumn list \<Rightarrow> (definition_error, AppDefinitionColumn list) result" where
  "normalize_columns table cs =
     normalize_entries (KColumn table) dc_Name no_extra (finish_column table) [] (map prepare_column cs)"

section \<open>Display fields\<close>

definition preferredDisplayFieldNames :: "string list" where
  "preferredDisplayFieldNames = [''name'', ''title'', ''number'', ''email'', ''label'', ''key'', ''slug'']"

definition NormalizeDisplayFieldName :: "string \<Rightarrow> string" where
  "NormalizeDisplayFieldName v = trim_lower v"

definition InferDisplayFieldName :: "string list \<Rightarrow> string" where
  "InferDisplayFieldName names =
     (let available = filter (\<lambda>n. n \<noteq> []) (map NormalizeDisplayFieldName names) in
      case find (\<lambda>c. c \<in> set available) preferredDisplayFieldNames of None \<Rightarrow> [] | Some c \<Rightarrow> c)"

definition inferDefinitionDisplayField :: "AppDefinitionTable \<Rightarrow> string" where
  "inferDefinitionDisplayField t = InferDisplayFieldName (map dc_Name (dt_Columns t))"

definition resolveDefinitionDisplayField :: "AppDefinitionTable \<Rightarrow> string" where
  "resolveDefinitionDisplayField t = (let f = NormalizeDisplayFieldName (dt_DisplayField t) in
     if f \<noteq> [] then f else inferDefinitionDisplayField t)"

section \<open>Forms, lists, policies, triggers and related lists of a table\<close>

text \<open>Actions: an entry without a name or with a repeated one is dropped.\<close>

definition prepare_action :: "AppDefinitionAction \<Rightarrow> AppDefinitionAction" where
  "prepare_action a = a\<lparr>ac_Name := normalizeLooseIdentifier (ac_Name a), ac_Label := TrimSpace (ac_Label a),
     ac_Call := TrimSpace (ac_Call a), ac_Roles := normalizeIdentifierList (ac_Roles a)\<rparr>"

fun keep_actions :: "string list \<Rightarrow> AppDefinitionAction list \<Rightarrow> AppDefinitionAction list" where
  "keep_actions seen [] = []"
| "keep_actions seen (a # as) =
     (if ac_Name a = [] \<or> ac_Name a \<in> set seen then keep_actions seen as
      else a\<lparr>ac_Label := label_or (ac_Label a) (ac_Name a)\<rparr> # keep_actions (ac_Name a # seen) as)"

definition normalizeAppDefinitionActions :: "AppDefinitionAction list \<Rightarrow> AppDefinitionAction list" where
  "normalizeAppDefinitionActions as = keep_actions [] (map prepare_action as)"

definition prepare_form :: "AppDefinitionForm \<Rightarrow> AppDefinitionForm" where
  "prepare_form f = f\<lparr>fo_Name := or_default (trim_lower (fo_Name f)) ''default'', fo_Label := TrimSpace (fo_Label f),
     fo_Description := TrimSpace (fo_Description f)\<rparr>"

definition finish_form :: "AppDefinitionForm \<Rightarrow> (definition_error, AppDefinitionForm) result" where
  "finish_form f = Inr (f\<lparr>fo_Label := label_or (fo_Label f) (fo_Name f), fo_Fields := normalizeIdentifierList (fo_Fields f),
     fo_Actions := normalizeAppDefinitionActions (fo_Actions f), fo_Security := normalizeAppDefinitionSecurity (fo_Security f)\<rparr>)"

definition prepare_list :: "AppDefinitionList \<Rightarrow> AppDefinitionList" where
  "prepare_list l = l\<lparr>li_Name := or_default (trim_lower (li_Name l)) ''default'', li_Label := TrimSpace (li_Label l)\<rparr>"

definition finish_list :: "AppDefinitionList \<Rightarrow> (definition_error, AppDefinitionList) result" where
  "finish_list l = Inr (l\<lparr>li_Label := label_or (li_Label l) (li_Name l), li_Columns := normalizeIdentifierList (li_Columns l)\<rparr>)"

definition prepare_policy :: "AppDefinitionDataPolicy \<Rightarrow> AppDefinitionDataPolicy" where
  "prepare_policy p = p\<lparr>dp_Name := normalizeLooseIdentifier (dp_Name p), dp_Label := TrimSpace (dp_Label p),
     dp_Description := TrimSpace (dp_Description p), dp_Condition := TrimSpace (dp_Condition p),
     dp_Action := TrimSpace (dp_Action p)\<rparr>"

definition finish_policy :: "AppDefinitionDataPolicy \<Rightarrow> (definition_error, AppDefinitionDataPolicy) result" where
  "finish_policy p = Inr (p\<lparr>dp_Label := label_or (dp_Label p) (dp_Name p)\<rparr>)"

definition prepare_trigger :: "AppDefinitionTrigger \<Rightarrow> AppDefinitionTrigger" where
  "prepare_trigger t = t\<lparr>tr_Name := normalizeLooseIdentifier (tr_Name t), tr_Label := TrimSpace (tr_Label t),
     tr_Description := TrimSpace (tr_Description t), tr_Event := trim_lower (tr_Event t),
     tr_Table := trim_lower (tr_Table t), tr_Condition := TrimSpace (tr_Condition t),
     tr_Call := trim_lower (tr_Call t), tr_Mode := trim_lower (tr_Mode t)\<rparr>"

definition finish_trigger :: "AppDefinitionTrigger \<Rightarrow> (definition_error, AppDefinitionTrigger) result" where
  "finish_trigger t = Inr (t\<lparr>tr_Label := label_or (tr_Label t) (tr_Name t), tr_Mode := or_default (tr_Mode t) ''async''\<rparr>)"

definition prepare_table_trigger :: "string \<Rightarrow> AppDefinitionTrigger \<Rightarrow> AppDefinitionTrigger" where
  "prepare_table_trigger table t = (prepare_trigger t)\<lparr>tr_Table := table\<rparr>"

definition prepare_related :: "AppDefinitionRelatedList \<Rightarrow> AppDefinitionRelatedList" where
  "prepare_related r = r\<lparr>rl_Name := normalizeLooseIdentifier (rl_Name r), rl_Label := TrimSpace (rl_Label r),
     rl_Table := trim_lower (rl_Table r), rl_ReferenceField := trim_lower (rl_ReferenceField r)\<rparr>"

definition finish_related :: "AppDefinitionRelatedList \<Rightarrow> (definition_error, AppDefinitionRelatedList) result" where
  "finish_related r = Inr (r\<lparr>rl_Label := label_or (rl_Label r) (rl_Name r),
     rl_Columns := normalizeIdentifierList (rl_Columns r)\<rparr>)"

section \<open>Tables\<close>

definition validateAppDefinitionTableName :: "string \<Rightarrow> string \<Rightarrow> string \<Rightarrow> definition_error option" where
  "validateAppDefinitionTableName appName namespace tableName =
     (let app = trim_lower appName; ns = trim_lower namespace; t = trim_lower tableName;
          after = (\<lambda>p. if TrimSpace (TrimPrefix t p) = [] then Some (TableNameAfterPrefix t) else None) in
      if t = [] then None
      else if ns = [] then
        (if isOOTBBaseAppName app ns then
           (if HasPrefix t ''_'' then after ''_''
            else if HasPrefix t ''base_'' then after ''base_''
            else Some (BaseTableName t))
         else if \<not> HasPrefix t ''_'' then Some (SystemTableName t)
         else after ''_'')
      else if \<not> HasPrefix t (ns @ ''_'') then Some (TablePrefix t ns)
      else after (ns @ ''_''))"

definition prepare_table :: "AppDefinitionTable \<Rightarrow> AppDefinitionTable" where
  "prepare_table t = t\<lparr>dt_Name := trim_lower (dt_Name t), dt_Extends := trim_lower (dt_Extends t)\<rparr>"

definition label_table :: "AppDefinitionTable \<Rightarrow> AppDefinitionTable" where
  "label_table t = (let s = label_or (TrimSpace (dt_LabelSingular t)) (dt_Name t) in
     t\<lparr>dt_LabelSingular := s, dt_LabelPlural := or_default (TrimSpace (dt_LabelPlural t)) (s @ ''s''),
       dt_Description := TrimSpace (dt_Description t), dt_DisplayField := NormalizeDisplayFieldName (dt_DisplayField t)\<rparr>)"

definition finish_table :: "AppDefinitionTable \<Rightarrow> (definition_error, AppDefinitionTable) result" where
  "finish_table t0 =
     (let t = label_table t0; n = dt_Name t in
      and_then (normalize_columns n (dt_Columns t)) (\<lambda>cs.
        let display = or_default (dt_DisplayField t) (inferDefinitionDisplayField (t\<lparr>dt_Columns := cs\<rparr>)) in
        if display \<noteq> [] \<and> \<not> IsSafeIdentifier display then Inl (InvalidDisplayField display n)
        else and_then (normalize_entries (KForm n) fo_Name no_extra finish_form [] (map prepare_form (dt_Forms t))) (\<lambda>fs.
          and_then (normalize_entries (KList n) li_Name no_extra finish_list [] (map prepare_list (dt_Lists t))) (\<lambda>ls.
          and_then (normalize_entries (KPolicy n) dp_Name no_extra finish_policy [] (map prepare_policy (dt_DataPolicies t))) (\<lambda>ps.
          and_then (normalize_entries (KTableTrigger n) tr_Name no_extra finish_trigger []
              (map (prepare_table_trigger n) (dt_Triggers t))) (\<lambda>ts.
          and_then (normalize_entries (KRelated n) rl_Name no_extra finish_related [] (map prepare_related (dt_RelatedLists t))) (\<lambda>rs.
            Inr (t\<lparr>dt_Columns := cs, dt_DisplayField := display, dt_Forms := fs, dt_Lists := ls, dt_DataPolicies := ps,
              dt_Triggers := ts, dt_RelatedLists := rs, dt_Security := normalizeAppDefinitionSecurity (dt_Security t)\<rparr>))))))))"

definition normalize_tables ::
  "string \<Rightarrow> string \<Rightarrow> AppDefinitionTable list \<Rightarrow> (definition_error, AppDefinitionTable list) result" where
  "normalize_tables name namespace ts =
     normalize_entries KTable dt_Name (validateAppDefinitionTableName name namespace) finish_table [] (map prepare_table ts)"

section \<open>Legacy forms\<close>

definition prepare_asset_form :: "AppDefinitionAssetForm \<Rightarrow> AppDefinitionAssetForm" where
  "prepare_asset_form f = f\<lparr>af_Name := normalizeLooseIdentifier (af_Name f), af_Table := trim_lower (af_Table f),
     af_Label := TrimSpace (af_Label f), af_Description := TrimSpace (af_Description f)\<rparr>"

definition finish_asset_form :: "AppDefinitionAssetForm \<Rightarrow> (definition_error, AppDefinitionAssetForm) result" where
  "finish_asset_form f =
     (let fields = normalizeIdentifierList (af_Fields f); layout = normalizeIdentifierList (af_Layout f) in
      Inr (f\<lparr>af_Label := label_or (af_Label f) (af_Name f),
        af_Fields := (if fields = [] then layout else fields), af_Layout := (if layout = [] then fields else layout),
        af_Actions := normalizeAppDefinitionActions (af_Actions f), af_Security := normalizeAppDefinitionSecurity (af_Security f)\<rparr>))"

definition table_form_of :: "AppDefinitionAssetForm \<Rightarrow> AppDefinitionForm" where
  "table_form_of f =
     (let fields = normalizeIdentifierList (af_Fields f) in
      \<lparr>fo_Name = or_default (trim_lower (af_Name f)) ''default'', fo_Label = TrimSpace (af_Label f),
       fo_Description = TrimSpace (af_Description f),
       fo_Fields = (if fields = [] then normalizeIdentifierList (af_Layout f) else fields),
       fo_Actions = normalizeAppDefinitionActions (af_Actions f), fo_Security = normalizeAppDefinitionSecurity (af_Security f)\<rparr>)"

text \<open>The index of the tables by name; of two tables of a name the later is found.\<close>

definition table_index :: "AppDefinitionTable list \<Rightarrow> string \<Rightarrow> nat option" where
  "table_index ts = map_of (rev (zip (map dt_Name ts) [0..<length ts]))"

fun migrate_forms ::
  "(string \<Rightarrow> nat option) \<Rightarrow> AppDefinitionAssetForm list \<Rightarrow> AppDefinitionTable list \<Rightarrow> (definition_error, AppDefinitionTable list) result" where
  "migrate_forms index [] ts = Inr ts"
| "migrate_forms index (f # fs) ts =
     (if trim_lower (af_Table f) = [] then Inl (FormNeedsTable (af_Name f))
      else (case index (trim_lower (af_Table f)) of None \<Rightarrow> Inl (FormOfUnknownTable (af_Name f) (af_Table f))
        | Some i \<Rightarrow>
            let form = table_form_of f in
            if list_ex (\<lambda>g. EqualFold (TrimSpace (fo_Name g)) (fo_Name form)) (dt_Forms (ts ! i))
            then Inl (DuplicateName (KForm (trim_lower (af_Table f))) (fo_Name form))
            else migrate_forms index fs (ts[i := (ts ! i)\<lparr>dt_Forms := dt_Forms (ts ! i) @ [form]\<rparr>])))"

definition migrateLegacyAppDefinitionFormsToTables :: "AppDefinition \<Rightarrow> (definition_error, AppDefinition) result" where
  "migrateLegacyAppDefinitionFormsToTables d =
     (if ad_Forms d = [] then Inr d
      else and_then (migrate_forms (table_index (ad_Tables d)) (ad_Forms d) (ad_Tables d)) (\<lambda>ts.
        Inr (d\<lparr>ad_Tables := ts, ad_Forms := []\<rparr>)))"

section \<open>Services, triggers, schedules, endpoints, scripts, pages and documentation\<close>

definition prepare_method :: "AppDefinitionMethod \<Rightarrow> AppDefinitionMethod" where
  "prepare_method m = m\<lparr>me_Name := normalizeLooseIdentifier (me_Name m), me_Label := TrimSpace (me_Label m),
     me_Description := TrimSpace (me_Description m), me_Visibility := trim_lower (me_Visibility m),
     me_Language := trim_lower (me_Language m), me_Roles := normalizeIdentifierList (me_Roles m),
     me_Script := TrimSpace (me_Script m)\<rparr>"

definition finish_method :: "AppDefinitionMethod \<Rightarrow> (definition_error, AppDefinitionMethod) result" where
  "finish_method m = Inr (m\<lparr>me_Label := label_or (me_Label m) (me_Name m),
     me_Visibility := or_default (me_Visibility m) ''private'', me_Language := or_default (me_Language m) ''javascript''\<rparr>)"

definition prepare_service :: "AppDefinitionService \<Rightarrow> AppDefinitionService" where
  "prepare_service s = s\<lparr>sv_Name := normalizeLooseIdentifier (sv_Name s), sv_Label := TrimSpace (sv_Label s),
     sv_Description := TrimSpace (sv_Description s)\<rparr>"

definition finish_service :: "AppDefinitionService \<Rightarrow> (definition_error, AppDefinitionService) result" where
  "finish_service s = and_then
     (normalize_entries (KMethod (sv_Name s)) me_Name no_extra finish_method [] (map prepare_method (sv_Methods s)))
     (\<lambda>ms. Inr (s\<lparr>sv_Label := label_or (sv_Label s) (sv_Name s), sv_Methods := ms\<rparr>))"

definition prepare_schedule :: "AppDefinitionSchedule \<Rightarrow> AppDefinitionSchedule" where
  "prepare_schedule s = s\<lparr>sh_Name := normalizeLooseIdentifier (sh_Name s), sh_Label := TrimSpace (sh_Label s),
     sh_Description := TrimSpace (sh_Description s), sh_Cron := TrimSpace (sh_Cron s), sh_Call := trim_lower (sh_Call s)\<rparr>"

definition finish_schedule :: "AppDefinitionSchedule \<Rightarrow> (definition_error, AppDefinitionSchedule) result" where
  "finish_schedule s = Inr (s\<lparr>sh_Label := label_or (sh_Label s) (sh_Name s)\<rparr>)"

definition prepare_endpoint :: "AppDefinitionEndpoint \<Rightarrow> AppDefinitionEndpoint" where
  "prepare_endpoint e = e\<lparr>en_Name := normalizeLooseIdentifier (en_Name e), en_Label := TrimSpace (en_Label e),
     en_Description := TrimSpace (en_Description e), en_Method := normalizeHTTPMethod (en_Method e),
     en_Path := normalizeEndpointPath (en_Path e), en_Call := trim_lower (en_Call e),
     en_Roles := normalizeIdentifierList (en_Roles e)\<rparr>"

definition finish_endpoint :: "AppDefinitionEndpoint \<Rightarrow> (definition_error, AppDefinitionEndpoint) result" where
  "finish_endpoint e = Inr (e\<lparr>en_Label := label_or (en_Label e) (en_Name e)\<rparr>)"

definition prepare_client_script :: "AppDefinitionClientScript \<Rightarrow> AppDefinitionClientScript" where
  "prepare_client_script s = s\<lparr>cs_Name := normalizeLooseIdentifier (cs_Name s), cs_Label := TrimSpace (cs_Label s),
     cs_Description := TrimSpace (cs_Description s), cs_Table := trim_lower (cs_Table s), cs_Event := trim_lower (cs_Event s),
     cs_Field := trim_lower (cs_Field s), cs_Language := trim_lower (cs_Language s), cs_Script := TrimSpace (cs_Script s)\<rparr>"

definition finish_client_script :: "AppDefinitionClientScript \<Rightarrow> (definition_error, AppDefinitionClientScript) result" where
  "finish_client_script s = Inr (s\<lparr>cs_Label := label_or (cs_Label s) (cs_Name s),
     cs_Language := or_default (cs_Language s) ''javascript''\<rparr>)"

definition normalize_page :: "AppDefinitionPage \<Rightarrow> AppDefinitionPage" where
  "normalize_page p =
     (let name = or_default (TrimSpace (pg_Name p)) (TrimSpace (pg_Label p)) in
      p\<lparr>pg_Name := name, pg_Slug := trim_lower (pg_Slug p), pg_Label := or_default (TrimSpace (pg_Label p)) name,
        pg_Description := TrimSpace (pg_Description p), pg_SearchKeywords := TrimSpace (pg_SearchKeywords p),
        pg_EditorMode := or_default (trim_lower (pg_EditorMode p)) ''wysiwyg'',
        pg_Status := or_default (trim_lower (pg_Status p)) ''draft'',
        pg_Actions := normalizeAppDefinitionActions (pg_Actions p), pg_Security := normalizeAppDefinitionSecurity (pg_Security p)\<rparr>)"

definition normalize_seed :: "AppDefinitionSeed \<Rightarrow> AppDefinitionSeed" where
  "normalize_seed s = s\<lparr>sd_Table := trim_lower (sd_Table s)\<rparr>"

definition prepare_article :: "AppDefinitionDocumentation \<Rightarrow> AppDefinitionDocumentation" where
  "prepare_article a = a\<lparr>do_Name := normalizeLooseIdentifier (do_Name a), do_Label := TrimSpace (do_Label a),
     do_Description := TrimSpace (do_Description a), do_Category := TrimSpace (do_Category a),
     do_Visibility := trim_lower (do_Visibility a), do_Content := TrimSpace (do_Content a),
     do_Related := normalizeIdentifierList (do_Related a)\<rparr>"

definition finish_article :: "AppDefinitionDocumentation \<Rightarrow> (definition_error, AppDefinitionDocumentation) result" where
  "finish_article a = Inr (a\<lparr>do_Label := label_or (do_Label a) (do_Name a),
     do_Visibility := or_default (do_Visibility a) ''internal''\<rparr>)"

section \<open>The definition\<close>

definition normalize_header :: "AppDefinition \<Rightarrow> AppDefinition" where
  "normalize_header d = d\<lparr>ad_Name := trim_lower (ad_Name d), ad_Namespace := trim_lower (ad_Namespace d),
     ad_Label := TrimSpace (ad_Label d), ad_Description := TrimSpace (ad_Description d)\<rparr>"

text \<open>The sections that follow the tables.\<close>

definition normalize_behaviour :: "AppDefinition \<Rightarrow> (definition_error, AppDefinition) result" where
  "normalize_behaviour d =
     and_then (normalize_entries KService sv_Name no_extra finish_service [] (map prepare_service (ad_Services d))) (\<lambda>svs.
     and_then (normalize_entries KTrigger tr_Name no_extra finish_trigger [] (map prepare_trigger (ad_Triggers d))) (\<lambda>trs.
     and_then (normalize_entries KSchedule sh_Name no_extra finish_schedule [] (map prepare_schedule (ad_Schedules d))) (\<lambda>shs.
     and_then (normalize_entries KEndpoint en_Name no_extra finish_endpoint [] (map prepare_endpoint (ad_Endpoints d))) (\<lambda>ens.
     and_then (normalize_entries KClientScript cs_Name no_extra finish_client_script []
         (map prepare_client_script (ad_ClientScripts d))) (\<lambda>css.
     and_then (normalize_entries KDocumentation do_Name no_extra finish_article [] (map prepare_article (ad_Documentation d))) (\<lambda>dos.
       Inr (d\<lparr>ad_Services := svs, ad_Triggers := trs, ad_Schedules := shs, ad_Endpoints := ens, ad_ClientScripts := css,
         ad_Pages := map normalize_page (ad_Pages d), ad_Seeds := map normalize_seed (ad_Seeds d),
         ad_Documentation := dos\<rparr>)))))))"

definition normalizeAppDefinition :: "AppDefinition \<Rightarrow> (definition_error, AppDefinition) result" where
  "normalizeAppDefinition d0 =
     (let d = normalize_header d0; n = ad_Name d; ns = ad_Namespace d in
      if ns \<noteq> [] \<and> 8 < length ns then Inl NamespaceTooLong
      else and_then (normalize_dependencies n ns [] (ad_Dependencies d)) (\<lambda>deps.
        and_then (normalize_roles (ad_Roles d)) (\<lambda>roles.
        and_then (normalize_tables n ns (ad_Tables d)) (\<lambda>tables.
        and_then (normalize_entries KAssetForm af_Name no_extra finish_asset_form [] (map prepare_asset_form (ad_Forms d))) (\<lambda>forms.
        and_then (migrateLegacyAppDefinitionFormsToTables
            (d\<lparr>ad_Dependencies := deps, ad_Roles := roles, ad_Tables := tables, ad_Forms := forms\<rparr>))
          normalize_behaviour)))))"

end
