(* ===== verification/AppNormalizeLaws.thy ===== *)
theory AppNormalizeLaws
  imports AppNormalize SecurityLaws
begin

text \<open>
  Properties of the normalisation of app definitions. \<open>named_section\<close> states what a section's
  prepare and finish steps keep, and proves once for all sections that the normal form has safe,
  distinct names, and that a list of entries that are normal one by one is its own normal form.
\<close>

section \<open>Normal strings\<close>

lemma normalizeIdentifierList_idem [simp, norm_simps]:
  "normalizeIdentifierList (normalizeIdentifierList xs) = normalizeIdentifierList xs"
proof -
  let ?ys = "normalizeIdentifierList xs"
  have "map (\<lambda>i. TrimSpace (ToLower i)) ?ys = ?ys"
    by (rule map_idI) (auto simp: normalizeIdentifierList_def set_nonblank_uniq norm_simps)
  moreover have "distinct ?ys" "[] \<notin> set ?ys"
    by (simp_all add: normalizeIdentifierList_def set_nonblank_uniq nonblank_uniq_def)
  ultimately show ?thesis
    by (simp add: normalizeIdentifierList_def[of ?ys] nonblank_uniq_id)
qed

lemma or_default_idem [simp]: "or_default (or_default s d) d = or_default s d"
  and or_default_eq_Nil [simp]: "or_default s d = [] \<longleftrightarrow> s = [] \<and> d = []"
  by (auto simp: or_default_def)

lemma label_or_idem [simp]: "label_or (label_or l n) n = label_or l n"
  by (simp add: label_or_def)

lemma normalizeAutoNumberPrefix_idem [simp]: "normalizeAutoNumberPrefix (normalizeAutoNumberPrefix p) = normalizeAutoNumberPrefix p"
  by (simp add: normalizeAutoNumberPrefix_def TrimSpace_ToUpper)

lemma normalizeHTTPMethod_idem [simp]: "normalizeHTTPMethod (normalizeHTTPMethod m) = normalizeHTTPMethod m"
  by (simp add: normalizeHTTPMethod_def TrimSpace_ToUpper)

lemma safe_plain: "IsSafeIdentifier s \<Longrightarrow> c \<in> set s \<Longrightarrow> plain_byte c \<and> c \<noteq> CHR ''-'' \<and> c \<noteq> CHR '' ''"
  by (cases s) (auto simp: IsSafeIdentifier_def list_all_iff ident_tail_def ident_head_def is_upper_byte_def
      is_lower_byte_def is_digit_byte_def plain_byte_def)

lemma TrimSpace_safe [simp]: "IsSafeIdentifier s \<Longrightarrow> TrimSpace s = s"
  using safe_plain by (auto intro: TrimSpace_plain)

section \<open>Data types\<close>

lemma TrimSpace_after_plain:
  assumes "\<forall>c \<in> set p. plain_byte c" "p \<noteq> []" "TrimSpace t = t" "t \<noteq> []"
  shows "TrimSpace (p @ t) = p @ t"
proof -
  have "TrimLeftSpace (p @ t) = p @ t"
    unfolding TrimLeftSpace_def using assms(1,2)
    by (cases p) (auto intro!: skip_ws_plain_head simp: ws2_def ws3_def plain_byte_def)
  moreover have "TrimRightSpace t = t" using assms(3) by (metis TrimRightSpace_idem TrimSpace_def)
  then have "\<not> starts_ws (\<lambda>a b. ws2 b a) (\<lambda>a b c. ws3 c b a) (rev t)"
    using skip_ws_not_starts[of "\<lambda>a b. ws2 b a" "\<lambda>a b c. ws3 c b a" "rev t"]
    by (metis TrimRightSpace_def rev_rev_ident)
  then have "\<not> starts_ws (\<lambda>a b. ws2 b a) (\<lambda>a b c. ws3 c b a) (rev t @ rev p)"
    using assms(1,2,4) by (auto simp: starts_ws_def plain_byte_def ws2_def ws3_def neq_Nil_conv in_set_conv_decomp
        split: list.splits) (auto simp: append_eq_Cons_conv)
  then have "TrimRightSpace (p @ t) = p @ t" by (simp add: TrimRightSpace_def skip_ws_id)
  ultimately show ?thesis by (simp add: TrimSpace_def)
qed

lemma lower_prefixes:
  "ToLower ref_prefix = ref_prefix" "ToLower code_prefix = code_prefix"
  "\<forall>c \<in> set ref_prefix. plain_byte c" "\<forall>c \<in> set code_prefix. plain_byte c" "ref_prefix \<noteq> []" "code_prefix \<noteq> []"
  "\<not> HasPrefix (code_prefix @ s) ref_prefix"
  by (simp_all add: ref_prefix_def code_prefix_def ToLower_def lower_byte_def is_upper_byte_def plain_byte_def HasPrefix_def)

lemma prefixed_not_word:
  "ref_prefix @ s \<notin> {''longtext'', ''long-text'', ''rich_text'', ''rich-text'', ''autonumber'', ''auto_number'', ''auto-number''}"
  "code_prefix @ s \<notin> {''longtext'', ''long-text'', ''rich_text'', ''rich-text'', ''autonumber'', ''auto_number'', ''auto-number''}"
  by (simp_all add: ref_prefix_def code_prefix_def)

lemma normalizeDataType_words [simp]:
  "normalizeDataType ''long_text'' = ''long_text''" "normalizeDataType ''richtext'' = ''richtext''"
  "normalizeDataType ''autnumber'' = ''autnumber''" "normalizeDataType ''reference'' = ''reference''"
  "normalizeDataType ''code'' = ''code''" "normalizeDataType ''text'' = ''text''"
  by (simp_all add: normalizeDataType_def TrimSpace_plain plain_byte_def ToLower_def lower_byte_def is_upper_byte_def
      HasPrefix_def ref_prefix_def code_prefix_def)

lemma normalizeDataType_reference:
  assumes "normalizeIdentifier t = t" "t \<noteq> []"
  shows "normalizeDataType (ref_prefix @ t) = ref_prefix @ t"
proof -
  have t: "ToLower t = t" "TrimSpace t = t" using assms(1) TrimSpace_ToLower[of t]
    by (metis ToLower_idem normalizeIdentifier_def TrimSpace_idem TrimSpace_ToLower)+
  have "TrimSpace (ref_prefix @ t) = ref_prefix @ t"
    by (rule TrimSpace_after_plain[OF lower_prefixes(3,5) t(2) assms(2)])
  with t assms prefixed_not_word(1)[of t] show ?thesis
    by (simp add: normalizeDataType_def ToLower_append lower_prefixes)
qed

lemma normalizeDataType_code:
  assumes "ToLower t = t" "TrimSpace t = t" "t \<noteq> []"
  shows "normalizeDataType (code_prefix @ t) = code_prefix @ t"
proof -
  have "TrimSpace (code_prefix @ t) = code_prefix @ t"
    by (rule TrimSpace_after_plain[OF lower_prefixes(4,6) assms(2,3)])
  with assms prefixed_not_word(2)[of t] show ?thesis
    by (simp add: normalizeDataType_def ToLower_append lower_prefixes)
qed

lemma normalizeDataType_cases:
  fixes dt defines "l \<equiv> ToLower (TrimSpace dt)"
  shows "normalizeDataType dt \<in> {''long_text'', ''richtext'', ''autnumber'', ''reference'', ''code''} \<or>
    (\<exists>t. normalizeDataType dt = ref_prefix @ t \<and> t = normalizeIdentifier (TrimSpace (TrimPrefix l ref_prefix)) \<and> t \<noteq> []) \<or>
    (\<exists>t. normalizeDataType dt = code_prefix @ t \<and> t = TrimSpace (TrimPrefix l code_prefix) \<and> t \<noteq> [] \<and> HasPrefix l code_prefix) \<or>
    normalizeDataType dt = l"
proof -
  define A where "A = (l \<in> {''longtext'', ''long-text''})"
  define B where "B = (l \<in> {''rich_text'', ''rich-text''})"
  define C where "C = (l \<in> {''autonumber'', ''auto_number'', ''auto-number''})"
  define r where "r = normalizeIdentifier (TrimSpace (TrimPrefix l ref_prefix))"
  define c where "c = TrimSpace (TrimPrefix l code_prefix)"
  have "normalizeDataType dt = (if A then ''long_text'' else if B then ''richtext'' else if C then ''autnumber''
      else if HasPrefix l ref_prefix then (if r = [] then ''reference'' else ref_prefix @ r)
      else if HasPrefix l code_prefix then (if c = [] then ''code'' else code_prefix @ c) else l)"
    unfolding normalizeDataType_def A_def B_def C_def r_def c_def l_def Let_def ..
  then show ?thesis unfolding r_def[symmetric] c_def[symmetric]
    by (cases A; cases B; cases C; cases "HasPrefix l ref_prefix"; cases "r = []"; cases "HasPrefix l code_prefix"; cases "c = []") simp_all
qed

text \<open>Normalising a data type a second time changes nothing.\<close>
lemma normalizeDataType_idem: "normalizeDataType (normalizeDataType dt) = normalizeDataType dt"
proof -
  define l where "l = ToLower (TrimSpace dt)"
  have l: "ToLower (TrimSpace l) = l" by (simp add: l_def TrimSpace_ToLower)
  consider "normalizeDataType dt \<in> {''long_text'', ''richtext'', ''autnumber'', ''reference'', ''code''}"
    | (ref) t where "normalizeDataType dt = ref_prefix @ t" "t = normalizeIdentifier (TrimSpace (TrimPrefix l ref_prefix))" "t \<noteq> []"
    | (code) t where "normalizeDataType dt = code_prefix @ t" "t = TrimSpace (TrimPrefix l code_prefix)" "t \<noteq> []"
        "HasPrefix l code_prefix"
    | (same) "normalizeDataType dt = l"
    using normalizeDataType_cases[of dt] unfolding l_def by blast
  then show ?thesis
  proof cases
    case 1
    then show ?thesis by (elim insertE emptyE) simp_all
  next
    case ref
    then show ?thesis by (simp add: normalizeDataType_reference)
  next
    case code
    have "ToLower (TrimPrefix l code_prefix) = TrimPrefix l code_prefix"
      using l by (metis ToLower_append ToLower_idem code(4) lower_prefixes(2) same_append_eq TrimPrefix_HasPrefix TrimSpace_ToLower)
    with code(2) have "ToLower t = t" by (metis TrimSpace_ToLower)
    with code show ?thesis by (simp add: normalizeDataType_code)
  next
    case same
    have "normalizeDataType l = normalizeDataType dt" unfolding normalizeDataType_def l l_def[symmetric] ..
    with same show ?thesis by simp
  qed
qed

section \<open>Loose identifiers\<close>

definition lower_string :: "string \<Rightarrow> bool" where
  "lower_string s \<longleftrightarrow> ToLower s = s"

lemma lower_string_iff: "lower_string s \<longleftrightarrow> (\<forall>c \<in> set s. lower_byte c = c)"
  by (induction s) (auto simp: lower_string_def ToLower_def)

lemma lower_string_mono: "lower_string s \<Longrightarrow> set t \<subseteq> set s \<union> {CHR ''_''} \<Longrightarrow> lower_string t"
proof -
  have "lower_byte (CHR ''_'') = CHR ''_''" by (simp add: lower_byte_def is_upper_byte_def)
  then show "lower_string s \<Longrightarrow> set t \<subseteq> set s \<union> {CHR ''_''} \<Longrightarrow> lower_string t"
    unfolding lower_string_iff by blast
qed

lemma set_replace_double: "set (replace_double s) \<subseteq> set s"
  by (induction s rule: replace_double.induct) auto

lemma set_collapse: "set (collapse_underscores s) \<subseteq> set s"
proof (induction s rule: collapse_underscores.induct)
  case (1 s)
  then show ?case using set_replace_double[of s]
    by (subst collapse_underscores.simps) auto
qed

lemma collapse_no_double: "\<not> Contains (collapse_underscores s) ''__''"
proof (induction s rule: collapse_underscores.induct)
  case (1 s)
  then show ?case by (subst collapse_underscores.simps) auto
qed

lemma sublist_TrimByte: "sublist (TrimByte c s) s"
proof -
  have "suffix (dropWhile (\<lambda>d. d = c) s) s" by (rule suffix_dropWhile)
  moreover have "prefix (TrimByte c s) (dropWhile (\<lambda>d. d = c) s)"
    using suffix_dropWhile[of "\<lambda>d. d = c" "rev (dropWhile (\<lambda>d. d = c) s)"]
    unfolding TrimByte_def suffix_to_prefix by simp
  ultimately show ?thesis by (meson prefix_imp_sublist sublist_order.order.trans suffix_imp_sublist)
qed

lemma dropWhile_rev_dropWhile:
  "dropWhile P (rev (dropWhile P (rev (dropWhile P s)))) = rev (dropWhile P (rev (dropWhile P s)))"
proof (cases "dropWhile P s")
  case (Cons a t)
  then have a: "\<not> P a" by (metis hd_dropWhile list.sel(1) list.simps(3))
  have "dropWhile P (rev t @ [a]) = dropWhile P (rev t) @ [a]"
    using a by (induction "rev t" arbitrary: t rule: list.induct) (auto simp: dropWhile_append3 dropWhile_append)
  with Cons a show ?thesis by simp
next
  case Nil
  show ?thesis unfolding Nil by simp
qed

lemma TrimByte_idem [simp]: "TrimByte c (TrimByte c s) = TrimByte c s"
  unfolding TrimByte_def dropWhile_rev_dropWhile by simp

lemma set_ReplaceByte: "set (ReplaceByte c new s) \<subseteq> set s \<union> set new"
  by (auto simp: ReplaceByte_def)

lemma loose_facts:
  shows "lower_string (normalizeLooseIdentifier v)" "\<not> Contains (normalizeLooseIdentifier v) ''__''"
    "TrimByte (CHR ''_'') (normalizeLooseIdentifier v) = normalizeLooseIdentifier v"
proof -
  let ?r = "ReplaceByte (CHR '' '') ''_'' (ReplaceByte (CHR ''-'') ''_'' (TrimSpace (ToLower v)))"
  have "set ?r \<subseteq> set (TrimSpace (ToLower v)) \<union> {CHR ''_''}"
    using set_ReplaceByte[of "CHR '' ''" "''_''"] set_ReplaceByte[of "CHR ''-''" "''_''"] by fastforce
  then have "set (normalizeLooseIdentifier v) \<subseteq> set (TrimSpace (ToLower v)) \<union> {CHR ''_''}"
    using set_mono_sublist[OF sublist_TrimByte] set_collapse[of ?r]
    unfolding normalizeLooseIdentifier_def by blast
  moreover have "lower_string (TrimSpace (ToLower v))" by (simp add: lower_string_def TrimSpace_ToLower[symmetric])
  ultimately show "lower_string (normalizeLooseIdentifier v)" by (rule lower_string_mono[rotated])
  show "\<not> Contains (normalizeLooseIdentifier v) ''__''"
    using collapse_no_double[of ?r] sublist_TrimByte
    unfolding normalizeLooseIdentifier_def Contains_sublist by (meson sublist_order.order.trans)
qed (simp add: normalizeLooseIdentifier_def)

text \<open>A safe name is a fixed point, although the function is not idempotent in general.\<close>

lemma loose_fixed:
  assumes "IsSafeIdentifier (normalizeLooseIdentifier v)"
  shows "normalizeLooseIdentifier (normalizeLooseIdentifier v) = normalizeLooseIdentifier v"
proof -
  let ?w = "normalizeLooseIdentifier v"
  have "CHR ''-'' \<notin> set ?w" "CHR '' '' \<notin> set ?w" using safe_plain[OF assms] by blast+
  moreover have "collapse_underscores ?w = ?w" using loose_facts(2)[of v] by (simp add: collapse_underscores.simps)
  moreover have "ToLower ?w = ?w" using loose_facts(1)[of v] by (simp add: lower_string_def)
  ultimately show ?thesis using assms loose_facts(3)[of v]
    by (simp add: normalizeLooseIdentifier_def[of ?w] ReplaceByte_id)
qed

section \<open>The loop of the sections\<close>

lemma list_all2_source: "list_all2 P xs ys \<Longrightarrow> y \<in> set ys \<Longrightarrow> \<exists>x \<in> set xs. P x y"
  by (induction rule: list_all2_induct) auto

locale named_section =
  fixes nm :: "'a \<Rightarrow> string" and prepare :: "'a \<Rightarrow> 'a" and finish :: "'a \<Rightarrow> (definition_error, 'a) result"
  assumes finish_name: "finish x = Inr y \<Longrightarrow> nm y = nm x"
begin

definition normal :: "'a \<Rightarrow> bool" where
  "normal y \<longleftrightarrow> prepare y = y \<and> finish y = Inr y"

lemma entries_Inr:
  "normalize_entries kind nm extra finish seen xs = Inr ys \<longleftrightarrow>
     list_all2 (\<lambda>x y. finish x = Inr y) xs ys \<and> distinct (map nm xs) \<and> set (map nm xs) \<inter> set seen = {} \<and>
     (\<forall>x \<in> set xs. IsSafeIdentifier (nm x) \<and> extra (nm x) = None)"
proof (induction xs arbitrary: seen ys)
  case (Cons x xs)
  have "nm x \<noteq> [] \<and> IsSafeIdentifier (nm x) \<longleftrightarrow> IsSafeIdentifier (nm x)"
    by (auto simp: IsSafeIdentifier_def)
  then show ?case
    by (auto simp: and_then_Inr Cons.IH list_all2_Cons1 split: option.splits)
qed auto

lemma entries_names:
  assumes "normalize_entries kind nm extra finish seen xs = Inr ys"
  shows "map nm ys = map nm xs \<and> distinct (map nm ys) \<and>
    (\<forall>y \<in> set ys. IsSafeIdentifier (nm y) \<and> extra (nm y) = None)"
proof -
  from assms have "list_all2 (\<lambda>x y. finish x = Inr y) xs ys" by (simp add: entries_Inr)
  then have m: "map nm ys = map nm xs"
    by (induction rule: list_all2_induct) (auto dest: finish_name)
  then have "nm ` set ys = nm ` set xs" by (metis list.set_map)
  then have "\<exists>x \<in> set xs. nm y = nm x" if "y \<in> set ys" for y using that by (metis imageE imageI)
  with assms m show ?thesis unfolding entries_Inr by metis
qed

lemma entries_each:
  assumes "normalize_entries kind nm extra finish seen (map prepare xs) = Inr ys" "y \<in> set ys"
  shows "\<exists>x. finish (prepare x) = Inr y \<and> IsSafeIdentifier (nm y)"
proof -
  from assms(1) have "list_all2 (\<lambda>x y. finish x = Inr y) (map prepare xs) ys" by (simp add: entries_Inr)
  with assms(2) obtain z where "z \<in> set (map prepare xs)" "finish z = Inr y"
    by (blast dest: list_all2_source)
  moreover from entries_names[OF assms(1)] assms(2) have "IsSafeIdentifier (nm y)" by blast
  ultimately show ?thesis by auto
qed

lemma entries_fixed:
  assumes "\<forall>y \<in> set ys. normal y \<and> IsSafeIdentifier (nm y) \<and> extra (nm y) = None" "distinct (map nm ys)"
  shows "normalize_entries kind nm extra finish [] (map prepare ys) = Inr ys"
proof -
  have "map prepare ys = ys" using assms(1) by (simp add: map_idI normal_def)
  moreover have "list_all2 (\<lambda>x y. finish x = Inr y) ys ys"
    using assms(1) by (simp add: list.rel_refl_strong normal_def)
  ultimately show ?thesis using assms by (simp add: entries_Inr)
qed

lemma entries_again:
  assumes "normalize_entries kind nm extra finish [] (map prepare xs) = Inr ys"
    and "\<And>x y. y \<in> set ys \<Longrightarrow> finish (prepare x) = Inr y \<Longrightarrow> IsSafeIdentifier (nm y) \<Longrightarrow> normal y"
  shows "normalize_entries kind nm extra finish [] (map prepare ys) = Inr ys"
  using entries_names[OF assms(1)] entries_each[OF assms(1)] assms(2) by (intro entries_fixed) blast+

end


section \<open>Labels made from names\<close>

lemma TrimByte_ends:
  assumes "TrimByte c s = s" "s \<noteq> []"
  shows "hd s \<noteq> c" "last s \<noteq> c"
proof -
  define d where "d = dropWhile (\<lambda>d. d = c) s"
  define e where "e = dropWhile (\<lambda>d. d = c) (rev d)"
  have r: "s = rev e" using assms(1) by (simp add: TrimByte_def d_def e_def)
  with assms(2) have "last s = hd e" "e \<noteq> []" by (auto simp: last_rev)
  then show "last s \<noteq> c" using hd_dropWhile[of "\<lambda>d. d = c" "rev d"] by (simp add: e_def)
  have "prefix s d" unfolding r e_def using suffix_dropWhile[of "\<lambda>d. d = c" "rev d"] by (simp add: suffix_to_prefix)
  with assms(2) have "hd s = hd d" "d \<noteq> []" by (auto simp: prefix_def)
  then show "hd s \<noteq> c" using hd_dropWhile[of "\<lambda>d. d = c" s] by (simp add: d_def)
qed

lemma Split1_head:
  assumes "a \<noteq> c"
  shows "\<exists>p ps. Split1 c s = p # ps \<and> Split1 c (a # s) = (a # p) # ps"
  using assms by (cases "Split1 c s") simp_all

lemma Split1_last:
  assumes "b \<noteq> c"
  shows "\<exists>ps q. Split1 c (u @ [b]) = ps @ [q @ [b]]"
proof (induction u)
  case Nil
  show ?case using assms by simp
next
  case (Cons a u)
  then obtain ps q where split: "Split1 c (u @ [b]) = ps @ [q @ [b]]" by blast
  show ?case
  proof (cases "a = c")
    case True
    with split have "Split1 c ((a # u) @ [b]) = ([] # ps) @ [q @ [b]]" by simp
    then show ?thesis by blast
  next
    case False
    then obtain p qs where "Split1 c (u @ [b]) = p # qs" "Split1 c (a # u @ [b]) = (a # p) # qs"
      using Split1_head by blast
    with split show ?thesis
      by (cases ps) (auto intro: exI[of _ "[]"] exI[of _ "a # q"])
  qed
qed

lemma last_Join: "last (Join (ss @ [t @ [b]]) sep) = b"
proof (induction ss)
  case (Cons s ss)
  have "Join (ss @ [t @ [b]]) sep \<noteq> []" for ss by (induction ss) (auto simp: Join_Cons)
  with Cons show ?case by (simp add: Join_Cons)
qed simp

lemma hd_Join: "s \<noteq> [] \<Longrightarrow> hd (Join (s # ss) sep) = hd s"
  by (cases ss) (auto simp: Join_Cons)

lemma plain_upper: "plain_byte c \<Longrightarrow> plain_byte (upper_byte c)"
  by (auto simp: plain_byte_def upper_byte_def is_lower_byte_def)

lemma humanize_plain_ends:
  assumes "w = trim_lower n" "w \<noteq> []" "plain_byte (hd w)" "plain_byte (last w)" "hd w \<noteq> CHR ''_''" "last w \<noteq> CHR ''_''"
  shows "TrimSpace (humanizeIdentifier n) = humanizeIdentifier n"
proof -
  from assms(2) obtain a s where w: "w = a # s" by (cases w) auto
  from assms(2) obtain u b where w': "w = u @ [b]" by (metis append_butlast_last_id)
  have a: "plain_byte a" "a \<noteq> CHR ''_''" using assms(3,5) unfolding w by simp_all
  have b: "plain_byte b" "b \<noteq> CHR ''_''" using assms(4,6) unfolding w' by simp_all
  note ab = a b
  obtain p ps where "Split1 (CHR ''_'') (a # s) = (a # p) # ps" using Split1_head[OF ab(2)] by blast
  then have h: "hd (humanizeIdentifier n) = upper_byte a" "humanizeIdentifier n \<noteq> []" using ab(1) w assms(1)
    by (cases ps; simp add: humanizeIdentifier_def Let_def upper_first_def hd_Join plain_byte_def)+
  obtain qs q where q: "Split1 (CHR ''_'') (u @ [b]) = qs @ [q @ [b]]" using Split1_last[OF ab(4)] by blast
  obtain q' b' where u: "upper_first (q @ [b]) = q' @ [b']" "plain_byte b'"
    using ab(3) plain_upper[OF ab(3)] by (cases q) (auto simp: upper_first_def plain_byte_def)
  have "last (humanizeIdentifier n) = b'"
    using q u(1) w' assms(1,2) last_Join[of "map upper_first qs" q' b' "'' ''"]
    by (simp add: humanizeIdentifier_def Let_def)
  with h u(2) plain_upper[OF ab(1)] show ?thesis by (intro TrimSpace_plain_ends) auto
qed

lemma humanize_loose:
  assumes "IsSafeIdentifier n" "normalizeLooseIdentifier n = n"
  shows "TrimSpace (humanizeIdentifier n) = humanizeIdentifier n"
proof (rule humanize_plain_ends[OF refl])
  have n: "n \<noteq> []" "trim_lower n = n" using assms loose_facts(1)[of n] by (auto simp: IsSafeIdentifier_def lower_string_def)
  note ends = TrimByte_ends[of "CHR ''_''" n] loose_facts(3)[of n]
  show "trim_lower n \<noteq> []" "plain_byte (hd (trim_lower n))" "plain_byte (last (trim_lower n))"
    "hd (trim_lower n) \<noteq> CHR ''_''" "last (trim_lower n) \<noteq> CHR ''_''"
    using n ends assms safe_plain[OF assms(1)] by simp_all
qed

lemma label_or_trimmed:
  "IsSafeIdentifier n \<Longrightarrow> normalizeLooseIdentifier n = n \<Longrightarrow> TrimSpace (label_or (TrimSpace l) n) = label_or (TrimSpace l) n"
  by (simp add: label_or_def humanize_loose)


section \<open>What a second normalisation may still change\<close>

text \<open>
  The names of rules and actions are not tested for safety, so they may not be fixed points of
  \<open>normalizeLooseIdentifier\<close>, and a label made from a name that begins or ends with an underscore, or
  from the value of a choice, may begin or end with a space. A definition without these is settled.
\<close>

definition trimmed :: "string \<Rightarrow> bool" where
  "trimmed s \<longleftrightarrow> TrimSpace s = s"

definition settled_choice :: "ChoiceOption \<Rightarrow> bool" where
  "settled_choice c \<longleftrightarrow> trimmed (ch_Label c)"

definition settled_column :: "AppDefinitionColumn \<Rightarrow> bool" where
  "settled_column c \<longleftrightarrow> trimmed (dc_Label c) \<and> list_all settled_choice (dc_Choices c)"

definition settled_rule :: "AppDefinitionSecurityRule \<Rightarrow> bool" where
  "settled_rule r \<longleftrightarrow> normalizeLooseIdentifier (sr_Name r) = sr_Name r"

definition settled_security :: "AppDefinitionSecurity \<Rightarrow> bool" where
  "settled_security s \<longleftrightarrow> list_all settled_rule (se_Rules s)"

definition settled_action :: "AppDefinitionAction \<Rightarrow> bool" where
  "settled_action a \<longleftrightarrow> normalizeLooseIdentifier (ac_Name a) = ac_Name a \<and> trimmed (ac_Label a)"

definition settled_form :: "AppDefinitionForm \<Rightarrow> bool" where
  "settled_form f \<longleftrightarrow> trimmed (fo_Label f) \<and> list_all settled_action (fo_Actions f) \<and> settled_security (fo_Security f)"

definition settled_list :: "AppDefinitionList \<Rightarrow> bool" where
  "settled_list l \<longleftrightarrow> trimmed (li_Label l)"

definition settled_table :: "AppDefinitionTable \<Rightarrow> bool" where
  "settled_table t \<longleftrightarrow> trimmed (dt_LabelSingular t) \<and> trimmed (dt_LabelPlural t) \<and>
     list_all settled_column (dt_Columns t) \<and> list_all settled_form (dt_Forms t) \<and>
     list_all settled_list (dt_Lists t) \<and> settled_security (dt_Security t)"

definition settled_page :: "AppDefinitionPage \<Rightarrow> bool" where
  "settled_page p \<longleftrightarrow> list_all settled_action (pg_Actions p) \<and> settled_security (pg_Security p)"

definition settled :: "AppDefinition \<Rightarrow> bool" where
  "settled d \<longleftrightarrow> list_all settled_table (ad_Tables d) \<and> list_all settled_page (ad_Pages d)"

section \<open>Security and actions\<close>

lemma normalizeSecurityEffect_cases:
  "normalizeSecurityEffect e \<in> {[], ''allow'', ''deny''} \<or> normalizeSecurityEffect e = trim_lower e"
  unfolding normalizeSecurityEffect_def Let_def by (simp only: split: if_split) blast

lemma normalizeSecurityEffect_simps [simp]:
  "normalizeSecurityEffect [] = []" "normalizeSecurityEffect ''allow'' = ''allow''" "normalizeSecurityEffect ''deny'' = ''deny''"
  by (simp_all add: normalizeSecurityEffect_def Let_def ToLower_def lower_byte_def is_upper_byte_def
      TrimSpace_plain plain_byte_def)

lemma normalizeSecurityEffect_idem [simp]:
  "normalizeSecurityEffect (normalizeSecurityEffect e) = normalizeSecurityEffect e"
proof (cases "normalizeSecurityEffect e = trim_lower e")
  case True
  have "normalizeSecurityEffect (trim_lower e) = normalizeSecurityEffect e"
    by (simp add: normalizeSecurityEffect_def TrimSpace_ToLower)
  with True show ?thesis by metis
next
  case False
  then have "normalizeSecurityEffect e \<in> {[], ''allow'', ''deny''}" using normalizeSecurityEffect_cases by blast
  then show ?thesis by (elim insertE emptyE) simp_all
qed

lemma trim_lower_again [simp]: "trim_lower (trim_lower s) = trim_lower s"
  by (simp add: TrimSpace_ToLower)

lemma normalize_rule_again:
  "settled_rule (normalize_rule r) \<Longrightarrow> normalize_rule (normalize_rule r) = normalize_rule r"
  by (simp add: normalize_rule_def settled_rule_def)

definition rule_names :: "AppDefinitionSecurityRule list \<Rightarrow> string list" where
  "rule_names rs = filter (\<lambda>n. n \<noteq> []) (map sr_Name rs)"

lemma drop_repeated_names:
  "distinct (rule_names (drop_repeated_names seen rs)) \<and> set (rule_names (drop_repeated_names seen rs)) \<inter> set seen = {}
     \<and> set (drop_repeated_names seen rs) \<subseteq> set rs"
proof (induction seen rs rule: drop_repeated_names.induct)
  case (2 seen r rs)
  then show ?case
    by (cases "sr_Name r = []"; cases "sr_Name r \<in> set seen") (auto simp: rule_names_def)
qed (simp add: rule_names_def)

lemma drop_repeated_distinct:
  "distinct (rule_names rs) \<Longrightarrow> set (rule_names rs) \<inter> set seen = {} \<Longrightarrow> drop_repeated_names seen rs = rs"
proof (induction seen rs rule: drop_repeated_names.induct)
  case (2 seen r rs)
  then show ?case by (cases "sr_Name r = []") (auto simp: rule_names_def)
qed simp

lemma rules_again:
  assumes "list_all settled_rule (normalizeAppDefinitionSecurityRules rs)"
  shows "normalizeAppDefinitionSecurityRules (normalizeAppDefinitionSecurityRules rs) = normalizeAppDefinitionSecurityRules rs"
proof -
  let ?d = "drop_repeated_names [] (map normalize_rule rs)" and ?n = "normalizeAppDefinitionSecurityRules rs"
  have n: "?n = sort_key rule_key ?d" by (simp add: normalizeAppDefinitionSecurityRules_def)
  have "set ?n \<subseteq> set (map normalize_rule rs)" using drop_repeated_names[of "[]" "map normalize_rule rs"] n by simp
  then have map: "map normalize_rule ?n = ?n"
    using assms by (intro map_idI) (auto simp: list_all_iff dest!: subsetD intro: normalize_rule_again)
  have "mset (rule_names ?n) = mset (rule_names ?d)" unfolding n rule_names_def by (simp add: mset_filter)
  then have "distinct (rule_names ?n)" using drop_repeated_names[of "[]" "map normalize_rule rs"]
    by (metis mset_eq_imp_distinct_iff)
  then have "drop_repeated_names [] ?n = ?n" by (simp add: drop_repeated_distinct)
  with map show ?thesis
    by (simp add: normalizeAppDefinitionSecurityRules_def[of ?n]) (simp add: n sort_key_id_if_sorted)
qed

lemma security_again:
  "settled_security (normalizeAppDefinitionSecurity s) \<Longrightarrow>
     normalizeAppDefinitionSecurity (normalizeAppDefinitionSecurity s) = normalizeAppDefinitionSecurity s"
  using rules_again[of "se_Rules s"]
  by (cases s) (simp add: normalizeAppDefinitionSecurity_def settled_security_def)

definition relabel_action :: "AppDefinitionAction \<Rightarrow> AppDefinitionAction" where
  "relabel_action a = a\<lparr>ac_Label := label_or (ac_Label a) (ac_Name a)\<rparr>"

lemma relabel_action_name [simp]: "ac_Name (relabel_action a) = ac_Name a"
  by (simp add: relabel_action_def)

lemma keep_actions_facts:
  "distinct (map ac_Name (keep_actions seen as)) \<and> set (map ac_Name (keep_actions seen as)) \<inter> set seen = {} \<and>
   [] \<notin> set (map ac_Name (keep_actions seen as)) \<and> set (keep_actions seen as) \<subseteq> relabel_action ` set as"
proof (induction seen as rule: keep_actions.induct)
  case (2 seen a as)
  then show ?case
    by (cases "ac_Name a = [] \<or> ac_Name a \<in> set seen") (auto simp: relabel_action_def[symmetric])
qed simp

lemma keep_actions_distinct:
  assumes "distinct (map ac_Name as)" "set (map ac_Name as) \<inter> set seen = {}"
    and "\<forall>a \<in> set as. ac_Name a \<noteq> [] \<and> label_or (ac_Label a) (ac_Name a) = ac_Label a"
  shows "keep_actions seen as = as"
  using assms by (induction seen as rule: keep_actions.induct) auto

lemma actions_again:
  assumes "list_all settled_action (normalizeAppDefinitionActions as)"
  shows "normalizeAppDefinitionActions (normalizeAppDefinitionActions as) = normalizeAppDefinitionActions as"
proof -
  let ?n = "normalizeAppDefinitionActions as"
  have each: "prepare_action b = b \<and> ac_Name b \<noteq> [] \<and> label_or (ac_Label b) (ac_Name b) = ac_Label b" if "b \<in> set ?n" for b
  proof -
    have facts: "[] \<notin> set (map ac_Name ?n)" "set ?n \<subseteq> relabel_action ` set (map prepare_action as)"
      using keep_actions_facts[of "[]" "map prepare_action as"] unfolding normalizeAppDefinitionActions_def by blast+
    with that obtain a where b: "b = relabel_action (prepare_action a)" by auto
    from facts(1) that have "ac_Name b \<noteq> []" by force
    moreover from that assms have "settled_action b" by (simp add: list_all_iff)
    ultimately show ?thesis unfolding b by (simp add: relabel_action_def prepare_action_def settled_action_def trimmed_def)
  qed
  then have "map prepare_action ?n = ?n" by (simp add: map_idI)
  moreover have "keep_actions [] ?n = ?n"
    using keep_actions_facts[of "[]" "map prepare_action as"] each
    by (intro keep_actions_distinct) (auto simp: normalizeAppDefinitionActions_def)
  ultimately show ?thesis by (simp add: normalizeAppDefinitionActions_def[of ?n])
qed


section \<open>The sections\<close>

interpretation role_section: named_section ro_Name prepare_role finish_role
  by unfold_locales (auto simp: finish_role_def)
interpretation column_section: named_section dc_Name prepare_column "finish_column table" for table
  by unfold_locales (auto simp: finish_column_def Let_def split: option.splits if_splits)
interpretation form_section: named_section fo_Name prepare_form finish_form
  by unfold_locales (auto simp: finish_form_def)
interpretation list_section: named_section li_Name prepare_list finish_list
  by unfold_locales (auto simp: finish_list_def)
interpretation policy_section: named_section dp_Name prepare_policy finish_policy
  by unfold_locales (auto simp: finish_policy_def)
interpretation trigger_section: named_section tr_Name prepare_trigger finish_trigger
  by unfold_locales (auto simp: finish_trigger_def)
interpretation table_trigger_section: named_section tr_Name "prepare_table_trigger table" finish_trigger for table
  by unfold_locales (auto simp: finish_trigger_def)
interpretation related_section: named_section rl_Name prepare_related finish_related
  by unfold_locales (auto simp: finish_related_def)
interpretation table_section: named_section dt_Name prepare_table finish_table
  by unfold_locales (auto simp: finish_table_def label_table_def Let_def and_then_Inr split: if_splits)
interpretation asset_section: named_section af_Name prepare_asset_form finish_asset_form
  by unfold_locales (auto simp: finish_asset_form_def Let_def)
interpretation service_section: named_section sv_Name prepare_service finish_service
  by unfold_locales (auto simp: finish_service_def and_then_Inr)
interpretation method_section: named_section me_Name prepare_method finish_method
  by unfold_locales (auto simp: finish_method_def)
interpretation schedule_section: named_section sh_Name prepare_schedule finish_schedule
  by unfold_locales (auto simp: finish_schedule_def)
interpretation endpoint_section: named_section en_Name prepare_endpoint finish_endpoint
  by unfold_locales (auto simp: finish_endpoint_def)
interpretation script_section: named_section cs_Name prepare_client_script finish_client_script
  by unfold_locales (auto simp: finish_client_script_def)
interpretation article_section: named_section do_Name prepare_article finish_article
  by unfold_locales (auto simp: finish_article_def)


section \<open>Normal entries\<close>

lemma trim_lower_words [simp]:
  "trim_lower ''default'' = ''default''" "trim_lower ''async'' = ''async''" "trim_lower ''private'' = ''private''"
  "trim_lower ''javascript'' = ''javascript''" "trim_lower ''internal'' = ''internal''" "trim_lower ''wysiwyg'' = ''wysiwyg''"
  "trim_lower ''draft'' = ''draft''"
  by (simp_all add: TrimSpace_plain plain_byte_def ToLower_def lower_byte_def is_upper_byte_def)

lemma or_default_lower [simp]: "trim_lower d = d \<Longrightarrow> trim_lower (or_default (trim_lower s) d) = or_default (trim_lower s) d"
  by (simp add: or_default_def)

lemma normalizeEndpointPath_idem [simp]: "normalizeEndpointPath (normalizeEndpointPath p) = normalizeEndpointPath p"
proof (cases "TrimSpace p = [] \<or> HasPrefix (TrimSpace p) ''/''")
  case False
  then have "TrimSpace (''/'' @ TrimSpace p) = ''/'' @ TrimSpace p"
    by (intro TrimSpace_after_plain) (auto simp: plain_byte_def)
  with False show ?thesis by (simp add: normalizeEndpointPath_def Let_def HasPrefix_def)
qed (auto simp: normalizeEndpointPath_def Let_def)

lemmas loose_label = loose_fixed label_or_trimmed

lemma role_normal:
  "finish_role (prepare_role x) = Inr y \<Longrightarrow> IsSafeIdentifier (ro_Name y) \<Longrightarrow> role_section.normal y"
  by (auto simp: role_section.normal_def finish_role_def prepare_role_def loose_label)

lemma policy_normal:
  "finish_policy (prepare_policy x) = Inr y \<Longrightarrow> IsSafeIdentifier (dp_Name y) \<Longrightarrow> policy_section.normal y"
  by (auto simp: policy_section.normal_def finish_policy_def prepare_policy_def loose_label)

lemma trigger_normal:
  "finish_trigger (prepare_trigger x) = Inr y \<Longrightarrow> IsSafeIdentifier (tr_Name y) \<Longrightarrow> trigger_section.normal y"
  by (auto simp: trigger_section.normal_def finish_trigger_def prepare_trigger_def loose_label)

lemma table_trigger_normal:
  "finish_trigger (prepare_table_trigger table x) = Inr y \<Longrightarrow> IsSafeIdentifier (tr_Name y) \<Longrightarrow>
     table_trigger_section.normal table y"
  by (auto simp: table_trigger_section.normal_def finish_trigger_def prepare_table_trigger_def prepare_trigger_def loose_label)

lemma related_normal:
  "finish_related (prepare_related x) = Inr y \<Longrightarrow> IsSafeIdentifier (rl_Name y) \<Longrightarrow> related_section.normal y"
  by (auto simp: related_section.normal_def finish_related_def prepare_related_def loose_label)

lemma method_normal:
  "finish_method (prepare_method x) = Inr y \<Longrightarrow> IsSafeIdentifier (me_Name y) \<Longrightarrow> method_section.normal y"
  by (auto simp: method_section.normal_def finish_method_def prepare_method_def loose_label)

lemma schedule_normal:
  "finish_schedule (prepare_schedule x) = Inr y \<Longrightarrow> IsSafeIdentifier (sh_Name y) \<Longrightarrow> schedule_section.normal y"
  by (auto simp: schedule_section.normal_def finish_schedule_def prepare_schedule_def loose_label)

lemma endpoint_normal:
  "finish_endpoint (prepare_endpoint x) = Inr y \<Longrightarrow> IsSafeIdentifier (en_Name y) \<Longrightarrow> endpoint_section.normal y"
  by (auto simp: endpoint_section.normal_def finish_endpoint_def prepare_endpoint_def loose_label)

lemma script_normal:
  "finish_client_script (prepare_client_script x) = Inr y \<Longrightarrow> IsSafeIdentifier (cs_Name y) \<Longrightarrow> script_section.normal y"
  by (auto simp: script_section.normal_def finish_client_script_def prepare_client_script_def loose_label)

lemma article_normal:
  "finish_article (prepare_article x) = Inr y \<Longrightarrow> IsSafeIdentifier (do_Name y) \<Longrightarrow> article_section.normal y"
  by (auto simp: article_section.normal_def finish_article_def prepare_article_def loose_label)

lemma list_normal:
  "finish_list (prepare_list x) = Inr y \<Longrightarrow> settled_list y \<Longrightarrow> list_section.normal y"
  by (auto simp: list_section.normal_def finish_list_def prepare_list_def settled_list_def trimmed_def)

lemma form_normal:
  "finish_form (prepare_form x) = Inr y \<Longrightarrow> settled_form y \<Longrightarrow> form_section.normal y"
  by (auto simp: form_section.normal_def finish_form_def prepare_form_def settled_form_def trimmed_def actions_again security_again)

lemma service_normal:
  assumes "finish_service (prepare_service x) = Inr y" "IsSafeIdentifier (sv_Name y)"
  shows "service_section.normal y"
proof -
  from assms(1) obtain ms where ms:
    "normalize_entries (KMethod (sv_Name (prepare_service x))) me_Name no_extra finish_method []
       (map prepare_method (sv_Methods (prepare_service x))) = Inr ms"
    and y: "y = (prepare_service x)\<lparr>sv_Label := label_or (sv_Label (prepare_service x)) (sv_Name (prepare_service x)), sv_Methods := ms\<rparr>"
    by (auto simp: finish_service_def and_then_Inr)
  have "normalize_entries (KMethod (sv_Name y)) me_Name no_extra finish_method [] (map prepare_method ms) = Inr ms"
    using method_section.entries_again[OF ms method_normal] by (simp add: y)
  with assms(2) show ?thesis unfolding y
    by (simp add: service_section.normal_def finish_service_def prepare_service_def loose_label)
qed


definition choice_of :: "ChoiceOption \<Rightarrow> ChoiceOption" where
  "choice_of c = \<lparr>ch_Value = TrimSpace (ch_Value c), ch_Label = label_or (TrimSpace (ch_Label c)) (ToLower (TrimSpace (ch_Value c)))\<rparr>"

lemma choice_of_value [simp]: "ch_Value (choice_of c) = TrimSpace (ch_Value c)"
  by (simp add: choice_of_def)

lemma choices_facts:
  "distinct (map ch_Value (normalize_choices seen cs)) \<and> set (map ch_Value (normalize_choices seen cs)) \<inter> set seen = {} \<and>
   [] \<notin> set (map ch_Value (normalize_choices seen cs)) \<and> set (normalize_choices seen cs) \<subseteq> choice_of ` set cs"
proof (induction seen cs rule: normalize_choices.induct)
  case (2 seen c cs)
  show ?case
  proof (cases "TrimSpace (ch_Value c) = [] \<or> TrimSpace (ch_Value c) \<in> set seen")
    case True
    then show ?thesis using "2.IH"(1)[OF refl refl] by (auto simp: Let_def)
  next
    case False
    then show ?thesis using "2.IH"(2)[OF refl refl] by (auto simp: Let_def choice_of_def[symmetric])
  qed
qed simp

lemma choice_of_facts: "trimmed (ch_Value (choice_of c)) \<and>
    label_or (ch_Label (choice_of c)) (ToLower (ch_Value (choice_of c))) = ch_Label (choice_of c)"
  by (simp add: choice_of_def trimmed_def)

lemma choices_distinct:
  assumes "distinct (map ch_Value cs)" "set (map ch_Value cs) \<inter> set seen = {}"
    and "\<forall>c \<in> set cs. ch_Value c \<noteq> [] \<and> trimmed (ch_Value c) \<and> trimmed (ch_Label c) \<and>
      label_or (ch_Label c) (ToLower (ch_Value c)) = ch_Label c"
  shows "normalize_choices seen cs = cs"
  using assms by (induction seen cs rule: normalize_choices.induct) (auto simp: Let_def trimmed_def)

lemma choices_again:
  assumes "list_all settled_choice (normalizeChoiceOptions cs)"
  shows "normalizeChoiceOptions (normalizeChoiceOptions cs) = normalizeChoiceOptions cs"
proof -
  let ?n = "normalize_choices [] cs"
  have f: "distinct (map ch_Value ?n)" "[] \<notin> set (map ch_Value ?n)" "set ?n \<subseteq> choice_of ` set cs"
    using choices_facts[of "[]" cs] by blast+
  have "ch_Value c \<noteq> [] \<and> trimmed (ch_Value c) \<and> trimmed (ch_Label c) \<and>
      label_or (ch_Label c) (ToLower (ch_Value c)) = ch_Label c" if "c \<in> set ?n" for c
  proof -
    from that f(3) obtain a where a: "c = choice_of a" by blast
    from that f(2) have "ch_Value c \<noteq> []" by force
    moreover from that assms have "trimmed (ch_Label c)"
      by (simp add: normalizeChoiceOptions_def list_all_iff settled_choice_def)
    ultimately show ?thesis using choice_of_facts[of a] a by blast
  qed
  with f(1) show ?thesis unfolding normalizeChoiceOptions_def by (intro choices_distinct) auto
qed

lemma column_normal:
  assumes "finish_column table (prepare_column x) = Inr y" "settled_column y"
  shows "column_section.normal table y"
proof -
  let ?p = "prepare_column x"
  have y: "y = ?p\<lparr>dc_Label := label_or (dc_Label ?p) (dc_Name ?p), dc_DataType := or_default (dc_DataType ?p) ''text''\<rparr>"
    and ok: "validateBuilderColumnDataType (dc_DataType y) = None"
      "IsAutoNumberDataType (dc_DataType y) \<Longrightarrow> validateAutoNumberPrefix (dc_Prefix y) = None"
      "\<not> IsAutoNumberDataType (dc_DataType y) \<Longrightarrow> dc_Prefix y = []"
    using assms(1) by (auto simp: finish_column_def Let_def split: option.splits if_splits)
  have "normalizeDataType (dc_DataType y) = dc_DataType y"
    by (simp add: y prepare_column_def or_default_def normalizeDataType_idem)
  moreover have "normalizeChoiceOptions (dc_Choices y) = dc_Choices y" "trimmed (dc_Label y)"
    using assms(2) choices_again[of "dc_Choices x"] by (simp_all add: settled_column_def y prepare_column_def)
  ultimately have "prepare_column y = y" unfolding y
    by (simp add: prepare_column_def trimmed_def)
  moreover have "finish_column table y = Inr y"
    using ok by (cases "IsAutoNumberDataType (dc_DataType y)")
      (simp_all add: finish_column_def Let_def y)
  ultimately show ?thesis by (simp add: column_section.normal_def)
qed

lemma display_words: "i \<in> set preferredDisplayFieldNames \<Longrightarrow> trim_lower i = i"
  by (auto simp: preferredDisplayFieldNames_def TrimSpace_plain plain_byte_def ToLower_def lower_byte_def is_upper_byte_def)

lemma infer_display: "InferDisplayFieldName ns = [] \<or> InferDisplayFieldName ns \<in> set preferredDisplayFieldNames"
  unfolding InferDisplayFieldName_def Let_def by (auto split: option.split dest!: find_Some_mem)

lemma display_again [simp]:
  "NormalizeDisplayFieldName (or_default (NormalizeDisplayFieldName v) (InferDisplayFieldName ns)) =
     or_default (NormalizeDisplayFieldName v) (InferDisplayFieldName ns)"
  using infer_display[of ns] display_words[of "InferDisplayFieldName ns"]
  by (auto simp: or_default_def NormalizeDisplayFieldName_def)

text \<open>The parts of a finished table.\<close>

definition display_of :: "AppDefinitionTable \<Rightarrow> AppDefinitionColumn list \<Rightarrow> string" where
  "display_of t cs = or_default (dt_DisplayField (label_table t)) (InferDisplayFieldName (map dc_Name cs))"

definition table_parts ::
  "AppDefinitionTable \<Rightarrow> AppDefinitionColumn list \<Rightarrow> AppDefinitionForm list \<Rightarrow> AppDefinitionList list
     \<Rightarrow> AppDefinitionDataPolicy list \<Rightarrow> AppDefinitionTrigger list \<Rightarrow> AppDefinitionRelatedList list \<Rightarrow> bool" where
  "table_parts t cs fs ls ps ts rs \<longleftrightarrow> (let n = dt_Name t in
     normalize_columns n (dt_Columns t) = Inr cs \<and> (display_of t cs = [] \<or> IsSafeIdentifier (display_of t cs)) \<and>
     normalize_entries (KForm n) fo_Name no_extra finish_form [] (map prepare_form (dt_Forms t)) = Inr fs \<and>
     normalize_entries (KList n) li_Name no_extra finish_list [] (map prepare_list (dt_Lists t)) = Inr ls \<and>
     normalize_entries (KPolicy n) dp_Name no_extra finish_policy [] (map prepare_policy (dt_DataPolicies t)) = Inr ps \<and>
     normalize_entries (KTableTrigger n) tr_Name no_extra finish_trigger [] (map (prepare_table_trigger n) (dt_Triggers t)) = Inr ts \<and>
     normalize_entries (KRelated n) rl_Name no_extra finish_related [] (map prepare_related (dt_RelatedLists t)) = Inr rs)"

lemma label_table_parts [simp]:
  "dt_Name (label_table t) = dt_Name t" "dt_Columns (label_table t) = dt_Columns t" "dt_Forms (label_table t) = dt_Forms t"
  "dt_Lists (label_table t) = dt_Lists t" "dt_DataPolicies (label_table t) = dt_DataPolicies t"
  "dt_Triggers (label_table t) = dt_Triggers t" "dt_RelatedLists (label_table t) = dt_RelatedLists t"
  "dt_Security (label_table t) = dt_Security t" "dt_Extends (label_table t) = dt_Extends t"
  by (simp_all add: label_table_def Let_def)

lemma finish_table_Inr:
  "finish_table t = Inr y \<longleftrightarrow> (\<exists>cs fs ls ps ts rs. table_parts t cs fs ls ps ts rs \<and>
     y = (label_table t)\<lparr>dt_Columns := cs, dt_DisplayField := display_of t cs, dt_Forms := fs, dt_Lists := ls,
       dt_DataPolicies := ps, dt_Triggers := ts, dt_RelatedLists := rs,
       dt_Security := normalizeAppDefinitionSecurity (dt_Security t)\<rparr>)"
proof -
  have d: "or_default (dt_DisplayField (label_table t)) (inferDefinitionDisplayField ((label_table t)\<lparr>dt_Columns := cs\<rparr>)) = display_of t cs" for cs
    by (simp add: display_of_def inferDefinitionDisplayField_def)
  have guard: "(if c then Inl e else r) = Inr z \<longleftrightarrow> \<not> c \<and> r = Inr z" for c e and r :: "(definition_error, AppDefinitionTable) result" and z
    by simp
  show ?thesis
    unfolding finish_table_def table_parts_def Let_def and_then_Inr d guard label_table_parts by blast
qed


lemma table_parts_normal:
  assumes "table_parts t cs fs ls ps ts rs" "dt_Name y = dt_Name t"
    and "list_all settled_column cs" "list_all settled_form fs" "list_all settled_list ls"
    and "dt_Columns y = cs" "dt_Forms y = fs" "dt_Lists y = ls" "dt_DataPolicies y = ps" "dt_Triggers y = ts"
      "dt_RelatedLists y = rs" "display_of y cs = display_of t cs"
  shows "table_parts y cs fs ls ps ts rs"
proof -
  have parts: "normalize_columns (dt_Name t) (dt_Columns t) = Inr cs"
    "display_of t cs = [] \<or> IsSafeIdentifier (display_of t cs)"
    "normalize_entries (KForm (dt_Name t)) fo_Name no_extra finish_form [] (map prepare_form (dt_Forms t)) = Inr fs"
    "normalize_entries (KList (dt_Name t)) li_Name no_extra finish_list [] (map prepare_list (dt_Lists t)) = Inr ls"
    "normalize_entries (KPolicy (dt_Name t)) dp_Name no_extra finish_policy [] (map prepare_policy (dt_DataPolicies t)) = Inr ps"
    "normalize_entries (KTableTrigger (dt_Name t)) tr_Name no_extra finish_trigger []
       (map (prepare_table_trigger (dt_Name t)) (dt_Triggers t)) = Inr ts"
    "normalize_entries (KRelated (dt_Name t)) rl_Name no_extra finish_related [] (map prepare_related (dt_RelatedLists t)) = Inr rs"
    using assms(1) unfolding table_parts_def Let_def by blast+
  have "normalize_columns (dt_Name t) cs = Inr cs"
    unfolding normalize_columns_def
    by (rule column_section.entries_again[OF parts(1)[unfolded normalize_columns_def]])
      (use assms(3) column_normal in \<open>auto simp: list_all_iff\<close>)
  moreover have "normalize_entries (KForm (dt_Name t)) fo_Name no_extra finish_form [] (map prepare_form fs) = Inr fs"
    by (rule form_section.entries_again[OF parts(3)]) (use assms(4) form_normal in \<open>auto simp: list_all_iff\<close>)
  moreover have "normalize_entries (KList (dt_Name t)) li_Name no_extra finish_list [] (map prepare_list ls) = Inr ls"
    by (rule list_section.entries_again[OF parts(4)]) (use assms(5) list_normal in \<open>auto simp: list_all_iff\<close>)
  moreover have "normalize_entries (KPolicy (dt_Name t)) dp_Name no_extra finish_policy [] (map prepare_policy ps) = Inr ps"
    by (rule policy_section.entries_again[OF parts(5)]) (blast intro: policy_normal)
  moreover have "normalize_entries (KTableTrigger (dt_Name t)) tr_Name no_extra finish_trigger []
      (map (prepare_table_trigger (dt_Name t)) ts) = Inr ts"
    by (rule table_trigger_section.entries_again[OF parts(6)]) (blast intro: table_trigger_normal)
  moreover have "normalize_entries (KRelated (dt_Name t)) rl_Name no_extra finish_related [] (map prepare_related rs) = Inr rs"
    by (rule related_section.entries_again[OF parts(7)]) (blast intro: related_normal)
  ultimately show ?thesis using parts(2)
    unfolding table_parts_def Let_def assms(2,6-12) by blast
qed

lemma display_of_again:
  "dt_DisplayField y = display_of t cs \<Longrightarrow> display_of y cs = display_of t cs"
  by (simp add: display_of_def label_table_def Let_def)

lemma table_normal:
  assumes "finish_table (prepare_table x) = Inr y" "settled_table y"
  shows "table_section.normal y"
proof -
  let ?p = "prepare_table x"
  from assms(1) obtain cs fs ls ps ts rs where parts: "table_parts ?p cs fs ls ps ts rs"
    and y: "y = (label_table ?p)\<lparr>dt_Columns := cs, dt_DisplayField := display_of ?p cs, dt_Forms := fs, dt_Lists := ls,
       dt_DataPolicies := ps, dt_Triggers := ts, dt_RelatedLists := rs,
       dt_Security := normalizeAppDefinitionSecurity (dt_Security ?p)\<rparr>"
    unfolding finish_table_Inr by blast
  have d: "display_of y cs = display_of ?p cs" by (rule display_of_again) (simp add: y)
  have settled: "list_all settled_column cs" "list_all settled_form fs" "list_all settled_list ls"
    "settled_security (normalizeAppDefinitionSecurity (dt_Security ?p))"
    "trimmed (dt_LabelSingular (label_table ?p))" "trimmed (dt_LabelPlural (label_table ?p))"
    using assms(2) by (simp_all add: settled_table_def y)
  have "table_parts y cs fs ls ps ts rs"
    by (rule table_parts_normal[OF parts _ settled(1-3)]) (simp_all add: y d[unfolded y])
  moreover have "y = (label_table y)\<lparr>dt_Columns := cs, dt_DisplayField := display_of y cs, dt_Forms := fs, dt_Lists := ls,
       dt_DataPolicies := ps, dt_Triggers := ts, dt_RelatedLists := rs,
       dt_Security := normalizeAppDefinitionSecurity (dt_Security y)\<rparr>"
    unfolding d using settled(4-6)
    by (simp add: y label_table_def Let_def trimmed_def security_again)
  ultimately have "finish_table y = Inr y" unfolding finish_table_Inr by blast
  moreover have "prepare_table y = y" by (simp add: y prepare_table_def label_table_def Let_def)
  ultimately show ?thesis by (simp add: table_section.normal_def)
qed


section \<open>Legacy forms\<close>

definition migrated_form :: "AppDefinitionAssetForm \<Rightarrow> bool" where
  "migrated_form f \<longleftrightarrow> (\<exists>x. finish_asset_form (prepare_asset_form x) = Inr f) \<and> IsSafeIdentifier (af_Name f)"

lemma table_form_name:
  assumes "migrated_form f"
  shows "fo_Name (table_form_of f) = af_Name f" "trim_lower (af_Name f) = af_Name f" "normalizeLooseIdentifier (af_Name f) = af_Name f"
proof -
  from assms obtain v where v: "af_Name f = normalizeLooseIdentifier v" "IsSafeIdentifier (af_Name f)"
    by (auto simp: migrated_form_def finish_asset_form_def prepare_asset_form_def Let_def)
  then show "normalizeLooseIdentifier (af_Name f) = af_Name f" using loose_fixed by metis
  show l: "trim_lower (af_Name f) = af_Name f"
    using loose_facts(1)[of v] v by (simp add: lower_string_def)
  show "fo_Name (table_form_of f) = af_Name f"
    using v(2) l by (auto simp: table_form_of_def Let_def or_default_def IsSafeIdentifier_def)
qed

lemma table_form_normal:
  assumes "migrated_form f" "settled_form (table_form_of f)"
  shows "form_section.normal (table_form_of f)"
proof -
  note name = table_form_name[OF assms(1)]
  from assms(1) obtain l where l: "af_Label f = label_or (TrimSpace l) (af_Name f)"
    by (auto simp: migrated_form_def finish_asset_form_def prepare_asset_form_def Let_def)
  have "IsSafeIdentifier (af_Name f)" using assms(1) by (simp add: migrated_form_def)
  then have label: "TrimSpace (af_Label f) = af_Label f" unfolding l using name(3) by (rule label_or_trimmed)
  have a: "normalizeAppDefinitionActions (normalizeAppDefinitionActions (af_Actions f)) = normalizeAppDefinitionActions (af_Actions f)"
    using assms(2) by (intro actions_again) (simp add: settled_form_def table_form_of_def Let_def)
  have s: "normalizeAppDefinitionSecurity (normalizeAppDefinitionSecurity (af_Security f)) = normalizeAppDefinitionSecurity (af_Security f)"
    using assms(2) by (intro security_again) (simp add: settled_form_def table_form_of_def Let_def)
  have n: "or_default (trim_lower (af_Name f)) ''default'' = af_Name f"
    using name(1) by (simp add: table_form_of_def Let_def)
  show ?thesis
    unfolding form_section.normal_def prepare_form_def finish_form_def table_form_of_def Let_def
    using n name(2) by (simp add: label a s) (simp add: l)
qed

lemma table_normal_append:
  assumes "table_section.normal t" "settled_table (t\<lparr>dt_Forms := dt_Forms t @ [f]\<rparr>)"
    and "form_section.normal f" "IsSafeIdentifier (fo_Name f)" "fo_Name f \<notin> set (map fo_Name (dt_Forms t))"
  shows "table_section.normal (t\<lparr>dt_Forms := dt_Forms t @ [f]\<rparr>)"
proof -
  let ?t = "t\<lparr>dt_Forms := dt_Forms t @ [f]\<rparr>"
  from assms(1) obtain cs fs ls ps ts rs where parts: "table_parts t cs fs ls ps ts rs"
    and t: "t = (label_table t)\<lparr>dt_Columns := cs, dt_DisplayField := display_of t cs, dt_Forms := fs, dt_Lists := ls,
       dt_DataPolicies := ps, dt_Triggers := ts, dt_RelatedLists := rs,
       dt_Security := normalizeAppDefinitionSecurity (dt_Security t)\<rparr>"
    unfolding table_section.normal_def finish_table_Inr by blast
  have fs: "dt_Forms t = fs" by (subst t) simp
  have e: "normalize_entries (KForm (dt_Name t)) fo_Name no_extra finish_form [] (map prepare_form fs) = Inr fs"
    using parts unfolding table_parts_def Let_def fs by blast
  have "form_section.normal g" if "g \<in> set fs" for g
  proof -
    from form_section.entries_each[OF e that] obtain x where "finish_form (prepare_form x) = Inr g" by blast
    moreover have "settled_form g" using assms(2) that fs by (simp add: settled_table_def list_all_iff)
    ultimately show ?thesis by (rule form_normal)
  qed
  with form_section.entries_names[OF e] assms(3-5)
  have "normalize_entries (KForm (dt_Name t)) fo_Name no_extra finish_form [] (map prepare_form (fs @ [f])) = Inr (fs @ [f])"
    by (intro form_section.entries_fixed) (auto simp: fs no_extra_def)
  moreover have lt: "label_table ?t = (label_table t)\<lparr>dt_Forms := dt_Forms t @ [f]\<rparr>" by (simp add: label_table_def Let_def)
  then have "display_of ?t cs = display_of t cs" by (simp add: display_of_def)
  ultimately have "table_parts ?t cs (fs @ [f]) ls ps ts rs" using parts
    by (simp add: table_parts_def Let_def fs)
  moreover have "?t = (label_table ?t)\<lparr>dt_Columns := cs, dt_DisplayField := display_of ?t cs, dt_Forms := fs @ [f], dt_Lists := ls,
       dt_DataPolicies := ps, dt_Triggers := ts, dt_RelatedLists := rs,
       dt_Security := normalizeAppDefinitionSecurity (dt_Security ?t)\<rparr>"
  proof -
    have "?t = (label_table t)\<lparr>dt_Columns := cs, dt_DisplayField := display_of t cs, dt_Forms := fs, dt_Lists := ls,
       dt_DataPolicies := ps, dt_Triggers := ts, dt_RelatedLists := rs,
       dt_Security := normalizeAppDefinitionSecurity (dt_Security t), dt_Forms := fs @ [f]\<rparr>"
      using arg_cong[OF t, of "\<lambda>t. t\<lparr>dt_Forms := fs @ [f]\<rparr>"] unfolding fs .
    moreover have "dt_Security ?t = dt_Security t" by simp
    ultimately show ?thesis unfolding lt \<open>display_of ?t cs = display_of t cs\<close> \<open>dt_Security ?t = dt_Security t\<close>
      by (cases "label_table t") (simp add: fs)
  qed
  ultimately have "finish_table ?t = Inr ?t" unfolding finish_table_Inr by blast
  moreover have "prepare_table ?t = ?t"
    using assms(1) by (cases t) (simp add: table_section.normal_def prepare_table_def)
  ultimately show ?thesis by (simp add: table_section.normal_def)
qed


lemma table_index_bound: "table_index ts n = Some i \<Longrightarrow> i < length ts"
  by (auto simp: table_index_def dest!: map_of_SomeD set_zip_rightD)

text \<open>
  What the migration keeps: \<open>P\<close> of every table, when appending a migrated form of a new name to a
  table keeps it.
\<close>

lemma migrate_forms_keeps:
  assumes "migrate_forms index fs ts = Inr ts'" "\<forall>n i. index n = Some i \<longrightarrow> i < length ts" "\<forall>f \<in> set fs. migrated_form f"
    and "\<forall>t \<in> set ts. P t"
    and "\<And>t f. P t \<Longrightarrow> migrated_form f \<Longrightarrow> \<forall>g \<in> set (dt_Forms t). \<not> EqualFold (TrimSpace (fo_Name g)) (af_Name f) \<Longrightarrow>
      P (t\<lparr>dt_Forms := dt_Forms t @ [table_form_of f]\<rparr>)"
  shows "(\<forall>t \<in> set ts'. P t) \<and> map dt_Name ts' = map dt_Name ts"
  using assms(1-4)
proof (induction index fs ts rule: migrate_forms.induct)
  case (2 index f fs ts)
  let ?form = "table_form_of f"
  from "2.prems"(1) obtain i where i: "index (trim_lower (af_Table f)) = Some i" "trim_lower (af_Table f) \<noteq> []"
    and new: "\<not> list_ex (\<lambda>g. EqualFold (TrimSpace (fo_Name g)) (fo_Name ?form)) (dt_Forms (ts ! i))"
    and rest: "migrate_forms index fs (ts[i := (ts ! i)\<lparr>dt_Forms := dt_Forms (ts ! i) @ [?form]\<rparr>]) = Inr ts'"
    by (auto simp: Let_def split: if_splits option.splits)
  let ?ts = "ts[i := (ts ! i)\<lparr>dt_Forms := dt_Forms (ts ! i) @ [?form]\<rparr>]"
  have len: "i < length ts" using i "2.prems"(2) by blast
  have f: "migrated_form f" using "2.prems"(3) by simp
  have "P ((ts ! i)\<lparr>dt_Forms := dt_Forms (ts ! i) @ [?form]\<rparr>)"
    using "2.prems"(4) len f new by (intro assms(5)) (auto simp: table_form_name(1)[OF f] list_ex_iff)
  then have "\<forall>t \<in> set ?ts. P t" using "2.prems"(4) set_update_subset_insert[of ts i] by blast
  then have "(\<forall>t \<in> set ts'. P t) \<and> map dt_Name ts' = map dt_Name ?ts"
    using "2.IH"[OF i(2,1) refl new rest] "2.prems"(2,3) by simp
  moreover have "map dt_Name ?ts = map dt_Name ts" using len by (simp add: map_update list_update_same_conv)
  ultimately show ?case by simp
qed simp


section \<open>The whole definition\<close>

definition dependency_ok :: "string \<Rightarrow> string \<Rightarrow> string \<Rightarrow> bool" where
  "dependency_ok n ns d \<longleftrightarrow> trim_lower d = d \<and> IsSafeIdentifier d \<and> d \<noteq> n \<and> d \<noteq> ns"

lemma normalize_dependencies_Inr:
  "normalize_dependencies n ns seen xs = Inr ys \<Longrightarrow>
     distinct ys \<and> set ys \<inter> set seen = {} \<and> list_all (dependency_ok n ns) ys"
proof (induction n ns seen xs arbitrary: ys rule: normalize_dependencies.induct)
  case (2 n ns seen x xs)
  define d where "d = trim_lower x"
  have d: "trim_lower d = d" by (simp add: d_def)
  note IH = "2.IH"[OF d_def]
  show ?case
  proof (cases "d = [] \<or> d \<in> set seen")
    case True
    with "2.prems" IH(1) show ?thesis by (simp add: Let_def d_def[symmetric])
  next
    case new: False
    with "2.prems" have safe: "IsSafeIdentifier d" by (auto simp: Let_def d_def[symmetric] split: if_splits)
    show ?thesis
    proof (cases "d = n \<or> d = ns")
      case True
      with "2.prems" new safe IH(2)[OF new] show ?thesis by (simp add: Let_def d_def[symmetric])
    next
      case False
      with "2.prems" new safe obtain zs where "normalize_dependencies n ns (d # seen) xs = Inr zs" "ys = d # zs"
        by (auto simp: Let_def d_def[symmetric] and_then_Inr)
      with IH(3)[OF new _ False] new safe False d show ?thesis by (auto simp: dependency_ok_def)
    qed
  qed
qed simp

lemma normalize_dependencies_fixed:
  "distinct ys \<Longrightarrow> set ys \<inter> set seen = {} \<Longrightarrow> list_all (dependency_ok n ns) ys \<Longrightarrow> normalize_dependencies n ns seen ys = Inr ys"
proof (induction ys arbitrary: seen)
  case (Cons d ys)
  then have d: "trim_lower d = d" "IsSafeIdentifier d" "d \<noteq> n" "d \<noteq> ns" "d \<noteq> []" "d \<notin> set seen"
    by (auto simp: dependency_ok_def IsSafeIdentifier_def)
  have "normalize_dependencies n ns (d # seen) ys = Inr ys" using Cons by (intro Cons.IH) auto
  with d show ?case by simp
qed simp

lemma normalize_roles_again:
  assumes "normalize_roles rs = Inr ys"
  shows "normalize_roles ys = Inr ys"
proof -
  note e = assms[unfolded normalize_roles_def]
  have l: "list_all2 (\<lambda>x y. finish_role x = Inr y) (filter (\<lambda>r. ro_Name r \<noteq> []) (map prepare_role rs)) ys"
    using e by (simp add: role_section.entries_Inr)
  note names = role_section.entries_names[OF e]
  have "role_section.normal y" if "y \<in> set ys" for y
  proof -
    from list_all2_source[OF l that] obtain x where "finish_role (prepare_role x) = Inr y" by auto
    with names that show ?thesis by (blast intro: role_normal)
  qed
  with names have fixed: "normalize_entries KRole ro_Name no_extra finish_role [] (map prepare_role ys) = Inr ys"
    by (intro role_section.entries_fixed) blast+
  have "ro_Name r \<noteq> []" if "r \<in> set (map prepare_role ys)" for r
    using fixed that by (auto simp: role_section.entries_Inr IsSafeIdentifier_def)
  then have "filter (\<lambda>r. ro_Name r \<noteq> []) (map prepare_role ys) = map prepare_role ys" by (simp add: filter_id_conv)
  with fixed show ?thesis by (simp add: normalize_roles_def)
qed

lemma normalize_page_again: "settled_page (normalize_page p) \<Longrightarrow> normalize_page (normalize_page p) = normalize_page p"
  by (auto simp: normalize_page_def Let_def settled_page_def actions_again security_again or_default_def)

lemma normalize_behaviour_again:
  assumes "normalize_behaviour d = Inr d'" "list_all settled_page (ad_Pages d')"
  shows "normalize_behaviour d' = Inr d'"
proof -
  from assms(1) obtain svs trs shs ens css dos where parts:
    "normalize_entries KService sv_Name no_extra finish_service [] (map prepare_service (ad_Services d)) = Inr svs"
    "normalize_entries KTrigger tr_Name no_extra finish_trigger [] (map prepare_trigger (ad_Triggers d)) = Inr trs"
    "normalize_entries KSchedule sh_Name no_extra finish_schedule [] (map prepare_schedule (ad_Schedules d)) = Inr shs"
    "normalize_entries KEndpoint en_Name no_extra finish_endpoint [] (map prepare_endpoint (ad_Endpoints d)) = Inr ens"
    "normalize_entries KClientScript cs_Name no_extra finish_client_script [] (map prepare_client_script (ad_ClientScripts d)) = Inr css"
    "normalize_entries KDocumentation do_Name no_extra finish_article [] (map prepare_article (ad_Documentation d)) = Inr dos"
    and d': "d' = d\<lparr>ad_Services := svs, ad_Triggers := trs, ad_Schedules := shs, ad_Endpoints := ens, ad_ClientScripts := css,
         ad_Pages := map normalize_page (ad_Pages d), ad_Seeds := map normalize_seed (ad_Seeds d), ad_Documentation := dos\<rparr>"
    unfolding normalize_behaviour_def and_then_Inr by blast
  have again:
    "normalize_entries KService sv_Name no_extra finish_service [] (map prepare_service svs) = Inr svs"
    "normalize_entries KTrigger tr_Name no_extra finish_trigger [] (map prepare_trigger trs) = Inr trs"
    "normalize_entries KSchedule sh_Name no_extra finish_schedule [] (map prepare_schedule shs) = Inr shs"
    "normalize_entries KEndpoint en_Name no_extra finish_endpoint [] (map prepare_endpoint ens) = Inr ens"
    "normalize_entries KClientScript cs_Name no_extra finish_client_script [] (map prepare_client_script css) = Inr css"
    "normalize_entries KDocumentation do_Name no_extra finish_article [] (map prepare_article dos) = Inr dos"
    by (rule service_section.entries_again[OF parts(1)], blast intro: service_normal)
      (rule trigger_section.entries_again[OF parts(2)], blast intro: trigger_normal,
       rule schedule_section.entries_again[OF parts(3)], blast intro: schedule_normal,
       rule endpoint_section.entries_again[OF parts(4)], blast intro: endpoint_normal,
       rule script_section.entries_again[OF parts(5)], blast intro: script_normal,
       rule article_section.entries_again[OF parts(6)], blast intro: article_normal)
  have "map normalize_page (map normalize_page (ad_Pages d)) = map normalize_page (ad_Pages d)"
    using assms(2) by (simp add: d' list_all_iff normalize_page_again)
  moreover have "map normalize_seed (map normalize_seed ss) = map normalize_seed ss" for ss
    by (simp add: normalize_seed_def)
  ultimately show ?thesis unfolding normalize_behaviour_def d' by (simp add: again)
qed


lemma normalizeAppDefinition_InrE:
  assumes "normalizeAppDefinition d = Inr d'"
  obtains deps roles tables forms tables' where
    "normalize_dependencies (ad_Name (normalize_header d)) (ad_Namespace (normalize_header d)) [] (ad_Dependencies d) = Inr deps"
    "normalize_roles (ad_Roles d) = Inr roles"
    "normalize_tables (ad_Name (normalize_header d)) (ad_Namespace (normalize_header d)) (ad_Tables d) = Inr tables"
    "normalize_entries KAssetForm af_Name no_extra finish_asset_form [] (map prepare_asset_form (ad_Forms d)) = Inr forms"
    "migrate_forms (table_index tables) forms tables = Inr tables'"
    "normalize_behaviour ((normalize_header d)\<lparr>ad_Dependencies := deps, ad_Roles := roles, ad_Tables := tables', ad_Forms := []\<rparr>) = Inr d'"
    "length (ad_Namespace (normalize_header d)) \<le> 8"
proof -
  have h: "ad_Dependencies (normalize_header d) = ad_Dependencies d" "ad_Roles (normalize_header d) = ad_Roles d"
    "ad_Tables (normalize_header d) = ad_Tables d" "ad_Forms (normalize_header d) = ad_Forms d"
    by (simp_all add: normalize_header_def)
  have guard: "(if c then Inl e else r) = Inr z \<longleftrightarrow> \<not> c \<and> r = Inr z" for c e and r :: "(definition_error, AppDefinition) result" and z
    by simp
  from assms obtain deps roles tables forms e where p:
    "length (ad_Namespace (normalize_header d)) \<le> 8 \<or> ad_Namespace (normalize_header d) = []"
    "normalize_dependencies (ad_Name (normalize_header d)) (ad_Namespace (normalize_header d)) [] (ad_Dependencies d) = Inr deps"
    "normalize_roles (ad_Roles d) = Inr roles"
    "normalize_tables (ad_Name (normalize_header d)) (ad_Namespace (normalize_header d)) (ad_Tables d) = Inr tables"
    "normalize_entries KAssetForm af_Name no_extra finish_asset_form [] (map prepare_asset_form (ad_Forms d)) = Inr forms"
    "migrateLegacyAppDefinitionFormsToTables
       ((normalize_header d)\<lparr>ad_Dependencies := deps, ad_Roles := roles, ad_Tables := tables, ad_Forms := forms\<rparr>) = Inr e"
    "normalize_behaviour e = Inr d'"
    unfolding normalizeAppDefinition_def Let_def guard and_then_Inr h by (auto simp: not_less)
  from p(6) obtain ts where ts: "migrate_forms (table_index tables) forms tables = Inr ts"
    "e = (normalize_header d)\<lparr>ad_Dependencies := deps, ad_Roles := roles, ad_Tables := ts, ad_Forms := []\<rparr>"
    by (cases "forms = []") (auto simp: migrateLegacyAppDefinitionFormsToTables_def and_then_Inr)
  from p(1) have "length (ad_Namespace (normalize_header d)) \<le> 8" by auto
  with that[OF p(2-5) ts(1)] p(7) ts(2) show thesis by blast
qed

lemma normalize_behaviour_keeps:
  assumes "normalize_behaviour d = Inr d'"
  shows "ad_Name d' = ad_Name d" "ad_Namespace d' = ad_Namespace d" "ad_Label d' = ad_Label d" "ad_Description d' = ad_Description d"
    "ad_Dependencies d' = ad_Dependencies d" "ad_Roles d' = ad_Roles d" "ad_Tables d' = ad_Tables d" "ad_Forms d' = ad_Forms d"
  using assms by (auto simp: normalize_behaviour_def and_then_Inr)

lemma asset_forms_migrated:
  assumes "normalize_entries KAssetForm af_Name no_extra finish_asset_form [] (map prepare_asset_form fs) = Inr forms"
  shows "\<forall>f \<in> set forms. migrated_form f"
  using asset_section.entries_each[OF assms] by (auto simp: migrated_form_def)

text \<open>
  Normalisation is idempotent on settled results: a normal form whose labels are trimmed and whose
  action and rule names are fixed points is accepted again, unchanged.
\<close>
theorem normalize_again:
  assumes "normalizeAppDefinition d = Inr d'" "settled d'"
  shows "normalizeAppDefinition d' = Inr d'"
proof -
  let ?h = "normalize_header d" and ?n = "ad_Name (normalize_header d)" and ?ns = "ad_Namespace (normalize_header d)"
  from assms(1) obtain deps roles tables forms ts where p:
    "normalize_dependencies ?n ?ns [] (ad_Dependencies d) = Inr deps"
    "normalize_roles (ad_Roles d) = Inr roles" "normalize_tables ?n ?ns (ad_Tables d) = Inr tables"
    "normalize_entries KAssetForm af_Name no_extra finish_asset_form [] (map prepare_asset_form (ad_Forms d)) = Inr forms"
    "migrate_forms (table_index tables) forms tables = Inr ts"
    "normalize_behaviour (?h\<lparr>ad_Dependencies := deps, ad_Roles := roles, ad_Tables := ts, ad_Forms := []\<rparr>) = Inr d'"
    "length ?ns \<le> 8"
    by (rule normalizeAppDefinition_InrE)
  note keeps = normalize_behaviour_keeps[OF p(6), simplified]
  have header: "normalize_header d' = d'"
    by (rule AppDefinition.equality) (simp_all add: normalize_header_def keeps)
  have t: "settled_table t \<Longrightarrow> table_section.normal t" if "t \<in> set tables" for t
    using table_section.entries_each[OF p(3)[unfolded normalize_tables_def] that] table_normal by blast
  have "(\<forall>t \<in> set ts. settled_table t \<longrightarrow> table_section.normal t) \<and> map dt_Name ts = map dt_Name tables"
  proof (rule migrate_forms_keeps[OF p(5)])
    fix t f
    assume t: "settled_table t \<longrightarrow> table_section.normal t" and f: "migrated_form f"
      and new: "\<forall>g \<in> set (dt_Forms t). \<not> EqualFold (TrimSpace (fo_Name g)) (af_Name f)"
    show "settled_table (t\<lparr>dt_Forms := dt_Forms t @ [table_form_of f]\<rparr>) \<longrightarrow>
        table_section.normal (t\<lparr>dt_Forms := dt_Forms t @ [table_form_of f]\<rparr>)"
    proof
      assume s: "settled_table (t\<lparr>dt_Forms := dt_Forms t @ [table_form_of f]\<rparr>)"
      then have "settled_table t" "settled_form (table_form_of f)" by (simp_all add: settled_table_def)
      moreover have "IsSafeIdentifier (af_Name f)" using f by (simp add: migrated_form_def)
      moreover from this new have "fo_Name (table_form_of f) \<notin> set (map fo_Name (dt_Forms t))"
        by (auto simp: table_form_name[OF f])
      ultimately show "table_section.normal (t\<lparr>dt_Forms := dt_Forms t @ [table_form_of f]\<rparr>)"
        using t s f by (intro table_normal_append) (auto simp: table_form_normal table_form_name)
    qed
  qed (use t table_index_bound asset_forms_migrated[OF p(4)] in auto)
  moreover have "list_all settled_table ts" using assms(2) by (simp add: settled_def keeps)
  moreover note e = table_section.entries_names[OF p(3)[unfolded normalize_tables_def]]
  have "distinct (map dt_Name tables)" using e by blast
  moreover have "\<forall>n \<in> set (map dt_Name tables). IsSafeIdentifier n \<and> validateAppDefinitionTableName ?n ?ns n = None"
    using e[THEN conjunct2, THEN conjunct2] by auto
  ultimately have "\<forall>t \<in> set ts. table_section.normal t \<and> IsSafeIdentifier (dt_Name t) \<and>
      validateAppDefinitionTableName ?n ?ns (dt_Name t) = None" "distinct (map dt_Name ts)"
    unfolding list_all_iff by (metis imageI list.set_map)+
  then have "normalize_tables ?n ?ns ts = Inr ts"
    unfolding normalize_tables_def by (rule table_section.entries_fixed)
  moreover have "normalize_dependencies ?n ?ns [] deps = Inr deps"
    using normalize_dependencies_Inr[OF p(1)] by (simp add: normalize_dependencies_fixed)
  moreover have "normalize_behaviour d' = Inr d'"
    using assms(2) by (intro normalize_behaviour_again[OF p(6)]) (simp add: settled_def)
  moreover have upd: "d'\<lparr>ad_Dependencies := deps, ad_Roles := roles, ad_Tables := ts, ad_Forms := []\<rparr> = d'"
    by (rule AppDefinition.equality) (simp_all add: keeps)
  ultimately show ?thesis
    using normalize_roles_again[OF p(2)] p(7)
    by (simp add: normalizeAppDefinition_def Let_def header keeps migrateLegacyAppDefinitionFormsToTables_def upd)
qed


section \<open>Well-formed definitions\<close>

definition names_ok :: "string list \<Rightarrow> bool" where
  "names_ok ns \<longleftrightarrow> distinct ns \<and> list_all IsSafeIdentifier ns"

definition column_ok :: "AppDefinitionColumn \<Rightarrow> bool" where
  "column_ok c \<longleftrightarrow> validateBuilderColumnDataType (dc_DataType c) = None \<and> normalizeDataType (dc_DataType c) = dc_DataType c \<and>
     (if IsAutoNumberDataType (dc_DataType c) then validateAutoNumberPrefix (dc_Prefix c) = None else dc_Prefix c = [])"

definition table_ok :: "AppDefinitionTable \<Rightarrow> bool" where
  "table_ok t \<longleftrightarrow> names_ok (map dc_Name (dt_Columns t)) \<and> names_ok (map fo_Name (dt_Forms t)) \<and>
     names_ok (map li_Name (dt_Lists t)) \<and> names_ok (map dp_Name (dt_DataPolicies t)) \<and>
     names_ok (map tr_Name (dt_Triggers t)) \<and> names_ok (map rl_Name (dt_RelatedLists t)) \<and>
     list_all column_ok (dt_Columns t) \<and> list_all (\<lambda>r. tr_Table r = dt_Name t) (dt_Triggers t)"

definition definition_ok :: "AppDefinition \<Rightarrow> bool" where
  "definition_ok d \<longleftrightarrow> length (ad_Namespace d) \<le> 8 \<and> distinct (ad_Dependencies d) \<and>
     list_all (dependency_ok (ad_Name d) (ad_Namespace d)) (ad_Dependencies d) \<and>
     names_ok (map ro_Name (ad_Roles d)) \<and> names_ok (map dt_Name (ad_Tables d)) \<and> list_all table_ok (ad_Tables d) \<and>
     list_all (\<lambda>t. validateAppDefinitionTableName (ad_Name d) (ad_Namespace d) (dt_Name t) = None) (ad_Tables d) \<and>
     ad_Forms d = [] \<and>
     names_ok (map sv_Name (ad_Services d)) \<and> list_all (\<lambda>s. names_ok (map me_Name (sv_Methods s))) (ad_Services d) \<and>
     names_ok (map tr_Name (ad_Triggers d)) \<and> names_ok (map sh_Name (ad_Schedules d)) \<and>
     names_ok (map en_Name (ad_Endpoints d)) \<and> names_ok (map cs_Name (ad_ClientScripts d)) \<and>
     names_ok (map do_Name (ad_Documentation d))"

context named_section begin

lemma entries_names_ok:
  assumes "normalize_entries kind nm extra finish seen xs = Inr ys"
  shows "names_ok (map nm ys)"
  using entries_names[OF assms, THEN conjunct2] by (auto simp: names_ok_def list_all_iff)

end

lemma finish_table_ok:
  assumes "finish_table (prepare_table x) = Inr t"
  shows "table_ok t"
proof -
  let ?p = "prepare_table x"
  from assms obtain cs fs ls ps ts rs where parts: "table_parts ?p cs fs ls ps ts rs"
    and t: "t = (label_table ?p)\<lparr>dt_Columns := cs, dt_DisplayField := display_of ?p cs, dt_Forms := fs, dt_Lists := ls,
       dt_DataPolicies := ps, dt_Triggers := ts, dt_RelatedLists := rs,
       dt_Security := normalizeAppDefinitionSecurity (dt_Security ?p)\<rparr>"
    unfolding finish_table_Inr by blast
  note p = parts[unfolded table_parts_def Let_def normalize_columns_def]
  have cols: "normalize_entries (KColumn (dt_Name ?p)) dc_Name no_extra (finish_column (dt_Name ?p)) []
      (map prepare_column (dt_Columns ?p)) = Inr cs"
    and trs: "normalize_entries (KTableTrigger (dt_Name ?p)) tr_Name no_extra finish_trigger []
      (map (prepare_table_trigger (dt_Name ?p)) (dt_Triggers ?p)) = Inr ts"
    using p by blast+
  have "column_ok c" if "c \<in> set cs" for c
  proof -
    from column_section.entries_each[OF cols that]
    obtain c0 where "finish_column (dt_Name ?p) (prepare_column c0) = Inr c" by blast
    then show ?thesis
      by (auto simp: finish_column_def Let_def column_ok_def prepare_column_def or_default_def normalizeDataType_idem
          split: option.splits if_splits)
  qed
  moreover have "tr_Table r = dt_Name ?p" if "r \<in> set ts" for r
  proof -
    from table_trigger_section.entries_each[OF trs that]
    obtain r0 where "finish_trigger (prepare_table_trigger (dt_Name ?p) r0) = Inr r" by blast
    then show ?thesis by (auto simp: finish_trigger_def prepare_table_trigger_def)
  qed
  ultimately show ?thesis using p column_section.entries_names_ok form_section.entries_names_ok list_section.entries_names_ok
      policy_section.entries_names_ok table_trigger_section.entries_names_ok related_section.entries_names_ok
    by (auto simp: table_ok_def t list_all_iff)
qed

lemma normal_form_ok:
  assumes "normalizeAppDefinition d = Inr d'"
  shows "definition_ok d'"
proof -
  let ?h = "normalize_header d" and ?n = "ad_Name (normalize_header d)" and ?ns = "ad_Namespace (normalize_header d)"
  from assms(1) obtain deps roles tables forms ts where p:
    "normalize_dependencies ?n ?ns [] (ad_Dependencies d) = Inr deps"
    "normalize_roles (ad_Roles d) = Inr roles" "normalize_tables ?n ?ns (ad_Tables d) = Inr tables"
    "normalize_entries KAssetForm af_Name no_extra finish_asset_form [] (map prepare_asset_form (ad_Forms d)) = Inr forms"
    "migrate_forms (table_index tables) forms tables = Inr ts"
    "normalize_behaviour (?h\<lparr>ad_Dependencies := deps, ad_Roles := roles, ad_Tables := ts, ad_Forms := []\<rparr>) = Inr d'"
    "length ?ns \<le> 8"
    by (rule normalizeAppDefinition_InrE)
  note keeps = normalize_behaviour_keeps[OF p(6), simplified]
  note tb = p(3)[unfolded normalize_tables_def]
  have tables: "(\<forall>t \<in> set ts. table_ok t) \<and> map dt_Name ts = map dt_Name tables"
  proof (rule migrate_forms_keeps[OF p(5)])
    fix t f
    assume t: "table_ok t" and f: "migrated_form f"
      and new: "\<forall>g \<in> set (dt_Forms t). \<not> EqualFold (TrimSpace (fo_Name g)) (af_Name f)"
    have "IsSafeIdentifier (af_Name f)" using f by (simp add: migrated_form_def)
    then show "table_ok (t\<lparr>dt_Forms := dt_Forms t @ [table_form_of f]\<rparr>)" using t new
      by (auto simp: table_ok_def names_ok_def table_form_name[OF f])
  qed (use table_section.entries_each[OF tb] finish_table_ok table_index_bound asset_forms_migrated[OF p(4)] in blast)+
  have extra: "\<forall>n \<in> set (map dt_Name tables). validateAppDefinitionTableName ?n ?ns n = None"
    using table_section.entries_names[OF tb, THEN conjunct2, THEN conjunct2] by auto
  have "\<forall>n \<in> set (map dt_Name ts). validateAppDefinitionTableName ?n ?ns n = None" using extra tables by metis
  then have "\<forall>t \<in> set ts. validateAppDefinitionTableName ?n ?ns (dt_Name t) = None" by simp
  moreover have "names_ok (map dt_Name ts)" using table_section.entries_names_ok[OF tb] tables by simp
  moreover have "names_ok (map ro_Name roles)" using role_section.entries_names_ok p(2)[unfolded normalize_roles_def] by blast
  moreover have "names_ok (map me_Name (sv_Methods s))" if
    "normalize_entries KService sv_Name no_extra finish_service [] (map prepare_service ss) = Inr svs" "s \<in> set svs" for ss svs s
    using service_section.entries_each[OF that] method_section.entries_names_ok
    by (auto simp: finish_service_def and_then_Inr)
  ultimately show ?thesis
    using normalize_dependencies_Inr[OF p(1)] p(6,7) tables
      service_section.entries_names_ok trigger_section.entries_names_ok schedule_section.entries_names_ok
      endpoint_section.entries_names_ok script_section.entries_names_ok article_section.entries_names_ok
    by (auto simp: definition_ok_def list_all_iff normalize_behaviour_def and_then_Inr)
qed

text \<open>
  C27: every accepted definition is well formed: names are safe identifiers, unique in their section,
  columns have valid types in normal form and prefixes exactly on automatic numbers, table names carry
  the prefix of the app, and every legacy form has become a form of its table.
\<close>
theorem normalized_well_formed:
  assumes "normalizeAppDefinition d = Inr d'"
  shows "definition_ok d'"
  using assms by (rule normal_form_ok)

section \<open>Labels of underscored names\<close>

text \<open>
  C0: the label made from a name that begins with an underscore begins with a space, so trimming, as a
  second normalisation does, changes it.
\<close>
theorem underscore_label_not_normal:
  assumes "trim_lower n = n" "HasPrefix n ''_''"
  shows "HasPrefix (humanizeIdentifier n) '' '' \<and> TrimSpace (humanizeIdentifier n) \<noteq> humanizeIdentifier n"
proof -
  from assms(2) obtain s where n: "n = CHR ''_'' # s" by (auto simp: HasPrefix_ConsI neq_Nil_conv)
  obtain r where r: "humanizeIdentifier n = CHR '' '' # r"
    using assms(1) by (auto simp: humanizeIdentifier_def Let_def n Join_Cons upper_first_def)
  have "TrimSpace (CHR '' '' # r) \<noteq> CHR '' '' # r"
  proof
    assume t: "TrimSpace (CHR '' '' # r) = CHR '' '' # r"
    have "skip_ws ws2 ws3 (CHR '' '' # r) = CHR '' '' # r"
      using TrimLeftSpace_TrimSpace[of "CHR '' '' # r"] unfolding t TrimLeftSpace_def .
    then show False
      using skip_ws_not_starts[of ws2 ws3 "CHR '' '' # r"] by (simp add: starts_ws_def ws1_def)
  qed
  then show ?thesis by (simp add: r HasPrefix_def)
qed

end
