(* ===== verification/AppSamples.thy ===== *)
theory AppSamples
  imports Samples AppNormalizeLaws
begin

text \<open>Concrete definitions of apps, and the properties of their normalisation applied to them.\<close>

definition book_column :: AppDefinitionColumn where
  "book_column = \<lparr>dc_Name = '' Title '', dc_Label = [], dc_DataType = ''TEXT'', dc_IsNullable = False, dc_DefaultValue = [],
     dc_Prefix = [], dc_ValidationRegex = [], dc_ValidationExpr = [], dc_ConditionExpr = [], dc_ValidationMessage = [],
     dc_ReferenceTable = [], dc_Choices = []\<rparr>"

definition book_form :: AppDefinitionAssetForm where
  "book_form = \<lparr>af_Name = ''quick entry'', af_Table = ''lib_book'', af_Label = [], af_Description = [], af_Fields = [''title''],
     af_Layout = [], af_Actions = [], af_Security = zero_security\<rparr>"

definition library_draft :: AppDefinition where
  "library_draft = zero_definition\<lparr>ad_Name := ''Library'', ad_Namespace := ''lib'', ad_Dependencies := [''base'', ''lib''],
     ad_Tables := [zero_table\<lparr>dt_Name := ''lib_book'', dt_Columns := [book_column]\<rparr>], ad_Forms := [book_form],
     ad_Services := [\<lparr>sv_Name = ''net'', sv_Label = [], sv_Description = [], sv_Methods = [ping]\<rparr>]\<rparr>"

lemma library_draft_settled:
  "case normalizeAppDefinition library_draft of Inl e \<Rightarrow> False
   | Inr d \<Rightarrow> settled d \<and> map (\<lambda>t. map fo_Name (dt_Forms t)) (ad_Tables d) = [[''quick_entry'']]"
  by code_simp

lemma normalize_again_witness:
  "case normalizeAppDefinition library_draft of Inl e \<Rightarrow> False | Inr d \<Rightarrow> normalizeAppDefinition d = Inr d"
  using library_draft_settled normalize_again[of library_draft] by (auto split: sum.splits)

lemma normalized_well_formed_witness:
  "case normalizeAppDefinition library_draft of Inl e \<Rightarrow> False | Inr d \<Rightarrow> definition_ok d"
  using library_draft_settled normalized_well_formed[of library_draft] by (auto split: sum.splits)

lemma underscore_label_not_normal_witness:
  "HasPrefix (humanizeIdentifier ''_user'') '' '' \<and> TrimSpace (humanizeIdentifier ''_user'') \<noteq> humanizeIdentifier ''_user''"
  by (rule underscore_label_not_normal) code_simp+

end
