(* ===== verification/AppValidate.thy ===== *)
theory AppValidate
  imports AppNormalize SecurityLaws
begin

text \<open>
  The acceptance of an app definition, \<open>validateAppDefinitionForApp\<close> of \<open>internal/db/AppDefinition.go\<close>,
  check by check in the order of the source, with the system columns of \<open>SystemColumns.go\<close>. The
  result is the first error.

  The apps are those \<open>ListActiveApps\<close> reads, an argument. The dependency apps are a Go map by name,
  kept as the list of its entries; \<open>order\<close> is the order in which its loops visit them. The source
  draws an order for every loop, one order stands for them all here, and \<open>AppValidateLaws\<close> shows
  when the order is immaterial.
\<close>

datatype column_issue =
    ReferenceTableRequired
  | ReferenceUnknownTable string
  | ChoicesRequired
  | ReferenceNotAllowed
  | ChoicesNotAllowed
  | DefaultNotAllowed
  | PrefixNotAllowed
  | BadPrefix meta_error
  | EnumAndChoices
  | BadDefault form_error

datatype table_issue =
    BadTableName definition_error
  | ExtendsUnknownTable string
  | NotExtensible string
  | BadInheritance app_error
  | RedefinesInherited
  | DisplayFieldMissing string
  | FormUnknownField string string
  | ListUnknownColumn string string
  | RelatedUnknownTable string string
  | RelatedNeedsField string

datatype call_issue =
    CallRequired
  | CallSyntax
  | CallUnavailable string

datatype entry_issue =
    NeedsEvent
  | BadEvent
  | BadMode
  | NeedsScript
  | NeedsTable
  | UnknownTable string
  | NeedsField
  | UnknownFieldOf string string
  | BadLanguage
  | NeedsCron
  | NeedsMethod
  | NeedsPath
  | NeedsRoles
  | BadVisibility string
  | BadCall call_issue

datatype validate_error =
    AppNameRequired
  | AppNamespaceTooLong
  | InvalidAppName string
  | InvalidAppNamespace string
  | ListAppsFailed string
  | DependencyNotFound string
  | ReservedRole string
  | ColumnError string string column_issue
  | TableError string table_issue
  | EntryError string entry_issue
  | BadSecurity security_error

definition map_error :: "('e \<Rightarrow> 'f) \<Rightarrow> 'e option \<Rightarrow> 'f option" where
  "map_error f r = map_option f r"

definition refuse_if :: "bool \<Rightarrow> 'e \<Rightarrow> 'e option" where
  "refuse_if b e = (if b then Some e else None)"

lemma check_None [simp]: "map_error f r = None \<longleftrightarrow> r = None" "refuse_if b e = None \<longleftrightarrow> \<not> b"
  by (simp_all add: map_error_def refuse_if_def)

section \<open>System columns\<close>

definition system_column :: "string \<Rightarrow> string \<Rightarrow> string \<Rightarrow> bool \<Rightarrow> string \<Rightarrow> AppDefinitionColumn" where
  "system_column name label dataType nullable reference =
     \<lparr>dc_Name = name, dc_Label = label, dc_DataType = dataType, dc_IsNullable = nullable, dc_DefaultValue = [],
      dc_Prefix = [], dc_ValidationRegex = [], dc_ValidationExpr = [], dc_ConditionExpr = [],
      dc_ValidationMessage = [], dc_ReferenceTable = reference, dc_Choices = []\<rparr>"

definition recordSystemColumnTemplates :: "AppDefinitionColumn list" where
  "recordSystemColumnTemplates =
    [system_column ''_id'' ''ID'' ''uuid'' False [],
     system_column ''_created_at'' ''Created At'' ''timestamptz'' False [],
     system_column ''_updated_at'' ''Updated At'' ''timestamptz'' False [],
     system_column ''_update_count'' ''Update Count'' ''bigint'' False [],
     system_column ''_deleted_at'' ''Deleted At'' ''timestamptz'' True [],
     system_column ''_created_by'' ''Created By'' ''reference'' True ''_user'',
     system_column ''_updated_by'' ''Updated By'' ''reference'' True ''_user'',
     system_column ''_deleted_by'' ''Deleted By'' ''reference'' True ''_user'']"

definition recordSystemColumnNameSet :: "string list" where
  "recordSystemColumnNameSet = map dc_Name recordSystemColumnTemplates"

definition IsSystemColumnName :: "string \<Rightarrow> bool" where
  "IsSystemColumnName name \<longleftrightarrow> list_ex (\<lambda>c. dc_Name c = normalizeIdentifier name) recordSystemColumnTemplates"

definition definitionHasExplicitSystemColumns :: "AppDefinitionTable \<Rightarrow> bool" where
  "definitionHasExplicitSystemColumns t \<longleftrightarrow> list_ex (\<lambda>c. IsSystemColumnName (dc_Name c)) (dt_Columns t)"

definition definitionUsesImplicitSystemColumns :: "string \<Rightarrow> string \<Rightarrow> AppDefinitionTable \<Rightarrow> bool" where
  "definitionUsesImplicitSystemColumns appName namespace t =
     (let ns = normalizeIdentifier namespace in
      if ns = [] then
        (if \<not> isOOTBBaseAppName appName ns then False
         else if HasPrefix (normalizeIdentifier (dt_Name t)) ''_'' then False
         else \<not> definitionHasExplicitSystemColumns t)
      else \<not> definitionHasExplicitSystemColumns t)"

text \<open>The fields a table declares itself, with the system columns it has by default.\<close>

definition own_fields :: "string \<Rightarrow> string \<Rightarrow> AppDefinitionTable \<Rightarrow> string list" where
  "own_fields appName namespace t =
     (if definitionUsesImplicitSystemColumns appName namespace t then recordSystemColumnNameSet else [])
     @ map dc_Name (dt_Columns t)"

section \<open>Tables of the app and its dependencies\<close>

fun table_of_apps :: "string \<Rightarrow> RegisteredApp list \<Rightarrow> (RegisteredApp \<times> AppDefinitionTable) option" where
  "table_of_apps n [] = None"
| "table_of_apps n (app # apps) = (case effectiveRegisteredAppDefinition app of
     None \<Rightarrow> table_of_apps n apps
   | Some d \<Rightarrow> (case find (\<lambda>t. dt_Name t = n) (ad_Tables d) of
        Some t \<Rightarrow> Some (app, t) | None \<Rightarrow> table_of_apps n apps))"

definition resolveValidationTable ::
  "RegisteredApp \<Rightarrow> AppDefinition option \<Rightarrow> RegisteredApp list \<Rightarrow> string \<Rightarrow> (RegisteredApp \<times> AppDefinitionTable) option" where
  "resolveValidationTable currentApp currentDefinition deps tableName =
     (let n = trim_lower tableName;
          current = (case currentDefinition of None \<Rightarrow> effectiveRegisteredAppDefinition currentApp | Some d \<Rightarrow> Some d)
      in case current of None \<Rightarrow> None
         | Some d \<Rightarrow> (case find (\<lambda>t. dt_Name t = n) (ad_Tables d) of
             Some t \<Rightarrow> Some (currentApp, t) | None \<Rightarrow> table_of_apps n deps))"

text \<open>The names a resolved table can have.\<close>

definition table_names :: "AppDefinition option \<Rightarrow> string list" where
  "table_names d = (case d of None \<Rightarrow> [] | Some d \<Rightarrow> map dt_Name (ad_Tables d))"

definition known_tables :: "RegisteredApp \<Rightarrow> AppDefinition option \<Rightarrow> RegisteredApp list \<Rightarrow> string list" where
  "known_tables app d deps =
     table_names (case d of None \<Rightarrow> effectiveRegisteredAppDefinition app | Some d \<Rightarrow> Some d)
     @ concat (map (\<lambda>a. table_names (effectiveRegisteredAppDefinition a)) deps)"

lemma table_of_apps_Some:
  "table_of_apps n apps = Some (a, t) \<Longrightarrow>
     dt_Name t = n \<and> a \<in> set apps \<and> (\<exists>d. effectiveRegisteredAppDefinition a = Some d \<and> t \<in> set (ad_Tables d))"
  by (induction apps) (auto split: option.splits dest: find_Some_mem)

lemma resolveValidationTable_known:
  assumes "resolveValidationTable app d deps n = Some (a, t)"
  shows "dt_Name t \<in> set (known_tables app d deps)"
proof -
  have dep: "dt_Name t \<in> set (known_tables app d deps)" if r: "table_of_apps (trim_lower n) deps = Some (a, t)"
  proof -
    obtain e where e: "a \<in> set deps" "effectiveRegisteredAppDefinition a = Some e" "t \<in> set (ad_Tables e)"
      using table_of_apps_Some[OF r] by blast
    then have "dt_Name t \<in> set (table_names (effectiveRegisteredAppDefinition a))" by (simp add: table_names_def)
    then show ?thesis using e(1) unfolding known_tables_def by auto
  qed
  show ?thesis
    using assms dep by (auto simp: resolveValidationTable_def Let_def known_tables_def table_names_def
        split: option.splits dest!: find_Some_mem)
qed

function (sequential) collectInheritedColumnNames ::
  "RegisteredApp \<Rightarrow> AppDefinition option \<Rightarrow> RegisteredApp list \<Rightarrow> RegisteredApp \<Rightarrow> AppDefinitionTable \<Rightarrow> string list
     \<Rightarrow> (app_error, string list) result" where
  "collectInheritedColumnNames app d deps owner t visited =
     (if dt_Name t \<in> set visited then Inl (CyclicInheritance (dt_Name t))
      else let names = own_fields (ra_Name owner) (ra_Namespace owner) t in
        if dt_Extends t = [] then Inr names
        else (case resolveValidationTable app d deps (dt_Extends t) of
            None \<Rightarrow> Inl (ExtendedTableNotFound (dt_Extends t))
          | Some (a, parent) \<Rightarrow>
              and_then (collectInheritedColumnNames app d deps a parent (dt_Name t # visited)) (\<lambda>inherited.
                Inr (names @ inherited))))"
  by pat_completeness auto

termination
proof (relation "measure (\<lambda>(app, d, deps, owner, t, visited).
    2 * card (set (known_tables app d deps) - set visited) +
    (if dt_Name t \<in> set (known_tables app d deps) then 0 else 1))", goal_cases)
  case 1
  show ?case by simp
next
  case (2 app d deps owner t visited names at a parent)
  let ?K = "set (known_tables app d deps)"
  have parent: "dt_Name parent \<in> ?K" using resolveValidationTable_known 2 by blast
  have "?K - set (dt_Name t # visited) = (?K - set visited) - {dt_Name t}" by auto
  moreover have "card ((?K - set visited) - {dt_Name t}) < card (?K - set visited)" if "dt_Name t \<in> ?K"
    using that 2 by (intro card_Diff1_less) auto
  moreover have "card ((?K - set visited) - {dt_Name t}) \<le> card (?K - set visited)"
    by (rule card_Diff1_le)
  ultimately show ?case using parent by auto
qed

declare collectInheritedColumnNames.simps [simp del]

section \<open>Columns\<close>

text \<open>The column a default value is tested against.\<close>

definition test_column :: "AppDefinitionColumn \<Rightarrow> Column" where
  "test_column c = \<lparr>co_ID = [], co_NAME = dc_Name c, co_LABEL = [], co_DATA_TYPE = dc_DataType c,
     co_IS_NULLABLE = False, co_DEFAULT_VALUE = None, co_IS_HIDDEN = False, co_IS_READONLY = False,
     co_VALIDATION_REGEX = None, co_VALIDATION_EXPR = None, co_CONDITION_EXPR = None, co_VALIDATION_MSG = None,
     co_REFERENCE_TABLE = None, co_PREFIX = None, co_CHOICES = dc_Choices c, co_TABLE_ID = []\<rparr>"

definition column_issue_of_type ::
  "(string \<Rightarrow> (RegisteredApp \<times> AppDefinitionTable) option) \<Rightarrow> AppDefinitionColumn \<Rightarrow> column_issue option" where
  "column_issue_of_type resolve c =
     (let dt = normalizeDataType (dc_DataType c) in
      if dt = ''reference'' then
        (if dc_ReferenceTable c = [] then Some ReferenceTableRequired
         else if resolve (dc_ReferenceTable c) = None then Some (ReferenceUnknownTable (dc_ReferenceTable c))
         else refuse_if (dc_Choices c \<noteq> []) ChoicesNotAllowed)
      else if dt = ''choice'' then
        (if dc_Choices c = [] then Some ChoicesRequired else refuse_if (dc_ReferenceTable c \<noteq> []) ReferenceNotAllowed)
      else if dt = ''autnumber'' then
        (case validateAutoNumberPrefix (dc_Prefix c) of Some e \<Rightarrow> Some (BadPrefix e)
         | None \<Rightarrow> if dc_ReferenceTable c \<noteq> [] then Some ReferenceNotAllowed
             else if dc_Choices c \<noteq> [] then Some ChoicesNotAllowed
             else refuse_if (TrimSpace (dc_DefaultValue c) \<noteq> []) DefaultNotAllowed)
      else if dc_ReferenceTable c \<noteq> [] then Some ReferenceNotAllowed
      else if dc_Choices c \<noteq> [] \<and> \<not> HasPrefix dt ''enum:'' then Some ChoicesNotAllowed
      else refuse_if (dc_Prefix c \<noteq> []) PrefixNotAllowed)"

definition column_issue_of_default :: "checkers \<Rightarrow> AppDefinitionColumn \<Rightarrow> column_issue option" where
  "column_issue_of_default ck c =
     (if HasPrefix (normalizeDataType (dc_DataType c)) ''enum:'' \<and> dc_Choices c \<noteq> [] then Some EnumAndChoices
      else if TrimSpace (dc_DefaultValue c) \<noteq> []
        then map_error BadDefault (validateColumnValue ck (test_column c) (dc_DefaultValue c))
      else None)"

definition validateDefinitionColumn ::
  "checkers \<Rightarrow> RegisteredApp \<Rightarrow> AppDefinition option \<Rightarrow> RegisteredApp list \<Rightarrow> AppDefinitionTable \<Rightarrow> AppDefinitionColumn
     \<Rightarrow> validate_error option" where
  "validateDefinitionColumn ck app d deps t c =
     map_error (ColumnError (dc_Name c) (dt_Name t))
       (or_else (column_issue_of_type (resolveValidationTable app d deps) c) (column_issue_of_default ck c))"

section \<open>Tables\<close>

text \<open>
  The fields of a table, inherited ones included, or why they are refused. The source adds the
  inherited names one by one in the order of a map; they are distinct, so the first of them that is
  declared already is refused whatever the order, and only the name in the message depends on it.
\<close>

definition table_fields ::
  "RegisteredApp \<Rightarrow> AppDefinition \<Rightarrow> RegisteredApp list \<Rightarrow> AppDefinitionTable \<Rightarrow> (table_issue, string list) result" where
  "table_fields app d deps t =
     (let own = own_fields (ad_Name d) (ad_Namespace d) t;
          implicit = definitionUsesImplicitSystemColumns (ad_Name d) (ad_Namespace d) t in
      if dt_Extends t = [] then Inr own
      else (case resolveValidationTable app (Some d) deps (dt_Extends t) of
          None \<Rightarrow> Inl (ExtendsUnknownTable (dt_Extends t))
        | Some (a, parent) \<Rightarrow>
            if ra_Name a \<noteq> ra_Name app \<and> \<not> dt_Extensible parent then Inl (NotExtensible (dt_Extends t))
            else (case collectInheritedColumnNames app (Some d) deps a parent [] of
                Inl e \<Rightarrow> Inl (BadInheritance e)
              | Inr names \<Rightarrow>
                  let new = filter (\<lambda>n. \<not> (IsSystemColumnName n \<and> implicit)) names in
                  if list_ex (\<lambda>n. n \<in> set own) new then Inl RedefinesInherited
                  else Inr (own @ new))))"

definition related_issue ::
  "(string \<Rightarrow> (RegisteredApp \<times> AppDefinitionTable) option) \<Rightarrow> string list \<Rightarrow> AppDefinitionRelatedList \<Rightarrow> table_issue option" where
  "related_issue resolve tables r =
     (if rl_Table r \<notin> set tables \<and> resolve (rl_Table r) = None then Some (RelatedUnknownTable (rl_Name r) (rl_Table r))
      else refuse_if (rl_ReferenceField r = []) (RelatedNeedsField (rl_Name r)))"

definition trigger_mode_issue :: "AppDefinitionTrigger \<Rightarrow> entry_issue option" where
  "trigger_mode_issue tr =
     (if tr_Event tr = [] then Some NeedsEvent
      else refuse_if (tr_Mode tr \<noteq> ''sync'' \<and> tr_Mode tr \<noteq> ''async'') BadMode)"

definition table_trigger_issue :: "AppDefinitionTrigger \<Rightarrow> entry_issue option" where
  "table_trigger_issue tr = or_else (trigger_mode_issue tr) (refuse_if (TrimSpace (tr_Call tr) = []) NeedsScript)"

definition layout_issue :: "AppDefinitionTable \<Rightarrow> string list \<Rightarrow> table_issue option" where
  "layout_issue t fs =
     or_else (refuse_if (dt_DisplayField t \<noteq> [] \<and> dt_DisplayField t \<notin> set fs) (DisplayFieldMissing (dt_DisplayField t)))
    (or_else (check_all (\<lambda>f. check_all (\<lambda>x. refuse_if (x \<notin> set fs) (FormUnknownField (fo_Name f) x)) (fo_Fields f)) (dt_Forms t))
      (check_all (\<lambda>l. check_all (\<lambda>x. refuse_if (x \<notin> set fs) (ListUnknownColumn (li_Name l) x)) (li_Columns l)) (dt_Lists t)))"

definition validate_table ::
  "checkers \<Rightarrow> RegisteredApp \<Rightarrow> AppDefinition \<Rightarrow> RegisteredApp list \<Rightarrow> AppDefinitionTable \<Rightarrow> validate_error option" where
  "validate_table ck app d deps t =
     or_else (check_all (validateDefinitionColumn ck app (Some d) deps t) (dt_Columns t))
       (case table_fields app d deps t of Inl e \<Rightarrow> Some (TableError (dt_Name t) e)
        | Inr fs \<Rightarrow>
            or_else (map_error (TableError (dt_Name t)) (layout_issue t fs))
           (or_else (map_error (TableError (dt_Name t)) (check_all
               (related_issue (resolveValidationTable app (Some d) deps) (map dt_Name (ad_Tables d))) (dt_RelatedLists t)))
           (or_else (check_all (\<lambda>tr. map_error (EntryError (tr_Name tr)) (table_trigger_issue tr)) (dt_Triggers t))
             (map_error BadSecurity (validateAppDefinitionSecurity (map ro_Name (ad_Roles d)) (dt_Security t)
               (''security for table '' @ dt_Name t) (dt_Name t) (Some fs))))))"

section \<open>Legacy forms\<close>

text \<open>The map of the tables by name; of two tables of a name the later is found.\<close>

definition table_by_name :: "AppDefinition \<Rightarrow> string \<Rightarrow> AppDefinitionTable option" where
  "table_by_name d n = find (\<lambda>t. dt_Name t = n) (rev (ad_Tables d))"

definition validate_asset_form :: "AppDefinition \<Rightarrow> AppDefinitionAssetForm \<Rightarrow> validate_error option" where
  "validate_asset_form d f =
     (case table_by_name d (af_Table f) of None \<Rightarrow> Some (EntryError (af_Name f) (UnknownTable (af_Table f)))
      | Some t \<Rightarrow>
          let own = own_fields (ad_Name d) (ad_Namespace d) t; roleSet = map ro_Name (ad_Roles d) in
          or_else (check_all (\<lambda>x. refuse_if (x \<notin> set own) (EntryError (af_Name f) (UnknownFieldOf x (af_Table f)))) (af_Layout f))
         (or_else (map_error BadSecurity (validateAppDefinitionActionRoles roleSet (af_Actions f)
             (''actions for form '' @ af_Name f)))
           (map_error BadSecurity (validateAppDefinitionSecurity roleSet (af_Security f)
             (''security for form '' @ af_Name f) (af_Table f) (Some own)))))"

section \<open>Services and entry points\<close>

definition validate_method :: "string list \<Rightarrow> string \<Rightarrow> AppDefinitionMethod \<Rightarrow> validate_error option" where
  "validate_method roleSet service m =
     (if me_Visibility m \<noteq> ''private'' \<and> me_Visibility m \<noteq> ''public''
      then Some (EntryError (me_Name m) (BadVisibility (me_Visibility m)))
      else map_error BadSecurity (validateIdentifierRoles roleSet (me_Roles m)
        (''roles for method '' @ me_Name m @ '' on service '' @ service)))"

definition validateAppEntryPointRoleDeclarations :: "AppDefinition \<Rightarrow> validate_error option" where
  "validateAppEntryPointRoleDeclarations d =
     or_else
       (check_all (\<lambda>s. check_all (\<lambda>m. refuse_if (me_Visibility m = ''public'' \<and> declaredRoles (me_Roles m) = [])
           (EntryError (me_Name m) NeedsRoles)) (sv_Methods s)) (ad_Services d))
       (check_all (\<lambda>e. refuse_if (en_Enabled e \<and> declaredRoles (en_Roles e) = [])
           (EntryError (en_Name e) NeedsRoles)) (ad_Endpoints d))"

text \<open>The methods of a service by name; of two services of a name the later is found.\<close>

definition service_index :: "AppDefinition \<Rightarrow> string \<Rightarrow> string list option" where
  "service_index d n = map_option (\<lambda>s. map me_Name (sv_Methods s)) (find (\<lambda>s. sv_Name s = n) (rev (ad_Services d)))"

definition offers_public :: "string \<Rightarrow> string \<Rightarrow> RegisteredApp \<Rightarrow> bool" where
  "offers_public sn mn app = (case ra_Definition app of None \<Rightarrow> False
     | Some d \<Rightarrow> list_ex (\<lambda>s. sv_Name s = sn \<and>
         list_ex (\<lambda>m. me_Name m = mn \<and> me_Visibility m = ''public'') (sv_Methods s)) (ad_Services d))"

definition validateMethodCall :: "(string \<Rightarrow> string list option) \<Rightarrow> RegisteredApp list \<Rightarrow> string \<Rightarrow> call_issue option" where
  "validateMethodCall services deps call =
     (let c = trim_lower call in
      if c = [] then Some CallRequired
      else (case cut1 (CHR ''.'') c of None \<Rightarrow> Some CallSyntax
        | Some (sn, mn) \<Rightarrow>
            if sn = [] \<or> mn = [] then Some CallSyntax
            else if (case services sn of None \<Rightarrow> False | Some ms \<Rightarrow> mn \<in> set ms) then None
            else refuse_if (\<not> list_ex (offers_public sn mn) deps) (CallUnavailable c)))"

definition validate_trigger :: "AppDefinition \<Rightarrow> RegisteredApp list \<Rightarrow> AppDefinitionTrigger \<Rightarrow> entry_issue option" where
  "validate_trigger d deps tr =
     or_else (trigger_mode_issue tr)
    (or_else (refuse_if (table_by_name d (tr_Table tr) = None) (UnknownTable (tr_Table tr)))
      (map_error BadCall (validateMethodCall (service_index d) deps (tr_Call tr))))"

definition validate_schedule :: "AppDefinition \<Rightarrow> RegisteredApp list \<Rightarrow> AppDefinitionSchedule \<Rightarrow> entry_issue option" where
  "validate_schedule d deps s =
     or_else (refuse_if (TrimSpace (sh_Cron s) = []) NeedsCron)
       (map_error BadCall (validateMethodCall (service_index d) deps (sh_Call s)))"

definition validate_endpoint :: "AppDefinition \<Rightarrow> RegisteredApp list \<Rightarrow> AppDefinitionEndpoint \<Rightarrow> validate_error option" where
  "validate_endpoint d deps e =
     (if \<not> en_Enabled e then None
      else or_else (map_error (EntryError (en_Name e))
          (or_else (refuse_if (en_Method e = []) NeedsMethod)
          (or_else (refuse_if (en_Path e = []) NeedsPath)
            (map_error BadCall (validateMethodCall (service_index d) deps (en_Call e))))))
        (map_error BadSecurity (validateIdentifierRoles (map ro_Name (ad_Roles d)) (en_Roles e)
          (''roles for endpoint '' @ en_Name e))))"

definition validate_client_script :: "AppDefinition \<Rightarrow> AppDefinitionClientScript \<Rightarrow> entry_issue option" where
  "validate_client_script d s =
     (if \<not> cs_Enabled s then None
      else if cs_Table s = [] then Some NeedsTable
      else (case table_by_name d (cs_Table s) of None \<Rightarrow> Some (UnknownTable (cs_Table s))
        | Some t \<Rightarrow>
            if cs_Event s = [] then Some NeedsEvent
            else if cs_Event s \<notin> {''form.load'', ''field.change'', ''field.input''} then Some BadEvent
            else if cs_Event s \<in> {''field.change'', ''field.input''} \<and> cs_Field s = [] then Some NeedsField
            else if cs_Field s \<noteq> [] \<and> cs_Field s \<notin> set (own_fields (ad_Name d) (ad_Namespace d) t)
              then Some (UnknownFieldOf (cs_Field s) (cs_Table s))
            else if cs_Language s \<noteq> ''javascript'' then Some BadLanguage
            else refuse_if (TrimSpace (cs_Script s) = []) NeedsScript))"

section \<open>Pages and documentation\<close>

definition validate_page :: "AppDefinition \<Rightarrow> AppDefinitionPage \<Rightarrow> validate_error option" where
  "validate_page d p =
     (let roleSet = map ro_Name (ad_Roles d) in
      or_else (map_error BadSecurity (validateAppDefinitionActionRoles roleSet (pg_Actions p) (''actions for page '' @ pg_Slug p)))
        (map_error BadSecurity (validateAppDefinitionSecurity roleSet (pg_Security p) (''security for page '' @ pg_Slug p) [] None)))"

definition validate_article :: "AppDefinitionDocumentation \<Rightarrow> validate_error option" where
  "validate_article a = refuse_if (do_Visibility a \<notin> {''internal'', ''external'', ''role-gated''})
     (EntryError (do_Name a) (BadVisibility (do_Visibility a)))"

section \<open>The definition\<close>

definition validate_header :: "AppDefinition \<Rightarrow> validate_error option" where
  "validate_header d =
     (if ad_Name d = [] then Some AppNameRequired
      else if ad_Namespace d \<noteq> [] \<and> 8 < length (ad_Namespace d) then Some AppNamespaceTooLong
      else if \<not> IsSafeIdentifier (ad_Name d) then Some (InvalidAppName (ad_Name d))
      else refuse_if (ad_Namespace d \<noteq> [] \<and> \<not> IsSafeIdentifier (ad_Namespace d)) (InvalidAppNamespace (ad_Namespace d)))"

definition put_app :: "RegisteredApp \<Rightarrow> RegisteredApp list \<Rightarrow> RegisteredApp list" where
  "put_app a as = filter (\<lambda>b. ra_Name b \<noteq> ra_Name a) as @ [a]"

fun validation_dependencies ::
  "RegisteredApp list \<Rightarrow> string list \<Rightarrow> RegisteredApp list \<Rightarrow> (validate_error, RegisteredApp list) result" where
  "validation_dependencies apps [] acc = Inr acc"
| "validation_dependencies apps (n # ns) acc =
     (case find (\<lambda>a. ra_Name a = n \<or> ra_Namespace a = n) apps of
        None \<Rightarrow> Inl (DependencyNotFound n)
      | Some a \<Rightarrow> validation_dependencies apps ns (put_app a acc))"

text \<open>The checks once the apps are read, with the dependencies in the order of the loops over them.\<close>

definition validate_parts ::
  "checkers \<Rightarrow> RegisteredApp \<Rightarrow> AppDefinition \<Rightarrow> RegisteredApp list \<Rightarrow> validate_error option" where
  "validate_parts ck app d deps =
     or_else (check_all (\<lambda>t. map_error (\<lambda>e. TableError (dt_Name t) (BadTableName e))
         (validateAppDefinitionTableName (ad_Name d) (ad_Namespace d) (dt_Name t))) (ad_Tables d))
    (or_else (check_all (\<lambda>r. refuse_if (isReservedRoleName (ro_Name r)) (ReservedRole (ro_Name r))) (ad_Roles d))
    (or_else (check_all (validate_table ck app d deps) (ad_Tables d))
    (or_else (check_all (validate_asset_form d) (ad_Forms d))
    (or_else (check_all (\<lambda>s. check_all (validate_method (map ro_Name (ad_Roles d)) (sv_Name s)) (sv_Methods s)) (ad_Services d))
    (or_else (validateAppEntryPointRoleDeclarations d)
    (or_else (check_all (\<lambda>tr. map_error (EntryError (tr_Name tr)) (validate_trigger d deps tr)) (ad_Triggers d))
    (or_else (check_all (\<lambda>s. map_error (EntryError (sh_Name s)) (validate_schedule d deps s)) (ad_Schedules d))
    (or_else (check_all (validate_endpoint d deps) (ad_Endpoints d))
    (or_else (check_all (\<lambda>s. map_error (EntryError (cs_Name s)) (validate_client_script d s)) (ad_ClientScripts d))
    (or_else (check_all (validate_page d) (ad_Pages d))
      (check_all validate_article (ad_Documentation d))))))))))))"

definition validateAppDefinitionForApp ::
  "checkers \<Rightarrow> (RegisteredApp list \<Rightarrow> RegisteredApp list) \<Rightarrow> (string, RegisteredApp list) result \<Rightarrow> RegisteredApp
     \<Rightarrow> AppDefinition \<Rightarrow> validate_error option" where
  "validateAppDefinitionForApp ck order listApps app d =
     or_else (validate_header d)
       (case listApps of Inl e \<Rightarrow> Some (ListAppsFailed e)
        | Inr apps \<Rightarrow> (case validation_dependencies apps (ad_Dependencies d) [] of Inl e \<Rightarrow> Some e
            | Inr deps \<Rightarrow> validate_parts ck app d (order deps)))"

text \<open>\<open>prepareDefinitionForApp\<close>: normalisation, then the names of the app.\<close>

datatype prepare_error = BadDefinition definition_error | NameImmutable | NamespaceImmutable

definition prepareDefinitionForApp :: "RegisteredApp \<Rightarrow> AppDefinition \<Rightarrow> (prepare_error, AppDefinition) result" where
  "prepareDefinitionForApp app d0 =
     (case normalizeAppDefinition d0 of Inl e \<Rightarrow> Inl (BadDefinition e)
      | Inr d1 \<Rightarrow>
          let d = d1\<lparr>ad_Name := or_default (ad_Name d1) (ra_Name app),
                ad_Namespace := or_default (ad_Namespace d1) (ra_Namespace app)\<rparr>
          in if ad_Name d \<noteq> ra_Name app then Inl NameImmutable
             else if ad_Namespace d \<noteq> ra_Namespace app then Inl NamespaceImmutable
             else Inr d)"

end
