(* ===== verification/AppValidateLaws.thy ===== *)
theory AppValidateLaws
  imports AppValidate AppNormalizeLaws AppDispatch
begin

text \<open>
  Laws of the acceptance of an app definition: what it does not depend on (the order of the
  dependencies, the security of table forms), and what it promises the runtime (calls resolve, entry
  points are gated by declared roles).
\<close>

section \<open>The order of the dependencies\<close>

lemma check_all_cong: "(\<And>x. x \<in> set xs \<Longrightarrow> f x = g x) \<Longrightarrow> check_all f xs = check_all g xs"
  by (induction xs) (auto split: option.splits)

lemma check_all_map: "check_all f (map g xs) = check_all (f \<circ> g) xs"
  by (induction xs) (auto split: option.splits)

definition distinct_tables :: "RegisteredApp list \<Rightarrow> bool" where
  "distinct_tables deps \<longleftrightarrow> (\<forall>a \<in> set deps. \<forall>b \<in> set deps. a \<noteq> b \<longrightarrow>
     set (table_names (effectiveRegisteredAppDefinition a)) \<inter> set (table_names (effectiveRegisteredAppDefinition b)) = {})"

definition table_in :: "string \<Rightarrow> RegisteredApp \<Rightarrow> AppDefinitionTable option" where
  "table_in n app = (case effectiveRegisteredAppDefinition app of None \<Rightarrow> None
     | Some d \<Rightarrow> find (\<lambda>t. dt_Name t = n) (ad_Tables d))"

lemma table_of_apps_first:
  "table_of_apps n apps = (case find (\<lambda>a. table_in n a \<noteq> None) apps of None \<Rightarrow> None
     | Some a \<Rightarrow> Some (a, the (table_in n a)))"
  by (induction apps) (auto simp: table_in_def split: option.splits)

lemma find_names: "find (\<lambda>t. f t = n) xs \<noteq> None \<longleftrightarrow> n \<in> f ` set xs"
  by (induction xs) auto

lemma table_in_names: "table_in n a \<noteq> None \<longleftrightarrow> n \<in> set (table_names (effectiveRegisteredAppDefinition a))"
  by (simp add: table_in_def table_names_def find_names[of dt_Name, simplified] split: option.split)

lemma find_order:
  assumes "set xs = set ys" "\<And>a b. a \<in> set xs \<Longrightarrow> b \<in> set xs \<Longrightarrow> P a \<Longrightarrow> P b \<Longrightarrow> a = b"
  shows "find P xs = find P ys"
proof (cases "find P xs")
  case None
  then have "find P ys = None" using assms(1) by (simp add: find_None_iff)
  with None show ?thesis by simp
next
  case (Some a)
  then have a: "a \<in> set xs" "P a" by (auto dest: find_Some_mem)
  then obtain b where b: "find P ys = Some b" using assms(1) by (metis find_None_iff option.exhaust)
  then have "b \<in> set ys" "P b" by (auto dest: find_Some_mem)
  with a b Some assms show ?thesis by metis
qed

lemma table_of_apps_order:
  assumes "set xs = set ys" "distinct_tables xs"
  shows "table_of_apps n xs = table_of_apps n ys"
proof -
  have "find (\<lambda>a. table_in n a \<noteq> None) xs = find (\<lambda>a. table_in n a \<noteq> None) ys"
  proof (rule find_order[OF assms(1)])
    fix a b assume "a \<in> set xs" "b \<in> set xs" "table_in n a \<noteq> None" "table_in n b \<noteq> None"
    then show "a = b" using assms(2) unfolding table_in_names distinct_tables_def by blast
  qed
  then show ?thesis by (simp only: table_of_apps_first)
qed

lemma resolveValidationTable_order:
  assumes "set xs = set ys" "distinct_tables xs"
  shows "resolveValidationTable app d xs = resolveValidationTable app d ys"
  by (rule ext) (unfold resolveValidationTable_def table_of_apps_order[OF assms], rule refl)

lemma collect_order:
  assumes "set xs = set ys" "distinct_tables xs"
  shows "collectInheritedColumnNames app d xs owner t visited = collectInheritedColumnNames app d ys owner t visited"
  using assms
proof (induction app d xs owner t visited rule: collectInheritedColumnNames.induct)
  case (1 app d deps owner t visited)
  note r = resolveValidationTable_order[OF "1.prems", of app d]
  show ?case
  proof (cases "resolveValidationTable app d ys (dt_Extends t)")
    case None
    then have "resolveValidationTable app d deps (dt_Extends t) = None" by (simp only: r)
    with None show ?thesis by (simp add: collectInheritedColumnNames.simps[of app d _ owner t visited] Let_def)
  next
    case (Some ap)
    obtain a p where ap: "ap = (a, p)" by (cases ap)
    have "collectInheritedColumnNames app d deps a p (dt_Name t # visited) =
        collectInheritedColumnNames app d ys a p (dt_Name t # visited)"
      if "dt_Name t \<notin> set visited" "dt_Extends t \<noteq> []"
      using "1.IH"[OF that(1) refl that(2) _ refl, of a p] "1.prems" Some ap r by simp
    moreover from Some have "resolveValidationTable app d deps (dt_Extends t) = Some ap" by (simp only: r)
    ultimately show ?thesis using Some ap
      by (simp add: collectInheritedColumnNames.simps[of app d _ owner t visited] Let_def)
  qed
qed

lemma table_fields_order:
  assumes "set xs = set ys" "distinct_tables xs"
  shows "table_fields app d xs t = table_fields app d ys t"
  unfolding table_fields_def resolveValidationTable_order[OF assms] collect_order[OF assms] by (rule refl)

lemma validateMethodCall_order: "set xs = set ys \<Longrightarrow> validateMethodCall services xs = validateMethodCall services ys"
proof (rule ext)
  fix call assume s: "set xs = set ys"
  then have "list_ex (offers_public sn mn) xs = list_ex (offers_public sn mn) ys" for sn mn
    by (simp add: list_ex_iff)
  then show "validateMethodCall services xs call = validateMethodCall services ys call"
    unfolding validateMethodCall_def by (simp only:)
qed

lemma validate_table_order:
  assumes "set xs = set ys" "distinct_tables xs"
  shows "validate_table ck app d xs t = validate_table ck app d ys t"
  unfolding validate_table_def validateDefinitionColumn_def table_fields_order[OF assms]
    resolveValidationTable_order[OF assms] by (rule refl)

text \<open>
  The order in which the loops visit the dependency map decides nothing when no two dependencies
  have a table of the same name: every order gives the same verdict and the same error.
\<close>
theorem validation_order:
  assumes "\<And>deps. set (order deps) = set deps" "\<And>deps. set (order' deps) = set deps"
    and "\<And>apps deps. listApps = Inr apps \<Longrightarrow> validation_dependencies apps (ad_Dependencies d) [] = Inr deps \<Longrightarrow> distinct_tables deps"
  shows "validateAppDefinitionForApp ck order listApps app d = validateAppDefinitionForApp ck order' listApps app d"
proof -
  have "validate_parts ck app d (order deps) = validate_parts ck app d (order' deps)" if "distinct_tables deps" for deps
  proof -
    have s: "set (order deps) = set (order' deps)" "distinct_tables (order deps)"
      using that assms(1,2) by (auto simp: distinct_tables_def)
    have "validate_table ck app d (order deps) = validate_table ck app d (order' deps)"
      by (rule ext) (rule validate_table_order[OF s])
    then show ?thesis
      unfolding validate_parts_def validate_trigger_def validate_schedule_def validate_endpoint_def
        validateMethodCall_order[OF s(1)] by (simp only:)
  qed
  with assms(3) show ?thesis by (auto simp: validateAppDefinitionForApp_def split: sum.splits)
qed

section \<open>The security of table forms\<close>

text \<open>A definition with other actions and security sections on the forms of its tables.\<close>

definition secured_table :: "(string \<Rightarrow> AppDefinitionAction list \<times> AppDefinitionSecurity) \<Rightarrow> AppDefinitionTable \<Rightarrow> AppDefinitionTable" where
  "secured_table s t = t\<lparr>dt_Forms := map (\<lambda>f. f\<lparr>fo_Actions := fst (s (fo_Name f)), fo_Security := snd (s (fo_Name f))\<rparr>) (dt_Forms t)\<rparr>"

definition with_form_security ::
  "(string \<Rightarrow> string \<Rightarrow> AppDefinitionAction list \<times> AppDefinitionSecurity) \<Rightarrow> AppDefinition \<Rightarrow> AppDefinition" where
  "with_form_security s d = d\<lparr>ad_Tables := map (\<lambda>t. secured_table (s (dt_Name t)) t) (ad_Tables d)\<rparr>"

definition same_columns :: "RegisteredApp \<times> AppDefinitionTable \<Rightarrow> RegisteredApp \<times> AppDefinitionTable \<Rightarrow> bool" where
  "same_columns p q \<longleftrightarrow> fst p = fst q \<and> dt_Name (snd p) = dt_Name (snd q) \<and> dt_Extends (snd p) = dt_Extends (snd q) \<and>
     dt_Extensible (snd p) = dt_Extensible (snd q) \<and> dt_Columns (snd p) = dt_Columns (snd q)"

lemma secured_parts [simp]:
  "dt_Name (secured_table s t) = dt_Name t" "dt_Extends (secured_table s t) = dt_Extends t"
  "dt_Extensible (secured_table s t) = dt_Extensible t" "dt_Columns (secured_table s t) = dt_Columns t"
  "dt_DisplayField (secured_table s t) = dt_DisplayField t" "dt_Lists (secured_table s t) = dt_Lists t"
  "dt_Triggers (secured_table s t) = dt_Triggers t" "dt_RelatedLists (secured_table s t) = dt_RelatedLists t"
  "dt_Security (secured_table s t) = dt_Security t"
  by (simp_all add: secured_table_def)

lemma with_form_parts [simp]:
  "ad_Name (with_form_security s d) = ad_Name d" "ad_Namespace (with_form_security s d) = ad_Namespace d"
  "ad_Dependencies (with_form_security s d) = ad_Dependencies d" "ad_Roles (with_form_security s d) = ad_Roles d"
  "ad_Forms (with_form_security s d) = ad_Forms d" "ad_Services (with_form_security s d) = ad_Services d"
  "ad_Triggers (with_form_security s d) = ad_Triggers d" "ad_Schedules (with_form_security s d) = ad_Schedules d"
  "ad_Endpoints (with_form_security s d) = ad_Endpoints d" "ad_ClientScripts (with_form_security s d) = ad_ClientScripts d"
  "ad_Pages (with_form_security s d) = ad_Pages d" "ad_Documentation (with_form_security s d) = ad_Documentation d"
  by (simp_all add: with_form_security_def)

lemma find_secured:
  "find (\<lambda>t. dt_Name t = n) (map (\<lambda>t. secured_table (s (dt_Name t)) t) ts) =
     map_option (\<lambda>t. secured_table (s (dt_Name t)) t) (find (\<lambda>t. dt_Name t = n) ts)"
  by (induction ts) auto

lemma resolve_secured:
  "rel_option same_columns (resolveValidationTable app (Some (with_form_security s d)) deps n)
     (resolveValidationTable app (Some d) deps n)"
proof (cases "find (\<lambda>t. dt_Name t = trim_lower n) (ad_Tables d)")
  case None
  then show ?thesis
    by (simp add: resolveValidationTable_def with_form_security_def find_secured option.rel_refl same_columns_def)
next
  case (Some t)
  then show ?thesis by (simp add: resolveValidationTable_def with_form_security_def find_secured same_columns_def)
qed

lemma own_fields_cong:
  "dt_Name t = dt_Name u \<Longrightarrow> dt_Columns t = dt_Columns u \<Longrightarrow> own_fields n ns t = own_fields n ns u"
  by (simp add: own_fields_def definitionUsesImplicitSystemColumns_def definitionHasExplicitSystemColumns_def)

lemma collect_secured:
  "same_columns (owner, u) (owner, t) \<Longrightarrow>
     collectInheritedColumnNames app (Some (with_form_security s d)) deps owner u visited =
     collectInheritedColumnNames app (Some d) deps owner t visited"
proof (induction app "Some d" deps owner t visited arbitrary: u rule: collectInheritedColumnNames.induct)
  case (1 app deps owner t visited)
  from "1.prems" have p: "dt_Name u = dt_Name t" "dt_Extends u = dt_Extends t" "dt_Columns u = dt_Columns t"
    by (simp_all add: same_columns_def)
  have own: "own_fields n ns u = own_fields n ns t" for n ns by (rule own_fields_cong) (rule p)+
  note rel = resolve_secured[of app s d deps "dt_Extends t"]
  show ?case
  proof (cases "dt_Name t \<in> set visited \<or> dt_Extends t = []")
    case True
    then show ?thesis by (auto simp: collectInheritedColumnNames.simps[of app _ deps owner _ visited] p own Let_def)
  next
    case False
    show ?thesis
    proof (cases "resolveValidationTable app (Some d) deps (dt_Extends t)")
      case None
      with rel have "resolveValidationTable app (Some (with_form_security s d)) deps (dt_Extends t) = None" by simp
      with None False show ?thesis
        by (simp add: collectInheritedColumnNames.simps[of app _ deps owner _ visited] p own Let_def)
    next
      case (Some q)
      obtain a w where q: "q = (a, w)" by (cases q)
      from rel Some q obtain v where v:
        "resolveValidationTable app (Some (with_form_security s d)) deps (dt_Extends t) = Some (a, v)" "same_columns (a, v) (a, w)"
        by (cases "resolveValidationTable app (Some (with_form_security s d)) deps (dt_Extends t)")
          (auto simp: same_columns_def)
      have "collectInheritedColumnNames app (Some (with_form_security s d)) deps a v (dt_Name t # visited) =
          collectInheritedColumnNames app (Some d) deps a w (dt_Name t # visited)"
        using "1.hyps"[OF _ refl _ _ refl, of a w v] False Some q v(2) by simp
      with Some q v(1) False show ?thesis
        by (simp add: collectInheritedColumnNames.simps[of app _ deps owner _ visited] p own Let_def)
    qed
  qed
qed

lemma resolve_secured_None:
  "resolveValidationTable app (Some (with_form_security s d)) deps n = None \<longleftrightarrow> resolveValidationTable app (Some d) deps n = None"
  using resolve_secured[of app s d deps n]
  by (cases "resolveValidationTable app (Some d) deps n";
      cases "resolveValidationTable app (Some (with_form_security s d)) deps n") auto

lemma table_fields_secured:
  "table_fields app (with_form_security s d) deps (secured_table r t) = table_fields app d deps t"
proof -
  have own: "own_fields n ns (secured_table r t) = own_fields n ns t" for n ns by (rule own_fields_cong) simp_all
  have imp: "definitionUsesImplicitSystemColumns n ns (secured_table r t) = definitionUsesImplicitSystemColumns n ns t" for n ns
    by (simp add: definitionUsesImplicitSystemColumns_def definitionHasExplicitSystemColumns_def)
  note rel = resolve_secured[of app s d deps "dt_Extends t"]
  show ?thesis
  proof (cases "resolveValidationTable app (Some d) deps (dt_Extends t)")
    case None
    with rel have "resolveValidationTable app (Some (with_form_security s d)) deps (dt_Extends t) = None" by simp
    with None show ?thesis by (simp add: table_fields_def own Let_def)
  next
    case (Some q)
    obtain a w where q: "q = (a, w)" by (cases q)
    from rel Some q obtain v where v:
      "resolveValidationTable app (Some (with_form_security s d)) deps (dt_Extends t) = Some (a, v)" "same_columns (a, v) (a, w)"
      by (cases "resolveValidationTable app (Some (with_form_security s d)) deps (dt_Extends t)")
        (auto simp: same_columns_def)
    have x: "dt_Extensible v = dt_Extensible w" using v(2) by (simp add: same_columns_def)
    show ?thesis unfolding table_fields_def own imp secured_parts with_form_parts
      by (simp add: Let_def Some q v(1) x collect_secured[OF v(2)])
  qed
qed

lemma column_secured:
  "validateDefinitionColumn ck app (Some (with_form_security s d)) deps (secured_table r t) c =
   validateDefinitionColumn ck app (Some d) deps t c"
  unfolding validateDefinitionColumn_def column_issue_of_type_def resolve_secured_None secured_parts by (rule refl)

lemma layout_secured: "layout_issue (secured_table r t) fs = layout_issue t fs"
  by (simp add: layout_issue_def secured_table_def check_all_map o_def)

lemma related_secured:
  "related_issue (resolveValidationTable app (Some (with_form_security s d)) deps) ns = related_issue (resolveValidationTable app (Some d) deps) ns"
  by (rule ext) (unfold related_issue_def resolve_secured_None, rule refl)

lemma names_secured: "map dt_Name (ad_Tables (with_form_security s d)) = map dt_Name (ad_Tables d)"
  by (simp add: with_form_security_def)

lemma table_secured:
  "validate_table ck app (with_form_security s d) deps (secured_table r t) = validate_table ck app d deps t"
proof -
  have col: "validateDefinitionColumn ck app (Some (with_form_security s d)) deps (secured_table r t) =
      validateDefinitionColumn ck app (Some d) deps t" by (rule ext) (rule column_secured)
  show ?thesis
    unfolding validate_table_def table_fields_secured col layout_secured related_secured names_secured
      secured_parts with_form_parts by (rule refl)
qed

lemma table_by_name_secured:
  "table_by_name (with_form_security s d) n = map_option (\<lambda>t. secured_table (s (dt_Name t)) t) (table_by_name d n)"
  by (simp add: table_by_name_def with_form_security_def rev_map find_secured)

lemma own_fields_secured [simp]: "own_fields n ns (secured_table r t) = own_fields n ns t"
  by (rule own_fields_cong) simp_all

lemma service_index_secured: "service_index (with_form_security s d) = service_index d"
  by (rule ext) (simp add: service_index_def)

lemma entries_secured:
  "validate_asset_form (with_form_security s d) = validate_asset_form d"
  "validate_trigger (with_form_security s d) deps = validate_trigger d deps"
  "validate_schedule (with_form_security s d) deps = validate_schedule d deps"
  "validate_endpoint (with_form_security s d) deps = validate_endpoint d deps"
  "validate_client_script (with_form_security s d) = validate_client_script d"
  "validate_page (with_form_security s d) = validate_page d"
  "validateAppEntryPointRoleDeclarations (with_form_security s d) = validateAppEntryPointRoleDeclarations d"
  "validate_header (with_form_security s d) = validate_header d"
  by (rule ext, simp add: validate_asset_form_def validate_trigger_def validate_schedule_def validate_endpoint_def
      validate_client_script_def validate_page_def table_by_name_secured service_index_secured split: option.split)+
    (simp_all add: validateAppEntryPointRoleDeclarations_def validate_header_def)

text \<open>
  Validation never looks at the security section and the actions of a table form: exchanging them
  for any others changes neither the verdict nor the error. Normalisation has moved every form of the
  definition into its table by then, so the checks of the legacy forms have nothing left to check.
\<close>
theorem form_security_not_validated:
  "validateAppDefinitionForApp ck order listApps app (with_form_security s d) = validateAppDefinitionForApp ck order listApps app d \<and>
   (case prepareDefinitionForApp app d0 of Inl e \<Rightarrow> True | Inr d' \<Rightarrow> ad_Forms d' = [])"
proof (rule conjI)
  have "check_all (validate_table ck app (with_form_security s d) deps) (ad_Tables (with_form_security s d)) =
      check_all (validate_table ck app d deps) (ad_Tables d)" for deps
    by (simp add: with_form_security_def[of s d] check_all_map o_def)
      (simp add: with_form_security_def[of s d, symmetric] table_secured)
  moreover have "check_all (\<lambda>t. map_error (\<lambda>e. TableError (dt_Name t) (BadTableName e)) (validateAppDefinitionTableName n ns (dt_Name t)))
      (ad_Tables (with_form_security s d)) =
    check_all (\<lambda>t. map_error (\<lambda>e. TableError (dt_Name t) (BadTableName e)) (validateAppDefinitionTableName n ns (dt_Name t))) (ad_Tables d)"
    for n ns by (simp add: with_form_security_def check_all_map o_def)
  ultimately have "validate_parts ck app (with_form_security s d) deps = validate_parts ck app d deps" for deps
    unfolding validate_parts_def entries_secured with_form_parts by (simp only:)
  then show "validateAppDefinitionForApp ck order listApps app (with_form_security s d) = validateAppDefinitionForApp ck order listApps app d"
    unfolding validateAppDefinitionForApp_def entries_secured with_form_parts by (simp only:)
  show "case prepareDefinitionForApp app d0 of Inl e \<Rightarrow> True | Inr d' \<Rightarrow> ad_Forms d' = []"
    by (auto simp: prepareDefinitionForApp_def Let_def split: sum.split
        elim!: normalizeAppDefinition_InrE dest: normalize_behaviour_keeps)
qed

section \<open>Calls resolve at run time\<close>

text \<open>Names as the database holds them: trimmed and in lower case.\<close>

definition plain_app :: "RegisteredApp \<Rightarrow> bool" where
  "plain_app a \<longleftrightarrow> normalizeIdentifier (ra_Name a) = ra_Name a \<and> normalizeIdentifier (ra_Namespace a) = ra_Namespace a"

lemma plain_app_fold:
  assumes "plain_app a" "normalizeIdentifier n = n"
  shows "EqualFold (ra_Name a) n \<longleftrightarrow> ra_Name a = n" "EqualFold (ra_Namespace a) n \<longleftrightarrow> ra_Namespace a = n"
proof -
  have l: "ToLower x = x" if "normalizeIdentifier x = x" for x
  proof -
    have "ToLower (normalizeIdentifier x) = normalizeIdentifier x" by (simp add: normalizeIdentifier_def)
    with that show ?thesis by simp
  qed
  with assms show "EqualFold (ra_Name a) n \<longleftrightarrow> ra_Name a = n" "EqualFold (ra_Namespace a) n \<longleftrightarrow> ra_Namespace a = n"
    by (simp_all add: EqualFold_def plain_app_def)
qed

lemma find_congs: "(\<And>x. x \<in> set xs \<Longrightarrow> P x = Q x) \<Longrightarrow> find P xs = find Q xs"
  by (induction xs) auto

lemma registered_exact:
  assumes "list_all plain_app apps" "normalizeIdentifier n = n" "n \<noteq> []"
    and "find (\<lambda>a. ra_Name a = n \<or> ra_Namespace a = n) apps = Some a"
  shows "findRegisteredAppByNameOrNamespace apps n = Some a"
proof -
  have "find (\<lambda>a. EqualFold (ra_Name a) n \<or> EqualFold (ra_Namespace a) n) apps = Some a"
    unfolding assms(4)[symmetric] using assms(1,2)
    by (intro find_congs) (simp add: plain_app_fold list_all_iff)
  with assms(2,3) show ?thesis
    by (simp add: findRegisteredAppByNameOrNamespace_def findExactRegisteredAppByNameOrNamespace_def)
qed

definition represents :: "RegisteredApp list \<Rightarrow> (string \<rightharpoonup> RegisteredApp) \<Rightarrow> bool" where
  "represents acc m \<longleftrightarrow> distinct (map ra_Name acc) \<and> (\<forall>k. m k = find (\<lambda>a. ra_Name a = k) acc)"

lemma find_append: "find P (xs @ ys) = (case find P xs of None \<Rightarrow> find P ys | Some x \<Rightarrow> Some x)"
  by (induction xs) auto

lemma find_filter_other: "k \<noteq> n \<Longrightarrow> find (\<lambda>a. ra_Name a = k) (filter (\<lambda>b. ra_Name b \<noteq> n) as) = find (\<lambda>a. ra_Name a = k) as"
  by (induction as) auto

lemma find_filter_same: "find (\<lambda>a. ra_Name a = n) (filter (\<lambda>b. ra_Name b \<noteq> n) as) = None"
  by (induction as) auto

lemma represents_put: "represents acc m \<Longrightarrow> represents (put_app a acc) (m(ra_Name a \<mapsto> a))"
  by (auto simp: represents_def put_app_def find_append find_filter_other find_filter_same distinct_map
      inj_on_def split: option.split)

lemma find_distinct: "distinct (map f xs) \<Longrightarrow> a \<in> set xs \<Longrightarrow> find (\<lambda>b. f b = f a) xs = Some a"
  by (induction xs) (auto simp: rev_image_eqI)

lemma represents_ran: "represents acc m \<Longrightarrow> ran m = set acc"
  by (auto simp: represents_def ran_def dest: find_Some_mem intro: find_distinct)

definition dependency_step :: "RegisteredApp list \<Rightarrow> (string \<rightharpoonup> RegisteredApp) \<Rightarrow> string \<Rightarrow> (string \<rightharpoonup> RegisteredApp)" where
  "dependency_step apps m dep = (case findRegisteredAppByNameOrNamespace apps dep of
     Some app \<Rightarrow> m(ra_Name app \<mapsto> app) | None \<Rightarrow> m)"

lemma validation_dependencies_represents:
  assumes "list_all plain_app apps"
  shows "\<forall>n \<in> set ns. normalizeIdentifier n = n \<and> n \<noteq> [] \<Longrightarrow> validation_dependencies apps ns acc = Inr deps \<Longrightarrow>
    represents acc m \<Longrightarrow> represents deps (foldl (dependency_step apps) m ns)"
proof (induction ns arbitrary: acc m)
  case (Cons n ns)
  then obtain a where a: "find (\<lambda>a. ra_Name a = n \<or> ra_Namespace a = n) apps = Some a"
    "validation_dependencies apps ns (put_app a acc) = Inr deps" by (auto split: option.splits)
  have "findRegisteredAppByNameOrNamespace apps n = Some a"
    using Cons.prems(1) by (intro registered_exact[OF assms _ _ a(1)]) auto
  then have "dependency_step apps m n = m(ra_Name a \<mapsto> a)" by (simp add: dependency_step_def)
  moreover have "represents deps (foldl (dependency_step apps) (m(ra_Name a \<mapsto> a)) ns)"
    using Cons.prems by (intro Cons.IH[OF _ a(2)] represents_put) auto
  ultimately show ?case by simp
qed simp

text \<open>The services of a normalised definition.\<close>

definition services_ok :: "AppDefinition \<Rightarrow> bool" where
  "services_ok d \<longleftrightarrow> distinct (map sv_Name (ad_Services d)) \<and>
     list_all (\<lambda>s. trim_lower (sv_Name s) = sv_Name s \<and> distinct (map me_Name (sv_Methods s)) \<and>
       list_all (\<lambda>m. trim_lower (me_Name m) = me_Name m) (sv_Methods s)) (ad_Services d)"

lemma trim_lower_loose: "IsSafeIdentifier (normalizeLooseIdentifier v) \<Longrightarrow> trim_lower (normalizeLooseIdentifier v) = normalizeLooseIdentifier v"
  using loose_facts(1)[of v] by (simp add: lower_string_def)

lemma normalized_services:
  assumes "normalizeAppDefinition d0 = Inr d"
  shows "services_ok d"
proof -
  from assms obtain d1 where "normalize_behaviour d1 = Inr d" by (rule normalizeAppDefinition_InrE)
  then obtain ss where ss:
    "normalize_entries KService sv_Name no_extra finish_service [] (map prepare_service ss) = Inr (ad_Services d)"
    by (auto simp: normalize_behaviour_def and_then_Inr)
  have "trim_lower (sv_Name s) = sv_Name s \<and> distinct (map me_Name (sv_Methods s)) \<and>
      list_all (\<lambda>m. trim_lower (me_Name m) = me_Name m) (sv_Methods s)" if s: "s \<in> set (ad_Services d)" for s
  proof -
    from service_section.entries_each[OF ss s] obtain x where x: "finish_service (prepare_service x) = Inr s" "IsSafeIdentifier (sv_Name s)"
      by blast
    then have n: "sv_Name s = normalizeLooseIdentifier (sv_Name x)" by (auto simp: finish_service_def prepare_service_def and_then_Inr)
    from x(1) have ms: "normalize_entries (KMethod (sv_Name (prepare_service x))) me_Name no_extra finish_method []
       (map prepare_method (sv_Methods (prepare_service x))) = Inr (sv_Methods s)"
      by (auto simp: finish_service_def and_then_Inr)
    have "trim_lower (me_Name m) = me_Name m" if m: "m \<in> set (sv_Methods s)" for m
    proof -
      from method_section.entries_each[OF ms m] obtain y where y: "finish_method (prepare_method y) = Inr m" "IsSafeIdentifier (me_Name m)"
        by blast
      then have "me_Name m = normalizeLooseIdentifier (me_Name y)" by (auto simp: finish_method_def prepare_method_def)
      with y(2) show ?thesis by (simp add: trim_lower_loose)
    qed
    moreover have "distinct (map me_Name (sv_Methods s))" using method_section.entries_names[OF ms] by blast
    ultimately show ?thesis using x(2) n by (simp add: trim_lower_loose list_all_iff)
  qed
  moreover have "distinct (map sv_Name (ad_Services d))" using service_section.entries_names[OF ss] by blast
  ultimately show ?thesis by (simp add: services_ok_def list_all_iff)
qed

lemma local_method_found:
  assumes "services_ok d" "runtimeDefinitionForApp cur = Some d" "service_index d sn = Some ms" "mn \<in> set ms"
  shows "findRuntimeServiceMethod cur sn mn \<noteq> None"
proof -
  from assms(3,4) obtain s m where s: "s \<in> set (ad_Services d)" "sv_Name s = sn" "m \<in> set (sv_Methods s)" "me_Name m = mn"
    unfolding service_index_def by (auto dest!: find_Some_mem)
  then have "trim_lower (sv_Name s) = sn" "trim_lower (me_Name m) = mn"
    using assms(1) by (auto simp: services_ok_def list_all_iff)
  with s assms(2) show ?thesis by (auto simp: findRuntimeServiceMethod_def find_None_iff)
qed

lemma filter_name: "distinct (map f xs) \<Longrightarrow> x \<in> set xs \<Longrightarrow> filter (\<lambda>y. f y = f x) xs = [x]"
proof (induction xs)
  case (Cons y ys)
  show ?case
  proof (cases "f y = f x")
    case True
    have "f z \<noteq> f y" if "z \<in> set ys" for z using Cons.prems(1) that by (auto simp: rev_image_eqI)
    moreover from this have "x = y" using Cons.prems(2) True by auto
    ultimately show ?thesis by (simp add: filter_empty_conv)
  qed (use Cons in auto)
qed simp

lemma filter_normal_name:
  assumes "distinct (map f xs)" "\<forall>y \<in> set xs. g (f y) = f y" "x \<in> set xs"
  shows "filter (\<lambda>y. g (f y) = f x) xs = [x]" "find (\<lambda>y. g (f y) = f x) xs = Some x"
proof -
  have "filter (\<lambda>y. g (f y) = f x) xs = filter (\<lambda>y. f y = f x) xs" using assms(2) by (intro filter_cong) auto
  then show "filter (\<lambda>y. g (f y) = f x) xs = [x]" using filter_name[OF assms(1,3)] by simp
  have "find (\<lambda>y. g (f y) = f x) xs = find (\<lambda>y. f y = f x) xs" using assms(2) by (intro find_congs) auto
  then show "find (\<lambda>y. g (f y) = f x) xs = Some x" using find_distinct[OF assms(1,3)] by simp
qed

lemma offered_method_found:
  assumes "offers_public sn mn dep" "ra_Definition dep = Some e" "services_ok e"
  shows "\<exists>m. findRuntimeServiceMethod dep sn mn = Some m \<and> is_public m"
proof -
  from assms(1,2) obtain s m where s: "s \<in> set (ad_Services e)" "sv_Name s = sn" "m \<in> set (sv_Methods s)" "me_Name m = mn"
    "me_Visibility m = ''public''" by (auto simp: offers_public_def list_ex_iff)
  note ok = assms(3)[unfolded services_ok_def list_all_iff]
  have "filter (\<lambda>s'. trim_lower (sv_Name s') = sn) (ad_Services e) = [s]"
    using filter_normal_name(1)[of sv_Name "ad_Services e" trim_lower s] ok s(1,2) by blast
  moreover have "find (\<lambda>m'. trim_lower (me_Name m') = mn) (sv_Methods s) = Some m"
    using filter_normal_name(2)[of me_Name "sv_Methods s" trim_lower m] ok s(1,3,4) by blast
  moreover have "trim_lower ''public'' = ''public''" by code_simp
  then have "is_public m" by (simp add: is_public_def s(5))
  ultimately show ?thesis using assms(2) by (simp add: findRuntimeServiceMethod_def runtimeDefinitionForApp_def)
qed

lemma method_call_resolves:
  assumes "validateMethodCall (service_index d) deps call = None" "services_ok d" "runtimeDefinitionForApp cur = Some d"
    and "\<forall>a \<in> set deps. \<forall>e. ra_Definition a = Some e \<longrightarrow> services_ok e"
    and "set (order (runtimeDependencyApps apps cur)) = set deps"
  shows "resolveRuntimeServiceMethodWithApps order apps cur call False \<noteq> None"
proof -
  from assms(1) obtain sn mn where c: "cut1 (CHR ''.'') (trim_lower call) = Some (sn, mn)" "sn \<noteq> []" "mn \<noteq> []"
    and found: "(case service_index d sn of None \<Rightarrow> False | Some ms \<Rightarrow> mn \<in> set ms) \<or> list_ex (offers_public sn mn) deps"
    by (auto simp: validateMethodCall_def Let_def split: option.splits if_splits prod.splits)
  show ?thesis
  proof (cases "findRuntimeServiceMethod cur sn mn")
    case (Some m)
    with c show ?thesis by (simp add: resolveRuntimeServiceMethodWithApps_def)
  next
    case None
    then have "\<not> (case service_index d sn of None \<Rightarrow> False | Some ms \<Rightarrow> mn \<in> set ms)"
      using local_method_found[OF assms(2,3), of sn _ mn] by (cases "service_index d sn") auto
    with found obtain dep where dep: "dep \<in> set deps" "offers_public sn mn dep" by (auto simp: list_ex_iff)
    then obtain e where "ra_Definition dep = Some e" by (auto simp: offers_public_def split: option.splits)
    with dep assms(4) obtain m where "findRuntimeServiceMethod dep sn mn = Some m" "is_public m"
      using offered_method_found by blast
    then have "first_public (order (runtimeDependencyApps apps cur)) sn mn \<noteq> None"
      using first_public_None dep(1) assms(5) by metis
    with None c show ?thesis by (simp add: resolveRuntimeServiceMethodWithApps_def)
  qed
qed

text \<open>The calls of a definition that the runtime makes.\<close>

definition definition_calls :: "AppDefinition \<Rightarrow> string list" where
  "definition_calls d = map tr_Call (ad_Triggers d) @ map sh_Call (ad_Schedules d) @
     map en_Call (filter en_Enabled (ad_Endpoints d))"

lemma check_all_mem: "check_all f xs = None \<Longrightarrow> x \<in> set xs \<Longrightarrow> f x = None"
  by (simp add: check_all_None)

lemma validate_partsD:
  assumes "validate_parts ck app d deps = None"
  shows "t \<in> set (ad_Tables d) \<Longrightarrow> validate_table ck app d deps t = None"
    "t \<in> set (ad_Tables d) \<Longrightarrow> validateAppDefinitionTableName (ad_Name d) (ad_Namespace d) (dt_Name t) = None"
    "s \<in> set (ad_Services d) \<Longrightarrow> m \<in> set (sv_Methods s) \<Longrightarrow> validate_method (map ro_Name (ad_Roles d)) (sv_Name s) m = None"
    "validateAppEntryPointRoleDeclarations d = None"
    "tr \<in> set (ad_Triggers d) \<Longrightarrow> validate_trigger d deps tr = None"
    "sh \<in> set (ad_Schedules d) \<Longrightarrow> validate_schedule d deps sh = None"
    "en \<in> set (ad_Endpoints d) \<Longrightarrow> validate_endpoint d deps en = None"
  using assms unfolding validate_parts_def or_else_None check_all_None list_all_iff check_None by simp_all

lemma validated_calls:
  assumes "validate_parts ck app d deps = None" "call \<in> set (definition_calls d)"
  shows "validateMethodCall (service_index d) deps call = None"
proof -
  have "validateMethodCall (service_index d) deps (en_Call en) = None"
    if "en \<in> set (ad_Endpoints d)" "en_Enabled en" for en
    using validate_partsD(7)[OF assms(1) that(1)] that(2) by (simp add: validate_endpoint_def)
  then show ?thesis using assms(2) validate_partsD(5,6)[OF assms(1)]
    by (auto simp: definition_calls_def validate_trigger_def validate_schedule_def)
qed

lemma validated_dependencies:
  assumes "normalizeAppDefinition d0 = Inr d" "list_all plain_app apps"
    and "validation_dependencies apps (ad_Dependencies d) [] = Inr deps" "runtimeDefinitionForApp cur = Some d"
  shows "ran (runtimeDependencyApps apps cur) = set deps"
proof -
  from assms(1) obtain d1 deps' where n: "normalize_dependencies (ad_Name (normalize_header d0)) (ad_Namespace (normalize_header d0)) [] (ad_Dependencies d0) = Inr deps'"
    and d: "normalize_behaviour d1 = Inr d" "ad_Dependencies d1 = deps'"
    by (rule normalizeAppDefinition_InrE) auto
  have "ad_Dependencies d = deps'" using normalize_behaviour_keeps(5)[OF d(1)] d(2) by simp
  then have "\<forall>n \<in> set (ad_Dependencies d). normalizeIdentifier n = n \<and> n \<noteq> []"
    using normalize_dependencies_Inr[OF n]
    unfolding list_all_iff dependency_ok_def normalizeIdentifier_def TrimSpace_ToLower
    by (metis IsSafeIdentifier_def list.simps(4))
  from validation_dependencies_represents[OF assms(2) this assms(3), of Map.empty]
  have "represents deps (foldl (dependency_step apps) Map.empty (ad_Dependencies d))"
    by (simp add: represents_def)
  moreover have "runtimeDependencyApps apps cur = foldl (dependency_step apps) Map.empty (ad_Dependencies d)"
    by (simp add: runtimeDependencyApps_def dependency_map_def assms(4) dependency_step_def[abs_def])
  ultimately show ?thesis by (simp add: represents_ran)
qed


section \<open>Entry points\<close>

text \<open>The role lists that gate the entry points of a definition.\<close>

definition entry_point_roles :: "AppDefinition \<Rightarrow> string list list" where
  "entry_point_roles d =
     concat (map (\<lambda>s. map me_Roles (filter (\<lambda>m. me_Visibility m = ''public'') (sv_Methods s))) (ad_Services d))
     @ map en_Roles (filter en_Enabled (ad_Endpoints d))"

lemma validateIdentifierRoles_None:
  "validateIdentifierRoles roleSet roles ctx = None \<longleftrightarrow> list_all (\<lambda>r. isReservedRoleName r \<or> r \<in> set roleSet) roles"
  by (auto simp: validateIdentifierRoles_def check_all_None list_all_iff)

lemma validated_roles:
  "validate_method roleSet service m = None \<Longrightarrow> list_all (\<lambda>r. isReservedRoleName r \<or> r \<in> set roleSet) (me_Roles m)"
  "validate_endpoint d deps e = None \<Longrightarrow> en_Enabled e \<Longrightarrow>
     list_all (\<lambda>r. isReservedRoleName r \<or> r \<in> set (map ro_Name (ad_Roles d))) (en_Roles e)"
  unfolding validate_method_def validate_endpoint_def
  by (simp_all only: not_not if_False if_True simp_thms or_else_None check_None validateIdentifierRoles_None
      option.distinct split: if_splits)

lemma trim_lower_Nil: "trim_lower r = [] \<longleftrightarrow> TrimSpace r = []"
  unfolding TrimSpace_ToLower by (simp add: ToLower_def)

lemma declaredRoles_Nil: "declaredRoles roles = [] \<longleftrightarrow> list_all (\<lambda>r. trim_lower r = []) roles"
  by (auto simp: declaredRoles_def filter_empty_conv list_all_iff trim_lower_Nil simp del: TrimSpace_ToLower)

text \<open>
  The entry points of an accepted definition, its public methods and enabled endpoints, name only
  roles the definition declares, or the reserved one, and none is closed to everybody: a caller who
  holds the roles gets in exactly when signed in.
\<close>
theorem accepted_entry_points:
  assumes "validateAppDefinitionForApp ck order listApps app d = None" "roles \<in> set (entry_point_roles d)"
  shows "list_all (\<lambda>r. isReservedRoleName r \<or> r \<in> set (map ro_Name (ad_Roles d))) roles \<and>
    appEntryPointAccessAllowed (\<lambda>u a rs. Inr True) app' roles userID = Inr (TrimSpace userID \<noteq> [])"
proof -
  from assms(1) obtain deps where v: "validate_parts ck app d deps = None"
    by (auto simp: validateAppDefinitionForApp_def split: sum.splits)
  have "list_all (\<lambda>r. isReservedRoleName r \<or> r \<in> set (map ro_Name (ad_Roles d))) roles"
    using assms(2) validated_roles(1)[OF validate_partsD(3)[OF v]] validated_roles(2)[OF validate_partsD(7)[OF v]]
    by (auto simp: entry_point_roles_def)
  moreover have "declaredRoles roles \<noteq> []"
    using assms(2) validate_partsD(4)[OF v]
    by (auto simp: entry_point_roles_def validateAppEntryPointRoleDeclarations_def check_all_None list_all_iff)
  then have "appRoleCandidates app' roles \<noteq> []"
    by (simp add: appRoleCandidates_Nil_iff declaredRoles_Nil list_all_iff)
  then have "appEntryPointAccessAllowed (\<lambda>u a rs. Inr True) app' roles userID = Inr (TrimSpace userID \<noteq> [])"
    by (auto simp: appEntryPointAccessAllowed_def UserHasAnyRole_def Let_def nonblank_uniq_candidates)
  ultimately show ?thesis by blast
qed

section \<open>Omitted namespaces\<close>

lemma prefixes_of_table:
  assumes "HasPrefix t ''_''" "HasPrefix t (ns @ ''_'')" "ns \<noteq> []"
  shows "HasPrefix ns ''_''"
  using assms by (cases ns; cases t) (auto simp: HasPrefix_def)

text \<open>
  A definition that omits its namespace cannot have tables in an app that has one: its table names
  are checked before the namespace of the app is filled in, so they must begin with an underscore
  then, and with the namespace afterwards.
\<close>
theorem omitted_namespace_refuses_tables:
  assumes "trim_lower (ad_Namespace d0) = []" "prepareDefinitionForApp app d0 = Inr d"
    and "validateAppDefinitionForApp ck order listApps app d = None"
    and "plain_app app" "ra_Namespace app \<noteq> []" "\<not> HasPrefix (ra_Namespace app) ''_''" "ra_Name app \<noteq> ''base''"
  shows "ad_Tables d = []"
proof (rule ccontr)
  assume "ad_Tables d \<noteq> []"
  then obtain t where t: "t \<in> set (ad_Tables d)" by (cases "ad_Tables d") auto
  from assms(2) obtain d1 where d1: "normalizeAppDefinition d0 = Inr d1" "ad_Tables d = ad_Tables d1"
    "ad_Name d = ra_Name app" "ad_Namespace d = ra_Namespace app" "ad_Name d1 = [] \<or> ad_Name d1 = ra_Name app"
    by (auto simp: prepareDefinitionForApp_def Let_def or_default_def split: sum.splits if_splits)
  from d1(1) have ns: "ad_Namespace d1 = []"
    by (elim normalizeAppDefinition_InrE) (use assms(1) in \<open>auto simp: normalize_header_def dest: normalize_behaviour_keeps\<close>)
  have "validateAppDefinitionTableName (ad_Name d1) [] (dt_Name t) = None"
    using normal_form_ok[OF d1(1)] t d1(2) ns by (simp add: definition_ok_def list_all_iff)
  moreover have "\<not> isOOTBBaseAppName (trim_lower (ad_Name d1)) (trim_lower [])"
  proof -
    have "normalizeIdentifier (trim_lower (ad_Name d1)) \<noteq> ''base''"
      using d1(5) assms(4,7) by (auto simp: plain_app_def normalizeIdentifier_def TrimSpace_ToLower)
    then show ?thesis by (simp add: isOOTBBaseAppName_def)
  qed
  ultimately have u: "trim_lower (dt_Name t) = [] \<or> HasPrefix (trim_lower (dt_Name t)) ''_''"
    by (auto simp: validateAppDefinitionTableName_def Let_def split: if_splits)
  from assms(3) obtain deps where v: "validate_parts ck app d deps = None"
    by (auto simp: validateAppDefinitionForApp_def split: sum.splits)
  have "validateAppDefinitionTableName (ra_Name app) (ra_Namespace app) (dt_Name t) = None"
    using validate_partsD(2)[OF v t] d1(3,4) by simp
  moreover have "trim_lower (ra_Namespace app) = ra_Namespace app"
    using assms(4) by (simp add: plain_app_def normalizeIdentifier_def TrimSpace_ToLower)
  moreover have "IsSafeIdentifier (dt_Name t)"
    using normal_form_ok[OF d1(1)] t d1(2) by (auto simp: definition_ok_def names_ok_def list_all_iff)
  then have "trim_lower (dt_Name t) \<noteq> []"
    unfolding trim_lower_Nil by (simp add: IsSafeIdentifier_def split: list.splits)
  ultimately have "HasPrefix (trim_lower (dt_Name t)) (ra_Namespace app @ ''_'')"
    using assms(5) by (auto simp: validateAppDefinitionTableName_def Let_def split: if_splits)
  with u \<open>trim_lower (dt_Name t) \<noteq> []\<close> assms(5,6) prefixes_of_table show False by blast
qed

end
