(* ===== verification/ValidateSamples.thy ===== *)
theory ValidateSamples
  imports AppSamples AppValidateLaws
begin

text \<open>Concrete apps, and the properties of the acceptance of their definitions applied to them.\<close>

definition no_checkers :: checkers where
  "no_checkers = \<lparr>ck_regex = \<lambda>p v. None, ck_mail = \<lambda>v. False, ck_uri = \<lambda>v. False\<rparr>"

definition registered :: "string \<Rightarrow> string \<Rightarrow> AppDefinition option \<Rightarrow> RegisteredApp" where
  "registered name namespace d = \<lparr>ra_ID = name, ra_Name = name, ra_Namespace = namespace, ra_Label = [], ra_Description = [],
     ra_Status = ''active'', ra_DefinitionYAML = [], ra_PublishedDefinitionYAML = [], ra_DefinitionVersion = 1,
     ra_PublishedVersion = 1, ra_Definition = d, ra_DraftDefinition = None\<rparr>"

definition mail_send :: AppDefinitionMethod where
  "mail_send = \<lparr>me_Name = ''send'', me_Label = ''Send'', me_Description = [], me_Visibility = ''public'',
     me_Language = ''javascript'', me_Roles = [''authenticated''], me_Script = ''1''\<rparr>"

definition mail_definition :: AppDefinition where
  "mail_definition = zero_definition\<lparr>ad_Name := ''mail'', ad_Namespace := ''mail'',
     ad_Services := [\<lparr>sv_Name = ''post'', sv_Label = ''Post'', sv_Description = [], sv_Methods = [mail_send]\<rparr>]\<rparr>"

definition mail_app :: RegisteredApp where
  "mail_app = registered ''mail'' ''mail'' (Some mail_definition)"

definition order_endpoint :: AppDefinitionEndpoint where
  "order_endpoint = \<lparr>en_Name = ''order'', en_Label = [], en_Description = [], en_Method = ''post'', en_Path = ''order'',
     en_Call = ''Post.Send'', en_Roles = [''authenticated''], en_Enabled = True\<rparr>"

definition shop_draft :: AppDefinition where
  "shop_draft = zero_definition\<lparr>ad_Name := ''shop'', ad_Namespace := ''shop'', ad_Dependencies := [''Mail''],
     ad_Endpoints := [order_endpoint]\<rparr>"

definition shop_app :: RegisteredApp where
  "shop_app = registered ''shop'' ''shop'' None"

lemma shop_parts:
  "case normalizeAppDefinition shop_draft of Inl e \<Rightarrow> False
   | Inr d \<Rightarrow> Option.is_none (validate_header d) \<and> Option.is_none (validate_parts no_checkers shop_app d [mail_app])"
  by code_simp

lemma shop_names:
  "case normalizeAppDefinition shop_draft of Inl e \<Rightarrow> False
   | Inr d \<Rightarrow> definition_calls d = [''post.send''] \<and> entry_point_roles d = [[''authenticated'']] \<and> ad_Dependencies d = [''mail'']"
  by code_simp

lemma mail_plain: "list_all plain_app [mail_app, shop_app]"
  by code_simp

lemma mail_services: "services_ok mail_definition"
  by code_simp

lemma mail_names: "ra_Name mail_app = ''mail''" "ra_Definition mail_app = Some mail_definition" "ra_Definition shop_app = None"
  by (simp_all add: mail_app_def shop_app_def registered_def)

lemma mail_found: "Option.is_none (findRegisteredAppByNameOrNamespace [mail_app, shop_app] ''mail'') = False \<and>
    (case findRegisteredAppByNameOrNamespace [mail_app, shop_app] ''mail'' of None \<Rightarrow> False | Some a \<Rightarrow> ra_Name a = ''mail'')"
  by code_simp

lemma shop_accepted:
  assumes "normalizeAppDefinition shop_draft = Inr d"
  shows "validateAppDefinitionForApp no_checkers rev (Inr [mail_app, shop_app]) shop_app d = None"
    "definition_calls d = [''post.send'']" "entry_point_roles d = [[''authenticated'']]" "ad_Dependencies d = [''mail'']"
proof -
  show names: "definition_calls d = [''post.send'']" "entry_point_roles d = [[''authenticated'']]" "ad_Dependencies d = [''mail'']"
    using shop_names by (simp_all add: assms)
  have "validation_dependencies [mail_app, shop_app] (ad_Dependencies d) [] = Inr [mail_app]"
    unfolding names by (simp add: mail_names put_app_def)
  moreover have "validate_header d = None" "validate_parts no_checkers shop_app d [mail_app] = None"
    using shop_parts by (simp_all add: assms Option.is_none_def)
  ultimately show "validateAppDefinitionForApp no_checkers rev (Inr [mail_app, shop_app]) shop_app d = None"
    by (simp add: validateAppDefinitionForApp_def)
qed


lemma accepted_entry_points_witness:
  "case normalizeAppDefinition shop_draft of Inl e \<Rightarrow> False
   | Inr d \<Rightarrow> appEntryPointAccessAllowed (\<lambda>u a rs. Inr True) shop_app [''authenticated''] ''u1'' = Inr (TrimSpace ''u1'' \<noteq> [])"
proof (cases "normalizeAppDefinition shop_draft")
  case (Inr d)
  then show ?thesis
    using shop_accepted[OF Inr] accepted_entry_points[of no_checkers rev "Inr [mail_app, shop_app]" shop_app d "[''authenticated'']"]
    by auto
qed (use shop_names in simp)

lemma validation_order_witness:
  "validateAppDefinitionForApp no_checkers rev (Inr [mail_app]) shop_app shop_draft =
   validateAppDefinitionForApp no_checkers (\<lambda>xs. xs) (Inr [mail_app]) shop_app shop_draft"
proof (rule validation_order)
  fix apps deps
  assume "(Inr [mail_app] :: (string, RegisteredApp list) result) = Inr apps"
    "validation_dependencies apps (ad_Dependencies shop_draft) [] = Inr deps"
  then have "set deps \<subseteq> {mail_app}"
    by (auto simp: shop_draft_def put_app_def split: if_splits)
  then show "distinct_tables deps" by (auto simp: distinct_tables_def)
qed simp_all

definition nameless_draft :: AppDefinition where
  "nameless_draft = zero_definition\<lparr>ad_Name := ''shop''\<rparr>"

lemma nameless_accepted:
  "case prepareDefinitionForApp shop_app nameless_draft of Inl e \<Rightarrow> False
   | Inr d \<Rightarrow> Option.is_none (validateAppDefinitionForApp no_checkers rev (Inr []) shop_app d)"
  by code_simp

lemma omitted_namespace_refuses_tables_witness:
  "case prepareDefinitionForApp shop_app nameless_draft of Inl e \<Rightarrow> False | Inr d \<Rightarrow> ad_Tables d = []"
proof (cases "prepareDefinitionForApp shop_app nameless_draft")
  case (Inr d)
  have "ad_Tables d = []"
  proof (rule omitted_namespace_refuses_tables)
    show "trim_lower (ad_Namespace nameless_draft) = []" "plain_app shop_app" "\<not> HasPrefix (ra_Namespace shop_app) ''_''"
      "ra_Namespace shop_app \<noteq> []" "ra_Name shop_app \<noteq> ''base''" by code_simp+
    show "prepareDefinitionForApp shop_app nameless_draft = Inr d" by fact
    show "validateAppDefinitionForApp no_checkers rev (Inr []) shop_app d = None"
      using nameless_accepted Inr by (simp add: Option.is_none_def)
  qed
  with Inr show ?thesis by simp
qed (use nameless_accepted in simp)

end
