(* ===== verification/AppTables.thy ===== *)
theory AppTables
  imports AppValidate AppDispatch SaveValues "HOL-Library.Word"
begin

text \<open>
  The tables of the registered apps as the runtime sees them (\<open>internal/db/AppDefinition.go\<close>,
  \<open>AutoNumber.go\<close>, \<open>TaskType.go\<close>, \<open>TableInheritance.go\<close>, \<open>AppPublish.go\<close>, \<open>ScriptScope.go\<close>):
  identifiers, forms and lists, inherited columns, and the prefixes of the numbers of task tables.

  A loop over a map of dependencies visits its entries in the order of the arbitrary priority
  \<open>prio\<close> of their names.
\<close>

section \<open>Identifiers\<close>

definition yamlTableIDPrefix :: string where "yamlTableIDPrefix = ''yaml:table:''"

definition yamlTableID :: "string \<Rightarrow> string \<Rightarrow> string" where
  "yamlTableID appName tableName = yamlTableIDPrefix @ appName @ '':'' @ tableName"

definition yamlColumnID :: "string \<Rightarrow> string \<Rightarrow> string \<Rightarrow> string" where
  "yamlColumnID appName tableName columnName = ''yaml:column:'' @ appName @ '':'' @ tableName @ '':'' @ columnName"

definition parseYAMLTableID :: "string \<Rightarrow> (string \<times> string) option" where
  "parseYAMLTableID input =
     (if \<not> HasPrefix input yamlTableIDPrefix then None
      else (case cut1 (CHR '':'') (TrimPrefix input yamlTableIDPrefix) of None \<Rightarrow> None
        | Some (app, table) \<Rightarrow> if app = [] \<or> table = [] then None else Some (app, table)))"

text \<open>\<open>hash/fnv\<close>: the 32-bit FNV-1a hash.\<close>

definition fnv32a :: "string \<Rightarrow> 32 word" where
  "fnv32a s = foldl (\<lambda>h c. (xor h (word_of_nat (byte c))) * 0x01000193) 0x811c9dc5 s"

definition yamlScriptSyntheticID :: "string \<Rightarrow> string \<Rightarrow> 64 word" where
  "yamlScriptSyntheticID appName scriptName = - 1 * ucast (fnv32a (appName @ '':'' @ scriptName) + 1)"

definition SyntheticYAMLMethodID :: "string \<Rightarrow> string \<Rightarrow> string \<Rightarrow> 64 word" where
  "SyntheticYAMLMethodID appName serviceName methodName =
     yamlScriptSyntheticID appName (trim_lower (serviceName @ ''.'' @ methodName))"

definition nullableString :: "string \<Rightarrow> string option" where
  "nullableString v = (if TrimSpace v = [] then None else Some (TrimSpace v))"

section \<open>Forms and lists\<close>

definition visible_columns :: "AppDefinitionTable \<Rightarrow> string list" where
  "visible_columns t = filter (\<lambda>n. \<not> HasPrefix n ''_'') (map dc_Name (dt_Columns t))"

definition ResolveTableForms :: "AppDefinitionTable \<Rightarrow> AppDefinitionForm list" where
  "ResolveTableForms t = (if dt_Forms t \<noteq> [] then dt_Forms t
     else [\<lparr>fo_Name = ''default'', fo_Label = ''Default Form'', fo_Description = [], fo_Fields = visible_columns t,
       fo_Actions = [], fo_Security = \<lparr>se_Roles = [], se_Notes = [], se_Rules = []\<rparr>\<rparr>])"

definition ResolveTableLists :: "AppDefinitionTable \<Rightarrow> AppDefinitionList list" where
  "ResolveTableLists t = (if dt_Lists t \<noteq> [] then dt_Lists t
     else [\<lparr>li_Name = ''default'', li_Label = ''Default List'', li_Columns = visible_columns t\<rparr>])"

definition ResolveDefaultTableForm :: "AppDefinitionTable \<Rightarrow> AppDefinitionForm" where
  "ResolveDefaultTableForm t = (case find (\<lambda>f. fo_Name f = ''default'') (ResolveTableForms t) of
     Some f \<Rightarrow> f | None \<Rightarrow> hd (ResolveTableForms t))"

definition ResolveDefaultTableList :: "AppDefinitionTable \<Rightarrow> AppDefinitionList" where
  "ResolveDefaultTableList t = (case find (\<lambda>l. li_Name l = ''default'') (ResolveTableLists t) of
     Some l \<Rightarrow> l | None \<Rightarrow> hd (ResolveTableLists t))"

definition ResolveTableForm :: "AppDefinitionTable \<Rightarrow> string \<Rightarrow> AppDefinitionForm option" where
  "ResolveTableForm t formName =
     (let n = trim_lower formName in
      if n = [] then Some (ResolveDefaultTableForm t)
      else find (\<lambda>f. trim_lower (fo_Name f) = n) (ResolveTableForms t))"

section \<open>Chains of tables\<close>

definition dependency_entries :: "RegisteredApp list \<Rightarrow> AppDefinition option \<Rightarrow> RegisteredApp list" where
  "dependency_entries apps d = (case d of None \<Rightarrow> []
     | Some d \<Rightarrow> foldl (\<lambda>acc dep. case findRegisteredAppByNameOrNamespace apps dep of
          Some a \<Rightarrow> put_app a acc | None \<Rightarrow> acc) [] (ad_Dependencies d))"

definition dependencies_in_order ::
  "(string \<Rightarrow> nat) \<Rightarrow> RegisteredApp list \<Rightarrow> AppDefinition option \<Rightarrow> RegisteredApp list" where
  "dependencies_in_order prio apps d = sort_key (\<lambda>a. prio (ra_Name a)) (dependency_entries apps d)"

definition table_key :: "RegisteredApp \<Rightarrow> AppDefinitionTable \<Rightarrow> string" where
  "table_key owner t = trim_lower (ra_Name owner) @ '':'' @ trim_lower (dt_Name t)"

text \<open>The keys a walk from an app can visit, for a key of a table of an app.\<close>

type_synonym table_id = "RegisteredApp \<Rightarrow> AppDefinitionTable \<Rightarrow> string"

definition app_keys :: "table_id \<Rightarrow> RegisteredApp \<Rightarrow> string set" where
  "app_keys k a = k a ` (\<Union>d \<in> {d. ra_Definition a = Some d \<or> ra_DraftDefinition a = Some d}. set (ad_Tables d))"

definition walk_keys :: "table_id \<Rightarrow> RegisteredApp list \<Rightarrow> RegisteredApp \<Rightarrow> string set" where
  "walk_keys k apps owner = app_keys k owner \<union> \<Union> (app_keys k ` set apps)"

lemma finite_walk_keys [simp]: "finite (walk_keys k apps owner)"
proof -
  have "finite (app_keys k a)" for a
  proof -
    have "{d. ra_Definition a = Some d \<or> ra_DraftDefinition a = Some d} \<subseteq>
        set_option (ra_Definition a) \<union> set_option (ra_DraftDefinition a)" by auto
    then have "finite {d. ra_Definition a = Some d \<or> ra_DraftDefinition a = Some d}"
      by (rule finite_subset) simp
    then show ?thesis by (simp add: app_keys_def)
  qed
  then show ?thesis by (simp add: walk_keys_def)
qed

lemma dependencies_registered: "a \<in> set (dependencies_in_order prio apps d) \<Longrightarrow> a \<in> set apps"
proof -
  have "set (foldl (\<lambda>acc dep. case findRegisteredAppByNameOrNamespace apps dep of
      Some a \<Rightarrow> put_app a acc | None \<Rightarrow> acc) acc deps) \<subseteq> set apps" if "set acc \<subseteq> set apps" for acc deps
    using that
  proof (induction deps arbitrary: acc)
    case (Cons x deps)
    have "a \<in> set apps" if "findRegisteredAppByNameOrNamespace apps x = Some a" for a
      using that by (auto simp: findRegisteredAppByNameOrNamespace_def findExactRegisteredAppByNameOrNamespace_def Let_def
        split: option.splits if_splits dest: find_Some_mem)
    then have "set (case findRegisteredAppByNameOrNamespace apps x of Some a \<Rightarrow> put_app a acc | None \<Rightarrow> acc) \<subseteq> set apps"
      using Cons.prems by (auto simp: put_app_def split: option.split)
    then show ?case by (simp only: foldl.simps) (rule Cons.IH)
  qed simp
  then have "set (dependency_entries apps d) \<subseteq> set apps" by (cases d) (simp_all add: dependency_entries_def)
  then show "a \<in> set (dependencies_in_order prio apps d) \<Longrightarrow> a \<in> set apps"
    by (auto simp: dependencies_in_order_def)
qed

lemma resolveValidationTable_cases:
  assumes "resolveValidationTable app (Some d) deps n = Some (a, t)"
  shows "a = app \<and> t \<in> set (ad_Tables d) \<or>
    a \<in> set deps \<and> (\<exists>e. effectiveRegisteredAppDefinition a = Some e \<and> t \<in> set (ad_Tables e))"
proof (cases "find (\<lambda>t. dt_Name t = trim_lower n) (ad_Tables d)")
  case None
  with assms have "table_of_apps (trim_lower n) deps = Some (a, t)" by (simp add: resolveValidationTable_def)
  from table_of_apps_Some[OF this] show ?thesis by blast
next
  case (Some u)
  with assms show ?thesis by (auto simp: resolveValidationTable_def dest: find_Some_mem)
qed

lemma effective_is: "effectiveRegisteredAppDefinition a = Some e \<Longrightarrow> ra_Definition a = Some e \<or> ra_DraftDefinition a = Some e"
  by (auto simp: effectiveRegisteredAppDefinition_def split: option.splits)

text \<open>A step to a parent stays among the keys and never widens them.\<close>

lemma walk_step:
  assumes "ra_Definition owner = Some d \<or> ra_DraftDefinition owner = Some d"
    and "resolveValidationTable owner (Some d) (dependencies_in_order prio apps e) n = Some (a, t)"
  shows "k a t \<in> walk_keys k apps a" "walk_keys k apps a \<subseteq> walk_keys k apps owner"
proof -
  from resolveValidationTable_cases[OF assms(2)] have "a = owner \<or> a \<in> set apps"
    using dependencies_registered by blast
  then show "walk_keys k apps a \<subseteq> walk_keys k apps owner" by (auto simp: walk_keys_def)
  from resolveValidationTable_cases[OF assms(2)] assms(1) have "k a t \<in> app_keys k a"
    by (auto simp: app_keys_def dest!: effective_is)
  then show "k a t \<in> walk_keys k apps a" by (simp add: walk_keys_def)
qed

definition walk_size :: "table_id \<Rightarrow> RegisteredApp list \<Rightarrow> RegisteredApp \<Rightarrow> AppDefinitionTable \<Rightarrow> string list \<Rightarrow> nat" where
  "walk_size k apps owner t visited =
     2 * card (walk_keys k apps owner - set visited) + (if k owner t \<in> walk_keys k apps owner then 0 else 1)"

lemma walk_decreases:
  assumes "ra_Definition owner = Some d \<or> ra_DraftDefinition owner = Some d"
    and "resolveValidationTable owner (Some d) (dependencies_in_order prio apps e) n = Some (a, parent)"
    and "k owner t \<notin> set visited"
  shows "walk_size k apps a parent (k owner t # visited) < walk_size k apps owner t visited"
proof -
  let ?pool = "walk_keys k apps owner" and ?pool' = "walk_keys k apps a" and ?key = "k owner t"
  note step = walk_step[OF assms(1,2), of k]
  have "?pool' - set (?key # visited) \<subseteq> (?pool - set visited) - {?key}" using step(2) by auto
  then have c: "card (?pool' - set (?key # visited)) \<le> card ((?pool - set visited) - {?key})"
    by (intro card_mono) auto
  show ?thesis
  proof (cases "?key \<in> ?pool")
    case True
    then have "card ((?pool - set visited) - {?key}) < card (?pool - set visited)"
      using assms(3) by (intro card_Diff1_less) auto
    with c True step(1) show ?thesis by (simp add: walk_size_def)
  next
    case False
    then have "card ((?pool - set visited) - {?key}) \<le> card (?pool - set visited)" by (intro card_mono) auto
    with c False step(1) show ?thesis by (simp add: walk_size_def)
  qed
qed

section \<open>Inheritance\<close>

function (sequential) definitionTableExtendsTargetWithApps ::
  "(string \<Rightarrow> nat) \<Rightarrow> RegisteredApp list \<Rightarrow> RegisteredApp \<Rightarrow> AppDefinitionTable \<Rightarrow> string \<Rightarrow> string list \<Rightarrow> bool" where
  "definitionTableExtendsTargetWithApps prio apps owner t target visited =
     (let n = trim_lower (dt_Name t); key = table_key owner t in
      if n = trim_lower target then True
      else if n = [] then False
      else if key \<in> set visited then False
      else if TrimSpace (dt_Extends t) = [] then False
      else (case ra_Definition owner of None \<Rightarrow> False
        | Some d \<Rightarrow> (case resolveValidationTable owner (Some d)
              (dependencies_in_order prio apps (effectiveRegisteredAppDefinition owner)) (dt_Extends t) of
            None \<Rightarrow> False
          | Some (a, parent) \<Rightarrow> definitionTableExtendsTargetWithApps prio apps a parent target (key # visited))))"
  by pat_completeness auto

termination
  by (relation "measure (\<lambda>(prio, apps, owner, t, target, visited). walk_size table_key apps owner t visited)")
    (auto intro: walk_decreases[OF disjI1])

declare definitionTableExtendsTargetWithApps.simps [simp del]

text \<open>
  \<open>taskDefinitionExtendsTarget\<close> keys the visited tables by name alone and takes the dependencies of
  the published definition.
\<close>

definition table_name_key :: table_id where
  "table_name_key owner t = trim_lower (dt_Name t)"

function (sequential) taskDefinitionExtendsTarget ::
  "(string \<Rightarrow> nat) \<Rightarrow> RegisteredApp list \<Rightarrow> RegisteredApp \<Rightarrow> AppDefinitionTable \<Rightarrow> string \<Rightarrow> string list \<Rightarrow> bool" where
  "taskDefinitionExtendsTarget prio apps owner t target visited =
     (let n = table_name_key owner t in
      if n = trim_lower target then True
      else if n = [] \<or> n \<in> set visited then False
      else if TrimSpace (dt_Extends t) = [] then False
      else (case ra_Definition owner of None \<Rightarrow> False
        | Some d \<Rightarrow> (case resolveValidationTable owner (Some d) (dependencies_in_order prio apps (Some d)) (dt_Extends t) of
            None \<Rightarrow> False
          | Some (a, parent) \<Rightarrow> taskDefinitionExtendsTarget prio apps a parent target (n # visited))))"
  by pat_completeness auto

termination
  by (relation "measure (\<lambda>(prio, apps, owner, t, target, visited). walk_size table_name_key apps owner t visited)")
    (auto intro: walk_decreases[OF disjI1])

declare taskDefinitionExtendsTarget.simps [simp del]

text \<open>The tables below a table, sorted by name.\<close>

fun collect_descendants ::
  "(RegisteredApp \<Rightarrow> AppDefinitionTable \<Rightarrow> bool) \<Rightarrow> (RegisteredApp \<times> AppDefinitionTable) list \<Rightarrow> string list \<Rightarrow> string list" where
  "collect_descendants below [] seen = []"
| "collect_descendants below ((a, t) # ats) seen =
     (let n = trim_lower (dt_Name t) in
      if n = [] \<or> n \<in> set seen \<or> \<not> below a t then collect_descendants below ats seen
      else n # collect_descendants below ats (n # seen))"

definition owned_tables :: "RegisteredApp \<Rightarrow> (RegisteredApp \<times> AppDefinitionTable) list" where
  "owned_tables app = (case effectiveRegisteredAppDefinition app of None \<Rightarrow> []
     | Some d \<Rightarrow> map (Pair (app\<lparr>ra_Definition := Some d\<rparr>)) (ad_Tables d))"

definition descendantTableNamesFromApps :: "(string \<Rightarrow> nat) \<Rightarrow> RegisteredApp list \<Rightarrow> string \<Rightarrow> string list" where
  "descendantTableNamesFromApps prio apps target =
     (let tg = trim_lower target in
      if tg = [] then []
      else sort (collect_descendants (\<lambda>a t. definitionTableExtendsTargetWithApps prio apps a t tg [])
        (concat (map owned_tables apps)) [tg]))"

section \<open>Numbers of task tables\<close>

definition scope_prefixes :: "RegisteredApp \<Rightarrow> string list" where
  "scope_prefixes app = (let ns = trim_lower (ra_Namespace app); n = trim_lower (ra_Name app) in
     (if ns \<noteq> [] then [ns @ ''_''] else []) @ (if n \<noteq> [] \<and> n \<noteq> ns then [n @ ''_''] else []))"

definition scriptScopeTableBelongsToApp :: "RegisteredApp \<Rightarrow> string \<Rightarrow> bool" where
  "scriptScopeTableBelongsToApp app tableName = (let n = trim_lower tableName in
     n \<noteq> [] \<and> list_ex (HasPrefix n) (scope_prefixes app))"

definition scriptScopeAliasForTable :: "RegisteredApp \<Rightarrow> string \<Rightarrow> string" where
  "scriptScopeAliasForTable app tableName = (let n = trim_lower tableName in
     if n = [] then []
     else (case find (\<lambda>p. HasPrefix n p \<and> TrimPrefix n p \<noteq> []) (scope_prefixes app) of
         Some p \<Rightarrow> TrimPrefix n p
       | None \<Rightarrow> if HasPrefix n ''_'' \<and> 1 < length n then TrimPrefix n ''_'' else n))"

text \<open>The loop over the runes keeps ASCII letters only, so it is the loop over the bytes.\<close>

definition compactAutoNumberPrefixCandidate :: "string \<Rightarrow> string" where
  "compactAutoNumberPrefixCandidate v =
     map upper_byte (filter (\<lambda>c. is_lower_byte c \<or> is_upper_byte c) (TrimSpace v))"

fun first_prefix :: "string list \<Rightarrow> string" where
  "first_prefix [] = ''TASK''"
| "first_prefix (c # cs) =
     (let p = compactAutoNumberPrefixCandidate c in
      if 4 \<le> length p then take 4 p else if length p = 3 then p else first_prefix cs)"

definition derivedTaskAutoNumberPrefix :: "RegisteredApp \<Rightarrow> AppDefinitionTable \<Rightarrow> string" where
  "derivedTaskAutoNumberPrefix owner t =
     first_prefix [TrimSpace (dt_LabelSingular t), scriptScopeAliasForTable owner (dt_Name t), dt_Name t]"

fun set_number_prefix :: "string \<Rightarrow> AppDefinitionColumn list \<Rightarrow> AppDefinitionColumn list" where
  "set_number_prefix p [] = []"
| "set_number_prefix p (c # cs) =
     (if trim_lower (dc_Name c) \<noteq> ''number'' \<or> \<not> IsAutoNumberDataType (dc_DataType c)
      then c # set_number_prefix p cs else c\<lparr>dc_Prefix := p\<rparr> # cs)"

definition applyDerivedTaskAutoNumberPrefix ::
  "(string \<Rightarrow> nat) \<Rightarrow> RegisteredApp list \<Rightarrow> RegisteredApp \<Rightarrow> AppDefinitionTable \<Rightarrow> AppDefinitionColumn list
     \<Rightarrow> AppDefinitionColumn list" where
  "applyDerivedTaskAutoNumberPrefix prio apps owner t columns =
     (let n = trim_lower (dt_Name t) in
      if n = [] \<or> n = ''base_task'' then columns
      else if \<not> definitionTableExtendsTargetWithApps prio apps owner t ''base_task'' [] then columns
      else set_number_prefix (derivedTaskAutoNumberPrefix owner t) columns)"

definition resolvedAutoNumberScope :: "string \<Rightarrow> string \<Rightarrow> string" where
  "resolvedAutoNumberScope appName namespace =
     (if trim_lower namespace \<noteq> [] then trim_lower namespace
      else if trim_lower appName \<noteq> [] then trim_lower appName else ''system'')"

definition autoNumberAppPrefix :: "string \<Rightarrow> string \<Rightarrow> string" where
  "autoNumberAppPrefix scope pfx = (let s = trim_lower scope; p = normalizeAutoNumberPrefix pfx in
     if s = [] then p else s @ ''_'' @ p)"

record autoNumberTriggerConfig =
  an_Column :: string
  an_Prefix :: string
  an_AppPrefix :: string

fun number_configs ::
  "string \<Rightarrow> AppDefinitionColumn list \<Rightarrow> (string \<times> meta_error, autoNumberTriggerConfig list) result" where
  "number_configs scope [] = Inr []"
| "number_configs scope (c # cs) =
     (if \<not> IsAutoNumberDataType (dc_DataType c) then number_configs scope cs
      else let p = normalizeAutoNumberPrefix (dc_Prefix c) in
        (case validateAutoNumberPrefix p of Some e \<Rightarrow> Inl (dc_Name c, e)
         | None \<Rightarrow> (case number_configs scope cs of Inl e \<Rightarrow> Inl e
             | Inr rest \<Rightarrow> Inr (\<lparr>an_Column = trim_lower (dc_Name c), an_Prefix = p,
                 an_AppPrefix = autoNumberAppPrefix scope p\<rparr> # rest))))"

definition buildAutoNumberTriggerConfigs ::
  "string \<Rightarrow> AppDefinitionTable \<Rightarrow> (string \<times> meta_error, autoNumberTriggerConfig list) result" where
  "buildAutoNumberTriggerConfigs scope t = number_configs scope (dt_Columns t)"

section \<open>Columns\<close>

function (sequential) resolveDefinitionColumnsWithApps ::
  "(string \<Rightarrow> nat) \<Rightarrow> RegisteredApp list \<Rightarrow> RegisteredApp \<Rightarrow> AppDefinitionTable \<Rightarrow> string list
     \<Rightarrow> (app_error, AppDefinitionColumn list) result" where
  "resolveDefinitionColumnsWithApps prio apps owner t visited =
     (let n = trim_lower (dt_Name t); key = table_key owner t in
      if n = [] then Inl TableNameRequired
      else if key \<in> set visited then Inl (CyclicInheritance n)
      else if TrimSpace (dt_Extends t) = [] then Inr (dt_Columns t)
      else (case effectiveRegisteredAppDefinition owner of None \<Rightarrow> Inl (DefinitionNotAvailable (ra_Name owner))
        | Some d \<Rightarrow> (case resolveValidationTable owner (Some d) (dependencies_in_order prio apps (Some d)) (dt_Extends t) of
            None \<Rightarrow> Inl (ExtendedTableNotFound (dt_Extends t))
          | Some (a, parent) \<Rightarrow>
              and_then (resolveDefinitionColumnsWithApps prio apps a parent (key # visited)) (\<lambda>inherited.
                Inr (applyDerivedTaskAutoNumberPrefix prio apps owner t (inherited @ dt_Columns t))))))"
  by pat_completeness auto

termination
  by (relation "measure (\<lambda>(prio, apps, owner, t, visited). walk_size table_key apps owner t visited)")
    (auto intro: walk_decreases[OF effective_is])

declare resolveDefinitionColumnsWithApps.simps [simp del]

text \<open>
  \<open>ResolveDefinitionColumns\<close> with the outcome of the read of the active apps; without a connection to
  the database there is only the app itself.
\<close>

definition ResolveDefinitionColumns ::
  "(string \<Rightarrow> nat) \<Rightarrow> (app_error, RegisteredApp list) result option \<Rightarrow> RegisteredApp \<Rightarrow> AppDefinitionTable
     \<Rightarrow> (app_error, AppDefinitionColumn list) result" where
  "ResolveDefinitionColumns prio listApps app t =
     (if TrimSpace (dt_Extends t) = [] then Inr (dt_Columns t)
      else (case listApps of None \<Rightarrow> resolveDefinitionColumnsWithApps prio [app] app t []
        | Some r \<Rightarrow> and_then r (\<lambda>apps. resolveDefinitionColumnsWithApps prio (mergeRegisteredApps apps app) app t [])))"

definition resolveDefinitionColumnsBestEffort ::
  "(string \<Rightarrow> nat) \<Rightarrow> (app_error, RegisteredApp list) result option \<Rightarrow> RegisteredApp \<Rightarrow> AppDefinitionTable
     \<Rightarrow> AppDefinitionColumn list" where
  "resolveDefinitionColumnsBestEffort prio listApps app t =
     (case ResolveDefinitionColumns prio listApps app t of Inl e \<Rightarrow> dt_Columns t
      | Inr cs \<Rightarrow> if cs = [] then dt_Columns t else cs)"

definition buildSystemYAMLColumns :: "string \<Rightarrow> string \<Rightarrow> Column list" where
  "buildSystemYAMLColumns appName tableName = map (\<lambda>c.
     \<lparr>co_ID = yamlColumnID appName tableName (dc_Name c), co_NAME = dc_Name c, co_LABEL = dc_Label c,
      co_DATA_TYPE = dc_DataType c, co_IS_NULLABLE = dc_IsNullable c, co_DEFAULT_VALUE = None, co_IS_HIDDEN = True,
      co_IS_READONLY = True, co_VALIDATION_REGEX = None, co_VALIDATION_EXPR = None, co_CONDITION_EXPR = None,
      co_VALIDATION_MSG = None, co_REFERENCE_TABLE = nullableString (dc_ReferenceTable c), co_PREFIX = None,
      co_CHOICES = dc_Choices c, co_TABLE_ID = yamlTableID appName tableName\<rparr>) recordSystemColumnTemplates"

definition yaml_column :: "string \<Rightarrow> string \<Rightarrow> AppDefinitionColumn \<Rightarrow> Column" where
  "yaml_column appName tableName c =
     \<lparr>co_ID = yamlColumnID appName tableName (dc_Name c), co_NAME = dc_Name c, co_LABEL = dc_Label c,
      co_DATA_TYPE = dc_DataType c, co_IS_NULLABLE = dc_IsNullable c, co_DEFAULT_VALUE = nullableString (dc_DefaultValue c),
      co_IS_HIDDEN = HasPrefix (dc_Name c) ''_'', co_IS_READONLY = IsSystemColumnName (dc_Name c),
      co_VALIDATION_REGEX = nullableString (dc_ValidationRegex c), co_VALIDATION_EXPR = nullableString (dc_ValidationExpr c),
      co_CONDITION_EXPR = nullableString (dc_ConditionExpr c), co_VALIDATION_MSG = nullableString (dc_ValidationMessage c),
      co_REFERENCE_TABLE = nullableString (dc_ReferenceTable c), co_PREFIX = nullableString (dc_Prefix c),
      co_CHOICES = dc_Choices c, co_TABLE_ID = yamlTableID appName tableName\<rparr>"

definition BuildYAMLColumns ::
  "(string \<Rightarrow> nat) \<Rightarrow> (app_error, RegisteredApp list) result option \<Rightarrow> RegisteredApp \<Rightarrow> AppDefinitionTable \<Rightarrow> Column list" where
  "BuildYAMLColumns prio listApps app t =
     (if definitionUsesImplicitSystemColumns (ra_Name app) (ra_Namespace app) t
      then buildSystemYAMLColumns (ra_Name app) (dt_Name t) else [])
     @ map (yaml_column (ra_Name app) (dt_Name t)) (resolveDefinitionColumnsBestEffort prio listApps app t)"

definition BuildYAMLTable :: "RegisteredApp \<Rightarrow> AppDefinitionTable \<Rightarrow> Table" where
  "BuildYAMLTable app t =
     \<lparr>tb_ID = yamlTableID (ra_Name app) (dt_Name t), tb_NAME = dt_Name t, tb_LABEL_SINGULAR = dt_LabelSingular t,
      tb_LABEL_PLURAL = dt_LabelPlural t, tb_DESCRIPTION = dt_Description t,
      tb_DISPLAY_FIELD = resolveDefinitionDisplayField t\<rparr>"

end
