(* ===== verification/MetadataCache.thy ===== *)
theory MetadataCache
  imports AppTables
begin

text \<open>
  The metadata cache of a request (\<open>internal/db/RequestMetadataCache.go\<close>) and the lookups that go
  through it: \<open>ListActiveApps\<close>, \<open>FindYAMLTableByName\<close> and \<open>FindYAMLTableByID\<close> (\<open>AppDefinition.go\<close>),
  \<open>GetTable\<close>, \<open>GetColumns\<close> and \<open>GetView\<close>.

  Every operation takes the cache of its context, if it has one, and returns it updated. What the
  database answers at the moment of the call is the record \<open>metadata_source\<close>.
\<close>

record metadata_source =
  ms_apps :: "(app_error, RegisteredApp list) result"
  ms_table :: "string \<Rightarrow> (app_error, Table option) result"
  ms_columns :: "string \<Rightarrow> (app_error, Column list) result"
  ms_baseTables :: "(app_error, string list) result"

datatype metadata_error = AppsError app_error | PhysicalError app_error | UnknownTableID string

type_synonym found_table = "RegisteredApp \<times> AppDefinitionTable"

record View =
  vi_Table :: "Table option"
  vi_Columns :: "Column list"

record requestMetadataCache =
  ca_apps :: "(app_error, RegisteredApp list) result option"
  ca_byName :: "string \<rightharpoonup> found_table"
  ca_byID :: "string \<rightharpoonup> found_table"
  ca_physicalBaseTables :: "(app_error, string list) result option"
  ca_tables :: "string \<rightharpoonup> Table"
  ca_columns :: "string \<rightharpoonup> (metadata_error, Column list) result"
  ca_views :: "string \<rightharpoonup> View"

definition newRequestMetadataCache :: requestMetadataCache where
  "newRequestMetadataCache = \<lparr>ca_apps = None, ca_byName = Map.empty, ca_byID = Map.empty,
     ca_physicalBaseTables = None, ca_tables = Map.empty, ca_columns = Map.empty, ca_views = Map.empty\<rparr>"

section \<open>The active apps and their tables\<close>

definition published_tables :: "RegisteredApp list \<Rightarrow> found_table list" where
  "published_tables apps = concat (map (\<lambda>app. case ra_Definition app of None \<Rightarrow> []
     | Some d \<Rightarrow> map (Pair app) (ad_Tables d)) apps)"

definition found_id :: "found_table \<Rightarrow> string" where
  "found_id at = yamlTableID (ra_Name (fst at)) (dt_Name (snd at))"

text \<open>By name the first table wins, by identifier the last.\<close>

fun index_tables :: "found_table list \<Rightarrow> requestMetadataCache \<Rightarrow> requestMetadataCache" where
  "index_tables [] c = c"
| "index_tables (at # ats) c = index_tables ats (c\<lparr>
     ca_byName := (if ca_byName c (dt_Name (snd at)) = None then (ca_byName c)(dt_Name (snd at) \<mapsto> at) else ca_byName c),
     ca_byID := (ca_byID c)(found_id at \<mapsto> at)\<rparr>)"

definition storeActiveApps :: "requestMetadataCache \<Rightarrow> (app_error, RegisteredApp list) result \<Rightarrow> requestMetadataCache" where
  "storeActiveApps c r = (case ca_apps c of Some _ \<Rightarrow> c
     | None \<Rightarrow> (case r of Inl e \<Rightarrow> c\<lparr>ca_apps := Some r\<rparr>
         | Inr apps \<Rightarrow> index_tables (published_tables apps) (c\<lparr>ca_apps := Some r\<rparr>)))"

type_synonym 'a cached = "requestMetadataCache option \<Rightarrow> 'a \<times> requestMetadataCache option"

definition ListActiveApps :: "metadata_source \<Rightarrow> (app_error, RegisteredApp list) result cached" where
  "ListActiveApps src c = (case c of None \<Rightarrow> (ms_apps src, None)
     | Some k \<Rightarrow> (case ca_apps k of Some r \<Rightarrow> (r, Some k)
         | None \<Rightarrow> (ms_apps src, Some (storeActiveApps k (ms_apps src)))))"

text \<open>\<open>cachedYAMLTableByName\<close> and \<open>cachedYAMLTableByID\<close>: \<open>None\<close> when the apps are not loaded.\<close>

definition cachedYAMLTableByName :: "requestMetadataCache option \<Rightarrow> string \<Rightarrow> found_table option option" where
  "cachedYAMLTableByName c n = (case c of None \<Rightarrow> None
     | Some k \<Rightarrow> if ca_apps k = None then None else Some (ca_byName k n))"

definition cachedYAMLTableByID :: "requestMetadataCache option \<Rightarrow> string \<Rightarrow> found_table option option" where
  "cachedYAMLTableByID c i = (case c of None \<Rightarrow> None
     | Some k \<Rightarrow> if ca_apps k = None then None else Some (ca_byID k i))"

definition table_of_name :: "RegisteredApp list \<Rightarrow> string \<Rightarrow> found_table option" where
  "table_of_name apps n = find (\<lambda>at. dt_Name (snd at) = n) (published_tables apps)"

definition table_of_id :: "RegisteredApp list \<Rightarrow> string \<Rightarrow> string \<Rightarrow> found_table option" where
  "table_of_id apps a n = find (\<lambda>at. ra_Name (fst at) = a \<and> dt_Name (snd at) = n) (published_tables apps)"

definition FindYAMLTableByName :: "metadata_source \<Rightarrow> string \<Rightarrow> (app_error, found_table option) result cached" where
  "FindYAMLTableByName src tableName c =
     (let n = trim_lower tableName in
      if n = [] then (Inr None, c)
      else (case cachedYAMLTableByName c n of Some r \<Rightarrow> (Inr r, c)
        | None \<Rightarrow> (case ListActiveApps src c of
            (Inl e, c') \<Rightarrow> (Inl e, c')
          | (Inr apps, c') \<Rightarrow> (case cachedYAMLTableByName c' n of Some r \<Rightarrow> (Inr r, c')
              | None \<Rightarrow> (Inr (table_of_name apps n), c')))))"

definition FindYAMLTableByID :: "metadata_source \<Rightarrow> string \<Rightarrow> (app_error, found_table option) result cached" where
  "FindYAMLTableByID src tableID c =
     (case parseYAMLTableID tableID of None \<Rightarrow> (Inr None, c)
      | Some (a, n) \<Rightarrow> (case cachedYAMLTableByID c (yamlTableID a n) of Some r \<Rightarrow> (Inr r, c)
        | None \<Rightarrow> (case ListActiveApps src c of
            (Inl e, c') \<Rightarrow> (Inl e, c')
          | (Inr apps, c') \<Rightarrow> (case cachedYAMLTableByID c' (yamlTableID a n) of Some r \<Rightarrow> (Inr r, c')
              | None \<Rightarrow> (Inr (table_of_id apps a n), c')))))"

section \<open>Tables, columns and views\<close>

definition zero_Table :: Table where
  "zero_Table = \<lparr>tb_ID = [], tb_NAME = [], tb_LABEL_SINGULAR = [], tb_LABEL_PLURAL = [], tb_DESCRIPTION = [], tb_DISPLAY_FIELD = []\<rparr>"

definition cachedTable :: "requestMetadataCache \<Rightarrow> string \<Rightarrow> Table option" where "cachedTable c n = ca_tables c n"

definition storeTable :: "requestMetadataCache \<Rightarrow> string \<Rightarrow> Table \<Rightarrow> requestMetadataCache" where
  "storeTable c n t = c\<lparr>ca_tables := (ca_tables c)(n \<mapsto> t)\<rparr>"

definition cachedColumns :: "requestMetadataCache \<Rightarrow> string \<Rightarrow> (metadata_error, Column list) result option" where
  "cachedColumns c i = ca_columns c i"

definition storeColumns :: "requestMetadataCache \<Rightarrow> string \<Rightarrow> (metadata_error, Column list) result \<Rightarrow> requestMetadataCache" where
  "storeColumns c i r = c\<lparr>ca_columns := (ca_columns c)(i \<mapsto> r)\<rparr>"

definition cachedView :: "requestMetadataCache \<Rightarrow> string \<Rightarrow> View option" where "cachedView c n = ca_views c n"

definition storeView :: "requestMetadataCache \<Rightarrow> string \<Rightarrow> View \<Rightarrow> requestMetadataCache" where
  "storeView c n v = c\<lparr>ca_views := (ca_views c)(n \<mapsto> v)\<rparr>"

text \<open>Answer from the cache of the context or compute, then store.\<close>

definition through ::
  "(requestMetadataCache \<Rightarrow> 'k \<Rightarrow> 'v option) \<Rightarrow> (requestMetadataCache \<Rightarrow> 'k \<Rightarrow> 'v \<Rightarrow> requestMetadataCache) \<Rightarrow> 'k
     \<Rightarrow> 'v cached \<Rightarrow> 'v cached" where
  "through get put k compute c =
     (case Option.bind c (\<lambda>m. get m k) of Some v \<Rightarrow> (v, c)
      | None \<Rightarrow> (case compute c of (v, c') \<Rightarrow> (v, map_option (\<lambda>m. put m k v) c')))"

definition GetTable :: "metadata_source \<Rightarrow> string \<Rightarrow> Table cached" where
  "GetTable src tableName c =
     (let n = trim_lower tableName in
      if n = [] \<or> \<not> IsSafeIdentifier n then (zero_Table, c)
      else through cachedTable storeTable n (\<lambda>c. case FindYAMLTableByName src n c of
          (Inr (Some (app, t)), c') \<Rightarrow> (BuildYAMLTable app t, c')
        | (Inl e, c') \<Rightarrow> (zero_Table, c')
        | (Inr None, c') \<Rightarrow> (case ms_table src n of Inr (Some t) \<Rightarrow> (t, c') | _ \<Rightarrow> (zero_Table, c'))) c)"

definition physicalTableIDPrefix :: string where "physicalTableIDPrefix = ''physical:table:''"

definition parsePhysicalTableID :: "string \<Rightarrow> string option" where
  "parsePhysicalTableID input =
     (if \<not> HasPrefix input physicalTableIDPrefix then None
      else let n = TrimSpace (TrimPrefix input physicalTableIDPrefix) in
        if n = [] \<or> \<not> IsSafeIdentifier n then None else Some n)"

definition GetColumns :: "(string \<Rightarrow> nat) \<Rightarrow> metadata_source \<Rightarrow> string \<Rightarrow> (metadata_error, Column list) result cached" where
  "GetColumns prio src tableID c =
     through cachedColumns storeColumns tableID (\<lambda>c. case FindYAMLTableByID src tableID c of
         (Inl e, c') \<Rightarrow> (Inl (AppsError e), c')
       | (Inr (Some (app, t)), c') \<Rightarrow> (case ListActiveApps src c' of
             (r, c'') \<Rightarrow> (Inr (BuildYAMLColumns prio (Some r) app t), c''))
       | (Inr None, c') \<Rightarrow> (case parsePhysicalTableID tableID of
             Some n \<Rightarrow> (map_sum PhysicalError id (ms_columns src n), c')
           | None \<Rightarrow> (Inl (UnknownTableID tableID), c'))) c"

text \<open>A view is only stored when its table and its columns are found.\<close>

definition GetView :: "(string \<Rightarrow> nat) \<Rightarrow> metadata_source \<Rightarrow> string \<Rightarrow> View cached" where
  "GetView prio src tableName c =
     (let n = trim_lower tableName; none = \<lparr>vi_Table = None, vi_Columns = []\<rparr> in
      if n = [] then (none, c)
      else (case Option.bind c (\<lambda>m. cachedView m n) of Some v \<Rightarrow> (v, c)
        | None \<Rightarrow> (case GetTable src n c of (table, c1) \<Rightarrow>
            if tb_ID table = [] then (none, c1)
            else (case GetColumns prio src (tb_ID table) c1 of
                (Inl e, c2) \<Rightarrow> (none, c2)
              | (Inr columns, c2) \<Rightarrow>
                  let v = \<lparr>vi_Table = Some table, vi_Columns = columns\<rparr> in
                  (v, map_option (\<lambda>m. storeView m n v) c2)))))"


definition storePhysicalBaseTables ::
  "requestMetadataCache \<Rightarrow> (app_error, string list) result \<Rightarrow> requestMetadataCache" where
  "storePhysicalBaseTables c r = (case ca_physicalBaseTables c of Some _ \<Rightarrow> c
     | None \<Rightarrow> c\<lparr>ca_physicalBaseTables := Some r\<rparr>)"

definition ListPhysicalBaseTables :: "metadata_source \<Rightarrow> (app_error, string list) result cached" where
  "ListPhysicalBaseTables src c = (case Option.bind c ca_physicalBaseTables of Some r \<Rightarrow> (r, c)
     | None \<Rightarrow> (ms_baseTables src, map_option (\<lambda>m. storePhysicalBaseTables m (ms_baseTables src)) c))"

definition TableExists :: "metadata_source \<Rightarrow> string \<Rightarrow> bool cached" where
  "TableExists src tableName c =
     (let n = trim_lower tableName in
      if n = [] \<or> \<not> IsSafeIdentifier n then (False, c)
      else (case FindYAMLTableByName src n c of
          (Inr (Some _), c') \<Rightarrow> (True, c')
        | (_, c') \<Rightarrow> ((case ms_table src n of Inr (Some _) \<Rightarrow> True | _ \<Rightarrow> False), c')))"


text \<open>
  The tables a query of a table reads: the table and those of its descendants that exist, looked up
  without the cache of the request. \<open>connected\<close> tells whether there is a pool.
\<close>

definition ListTableQuerySources :: "(string \<Rightarrow> nat) \<Rightarrow> bool \<Rightarrow> metadata_source \<Rightarrow> string \<Rightarrow> string list cached" where
  "ListTableQuerySources prio connected src tableName c =
     (let n = trim_lower tableName in
      if n = [] \<or> \<not> IsSafeIdentifier n then ([], c)
      else if \<not> connected then ([n], c)
      else (case ListActiveApps src c of
          (Inl e, c') \<Rightarrow> ([n], c')
        | (Inr apps, c') \<Rightarrow>
            (n # filter (\<lambda>d. tb_ID (fst (GetTable src d None)) \<noteq> []) (descendantTableNamesFromApps prio apps n), c')))"

end
