(* ===== verification/Authz.thy ===== *)
theory Authz
  imports AppLookup SaveValues
begin

text \<open>
  Users, roles and permissions (\<open>internal/db/AuthzAdmin.go\<close>, \<open>AuthzQueries.go\<close>, \<open>AuthzEffective.go\<close>,
  \<open>SessionSecurity.go\<close>, \<open>cmd/server/handleAccessControl.go\<close>): the tables, the recursive queries over
  them, the administration with its guard of the last administrator, the cache of the permission
  queries and the versions of the sessions.

  Identifiers of rows are opaque texts in the form the database prints. A recursive query with
  \<open>UNION\<close> computes the least set, here by the transitive closure of the inheritance table. \<open>up\<close> tells
  whether the database answers; times are in nanoseconds.
\<close>

section \<open>The tables\<close>

record AuthzRole =
  rl_ID :: string
  rl_Name :: string
  rl_Description :: string
  rl_Priority :: int

record AuthzPermission =
  pm_ID :: string
  pm_Resource :: string
  pm_Action :: string
  pm_Scope :: string
  pm_Description :: string

record authz_tables =
  at_role :: "AuthzRole list"
  at_permission :: "AuthzPermission list"
  at_role_permission :: "(string \<times> string) list"
  at_user_role :: "(string \<times> string \<times> string) list"
  at_group_membership :: "(string \<times> string) list"
  at_group_role :: "(string \<times> string \<times> string) list"
  at_role_inheritance :: "(string \<times> string) list"

datatype authz_error =
    RoleIDRequired
  | ReservedRoleRefused string
  | LastGlobalAdminRemoval
  | NoSuchRow string
  | SessionVersionOverflow
  | PriorityOutOfRange
  | DatabaseDown

section \<open>Effective roles\<close>

text \<open>A role of an application counts there, a global one everywhere.\<close>

definition counts_in :: "string \<Rightarrow> string \<Rightarrow> bool" where
  "counts_in appID a \<longleftrightarrow> (if appID = [] then a = [] else a = [] \<or> a = appID)"

text \<open>\<open>seed_roles\<close>: the pairs of a user and a role of \<open>_user_role\<close> and of the groups.\<close>

definition group_roles :: "authz_tables \<Rightarrow> (string \<times> string \<times> string) list" where
  "group_roles t = concat (map (\<lambda>(g, u). map (\<lambda>(g', r, a). (u, r, a)) (filter (\<lambda>(g', r, a). g' = g) (at_group_role t)))
     (at_group_membership t))"

definition seed_roles :: "authz_tables \<Rightarrow> string \<Rightarrow> string \<Rightarrow> string list" where
  "seed_roles t userID appID = map (\<lambda>(u, r, a). r)
     (filter (\<lambda>(u, r, a). u = userID \<and> counts_in appID a) (at_user_role t @ group_roles t))"

definition with_inherited :: "authz_tables \<Rightarrow> string list \<Rightarrow> string set" where
  "with_inherited t rs = set rs \<union> (set (at_role_inheritance t))\<^sup>+ `` set rs"

definition effective_roles :: "authz_tables \<Rightarrow> string \<Rightarrow> string \<Rightarrow> string set" where
  "effective_roles t userID appID = with_inherited t (seed_roles t userID appID)"

definition is_platform_permission :: "authz_tables \<Rightarrow> string \<Rightarrow> string \<Rightarrow> bool" where
  "is_platform_permission t action permissionID = list_ex (\<lambda>p. pm_ID p = permissionID \<and>
     pm_Resource p = ''platform'' \<and> pm_Action p = action \<and> pm_Scope p = ''global'') (at_permission t)"

definition roles_permit :: "authz_tables \<Rightarrow> string \<Rightarrow> string set \<Rightarrow> bool" where
  "roles_permit t action rs = list_ex (\<lambda>(r, p). r \<in> rs \<and> is_platform_permission t action p) (at_role_permission t)"

definition has_permission :: "authz_tables \<Rightarrow> string \<Rightarrow> string \<Rightarrow> string \<Rightarrow> bool" where
  "has_permission t userID action appID = roles_permit t action (effective_roles t userID appID)"

text \<open>\<open>SELECT DISTINCT LOWER(TRIM(r.name))\<close>, sorted, the empty name skipped. Both trims are of names of
  roles, which hold no white space but spaces.\<close>

definition listEffectiveRoleNames :: "bool \<Rightarrow> authz_tables \<Rightarrow> string \<Rightarrow> string \<Rightarrow> (authz_error, string list) result" where
  "listEffectiveRoleNames up t userID appID =
     (if \<not> up then Inl DatabaseDown
      else Inr (filter (\<lambda>n. n \<noteq> []) (sort (remdups (map (\<lambda>r. trim_lower (rl_Name r))
        (filter (\<lambda>r. rl_ID r \<in> effective_roles t userID (TrimSpace appID)) (at_role t)))))))"

section \<open>The permission cache and the session versions\<close>

type_synonym authzCacheKey = "string \<times> string \<times> string"

record authz_state =
  as_tables :: authz_tables
  as_cache :: "authzCacheKey \<rightharpoonup> bool \<times> nat"
  as_versions :: "string \<rightharpoonup> nat"

definition authzCacheTTL :: nat where "authzCacheTTL = 30 * 1000000000"

definition UserHasPermission ::
  "bool \<Rightarrow> nat \<Rightarrow> string \<Rightarrow> string \<Rightarrow> string \<Rightarrow> authz_state \<Rightarrow> (authz_error, bool) result \<times> authz_state" where
  "UserHasPermission up now userID action appID st =
     (let key = (userID, action, appID);
          query = (if \<not> up then (Inl DatabaseDown, st)
            else let allowed = has_permission (as_tables st) userID action appID in
              (Inr allowed, st\<lparr>as_cache := (as_cache st)(key \<mapsto> (allowed, now + authzCacheTTL))\<rparr>))
      in case as_cache st key of
          Some (allowed, expires) \<Rightarrow> if now < expires then (Inr allowed, st) else query
        | None \<Rightarrow> query)"

definition UserHasGlobalPermission ::
  "bool \<Rightarrow> nat \<Rightarrow> string \<Rightarrow> string \<Rightarrow> authz_state \<Rightarrow> (authz_error, bool) result \<times> authz_state" where
  "UserHasGlobalPermission up now userID action st = UserHasPermission up now userID action [] st"

definition invalidate_all :: "authz_state \<Rightarrow> authz_state" where
  "invalidate_all st = st\<lparr>as_cache := Map.empty\<rparr>"

definition invalidate_user :: "string \<Rightarrow> authz_state \<Rightarrow> authz_state" where
  "invalidate_user userID st = st\<lparr>as_cache := (\<lambda>k. if fst k = userID then None else as_cache st k)\<rparr>"

definition GetOrInitUserSessionVersion :: "bool \<Rightarrow> string \<Rightarrow> authz_state \<Rightarrow> (authz_error, nat) result \<times> authz_state" where
  "GetOrInitUserSessionVersion up userID st =
     (if \<not> up then (Inl DatabaseDown, st)
      else case as_versions st userID of Some v \<Rightarrow> (Inr v, st)
        | None \<Rightarrow> (Inr 1, st\<lparr>as_versions := (as_versions st)(userID \<mapsto> 1)\<rparr>))"

text \<open>The column is a 32-bit \<open>INTEGER\<close>: an increment past its maximum is refused.\<close>

definition bumped :: "nat option \<Rightarrow> nat" where
  "bumped v = (case v of None \<Rightarrow> 2 | Some n \<Rightarrow> n + 1)"

definition bump_users :: "string list \<Rightarrow> authz_state \<Rightarrow> (authz_error, authz_state) result" where
  "bump_users users st =
     (if list_ex (\<lambda>u. 2 ^ 31 \<le> bumped (as_versions st u)) users then Inl SessionVersionOverflow
      else Inr (st\<lparr>as_versions := (\<lambda>u. if u \<in> set users then Some (bumped (as_versions st u)) else as_versions st u)\<rparr>))"

definition bump_user :: "bool \<Rightarrow> string \<Rightarrow> authz_state \<Rightarrow> (authz_error, authz_state) result" where
  "bump_user up userID st = (if \<not> up then Inl DatabaseDown else bump_users [userID] st)"

definition impacted_roles :: "authz_tables \<Rightarrow> string \<Rightarrow> string set" where
  "impacted_roles t roleID = insert roleID (((set (at_role_inheritance t))\<inverse>)\<^sup>+ `` {roleID})"

definition impacted_users :: "authz_tables \<Rightarrow> string \<Rightarrow> string list" where
  "impacted_users t roleID = remdups (map (\<lambda>(u, r, a). u)
     (filter (\<lambda>(u, r, a). r \<in> impacted_roles t roleID) (at_user_role t @ group_roles t)))"

definition bump_role :: "bool \<Rightarrow> string \<Rightarrow> authz_state \<Rightarrow> (authz_error, authz_state) result" where
  "bump_role up roleID st = (if \<not> up then Inl DatabaseDown else bump_users (impacted_users (as_tables st) roleID) st)"

section \<open>Administration\<close>

definition on_tables :: "(authz_tables \<Rightarrow> authz_tables) \<Rightarrow> authz_state \<Rightarrow> authz_state" where
  "on_tables f st = st\<lparr>as_tables := f (as_tables st)\<rparr>"

text \<open>\<open>INSERT ... ON CONFLICT DO NOTHING\<close>.\<close>

definition insert_row :: "'a \<Rightarrow> 'a list \<Rightarrow> 'a list" where
  "insert_row x xs = (if x \<in> set xs then xs else xs @ [x])"

text \<open>The priority is stored in a 32-bit column, which refuses a number past its range.\<close>

definition CreateRole ::
  "bool \<Rightarrow> string \<Rightarrow> string \<Rightarrow> string \<Rightarrow> int \<Rightarrow> authz_state \<Rightarrow> (authz_error, authz_state) result" where
  "CreateRole up freshID name description priority st =
     (if isReservedRoleName name then Inl (ReservedRoleRefused (TrimSpace name))
      else if \<not> up then Inl DatabaseDown
      else if priority < - (2 ^ 31) \<or> 2 ^ 31 \<le> priority then Inl PriorityOutOfRange
      else let n = trim_lower name; d = TrimSpace description in
        Inr (invalidate_all (on_tables (\<lambda>t. t\<lparr>at_role :=
          (if list_ex (\<lambda>r. rl_Name r = n) (at_role t)
           then map (\<lambda>r. if rl_Name r = n then r\<lparr>rl_Description := d, rl_Priority := priority\<rparr> else r) (at_role t)
           else at_role t @ [\<lparr>rl_ID = freshID, rl_Name = n, rl_Description = d, rl_Priority = priority\<rparr>])\<rparr>) st)))"

definition CreatePermission ::
  "bool \<Rightarrow> string \<Rightarrow> string \<Rightarrow> string \<Rightarrow> string \<Rightarrow> string \<Rightarrow> authz_state \<Rightarrow> (authz_error, authz_state) result" where
  "CreatePermission up freshID resource action scope description st =
     (if \<not> up then Inl DatabaseDown
      else let re = trim_lower resource; ac = trim_lower action; sc = trim_lower scope; d = TrimSpace description;
          same = (\<lambda>p. pm_Resource p = re \<and> pm_Action p = ac \<and> pm_Scope p = sc) in
        Inr (invalidate_all (on_tables (\<lambda>t. t\<lparr>at_permission :=
          (if list_ex same (at_permission t)
           then map (\<lambda>p. if same p then p\<lparr>pm_Description := d\<rparr> else p) (at_permission t)
           else at_permission t @ [\<lparr>pm_ID = freshID, pm_Resource = re, pm_Action = ac, pm_Scope = sc, pm_Description = d\<rparr>])\<rparr>) st)))"

definition GrantUserRole :: "bool \<Rightarrow> string \<Rightarrow> string \<Rightarrow> string \<Rightarrow> authz_state \<Rightarrow> (authz_error, authz_state) result" where
  "GrantUserRole up userID roleID appID st =
     (let u = TrimSpace userID; r = TrimSpace roleID; a = TrimSpace appID in
      if r = [] then Inl RoleIDRequired
      else if \<not> up then Inl DatabaseDown
      else if \<not> list_ex (\<lambda>x. rl_ID x = r) (at_role (as_tables st)) then Inl (NoSuchRow r)
      else Inr (invalidate_user u (on_tables (\<lambda>t. t\<lparr>at_user_role := insert_row (u, r, a) (at_user_role t)\<rparr>) st)))"

definition roleHasGlobalAdminPermission :: "authz_tables \<Rightarrow> string \<Rightarrow> bool" where
  "roleHasGlobalAdminPermission t roleID = roles_permit t ''admin'' (with_inherited t [roleID])"

definition delete_user_role :: "string \<times> string \<times> string \<Rightarrow> authz_tables \<Rightarrow> authz_tables" where
  "delete_user_role x t = t\<lparr>at_user_role := filter (\<lambda>y. y \<noteq> x) (at_user_role t)\<rparr>"

definition delete_role_permission :: "string \<times> string \<Rightarrow> authz_tables \<Rightarrow> authz_tables" where
  "delete_role_permission x t = t\<lparr>at_role_permission := filter (\<lambda>y. y \<noteq> x) (at_role_permission t)\<rparr>"

text \<open>The users that an assignment or a membership names, and those of them who administrate.\<close>

definition authz_users :: "authz_tables \<Rightarrow> string list" where
  "authz_users t = remdups (map fst (at_user_role t @ group_roles t))"

definition global_admins :: "authz_tables \<Rightarrow> string list" where
  "global_admins t = filter (\<lambda>u. has_permission t u ''admin'' []) (authz_users t)"

definition countGlobalAdminsAfterUserRoleRevocation :: "string \<times> string \<times> string \<Rightarrow> authz_tables \<Rightarrow> nat" where
  "countGlobalAdminsAfterUserRoleRevocation x t = length (global_admins (delete_user_role x t))"

definition countGlobalAdminsAfterRolePermissionRevocation :: "string \<times> string \<Rightarrow> authz_tables \<Rightarrow> nat" where
  "countGlobalAdminsAfterRolePermissionRevocation x t = length (global_admins (delete_role_permission x t))"

text \<open>The queries before the deletion, and the deletion: separate statements outside a transaction.\<close>

definition user_role_guard :: "string \<times> string \<times> string \<Rightarrow> authz_tables \<Rightarrow> authz_error option" where
  "user_role_guard x t = (case x of (u, r, a) \<Rightarrow>
     if a = [] \<and> roleHasGlobalAdminPermission t r \<and> x \<in> set (at_user_role t) \<and>
       countGlobalAdminsAfterUserRoleRevocation x t = 0
     then Some LastGlobalAdminRemoval else None)"

definition RevokeUserRole :: "bool \<Rightarrow> string \<Rightarrow> string \<Rightarrow> string \<Rightarrow> authz_state \<Rightarrow> (authz_error, authz_state) result" where
  "RevokeUserRole up userID roleID appID st =
     (let x = (TrimSpace userID, TrimSpace roleID, TrimSpace appID) in
      if \<not> up then Inl DatabaseDown
      else case user_role_guard x (as_tables st) of Some e \<Rightarrow> Inl e
        | None \<Rightarrow> Inr (invalidate_user (fst x) (on_tables (delete_user_role x) st)))"

definition GrantRolePermission :: "bool \<Rightarrow> string \<Rightarrow> string \<Rightarrow> authz_state \<Rightarrow> (authz_error, authz_state) result" where
  "GrantRolePermission up roleID permissionID st =
     (if \<not> up then Inl DatabaseDown
      else if \<not> list_ex (\<lambda>x. rl_ID x = roleID) (at_role (as_tables st)) then Inl (NoSuchRow roleID)
      else if \<not> list_ex (\<lambda>x. pm_ID x = permissionID) (at_permission (as_tables st)) then Inl (NoSuchRow permissionID)
      else Inr (invalidate_all (on_tables (\<lambda>t. t\<lparr>at_role_permission :=
        insert_row (roleID, permissionID) (at_role_permission t)\<rparr>) st)))"

definition role_permission_guard :: "string \<times> string \<Rightarrow> authz_tables \<Rightarrow> authz_error option" where
  "role_permission_guard x t =
     (if is_platform_permission t ''admin'' (snd x) \<and> x \<in> set (at_role_permission t) \<and>
       countGlobalAdminsAfterRolePermissionRevocation x t = 0
      then Some LastGlobalAdminRemoval else None)"

definition RevokeRolePermission :: "bool \<Rightarrow> string \<Rightarrow> string \<Rightarrow> authz_state \<Rightarrow> (authz_error, authz_state) result" where
  "RevokeRolePermission up roleID permissionID st =
     (if \<not> up then Inl DatabaseDown
      else case role_permission_guard (roleID, permissionID) (as_tables st) of Some e \<Rightarrow> Inl e
        | None \<Rightarrow> Inr (invalidate_all (on_tables (delete_role_permission (roleID, permissionID)) st)))"

text \<open>The side effects of a save of an authorization table; a failed bump is only logged.\<close>

definition or_unchanged :: "authz_state \<Rightarrow> (authz_error, authz_state) result \<Rightarrow> authz_state" where
  "or_unchanged st r = (case r of Inl e \<Rightarrow> st | Inr st' \<Rightarrow> st')"

fun apply_authz_effect :: "bool \<Rightarrow> authz_effect \<Rightarrow> authz_state \<Rightarrow> authz_state" where
  "apply_authz_effect up InvalidateAuthzCache st = invalidate_all st"
| "apply_authz_effect up (InvalidateAuthzCacheForUser u) st = invalidate_user u st"
| "apply_authz_effect up (BumpUserSessionVersion u) st = or_unchanged st (bump_user up u st)"
| "apply_authz_effect up (BumpSessionVersionForRole r) st = or_unchanged st (bump_role up r st)"

section \<open>The handlers of the access control page\<close>

text \<open>The form of a request; \<open>None\<close> when it does not parse.\<close>

record admin_request =
  aq_method :: string
  aq_form :: "(string \<Rightarrow> string) option"

datatype admin_response = AdminError nat string | AdminDone string

definition post_form :: "admin_request \<Rightarrow> (admin_response, string \<Rightarrow> string) result" where
  "post_form q = (if aq_method q \<noteq> ''POST'' then Inl (AdminError 405 ''Invalid method'')
     else case aq_form q of None \<Rightarrow> Inl (AdminError 400 ''Invalid form'') | Some f \<Rightarrow> Inr f)"

text \<open>The change, the rotation of the sessions, the redirect; a change stays when the rotation fails.\<close>

definition change_and_bump ::
  "(authz_error, authz_state) result \<Rightarrow> (authz_state \<Rightarrow> (authz_error, authz_state) result) \<Rightarrow> string \<Rightarrow> string \<Rightarrow> string
     \<Rightarrow> authz_state \<Rightarrow> admin_response \<times> authz_state" where
  "change_and_bump change bump failed notRotated done st =
     (case change of
        Inl e \<Rightarrow> (if e = LastGlobalAdminRemoval then AdminDone ''last_admin_guard_blocked'' else AdminError 500 failed, st)
      | Inr st' \<Rightarrow> (case bump st' of Inl e \<Rightarrow> (AdminError 500 notRotated, st') | Inr st'' \<Rightarrow> (AdminDone done, st'')))"

definition handleCreateRole :: "bool \<Rightarrow> string \<Rightarrow> admin_request \<Rightarrow> authz_state \<Rightarrow> admin_response \<times> authz_state" where
  "handleCreateRole up freshID q st = (case post_form q of Inl r \<Rightarrow> (r, st) | Inr f \<Rightarrow>
     (let name = trim_lower (f ''name''); description = TrimSpace (f ''description'') in
      case ParseInt10 (TrimSpace (f ''priority'')) of None \<Rightarrow> (AdminError 400 ''Invalid priority'', st)
      | Some priority \<Rightarrow>
          if priority < 0 then (AdminError 400 ''Invalid priority'', st)
          else if \<not> IsSafeIdentifier name then (AdminError 400 ''Invalid role name'', st)
          else change_and_bump (CreateRole up freshID name description priority st) Inr
            ''Failed to create role'' [] ''role_saved'' st))"

text \<open>The page that \<open>return_to\<close> names is left out of the response.\<close>

definition handleCreatePermission :: "bool \<Rightarrow> string \<Rightarrow> admin_request \<Rightarrow> authz_state \<Rightarrow> admin_response \<times> authz_state" where
  "handleCreatePermission up freshID q st = (case post_form q of Inl r \<Rightarrow> (r, st) | Inr f \<Rightarrow>
     (let resource = trim_lower (f ''resource''); action = trim_lower (f ''action''); scope = trim_lower (f ''scope'');
          description = TrimSpace (f ''description'') in
      if \<not> IsSafeIdentifier resource \<or> \<not> IsSafeIdentifier action \<or> \<not> IsSafeIdentifier scope
      then (AdminError 400 ''Invalid permission fields'', st)
      else change_and_bump (CreatePermission up freshID resource action scope description st) Inr
        ''Failed to create permission'' [] ''permission_saved'' st))"

definition handleGrantUserRole :: "bool \<Rightarrow> admin_request \<Rightarrow> authz_state \<Rightarrow> admin_response \<times> authz_state" where
  "handleGrantUserRole up q st = (case post_form q of Inl r \<Rightarrow> (r, st) | Inr f \<Rightarrow>
     (let userID = TrimSpace (f ''user_id''); roleID = TrimSpace (f ''role_id''); appID = TrimSpace (f ''app_id'') in
      if \<not> IsValidUUID roleID then (AdminError 400 ''Invalid role'', st)
      else if \<not> IsValidUUID userID then (AdminError 400 ''Invalid user id'', st)
      else if appID \<noteq> [] \<and> \<not> IsSafeIdentifier appID then (AdminError 400 ''Invalid app id'', st)
      else change_and_bump (GrantUserRole up userID roleID appID st) (bump_user up userID)
        ''Failed to assign role'' ''Failed to rotate user session'' ''user_role_granted'' st))"

definition handleRevokeUserRole :: "bool \<Rightarrow> admin_request \<Rightarrow> authz_state \<Rightarrow> admin_response \<times> authz_state" where
  "handleRevokeUserRole up q st = (case post_form q of Inl r \<Rightarrow> (r, st) | Inr f \<Rightarrow>
     (let userID = TrimSpace (f ''user_id''); roleID = TrimSpace (f ''role_id''); appID = TrimSpace (f ''app_id'') in
      if \<not> IsValidUUID userID then (AdminError 400 ''Invalid user id'', st)
      else if \<not> IsValidUUID roleID then (AdminError 400 ''Invalid role id'', st)
      else if appID \<noteq> [] \<and> \<not> IsSafeIdentifier appID then (AdminError 400 ''Invalid app id'', st)
      else change_and_bump (RevokeUserRole up userID roleID appID st) (bump_user up userID)
        ''Failed to revoke role'' ''Failed to rotate user session'' ''user_role_revoked'' st))"

definition handleGrantRolePermission :: "bool \<Rightarrow> admin_request \<Rightarrow> authz_state \<Rightarrow> admin_response \<times> authz_state" where
  "handleGrantRolePermission up q st = (case post_form q of Inl r \<Rightarrow> (r, st) | Inr f \<Rightarrow>
     (let roleID = TrimSpace (f ''role_id''); permissionID = TrimSpace (f ''permission_id'') in
      if \<not> IsValidUUID roleID then (AdminError 400 ''Invalid role id'', st)
      else if \<not> IsValidUUID permissionID then (AdminError 400 ''Invalid permission id'', st)
      else change_and_bump (GrantRolePermission up roleID permissionID st) (bump_role up roleID)
        ''Failed to grant permission'' ''Failed to rotate role sessions'' ''role_permission_granted'' st))"

definition handleRevokeRolePermission :: "bool \<Rightarrow> admin_request \<Rightarrow> authz_state \<Rightarrow> admin_response \<times> authz_state" where
  "handleRevokeRolePermission up q st = (case post_form q of Inl r \<Rightarrow> (r, st) | Inr f \<Rightarrow>
     (let roleID = TrimSpace (f ''role_id''); permissionID = TrimSpace (f ''permission_id'') in
      if \<not> IsValidUUID roleID then (AdminError 400 ''Invalid role id'', st)
      else if \<not> IsValidUUID permissionID then (AdminError 400 ''Invalid permission id'', st)
      else change_and_bump (RevokeRolePermission up roleID permissionID st) (bump_role up roleID)
        ''Failed to revoke permission'' ''Failed to rotate role sessions'' ''role_permission_revoked'' st))"

end
