(* ===== verification/HttpAuth.thy ===== *)
theory HttpAuth
  imports Authz
begin

text \<open>
  Authentication and the middleware of the routes (\<open>internal/auth\<close>, \<open>internal/authz/Permissions.go\<close>,
  \<open>internal/security/AppScope.go\<close>, \<open>AuditMiddleware.go\<close>, \<open>cmd/server/routes.go\<close>,
  \<open>sessionVersionMiddleware.go\<close>, \<open>loginPostHandler.go\<close>, \<open>handleFailedLogin.go\<close>, \<open>handleLogout.go\<close>).

  A handler maps a request and the state of the server to a response and the next state; a middleware
  maps handlers to handlers. The cookie of a session is signed and encrypted by the session library: a
  request carries the values it decodes to, and \<open>None\<close> for a cookie that does not decode. Lines of the
  process log are left out.
\<close>

section \<open>Requests, responses and the state\<close>

text \<open>A \<open>float64\<close> is represented by its integer part.\<close>

datatype session_value = SvString string | SvBool bool | SvInt int | SvInt64 int | SvFloat64 int

type_synonym session_values = "string \<rightharpoonup> session_value"

record request_context =
  cx_UserID :: string
  cx_UserEmail :: string
  cx_UserName :: string
  cx_UserRole :: string
  cx_AppID :: string
  cx_IsAgent :: bool

record http_request =
  rq_Method :: string
  rq_Path :: string
  rq_URI :: string
  rq_Header :: "string \<Rightarrow> string"
  rq_Query :: "string \<Rightarrow> string"
  rq_Form :: "(string \<Rightarrow> string) option"
  rq_Session :: "session_values option"
  rq_RemoteAddr :: string
  rq_UserAgent :: string
  rq_Context :: request_context

datatype cookie_change = CookieKept | CookieCleared | CookieSaved session_values

record http_response =
  rs_Status :: nat
  rs_Location :: string
  rs_Body :: string
  rs_Cookie :: cookie_change

record AuditEvent =
  ae_UserID :: string
  ae_UserEmail :: string
  ae_UserRole :: string
  ae_Method :: string
  ae_Path :: string
  ae_Status :: nat
  ae_IP :: string
  ae_UserAgent :: string

record security_event =
  se_Type :: string
  se_UserID :: string
  se_Path :: string
  se_Method :: string

record user_row =
  us_ID :: string
  us_Name :: string
  us_Email :: string
  us_PasswordHash :: string

record agent_token_row =
  tk_ID :: string
  tk_UserID :: string
  tk_Hash :: string
  tk_Label :: string
  tk_Revoked :: bool
  tk_ExpiresAt :: "nat option"
  tk_LastUsedAt :: "nat option"

record web_state =
  ws_authz :: authz_state
  ws_users :: "user_row list"
  ws_tokens :: "agent_token_row list"
  ws_audit :: "AuditEvent list"
  ws_events :: "security_event list"

text \<open>
  What a request depends on besides: whether the database answers, the time, a fresh random token, the
  hash of agent tokens, the password check, \<open>url.Parse\<close>, and the route \<open>defaultAuthenticatedRoute\<close> picks.
\<close>

record parsed_url =
  pu_Scheme :: string
  pu_Hostname :: string
  pu_Path :: string
  pu_EscapedPath :: string
  pu_RawQuery :: string
  pu_String :: string

record web_env =
  we_up :: bool
  we_now :: nat
  we_random :: string
  we_sha256 :: "string \<Rightarrow> string"
  we_bcrypt :: "string \<Rightarrow> string \<Rightarrow> bool"
  we_url :: "string \<Rightarrow> parsed_url option"
  we_home :: string

type_synonym handler = "http_request \<Rightarrow> web_state \<Rightarrow> http_response \<times> web_state"

definition http_error :: "nat \<Rightarrow> string \<Rightarrow> http_response" where
  "http_error code msg = \<lparr>rs_Status = code, rs_Location = [], rs_Body = msg, rs_Cookie = CookieKept\<rparr>"

section \<open>Redirects to the login page\<close>

definition hex_digit :: "nat \<Rightarrow> char" where
  "hex_digit n = (if n < 10 then char_of (48 + n) else char_of (55 + n))"

definition escape_byte :: "char \<Rightarrow> string" where
  "escape_byte c = (if is_upper_byte c \<or> is_lower_byte c \<or> is_digit_byte c \<or> c \<in> set ''-_.~'' then [c]
     else if c = CHR '' '' then ''+'' else [CHR ''%'', hex_digit (byte c div 16), hex_digit (byte c mod 16)])"

definition QueryEscape :: "string \<Rightarrow> string" where
  "QueryEscape s = concat (map escape_byte s)"

definition sanitizeLoginRedirectTarget :: "web_env \<Rightarrow> string \<Rightarrow> string" where
  "sanitizeLoginRedirectTarget E raw =
     (let raw = TrimSpace raw in
      if raw = [] then []
      else let target = (if HasPrefix raw ''/'' then Some raw
          else case we_url E raw of None \<Rightarrow> None
            | Some u \<Rightarrow> Some (if pu_RawQuery u = [] then pu_EscapedPath u else pu_EscapedPath u @ ''?'' @ pu_RawQuery u)) in
        case target of None \<Rightarrow> []
        | Some t \<Rightarrow>
            if t = [] \<or> t = ''/login'' \<or> HasPrefix t ''/login?'' then []
            else if \<not> HasPrefix t ''/'' \<or> HasPrefix t ''//'' then []
            else t)"

definition loginRedirectTarget :: "web_env \<Rightarrow> http_request \<Rightarrow> string" where
  "loginRedirectTarget E r =
     (if TrimSpace (rq_Header r ''HX-Request'') \<noteq> []
      then let t = sanitizeLoginRedirectTarget E (TrimSpace (rq_Header r ''HX-Current-URL'')) in
        if t \<noteq> [] then t else sanitizeLoginRedirectTarget E (TrimSpace (rq_Header r ''Referer''))
      else sanitizeLoginRedirectTarget E (rq_URI r))"

definition redirect_to :: "http_request \<Rightarrow> nat \<Rightarrow> string \<Rightarrow> cookie_change \<Rightarrow> http_response" where
  "redirect_to r hxStatus target cookie =
     \<lparr>rs_Status = (if rq_Header r ''HX-Request'' \<noteq> [] then hxStatus else 302), rs_Location = target, rs_Body = [],
      rs_Cookie = cookie\<rparr>"

text \<open>\<open>redirectToLogin\<close> and \<open>forceLogin\<close> clear the cookie in different ways and answer alike.\<close>

definition redirectToLogin :: "web_env \<Rightarrow> http_request \<Rightarrow> http_response" where
  "redirectToLogin E r =
     (let next = loginRedirectTarget E r in
      redirect_to r 401 (if next = [] then ''/login'' else ''/login?next='' @ QueryEscape next) CookieCleared)"

section \<open>Sessions\<close>

definition session_string :: "session_values \<Rightarrow> string \<Rightarrow> string" where
  "session_string s k = (case s k of Some (SvString x) \<Rightarrow> x | _ \<Rightarrow> [])"

definition session_context :: "session_values \<Rightarrow> request_context \<Rightarrow> request_context option" where
  "session_context s cx =
     (if s ''authenticated'' \<noteq> Some (SvBool True) then None
      else let userID = session_string s ''user_id''; role = session_string s ''user_role'' in
        if userID = [] then None
        else Some (cx\<lparr>cx_UserID := userID, cx_UserEmail := session_string s ''user_email'',
          cx_UserName := session_string s ''user_name'', cx_UserRole := (if role = [] then ''unknown'' else role)\<rparr>))"

definition resolveSession :: "http_request \<Rightarrow> request_context option" where
  "resolveSession r = (case rq_Session r of None \<Rightarrow> None | Some s \<Rightarrow> session_context s (rq_Context r))"

definition RequireAuth :: "web_env \<Rightarrow> handler \<Rightarrow> handler" where
  "RequireAuth E h r st = (case resolveSession r of
       None \<Rightarrow> (redirectToLogin E r, st)
     | Some cx \<Rightarrow> h (r\<lparr>rq_Context := cx\<rparr>) st)"

fun sessionVersionFromValue :: "session_value \<Rightarrow> int option" where
  "sessionVersionFromValue (SvInt v) = Some v"
| "sessionVersionFromValue (SvInt64 v) = Some v"
| "sessionVersionFromValue (SvFloat64 v) = Some v"
| "sessionVersionFromValue _ = None"

definition session_version :: "http_request \<Rightarrow> int option" where
  "session_version r = Option.bind (Option.bind (rq_Session r) (\<lambda>s. s ''session_version'')) sessionVersionFromValue"

definition requireFreshSession :: "web_env \<Rightarrow> handler \<Rightarrow> handler" where
  "requireFreshSession E h r st =
     (let userID = cx_UserID (rq_Context r) in
      if userID = [] then h r st
      else if cx_IsAgent (rq_Context r) then h r st
      else case session_version r of None \<Rightarrow> (redirectToLogin E r, st)
      | Some v \<Rightarrow> (case GetOrInitUserSessionVersion (we_up E) userID (ws_authz st) of
            (Inl e, a) \<Rightarrow> (http_error 500 ''Session security check failed'', st\<lparr>ws_authz := a\<rparr>)
          | (Inr current, a) \<Rightarrow>
              if v \<noteq> int current then (redirectToLogin E r, st\<lparr>ws_authz := a\<rparr>)
              else h r (st\<lparr>ws_authz := a\<rparr>)))"

section \<open>Permissions, app scope and audit\<close>

definition log_security_event :: "web_env \<Rightarrow> string \<Rightarrow> http_request \<Rightarrow> string \<Rightarrow> web_state \<Rightarrow> web_state" where
  "log_security_event E kind r userID st =
     (if we_up E then st\<lparr>ws_events := ws_events st @ [\<lparr>se_Type = kind, se_UserID = userID, se_Path = rq_Path r, se_Method = rq_Method r\<rparr>]\<rparr>
      else st)"

definition redirectForbidden :: "web_env \<Rightarrow> string \<Rightarrow> handler" where
  "redirectForbidden E permission r st =
     (let appID = cx_AppID (rq_Context r); target = ''/forbidden?required='' @ QueryEscape permission in
      (redirect_to r 403 (if appID = [] then target else target @ ''&app_id='' @ QueryEscape appID) CookieKept,
       log_security_event E ''authz_denied'' r (cx_UserID (rq_Context r)) st))"

definition RequirePermission :: "web_env \<Rightarrow> string \<Rightarrow> handler \<Rightarrow> handler" where
  "RequirePermission E permission h r st =
     (let userID = cx_UserID (rq_Context r); appID = cx_AppID (rq_Context r) in
      if userID = [] then redirectForbidden E permission r st
      else case UserHasPermission (we_up E) (we_now E) userID permission appID (ws_authz st) of
          (Inl e, a) \<Rightarrow> redirectForbidden E permission r (st\<lparr>ws_authz := a\<rparr>)
        | (Inr allowed, a) \<Rightarrow> (if allowed then h else redirectForbidden E permission) r (st\<lparr>ws_authz := a\<rparr>))"

definition app_id_byte :: "char \<Rightarrow> bool" where
  "app_id_byte c \<longleftrightarrow> is_upper_byte c \<or> is_lower_byte c \<or> is_digit_byte c \<or> c = CHR ''_'' \<or> c = CHR ''-''"

definition WithAppScope :: "handler \<Rightarrow> handler" where
  "WithAppScope h r st =
     (let q = TrimSpace (rq_Query r ''app_id''); appID = (if q = [] then TrimSpace (rq_Header r ''X-App-ID'') else q) in
      if appID \<noteq> [] \<and> \<not> (length appID \<le> 64 \<and> list_all app_id_byte appID) then (http_error 400 ''Invalid app_id'', st)
      else h (r\<lparr>rq_Context := (rq_Context r)\<lparr>cx_AppID := appID\<rparr>\<rparr>) st)"

definition changing_method :: "string \<Rightarrow> bool" where
  "changing_method m \<longleftrightarrow> m \<in> {''POST'', ''PUT'', ''PATCH'', ''DELETE''}"

definition audit_event :: "http_request \<Rightarrow> nat \<Rightarrow> AuditEvent" where
  "audit_event r status =
     \<lparr>ae_UserID = cx_UserID (rq_Context r), ae_UserEmail = cx_UserEmail (rq_Context r), ae_UserRole = cx_UserRole (rq_Context r),
      ae_Method = rq_Method r, ae_Path = rq_Path r, ae_Status = status,
      ae_IP = (if rq_Header r ''X-Forwarded-For'' = [] then rq_RemoteAddr r else rq_Header r ''X-Forwarded-For''),
      ae_UserAgent = rq_UserAgent r\<rparr>"

definition Audit :: "web_env \<Rightarrow> handler \<Rightarrow> handler" where
  "Audit E h r st = (case h r st of (response, st') \<Rightarrow>
     (response, if changing_method (rq_Method r) \<and> we_up E
        then st'\<lparr>ws_audit := ws_audit st' @ [audit_event r (rs_Status response)]\<rparr> else st'))"

section \<open>Forged requests\<close>

definition ParseBearer :: "string \<Rightarrow> string" where
  "ParseBearer hdr = (if 7 < length hdr \<and> EqualFold (take 7 hdr) ''Bearer '' then TrimSpace (drop 7 hdr) else [])"

definition IsBearerRequest :: "http_request \<Rightarrow> bool" where
  "IsBearerRequest r \<longleftrightarrow> ParseBearer (rq_Header r ''Authorization'') \<noteq> []"

definition csrf_token :: "http_request \<Rightarrow> string" where
  "csrf_token r =
     (let provided = TrimSpace (rq_Header r ''X-CSRF-Token'') in
      if provided \<noteq> [] then provided
      else case rq_Form r of None \<Rightarrow> [] | Some f \<Rightarrow> TrimSpace (f ''csrf_token''))"

definition RequireCSRF :: "handler \<Rightarrow> handler" where
  "RequireCSRF h r st =
     (if IsBearerRequest r then h r st
      else if \<not> changing_method (rq_Method r) then h r st
      else case rq_Session r of None \<Rightarrow> (http_error 403 ''Invalid session'', st)
      | Some s \<Rightarrow>
          let expected = session_string s ''csrf_token'' in
          if expected = [] then (http_error 403 ''Missing CSRF token'', st)
          else if csrf_token r \<noteq> expected then (http_error 403 ''CSRF validation failed'', st)
          else h r st)"

section \<open>Agent tokens\<close>

datatype agent_error = ErrNoAgentToken | ErrAgentRevoked | ErrAgentExpired | ErrAgentInvalid | ErrAgentDatabase

definition IssueAgentToken ::
  "web_env \<Rightarrow> string \<Rightarrow> string \<Rightarrow> string \<Rightarrow> string \<Rightarrow> web_state \<Rightarrow> (agent_error, web_state) result" where
  "IssueAgentToken E freshID userID label raw st =
     (if userID = [] \<or> raw = [] then Inl ErrAgentInvalid
      else if \<not> we_up E then Inl ErrAgentDatabase
      else Inr (st\<lparr>ws_tokens := ws_tokens st @ [\<lparr>tk_ID = freshID, tk_UserID = userID, tk_Hash = we_sha256 E raw,
        tk_Label = label, tk_Revoked = False, tk_ExpiresAt = None, tk_LastUsedAt = None\<rparr>]\<rparr>))"

definition ResolveAgentToken :: "web_env \<Rightarrow> string \<Rightarrow> web_state \<Rightarrow> (agent_error, string) result \<times> web_state" where
  "ResolveAgentToken E raw st =
     (if raw = [] then (Inl ErrNoAgentToken, st)
      else if \<not> we_up E then (Inl ErrAgentDatabase, st)
      else case find (\<lambda>t. tk_Hash t = we_sha256 E raw) (ws_tokens st) of None \<Rightarrow> (Inl ErrNoAgentToken, st)
      | Some t \<Rightarrow>
          if tk_Revoked t then (Inl ErrAgentRevoked, st)
          else if (case tk_ExpiresAt t of None \<Rightarrow> False | Some e \<Rightarrow> e < we_now E) then (Inl ErrAgentExpired, st)
          else (Inr (tk_UserID t), st\<lparr>ws_tokens := map (\<lambda>x. if tk_ID x = tk_ID t then x\<lparr>tk_LastUsedAt := Some (we_now E)\<rparr> else x)
            (ws_tokens st)\<rparr>))"

definition LookupUserIdentity :: "web_env \<Rightarrow> string \<Rightarrow> web_state \<Rightarrow> string \<times> string" where
  "LookupUserIdentity E userID st = (if \<not> we_up E then ([], [])
     else case find (\<lambda>u. us_ID u = userID) (ws_users st) of None \<Rightarrow> ([], []) | Some u \<Rightarrow> (us_Email u, us_Name u))"

definition resolveAgent :: "web_env \<Rightarrow> http_request \<Rightarrow> string \<Rightarrow> web_state \<Rightarrow> request_context option \<times> web_state" where
  "resolveAgent E r token st = (case ResolveAgentToken E token st of
       (Inl e, st') \<Rightarrow> (None, st')
     | (Inr userID, st') \<Rightarrow> (case LookupUserIdentity E userID st' of (email, name) \<Rightarrow>
         (Some ((rq_Context r)\<lparr>cx_UserID := userID, cx_UserEmail := email, cx_UserName := name, cx_UserRole := ''unknown'',
            cx_IsAgent := True\<rparr>), st')))"

definition resolveSessionOrAgent :: "web_env \<Rightarrow> http_request \<Rightarrow> web_state \<Rightarrow> request_context option \<times> web_state" where
  "resolveSessionOrAgent E r st =
     (let token = ParseBearer (rq_Header r ''Authorization'') in
      if token \<noteq> [] then resolveAgent E r token st else (resolveSession r, st))"

definition RequireAuthWithAgents :: "web_env \<Rightarrow> handler \<Rightarrow> handler" where
  "RequireAuthWithAgents E h r st = (case resolveSessionOrAgent E r st of
       (None, st') \<Rightarrow> (redirectToLogin E r, st')
     | (Some cx, st') \<Rightarrow> h (r\<lparr>rq_Context := cx\<rparr>) st')"

section \<open>The routes\<close>

definition withAuth :: "web_env \<Rightarrow> string \<Rightarrow> handler \<Rightarrow> handler" where
  "withAuth E permission h =
     RequireAuth E (requireFreshSession E (Audit E (RequirePermission E permission (WithAppScope (RequireCSRF h)))))"

definition withAuthOrAgentOnly :: "web_env \<Rightarrow> handler \<Rightarrow> handler" where
  "withAuthOrAgentOnly E h = RequireAuthWithAgents E (requireFreshSession E (Audit E (RequireCSRF h)))"

text \<open>A request arrives with nothing in its context.\<close>

definition no_context :: request_context where
  "no_context = \<lparr>cx_UserID = [], cx_UserEmail = [], cx_UserName = [], cx_UserRole = [], cx_AppID = [], cx_IsAgent = False\<rparr>"

definition serve_route :: "web_env \<Rightarrow> string \<Rightarrow> handler \<Rightarrow> handler" where
  "serve_route E permission h r = withAuth E permission h (r\<lparr>rq_Context := no_context\<rparr>)"

definition serve_agent_route :: "web_env \<Rightarrow> handler \<Rightarrow> handler" where
  "serve_agent_route E h r = withAuthOrAgentOnly E h (r\<lparr>rq_Context := no_context\<rparr>)"

text \<open>The permission a route asks for; the other routes of \<open>registerRoutes\<close> are not behind \<open>withAuth\<close>.\<close>

definition viewRoutes :: "string list" where
  "viewRoutes = [''/p/'', ''/api/menu/'', ''/api/search/'', ''/api/notifications/panel'', ''/api/notifications/read-all'',
     ''/api/notifications/open'', ''/api/export/'', ''/api/reference-options'', ''/api/realtime/stream'',
     ''/api/realtime/record-version'', ''/api/realtime/presence/heartbeat'', ''/docs/manage'', ''/docs'', ''/d/'', ''/knowledge'',
     ''/api/preferences/list-view'', ''/api/preferences/theme'', ''/api/preferences/list-view/saved'', ''/map'', ''/task'',
     ''/task/'', ''/t/'', ''/f/'', ''/api/form/security-preview'', ''/api/docs/preview'', ''/api/docs/wikilink-search'',
     ''/api/scripts/scope'', ''/logout'']"

definition adminRoutes :: "string list" where
  "adminRoutes = [''/api/ai/connections'', ''/api/ai/connections/{id}'', ''/api/ai/connections/{id}/models/sync'',
     ''/admin/access'', ''/admin/audit'', ''/admin/monitoring'', ''/admin/scripts'', ''/admin/run-script'', ''/api/scripts/test'',
     ''/api/scripts/run-adhoc'', ''/api/authz/roles/create'', ''/api/authz/permissions/create'', ''/api/authz/user-roles/grant'',
     ''/api/authz/user-roles/revoke'', ''/api/authz/role-permissions/grant'', ''/api/authz/role-permissions/revoke'']"

definition writeRoutes :: "string list" where
  "writeRoutes = [''/builder/schema'', ''/builder/pages'', ''/admin/app-editor'', ''/api/save/'', ''/api/comments/add'',
     ''/api/bulk/update/'', ''/api/delete/'', ''/api/restore/'', ''/api/builder/table/create'', ''/api/builder/table/update'',
     ''/api/builder/table/delete'', ''/api/builder/column/create'', ''/api/builder/column/update'', ''/api/builder/column/delete'',
     ''/api/builder/schema/apply'', ''/api/app-editor/app/create'', ''/api/app-editor/object/save'',
     ''/api/app-editor/object/delete'', ''/api/app-editor/publish'', ''/api/pages/save'', ''/api/root-route/save'',
     ''/api/docs/library/save'', ''/api/docs/library/archive'', ''/api/docs/article/save'', ''/api/docs/article/archive'']"

definition route_permission :: "string \<Rightarrow> string option" where
  "route_permission pattern = (if pattern \<in> set viewRoutes then Some ''view'' else if pattern \<in> set writeRoutes then Some ''write''
     else if pattern \<in> set adminRoutes then Some ''admin'' else None)"

section \<open>Login and logout\<close>

definition sanitizeLoginNext :: "web_env \<Rightarrow> string \<Rightarrow> string" where
  "sanitizeLoginNext E raw =
     (let raw = TrimSpace raw in
      if raw = [] then ''/''
      else case we_url E (ReplaceByte (CHR 0x5C) ''/'' raw) of None \<Rightarrow> ''/''
      | Some u \<Rightarrow>
          if pu_Hostname u \<noteq> [] \<or> pu_Scheme u \<noteq> [] then ''/''
          else if \<not> HasPrefix (pu_Path u) ''/'' \<or> HasPrefix (pu_Path u) ''//'' then ''/''
          else if pu_String u = ''/login'' \<or> HasPrefix (pu_String u) ''/login?'' then ''/''
          else pu_String u)"

text \<open>\<open>effectivePrimaryUserRoleNameQuery\<close>: the first name by priority among the global roles.\<close>

definition primary_role_name :: "authz_tables \<Rightarrow> string \<Rightarrow> string" where
  "primary_role_name t userID =
     (case sort_key (\<lambda>r. (rl_Priority r, rl_Name r)) (filter (\<lambda>r. rl_ID r \<in> effective_roles t userID []) (at_role t)) of
        [] \<Rightarrow> ''viewer'' | r # _ \<Rightarrow> rl_Name r)"

definition handleFailedLogin :: "web_env \<Rightarrow> handler" where
  "handleFailedLogin E r st =
     (let s = (case rq_Session r of None \<Rightarrow> Map.empty | Some s \<Rightarrow> s);
          s' = s(''authenticated'' \<mapsto> SvBool False, ''user_id'' := None, ''user_email'' := None, ''user_name'' := None,
            ''user_role'' := None) in
      (redirect_to r 401 ''/login'' (CookieSaved s'), log_security_event E ''login_failure'' r [] st))"

definition login_session :: "web_env \<Rightarrow> session_values \<Rightarrow> user_row \<Rightarrow> string \<Rightarrow> nat \<Rightarrow> session_values" where
  "login_session E s u role version = s(''authenticated'' \<mapsto> SvBool True, ''user_id'' \<mapsto> SvString (us_ID u),
     ''user_email'' \<mapsto> SvString (us_Email u), ''user_name'' \<mapsto> SvString (us_Name u),
     ''user_role'' \<mapsto> SvString (trim_lower role), ''session_version'' \<mapsto> SvInt (int version),
     ''csrf_token'' \<mapsto> SvString (we_random E))"

definition loginPostHandler :: "web_env \<Rightarrow> handler" where
  "loginPostHandler E r st =
     (if rq_Method r \<noteq> ''POST'' then (http_error 405 ''Method not allowed'', st)
      else case rq_Form r of None \<Rightarrow> (http_error 400 ''Failed to parse form'', st)
      | Some f \<Rightarrow>
          let next = sanitizeLoginNext E (TrimSpace (f ''next'')) in
          case (if we_up E then find (\<lambda>u. us_Email u = f ''email'') (ws_users st) else None) of
            None \<Rightarrow> handleFailedLogin E r st
          | Some u \<Rightarrow>
              if \<not> we_bcrypt E (us_PasswordHash u) (f ''password'') then handleFailedLogin E r st
              else case GetOrInitUserSessionVersion (we_up E) (us_ID u) (ws_authz st) of
                  (Inl e, a) \<Rightarrow> (http_error 500 ''Failed to initialize session security'', st\<lparr>ws_authz := a\<rparr>)
                | (Inr v, a) \<Rightarrow>
                    let s = (case rq_Session r of None \<Rightarrow> Map.empty | Some s \<Rightarrow> s);
                        role = primary_role_name (as_tables (ws_authz st)) (us_ID u) in
                    (redirect_to r 200 (if next = ''/'' then we_home E else next) (CookieSaved (login_session E s u role v)),
                     st\<lparr>ws_authz := a\<rparr>))"

definition handleLogout :: handler where
  "handleLogout r st = (if rq_Method r \<noteq> ''POST'' then (http_error 405 ''Method not allowed'', st)
     else (redirect_to r 200 ''/login'' CookieCleared, st))"

end
