(* ===== verification/RecordSave.thy ===== *)
theory RecordSave
  imports SecurityRules MetadataCache AppDispatch HttpAuth
begin

text \<open>
  The save of a record (\<open>internal/db/HandleSave.go\<close>, \<open>AppRuntimeMutation.go\<close>, \<open>RecordID.go\<close>,
  \<open>TaskType.go\<close>, \<open>applyBuiltinRecordTransforms\<close> of \<open>AIConnectionForm.go\<close>): the whole handler, from the
  form to the statement that writes the row and the effects after the commit.

  The texts of a few answers with status 400 are those of the underlying check in the code; the model has
  one word for each check. The handler reads the stored record before its transaction begins: it is cut in two there. The first
  part maps the request and the store to a refusal or to a prepared save; the second runs on the store
  as it is then. The scripts of the triggers run inside the transaction; \<open>sv_script_writes\<close> is what they
  write to other rows. What the database makes of a statement is the record \<open>pg\<close>: the error of a refused
  statement is the code and message of a \<open>PgError\<close>, or \<open>None\<close> for any other error.
\<close>

section \<open>Types of tasks\<close>

fun take_field :: "string \<Rightarrow> string" where
  "take_field [] = []"
| "take_field (c # cs) = (if starts_ws ws2 ws3 (c # cs) then [] else c # take_field cs)"

lemma take_field_prefix: "prefix (take_field s) s"
  by (induction s) auto

lemma length_TrimLeftSpace: "length (TrimLeftSpace s) \<le> length s"
  unfolding TrimLeftSpace_def by (rule suffix_length_le[OF skip_ws_suffix])

function Fields :: "string \<Rightarrow> string list" where
  "Fields s = (let t = TrimLeftSpace s; w = take_field t in if w = [] then [] else w # Fields (drop (length w) t))"
  by pat_completeness auto

termination
proof (relation "measure length")
  show "(drop (length w) t, s) \<in> measure length" if "t = TrimLeftSpace s" "w = take_field t" "w \<noteq> []" for s t w
    using that length_TrimLeftSpace[of s] prefix_length_le[OF take_field_prefix[of t]]
    by (cases "take_field (TrimLeftSpace s)") simp_all
qed simp

declare Fields.simps [simp del]

definition normalizeTaskTypeValue :: "string \<Rightarrow> string" where
  "normalizeTaskTypeValue v =
     (let t = TrimSpace v in
      if t = [] then []
      else ToUpper (Join (Fields (map (\<lambda>c. if c = CHR ''_'' \<or> c = CHR ''-'' then CHR '' '' else c) t)) '' ''))"

definition TaskTypeValueForTable :: "(string \<Rightarrow> nat) \<Rightarrow> metadata_source \<Rightarrow> string \<Rightarrow> string" where
  "TaskTypeValueForTable prio src tableName =
     (let n = trim_lower tableName in
      if n = [] \<or> \<not> IsSafeIdentifier n then []
      else if n = ''base_task'' then ''TASK''
      else case fst (FindYAMLTableByName src n None) of
          Inr (Some (app, t)) \<Rightarrow>
            if ra_Definition app = None then []
            else (case ms_apps src of Inl e \<Rightarrow> []
              | Inr apps \<Rightarrow>
                  if \<not> taskDefinitionExtendsTarget prio apps app t ''base_task'' [] then []
                  else let label = TrimSpace (dt_LabelSingular t) in
                    normalizeTaskTypeValue (if label = [] then scriptScopeAliasForTable app (dt_Name t) else label))
        | _ \<Rightarrow> [])"

section \<open>Identifiers of records\<close>

definition integer_id_types :: "string list" where
  "integer_id_types = [''int'', ''integer'', ''bigint'', ''bigserial'', ''serial'']"

definition recordIDKind :: "Column list \<Rightarrow> string" where
  "recordIDKind columns = (case find (\<lambda>c. co_NAME c = ''_id'') columns of None \<Rightarrow> ''uuid''
     | Some c \<Rightarrow> if ToLower (TrimSpace (co_DATA_TYPE c)) \<in> set integer_id_types then ''int'' else ''uuid'')"

text \<open>The key of the row the identifier denotes, in the form the database prints it.\<close>

definition ParseRecordIDValue :: "Column list \<Rightarrow> string \<Rightarrow> string option" where
  "ParseRecordIDValue columns i =
     (let t = TrimSpace i in
      if t = [] then None
      else if recordIDKind columns = ''int''
        then (case ParseInt10 t of None \<Rightarrow> None | Some v \<Rightarrow> if v \<le> 0 then None else Some (Itoa v))
      else if IsValidUUID t then Some (ToLower t) else None)"

definition IsValidRecordID :: "Column list \<Rightarrow> string \<Rightarrow> bool" where
  "IsValidRecordID columns i \<longleftrightarrow> TrimSpace i = ''new'' \<or> ParseRecordIDValue columns i \<noteq> None"

section \<open>The environment of a save\<close>

type_synonym record_store = "string \<Rightarrow> string \<rightharpoonup> record_map"

type_synonym pg_error = "(string \<times> string) option"

text \<open>A column, its value or NULL, and the cast of its placeholder.\<close>

type_synonym assignment = "string \<times> string option \<times> string"

record pg =
  pg_insert :: "string \<Rightarrow> assignment list \<Rightarrow> record_store \<Rightarrow> (pg_error, string \<times> record_map) result"
  pg_update :: "string \<Rightarrow> assignment list \<Rightarrow> record_map \<Rightarrow> (pg_error, record_map) result"
  pg_same_time :: "string \<Rightarrow> gval \<Rightarrow> bool"

record save_env =
  sv_prio :: "string \<Rightarrow> nat"
  sv_source :: metadata_source
  sv_now :: gotime
  sv_nowText :: string
  sv_member :: "string \<Rightarrow> string \<Rightarrow> bool option"
  sv_checkers :: checkers
  sv_roles :: "string \<Rightarrow> string \<Rightarrow> (app_error, string list) result"
  sv_order :: "(string \<rightharpoonup> RegisteredApp) \<Rightarrow> RegisteredApp list"
  sv_scopes :: "string \<Rightarrow> app_error option"
  sv_engine :: "ScriptExecutionOptions \<Rightarrow> (app_error, ScriptExecutionResult) result"
  sv_script_writes :: "record_store \<Rightarrow> record_store"
  sv_unmarshal :: "string \<Rightarrow> gval option"
  sv_marshal :: "gval \<Rightarrow> string"
  sv_encrypt :: "string \<Rightarrow> (string \<times> string) option"
  sv_pg :: pg
  sv_begins :: bool
  sv_commits :: bool
  sv_freshID :: "string option"

record save_request =
  sq_Method :: string
  sq_Path :: string
  sq_HX :: bool
  sq_User :: string
  sq_FormParses :: bool
  sq_FormValue :: "string \<Rightarrow> string"
  sq_PostForm :: "(string \<times> string list) list"

datatype save_effect =
    AuthzSideEffect authz_effect
  | SyncConnection string
  | DataChange string string string string record_map record_map
  | TaskNotifications string string string string record_map record_map
  | RecordChange string string string string string

section \<open>The form\<close>

definition form_put :: "string \<Rightarrow> 'a \<Rightarrow> (string \<times> 'a) list \<Rightarrow> (string \<times> 'a) list" where
  "form_put k v form = (k, v) # filter (\<lambda>kv. fst kv \<noteq> k) form"

definition form_delete :: "string \<Rightarrow> (string \<times> 'a) list \<Rightarrow> (string \<times> 'a) list" where
  "form_delete k form = filter (\<lambda>kv. fst kv \<noteq> k) form"

definition column_named :: "Column list \<Rightarrow> string \<Rightarrow> Column option" where
  "column_named columns n = find (\<lambda>c. co_NAME c = n) (rev columns)"

definition is_system_name :: "string \<Rightarrow> bool" where
  "is_system_name n \<longleftrightarrow> HasPrefix n ''_''"

record save_form =
  sf_id :: string
  sf_form :: form_map
  sf_nulls :: "string set"

text \<open>The loop over the fields of the form, in the order the map gives them.\<close>

fun read_fields :: "Column list \<Rightarrow> (string \<times> string list) list \<Rightarrow> save_form \<Rightarrow> (http_response, save_form) result" where
  "read_fields columns [] sf = Inr sf"
| "read_fields columns ((k, vs) # rest) sf =
     (if vs = [] then read_fields columns rest sf
      else if k = ''_id'' then read_fields columns rest (sf\<lparr>sf_id := hd vs\<rparr>)
      else if isSaveTransportField k \<or> is_system_name k then read_fields columns rest sf
      else case column_named columns k of None \<Rightarrow> Inl (http_error 400 ''Invalid field in request'')
      | Some c \<Rightarrow>
          if \<not> IsSafeIdentifier k then Inl (http_error 400 ''Invalid field in request'')
          else case NormalizeSubmittedColumnValue c (TrimSpace (last vs)) of
              None \<Rightarrow> Inl (http_error 400 ''invalid JSON value'')
            | Some (v, isNull) \<Rightarrow> read_fields columns rest (sf\<lparr>sf_form := form_put k v (sf_form sf),
                sf_nulls := (if isNull then insert k (sf_nulls sf) else sf_nulls sf)\<rparr>))"

definition put_value :: "string \<Rightarrow> string \<Rightarrow> save_form \<Rightarrow> save_form" where
  "put_value k v sf = sf\<lparr>sf_form := form_put k v (sf_form sf), sf_nulls := sf_nulls sf - {k}\<rparr>"

definition has_column :: "Column list \<Rightarrow> string \<Rightarrow> bool" where
  "has_column columns n \<longleftrightarrow> n \<in> co_NAME ` set columns"

definition set_task_type :: "save_env \<Rightarrow> string \<Rightarrow> Column list \<Rightarrow> save_form \<Rightarrow> save_form" where
  "set_task_type E tableName columns sf =
     (let v = TaskTypeValueForTable (sv_prio E) (sv_source E) tableName in
      if v \<noteq> [] \<and> has_column columns ''work_type'' then put_value ''work_type'' v sf else sf)"

definition stamp :: "Column list \<Rightarrow> string \<Rightarrow> string \<Rightarrow> save_form \<Rightarrow> save_form" where
  "stamp columns k v sf = (if has_column columns k then sf\<lparr>sf_form := form_put k v (sf_form sf)\<rparr> else sf)"

definition form_fun :: "save_form \<Rightarrow> string \<rightharpoonup> string" where
  "form_fun sf = map_of (sf_form sf)"

section \<open>Triggers and the form\<close>

definition runtimeFieldValue :: "save_env \<Rightarrow> Column \<Rightarrow> string \<Rightarrow> bool \<Rightarrow> gval option" where
  "runtimeFieldValue E c normalized isNull =
     (if isNull then Some GNil
      else let dt = normalizeDataType (co_DATA_TYPE c) in
        if dt \<in> {''bool'', ''boolean''} then Some (GBool (EqualFold normalized ''true''))
        else if dt \<in> {''int'', ''integer'', ''serial'', ''bigint'', ''bigserial''}
          then map_option GInt (ParseInt10 normalized)
        else if dt \<in> {''float'', ''double'', ''decimal'', ''numeric''} then map_option GFloat (ParseFloat normalized)
        else if dt \<in> {''json'', ''jsonb''}
          then (if TrimSpace normalized = [] then Some GNil else sv_unmarshal E normalized)
        else Some (GStr normalized))"

fun build_fields :: "save_env \<Rightarrow> Column list \<Rightarrow> string set \<Rightarrow> form_map \<Rightarrow> record_map \<Rightarrow> record_map option" where
  "build_fields E columns nulls [] r = Some r"
| "build_fields E columns nulls ((k, v) # form) r =
     (case column_named columns k of None \<Rightarrow> build_fields E columns nulls form r
      | Some c \<Rightarrow> (case runtimeFieldValue E c v (k \<in> nulls) of None \<Rightarrow> None
          | Some g \<Rightarrow> build_fields E columns nulls form (form_put k g r)))"

text \<open>Names in \<open>nullColumns\<close> without an entry in \<open>formData\<close> do not occur before the triggers run.\<close>

definition buildRuntimeTriggerRecord :: "save_env \<Rightarrow> Column list \<Rightarrow> record_map \<Rightarrow> save_form \<Rightarrow> record_map option" where
  "buildRuntimeTriggerRecord E columns base sf = build_fields E columns (sf_nulls sf) (sf_form sf) base"

fun scriptAnyToString :: "save_env \<Rightarrow> gval \<Rightarrow> string option" where
  "scriptAnyToString E GNil = Some []"
| "scriptAnyToString E (GStr s) = Some s"
| "scriptAnyToString E (GBool b) = Some (Sprint (GBool b))"
| "scriptAnyToString E (GInt i) = Some (Sprint (GInt i))"
| "scriptAnyToString E (GFloat f) = Some (Sprint (GFloat f))"
| "scriptAnyToString E (GList vs) = Some (sv_marshal E (GList vs))"
| "scriptAnyToString E (GMap kvs) = Some (sv_marshal E (GMap kvs))"
| "scriptAnyToString E _ = None"

definition normalizeScriptColumnValue :: "save_env \<Rightarrow> Column \<Rightarrow> gval \<Rightarrow> (string \<times> bool) option" where
  "normalizeScriptColumnValue E c value =
     (if (case value of GNil \<Rightarrow> True | _ \<Rightarrow> False) then Some ([], True)
      else case scriptAnyToString E value of None \<Rightarrow> None
      | Some raw \<Rightarrow> (case NormalizeSubmittedValue (co_DATA_TYPE c) (TrimSpace raw) of None \<Rightarrow> None
          | Some n \<Rightarrow>
              if shouldStoreNullForBlankColumn c (TrimSpace raw) n then Some ([], True)
              else if n \<noteq> [] \<and> validateColumnValue (sv_checkers E) c n \<noteq> None then None
              else Some (n, False)))"

text \<open>The entries of a Go map, each key once.\<close>

definition entries :: "(string \<times> 'a) list \<Rightarrow> (string \<times> 'a) list" where
  "entries r = map (\<lambda>k. (k, the (map_of r k))) (remdups (map fst r))"

fun apply_fields :: "save_env \<Rightarrow> Column list \<Rightarrow> record_map \<Rightarrow> bool \<Rightarrow> record_map \<Rightarrow> save_form \<Rightarrow> save_form option" where
  "apply_fields E columns previous isCreate [] sf = Some sf"
| "apply_fields E columns previous isCreate ((k, raw) # rest) sf =
     (if is_system_name k then apply_fields E columns previous isCreate rest sf
      else case column_named columns k of None \<Rightarrow> apply_fields E columns previous isCreate rest sf
      | Some c \<Rightarrow> (case normalizeScriptColumnValue E c raw of None \<Rightarrow> None
          | Some (n, isNull) \<Rightarrow>
              if \<not> isCreate \<and> (if isNull then [] else n) = comparableSnapshotValue c (snapshot_get previous k)
              then apply_fields E columns previous isCreate rest sf
              else apply_fields E columns previous isCreate rest
                (if isNull then sf\<lparr>sf_nulls := insert k (sf_nulls sf)\<rparr> else put_value k n sf)))"

definition drop_fields :: "Column list \<Rightarrow> save_form \<Rightarrow> save_form" where
  "drop_fields columns sf =
     (let gone = (\<lambda>k. \<not> is_system_name k \<and> has_column columns k) in
      sf\<lparr>sf_form := filter (\<lambda>kv. \<not> gone (fst kv)) (sf_form sf), sf_nulls := {k \<in> sf_nulls sf. \<not> gone k}\<rparr>)"

definition applyRuntimeTriggerRecordToFormData ::
  "save_env \<Rightarrow> Column list \<Rightarrow> record_map \<Rightarrow> record_map \<Rightarrow> bool \<Rightarrow> save_form \<Rightarrow> save_form option" where
  "applyRuntimeTriggerRecordToFormData E columns current previous isCreate sf =
     apply_fields E columns previous isCreate (entries current) (drop_fields columns sf)"

definition applyBuiltinRecordTransforms :: "save_env \<Rightarrow> string \<Rightarrow> save_form \<Rightarrow> save_form" where
  "applyBuiltinRecordTransforms E tableName sf =
     (if ToLower (TrimSpace tableName) \<noteq> ''_ai_connection'' then sf
      else let plaintext = TrimSpace (form_get (form_fun sf) ''api_key'');
          sf' = sf\<lparr>sf_form := form_delete ''api_key'' (sf_form sf), sf_nulls := sf_nulls sf - {''api_key''}\<rparr> in
        if plaintext = [] then sf'
        else case sv_encrypt E plaintext of None \<Rightarrow> sf'
          | Some (enc, fingerprint) \<Rightarrow> sf'\<lparr>sf_form := form_put ''api_key_fingerprint'' fingerprint
              (form_put ''api_key_enc'' enc (sf_form sf'))\<rparr>)"

definition filterSubmittedColumns :: "Column list \<Rightarrow> save_form \<Rightarrow> save_form" where
  "filterSubmittedColumns columns sf = sf\<lparr>sf_form := filter (\<lambda>kv. has_column columns (fst kv)) (sf_form sf),
     sf_nulls := {k \<in> sf_nulls sf. has_column columns k}\<rparr>"

section \<open>The first part\<close>

record prepared_save =
  pr_table :: string
  pr_columns :: "Column list"
  pr_form :: save_form
  pr_old :: record_map
  pr_user :: string
  pr_version :: string
  pr_updatedAt :: string
  pr_formName :: string
  pr_client :: string

definition is_create :: "string \<Rightarrow> bool" where
  "is_create i \<longleftrightarrow> i = [] \<or> i = ''new''"

definition see_other :: "string \<Rightarrow> http_response" where
  "see_other target = \<lparr>rs_Status = 303, rs_Location = target, rs_Body = [], rs_Cookie = CookieKept\<rparr>"

text \<open>
  The record as the page sees it, one value per column of the view: no value at all (\<open>[]\<close>) when the row
  cannot be read, and \<open>None\<close> when the code panics, which it does on a table that is not found.
\<close>

definition record_of_row :: "Column list \<Rightarrow> record_map \<Rightarrow> record_map" where
  "record_of_row columns r = map (\<lambda>c. (co_NAME c, snapshot_get r (co_NAME c))) columns"

definition quotable_view :: "Table \<Rightarrow> Column list \<Rightarrow> bool" where
  "quotable_view t columns \<longleftrightarrow> list_all (\<lambda>c. IsSafeIdentifier (co_NAME c)) columns \<and> IsSafeIdentifier (tb_NAME t)"

definition GetRecord :: "save_env \<Rightarrow> record_store \<Rightarrow> string \<Rightarrow> string \<Rightarrow> record_map option" where
  "GetRecord E st tableName i =
     (let view = fst (GetView (sv_prio E) (sv_source E) tableName None); columns = vi_Columns view in
      case vi_Table view of None \<Rightarrow> None
      | Some t \<Rightarrow>
          if tb_ID t = [] \<or> i = [] then Some []
          else if TrimSpace i = ''new'' then Some (map (\<lambda>c. (co_NAME c, GNil)) columns)
          else if \<not> quotable_view t columns then Some []
          else (case ParseRecordIDValue columns i of None \<Rightarrow> Some []
            | Some key \<Rightarrow> (case st (tb_NAME t) key of None \<Rightarrow> Some []
                | Some r \<Rightarrow> Some (record_of_row columns r))))"

definition loadRecordSnapshot :: "save_env \<Rightarrow> record_store \<Rightarrow> string \<Rightarrow> string \<Rightarrow> record_map" where
  "loadRecordSnapshot E st tableName i = (case GetRecord E st tableName i of None \<Rightarrow> [] | Some r \<Rightarrow> r)"

text \<open>The snapshot inside the transaction comes from the script query, which leaves deleted records out.\<close>

definition deleted_row :: "Column list \<Rightarrow> record_map \<Rightarrow> bool" where
  "deleted_row columns r \<longleftrightarrow> has_column columns ''_deleted_at'' \<and>
     (case snapshot_get r ''_deleted_at'' of GNil \<Rightarrow> False | _ \<Rightarrow> True)"

definition loadRecordSnapshotWithQuerier :: "save_env \<Rightarrow> record_store \<Rightarrow> string \<Rightarrow> string \<Rightarrow> record_map" where
  "loadRecordSnapshotWithQuerier E st tableName recordID =
     (let i = TrimSpace recordID; t = trim_lower tableName;
        view = fst (GetView (sv_prio E) (sv_source E) t None); columns = vi_Columns view in
      if is_create i \<or> \<not> IsSafeIdentifier t then []
      else case vi_Table view of None \<Rightarrow> []
      | Some tbl \<Rightarrow>
          if tb_ID tbl = [] \<or> \<not> quotable_view tbl columns then []
          else (case ParseRecordIDValue columns i of None \<Rightarrow> []
            | Some key \<Rightarrow> (case st (tb_NAME tbl) key of None \<Rightarrow> []
                | Some r \<Rightarrow> if deleted_row columns r then [] else record_of_row columns r)))"

definition write_checks :: "save_env \<Rightarrow> string \<Rightarrow> Column list \<Rightarrow> bool \<Rightarrow> save_form \<Rightarrow> string option" where
  "write_checks E tableName columns isCreate sf =
     (case ValidateMetadataWrite (sv_member E) tableName (form_fun sf) of Some e \<Rightarrow> Some ''metadata''
      | None \<Rightarrow> (case ValidateFormWrite (sv_checkers E) (sv_now E) columns (form_fun sf) isCreate of
          Some e \<Rightarrow> Some ''form'' | None \<Rightarrow> None))"

definition stamp_user :: "save_env \<Rightarrow> Column list \<Rightarrow> string \<Rightarrow> save_form \<Rightarrow> save_form" where
  "stamp_user E columns user sf =
     (let touched = stamp columns ''_updated_at'' (sv_nowText E) (stamp columns ''_updated_by'' user sf) in
      if is_create (sf_id sf) then stamp columns ''_created_at'' (sv_nowText E) (stamp columns ''_created_by'' user touched)
      else touched)"

definition save_prepare :: "save_env \<Rightarrow> save_request \<Rightarrow> record_store \<Rightarrow> (http_response, prepared_save) result" where
  "save_prepare E q st =
     (let tableName = TrimPrefix (sq_Path q) ''/api/save/'' in
      if sq_Method q \<noteq> ''POST'' then Inl (http_error 405 ''Invalid method'')
      else if \<not> IsSafeIdentifier tableName then Inl (http_error 400 ''Invalid table name'')
      else if IsImmutableTableName tableName then Inl (http_error 403 ''Table is read-only'')
      else let view = fst (GetView (sv_prio E) (sv_source E) tableName None); columns = vi_Columns view in
      if (case vi_Table view of None \<Rightarrow> True | Some t \<Rightarrow> tb_ID t = []) then Inl (http_error 404 ''Table not found'')
      else if \<not> sq_FormParses q then Inl (http_error 400 ''Failed to parse form'')
      else let updatedAt = TrimSpace (sq_FormValue q ''expected_updated_at'');
          version = TrimSpace (sq_FormValue q ''expected_version'');
          formName = normalizeRuntimeFormName (sq_FormValue q ''form_name'') in
      case read_fields columns (sq_PostForm q) \<lparr>sf_id = [], sf_form = [], sf_nulls = {}\<rparr> of Inl resp \<Rightarrow> Inl resp
      | Inr submitted \<Rightarrow>
          let sf = set_task_type E tableName columns submitted; i = sf_id sf in
          if \<not> is_create i \<and> \<not> IsValidRecordID columns i then Inl (http_error 400 ''Invalid record ID'')
          else let old = (if is_create i then [] else loadRecordSnapshot E st tableName i) in
          if \<not> is_create i \<and> \<not> submittedFormHasChanges columns (sf_form sf) (sf_nulls sf) old
          then Inl (if sq_HX q then http_error 204 [] else see_other (recordFormRedirectTarget tableName i formName))
          else case write_checks E tableName columns (is_create i) sf of Some msg \<Rightarrow> Inl (http_error 400 msg)
          | None \<Rightarrow>
              if sq_User q = [] then Inl (http_error 403 ''Unable to identify the user making the update'')
              else Inr \<lparr>pr_table = tableName, pr_columns = columns, pr_form = stamp_user E columns (sq_User q) sf, pr_old = old,
                pr_user = sq_User q, pr_version = (if version = [] then updatedAt else version), pr_updatedAt = updatedAt,
                pr_formName = formName, pr_client = TrimSpace (sq_FormValue q ''realtime_client_id'')\<rparr>)"

section \<open>The audit of a change\<close>

definition stringifyValueMap :: "record_map \<Rightarrow> form_map" where
  "stringifyValueMap values = map (\<lambda>(k, v). (k, case v of GNil \<Rightarrow> [] | GStr s \<Rightarrow> s | _ \<Rightarrow> Sprint v))
     (filter (\<lambda>kv. \<not> is_system_name (fst kv)) (entries values))"

text \<open>The changed fields, each with its old and its new text.\<close>

definition makeFieldDiff :: "form_map \<Rightarrow> form_map \<Rightarrow> (string \<times> string \<times> string) list" where
  "makeFieldDiff old new =
     map (\<lambda>(k, v). (k, v, form_get (map_of new) k)) (filter (\<lambda>(k, v). v \<noteq> form_get (map_of new) k) old)
     @ map (\<lambda>(k, v). (k, [], v)) (filter (\<lambda>(k, v). map_of old k = None) new)"

record data_change =
  dc_UserID :: string
  dc_TableName :: string
  dc_RecordID :: string
  dc_Operation :: string
  dc_FieldDiff :: "(string \<times> string \<times> string) list"
  dc_OldValues :: form_map
  dc_NewValues :: form_map

text \<open>The row of the audit table; the observability events derived from it are not modelled.\<close>

definition CaptureDataChange ::
  "string \<Rightarrow> string \<Rightarrow> string \<Rightarrow> string \<Rightarrow> record_map \<Rightarrow> record_map \<Rightarrow> data_change option" where
  "CaptureDataChange userID tableName recordID operation oldValues newValues =
     (let old = stringifyValueMap oldValues; new = stringifyValueMap newValues in
      if userID = [] \<or> tableName = [] \<or> recordID = [] then None
      else Some \<lparr>dc_UserID = TrimSpace userID, dc_TableName = TrimSpace tableName, dc_RecordID = TrimSpace recordID,
        dc_Operation = TrimSpace operation, dc_FieldDiff = makeFieldDiff old new, dc_OldValues = old, dc_NewValues = new\<rparr>)"

section \<open>The second part\<close>

definition scriptColumnCast :: "string \<Rightarrow> string" where
  "scriptColumnCast dataType =
     (let dt = normalizeDataType dataType in
      if dt \<in> {''uuid'', ''reference''} then ''::uuid''
      else if dt \<in> {''bool'', ''boolean''} then ''::boolean''
      else if dt \<in> {''int'', ''integer'', ''serial''} then ''::integer''
      else if dt \<in> {''bigint'', ''bigserial''} then ''::bigint''
      else if dt \<in> {''float'', ''double''} then ''::double precision''
      else if dt \<in> {''decimal'', ''numeric''} then ''::numeric''
      else if dt = ''json'' then ''::json'' else if dt = ''jsonb'' then ''::jsonb''
      else if dt = ''date'' then ''::date''
      else if dt \<in> {''timestamp'', ''datetime''} then ''::timestamp''
      else if dt = ''timestamptz'' then ''::timestamptz''
      else [])"

text \<open>Column names are quoted: \<open>None\<close> when one is not an identifier.\<close>

definition assignments :: "Column list \<Rightarrow> save_form \<Rightarrow> string list \<Rightarrow> assignment list option" where
  "assignments columns sf names =
     (if list_ex (\<lambda>k. \<not> IsSafeIdentifier k) names then None
      else Some (map (\<lambda>k. (k, if k \<in> sf_nulls sf then None else Some (form_get (form_fun sf) k),
        case column_named columns k of None \<Rightarrow> [] | Some c \<Rightarrow> scriptColumnCast (co_DATA_TYPE c))) names))"

definition buildInsertColumnsAndValues :: "Column list \<Rightarrow> save_form \<Rightarrow> assignment list option" where
  "buildInsertColumnsAndValues columns sf =
     assignments columns sf (sorted_list_of_set (fst ` set (sf_form sf) \<union> sf_nulls sf))"

definition buildUpdateColumnsAndValues :: "Column list \<Rightarrow> save_form \<Rightarrow> assignment list option" where
  "buildUpdateColumnsAndValues columns sf = assignments columns sf (sorted_list_of_set (fst ` set (sf_form sf)))"

definition is_count :: "int \<Rightarrow> gval \<Rightarrow> bool" where
  "is_count n g \<longleftrightarrow> (case g of GInt m \<Rightarrow> m = n | _ \<Rightarrow> False)"

lemma is_count_iff: "is_count n g \<longleftrightarrow> g = GInt n"
  by (cases g) (auto simp: is_count_def)

text \<open>The condition on the version of the row: \<open>None\<close> for a version that is not a number.\<close>

definition version_condition :: "save_env \<Rightarrow> Column list \<Rightarrow> string \<Rightarrow> string \<Rightarrow> (record_map \<Rightarrow> bool) option" where
  "version_condition E columns version updatedAt =
     (if version \<noteq> [] \<and> has_column columns ''_update_count''
      then (case ParseInt10 version of None \<Rightarrow> None
        | Some n \<Rightarrow> if n < 0 then None else Some (\<lambda>r. is_count n (snapshot_get r ''_update_count'')))
      else if updatedAt \<noteq> [] \<and> has_column columns ''_updated_at''
      then Some (\<lambda>r. pg_same_time (sv_pg E) updatedAt (snapshot_get r ''_updated_at''))
      else Some (\<lambda>_. True))"

definition put_row :: "string \<Rightarrow> string \<Rightarrow> record_map \<Rightarrow> record_store \<Rightarrow> record_store" where
  "put_row t key r st = st(t := (st t)(key \<mapsto> r))"

definition save_database_error :: "pg_error \<Rightarrow> http_response" where
  "save_database_error e = (case classifySaveDatabaseError e of
     Some (message, status) \<Rightarrow> http_error status message | None \<Rightarrow> http_error 500 ''Failed to save record'')"

text \<open>The statement of the save: the key of the row, the row and the store, or a refusal.\<close>

definition write_row :: "save_env \<Rightarrow> prepared_save \<Rightarrow> save_form \<Rightarrow> record_store \<Rightarrow> (http_response, string \<times> record_store) result" where
  "write_row E p sf st =
     (let t = pr_table p; columns = pr_columns p in
      if is_create (sf_id (pr_form p)) then
        (case buildInsertColumnsAndValues columns sf of None \<Rightarrow> Inl (http_error 400 ''Invalid field in request'')
         | Some asg \<Rightarrow> (case pg_insert (sv_pg E) t asg st of Inl e \<Rightarrow> Inl (save_database_error e)
             | Inr (key, r) \<Rightarrow> Inr (key, put_row t key r st)))
      else case buildUpdateColumnsAndValues columns sf of None \<Rightarrow> Inl (http_error 400 ''Invalid field in request'')
      | Some asg \<Rightarrow> (case ParseRecordIDValue columns (sf_id (pr_form p)) of None \<Rightarrow> Inl (http_error 400 ''Invalid record ID'')
          | Some key \<Rightarrow> (case version_condition E columns (pr_version p) (pr_updatedAt p) of
              None \<Rightarrow> Inl (http_error 400 ''Invalid record version'')
            | Some matches \<Rightarrow> (case st t key of
                Some r \<Rightarrow>
                  if \<not> matches r then Inl (http_error 409 ''Record changed by another user; refresh and try again'')
                  else (case pg_update (sv_pg E) t asg r of Inl e \<Rightarrow> Inl (save_database_error e)
                    | Inr r' \<Rightarrow> Inr (key, put_row t key r' st))
              | None \<Rightarrow> Inl (if pr_version p \<noteq> [] \<and> has_column columns ''_update_count'' \<or>
                    pr_updatedAt p \<noteq> [] \<and> has_column columns ''_updated_at''
                  then http_error 409 ''Record changed by another user; refresh and try again''
                  else http_error 404 ''Record not found'')))))"

definition run_triggers_of :: "save_env \<Rightarrow> prepared_save \<Rightarrow> record_map \<Rightarrow> (app_error, record_map) result" where
  "run_triggers_of E p r = RunAppBeforeWriteTriggersWithQuerier (sv_now E) (sv_order E) (sv_scopes E) (sv_engine E)
     (ms_apps (sv_source E)) (pr_table p) (if is_create (sf_id (pr_form p)) then ''record.insert'' else ''record.update'')
     (pr_user p) [] r (pr_old p)"

definition evaluator_of :: "save_env \<Rightarrow> prepared_save \<Rightarrow> (app_error, TableSecurityEvaluator option) result" where
  "evaluator_of E p = LoadTableSecurityEvaluator (sv_roles E) (ms_apps (sv_source E)) (pr_table p) (pr_user p)"

text \<open>The identifier of a new record is allocated only for tables that show it.\<close>

definition allocate_id :: "save_env \<Rightarrow> prepared_save \<Rightarrow> save_form option" where
  "allocate_id E p = (if \<not> (is_create (sf_id (pr_form p)) \<and> has_column (pr_columns p) ''_id'') then Some (pr_form p)
     else map_option (\<lambda>i. put_value ''_id'' i (pr_form p)) (sv_freshID E))"

text \<open>The form as it is written: after the triggers, the transforms and the type of the task.\<close>

definition final_form :: "save_env \<Rightarrow> prepared_save \<Rightarrow> save_form \<Rightarrow> record_map \<Rightarrow> save_form option" where
  "final_form E p sf triggered = map_option (\<lambda>x. set_task_type E (pr_table p) (pr_columns p)
       (filterSubmittedColumns (pr_columns p) (applyBuiltinRecordTransforms E (pr_table p) x)))
     (applyRuntimeTriggerRecordToFormData E (pr_columns p) triggered (pr_old p) (is_create (sf_id (pr_form p))) sf)"

definition security_allows :: "save_env \<Rightarrow> prepared_save \<Rightarrow> save_form \<Rightarrow> TableSecurityEvaluator option \<Rightarrow> bool" where
  "security_allows E p sf sev \<longleftrightarrow> AllowsFields (sv_now E) sev (if is_create (sf_id (pr_form p)) then ''C'' else ''U'')
     (ChangedRecordFields (pr_columns p) (pr_old p) (sf_form sf) (sf_nulls sf))
     (MergeRecordSnapshot (pr_old p) (sf_form sf) (sf_nulls sf))"

definition after_commit :: "prepared_save \<Rightarrow> string \<Rightarrow> record_map \<Rightarrow> save_effect list" where
  "after_commit p key new =
     (let t = pr_table p; op = (if is_create (sf_id (pr_form p)) then ''insert'' else ''update'') in
      map AuthzSideEffect (applyAuthzSaveSideEffects t (pr_old p) new)
      @ (if t = ''_ai_connection'' then [SyncConnection key] else [])
      @ [DataChange (pr_user p) t key op (pr_old p) new, TaskNotifications t key op (pr_user p) (pr_old p) new,
         RecordChange t key op (pr_user p) (pr_client p)])"

definition save_commit ::
  "save_env \<Rightarrow> prepared_save \<Rightarrow> record_store \<Rightarrow> (http_response, string \<times> record_store \<times> save_effect list) result" where
  "save_commit E p st =
     (let isCreate = is_create (sf_id (pr_form p)) in
      if \<not> sv_begins E then Inl (http_error 500 ''Failed to save record'')
      else case allocate_id E p of None \<Rightarrow> Inl (http_error 500 ''Failed to save record'')
      | Some sf \<Rightarrow> (case buildRuntimeTriggerRecord E (pr_columns p) (pr_old p) sf of
          None \<Rightarrow> Inl (http_error 400 ''invalid value'')
        | Some r \<Rightarrow> (case run_triggers_of E p r of Inl e \<Rightarrow> Inl (http_error 400 ''trigger'')
            | Inr triggered \<Rightarrow> (case final_form E p sf triggered of None \<Rightarrow> Inl (http_error 400 ''invalid value'')
                | Some written \<Rightarrow> (case write_checks E (pr_table p) (pr_columns p) isCreate written of
                    Some msg \<Rightarrow> Inl (http_error 400 msg)
                  | None \<Rightarrow> (case evaluator_of E p of
                      Inl e \<Rightarrow> Inl (http_error 500 ''Failed to evaluate security rules'')
                    | Inr sev \<Rightarrow>
                        if \<not> security_allows E p written sev
                        then Inl (http_error 403 (if isCreate then ''You do not have permission to create this record''
                          else ''You do not have permission to update this record''))
                        else (case write_row E p written (sv_script_writes E st) of Inl resp \<Rightarrow> Inl resp
                          | Inr (key, st') \<Rightarrow>
                              if \<not> sv_commits E then Inl (http_error 500 ''Failed to save record'')
                              else let i = (if isCreate then key else sf_id (pr_form p)) in
                                Inr (i, st', after_commit p i (loadRecordSnapshotWithQuerier E st' (pr_table p) i)))))))))"

text \<open>The handler: on a refusal after the start of the transaction the store stays as it was.\<close>

definition HandleSave :: "save_env \<Rightarrow> save_request \<Rightarrow> record_store \<Rightarrow> http_response \<times> record_store \<times> save_effect list" where
  "HandleSave E q st = (case save_prepare E q st of Inl resp \<Rightarrow> (resp, st, [])
     | Inr p \<Rightarrow> (case save_commit E p st of Inl resp \<Rightarrow> (resp, st, [])
         | Inr (i, st', effects) \<Rightarrow> (see_other (recordFormRedirectTarget (pr_table p) i (pr_formName p)), st', effects)))"

end
