(* ===== verification/ScriptRecords.thy ===== *)
theory ScriptRecords
  imports RecordSave
begin

text \<open>
  The records as scripts see them (\<open>internal/db/ScriptOps.go\<close>, the access decisions of \<open>ScriptActor.go\<close>): the
  identity a script runs as, the query language of the generated models and its SQL, and the operations that
  read, create, update and delete records under the row rules of that identity.

  The database answers a query with the rows of a table that match a condition, in an order: that is the
  parameter \<open>qd_Select\<close>, which is given the texts of the condition and of the order. The query for one
  record by its identifier is read on the store itself, as in the save of a record. An operation returns its
  answer and the store: the triggers of a write may have written before the operation fails.
\<close>

section \<open>Who a script runs as\<close>

record ScriptActor =
  ac_userID :: string
  ac_system :: bool

definition UserScriptActor :: "string \<Rightarrow> ScriptActor" where
  "UserScriptActor userID = \<lparr>ac_userID = TrimSpace userID, ac_system = False\<rparr>"

definition SystemScriptActor :: ScriptActor where
  "SystemScriptActor = \<lparr>ac_userID = [], ac_system = True\<rparr>"

definition scriptActorForOptions :: "ScriptExecutionOptions \<Rightarrow> ScriptActor" where
  "scriptActorForOptions opts =
     (if so_System opts then \<lparr>ac_userID = TrimSpace (so_UserID opts), ac_system = True\<rparr> else UserScriptActor (so_UserID opts))"

datatype script_error =
    BadTableName | TableNotFound string | RecordNotFound string string | RulesUnavailable app_error
  | UnknownColumn string | NoColumn | BadOperator string | BadMode string | BadDirection string | NotAnArray
  | NoFilterValues string | NullInList string | NullOrdered string | NoFilters | BadValue | BadRecordID | UnsafeName
  | BadPatchField string | WriteRefused string | NoValues | TriggerFailed app_error | NoSelectors | NoSoftDelete
  | DatabaseError pg_error | NoFreshID

section \<open>Access decisions\<close>

text \<open>
  The evaluator of a table for a loader of rules; the cache of a script run. A failed load is not cached.
\<close>

type_synonym rule_loader = "string \<Rightarrow> string \<Rightarrow> (app_error, TableSecurityEvaluator option) result"

type_synonym access_cache = "string \<rightharpoonup> TableSecurityEvaluator option"

definition access_evaluator :: "rule_loader \<Rightarrow> ScriptActor \<Rightarrow> string \<Rightarrow> access_cache
    \<Rightarrow> (app_error, TableSecurityEvaluator option) result \<times> access_cache" where
  "access_evaluator load actor tableName cache =
     (if ac_system actor then (Inr None, cache)
      else let key = trim_lower tableName in
        case cache key of Some sev \<Rightarrow> (Inr sev, cache)
        | None \<Rightarrow> (case load key (ac_userID actor) of Inl e \<Rightarrow> (Inl e, cache) | Inr sev \<Rightarrow> (Inr sev, cache(key \<mapsto> sev))))"

text \<open>
  The rules do not change within a run, so the operations below ask without the cache;
  \<open>access_evaluator_exact\<close> of the laws shows that both answer alike.
\<close>

definition script_rules :: "save_env \<Rightarrow> rule_loader" where
  "script_rules E = LoadTableSecurityEvaluator (sv_roles E) (ms_apps (sv_source E))"

definition evaluator_for :: "save_env \<Rightarrow> ScriptActor \<Rightarrow> string \<Rightarrow> (app_error, TableSecurityEvaluator option) result" where
  "evaluator_for E actor tableName = fst (access_evaluator (script_rules E) actor tableName Map.empty)"

definition restricts :: "save_env \<Rightarrow> ScriptActor \<Rightarrow> string \<Rightarrow> string \<Rightarrow> (script_error, bool) result" where
  "restricts E actor tableName operation = (case evaluator_for E actor tableName of
     Inl e \<Rightarrow> Inl (RulesUnavailable e)
   | Inr None \<Rightarrow> Inr False
   | Inr (Some e) \<Rightarrow> Inr (ev_roleGate e \<noteq> [] \<or> HasOperationRules (Some e) operation))"

definition access_allows :: "save_env \<Rightarrow> ScriptActor \<Rightarrow> string \<Rightarrow> string \<Rightarrow> record_map \<Rightarrow> (script_error, bool) result" where
  "access_allows E actor tableName operation r = (case evaluator_for E actor tableName of
     Inl e \<Rightarrow> Inl (RulesUnavailable e)
   | Inr sev \<Rightarrow> Inr (AllowsRecord (sv_now E) sev operation r))"

definition access_filter :: "save_env \<Rightarrow> ScriptActor \<Rightarrow> string \<Rightarrow> string \<Rightarrow> record_map list \<Rightarrow> (script_error, record_map list) result" where
  "access_filter E actor tableName operation rs = (case restricts E actor tableName operation of
     Inl e \<Rightarrow> Inl e
   | Inr restricted \<Rightarrow>
       if \<not> restricted then Inr rs
       else (case evaluator_for E actor tableName of Inl e \<Rightarrow> Inl (RulesUnavailable e)
         | Inr sev \<Rightarrow> Inr (filter (AllowsRecord (sv_now E) sev operation) rs)))"

section \<open>Queries\<close>

record ScriptRecordFilter =
  fi_Column :: string
  fi_Operator :: string
  fi_Value :: gval

record ScriptRecordFilterGroup =
  gr_Mode :: string
  gr_Filters :: "ScriptRecordFilter list"

record ScriptRecordOrder =
  or_Column :: string
  or_Direction :: string

record ScriptRecordQuery =
  qu_IDs :: "string list"
  qu_Equals :: record_map
  qu_Filters :: "ScriptRecordFilter list"
  qu_Groups :: "ScriptRecordFilterGroup list"
  qu_OrderBy :: "ScriptRecordOrder list"
  qu_Limit :: int
  qu_IncludeDeleted :: bool

definition normalizeScriptFilterOperator :: "string \<Rightarrow> (script_error, string) result" where
  "normalizeScriptFilterOperator raw =
     (let t = trim_lower raw; operator = (if t = [] then ''='' else t) in
      if operator \<in> {''='', ''=='', ''eq'', ''is''} then Inr ''=''
      else if operator \<in> {''!='', ''<>'', ''ne'', ''is not''} then Inr ''!=''
      else if operator \<in> {''<'', ''lt''} then Inr ''<''
      else if operator \<in> {''<='', ''lte''} then Inr ''<=''
      else if operator \<in> {''>'', ''gt''} then Inr ''>''
      else if operator \<in> {''>='', ''gte''} then Inr ''>=''
      else if operator = ''in'' then Inr ''in''
      else if operator \<in> {''not in'', ''not_in'', ''nin''} then Inr ''not in''
      else Inl (BadOperator raw))"

definition normalizeScriptFilterGroupMode :: "string \<Rightarrow> (script_error, string) result" where
  "normalizeScriptFilterGroupMode raw =
     (let m = trim_lower raw in
      if m = [] then Inr ''any''
      else if m \<in> {''any'', ''or''} then Inr ''any''
      else if m \<in> {''all'', ''and''} then Inr ''all''
      else Inl (BadMode raw))"

definition normalizeScriptOrderDirection :: "string \<Rightarrow> (script_error, string) result" where
  "normalizeScriptOrderDirection raw =
     (let d = trim_lower raw in
      if d = [] then Inr ''ASC''
      else if d \<in> {''asc'', ''ascending''} then Inr ''ASC''
      else if d \<in> {''desc'', ''descending''} then Inr ''DESC''
      else Inl (BadDirection raw))"

fun normalizeScriptFilterArrayValue :: "gval \<Rightarrow> (script_error, gval list) result" where
  "normalizeScriptFilterArrayValue (GList vs) = Inr vs"
| "normalizeScriptFilterArrayValue _ = Inl NotAnArray"

definition scriptQueryHasSelectors :: "ScriptRecordQuery \<Rightarrow> bool" where
  "scriptQueryHasSelectors q \<longleftrightarrow> qu_IDs q \<noteq> [] \<or> qu_Equals q \<noteq> [] \<or> qu_Filters q \<noteq> [] \<or> qu_Groups q \<noteq> []"

text \<open>Every clause with its arguments and the number of placeholders it takes.\<close>

type_synonym clause = "string \<times> string list \<times> nat"

definition script_placeholder :: "nat \<Rightarrow> string" where
  "script_placeholder i = CHR ''$'' # Itoa (int i)"

text \<open>The loop over the values of an \<open>in\<close> filter.\<close>

fun in_items :: "save_env \<Rightarrow> Column \<Rightarrow> gval list \<Rightarrow> nat \<Rightarrow> (script_error, string list \<times> string list) result" where
  "in_items E c [] i = Inr ([], [])"
| "in_items E c (v # vs) i = (case normalizeScriptColumnValue E c v of None \<Rightarrow> Inl BadValue
     | Some (n, isNull) \<Rightarrow>
         if isNull then Inl (NullInList (co_NAME c))
         else (case in_items E c vs (i + 1) of Inl e \<Rightarrow> Inl e
           | Inr (ps, args) \<Rightarrow> Inr ((script_placeholder i @ scriptColumnCast (co_DATA_TYPE c)) # ps, n # args)))"

definition buildScriptFilterClause ::
  "save_env \<Rightarrow> Column \<Rightarrow> string \<Rightarrow> ScriptRecordFilter \<Rightarrow> nat \<Rightarrow> (script_error, clause) result" where
  "buildScriptFilterClause E c q f startAt = (case normalizeScriptFilterOperator (fi_Operator f) of Inl e \<Rightarrow> Inl e
     | Inr operator \<Rightarrow>
         if operator \<in> {''in'', ''not in''} then
           (case normalizeScriptFilterArrayValue (fi_Value f) of Inl e \<Rightarrow> Inl e
            | Inr items \<Rightarrow>
                if items = [] then Inl (NoFilterValues (co_NAME c))
                else (case in_items E c items startAt of Inl e \<Rightarrow> Inl e
                  | Inr (ps, args) \<Rightarrow> Inr (q @ '' '' @ ToUpper operator @ '' ('' @ Join ps '', '' @ '')'', args, length args)))
         else (case normalizeScriptColumnValue E c (fi_Value f) of None \<Rightarrow> Inl BadValue
           | Some (n, isNull) \<Rightarrow>
               if isNull then
                 (if operator = ''='' then Inr (q @ '' IS NULL'', [], 0)
                  else if operator = ''!='' then Inr (q @ '' IS NOT NULL'', [], 0)
                  else Inl (NullOrdered operator))
               else Inr (q @ '' '' @ operator @ '' '' @ script_placeholder startAt @ scriptColumnCast (co_DATA_TYPE c), [n], 1)))"

text \<open>A filter names its column in any case, padded or not.\<close>

definition filter_clause :: "save_env \<Rightarrow> Column list \<Rightarrow> ScriptRecordFilter \<Rightarrow> nat \<Rightarrow> (script_error, clause) result" where
  "filter_clause E columns f i =
     (let n = trim_lower (fi_Column f) in
      if n = [] then Inl NoColumn
      else case column_named columns n of None \<Rightarrow> Inl (UnknownColumn n)
      | Some c \<Rightarrow> (case QuoteIdentifier (co_NAME c) of Inl e \<Rightarrow> Inl UnsafeName
          | Inr q \<Rightarrow> buildScriptFilterClause E c q f i))"

text \<open>The loops over clauses; an empty clause is left out, its arguments are not.\<close>

fun clause_loop :: "('a \<Rightarrow> nat \<Rightarrow> (script_error, clause) result) \<Rightarrow> 'a list \<Rightarrow> nat
    \<Rightarrow> (script_error, string list \<times> string list \<times> nat) result" where
  "clause_loop f [] i = Inr ([], [], i)"
| "clause_loop f (x # xs) i = (case f x i of Inl e \<Rightarrow> Inl e
     | Inr (sql, args, consumed) \<Rightarrow> (case clause_loop f xs (i + consumed) of Inl e \<Rightarrow> Inl e
         | Inr (sqls, later, j) \<Rightarrow> Inr ((if sql \<noteq> [] then [sql] else []) @ sqls, args @ later, j)))"

definition buildScriptFilterGroupClause ::
  "save_env \<Rightarrow> Column list \<Rightarrow> ScriptRecordFilterGroup \<Rightarrow> nat \<Rightarrow> (script_error, clause) result" where
  "buildScriptFilterGroupClause E columns g startAt = (case normalizeScriptFilterGroupMode (gr_Mode g) of Inl e \<Rightarrow> Inl e
     | Inr m \<Rightarrow>
         if gr_Filters g = [] then Inl NoFilters
         else (case clause_loop (filter_clause E columns) (gr_Filters g) startAt of Inl e \<Rightarrow> Inl e
           | Inr (parts, args, j) \<Rightarrow>
               if parts = [] then Inl NoFilters
               else if length parts = 1 then Inr (hd parts, args, length args)
               else Inr (''('' @ Join parts (if m = ''all'' then '' AND '' else '' OR '') @ '')'', args, length args)))"

definition id_clause :: "Column list \<Rightarrow> string list \<Rightarrow> nat \<Rightarrow> (script_error, clause) result" where
  "id_clause columns ids i =
     (case those (map (ParseRecordIDValue columns) ids) of None \<Rightarrow> Inl BadRecordID
      | Some keys \<Rightarrow> Inr (dquote # ''_id'' @ [dquote] @ '' IN (''
          @ Join (map (\<lambda>j. script_placeholder (i + j)) [0..<length keys]) '', '' @ '')'', keys, length keys))"

text \<open>An equality names its column exactly.\<close>

definition equals_clause :: "save_env \<Rightarrow> Column list \<Rightarrow> string \<times> gval \<Rightarrow> nat \<Rightarrow> (script_error, clause) result" where
  "equals_clause E columns kv i =
     (case column_named columns (fst kv) of None \<Rightarrow> Inl (UnknownColumn (fst kv))
      | Some c \<Rightarrow> (case QuoteIdentifier (co_NAME c) of Inl e \<Rightarrow> Inl UnsafeName
          | Inr q \<Rightarrow> (case normalizeScriptColumnValue E c (snd kv) of None \<Rightarrow> Inl BadValue
              | Some (n, isNull) \<Rightarrow>
                  if isNull then Inr (q @ '' IS NULL'', [], 0)
                  else Inr (q @ '' = '' @ script_placeholder i @ scriptColumnCast (co_DATA_TYPE c), [n], 1))))"

definition sorted_entries :: "(string \<times> 'a) list \<Rightarrow> (string \<times> 'a) list" where
  "sorted_entries r = map (\<lambda>k. (k, the (map_of r k))) (sort (remdups (map fst r)))"

definition buildScriptWhereClause ::
  "save_env \<Rightarrow> Column list \<Rightarrow> ScriptRecordQuery \<Rightarrow> nat \<Rightarrow> (script_error, string \<times> string list) result" where
  "buildScriptWhereClause E columns q startAt =
     (let live = (if has_column columns ''_deleted_at'' \<and> \<not> qu_IncludeDeleted q
        then [dquote # ''_deleted_at'' @ [dquote] @ '' IS NULL''] else []) in
      case clause_loop (id_clause columns) (if qu_IDs q = [] then [] else [qu_IDs q]) startAt of Inl e \<Rightarrow> Inl e
      | Inr (ids, idArgs, i) \<Rightarrow> (case clause_loop (equals_clause E columns) (sorted_entries (qu_Equals q)) i of Inl e \<Rightarrow> Inl e
          | Inr (equals, eqArgs, j) \<Rightarrow> (case clause_loop (filter_clause E columns) (qu_Filters q) j of Inl e \<Rightarrow> Inl e
              | Inr (filters, fiArgs, k) \<Rightarrow>
                  (case clause_loop (buildScriptFilterGroupClause E columns) (qu_Groups q) k of Inl e \<Rightarrow> Inl e
                   | Inr (groups, grArgs, l) \<Rightarrow>
                       Inr (Join (live @ ids @ equals @ filters @ groups) '' AND '', idArgs @ eqArgs @ fiArgs @ grArgs)))))"

definition order_part :: "Column list \<Rightarrow> ScriptRecordOrder \<Rightarrow> (script_error, string) result" where
  "order_part columns o' =
     (let n = trim_lower (or_Column o') in
      if n = [] then Inl NoColumn
      else case column_named columns n of None \<Rightarrow> Inl (UnknownColumn n)
      | Some c \<Rightarrow> (case QuoteIdentifier (co_NAME c) of Inl e \<Rightarrow> Inl UnsafeName
          | Inr q \<Rightarrow> (case normalizeScriptOrderDirection (or_Direction o') of Inl e \<Rightarrow> Inl e
              | Inr d \<Rightarrow> Inr (q @ '' '' @ d))))"

definition buildScriptOrderClause :: "Column list \<Rightarrow> ScriptRecordQuery \<Rightarrow> (script_error, string) result" where
  "buildScriptOrderClause columns q =
     (if qu_OrderBy q = [] then Inr (dquote # ''_id'' @ [dquote])
      else case map_result (order_part columns) (qu_OrderBy q) of Inl e \<Rightarrow> Inl e | Inr parts \<Rightarrow> Inr (Join parts '', ''))"

section \<open>Reading\<close>

record script_db =
  qd_Select :: "string \<Rightarrow> string \<Rightarrow> string list \<Rightarrow> string \<Rightarrow> record_store \<Rightarrow> (pg_error, (string \<times> record_map) list) result"

definition scriptViewForTable :: "save_env \<Rightarrow> string \<Rightarrow> (script_error, Table \<times> Column list) result" where
  "scriptViewForTable E tableName =
     (let t = trim_lower tableName in
      if \<not> IsSafeIdentifier t then Inl BadTableName
      else let view = fst (GetView (sv_prio E) (sv_source E) t None) in
        case vi_Table view of None \<Rightarrow> Inl (TableNotFound t)
        | Some tbl \<Rightarrow> if tb_ID tbl = [] then Inl (TableNotFound t) else Inr (tbl, vi_Columns view))"

text \<open>The limit of a query, a hundred when there is none, within the bound of the operation.\<close>

definition query_limit :: "ScriptRecordQuery \<Rightarrow> nat \<Rightarrow> nat" where
  "query_limit q maxLimit = min (if qu_Limit q \<le> 0 then 100 else nat (qu_Limit q)) maxLimit"

definition listScriptRecordsWithQuerier ::
  "save_env \<Rightarrow> script_db \<Rightarrow> ScriptActor \<Rightarrow> string \<Rightarrow> ScriptRecordQuery \<Rightarrow> string \<Rightarrow> nat \<Rightarrow> record_store
     \<Rightarrow> (script_error, record_map list) result" where
  "listScriptRecordsWithQuerier E db actor tableName q operation maxLimit st =
     (case scriptViewForTable E tableName of Inl e \<Rightarrow> Inl e
      | Inr (tbl, columns) \<Rightarrow> (case buildScriptWhereClause E columns q 1 of Inl e \<Rightarrow> Inl e
          | Inr (whereSQL, args) \<Rightarrow> (case restricts E actor tableName operation of Inl e \<Rightarrow> Inl e
              | Inr restricted \<Rightarrow>
                  let limit = query_limit q maxLimit; fetchLimit = (if restricted then maxLimit else limit) in
                  if \<not> quotable_view tbl columns then Inl UnsafeName
                  else (case buildScriptOrderClause columns q of Inl e \<Rightarrow> Inl e
                    | Inr order \<Rightarrow> (case qd_Select db (tb_NAME tbl) whereSQL args order st of Inl e \<Rightarrow> Inl (DatabaseError e)
                        | Inr rows \<Rightarrow>
                            (case access_filter E actor tableName operation (map (record_of_row columns \<circ> snd) (take fetchLimit rows)) of
                               Inl e \<Rightarrow> Inl e
                             | Inr items \<Rightarrow> Inr (take limit items)))))))"

definition ListScriptRecords where
  "ListScriptRecords E db tableName q actor st = listScriptRecordsWithQuerier E db actor tableName q ''R'' 1000 st"

text \<open>A record without an \<open>_id\<close> column has the identifier \<open><nil>\<close>.\<close>

definition listScriptRecordIDsWithQuerier ::
  "save_env \<Rightarrow> script_db \<Rightarrow> ScriptActor \<Rightarrow> string \<Rightarrow> ScriptRecordQuery \<Rightarrow> string \<Rightarrow> record_store \<Rightarrow> (script_error, string list) result" where
  "listScriptRecordIDsWithQuerier E db actor tableName q operation st =
     (case listScriptRecordsWithQuerier E db actor tableName q operation 5000 st of Inl e \<Rightarrow> Inl e
      | Inr rs \<Rightarrow> Inr (filter (\<lambda>i. i \<noteq> []) (map (\<lambda>r. TrimSpace (Sprint (snapshot_get r ''_id''))) rs)))"

definition loadScriptRecord :: "save_env \<Rightarrow> record_store \<Rightarrow> string \<Rightarrow> string \<Rightarrow> (script_error, record_map) result" where
  "loadScriptRecord E st tableName i =
     (case scriptViewForTable E tableName of Inl e \<Rightarrow> Inl e
      | Inr (tbl, columns) \<Rightarrow> (case ParseRecordIDValue columns i of None \<Rightarrow> Inl BadRecordID
          | Some key \<Rightarrow>
              if \<not> quotable_view tbl columns then Inl UnsafeName
              else (case st (tb_NAME tbl) key of None \<Rightarrow> Inl (RecordNotFound tableName i)
                | Some r \<Rightarrow> if deleted_row columns r then Inl (RecordNotFound tableName i) else Inr (record_of_row columns r))))"

definition getScriptRecordWithQuerier ::
  "save_env \<Rightarrow> ScriptActor \<Rightarrow> string \<Rightarrow> string \<Rightarrow> record_store \<Rightarrow> (script_error, record_map) result" where
  "getScriptRecordWithQuerier E actor tableName i st =
     (case loadScriptRecord E st tableName i of Inl e \<Rightarrow> Inl e
      | Inr r \<Rightarrow> (case access_allows E actor tableName ''R'' r of Inl e \<Rightarrow> Inl e
          | Inr allowed \<Rightarrow> if \<not> allowed then Inl (RecordNotFound tableName i) else Inr r))"

section \<open>Writing\<close>

fun write_fields :: "save_env \<Rightarrow> Column list \<Rightarrow> record_map \<Rightarrow> save_form \<Rightarrow> (script_error, save_form) result" where
  "write_fields E columns [] sf = Inr sf"
| "write_fields E columns ((name, raw) # rest) sf =
     (let k = TrimSpace name in
      case column_named columns k of None \<Rightarrow> Inl (BadPatchField k)
      | Some c \<Rightarrow>
          if is_system_name k then Inl (BadPatchField k)
          else (case normalizeScriptColumnValue E c raw of None \<Rightarrow> Inl BadValue
            | Some (n, isNull) \<Rightarrow> write_fields E columns rest
                (if isNull then sf\<lparr>sf_nulls := insert k (sf_nulls sf)\<rparr> else sf\<lparr>sf_form := form_put k n (sf_form sf)\<rparr>)))"

definition buildScriptWriteData ::
  "save_env \<Rightarrow> Column list \<Rightarrow> record_map \<Rightarrow> string \<Rightarrow> string \<Rightarrow> bool \<Rightarrow> (script_error, save_form) result" where
  "buildScriptWriteData E columns values userID timestamp isCreate =
     (case write_fields E columns (entries values) \<lparr>sf_id = [], sf_form = [], sf_nulls = {}\<rparr> of Inl e \<Rightarrow> Inl e
      | Inr sf \<Rightarrow> (case ValidateFormWrite (sv_checkers E) (sv_now E) columns (form_fun sf) isCreate of
          Some e \<Rightarrow> Inl (WriteRefused ''form'')
        | None \<Rightarrow>
            let by_time = (\<lambda>k sf. if timestamp \<noteq> [] then stamp columns k timestamp sf else sf);
                by_user = (\<lambda>k sf. if userID \<noteq> [] then stamp columns k userID sf else sf);
                updated = by_user ''_updated_by'' (by_time ''_updated_at'' sf) in
            Inr (if isCreate then by_user ''_created_by'' (by_time ''_created_at'' updated) else updated)))"

text \<open>Here a field can be cleared without an entry in the form: it is nil in the record of the triggers.\<close>

definition script_trigger_record :: "save_env \<Rightarrow> Column list \<Rightarrow> record_map \<Rightarrow> save_form \<Rightarrow> record_map option" where
  "script_trigger_record E columns base sf = map_option
     (\<lambda>r. fold (\<lambda>c. form_put (co_NAME c) GNil) (filter (\<lambda>c. co_NAME c \<in> sf_nulls sf \<and> co_NAME c \<notin> fst ` set (sf_form sf)) columns) r)
     (buildRuntimeTriggerRecord E columns base sf)"

definition script_triggers :: "save_env \<Rightarrow> string \<Rightarrow> string \<Rightarrow> string \<Rightarrow> record_map \<Rightarrow> record_map \<Rightarrow> (app_error, record_map) result" where
  "script_triggers E tableName event userID r previous = RunAppBeforeWriteTriggersWithQuerier (sv_now E) (sv_order E) (sv_scopes E)
     (sv_engine E) (ms_apps (sv_source E)) tableName event (TrimSpace userID) [] r previous"

text \<open>From the submitted values to the form that is written, as both writes have it.\<close>

definition script_form :: "save_env \<Rightarrow> string \<Rightarrow> Column list \<Rightarrow> record_map \<Rightarrow> bool \<Rightarrow> save_form \<Rightarrow> record_map \<Rightarrow> (script_error, save_form) result" where
  "script_form E tableName columns old isCreate sf triggered =
     (case applyRuntimeTriggerRecordToFormData E columns triggered old isCreate sf of None \<Rightarrow> Inl BadValue
      | Some applied \<Rightarrow>
          let written = set_task_type E tableName columns (filterSubmittedColumns columns applied) in
          (case write_checks E tableName columns isCreate written of Some msg \<Rightarrow> Inl (WriteRefused msg) | None \<Rightarrow> Inr written))"

text \<open>A creation asks for no actor: the rules of the table are not consulted.\<close>

definition createScriptRecordWithQuerier ::
  "save_env \<Rightarrow> string \<Rightarrow> record_map \<Rightarrow> string \<Rightarrow> record_store \<Rightarrow> (script_error, record_map) result \<times> record_store" where
  "createScriptRecordWithQuerier E tableName values userID st =
     (case scriptViewForTable E tableName of Inl e \<Rightarrow> (Inl e, st)
      | Inr (tbl, columns) \<Rightarrow> (case buildScriptWriteData E columns values (TrimSpace userID) (sv_nowText E) True of Inl e \<Rightarrow> (Inl e, st)
          | Inr data \<Rightarrow>
              if sf_form data = [] \<and> sf_nulls data = {} then (Inl NoValues, st)
              else (case (if has_column columns ''_id'' then map_option (\<lambda>i. put_value ''_id'' i data) (sv_freshID E) else Some data) of
                  None \<Rightarrow> (Inl NoFreshID, st)
                | Some sf \<Rightarrow> (case script_trigger_record E columns [] sf of None \<Rightarrow> (Inl BadValue, st)
                    | Some r \<Rightarrow>
                        let st1 = sv_script_writes E st in
                        (case script_triggers E tableName ''record.insert'' userID r [] of Inl e \<Rightarrow> (Inl (TriggerFailed e), st1)
                         | Inr triggered \<Rightarrow> (case script_form E tableName columns [] True sf triggered of Inl e \<Rightarrow> (Inl e, st1)
                             | Inr written \<Rightarrow>
                                 if \<not> IsSafeIdentifier (tb_NAME tbl) then (Inl UnsafeName, st1)
                                 else (case buildInsertColumnsAndValues columns written of None \<Rightarrow> (Inl UnsafeName, st1)
                                   | Some asg \<Rightarrow> (case pg_insert (sv_pg E) (tb_NAME tbl) asg st1 of Inl e \<Rightarrow> (Inl (DatabaseError e), st1)
                                       | Inr (key, row) \<Rightarrow>
                                           let st2 = put_row (tb_NAME tbl) key row st1 in (loadScriptRecord E st2 tableName key, st2)))))))))"

text \<open>The row to be updated: its current values, or the refusal that a missing record gets too.\<close>

definition updatable_record :: "save_env \<Rightarrow> ScriptActor \<Rightarrow> string \<Rightarrow> string \<Rightarrow> record_store \<Rightarrow> (script_error, record_map) result" where
  "updatable_record E actor tableName i st =
     (let old = loadRecordSnapshotWithQuerier E st tableName i in
      if old = [] then Inl (RecordNotFound tableName i)
      else (case access_allows E actor tableName ''U'' old of Inl e \<Rightarrow> Inl e
        | Inr allowed \<Rightarrow> if \<not> allowed then Inl (RecordNotFound tableName i) else Inr old))"

text \<open>The statement of an update: the columns of the form, not the cleared ones that the form does not hold.\<close>

definition script_update_row ::
  "save_env \<Rightarrow> string \<Rightarrow> Table \<Rightarrow> Column list \<Rightarrow> string \<Rightarrow> save_form \<Rightarrow> record_store \<Rightarrow> (script_error, record_map) result \<times> record_store" where
  "script_update_row E tableName tbl columns i written st =
     (case buildUpdateColumnsAndValues columns written of None \<Rightarrow> (Inl UnsafeName, st)
      | Some asg \<Rightarrow> (case ParseRecordIDValue columns i of None \<Rightarrow> (Inl BadRecordID, st)
          | Some key \<Rightarrow>
              if \<not> IsSafeIdentifier (tb_NAME tbl) then (Inl UnsafeName, st)
              else (case st (tb_NAME tbl) key of None \<Rightarrow> (Inl (RecordNotFound tableName i), st)
                | Some row \<Rightarrow> (case pg_update (sv_pg E) (tb_NAME tbl) asg row of Inl e \<Rightarrow> (Inl (DatabaseError e), st)
                    | Inr row' \<Rightarrow> let st' = put_row (tb_NAME tbl) key row' st in (loadScriptRecord E st' tableName i, st')))))"

definition updateScriptRecordWithQuerier ::
  "save_env \<Rightarrow> ScriptActor \<Rightarrow> string \<Rightarrow> string \<Rightarrow> record_map \<Rightarrow> string \<Rightarrow> record_store \<Rightarrow> (script_error, record_map) result \<times> record_store" where
  "updateScriptRecordWithQuerier E actor tableName i patch userID st =
     (case scriptViewForTable E tableName of Inl e \<Rightarrow> (Inl e, st)
      | Inr (tbl, columns) \<Rightarrow> (case updatable_record E actor tableName i st of Inl e \<Rightarrow> (Inl e, st)
          | Inr old \<Rightarrow> (case buildScriptWriteData E columns patch (TrimSpace userID) (sv_nowText E) False of Inl e \<Rightarrow> (Inl e, st)
              | Inr sf \<Rightarrow> (case script_trigger_record E columns old sf of None \<Rightarrow> (Inl BadValue, st)
                  | Some r \<Rightarrow>
                      let st1 = sv_script_writes E st in
                      (case script_triggers E tableName ''record.update'' userID r old of Inl e \<Rightarrow> (Inl (TriggerFailed e), st1)
                       | Inr triggered \<Rightarrow> (case script_form E tableName columns old False sf triggered of Inl e \<Rightarrow> (Inl e, st1)
                           | Inr written \<Rightarrow>
                               if \<not> submittedFormHasChanges columns (sf_form written) (sf_nulls written) old then (Inr old, st1)
                               else script_update_row E tableName tbl columns i written st1))))))"

record ScriptMutationResult =
  mr_IDs :: "string list"
  mr_Affected :: nat

fun update_loop :: "save_env \<Rightarrow> ScriptActor \<Rightarrow> string \<Rightarrow> record_map \<Rightarrow> string \<Rightarrow> string list \<Rightarrow> record_store
    \<Rightarrow> (script_error, string list) result \<times> record_store" where
  "update_loop E actor tableName patch userID [] st = (Inr [], st)"
| "update_loop E actor tableName patch userID (i # ids) st =
     (case updateScriptRecordWithQuerier E actor tableName i patch userID st of
        (Inl e, st') \<Rightarrow> (Inl e, st')
      | (Inr r, st') \<Rightarrow> (case update_loop E actor tableName patch userID ids st' of
            (Inl e, st'') \<Rightarrow> (Inl e, st'')
          | (Inr done_ids, st'') \<Rightarrow>
              let recordID = TrimSpace (Sprint (snapshot_get r ''_id'')) in
              (Inr ((if recordID = [] then i else recordID) # done_ids), st'')))"

definition updateScriptRecordsWhereWithQuerier ::
  "save_env \<Rightarrow> script_db \<Rightarrow> string \<Rightarrow> ScriptRecordQuery \<Rightarrow> record_map \<Rightarrow> string \<Rightarrow> ScriptActor \<Rightarrow> record_store
     \<Rightarrow> (script_error, ScriptMutationResult) result \<times> record_store" where
  "updateScriptRecordsWhereWithQuerier E db tableName q patch userID actor st =
     (if \<not> scriptQueryHasSelectors q then (Inl NoSelectors, st)
      else case listScriptRecordIDsWithQuerier E db actor tableName q ''U'' st of Inl e \<Rightarrow> (Inl e, st)
      | Inr ids \<Rightarrow> (case update_loop E actor tableName patch userID ids st of
            (Inl e, st') \<Rightarrow> (Inl e, st')
          | (Inr updated, st') \<Rightarrow> (Inr \<lparr>mr_IDs = updated, mr_Affected = length updated\<rparr>, st')))"

definition id_query :: "string list \<Rightarrow> int \<Rightarrow> ScriptRecordQuery" where
  "id_query ids limit = \<lparr>qu_IDs = ids, qu_Equals = [], qu_Filters = [], qu_Groups = [], qu_OrderBy = [], qu_Limit = limit,
     qu_IncludeDeleted = False\<rparr>"

definition BulkPatchScriptRecords where
  "BulkPatchScriptRecords E db tableName ids patch userID actor st =
     updateScriptRecordsWhereWithQuerier E db tableName (id_query ids 0) patch userID actor st"

section \<open>Deletion\<close>

definition deletion_marks :: "Column list \<Rightarrow> string \<Rightarrow> string \<Rightarrow> assignment list" where
  "deletion_marks columns userID now =
     (let user = TrimSpace userID in
      [(''_deleted_at'', Some now, [])]
      @ (if has_column columns ''_updated_at'' then [(''_updated_at'', Some now, [])] else [])
      @ (if user \<noteq> [] \<and> has_column columns ''_deleted_by'' then [(''_deleted_by'', Some user, ''::uuid'')] else [])
      @ (if user \<noteq> [] \<and> has_column columns ''_updated_by'' then [(''_updated_by'', Some user, ''::uuid'')] else []))"

text \<open>One statement: when a row is refused none is changed.\<close>

fun mark_rows :: "save_env \<Rightarrow> string \<Rightarrow> assignment list \<Rightarrow> (string \<times> record_map) list \<Rightarrow> record_store \<Rightarrow> (pg_error, record_store) result" where
  "mark_rows E t marks [] st = Inr st"
| "mark_rows E t marks ((key, row) # rows) st = (case pg_update (sv_pg E) t marks row of Inl e \<Rightarrow> Inl e
     | Inr row' \<Rightarrow> mark_rows E t marks rows (put_row t key row' st))"

definition deleteScriptRecordsWhereWithQuerier ::
  "save_env \<Rightarrow> script_db \<Rightarrow> string \<Rightarrow> ScriptRecordQuery \<Rightarrow> string \<Rightarrow> ScriptActor \<Rightarrow> record_store
     \<Rightarrow> (script_error, ScriptMutationResult) result \<times> record_store" where
  "deleteScriptRecordsWhereWithQuerier E db tableName q userID actor st =
     (if \<not> scriptQueryHasSelectors q then (Inl NoSelectors, st)
      else case scriptViewForTable E tableName of Inl e \<Rightarrow> (Inl e, st)
      | Inr (tbl, columns) \<Rightarrow>
          if \<not> has_column columns ''_deleted_at'' then (Inl NoSoftDelete, st)
          else (case buildScriptWhereClause E columns q 1 of Inl e \<Rightarrow> (Inl e, st)
            | Inr (whereSQL, args) \<Rightarrow> (case restricts E actor tableName ''D'' of Inl e \<Rightarrow> (Inl e, st)
                | Inr restricted \<Rightarrow>
                    (case (if restricted then map_sum id Some (listScriptRecordIDsWithQuerier E db actor tableName q ''D'' st) else Inr None) of
                       Inl e \<Rightarrow> (Inl e, st)
                     | Inr permitted \<Rightarrow>
                         if permitted = Some [] then (Inr \<lparr>mr_IDs = [], mr_Affected = 0\<rparr>, st)
                         else (case buildScriptOrderClause columns q of Inl e \<Rightarrow> (Inl e, st)
                         | Inr order \<Rightarrow>
                             if \<not> IsSafeIdentifier (tb_NAME tbl) then (Inl UnsafeName, st)
                             else (case qd_Select db (tb_NAME tbl) whereSQL args order st of Inl e \<Rightarrow> (Inl (DatabaseError e), st)
                               | Inr rows \<Rightarrow>
                                   let chosen = (case permitted of Some ids \<Rightarrow> filter (\<lambda>kr. fst kr \<in> set ids) rows | None \<Rightarrow> rows);
                                       target = (if qu_Limit q > 0 then take (min (nat (qu_Limit q)) 5000) chosen else chosen) in
                                   (case mark_rows E (tb_NAME tbl) (deletion_marks columns userID (sv_nowText E)) target st of
                                      Inl e \<Rightarrow> (Inl (DatabaseError e), st)
                                    | Inr st' \<Rightarrow> (Inr \<lparr>mr_IDs = map fst target, mr_Affected = length target\<rparr>, st'))))))))"

definition modelHelperDeleteRecord where
  "modelHelperDeleteRecord E db tableName i userID actor st =
     deleteScriptRecordsWhereWithQuerier E db tableName (id_query [i] 1) userID actor st"

end
