(* ===== verification/RecordSaveLaws.thy ===== *)
theory RecordSaveLaws
  imports RecordSave
begin

text \<open>
  What a save writes is what its checks have seen; an update never writes a NULL, so a field that the
  user clears keeps its value; of two saves with the same expected version at most one changes the row;
  and the roles of the user play no part for the tables of the platform.
\<close>

section \<open>NULLs\<close>

definition keys :: "(string \<times> 'a) list \<Rightarrow> string set" where
  "keys form = fst ` set form"

lemma keys_simps [simp]:
  "keys [] = {}" "keys (kv # form) = insert (fst kv) (keys form)" "keys (form_put k v form) = insert k (keys form)"
  "keys (form_delete k form) = keys form - {k}" "keys (filter (\<lambda>kv. P (fst kv)) form) = {k \<in> keys form. P k}"
  by (auto simp: keys_def form_put_def form_delete_def)

text \<open>No name is both in the form and among the NULLs.\<close>

definition null_free :: "save_form \<Rightarrow> bool" where
  "null_free sf \<longleftrightarrow> keys (sf_form sf) \<inter> sf_nulls sf = {}"

definition field_nulls :: "Column list \<Rightarrow> save_form \<Rightarrow> bool" where
  "field_nulls columns sf \<longleftrightarrow> (\<forall>k \<in> sf_nulls sf. \<not> is_system_name k \<and> has_column columns k)"

lemma column_named_iff: "column_named columns k \<noteq> None \<longleftrightarrow> has_column columns k"
  by (auto simp: column_named_def has_column_def find_None_iff)

lemma column_named_has: "column_named columns k = Some c \<Longrightarrow> has_column columns k"
  using column_named_iff[of columns k] by simp

lemma read_fields_step:
  "\<lbrakk>read_fields columns ((k, vs) # rest) sf = Inr sf'; vs \<noteq> []; k \<noteq> ''_id''; \<not> (isSaveTransportField k \<or> is_system_name k)\<rbrakk> \<Longrightarrow>
     \<exists>c v isNull. column_named columns k = Some c \<and> read_fields columns rest (sf\<lparr>sf_form := form_put k v (sf_form sf),
       sf_nulls := (if isNull then insert k (sf_nulls sf) else sf_nulls sf)\<rparr>) = Inr sf'"
proof -
  assume a: "read_fields columns ((k, vs) # rest) sf = Inr sf'" "vs \<noteq> []" "k \<noteq> ''_id''" "\<not> (isSaveTransportField k \<or> is_system_name k)"
  note r = a(1)[unfolded read_fields.simps if_not_P[OF a(2)] if_not_P[OF a(3)] if_not_P[OF a(4)]]
  from r obtain c where c: "column_named columns k = Some c" by (cases "column_named columns k") simp_all
  from r c have i: "IsSafeIdentifier k" by (cases "IsSafeIdentifier k") simp_all
  from r c i obtain v isNull where "NormalizeSubmittedColumnValue c (TrimSpace (last vs)) = Some (v, isNull)"
    by (cases "NormalizeSubmittedColumnValue c (TrimSpace (last vs))") auto
  with r c i show ?thesis by (intro exI[of _ c] exI[of _ v] exI[of _ isNull]) simp
qed

lemma read_fields_nulls: "read_fields columns fs sf = Inr sf' \<Longrightarrow> field_nulls columns sf \<Longrightarrow> field_nulls columns sf'"
proof (induction fs arbitrary: sf)
  case (Cons kv rest)
  obtain k vs where kv: "kv = (k, vs)" by (cases kv)
  show ?case
  proof (cases "vs = [] \<or> k = ''_id'' \<or> isSaveTransportField k \<or> is_system_name k")
    case True
    have "\<exists>sf2. read_fields columns rest sf2 = Inr sf' \<and> field_nulls columns sf2"
      using Cons.prems True by (auto simp: kv field_nulls_def split: if_splits)
    then show ?thesis using Cons.IH by blast
  next
    case False
    with Cons.prems(1) read_fields_step[of columns k vs rest sf sf'] obtain c v isNull where c: "column_named columns k = Some c"
      "read_fields columns rest (sf\<lparr>sf_form := form_put k v (sf_form sf),
       sf_nulls := (if isNull then insert k (sf_nulls sf) else sf_nulls sf)\<rparr>) = Inr sf'" unfolding kv by blast
    show ?thesis
      by (rule Cons.IH[OF c(2)]) (use False Cons.prems(2) column_named_has[OF c(1)] in \<open>auto simp: field_nulls_def\<close>)
  qed
qed simp

lemma stamp_nulls [simp]: "sf_nulls (stamp columns k v sf) = sf_nulls sf" "sf_id (stamp columns k v sf) = sf_id sf"
  by (simp_all add: stamp_def)

lemma stamp_user_simps [simp]: "sf_nulls (stamp_user E columns u sf) = sf_nulls sf" "sf_id (stamp_user E columns u sf) = sf_id sf"
  by (simp_all add: stamp_user_def Let_def)

lemma set_task_type_id [simp]: "sf_id (set_task_type E t columns sf) = sf_id sf"
  by (simp add: set_task_type_def put_value_def Let_def)

lemma set_task_type_keeps: "field_nulls columns sf \<Longrightarrow> field_nulls columns (set_task_type E t columns sf)"
  "null_free sf \<Longrightarrow> null_free (set_task_type E t columns sf)"
  by (auto simp: set_task_type_def put_value_def field_nulls_def null_free_def Let_def)

lemma save_prepare_Inr:
  assumes "save_prepare E q st = Inr p"
  obtains submitted sf where
    "read_fields (pr_columns p) (sq_PostForm q) \<lparr>sf_id = [], sf_form = [], sf_nulls = {}\<rparr> = Inr submitted"
    "sf = set_task_type E (pr_table p) (pr_columns p) submitted" "pr_form p = stamp_user E (pr_columns p) (sq_User q) sf"
    "pr_table p = TrimPrefix (sq_Path q) ''/api/save/''" "IsSafeIdentifier (pr_table p)" "\<not> IsImmutableTableName (pr_table p)"
    "sq_Method q = ''POST''" "sq_User q \<noteq> []" "pr_user p = sq_User q"
    "pr_old p = (if is_create (sf_id sf) then [] else loadRecordSnapshot E st (pr_table p) (sf_id sf))"
    "is_create (sf_id sf) \<or> submittedFormHasChanges (pr_columns p) (sf_form sf) (sf_nulls sf) (pr_old p)"
proof -
  let ?t = "TrimPrefix (sq_Path q) ''/api/save/''" and ?z = "\<lparr>sf_id = [], sf_form = [], sf_nulls = {}\<rparr>"
  let ?view = "fst (GetView (sv_prio E) (sv_source E) ?t None)"
  let ?cs = "vi_Columns ?view"
  note c = assms[unfolded save_prepare_def Let_def]
  from c have g: "sq_Method q = ''POST''" "IsSafeIdentifier ?t" "\<not> IsImmutableTableName ?t" "sq_FormParses q"
    "\<not> (case vi_Table ?view of None \<Rightarrow> True | Some t \<Rightarrow> tb_ID t = [])" by (simp_all split: if_splits)
  with c obtain sub where sub: "read_fields ?cs (sq_PostForm q) ?z = Inr sub" by (auto split: sum.splits)
  let ?sf = "set_task_type E ?t ?cs sub"
  let ?old = "if is_create (sf_id ?sf) then [] else loadRecordSnapshot E st ?t (sf_id ?sf)"
  note c2 = c[unfolded if_not_P[OF g(5)] sub sum.case, simplified g if_False if_True not_True_eq_False simp_thms]
  from c2 have h: "\<not> (\<not> is_create (sf_id ?sf) \<and> \<not> IsValidRecordID ?cs (sf_id ?sf))"
    "\<not> (\<not> is_create (sf_id ?sf) \<and> \<not> submittedFormHasChanges ?cs (sf_form ?sf) (sf_nulls ?sf) ?old)"
    by (auto split: if_splits)
  from c2 h have w: "write_checks E ?t ?cs (is_create (sf_id ?sf)) ?sf = None" "sq_User q \<noteq> []"
    by (auto split: if_splits option.splits)
  from c2 h w have p: "pr_table p = ?t" "pr_columns p = ?cs" "pr_form p = stamp_user E ?cs (sq_User q) ?sf" "pr_old p = ?old"
    "pr_user p = sq_User q" by (auto split: if_splits)
  show thesis
    by (rule that[of sub ?sf]) (use p g sub w h in auto)
qed

lemma prepared_nulls:
  assumes "save_prepare E q st = Inr p"
  shows "field_nulls (pr_columns p) (pr_form p)"
proof -
  from assms obtain submitted sf where sf: "read_fields (pr_columns p) (sq_PostForm q) \<lparr>sf_id = [], sf_form = [], sf_nulls = {}\<rparr> = Inr submitted"
    "sf = set_task_type E (pr_table p) (pr_columns p) submitted" "pr_form p = stamp_user E (pr_columns p) (sq_User q) sf"
    by (elim save_prepare_Inr)
  have "field_nulls (pr_columns p) submitted" by (rule read_fields_nulls[OF sf(1)]) (simp add: field_nulls_def)
  then have "field_nulls (pr_columns p) sf" unfolding sf(2) by (rule set_task_type_keeps(1))
  then show ?thesis unfolding sf(3) by (simp add: field_nulls_def)
qed

lemma allocated_nulls: "allocate_id E p = Some sf \<Longrightarrow> field_nulls c (pr_form p) \<Longrightarrow> field_nulls c sf"
  by (auto simp: allocate_id_def put_value_def field_nulls_def split: if_splits)

lemma apply_fields_step:
  assumes "apply_fields E columns previous isCreate ((k, raw) # rest) sf = Some sf'"
  obtains "apply_fields E columns previous isCreate rest sf = Some sf'"
  | n isNull where "\<not> is_system_name k" "has_column columns k"
    "apply_fields E columns previous isCreate rest
       (if isNull then sf\<lparr>sf_nulls := insert k (sf_nulls sf)\<rparr> else put_value k n sf) = Some sf'"
  using assms column_named_has[of columns k] by (auto split: if_splits option.splits)

lemma apply_fields_null_free:
  assumes "apply_fields E columns previous isCreate rest sf = Some sf'" "null_free sf" "distinct (map fst rest)"
    and "\<And>k. k \<in> keys rest \<Longrightarrow> \<not> is_system_name k \<Longrightarrow> has_column columns k \<Longrightarrow> k \<notin> keys (sf_form sf)"
  shows "null_free sf'"
  using assms
proof (induction rest arbitrary: sf)
  case (Cons kv rest)
  obtain k raw where kv: "kv = (k, raw)" by (cases kv)
  from Cons.prems(1)[unfolded kv] show ?case
  proof (cases rule: apply_fields_step)
    case 1
    show ?thesis by (rule Cons.IH[OF 1 Cons.prems(2)]) (use Cons.prems(3,4) in auto)
  next
    case (2 n isNull)
    have new: "k \<notin> keys (sf_form sf)" using Cons.prems(4)[of k] 2 by (simp add: kv)
    show ?thesis
    proof (rule Cons.IH[OF 2(3)])
      show "null_free (if isNull then sf\<lparr>sf_nulls := insert k (sf_nulls sf)\<rparr> else put_value k n sf)"
        using Cons.prems(2) new by (auto simp: null_free_def put_value_def)
      show "k' \<notin> keys (sf_form (if isNull then sf\<lparr>sf_nulls := insert k (sf_nulls sf)\<rparr> else put_value k n sf))"
        if "k' \<in> keys rest" "\<not> is_system_name k'" "has_column columns k'" for k'
        using that Cons.prems(3) Cons.prems(4)[of k'] by (auto simp: put_value_def kv) (auto simp: keys_def)
    qed (use Cons.prems(3) in auto)
  qed
qed simp

lemma map_fst_entries: "map fst (entries r) = remdups (map fst r)"
  by (simp add: entries_def comp_def)

lemma applied_null_free:
  assumes "applyRuntimeTriggerRecordToFormData E columns r previous isCreate sf = Some sf'" "field_nulls columns sf"
  shows "null_free sf'"
proof -
  have "sf_nulls (drop_fields columns sf) = {}" using assms(2) by (auto simp: drop_fields_def field_nulls_def Let_def)
  then have "null_free (drop_fields columns sf)" by (simp add: null_free_def)
  moreover have "k \<notin> keys (sf_form (drop_fields columns sf))" if "\<not> is_system_name k" "has_column columns k" for k
    using that by (auto simp: drop_fields_def keys_def Let_def)
  ultimately show ?thesis
    using apply_fields_null_free[OF assms(1)[unfolded applyRuntimeTriggerRecordToFormData_def]] by (simp add: map_fst_entries)
qed

lemma final_null_free:
  assumes "final_form E p sf r = Some written" "field_nulls (pr_columns p) sf" "ToLower (TrimSpace (pr_table p)) \<noteq> ''_ai_connection''"
  shows "null_free written"
proof -
  from assms(1) obtain x where x: "applyRuntimeTriggerRecordToFormData E (pr_columns p) r (pr_old p) (is_create (sf_id (pr_form p))) sf = Some x"
    "written = set_task_type E (pr_table p) (pr_columns p) (filterSubmittedColumns (pr_columns p)
       (applyBuiltinRecordTransforms E (pr_table p) x))" by (auto simp: final_form_def)
  from applied_null_free[OF x(1) assms(2)] have "null_free (filterSubmittedColumns (pr_columns p) x)"
    by (auto simp: null_free_def filterSubmittedColumns_def)
  with assms(3) show ?thesis using set_task_type_keeps(2) by (simp add: x(2) applyBuiltinRecordTransforms_def)
qed

section \<open>What a save writes\<close>

text \<open>The run of a save that commits.\<close>

lemma save_commit_Inr:
  assumes "save_commit E p st = Inr (i, st', effects)"
  obtains sf r triggered written sev key where
    "allocate_id E p = Some sf" "buildRuntimeTriggerRecord E (pr_columns p) (pr_old p) sf = Some r"
    "run_triggers_of E p r = Inr triggered" "final_form E p sf triggered = Some written"
    "write_checks E (pr_table p) (pr_columns p) (is_create (sf_id (pr_form p))) written = None"
    "evaluator_of E p = Inr sev" "security_allows E p written sev"
    "write_row E p written (sv_script_writes E st) = Inr (key, st')"
    "i = (if is_create (sf_id (pr_form p)) then key else sf_id (pr_form p))" "sv_begins E" "sv_commits E"
    "effects = after_commit p i (loadRecordSnapshotWithQuerier E st' (pr_table p) i)"
proof -
  note c = assms[unfolded save_commit_def Let_def]
  from c obtain sf where sf: "allocate_id E p = Some sf" "sv_begins E" by (auto split: if_splits option.splits)
  with c obtain r where r: "buildRuntimeTriggerRecord E (pr_columns p) (pr_old p) sf = Some r" by (auto split: option.splits)
  with c sf obtain tr where tr: "run_triggers_of E p r = Inr tr" by (auto split: sum.splits)
  with c sf r obtain w where w: "final_form E p sf tr = Some w" by (auto split: option.splits)
  with c sf r tr have wc: "write_checks E (pr_table p) (pr_columns p) (is_create (sf_id (pr_form p))) w = None"
    by (auto split: option.splits)
  with c sf r tr w obtain sev where sev: "evaluator_of E p = Inr sev" by (auto split: sum.splits)
  with c sf r tr w wc have al: "security_allows E p w sev" by (auto split: if_splits)
  with c sf r tr w wc sev obtain key st2 where k: "write_row E p w (sv_script_writes E st) = Inr (key, st2)"
    by (auto split: sum.splits)
  with c sf r tr w wc sev al have "sv_commits E" "st2 = st'" "i = (if is_create (sf_id (pr_form p)) then key else sf_id (pr_form p))"
    "effects = after_commit p i (loadRecordSnapshotWithQuerier E st' (pr_table p) i)"
    by (auto split: if_splits)
  with that sf r tr w wc sev al k show thesis by blast
qed

lemma write_row_update:
  assumes "write_row E p sf st = Inr (key, st')" "\<not> is_create (sf_id (pr_form p))"
  obtains asg matches r r' where "buildUpdateColumnsAndValues (pr_columns p) sf = Some asg"
    "ParseRecordIDValue (pr_columns p) (sf_id (pr_form p)) = Some key"
    "version_condition E (pr_columns p) (pr_version p) (pr_updatedAt p) = Some matches"
    "st (pr_table p) key = Some r" "matches r" "pg_update (sv_pg E) (pr_table p) asg r = Inr r'"
    "st' = put_row (pr_table p) key r' st"
  using assms by (auto simp: write_row_def Let_def split: option.splits if_splits sum.splits)

lemma assignments_Some:
  assumes "assignments columns sf names = Some asg"
  shows "map fst asg = names" "list_all (\<lambda>a. fst (snd a) = None \<longleftrightarrow> fst a \<in> sf_nulls sf) asg"
  using assms by (auto simp: assignments_def list_all_iff comp_def split: if_splits)

lemma update_values:
  assumes "buildUpdateColumnsAndValues columns sf = Some asg"
  shows "fst ` set asg = keys (sf_form sf)" "null_free sf \<Longrightarrow> list_all (\<lambda>a. fst (snd a) \<noteq> None) asg"
proof -
  note a = assignments_Some[OF assms[unfolded buildUpdateColumnsAndValues_def]]
  have "fst ` set asg = set (map fst asg)" by simp
  also have "... = keys (sf_form sf)" unfolding a(1) by (simp add: keys_def)
  finally show k: "fst ` set asg = keys (sf_form sf)" .
  show "null_free sf \<Longrightarrow> list_all (\<lambda>a. fst (snd a) \<noteq> None) asg"
    using a(2) k by (fastforce simp: list_all_iff null_free_def)
qed

text \<open>An update never writes a NULL: the columns whose new value is NULL are left out of the statement.\<close>

lemma updates_never_write_null:
  assumes "save_prepare E q st0 = Inr p" "save_commit E p st = Inr (i, st', effects)" "\<not> is_create (sf_id (pr_form p))"
    and "ToLower (TrimSpace (pr_table p)) \<noteq> ''_ai_connection''"
  shows "\<exists>key asg r r'. pg_update (sv_pg E) (pr_table p) asg r = Inr r' \<and> list_all (\<lambda>a. fst (snd a) \<noteq> None) asg \<and>
    sv_script_writes E st (pr_table p) key = Some r \<and> st' = put_row (pr_table p) key r' (sv_script_writes E st)"
proof -
  from assms(2) obtain sf r triggered written sev key where c: "allocate_id E p = Some sf" "final_form E p sf triggered = Some written"
    "write_row E p written (sv_script_writes E st) = Inr (key, st')" by (elim save_commit_Inr)
  from allocated_nulls[OF c(1) prepared_nulls[OF assms(1)]] have "field_nulls (pr_columns p) sf" .
  from final_null_free[OF c(2) this assms(4)] have nf: "null_free written" .
  from write_row_update[OF c(3) assms(3)] obtain asg r r' where "buildUpdateColumnsAndValues (pr_columns p) written = Some asg"
    "sv_script_writes E st (pr_table p) key = Some r" "pg_update (sv_pg E) (pr_table p) asg r = Inr r'"
    "st' = put_row (pr_table p) key r' (sv_script_writes E st)" by metis
  with update_values(2)[OF _ nf] show ?thesis by blast
qed

section \<open>Cleared fields\<close>

text \<open>The form has every key once, and a value for every NULL.\<close>

definition form_ok :: "save_form \<Rightarrow> bool" where
  "form_ok sf \<longleftrightarrow> distinct (map fst (sf_form sf)) \<and> sf_nulls sf \<subseteq> keys (sf_form sf)"

lemma distinct_form_put: "distinct (map fst form) \<Longrightarrow> distinct (map fst (form_put k v form))"
  by (auto simp: form_put_def distinct_map inj_on_def)

lemma form_ok_put: "form_ok sf \<Longrightarrow> form_ok (put_value k v sf)"
  by (auto simp: form_ok_def put_value_def distinct_form_put)

lemma read_fields_form_ok: "read_fields columns fs sf = Inr sf' \<Longrightarrow> form_ok sf \<Longrightarrow> form_ok sf'"
proof (induction fs arbitrary: sf)
  case (Cons kv rest)
  obtain k vs where kv: "kv = (k, vs)" by (cases kv)
  show ?case
  proof (cases "vs = [] \<or> k = ''_id'' \<or> isSaveTransportField k \<or> is_system_name k")
    case True
    have "\<exists>sf2. read_fields columns rest sf2 = Inr sf' \<and> form_ok sf2"
    proof (cases "vs \<noteq> [] \<and> k = ''_id''")
      case True
      with Cons.prems show ?thesis
        by (intro exI[of _ "sf\<lparr>sf_id := hd vs\<rparr>"]) (simp add: kv form_ok_def)
    next
      case False
      with Cons.prems True show ?thesis by (intro exI[of _ sf]) (auto simp: kv split: if_splits)
    qed
    then show ?thesis using Cons.IH by blast
  next
    case False
    with Cons.prems(1) read_fields_step[of columns k vs rest sf sf'] obtain c v isNull where c:
      "read_fields columns rest (sf\<lparr>sf_form := form_put k v (sf_form sf),
       sf_nulls := (if isNull then insert k (sf_nulls sf) else sf_nulls sf)\<rparr>) = Inr sf'" unfolding kv by blast
    show ?thesis
      by (rule Cons.IH[OF c]) (use Cons.prems(2) in \<open>auto simp: form_ok_def distinct_form_put\<close>)
  qed
qed simp

lemma stamp_ok: "form_ok sf \<Longrightarrow> form_ok (stamp columns k v sf)"
  by (auto simp: form_ok_def stamp_def distinct_form_put)

lemma prepared_form_ok:
  assumes "save_prepare E q st = Inr p"
  shows "form_ok (pr_form p)"
    "TaskTypeValueForTable (sv_prio E) (sv_source E) (pr_table p) \<noteq> [] \<and> has_column (pr_columns p) ''work_type'' \<Longrightarrow>
     ''work_type'' \<notin> sf_nulls (pr_form p)"
proof -
  from assms obtain submitted sf where sf: "read_fields (pr_columns p) (sq_PostForm q) \<lparr>sf_id = [], sf_form = [], sf_nulls = {}\<rparr> = Inr submitted"
    "sf = set_task_type E (pr_table p) (pr_columns p) submitted" "pr_form p = stamp_user E (pr_columns p) (sq_User q) sf"
    by (elim save_prepare_Inr)
  have "form_ok submitted" by (rule read_fields_form_ok[OF sf(1)]) (simp add: form_ok_def)
  then have "form_ok sf" unfolding sf(2) by (simp add: set_task_type_def Let_def form_ok_put)
  then show "form_ok (pr_form p)" unfolding sf(3) stamp_user_def by (simp add: Let_def stamp_ok)
  show "''work_type'' \<notin> sf_nulls (pr_form p)"
    if "TaskTypeValueForTable (sv_prio E) (sv_source E) (pr_table p) \<noteq> [] \<and> has_column (pr_columns p) ''work_type''"
    using that by (simp add: sf(2,3) set_task_type_def put_value_def)
qed

lemma map_of_form_put: "map_of (form_put k v form) x = (if x = k then Some v else map_of form x)"
  by (induction form) (auto simp: form_put_def)

lemma build_fields_value:
  assumes "build_fields E columns nulls form r = Some r'" "distinct (map fst form)"
  shows "map_of r' k = (if k \<in> keys form \<and> has_column columns k
    then runtimeFieldValue E (the (column_named columns k)) (the (map_of form k)) (k \<in> nulls) else map_of r k)"
  using assms
proof (induction form arbitrary: r)
  case (Cons kv form)
  obtain x v where kv: "kv = (x, v)" by (cases kv)
  show ?case
  proof (cases "column_named columns x")
    case None
    then have "\<not> has_column columns x" using column_named_iff[of columns x] by simp
    with Cons None show ?thesis by (auto simp: kv)
  next
    case (Some c)
    from Cons.prems(1) obtain g where g: "runtimeFieldValue E c v (x \<in> nulls) = Some g"
      "build_fields E columns nulls form (form_put x g r) = Some r'" by (auto simp: kv Some split: option.splits)
    have new: "x \<notin> keys form" using Cons.prems(2) by (simp add: kv keys_def)
    from Cons.IH[OF g(2)] Cons.prems(2) column_named_has[OF Some] new Some g(1) show ?thesis
      by (cases "k = x") (auto simp: kv map_of_form_put)
  qed
qed simp

lemma apply_fields_absent:
  assumes "apply_fields E columns previous isCreate rest sf = Some sf'" "distinct (map fst rest)"
    and "\<And>v. (k, v) \<in> set rest \<Longrightarrow> v = GNil" "k \<notin> keys (sf_form sf)"
  shows "k \<notin> keys (sf_form sf')"
  using assms
proof (induction rest arbitrary: sf)
  case (Cons kv rest)
  obtain x raw where kv: "kv = (x, raw)" by (cases kv)
  show ?case
  proof (cases "x = k")
    case True
    with Cons.prems(3) kv have raw: "raw = GNil" by auto
    have "\<exists>sf2. apply_fields E columns previous isCreate rest sf2 = Some sf' \<and> sf_form sf2 = sf_form sf"
      using Cons.prems(1) by (auto simp: kv raw normalizeScriptColumnValue_def split: if_splits option.splits)
    then obtain sf2 where "apply_fields E columns previous isCreate rest sf2 = Some sf'" "sf_form sf2 = sf_form sf" by blast
    with Cons.IH[of sf2] Cons.prems(2-4) show ?thesis by simp
  next
    case False
    from Cons.prems(1)[unfolded kv] show ?thesis
    proof (cases rule: apply_fields_step)
      case 1
      show ?thesis by (rule Cons.IH[OF 1]) (use Cons.prems(2-4) in auto)
    next
      case (2 n isNull)
      show ?thesis by (rule Cons.IH[OF 2(3)]) (use Cons.prems(2-4) False in \<open>auto simp: put_value_def\<close>)
    qed
  qed
qed simp

lemma cleared_not_written:
  assumes "save_prepare E q st0 = Inr p" "k \<in> sf_nulls (pr_form p)" "ToLower (TrimSpace (pr_table p)) \<noteq> ''_ai_connection''"
    and "buildRuntimeTriggerRecord E (pr_columns p) (pr_old p) (pr_form p) = Some r"
    and "final_form E p (pr_form p) r = Some written"
  shows "k \<notin> keys (sf_form written)"
proof -
  note ok = prepared_form_ok[OF assms(1)]
  from prepared_nulls[OF assms(1)] assms(2) have k: "\<not> is_system_name k" "has_column (pr_columns p) k"
    by (auto simp: field_nulls_def)
  have kf: "k \<in> keys (sf_form (pr_form p))" using ok(1) assms(2) by (auto simp: form_ok_def)
  have nil: "map_of r k = Some GNil"
    using build_fields_value[OF assms(4)[unfolded buildRuntimeTriggerRecord_def], of k] ok(1) kf k assms(2)
    by (simp add: form_ok_def runtimeFieldValue_def)
  obtain x where x: "applyRuntimeTriggerRecordToFormData E (pr_columns p) r (pr_old p) (is_create (sf_id (pr_form p))) (pr_form p) = Some x"
    "written = set_task_type E (pr_table p) (pr_columns p) (filterSubmittedColumns (pr_columns p)
       (applyBuiltinRecordTransforms E (pr_table p) x))" using assms(5) by (auto simp: final_form_def)
  have "k \<notin> keys (sf_form x)"
  proof (rule apply_fields_absent[OF x(1)[unfolded applyRuntimeTriggerRecordToFormData_def]])
    show "distinct (map fst (entries r))" by (simp add: map_fst_entries)
    show "v = GNil" if "(k, v) \<in> set (entries r)" for v using that nil by (auto simp: entries_def)
    show "k \<notin> keys (sf_form (drop_fields (pr_columns p) (pr_form p)))" using k by (auto simp: drop_fields_def keys_def Let_def)
  qed
  then have "k \<notin> keys (sf_form (filterSubmittedColumns (pr_columns p) (applyBuiltinRecordTransforms E (pr_table p) x)))"
    using assms(3) by (simp add: filterSubmittedColumns_def applyBuiltinRecordTransforms_def keys_def) fastforce
  with ok(2) assms(2) show ?thesis by (auto simp: x(2) set_task_type_def put_value_def Let_def)
qed


section \<open>Checks before the write\<close>

abbreviation within :: "Column list \<Rightarrow> save_form \<Rightarrow> bool" where
  "within columns sf \<equiv> keys (sf_form sf) \<union> sf_nulls sf \<subseteq> co_NAME ` set columns"

lemma filtered_within: "within columns (filterSubmittedColumns columns sf)"
  by (auto simp: filterSubmittedColumns_def has_column_def keys_def)

lemma set_task_type_within: "within columns sf \<Longrightarrow> within columns (set_task_type E t columns sf)"
  by (auto simp: set_task_type_def put_value_def has_column_def Let_def)

lemma final_form_columns: "final_form E p sf r = Some written \<Longrightarrow> within (pr_columns p) written"
proof -
  assume "final_form E p sf r = Some written"
  then obtain x where "written = set_task_type E (pr_table p) (pr_columns p)
      (filterSubmittedColumns (pr_columns p) (applyBuiltinRecordTransforms E (pr_table p) x))" by (auto simp: final_form_def)
  then show ?thesis by (simp only: set_task_type_within filtered_within)
qed

text \<open>What a statement is built from has passed every check of the handler.\<close>

definition checked :: "save_env \<Rightarrow> save_request \<Rightarrow> record_store \<Rightarrow> prepared_save \<Rightarrow> save_form \<Rightarrow> bool" where
  "checked E q st p written \<longleftrightarrow> save_prepare E q st = Inr p \<and> sq_Method q = ''POST'' \<and> sq_User q \<noteq> [] \<and> pr_user p = sq_User q \<and>
     IsSafeIdentifier (pr_table p) \<and> \<not> IsImmutableTableName (pr_table p) \<and>
     write_checks E (pr_table p) (pr_columns p) (is_create (sf_id (pr_form p))) written = None \<and>
     (case evaluator_of E p of Inl e \<Rightarrow> False | Inr sev \<Rightarrow> security_allows E p written sev) \<and>
     keys (sf_form written) \<union> sf_nulls written \<subseteq> co_NAME ` set (pr_columns p)"

text \<open>
  C8: a save is all or nothing, and nothing is written unchecked: a save without effects leaves the
  store as it was; otherwise the form its statement is built from is that of a signed-in user, has
  passed the metadata and form validation and the security rules of the table after the triggers ran,
  and has columns of the table only.
\<close>

theorem save_all_or_nothing:
  assumes "HandleSave E q st = (resp, st', effects)"
  shows "if effects = [] then st' = st else \<exists>p written key. checked E q st p written \<and>
    write_row E p written (sv_script_writes E st) = Inr (key, st') \<and> rs_Status resp = 303"
proof (cases "save_prepare E q st")
  case (Inl r)
  with assms show ?thesis by (simp add: HandleSave_def)
next
  case (Inr p)
  show ?thesis
  proof (cases "save_commit E p st")
    case (Inl r)
    with assms \<open>save_prepare E q st = Inr p\<close> show ?thesis by (simp add: HandleSave_def)
  next
    case commit: (Inr r)
    obtain i st2 eff where r: "r = (i, st2, eff)" by (cases r)
    from assms Inr commit r have e: "st2 = st'" "eff = effects" "rs_Status resp = 303"
      by (auto simp: HandleSave_def see_other_def)
    from commit[unfolded r e] obtain sf r0 triggered written sev key where c: "allocate_id E p = Some sf"
      "final_form E p sf triggered = Some written" "write_checks E (pr_table p) (pr_columns p) (is_create (sf_id (pr_form p))) written = None"
      "evaluator_of E p = Inr sev" "security_allows E p written sev" "write_row E p written (sv_script_writes E st) = Inr (key, st')"
      "effects = after_commit p i (loadRecordSnapshotWithQuerier E st' (pr_table p) i)" by (elim save_commit_Inr)
    have "effects \<noteq> []" by (simp add: c(7) after_commit_def Let_def)
    moreover from Inr have "checked E q st p written"
      by (elim save_prepare_Inr) (use Inr c(3-5) final_form_columns[OF c(2)] in \<open>simp add: checked_def\<close>)
    ultimately show ?thesis using c(6) e(3) by auto
  qed
qed

section \<open>Tables of the platform\<close>

lemma unchanged_by_roles_1 [simp]:
  "set_task_type (E\<lparr>sv_roles := f\<rparr>) = set_task_type E"
  "write_checks (E\<lparr>sv_roles := f\<rparr>) = write_checks E"
  "stamp_user (E\<lparr>sv_roles := f\<rparr>) = stamp_user E"
  "allocate_id (E\<lparr>sv_roles := f\<rparr>) = allocate_id E"
  "runtimeFieldValue (E\<lparr>sv_roles := f\<rparr>) = runtimeFieldValue E"
  "applyBuiltinRecordTransforms (E\<lparr>sv_roles := f\<rparr>) = applyBuiltinRecordTransforms E"
  "run_triggers_of (E\<lparr>sv_roles := f\<rparr>) = run_triggers_of E"
  "version_condition (E\<lparr>sv_roles := f\<rparr>) = version_condition E"
  "security_allows (E\<lparr>sv_roles := f\<rparr>) = security_allows E"
  by ((rule ext)+, simp add: set_task_type_def write_checks_def stamp_user_def allocate_id_def runtimeFieldValue_def Let_def
    applyBuiltinRecordTransforms_def run_triggers_of_def version_condition_def security_allows_def
    cong: option.case_cong if_cong)+

lemma snapshots_by_roles [simp]:
  "GetRecord (E\<lparr>sv_roles := f\<rparr>) = GetRecord E"
  "loadRecordSnapshot (E\<lparr>sv_roles := f\<rparr>) = loadRecordSnapshot E"
  "loadRecordSnapshotWithQuerier (E\<lparr>sv_roles := f\<rparr>) = loadRecordSnapshotWithQuerier E"
  by ((rule ext)+, simp add: GetRecord_def loadRecordSnapshot_def loadRecordSnapshotWithQuerier_def Let_def
    cong: option.case_cong if_cong)+

lemma scriptAnyToString_roles [simp]: "scriptAnyToString (E\<lparr>sv_roles := f\<rparr>) v = scriptAnyToString E v"
  by (cases v) simp_all

lemma build_fields_roles [simp]: "build_fields (E\<lparr>sv_roles := f\<rparr>) columns nulls form r = build_fields E columns nulls form r"
  by (induction form arbitrary: r) (auto split: option.splits)

lemma apply_fields_roles [simp]:
  "apply_fields (E\<lparr>sv_roles := f\<rparr>) columns old isCreate rest sf = apply_fields E columns old isCreate rest sf"
proof (induction rest arbitrary: sf)
  case (Cons kv rest)
  have n: "normalizeScriptColumnValue (E\<lparr>sv_roles := f\<rparr>) c v = normalizeScriptColumnValue E c v" for c v
    by (simp add: normalizeScriptColumnValue_def cong: option.case_cong if_cong)
  show ?case by (cases kv) (simp only: apply_fields.simps n Cons.IH)
qed simp

lemma unchanged_by_roles_2 [simp]:
  "save_prepare (E\<lparr>sv_roles := f\<rparr>) q st = save_prepare E q st"
  "buildRuntimeTriggerRecord (E\<lparr>sv_roles := f\<rparr>) columns old sf = buildRuntimeTriggerRecord E columns old sf"
  "final_form (E\<lparr>sv_roles := f\<rparr>) p sf r = final_form E p sf r"
  "write_row (E\<lparr>sv_roles := f\<rparr>) p sf st = write_row E p sf st"
  by (simp_all add: save_prepare_def buildRuntimeTriggerRecord_def final_form_def applyRuntimeTriggerRecordToFormData_def write_row_def Let_def
    cong: option.case_cong if_cong sum.case_cong prod.case_cong)

text \<open>
  The roles of a user play no part in a save to a table of the platform: for the names that the
  security rules treat as protected, the assignments of roles and the permissions of roles among them, the
  handler answers the same whatever roles the users have, so the general permission to write is all
  that such a save needs.
\<close>

theorem platform_tables_unguarded:
  assumes "trim_lower (TrimPrefix (sq_Path q) ''/api/save/'') \<in> set protectedTableNames"
  shows "HandleSave (E\<lparr>sv_roles := f\<rparr>) q st = HandleSave E q st"
proof (cases "save_prepare E q st")
  case (Inr p)
  then have "pr_table p = TrimPrefix (sq_Path q) ''/api/save/''" by (elim save_prepare_Inr)
  with assms have "evaluator_of E' p = Inr None" for E'
    by (cases "trim_lower (pr_table p) = []") (simp_all add: evaluator_of_def LoadTableSecurityEvaluator_def)
  then have "save_commit (E\<lparr>sv_roles := f\<rparr>) p st = save_commit E p st"
    by (simp add: save_commit_def Let_def cong: option.case_cong if_cong sum.case_cong prod.case_cong)
  with Inr show ?thesis by (simp add: HandleSave_def)
qed (simp add: HandleSave_def)

section \<open>The audit of a change\<close>

lemma distinct_stringify: "distinct (map fst (stringifyValueMap values))"
proof -
  have "map fst (stringifyValueMap values) = filter (\<lambda>k. \<not> is_system_name k) (remdups (map fst values))"
    by (simp add: stringifyValueMap_def entries_def filter_map comp_def case_prod_beta)
  then show ?thesis by simp
qed

lemma map_of_filter_value: "distinct (map fst l) \<Longrightarrow>
    map_of (map (\<lambda>(k, v). (k, f k v)) (filter (\<lambda>(k, v). P k v) l)) k =
      (case map_of l k of None \<Rightarrow> None | Some v \<Rightarrow> if P k v then Some (f k v) else None)"
  by (induction l) (auto split: option.splits simp: map_of_eq_None_iff[symmetric] rev_image_eqI dest: map_of_SomeD)

lemma makeFieldDiff_at:
  assumes "distinct (map fst old)" "distinct (map fst new)"
  shows "map_of (makeFieldDiff old new) k = (case map_of old k of
      Some v \<Rightarrow> (if v \<noteq> form_get (map_of new) k then Some (v, form_get (map_of new) k) else None)
    | None \<Rightarrow> map_option (Pair []) (map_of new k))"
  using map_of_filter_value[OF assms(1), of "\<lambda>k v. (v, form_get (map_of new) k)" "\<lambda>k v. v \<noteq> form_get (map_of new) k" k]
    map_of_filter_value[OF assms(2), of "\<lambda>k v. ([], v)" "\<lambda>k v. map_of old k = None" k]
  by (auto simp: makeFieldDiff_def map_add_def split: option.splits)

text \<open>
  The differences in the audit of a change carry it both ways: replaying them on the old texts gives
  the new text of every field, reverting them on the new texts gives the old one, where a field that is
  not there reads as empty.
\<close>

theorem audit_diff_replays:
  "case CaptureDataChange userID tableName recordID operation oldValues newValues of None \<Rightarrow> userID = [] \<or> tableName = [] \<or> recordID = []
   | Some ch \<Rightarrow>
       form_get (map_of (dc_NewValues ch)) k =
         (case map_of (dc_FieldDiff ch) k of Some (o', n') \<Rightarrow> n' | None \<Rightarrow> form_get (map_of (dc_OldValues ch)) k) \<and>
       form_get (map_of (dc_OldValues ch)) k =
         (case map_of (dc_FieldDiff ch) k of Some (o', n') \<Rightarrow> o' | None \<Rightarrow> form_get (map_of (dc_NewValues ch)) k)"
  using makeFieldDiff_at[OF distinct_stringify distinct_stringify, of oldValues newValues k]
  by (auto simp: CaptureDataChange_def Let_def form_get_def split: option.splits if_splits)

end
