(* ===== verification/ScriptRecordsLaws.thy ===== *)
theory ScriptRecordsLaws
  imports ScriptRecords RecordSaveLaws
begin

text \<open>
  What scripts can do to records: they read and change only rows that the row rules admit, a record that is
  hidden from them answers like a missing one, the cache of rules is invisible, creations follow no rules,
  and the SQL of a query holds its values as numbered placeholders only.
\<close>

section \<open>The rules of a run\<close>

definition cache_agrees :: "rule_loader \<Rightarrow> ScriptActor \<Rightarrow> access_cache \<Rightarrow> bool" where
  "cache_agrees load actor cache \<longleftrightarrow> (\<forall>k sev. cache k = Some sev \<longrightarrow> load k (ac_userID actor) = Inr sev)"

text \<open>
  Asking through the cache of a run is asking the loader, and the cache stays one of answers of the loader.
\<close>

lemma access_evaluator_exact:
  assumes "cache_agrees load actor cache" "access_evaluator load actor t cache = (r, cache')"
  shows "r = fst (access_evaluator load actor t Map.empty)" "cache_agrees load actor cache'"
  using assms by (auto simp: access_evaluator_def cache_agrees_def Let_def split: if_splits option.splits sum.splits)

lemma no_rules_allow:
  assumes "ev_roleGate e = []" "\<not> HasOperationRules (Some e) operation"
  shows "AllowsRecord now (Some e) operation r"
proof -
  have none: "\<forall>x \<in> set (ev_rules e). sr_Operation x \<noteq> normalizeSecurityOperation operation"
    using assms(2) by (auto simp: HasOperationRules_def list_ex_iff)
  then have "rulesFor e (normalizeSecurityOperation operation) [] = []" by (auto simp: rulesFor_def filter_empty_conv rule_in_scope_def)
  then have "scopeDecision now e (normalizeSecurityOperation operation) [] r = (False, True)" by (simp add: scopeDecision_def)
  moreover have "allowsRoleGate e" using assms(1) by (simp add: allowsRoleGate_def)
  ultimately show ?thesis by (simp add: AllowsRecord_def Let_def)
qed

lemma unrestricted_allows:
  assumes "restricts E actor t operation = Inr False" "evaluator_for E actor t = Inr sev"
  shows "AllowsRecord (sv_now E) sev operation r"
proof (cases sev)
  case (Some e)
  with assms show ?thesis using no_rules_allow[of e operation] by (auto simp: restricts_def)
qed (simp add: AllowsRecord_def)

text \<open>The filter of a run is the filter by the rules, restricted or not.\<close>

lemma access_filter_rules:
  assumes "evaluator_for E actor t = Inr sev"
  shows "access_filter E actor t operation rs = Inr (filter (AllowsRecord (sv_now E) sev operation) rs)"
proof -
  obtain b where b: "restricts E actor t operation = Inr b" using assms by (cases sev) (auto simp: restricts_def)
  show ?thesis
  proof (cases b)
    case False
    with b assms unrestricted_allows show ?thesis by (simp add: access_filter_def)
  qed (use b assms in \<open>simp add: access_filter_def\<close>)
qed

lemma access_allows_rules:
  "evaluator_for E actor t = Inr sev \<Longrightarrow> access_allows E actor t operation r = Inr (AllowsRecord (sv_now E) sev operation r)"
  by (simp add: access_allows_def)

section \<open>Reading\<close>

lemma list_Inr:
  assumes "listScriptRecordsWithQuerier E db actor t q operation m st = Inr rs" "evaluator_for E actor t = Inr sev"
  obtains tbl columns whereSQL args order rows fetched where "scriptViewForTable E t = Inr (tbl, columns)"
    "buildScriptWhereClause E columns q 1 = Inr (whereSQL, args)" "buildScriptOrderClause columns q = Inr order"
    "qd_Select db (tb_NAME tbl) whereSQL args order st = Inr rows" "quotable_view tbl columns"
    "rs = take (query_limit q m) (filter (AllowsRecord (sv_now E) sev operation) (map (record_of_row columns \<circ> snd) (take fetched rows)))"
  using assms that by (auto simp: listScriptRecordsWithQuerier_def Let_def access_filter_rules split: sum.splits if_splits)

lemma query_limit_bound: "query_limit q m \<le> m"
  by (simp add: query_limit_def)

text \<open>
  C16: a list and a lookup of a script show it only records that the read rules of the table admit for the
  identity it runs as, a list at most a thousand.
\<close>

theorem script_reads_permitted:
  assumes "evaluator_for E actor t = Inr sev"
  shows "(case ListScriptRecords E db t q actor st of Inl e \<Rightarrow> True
      | Inr rs \<Rightarrow> list_all (AllowsRecord (sv_now E) sev ''R'') rs \<and> length rs \<le> 1000) \<and>
    (case getScriptRecordWithQuerier E actor t i st of Inl e \<Rightarrow> True | Inr r \<Rightarrow> AllowsRecord (sv_now E) sev ''R'' r)"
proof (rule conjI)
  show "case ListScriptRecords E db t q actor st of Inl e \<Rightarrow> True
      | Inr rs \<Rightarrow> list_all (AllowsRecord (sv_now E) sev ''R'') rs \<and> length rs \<le> 1000"
  proof (cases "ListScriptRecords E db t q actor st")
    case (Inr rs)
    from Inr[unfolded ListScriptRecords_def] assms obtain xs where
      "rs = take (query_limit q 1000) (filter (AllowsRecord (sv_now E) sev ''R'') xs)" by (rule list_Inr) blast
    then have "list_all (AllowsRecord (sv_now E) sev ''R'') rs" "length rs \<le> 1000"
      using query_limit_bound[of q 1000] by (auto simp: list_all_iff dest!: in_set_takeD)
    with Inr show ?thesis by simp
  qed simp
  show "case getScriptRecordWithQuerier E actor t i st of Inl e \<Rightarrow> True | Inr r \<Rightarrow> AllowsRecord (sv_now E) sev ''R'' r"
    by (auto simp: getScriptRecordWithQuerier_def access_allows_rules[OF assms] split: sum.splits)
qed

section \<open>Hidden records\<close>

text \<open>The store without a record.\<close>

definition without_record :: "save_env \<Rightarrow> string \<Rightarrow> string \<Rightarrow> record_store \<Rightarrow> record_store" where
  "without_record E t i st = (case scriptViewForTable E t of Inl e \<Rightarrow> st
     | Inr (tbl, columns) \<Rightarrow> (case ParseRecordIDValue columns i of None \<Rightarrow> st
         | Some key \<Rightarrow> st(tb_NAME tbl := (st (tb_NAME tbl))(key := None))))"

lemma loaded_then_missing:
  "loadScriptRecord E st t i = Inr r \<Longrightarrow> loadScriptRecord E (without_record E t i st) t i = Inl (RecordNotFound t i)"
  by (auto simp: loadScriptRecord_def without_record_def split: sum.splits option.splits if_splits)

lemma ParseRecordIDValue_trim: "ParseRecordIDValue columns (TrimSpace i) = ParseRecordIDValue columns i"
  by (simp add: ParseRecordIDValue_def Let_def)

lemma snapshot_is_load:
  "loadRecordSnapshotWithQuerier E st t i = (if is_create (TrimSpace i) then []
     else case loadScriptRecord E st t i of Inl e \<Rightarrow> [] | Inr r \<Rightarrow> r)"
  by (auto simp: loadRecordSnapshotWithQuerier_def loadScriptRecord_def scriptViewForTable_def Let_def ParseRecordIDValue_trim
    split: option.splits if_splits)

lemma new_is_no_key: "is_create (TrimSpace i) \<Longrightarrow> ParseRecordIDValue columns i = None"
proof -
  assume "is_create (TrimSpace i)"
  then consider "TrimSpace i = []" | "TrimSpace i = ''new''" by (auto simp: is_create_def)
  then show ?thesis
  proof cases
    case 2
    have "ParseInt10 ''new'' = None" "\<not> IsValidUUID ''new''" by code_simp+
    with 2 show ?thesis by (simp add: ParseRecordIDValue_def Let_def)
  qed (simp add: ParseRecordIDValue_def)
qed

lemma snapshot_of_loaded: "loadScriptRecord E st t i = Inr r \<Longrightarrow> loadRecordSnapshotWithQuerier E st t i = r"
  using new_is_no_key by (auto simp: snapshot_is_load loadScriptRecord_def split: sum.splits option.splits)

text \<open>
  A record that the rules hide from a script cannot be told from a missing one: the lookup of a
  record it may not read and the update of a record it may not update answer as if there were no such record,
  and the update changes nothing.
\<close>

theorem hidden_record_like_missing:
  assumes "evaluator_for E actor t = Inr sev" "loadScriptRecord E st t i = Inr r"
  shows "(if AllowsRecord (sv_now E) sev ''R'' r then True else getScriptRecordWithQuerier E actor t i st =
        getScriptRecordWithQuerier E actor t i (without_record E t i st)) \<and>
    (if AllowsRecord (sv_now E) sev ''U'' r then True else updateScriptRecordWithQuerier E actor t i patch user st =
        (fst (updateScriptRecordWithQuerier E actor t i patch user (without_record E t i st)), st))"
proof -
  note gone = loaded_then_missing[OF assms(2)]
  have "loadRecordSnapshotWithQuerier E (without_record E t i st) t i = []" by (simp add: snapshot_is_load gone)
  then have "updatable_record E actor t i (without_record E t i st) = Inl (RecordNotFound t i)"
    by (simp add: updatable_record_def Let_def)
  moreover have "updatable_record E actor t i st = Inl (RecordNotFound t i)" if "\<not> AllowsRecord (sv_now E) sev ''U'' r"
    using that by (simp add: updatable_record_def Let_def snapshot_of_loaded[OF assms(2)] access_allows_rules[OF assms(1)])
  ultimately show ?thesis using assms(2) gone
    by (auto simp: getScriptRecordWithQuerier_def updateScriptRecordWithQuerier_def access_allows_rules[OF assms(1)] split: sum.splits)
qed

section \<open>Writing\<close>

text \<open>A row of the table of a script that its actor may touch, as it was.\<close>

definition touchable :: "save_env \<Rightarrow> TableSecurityEvaluator option \<Rightarrow> string \<Rightarrow> string \<Rightarrow> record_store \<Rightarrow> string \<Rightarrow> string \<Rightarrow> bool" where
  "touchable E sev operation t st u k \<longleftrightarrow> (case scriptViewForTable E t of Inl e \<Rightarrow> False
     | Inr (tbl, columns) \<Rightarrow> u = tb_NAME tbl \<and> (case st u k of None \<Rightarrow> False
         | Some row \<Rightarrow> AllowsRecord (sv_now E) sev operation (record_of_row columns row)))"

lemma touchable_same: "st1 u k = st u k \<Longrightarrow> touchable E sev operation t st1 u k = touchable E sev operation t st u k"
  by (auto simp: touchable_def split: sum.splits prod.splits)

lemma put_row_other: "(u, k) \<noteq> (t, key) \<Longrightarrow> put_row t key r st u k = st u k"
  by (auto simp: put_row_def)

lemma script_update_row_changes:
  assumes "script_update_row E t tbl columns i written st = (res, st')" "st' u k \<noteq> st u k"
  shows "u = tb_NAME tbl \<and> ParseRecordIDValue columns i = Some k"
proof -
  from assms obtain asg key row row' where p: "ParseRecordIDValue columns i = Some key" "st' = put_row (tb_NAME tbl) key row' st"
    by (auto simp: script_update_row_def Let_def split: option.splits if_splits sum.splits)
  with assms(2) put_row_other[of u k "tb_NAME tbl" key row' st] show ?thesis by blast
qed

lemma update_changes_permitted:
  assumes "evaluator_for E actor t = Inr sev" "sv_script_writes E = id"
    and "updateScriptRecordWithQuerier E actor t i patch user st = (res, st')" "st' u k \<noteq> st u k"
  shows "touchable E sev ''U'' t st u k"
proof -
  note u = assms(3)[unfolded updateScriptRecordWithQuerier_def Let_def assms(2) id_apply]
  from u assms(4) obtain tbl columns where v: "scriptViewForTable E t = Inr (tbl, columns)" by (auto split: sum.splits)
  from u v assms(4) obtain old where old: "updatable_record E actor t i st = Inr old" by (auto split: sum.splits)
  from u v old assms(4) obtain written where "script_update_row E t tbl columns i written st = (res, st')"
    by (auto split: sum.splits option.splits if_splits)
  from script_update_row_changes[OF this assms(4)] have k: "u = tb_NAME tbl" "ParseRecordIDValue columns i = Some k" by auto
  from old have o: "loadRecordSnapshotWithQuerier E st t i = old" "old \<noteq> []" "AllowsRecord (sv_now E) sev ''U'' old"
    by (auto simp: updatable_record_def Let_def access_allows_rules[OF assms(1)] split: if_splits)
  then have "loadScriptRecord E st t i = Inr old" by (auto simp: snapshot_is_load split: if_splits sum.splits)
  with v k o(3) show ?thesis by (auto simp: touchable_def loadScriptRecord_def split: option.splits if_splits)
qed

lemma update_loop_changes_permitted:
  assumes "evaluator_for E actor t = Inr sev" "sv_script_writes E = id"
  shows "update_loop E actor t patch user ids st = (res, st') \<Longrightarrow> st' u k \<noteq> st u k \<Longrightarrow> touchable E sev ''U'' t st u k"
proof (induction ids arbitrary: st res)
  case (Cons i ids)
  obtain r st1 where one: "updateScriptRecordWithQuerier E actor t i patch user st = (r, st1)" by (metis surj_pair)
  show ?case
  proof (cases "st1 u k = st u k")
    case False
    from update_changes_permitted[OF assms one this] show ?thesis .
  next
    case same: True
    with Cons.prems one obtain v where r: "r = Inr v" by (cases r) auto
    obtain r2 st2 where rest: "update_loop E actor t patch user ids st1 = (r2, st2)" by (metis surj_pair)
    with Cons.prems one r have "st' = st2" by (cases r2) (auto simp: Let_def)
    with Cons.IH[of st1 r2] rest Cons.prems(2) touchable_same[of st1 u k st, OF same] same show ?thesis by simp
  qed
qed simp

text \<open>
  What the deletions need of the database: a query answers with rows of its table as they are, each once,
  and the rows carry their identifiers.
\<close>

definition honest_select :: "script_db \<Rightarrow> record_store \<Rightarrow> bool" where
  "honest_select db st \<longleftrightarrow> (\<forall>t w args order rows. qd_Select db t w args order st = Inr rows \<longrightarrow> distinct (map fst rows) \<and>
     (\<forall>(key, row) \<in> set rows. st t key = Some row \<and> TrimSpace (Sprint (snapshot_get row ''_id'')) = key))"

lemma mark_rows_changes:
  "mark_rows E t marks rows st = Inr st' \<Longrightarrow> st' u k \<noteq> st u k \<Longrightarrow> u = t \<and> k \<in> fst ` set rows"
proof (induction rows arbitrary: st)
  case (Cons kr rows)
  obtain key row where kr: "kr = (key, row)" by (cases kr)
  from Cons.prems kr obtain row' where m: "mark_rows E t marks rows (put_row t key row' st) = Inr st'" by (auto split: sum.splits)
  show ?case
  proof (cases "(u, k) = (t, key)")
    case False
    with Cons.IH[OF m] Cons.prems(2) put_row_other[OF False] kr show ?thesis by auto
  qed (use kr in simp)
qed simp

lemma record_of_row_get: "has_column columns n \<Longrightarrow> snapshot_get (record_of_row columns row) n = snapshot_get row n"
proof -
  assume "has_column columns n"
  then have "map_of (map (\<lambda>c. (co_NAME c, snapshot_get row (co_NAME c))) columns) n = Some (snapshot_get row n)"
    by (induction columns) (auto simp: has_column_def)
  then show ?thesis by (simp add: snapshot_get_def record_of_row_def)
qed

lemma delete_changes_permitted:
  assumes "evaluator_for E actor t = Inr sev" "honest_select db st" "scriptViewForTable E t = Inr (tbl, columns)" "has_column columns ''_id''"
    and "deleteScriptRecordsWhereWithQuerier E db t q user actor st = (res, st')" "st' u k \<noteq> st u k"
  shows "touchable E sev ''D'' t st u k"
proof -
  note d = assms(5)[unfolded deleteScriptRecordsWhereWithQuerier_def Let_def]
  from d assms(3,6) obtain whereSQL args where w: "buildScriptWhereClause E columns q 1 = Inr (whereSQL, args)"
    by (auto split: if_splits sum.splits)
  from d assms(3,6) w obtain restricted where r: "restricts E actor t ''D'' = Inr restricted" by (auto split: if_splits sum.splits)
  from d assms(3,6) w r obtain permitted where p: "(if restricted then map_sum id Some (listScriptRecordIDsWithQuerier E db actor t q ''D'' st)
      else Inr None) = Inr permitted" "permitted \<noteq> Some []" by (auto split: if_splits sum.splits)
  note d2 = d[unfolded assms(3) sum.case prod.case w r p(1)]
  from d2 p(2) assms(6) obtain order where o: "buildScriptOrderClause columns q = Inr order" by (auto split: if_splits sum.splits)
  from d2 p(2) o assms(6) obtain rows where s: "qd_Select db (tb_NAME tbl) whereSQL args order st = Inr rows" by (auto split: if_splits sum.splits)
  let ?chosen = "case permitted of Some ids \<Rightarrow> filter (\<lambda>kr. fst kr \<in> set ids) rows | None \<Rightarrow> rows"
  from d2 p(2) o s assms(6) obtain target where m: "mark_rows E (tb_NAME tbl) (deletion_marks columns user (sv_nowText E)) target st = Inr st'"
    "set target \<subseteq> set ?chosen" by (auto split: if_splits sum.splits dest: in_set_takeD)
  from mark_rows_changes[OF m(1) assms(6)] m(2) obtain row where k: "u = tb_NAME tbl" "(k, row) \<in> set ?chosen" by auto
  then have "(k, row) \<in> set rows" by (auto split: option.splits)
  with assms(2) s k(1) have row: "st u k = Some row" by (fastforce simp: honest_select_def)
  have "AllowsRecord (sv_now E) sev ''D'' (record_of_row columns row)"
  proof (cases restricted)
    case False
    with r assms(1) show ?thesis by (simp add: unrestricted_allows)
  next
    case True
    with p(1) obtain ids where ids: "permitted = Some ids" "listScriptRecordIDsWithQuerier E db actor t q ''D'' st = Inr ids"
      by (auto simp: map_sum_id_Inr)
    from ids(2) obtain rs where l: "listScriptRecordsWithQuerier E db actor t q ''D'' 5000 st = Inr rs"
      "set ids \<subseteq> (\<lambda>r. TrimSpace (Sprint (snapshot_get r ''_id''))) ` set rs"
      by (auto simp: listScriptRecordIDsWithQuerier_def split: sum.splits)
    from l(1) assms(1) obtain tbl' columns' w' args' order' rows' fetched where l2: "scriptViewForTable E t = Inr (tbl', columns')"
      "qd_Select db (tb_NAME tbl') w' args' order' st = Inr rows'"
      "rs = take (query_limit q 5000) (filter (AllowsRecord (sv_now E) sev ''D'') (map (record_of_row columns' \<circ> snd) (take fetched rows')))"
      by (rule list_Inr)
    from k(2) ids(1) have "k \<in> set ids" by simp
    with l(2) obtain r2 where r2: "r2 \<in> set rs" "k = TrimSpace (Sprint (snapshot_get r2 ''_id''))" by auto
    from r2(1) l2(3) obtain k2 row2 where x: "(k2, row2) \<in> set rows'" "r2 = record_of_row columns row2" "AllowsRecord (sv_now E) sev ''D'' r2"
      using l2(1) assms(3) by (auto dest!: in_set_takeD)
    from x(1) assms(2) l2(1,2) assms(3) k(1) have "st u k2 = Some row2" "TrimSpace (Sprint (snapshot_get row2 ''_id'')) = k2"
      by (fastforce simp: honest_select_def)+
    with r2(2) x(2) row record_of_row_get[OF assms(4)] have "row2 = row" by simp
    with x show ?thesis by simp
  qed
  with assms(3) k(1) row show ?thesis by (simp add: touchable_def)
qed

text \<open>
  C17: the rows that a script changes by an update or a deletion with a query are rows of the table of the
  script that the rules admit for that operation, as they were before. It is assumed that the triggers write
  to no other rows, that a query answers with rows as they are, and that the table shows its identifiers.
\<close>

theorem script_writes_permitted:
  assumes "evaluator_for E actor t = Inr sev" "sv_script_writes E = id" "honest_select db st"
    and "scriptViewForTable E t = Inr (tbl, columns)" "has_column columns ''_id''"
  shows "(if snd (updateScriptRecordsWhereWithQuerier E db t q patch user actor st) u k = st u k then True
      else touchable E sev ''U'' t st u k) \<and>
    (if snd (deleteScriptRecordsWhereWithQuerier E db t q user actor st) u k = st u k then True
      else touchable E sev ''D'' t st u k)"
proof (rule conjI)
  obtain res st' where u: "updateScriptRecordsWhereWithQuerier E db t q patch user actor st = (res, st')" by (metis surj_pair)
  have "touchable E sev ''U'' t st u k" if "st' u k \<noteq> st u k"
  proof -
    from u that obtain ids where ids: "listScriptRecordIDsWithQuerier E db actor t q ''U'' st = Inr ids"
      by (auto simp: updateScriptRecordsWhereWithQuerier_def split: if_splits sum.splits)
    obtain r1 st1 where l: "update_loop E actor t patch user ids st = (r1, st1)" by (metis surj_pair)
    with u that ids have "st1 = st'" by (auto simp: updateScriptRecordsWhereWithQuerier_def split: if_splits sum.splits)
    with update_loop_changes_permitted[OF assms(1,2) l] that show ?thesis by simp
  qed
  with u show "if snd (updateScriptRecordsWhereWithQuerier E db t q patch user actor st) u k = st u k then True
      else touchable E sev ''U'' t st u k" by simp
  obtain res st'' where d: "deleteScriptRecordsWhereWithQuerier E db t q user actor st = (res, st'')" by (metis surj_pair)
  with delete_changes_permitted[OF assms(1,3-5) d, of u k]
  show "if snd (deleteScriptRecordsWhereWithQuerier E db t q user actor st) u k = st u k then True
      else touchable E sev ''D'' t st u k" by simp
qed

section \<open>Bounds\<close>

lemma script_loop_length: "update_loop E actor t patch user ids st = (Inr updated, st') \<Longrightarrow> length updated = length ids"
proof (induction ids arbitrary: st updated st')
  case (Cons i ids)
  obtain r st1 where one: "updateScriptRecordWithQuerier E actor t i patch user st = (r, st1)" by (metis surj_pair)
  obtain r2 st2 where rest: "update_loop E actor t patch user ids st1 = (r2, st2)" by (metis surj_pair)
  from Cons.prems one rest obtain v w where "r = Inr v" "r2 = Inr w" "length updated = Suc (length w)"
    by (cases r; cases r2) (auto simp: Let_def)
  with Cons.IH[of st1 w st2] rest show ?case by simp
qed simp

lemma list_IDs_length:
  assumes "listScriptRecordIDsWithQuerier E db actor t q operation st = Inr ids" "evaluator_for E actor t = Inr sev"
  shows "length ids \<le> query_limit q 5000"
proof -
  from assms(1) obtain rs where l: "listScriptRecordsWithQuerier E db actor t q operation 5000 st = Inr rs" "length ids \<le> length rs"
    by (auto simp: listScriptRecordIDsWithQuerier_def split: sum.splits intro: order_trans[OF length_filter_le])
  from l(1) assms(2) obtain xs where "rs = take (query_limit q 5000) xs" by (rule list_Inr) blast
  with l(2) show ?thesis by simp
qed

text \<open>
  A query without a limit is not unlimited: an update by such a query reaches a hundred records at most
  and a deletion that the rules restrict too, and neither answer tells that records were left out; only an
  unrestricted deletion covers every row the query finds.
\<close>

theorem unlimited_means_hundred:
  assumes "evaluator_for E actor t = Inr sev" "qu_Limit q \<le> 0" "honest_select db st"
  shows "(case fst (updateScriptRecordsWhereWithQuerier E db t q patch user actor st) of Inl e \<Rightarrow> True | Inr m \<Rightarrow> mr_Affected m \<le> 100) \<and>
    (case fst (deleteScriptRecordsWhereWithQuerier E db t q user actor st) of Inl e \<Rightarrow> True
     | Inr m \<Rightarrow> if restricts E actor t ''D'' = Inr True then mr_Affected m \<le> 100
        else \<exists>tbl columns w args order rows. scriptViewForTable E t = Inr (tbl, columns) \<and>
          buildScriptWhereClause E columns q 1 = Inr (w, args) \<and> buildScriptOrderClause columns q = Inr order \<and>
          qd_Select db (tb_NAME tbl) w args order st = Inr rows \<and> mr_IDs m = map fst rows)"
proof (rule conjI)
  have hundred: "query_limit q 5000 = 100" using assms(2) by (simp add: query_limit_def)
  show "case fst (updateScriptRecordsWhereWithQuerier E db t q patch user actor st) of Inl e \<Rightarrow> True | Inr m \<Rightarrow> mr_Affected m \<le> 100"
  proof (cases "fst (updateScriptRecordsWhereWithQuerier E db t q patch user actor st)")
    case (Inr m)
    then obtain ids where ids: "listScriptRecordIDsWithQuerier E db actor t q ''U'' st = Inr ids"
      by (auto simp: updateScriptRecordsWhereWithQuerier_def split: if_splits sum.splits)
    obtain r st1 where l: "update_loop E actor t patch user ids st = (r, st1)" by (metis surj_pair)
    from Inr ids l obtain updated where "r = Inr updated" "mr_Affected m = length updated"
      by (auto simp: updateScriptRecordsWhereWithQuerier_def split: if_splits sum.splits)
    with Inr script_loop_length l list_IDs_length[OF ids assms(1)] hundred show ?thesis by auto
  qed simp
  show "case fst (deleteScriptRecordsWhereWithQuerier E db t q user actor st) of Inl e \<Rightarrow> True
     | Inr m \<Rightarrow> if restricts E actor t ''D'' = Inr True then mr_Affected m \<le> 100
        else \<exists>tbl columns w args order rows. scriptViewForTable E t = Inr (tbl, columns) \<and>
          buildScriptWhereClause E columns q 1 = Inr (w, args) \<and> buildScriptOrderClause columns q = Inr order \<and>
          qd_Select db (tb_NAME tbl) w args order st = Inr rows \<and> mr_IDs m = map fst rows"
  proof (cases "fst (deleteScriptRecordsWhereWithQuerier E db t q user actor st)")
    case (Inr m)
    note d = Inr[unfolded deleteScriptRecordsWhereWithQuerier_def Let_def]
    from d obtain tbl columns where v: "scriptViewForTable E t = Inr (tbl, columns)" by (auto split: if_splits sum.splits)
    from d v obtain w args where w: "buildScriptWhereClause E columns q 1 = Inr (w, args)" by (auto split: if_splits sum.splits)
    from d v w obtain restricted where r: "restricts E actor t ''D'' = Inr restricted" by (auto split: if_splits sum.splits)
    show ?thesis
    proof (cases restricted)
      case False
      with d v w r assms(2) Inr show ?thesis by (auto split: if_splits sum.splits)
    next
      case True
      with d v w r obtain ids where ids: "listScriptRecordIDsWithQuerier E db actor t q ''D'' st = Inr ids"
        by (auto simp: map_sum_id_Inr split: if_splits sum.splits)
      have "mr_Affected m \<le> length ids"
      proof (cases "ids = []")
        case False
        with d[unfolded v sum.case prod.case w r ids map_sum.simps] True assms(2) obtain order rows where s: "qd_Select db (tb_NAME tbl) w args order st = Inr rows"
          "mr_Affected m = length (filter (\<lambda>kr. fst kr \<in> set ids) rows)" by (auto split: if_splits sum.splits)
        from s(1) assms(3) have "distinct (map fst rows)" by (auto simp: honest_select_def)
        then have "distinct (map fst (filter (\<lambda>kr. fst kr \<in> set ids) rows))" by (rule distinct_map_filter)
        then have "card (fst ` set (filter (\<lambda>kr. fst kr \<in> set ids) rows)) = mr_Affected m"
          using s(2) by (metis distinct_card length_map list.set_map)
        moreover have "card (fst ` set (filter (\<lambda>kr. fst kr \<in> set ids) rows)) \<le> card (set ids)" by (rule card_mono) auto
        ultimately show ?thesis using card_length[of ids] by simp
      qed (use d[unfolded v sum.case prod.case w r ids map_sum.simps] True in \<open>auto split: if_splits sum.splits\<close>)
      with list_IDs_length[OF ids assms(1)] hundred r True Inr show ?thesis by simp
    qed
  qed simp
qed

section \<open>Creations\<close>

lemma write_fields_roles [simp]: "write_fields (E\<lparr>sv_roles := f\<rparr>) columns fs sf = write_fields E columns fs sf"
proof (induction fs arbitrary: sf)
  case (Cons kv fs)
  have n: "normalizeScriptColumnValue (E\<lparr>sv_roles := f\<rparr>) c v = normalizeScriptColumnValue E c v" for c v
    by (simp add: normalizeScriptColumnValue_def cong: option.case_cong if_cong)
  show ?case by (cases kv) (simp only: write_fields.simps n Cons.IH)
qed simp

lemma script_parts_roles [simp]:
  "scriptViewForTable (E\<lparr>sv_roles := f\<rparr>) t = scriptViewForTable E t"
  "buildScriptWriteData (E\<lparr>sv_roles := f\<rparr>) columns values user now isCreate = buildScriptWriteData E columns values user now isCreate"
  "script_trigger_record (E\<lparr>sv_roles := f\<rparr>) columns old sf = script_trigger_record E columns old sf"
  "script_triggers (E\<lparr>sv_roles := f\<rparr>) t event user r old = script_triggers E t event user r old"
  "script_form (E\<lparr>sv_roles := f\<rparr>) t columns old isCreate sf r = script_form E t columns old isCreate sf r"
  "loadScriptRecord (E\<lparr>sv_roles := f\<rparr>) st t i = loadScriptRecord E st t i"
  by (simp_all add: scriptViewForTable_def buildScriptWriteData_def script_trigger_record_def script_triggers_def script_form_def
    loadScriptRecord_def applyRuntimeTriggerRecordToFormData_def Let_def
    cong: option.case_cong if_cong sum.case_cong prod.case_cong)

text \<open>
  The roles of a user play no part in what a script creates for him: a creation gives the same answer
  and the same store whatever roles he has, so the create rules and the role gate of a table do not bind
  scripts, where the form refuses the same record.
\<close>

theorem script_creates_unguarded:
  "createScriptRecordWithQuerier (E\<lparr>sv_roles := f\<rparr>) t values user st = createScriptRecordWithQuerier E t values user st"
  by (simp add: createScriptRecordWithQuerier_def Let_def cong: option.case_cong if_cong sum.case_cong prod.case_cong)

end
