(* ===== verification/ScriptSqlLaws.thy ===== *)
theory ScriptSqlLaws
  imports ScriptRecordsLaws
begin

text \<open>
  The SQL of a script query: quoted columns of the table, fixed operators, fixed casts, and placeholders that
  are numbered from left to right like the arguments, so that no value of a query becomes text.
\<close>

definition script_operators :: "string list" where
  "script_operators = [''='', ''!='', ''<'', ''<='', ''>'', ''>='']"

definition script_casts :: "string list" where
  "script_casts = [[], ''::uuid'', ''::boolean'', ''::integer'', ''::bigint'', ''::double precision'', ''::numeric'', ''::json'',
     ''::jsonb'', ''::date'', ''::timestamp'', ''::timestamptz'']"

text \<open>The placeholders from \<open>i\<close> on, each with its cast.\<close>

fun cast_list :: "nat \<Rightarrow> string list \<Rightarrow> string list" where
  "cast_list i [] = []"
| "cast_list i (c # cs) = (script_placeholder i @ c) # cast_list (Suc i) cs"

text \<open>
  \<open>script_clause Q i sql j\<close>: a clause over the quoted columns \<open>Q\<close> with the placeholders \<open>i\<close> to \<open>j - 1\<close>, from left
  to right; \<open>script_clauses\<close>: a sequence of such clauses.
\<close>

inductive script_clause :: "string set \<Rightarrow> nat \<Rightarrow> string \<Rightarrow> nat \<Rightarrow> bool"
  and script_clauses :: "string set \<Rightarrow> nat \<Rightarrow> string list \<Rightarrow> nat \<Rightarrow> bool" for Q where
  null_test: "q \<in> Q \<Longrightarrow> op \<in> {'' IS NULL'', '' IS NOT NULL''} \<Longrightarrow> script_clause Q i (q @ op) i"
| comparison: "q \<in> Q \<Longrightarrow> op \<in> set script_operators \<Longrightarrow> c \<in> set script_casts \<Longrightarrow>
    script_clause Q i (q @ '' '' @ op @ '' '' @ script_placeholder i @ c) (Suc i)"
| membership: "q \<in> Q \<Longrightarrow> op \<in> {''IN'', ''NOT IN''} \<Longrightarrow> set cs \<subseteq> set script_casts \<Longrightarrow>
    script_clause Q i (q @ '' '' @ op @ '' ('' @ Join (cast_list i cs) '', '' @ '')'') (i + length cs)"
| grouped: "script_clauses Q i sqls j \<Longrightarrow> op \<in> {'' AND '', '' OR ''} \<Longrightarrow>
    script_clause Q i (''('' @ Join sqls op @ '')'') j"
| no_clause: "script_clauses Q i [] i"
| one_more: "script_clause Q i sql j \<Longrightarrow> script_clauses Q j sqls k \<Longrightarrow> script_clauses Q i (sql # sqls) k"

lemma script_clauses_append:
  "script_clauses Q i xs j \<Longrightarrow> script_clauses Q j ys k \<Longrightarrow> script_clauses Q i (xs @ ys) k"
proof (induction xs arbitrary: i)
  case Nil
  from Nil.prems(1) have "i = j" by (cases rule: script_clauses.cases) auto
  with Nil.prems(2) show ?case by simp
next
  case (Cons x xs)
  from Cons.prems(1) obtain m where "script_clause Q i x m" "script_clauses Q m xs j" by (cases rule: script_clauses.cases) auto
  with Cons.IH[OF _ Cons.prems(2)] show ?case by (auto intro: one_more)
qed

lemma one_clause: "script_clause Q i sql j \<Longrightarrow> script_clauses Q i [sql] j"
  by (rule one_more[OF _ no_clause])

lemma script_clause_nonempty: "script_clause Q i sql j \<Longrightarrow> [] \<notin> Q \<Longrightarrow> sql \<noteq> []"
  by (cases rule: script_clause.cases) auto

lemma script_cast: "scriptColumnCast dt \<in> set script_casts"
  by (simp add: scriptColumnCast_def script_casts_def Let_def)

section \<open>The builders\<close>

text \<open>A builder is sound: its clause has the placeholders it says, as many as it has arguments.\<close>

definition builds :: "string set \<Rightarrow> ('a \<Rightarrow> nat \<Rightarrow> (script_error, clause) result) \<Rightarrow> bool" where
  "builds Q f \<longleftrightarrow> (\<forall>x i sql args n. f x i = Inr (sql, args, n) \<longrightarrow> script_clause Q i sql (i + n) \<and> n = length args)"

lemma clause_loop_sound:
  assumes "builds Q f" "[] \<notin> Q"
  shows "clause_loop f xs i = Inr (sqls, args, j) \<Longrightarrow> script_clauses Q i sqls j \<and> j = i + length args"
proof (induction xs arbitrary: i sqls args j)
  case (Cons x xs)
  from Cons.prems obtain sql a n sqls' args' where f: "f x i = Inr (sql, a, n)" "clause_loop f xs (i + n) = Inr (sqls', args', j)"
    "sqls = (if sql \<noteq> [] then [sql] else []) @ sqls'" "args = a @ args'"
    by (auto split: sum.splits)
  from assms(1) f(1) have "script_clause Q i sql (i + n)" "n = length a" by (auto simp: builds_def)
  moreover from this(1) assms(2) have "sql \<noteq> []" by (rule script_clause_nonempty)
  ultimately show ?case using Cons.IH[OF f(2)] f(3,4) by (auto intro: one_more)
qed (auto intro: no_clause)

lemma in_items_casts:
  "in_items E c vs i = Inr (ps, args) \<Longrightarrow> \<exists>cs. ps = cast_list i cs \<and> set cs \<subseteq> set script_casts \<and> length cs = length args"
proof (induction vs arbitrary: i ps args)
  case (Cons v vs)
  from Cons.prems obtain n ps' args' where r: "in_items E c vs (Suc i) = Inr (ps', args')"
    "ps = (script_placeholder i @ scriptColumnCast (co_DATA_TYPE c)) # ps'" "args = n # args'"
    by (auto split: option.splits if_splits sum.splits)
  from Cons.IH[OF r(1)] obtain cs where "ps' = cast_list (Suc i) cs" "set cs \<subseteq> set script_casts" "length cs = length args'" by blast
  with r(2,3) script_cast show ?case by (intro exI[of _ "scriptColumnCast (co_DATA_TYPE c) # cs"]) auto
qed (auto intro: exI[of _ "[]"])

lemma filter_operator:
  "normalizeScriptFilterOperator raw = Inr op \<Longrightarrow> op \<in> set script_operators \<or> op \<in> {''in'', ''not in''}"
  by (auto simp: normalizeScriptFilterOperator_def Let_def script_operators_def split: if_splits)

lemma upper_in: "ToUpper ''in'' = ''IN''" "ToUpper ''not in'' = ''NOT IN''"
  by code_simp+

lemma in_not_operator: "''in'' \<notin> set script_operators" "''not in'' \<notin> set script_operators"
  by (simp_all add: script_operators_def)

lemma filter_clause_sound:
  assumes "q \<in> Q" "buildScriptFilterClause E c q f i = Inr (sql, args, n)"
  shows "script_clause Q i sql (i + n) \<and> n = length args"
proof -
  from assms(2) obtain op where op: "normalizeScriptFilterOperator (fi_Operator f) = Inr op"
    by (auto simp: buildScriptFilterClause_def split: sum.splits)
  note b = assms(2)[unfolded buildScriptFilterClause_def op sum.case]
  show ?thesis
  proof (cases "op \<in> {''in'', ''not in''}")
    case True
    with b obtain items ps where i: "in_items E c items i = Inr (ps, args)" "n = length args"
      "sql = q @ '' '' @ ToUpper op @ '' ('' @ Join ps '', '' @ '')''"
      by (auto split: sum.splits if_splits)
    from in_items_casts[OF i(1)] obtain cs where "ps = cast_list i cs" "set cs \<subseteq> set script_casts" "length cs = n" using i(2) by blast
    with membership[OF assms(1), of "ToUpper op" cs i] True i upper_in show ?thesis by auto
  next
    case False
    with filter_operator[OF op] have o: "op \<in> set script_operators" by blast
    from b False obtain v isNull where v: "normalizeScriptColumnValue E c (fi_Value f) = Some (v, isNull)"
      by (auto split: option.splits)
    show ?thesis
    proof (cases isNull)
      case True
      with b False v null_test[OF assms(1)] show ?thesis by (auto split: if_splits)
    next
      case nonnull: False
      with b False v comparison[OF assms(1) o script_cast] show ?thesis by auto
    qed
  qed
qed

text \<open>The quoted columns of a table.\<close>

definition quoted_columns :: "Column list \<Rightarrow> string set" where
  "quoted_columns columns = {dquote # co_NAME c @ [dquote] | c. c \<in> set columns \<and> IsSafeIdentifier (co_NAME c)}
     \<union> {dquote # ''_id'' @ [dquote], dquote # ''_deleted_at'' @ [dquote]}"

lemma quoted_columns_nonempty: "[] \<notin> quoted_columns columns"
  by (auto simp: quoted_columns_def)

lemma quote_column: "column_named columns n = Some c \<Longrightarrow> QuoteIdentifier (co_NAME c) = Inr q \<Longrightarrow> q \<in> quoted_columns columns"
  by (auto simp: quoted_columns_def QuoteIdentifier_def column_named_def dest: find_Some_mem split: if_splits)

lemma builds_filter: "builds (quoted_columns columns) (filter_clause E columns)"
  unfolding builds_def filter_clause_def Let_def
  by (auto split: option.splits sum.splits if_splits dest!: filter_clause_sound[OF quote_column])

lemma builds_group: "builds (quoted_columns columns) (buildScriptFilterGroupClause E columns)"
  unfolding builds_def
proof (intro allI impI)
  fix g i sql args n
  assume a: "buildScriptFilterGroupClause E columns g i = Inr (sql, args, n)"
  then obtain m where m: "normalizeScriptFilterGroupMode (gr_Mode g) = Inr m"
    by (auto simp: buildScriptFilterGroupClause_def split: sum.splits)
  from a obtain parts j where p: "clause_loop (filter_clause E columns) (gr_Filters g) i = Inr (parts, args, j)" "parts \<noteq> []"
    "n = length args" "sql = (if length parts = 1 then hd parts else ''('' @ Join parts (if m = ''all'' then '' AND '' else '' OR '') @ '')'')"
    unfolding buildScriptFilterGroupClause_def m sum.case by (auto split: sum.splits if_splits)
  from clause_loop_sound[OF builds_filter quoted_columns_nonempty p(1)]
  have c: "script_clauses (quoted_columns columns) i parts (i + n)" using p(3) by auto
  show "script_clause (quoted_columns columns) i sql (i + n) \<and> n = length args"
  proof (cases "length parts = 1")
    case True
    then obtain x where x: "parts = [x]" by (cases parts) auto
    from c[unfolded x] obtain k where "script_clause (quoted_columns columns) i x k" "script_clauses (quoted_columns columns) k [] (i + n)"
      by (cases rule: script_clauses.cases) auto
    moreover from this(2) have "k = i + n" by (cases rule: script_clauses.cases) auto
    ultimately show ?thesis using p(3,4) x by simp
  next
    case False
    with p(3,4) grouped[OF c] show ?thesis by auto
  qed
qed

lemma cast_list_plain: "cast_list i (replicate n []) = map (\<lambda>j. script_placeholder (i + j)) [0..<n]"
proof (induction n arbitrary: i)
  case (Suc n)
  have "map (\<lambda>j. script_placeholder (i + j)) [0..<Suc n] = script_placeholder i # map (\<lambda>j. script_placeholder (Suc i + j)) [0..<n]"
    by (simp add: upt_conv_Cons map_Suc_upt[symmetric] comp_def del: upt_Suc)
  with Suc show ?case by simp
qed simp

lemma builds_ids: "builds (quoted_columns columns) (id_clause columns)"
  unfolding builds_def
proof (intro allI impI)
  fix ids i sql args n
  assume "id_clause columns ids i = Inr (sql, args, n)"
  then have s: "n = length args" "sql = dquote # ''_id'' @ [dquote] @ '' IN (''
      @ Join (cast_list i (replicate n [])) '', '' @ '')''"
    by (auto simp: id_clause_def cast_list_plain split: option.splits)
  have "dquote # ''_id'' @ [dquote] \<in> quoted_columns columns" by (simp add: quoted_columns_def)
  from membership[OF this, of "''IN''" "replicate n []" i] s
  show "script_clause (quoted_columns columns) i sql (i + n) \<and> n = length args"
    by (simp add: script_casts_def set_replicate_conv_if)
qed

lemma builds_equals: "builds (quoted_columns columns) (equals_clause E columns)"
  unfolding builds_def
proof (intro allI impI)
  fix kv i sql args n
  assume a: "equals_clause E columns kv i = Inr (sql, args, n)"
  then obtain c q v isNull where q: "q \<in> quoted_columns columns" "normalizeScriptColumnValue E c (snd kv) = Some (v, isNull)"
    "(sql, args, n) = (if isNull then (q @ '' IS NULL'', [], 0)
       else (q @ '' = '' @ script_placeholder i @ scriptColumnCast (co_DATA_TYPE c), [v], 1))"
    by (auto simp: equals_clause_def split: option.splits sum.splits if_splits dest: quote_column)
  have eq: "''='' \<in> set script_operators" by (simp add: script_operators_def)
  show "script_clause (quoted_columns columns) i sql (i + n) \<and> n = length args"
    using q(3) null_test[OF q(1), of "'' IS NULL''" i] comparison[OF q(1) eq script_cast, of i "co_DATA_TYPE c"]
    by (cases isNull) auto
qed

text \<open>
  C18: the condition of a script query is a conjunction of clauses made of quoted columns of the table,
  fixed operators, fixed casts and placeholders, and the placeholders are numbered from left to right from 1
  to the number of arguments: every value travels as an argument.
\<close>

theorem script_query_sql:
  assumes "buildScriptWhereClause E columns q 1 = Inr (sql, args)"
  shows "\<exists>sqls. sql = Join sqls '' AND '' \<and> script_clauses (quoted_columns columns) 1 sqls (Suc (length args))"
proof -
  let ?Q = "quoted_columns columns"
  let ?live = "if has_column columns ''_deleted_at'' \<and> \<not> qu_IncludeDeleted q then [dquote # ''_deleted_at'' @ [dquote] @ '' IS NULL''] else []"
  from assms obtain ids idArgs i equals eqArgs j filters fiArgs k groups grArgs l where p:
    "clause_loop (id_clause columns) (if qu_IDs q = [] then [] else [qu_IDs q]) 1 = Inr (ids, idArgs, i)"
    "clause_loop (equals_clause E columns) (sorted_entries (qu_Equals q)) i = Inr (equals, eqArgs, j)"
    "clause_loop (filter_clause E columns) (qu_Filters q) j = Inr (filters, fiArgs, k)"
    "clause_loop (buildScriptFilterGroupClause E columns) (qu_Groups q) k = Inr (groups, grArgs, l)"
    "sql = Join (?live @ ids @ equals @ filters @ groups) '' AND ''" "args = idArgs @ eqArgs @ fiArgs @ grArgs"
    unfolding buildScriptWhereClause_def Let_def by (auto split: sum.splits)
  note ne = quoted_columns_nonempty
  from null_test[of "dquote # ''_deleted_at'' @ [dquote]" ?Q "'' IS NULL''" 1]
  have live: "script_clauses ?Q 1 ?live 1" by (auto simp: quoted_columns_def intro: one_clause no_clause)
  have ids: "script_clauses ?Q 1 ids i" and i: "i = 1 + length idArgs" using clause_loop_sound[OF builds_ids ne p(1)] by blast+
  have equals: "script_clauses ?Q i equals j" and j: "j = i + length eqArgs" using clause_loop_sound[OF builds_equals ne p(2)] by blast+
  have filters: "script_clauses ?Q j filters k" and k: "k = j + length fiArgs" using clause_loop_sound[OF builds_filter ne p(3)] by blast+
  have groups: "script_clauses ?Q k groups l" and l: "l = k + length grArgs" using clause_loop_sound[OF builds_group ne p(4)] by blast+
  have "script_clauses ?Q 1 (?live @ ids @ equals @ filters @ groups) l"
    by (rule script_clauses_append[OF live script_clauses_append[OF ids script_clauses_append[OF equals
      script_clauses_append[OF filters groups]]]])
  moreover have "l = Suc (length args)" using i j k l p(6) by simp
  ultimately have "script_clauses ?Q 1 (?live @ ids @ equals @ filters @ groups) (Suc (length args))" by simp
  with p(5) show ?thesis by blast
qed

end
