(* ===== verification/ScriptRecordsSamples.thy ===== *)
theory ScriptRecordsSamples
  imports ValidateSamples ScriptSqlLaws
begin

text \<open>A table of memos that only editors may touch, and the properties of script operations applied to it.\<close>

definition memo_column :: AppDefinitionColumn where
  "memo_column = \<lparr>dc_Name = ''title'', dc_Label = ''Title'', dc_DataType = ''text'', dc_IsNullable = False, dc_DefaultValue = [],
     dc_Prefix = [], dc_ValidationRegex = [], dc_ValidationExpr = [], dc_ConditionExpr = [], dc_ValidationMessage = [],
     dc_ReferenceTable = [], dc_Choices = []\<rparr>"

definition memo_app :: RegisteredApp where
  "memo_app = registered ''t'' ''t'' (Some (zero_definition\<lparr>ad_Name := ''t'', ad_Namespace := ''t'',
     ad_Tables := [zero_table\<lparr>dt_Name := ''t_memo'', dt_Columns := [memo_column],
       dt_Security := zero_security\<lparr>se_Roles := [''editor'']\<rparr>\<rparr>]\<rparr>))"

definition memo_source :: metadata_source where
  "memo_source = \<lparr>ms_apps = Inr [memo_app], ms_table = \<lambda>n. Inr None, ms_columns = \<lambda>n. Inr [], ms_baseTables = Inr []\<rparr>"

definition memo_assigned :: "assignment list \<Rightarrow> record_map \<Rightarrow> record_map" where
  "memo_assigned asg r = fold (\<lambda>(k, v, _). form_put k (case v of None \<Rightarrow> GNil | Some s \<Rightarrow> GStr s)) asg r"

definition memo_env :: save_env where
  "memo_env = \<lparr>sv_prio = \<lambda>n. 0, sv_source = memo_source, sv_now = epoch, sv_nowText = ''now'', sv_member = \<lambda>a b. None,
     sv_checkers = no_checkers, sv_roles = (\<lambda>u a. Inr (if u = ''ed'' then [''editor''] else [])), sv_order = \<lambda>m. [],
     sv_scopes = \<lambda>s. None, sv_engine = \<lambda>opts. Inl TableNameRequired, sv_script_writes = id, sv_unmarshal = \<lambda>s. None,
     sv_marshal = \<lambda>g. [], sv_encrypt = \<lambda>s. None,
     sv_pg = \<lparr>pg_insert = \<lambda>t asg st. Inl None, pg_update = \<lambda>t asg r. Inr (memo_assigned asg r), pg_same_time = \<lambda>s g. False\<rparr>,
     sv_begins = True, sv_commits = True, sv_freshID = None\<rparr>"

definition memo_key :: string where "memo_key = ''11111111-1111-4111-8111-111111111111''"

definition memo_row :: record_map where
  "memo_row = [(''_id'', GStr memo_key), (''title'', GStr ''old'')]"

definition memo_store :: record_store where
  "memo_store t = (if t = ''t_memo'' then [memo_key \<mapsto> memo_row] else Map.empty)"

definition memo_db :: script_db where
  "memo_db = \<lparr>qd_Select = \<lambda>t w args order st. Inr (case st t memo_key of None \<Rightarrow> [] | Some r \<Rightarrow> [(memo_key, r)])\<rparr>"

definition editor :: ScriptActor where "editor = UserScriptActor ''ed''"
definition stranger :: ScriptActor where "stranger = UserScriptActor ''ann''"

lemma memo_view: "case scriptViewForTable memo_env ''t_memo'' of Inl e \<Rightarrow> False | Inr (tbl, columns) \<Rightarrow>
    tb_NAME tbl = ''t_memo'' \<and> has_column columns ''_id'' \<and> has_column columns ''title''"
  by code_simp

lemma memo_access: "case evaluator_for memo_env editor ''t_memo'' of Inl e \<Rightarrow> False | Inr sev \<Rightarrow>
   (case getScriptRecordWithQuerier memo_env editor ''t_memo'' memo_key memo_store of Inl e \<Rightarrow> False | Inr r \<Rightarrow> AllowsRecord epoch sev ''R'' r)"
  by code_simp

lemma memo_hidden: "case evaluator_for memo_env stranger ''t_memo'' of Inl e \<Rightarrow> False | Inr sev \<Rightarrow>
   (case loadScriptRecord memo_env memo_store ''t_memo'' memo_key of Inl e \<Rightarrow> False | Inr r \<Rightarrow> \<not> AllowsRecord epoch sev ''R'' r \<and>
     \<not> AllowsRecord epoch sev ''U'' r)"
  by code_simp

lemma memo_deleted: "case deleteScriptRecordsWhereWithQuerier memo_env memo_db ''t_memo'' (id_query [memo_key] 0) ''ed'' editor memo_store of
   (Inl e, _) \<Rightarrow> False
 | (Inr m, st') \<Rightarrow> mr_Affected m = 1 \<and> (case st' ''t_memo'' memo_key of None \<Rightarrow> False | Some r \<Rightarrow>
      (case snapshot_get r ''_deleted_at'' of GStr s \<Rightarrow> s = ''now'' | _ \<Rightarrow> False))"
  by code_simp

lemma script_reads_permitted_witness:
  "case evaluator_for memo_env editor ''t_memo'' of Inl e \<Rightarrow> False | Inr sev \<Rightarrow>
   (case getScriptRecordWithQuerier memo_env editor ''t_memo'' memo_key memo_store of Inl e \<Rightarrow> False
    | Inr r \<Rightarrow> AllowsRecord (sv_now memo_env) sev ''R'' r)"
  using memo_access script_reads_permitted[of memo_env editor "''t_memo''" _ memo_db _ memo_store memo_key]
  by (fastforce split: sum.splits)

lemma hidden_record_like_missing_witness:
  "case loadScriptRecord memo_env memo_store ''t_memo'' memo_key of Inl e \<Rightarrow> False
   | Inr r \<Rightarrow> getScriptRecordWithQuerier memo_env stranger ''t_memo'' memo_key memo_store =
       getScriptRecordWithQuerier memo_env stranger ''t_memo'' memo_key (without_record memo_env ''t_memo'' memo_key memo_store)"
proof -
  from memo_hidden obtain sev r where h: "evaluator_for memo_env stranger ''t_memo'' = Inr sev"
    "loadScriptRecord memo_env memo_store ''t_memo'' memo_key = Inr r" "\<not> AllowsRecord (sv_now memo_env) sev ''R'' r"
    by (auto simp: memo_env_def split: sum.splits)
  with hidden_record_like_missing[OF h(1,2), of "[]" "[]"] show ?thesis by simp
qed

lemma memo_id: "TrimSpace (Sprint (GStr memo_key)) = memo_key"
  by code_simp

lemma memo_honest: "honest_select memo_db memo_store"
  using memo_id by (simp add: honest_select_def memo_db_def memo_store_def memo_row_def snapshot_get_def)

lemma script_writes_permitted_witness:
  "case evaluator_for memo_env editor ''t_memo'' of Inl e \<Rightarrow> False | Inr sev \<Rightarrow>
     touchable memo_env sev ''D'' ''t_memo'' memo_store ''t_memo'' memo_key"
proof -
  let ?d = "deleteScriptRecordsWhereWithQuerier memo_env memo_db ''t_memo'' (id_query [memo_key] 0) ''ed'' editor memo_store"
  from memo_access obtain sev where sev: "evaluator_for memo_env editor ''t_memo'' = Inr sev" by (auto split: sum.splits)
  from memo_view obtain tbl columns where v: "scriptViewForTable memo_env ''t_memo'' = Inr (tbl, columns)" "has_column columns ''_id''"
    by (auto split: sum.splits)
  from memo_deleted obtain r where "snd ?d ''t_memo'' memo_key = Some r" "snapshot_get r ''_deleted_at'' \<noteq> GNil"
    by (auto split: prod.splits sum.splits option.splits gval.splits)
  then have "snd ?d ''t_memo'' memo_key \<noteq> memo_store ''t_memo'' memo_key"
    by (auto simp: memo_store_def memo_row_def snapshot_get_def)
  moreover have "sv_script_writes memo_env = id" by (simp add: memo_env_def)
  ultimately show ?thesis
    using script_writes_permitted[OF sev _ memo_honest v, of "id_query [memo_key] 0" "[]" "''ed''" "''t_memo''" memo_key] sev by simp
qed

lemma unlimited_means_hundred_witness:
  "case fst (deleteScriptRecordsWhereWithQuerier memo_env memo_db ''t_memo'' (id_query [memo_key] 0) ''ed'' editor memo_store) of
     Inl e \<Rightarrow> False | Inr m \<Rightarrow> mr_Affected m \<le> 100"
proof -
  from memo_access obtain sev where sev: "evaluator_for memo_env editor ''t_memo'' = Inr sev" by (auto split: sum.splits)
  have l: "qu_Limit (id_query [memo_key] 0) \<le> 0" by (simp add: id_query_def)
  have "restricts memo_env editor ''t_memo'' ''D'' = Inr True" by code_simp
  with unlimited_means_hundred[OF sev l memo_honest, of "[]" "''ed''"] memo_deleted show ?thesis
    by (auto split: prod.splits sum.splits)
qed

definition memo_query :: ScriptRecordQuery where
  "memo_query = \<lparr>qu_IDs = [memo_key], qu_Equals = [(''title'', GStr ''old'')],
     qu_Filters = [\<lparr>fi_Column = '' Title'', fi_Operator = ''in'', fi_Value = GList [GStr ''a'', GStr ''b'']\<rparr>],
     qu_Groups = [], qu_OrderBy = [], qu_Limit = 0, qu_IncludeDeleted = True\<rparr>"

definition memo_columns :: "Column list" where
  "memo_columns = [zero_column\<lparr>co_NAME := ''title'', co_DATA_TYPE := ''text''\<rparr>]"

lemma memo_condition: "case buildScriptWhereClause memo_env memo_columns memo_query 1 of Inl e \<Rightarrow> False
   | Inr (sql, args) \<Rightarrow> sql = dquote # ''_id'' @ [dquote] @ '' IN ($1) AND '' @ [dquote] @ ''title'' @ [dquote] @ '' = $2 AND ''
       @ [dquote] @ ''title'' @ [dquote] @ '' IN ($3, $4)'' \<and> args = [memo_key, ''old'', ''a'', ''b'']"
  by code_simp

lemma script_query_sql_witness:
  "\<exists>sqls. Join sqls '' AND '' = dquote # ''_id'' @ [dquote] @ '' IN ($1) AND '' @ [dquote] @ ''title'' @ [dquote] @ '' = $2 AND ''
       @ [dquote] @ ''title'' @ [dquote] @ '' IN ($3, $4)'' \<and> script_clauses (quoted_columns memo_columns) 1 sqls 5"
proof -
  from memo_condition obtain sql args where b: "buildScriptWhereClause memo_env memo_columns memo_query 1 = Inr (sql, args)"
    by (auto split: sum.splits)
  from memo_condition b have s: "sql = dquote # ''_id'' @ [dquote] @ '' IN ($1) AND '' @ [dquote] @ ''title'' @ [dquote] @ '' = $2 AND ''
       @ [dquote] @ ''title'' @ [dquote] @ '' IN ($3, $4)''" "Suc (length args) = 5" by simp_all
  from script_query_sql[OF b, unfolded s(2)] s(1) show ?thesis by metis
qed

end
