(* ===== verification/RichText.thy ===== *)
theory RichText
  imports ExprScan
begin

text \<open>
  The sanitiser of rich text (\<open>internal/db/RichText.go\<close>): a submitted fragment of HTML is parsed and written
  again with the tags and attributes of a short list only. The parser of HTML is a library: it is the
  argument \<open>parse\<close>, which maps a text to its nodes or fails. The laws show that whatever it answers the
  output is a well-nested text over the allowed tags, whose links lead to the four allowed schemes.
\<close>

section \<open>Nodes\<close>

text \<open>Comments, doctypes and the other types of nodes are \<open>OtherNode\<close>.\<close>

datatype html_node =
    TextNode string
  | ElementNode string "(string \<times> string) list" "html_node list"
  | OtherNode "html_node list"

definition escape_byte :: "char \<Rightarrow> string" where
  "escape_byte c = (if c = CHR ''<'' then ''&lt;'' else if c = CHR ''>'' then ''&gt;'' else if c = CHR ''&'' then ''&amp;''
     else if c = CHR 0x27 then ''&#39;'' else if c = dquote then ''&#34;'' else [c])"

text \<open>\<open>html.EscapeString\<close> of the standard library.\<close>

definition EscapeString :: "string \<Rightarrow> string" where
  "EscapeString s = concat (map escape_byte s)"

section \<open>Tags and links\<close>

definition richTextVoidTags :: "string list" where
  "richTextVoidTags = [''br'', ''hr'']"

definition richTextDropSubtreeTags :: "string list" where
  "richTextDropSubtreeTags = [''button'', ''embed'', ''form'', ''iframe'', ''input'', ''link'', ''meta'', ''object'', ''script'',
     ''select'', ''style'', ''textarea'']"

definition canonicalRichTextTag :: "string \<Rightarrow> string" where
  "canonicalRichTextTag input =
     (let t = ToLower (TrimSpace input) in
      if t = ''a'' then ''a''
      else if t = ''b'' \<or> t = ''strong'' then ''strong''
      else if t = ''em'' \<or> t = ''i'' then ''em''
      else if t \<in> {''blockquote'', ''br'', ''code'', ''div'', ''h1'', ''h2'', ''h3'', ''h4'', ''h5'', ''h6'', ''hr'', ''li'', ''ol'', ''p'',
        ''pre'', ''s'', ''span'', ''u'', ''ul''} then t
      else [])"

definition link_schemes :: "string list" where
  "link_schemes = [''http://'', ''https://'', ''mailto:'', ''tel:'']"

definition sanitizeRichTextURL :: "string \<Rightarrow> string" where
  "sanitizeRichTextURL raw =
     (let href = TrimSpace raw; lower = ToLower href in
      if list_ex (HasPrefix lower) link_schemes then EscapeString href else [])"

definition attrValue :: "(string \<times> string) list \<Rightarrow> string \<Rightarrow> string" where
  "attrValue attrs name = (case find (\<lambda>kv. ToLower (TrimSpace (fst kv)) = ToLower (TrimSpace name)) attrs of
     None \<Rightarrow> [] | Some kv \<Rightarrow> snd kv)"

section \<open>Writing\<close>

definition link_attributes :: "string \<Rightarrow> string" where
  "link_attributes href = '' href='' @ [dquote] @ href @ [dquote] @ '' target='' @ [dquote] @ ''_blank'' @ [dquote]
     @ '' rel='' @ [dquote] @ ''noopener noreferrer'' @ [dquote]"

definition write_text :: "string \<Rightarrow> bool \<Rightarrow> string" where
  "write_text text preserveWhitespace = EscapeString
     (if \<not> preserveWhitespace \<and> TrimSpace text = [] \<and> (Contains text [CHR 0x0A] \<or> Contains text [CHR 0x0D] \<or> Contains text [CHR 0x09])
      then '' '' else text)"

definition open_tag :: "string \<Rightarrow> (string \<times> string) list \<Rightarrow> string" where
  "open_tag tag attrs = ''<'' @ tag
     @ (if tag = ''a'' then (let href = sanitizeRichTextURL (attrValue attrs ''href'') in if href \<noteq> [] then link_attributes href else [])
        else []) @ ''>''"

fun writeSanitizedRichTextNode :: "html_node \<Rightarrow> bool \<Rightarrow> string" where
  "writeSanitizedRichTextNode (TextNode text) preserve = write_text text preserve"
| "writeSanitizedRichTextNode (ElementNode name attrs children) preserve =
     (let tag = canonicalRichTextTag name in
      if tag \<in> set richTextDropSubtreeTags then []
      else if tag = []
      then concat (map (\<lambda>n. writeSanitizedRichTextNode n (preserve \<or> EqualFold name ''pre'')) children)
      else open_tag tag attrs
        @ (if tag \<in> set richTextVoidTags then []
           else concat (map (\<lambda>n. writeSanitizedRichTextNode n (preserve \<or> tag = ''pre'' \<or> tag = ''code'')) children)
             @ ''</'' @ tag @ ''>''))"
| "writeSanitizedRichTextNode (OtherNode children) preserve =
     concat (map (\<lambda>n. writeSanitizedRichTextNode n preserve) children)"

definition SanitizeRichTextHTML :: "(string \<Rightarrow> html_node list option) \<Rightarrow> string \<Rightarrow> string" where
  "SanitizeRichTextHTML parse input =
     (let trimmed = TrimSpace input in
      if trimmed = [] then []
      else case parse trimmed of None \<Rightarrow> EscapeString trimmed
      | Some nodes \<Rightarrow> TrimSpace (concat (map (\<lambda>n. writeSanitizedRichTextNode n False) nodes)))"

section \<open>The language of the output\<close>

definition quiet :: "char \<Rightarrow> bool" where
  "quiet c \<longleftrightarrow> c \<noteq> CHR ''<'' \<and> c \<noteq> CHR ''>'' \<and> c \<noteq> dquote \<and> c \<noteq> CHR 0x27"

definition paired_tags :: "string list" where
  "paired_tags = [''a'', ''strong'', ''em'', ''blockquote'', ''code'', ''div'', ''h1'', ''h2'', ''h3'', ''h4'', ''h5'', ''h6'', ''li'', ''ol'',
     ''p'', ''pre'', ''s'', ''span'', ''u'', ''ul'']"

text \<open>
  Well-nested text: characters that are no markup, void tags, allowed tags without attributes around such
  texts, and links to an allowed scheme, which open in a new window and tell it nothing of this one.
\<close>

inductive safe_html :: "string \<Rightarrow> bool" where
  nothing: "safe_html []"
| character: "quiet c \<Longrightarrow> safe_html s \<Longrightarrow> safe_html (c # s)"
| void: "t \<in> set richTextVoidTags \<Longrightarrow> safe_html s \<Longrightarrow> safe_html (''<'' @ t @ ''>'' @ s)"
| element: "t \<in> set paired_tags \<Longrightarrow> safe_html body \<Longrightarrow> safe_html s \<Longrightarrow>
    safe_html (''<'' @ t @ ''>'' @ body @ ''</'' @ t @ ''>'' @ s)"
| link: "list_all quiet href \<Longrightarrow> list_ex (HasPrefix (ToLower href)) link_schemes \<Longrightarrow> safe_html body \<Longrightarrow> safe_html s \<Longrightarrow>
    safe_html (''<a'' @ link_attributes href @ ''>'' @ body @ ''</a>'' @ s)"

lemma safe_append: "safe_html a \<Longrightarrow> safe_html b \<Longrightarrow> safe_html (a @ b)"
proof (induction rule: safe_html.induct)
  case (void t s)
  then show ?case using safe_html.void[of t "s @ b"] by simp
next
  case (element t body s)
  then show ?case using safe_html.element[of t body "s @ b"] by simp
next
  case (link href body s)
  then show ?case using safe_html.link[of href body "s @ b"] by simp
qed (auto intro: safe_html.intros)

lemma safe_concat: "(\<And>x. x \<in> set xs \<Longrightarrow> safe_html x) \<Longrightarrow> safe_html (concat xs)"
  by (induction xs) (auto intro: safe_html.nothing safe_append)

lemma safe_quiet: "list_all quiet s \<Longrightarrow> safe_html s"
  by (induction s) (auto intro: safe_html.intros)

lemma EscapeString_quiet: "list_all quiet (EscapeString s)"
  by (induction s) (auto simp: EscapeString_def escape_byte_def quiet_def dquote_def)

section \<open>Trimming\<close>

lemma quiet_bytes: "ws1 a \<Longrightarrow> quiet a" "128 \<le> byte a \<Longrightarrow> quiet a"
  by (auto simp: quiet_def ws1_def dquote_def)

lemma skip_ws_quiet:
  assumes "\<And>a b. p2 a b \<Longrightarrow> quiet a \<and> quiet b" "\<And>a b c. p3 a b c \<Longrightarrow> quiet a \<and> quiet b \<and> quiet c"
  shows "\<exists>w. s = w @ skip_ws p2 p3 s \<and> list_all quiet w"
  using assms
proof (induction p2 p3 s rule: skip_ws.induct)
  case (2 p2 p3 a)
  then show ?case using quiet_bytes(1) by (auto intro: exI[of _ "[a]"])
next
  case (3 p2 p3 a b)
  show ?case
  proof (cases "ws1 a")
    case True
    with 3 obtain w where "[b] = w @ skip_ws p2 p3 [b]" "list_all quiet w" by blast
    with True quiet_bytes(1) show ?thesis by (intro exI[of _ "a # w"]) simp
  next
    case False
    with 3 show ?thesis by (auto intro: exI[of _ "[a, b]"])
  qed
next
  case (4 p2 p3 a b c s)
  consider (one) "ws1 a" | (two) "\<not> ws1 a" "p2 a b" | (three) "\<not> ws1 a" "\<not> p2 a b" "p3 a b c"
    | (none) "\<not> ws1 a" "\<not> p2 a b" "\<not> p3 a b c" by blast
  then show ?case
  proof cases
    case one
    with 4 obtain w where "b # c # s = w @ skip_ws p2 p3 (b # c # s)" "list_all quiet w" by blast
    with one quiet_bytes(1) show ?thesis by (intro exI[of _ "a # w"]) simp
  next
    case two
    with 4 obtain w where "c # s = w @ skip_ws p2 p3 (c # s)" "list_all quiet w" by blast
    with two 4(4) show ?thesis by (intro exI[of _ "a # b # w"]) simp
  next
    case three
    with 4 obtain w where "s = w @ skip_ws p2 p3 s" "list_all quiet w" by blast
    with three 4(5) show ?thesis by (intro exI[of _ "a # b # c # w"]) simp
  qed simp
qed simp

lemma TrimSpace_quiet: "\<exists>a b. s = a @ TrimSpace s @ b \<and> list_all quiet a \<and> list_all quiet b"
proof -
  have p2: "ws2 a b \<Longrightarrow> quiet a \<and> quiet b" for a b by (auto simp: ws2_def intro: quiet_bytes(2))
  have p3: "ws3 a b c \<Longrightarrow> quiet a \<and> quiet b \<and> quiet c" for a b c by (auto simp: ws3_def intro!: quiet_bytes(2))
  from skip_ws_quiet[of ws2 ws3 s] p2 p3 obtain a where a: "s = a @ TrimLeftSpace s" "list_all quiet a"
    unfolding TrimLeftSpace_def by blast
  from skip_ws_quiet[of "\<lambda>a b. ws2 b a" "\<lambda>a b c. ws3 c b a" "rev (TrimLeftSpace s)"] p2 p3
  obtain b where "rev (TrimLeftSpace s) = b @ rev (TrimSpace s)" "list_all quiet b"
    unfolding TrimSpace_def TrimRightSpace_def by auto
  then have "TrimLeftSpace s = TrimSpace s @ rev b \<and> list_all quiet (rev b)" by (metis list.pred_set rev_append rev_rev_ident set_rev)
  with a show ?thesis by metis
qed

lemma safe_drop_prefix: "list_all quiet a \<Longrightarrow> safe_html (a @ s) \<Longrightarrow> safe_html s"
proof (induction a)
  case (Cons c a)
  from Cons.prems(2) have "safe_html (a @ s)" using Cons.prems(1) by (cases rule: safe_html.cases) (auto simp: quiet_def)
  with Cons show ?case by simp
qed simp

lemma quiet_suffix:
  assumes "m @ [CHR ''>''] @ s = u @ b" "list_all quiet b"
  obtains v where "u = m @ [CHR ''>''] @ v" "s = v @ b"
proof -
  from assms(1) have "(m @ [CHR ''>'']) @ s = u @ b" by simp
  then obtain v where "m @ [CHR ''>''] = u @ v \<and> v @ s = b \<or> (m @ [CHR ''>'']) @ v = u \<and> s = v @ b"
    unfolding append_eq_append_conv2 by blast
  then show thesis
  proof
    assume v: "m @ [CHR ''>''] = u @ v \<and> v @ s = b"
    show thesis
    proof (cases v rule: rev_cases)
      case Nil
      with v that[of "[]"] show thesis by simp
    next
      case (snoc v' c)
      with v assms(2) show thesis by (auto simp: quiet_def)
    qed
  qed (use that[of v] in auto)
qed

lemma safe_drop_suffix: "safe_html w \<Longrightarrow> list_all quiet b \<Longrightarrow> w = s @ b \<Longrightarrow> safe_html s"
proof (induction arbitrary: s rule: safe_html.induct)
  case (character c w)
  then show ?case by (cases s) (auto intro: safe_html.intros)
next
  case (void t w)
  from void.prems(2) have "(''<'' @ t) @ [CHR ''>''] @ w = s @ b" by simp
  then obtain v where "s = (''<'' @ t) @ [CHR ''>''] @ v" "w = v @ b" by (rule quiet_suffix[OF _ void.prems(1)])
  with void safe_html.void[of t v] show ?case by simp
next
  case (element t body w)
  from element.prems(2) have "(''<'' @ t @ ''>'' @ body @ ''</'' @ t) @ [CHR ''>''] @ w = s @ b" by simp
  then obtain v where "s = (''<'' @ t @ ''>'' @ body @ ''</'' @ t) @ [CHR ''>''] @ v" "w = v @ b"
    by (rule quiet_suffix[OF _ element.prems(1)])
  with element safe_html.element[of t body v] show ?case by simp
next
  case (link href body w)
  from link.prems(2) have "(''<a'' @ link_attributes href @ ''>'' @ body @ ''</a'') @ [CHR ''>''] @ w = s @ b" by simp
  then obtain v where "s = (''<a'' @ link_attributes href @ ''>'' @ body @ ''</a'') @ [CHR ''>''] @ v" "w = v @ b"
    by (rule quiet_suffix[OF _ link.prems(1)])
  with link safe_html.link[of href body v] show ?case by simp
qed (auto intro: safe_html.nothing)

lemma safe_trim: "safe_html s \<Longrightarrow> safe_html (TrimSpace s)"
proof -
  assume s: "safe_html s"
  obtain a b where t: "s = a @ TrimSpace s @ b" "list_all quiet a" "list_all quiet b" using TrimSpace_quiet by blast
  from safe_drop_prefix[OF t(2), of "TrimSpace s @ b"] s t(1) have "safe_html (TrimSpace s @ b)" by simp
  from safe_drop_suffix[OF this t(3) refl] show ?thesis .
qed

section \<open>The output\<close>

lemma canonical_tags: "canonicalRichTextTag name \<in> {[]} \<union> set paired_tags \<union> set richTextVoidTags"
  by (auto simp: canonicalRichTextTag_def paired_tags_def richTextVoidTags_def Let_def)

lemma never_dropped: "canonicalRichTextTag name \<notin> set richTextDropSubtreeTags"
  using canonical_tags[of name] by (auto simp: paired_tags_def richTextVoidTags_def richTextDropSubtreeTags_def)

lemma lower_special: "\<not> quiet c \<or> c = CHR ''&'' \<Longrightarrow> lower_byte c = c"
  by (auto simp: quiet_def lower_byte_def is_upper_byte_def dquote_def)

lemma EscapeString_scheme:
  assumes "HasPrefix (ToLower s) p" "list_all (\<lambda>c. quiet c \<and> c \<noteq> CHR ''&'') p"
  shows "HasPrefix (ToLower (EscapeString s)) p"
proof -
  let ?n = "length p"
  from assms(1) have p: "ToLower (take ?n s) = p"
    by (auto simp: HasPrefix_def prefix_def ToLower_def take_map[symmetric])
  have "escape_byte c = [c]" if "c \<in> set (take ?n s)" for c
  proof -
    from that p have "lower_byte c \<in> set p" by (metis ToLower_def image_eqI list.set_map)
    with assms(2) have "quiet (lower_byte c)" "lower_byte c \<noteq> CHR ''&''" by (auto simp: list_all_iff)
    then have "quiet c" "c \<noteq> CHR ''&''" by (metis lower_special)+
    then show ?thesis by (simp add: escape_byte_def quiet_def)
  qed
  then have "EscapeString (take ?n s) = take ?n s"
    by (metis (no_types, lifting) EscapeString_def concat_map_singleton list.map_ident map_eq_conv)
  moreover have "EscapeString s = EscapeString (take ?n s) @ EscapeString (drop ?n s)"
    by (metis EscapeString_def append_take_drop_id concat_append map_append)
  ultimately show ?thesis using p by (simp add: ToLower_def HasPrefix_def)
qed

lemma sanitized_link:
  assumes "sanitizeRichTextURL raw \<noteq> []"
  shows "list_all quiet (sanitizeRichTextURL raw) \<and> list_ex (HasPrefix (ToLower (sanitizeRichTextURL raw))) link_schemes"
proof -
  from assms have s: "sanitizeRichTextURL raw = EscapeString (TrimSpace raw)"
    "list_ex (HasPrefix (ToLower (TrimSpace raw))) link_schemes" by (auto simp: sanitizeRichTextURL_def Let_def split: if_splits)
  have "list_all (\<lambda>p. list_all (\<lambda>c. quiet c \<and> c \<noteq> CHR ''&'') p) link_schemes" by (simp add: link_schemes_def quiet_def dquote_def)
  with s(2) EscapeString_scheme[of "TrimSpace raw"] have "list_ex (HasPrefix (ToLower (EscapeString (TrimSpace raw)))) link_schemes"
    by (auto simp: list_ex_iff list_all_iff)
  with s(1) EscapeString_quiet show ?thesis by simp
qed

lemma write_element:
  assumes "canonicalRichTextTag name = tag" "tag \<in> set paired_tags" "safe_html body"
  shows "safe_html (open_tag tag attrs @ body @ ''</'' @ tag @ ''>'')"
proof (cases "tag = ''a'' \<and> sanitizeRichTextURL (attrValue attrs ''href'') \<noteq> []")
  case True
  from sanitized_link[OF True[THEN conjunct2]] safe_html.link[OF _ _ assms(3) safe_html.nothing] True show ?thesis
    by (simp add: open_tag_def Let_def)
next
  case False
  then have "open_tag tag attrs = ''<'' @ tag @ ''>''" by (auto simp: open_tag_def Let_def)
  with safe_html.element[OF assms(2,3) safe_html.nothing] show ?thesis by simp
qed

lemma write_safe: "safe_html (writeSanitizedRichTextNode n preserve)"
proof (induction n preserve rule: writeSanitizedRichTextNode.induct)
  case (1 body preserve)
  show ?case by (simp add: write_text_def safe_quiet[OF EscapeString_quiet])
next
  case (2 name attrs children preserve)
  let ?tag = "canonicalRichTextTag name"
  consider "?tag = []" | "?tag \<in> set richTextVoidTags" | "?tag \<noteq> []" "?tag \<notin> set richTextVoidTags" "?tag \<in> set paired_tags"
    using canonical_tags[of name] by blast
  then show ?case
  proof cases
    case 1
    with 2(1)[OF refl never_dropped] show ?thesis by (auto simp: richTextDropSubtreeTags_def intro!: safe_concat)
  next
    case 2
    then have "?tag \<noteq> []" "?tag \<noteq> ''a''" by (auto simp: richTextVoidTags_def)
    with 2 never_dropped[of name] safe_html.void[OF 2 safe_html.nothing] show ?thesis by (simp add: open_tag_def)
  next
    case 3
    have "safe_html (concat (map (\<lambda>n. writeSanitizedRichTextNode n (preserve \<or> ?tag = ''pre'' \<or> ?tag = ''code'')) children))"
      using 2(2)[OF refl never_dropped 3(1,2)] by (auto intro!: safe_concat)
    from write_element[OF refl 3(3) this] 3 never_dropped[of name] show ?thesis by (simp add: Let_def)
  qed
next
  case (3 children preserve)
  then show ?case by (auto intro!: safe_concat)
qed

text \<open>
  C31: whatever the parser makes of a submitted text, the sanitised text is well nested over the allowed
  tags, has no attribute but those of links, and a link leads to http, https, mailto or tel only.
\<close>

theorem sanitized_text_safe: "safe_html (SanitizeRichTextHTML parse input)"
proof -
  have "safe_html (TrimSpace (concat (map (\<lambda>n. writeSanitizedRichTextNode n False) nodes)))" for nodes
    by (intro safe_trim safe_concat) (auto simp: write_safe)
  then show ?thesis
    by (auto simp: SanitizeRichTextHTML_def Let_def safe_html.nothing safe_quiet[OF EscapeString_quiet] split: option.splits)
qed

text \<open>
  No element is ever dropped with its contents: the tags of the drop list are no canonical tags, so the
  body of a script or a style is written as text.
\<close>

lemma script_body_kept:
  assumes "parse (TrimSpace input) = Some [ElementNode ''script'' [] [TextNode s]]" "TrimSpace input \<noteq> []"
  shows "SanitizeRichTextHTML parse input = TrimSpace (write_text s False)"
proof -
  have "canonicalRichTextTag ''script'' = []" "\<not> EqualFold ''script'' ''pre''" by code_simp+
  with assms show ?thesis
    by (simp add: SanitizeRichTextHTML_def richTextDropSubtreeTags_def Let_def)
qed

end
