(* ===== verification/ObservabilityQueue.thy ===== *)
theory ObservabilityQueue
  imports Main
begin

text \<open>
  The queue of derived observability events (\<open>internal/db/ObservabilityQueue.go\<close>): a bounded channel that
  drops what does not fit, filled by the requests and emptied by one worker, which emits the events of up to
  \<open>maxBatch\<close> jobs at once.

  A send, a receive and the closing of the channel are single steps: sends hold the read lock and the
  closing holds the write lock, so no job is sent on a closed channel. The answer of an emission is a
  choice of the step. The log lines are not modelled.
\<close>

section \<open>State\<close>

record 'e job =
  jo_label :: string
  jo_events :: "'e list"

text \<open>
  The worker: not launched, blocked on the channel, folding further jobs into a batch with the number of
  jobs in it, about to emit, or returned.
\<close>

datatype 'e worker = Unlaunched | Receiving | Coalescing "'e list" nat | Emitting "'e list" | Returned

record 'e obs_queue =
  oq_size :: nat
  oq_maxBatch :: nat
  oq_jobs :: "'e job list"
  oq_stopping :: bool
  oq_worker :: "'e worker"
  oq_dropped :: nat
  oq_processed :: nat
  oq_failed :: nat

definition newDerivedObservabilityQueue :: "int \<Rightarrow> int \<Rightarrow> 'e obs_queue" where
  "newDerivedObservabilityQueue capacity maxBatch =
     \<lparr>oq_size = (if capacity < 1 then 1 else nat capacity), oq_maxBatch = (if maxBatch < 1 then 1 else nat maxBatch), oq_jobs = [],
      oq_stopping = False, oq_worker = Unlaunched, oq_dropped = 0, oq_processed = 0, oq_failed = 0\<rparr>"

section \<open>Operations\<close>

definition start_worker :: "'e obs_queue \<Rightarrow> 'e obs_queue" where
  "start_worker q = (case oq_worker q of Unlaunched \<Rightarrow> q\<lparr>oq_worker := Receiving\<rparr> | _ \<Rightarrow> q)"

definition stop_queue :: "'e obs_queue \<Rightarrow> 'e obs_queue" where
  "stop_queue q = q\<lparr>oq_stopping := True\<rparr>"

definition enqueue :: "'e job \<Rightarrow> 'e obs_queue \<Rightarrow> bool \<times> 'e obs_queue" where
  "enqueue j q =
     (if jo_events j = [] then (True, q)
      else if oq_stopping q then (False, q)
      else if length (oq_jobs q) < oq_size q then (True, q\<lparr>oq_jobs := oq_jobs q @ [j]\<rparr>)
      else (False, q\<lparr>oq_dropped := oq_dropped q + 1\<rparr>))"

definition enqueueDerivedObservability :: "'e job \<Rightarrow> 'e obs_queue \<Rightarrow> 'e obs_queue" where
  "enqueueDerivedObservability j q = (if jo_events j = [] then q else snd (enqueue j (start_worker q)))"

text \<open>
  The next step of the worker, given whether an emission succeeds: \<open>None\<close> when it is blocked, not launched or
  has returned.
\<close>

definition worker_step :: "bool \<Rightarrow> 'e obs_queue \<Rightarrow> 'e obs_queue option" where
  "worker_step succeeds q = (case oq_worker q of
     Unlaunched \<Rightarrow> None
   | Returned \<Rightarrow> None
   | Receiving \<Rightarrow> (case oq_jobs q of
         j # js \<Rightarrow> Some (q\<lparr>oq_worker := Coalescing (jo_events j) 1, oq_jobs := js\<rparr>)
       | [] \<Rightarrow> if oq_stopping q then Some (q\<lparr>oq_worker := Returned\<rparr>) else None)
   | Coalescing batch n \<Rightarrow>
       if n < oq_maxBatch q then (case oq_jobs q of
           j # js \<Rightarrow> Some (q\<lparr>oq_worker := Coalescing (batch @ jo_events j) (n + 1), oq_jobs := js\<rparr>)
         | [] \<Rightarrow> Some (q\<lparr>oq_worker := Emitting batch\<rparr>))
       else Some (q\<lparr>oq_worker := Emitting batch\<rparr>)
   | Emitting batch \<Rightarrow>
       if batch = [] then Some (q\<lparr>oq_worker := Receiving\<rparr>)
       else if succeeds then Some (q\<lparr>oq_worker := Receiving, oq_processed := oq_processed q + length batch\<rparr>)
       else Some (q\<lparr>oq_worker := Receiving, oq_failed := oq_failed q + length batch\<rparr>))"

section \<open>Runs\<close>

text \<open>
  A run with its history: the events of the accepted jobs, the batches that were emitted, and the number of
  refused jobs with events.
\<close>

record 'e history =
  hi_accepted :: "'e list"
  hi_emitted :: "'e list list"

definition no_history :: "'e history" where
  "no_history = \<lparr>hi_accepted = [], hi_emitted = []\<rparr>"

definition in_hand :: "'e obs_queue \<Rightarrow> 'e list" where
  "in_hand q = (case oq_worker q of Coalescing batch n \<Rightarrow> batch | Emitting batch \<Rightarrow> batch | _ \<Rightarrow> [])"

inductive queue_step :: "'e obs_queue \<times> 'e history \<Rightarrow> 'e obs_queue \<times> 'e history \<Rightarrow> bool" where
  launch: "queue_step (q, h) (start_worker q, h)"
| closing: "queue_step (q, h) (stop_queue q, h)"
| accepted: "enqueue j q = (True, q') \<Longrightarrow> queue_step (q, h) (q', h\<lparr>hi_accepted := hi_accepted h @ jo_events j\<rparr>)"
| refused: "enqueue j q = (False, q') \<Longrightarrow> queue_step (q, h) (q', h)"
| emission: "oq_worker q = Emitting batch \<Longrightarrow> worker_step succeeds q = Some q' \<Longrightarrow>
    queue_step (q, h) (q', h\<lparr>hi_emitted := hi_emitted h @ [batch]\<rparr>)"
| progress: "\<forall>batch. oq_worker q \<noteq> Emitting batch \<Longrightarrow> worker_step succeeds q = Some q' \<Longrightarrow> queue_step (q, h) (q', h)"

definition pending :: "'e obs_queue \<Rightarrow> 'e list" where
  "pending q = concat (map jo_events (oq_jobs q))"

definition batch_bound :: "'e obs_queue \<Rightarrow> bool" where
  "batch_bound q \<longleftrightarrow> (case oq_worker q of Coalescing batch n \<Rightarrow> n \<le> oq_maxBatch q \<and> batch \<noteq> [] | Emitting batch \<Rightarrow> batch \<noteq> [] | _ \<Rightarrow> True)"

definition queue_inv :: "'e obs_queue \<times> 'e history \<Rightarrow> bool" where
  "queue_inv qh \<longleftrightarrow> (case qh of (q, h) \<Rightarrow>
     0 < oq_maxBatch q \<and> length (oq_jobs q) \<le> oq_size q \<and> list_all (\<lambda>j. jo_events j \<noteq> []) (oq_jobs q) \<and> batch_bound q \<and>
     hi_accepted h = concat (hi_emitted h) @ in_hand q @ pending q \<and>
     oq_processed q + oq_failed q = length (concat (hi_emitted h)) \<and>
     (oq_worker q = Returned \<longrightarrow> oq_stopping q \<and> oq_jobs q = []))"

lemma worker_step_inv:
  assumes "queue_inv (q, h)" "worker_step succeeds q = Some q'"
  shows "queue_inv (q', case oq_worker q of Emitting batch \<Rightarrow> h\<lparr>hi_emitted := hi_emitted h @ [batch]\<rparr> | _ \<Rightarrow> h)"
proof (cases "oq_worker q")
  case Receiving
  with assms show ?thesis
    by (cases "oq_jobs q") (auto simp: queue_inv_def worker_step_def in_hand_def pending_def batch_bound_def split: if_splits)
next
  case (Coalescing batch n)
  with assms show ?thesis
    by (cases "oq_jobs q") (auto simp: queue_inv_def worker_step_def in_hand_def pending_def batch_bound_def split: if_splits)
next
  case (Emitting batch)
  with assms show ?thesis
    by (auto simp: queue_inv_def worker_step_def in_hand_def pending_def batch_bound_def split: if_splits)
qed (use assms in \<open>auto simp: worker_step_def\<close>)

lemma queue_step_inv: "queue_step qh qh' \<Longrightarrow> queue_inv qh \<Longrightarrow> queue_inv qh'"
proof (induction rule: queue_step.induct)
  case (launch q h)
  then show ?case by (cases "oq_worker q") (auto simp: start_worker_def queue_inv_def in_hand_def pending_def batch_bound_def)
next
  case (closing q h)
  then show ?case by (cases "oq_worker q") (auto simp: stop_queue_def queue_inv_def in_hand_def pending_def batch_bound_def)
next
  case (accepted j q q' h)
  then show ?case
    by (cases "oq_worker q") (auto simp: enqueue_def queue_inv_def in_hand_def pending_def batch_bound_def split: if_splits)
next
  case (refused j q q' h)
  then show ?case
    by (cases "oq_worker q") (auto simp: enqueue_def queue_inv_def in_hand_def pending_def batch_bound_def split: if_splits)
next
  case (emission q batch succeeds q' h)
  from worker_step_inv[OF emission(3,2)] emission(1) show ?case by simp
next
  case (progress q succeeds q' h)
  from worker_step_inv[OF progress(3,2)] progress(1) show ?case by (cases "oq_worker q") auto
qed

lemma new_queue_inv: "queue_inv (newDerivedObservabilityQueue capacity maxBatch, no_history)"
  by (simp add: queue_inv_def newDerivedObservabilityQueue_def no_history_def in_hand_def pending_def batch_bound_def)

text \<open>
  C32: in every run of the queue the channel holds at most its size, and the events of the accepted jobs are,
  in the order of their acceptance and each once, the emitted ones, those in the hand of the worker and those in
  the channel; the counters add up to the emitted ones.
\<close>

theorem queue_conserves_events:
  assumes "queue_step\<^sup>*\<^sup>* (newDerivedObservabilityQueue capacity maxBatch, no_history) (q, h)"
  shows "length (oq_jobs q) \<le> oq_size q \<and> hi_accepted h = concat (hi_emitted h) @ in_hand q @ pending q \<and>
    oq_processed q + oq_failed q = length (concat (hi_emitted h))"
proof -
  have "queue_inv (q, h)"
    using assms by (induction rule: rtranclp_induct) (auto intro: new_queue_inv queue_step_inv)
  then show ?thesis by (simp add: queue_inv_def)
qed

section \<open>The end\<close>

text \<open>What the worker has left to do: two steps for a job, and the way out.\<close>

definition work_left :: "'e obs_queue \<Rightarrow> nat" where
  "work_left q = 4 * length (oq_jobs q) + (case oq_worker q of Unlaunched \<Rightarrow> 0 | Returned \<Rightarrow> 0 | Receiving \<Rightarrow> 1
     | Coalescing batch n \<Rightarrow> 3 | Emitting batch \<Rightarrow> 2)"

lemma worker_step_less: "worker_step succeeds q = Some q' \<Longrightarrow> work_left q' < work_left q"
  by (auto simp: worker_step_def work_left_def split: worker.splits list.splits if_splits)

text \<open>The worker alone, when the emissions succeed as \<open>answers\<close> says.\<close>

function finish_work :: "(nat \<Rightarrow> bool) \<Rightarrow> 'e obs_queue \<Rightarrow> 'e obs_queue" where
  "finish_work answers q = (case worker_step (answers (work_left q)) q of None \<Rightarrow> q | Some q' \<Rightarrow> finish_work answers q')"
  by pat_completeness auto

termination
  by (relation "measure (work_left \<circ> snd)") (auto dest: worker_step_less)

declare finish_work.simps [simp del]

lemma finish_work_inv: "queue_inv (q, h) \<Longrightarrow> \<exists>h'. queue_inv (finish_work answers q, h') \<and> hi_accepted h' = hi_accepted h"
proof (induction answers q arbitrary: h rule: finish_work.induct)
  case (1 answers q)
  show ?case
  proof (cases "worker_step (answers (work_left q)) q")
    case None
    with 1(2) show ?thesis by (subst finish_work.simps) auto
  next
    case (Some q')
    let ?h = "case oq_worker q of Emitting batch \<Rightarrow> h\<lparr>hi_emitted := hi_emitted h @ [batch]\<rparr> | _ \<Rightarrow> h"
    have "hi_accepted ?h = hi_accepted h" by (simp split: worker.splits)
    with 1(1)[OF Some worker_step_inv[OF 1(2) Some]] Some show ?thesis by (subst finish_work.simps) auto
  qed
qed

lemma finish_work_idle: "worker_step (answers (work_left (finish_work answers q))) (finish_work answers q) = None"
proof (induction answers q rule: finish_work.induct)
  case (1 answers q)
  then show ?case by (cases "worker_step (answers (work_left q)) q") (subst (1 2) finish_work.simps, simp)+
qed

lemma worker_step_launched: "worker_step b q = Some q' \<Longrightarrow> oq_worker q' \<noteq> Unlaunched \<and> oq_stopping q' = oq_stopping q"
  by (auto simp: worker_step_def split: worker.splits list.splits if_splits)

lemma finish_work_stays: "oq_worker q \<noteq> Unlaunched \<Longrightarrow>
    oq_worker (finish_work answers q) \<noteq> Unlaunched \<and> oq_stopping (finish_work answers q) = oq_stopping q"
proof (induction answers q rule: finish_work.induct)
  case (1 answers q)
  show ?case
  proof (cases "worker_step (answers (work_left q)) q")
    case (Some q')
    from 1(1)[OF Some] worker_step_launched[OF Some] Some show ?thesis by (subst (1 2) finish_work.simps) simp
  qed (use 1(2) in \<open>subst (1 2) finish_work.simps, simp\<close>)
qed

text \<open>
  C33: a launched worker that is left alone finishes: it empties the channel, every event that was accepted has
  been emitted, with or without success, and the worker has returned if the queue was stopped and waits for
  the next job otherwise.
\<close>

theorem worker_finishes:
  assumes "queue_step\<^sup>*\<^sup>* (newDerivedObservabilityQueue capacity maxBatch, no_history) (q, h)" "oq_worker q \<noteq> Unlaunched"
  shows "let r = finish_work answers q in oq_jobs r = [] \<and> oq_processed r + oq_failed r = length (hi_accepted h) \<and>
    oq_worker r = (if oq_stopping q then Returned else Receiving)"
proof -
  have "queue_inv (q, h)"
    using assms(1) by (induction rule: rtranclp_induct) (auto intro: new_queue_inv queue_step_inv)
  from finish_work_inv[OF this] obtain h' where h: "queue_inv (finish_work answers q, h')" "hi_accepted h' = hi_accepted h" by blast
  let ?r = "finish_work answers q"
  have s: "oq_worker ?r \<noteq> Unlaunched" "oq_stopping ?r = oq_stopping q" using finish_work_stays[of q answers] assms(2) by auto
  have idle: "worker_step (answers (work_left ?r)) ?r = None" by (rule finish_work_idle)
  have "oq_jobs ?r = [] \<and> (oq_worker ?r = Receiving \<and> \<not> oq_stopping q \<or> oq_worker ?r = Returned \<and> oq_stopping q)"
    using idle s h(1) unfolding queue_inv_def prod.case
    by (auto simp: worker_step_def split: worker.splits list.splits if_splits)
  moreover from this have "in_hand ?r = []" "pending ?r = []" by (auto simp: in_hand_def pending_def)
  ultimately show ?thesis using h unfolding queue_inv_def prod.case Let_def by auto
qed

text \<open>A queue for one job, launched, with one accepted and one dropped job.\<close>

definition small_queue :: "nat obs_queue" where
  "small_queue = snd (enqueue \<lparr>jo_label = ''b'', jo_events = [9]\<rparr>
     (snd (enqueue \<lparr>jo_label = ''a'', jo_events = [7, 8]\<rparr> (start_worker (newDerivedObservabilityQueue 1 2)))))"

lemma small_run: "queue_step\<^sup>*\<^sup>* (newDerivedObservabilityQueue 1 2, no_history) (small_queue, no_history\<lparr>hi_accepted := [7, 8]\<rparr>)"
proof -
  let ?q1 = "start_worker (newDerivedObservabilityQueue 1 2) :: nat obs_queue"
  let ?a = "\<lparr>jo_label = ''a'', jo_events = [7 :: nat, 8]\<rparr>" and ?b = "\<lparr>jo_label = ''b'', jo_events = [9 :: nat]\<rparr>"
  have "queue_step (newDerivedObservabilityQueue 1 2, no_history) (?q1, no_history)" by (rule queue_step.launch)
  moreover have "queue_step (?q1, no_history) (snd (enqueue ?a ?q1), no_history\<lparr>hi_accepted := hi_accepted no_history @ jo_events ?a\<rparr>)"
    by (rule queue_step.accepted[of ?a]) (simp add: enqueue_def start_worker_def newDerivedObservabilityQueue_def)
  moreover have "queue_step (snd (enqueue ?a ?q1), h) (small_queue, h)" for h
    unfolding small_queue_def by (rule queue_step.refused[of ?b]) (simp add: enqueue_def start_worker_def newDerivedObservabilityQueue_def)
  ultimately show ?thesis
    unfolding no_history_def by simp (meson rtranclp.rtrancl_into_rtrancl rtranclp.rtrancl_refl)
qed

lemma queue_conserves_events_witness:
  "length (oq_jobs small_queue) \<le> 1 \<and> oq_dropped small_queue = 1 \<and> in_hand small_queue @ pending small_queue = [7, 8]"
  using queue_conserves_events[OF small_run]
  by (simp add: no_history_def small_queue_def enqueue_def start_worker_def newDerivedObservabilityQueue_def)

lemma worker_finishes_witness:
  "let r = finish_work (\<lambda>n. True) small_queue in oq_jobs r = [] \<and> oq_processed r + oq_failed r = 2 \<and> oq_worker r = Receiving"
proof -
  have "oq_worker small_queue \<noteq> Unlaunched" "\<not> oq_stopping small_queue"
    by (simp_all add: small_queue_def enqueue_def start_worker_def newDerivedObservabilityQueue_def)
  with worker_finishes[OF small_run, of "\<lambda>n. True"] show ?thesis by (simp add: Let_def)
qed

end
