(* ===== verification/Migrations.thy ===== *)
theory Migrations
  imports GoStrings
begin

text \<open>
  The migrations of the schema (\<open>internal/db/Migrations.go\<close>): the order of the files, the check of the
  recorded checksums, the transaction of each file, and the passes that follow them.

  The embedded directory, the checksum, what the database makes of a file, the synchronisation after
  the system app and the passes at the end are the record \<open>migration_env\<close>. A database is its table of
  applied migrations and everything else; a start of the server is one run.
\<close>

section \<open>Files and rows\<close>

record 's migration_env =
  mg_entries :: "(string \<times> bool \<times> string) list"
  mg_checksum :: "string \<Rightarrow> string"
  mg_exec :: "'s \<Rightarrow> string \<Rightarrow> (string, 's) result"
  mg_system_tables :: "'s \<Rightarrow> (string, 's) result"
  mg_passes :: "('s \<Rightarrow> (string, 's) result) list"

record 's migration_db =
  md_applied :: "string \<rightharpoonup> string option"
  md_rest :: 's

datatype migration_error =
    MissingFile string | ChangedFile string | ExecuteFailed string string | SystemTablesFailed string | PassFailed string

text \<open>The files of the directory: an entry is its name, whether it is a directory, and its content.\<close>

definition loadMigrationFiles :: "'s migration_env \<Rightarrow> (string \<times> string) list" where
  "loadMigrationFiles env = map (\<lambda>(name, dir, content). (name, content))
     (filter (\<lambda>(name, dir, content). \<not> dir \<and> HasSuffix name ''.sql'') (mg_entries env))"

definition orderMigrationFiles :: "(string \<times> string) list \<Rightarrow> string list" where
  "orderMigrationFiles files = sort (remdups (map fst files))"

definition file_of :: "'s migration_env \<Rightarrow> string \<Rightarrow> string" where
  "file_of env version = (case map_of (loadMigrationFiles env) version of None \<Rightarrow> [] | Some content \<Rightarrow> content)"

section \<open>Checksums\<close>

fun verify_loop :: "'s migration_env \<Rightarrow> (string \<rightharpoonup> string option) \<Rightarrow> string list \<Rightarrow> (migration_error, string list) result" where
  "verify_loop env applied [] = Inr []"
| "verify_loop env applied (version # versions) =
     (case map_of (loadMigrationFiles env) version of None \<Rightarrow> Inl (MissingFile version)
      | Some content \<Rightarrow> (case applied version of
            Some (Some recorded) \<Rightarrow>
              if recorded \<noteq> mg_checksum env content then Inl (ChangedFile version) else verify_loop env applied versions
          | _ \<Rightarrow> map_sum id (Cons version) (verify_loop env applied versions)))"

definition verifyAppliedMigrationChecksums ::
  "'s migration_env \<Rightarrow> (string \<rightharpoonup> string option) \<Rightarrow> (migration_error, string list) result" where
  "verifyAppliedMigrationChecksums env applied = verify_loop env applied (sorted_list_of_set (dom applied))"

definition recordMigrationChecksums :: "'s migration_env \<Rightarrow> string list \<Rightarrow> 's migration_db \<Rightarrow> 's migration_db" where
  "recordMigrationChecksums env versions db = db\<lparr>md_applied := (\<lambda>v. if v \<in> set versions \<and> md_applied db v = Some None
     then Some (Some (mg_checksum env (file_of env v))) else md_applied db v)\<rparr>"

section \<open>Runs\<close>

text \<open>One transaction: the statements of the file and the row, or nothing.\<close>

definition applyMigration :: "'s migration_env \<Rightarrow> string \<Rightarrow> 's migration_db \<Rightarrow> (migration_error, 's migration_db) result" where
  "applyMigration env version db = (case mg_exec env (md_rest db) (file_of env version) of
     Inl e \<Rightarrow> Inl (ExecuteFailed version e)
   | Inr s \<Rightarrow> Inr \<lparr>md_applied = (md_applied db)(version \<mapsto> Some (mg_checksum env (file_of env version))), md_rest = s\<rparr>)"

definition systemAppMigration :: string where
  "systemAppMigration = ''042_system_app.sql''"

text \<open>The loop over the versions; \<open>applied\<close> is the table as it was read at the start.\<close>

fun apply_loop :: "'s migration_env \<Rightarrow> (string \<rightharpoonup> string option) \<Rightarrow> string list \<Rightarrow> 's migration_db
    \<Rightarrow> migration_error option \<times> 's migration_db" where
  "apply_loop env applied [] db = (None, db)"
| "apply_loop env applied (version # versions) db =
     (if applied version \<noteq> None then apply_loop env applied versions db
      else case applyMigration env version db of Inl e \<Rightarrow> (Some e, db)
      | Inr db' \<Rightarrow>
          if version = systemAppMigration then (case mg_system_tables env (md_rest db') of
              Inl e \<Rightarrow> (Some (SystemTablesFailed e), db')
            | Inr s \<Rightarrow> apply_loop env applied versions (db'\<lparr>md_rest := s\<rparr>))
          else apply_loop env applied versions db')"

fun run_passes :: "('s \<Rightarrow> (string, 's) result) list \<Rightarrow> 's migration_db \<Rightarrow> migration_error option \<times> 's migration_db" where
  "run_passes [] db = (None, db)"
| "run_passes (p # ps) db = (case p (md_rest db) of Inl e \<Rightarrow> (Some (PassFailed e), db) | Inr s \<Rightarrow> run_passes ps (db\<lparr>md_rest := s\<rparr>))"

definition RunMigrations :: "'s migration_env \<Rightarrow> 's migration_db \<Rightarrow> migration_error option \<times> 's migration_db" where
  "RunMigrations env db = (case verifyAppliedMigrationChecksums env (md_applied db) of Inl e \<Rightarrow> (Some e, db)
     | Inr backfill \<Rightarrow> (case apply_loop env (md_applied db) (orderMigrationFiles (loadMigrationFiles env))
           (recordMigrationChecksums env backfill db) of
         (Some e, db') \<Rightarrow> (Some e, db')
       | (None, db') \<Rightarrow> run_passes (mg_passes env) db'))"

definition AppliedSchemaVersion :: "'s migration_db \<Rightarrow> string option" where
  "AppliedSchemaVersion db = (if dom (md_applied db) = {} then None else Some (Max (dom (md_applied db))))"

section \<open>The check\<close>

definition row_ok :: "'s migration_env \<Rightarrow> (string \<rightharpoonup> string option) \<Rightarrow> string \<Rightarrow> bool" where
  "row_ok env applied v \<longleftrightarrow> (case map_of (loadMigrationFiles env) v of None \<Rightarrow> False
     | Some content \<Rightarrow> (case applied v of Some (Some recorded) \<Rightarrow> recorded = mg_checksum env content | _ \<Rightarrow> True))"

text \<open>Every applied version ships, with the content of its checksum where one is recorded.\<close>

definition rows_match :: "'s migration_env \<Rightarrow> (string \<rightharpoonup> string option) \<Rightarrow> bool" where
  "rows_match env applied \<longleftrightarrow> (\<forall>v \<in> dom applied. row_ok env applied v)"

lemma verify_loop_Cons:
  "verify_loop env applied (v # vs) = Inr backfill \<longleftrightarrow> row_ok env applied v \<and> (\<exists>rest. verify_loop env applied vs = Inr rest \<and>
     backfill = (if applied v = None \<or> applied v = Some None then v # rest else rest))"
proof (cases "map_of (loadMigrationFiles env) v")
  case (Some content)
  show ?thesis
  proof (cases "applied v")
    case (Some row)
    with \<open>map_of (loadMigrationFiles env) v = Some content\<close> show ?thesis
      by (cases row; cases "verify_loop env applied vs") (auto simp: row_ok_def)
  qed (use Some in \<open>cases "verify_loop env applied vs"; auto simp: row_ok_def\<close>)
qed (simp add: row_ok_def)

lemma verify_loop_Inr: "(\<exists>backfill. verify_loop env applied vs = Inr backfill) \<longleftrightarrow> list_all (row_ok env applied) vs"
proof (induction vs)
  case (Cons v vs)
  then show ?case unfolding verify_loop_Cons by auto
qed simp

lemma verify_loop_Inl: "verify_loop env applied vs = Inl e \<Longrightarrow> (\<exists>v. e = MissingFile v) \<or> (\<exists>v. e = ChangedFile v)"
proof (induction vs)
  case (Cons v vs)
  then have IH: "\<And>x. verify_loop env applied vs = Inl x \<Longrightarrow> x = e \<Longrightarrow> (\<exists>v. e = MissingFile v) \<or> (\<exists>v. e = ChangedFile v)" by simp
  show ?case
  proof (cases "map_of (loadMigrationFiles env) v")
    case (Some content)
    show ?thesis
    proof (cases "applied v")
      case None
      with Some Cons.prems IH show ?thesis by (cases "verify_loop env applied vs") simp_all
    next
      case (Some row)
      with \<open>map_of (loadMigrationFiles env) v = Some content\<close> Cons.prems IH show ?thesis
        by (cases row; cases "verify_loop env applied vs") (auto split: if_splits)
    qed
  qed (use Cons.prems in auto)
qed simp

lemma verify_loop_backfill:
  "verify_loop env applied vs = Inr backfill \<Longrightarrow> set backfill = {v \<in> set vs. applied v = None \<or> applied v = Some None}"
proof (induction vs arbitrary: backfill)
  case (Cons v vs)
  from Cons.prems obtain rest where r: "verify_loop env applied vs = Inr rest"
    "backfill = (if applied v = None \<or> applied v = Some None then v # rest else rest)" unfolding verify_loop_Cons by blast
  note IH = Cons.IH[OF r(1)]
  show ?case
  proof (cases "applied v = None \<or> applied v = Some None")
    case True
    have "set backfill = insert v (set rest)" using r(2) True by simp
    then show ?thesis unfolding IH using True by auto
  next
    case False
    with r(2) have "set backfill = set rest" by simp
    with False IH show ?thesis by (simp only: set_eq_iff mem_Collect_eq list.set insert_iff) blast
  qed
qed simp

lemma verified:
  assumes "finite (dom applied)"
  shows "(\<exists>backfill. verifyAppliedMigrationChecksums env applied = Inr backfill) \<longleftrightarrow> rows_match env applied"
  using assms unfolding verifyAppliedMigrationChecksums_def verify_loop_Inr rows_match_def list_all_iff by simp

lemma verify_backfill:
  assumes "finite (dom applied)" "verifyAppliedMigrationChecksums env applied = Inr backfill"
  shows "set backfill = {v. applied v = Some None}"
  using verify_loop_backfill[OF assms(2)[unfolded verifyAppliedMigrationChecksums_def]] assms(1) by auto

section \<open>The loop\<close>

lemma apply_loop_error:
  "apply_loop env applied vs db = (Some e, db') \<Longrightarrow> (\<exists>v x. e = ExecuteFailed v x) \<or> (\<exists>x. e = SystemTablesFailed x)"
  by (induction vs arbitrary: db) (auto simp: applyMigration_def split: if_splits sum.splits)

lemma run_passes_keeps: "run_passes ps db = (e, db') \<Longrightarrow> md_applied db' = md_applied db \<and> (e = None \<or> (\<exists>x. e = Some (PassFailed x)))"
  by (induction ps arbitrary: db) (auto split: sum.splits)

lemma apply_loop_Cons:
  assumes "apply_loop env applied (v # vs) db = (r, db')" "applied v = None"
  obtains (failed) x where "r = Some (ExecuteFailed v x)" "db' = db"
  | (system) s x where "v = systemAppMigration" "mg_exec env (md_rest db) (file_of env v) = Inr s" "r = Some (SystemTablesFailed x)"
      "db' = \<lparr>md_applied = (md_applied db)(v \<mapsto> Some (mg_checksum env (file_of env v))), md_rest = s\<rparr>"
  | (next_one) s s2 where "mg_exec env (md_rest db) (file_of env v) = Inr s"
      "if v = systemAppMigration then mg_system_tables env s = Inr s2 else s2 = s"
      "apply_loop env applied vs \<lparr>md_applied = (md_applied db)(v \<mapsto> Some (mg_checksum env (file_of env v))), md_rest = s2\<rparr> = (r, db')"
proof (cases "mg_exec env (md_rest db) (file_of env v)")
  case (Inl x)
  with assms show ?thesis by (intro failed[of x]) (simp_all add: applyMigration_def)
next
  case (Inr s)
  let ?row = "(md_applied db)(v \<mapsto> Some (mg_checksum env (file_of env v)))"
  have run: "(if v = systemAppMigration then (case mg_system_tables env s of Inl e \<Rightarrow> (Some (SystemTablesFailed e), \<lparr>md_applied = ?row, md_rest = s\<rparr>)
      | Inr s2 \<Rightarrow> apply_loop env applied vs \<lparr>md_applied = ?row, md_rest = s2\<rparr>)
    else apply_loop env applied vs \<lparr>md_applied = ?row, md_rest = s\<rparr>) = (r, db')"
    using assms Inr by (simp add: applyMigration_def cong: sum.case_cong if_cong)
  show ?thesis
  proof (cases "v = systemAppMigration")
    case True
    show ?thesis
    proof (cases "mg_system_tables env s")
      case (Inl x)
      with run True \<open>mg_exec env (md_rest db) (file_of env v) = Inr s\<close> show ?thesis by (intro system[of s x]) simp_all
    next
      case (Inr s2)
      with run True \<open>mg_exec env (md_rest db) (file_of env v) = Inr s\<close> show ?thesis by (intro next_one[of s s2]) simp_all
    qed
  next
    case False
    with run Inr show ?thesis by (intro next_one[of s s]) simp_all
  qed
qed

lemma apply_loop_rows:
  "apply_loop env applied vs db = (r, db') \<Longrightarrow> distinct vs \<Longrightarrow>
     (\<forall>v. v \<notin> set vs \<or> applied v \<noteq> None \<longrightarrow> md_applied db' v = md_applied db v) \<and>
     (\<forall>v. md_applied db' v = md_applied db v \<or> v \<in> set vs \<and> md_applied db' v = Some (Some (mg_checksum env (file_of env v)))) \<and>
     (r = None \<longrightarrow> (\<forall>v \<in> set vs. applied v = None \<longrightarrow> md_applied db' v = Some (Some (mg_checksum env (file_of env v)))))"
proof (induction vs arbitrary: db)
  case (Cons v vs)
  show ?case
  proof (cases "applied v = None")
    case True
    with Cons.prems(1) show ?thesis
    proof (cases rule: apply_loop_Cons)
      case (next_one s s2)
      from Cons.IH[OF next_one(3)] Cons.prems(2) True show ?thesis by (auto split: if_splits)
    qed (use True in auto)
  next
    case False
    with Cons.prems Cons.IH[of db] show ?thesis by auto
  qed
qed auto

lemma apply_loop_done: "\<forall>v \<in> set vs. applied v \<noteq> None \<Longrightarrow> apply_loop env applied vs db = (None, db)"
  by (induction vs) auto

lemma order_files: "distinct (orderMigrationFiles files)" "set (orderMigrationFiles files) = fst ` set files"
  by (simp_all add: orderMigrationFiles_def)

lemma file_of_Some: "map_of (loadMigrationFiles env) v = Some content \<Longrightarrow> file_of env v = content"
  by (simp add: file_of_def)

lemma record_rows:
  assumes "finite (dom (md_applied db))" "verifyAppliedMigrationChecksums env (md_applied db) = Inr backfill"
  shows "md_applied (recordMigrationChecksums env backfill db) v =
    (case md_applied db v of None \<Rightarrow> None | Some r \<Rightarrow> Some (Some (mg_checksum env (file_of env v))))"
proof -
  from assms have "rows_match env (md_applied db)" using verified by blast
  then have "row_ok env (md_applied db) v" if "md_applied db v \<noteq> None" using that by (auto simp: rows_match_def)
  then show ?thesis using verify_backfill[OF assms]
    by (auto simp: recordMigrationChecksums_def row_ok_def file_of_def split: option.splits)
qed

text \<open>The table after the loop: the rows that were there and those it added, all with their checksums.\<close>

lemma loop_table:
  assumes "finite (dom (md_applied db))" "verifyAppliedMigrationChecksums env (md_applied db) = Inr backfill"
    and "apply_loop env (md_applied db) (orderMigrationFiles (loadMigrationFiles env)) (recordMigrationChecksums env backfill db) = (r, db')"
  shows "finite (dom (md_applied db'))" "rows_match env (md_applied db')" "\<And>v. md_applied db' v \<noteq> Some None"
    "dom (md_applied db) \<subseteq> dom (md_applied db')" "dom (md_applied db') \<subseteq> fst ` set (loadMigrationFiles env)"
    "r = None \<Longrightarrow> fst ` set (loadMigrationFiles env) \<subseteq> dom (md_applied db')"
proof -
  note rows = apply_loop_rows[OF assms(3) order_files(1)] and before = record_rows[OF assms(1,2)]
  have match: "rows_match env (md_applied db)" using verified[OF assms(1)] assms(2) by blast
  have cases: "md_applied db' v = None \<or> v \<in> fst ` set (loadMigrationFiles env) \<and>
      md_applied db' v = Some (Some (mg_checksum env (file_of env v)))" for v
  proof -
    have "v \<in> fst ` set (loadMigrationFiles env)" if "md_applied db v \<noteq> None"
      using that match by (force simp: rows_match_def row_ok_def split: option.splits dest: map_of_SomeD)
    moreover have "md_applied db' v = md_applied (recordMigrationChecksums env backfill db) v \<or>
      v \<in> fst ` set (loadMigrationFiles env) \<and> md_applied db' v = Some (Some (mg_checksum env (file_of env v)))"
      using rows unfolding order_files(2) by blast
    ultimately show ?thesis using before[of v] by (cases "md_applied db v") (simp_all, blast?)
  qed
  show files: "dom (md_applied db') \<subseteq> fst ` set (loadMigrationFiles env)" using cases by (auto simp: dom_def) force+
  then show "finite (dom (md_applied db'))" by (rule finite_subset) simp
  show "md_applied db' v \<noteq> Some None" for v using cases[of v] by auto
  show "rows_match env (md_applied db')"
    unfolding rows_match_def
  proof
    fix v assume "v \<in> dom (md_applied db')"
    with cases[of v] have "v \<in> fst ` set (loadMigrationFiles env)" "md_applied db' v = Some (Some (mg_checksum env (file_of env v)))" by auto
    then show "row_ok env (md_applied db') v" by (auto simp: row_ok_def file_of_def map_of_eq_None_iff split: option.splits)
  qed
  show "dom (md_applied db) \<subseteq> dom (md_applied db')"
  proof
    fix v assume v: "v \<in> dom (md_applied db)"
    with rows have "md_applied db' v = md_applied (recordMigrationChecksums env backfill db) v" by auto
    with v before[of v] show "v \<in> dom (md_applied db')" by auto
  qed
  show "fst ` set (loadMigrationFiles env) \<subseteq> dom (md_applied db')" if "r = None"
  proof
    fix v assume v: "v \<in> fst ` set (loadMigrationFiles env)"
    show "v \<in> dom (md_applied db')"
      using rows that v before[of v] by (cases "md_applied db v") (auto simp: order_files(2))
  qed
qed

text \<open>A table all of whose rows have checksums needs no more.\<close>

lemma settled_table:
  assumes "finite (dom applied)" "rows_match env applied" "\<And>v. applied v \<noteq> Some None"
  shows "verifyAppliedMigrationChecksums env applied = Inr []"
proof -
  from assms(1,2) obtain backfill where b: "verifyAppliedMigrationChecksums env applied = Inr backfill" using verified by blast
  with verify_backfill[OF assms(1) b] assms(3) show ?thesis by simp
qed

lemma record_nothing: "recordMigrationChecksums env [] db = db"
  by (simp add: recordMigrationChecksums_def)

section \<open>Starts\<close>


text \<open>
  After a successful start the table of migrations is the directory, every row with the checksum of its
  file, and the next start runs no migration: it goes straight to the passes.
\<close>

theorem successful_start_complete:
  assumes "finite (dom (md_applied db))" "RunMigrations env db = (None, db')"
  shows "dom (md_applied db') = fst ` set (loadMigrationFiles env) \<and> rows_match env (md_applied db') \<and>
    RunMigrations env db' = run_passes (mg_passes env) db'"
proof -
  from assms(2) obtain backfill where v: "verifyAppliedMigrationChecksums env (md_applied db) = Inr backfill"
    by (auto simp: RunMigrations_def split: sum.splits)
  obtain r db1 where l: "apply_loop env (md_applied db) (orderMigrationFiles (loadMigrationFiles env))
      (recordMigrationChecksums env backfill db) = (r, db1)" by (metis surj_pair)
  from assms(2) v l have r: "r = None" "run_passes (mg_passes env) db1 = (None, db')"
    by (auto simp: RunMigrations_def split: option.splits)
  note t = loop_table[OF assms(1) v l] and k = run_passes_keeps[OF r(2), THEN conjunct1]
  have d: "dom (md_applied db') = fst ` set (loadMigrationFiles env)" using t(5,6) r(1) k by auto
  have "verifyAppliedMigrationChecksums env (md_applied db') = Inr []"
    by (rule settled_table) (use t k in \<open>simp_all\<close>)
  moreover have "apply_loop env (md_applied db') (orderMigrationFiles (loadMigrationFiles env)) db' = (None, db')"
    by (rule apply_loop_done) (use d in \<open>auto simp: order_files(2)\<close>)
  ultimately show ?thesis using d t(2) k by (simp add: RunMigrations_def record_nothing)
qed

lemma apply_loop_table:
  "(\<And>w. w \<in> set vs \<Longrightarrow> applied w = None \<longleftrightarrow> applied' w = None) \<Longrightarrow> apply_loop env applied vs db = apply_loop env applied' vs db"
proof (induction vs arbitrary: db)
  case (Cons v vs)
  from Cons.prems have "applied v = None \<longleftrightarrow> applied' v = None" by simp
  moreover have "apply_loop env applied vs d = apply_loop env applied' vs d" for d using Cons.prems by (intro Cons.IH) simp
  ultimately show ?case by (simp cong: sum.case_cong if_cong)
qed simp

lemma apply_loop_resumes:
  assumes "\<And>s c s'. mg_exec env s c = Inr s' \<Longrightarrow> mg_exec env' s c = Inr s'" "mg_system_tables env' = mg_system_tables env"
    and "mg_checksum env' = mg_checksum env" "file_of env' = file_of env"
  shows "apply_loop env applied vs db = (Some (ExecuteFailed v e), db') \<Longrightarrow> distinct vs \<Longrightarrow>
     (\<And>w. w \<in> set vs \<Longrightarrow> applied w = None \<longleftrightarrow> md_applied db w = None) \<Longrightarrow>
     apply_loop env' applied vs db = apply_loop env' (md_applied db') vs db'"
proof (induction vs arbitrary: db)
  case (Cons w vs)
  show ?case
  proof (cases "applied w = None")
    case False
    with Cons.prems have l: "apply_loop env applied vs db = (Some (ExecuteFailed v e), db')" by simp
    have "md_applied db' w = md_applied db w" using apply_loop_rows[OF l] Cons.prems(2) False by simp
    then have "md_applied db' w \<noteq> None" using Cons.prems(3)[of w] False by simp
    moreover have "apply_loop env' applied vs db = apply_loop env' (md_applied db') vs db'"
      using Cons.IH[OF l] Cons.prems by simp
    ultimately show ?thesis using False by simp
  next
    case True
    from Cons.prems(1) True show ?thesis
    proof (cases rule: apply_loop_Cons)
      case (failed x)
      then have "db' = db" by simp
      moreover have "apply_loop env' applied (w # vs) db = apply_loop env' (md_applied db) (w # vs) db"
        by (rule apply_loop_table) (rule Cons.prems(3))
      ultimately show ?thesis by simp
    next
      case (next_one s s2)
      let ?db1 = "\<lparr>md_applied = (md_applied db)(w \<mapsto> Some (mg_checksum env (file_of env w))), md_rest = s2\<rparr>"
      have "apply_loop env' applied vs ?db1 = apply_loop env' (md_applied db') vs db'"
        by (rule Cons.IH[OF next_one(3)]) (use Cons.prems(2,3) in auto)
      moreover have "md_applied db' w \<noteq> None" using apply_loop_rows[OF next_one(3)] Cons.prems(2) by simp
      moreover have "apply_loop env' applied (w # vs) db = apply_loop env' applied vs ?db1"
        using True assms next_one(1,2) by (auto simp: applyMigration_def)
      ultimately show ?thesis by simp
    qed simp
  qed
qed simp

text \<open>Two builds that differ in one of the parameters.\<close>

lemma same_files:
  "loadMigrationFiles (env\<lparr>mg_exec := x\<rparr>) = loadMigrationFiles env"
  "loadMigrationFiles (env\<lparr>mg_system_tables := f\<rparr>) = loadMigrationFiles env"
  "file_of (env\<lparr>mg_exec := x\<rparr>) = file_of env" "file_of (env\<lparr>mg_system_tables := f\<rparr>) = file_of env"
  by (simp_all add: loadMigrationFiles_def file_of_def fun_eq_iff)

lemma same_check:
  "verifyAppliedMigrationChecksums (env\<lparr>mg_exec := x\<rparr>) applied = verifyAppliedMigrationChecksums env applied"
  "verifyAppliedMigrationChecksums (env\<lparr>mg_system_tables := f\<rparr>) applied = verifyAppliedMigrationChecksums env applied"
proof -
  have "verify_loop (env\<lparr>mg_exec := x\<rparr>) applied vs = verify_loop env applied vs"
    "verify_loop (env\<lparr>mg_system_tables := f\<rparr>) applied vs = verify_loop env applied vs" for vs
    by (induction vs) (simp_all add: same_files cong: option.case_cong if_cong)
  then show "verifyAppliedMigrationChecksums (env\<lparr>mg_exec := x\<rparr>) applied = verifyAppliedMigrationChecksums env applied"
    "verifyAppliedMigrationChecksums (env\<lparr>mg_system_tables := f\<rparr>) applied = verifyAppliedMigrationChecksums env applied"
    by (simp_all add: verifyAppliedMigrationChecksums_def)
qed

lemma same_backfill:
  "recordMigrationChecksums (env\<lparr>mg_exec := x\<rparr>) vs db = recordMigrationChecksums env vs db"
  "recordMigrationChecksums (env\<lparr>mg_system_tables := f\<rparr>) vs db = recordMigrationChecksums env vs db"
  by (simp_all add: recordMigrationChecksums_def same_files cong: if_cong)

lemma apply_loop_later:
  assumes "applied systemAppMigration \<noteq> None"
  shows "apply_loop (env\<lparr>mg_system_tables := f\<rparr>) applied vs db = apply_loop env applied vs db"
proof (induction vs arbitrary: db)
  case (Cons v vs)
  have "applyMigration (env\<lparr>mg_system_tables := f\<rparr>) v db = applyMigration env v db"
    by (simp add: applyMigration_def same_files cong: sum.case_cong)
  moreover have "v \<noteq> systemAppMigration" if "applied v = None" using that assms by auto
  ultimately show ?case using Cons.IH by (simp cong: sum.case_cong if_cong)
qed simp

lemma apply_loop_system:
  "apply_loop env applied vs db = (Some (SystemTablesFailed x), db') \<Longrightarrow> md_applied db' systemAppMigration \<noteq> None"
proof (induction vs arbitrary: db)
  case (Cons v vs)
  show ?case
  proof (cases "applied v = None")
    case True
    from Cons.prems True show ?thesis by (cases rule: apply_loop_Cons) (use Cons.IH in auto)
  qed (use Cons in simp)
qed simp

text \<open>How a run that fails in the loop got there.\<close>

lemma stopped_run:
  assumes "RunMigrations env db = (Some x, db')" "\<And>y. x \<noteq> MissingFile y" "\<And>y. x \<noteq> ChangedFile y" "\<And>y. x \<noteq> PassFailed y"
  obtains bf where "verifyAppliedMigrationChecksums env (md_applied db) = Inr bf"
    "apply_loop env (md_applied db) (orderMigrationFiles (loadMigrationFiles env)) (recordMigrationChecksums env bf db) = (Some x, db')"
proof (cases "verifyAppliedMigrationChecksums env (md_applied db)")
  case (Inl y)
  with assms verify_loop_Inl[OF Inl[unfolded verifyAppliedMigrationChecksums_def]] show ?thesis by (auto simp: RunMigrations_def)
next
  case (Inr bf)
  obtain r db1 where l: "apply_loop env (md_applied db) (orderMigrationFiles (loadMigrationFiles env))
      (recordMigrationChecksums env bf db) = (r, db1)" by (metis surj_pair)
  have "r = Some x \<and> db1 = db'"
  proof (cases r)
    case None
    with assms(1) Inr l have "run_passes (mg_passes env) db1 = (Some x, db')" by (simp add: RunMigrations_def)
    from run_passes_keeps[OF this] assms(4) show ?thesis by auto
  qed (use assms(1) Inr l in \<open>simp add: RunMigrations_def\<close>)
  with that[OF Inr] l show ?thesis by simp
qed


text \<open>
  C36: the synchronisation that the files after the system app rely on has one chance: when it fails, the system
  app's file is already recorded, and no later start of the same build runs the synchronisation again, whatever
  it would have answered: a start does the same with any other in its place.
\<close>

theorem system_tables_not_retried:
  assumes "finite (dom (md_applied db))" "RunMigrations env db = (Some (SystemTablesFailed e), db')"
  shows "md_applied db' systemAppMigration \<noteq> None \<and>
    RunMigrations (env\<lparr>mg_system_tables := f\<rparr>) db' = RunMigrations env db'"
proof -
  obtain bf where "apply_loop env (md_applied db) (orderMigrationFiles (loadMigrationFiles env))
      (recordMigrationChecksums env bf db) = (Some (SystemTablesFailed e), db')"
    by (rule stopped_run[OF assms(2)]) simp_all
  then have a: "md_applied db' systemAppMigration \<noteq> None" by (rule apply_loop_system)
  then show ?thesis
    by (simp add: RunMigrations_def same_check same_backfill same_files apply_loop_later cong: sum.case_cong prod.case_cong option.case_cong)
qed

section \<open>Concrete starts\<close>

text \<open>A directory of three files; the database is the list of the contents it ran, and rejects the content \<open>''bad''\<close>.\<close>

definition sample_migrations :: "(string, string list) result \<Rightarrow> string \<Rightarrow> string list migration_env" where
  "sample_migrations sync notes = \<lparr>mg_entries = [(''046_notes.sql'', False, notes), (''README.md'', False, ''x''),
       (''001_init.sql'', False, ''init''), (systemAppMigration, False, ''app'')],
     mg_checksum = (\<lambda>c. ''#'' @ c), mg_exec = (\<lambda>s c. if c = ''bad'' then Inl ''syntax error'' else Inr (s @ [c])),
     mg_system_tables = (\<lambda>s. map_sum id (\<lambda>extra. s @ extra) sync), mg_passes = [\<lambda>s. Inr (s @ [''pass''])]\<rparr>"

definition empty_db :: "string list migration_db" where
  "empty_db = \<lparr>md_applied = (\<lambda>_. None), md_rest = []\<rparr>"

lemma sample_order: "orderMigrationFiles (loadMigrationFiles (sample_migrations sync notes)) =
    [''001_init.sql'', systemAppMigration, ''046_notes.sql'']"
  by code_simp

lemma empty_run:
  "RunMigrations env empty_db = (case apply_loop env (\<lambda>_. None) (orderMigrationFiles (loadMigrationFiles env)) empty_db of
     (Some e, db') \<Rightarrow> (Some e, db') | (None, db') \<Rightarrow> run_passes (mg_passes env) db')"
  by (simp add: RunMigrations_def verifyAppliedMigrationChecksums_def empty_db_def record_nothing)

lemma empty_finite: "finite (dom (md_applied empty_db))"
  by (simp add: empty_db_def)

lemma sample_runs:
  "map_prod id md_rest (RunMigrations (sample_migrations (Inr [''tables'']) ''notes'') empty_db) =
     (None, [''init'', ''app'', ''tables'', ''notes'', ''pass''])"
  "map_prod id md_rest (RunMigrations (sample_migrations (Inr [''tables'']) ''bad'') empty_db) =
     (Some (ExecuteFailed ''046_notes.sql'' ''syntax error''), [''init'', ''app'', ''tables''])"
  "map_prod id md_rest (RunMigrations (sample_migrations (Inl ''locked'') ''notes'') empty_db) =
     (Some (SystemTablesFailed ''locked''), [''init'', ''app''])"
  unfolding empty_run by code_simp+

definition edited_db :: "string list migration_db" where
  "edited_db = empty_db\<lparr>md_applied := [''001_init.sql'' \<mapsto> Some ''#old'']\<rparr>"


lemma successful_start_complete_witness:
  "dom (md_applied (snd (RunMigrations (sample_migrations (Inr [''tables'']) ''notes'') empty_db))) =
     {''046_notes.sql'', ''001_init.sql'', systemAppMigration}"
proof -
  let ?env = "sample_migrations (Inr [''tables'']) ''notes''"
  obtain r db' where r: "RunMigrations ?env empty_db = (r, db')" by (metis surj_pair)
  with sample_runs(1) have "r = None" by simp
  with r successful_start_complete[OF empty_finite, of ?env db'] have "dom (md_applied db') = fst ` set (loadMigrationFiles ?env)" by simp
  moreover have "map fst (loadMigrationFiles ?env) = [''046_notes.sql'', ''001_init.sql'', systemAppMigration]" by code_simp
  then have "fst ` set (loadMigrationFiles ?env) = {''046_notes.sql'', ''001_init.sql'', systemAppMigration}"
    by (metis list.set_map list.simps(15) empty_set)
  ultimately show ?thesis using r by simp
qed

text \<open>The repaired build runs the rejected file as if it were empty.\<close>

definition lenient :: "string list \<Rightarrow> string \<Rightarrow> (string, string list) result" where
  "lenient s c = Inr (s @ [c])"


lemma system_tables_not_retried_witness:
  "case RunMigrations (sample_migrations (Inl ''locked'') ''notes'') empty_db of (r, db') \<Rightarrow>
     r = Some (SystemTablesFailed ''locked'') \<and> md_applied db' systemAppMigration \<noteq> None \<and>
     RunMigrations ((sample_migrations (Inl ''locked'') ''notes'')\<lparr>mg_system_tables := (\<lambda>s. Inr (s @ [''tables'']))\<rparr>) db' =
     RunMigrations (sample_migrations (Inl ''locked'') ''notes'') db'"
proof -
  let ?env = "sample_migrations (Inl ''locked'') ''notes''"
  obtain r db' where r: "RunMigrations ?env empty_db = (r, db')" by (metis surj_pair)
  with sample_runs(3) have e: "r = Some (SystemTablesFailed ''locked'')" by simp
  from system_tables_not_retried[OF empty_finite r[unfolded e], of "\<lambda>s. Inr (s @ [''tables''])"] r e show ?thesis by simp
qed

end
