(* ===== verification/SchemaJobs.thy ===== *)
theory SchemaJobs
  imports DataTypes GoNumbers ExprScan
begin

text \<open>
  The schema jobs of the table builder (\<open>internal/db/BuilderSchemaJobs.go\<close>, \<open>builderDataTypeToSQL\<close> of
  \<open>AppBuilder.go\<close>): the plan that brings a physical table in line with its metadata, and its execution
  in one transaction, with the bookkeeping of the job.

  A statement is a value of \<open>ddl\<close>; \<open>statement_sql\<close> and \<open>rollback_sql\<close> are its texts. What the database
  makes of a statement is the parameter \<open>exec\<close>. The columns of the physical table are listed in an
  arbitrary order, as the Go map gives them.
\<close>

section \<open>Types of columns\<close>

datatype schema_error = UnsupportedType string | BadColumn string | BadTable | ProtectedTable | LookupFailed string

definition builderDataTypeToSQL :: "string \<Rightarrow> (schema_error, string) result" where
  "builderDataTypeToSQL dataType =
     (let dt = normalizeDataType dataType; b = BaseDataType dt in
      if b = ''text'' then Inr ''TEXT''
      else if b \<in> {''long_text'', ''richtext'', ''markdown'', ''email'', ''url'', ''phone'', ''choice'', ''code'', ''autnumber''}
        then Inr ''TEXT''
      else if b \<in> {''int'', ''integer''} then Inr ''INTEGER''
      else if b \<in> {''bigint'', ''bigserial'', ''serial''} then Inr ''BIGINT''
      else if b \<in> {''float'', ''double''} then Inr ''DOUBLE PRECISION''
      else if b \<in> {''decimal'', ''numeric''} then Inr ''NUMERIC''
      else if b \<in> {''bool'', ''boolean''} then Inr ''BOOLEAN''
      else if b = ''date'' then Inr ''DATE''
      else if b \<in> {''timestamp'', ''timestamptz'', ''datetime''} then Inr ''TIMESTAMPTZ''
      else if b \<in> {''uuid'', ''reference''} then Inr ''UUID''
      else if b \<in> {''json'', ''jsonb''} then Inr ''JSONB''
      else if match_varchar dt \<noteq> None then Inr (ToUpper dt)
      else if match_enum dt then Inr ''TEXT''
      else Inl (UnsupportedType dt))"

definition normalizeSQLType :: "string \<Rightarrow> string" where
  "normalizeSQLType s =
     (let v = ToLower (TrimSpace s) in
      if HasPrefix v ''varchar('' then ''varchar''
      else if v = ''integer'' then ''int''
      else if v = ''double precision'' then ''double''
      else if v = ''boolean'' then ''bool''
      else if v \<in> {''character varying'', ''varchar''} then ''varchar''
      else if v \<in> {''json'', ''jsonb''} then ''jsonb''
      else if v \<in> {''timestamp with time zone'', ''timestamptz''} then ''timestamptz''
      else if v \<in> {''timestamp without time zone'', ''timestamp''} then ''timestamp''
      else v)"

section \<open>The plan\<close>

record builder_column =
  bc_Name :: string
  bc_DataType :: string
  bc_IsNullable :: bool

record physicalColumn =
  pc_SQLType :: string
  pc_IsNullable :: bool

type_synonym physical_columns = "(string \<times> physicalColumn) list"

datatype ddl =
    CreateTable
  | EnsureTrigger
  | AddColumn string string bool
  | DropNotNull string
  | CheckNoNulls string
  | SetNotNull string
  | TypeDriftNote string string string
  | ExtraColumnNote string string

record schemaPlanStep =
  ps_Sequence :: nat
  ps_Action :: string
  ps_Ddl :: ddl

definition quoted :: "string \<Rightarrow> string" where
  "quoted n = dquote # n @ [dquote]"

text \<open>The texts of a statement and of its reversal.\<close>

fun statement_sql :: "string \<Rightarrow> ddl \<Rightarrow> string" where
  "statement_sql t CreateTable = ''CREATE TABLE IF NOT EXISTS '' @ quoted t @ '' (_id UUID PRIMARY KEY DEFAULT gen_random_uuid(), _created_at TIMESTAMPTZ NOT NULL DEFAULT NOW(), _updated_at TIMESTAMPTZ NOT NULL DEFAULT NOW(), _update_count BIGINT NOT NULL DEFAULT 0, _deleted_at TIMESTAMPTZ, _created_by UUID, _updated_by UUID, _deleted_by UUID)''"
| "statement_sql t EnsureTrigger = ''SELECT _ensure_record_version_trigger('' @ [squote] @ t @ [squote] @ '')''"
| "statement_sql t (AddColumn c ty notNull) = ''ALTER TABLE '' @ quoted t @ '' ADD COLUMN IF NOT EXISTS '' @ quoted c @ '' '' @ ty
     @ (if notNull then '' NOT NULL'' else [])"
| "statement_sql t (DropNotNull c) = ''ALTER TABLE '' @ quoted t @ '' ALTER COLUMN '' @ quoted c @ '' DROP NOT NULL''"
| "statement_sql t (CheckNoNulls c) = ''DO $$ BEGIN IF EXISTS (SELECT 1 FROM '' @ quoted t @ '' WHERE '' @ quoted c
     @ '' IS NULL) THEN RAISE EXCEPTION '' @ [squote] @ ''column '' @ c @ '' contains NULL values'' @ [squote] @ ''; END IF; END $$''"
| "statement_sql t (SetNotNull c) = ''ALTER TABLE '' @ quoted t @ '' ALTER COLUMN '' @ quoted c @ '' SET NOT NULL''"
| "statement_sql t (TypeDriftNote c expected current) = ''-- type drift on '' @ t @ ''.'' @ c @ '': metadata='' @ expected @ '', physical=''
     @ current @ ''. Manual review required before applying type change.''"
| "statement_sql t (ExtraColumnNote c ty) = ''-- physical column '' @ t @ ''.'' @ c @ '' ('' @ ty
     @ '') is not present in metadata. Manual review for drop/rename/backfill.''"

fun rollback_sql :: "string \<Rightarrow> ddl \<Rightarrow> string" where
  "rollback_sql t CreateTable = ''DROP TABLE IF EXISTS '' @ quoted t"
| "rollback_sql t EnsureTrigger = ''DROP TRIGGER IF EXISTS trg_touch_record_version ON '' @ quoted t"
| "rollback_sql t (AddColumn c ty notNull) = ''ALTER TABLE '' @ quoted t @ '' DROP COLUMN IF EXISTS '' @ quoted c"
| "rollback_sql t (DropNotNull c) = statement_sql t (SetNotNull c)"
| "rollback_sql t (SetNotNull c) = statement_sql t (DropNotNull c)"
| "rollback_sql t _ = []"

fun action_of :: "ddl \<Rightarrow> string" where
  "action_of CreateTable = ''create_table''"
| "action_of EnsureTrigger = ''ensure_record_version_trigger''"
| "action_of (AddColumn _ _ _) = ''add_column''"
| "action_of (DropNotNull _) = ''drop_not_null''"
| "action_of (CheckNoNulls _) = ''precheck_no_nulls''"
| "action_of (SetNotNull _) = ''set_not_null''"
| "action_of (TypeDriftNote _ _ _) = ''warn_type_drift''"
| "action_of (ExtraColumnNote _ _) = ''warn_extra_column''"

definition column_key :: "builder_column \<Rightarrow> string" where
  "column_key col = ToLower (TrimSpace (bc_Name col))"

text \<open>The statements for one column of the metadata.\<close>

definition column_steps :: "physical_columns \<Rightarrow> builder_column \<Rightarrow> (schema_error, ddl list) result" where
  "column_steps physical col =
     (let c = column_key col in
      case builderDataTypeToSQL (normalizeDataType (bc_DataType col)) of Inl e \<Rightarrow> Inl e
      | Inr ty \<Rightarrow>
          if \<not> IsSafeIdentifier c then Inl (BadColumn c)
          else case map_of physical c of None \<Rightarrow> Inr [AddColumn c ty (\<not> bc_IsNullable col)]
          | Some phys \<Rightarrow>
              let expected = normalizeSQLType ty; current = normalizeSQLType (pc_SQLType phys) in
              Inr ((if expected \<noteq> current then [TypeDriftNote c expected current] else [])
                @ (if bc_IsNullable col = pc_IsNullable phys then []
                   else if bc_IsNullable col then [DropNotNull c] else [CheckNoNulls c, SetNotNull c])))"

text \<open>Physical columns without metadata are only remarked on, system columns not even that.\<close>

definition extra_steps :: "physical_columns \<Rightarrow> builder_column list \<Rightarrow> ddl list" where
  "extra_steps physical cols =
     map (\<lambda>(n, phys). ExtraColumnNote n (normalizeSQLType (pc_SQLType phys)))
       (filter (\<lambda>(n, phys). n \<notin> column_key ` set cols \<and> \<not> HasPrefix n ''_'') physical)"

definition numbered :: "ddl list \<Rightarrow> schemaPlanStep list" where
  "numbered ds = map (\<lambda>(i, d). \<lparr>ps_Sequence = 10 * (i + 1), ps_Action = action_of d, ps_Ddl = d\<rparr>) (enumerate 0 ds)"

definition buildSchemaPlanSteps ::
  "bool \<Rightarrow> physical_columns \<Rightarrow> builder_column list \<Rightarrow> string \<Rightarrow> (schema_error, schemaPlanStep list) result" where
  "buildSchemaPlanSteps physicalExists physical cols tableName =
     (if \<not> IsSafeIdentifier tableName then Inl BadTable
      else case map_result (column_steps physical) cols of Inl e \<Rightarrow> Inl e
      | Inr dss \<Rightarrow> Inr (numbered ((if physicalExists then [] else [CreateTable, EnsureTrigger])
          @ concat dss @ extra_steps physical cols)))"

section \<open>The job\<close>

record builder_job =
  jb_TableName :: string
  jb_DryRun :: bool
  jb_Status :: string
  jb_CreatedBy :: string
  jb_Steps :: "(schemaPlanStep \<times> string) list"

text \<open>What the database makes of the statements of a job, and whether it takes its commits.\<close>

record 's schema_db =
  sd_exec :: "'s \<Rightarrow> string \<Rightarrow> ddl \<Rightarrow> (string, 's) result"
  sd_commits :: bool

datatype job_end = JobApplied | JobFailed string | JobHangs

definition is_warning :: "schemaPlanStep \<Rightarrow> bool" where
  "is_warning s \<longleftrightarrow> HasPrefix (ps_Action s) ''warn_''"

text \<open>
  The loop over the steps. Every passed step has its row of the job updated in the open transaction.
  When a statement fails, the failure is written outside the transaction, over another connection:
  first the row of the job, then the rows of all its steps. The second write waits for the locks of the
  transaction, which only ends when this function returns: if a row of a step is locked it never does.
\<close>

fun run_steps :: "'s schema_db \<Rightarrow> string \<Rightarrow> schemaPlanStep list \<Rightarrow> (schemaPlanStep \<times> string) list \<Rightarrow> 's
    \<Rightarrow> job_end \<times> (schemaPlanStep \<times> string) list \<times> 's" where
  "run_steps db t [] passed s = (JobApplied, passed, s)"
| "run_steps db t (st # steps) passed s =
     (if is_warning st then run_steps db t steps (passed @ [(st, ''skipped'')]) s
      else case sd_exec db s t (ps_Ddl st) of
          Inr s' \<Rightarrow> run_steps db t steps (passed @ [(st, ''applied'')]) s'
        | Inl e \<Rightarrow> (if passed \<noteq> [] then JobHangs else JobFailed e, (st, ''failed'') # map (\<lambda>x. (x, ''planned'')) steps, s))"

text \<open>The job and the database afterwards; \<open>None\<close> when the function does not return.\<close>

definition executeBuilderSchemaJob :: "'s schema_db \<Rightarrow> builder_job \<Rightarrow> 's \<Rightarrow> ((string + unit) \<times> builder_job \<times> 's) option" where
  "executeBuilderSchemaJob db job s =
     (case run_steps db (jb_TableName job) (map fst (jb_Steps job)) [] s of
        (JobHangs, _) \<Rightarrow> None
      | (JobFailed e, marks, _) \<Rightarrow> Some (Inl e, job\<lparr>jb_Status := ''failed'', jb_Steps := marks\<rparr>, s)
      | (JobApplied, marks, s') \<Rightarrow>
          if sd_commits db then Some (Inr (), job\<lparr>jb_Status := ''applied'', jb_Steps := marks\<rparr>, s')
          else Some (Inl ''commit schema job execution'', job, s))"

definition createBuilderSchemaJob :: "string \<Rightarrow> bool \<Rightarrow> string \<Rightarrow> schemaPlanStep list \<Rightarrow> builder_job" where
  "createBuilderSchemaJob tableName dryRun userID steps = \<lparr>jb_TableName = tableName, jb_DryRun = dryRun, jb_Status = ''planned'',
     jb_CreatedBy = TrimSpace userID, jb_Steps = map (\<lambda>st. (st, ''planned'')) steps\<rparr>"

text \<open>
  The request of the builder: an error before there is a job, or the job it made, the error of its
  execution, and the database; \<open>None\<close> when it does not return. \<open>physical\<close> reads the table as it is.
\<close>

definition PlanAndApplyBuilderSchema ::
  "'s schema_db \<Rightarrow> ('s \<Rightarrow> bool \<times> physical_columns) \<Rightarrow> (string \<Rightarrow> (string, builder_column list) result) \<Rightarrow> string \<Rightarrow> bool \<Rightarrow> string \<Rightarrow> 's
     \<Rightarrow> (schema_error + (string + unit) \<times> builder_job \<times> 's) option" where
  "PlanAndApplyBuilderSchema db physical columns table dryRun userID s =
     (let t = TrimSpace (ToLower table) in
      if \<not> IsSafeIdentifier t then Some (Inl BadTable)
      else if IsProtectedTableName t then Some (Inl ProtectedTable)
      else case columns t of Inl e \<Rightarrow> Some (Inl (LookupFailed e))
      | Inr cols \<Rightarrow> (case buildSchemaPlanSteps (fst (physical s)) (snd (physical s)) cols t of
          Inl e \<Rightarrow> Some (Inl e)
        | Inr steps \<Rightarrow>
            let job = createBuilderSchemaJob t dryRun userID steps in
            if dryRun then Some (Inr (Inr (), job, s))
            else if steps = [] then Some (Inr (Inr (), job\<lparr>jb_Status := ''applied''\<rparr>, s))
            else map_option Inr (executeBuilderSchemaJob db job s)))"

end
