(* ===== verification/SchemaLaws.thy ===== *)
theory SchemaLaws
  imports SchemaJobs
begin

text \<open>
  A schema job that returns has applied all of its plan or none of it; a job whose second or later
  statement fails does not return at all; and a plan that is applied leaves nothing to do for the next.
\<close>

section \<open>The loop\<close>

text \<open>The database after the statements of some steps, when all of them succeed.\<close>

fun passes :: "'s schema_db \<Rightarrow> string \<Rightarrow> schemaPlanStep list \<Rightarrow> 's \<Rightarrow> 's option" where
  "passes db t [] s = Some s"
| "passes db t (st # steps) s =
     (if is_warning st then passes db t steps s
      else case sd_exec db s t (ps_Ddl st) of Inl e \<Rightarrow> None | Inr s' \<Rightarrow> passes db t steps s')"

definition mark_of :: "schemaPlanStep \<Rightarrow> schemaPlanStep \<times> string" where
  "mark_of st = (st, if is_warning st then ''skipped'' else ''applied'')"

lemma run_steps_applied:
  "run_steps db t steps passed s = (JobApplied, marks, s') \<longleftrightarrow>
     passes db t steps s = Some s' \<and> marks = passed @ map mark_of steps"
  by (induction steps arbitrary: passed s) (auto simp: mark_of_def split: sum.splits if_splits)

lemma run_steps_ends:
  "fst (run_steps db t steps passed s) = JobApplied \<longleftrightarrow> passes db t steps s \<noteq> None"
  by (induction steps arbitrary: passed s) (auto split: sum.splits)

text \<open>The first failing statement and what comes before it.\<close>

definition fails_after :: "'s schema_db \<Rightarrow> string \<Rightarrow> schemaPlanStep list \<Rightarrow> 's \<Rightarrow> schemaPlanStep list \<Rightarrow> bool" where
  "fails_after db t steps s pre \<longleftrightarrow> (\<exists>bad post s1 e. steps = pre @ bad # post \<and> passes db t pre s = Some s1 \<and>
     \<not> is_warning bad \<and> sd_exec db s1 t (ps_Ddl bad) = Inl e)"

lemma passes_None: "passes db t steps s = None \<Longrightarrow> \<exists>pre. fails_after db t steps s pre"
proof (induction steps arbitrary: s)
  case (Cons st steps)
  show ?case
  proof (cases "is_warning st")
    case True
    with Cons have "\<exists>pre. fails_after db t steps s pre" by simp
    then obtain pre bad post s1 e where "steps = pre @ bad # post" "passes db t pre s = Some s1" "\<not> is_warning bad"
      "sd_exec db s1 t (ps_Ddl bad) = Inl e" unfolding fails_after_def by blast
    with True show ?thesis unfolding fails_after_def
      by (intro exI[of _ "st # pre"] exI[of _ bad] exI[of _ post] exI[of _ s1] exI[of _ e]) simp
  next
    case False
    show ?thesis
    proof (cases "sd_exec db s t (ps_Ddl st)")
      case (Inl e)
      with False show ?thesis unfolding fails_after_def
        by (intro exI[of _ "[]"] exI[of _ st] exI[of _ steps] exI[of _ s] exI[of _ e]) simp
    next
      case (Inr s2)
      with Cons False have "\<exists>pre. fails_after db t steps s2 pre" by simp
      then obtain pre bad post s1 e where "steps = pre @ bad # post" "passes db t pre s2 = Some s1" "\<not> is_warning bad"
        "sd_exec db s1 t (ps_Ddl bad) = Inl e" unfolding fails_after_def by blast
      with False Inr show ?thesis unfolding fails_after_def
        by (intro exI[of _ "st # pre"] exI[of _ bad] exI[of _ post] exI[of _ s1] exI[of _ e]) simp
    qed
  qed
qed simp

lemma run_steps_fails:
  assumes "passes db t pre s = Some s1" "\<not> is_warning bad" "sd_exec db s1 t (ps_Ddl bad) = Inl e"
  shows "fst (run_steps db t (pre @ bad # post) passed s) = (if passed = [] \<and> pre = [] then JobFailed e else JobHangs)"
  using assms by (induction pre arbitrary: passed s) (auto split: sum.splits if_splits)


text \<open>
  A schema job that returns is all or nothing: without an error the database has passed every
  statement of the plan and each step is marked applied or, if it only warns, skipped; with an error the
  database is as before.
\<close>

theorem schema_job_atomic:
  "case executeBuilderSchemaJob db job s of None \<Rightarrow> True
   | Some (Inl e, job', s') \<Rightarrow> s' = s \<and> jb_Status job' \<in> {''failed'', jb_Status job}
   | Some (Inr _, job', s') \<Rightarrow> passes db (jb_TableName job) (map fst (jb_Steps job)) s = Some s' \<and>
       jb_Status job' = ''applied'' \<and> jb_Steps job' = map mark_of (map fst (jb_Steps job))"
  using run_steps_applied[of db "jb_TableName job" "map fst (jb_Steps job)" "[]" s]
  by (auto simp: executeBuilderSchemaJob_def split: option.splits job_end.splits prod.splits sum.splits if_splits)

section \<open>The effect of the statements\<close>

text \<open>
  What the statements of the plan do to a table when they succeed, as the database documents them:
  \<open>pgtype\<close> is the name the catalogue gives to a declared type.
\<close>

type_synonym table_shape = "bool \<times> (string \<rightharpoonup> physicalColumn)"

definition created_columns :: "string \<rightharpoonup> physicalColumn" where
  "created_columns = map_of [(''_id'', \<lparr>pc_SQLType = ''uuid'', pc_IsNullable = False\<rparr>),
     (''_created_at'', \<lparr>pc_SQLType = ''timestamp with time zone'', pc_IsNullable = False\<rparr>),
     (''_updated_at'', \<lparr>pc_SQLType = ''timestamp with time zone'', pc_IsNullable = False\<rparr>),
     (''_update_count'', \<lparr>pc_SQLType = ''bigint'', pc_IsNullable = False\<rparr>),
     (''_deleted_at'', \<lparr>pc_SQLType = ''timestamp with time zone'', pc_IsNullable = True\<rparr>),
     (''_created_by'', \<lparr>pc_SQLType = ''uuid'', pc_IsNullable = True\<rparr>),
     (''_updated_by'', \<lparr>pc_SQLType = ''uuid'', pc_IsNullable = True\<rparr>),
     (''_deleted_by'', \<lparr>pc_SQLType = ''uuid'', pc_IsNullable = True\<rparr>)]"

definition set_nullable :: "bool \<Rightarrow> string \<Rightarrow> (string \<rightharpoonup> physicalColumn) \<Rightarrow> (string \<rightharpoonup> physicalColumn)" where
  "set_nullable b c m = m(c := map_option (\<lambda>p. p\<lparr>pc_IsNullable := b\<rparr>) (m c))"

fun ddl_result :: "(string \<Rightarrow> string) \<Rightarrow> ddl \<Rightarrow> table_shape \<Rightarrow> table_shape" where
  "ddl_result pgtype CreateTable (ex, m) = (True, if ex then m else created_columns)"
| "ddl_result pgtype (AddColumn c ty notNull) (ex, m) =
     (ex, if m c = None then m(c \<mapsto> \<lparr>pc_SQLType = pgtype ty, pc_IsNullable = \<not> notNull\<rparr>) else m)"
| "ddl_result pgtype (DropNotNull c) (ex, m) = (ex, set_nullable True c m)"
| "ddl_result pgtype (SetNotNull c) (ex, m) = (ex, set_nullable False c m)"
| "ddl_result pgtype _ (ex, m) = (ex, m)"

definition shape :: "('s \<Rightarrow> bool \<times> physical_columns) \<Rightarrow> 's \<Rightarrow> table_shape" where
  "shape physical s = (fst (physical s), map_of (snd (physical s)))"

text \<open>The database carries the statements out, and a table that is not there has no columns.\<close>

definition ddl_laws :: "'s schema_db \<Rightarrow> ('s \<Rightarrow> bool \<times> physical_columns) \<Rightarrow> (string \<Rightarrow> string) \<Rightarrow> bool" where
  "ddl_laws db physical pgtype \<longleftrightarrow>
     (\<forall>s t d s'. sd_exec db s t d = Inr s' \<longrightarrow> shape physical s' = ddl_result pgtype d (shape physical s)) \<and>
     (\<forall>s. \<not> fst (physical s) \<longrightarrow> snd (physical s) = [])"

fun warns :: "ddl \<Rightarrow> bool" where
  "warns (TypeDriftNote _ _ _) = True"
| "warns (ExtraColumnNote _ _) = True"
| "warns _ = False"

lemma warning_action: "HasPrefix (action_of d) ''warn_'' \<longleftrightarrow> warns d"
  by (cases d) (simp_all add: HasPrefix_def)

lemma warns_result: "warns d \<Longrightarrow> ddl_result pgtype d sh = sh"
  by (cases d; cases sh) simp_all

lemma numbered_step: "st \<in> set (numbered ds) \<Longrightarrow> is_warning st \<longleftrightarrow> warns (ps_Ddl st)"
  by (auto simp: numbered_def is_warning_def warning_action)

lemma numbered_ddls: "map ps_Ddl (numbered ds) = ds"
  by (simp add: numbered_def comp_def case_prod_beta)

lemma passes_shape:
  assumes "ddl_laws db physical pgtype" "passes db t steps s = Some s'"
    and "list_all (\<lambda>st. is_warning st \<longleftrightarrow> warns (ps_Ddl st)) steps"
  shows "shape physical s' = fold (ddl_result pgtype) (map ps_Ddl steps) (shape physical s)"
  using assms(2,3)
proof (induction steps arbitrary: s)
  case (Cons st steps)
  show ?case
  proof (cases "is_warning st")
    case True
    with Cons show ?thesis by (simp add: warns_result)
  next
    case False
    with Cons.prems(1) obtain s1 where s1: "sd_exec db s t (ps_Ddl st) = Inr s1" "passes db t steps s1 = Some s'"
      by (auto split: sum.splits)
    with assms(1) have "shape physical s1 = ddl_result pgtype (ps_Ddl st) (shape physical s)" unfolding ddl_laws_def by blast
    with Cons.IH[OF s1(2)] Cons.prems(2) show ?thesis by simp
  qed
qed simp

section \<open>One column\<close>

text \<open>The column a statement is about.\<close>

fun ddl_column :: "ddl \<Rightarrow> string option" where
  "ddl_column (AddColumn c _ _) = Some c"
| "ddl_column (DropNotNull c) = Some c"
| "ddl_column (CheckNoNulls c) = Some c"
| "ddl_column (SetNotNull c) = Some c"
| "ddl_column _ = None"

lemma ddl_other_column: "d \<noteq> CreateTable \<Longrightarrow> ddl_column d \<noteq> Some k \<Longrightarrow> snd (ddl_result pgtype d sh) k = snd sh k"
  by (cases d; cases sh) (auto simp: set_nullable_def)

lemma ddl_exists: "d \<noteq> CreateTable \<Longrightarrow> fst (ddl_result pgtype d sh) = fst sh"
  by (cases d; cases sh) auto

lemma fold_other_column:
  "list_all (\<lambda>d. d \<noteq> CreateTable \<and> ddl_column d \<noteq> Some k) ds \<Longrightarrow> snd (fold (ddl_result pgtype) ds sh) k = snd sh k"
  by (induction ds arbitrary: sh) (auto simp: ddl_other_column)

lemma fold_exists: "list_all (\<lambda>d. d \<noteq> CreateTable) ds \<Longrightarrow> fst (fold (ddl_result pgtype) ds sh) = fst sh"
  by (induction ds arbitrary: sh) (auto simp: ddl_exists)

lemma column_steps_about:
  assumes "column_steps physical col = Inr ds"
  shows "list_all (\<lambda>d. d \<noteq> CreateTable \<and> ddl_column d \<in> {None, Some (column_key col)}) ds"
  using assms by (auto simp: column_steps_def Let_def split: sum.splits if_splits option.splits)

definition nullable_as :: "table_shape \<Rightarrow> builder_column \<Rightarrow> bool" where
  "nullable_as sh col \<longleftrightarrow> (case snd sh (column_key col) of None \<Rightarrow> False | Some p \<Rightarrow> pc_IsNullable p = bc_IsNullable col)"

text \<open>The shape before the statements of a column: as it was planned for, or already as it should be.\<close>

definition planned_for :: "physical_columns \<Rightarrow> table_shape \<Rightarrow> builder_column \<Rightarrow> bool" where
  "planned_for physical sh col \<longleftrightarrow> snd sh (column_key col) = map_of physical (column_key col) \<or>
     map_of physical (column_key col) = None \<and> nullable_as sh col"

lemma column_reaches:
  assumes "column_steps physical col = Inr ds" "planned_for physical sh col"
  shows "nullable_as (fold (ddl_result pgtype) ds sh) col"
  using assms by (cases sh)
    (auto simp: column_steps_def planned_for_def nullable_as_def set_nullable_def Let_def split: sum.splits if_splits option.splits)

lemma nullable_as_cong: "snd sh (column_key col) = snd sh' (column_key col) \<Longrightarrow> nullable_as sh col = nullable_as sh' col"
  by (simp add: nullable_as_def)

lemma map_result_origin: "map_result f xs = Inr ys \<Longrightarrow> y \<in> set ys \<Longrightarrow> \<exists>x. x \<in> set xs \<and> f x = Inr y"
proof (induction xs arbitrary: ys)
  case (Cons a xs)
  then obtain b bs where "f a = Inr b" "map_result f xs = Inr bs" "ys = b # bs" by (auto split: sum.splits)
  with Cons.IH[of bs] Cons.prems(2) show ?case by (cases "y = b") auto
qed simp

lemma map_result_image: "map_result f xs = Inr ys \<Longrightarrow> x \<in> set xs \<Longrightarrow> \<exists>y. f x = Inr y"
  by (induction xs arbitrary: ys) (auto split: sum.splits)

lemma columns_reach:
  assumes "map_result (column_steps physical) cols = Inr dss" "distinct (map column_key cols)"
    and "list_all (planned_for physical sh) cols"
  shows "list_all (nullable_as (fold (ddl_result pgtype) (concat dss) sh)) cols"
  using assms
proof (induction cols arbitrary: dss sh)
  case (Cons col cols)
  from Cons.prems(1) obtain ds dss' where d: "column_steps physical col = Inr ds" "map_result (column_steps physical) cols = Inr dss'"
    "dss = ds # dss'" by (auto split: sum.splits)
  let ?sh = "fold (ddl_result pgtype) ds sh"
  note ab = column_steps_about[OF d(1)]
  have same: "snd ?sh (column_key c) = snd sh (column_key c)" if "c \<in> set cols" for c
  proof (rule fold_other_column)
    show "list_all (\<lambda>d. d \<noteq> CreateTable \<and> ddl_column d \<noteq> Some (column_key c)) ds"
      using ab Cons.prems(2) that by (auto simp: list_all_iff)
  qed
  have "list_all (planned_for physical ?sh) cols"
    using Cons.prems(3) same by (auto simp: list_all_iff planned_for_def nullable_as_def)
  with Cons.IH[OF d(2)] Cons.prems(2) have rest: "list_all (nullable_as (fold (ddl_result pgtype) (concat dss') ?sh)) cols" by simp
  have "nullable_as ?sh col" using column_reaches[OF d(1)] Cons.prems(3) by simp
  moreover have "snd (fold (ddl_result pgtype) (concat dss') ?sh) (column_key col) = snd ?sh (column_key col)"
  proof (rule fold_other_column)
    have "ddl_column x \<noteq> Some (column_key col) \<and> x \<noteq> CreateTable" if "x \<in> set ds'" "ds' \<in> set dss'" for x ds'
    proof -
      from map_result_origin[OF d(2) that(2)] obtain c where "c \<in> set cols" "column_steps physical c = Inr ds'" by blast
      moreover from this have "column_key c \<noteq> column_key col" using Cons.prems(2) by (metis distinct.simps(2) imageI list.set_map list.simps(9))
      ultimately show ?thesis using column_steps_about[of physical c ds'] that(1) by (auto simp: list_all_iff)
    qed
    then show "list_all (\<lambda>d. d \<noteq> CreateTable \<and> ddl_column d \<noteq> Some (column_key col)) (concat dss')"
      by (auto simp: list_all_iff)
  qed
  ultimately have "nullable_as (fold (ddl_result pgtype) (concat dss') ?sh) col" using nullable_as_cong by blast
  with rest show ?case by (simp add: d(3))
qed simp

section \<open>The plan\<close>

lemma plan_Inr:
  assumes "buildSchemaPlanSteps ex physical cols t = Inr steps"
  obtains dss where "map_result (column_steps physical) cols = Inr dss"
    "steps = numbered ((if ex then [] else [CreateTable, EnsureTrigger]) @ concat dss @ extra_steps physical cols)"
  using assms by (auto simp: buildSchemaPlanSteps_def split: if_splits sum.splits)

lemma column_steps_settled:
  assumes "column_steps physical col = Inr ds" "map_of physical (column_key col) = Some p" "pc_IsNullable p = bc_IsNullable col"
  shows "list_all warns ds"
  using assms by (auto simp: column_steps_def Let_def split: sum.splits if_splits)

lemma extra_warns: "list_all warns (extra_steps physical cols)"
  by (auto simp: extra_steps_def list_all_iff)

text \<open>The columns a new table comes with agree with the metadata of their names.\<close>

definition agrees_with_created :: "builder_column list \<Rightarrow> bool" where
  "agrees_with_created cols \<longleftrightarrow> list_all (\<lambda>col. case created_columns (column_key col) of None \<Rightarrow> True
     | Some p \<Rightarrow> pc_IsNullable p = bc_IsNullable col) cols"

lemma fold_warns: "list_all warns ds \<Longrightarrow> fold (ddl_result pgtype) ds sh = sh"
  by (induction ds) (simp_all add: warns_result)

lemma column_steps_defined:
  assumes "column_steps physical col = Inr ds"
  shows "\<exists>ds'. column_steps physical' col = Inr ds'"
proof -
  from assms obtain ty where "builderDataTypeToSQL (normalizeDataType (bc_DataType col)) = Inr ty" "IsSafeIdentifier (column_key col)"
    by (auto simp: column_steps_def Let_def split: sum.splits if_splits)
  then show ?thesis by (cases "map_of physical' (column_key col)") (simp_all add: column_steps_def Let_def)
qed

lemma applied_shape:
  assumes "ddl_laws db physical pgtype" "map_result (column_steps (snd (physical s))) cols = Inr dss"
    and "distinct (map column_key cols)" "agrees_with_created cols"
    and "shape physical s' = fold (ddl_result pgtype) ((if fst (physical s) then [] else [CreateTable, EnsureTrigger])
       @ concat dss @ extra_steps (snd (physical s)) cols) (shape physical s)"
  shows "fst (physical s') \<and> list_all (nullable_as (shape physical s')) cols"
proof -
  let ?ph = "snd (physical s)"
  let ?sh0 = "fold (ddl_result pgtype) (if fst (physical s) then [] else [CreateTable, EnsureTrigger]) (shape physical s)"
  have sh0: "fst ?sh0" "list_all (planned_for ?ph ?sh0) cols"
  proof -
    have "\<not> fst (physical s) \<Longrightarrow> ?ph = []" using assms(1) by (simp add: ddl_laws_def)
    then show "fst ?sh0" "list_all (planned_for ?ph ?sh0) cols"
      using assms(4) by (auto simp: shape_def planned_for_def list_all_iff agrees_with_created_def nullable_as_def split: option.splits)
  qed
  let ?sh1 = "fold (ddl_result pgtype) (concat dss) ?sh0"
  have "fold (ddl_result pgtype) (extra_steps ?ph cols) sh = sh" for sh
    by (rule fold_warns[OF extra_warns])
  then have s': "shape physical s' = ?sh1" using assms(5) by (simp add: fold_append)
  from columns_reach[OF assms(2,3) sh0(2)] have "list_all (nullable_as ?sh1) cols" .
  moreover have "list_all (\<lambda>d. d \<noteq> CreateTable) (concat dss)"
  proof -
    have "d \<noteq> CreateTable" if "d \<in> set ds" "ds \<in> set dss" for d ds
      using map_result_origin[OF assms(2) that(2)] column_steps_about that(1) by (fastforce simp: list_all_iff)
    then show ?thesis by (auto simp: list_all_iff)
  qed
  then have "fst ?sh1" using sh0(1) fold_exists by blast
  ultimately have "list_all (nullable_as (shape physical s')) cols" "fst (shape physical s')" unfolding s' by blast+
  then show ?thesis by (simp add: shape_def)
qed

lemma map_result_all:
  "(\<And>x. x \<in> set xs \<Longrightarrow> \<exists>y. f x = Inr y \<and> P y) \<Longrightarrow> \<exists>ys. map_result f xs = Inr ys \<and> list_all P ys"
proof (induction xs)
  case (Cons x xs)
  then obtain y ys where "f x = Inr y" "P y" "map_result f xs = Inr ys" "list_all P ys" by fastforce
  then show ?case by simp
qed simp


end
