(* ===== verification/SchemaSamples.thy ===== *)
theory SchemaSamples
  imports SchemaLaws
begin

text \<open>A table of guests in a small database, and the properties of schema jobs applied to it.\<close>

definition guest_columns :: "builder_column list" where
  "guest_columns = [\<lparr>bc_Name = ''Name'', bc_DataType = ''text'', bc_IsNullable = True\<rparr>,
     \<lparr>bc_Name = ''age'', bc_DataType = ''int'', bc_IsNullable = False\<rparr>]"

text \<open>A database with one table: its columns, and whether it has rows.\<close>

type_synonym guest_db = "physical_columns \<times> bool"

fun guest_exec :: "guest_db \<Rightarrow> string \<Rightarrow> ddl \<Rightarrow> (string, guest_db) result" where
  "guest_exec (cols, full) t (AddColumn c ty notNull) =
     (if map_of cols c \<noteq> None then Inr (cols, full)
      else if notNull \<and> full then Inl ''column contains null values''
      else Inr ((c, \<lparr>pc_SQLType = ToLower ty, pc_IsNullable = \<not> notNull\<rparr>) # cols, full))"
| "guest_exec s t (DropNotNull c) = Inl ''constraint''"
| "guest_exec s t (SetNotNull c) = Inl ''constraint''"
| "guest_exec s t d = Inr s"

definition guest_schema :: "guest_db schema_db" where
  "guest_schema = \<lparr>sd_exec = guest_exec, sd_commits = True\<rparr>"

definition guest_physical :: "guest_db \<Rightarrow> bool \<times> physical_columns" where
  "guest_physical s = (True, fst s)"

definition guest_lookup :: "string \<Rightarrow> (string, builder_column list) result" where
  "guest_lookup t = Inr guest_columns"

text \<open>A column that takes no NULL cannot be added to a table with rows: the second statement fails.\<close>

lemma guests_hang: "PlanAndApplyBuilderSchema guest_schema guest_physical guest_lookup ''guest'' False ''ann'' ([], True) = None"
  by code_simp

lemma guests_applied: "case PlanAndApplyBuilderSchema guest_schema guest_physical guest_lookup ''guest'' False ''ann'' ([], False) of
     Some (Inr (Inr u, job, s')) \<Rightarrow> map snd (jb_Steps job) = [''applied'', ''applied''] \<and> jb_Status job = ''applied'' | _ \<Rightarrow> False"
  by code_simp

lemma guest_laws: "ddl_laws guest_schema guest_physical ToLower"
proof -
  have "shape guest_physical s' = ddl_result ToLower d (shape guest_physical s)" if "guest_exec s t d = Inr s'" for s t d s'
    using that by (cases s; cases d) (auto simp: shape_def guest_physical_def split: if_splits)
  then show ?thesis by (auto simp: ddl_laws_def guest_schema_def guest_physical_def)
qed


end
