(* ===== verification/ProviderDestination.thy ===== *)
theory ProviderDestination
  imports GoStrings "HOL-Library.Word"
begin

text \<open>
  Where a provider key may travel (\<open>internal/security/ProviderDestination.go\<close>, \<open>ProviderClient.go\<close>): the
  classes of addresses that are refused, the check of the configured URL, the dialer that resolves and
  checks again, and the call that carries the key.

  A \<open>net.IP\<close> is its bytes, four or sixteen of them, and \<open>[]\<close> is nil. The parser of URLs, the parser of
  literal addresses, the name service and the network are the record \<open>provider_net\<close>; a resolution is
  done anew at every point of time, so the name service is asked with a time.
\<close>

unbundle bit_operations_syntax

type_synonym net_ip = "8 word list"

section \<open>Addresses\<close>

definition To4 :: "net_ip \<Rightarrow> net_ip option" where
  "To4 ip = (if length ip = 4 then Some ip
     else if length ip = 16 \<and> list_all (\<lambda>b. b = 0) (take 10 ip) \<and> ip ! 10 = 255 \<and> ip ! 11 = 255 then Some (drop 12 ip)
     else None)"

definition IsLoopback :: "net_ip \<Rightarrow> bool" where
  "IsLoopback ip = (case To4 ip of Some v4 \<Rightarrow> v4 ! 0 = 127 | None \<Rightarrow> ip = replicate 15 0 @ [1])"

definition IsPrivate :: "net_ip \<Rightarrow> bool" where
  "IsPrivate ip = (case To4 ip of
     Some v4 \<Rightarrow> v4 ! 0 = 10 \<or> v4 ! 0 = 172 \<and> (v4 ! 1) AND 0xF0 = 16 \<or> v4 ! 0 = 192 \<and> v4 ! 1 = 168
   | None \<Rightarrow> length ip = 16 \<and> (ip ! 0) AND 0xFE = 0xFC)"

definition IsUnspecified :: "net_ip \<Rightarrow> bool" where
  "IsUnspecified ip = (case To4 ip of Some v4 \<Rightarrow> v4 = replicate 4 0 | None \<Rightarrow> ip = replicate 16 0)"

definition IsLinkLocalUnicast :: "net_ip \<Rightarrow> bool" where
  "IsLinkLocalUnicast ip = (case To4 ip of Some v4 \<Rightarrow> v4 ! 0 = 169 \<and> v4 ! 1 = 254
   | None \<Rightarrow> length ip = 16 \<and> ip ! 0 = 0xFE \<and> (ip ! 1) AND 0xC0 = 0x80)"

definition IsLinkLocalMulticast :: "net_ip \<Rightarrow> bool" where
  "IsLinkLocalMulticast ip = (case To4 ip of Some v4 \<Rightarrow> v4 ! 0 = 224 \<and> v4 ! 1 = 0 \<and> v4 ! 2 = 0
   | None \<Rightarrow> length ip = 16 \<and> ip ! 0 = 0xFF \<and> (ip ! 1) AND 0x0F = 0x02)"

definition IsMulticast :: "net_ip \<Rightarrow> bool" where
  "IsMulticast ip = (case To4 ip of Some v4 \<Rightarrow> (v4 ! 0) AND 0xF0 = 0xE0 | None \<Rightarrow> length ip = 16 \<and> ip ! 0 = 0xFF)"

text \<open>The network number of a block and its prefix length, and the bytes of its mask.\<close>

type_synonym ip_net = "net_ip \<times> nat"

definition mask_byte :: "nat \<Rightarrow> nat \<Rightarrow> 8 word" where
  "mask_byte ones i = (if 8 * (i + 1) \<le> ones then 255 else if ones \<le> 8 * i then 0
     else 255 - of_nat (2 ^ (8 - (ones - 8 * i)) - 1))"

definition Contains :: "ip_net \<Rightarrow> net_ip \<Rightarrow> bool" where
  "Contains block ip =
     (let nn = fst block; x = (case To4 ip of Some v4 \<Rightarrow> v4 | None \<Rightarrow> ip) in
      length x = length nn \<and>
      list_all (\<lambda>i. (nn ! i) AND mask_byte (snd block) i = (x ! i) AND mask_byte (snd block) i) [0..<length nn])"

definition blockedProviderCIDRs :: "ip_net list" where
  "blockedProviderCIDRs = [([100, 64, 0, 0], 10), ([192, 0, 0, 0], 24), ([192, 0, 2, 0], 24), ([198, 18, 0, 0], 15),
     ([198, 51, 100, 0], 24), ([203, 0, 113, 0], 24), ([240, 0, 0, 0], 4),
     ([0x00, 0x64, 0xFF, 0x9B, 0x00, 0x01] @ replicate 10 0, 48), ([0x20, 0x01, 0x0D, 0xB8] @ replicate 12 0, 32),
     ([0x20, 0x02] @ replicate 14 0, 16)]"

definition isBlockedProviderIP :: "net_ip \<Rightarrow> bool" where
  "isBlockedProviderIP ip0 =
     (if ip0 = [] then True
      else let ip = (case To4 ip0 of Some v4 \<Rightarrow> v4 | None \<Rightarrow> ip0) in
        if IsLoopback ip \<or> IsPrivate ip \<or> IsUnspecified ip \<or> IsLinkLocalUnicast ip \<or> IsLinkLocalMulticast ip \<or> IsMulticast ip
        then True
        else list_ex (\<lambda>cidr. Contains cidr ip) blockedProviderCIDRs)"

section \<open>Destinations\<close>

record url =
  url_Scheme :: string
  url_User :: bool
  url_Host :: string
  url_Hostname :: string
  url_Path :: string
  url_RawQuery :: string
  url_Fragment :: string

datatype provider_error =
    MalformedURL | CredentialsInURL | PlainHTTP | UnsupportedScheme string | MissingHost | Unresolved | NonPublic
  | MalformedPath | PathIsURL | NoConnection | BadStatus nat | RedirectRefused nat | BadResponse

record provider_net =
  pn_ParseURL :: "string \<Rightarrow> url option"
  pn_ParseIP :: "string \<Rightarrow> net_ip option"
  pn_LookupIP :: "nat \<Rightarrow> string \<Rightarrow> net_ip list option"
  pn_Connects :: "nat \<Rightarrow> net_ip \<Rightarrow> bool"
  pn_Env :: string

definition allowPrivateProviderDestinations :: "provider_net \<Rightarrow> bool" where
  "allowPrivateProviderDestinations N \<longleftrightarrow> ToLower (TrimSpace (pn_Env N)) \<in> {''1'', ''true'', ''yes'', ''on''}"

definition resolveAllowedProviderIPs :: "provider_net \<Rightarrow> nat \<Rightarrow> string \<Rightarrow> bool \<Rightarrow> (provider_error, net_ip list) result" where
  "resolveAllowedProviderIPs N now host allowPrivate =
     (case (case pn_ParseIP N host of Some ip \<Rightarrow> Some [ip] | None \<Rightarrow> pn_LookupIP N now host) of
        None \<Rightarrow> Inl Unresolved
      | Some ips \<Rightarrow>
          if ips = [] then Inl Unresolved
          else if allowPrivate then Inr ips
          else if list_ex isBlockedProviderIP ips then Inl NonPublic
          else Inr ips)"

definition validateProviderURL :: "provider_net \<Rightarrow> nat \<Rightarrow> string \<Rightarrow> (provider_error, url) result" where
  "validateProviderURL N now raw =
     (case pn_ParseURL N (TrimSpace raw) of None \<Rightarrow> Inl MalformedURL
      | Some u \<Rightarrow>
          let allowPrivate = allowPrivateProviderDestinations N; scheme = ToLower (url_Scheme u) in
          if url_Host u = [] then Inl MalformedURL
          else if url_User u then Inl CredentialsInURL
          else if scheme = ''http'' \<and> \<not> allowPrivate then Inl PlainHTTP
          else if scheme \<noteq> ''https'' \<and> scheme \<noteq> ''http'' then Inl (UnsupportedScheme (url_Scheme u))
          else if url_Hostname u = [] then Inl MissingHost
          else (case resolveAllowedProviderIPs N now (url_Hostname u) allowPrivate of Inl e \<Rightarrow> Inl e | Inr _ \<Rightarrow> Inr u))"

definition ValidateProviderDestination :: "provider_net \<Rightarrow> nat \<Rightarrow> string \<Rightarrow> provider_error option" where
  "ValidateProviderDestination N now raw = (case validateProviderURL N now raw of Inl e \<Rightarrow> Some e | Inr _ \<Rightarrow> None)"

text \<open>The dialer: the addresses it tried, and the one it is connected to.\<close>

fun try_addresses :: "(net_ip \<Rightarrow> bool) \<Rightarrow> net_ip list \<Rightarrow> net_ip list \<times> net_ip option" where
  "try_addresses connects [] = ([], None)"
| "try_addresses connects (ip # ips) = (if connects ip then ([ip], Some ip)
     else (case try_addresses connects ips of (tried, r) \<Rightarrow> (ip # tried, r)))"

definition safeProviderDial :: "provider_net \<Rightarrow> nat \<Rightarrow> string \<Rightarrow> net_ip list \<times> (provider_error, net_ip) result" where
  "safeProviderDial N now host = (case resolveAllowedProviderIPs N now host (allowPrivateProviderDestinations N) of
     Inl e \<Rightarrow> ([], Inl e)
   | Inr ips \<Rightarrow> (case try_addresses (pn_Connects N now) ips of (tried, r) \<Rightarrow>
       (tried, case r of None \<Rightarrow> Inl NoConnection | Some ip \<Rightarrow> Inr ip)))"

section \<open>The call\<close>

definition providerRequestURL :: "provider_net \<Rightarrow> url \<Rightarrow> string \<Rightarrow> (provider_error, url) result" where
  "providerRequestURL N base listPath = (case pn_ParseURL N (TrimSpace listPath) of None \<Rightarrow> Inl MalformedPath
     | Some rel \<Rightarrow>
         if url_Scheme rel \<noteq> [] \<or> url_Host rel \<noteq> [] then Inl PathIsURL
         else Inr (base\<lparr>url_Path := TrimSuffix (url_Path base) ''/'' @ ''/'' @ TrimPrefix (url_Path rel) ''/'',
           url_RawQuery := url_RawQuery rel, url_Fragment := []\<rparr>))"

record provider_meta =
  pm_AuthHeader :: string
  pm_VersionHeader :: string
  pm_VersionValue :: string

text \<open>Setting a header replaces its values.\<close>

definition set_header :: "string \<Rightarrow> string \<Rightarrow> (string \<times> string) list \<Rightarrow> (string \<times> string) list" where
  "set_header k v hs = (k, v) # filter (\<lambda>h. \<not> EqualFold (fst h) k) hs"

definition provider_headers :: "provider_meta \<Rightarrow> string \<Rightarrow> (string \<times> string) list" where
  "provider_headers meta key =
     (let auth = (if pm_AuthHeader meta = ''Authorization'' then set_header ''Authorization'' (''Bearer '' @ key) []
          else set_header (if pm_AuthHeader meta = [] then ''x-api-key'' else pm_AuthHeader meta) key []);
        versioned = (if pm_VersionHeader meta = [] then auth else set_header (pm_VersionHeader meta) (pm_VersionValue meta) auth)
      in set_header ''Accept'' ''application/json'' versioned)"

text \<open>A request on the wire: the address it goes to, whether under TLS, its URL and headers.\<close>

record wire_request =
  wr_IP :: net_ip
  wr_TLS :: bool
  wr_URL :: url
  wr_Headers :: "(string \<times> string) list"

text \<open>
  The call: the addresses that were dialled, the request that was sent, if any, and the answer.
  \<open>respond\<close> is what the provider answers, a status and the decoded models, or nothing at all. The answer
  of a redirect is not followed, so a call sends one request at most. The two times are those of the
  validation and of the connection.
\<close>

definition ListModels ::
  "provider_net \<Rightarrow> (wire_request \<Rightarrow> (nat \<times> 'm list option) option) \<Rightarrow> nat \<Rightarrow> nat \<Rightarrow> string \<Rightarrow> string \<Rightarrow> string \<Rightarrow> provider_meta
     \<Rightarrow> net_ip list \<times> wire_request option \<times> (provider_error, 'm list) result" where
  "ListModels N respond now later baseURL listPath key meta =
     (case validateProviderURL N now baseURL of Inl e \<Rightarrow> ([], None, Inl e)
      | Inr base \<Rightarrow> (case providerRequestURL N base listPath of Inl e \<Rightarrow> ([], None, Inl e)
          | Inr target \<Rightarrow> (case safeProviderDial N later (url_Hostname target) of
              (tried, Inl e) \<Rightarrow> (tried, None, Inl e)
            | (tried, Inr ip) \<Rightarrow>
                let sent = \<lparr>wr_IP = ip, wr_TLS = (ToLower (url_Scheme target) = ''https''), wr_URL = target,
                  wr_Headers = provider_headers meta key\<rparr> in
                (tried, Some sent, case respond sent of None \<Rightarrow> Inl NoConnection
                 | Some (status, models) \<Rightarrow>
                     if status \<noteq> 200 then Inl (if status div 100 = 3 then RedirectRefused status else BadStatus status)
                     else (case models of None \<Rightarrow> Inl BadResponse | Some ms \<Rightarrow> Inr ms)))))"

end
