(* ===== verification/ProviderLaws.thy ===== *)
theory ProviderLaws
  imports ProviderDestination
begin

text \<open>
  The refused IPv4 addresses as a list of intervals, and the way of a provider key: without the opt-in of
  the operator it leaves the server only over TLS and only to an address that is not refused, whatever
  the name service answers at any time.
\<close>

section \<open>Bytes\<close>

lemma byte_range: "0 \<le> uint (x :: 8 word)" "uint (x :: 8 word) \<le> 255"
  using unsigned_less[of x, where 'a = int] by simp_all

lemma all_bytes:
  assumes "list_all P [0..255]"
  shows "P (uint (x :: 8 word))"
  using assms byte_range[of x] by (simp add: list_all_iff)

lemma int_masks:
  "list_all (\<lambda>n::int. (n AND 240 = 16) = (16 \<le> n \<and> n \<le> 31)) [0..255]"
  "list_all (\<lambda>n::int. (n AND 240 = 224) = (224 \<le> n \<and> n \<le> 239)) [0..255]"
  "list_all (\<lambda>n::int. (64 = n AND 192) = (64 \<le> n \<and> n \<le> 127)) [0..255]"
  "list_all (\<lambda>n::int. (18 = n AND 254) = (18 \<le> n \<and> n \<le> 19)) [0..255]"
  "list_all (\<lambda>n::int. (240 = n AND 240) = (240 \<le> n)) [0..255]"
  "list_all (\<lambda>n::int. n AND 255 = n) [0..255]"
  by code_simp+

lemma byte_masks:
  fixes x :: "8 word"
  shows "x AND 0xF0 = 16 \<longleftrightarrow> 16 \<le> uint x \<and> uint x \<le> 31"
    "x AND 0xF0 = 0xE0 \<longleftrightarrow> 224 \<le> uint x \<and> uint x \<le> 239"
    "64 = x AND (192 :: 8 word) \<longleftrightarrow> 64 \<le> uint x \<and> uint x \<le> 127"
    "18 = x AND (254 :: 8 word) \<longleftrightarrow> 18 \<le> uint x \<and> uint x \<le> 19"
    "240 = x AND (240 :: 8 word) \<longleftrightarrow> 240 \<le> uint x"
    "x AND 255 = x"
  using all_bytes[OF int_masks(1), of x] all_bytes[OF int_masks(2), of x] all_bytes[OF int_masks(3), of x]
    all_bytes[OF int_masks(4), of x] all_bytes[OF int_masks(5), of x] all_bytes[OF int_masks(6), of x]
  by (simp_all add: word_eq_iff_unsigned[where 'a = int] unsigned_and_eq)

lemma byte_is:
  "(x :: 8 word) = 0 \<longleftrightarrow> uint x = 0" "(x :: 8 word) = numeral n \<longleftrightarrow> uint x = uint (numeral n :: 8 word)"
  by (simp_all add: word_eq_iff_unsigned[where 'a = int])

section \<open>The refused IPv4 addresses\<close>

definition dotted :: "int \<Rightarrow> int \<Rightarrow> int \<Rightarrow> int \<Rightarrow> int" where
  "dotted a b c d = ((a * 256 + b) * 256 + c) * 256 + d"

definition ipv4_number :: "8 word \<Rightarrow> 8 word \<Rightarrow> 8 word \<Rightarrow> 8 word \<Rightarrow> int" where
  "ipv4_number a b c d = dotted (uint a) (uint b) (uint c) (uint d)"

definition refused_ranges :: "(int \<times> int) list" where
  "refused_ranges = [(dotted 0 0 0 0, dotted 0 0 0 0), (dotted 10 0 0 0, dotted 10 255 255 255),
     (dotted 100 64 0 0, dotted 100 127 255 255), (dotted 127 0 0 0, dotted 127 255 255 255),
     (dotted 169 254 0 0, dotted 169 254 255 255), (dotted 172 16 0 0, dotted 172 31 255 255),
     (dotted 192 0 0 0, dotted 192 0 0 255), (dotted 192 0 2 0, dotted 192 0 2 255),
     (dotted 192 168 0 0, dotted 192 168 255 255), (dotted 198 18 0 0, dotted 198 19 255 255),
     (dotted 198 51 100 0, dotted 198 51 100 255), (dotted 203 0 113 0, dotted 203 0 113 255),
     (dotted 224 0 0 0, dotted 255 255 255 255)]"

lemma mask_bytes:
  "mask_byte 10 0 = 255" "mask_byte 10 (Suc 0) = 192" "mask_byte 10 2 = 0" "mask_byte 10 3 = 0"
  "mask_byte 24 0 = 255" "mask_byte 24 (Suc 0) = 255" "mask_byte 24 2 = 255" "mask_byte 24 3 = 0"
  "mask_byte 15 0 = 255" "mask_byte 15 (Suc 0) = 254" "mask_byte 15 2 = 0" "mask_byte 15 3 = 0"
  "mask_byte 4 0 = 240" "mask_byte 4 (Suc 0) = 0" "mask_byte 4 2 = 0" "mask_byte 4 3 = 0"
  by (simp_all add: mask_byte_def)

lemma contains_v4:
  "Contains ([n0, n1, n2, n3], len) [a, b, c, d] \<longleftrightarrow>
     n0 AND mask_byte len 0 = a AND mask_byte len 0 \<and> n1 AND mask_byte len (Suc 0) = b AND mask_byte len (Suc 0) \<and>
     n2 AND mask_byte len 2 = c AND mask_byte len 2 \<and> n3 AND mask_byte len 3 = d AND mask_byte len 3"
  by (simp add: Contains_def To4_def upt_rec numeral_nat)

lemma contains_v6: "length nn = 16 \<Longrightarrow> \<not> Contains (nn, len) [a, b, c, d]"
  by (simp add: Contains_def To4_def)

text \<open>A block of addresses is an interval of numbers.\<close>

lemma blocks:
  fixes a b c d :: "8 word"
  shows "Contains ([100, 64, 0, 0], 10) [a, b, c, d] \<longleftrightarrow> uint a = 100 \<and> 64 \<le> uint b \<and> uint b \<le> 127"
    "Contains ([192, 0, 0, 0], 24) [a, b, c, d] \<longleftrightarrow> uint a = 192 \<and> uint b = 0 \<and> uint c = 0"
    "Contains ([192, 0, 2, 0], 24) [a, b, c, d] \<longleftrightarrow> uint a = 192 \<and> uint b = 0 \<and> uint c = 2"
    "Contains ([198, 18, 0, 0], 15) [a, b, c, d] \<longleftrightarrow> uint a = 198 \<and> 18 \<le> uint b \<and> uint b \<le> 19"
    "Contains ([198, 51, 100, 0], 24) [a, b, c, d] \<longleftrightarrow> uint a = 198 \<and> uint b = 51 \<and> uint c = 100"
    "Contains ([203, 0, 113, 0], 24) [a, b, c, d] \<longleftrightarrow> uint a = 203 \<and> uint b = 0 \<and> uint c = 113"
    "Contains ([240, 0, 0, 0], 4) [a, b, c, d] \<longleftrightarrow> 240 \<le> uint a"
  by (simp_all add: contains_v4 mask_bytes byte_masks) (auto simp: word_eq_iff_unsigned[where 'a = int])

text \<open>An interval of numbers is an interval of the first differing byte.\<close>

lemma dotted_sum: "dotted a b c d = 16777216 * a + 65536 * b + 256 * c + d"
  by (simp add: dotted_def)

lemma byte_interval_one:
  fixes a b c d :: int
  assumes "0 \<le> b" "b \<le> 255" "0 \<le> c" "c \<le> 255" "0 \<le> d" "d \<le> 255"
  shows "dotted p 0 0 0 \<le> dotted a b c d \<and> dotted a b c d \<le> dotted q 255 255 255 \<longleftrightarrow> p \<le> a \<and> a \<le> q"
  using assms unfolding dotted_sum by (safe; linarith)

lemma byte_interval_two:
  fixes a b c d :: int
  assumes "0 \<le> b" "b \<le> 255" "0 \<le> c" "c \<le> 255" "0 \<le> d" "d \<le> 255" "0 \<le> q" "r \<le> 255"
  shows "dotted p q 0 0 \<le> dotted a b c d \<and> dotted a b c d \<le> dotted p r 255 255 \<longleftrightarrow> a = p \<and> q \<le> b \<and> b \<le> r"
proof
  assume l: "dotted p q 0 0 \<le> dotted a b c d \<and> dotted a b c d \<le> dotted p r 255 255"
  then have "p \<le> a \<and> a \<le> p" using assms unfolding dotted_sum by (safe; linarith)
  then have "a = p" by simp
  then show "a = p \<and> q \<le> b \<and> b \<le> r" using l assms unfolding dotted_sum by (safe; linarith)
next
  assume "a = p \<and> q \<le> b \<and> b \<le> r"
  then show "dotted p q 0 0 \<le> dotted a b c d \<and> dotted a b c d \<le> dotted p r 255 255"
    using assms unfolding dotted_sum by (safe; linarith)
qed

lemma byte_interval_three:
  fixes a b c d :: int
  assumes "0 \<le> b" "b \<le> 255" "0 \<le> c" "c \<le> 255" "0 \<le> d" "d \<le> 255" "0 \<le> q" "q \<le> 255" "0 \<le> r" "r \<le> 255"
  shows "dotted p q r 0 \<le> dotted a b c d \<and> dotted a b c d \<le> dotted p q r 255 \<longleftrightarrow> a = p \<and> b = q \<and> c = r"
proof
  assume l: "dotted p q r 0 \<le> dotted a b c d \<and> dotted a b c d \<le> dotted p q r 255"
  then have "p \<le> a \<and> a \<le> p" using assms unfolding dotted_sum by (safe; linarith)
  then have a: "a = p" by simp
  then have "q \<le> b \<and> b \<le> q" using l assms unfolding dotted_sum by (safe; linarith)
  then have "b = q" by simp
  then show "a = p \<and> b = q \<and> c = r" using a l assms unfolding dotted_sum by (safe; linarith)
next
  assume "a = p \<and> b = q \<and> c = r"
  then show "dotted p q r 0 \<le> dotted a b c d \<and> dotted a b c d \<le> dotted p q r 255"
    using assms unfolding dotted_sum by (safe; linarith)
qed

lemma byte_interval_zero:
  fixes a b c d :: int
  assumes "0 \<le> a" "0 \<le> b" "0 \<le> c" "0 \<le> d"
  shows "dotted 0 0 0 0 \<le> dotted a b c d \<and> dotted a b c d \<le> dotted 0 0 0 0 \<longleftrightarrow> a = 0 \<and> b = 0 \<and> c = 0 \<and> d = 0"
  using assms unfolding dotted_sum by (safe; linarith)

lemma ipv4_interval:
  fixes a b c d :: "8 word"
  shows "dotted p 0 0 0 \<le> ipv4_number a b c d \<and> ipv4_number a b c d \<le> dotted q 255 255 255 \<longleftrightarrow> p \<le> uint a \<and> uint a \<le> q"
    "0 \<le> q \<and> r \<le> 255 \<Longrightarrow> dotted p q 0 0 \<le> ipv4_number a b c d \<and> ipv4_number a b c d \<le> dotted p r 255 255 \<longleftrightarrow>
       uint a = p \<and> q \<le> uint b \<and> uint b \<le> r"
    "0 \<le> q \<and> q \<le> 255 \<and> 0 \<le> r \<and> r \<le> 255 \<Longrightarrow> dotted p q r 0 \<le> ipv4_number a b c d \<and>
       ipv4_number a b c d \<le> dotted p q r 255 \<longleftrightarrow> uint a = p \<and> uint b = q \<and> uint c = r"
    "dotted 0 0 0 0 \<le> ipv4_number a b c d \<and> ipv4_number a b c d \<le> dotted 0 0 0 0 \<longleftrightarrow>
       uint a = 0 \<and> uint b = 0 \<and> uint c = 0 \<and> uint d = 0"
  unfolding ipv4_number_def
  by (simp_all add: byte_interval_one byte_interval_two byte_interval_three byte_interval_zero byte_range)

lemma interval_point: "n \<le> x \<and> x \<le> n \<longleftrightarrow> x = n" for x n :: int
  by auto

lemma refused_by_bytes:
  "list_ex (\<lambda>(lo, hi). lo \<le> ipv4_number a b c d \<and> ipv4_number a b c d \<le> hi) refused_ranges \<longleftrightarrow>
     uint a = 0 \<and> uint b = 0 \<and> uint c = 0 \<and> uint d = 0 \<or> uint a = 10 \<or>
     uint a = 100 \<and> 64 \<le> uint b \<and> uint b \<le> 127 \<or> uint a = 127 \<or> uint a = 169 \<and> uint b = 254 \<or>
     uint a = 172 \<and> 16 \<le> uint b \<and> uint b \<le> 31 \<or> uint a = 192 \<and> uint b = 0 \<and> uint c = 0 \<or>
     uint a = 192 \<and> uint b = 0 \<and> uint c = 2 \<or> uint a = 192 \<and> uint b = 168 \<or>
     uint a = 198 \<and> 18 \<le> uint b \<and> uint b \<le> 19 \<or> uint a = 198 \<and> uint b = 51 \<and> uint c = 100 \<or>
     uint a = 203 \<and> uint b = 0 \<and> uint c = 113 \<or> 224 \<le> uint a \<and> uint a \<le> 255"
  using ipv4_interval(4)[of a b c d] ipv4_interval(1)[of 10 a b c d 10] ipv4_interval(2)[of 64 127 100 a b c d]
    ipv4_interval(1)[of 127 a b c d 127] ipv4_interval(2)[of 254 254 169 a b c d] ipv4_interval(2)[of 16 31 172 a b c d]
    ipv4_interval(3)[of 0 0 192 a b c d] ipv4_interval(3)[of 0 2 192 a b c d] ipv4_interval(2)[of 168 168 192 a b c d]
    ipv4_interval(2)[of 18 19 198 a b c d] ipv4_interval(3)[of 51 100 198 a b c d] ipv4_interval(3)[of 0 113 203 a b c d]
    ipv4_interval(1)[of 224 a b c d 255]
  by (simp add: refused_ranges_def interval_point)

lemma four_bytes: "To4 [a, b, c, d] = Some [a, b, c, d]" "To4 (replicate 10 0 @ [255, 255, a, b, c, d]) = Some [a, b, c, d]"
  by (simp_all add: To4_def nth_append numeral_nat)

lemma zero_bytes: "replicate 4 (0 :: 8 word) = [0, 0, 0, 0]"
  by (simp add: numeral_nat)

lemma address_classes:
  fixes a b c d :: "8 word"
  shows "IsLoopback [a, b, c, d] \<longleftrightarrow> uint a = 127"
    "IsPrivate [a, b, c, d] \<longleftrightarrow> uint a = 10 \<or> uint a = 172 \<and> 16 \<le> uint b \<and> uint b \<le> 31 \<or> uint a = 192 \<and> uint b = 168"
    "IsUnspecified [a, b, c, d] \<longleftrightarrow> uint a = 0 \<and> uint b = 0 \<and> uint c = 0 \<and> uint d = 0"
    "IsLinkLocalUnicast [a, b, c, d] \<longleftrightarrow> uint a = 169 \<and> uint b = 254"
    "IsLinkLocalMulticast [a, b, c, d] \<longleftrightarrow> uint a = 224 \<and> uint b = 0 \<and> uint c = 0"
    "IsMulticast [a, b, c, d] \<longleftrightarrow> 224 \<le> uint a \<and> uint a \<le> 239"
  by (simp_all add: IsLoopback_def IsPrivate_def IsUnspecified_def IsLinkLocalUnicast_def IsLinkLocalMulticast_def
    IsMulticast_def four_bytes byte_masks) (simp_all add: byte_is zero_bytes)

lemma blocked_blocks:
  fixes a b c d :: "8 word"
  shows "list_ex (\<lambda>cidr. Contains cidr [a, b, c, d]) blockedProviderCIDRs \<longleftrightarrow>
     uint a = 100 \<and> 64 \<le> uint b \<and> uint b \<le> 127 \<or> uint a = 192 \<and> uint b = 0 \<and> uint c = 0 \<or>
     uint a = 192 \<and> uint b = 0 \<and> uint c = 2 \<or> uint a = 198 \<and> 18 \<le> uint b \<and> uint b \<le> 19 \<or>
     uint a = 198 \<and> uint b = 51 \<and> uint c = 100 \<or> uint a = 203 \<and> uint b = 0 \<and> uint c = 113 \<or> 240 \<le> uint a"
  by (simp add: blockedProviderCIDRs_def blocks contains_v6)

text \<open>
  An IPv4 address is refused as a provider exactly when its number lies in one of thirteen intervals,
  and the same address mapped into IPv6 is treated the same.
\<close>

theorem refused_ipv4_ranges:
  "(isBlockedProviderIP [a, b, c, d] \<longleftrightarrow>
      list_ex (\<lambda>(lo, hi). lo \<le> ipv4_number a b c d \<and> ipv4_number a b c d \<le> hi) refused_ranges) \<and>
   isBlockedProviderIP (replicate 10 0 @ [255, 255, a, b, c, d]) = isBlockedProviderIP [a, b, c, d]"
proof -
  have high: "224 \<le> uint a \<and> uint a \<le> 255 \<longleftrightarrow> 224 \<le> uint a \<and> uint a \<le> 239 \<or> 240 \<le> uint a"
    "uint a = 224 \<Longrightarrow> 224 \<le> uint a \<and> uint a \<le> 239"
    using byte_range(2)[of a] by auto
  have if_or: "(if P then True else Q) = (P \<or> Q)" for P Q by simp
  have "isBlockedProviderIP [a, b, c, d] \<longleftrightarrow>
      list_ex (\<lambda>(lo, hi). lo \<le> ipv4_number a b c d \<and> ipv4_number a b c d \<le> hi) refused_ranges"
    unfolding refused_by_bytes high(1) isBlockedProviderIP_def four_bytes option.case Let_def address_classes blocked_blocks if_or
    using high(2) by (simp only: list.distinct simp_thms) argo
  then show ?thesis using four_bytes by (simp add: isBlockedProviderIP_def)
qed

section \<open>The way of the key\<close>

lemma try_addresses_subset: "try_addresses connects ips = (tried, r) \<Longrightarrow> set tried \<subseteq> set ips \<and> (\<forall>ip. r = Some ip \<longrightarrow> ip \<in> set tried)"
  by (induction ips arbitrary: tried r) (auto split: if_splits prod.splits)

lemma resolved_public:
  "resolveAllowedProviderIPs N now host False = Inr ips \<Longrightarrow> ip \<in> set ips \<Longrightarrow> \<not> isBlockedProviderIP ip"
  by (auto simp: resolveAllowedProviderIPs_def list_ex_iff split: option.splits if_splits)

lemma dialled_public:
  assumes "\<not> allowPrivateProviderDestinations N" "safeProviderDial N now host = (tried, r)"
  shows "list_all (\<lambda>ip. \<not> isBlockedProviderIP ip) tried" "r = Inr ip \<Longrightarrow> ip \<in> set tried"
proof -
  from assms have d: "(case resolveAllowedProviderIPs N now host False of Inl e \<Rightarrow> ([], Inl e)
     | Inr ips \<Rightarrow> (case try_addresses (pn_Connects N now) ips of (tried, r) \<Rightarrow>
         (tried, case r of None \<Rightarrow> Inl NoConnection | Some ip \<Rightarrow> Inr ip))) = (tried, r)" by (simp add: safeProviderDial_def)
  show "list_all (\<lambda>ip. \<not> isBlockedProviderIP ip) tried" "r = Inr ip \<Longrightarrow> ip \<in> set tried"
    using d try_addresses_subset[of "pn_Connects N now"] resolved_public[of N now host]
    by (auto simp: list_all_iff split: sum.splits prod.splits option.splits) blast+
qed

lemma validated_https:
  "\<not> allowPrivateProviderDestinations N \<Longrightarrow> validateProviderURL N now raw = Inr u \<Longrightarrow>
     ToLower (url_Scheme u) = ''https'' \<and> pn_ParseURL N (TrimSpace raw) = Some u"
  by (auto simp: validateProviderURL_def Let_def split: option.splits if_splits sum.splits)

text \<open>
  C13: without the opt-in a provider key goes to public addresses only: whatever the name service answers
  at the check and at the connection, a call dials no refused address, and the one request it may send goes
  over TLS to a dialled address, for the host of the configured URL.
\<close>

theorem provider_key_stays_public:
  assumes "\<not> allowPrivateProviderDestinations N"
    and "ListModels N respond now later baseURL listPath key meta = (tried, sent, answer)"
  shows "list_all (\<lambda>ip. \<not> isBlockedProviderIP ip) tried \<and> (case sent of None \<Rightarrow> True
    | Some w \<Rightarrow> wr_TLS w \<and> wr_IP w \<in> set tried \<and> map_option url_Host (pn_ParseURL N (TrimSpace baseURL)) = Some (url_Host (wr_URL w)))"
proof (cases "validateProviderURL N now baseURL")
  case (Inr base)
  note v = validated_https[OF assms(1) Inr]
  show ?thesis
  proof (cases "providerRequestURL N base listPath")
    case target: (Inr target)
    then have t: "url_Scheme target = url_Scheme base" "url_Host target = url_Host base"
      by (auto simp: providerRequestURL_def split: option.splits if_splits)
    obtain dialled r where d: "safeProviderDial N later (url_Hostname target) = (dialled, r)" by (metis surj_pair)
    from assms(2) Inr target d show ?thesis
      using dialled_public[OF assms(1) d] v t
      by (cases r) (auto simp: ListModels_def Let_def split: option.splits)
  qed (use assms(2) Inr in \<open>auto simp: ListModels_def\<close>)
qed (use assms(2) in \<open>auto simp: ListModels_def\<close>)

section \<open>A provider\<close>

definition sample_url :: url where
  "sample_url = \<lparr>url_Scheme = ''https'', url_User = False, url_Host = ''api.example'', url_Hostname = ''api.example'',
     url_Path = ''/v1'', url_RawQuery = [], url_Fragment = []\<rparr>"

text \<open>A name that is public at the check and the loopback address at the connection.\<close>

definition rebinding :: provider_net where
  "rebinding = \<lparr>pn_ParseURL = (\<lambda>s. if s = ''models'' then Some (sample_url\<lparr>url_Scheme := [], url_Host := []\<rparr>) else Some sample_url),
     pn_ParseIP = (\<lambda>h. None), pn_LookupIP = (\<lambda>now h. Some (if now = 0 then [[8, 8, 8, 8]] else [[127, 0, 0, 1]])),
     pn_Connects = (\<lambda>now ip. True), pn_Env = []\<rparr>"

definition sample_meta :: provider_meta where
  "sample_meta = \<lparr>pm_AuthHeader = [], pm_VersionHeader = [], pm_VersionValue = []\<rparr>"

lemma provider_key_stays_public_witness:
  "case ListModels rebinding (\<lambda>w. None) 0 0 ''u'' ''models'' ''k'' sample_meta of (tried, sent, answer :: (provider_error, nat list) result) \<Rightarrow>
     (case sent of None \<Rightarrow> False | Some w \<Rightarrow> wr_TLS w \<and> wr_IP w \<in> set tried) \<and>
   (case ListModels rebinding (\<lambda>w. None) 0 1 ''u'' ''models'' ''k'' sample_meta of (tried', sent', answer' :: (provider_error, nat list) result) \<Rightarrow>
     sent' = None)"
proof -
  have priv: "\<not> allowPrivateProviderDestinations rebinding" by code_simp
  obtain tried sent answer where r: "ListModels rebinding (\<lambda>w. None) 0 0 ''u'' ''models'' ''k'' sample_meta =
      (tried, sent, answer :: (provider_error, nat list) result)" by (metis surj_pair)
  have "case ListModels rebinding (\<lambda>w. None) 0 0 ''u'' ''models'' ''k'' sample_meta of
      (tried, sent, answer :: (provider_error, nat list) result) \<Rightarrow> sent \<noteq> None" by code_simp
  moreover have "case ListModels rebinding (\<lambda>w. None) 0 1 ''u'' ''models'' ''k'' sample_meta of
      (tried, sent, answer :: (provider_error, nat list) result) \<Rightarrow> sent = None" by code_simp
  ultimately show ?thesis using provider_key_stays_public[OF priv r] r by (auto split: option.splits)
qed

end
