(* ===== verification/SaveRace.thy ===== *)
theory SaveRace
  imports RecordSaveLaws
begin

text \<open>
  Saves that overlap. A handler reads the row when it begins and writes it in its transaction; the steps
  of other handlers, and of anybody else who writes to the database, come in between. The version that a
  form carries (\<open>_update_count\<close>, increased by a trigger of the database on every change of a row,
  \<open>internal/db/migrations/046_record_version_update_count.sql\<close>) keeps two editors from overwriting each other.
\<close>

section \<open>Rows only get newer\<close>

text \<open>A row and a later state of it: unchanged, or with a higher count.\<close>

definition newer :: "record_map \<Rightarrow> record_map \<Rightarrow> bool" where
  "newer r r' \<longleftrightarrow> r' = r \<or> (case (snapshot_get r ''_update_count'', snapshot_get r' ''_update_count'') of
     (GInt m, GInt n) \<Rightarrow> m < n | _ \<Rightarrow> False)"

lemma newer_refl [simp]: "newer r r"
  by (simp add: newer_def)

lemma newer_count: "newer r r' \<Longrightarrow> r' \<noteq> r \<Longrightarrow> \<exists>m n. snapshot_get r ''_update_count'' = GInt m \<and>
    snapshot_get r' ''_update_count'' = GInt n \<and> m < n"
  by (auto simp: newer_def split: gval.splits)

lemma newer_trans:
  assumes "newer r1 r2" "newer r2 r3"
  shows "newer r1 r3"
proof (cases "r2 = r1 \<or> r3 = r2")
  case False
  with newer_count[OF assms(1)] newer_count[OF assms(2)] show ?thesis by (auto simp: newer_def)
qed (use assms in auto)

text \<open>No row disappears: records are deleted by a mark.\<close>

definition grows :: "record_store \<Rightarrow> record_store \<Rightarrow> bool" where
  "grows st st' \<longleftrightarrow> (\<forall>t k r. st t k = Some r \<longrightarrow> (\<exists>r'. st' t k = Some r' \<and> newer r r'))"

lemma growsD: "grows st st' \<Longrightarrow> st t k = Some r \<Longrightarrow> \<exists>r'. st' t k = Some r' \<and> newer r r'"
  by (simp add: grows_def)

lemma grows_refl [simp]: "grows st st"
  by (simp add: grows_def)

lemma grows_trans: "grows a b \<Longrightarrow> grows b c \<Longrightarrow> grows a c"
  unfolding grows_def by (meson newer_trans)

lemma grows_put: "(\<And>r. st t k = Some r \<Longrightarrow> newer r r') \<Longrightarrow> grows st (put_row t k r' st)"
  by (auto simp: grows_def put_row_def)

section \<open>The database and the scripts\<close>

text \<open>The trigger counts every change of a row, an insert takes a new key, and scripts go through the same statements.\<close>

definition counts_changes :: "save_env \<Rightarrow> bool" where
  "counts_changes E \<longleftrightarrow>
     (\<forall>t asg r r'. pg_update (sv_pg E) t asg r = Inr r' \<longrightarrow> newer r r') \<and>
     (\<forall>t asg st k r. pg_insert (sv_pg E) t asg st = Inr (k, r) \<longrightarrow> st t k = None) \<and>
     (\<forall>st. grows st (sv_script_writes E st))"

lemma write_row_grows:
  assumes "counts_changes E" "write_row E p sf st = Inr (key, st')"
  shows "grows st st'"
proof (cases "is_create (sf_id (pr_form p))")
  case True
  with assms(2) obtain asg r where i: "pg_insert (sv_pg E) (pr_table p) asg st = Inr (key, r)" "st' = put_row (pr_table p) key r st"
    by (auto simp: write_row_def Let_def split: option.splits sum.splits)
  from assms(1) have "\<forall>t asg st k r. pg_insert (sv_pg E) t asg st = Inr (k, r) \<longrightarrow> st t k = None"
    unfolding counts_changes_def by blast
  with i(1) have "st (pr_table p) key = None" by blast
  then show ?thesis unfolding i(2) by (intro grows_put) simp
next
  case False
  from write_row_update[OF assms(2) this] obtain asg r r' where u: "st (pr_table p) key = Some r"
    "pg_update (sv_pg E) (pr_table p) asg r = Inr r'" "st' = put_row (pr_table p) key r' st" by metis
  from assms(1) u(2) have "newer r r'" unfolding counts_changes_def by blast
  then show ?thesis unfolding u(3) by (intro grows_put) (simp add: u(1))
qed

lemma save_commit_grows:
  assumes "counts_changes E" "save_commit E p st = Inr (i, st', effects)"
  shows "grows (sv_script_writes E st) st'" "grows st st'"
proof -
  from assms(2) obtain written key where "write_row E p written (sv_script_writes E st) = Inr (key, st')"
    by (elim save_commit_Inr)
  from write_row_grows[OF assms(1) this] show g: "grows (sv_script_writes E st) st'" .
  from assms(1) have "grows st (sv_script_writes E st)" unfolding counts_changes_def by blast
  then show "grows st st'" using g by (rule grows_trans)
qed

section \<open>The steps\<close>

text \<open>A save is waiting, has read its row, has been refused, or has taken the store before its statement to the one after.\<close>

datatype save_phase = SaveWaiting | SaveReady prepared_save | SaveRefused | SaveDone prepared_save record_store record_store

type_synonym save_state = "record_store \<times> (nat \<Rightarrow> save_phase)"

inductive save_step :: "save_env \<Rightarrow> (nat \<Rightarrow> save_request) \<Rightarrow> save_state \<Rightarrow> save_state \<Rightarrow> bool"
  for E :: save_env and q :: "nat \<Rightarrow> save_request" where
  begin_save: "\<lbrakk>ph i = SaveWaiting; save_prepare E (q i) st = Inr p\<rbrakk> \<Longrightarrow> save_step E q (st, ph) (st, ph(i := SaveReady p))"
| refuse_early: "\<lbrakk>ph i = SaveWaiting; save_prepare E (q i) st = Inl resp\<rbrakk> \<Longrightarrow> save_step E q (st, ph) (st, ph(i := SaveRefused))"
| commit_save: "\<lbrakk>ph i = SaveReady p; save_commit E p st = Inr (k, st', effects)\<rbrakk> \<Longrightarrow>
    save_step E q (st, ph) (st', ph(i := SaveDone p (sv_script_writes E st) st'))"
| refuse_late: "\<lbrakk>ph i = SaveReady p; save_commit E p st = Inl resp\<rbrakk> \<Longrightarrow> save_step E q (st, ph) (st, ph(i := SaveRefused))"
| other_writer: "grows st st' \<Longrightarrow> save_step E q (st, ph) (st', ph)"

text \<open>An update of the row with the key on the condition that it has the version.\<close>

definition updates_row :: "prepared_save \<Rightarrow> string \<Rightarrow> string \<Rightarrow> int \<Rightarrow> bool" where
  "updates_row p t key n \<longleftrightarrow> pr_table p = t \<and> \<not> is_create (sf_id (pr_form p)) \<and>
     ParseRecordIDValue (pr_columns p) (sf_id (pr_form p)) = Some key \<and> has_column (pr_columns p) ''_update_count'' \<and>
     pr_version p \<noteq> [] \<and> ParseInt10 (pr_version p) = Some n"

text \<open>What is known of a finished save: it began at its version, and the store has only grown since.\<close>

definition save_fact :: "record_store \<Rightarrow> save_phase \<Rightarrow> bool" where
  "save_fact st phase \<longleftrightarrow> (case phase of SaveDone p b a \<Rightarrow> grows b a \<and> grows a st \<and>
     (\<forall>t key n. updates_row p t key n \<longrightarrow> (\<exists>r. b t key = Some r \<and> snapshot_get r ''_update_count'' = GInt n)) | _ \<Rightarrow> True)"

lemma commit_at_version:
  assumes "save_commit E p st = Inr (i, st', effects)" "updates_row p t key n"
  shows "\<exists>r. sv_script_writes E st t key = Some r \<and> snapshot_get r ''_update_count'' = GInt n"
proof -
  from assms(1) obtain written key' where w: "write_row E p written (sv_script_writes E st) = Inr (key', st')"
    by (elim save_commit_Inr)
  from assms(2) have u: "pr_table p = t" "\<not> is_create (sf_id (pr_form p))"
    "ParseRecordIDValue (pr_columns p) (sf_id (pr_form p)) = Some key" "has_column (pr_columns p) ''_update_count''"
    "pr_version p \<noteq> []" "ParseInt10 (pr_version p) = Some n" unfolding updates_row_def by blast+
  from write_row_update[OF w u(2)] obtain matches r where m:
    "ParseRecordIDValue (pr_columns p) (sf_id (pr_form p)) = Some key'"
    "version_condition E (pr_columns p) (pr_version p) (pr_updatedAt p) = Some matches"
    "sv_script_writes E st (pr_table p) key' = Some r" "matches r" by metis
  from m(2,4) u(4-6) have "snapshot_get r ''_update_count'' = GInt n"
    by (auto simp: version_condition_def is_count_iff split: if_splits)
  with m(1,3) u(1,3) show ?thesis by auto
qed

text \<open>Of two saves at the same version, the later one finds the row as the earlier one left it.\<close>

definition one_writes :: "save_phase \<Rightarrow> save_phase \<Rightarrow> bool" where
  "one_writes x y \<longleftrightarrow> (case (x, y) of (SaveDone p b a, SaveDone p' b' a') \<Rightarrow>
     (\<forall>t key n. updates_row p t key n \<longrightarrow> updates_row p' t key n \<longrightarrow> b t key = a t key \<or> b' t key = a' t key) | _ \<Rightarrow> True)"

lemma same_version_unchanged:
  assumes "save_fact st (SaveDone p b a)" "updates_row p t key n" "grows st b'"
    and "b' t key = Some r'" "snapshot_get r' ''_update_count'' = GInt n"
  shows "b t key = a t key"
proof -
  from assms(1,2) obtain r where r: "b t key = Some r" "snapshot_get r ''_update_count'' = GInt n" "grows b a" "grows a st"
    unfolding save_fact_def save_phase.case by blast
  from growsD[OF r(3,1)] obtain r1 where r1: "a t key = Some r1" "newer r r1" by blast
  from growsD[OF grows_trans[OF r(4) assms(3)] r1(1)] assms(4) have "newer r1 r'" by simp
  have "r1 = r"
  proof (rule ccontr)
    assume "r1 \<noteq> r"
    from newer_count[OF r1(2) this] r(2) obtain m where m: "snapshot_get r1 ''_update_count'' = GInt m" "n < m" by auto
    with \<open>newer r1 r'\<close> newer_count[of r1 r'] assms(5) show False by (cases "r' = r1") auto
  qed
  with r(1) r1(1) show ?thesis by simp
qed

definition race_inv :: "save_state \<Rightarrow> bool" where
  "race_inv s \<longleftrightarrow> (\<forall>i. save_fact (fst s) (snd s i)) \<and> (\<forall>i j. i \<noteq> j \<longrightarrow> one_writes (snd s i) (snd s j))"

lemma save_fact_grows: "save_fact st x \<Longrightarrow> grows st st' \<Longrightarrow> save_fact st' x"
  by (auto simp: save_fact_def split: save_phase.splits intro: grows_trans)

lemma one_writes_sym: "one_writes x y \<Longrightarrow> one_writes y x"
  by (cases x; cases y) (auto simp: one_writes_def)

lemma race_inv_idle:
  assumes "race_inv (st, ph)" "\<And>p b a. x \<noteq> SaveDone p b a"
  shows "race_inv (st, ph(i := x))"
proof -
  have "save_fact st x" "one_writes x y" "one_writes y x" for y
    using assms(2) by (auto simp: save_fact_def one_writes_def split: save_phase.splits)
  with assms(1) show ?thesis by (simp add: race_inv_def)
qed

lemma race_inv_step:
  assumes "save_step E q (st, ph) (st', ph')" "counts_changes E" "race_inv (st, ph)"
  shows "race_inv (st', ph')"
  using assms(1)
proof cases
  case (commit_save i p k effects)
  note g = save_commit_grows[OF assms(2) commit_save(3)]
  from assms(2) have script: "grows st (sv_script_writes E st)" unfolding counts_changes_def by blast
  let ?x = "SaveDone p (sv_script_writes E st) st'"
  have "save_fact st' ?x" unfolding save_fact_def using g(1) commit_at_version[OF commit_save(3)] by simp
  moreover have "save_fact st' (ph j)" for j
    using assms(3) save_fact_grows[OF _ g(2)] by (simp add: race_inv_def)
  moreover have new: "one_writes (ph j) ?x" for j
  proof (cases "ph j")
    case (SaveDone p' b a)
    with assms(3) have f: "save_fact st (SaveDone p' b a)" unfolding race_inv_def by (metis fst_conv snd_conv)
    have "b t key = a t key" if u: "updates_row p' t key n" "updates_row p t key n" for t key n
      using commit_at_version[OF commit_save(3) u(2)] same_version_unchanged[OF f u(1) script] by blast
    with SaveDone show ?thesis by (auto simp: one_writes_def)
  qed (simp_all add: one_writes_def)
  ultimately show ?thesis
    using assms(3) one_writes_sym[OF new] by (simp add: race_inv_def commit_save(1))
next
  case other_writer
  with assms(3) show ?thesis by (auto simp: race_inv_def intro: save_fact_grows)
qed (use assms(3) race_inv_idle in auto)

lemma race_inv_reach:
  assumes "(save_step E q)\<^sup>*\<^sup>* s s'" "counts_changes E" "race_inv s"
  shows "race_inv s'"
  using assms(1)
proof (induction rule: rtranclp_induct)
  case (step t u)
  with race_inv_step[of E q "fst t" "snd t" "fst u" "snd u"] assms(2) show ?case by simp
qed (rule assms(3))

text \<open>
  C9: no lost update. When the database counts the changes of every row, then of two saves of the same
  row that carry the same expected version, however their steps and those of other writers interleave,
  at most one changes the row.
\<close>

theorem no_lost_update:
  assumes "counts_changes E" "(save_step E q)\<^sup>*\<^sup>* (st0, \<lambda>_. SaveWaiting) (st, ph)" "i \<noteq> j"
    and "ph i = SaveDone p b a" "ph j = SaveDone p' b' a'" "updates_row p t key n" "updates_row p' t key n"
  shows "b t key = a t key \<or> b' t key = a' t key"
proof -
  have "race_inv (st0, \<lambda>_. SaveWaiting)" by (simp add: race_inv_def save_fact_def one_writes_def)
  from race_inv_reach[OF assms(2,1) this] assms(3) have "one_writes (ph i) (ph j)" by (auto simp: race_inv_def)
  with assms(4-7) show ?thesis by (auto simp: one_writes_def)
qed

end
