(* ===== verification/RecordSaveSamples.thy ===== *)
theory RecordSaveSamples
  imports ValidateSamples SaveRace
begin

text \<open>A table of notes with one row, and the properties of saves applied to it.\<close>

section \<open>The table\<close>

definition note_columns :: "Column list" where
  "note_columns = [zero_column\<lparr>co_NAME := ''_id'', co_DATA_TYPE := ''uuid''\<rparr>, zero_column\<lparr>co_NAME := ''title'', co_DATA_TYPE := ''text''\<rparr>,
     zero_column\<lparr>co_NAME := ''due'', co_DATA_TYPE := ''date'', co_IS_NULLABLE := True\<rparr>,
     zero_column\<lparr>co_NAME := ''_update_count'', co_DATA_TYPE := ''bigint''\<rparr>]"

definition note_source :: metadata_source where
  "note_source = \<lparr>ms_apps = Inr [], ms_table = \<lambda>n. Inr (Some (zero_Table\<lparr>tb_ID := ''physical:table:'' @ n, tb_NAME := n\<rparr>)),
     ms_columns = \<lambda>n. Inr note_columns, ms_baseTables = Inr []\<rparr>"

text \<open>A database that counts the changes of the rows.\<close>

definition assigned :: "assignment list \<Rightarrow> record_map \<Rightarrow> record_map" where
  "assigned asg r = fold (\<lambda>(k, v, _). form_put k (case v of None \<Rightarrow> GNil | Some s \<Rightarrow> GStr s)) asg r"

definition counted_update :: "assignment list \<Rightarrow> record_map \<Rightarrow> (pg_error, record_map) result" where
  "counted_update asg r = (case snapshot_get r ''_update_count'' of
     GInt n \<Rightarrow> Inr (if asg = [] then r else form_put ''_update_count'' (GInt (n + 1)) (assigned asg r)) | _ \<Rightarrow> Inl None)"

definition note_pg :: pg where
  "note_pg = \<lparr>pg_insert = \<lambda>t asg st. Inl None, pg_update = \<lambda>t. counted_update, pg_same_time = \<lambda>s g. case g of GStr t \<Rightarrow> t = s | _ \<Rightarrow> False\<rparr>"

definition note_env :: save_env where
  "note_env = \<lparr>sv_prio = \<lambda>n. 0, sv_source = note_source, sv_now = epoch, sv_nowText = ''now'', sv_member = \<lambda>a b. None,
     sv_checkers = no_checkers, sv_roles = \<lambda>u a. Inr [], sv_order = \<lambda>m. [], sv_scopes = \<lambda>s. None,
     sv_engine = \<lambda>opts. Inl TableNameRequired, sv_script_writes = \<lambda>st. st, sv_unmarshal = \<lambda>s. None, sv_marshal = \<lambda>g. [],
     sv_encrypt = \<lambda>s. None, sv_pg = note_pg, sv_begins = True, sv_commits = True, sv_freshID = None\<rparr>"

definition note_key :: string where "note_key = ''11111111-1111-4111-8111-111111111111''"

definition note_row :: record_map where
  "note_row = [(''_id'', GStr note_key), (''title'', GStr ''old''), (''due'', GStr ''2024-01-01''), (''_update_count'', GInt 3)]"

definition note_store :: record_store where
  "note_store t = (if t = ''t_note'' then [note_key \<mapsto> note_row] else Map.empty)"

definition note_request :: "string \<Rightarrow> (string \<times> string list) list \<Rightarrow> save_request" where
  "note_request t form = \<lparr>sq_Method = ''POST'', sq_Path = ''/api/save/'' @ t, sq_HX = False, sq_User = ''ann'', sq_FormParses = True,
     sq_FormValue = (\<lambda>k. if k = ''expected_version'' then ''3'' else []), sq_PostForm = (''_id'', [note_key]) # form\<rparr>"

definition retitle :: "string \<Rightarrow> save_request" where
  "retitle s = note_request ''t_note'' [(''title'', [s])]"

lemma note_env_simps [simp]: "sv_script_writes note_env = (\<lambda>st. st)" "sv_pg note_env = note_pg"
  by (simp_all add: note_env_def)

section \<open>One save\<close>

lemma retitled: "case HandleSave note_env (retitle ''new'') note_store of (resp, st', effects) \<Rightarrow>
    rs_Status resp = 303 \<and> effects \<noteq> [] \<and> (case st' ''t_note'' note_key of None \<Rightarrow> False | Some r \<Rightarrow> (case snapshot_get r ''title'' of GStr s \<Rightarrow> s = ''new'' | _ \<Rightarrow> False) \<and>
      (case snapshot_get r ''_update_count'' of GInt n \<Rightarrow> n = 4 | _ \<Rightarrow> False))"
  by code_simp

lemma save_all_or_nothing_witness:
  "case HandleSave note_env (retitle ''new'') note_store of (resp, st', effects) \<Rightarrow> \<exists>p written key.
     checked note_env (retitle ''new'') note_store p written \<and> write_row note_env p written note_store = Inr (key, st')"
proof -
  obtain resp st' effects where r: "HandleSave note_env (retitle ''new'') note_store = (resp, st', effects)" by (metis surj_pair)
  from retitled r have "effects \<noteq> []" by auto
  with save_all_or_nothing[OF r] show ?thesis by (auto simp: r)
qed

text \<open>A form that clears the date.\<close>

definition clear_due :: save_request where
  "clear_due = note_request ''t_note'' [(''due'', [[]])]"

lemma cleared_accepted:
  "case save_prepare note_env clear_due note_store of Inl resp \<Rightarrow> False | Inr p \<Rightarrow>
     updates_row p ''t_note'' note_key 3 \<and> ''due'' \<in> sf_nulls (pr_form p) \<and> ToLower (TrimSpace (pr_table p)) \<noteq> ''_ai_connection'' \<and>
     (case save_commit note_env p note_store of Inl resp \<Rightarrow> False | Inr (i, st', effects) \<Rightarrow>
       ParseRecordIDValue (pr_columns p) i = Some note_key)"
  by code_simp

lemma assigned_other: "k \<notin> fst ` set asg \<Longrightarrow> snapshot_get (assigned asg r) k = snapshot_get r k"
  by (induction asg arbitrary: r) (auto simp: assigned_def snapshot_get_def map_of_form_put)

lemma counted_other:
  assumes "counted_update asg r = Inr r'" "k \<notin> fst ` set asg" "k \<noteq> ''_update_count''"
  shows "snapshot_get r' k = snapshot_get r k"
proof -
  have "snapshot_get (form_put x v l) k = snapshot_get l k" if "x \<noteq> k" for x v l
    using that by (simp add: snapshot_get_def map_of_form_put)
  with assms assigned_other[OF assms(2)] show ?thesis by (auto simp: counted_update_def split: gval.splits if_splits)
qed

lemma no_app_by_table: "resolveRuntimeAppByTableWithApps [] t = None"
  by (simp add: resolveRuntimeAppByTableWithApps_def Let_def)

lemma note_triggers: "run_triggers_of note_env p r = Inr r"
  by (simp add: no_app_by_table run_triggers_of_def note_env_def note_source_def RunAppBeforeWriteTriggersWithQuerier_def
    resolveRuntimeTriggersWithApps_def Let_def)


lemma platform_tables_unguarded_witness:
  "HandleSave (note_env\<lparr>sv_roles := \<lambda>u a. Inr [''admin'']\<rparr>) (note_request ''_role'' [(''title'', [''new''])]) note_store =
   HandleSave note_env (note_request ''_role'' [(''title'', [''new''])]) note_store"
  by (rule platform_tables_unguarded) code_simp

section \<open>Two saves\<close>

lemma note_counts: "counts_changes note_env"
proof -
  have "newer r r'" if "counted_update asg r = Inr r'" for asg r r'
    using that by (auto simp: counted_update_def newer_def snapshot_get_def map_of_form_put split: gval.splits if_splits)
  then show ?thesis by (auto simp: counts_changes_def note_pg_def)
qed

lemma retitle_at_version:
  "case save_prepare note_env (retitle ''new'') note_store of Inl resp \<Rightarrow> False | Inr p \<Rightarrow> updates_row p ''t_note'' note_key 3"
  by code_simp

lemma two_saves_run: "case save_prepare note_env clear_due note_store of Inl resp \<Rightarrow> False | Inr p \<Rightarrow>
   (case save_prepare note_env (retitle ''new'') note_store of Inl resp \<Rightarrow> False | Inr p' \<Rightarrow>
    (case save_commit note_env p note_store of Inl resp \<Rightarrow> False | Inr (i, st1, effects) \<Rightarrow>
      (case save_commit note_env p' st1 of Inl resp \<Rightarrow> False | Inr _ \<Rightarrow> True)))"
  by code_simp

lemma no_lost_update_witness:
  "case save_prepare note_env clear_due note_store of Inl resp \<Rightarrow> False | Inr p \<Rightarrow>
   (case save_prepare note_env (retitle ''new'') note_store of Inl resp \<Rightarrow> False | Inr p' \<Rightarrow>
    (case save_commit note_env p note_store of Inl resp \<Rightarrow> False | Inr (i, st1, effects) \<Rightarrow>
      (case save_commit note_env p' st1 of Inl resp \<Rightarrow> False | Inr (i', st2, effects') \<Rightarrow>
         note_store ''t_note'' note_key = st1 ''t_note'' note_key \<or> st1 ''t_note'' note_key = st2 ''t_note'' note_key)))"
proof -
  from two_saves_run obtain p p' i st1 effects i' st2 effects' where r:
    "save_prepare note_env clear_due note_store = Inr p" "save_prepare note_env (retitle ''new'') note_store = Inr p'"
    "save_commit note_env p note_store = Inr (i, st1, effects)" "save_commit note_env p' st1 = Inr (i', st2, effects')"
    by (auto split: sum.splits)
  with retitle_at_version cleared_accepted have u: "updates_row p ''t_note'' note_key 3" "updates_row p' ''t_note'' note_key 3" by simp_all
  let ?q = "\<lambda>n::nat. if n = 0 then clear_due else retitle ''new''" and ?w = "\<lambda>_::nat. SaveWaiting"
  let ?ph1 = "?w(0 := SaveReady p)"
  let ?ph2 = "?ph1(1 := SaveReady p')"
  let ?ph3 = "?ph2(0 := SaveDone p (sv_script_writes note_env note_store) st1)"
  let ?ph4 = "?ph3(1 := SaveDone p' (sv_script_writes note_env st1) st2)"
  have "save_step note_env ?q (note_store, ?w) (note_store, ?ph1)" by (rule begin_save) (simp_all add: r)
  moreover have "save_step note_env ?q (note_store, ?ph1) (note_store, ?ph2)" by (rule begin_save) (simp_all add: r)
  moreover have "save_step note_env ?q (note_store, ?ph2) (st1, ?ph3)" by (rule commit_save[OF _ r(3)]) simp
  moreover have "save_step note_env ?q (st1, ?ph3) (st2, ?ph4)" by (rule commit_save[OF _ r(4)]) simp
  ultimately have run: "(save_step note_env ?q)\<^sup>*\<^sup>* (note_store, ?w) (st2, ?ph4)"
    by (meson converse_rtranclp_into_rtranclp rtranclp.rtrancl_refl)
  from no_lost_update[OF note_counts run, of 0 1] u show ?thesis by (simp add: r)
qed

end
