(* ===== verification/RecordBulk.thy ===== *)
theory RecordBulk
  imports RecordSave
begin

text \<open>
  Changes of records outside the form: the bulk update (\<open>cmd/server/handleBulkUpdate.go\<close>)
  and the soft deletion and restoration of a record (\<open>cmd/server/handleSoftDelete.go\<close>). None of them runs
  in a transaction: the bulk update keeps what it has written when a later row fails.
\<close>

section \<open>Bulk updates\<close>

fun bulkFieldToString :: "save_env \<Rightarrow> gval \<Rightarrow> string option" where
  "bulkFieldToString E GNil = Some []"
| "bulkFieldToString E (GStr s) = Some s"
| "bulkFieldToString E (GBool b) = Some (Sprint (GBool b))"
| "bulkFieldToString E (GInt i) = Some (Sprint (GInt i))"
| "bulkFieldToString E (GFloat f) = Some (Sprint (GFloat f))"
| "bulkFieldToString E (GList vs) = Some (sv_marshal E (GList vs))"
| "bulkFieldToString E (GMap kvs) = Some (sv_marshal E (GMap kvs))"
| "bulkFieldToString E _ = None"

text \<open>The decoded body: the identifiers and the fields, \<open>None\<close> when it cannot be read or decoded.\<close>

record bulk_request =
  bq_Method :: string
  bq_Path :: string
  bq_User :: string
  bq_Reads :: bool
  bq_Payload :: "(string list \<times> record_map) option"

datatype bulk_response = BulkRefused http_response | BulkAnswer nat nat nat nat

definition editable_column :: "Column list \<Rightarrow> string \<Rightarrow> bool" where
  "editable_column columns n \<longleftrightarrow> has_column columns n \<and> \<not> is_system_name n"

fun bulk_fields :: "save_env \<Rightarrow> Column list \<Rightarrow> record_map \<Rightarrow> save_form \<Rightarrow> (http_response, save_form) result" where
  "bulk_fields E columns [] sf = Inr sf"
| "bulk_fields E columns ((name, raw) # rest) sf =
     (let k = TrimSpace name in
      if \<not> IsSafeIdentifier k \<or> \<not> editable_column columns k then Inl (http_error 400 ''Invalid field in request'')
      else case bulkFieldToString E raw of None \<Rightarrow> Inl (http_error 400 ''unsupported field value type'')
      | Some s \<Rightarrow> (case column_named columns k of None \<Rightarrow> Inl (http_error 400 ''Invalid field in request'')
          | Some c \<Rightarrow> (case NormalizeSubmittedColumnValue c (TrimSpace s) of None \<Rightarrow> Inl (http_error 400 ''invalid JSON value'')
              | Some (v, isNull) \<Rightarrow> bulk_fields E columns rest (sf\<lparr>sf_form := form_put k v (sf_form sf),
                  sf_nulls := (if isNull then insert k (sf_nulls sf) else sf_nulls sf)\<rparr>))))"

record bulk_plan =
  bp_table :: string
  bp_columns :: "Column list"
  bp_ids :: "string list"
  bp_form :: save_form
  bp_set :: "assignment list"
  bp_user :: string
  bp_evaluator :: "TableSecurityEvaluator option"

text \<open>The values of the statement have no casts.\<close>

definition uncast :: "assignment list \<Rightarrow> assignment list" where
  "uncast = map (\<lambda>(k, v, _). (k, v, []))"

text \<open>Everything before the loop over the identifiers.\<close>

definition bulk_prepare :: "save_env \<Rightarrow> bulk_request \<Rightarrow> (http_response, bulk_plan) result" where
  "bulk_prepare E q =
     (let tableName = trim_lower (TrimPrefix (bq_Path q) ''/api/bulk/update/'') in
      if bq_Method q \<noteq> ''POST'' then Inl (http_error 405 ''Method not allowed'')
      else if \<not> IsSafeIdentifier tableName then Inl (http_error 400 ''Invalid table name'')
      else let view = fst (GetView (sv_prio E) (sv_source E) tableName None); columns = vi_Columns view in
      if (case vi_Table view of None \<Rightarrow> True | Some t \<Rightarrow> tb_ID t = []) then Inl (http_error 404 ''Table not found'')
      else if \<not> bq_Reads q then Inl (http_error 400 ''Invalid request'')
      else case bq_Payload q of None \<Rightarrow> Inl (http_error 400 ''Invalid JSON payload'')
      | Some (ids, flds) \<Rightarrow>
          if ids = [] then Inl (http_error 400 ''ids are required'')
          else if length ids > 500 then Inl (http_error 400 ''too many ids (max 500)'')
          else if flds = [] then Inl (http_error 400 ''fields are required'')
          else case bulk_fields E columns flds \<lparr>sf_id = [], sf_form = [], sf_nulls = {}\<rparr> of Inl resp \<Rightarrow> Inl resp
          | Inr submitted \<Rightarrow>
              let sf = set_task_type E tableName columns submitted in
              case ValidateFormWrite (sv_checkers E) (sv_now E) columns (form_fun sf) False of
                Some e \<Rightarrow> Inl (http_error 400 ''form'')
              | None \<Rightarrow>
                  if bq_User q = [] then Inl (http_error 401 ''Unauthorized'')
                  else case LoadTableSecurityEvaluator (sv_roles E) (ms_apps (sv_source E)) tableName (bq_User q) of
                    Inl e \<Rightarrow> Inl (http_error 500 ''Failed to evaluate security rules'')
                  | Inr sev \<Rightarrow>
                      let stamped = stamp columns ''_updated_at'' (sv_nowText E) (stamp columns ''_updated_by'' (bq_User q) sf) in
                      (case buildUpdateColumnsAndValues columns stamped of
                         None \<Rightarrow> Inl (http_error 400 ''Invalid field in request'')
                       | Some asg \<Rightarrow> Inr \<lparr>bp_table = tableName, bp_columns = columns, bp_ids = ids, bp_form = stamped,
                           bp_set = uncast asg, bp_user = bq_User q, bp_evaluator = sev\<rparr>))"

record bulk_state =
  bk_store :: record_store
  bk_updated :: nat
  bk_skipped :: nat
  bk_denied :: nat
  bk_effects :: "save_effect list"

definition bulk_allows :: "save_env \<Rightarrow> bulk_plan \<Rightarrow> record_map \<Rightarrow> bool" where
  "bulk_allows E b old \<longleftrightarrow> AllowsFields (sv_now E) (bp_evaluator b) ''U''
     (ChangedRecordFields (bp_columns b) old (sf_form (bp_form b)) (sf_nulls (bp_form b)))
     (MergeRecordSnapshot old (sf_form (bp_form b)) (sf_nulls (bp_form b)))"

text \<open>A panic and a database error both end the loop; the rows written before stay written.\<close>

datatype bulk_end = BulkPanics | BulkFails

fun bulk_loop :: "save_env \<Rightarrow> bulk_plan \<Rightarrow> string list \<Rightarrow> bulk_state \<Rightarrow> bulk_end option \<times> bulk_state" where
  "bulk_loop E b [] s = (None, s)"
| "bulk_loop E b (raw # ids) s =
     (let i = TrimSpace raw; t = bp_table b; st = bk_store s in
      if \<not> IsValidUUID i then bulk_loop E b ids (s\<lparr>bk_skipped := bk_skipped s + 1\<rparr>)
      else case GetRecord E st t i of None \<Rightarrow> (Some BulkPanics, s)
      | Some old \<Rightarrow>
          if \<not> bulk_allows E b old then bulk_loop E b ids (s\<lparr>bk_denied := bk_denied s + 1\<rparr>)
          else (case ParseRecordIDValue (bp_columns b) i of None \<Rightarrow> (Some BulkFails, s)
            | Some key \<Rightarrow> (case st t key of None \<Rightarrow> bulk_loop E b ids (s\<lparr>bk_skipped := bk_skipped s + 1\<rparr>)
                | Some r \<Rightarrow> (case pg_update (sv_pg E) t (bp_set b) r of Inl e \<Rightarrow> (Some BulkFails, s)
                    | Inr r' \<Rightarrow>
                        let st' = put_row t key r' st; new = loadRecordSnapshot E st' t i in
                        bulk_loop E b ids (s\<lparr>bk_store := st', bk_updated := bk_updated s + 1,
                          bk_effects := bk_effects s @ [DataChange (bp_user b) t i ''bulk_update'' old new,
                            TaskNotifications t i ''bulk_update'' (bp_user b) old new,
                            RecordChange t i ''bulk_update'' (bp_user b) []]\<rparr>)))))"

text \<open>The handler: \<open>None\<close> is a panic.\<close>

definition handleBulkUpdate :: "save_env \<Rightarrow> bulk_request \<Rightarrow> record_store \<Rightarrow> bulk_response option \<times> record_store \<times> save_effect list" where
  "handleBulkUpdate E q st = (case bulk_prepare E q of Inl resp \<Rightarrow> (Some (BulkRefused resp), st, [])
     | Inr b \<Rightarrow> (case bulk_loop E b (bp_ids b) \<lparr>bk_store = st, bk_updated = 0, bk_skipped = 0, bk_denied = 0, bk_effects = []\<rparr> of
         (stopped, s) \<Rightarrow> ((case stopped of
             Some BulkPanics \<Rightarrow> None
           | Some BulkFails \<Rightarrow> Some (BulkRefused (http_error 500 ''Failed to apply bulk update''))
           | None \<Rightarrow> Some (if bk_updated s = 0 \<and> bk_denied s > 0
               then BulkRefused (http_error 403 ''You do not have permission to update this record'')
               else BulkAnswer (length (bp_ids b)) (bk_updated s) (bk_skipped s) (bk_denied s))),
           bk_store s, bk_effects s)))"

section \<open>Deletion and restoration\<close>

definition hex_digit :: "nat \<Rightarrow> char" where
  "hex_digit n = ''0123456789ABCDEF'' ! n"

definition query_byte :: "char \<Rightarrow> string" where
  "query_byte c = (if is_upper_byte c \<or> is_lower_byte c \<or> is_digit_byte c \<or> c \<in> set ''-_.~'' then [c]
     else if c = CHR '' '' then ''+'' else [CHR ''%'', hex_digit (of_char c div 16), hex_digit (of_char c mod 16)])"

definition QueryEscape :: "string \<Rightarrow> string" where
  "QueryEscape s = concat (map query_byte s)"

definition recordFormHref :: "string \<Rightarrow> string \<Rightarrow> string \<Rightarrow> string" where
  "recordFormHref tableName recordID formName =
     (let target = ''/f/'' @ tableName @ ''/'' @ recordID; form = normalizeRuntimeFormName formName in
      if form = [] \<or> form = ''default'' then target else target @ ''?form='' @ QueryEscape form)"

record mark_request =
  mq_Method :: string
  mq_Path :: string
  mq_User :: string
  mq_FormParses :: bool
  mq_FormValue :: "string \<Rightarrow> string"

text \<open>
  The two handlers differ in their path, the operation they need, the marks they set and where they lead.
  \<open>has_mark\<close> is the answer of \<open>tableHasColumn\<close> for the column of the deletion mark.
\<close>

record mark_kind =
  mk_Path :: string
  mk_Operation :: string
  mk_Unsupported :: string
  mk_Denied :: string
  mk_Failed :: string
  mk_Event :: string
  mk_Set :: "string \<Rightarrow> assignment list"
  mk_Target :: "string \<Rightarrow> string \<Rightarrow> string \<Rightarrow> string"

definition soft_deletion :: "string \<Rightarrow> mark_kind" where
  "soft_deletion now = \<lparr>mk_Path = ''/api/delete/'', mk_Operation = ''D'', mk_Unsupported = ''Table does not support soft delete'',
     mk_Denied = ''You do not have permission to delete this record'', mk_Failed = ''Failed to delete record'',
     mk_Event = ''delete'',
     mk_Set = (\<lambda>user. [(''_deleted_at'', Some now, ''::timestamptz''),
       (''_deleted_by'', if user = [] then None else Some user, ''::uuid''), (''_updated_at'', Some now, ''::timestamptz'')]),
     mk_Target = (\<lambda>t i form. ''/t/'' @ t)\<rparr>"

definition restoration :: "string \<Rightarrow> mark_kind" where
  "restoration now = \<lparr>mk_Path = ''/api/restore/'', mk_Operation = ''U'', mk_Unsupported = ''Table does not support restore'',
     mk_Denied = ''You do not have permission to restore this record'', mk_Failed = ''Failed to restore record'',
     mk_Event = ''restore'',
     mk_Set = (\<lambda>user. [(''_deleted_at'', None, []), (''_deleted_by'', None, []), (''_updated_at'', Some now, ''::timestamptz'')]),
     mk_Target = recordFormHref\<rparr>"

definition handle_mark ::
  "mark_kind \<Rightarrow> save_env \<Rightarrow> (string \<Rightarrow> bool) \<Rightarrow> mark_request \<Rightarrow> record_store
     \<Rightarrow> http_response option \<times> record_store \<times> save_effect list" where
  "handle_mark k E has_mark q st =
     (let t = trim_lower (TrimPrefix (mq_Path q) (mk_Path k)); i = TrimSpace (mq_FormValue q ''_id'');
        refused = (\<lambda>status message. (Some (http_error status message), st, [])) in
      if mq_Method q \<noteq> ''POST'' then refused 405 ''Invalid method''
      else if \<not> IsSafeIdentifier t then refused 400 ''Invalid table name''
      else if \<not> mq_FormParses q then refused 400 ''Invalid form''
      else if \<not> IsValidUUID i then refused 400 ''Invalid record ID''
      else if mq_User q = [] then refused 401 ''Unauthorized''
      else if \<not> has_mark t then refused 400 (mk_Unsupported k)
      else case GetRecord E st t i of None \<Rightarrow> (None, st, [])
      | Some old \<Rightarrow> (case LoadTableSecurityEvaluator (sv_roles E) (ms_apps (sv_source E)) t (mq_User q) of
          Inl e \<Rightarrow> refused 500 ''Failed to evaluate security rules''
        | Inr sev \<Rightarrow>
            if \<not> AllowsRecord (sv_now E) sev (mk_Operation k) old then refused 403 (mk_Denied k)
            else case ParseRecordIDValue (vi_Columns (fst (GetView (sv_prio E) (sv_source E) t None))) i of
              None \<Rightarrow> refused 500 (mk_Failed k)
            | Some key \<Rightarrow> (case st t key of None \<Rightarrow> refused 404 ''Record not found''
                | Some r \<Rightarrow> (case pg_update (sv_pg E) t (mk_Set k (mq_User q)) r of Inl e \<Rightarrow> refused 500 (mk_Failed k)
                    | Inr r' \<Rightarrow>
                        let st' = put_row t key r' st; new = loadRecordSnapshot E st' t i in
                        (Some (see_other (mk_Target k t i (normalizeRuntimeFormName (mq_FormValue q ''form_name'')))), st',
                          [DataChange (mq_User q) t i (mk_Event k) old new,
                           RecordChange t i (mk_Event k) (mq_User q) (TrimSpace (mq_FormValue q ''realtime_client_id''))])))))"

definition handleSoftDeleteRecord where
  "handleSoftDeleteRecord E = handle_mark (soft_deletion (sv_nowText E)) E"

definition handleRestoreRecord where
  "handleRestoreRecord E = handle_mark (restoration (sv_nowText E)) E"

end
