(* ===== verification/RecordBulkLaws.thy ===== *)
theory RecordBulkLaws
  imports RecordBulk RecordSaveLaws
begin

text \<open>
  What the handlers beside the form change, and for whom: a bulk update writes only listed rows that the
  rules allow and accounts for each of them; a deletion is undone by a restoration.
\<close>

section \<open>The loop of a bulk update\<close>

text \<open>One round: how the state changes before the next identifier.\<close>

lemma bulk_loop_cases:
  assumes "bulk_loop E b (raw # ids) s = (stopped, s')"
  obtains (stop) e where "stopped = Some e" "s' = s"
  | (skip) "bulk_loop E b ids (s\<lparr>bk_skipped := bk_skipped s + 1\<rparr>) = (stopped, s')"
  | (deny) "bulk_loop E b ids (s\<lparr>bk_denied := bk_denied s + 1\<rparr>) = (stopped, s')"
  | (wrote) old key r' e1 e2 e3 where "GetRecord E (bk_store s) (bp_table b) (TrimSpace raw) = Some old" "bulk_allows E b old"
    "ParseRecordIDValue (bp_columns b) (TrimSpace raw) = Some key"
    "bulk_loop E b ids (s\<lparr>bk_store := put_row (bp_table b) key r' (bk_store s), bk_updated := bk_updated s + 1,
       bk_effects := bk_effects s @ [e1, e2, e3]\<rparr>) = (stopped, s')"
proof -
  let ?i = "TrimSpace raw" and ?t = "bp_table b"
  note c = assms[unfolded bulk_loop.simps Let_def]
  show thesis
  proof (cases "IsValidUUID ?i")
    case False
    with c skip show thesis by simp
  next
    case valid: True
    show thesis
    proof (cases "GetRecord E (bk_store s) ?t ?i")
      case None
      with c valid stop show thesis by auto
    next
      case (Some old)
      note c2 = c[unfolded if_not_P[OF valid[THEN not_not[THEN iffD2]]] Some option.case]
      show thesis
      proof (cases "bulk_allows E b old")
        case False
        with c2 deny show thesis by simp
      next
        case True
        with c2 stop skip wrote[OF Some True] show thesis
          by (auto split: option.splits sum.splits)
      qed
    qed
  qed
qed

lemma bulk_loop_counts:
  assumes "bulk_loop E b ids s = (None, s')"
  shows "bk_updated s' + bk_skipped s' + bk_denied s' = bk_updated s + bk_skipped s + bk_denied s + length ids"
    "length (bk_effects s') + 3 * bk_updated s = length (bk_effects s) + 3 * bk_updated s'"
    "bk_updated s \<le> bk_updated s'" "bk_updated s' = bk_updated s \<Longrightarrow> bk_store s' = bk_store s"
proof -
  have "bk_updated s' + bk_skipped s' + bk_denied s' = bk_updated s + bk_skipped s + bk_denied s + length ids \<and>
    length (bk_effects s') + 3 * bk_updated s = length (bk_effects s) + 3 * bk_updated s' \<and>
    bk_updated s \<le> bk_updated s' \<and> (bk_updated s' = bk_updated s \<longrightarrow> bk_store s' = bk_store s)"
    using assms
  proof (induction ids arbitrary: s)
    case (Cons raw ids)
    from Cons.prems show ?case
    proof (cases rule: bulk_loop_cases)
      case skip
      from Cons.IH[OF this] show ?thesis by simp
    next
      case deny
      from Cons.IH[OF this] show ?thesis by simp
    next
      case (wrote old key r' e1 e2 e3)
      from Cons.IH[OF wrote(4)] show ?thesis by simp
    qed simp
  qed simp
  then show "bk_updated s' + bk_skipped s' + bk_denied s' = bk_updated s + bk_skipped s + bk_denied s + length ids"
    "length (bk_effects s') + 3 * bk_updated s = length (bk_effects s) + 3 * bk_updated s'"
    "bk_updated s \<le> bk_updated s'" "bk_updated s' = bk_updated s \<Longrightarrow> bk_store s' = bk_store s" by blast+
qed

text \<open>
  The answer of a bulk update accounts for every listed identifier: requested is the sum of updated,
  skipped and denied, each update leaves its three effects, and an answer of no updates has denied nothing
  and left the store alone.
\<close>

theorem bulk_answer_exact:
  assumes "handleBulkUpdate E q st = (Some (BulkAnswer requested updated skipped denied), st', effects)"
  shows "requested = updated + skipped + denied \<and> length effects = 3 * updated \<and>
    (if updated = 0 then denied = 0 \<and> st' = st else True)"
proof (cases "bulk_prepare E q")
  case (Inr b)
  let ?s0 = "\<lparr>bk_store = st, bk_updated = 0, bk_skipped = 0, bk_denied = 0, bk_effects = []\<rparr>"
  obtain stopped s where l: "bulk_loop E b (bp_ids b) ?s0 = (stopped, s)" by (metis surj_pair)
  from assms Inr l have n: "stopped = None" by (auto simp: handleBulkUpdate_def split: option.splits bulk_end.splits)
  from assms Inr l n have a: "requested = length (bp_ids b)" "updated = bk_updated s" "skipped = bk_skipped s" "denied = bk_denied s"
    "st' = bk_store s" "effects = bk_effects s" "\<not> (bk_updated s = 0 \<and> bk_denied s > 0)"
    by (auto simp: handleBulkUpdate_def split: if_splits)
  from bulk_loop_counts[OF l[unfolded n]] a show ?thesis by auto
qed (use assms in \<open>simp add: handleBulkUpdate_def\<close>)

section \<open>The rows of a bulk update\<close>

lemma bulk_loop_rows:
  assumes "bulk_loop E b ids s = (stopped, s')" "bk_store s' t k \<noteq> bk_store s t k"
  shows "t = bp_table b \<and> (\<exists>i old st1. i \<in> set ids \<and> ParseRecordIDValue (bp_columns b) (TrimSpace i) = Some k \<and>
    st1 t k = bk_store s t k \<and> GetRecord E st1 t (TrimSpace i) = Some old \<and> bulk_allows E b old)"
  using assms
proof (induction ids arbitrary: s)
  case (Cons raw ids)
  from Cons.prems(1) show ?case
  proof (cases rule: bulk_loop_cases)
    case (stop e)
    with Cons.prems(2) show ?thesis by simp
  next
    case skip
    from Cons.IH[OF this] Cons.prems(2) show ?thesis by auto
  next
    case deny
    from Cons.IH[OF this] Cons.prems(2) show ?thesis by auto
  next
    case (wrote old key r' e1 e2 e3)
    show ?thesis
    proof (cases "t = bp_table b \<and> k = key")
      case True
      with wrote(1-3) show ?thesis by (auto intro!: exI[of _ raw] exI[of _ old] exI[of _ "bk_store s"])
    next
      case False
      then have "put_row (bp_table b) key r' (bk_store s) t k = bk_store s t k" by (auto simp: put_row_def)
      with Cons.IH[OF wrote(4)] Cons.prems(2) show ?thesis by auto
    qed
  qed
qed simp

lemma bulk_fields_editable:
  "bulk_fields E columns fs sf = Inr sf' \<Longrightarrow> keys (sf_form sf) \<subseteq> {c. editable_column columns c} \<Longrightarrow>
     keys (sf_form sf') \<subseteq> {c. editable_column columns c}"
proof (induction fs arbitrary: sf)
  case (Cons kv fs)
  obtain name raw where kv: "kv = (name, raw)" by (cases kv)
  let ?k = "TrimSpace name"
  note c = Cons.prems(1)[unfolded kv bulk_fields.simps Let_def]
  from c have e: "editable_column columns ?k" by (auto split: if_splits)
  from c obtain v isNull where "bulk_fields E columns fs (sf\<lparr>sf_form := form_put ?k v (sf_form sf),
      sf_nulls := (if isNull then insert ?k (sf_nulls sf) else sf_nulls sf)\<rparr>) = Inr sf'"
    by (auto split: if_splits option.splits)
  from Cons.IH[OF this] e Cons.prems(2) show ?case by simp
qed simp

lemma bulk_prepare_Inr:
  assumes "bulk_prepare E q = Inr b"
  shows "bq_User q \<noteq> []" "bp_user b = bq_User q" "IsSafeIdentifier (bp_table b)" "length (bp_ids b) \<le> 500"
    "fst ` set (bp_set b) \<subseteq> {c. editable_column (bp_columns b) c} \<union> {''_updated_by'', ''_updated_at''}"
proof -
  let ?t = "trim_lower (TrimPrefix (bq_Path q) ''/api/bulk/update/'')" and ?z = "\<lparr>sf_id = [], sf_form = [], sf_nulls = {}\<rparr>"
  let ?view = "fst (GetView (sv_prio E) (sv_source E) ?t None)"
  let ?cs = "vi_Columns ?view"
  note c = assms[unfolded bulk_prepare_def Let_def]
  from c have g: "bq_Method q = ''POST''" "IsSafeIdentifier ?t" "bq_Reads q"
    "\<not> (case vi_Table ?view of None \<Rightarrow> True | Some t \<Rightarrow> tb_ID t = [])" by (simp_all split: if_splits)
  from c g obtain ids flds where pl: "bq_Payload q = Some (ids, flds)" by (auto split: option.splits)
  note c1 = c[unfolded if_not_P[OF g(4)] pl option.case prod.case, simplified g if_False if_True not_True_eq_False simp_thms]
  from c1 have len: "length ids \<le> 500" by (simp split: if_splits)
  from c1 obtain sub where sub: "bulk_fields E ?cs flds ?z = Inr sub" by (auto split: sum.splits if_splits)
  let ?sf = "set_task_type E ?t ?cs sub"
  let ?stamped = "stamp ?cs ''_updated_at'' (sv_nowText E) (stamp ?cs ''_updated_by'' (bq_User q) ?sf)"
  note c2 = c1[unfolded sub sum.case]
  from c2 show user: "bq_User q \<noteq> []" by (auto split: if_splits option.splits)
  from c2 obtain sev where sev: "LoadTableSecurityEvaluator (sv_roles E) (ms_apps (sv_source E)) ?t (bq_User q) = Inr sev"
    by (auto split: if_splits option.splits sum.splits)
  from c2 obtain asg where asg: "buildUpdateColumnsAndValues ?cs ?stamped = Some asg"
    by (auto split: if_splits option.splits sum.splits)
  from c2 sev asg have b: "b = \<lparr>bp_table = ?t, bp_columns = ?cs, bp_ids = ids, bp_form = ?stamped, bp_set = uncast asg,
      bp_user = bq_User q, bp_evaluator = sev\<rparr>" by (auto split: if_splits option.splits)
  show "bp_user b = bq_User q" "IsSafeIdentifier (bp_table b)" "length (bp_ids b) \<le> 500" using g len by (simp_all add: b)
  from bulk_fields_editable[OF sub] have "keys (sf_form sub) \<subseteq> {c. editable_column ?cs c}" by simp
  then have "keys (sf_form ?sf) \<subseteq> {c. editable_column ?cs c}"
    by (auto simp: set_task_type_def put_value_def editable_column_def is_system_name_def HasPrefix_def Let_def)
  then have "keys (sf_form ?stamped) \<subseteq> {c. editable_column ?cs c} \<union> {''_updated_by'', ''_updated_at''}"
    by (auto simp: stamp_def)
  moreover have "fst ` set (uncast asg) = fst ` set asg" by (force simp: uncast_def)
  ultimately show "fst ` set (bp_set b) \<subseteq> {c. editable_column (bp_columns b) c} \<union> {''_updated_by'', ''_updated_at''}"
    using update_values(1)[OF asg] by (simp add: b)
qed


section \<open>Deletion and restoration\<close>

lemma handle_mark_cases:
  assumes "handle_mark k E has_mark q st = (resp, st', effects)"
  obtains (refused) "st' = st" "effects = []"
  | (marked) t i key old sev r r' where "t = trim_lower (TrimPrefix (mq_Path q) (mk_Path k))" "i = TrimSpace (mq_FormValue q ''_id'')"
    "mq_User q \<noteq> []" "has_mark t" "GetRecord E st t i = Some old"
    "LoadTableSecurityEvaluator (sv_roles E) (ms_apps (sv_source E)) t (mq_User q) = Inr sev"
    "AllowsRecord (sv_now E) sev (mk_Operation k) old"
    "ParseRecordIDValue (vi_Columns (fst (GetView (sv_prio E) (sv_source E) t None))) i = Some key"
    "st t key = Some r" "pg_update (sv_pg E) t (mk_Set k (mq_User q)) r = Inr r'" "st' = put_row t key r' st"
proof -
  let ?t = "trim_lower (TrimPrefix (mq_Path q) (mk_Path k))" and ?i = "TrimSpace (mq_FormValue q ''_id'')"
  note c = assms[unfolded handle_mark_def Let_def]
  show thesis
  proof (cases "mq_Method q = ''POST'' \<and> IsSafeIdentifier ?t \<and> mq_FormParses q \<and> IsValidUUID ?i \<and> mq_User q \<noteq> [] \<and> has_mark ?t")
    case False
    with c refused show thesis by (auto split: if_splits)
  next
    case True
    then have g: "mq_Method q = ''POST''" "IsSafeIdentifier ?t" "mq_FormParses q" "IsValidUUID ?i" "mq_User q \<noteq> []" "has_mark ?t"
      by blast+
    note c1 = c[simplified g if_False if_True not_True_eq_False simp_thms]
    show thesis
    proof (cases "GetRecord E st ?t ?i")
      case None
      with c1 refused show thesis by simp
    next
      case old: (Some old)
      note c2 = c1[unfolded old option.case]
      show thesis
      proof (cases "LoadTableSecurityEvaluator (sv_roles E) (ms_apps (sv_source E)) ?t (mq_User q)")
        case Inl
        with c2 refused show thesis by simp
      next
        case sev: (Inr sev)
        note c3 = c2[unfolded sev sum.case]
        show thesis
        proof (cases "AllowsRecord (sv_now E) sev (mk_Operation k) old")
          case False
          with c3 refused show thesis by simp
        next
          case True
          note m = marked[OF refl refl g(5,6) old sev True]
          let ?key = "ParseRecordIDValue (vi_Columns (fst (GetView (sv_prio E) (sv_source E) ?t None))) ?i"
          note c4 = c3[unfolded if_not_P[OF True[THEN not_not[THEN iffD2]]]]
          show thesis
          proof (cases ?key)
            case None
            with c4 refused show thesis by simp
          next
            case key: (Some key)
            note c5 = c4[unfolded key option.case]
            show thesis
            proof (cases "st ?t key")
              case None
              with c5 refused show thesis by simp
            next
              case row: (Some r)
              note c6 = c5[unfolded row option.case]
              show thesis
              proof (cases "pg_update (sv_pg E) ?t (mk_Set k (mq_User q)) r")
                case Inl
                with c6 refused show thesis by simp
              next
                case (Inr r')
                with c6 have "st' = put_row ?t key r' st" by simp
                then show thesis by (rule m[OF key row Inr])
              qed
            qed
          qed
        qed
      qed
    qed
  qed
qed

text \<open>A database that writes the named columns, NULL among the values, and otherwise only counts the change.\<close>

definition writes_named :: "pg \<Rightarrow> bool" where
  "writes_named db \<longleftrightarrow> (\<forall>t asg r r' k. pg_update db t asg r = Inr r' \<longrightarrow>
     (k \<notin> fst ` set asg \<and> k \<noteq> ''_update_count'' \<longrightarrow> snapshot_get r' k = snapshot_get r k) \<and>
     (\<forall>c. (k, None, c) \<in> set asg \<longrightarrow> distinct (map fst asg) \<longrightarrow> k \<noteq> ''_update_count'' \<longrightarrow> snapshot_get r' k = GNil))"

lemma writes_namedD:
  assumes "writes_named db" "pg_update db t asg r = Inr r'" "k \<noteq> ''_update_count''"
  shows "k \<notin> fst ` set asg \<Longrightarrow> snapshot_get r' k = snapshot_get r k"
    "(k, None, c) \<in> set asg \<Longrightarrow> distinct (map fst asg) \<Longrightarrow> snapshot_get r' k = GNil"
  using assms unfolding writes_named_def by blast+


section \<open>Guards that only the form has\<close>

lemma unchanged_by_guards [simp]:
  "set_task_type (E\<lparr>sv_member := f, sv_engine := g\<rparr>) = set_task_type E"
  "GetRecord (E\<lparr>sv_member := f, sv_engine := g\<rparr>) = GetRecord E"
  "bulk_allows (E\<lparr>sv_member := f, sv_engine := g\<rparr>) = bulk_allows E"
  by ((rule ext)+, simp add: set_task_type_def GetRecord_def bulk_allows_def Let_def cong: option.case_cong if_cong)+

lemma bulk_fields_guards [simp]: "bulk_fields (E\<lparr>sv_member := f, sv_engine := g\<rparr>) columns fs sf = bulk_fields E columns fs sf"
proof (induction fs arbitrary: sf)
  case (Cons kv fs)
  have "bulkFieldToString (E\<lparr>sv_member := f, sv_engine := g\<rparr>) v = bulkFieldToString E v" for v by (cases v) simp_all
  then show ?case by (cases kv) (simp only: bulk_fields.simps Cons.IH)
qed simp

lemma snapshot_guards [simp]: "loadRecordSnapshot (E\<lparr>sv_member := f, sv_engine := g\<rparr>) = loadRecordSnapshot E"
  by (intro ext) (simp only: loadRecordSnapshot_def unchanged_by_guards)

lemma sv_pg_guards: "sv_pg (E\<lparr>sv_member := f, sv_engine := g\<rparr>) = sv_pg E"
  by simp

lemma bulk_loop_guards [simp]: "bulk_loop (E\<lparr>sv_member := f, sv_engine := g\<rparr>) b ids s = bulk_loop E b ids s"
proof (induction ids arbitrary: s)
  case (Cons i ids)
  show ?case by (simp only: bulk_loop.simps Cons.IH unchanged_by_guards snapshot_guards sv_pg_guards)
qed simp

lemma bulk_prepare_guards [simp]: "bulk_prepare (E\<lparr>sv_member := f, sv_engine := g\<rparr>) q = bulk_prepare E q"
  by (simp add: bulk_prepare_def Let_def cong: option.case_cong if_cong sum.case_cong prod.case_cong)

text \<open>
  A bulk update runs without the guards of a save: neither the check that the assignee of a task is
  a member of its group nor the scripts of the before-write triggers have any influence on it.
\<close>

theorem bulk_without_guards:
  "handleBulkUpdate (E\<lparr>sv_member := f, sv_engine := g\<rparr>) q st = handleBulkUpdate E q st"
  by (simp add: handleBulkUpdate_def cong: sum.case_cong)

end
