(* ===== verification/RecordBulkSamples.thy ===== *)
theory RecordBulkSamples
  imports RecordSaveSamples RecordBulkLaws
begin

text \<open>Bulk updates, deletions and restorations of the notes.\<close>

definition bulk_retitle :: bulk_request where
  "bulk_retitle = \<lparr>bq_Method = ''POST'', bq_Path = ''/api/bulk/update/t_note'', bq_User = ''ann'', bq_Reads = True,
     bq_Payload = Some ([note_key, ''no id''], [(''title'', GStr ''bulk'')])\<rparr>"

lemma bulk_retitled: "case handleBulkUpdate note_env bulk_retitle note_store of (resp, st', effects) \<Rightarrow>
    (case resp of Some (BulkAnswer a b c d) \<Rightarrow> a = 2 \<and> b = 1 \<and> c = 1 \<and> d = 0 | _ \<Rightarrow> False) \<and> (case st' ''t_note'' note_key of None \<Rightarrow> False | Some r \<Rightarrow>
      (case snapshot_get r ''title'' of GStr s \<Rightarrow> s = ''bulk'' | _ \<Rightarrow> False))"
  by code_simp

lemma bulk_answer_exact_witness:
  "case handleBulkUpdate note_env bulk_retitle note_store of (resp, st', effects) \<Rightarrow>
     resp = Some (BulkAnswer 2 1 1 0) \<and> length effects = 3"
proof -
  obtain resp st' effects where r: "handleBulkUpdate note_env bulk_retitle note_store = (resp, st', effects)" by (metis surj_pair)
  with bulk_retitled have "resp = Some (BulkAnswer 2 1 1 0)" by (auto split: option.splits bulk_response.splits)
  with bulk_answer_exact[OF r[unfolded this]] r show ?thesis by simp
qed


definition mark :: "string \<Rightarrow> mark_request" where
  "mark path = \<lparr>mq_Method = ''POST'', mq_Path = path, mq_User = ''ann'', mq_FormParses = True,
     mq_FormValue = (\<lambda>k. if k = ''_id'' then note_key else [])\<rparr>"

lemma marked: "case handleSoftDeleteRecord note_env (\<lambda>t. True) (mark ''/api/delete/t_note'') note_store of (resp, st1, effects) \<Rightarrow>
   effects \<noteq> [] \<and> (case handleRestoreRecord note_env (\<lambda>t. True) (mark ''/api/restore/t_note'') st1 of (resp', st2, effects') \<Rightarrow>
     effects' \<noteq> [])"
  by code_simp

lemma assigned_Cons: "assigned ((k, v, c) # asg) r = assigned asg (form_put k (case v of None \<Rightarrow> GNil | Some s \<Rightarrow> GStr s) r)"
  by (simp add: assigned_def)

lemma assigned_null: "(k, None, c) \<in> set asg \<Longrightarrow> distinct (map fst asg) \<Longrightarrow> snapshot_get (assigned asg r) k = GNil"
proof (induction asg arbitrary: r)
  case (Cons a asg)
  obtain k1 v1 c1 where a: "a = (k1, v1, c1)" by (cases a)
  show ?case
  proof (cases "(k, None, c) \<in> set asg")
    case True
    with Cons show ?thesis by (simp add: a assigned_Cons)
  next
    case False
    with Cons.prems have k: "k1 = k" "v1 = None" "k \<notin> fst ` set asg" by (auto simp: a)
    from assigned_other[OF k(3)] k(1,2) show ?thesis by (simp add: a assigned_Cons snapshot_get_def map_of_form_put)
  qed
qed simp

lemma note_writes_named: "writes_named note_pg"
proof -
  have "snapshot_get r' k = GNil" if "counted_update asg r = Inr r'" "(k, None, c) \<in> set asg" "distinct (map fst asg)"
    "k \<noteq> ''_update_count''" for asg r r' k c
    using that assigned_null[OF that(2,3), of r]
    by (auto simp: counted_update_def snapshot_get_def map_of_form_put split: gval.splits if_splits)
  then show ?thesis unfolding writes_named_def using counted_other by (simp add: note_pg_def)
qed

lemma ex_reg3: "\<exists>a b c. P a b c \<Longrightarrow> (\<And>a b c. P a b c \<Longrightarrow> Q a b c) \<Longrightarrow> \<exists>a b c. Q a b c"
  by blast


end
