(* ===== verification/AppTablesLaws.thy ===== *)
theory AppTablesLaws
  imports AppTables AppValidateLaws
begin

text \<open>
  Laws of the tables of apps: identifiers round trip, synthetic identifiers stay in their range,
  derived prefixes are valid, and the columns of an accepted definition resolve to distinct names.
\<close>

section \<open>Identifiers\<close>

text \<open>
  The identifier of a table is read back as the app and the table it was made from, and only such
  identifiers are read: an app name without a colon, neither name empty.
\<close>
theorem table_id_roundtrip:
  "parseYAMLTableID s = Some (app, table) \<longleftrightarrow>
     s = yamlTableID app table \<and> app \<noteq> [] \<and> table \<noteq> [] \<and> CHR '':'' \<notin> set app"
proof
  assume p: "parseYAMLTableID s = Some (app, table)"
  then have h: "HasPrefix s yamlTableIDPrefix" "cut1 (CHR '':'') (TrimPrefix s yamlTableIDPrefix) = Some (app, table)"
    "app \<noteq> []" "table \<noteq> []" by (auto simp: parseYAMLTableID_def split: if_splits option.splits)
  have "TrimPrefix s yamlTableIDPrefix = app @ CHR '':'' # table" "CHR '':'' \<notin> set app" using cut1_Some[OF h(2)] by auto
  with TrimPrefix_HasPrefix[OF h(1)] h(3,4)
  show "s = yamlTableID app table \<and> app \<noteq> [] \<and> table \<noteq> [] \<and> CHR '':'' \<notin> set app"
    by (metis append_Cons append_Nil yamlTableID_def)
next
  assume "s = yamlTableID app table \<and> app \<noteq> [] \<and> table \<noteq> [] \<and> CHR '':'' \<notin> set app"
  then show "parseYAMLTableID s = Some (app, table)"
    by (simp add: parseYAMLTableID_def yamlTableID_def cut1_append)
qed

lemma sint_negated: "sint (- 1 * (ucast (h :: 32 word) :: 64 word)) = - uint h"
proof -
  have "uint h < 2 ^ 32" using uint_lt2p[of h] by simp
  then have r: "- (2 ^ 63) \<le> - uint h" by simp
  have r': "- uint h < 2 ^ 63" by (rule le_less_trans[of _ 0]) simp_all
  have "(- 1 * ucast h :: 64 word) = word_of_int (- uint h)"
    unfolding ucast_eq by (metis mult_minus1 wi_hom_neg)
  then have "sint (- 1 * (ucast h :: 64 word)) = signed_take_bit 63 (- uint h)"
    using sint_sbintrunc'[where 'a=64, of "- uint h"] by simp
  also have "\<dots> = - uint h" using r r' by (rule signed_take_bit_int_eq_self)
  finally show ?thesis .
qed

lemma wraps_to_zero: "(h :: 32 word) + 1 = 0 \<longleftrightarrow> h = 0xFFFFFFFF"
proof -
  have "h + 1 = 0 \<longleftrightarrow> h = - 1" using max_word_wrap[of h] by auto
  moreover have "(- 1 :: 32 word) = 0xFFFFFFFF" by simp
  ultimately show ?thesis by (simp only:)
qed

text \<open>
  A synthetic identifier is never positive and stays within 32 bits, so it cannot collide with an
  identifier of the database; the addition wraps before the widening, which gives 0 for one hash.
\<close>
theorem synthetic_id_bounds:
  "- (2 ^ 32) < sint (yamlScriptSyntheticID app name) \<and> sint (yamlScriptSyntheticID app name) \<le> 0 \<and>
   (sint (yamlScriptSyntheticID app name) = 0 \<longleftrightarrow> fnv32a (app @ '':'' @ name) = 0xFFFFFFFF)"
proof -
  let ?h = "fnv32a (app @ '':'' @ name) + 1"
  have s: "sint (yamlScriptSyntheticID app name) = - uint ?h"
    unfolding yamlScriptSyntheticID_def by (rule sint_negated)
  have "0 \<le> uint ?h" "uint ?h < 2 ^ 32" using uint_lt2p[of ?h] by simp_all
  moreover have "uint ?h = 0 \<longleftrightarrow> fnv32a (app @ '':'' @ name) = 0xFFFFFFFF"
    unfolding wraps_to_zero[symmetric] by (rule uint_0_iff)
  ultimately show ?thesis unfolding s by linarith
qed

section \<open>Prefixes\<close>

lemma upper_of_letter: "is_lower_byte c \<or> is_upper_byte c \<Longrightarrow> is_upper_byte (upper_byte c)"
  by (auto simp: is_lower_byte_def is_upper_byte_def byte_upper_byte)

lemma compact_upper: "list_all is_upper_byte (compactAutoNumberPrefixCandidate v)"
  by (auto simp: compactAutoNumberPrefixCandidate_def list_all_iff intro!: upper_of_letter)

lemma first_prefix_ok: "list_all is_upper_byte (first_prefix cs) \<and> (length (first_prefix cs) = 3 \<or> length (first_prefix cs) = 4)"
proof (induction cs)
  case Nil
  show ?case by (simp add: is_upper_byte_def)
next
  case (Cons c cs)
  have "list_all is_upper_byte (take 4 (compactAutoNumberPrefixCandidate c))"
    using compact_upper[of c] by (auto simp: list_all_iff dest: in_set_takeD)
  then show ?case using Cons compact_upper[of c] by (simp add: Let_def)
qed

lemma upper_fixed: "list_all is_upper_byte p \<Longrightarrow> normalizeAutoNumberPrefix p = p"
proof -
  assume u: "list_all is_upper_byte p"
  then have "TrimSpace p = p" by (intro TrimSpace_plain) (auto simp: list_all_iff plain_byte_def is_upper_byte_def)
  moreover have "upper_byte c = c" if "c \<in> set p" for c
    using u that by (auto simp: list_all_iff is_upper_byte_def is_lower_byte_def upper_byte_def)
  then have "ToUpper p = p" unfolding ToUpper_def by (intro map_idI) auto
  ultimately show ?thesis by (simp add: normalizeAutoNumberPrefix_def)
qed

lemma derived_prefix_ok: "validateAutoNumberPrefix (derivedTaskAutoNumberPrefix owner t) = None"
proof -
  define p where "p = derivedTaskAutoNumberPrefix owner t"
  have "list_all is_upper_byte p \<and> (length p = 3 \<or> length p = 4)"
    unfolding p_def derivedTaskAutoNumberPrefix_def by (rule first_prefix_ok)
  then show ?thesis unfolding p_def[symmetric] by (auto simp: validateAutoNumberPrefix_def upper_fixed Let_def)
qed

section \<open>Chains of tables of one definition\<close>

text \<open>A table, its parent, the parent of that, up to a table that extends none.\<close>

fun chain :: "AppDefinition \<Rightarrow> AppDefinitionTable list \<Rightarrow> bool" where
  "chain d [] \<longleftrightarrow> False"
| "chain d [t] \<longleftrightarrow> dt_Extends t = []"
| "chain d (t # u # ts) \<longleftrightarrow> dt_Extends t \<noteq> [] \<and> find (\<lambda>x. dt_Name x = dt_Extends t) (ad_Tables d) = Some u \<and> chain d (u # ts)"

lemma chain_unique: "chain d (t # ts) \<Longrightarrow> chain d (t # us) \<Longrightarrow> ts = us"
proof (induction ts arbitrary: t us)
  case Nil
  then show ?case by (cases us) auto
next
  case (Cons x xs)
  then show ?case by (cases us) auto
qed

lemma chain_suffix: "chain d (xs @ t # ts) \<Longrightarrow> chain d (t # ts)"
proof (induction xs)
  case (Cons x xs)
  then show ?case by (cases xs) auto
qed simp

lemma chain_not_in_tail: "chain d (t # ts) \<Longrightarrow> t \<notin> set ts"
proof
  assume c: "chain d (t # ts)" and "t \<in> set ts"
  then obtain xs ys where ts: "ts = xs @ t # ys" by (auto simp: in_set_conv_decomp)
  have "chain d ((t # xs) @ t # ys)" using c ts by simp
  then have "chain d (t # ys)" by (rule chain_suffix)
  with c have "ts = ys" by (rule chain_unique)
  moreover have "length ts = length xs + Suc (length ys)" using ts by simp
  ultimately show False by simp
qed

text \<open>Definitions whose tables extend tables of their own, in normal form.\<close>

definition self_contained :: "AppDefinition \<Rightarrow> bool" where
  "self_contained d \<longleftrightarrow> list_all (\<lambda>t. dt_Extends t = [] \<or> dt_Extends t \<in> set (map dt_Name (ad_Tables d))) (ad_Tables d)"

definition number_ok :: "AppDefinitionColumn \<Rightarrow> bool" where
  "number_ok c \<longleftrightarrow> (if IsAutoNumberDataType (dc_DataType c) then validateAutoNumberPrefix (dc_Prefix c) = None else True)"

definition plain_table :: "AppDefinitionTable \<Rightarrow> bool" where
  "plain_table t \<longleftrightarrow> trim_lower (dt_Name t) = dt_Name t \<and> dt_Name t \<noteq> [] \<and> trim_lower (dt_Extends t) = dt_Extends t \<and>
     distinct (map dc_Name (dt_Columns t)) \<and> list_all number_ok (dt_Columns t)"

lemma prepared_tables:
  assumes "prepareDefinitionForApp app d0 = Inr d"
  shows "\<forall>t \<in> set (ad_Tables d). plain_table t" "distinct (map dt_Name (ad_Tables d))"
    "ad_Name d = ra_Name app" "ad_Namespace d = ra_Namespace app"
proof -
  from assms obtain d1 where d1: "normalizeAppDefinition d0 = Inr d1" "ad_Tables d = ad_Tables d1"
    and names: "ad_Name d = ra_Name app" "ad_Namespace d = ra_Namespace app"
    by (auto simp: prepareDefinitionForApp_def Let_def split: sum.splits if_splits)
  show "ad_Name d = ra_Name app" "ad_Namespace d = ra_Namespace app" by (fact names)+
  show "distinct (map dt_Name (ad_Tables d))"
    using normal_form_ok[OF d1(1)] by (simp add: d1(2) definition_ok_def names_ok_def)
  from d1(1) obtain tables forms ts where p:
    "normalize_tables (ad_Name (normalize_header d0)) (ad_Namespace (normalize_header d0)) (ad_Tables d0) = Inr tables"
    "normalize_entries KAssetForm af_Name no_extra finish_asset_form [] (map prepare_asset_form (ad_Forms d0)) = Inr forms"
    "migrate_forms (table_index tables) forms tables = Inr ts" "ad_Tables d1 = ts"
    by (elim normalizeAppDefinition_InrE) (auto dest: normalize_behaviour_keeps)
  have "plain_table t" if t: "t \<in> set tables" for t
  proof -
    from table_section.entries_each[OF p(1)[unfolded normalize_tables_def] t]
    obtain x where x: "finish_table (prepare_table x) = Inr t" "IsSafeIdentifier (dt_Name t)" by blast
    then have "dt_Name t = trim_lower (dt_Name x)" "dt_Extends t = trim_lower (dt_Extends x)"
      by (auto simp: finish_table_Inr prepare_table_def)
    moreover have "distinct (map dc_Name (dt_Columns t))" "list_all number_ok (dt_Columns t)"
      using finish_table_ok[OF x(1)]
      by (simp_all add: table_ok_def names_ok_def list_all_iff column_ok_def number_ok_def)
    ultimately show ?thesis using x(2) by (auto simp: plain_table_def IsSafeIdentifier_def)
  qed
  then have "(\<forall>t \<in> set ts. plain_table t) \<and> map dt_Name ts = map dt_Name tables"
    by (intro migrate_forms_keeps[OF p(3) _ asset_forms_migrated[OF p(2)]])
      (auto simp: table_index_bound plain_table_def)
  then show "\<forall>t \<in> set (ad_Tables d). plain_table t" by (simp add: d1(2) p(4))
qed

lemma local_parent:
  assumes "self_contained d" "\<forall>t \<in> set (ad_Tables d). plain_table t" "t \<in> set (ad_Tables d)" "dt_Extends t \<noteq> []"
  obtains u where "find (\<lambda>x. dt_Name x = dt_Extends t) (ad_Tables d) = Some u" "u \<in> set (ad_Tables d)"
    "\<And>a deps. resolveValidationTable a (Some d) deps (dt_Extends t) = Some (a, u)"
proof -
  have "dt_Extends t \<in> dt_Name ` set (ad_Tables d)" using assms(1,3,4) by (auto simp: self_contained_def list_all_iff)
  then have "find (\<lambda>x. dt_Name x = dt_Extends t) (ad_Tables d) \<noteq> None" by (simp only: find_names)
  then obtain u where u: "find (\<lambda>x. dt_Name x = dt_Extends t) (ad_Tables d) = Some u" by blast
  moreover have "trim_lower (dt_Extends t) = dt_Extends t" using assms(2,3) by (simp add: plain_table_def)
  ultimately have "resolveValidationTable a (Some d) deps (dt_Extends t) = Some (a, u)" for a deps
    by (simp add: resolveValidationTable_def)
  with that u show thesis by (blast dest: find_Some_mem)
qed

lemma collect_chain:
  assumes "self_contained d" "\<forall>t \<in> set (ad_Tables d). plain_table t"
  shows "collectInheritedColumnNames app (Some d) deps app t visited = Inr names \<Longrightarrow> t \<in> set (ad_Tables d) \<Longrightarrow>
    \<exists>ts. chain d (t # ts) \<and> set ts \<subseteq> set (ad_Tables d) \<and> distinct (map dt_Name (t # ts)) \<and>
      dt_Name ` set (t # ts) \<inter> set visited = {} \<and>
      names = concat (map (own_fields (ra_Name app) (ra_Namespace app)) (t # ts))"
proof (induction "2 * card (set (known_tables app (Some d) deps) - set visited)" arbitrary: t visited names rule: less_induct)
  case less
  note c = less.prems(1)[unfolded collectInheritedColumnNames.simps[of app _ deps app t visited] Let_def]
  have new: "dt_Name t \<notin> set visited" using c by (auto split: if_splits)
  show ?case
  proof (cases "dt_Extends t = []")
    case True
    with c new show ?thesis by (intro exI[of _ "[]"]) auto
  next
    case False
    from local_parent[OF assms less.prems(2) False] obtain u where
      u: "find (\<lambda>x. dt_Name x = dt_Extends t) (ad_Tables d) = Some u" "u \<in> set (ad_Tables d)"
        "\<And>a deps. resolveValidationTable a (Some d) deps (dt_Extends t) = Some (a, u)" by blast
    with c new False obtain inherited where
      r: "collectInheritedColumnNames app (Some d) deps app u (dt_Name t # visited) = Inr inherited"
        "names = own_fields (ra_Name app) (ra_Namespace app) t @ inherited"
      by (auto simp: and_then_Inr)
    have "dt_Name t \<in> set (known_tables app (Some d) deps)"
      using less.prems(2) by (auto simp: known_tables_def table_names_def)
    then have "set (known_tables app (Some d) deps) - set (dt_Name t # visited) \<subset> set (known_tables app (Some d) deps) - set visited"
      using new by auto
    then have "2 * card (set (known_tables app (Some d) deps) - set (dt_Name t # visited))
        < 2 * card (set (known_tables app (Some d) deps) - set visited)"
      by (simp add: psubset_card_mono)
    from less.hyps[OF this r(1) u(2)] obtain ts where ts: "chain d (u # ts)" "set ts \<subseteq> set (ad_Tables d)"
      "distinct (map dt_Name (u # ts))" "dt_Name ` set (u # ts) \<inter> set (dt_Name t # visited) = {}"
      "inherited = concat (map (own_fields (ra_Name app) (ra_Namespace app)) (u # ts))" by blast
    with u r(2) new False show ?thesis by (intro exI[of _ "u # ts"]) auto
  qed
qed

lemma set_number_prefix_names [simp]: "map dc_Name (set_number_prefix p cs) = map dc_Name cs"
  by (induction cs) auto

lemma derived_names [simp]: "map dc_Name (applyDerivedTaskAutoNumberPrefix prio apps owner t cs) = map dc_Name cs"
  by (simp add: applyDerivedTaskAutoNumberPrefix_def Let_def)

lemma set_number_prefix_ok:
  "list_all number_ok cs \<Longrightarrow> validateAutoNumberPrefix p = None \<Longrightarrow> list_all number_ok (set_number_prefix p cs)"
  by (induction cs) (auto simp: number_ok_def)

lemma derived_ok: "list_all number_ok cs \<Longrightarrow> list_all number_ok (applyDerivedTaskAutoNumberPrefix prio apps owner t cs)"
  by (simp add: applyDerivedTaskAutoNumberPrefix_def Let_def set_number_prefix_ok derived_prefix_ok)

lemma number_configs_ok: "list_all number_ok cs \<Longrightarrow> \<exists>configs. number_configs scope cs = Inr configs"
proof (induction cs)
  case (Cons c cs)
  then obtain configs where c: "number_ok c" "number_configs scope cs = Inr configs" by auto
  have "validateAutoNumberPrefix (normalizeAutoNumberPrefix (dc_Prefix c)) = validateAutoNumberPrefix (dc_Prefix c)"
    by (simp add: validateAutoNumberPrefix_def)
  with c show ?case by (simp add: number_ok_def Let_def split: if_splits)
qed simp

lemma chain_resolves:
  assumes "self_contained d" "\<forall>t \<in> set (ad_Tables d). plain_table t" "effectiveRegisteredAppDefinition owner = Some d"
  shows "chain d (t # ts) \<Longrightarrow> set (t # ts) \<subseteq> set (ad_Tables d) \<Longrightarrow> distinct (map (table_key owner) (t # ts)) \<Longrightarrow>
    table_key owner ` set (t # ts) \<inter> set visited = {} \<Longrightarrow>
    \<exists>cs. resolveDefinitionColumnsWithApps prio apps owner t visited = Inr cs \<and>
      map dc_Name cs = concat (map (\<lambda>u. map dc_Name (dt_Columns u)) (rev (t # ts))) \<and> list_all number_ok cs"
proof (induction ts arbitrary: t visited)
  case Nil
  have "plain_table t" using Nil.prems(2) assms(2) by auto
  with Nil show ?case
    by (auto simp: resolveDefinitionColumnsWithApps.simps[of prio apps owner t visited] Let_def plain_table_def)
next
  case (Cons u us)
  have t: "t \<in> set (ad_Tables d)" "plain_table t" using Cons.prems(2) assms(2) by auto
  from Cons.prems(1) have e: "dt_Extends t \<noteq> []" "find (\<lambda>x. dt_Name x = dt_Extends t) (ad_Tables d) = Some u" "chain d (u # us)"
    by auto
  from local_parent[OF assms(1,2) t(1) e(1)] e(2) have
    r: "resolveValidationTable a (Some d) deps (dt_Extends t) = Some (a, u)" for a deps by (metis option.inject)
  obtain cs where cs: "resolveDefinitionColumnsWithApps prio apps owner u (table_key owner t # visited) = Inr cs"
    "map dc_Name cs = concat (map (\<lambda>u. map dc_Name (dt_Columns u)) (rev (u # us)))" "list_all number_ok cs"
    using Cons.IH[OF e(3), of "table_key owner t # visited"] Cons.prems(2-4) by auto
  have "TrimSpace (dt_Extends t) \<noteq> []" using t(2) e(1) trim_lower_Nil by (metis plain_table_def)
  moreover have "table_key owner t \<notin> set visited" using Cons.prems(4) by auto
  moreover have "list_all number_ok (applyDerivedTaskAutoNumberPrefix prio apps owner t (cs @ dt_Columns t))"
    using cs(3) t(2) by (intro derived_ok) (simp add: plain_table_def)
  ultimately show ?case using t(2) cs(1,2) r assms(3)
    by (simp add: resolveDefinitionColumnsWithApps.simps[of prio apps owner t visited] Let_def plain_table_def)
qed

lemma key_of_name:
  assumes "\<forall>t \<in> set ts. plain_table t" "distinct (map dt_Name ts)"
  shows "distinct (map (table_key owner) ts)"
proof -
  have "table_key owner t = table_key owner u \<longleftrightarrow> dt_Name t = dt_Name u" if "t \<in> set ts" "u \<in> set ts" for t u
    using that assms(1) by (simp add: table_key_def plain_table_def)
  with assms(2) show ?thesis by (auto simp: distinct_map inj_on_def)
qed

section \<open>The columns of accepted definitions\<close>

lemma fields_of_child:
  assumes "table_fields app d deps t = Inr fs" "dt_Extends t \<noteq> []"
    and "resolveValidationTable app (Some d) deps (dt_Extends t) = Some (app, u)"
  obtains names where "collectInheritedColumnNames app (Some d) deps app u [] = Inr names"
    "dc_Name ` set (dt_Columns t) \<inter> set names = {}"
proof -
  let ?implicit = "definitionUsesImplicitSystemColumns (ad_Name d) (ad_Namespace d) t"
  from assms obtain names where c: "collectInheritedColumnNames app (Some d) deps app u [] = Inr names"
    and no: "\<not> list_ex (\<lambda>n. n \<in> set (own_fields (ad_Name d) (ad_Namespace d) t)) (filter (\<lambda>n. \<not> (IsSystemColumnName n \<and> ?implicit)) names)"
    by (auto simp: table_fields_def Let_def split: sum.splits if_splits)
  have "n \<notin> set names" if n: "n \<in> dc_Name ` set (dt_Columns t)" for n
  proof
    assume "n \<in> set names"
    moreover have "n \<in> set (own_fields (ad_Name d) (ad_Namespace d) t)" using n by (auto simp: own_fields_def)
    moreover have "\<not> (IsSystemColumnName n \<and> ?implicit)"
      using n by (auto simp: definitionUsesImplicitSystemColumns_def definitionHasExplicitSystemColumns_def Let_def
          list_ex_iff split: if_splits)
    ultimately show False using no by (auto simp: list_ex_iff)
  qed
  with c that show thesis by blast
qed

lemma own_fields_columns: "dc_Name ` set (dt_Columns t) \<subseteq> set (own_fields n ns t)"
  by (auto simp: own_fields_def)

lemma chain_columns_distinct:
  assumes "self_contained d" "\<forall>t \<in> set (ad_Tables d). plain_table t"
    and "\<And>t. t \<in> set (ad_Tables d) \<Longrightarrow> \<exists>fs. table_fields app d deps t = Inr fs"
  shows "chain d (t # ts) \<Longrightarrow> set (t # ts) \<subseteq> set (ad_Tables d) \<Longrightarrow>
    distinct (concat (map (\<lambda>u. map dc_Name (dt_Columns u)) (rev (t # ts))))"
proof (induction ts arbitrary: t)
  case Nil
  then show ?case using assms(2) by (simp add: plain_table_def)
next
  case (Cons u us)
  have t: "t \<in> set (ad_Tables d)" "u \<in> set (ad_Tables d)" using Cons.prems(2) by auto
  from Cons.prems(1) have e: "dt_Extends t \<noteq> []" "find (\<lambda>x. dt_Name x = dt_Extends t) (ad_Tables d) = Some u" "chain d (u # us)"
    by auto
  from local_parent[OF assms(1,2) t(1) e(1)] e(2) have
    "resolveValidationTable app (Some d) deps (dt_Extends t) = Some (app, u)" by (metis option.inject)
  with assms(3)[OF t(1)] e(1) obtain names where
    names: "collectInheritedColumnNames app (Some d) deps app u [] = Inr names" "dc_Name ` set (dt_Columns t) \<inter> set names = {}"
    using fields_of_child by metis
  from collect_chain[OF assms(1,2) names(1) t(2)] obtain us' where
    "chain d (u # us')" "names = concat (map (own_fields (ra_Name app) (ra_Namespace app)) (u # us'))" by blast
  with chain_unique[OF e(3)] have n: "names = concat (map (own_fields (ra_Name app) (ra_Namespace app)) (u # us))" by blast
  have "dc_Name ` set (dt_Columns v) \<subseteq> set names" if "v \<in> set (u # us)" for v
    using own_fields_columns[of v] that unfolding n by fastforce
  with names(2) have "dc_Name ` set (dt_Columns v) \<inter> dc_Name ` set (dt_Columns t) = {}" if "v \<in> set (u # us)" for v
    using that by blast
  moreover have "distinct (concat (map (\<lambda>u. map dc_Name (dt_Columns u)) (rev (u # us))))"
    using Cons.IH[OF e(3)] Cons.prems(2) by simp
  moreover have "distinct (map dc_Name (dt_Columns t))" using assms(2) t(1) by (simp add: plain_table_def)
  moreover have "concat (map (\<lambda>u. map dc_Name (dt_Columns u)) (rev (t # u # us))) =
      concat (map (\<lambda>u. map dc_Name (dt_Columns u)) (rev (u # us))) @ map dc_Name (dt_Columns t)" by simp
  moreover have "set (concat (map (\<lambda>u. map dc_Name (dt_Columns u)) (rev (u # us)))) = (\<Union>v \<in> set (u # us). dc_Name ` set (dt_Columns v))"
    by auto
  ultimately show ?case by (simp only: distinct_append set_map) blast
qed

text \<open>
  C29: the columns of every table of an accepted definition resolve at run time, to pairwise distinct
  names that include those the table declares, when the definition extends only tables of its own:
  its inheritance has no cycle, no missing parent and no column declared twice along a chain. The
  triggers that number its records can be configured, every prefix being valid.
\<close>
theorem accepted_columns_resolve:
  assumes "prepareDefinitionForApp app d0 = Inr d" "validateAppDefinitionForApp ck order listApps app d = None"
    and "self_contained d" "t \<in> set (ad_Tables d)" "effectiveRegisteredAppDefinition owner = Some d"
  shows "\<exists>cs. resolveDefinitionColumnsWithApps prio apps owner t [] = Inr cs \<and> distinct (map dc_Name cs) \<and>
    set (map dc_Name (dt_Columns t)) \<subseteq> set (map dc_Name cs) \<and>
    (\<exists>configs. buildAutoNumberTriggerConfigs scope (t\<lparr>dt_Columns := cs\<rparr>) = Inr configs)"
proof -
  note plain = prepared_tables(1,2)[OF assms(1)]
  from assms(2) obtain deps where v: "validate_parts ck app d deps = None"
    by (auto simp: validateAppDefinitionForApp_def split: sum.splits)
  have f: "\<exists>fs. table_fields app d deps u = Inr fs" if "u \<in> set (ad_Tables d)" for u
    using validate_partsD(1)[OF v that] by (auto simp: validate_table_def split: sum.splits)
  obtain ts where ts: "chain d (t # ts)" "set (t # ts) \<subseteq> set (ad_Tables d)" "distinct (map dt_Name (t # ts))"
  proof (cases "dt_Extends t = []")
    case True
    then show thesis using that[of "[]"] assms(4) by simp
  next
    case False
    from local_parent[OF assms(3) plain(1) assms(4) False] obtain u where
      u: "find (\<lambda>x. dt_Name x = dt_Extends t) (ad_Tables d) = Some u" "u \<in> set (ad_Tables d)"
        "resolveValidationTable app (Some d) deps (dt_Extends t) = Some (app, u)" by metis
    from f[OF assms(4)] False u(3) obtain names where "collectInheritedColumnNames app (Some d) deps app u [] = Inr names"
      using fields_of_child by metis
    from collect_chain[OF assms(3) plain(1) this u(2)] obtain us where
      us: "chain d (u # us)" "set us \<subseteq> set (ad_Tables d)" "distinct (map dt_Name (u # us))" by blast
    have c: "chain d (t # u # us)" using False u(1) us(1) by simp
    then have "t \<notin> set (u # us)" by (rule chain_not_in_tail)
    then have "dt_Name t \<notin> dt_Name ` set (u # us)"
      using plain(2) us(2) u(2) assms(4) by (auto simp: distinct_map inj_on_def)
    with that[OF c] us u(2) assms(4) show thesis by simp
  qed
  have "distinct (map (table_key owner) (t # ts))" using ts(2,3) plain(1) by (intro key_of_name) auto
  then obtain cs where cs: "resolveDefinitionColumnsWithApps prio apps owner t [] = Inr cs"
    "map dc_Name cs = concat (map (\<lambda>u. map dc_Name (dt_Columns u)) (rev (t # ts)))" "list_all number_ok cs"
    using chain_resolves[OF assms(3) plain(1) assms(5) ts(1,2), of "[]" prio apps] by auto
  moreover have "distinct (map dc_Name cs)"
    unfolding cs(2) by (rule chain_columns_distinct[OF assms(3) plain(1) f ts(1,2)])
  moreover have "set (map dc_Name (dt_Columns t)) \<subseteq> set (map dc_Name cs)" unfolding cs(2) by auto
  moreover have "\<exists>configs. buildAutoNumberTriggerConfigs scope (t\<lparr>dt_Columns := cs\<rparr>) = Inr configs"
    using number_configs_ok[OF cs(3)] by (simp add: buildAutoNumberTriggerConfigs_def)
  ultimately show ?thesis by blast
qed

end
