(* ===== verification/MetadataLaws.thy ===== *)
theory MetadataLaws
  imports MetadataCache AppTablesLaws
begin

text \<open>
  The metadata cache is transparent: whatever lookups a request makes, in whatever order, it is
  answered as without a cache, when the apps load and their tables are told apart by their
  identifiers. When the load fails, the cache forgets the failure.

  The locale \<open>memo\<close> is the interface of one compartment of the cache; the tables, the columns and the
  views are its interpretations.
\<close>

section \<open>A compartment of the cache\<close>

locale memo =
  fixes get :: "'c \<Rightarrow> 'k \<Rightarrow> 'v option" and put :: "'c \<Rightarrow> 'k \<Rightarrow> 'v \<Rightarrow> 'c"
  assumes get_put: "get (put c k v) k' = (if k' = k then Some v else get c k')"
begin

definition faithful :: "('k \<Rightarrow> 'v) \<Rightarrow> 'c \<Rightarrow> bool" where
  "faithful f c \<longleftrightarrow> (\<forall>k v. get c k = Some v \<longrightarrow> v = f k)"

lemma faithful_put: "faithful f c \<Longrightarrow> v = f k \<Longrightarrow> faithful f (put c k v)"
  by (auto simp: faithful_def get_put)

lemma faithful_get: "faithful f c \<Longrightarrow> get c k = Some v \<Longrightarrow> v = f k"
  by (simp add: faithful_def)

end

interpretation tables: memo cachedTable storeTable
  by unfold_locales (simp add: cachedTable_def storeTable_def)

interpretation columns: memo cachedColumns storeColumns
  by unfold_locales (simp add: cachedColumns_def storeColumns_def)

interpretation views: memo cachedView storeView
  by unfold_locales (simp add: cachedView_def storeView_def)

section \<open>The index of the tables\<close>

definition unique_tables :: "RegisteredApp list \<Rightarrow> bool" where
  "unique_tables apps \<longleftrightarrow> list_all (\<lambda>a. CHR '':'' \<notin> set (ra_Name a)) apps \<and>
     distinct (map (\<lambda>at. (ra_Name (fst at), dt_Name (snd at))) (published_tables apps))"

lemma index_tables_other [simp]:
  "ca_apps (index_tables ats c) = ca_apps c"
  "ca_physicalBaseTables (index_tables ats c) = ca_physicalBaseTables c" "ca_tables (index_tables ats c) = ca_tables c"
  "ca_columns (index_tables ats c) = ca_columns c" "ca_views (index_tables ats c) = ca_views c"
  by (induction ats arbitrary: c) auto

lemma index_tables_byName:
  "ca_byName (index_tables ats c) n = (case ca_byName c n of Some at \<Rightarrow> Some at
     | None \<Rightarrow> find (\<lambda>at. dt_Name (snd at) = n) ats)"
  by (induction ats arbitrary: c) (auto split: option.splits)

lemma index_tables_byID:
  "ca_byID (index_tables ats c) i = (case find (\<lambda>at. found_id at = i) (rev ats) of Some at \<Rightarrow> Some at
     | None \<Rightarrow> ca_byID c i)"
  by (induction ats arbitrary: c) (auto simp: find_append split: option.splits)

lemma published_registered: "at \<in> set (published_tables apps) \<Longrightarrow> fst at \<in> set apps"
  by (auto simp: published_tables_def split: option.splits)

lemma found_id_inject:
  assumes "CHR '':'' \<notin> set a" "CHR '':'' \<notin> set (ra_Name (fst at))"
  shows "found_id at = yamlTableID a n \<longleftrightarrow> ra_Name (fst at) = a \<and> dt_Name (snd at) = n"
proof
  assume "found_id at = yamlTableID a n"
  then have "ra_Name (fst at) @ CHR '':'' # dt_Name (snd at) = a @ CHR '':'' # n"
    by (simp add: found_id_def yamlTableID_def)
  with assms show "ra_Name (fst at) = a \<and> dt_Name (snd at) = n"
    by (metis cut1_append option.inject prod.inject)
qed (auto simp: found_id_def)

lemma find_rev_distinct:
  assumes "distinct (map f xs)"
  shows "find (\<lambda>x. f x = k) (rev xs) = find (\<lambda>x. f x = k) xs"
  by (rule find_order) (use assms in \<open>auto simp: distinct_map inj_on_def\<close>)

lemma index_by_id:
  assumes "unique_tables apps" "CHR '':'' \<notin> set a"
  shows "find (\<lambda>at. found_id at = yamlTableID a n) (rev (published_tables apps)) = table_of_id apps a n"
proof -
  have p: "found_id at = yamlTableID a n \<longleftrightarrow> (ra_Name (fst at), dt_Name (snd at)) = (a, n)"
    if "at \<in> set (published_tables apps)" for at
    using found_id_inject[OF assms(2)] published_registered[OF that] assms(1)
    by (auto simp: unique_tables_def list_all_iff)
  have "find (\<lambda>at. found_id at = yamlTableID a n) (rev (published_tables apps)) =
      find (\<lambda>at. (ra_Name (fst at), dt_Name (snd at)) = (a, n)) (rev (published_tables apps))"
    by (intro find_congs p) simp
  also have "\<dots> = find (\<lambda>at. (ra_Name (fst at), dt_Name (snd at)) = (a, n)) (published_tables apps)"
    using assms(1) by (intro find_rev_distinct[of "\<lambda>at. (ra_Name (fst at), dt_Name (snd at))"]) (simp add: unique_tables_def)
  finally show ?thesis by (simp add: table_of_id_def)
qed

section \<open>Lookups\<close>

datatype lookup = LApps | LByName string | LByID string | LTable string | LColumns string | LView string
  | LBaseTables | LExists string

datatype answer =
    AApps "(app_error, RegisteredApp list) result"
  | AFound "(app_error, found_table option) result"
  | ATable Table
  | AColumns "(metadata_error, Column list) result"
  | AView View
  | ABaseTables "(app_error, string list) result"
  | AExists bool

fun perform :: "(string \<Rightarrow> nat) \<Rightarrow> metadata_source \<Rightarrow> lookup \<Rightarrow> answer cached" where
  "perform prio src LApps c = map_prod AApps id (ListActiveApps src c)"
| "perform prio src (LByName n) c = map_prod AFound id (FindYAMLTableByName src n c)"
| "perform prio src (LByID i) c = map_prod AFound id (FindYAMLTableByID src i c)"
| "perform prio src (LTable n) c = map_prod ATable id (GetTable src n c)"
| "perform prio src (LColumns i) c = map_prod AColumns id (GetColumns prio src i c)"
| "perform prio src (LView n) c = map_prod AView id (GetView prio src n c)"
| "perform prio src LBaseTables c = map_prod ABaseTables id (ListPhysicalBaseTables src c)"
| "perform prio src (LExists n) c = map_prod AExists id (TableExists src n c)"

text \<open>The lookups of a request, the cache threaded through them.\<close>

fun lookups :: "(string \<Rightarrow> nat) \<Rightarrow> metadata_source \<Rightarrow> lookup list \<Rightarrow> requestMetadataCache option \<Rightarrow> answer list" where
  "lookups prio src [] c = []"
| "lookups prio src (l # ls) c = (case perform prio src l c of (a, c') \<Rightarrow> a # lookups prio src ls c')"

definition loaded_from :: "RegisteredApp list \<Rightarrow> requestMetadataCache \<Rightarrow> bool" where
  "loaded_from apps m \<longleftrightarrow> ca_apps m = Some (Inr apps) \<and> ca_byName m = table_of_name apps \<and>
     (\<forall>a n. CHR '':'' \<notin> set a \<longrightarrow> ca_byID m (yamlTableID a n) = table_of_id apps a n)"

definition not_loaded :: "requestMetadataCache \<Rightarrow> bool" where
  "not_loaded m \<longleftrightarrow> ca_apps m = None \<and> ca_byName m = Map.empty \<and> ca_byID m = Map.empty"

definition consistent :: "(string \<Rightarrow> nat) \<Rightarrow> metadata_source \<Rightarrow> RegisteredApp list \<Rightarrow> requestMetadataCache \<Rightarrow> bool" where
  "consistent prio src apps m \<longleftrightarrow> (not_loaded m \<or> loaded_from apps m) \<and>
     (case ca_physicalBaseTables m of None \<Rightarrow> True | Some r \<Rightarrow> r = ms_baseTables src) \<and>
     tables.faithful (\<lambda>n. fst (GetTable src n None)) m \<and> columns.faithful (\<lambda>i. fst (GetColumns prio src i None)) m \<and>
     views.faithful (\<lambda>n. fst (GetView prio src n None)) m"

lemma store_loaded:
  assumes "not_loaded m" "unique_tables apps"
  shows "loaded_from apps (storeActiveApps m (Inr apps))"
  using assms by (auto simp: not_loaded_def loaded_from_def storeActiveApps_def index_tables_byName index_tables_byID
      index_by_id table_of_name_def split: option.split)

lemma same_compartments:
  assumes "ca_physicalBaseTables m' = ca_physicalBaseTables m" "ca_tables m' = ca_tables m" "ca_columns m' = ca_columns m" "ca_views m' = ca_views m" "loaded_from apps m'"
  shows "consistent prio src apps m \<Longrightarrow> consistent prio src apps m'"
  using assms by (simp add: consistent_def tables.faithful_def columns.faithful_def views.faithful_def
      cachedTable_def cachedColumns_def cachedView_def)

lemma storeActiveApps_other:
  "ca_physicalBaseTables (storeActiveApps m r) = ca_physicalBaseTables m"
  "ca_tables (storeActiveApps m r) = ca_tables m" "ca_columns (storeActiveApps m r) = ca_columns m"
  "ca_views (storeActiveApps m r) = ca_views m"
  by (simp_all add: storeActiveApps_def split: option.split sum.split)

lemma list_apps_cached:
  assumes "ms_apps src = Inr apps" "unique_tables apps" "consistent prio src apps m"
  obtains m' where "ListActiveApps src (Some m) = (Inr apps, Some m')" "consistent prio src apps m'" "loaded_from apps m'"
proof (cases "loaded_from apps m")
  case True
  with that[of m] assms show thesis by (simp add: ListActiveApps_def loaded_from_def)
next
  case False
  with assms(3) have n: "not_loaded m" by (simp add: consistent_def)
  let ?m = "storeActiveApps m (Inr apps)"
  have l: "loaded_from apps ?m" by (rule store_loaded[OF n assms(2)])
  have "consistent prio src apps ?m"
    by (rule same_compartments[OF storeActiveApps_other l assms(3)])
  with that[of ?m] l n assms(1) show thesis by (simp add: ListActiveApps_def not_loaded_def)
qed


section \<open>Every lookup keeps the cache consistent and answers as without it\<close>

definition agrees :: "(string \<Rightarrow> nat) \<Rightarrow> metadata_source \<Rightarrow> RegisteredApp list \<Rightarrow> 'a cached \<Rightarrow> bool" where
  "agrees prio src apps q \<longleftrightarrow> snd (q None) = None \<and>
     (\<forall>m. consistent prio src apps m \<longrightarrow> (\<exists>m'. q (Some m) = (fst (q None), Some m') \<and> consistent prio src apps m'))"

lemma agreesI:
  assumes "snd (q None) = None"
    and "\<And>m. consistent prio src apps m \<Longrightarrow> \<exists>m'. q (Some m) = (fst (q None), Some m') \<and> consistent prio src apps m'"
  shows "agrees prio src apps q"
  using assms by (simp add: agrees_def)

lemma agrees_None: "agrees prio src apps q \<Longrightarrow> q None = (fst (q None), None)"
  by (simp add: agrees_def prod_eq_iff)

lemma agreesE:
  assumes "agrees prio src apps q" "consistent prio src apps m"
  obtains m' where "q (Some m) = (fst (q None), Some m')" "consistent prio src apps m'"
  using assms by (auto simp: agrees_def)

text \<open>A constant answer agrees, and so does a sequence of two lookups.\<close>

lemma agrees_const: "agrees prio src apps (Pair v)"
  by (simp add: agrees_def)

lemma agrees_bind:
  assumes "agrees prio src apps q" "\<And>v. agrees prio src apps (r v)"
  shows "agrees prio src apps (\<lambda>c. case q c of (v, c') \<Rightarrow> r v c')"
proof (rule agreesI)
  let ?v = "fst (q None)"
  note n = agrees_None[OF assms(1)]
  show "snd (case q None of (v, c') \<Rightarrow> r v c') = None"
    using assms(2)[of ?v] by (subst n) (simp add: agrees_def)
  fix m assume "consistent prio src apps m"
  then obtain m' where m': "q (Some m) = (?v, Some m')" "consistent prio src apps m'" by (rule agreesE[OF assms(1)])
  obtain m'' where m'': "r ?v (Some m') = (fst (r ?v None), Some m'')" "consistent prio src apps m''"
    by (rule agreesE[OF assms(2) m'(2)])
  have "fst (case q None of (v, c') \<Rightarrow> r v c') = fst (r ?v None)" by (subst n) simp
  with m' m'' show "\<exists>k. (case q (Some m) of (v, c') \<Rightarrow> r v c') =
      (fst (case q None of (v, c') \<Rightarrow> r v c'), Some k) \<and> consistent prio src apps k"
    by simp
qed

text \<open>A lookup that goes through a compartment of the cache which only ever holds its own answers.\<close>

locale compartment = memo get put
  for get :: "requestMetadataCache \<Rightarrow> 'k \<Rightarrow> 'v option" and put :: "requestMetadataCache \<Rightarrow> 'k \<Rightarrow> 'v \<Rightarrow> requestMetadataCache" +
  fixes truth :: "(string \<Rightarrow> nat) \<Rightarrow> metadata_source \<Rightarrow> 'k \<Rightarrow> 'v"
  assumes consistent_get: "consistent prio src apps m \<Longrightarrow> get m k = Some v \<Longrightarrow> v = truth prio src k"
    and consistent_put: "consistent prio src apps m \<Longrightarrow> v = truth prio src k \<Longrightarrow> consistent prio src apps (put m k v)"
begin

lemma through_None: "snd (compute None) = None \<Longrightarrow> through get put k compute None = (fst (compute None), None)"
  by (simp add: through_def prod_eq_iff split: prod.split)

lemma agrees_through:
  assumes "agrees prio src apps compute" "fst (compute None) = truth prio src k"
  shows "agrees prio src apps (through get put k compute)"
proof (rule agreesI)
  have n: "through get put k compute None = (fst (compute None), None)"
    using assms(1) by (simp add: through_None agrees_def)
  then show "snd (through get put k compute None) = None" by simp
  fix m assume c: "consistent prio src apps m"
  show "\<exists>m'. through get put k compute (Some m) = (fst (through get put k compute None), Some m') \<and>
      consistent prio src apps m'"
  proof (cases "get m k")
    case (Some v)
    with consistent_get[OF c Some] c n assms(2) show ?thesis by (simp add: through_def)
  next
    case None
    obtain m' where m': "compute (Some m) = (fst (compute None), Some m')" "consistent prio src apps m'"
      by (rule agreesE[OF assms(1) c])
    with None n consistent_put[OF m'(2) assms(2)] show ?thesis by (simp add: through_def)
  qed
qed

end

interpretation table_cache: compartment cachedTable storeTable "\<lambda>prio src n. fst (GetTable src n None)"
proof unfold_locales
  fix prio src apps m n v assume "consistent prio src apps m" "cachedTable m n = Some v"
  then show "v = fst (GetTable src n None)" by (auto simp: consistent_def dest: tables.faithful_get)
next
  fix prio src apps m v n assume "consistent prio src apps m" "v = fst (GetTable src n None)"
  then show "consistent prio src apps (storeTable m n v)"
    using tables.faithful_put[of "\<lambda>n. fst (GetTable src n None)" m v n]
    by (simp add: consistent_def) (simp add: storeTable_def not_loaded_def loaded_from_def columns.faithful_def
      views.faithful_def cachedColumns_def cachedView_def)
qed


interpretation column_cache: compartment cachedColumns storeColumns "\<lambda>prio src i. fst (GetColumns prio src i None)"
proof unfold_locales
  fix prio src apps m i v assume "consistent prio src apps m" "cachedColumns m i = Some v"
  then show "v = fst (GetColumns prio src i None)" by (auto simp: consistent_def dest: columns.faithful_get)
next
  fix prio src apps m v i assume "consistent prio src apps m" "v = fst (GetColumns prio src i None)"
  then show "consistent prio src apps (storeColumns m i v)"
    using columns.faithful_put[of "\<lambda>i. fst (GetColumns prio src i None)" m v i]
    by (simp add: consistent_def) (simp add: storeColumns_def not_loaded_def loaded_from_def tables.faithful_def
      views.faithful_def cachedTable_def cachedView_def)
qed

interpretation view_cache: compartment cachedView storeView "\<lambda>prio src n. fst (GetView prio src n None)"
proof unfold_locales
  fix prio src apps m n v assume "consistent prio src apps m" "cachedView m n = Some v"
  then show "v = fst (GetView prio src n None)" by (auto simp: consistent_def dest: views.faithful_get)
next
  fix prio src apps m v n assume "consistent prio src apps m" "v = fst (GetView prio src n None)"
  then show "consistent prio src apps (storeView m n v)"
    using views.faithful_put[of "\<lambda>n. fst (GetView prio src n None)" m v n]
    by (simp add: consistent_def) (simp add: storeView_def not_loaded_def loaded_from_def tables.faithful_def
      columns.faithful_def cachedTable_def cachedColumns_def)
qed

lemma agrees_apps:
  assumes "ms_apps src = Inr apps" "unique_tables apps"
  shows "agrees prio src apps (ListActiveApps src)"
proof (rule agreesI)
  have n: "ListActiveApps src None = (Inr apps, None)" by (simp add: ListActiveApps_def assms(1))
  then show "snd (ListActiveApps src None) = None" by simp
  fix m assume "consistent prio src apps m"
  from list_apps_cached[OF assms this] n
  show "\<exists>m'. ListActiveApps src (Some m) = (fst (ListActiveApps src None), Some m') \<and> consistent prio src apps m'"
    by (metis fst_conv)
qed

lemma agrees_by_name:
  assumes "ms_apps src = Inr apps" "unique_tables apps"
  shows "agrees prio src apps (FindYAMLTableByName src tableName)"
proof (rule agreesI)
  let ?n = "trim_lower tableName"
  have n: "FindYAMLTableByName src tableName None = (Inr (if ?n = [] then None else table_of_name apps ?n), None)"
    by (simp add: FindYAMLTableByName_def Let_def cachedYAMLTableByName_def ListActiveApps_def assms(1))
  then show "snd (FindYAMLTableByName src tableName None) = None" by simp
  fix m assume c: "consistent prio src apps m"
  from list_apps_cached[OF assms c] obtain m' where m': "ListActiveApps src (Some m) = (Inr apps, Some m')"
    "consistent prio src apps m'" "loaded_from apps m'" .
  from c show "\<exists>m'. FindYAMLTableByName src tableName (Some m) = (fst (FindYAMLTableByName src tableName None), Some m') \<and>
      consistent prio src apps m'"
    using m' by (auto simp: n) (auto simp: FindYAMLTableByName_def Let_def cachedYAMLTableByName_def loaded_from_def
        consistent_def not_loaded_def)
qed

lemma agrees_by_id:
  assumes "ms_apps src = Inr apps" "unique_tables apps"
  shows "agrees prio src apps (FindYAMLTableByID src tableID)"
proof (cases "parseYAMLTableID tableID")
  case None
  then have "FindYAMLTableByID src tableID = Pair (Inr None)" by (simp add: FindYAMLTableByID_def fun_eq_iff)
  then show ?thesis by (simp add: agrees_const)
next
  case (Some an)
  obtain a t where an: "an = (a, t)" by (cases an)
  from Some have colon: "CHR '':'' \<notin> set a"
    by (auto simp: an parseYAMLTableID_def split: if_splits option.splits dest!: cut1_Some)
  show ?thesis
  proof (rule agreesI)
    have n: "FindYAMLTableByID src tableID None = (Inr (table_of_id apps a t), None)"
      by (simp add: FindYAMLTableByID_def Some an cachedYAMLTableByID_def ListActiveApps_def assms(1))
    then show "snd (FindYAMLTableByID src tableID None) = None" by simp
    fix m assume c: "consistent prio src apps m"
    from list_apps_cached[OF assms c] obtain m' where m': "ListActiveApps src (Some m) = (Inr apps, Some m')"
      "consistent prio src apps m'" "loaded_from apps m'" .
    from c show "\<exists>m'. FindYAMLTableByID src tableID (Some m) = (fst (FindYAMLTableByID src tableID None), Some m') \<and>
        consistent prio src apps m'"
      using m' colon by (auto simp: n) (auto simp: FindYAMLTableByID_def Some an cachedYAMLTableByID_def loaded_from_def
          consistent_def not_loaded_def)
  qed
qed


lemma agrees_table:
  assumes "ms_apps src = Inr apps" "unique_tables apps"
  shows "agrees prio src apps (GetTable src tableName)"
proof (cases "trim_lower tableName = [] \<or> \<not> IsSafeIdentifier (trim_lower tableName)")
  case True
  then have "GetTable src tableName = Pair zero_Table" by (auto simp: GetTable_def Let_def fun_eq_iff)
  then show ?thesis by (simp add: agrees_const)
next
  case False
  let ?n = "trim_lower tableName"
  let ?compute = "\<lambda>c. case FindYAMLTableByName src ?n c of
          (Inr (Some (app, t)), c') \<Rightarrow> (BuildYAMLTable app t, c')
        | (Inl e, c') \<Rightarrow> (zero_Table, c')
        | (Inr None, c') \<Rightarrow> (case ms_table src ?n of Inr (Some t) \<Rightarrow> (t, c') | _ \<Rightarrow> (zero_Table, c'))"
  let ?answer = "\<lambda>r. case r of Inr (Some (app, t)) \<Rightarrow> BuildYAMLTable app t | Inl e \<Rightarrow> zero_Table
      | Inr None \<Rightarrow> (case ms_table src ?n of Inr (Some t) \<Rightarrow> t | _ \<Rightarrow> zero_Table)"
  have "?compute = (\<lambda>c. case FindYAMLTableByName src ?n c of (r, c') \<Rightarrow> Pair (?answer r) c')"
    by (auto simp: fun_eq_iff split: prod.split sum.split option.split)
  then have c: "agrees prio src apps ?compute"
    using agrees_bind[OF agrees_by_name[OF assms, of prio ?n], of "\<lambda>r. Pair (?answer r)"] by (simp add: agrees_const)
  have t: "GetTable src tableName = through cachedTable storeTable ?n ?compute" "GetTable src ?n = GetTable src tableName"
    using False by (auto simp: GetTable_def Let_def fun_eq_iff)
  have "fst (?compute None) = fst (GetTable src ?n None)"
    unfolding t by (simp add: through_def split: prod.split)
  from table_cache.agrees_through[where k = ?n, OF c this] show ?thesis unfolding t(1) .
qed

lemma agrees_columns:
  assumes "ms_apps src = Inr apps" "unique_tables apps"
  shows "agrees prio src apps (GetColumns prio src tableID)"
proof -
  let ?compute = "\<lambda>c. case FindYAMLTableByID src tableID c of
         (Inl e, c') \<Rightarrow> (Inl (AppsError e), c')
       | (Inr (Some (app, t)), c') \<Rightarrow> (case ListActiveApps src c' of
             (r, c'') \<Rightarrow> (Inr (BuildYAMLColumns prio (Some r) app t), c''))
       | (Inr None, c') \<Rightarrow> (case parsePhysicalTableID tableID of
             Some n \<Rightarrow> (map_sum PhysicalError id (ms_columns src n), c')
           | None \<Rightarrow> (Inl (UnknownTableID tableID), c'))"
  let ?next = "\<lambda>r c'. case r of Inl e \<Rightarrow> (Inl (AppsError e), c')
       | Inr (Some (app, t)) \<Rightarrow> (case ListActiveApps src c' of
             (r, c'') \<Rightarrow> (Inr (BuildYAMLColumns prio (Some r) app t), c''))
       | Inr None \<Rightarrow> Pair (case parsePhysicalTableID tableID of
             Some n \<Rightarrow> map_sum PhysicalError id (ms_columns src n) | None \<Rightarrow> Inl (UnknownTableID tableID)) c'"
  have e: "?compute = (\<lambda>c. case FindYAMLTableByID src tableID c of (r, c') \<Rightarrow> ?next r c')"
    by (auto simp: fun_eq_iff split: prod.split sum.split option.split)
  have apps: "agrees prio src apps (\<lambda>c'. case ListActiveApps src c' of
      (r, c'') \<Rightarrow> Pair (Inr (BuildYAMLColumns prio (Some r) app t)) c'')" for app t
    by (intro agrees_bind agrees_apps[OF assms] agrees_const)
  have "agrees prio src apps (?next r)" for r
  proof (cases r)
    case (Inr f)
    then show ?thesis using apps by (cases f) (simp_all add: agrees_const split_beta)
  qed (simp add: agrees_const)
  then have c: "agrees prio src apps ?compute" unfolding e by (intro agrees_bind agrees_by_id[OF assms])
  have t: "GetColumns prio src tableID = through cachedColumns storeColumns tableID ?compute"
    by (simp add: GetColumns_def fun_eq_iff)
  have "fst (?compute None) = fst (GetColumns prio src tableID None)"
    unfolding t by (simp add: through_def split: prod.split)
  from column_cache.agrees_through[OF c this] show ?thesis unfolding t .
qed


lemma agrees_view:
  assumes "ms_apps src = Inr apps" "unique_tables apps"
  shows "agrees prio src apps (GetView prio src tableName)"
proof (cases "trim_lower tableName = []")
  case True
  then have "GetView prio src tableName = Pair \<lparr>vi_Table = None, vi_Columns = []\<rparr>"
    by (auto simp: GetView_def Let_def fun_eq_iff)
  then show ?thesis by (simp add: agrees_const)
next
  case False
  let ?n = "trim_lower tableName"
  let ?none = "\<lparr>vi_Table = None, vi_Columns = []\<rparr>"
  let ?table = "fst (GetTable src ?n None)"
  let ?columns = "fst (GetColumns prio src (tb_ID ?table) None)"
  let ?view = "if tb_ID ?table = [] then ?none
    else case ?columns of Inl e \<Rightarrow> ?none | Inr columns \<Rightarrow> \<lparr>vi_Table = Some ?table, vi_Columns = columns\<rparr>"
  have n: "GetView prio src tableName None = (?view, None)"
    unfolding GetView_def Let_def bind.simps
    by (subst agrees_None[OF agrees_table[OF assms, of prio ?n]], simp only: prod.case if_False False option.case,
      subst agrees_None[OF agrees_columns[OF assms, of prio "tb_ID ?table"]]) (auto split: sum.split)
  have same: "GetView prio src ?n = GetView prio src tableName" by (simp add: GetView_def fun_eq_iff)
  show ?thesis
  proof (rule agreesI)
    from n show "snd (GetView prio src tableName None) = None" by simp
    fix m assume c: "consistent prio src apps m"
    show "\<exists>m'. GetView prio src tableName (Some m) = (fst (GetView prio src tableName None), Some m') \<and>
        consistent prio src apps m'"
    proof (cases "cachedView m ?n")
      case (Some v)
      from view_cache.consistent_get[OF c Some] have "v = ?view" by (simp add: same n)
      with Some False c n show ?thesis by (simp add: GetView_def Let_def)
    next
      case None
      obtain m1 where m1: "GetTable src ?n (Some m) = (?table, Some m1)" "consistent prio src apps m1"
        by (rule agreesE[OF agrees_table[OF assms] c])
      obtain m2 where m2: "GetColumns prio src (tb_ID ?table) (Some m1) = (?columns, Some m2)" "consistent prio src apps m2"
        by (rule agreesE[OF agrees_columns[OF assms] m1(2)])
      have put: "consistent prio src apps (storeView m2 ?n ?view)"
        by (rule view_cache.consistent_put[OF m2(2)]) (simp add: same n)
      have "\<exists>m'. GetView prio src tableName (Some m) = (?view, Some m') \<and> consistent prio src apps m'"
        using None False m1 m2 put by (cases ?columns) (auto simp: GetView_def Let_def split: if_splits)
      then show ?thesis by (simp only: n fst_conv)
    qed
  qed
qed

lemma agrees_base_tables: "agrees prio src apps (ListPhysicalBaseTables src)"
proof (rule agreesI)
  fix m assume c: "consistent prio src apps m"
  show "\<exists>m'. ListPhysicalBaseTables src (Some m) = (fst (ListPhysicalBaseTables src None), Some m') \<and>
      consistent prio src apps m'"
  proof (cases "ca_physicalBaseTables m")
    case None
    let ?m = "m\<lparr>ca_physicalBaseTables := Some (ms_baseTables src)\<rparr>"
    have "consistent prio src apps ?m"
      using c by (simp add: consistent_def not_loaded_def loaded_from_def tables.faithful_def columns.faithful_def
        views.faithful_def cachedTable_def cachedColumns_def cachedView_def)
    with None show ?thesis by (simp add: ListPhysicalBaseTables_def storePhysicalBaseTables_def)
  next
    case (Some r)
    with c have "r = ms_baseTables src" by (simp add: consistent_def)
    with c Some show ?thesis by (simp add: ListPhysicalBaseTables_def)
  qed
qed (simp add: ListPhysicalBaseTables_def)

lemma agrees_exists:
  assumes "ms_apps src = Inr apps" "unique_tables apps"
  shows "agrees prio src apps (TableExists src tableName)"
proof (cases "trim_lower tableName = [] \<or> \<not> IsSafeIdentifier (trim_lower tableName)")
  case True
  then have "TableExists src tableName = Pair False" by (auto simp: TableExists_def Let_def fun_eq_iff)
  then show ?thesis by (simp add: agrees_const)
next
  case False
  let ?n = "trim_lower tableName"
  let ?physical = "case ms_table src ?n of Inr (Some _) \<Rightarrow> True | _ \<Rightarrow> False"
  let ?answer = "\<lambda>r. case r of Inr (Some _) \<Rightarrow> True | _ \<Rightarrow> ?physical"
  have "TableExists src tableName = (\<lambda>c. case FindYAMLTableByName src ?n c of (r, c') \<Rightarrow> Pair (?answer r) c')"
    using False by (auto simp: TableExists_def Let_def fun_eq_iff split: prod.split sum.split option.split)
  then show ?thesis using agrees_bind[OF agrees_by_name[OF assms, of prio ?n], of "\<lambda>r. Pair (?answer r)"] by (simp add: agrees_const)
qed

lemma agrees_map: "agrees prio src apps q \<Longrightarrow> agrees prio src apps (\<lambda>c. map_prod f id (q c))"
  by (fastforce simp: agrees_def)

lemma agrees_perform:
  assumes "ms_apps src = Inr apps" "unique_tables apps"
  shows "agrees prio src apps (perform prio src l)"
proof -
  note agrees = agrees_apps[OF assms] agrees_by_name[OF assms] agrees_by_id[OF assms] agrees_table[OF assms]
    agrees_columns[OF assms] agrees_view[OF assms] agrees_base_tables agrees_exists[OF assms]
  have "agrees prio src apps (\<lambda>c. perform prio src l c)"
    by (cases l) (simp_all only: perform.simps agrees[THEN agrees_map])
  then show ?thesis .
qed

lemma new_consistent: "consistent prio src apps newRequestMetadataCache"
  by (simp add: consistent_def not_loaded_def newRequestMetadataCache_def tables.faithful_def columns.faithful_def
      views.faithful_def cachedTable_def cachedColumns_def cachedView_def)

lemma lookups_agree:
  assumes "ms_apps src = Inr apps" "unique_tables apps" "consistent prio src apps m"
  shows "lookups prio src ls (Some m) = map (\<lambda>l. fst (perform prio src l None)) ls"
  using assms(3)
proof (induction ls arbitrary: m)
  case (Cons l ls)
  obtain m' where "perform prio src l (Some m) = (fst (perform prio src l None), Some m')" "consistent prio src apps m'"
    by (rule agreesE[OF agrees_perform[OF assms(1,2)] Cons.prems])
  with Cons.IH show ?case by simp
qed simp

text \<open>
  When the apps load and no two published tables share their identifier, any sequence of lookups
  of apps, tables, columns, views and base tables through the metadata cache of a request gives the answers that
  each lookup gives without a cache.
\<close>

theorem cache_transparent:
  assumes "ms_apps src = Inr apps" "unique_tables apps"
  shows "lookups prio src ls (Some newRequestMetadataCache) = map (\<lambda>l. fst (perform prio src l None)) ls"
  by (rule lookups_agree[OF assms new_consistent])


section \<open>A failed load\<close>

definition load_failed :: "app_error \<Rightarrow> requestMetadataCache option \<Rightarrow> bool" where
  "load_failed e c \<longleftrightarrow> (\<exists>m. c = Some m \<and> ca_apps m = Some (Inl e) \<and> ca_byName m = Map.empty \<and> ca_byID m = Map.empty)"

lemma failed_apps: "load_failed e c \<Longrightarrow> ListActiveApps src c = (Inl e, c)"
  by (auto simp: load_failed_def ListActiveApps_def)

lemma failed_by_name: "load_failed e c \<Longrightarrow> FindYAMLTableByName src n c = (Inr None, c)"
  by (auto simp: load_failed_def FindYAMLTableByName_def Let_def cachedYAMLTableByName_def)

lemma failed_by_id: "load_failed e c \<Longrightarrow> FindYAMLTableByID src i c = (Inr None, c)"
  by (auto simp: load_failed_def FindYAMLTableByID_def cachedYAMLTableByID_def split: option.split)

lemma failed_stores [simp]:
  "load_failed e (Some (storeTable m n t)) = load_failed e (Some m)"
  "load_failed e (Some (storeColumns m i r)) = load_failed e (Some m)"
  "load_failed e (Some (storeView m n v)) = load_failed e (Some m)"
  "load_failed e (Some (storePhysicalBaseTables m b)) = load_failed e (Some m)"
  by (simp_all add: load_failed_def storeTable_def storeColumns_def storeView_def storePhysicalBaseTables_def
      split: option.split)

lemma failed_through:
  assumes "load_failed e c" "load_failed e (snd (compute c))"
    and "\<And>m. load_failed e (Some (put m k (fst (compute c)))) = load_failed e (Some m)"
  shows "load_failed e (snd (through get put k compute c))"
proof -
  obtain m where c: "c = Some m" using assms(1) by (auto simp: load_failed_def)
  obtain m' where "snd (compute c) = Some m'" using assms(2) by (auto simp: load_failed_def)
  with assms show ?thesis by (cases "get m k") (auto simp: c through_def split: prod.split)
qed

lemma failed_table: "load_failed e c \<Longrightarrow> load_failed e (snd (GetTable src n c))"
  unfolding GetTable_def Let_def
  by (simp, intro impI failed_through) (auto simp: failed_by_name split: sum.split option.split)

lemma failed_columns: "load_failed e c \<Longrightarrow> load_failed e (snd (GetColumns prio src i c))"
  unfolding GetColumns_def
  by (intro failed_through) (auto simp: failed_by_id split: option.split)

lemma failed_view: "load_failed e c \<Longrightarrow> load_failed e (snd (GetView prio src n c))"
proof -
  assume f: "load_failed e c"
  then have t: "load_failed e (snd (GetTable src (trim_lower n) c))" by (rule failed_table)
  then have "load_failed e (snd (GetColumns prio src i (snd (GetTable src (trim_lower n) c))))" for i
    by (rule failed_columns)
  note cs = this[of "tb_ID (fst (GetTable src (trim_lower n) c))"]
  then obtain m where m: "snd (GetColumns prio src (tb_ID (fst (GetTable src (trim_lower n) c)))
      (snd (GetTable src (trim_lower n) c))) = Some m" by (auto simp: load_failed_def)
  show ?thesis using f t cs
    by (simp add: GetView_def Let_def split_beta m split: option.split sum.split)
qed

lemma failed_base_tables: "load_failed e c \<Longrightarrow> load_failed e (snd (ListPhysicalBaseTables src c))"
  by (cases c) (auto simp: ListPhysicalBaseTables_def load_failed_def[of e None] split: option.split)

lemma failed_perform: "load_failed e c \<Longrightarrow> load_failed e (snd (perform prio src l c))"
  by (cases l) (auto simp: failed_apps failed_by_name failed_by_id failed_table failed_columns failed_view
      failed_base_tables TableExists_def Let_def)

lemma failed_lookups:
  "load_failed e c \<Longrightarrow> last (lookups prio src (ls @ [LByName n]) c) = AFound (Inr None)"
proof (induction ls arbitrary: c)
  case (Cons l ls)
  have "lookups prio src (ls @ [LByName n]) c' \<noteq> []" for c'
    by (cases ls) (auto split: prod.split)
  with Cons.IH[OF failed_perform[OF Cons.prems]] show ?case by (simp add: split_beta)
qed (simp add: failed_by_name)

text \<open>
  When the read of the active apps fails, the first lookup of a table reports the error, but after
  any further lookups of the same request the same table is reported as not found, without an error:
  the cache records the failed load as loaded.
\<close>

theorem failed_load_forgotten:
  assumes "ms_apps src = Inl e" "trim_lower n \<noteq> []"
  shows "hd (lookups prio src (LByName n # ls @ [LByName n]) (Some newRequestMetadataCache)) = AFound (Inl e) \<and>
    last (lookups prio src (LByName n # ls @ [LByName n]) (Some newRequestMetadataCache)) = AFound (Inr None)"
proof -
  let ?c = "Some (newRequestMetadataCache\<lparr>ca_apps := Some (Inl e)\<rparr>)"
  have p: "perform prio src (LByName n) (Some newRequestMetadataCache) = (AFound (Inl e), ?c)"
    using assms by (simp add: FindYAMLTableByName_def Let_def cachedYAMLTableByName_def newRequestMetadataCache_def
      ListActiveApps_def storeActiveApps_def)
  have f: "load_failed e ?c" by (simp add: load_failed_def newRequestMetadataCache_def)
  have "lookups prio src (ls @ [LByName n]) ?c \<noteq> []" by (cases ls) (auto split: prod.split)
  with p failed_lookups[OF f, of prio src ls n] show ?thesis by (simp del: perform.simps)
qed

end
