(* ===== verification/TablesSamples.thy ===== *)
theory TablesSamples
  imports ValidateSamples MetadataLaws
begin

text \<open>Concrete tables, and the properties of their resolution and of the metadata cache applied to them.\<close>

definition fleet_column :: "string \<Rightarrow> string \<Rightarrow> string \<Rightarrow> AppDefinitionColumn" where
  "fleet_column name dataType p = \<lparr>dc_Name = name, dc_Label = [], dc_DataType = dataType, dc_IsNullable = True, dc_DefaultValue = [],
     dc_Prefix = p, dc_ValidationRegex = [], dc_ValidationExpr = [], dc_ConditionExpr = [], dc_ValidationMessage = [],
     dc_ReferenceTable = [], dc_Choices = []\<rparr>"

definition fleet_draft :: AppDefinition where
  "fleet_draft = zero_definition\<lparr>ad_Name := ''fl'', ad_Namespace := ''fl'',
     ad_Tables := [zero_table\<lparr>dt_Name := ''fl_a'', dt_Extensible := True,
        dt_Columns := [fleet_column ''p'' ''text'' []]\<rparr>,
      zero_table\<lparr>dt_Name := ''fl_b'', dt_Extends := ''fl_a'',
        dt_Columns := [fleet_column ''n'' ''autnumber'' ''TRK'']\<rparr>]\<rparr>"

definition fleet_app :: RegisteredApp where
  "fleet_app = registered ''fl'' ''fl'' None"

lemma fleet_parts:
  "case prepareDefinitionForApp fleet_app fleet_draft of Inl e \<Rightarrow> False
   | Inr d \<Rightarrow> Option.is_none (validate_header d) \<and> Option.is_none (validate_parts no_checkers fleet_app d []) \<and>
       ad_Dependencies d = [] \<and> self_contained d \<and> ad_Tables d \<noteq> []"
  by code_simp

lemma fleet_accepted:
  assumes "prepareDefinitionForApp fleet_app fleet_draft = Inr d"
  shows "validateAppDefinitionForApp no_checkers rev (Inr []) fleet_app d = None" "self_contained d"
    "last (ad_Tables d) \<in> set (ad_Tables d)"
  using fleet_parts by (simp_all add: assms Option.is_none_def validateAppDefinitionForApp_def)

lemma accepted_columns_resolve_witness:
  "case prepareDefinitionForApp fleet_app fleet_draft of Inl e \<Rightarrow> False
   | Inr d \<Rightarrow> \<not> isl (resolveDefinitionColumnsWithApps (\<lambda>n. 0) [] (registered ''fl'' ''fl'' (Some d)) (last (ad_Tables d)) [])"
proof (cases "prepareDefinitionForApp fleet_app fleet_draft")
  case (Inr d)
  let ?app = "registered ''fl'' ''fl'' (Some d)"
  have "effectiveRegisteredAppDefinition ?app = Some d"
    by (simp add: effectiveRegisteredAppDefinition_def registered_def)
  from accepted_columns_resolve[OF Inr fleet_accepted[OF Inr] this, of "\<lambda>n. 0" "[]"]
  obtain cs where "resolveDefinitionColumnsWithApps (\<lambda>n. 0) [] ?app (last (ad_Tables d)) [] = Inr cs" by blast
  with Inr show ?thesis by simp
qed (use fleet_parts in simp)

definition mail_source :: metadata_source where
  "mail_source = \<lparr>ms_apps = Inr [mail_app, shop_app], ms_table = \<lambda>n. Inr None, ms_columns = \<lambda>n. Inr [], ms_baseTables = Inr []\<rparr>"

lemma cache_transparent_witness:
  "lookups (\<lambda>n. 0) mail_source [LByName ''m_box'', LView ''m_box''] (Some newRequestMetadataCache) =
   map (\<lambda>l. fst (perform (\<lambda>n. 0) mail_source l None)) [LByName ''m_box'', LView ''m_box'']"
  by (rule cache_transparent[of _ "[mail_app, shop_app]"]) (simp add: mail_source_def, code_simp)

definition broken_source :: metadata_source where
  "broken_source = mail_source\<lparr>ms_apps := Inl TableNameRequired\<rparr>"

lemma failed_load_forgotten_witness:
  "hd (lookups (\<lambda>n. 0) broken_source (LByName ''box'' # [LApps] @ [LByName ''box'']) (Some newRequestMetadataCache))
     = AFound (Inl TableNameRequired) \<and>
   last (lookups (\<lambda>n. 0) broken_source (LByName ''box'' # [LApps] @ [LByName ''box'']) (Some newRequestMetadataCache))
     = AFound (Inr None)"
  by (rule failed_load_forgotten) (simp add: broken_source_def, code_simp)

end
