(* ===== verification/AppPages.thy ===== *)
theory AppPages
  imports AppValidate
begin

text \<open>
  The pages of the apps (\<open>internal/db/PageRuntime.go\<close>, \<open>cmd/server/page_route.go\<close>, \<open>handlePage.go\<close>):
  qualified slugs, the pages stored in \<open>_page\<close> and their synchronisation with the published
  definitions, and what a visitor of a page is shown.

  A missing relation is \<open>None\<close>. The \<open>CHECK\<close> constraints and the unique version numbers are those of
  the migrations 022 and 023; a failed statement aborts the transaction. \<open>now\<close> is the time of the
  transaction, and \<open>prio\<close> the arbitrary order in which a loop over a map visits its keys.
\<close>

section \<open>Slugs\<close>

definition slug_head :: "char \<Rightarrow> bool" where "slug_head c \<longleftrightarrow> is_lower_byte c \<or> is_digit_byte c"

definition slug_tail :: "char \<Rightarrow> bool" where "slug_tail c \<longleftrightarrow> slug_head c \<or> c = CHR ''-''"

definition simplePageSlugPattern :: "string \<Rightarrow> bool" where
  "simplePageSlugPattern s = (case s of [] \<Rightarrow> False | c # t \<Rightarrow> slug_head c \<and> length t \<le> 63 \<and> list_all slug_tail t)"

definition isSimplePageSlug :: "string \<Rightarrow> bool" where
  "isSimplePageSlug input = simplePageSlugPattern (trim_lower input)"

definition QualifiedPageSlug :: "string \<Rightarrow> string \<Rightarrow> string" where
  "QualifiedPageSlug namespace slug =
     (let ns = trim_lower namespace; s = trim_lower slug in
      if \<not> isSimplePageSlug s then []
      else if ns = [] then CHR ''_'' # s
      else if \<not> IsSafeIdentifier ns then []
      else ns @ CHR ''_'' # s)"

text \<open>The text before and after the last separator.\<close>

definition cut_last :: "char \<Rightarrow> string \<Rightarrow> (string \<times> string) option" where
  "cut_last c s = map_option (\<lambda>(a, b). (rev b, rev a)) (cut1 c (rev s))"

definition ParseQualifiedPageSlug :: "string \<Rightarrow> (string \<times> string) option" where
  "ParseQualifiedPageSlug input =
     (let i = trim_lower input in
      if i = [] then None
      else if HasPrefix i ''_'' then
        (if isSimplePageSlug (TrimPrefix i ''_'') then Some ([], TrimPrefix i ''_'') else None)
      else (case cut_last (CHR ''_'') i of None \<Rightarrow> None
        | Some (ns, s) \<Rightarrow> if ns = [] \<or> s = [] then None
            else if \<not> IsSafeIdentifier ns \<or> \<not> isSimplePageSlug s then None else Some (ns, s)))"

definition IsQualifiedPageSlug :: "string \<Rightarrow> bool" where
  "IsQualifiedPageSlug input \<longleftrightarrow> ParseQualifiedPageSlug input \<noteq> None"

definition normalizePageRouteSlug :: "string \<Rightarrow> string" where
  "normalizePageRouteSlug input =
     (let s = trim_lower input in
      if IsQualifiedPageSlug s then s else if simplePageSlugPattern s then QualifiedPageSlug [] s else [])"

section \<open>The stored pages\<close>

record page_row =
  pr_name :: string
  pr_slug :: string
  pr_content :: string
  pr_editor_mode :: string
  pr_status :: string
  pr_published_at :: "nat option"

record page_store =
  ps_pages :: "page_row list option"
  ps_versions :: "(string \<times> nat) list option"

datatype page_error = BadEditorMode string | BadPageStatus string | VersionTaken string nat

definition stored_pages :: "page_store \<Rightarrow> page_row list" where
  "stored_pages st = (case ps_pages st of None \<Rightarrow> [] | Some rows \<Rightarrow> rows)"

definition page_checks :: "string \<Rightarrow> string \<Rightarrow> page_error option" where
  "page_checks editorMode status =
     (if editorMode \<notin> {''wysiwyg'', ''html''} then Some (BadEditorMode editorMode)
      else if status \<notin> {''draft'', ''published''} then Some (BadPageStatus status) else None)"

definition deleteRuntimePageTx :: "string \<Rightarrow> page_store \<Rightarrow> page_store" where
  "deleteRuntimePageTx q st = st\<lparr>ps_versions := map_option (filter (\<lambda>v. fst v \<noteq> q)) (ps_versions st),
     ps_pages := map_option (filter (\<lambda>r. pr_slug r \<noteq> q)) (ps_pages st)\<rparr>"

definition rename_page :: "string \<Rightarrow> string \<Rightarrow> page_row \<Rightarrow> page_row" where
  "rename_page old new r = (if pr_slug r = old then r\<lparr>pr_slug := new\<rparr> else r)"

text \<open>The first version number that the new slug has already.\<close>

definition taken_version :: "string \<Rightarrow> string \<Rightarrow> (string \<times> nat) list \<Rightarrow> nat option" where
  "taken_version old new vs = map_option snd (find (\<lambda>v. fst v = old \<and> (new, snd v) \<in> set vs) vs)"

definition migrateLegacySystemPageSlugTx :: "string \<Rightarrow> string \<Rightarrow> page_store \<Rightarrow> (page_error, page_store) result" where
  "migrateLegacySystemPageSlugTx legacySlug qualifiedSlug st =
     (let l = trim_lower legacySlug; q = trim_lower qualifiedSlug in
      if l = [] \<or> q = [] \<or> l = q then Inr st
      else if list_ex (\<lambda>r. pr_slug r = q) (stored_pages st) then Inr (deleteRuntimePageTx l st)
      else (case Option.bind (ps_versions st) (taken_version l q) of
          Some n \<Rightarrow> Inl (VersionTaken q n)
        | None \<Rightarrow> Inr (st\<lparr>ps_versions := map_option (map (\<lambda>v. if fst v = l then (q, snd v) else v)) (ps_versions st),
            ps_pages := map_option (map (rename_page l q)) (ps_pages st)\<rparr>)))"

definition page_row_name :: "AppDefinitionPage \<Rightarrow> string \<Rightarrow> string" where
  "page_row_name p q =
     (if TrimSpace (pg_Name p) \<noteq> [] then TrimSpace (pg_Name p)
      else if TrimSpace (pg_Label p) \<noteq> [] then TrimSpace (pg_Label p)
      else if humanizeIdentifier (pg_Slug p) \<noteq> [] then humanizeIdentifier (pg_Slug p)
      else q)"

definition page_editor_mode :: "AppDefinitionPage \<Rightarrow> string" where
  "page_editor_mode p = (if trim_lower (pg_EditorMode p) = [] then ''wysiwyg'' else trim_lower (pg_EditorMode p))"

definition page_status :: "AppDefinitionPage \<Rightarrow> string" where
  "page_status p = (if trim_lower (pg_Status p) = [] then ''draft'' else trim_lower (pg_Status p))"

definition page_unchanged :: "AppDefinitionPage \<Rightarrow> string \<Rightarrow> page_row \<Rightarrow> bool" where
  "page_unchanged p q r \<longleftrightarrow> pr_name r = page_row_name p q \<and> pr_content r = pg_Content p \<and>
     EqualFold (pr_editor_mode r) (page_editor_mode p) \<and> EqualFold (pr_status r) (page_status p) \<and>
     (page_status p \<noteq> ''published'' \<or> pr_published_at r \<noteq> None)"

definition update_page_row :: "nat \<Rightarrow> AppDefinitionPage \<Rightarrow> string \<Rightarrow> page_row \<Rightarrow> page_row" where
  "update_page_row now p q r = r\<lparr>pr_name := page_row_name p q, pr_content := pg_Content p,
     pr_editor_mode := page_editor_mode p, pr_status := page_status p,
     pr_published_at := (if page_status p = ''published'' \<and> pr_published_at r = None then Some now
       else if page_status p = ''draft'' then None else pr_published_at r)\<rparr>"

definition new_page_row :: "nat \<Rightarrow> AppDefinitionPage \<Rightarrow> string \<Rightarrow> page_row" where
  "new_page_row now p q = \<lparr>pr_name = page_row_name p q, pr_slug = q, pr_content = pg_Content p,
     pr_editor_mode = page_editor_mode p, pr_status = page_status p,
     pr_published_at = (if page_status p = ''published'' then Some now else None)\<rparr>"

text \<open>The row read, if there is one, is the first with the slug; the update changes them all.\<close>

definition write_page :: "nat \<Rightarrow> string \<Rightarrow> AppDefinitionPage \<Rightarrow> page_store \<Rightarrow> (page_error, page_store) result" where
  "write_page now q p st =
     (let checked = (\<lambda>st'. case page_checks (page_editor_mode p) (page_status p) of Some e \<Rightarrow> Inl e | None \<Rightarrow> Inr st') in
      case find (\<lambda>r. pr_slug r = q) (stored_pages st) of
        None \<Rightarrow> checked (st\<lparr>ps_pages := map_option (\<lambda>rows. rows @ [new_page_row now p q]) (ps_pages st)\<rparr>)
      | Some r \<Rightarrow> if page_unchanged p q r then Inr st
          else checked (st\<lparr>ps_pages := map_option (map (\<lambda>r. if pr_slug r = q then update_page_row now p q r else r))
            (ps_pages st)\<rparr>))"

definition upsertRuntimePageTx ::
  "nat \<Rightarrow> string \<Rightarrow> string \<Rightarrow> AppDefinitionPage \<Rightarrow> page_store \<Rightarrow> (page_error, page_store) result" where
  "upsertRuntimePageTx now namespace q p st =
     and_then (if TrimSpace namespace = [] then migrateLegacySystemPageSlugTx (pg_Slug p) q st else Inr st)
       (write_page now q p)"

section \<open>Synchronisation\<close>

definition put_page :: "string \<Rightarrow> AppDefinitionPage \<Rightarrow> (string \<times> AppDefinitionPage) list \<Rightarrow> (string \<times> AppDefinitionPage) list" where
  "put_page q p pages = filter (\<lambda>x. fst x \<noteq> q) pages @ [(q, p)]"

definition qualifiedDefinitionPages :: "string \<Rightarrow> AppDefinition option \<Rightarrow> (string \<times> AppDefinitionPage) list" where
  "qualifiedDefinitionPages namespace d = (case d of None \<Rightarrow> []
     | Some d \<Rightarrow> foldl (\<lambda>pages p. let q = QualifiedPageSlug namespace (pg_Slug p) in
         if q = [] then pages else put_page q p pages) [] (ad_Pages d))"

definition pages_in_order :: "(string \<Rightarrow> nat) \<Rightarrow> (string \<times> AppDefinitionPage) list \<Rightarrow> (string \<times> AppDefinitionPage) list" where
  "pages_in_order prio pages = sort_key (\<lambda>x. prio (fst x)) pages"

fun upsert_pages ::
  "nat \<Rightarrow> string \<Rightarrow> (string \<times> AppDefinitionPage) list \<Rightarrow> page_store \<Rightarrow> (page_error, page_store) result" where
  "upsert_pages now namespace [] st = Inr st"
| "upsert_pages now namespace ((q, p) # pages) st =
     and_then (upsertRuntimePageTx now namespace q p st) (upsert_pages now namespace pages)"

definition syncPublishedAppPagesTx ::
  "(string \<Rightarrow> nat) \<Rightarrow> nat \<Rightarrow> RegisteredApp \<Rightarrow> AppDefinition option \<Rightarrow> AppDefinition option \<Rightarrow> page_store
     \<Rightarrow> (page_error, page_store) result" where
  "syncPublishedAppPagesTx prio now app published next st =
     (if ps_pages st = None then Inr st
      else let publishedPages = qualifiedDefinitionPages (ra_Namespace app) published;
            nextPages = qualifiedDefinitionPages (ra_Namespace app) next;
            removed = filter (\<lambda>q. q \<notin> fst ` set nextPages) (map fst (pages_in_order prio publishedPages))
        in upsert_pages now (ra_Namespace app) (pages_in_order prio nextPages) (fold deleteRuntimePageTx removed st))"

fun sync_apps :: "(string \<Rightarrow> nat) \<Rightarrow> nat \<Rightarrow> RegisteredApp list \<Rightarrow> page_store \<Rightarrow> (page_error, page_store) result" where
  "sync_apps prio now [] st = Inr st"
| "sync_apps prio now (app # apps) st =
     and_then (if ra_Definition app = None then Inr st
         else syncPublishedAppPagesTx prio now app None (ra_Definition app) st)
       (sync_apps prio now apps)"

text \<open>The transaction commits only when every app is synchronised; otherwise the store is unchanged.\<close>

definition SyncPublishedAppPages ::
  "(string \<Rightarrow> nat) \<Rightarrow> nat \<Rightarrow> (app_error, RegisteredApp list) result \<Rightarrow> page_store
     \<Rightarrow> (app_error + page_error) option \<times> page_store" where
  "SyncPublishedAppPages prio now listApps st = (case listApps of Inl e \<Rightarrow> (Some (Inl e), st)
     | Inr apps \<Rightarrow> (case sync_apps prio now apps st of Inl e \<Rightarrow> (Some (Inr e), st) | Inr st' \<Rightarrow> (None, st')))"

section \<open>Visits\<close>

definition runtime_pages :: "RegisteredApp list \<Rightarrow> (RegisteredApp \<times> AppDefinitionPage) list" where
  "runtime_pages apps = concat (map (\<lambda>app. case runtimeDefinitionForApp app of None \<Rightarrow> []
     | Some d \<Rightarrow> map (Pair app) (ad_Pages d)) apps)"

definition page_slug :: "RegisteredApp \<times> AppDefinitionPage \<Rightarrow> string" where
  "page_slug ap = QualifiedPageSlug (ra_Namespace (fst ap)) (pg_Slug (snd ap))"

definition findRuntimePageBySlugWithApps ::
  "RegisteredApp list \<Rightarrow> string \<Rightarrow> (RegisteredApp \<times> AppDefinitionPage) option" where
  "findRuntimePageBySlugWithApps apps slug =
     (let s = trim_lower slug in
      if \<not> IsQualifiedPageSlug s then None else find (\<lambda>ap. page_slug ap = s) (runtime_pages apps))"

text \<open>\<open>None\<close> when no app has the page, otherwise its evaluator, if its section is not empty.\<close>

definition LoadPageSecurityEvaluator ::
  "(string \<Rightarrow> string \<Rightarrow> (app_error, string list) result) \<Rightarrow> (app_error, RegisteredApp list) result \<Rightarrow> string
     \<Rightarrow> string \<Rightarrow> (app_error, TableSecurityEvaluator option option) result" where
  "LoadPageSecurityEvaluator roles listApps slug userID =
     (case listApps of Inl e \<Rightarrow> Inl e
      | Inr apps \<Rightarrow> (case findRuntimePageBySlugWithApps apps slug of None \<Rightarrow> Inr None
          | Some (app, p) \<Rightarrow> map_sum id Some (loadSecurityEvaluatorForConfig roles app [] (pg_Security p) userID)))"

definition loadPageBySlug :: "page_store \<Rightarrow> string \<Rightarrow> page_row option" where
  "loadPageBySlug st slug = find (\<lambda>r. pr_slug r = slug) (stored_pages st)"

datatype page_response = PageNotFound | MovedTo string | SecurityFailed | LoginShown | PageForbidden | PageShown page_row

definition pageReadAccess :: "string \<Rightarrow> string \<Rightarrow> bool \<Rightarrow> bool \<Rightarrow> page_response option" where
  "pageReadAccess sec userID hasSecurityDefinition allowed =
     (if \<not> hasSecurityDefinition \<or> allowed then None
      else if sec = ''Public'' then Some (if TrimSpace userID = [] then LoginShown else PageNotFound)
      else Some PageForbidden)"

definition renderPageBySlug ::
  "gotime \<Rightarrow> (string \<Rightarrow> string \<Rightarrow> (app_error, string list) result) \<Rightarrow> (app_error, RegisteredApp list) result \<Rightarrow> page_store
     \<Rightarrow> string \<Rightarrow> string \<Rightarrow> string \<Rightarrow> page_response" where
  "renderPageBySlug now roles listApps st user slug sec =
     (case loadPageBySlug st slug of
        None \<Rightarrow>
          (let legacy = normalizePageRouteSlug slug in
           if \<not> IsQualifiedPageSlug slug \<and> simplePageSlugPattern (trim_lower slug) \<and> legacy \<noteq> [] \<and> legacy \<noteq> slug \<and>
             loadPageBySlug st legacy \<noteq> None
           then MovedTo (''/p/'' @ legacy) else PageNotFound)
      | Some pg \<Rightarrow>
          if sec = ''Public'' \<and> pr_status pg \<noteq> ''published'' then PageNotFound
          else (let userID = TrimSpace user in
            case LoadPageSecurityEvaluator roles listApps slug userID of Inl e \<Rightarrow> SecurityFailed
            | Inr sec' \<Rightarrow>
                (let has = (sec' \<noteq> None);
                   allowed = (case sec' of None \<Rightarrow> True | Some sev \<Rightarrow> AllowsRecord now sev ''R'' []) in
                 case pageReadAccess sec userID has allowed of Some denied \<Rightarrow> denied | None \<Rightarrow> PageShown pg)))"

end
