(* ===== verification/AppPagesLaws.thy ===== *)
theory AppPagesLaws
  imports AppPages AppValidateLaws
begin

text \<open>
  Qualified slugs are read back as they were built; a synchronisation changes each stored page exactly
  as its specification says, whatever the order of the maps; and a visitor is shown the content of a
  page only when the security section of that page admits him, if no two pages share their slug.
\<close>

section \<open>Slugs\<close>

lemma cut_last_append: "c \<notin> set b \<Longrightarrow> cut_last c (a @ c # b) = Some (a, b)"
  using cut1_append[of c "rev b" "rev a"] by (simp add: cut_last_def)

lemma cut_last_Some: "cut_last c s = Some (a, b) \<Longrightarrow> s = a @ c # b \<and> c \<notin> set b"
proof -
  assume "cut_last c s = Some (a, b)"
  then have "cut1 c (rev s) = Some (rev b, rev a)" by (auto simp: cut_last_def)
  from cut1_Some[OF this] have "rev s = rev b @ c # rev a" "c \<notin> set b" by auto
  then have "rev (rev s) = rev (rev b @ c # rev a)" by simp
  with \<open>c \<notin> set b\<close> show ?thesis by simp
qed

lemma slug_bytes: "simplePageSlugPattern s \<Longrightarrow> list_all slug_tail s"
  by (auto simp: simplePageSlugPattern_def slug_tail_def split: list.splits)

lemma slug_no_separator: "simplePageSlugPattern s \<Longrightarrow> CHR ''_'' \<notin> set s"
  using slug_bytes[of s] by (auto simp: list_all_iff slug_tail_def slug_head_def is_lower_byte_def is_digit_byte_def)

lemma slug_ne: "simplePageSlugPattern s \<Longrightarrow> s \<noteq> []"
  by (auto simp: simplePageSlugPattern_def)

lemma slug_plain: "slug_tail c \<Longrightarrow> plain_byte c" "slug_tail c \<Longrightarrow> lower_byte c = c"
  by (auto simp: slug_tail_def slug_head_def plain_byte_def lower_byte_def is_lower_byte_def is_upper_byte_def
      is_digit_byte_def)


lemma simple_slug: "isSimplePageSlug s \<longleftrightarrow> simplePageSlugPattern (trim_lower s)"
  by (simp add: isSimplePageSlug_def)

lemma has_underscore: "HasPrefix s ''_'' \<longleftrightarrow> (\<exists>t. s = CHR ''_'' # t)"
  by (cases s) (auto simp: HasPrefix_def)

lemma trim_underscore [simp]: "TrimPrefix (CHR ''_'' # t) ''_'' = t"
  by (simp add: TrimPrefix_def HasPrefix_def)

lemma slug_fixed: "simplePageSlugPattern s \<Longrightarrow> trim_lower s = s"
proof -
  assume p: "simplePageSlugPattern s"
  then have t: "\<forall>c \<in> set s. slug_tail c" using slug_bytes by (simp add: list_all_iff)
  then have "TrimSpace s = s" by (intro TrimSpace_plain) (auto intro: slug_plain)
  moreover from t have "ToLower s = s" unfolding ToLower_def by (intro map_idI slug_plain) auto
  ultimately show ?thesis by (simp add: TrimSpace_ToLower)
qed

lemma qualified_cases:
  assumes "QualifiedPageSlug ns s \<noteq> []"
  obtains (bare) "trim_lower ns = []" "QualifiedPageSlug ns s = CHR ''_'' # trim_lower s" "simplePageSlugPattern (trim_lower s)"
    | (named) "trim_lower ns \<noteq> []" "QualifiedPageSlug ns s = trim_lower ns @ CHR ''_'' # trim_lower s"
        "simplePageSlugPattern (trim_lower s)" "IsSafeIdentifier (trim_lower ns)"
  using assms by (auto simp: QualifiedPageSlug_def Let_def simple_slug split: if_splits)

lemma safe_bytes_plain: "IsSafeIdentifier a \<Longrightarrow> \<forall>c \<in> set a. plain_byte c"
  by (auto simp: IsSafeIdentifier_def ident_tail_def ident_head_def plain_byte_def is_lower_byte_def is_upper_byte_def
      is_digit_byte_def list_all_iff split: list.splits)

lemma slug_all_plain: "simplePageSlugPattern b \<Longrightarrow> \<forall>c \<in> set b. plain_byte c"
  using slug_bytes by (auto simp: list_all_iff intro: slug_plain)

lemma append_plain: "IsSafeIdentifier a \<or> a = [] \<Longrightarrow> trim_lower a = a \<Longrightarrow> simplePageSlugPattern b \<Longrightarrow> trim_lower (a @ CHR ''_'' # b) = a @ CHR ''_'' # b"
proof -
  assume a: "IsSafeIdentifier a \<or> a = []" "trim_lower a = a" and b: "simplePageSlugPattern b"
  have p: "\<forall>c \<in> set (a @ CHR ''_'' # b). plain_byte c"
    using a(1) safe_bytes_plain[of a] slug_all_plain[OF b] by (auto simp: plain_byte_def)
  have "ToLower a = a" using a by (metis TrimSpace_safe TrimSpace_Nil ToLower_Nil TrimSpace_ToLower)
  moreover have "ToLower b = b" unfolding ToLower_def using slug_bytes[OF b]
    by (intro map_idI slug_plain(2)) (auto simp: list_all_iff)
  ultimately have "ToLower (a @ CHR ''_'' # b) = a @ CHR ''_'' # b"
    by (simp add: ToLower_append) (simp add: ToLower_def lower_byte_def is_upper_byte_def)
  with TrimSpace_plain[OF p] show ?thesis by (simp add: TrimSpace_ToLower)
qed

lemma qualified_fixed: "trim_lower (QualifiedPageSlug ns s) = QualifiedPageSlug ns s"
proof (cases "QualifiedPageSlug ns s = []")
  case False
  then show ?thesis
  proof (cases rule: qualified_cases)
    case bare
    with append_plain[of "[]"] show ?thesis by simp
  next
    case named
    with append_plain[of "trim_lower ns"] show ?thesis by simp
  qed
qed simp

text \<open>
  A namespace that begins with an underscore is never read back.
\<close>

lemma parse_qualified:
  "ParseQualifiedPageSlug (QualifiedPageSlug ns s) =
     (if QualifiedPageSlug ns s = [] \<or> HasPrefix (trim_lower ns) ''_'' then None
      else Some (trim_lower ns, trim_lower s))"
proof (cases "QualifiedPageSlug ns s = []")
  case True
  then show ?thesis by (simp add: ParseQualifiedPageSlug_def)
next
  case False
  note fixed = qualified_fixed[of ns s]
  from False show ?thesis
  proof (cases rule: qualified_cases)
    case bare
    have "\<not> HasPrefix (trim_lower ns) ''_''" by (simp add: bare(1) HasPrefix_def)
    with bare fixed show ?thesis
      by (simp add: ParseQualifiedPageSlug_def Let_def has_underscore simple_slug)
  next
    case named
    let ?n = "trim_lower ns" and ?s = "trim_lower s"
    have u: "CHR ''_'' \<notin> set ?s" by (rule slug_no_separator[OF named(3)])
    show ?thesis
    proof (cases "HasPrefix ?n ''_''")
      case True
      then obtain t where t: "?n = CHR ''_'' # t" by (auto simp: has_underscore)
      have "\<not> isSimplePageSlug (t @ CHR ''_'' # ?s)"
      proof
        let ?r = "t @ CHR ''_'' # ?s"
        assume r: "isSimplePageSlug ?r"
        have "\<forall>c \<in> set ?r. plain_byte c"
          using safe_bytes_plain[OF named(4)] slug_all_plain[OF named(3)] unfolding t by (auto simp: plain_byte_def)
        then have "TrimSpace ?r = ?r" by (rule TrimSpace_plain)
        then have "trim_lower ?r = ToLower ?r" by (metis TrimSpace_ToLower)
        with r have "CHR ''_'' \<notin> set (ToLower ?r)" by (metis simple_slug slug_no_separator)
        then show False by (simp add: ToLower_def lower_byte_def is_upper_byte_def)
      qed
      with True t named fixed show ?thesis by (simp add: ParseQualifiedPageSlug_def Let_def has_underscore)
    next
      case False
      have "\<not> HasPrefix (?n @ CHR ''_'' # ?s) ''_''" using False named(1) by (cases ?n) (auto simp: has_underscore)
      with False named fixed slug_ne[OF named(3)] cut_last_append[OF u, of ?n] show ?thesis
        by (simp add: ParseQualifiedPageSlug_def Let_def simple_slug)
    qed
  qed
qed


section \<open>Synchronisation\<close>

text \<open>The rows of a slug, and what a synchronisation makes of them for a page.\<close>

definition rows_at :: "page_store \<Rightarrow> string \<Rightarrow> page_row list" where
  "rows_at st s = filter (\<lambda>r. pr_slug r = s) (stored_pages st)"

definition synced_rows :: "nat \<Rightarrow> string \<Rightarrow> AppDefinitionPage \<Rightarrow> page_row list \<Rightarrow> page_row list" where
  "synced_rows now q p rows = (case rows of [] \<Rightarrow> [new_page_row now p q]
     | r # _ \<Rightarrow> if page_unchanged p q r then rows else map (update_page_row now p q) rows)"

text \<open>A page of the system app without rows of its own takes over those of its old, bare slug.\<close>

definition inherited_rows :: "string \<Rightarrow> string \<Rightarrow> page_store \<Rightarrow> page_row list" where
  "inherited_rows namespace q st =
     (if TrimSpace namespace = [] \<and> rows_at st q = []
      then map (\<lambda>r. r\<lparr>pr_slug := q\<rparr>) (rows_at st (TrimPrefix q ''_'')) else rows_at st q)"

lemma find_filter_hd: "find P xs = (case filter P xs of [] \<Rightarrow> None | x # _ \<Rightarrow> Some x)"
  by (induction xs) auto

lemma stored_map: "ps_pages st \<noteq> None \<Longrightarrow> ps_pages st' = map_option f (ps_pages st) \<Longrightarrow> stored_pages st' = f (stored_pages st)"
  by (auto simp: stored_pages_def)

lemma filter_map_slug:
  assumes "\<And>r. pr_slug r \<noteq> q \<Longrightarrow> f r = r" "\<And>r. pr_slug (f r) = pr_slug r"
  shows "filter (\<lambda>r. pr_slug r = s) (map f rows) = (if s = q then map f (filter (\<lambda>r. pr_slug r = s) rows)
    else filter (\<lambda>r. pr_slug r = s) rows)"
  using assms by (induction rows) auto

lemma rows_update:
  assumes "ps_pages st \<noteq> None"
  shows "rows_at (st\<lparr>ps_pages := map_option (map (\<lambda>r. if pr_slug r = q then update_page_row now p q r else r)) (ps_pages st)\<rparr>) s =
    (if s = q then map (update_page_row now p q) (rows_at st q) else rows_at st s)"
proof -
  let ?f = "\<lambda>r. if pr_slug r = q then update_page_row now p q r else r"
  have "rows_at (st\<lparr>ps_pages := map_option (map ?f) (ps_pages st)\<rparr>) s = filter (\<lambda>r. pr_slug r = s) (map ?f (stored_pages st))"
    unfolding rows_at_def by (subst stored_map[OF assms]) simp_all
  also have "\<dots> = (if s = q then map ?f (rows_at st q) else rows_at st s)"
    by (subst filter_map_slug[of q]) (simp_all add: update_page_row_def rows_at_def)
  also have "map ?f (rows_at st q) = map (update_page_row now p q) (rows_at st q)"
    by (auto simp: rows_at_def)
  finally show ?thesis .
qed

lemma write_page_rows:
  assumes "write_page now q p st = Inr st'" "ps_pages st \<noteq> None"
  shows "rows_at st' s = (if s = q then synced_rows now q p (rows_at st q) else rows_at st s)" "ps_pages st' \<noteq> None"
proof -
  have f: "find (\<lambda>r. pr_slug r = q) (stored_pages st) = (case rows_at st q of [] \<Rightarrow> None | r # _ \<Rightarrow> Some r)"
    by (simp add: find_filter_hd rows_at_def)
  show "rows_at st' s = (if s = q then synced_rows now q p (rows_at st q) else rows_at st s)"
  proof (cases "rows_at st q")
    case Nil
    with assms(1) f have st': "st' = st\<lparr>ps_pages := map_option (\<lambda>rows. rows @ [new_page_row now p q]) (ps_pages st)\<rparr>"
      by (auto simp: write_page_def split: option.splits)
    have "stored_pages st' = stored_pages st @ [new_page_row now p q]"
      by (rule stored_map[OF assms(2)]) (simp add: st')
    with Nil show ?thesis by (auto simp: rows_at_def synced_rows_def new_page_row_def)
  next
    case (Cons r rs)
    show ?thesis
    proof (cases "page_unchanged p q r")
      case True
      with assms(1) f Cons have "st' = st" by (simp add: write_page_def)
      with True Cons show ?thesis by (simp add: synced_rows_def)
    next
      case False
      with assms(1) f Cons have "st' = st\<lparr>ps_pages := map_option (map (\<lambda>r. if pr_slug r = q then update_page_row now p q r else r)) (ps_pages st)\<rparr>"
        by (auto simp: write_page_def split: option.splits)
      with rows_update[OF assms(2)] False Cons show ?thesis by (simp add: synced_rows_def)
    qed
  qed
  show "ps_pages st' \<noteq> None"
    using assms by (auto simp: write_page_def Let_def split: option.splits if_splits)
qed


lemma delete_rows:
  "rows_at (deleteRuntimePageTx q st) s = (if s = q then [] else rows_at st s)"
  "ps_pages (deleteRuntimePageTx q st) = None \<longleftrightarrow> ps_pages st = None"
  by (auto simp: rows_at_def deleteRuntimePageTx_def stored_pages_def filter_empty_conv split: option.splits
      intro!: filter_cong)

lemma filter_renamed:
  assumes "l \<noteq> q"
  shows "filter (\<lambda>r. pr_slug r = s) (map (rename_page l q) rows) =
    (if s = l then [] else if s = q then map (rename_page l q) (filter (\<lambda>r. pr_slug r \<in> {l, q}) rows)
     else filter (\<lambda>r. pr_slug r = s) rows)"
  using assms by (induction rows) (auto simp: rename_page_def)

lemma migrate_rows:
  assumes "migrateLegacySystemPageSlugTx legacy q st = Inr st'" "ps_pages st \<noteq> None"
    and "trim_lower legacy = l" "q = CHR ''_'' # l" "simplePageSlugPattern l"
  shows "rows_at st' s = (if s = q then inherited_rows [] q st else if s = l then [] else rows_at st s)"
    "ps_pages st' \<noteq> None"
proof -
  have ne: "l \<noteq> []" "l \<noteq> q" using slug_ne[OF assms(5)] by (simp_all add: assms(4))
  have q: "trim_lower q = q" using append_plain[of "[]" l] assms(4,5) by simp
  have e: "list_ex (\<lambda>r. pr_slug r = q) (stored_pages st) \<longleftrightarrow> rows_at st q \<noteq> []"
    by (auto simp: rows_at_def list_ex_iff filter_empty_conv)
  note unfolded = assms(1)[unfolded migrateLegacySystemPageSlugTx_def Let_def assms(3) q e]
  show "rows_at st' s = (if s = q then inherited_rows [] q st else if s = l then [] else rows_at st s)"
  proof (cases "rows_at st q = []")
    case False
    with unfolded ne have "st' = deleteRuntimePageTx l st" using assms(4) by simp
    with delete_rows False ne show ?thesis by (auto simp: inherited_rows_def)
  next
    case True
    have "ps_pages st' = map_option (map (rename_page l q)) (ps_pages st)"
      using unfolded ne True assms(4) by (auto split: option.splits)
    from stored_map[OF assms(2) this]
    have "rows_at st' s = filter (\<lambda>r. pr_slug r = s) (map (rename_page l q) (stored_pages st))"
      by (simp add: rows_at_def)
    also have "\<dots> = (if s = l then [] else if s = q then map (rename_page l q) (filter (\<lambda>r. pr_slug r \<in> {l, q}) (stored_pages st))
       else rows_at st s)" by (simp add: filter_renamed[OF ne(2)] rows_at_def)
    also have "filter (\<lambda>r. pr_slug r \<in> {l, q}) (stored_pages st) = rows_at st l"
      using True by (auto simp: rows_at_def filter_empty_conv intro!: filter_cong)
    also have "map (rename_page l q) (rows_at st l) = map (\<lambda>r. r\<lparr>pr_slug := q\<rparr>) (rows_at st l)"
      by (auto simp: rows_at_def rename_page_def)
    finally show ?thesis using True ne by (auto simp: inherited_rows_def assms(4))
  qed
  show "ps_pages st' \<noteq> None"
    using unfolded ne assms(2,4) delete_rows(2)[of l st] by (auto split: if_splits option.splits)
qed

text \<open>A page that may be synchronised: its key is its qualified slug.\<close>

definition keyed :: "string \<Rightarrow> string \<times> AppDefinitionPage \<Rightarrow> bool" where
  "keyed namespace qp \<longleftrightarrow> fst qp \<noteq> [] \<and> fst qp = QualifiedPageSlug namespace (pg_Slug (snd qp))"

lemma keyedD: "keyed ns (q, p) \<Longrightarrow> QualifiedPageSlug ns (pg_Slug p) = q \<and> q \<noteq> []"
  by (simp add: keyed_def) metis

lemma keyed_bare:
  assumes "keyed ns (q, p)" "TrimSpace ns = []"
  shows "q = CHR ''_'' # trim_lower (pg_Slug p)" "simplePageSlugPattern (trim_lower (pg_Slug p))"
proof -
  note k = keyedD[OF assms(1)]
  then have "QualifiedPageSlug ns (pg_Slug p) \<noteq> []" by simp
  then have "QualifiedPageSlug ns (pg_Slug p) = CHR ''_'' # trim_lower (pg_Slug p) \<and>
      simplePageSlugPattern (trim_lower (pg_Slug p))"
    by (cases rule: qualified_cases) (use assms(2) in \<open>simp_all add: TrimSpace_ToLower\<close>)
  with k show "q = CHR ''_'' # trim_lower (pg_Slug p)" "simplePageSlugPattern (trim_lower (pg_Slug p))" by simp_all
qed

lemma upsert_rows:
  assumes "upsertRuntimePageTx now ns q p st = Inr st'" "ps_pages st \<noteq> None" "keyed ns (q, p)"
  shows "rows_at st' s = (if s = q then synced_rows now q p (inherited_rows ns q st)
      else if TrimSpace ns = [] \<and> q = CHR ''_'' # s then [] else rows_at st s)"
    "ps_pages st' \<noteq> None"
proof -
  obtain st1 where st1: "(if TrimSpace ns = [] then migrateLegacySystemPageSlugTx (pg_Slug p) q st else Inr st) = Inr st1"
    "write_page now q p st1 = Inr st'"
    using assms(1) by (auto simp: upsertRuntimePageTx_def and_then_def split: sum.splits)
  have pre: "rows_at st1 s = (if s = q then inherited_rows ns q st
      else if TrimSpace ns = [] \<and> q = CHR ''_'' # s then [] else rows_at st s)" "ps_pages st1 \<noteq> None" for s
  proof -
    have "rows_at st1 s = (if s = q then inherited_rows ns q st
      else if TrimSpace ns = [] \<and> q = CHR ''_'' # s then [] else rows_at st s) \<and> ps_pages st1 \<noteq> None"
    proof (cases "TrimSpace ns = []")
      case True
      then have "migrateLegacySystemPageSlugTx (pg_Slug p) q st = Inr st1" using st1(1) by simp
      note m = migrate_rows[OF this assms(2) refl keyed_bare[OF assms(3) True]]
      have "q = CHR ''_'' # s \<longleftrightarrow> s = trim_lower (pg_Slug p)" using keyed_bare(1)[OF assms(3) True] by auto
      with m(1)[of s] m(2) True show ?thesis by (auto simp: inherited_rows_def)
    next
      case False
      with st1(1) assms(2) show ?thesis by (auto simp: inherited_rows_def)
    qed
    then show "rows_at st1 s = (if s = q then inherited_rows ns q st
      else if TrimSpace ns = [] \<and> q = CHR ''_'' # s then [] else rows_at st s)" "ps_pages st1 \<noteq> None" by auto
  qed
  from write_page_rows[OF st1(2) pre(2)] pre(1)
  show "rows_at st' s = (if s = q then synced_rows now q p (inherited_rows ns q st)
      else if TrimSpace ns = [] \<and> q = CHR ''_'' # s then [] else rows_at st s)" "ps_pages st' \<noteq> None"
    by simp_all
qed


lemma keyed_shape: "keyed ns (q, p) \<Longrightarrow> TrimSpace ns = [] \<Longrightarrow> \<exists>l. q = CHR ''_'' # l \<and> CHR ''_'' \<notin> set l"
  using keyed_bare slug_no_separator by blast

lemma keyed_apart:
  assumes "keyed ns (q, p)" "keyed ns (q', p')" "TrimSpace ns = []"
  shows "q \<noteq> CHR ''_'' # q'" "q \<noteq> TrimPrefix q' ''_''" "q = CHR ''_'' # TrimPrefix q' ''_'' \<Longrightarrow> q = q'"
  using keyed_shape[OF assms(1,3)] keyed_shape[OF assms(2,3)] by auto

text \<open>What a synchronisation with \<open>pages\<close> makes of the rows of a slug.\<close>

definition synced :: "nat \<Rightarrow> string \<Rightarrow> (string \<Rightarrow> AppDefinitionPage option) \<Rightarrow> page_store \<Rightarrow> string \<Rightarrow> page_row list" where
  "synced now namespace pages st s = (case pages s of Some p \<Rightarrow> synced_rows now s p (inherited_rows namespace s st)
     | None \<Rightarrow> if TrimSpace namespace = [] \<and> pages (CHR ''_'' # s) \<noteq> None then [] else rows_at st s)"

lemma upsert_pages_rows:
  assumes "upsert_pages now ns qs st = Inr st'" "ps_pages st \<noteq> None" "\<forall>qp \<in> set qs. keyed ns qp" "distinct (map fst qs)"
  shows "rows_at st' s = synced now ns (map_of qs) st s \<and> ps_pages st' \<noteq> None"
  using assms
proof (induction qs arbitrary: st)
  case (Cons qp qs)
  obtain q p where qp: "qp = (q, p)" by (cases qp)
  from Cons.prems(1) obtain st1 where st1: "upsertRuntimePageTx now ns q p st = Inr st1" "upsert_pages now ns qs st1 = Inr st'"
    by (auto simp: qp and_then_def split: sum.splits)
  have k: "keyed ns (q, p)" "\<forall>qp \<in> set qs. keyed ns qp" "distinct (map fst qs)" "q \<notin> fst ` set qs"
    using Cons.prems(3,4) by (auto simp: qp)
  note u = upsert_rows[OF st1(1) Cons.prems(2) k(1)]
  have ih: "rows_at st' s = synced now ns (map_of qs) st1 s" "ps_pages st' \<noteq> None"
    using Cons.IH[OF st1(2) u(2) k(2,3)] by auto
  have other: "keyed ns (q', p')" if "map_of qs q' = Some p'" for q' p'
    using k(2) map_of_SomeD[OF that] by blast
  consider (own) "s = q" | (rest) p' where "s \<noteq> q" "map_of qs s = Some p'" | (free) "s \<noteq> q" "map_of qs s = None" by fastforce
  then have "synced now ns (map_of qs) st1 s = synced now ns (map_of (qp # qs)) st s"
  proof cases
    case own
    have "map_of qs q = None" using k(4) by (simp add: map_of_eq_None_iff)
    moreover have "map_of qs (CHR ''_'' # q) = None" if "TrimSpace ns = []"
      using other[of "CHR ''_'' # q"] keyed_apart(1)[OF _ k(1) that] by (cases "map_of qs (CHR ''_'' # q)") auto
    ultimately show ?thesis using own u(1)[of q] by (auto simp: synced_def qp)
  next
    case rest
    have "inherited_rows ns s st1 = inherited_rows ns s st"
    proof (cases "TrimSpace ns = []")
      case True
      note apart = keyed_apart[OF k(1) other[OF rest(2)] True]
      have "rows_at st1 s = rows_at st s" using u(1)[of s] rest(1) apart(1) by simp
      moreover have "rows_at st1 (TrimPrefix s ''_'') = rows_at st (TrimPrefix s ''_'')"
        using u(1)[of "TrimPrefix s ''_''"] apart(2,3) rest(1) by metis
      ultimately show ?thesis by (simp add: inherited_rows_def)
    next
      case False
      with u(1)[of s] rest(1) show ?thesis by (simp add: inherited_rows_def)
    qed
    with rest show ?thesis by (simp add: synced_def qp)
  next
    case free
    with u(1)[of s] show ?thesis by (auto simp: synced_def qp)
  qed
  with ih show ?case by (simp only: simp_thms)
qed (simp add: synced_def)

lemma delete_all_rows:
  "rows_at (fold deleteRuntimePageTx qs st) s = (if s \<in> set qs then [] else rows_at st s)"
  "ps_pages (fold deleteRuntimePageTx qs st) = None \<longleftrightarrow> ps_pages st = None"
  by (induction qs arbitrary: st) (auto simp: delete_rows)

text \<open>The map of the pages of a definition: the last page with a slug.\<close>

definition page_at :: "string \<Rightarrow> AppDefinition option \<Rightarrow> string \<Rightarrow> AppDefinitionPage option" where
  "page_at namespace d q = (case d of None \<Rightarrow> None
     | Some d \<Rightarrow> if q = [] then None else find (\<lambda>p. QualifiedPageSlug namespace (pg_Slug p) = q) (rev (ad_Pages d)))"

lemma map_of_put_page: "map_of (put_page q p pages) x = (if x = q then Some p else map_of pages x)"
  by (induction pages) (auto simp: put_page_def)

lemma distinct_put_page: "distinct (map fst pages) \<Longrightarrow> distinct (map fst (put_page q p pages))"
  by (auto simp: put_page_def distinct_map_filter)

lemma qualified_pages_state:
  fixes ns :: string
  defines "step \<equiv> \<lambda>pages p. let q = QualifiedPageSlug ns (pg_Slug p) in if q = [] then pages else put_page q p pages"
  assumes "distinct (map fst acc)" "\<forall>qp \<in> set acc. keyed ns qp"
  shows "distinct (map fst (foldl step acc ps)) \<and> (\<forall>qp \<in> set (foldl step acc ps). keyed ns qp) \<and>
    (\<forall>x. map_of (foldl step acc ps) x = (case (if x = [] then None else find (\<lambda>p. QualifiedPageSlug ns (pg_Slug p) = x) (rev ps)) of
       Some p \<Rightarrow> Some p | None \<Rightarrow> map_of acc x))"
  using assms(2,3)
proof (induction ps arbitrary: acc)
  case Nil
  have "map_of acc [] = None" using Nil(2) by (auto simp: map_of_eq_None_iff keyed_def)
  then show ?case using Nil by auto
next
  case (Cons p ps)
  have "distinct (map fst (step acc p))" "\<forall>qp \<in> set (step acc p). keyed ns qp"
    using Cons.prems distinct_put_page by (auto simp: step_def Let_def keyed_def) (auto simp: put_page_def keyed_def)
  note ih = Cons.IH[OF this]
  have m: "map_of (step acc p) x = (if x \<noteq> [] \<and> QualifiedPageSlug ns (pg_Slug p) = x then Some p else map_of acc x)" for x
    by (auto simp: step_def Let_def map_of_put_page)
  from ih show ?case by (auto simp: m find_append split: option.splits)
qed


lemma qualified_pages_at:
  "map_of (qualifiedDefinitionPages ns d) x = page_at ns d x"
  "distinct (map fst (qualifiedDefinitionPages ns d))" "\<forall>qp \<in> set (qualifiedDefinitionPages ns d). keyed ns qp"
proof -
  have "distinct (map fst (qualifiedDefinitionPages ns d)) \<and> (\<forall>qp \<in> set (qualifiedDefinitionPages ns d). keyed ns qp) \<and>
      map_of (qualifiedDefinitionPages ns d) x = page_at ns d x"
  proof (cases d)
    case None
    then show ?thesis by (simp add: qualifiedDefinitionPages_def page_at_def)
  next
    case (Some e)
    with qualified_pages_state[of "[]" ns "ad_Pages e"] show ?thesis
      by (auto simp: qualifiedDefinitionPages_def page_at_def split: option.splits)
  qed
  then show "map_of (qualifiedDefinitionPages ns d) x = page_at ns d x"
    "distinct (map fst (qualifiedDefinitionPages ns d))" "\<forall>qp \<in> set (qualifiedDefinitionPages ns d). keyed ns qp" by auto
qed

lemma map_of_in_order:
  assumes "distinct (map fst pages)"
  shows "map_of (pages_in_order prio pages) = map_of pages"
proof -
  have "distinct (map fst (pages_in_order prio pages))" "set (pages_in_order prio pages) = set pages"
    using assms by (auto simp: pages_in_order_def distinct_map)
  with assms show ?thesis by (intro map_of_eqI[OF _ ]) (auto simp: map_of_eq_Some_iff dest!: map_of_SomeD)
qed

definition next_rows :: "nat \<Rightarrow> string \<Rightarrow> AppDefinition option \<Rightarrow> AppDefinition option \<Rightarrow> page_store \<Rightarrow> string \<Rightarrow> page_row list" where
  "next_rows now namespace published next st s =
     (case page_at namespace next s of Some p \<Rightarrow> synced_rows now s p (inherited_rows namespace s st)
      | None \<Rightarrow> if page_at namespace published s \<noteq> None \<or>
            (TrimSpace namespace = [] \<and> page_at namespace next (CHR ''_'' # s) \<noteq> None) then [] else rows_at st s)"

lemma page_at_keyed: "page_at ns d q = Some p \<Longrightarrow> keyed ns (q, p)"
  by (auto simp: page_at_def keyed_def split: option.splits if_splits dest!: find_Some_mem)

lemma sync_rows:
  assumes "syncPublishedAppPagesTx prio now app published next st = Inr st'" "ps_pages st \<noteq> None"
  shows "rows_at st' s = next_rows now (ra_Namespace app) published next st s \<and> ps_pages st' \<noteq> None"
proof -
  let ?ns = "ra_Namespace app"
  let ?pub = "qualifiedDefinitionPages ?ns published" and ?new = "qualifiedDefinitionPages ?ns next"
  let ?removed = "filter (\<lambda>q. q \<notin> fst ` set ?new) (map fst (pages_in_order prio ?pub))"
  let ?st = "fold deleteRuntimePageTx ?removed st"
  have u: "upsert_pages now ?ns (pages_in_order prio ?new) ?st = Inr st'"
    using assms by (simp add: syncPublishedAppPagesTx_def Let_def)
  have m: "map_of (pages_in_order prio ?new) = page_at ?ns next"
    using map_of_in_order[OF qualified_pages_at(2)] qualified_pages_at(1) by (simp add: fun_eq_iff)
  have "set (pages_in_order prio ?new) = set ?new" by (simp add: pages_in_order_def)
  moreover have "distinct (map fst (pages_in_order prio ?new))"
    using qualified_pages_at(2)[of ?ns "next"] by (auto simp: pages_in_order_def distinct_map)
  ultimately have r: "rows_at st' s = synced now ?ns (page_at ?ns next) ?st s" "ps_pages st' \<noteq> None"
    using upsert_pages_rows[OF u, of s] qualified_pages_at(3)[of ?ns "next"] assms(2) m by (auto simp: delete_all_rows(2))
  have removed: "x \<in> set ?removed \<longleftrightarrow> page_at ?ns published x \<noteq> None \<and> page_at ?ns next x = None" for x
  proof -
    have "page_at ?ns d x = None \<longleftrightarrow> x \<notin> fst ` set (qualifiedDefinitionPages ?ns d)" for d
      using qualified_pages_at(1)[of ?ns d x] map_of_eq_None_iff by metis
    then show ?thesis by (auto simp: pages_in_order_def)
  qed
  have base: "rows_at ?st x = (if page_at ?ns published x \<noteq> None \<and> page_at ?ns next x = None then [] else rows_at st x)" for x
    using delete_all_rows(1)[of ?removed st x] by (simp only: removed)
  have "inherited_rows ?ns s ?st = inherited_rows ?ns s st" if "page_at ?ns next s = Some p" for p
  proof -
    have "page_at ?ns published (TrimPrefix s ''_'') = None" if blank: "TrimSpace ?ns = []"
    proof (rule ccontr)
      assume "page_at ?ns published (TrimPrefix s ''_'') \<noteq> None"
      then obtain p' where "keyed ?ns (TrimPrefix s ''_'', p')" using page_at_keyed by blast
      from keyed_apart(2)[OF this page_at_keyed[OF \<open>page_at ?ns next s = Some p\<close>] blank] show False by simp
    qed
    with that show ?thesis by (simp add: inherited_rows_def base)
  qed
  with r show ?thesis by (auto simp: synced_def next_rows_def base split: option.split)
qed


text \<open>
  A synchronisation leaves, for every slug, exactly the rows its specification says: those of a
  page of the new definition carry that page, those of a page that is gone or was renamed are deleted,
  all others are untouched; the order in which the maps are visited does not matter.
\<close>

theorem page_sync_exact:
  assumes "syncPublishedAppPagesTx prio now app published next st = Inr st'" "ps_pages st \<noteq> None"
  shows "rows_at st' s = next_rows now (ra_Namespace app) published next st s"
  using sync_rows[OF assms] by simp

lemma synced_content:
  "synced_rows now q p rows \<noteq> [] \<and> pr_content (hd (synced_rows now q p rows)) = pg_Content p \<and>
   pr_slug (hd (synced_rows now q p rows)) = (case rows of [] \<Rightarrow> q | r # _ \<Rightarrow> pr_slug r)"
  by (cases rows) (auto simp: synced_rows_def new_page_row_def page_unchanged_def update_page_row_def)

text \<open>A second synchronisation with the same page changes nothing.\<close>

lemma synced_again: "synced_rows now' q p (synced_rows now q p rows) = synced_rows now q p rows"
  by (cases rows) (auto simp: synced_rows_def new_page_row_def page_unchanged_def update_page_row_def EqualFold_def)

section \<open>The published pages of all apps\<close>

text \<open>The page whose content a synchronisation of all apps leaves at a slug: the last one.\<close>

fun last_page :: "RegisteredApp list \<Rightarrow> string \<Rightarrow> AppDefinitionPage option" where
  "last_page [] s = None"
| "last_page (app # apps) s = (case last_page apps s of Some p \<Rightarrow> Some p
     | None \<Rightarrow> page_at (ra_Namespace app) (ra_Definition app) s)"

lemma page_at_None: "page_at ns None s = None"
  by (simp add: page_at_def)

lemma loaded_row: "loadPageBySlug st s = (case rows_at st s of [] \<Rightarrow> None | r # _ \<Rightarrow> Some r)"
  by (simp add: loadPageBySlug_def rows_at_def find_filter_hd)

lemma sync_app_free:
  assumes "syncPublishedAppPagesTx prio now app None d st = Inr st'" "ps_pages st \<noteq> None"
    and "CHR ''_'' \<in> set s" "page_at (ra_Namespace app) d s = None"
  shows "rows_at st' s = rows_at st s"
proof -
  have "page_at (ra_Namespace app) d (CHR ''_'' # s) = None" if "TrimSpace (ra_Namespace app) = []"
  proof (rule ccontr)
    assume "page_at (ra_Namespace app) d (CHR ''_'' # s) \<noteq> None"
    then obtain p where "keyed (ra_Namespace app) (CHR ''_'' # s, p)" using page_at_keyed by blast
    from keyed_shape[OF this that] assms(3) show False by simp
  qed
  with sync_rows[OF assms(1,2), of s] assms(4) show ?thesis by (auto simp: next_rows_def page_at_None)
qed

lemma sync_apps_Cons:
  assumes "sync_apps prio now (app # apps) st = Inr st'" "ps_pages st \<noteq> None"
  obtains st1 where "sync_apps prio now apps st1 = Inr st'" "ps_pages st1 \<noteq> None"
    "\<And>s. CHR ''_'' \<in> set s \<Longrightarrow> page_at (ra_Namespace app) (ra_Definition app) s = None \<Longrightarrow> rows_at st1 s = rows_at st s"
    "\<And>s p. page_at (ra_Namespace app) (ra_Definition app) s = Some p \<Longrightarrow>
       rows_at st1 s = synced_rows now s p (inherited_rows (ra_Namespace app) s st)"
proof -
  from assms(1) obtain st1 where st1: "(if ra_Definition app = None then Inr st
      else syncPublishedAppPagesTx prio now app None (ra_Definition app) st) = Inr st1" "sync_apps prio now apps st1 = Inr st'"
    by (auto simp: and_then_def split: sum.splits)
  show thesis
  proof (cases "ra_Definition app = None")
    case True
    with st1 assms(2) show thesis by (intro that[of st]) (auto simp: page_at_None)
  next
    case False
    with st1(1) have y: "syncPublishedAppPagesTx prio now app None (ra_Definition app) st = Inr st1" by simp
    show thesis
      by (rule that[OF st1(2)]) (use sync_rows[OF y assms(2)] sync_app_free[OF y assms(2)] in \<open>auto simp: next_rows_def\<close>)
  qed
qed

lemma sync_apps_free:
  "sync_apps prio now apps st = Inr st' \<Longrightarrow> ps_pages st \<noteq> None \<Longrightarrow> CHR ''_'' \<in> set s \<Longrightarrow> last_page apps s = None \<Longrightarrow>
   rows_at st' s = rows_at st s"
proof (induction apps arbitrary: st)
  case (Cons app apps)
  from Cons.prems(4) have n: "last_page apps s = None" "page_at (ra_Namespace app) (ra_Definition app) s = None"
    by (auto split: option.splits)
  from Cons.prems(1,2) obtain st1 where st1: "sync_apps prio now apps st1 = Inr st'" "ps_pages st1 \<noteq> None"
    "rows_at st1 s = rows_at st s" by (rule sync_apps_Cons) (use Cons.prems(3) n(2) in blast)
  with Cons.IH[OF st1(1,2) Cons.prems(3) n(1)] show ?case by simp
qed simp

lemma sync_apps_content:
  assumes "sync_apps prio now apps st = Inr st'" "ps_pages st \<noteq> None" "CHR ''_'' \<in> set s" "last_page apps s = Some p"
  shows "\<exists>row. loadPageBySlug st' s = Some row \<and> pr_content row = pg_Content p"
  using assms
proof (induction apps arbitrary: st)
  case (Cons app apps)
  from Cons.prems(1,2) obtain st1 where st1: "sync_apps prio now apps st1 = Inr st'" "ps_pages st1 \<noteq> None"
    "\<And>p. page_at (ra_Namespace app) (ra_Definition app) s = Some p \<Longrightarrow>
       rows_at st1 s = synced_rows now s p (inherited_rows (ra_Namespace app) s st)"
    by (rule sync_apps_Cons) blast
  show ?case
  proof (cases "last_page apps s")
    case (Some p')
    with Cons.IH[OF st1(1,2) Cons.prems(3)] Cons.prems(4) show ?thesis by simp
  next
    case None
    with Cons.prems(4) st1(3) have "rows_at st1 s = synced_rows now s p (inherited_rows (ra_Namespace app) s st)" by simp
    with sync_apps_free[OF st1(1,2) Cons.prems(3) None]
    have r: "rows_at st' s = synced_rows now s p (inherited_rows (ra_Namespace app) s st)" by simp
    obtain x xs where "synced_rows now s p (inherited_rows (ra_Namespace app) s st) = x # xs" "pr_content x = pg_Content p"
      using synced_content[of now s p "inherited_rows (ra_Namespace app) s st"] by (metis list.exhaust_sel)
    with r show ?thesis by (simp add: loaded_row)
  qed
qed simp

section \<open>Visits\<close>

definition unique_pages :: "RegisteredApp list \<Rightarrow> bool" where
  "unique_pages apps \<longleftrightarrow> distinct (filter (\<lambda>s. s \<noteq> []) (map page_slug (runtime_pages apps)))"

text \<open>A visitor who is shown a page that some app has was admitted by the first page with its slug.\<close>

lemma shown_page:
  assumes "renderPageBySlug gt roles (Inr apps) st user slug sec = PageShown row"
    and "findRuntimePageBySlugWithApps apps slug = Some (app, p)"
  shows "loadPageBySlug st slug = Some row"
    "\<exists>sev. loadSecurityEvaluatorForConfig roles app [] (pg_Security p) user = Inr sev \<and> AllowsRecord gt sev ''R'' []"
proof -
  have u: "loadSecurityEvaluatorForConfig roles app [] (pg_Security p) (TrimSpace user) =
      loadSecurityEvaluatorForConfig roles app [] (pg_Security p) user"
    by (simp add: loadSecurityEvaluatorForConfig_def)
  have e: "LoadPageSecurityEvaluator roles (Inr apps) slug (TrimSpace user) =
      map_sum id Some (loadSecurityEvaluatorForConfig roles app [] (pg_Security p) user)"
    using assms(2) by (simp add: LoadPageSecurityEvaluator_def u)
  from assms(1) show "loadPageBySlug st slug = Some row"
    by (auto simp: renderPageBySlug_def pageReadAccess_def Let_def split: option.splits if_splits sum.splits)
  show "\<exists>sev. loadSecurityEvaluatorForConfig roles app [] (pg_Security p) user = Inr sev \<and> AllowsRecord gt sev ''R'' []"
  proof (cases "loadSecurityEvaluatorForConfig roles app [] (pg_Security p) user")
    case (Inl x)
    with assms(1) show ?thesis by (auto simp: renderPageBySlug_def Let_def e split: option.splits if_splits)
  next
    case (Inr sev)
    with assms(1) show ?thesis
      by (auto simp: renderPageBySlug_def pageReadAccess_def Let_def e split: option.splits if_splits)
  qed
qed

lemma find_page:
  assumes "(app, p) \<in> set (runtime_pages apps)" "page_slug (app, p) = slug" "slug \<noteq> []"
    and "\<not> HasPrefix (trim_lower (ra_Namespace app)) ''_''"
  shows "findRuntimePageBySlugWithApps apps slug = find (\<lambda>ap. page_slug ap = slug) (runtime_pages apps)"
    "CHR ''_'' \<in> set slug"
proof -
  have q: "slug = QualifiedPageSlug (ra_Namespace app) (pg_Slug p)" using assms(2) by (simp add: page_slug_def)
  have l: "trim_lower slug = slug" unfolding q by (rule qualified_fixed)
  have "IsQualifiedPageSlug slug"
    using assms(3,4) parse_qualified[of "ra_Namespace app" "pg_Slug p"] by (simp add: q IsQualifiedPageSlug_def)
  then show "findRuntimePageBySlugWithApps apps slug = find (\<lambda>ap. page_slug ap = slug) (runtime_pages apps)"
    by (simp add: findRuntimePageBySlugWithApps_def Let_def l)
  from assms(3) show "CHR ''_'' \<in> set slug" unfolding q by (cases rule: qualified_cases) simp_all
qed


lemma published_is_runtime:
  "app \<in> set apps \<Longrightarrow> ra_Definition app = Some d \<Longrightarrow> p \<in> set (ad_Pages d) \<Longrightarrow> (app, p) \<in> set (runtime_pages apps)"
  by (force simp: runtime_pages_def runtimeDefinitionForApp_def)

lemma unique_pagesD:
  assumes "unique_pages apps" "x \<in> set (runtime_pages apps)" "y \<in> set (runtime_pages apps)" "page_slug x = page_slug y"
    and "page_slug x \<noteq> []"
  shows "x = y"
proof -
  have "inj_on page_slug (set (filter ((\<lambda>s. s \<noteq> []) \<circ> page_slug) (runtime_pages apps)))"
    using assms(1) by (simp add: unique_pages_def filter_map distinct_map)
  then show ?thesis by (rule inj_onD) (use assms in simp_all)
qed

lemma page_at_Some:
  assumes "page_at (ra_Namespace app) (ra_Definition app) s = Some p"
  shows "\<exists>d. ra_Definition app = Some d \<and> p \<in> set (ad_Pages d) \<and> page_slug (app, p) = s \<and> s \<noteq> []"
  using assms by (auto simp: page_at_def page_slug_def split: option.splits if_splits dest!: find_Some_mem)

lemma last_page_Some:
  "last_page apps s = Some p \<Longrightarrow>
   \<exists>app d. app \<in> set apps \<and> ra_Definition app = Some d \<and> p \<in> set (ad_Pages d) \<and> page_slug (app, p) = s \<and> s \<noteq> []"
  by (induction apps) (auto split: option.splits dest!: page_at_Some)

lemma last_page_exists:
  "app \<in> set apps \<Longrightarrow> ra_Definition app = Some d \<Longrightarrow> p \<in> set (ad_Pages d) \<Longrightarrow> page_slug (app, p) = s \<Longrightarrow> s \<noteq> [] \<Longrightarrow>
   last_page apps s \<noteq> None"
proof (induction apps)
  case (Cons a apps)
  have "page_at (ra_Namespace app) (ra_Definition app) s \<noteq> None"
    using Cons.prems(2-5) by (auto simp: page_at_def page_slug_def find_None_iff simp del: not_None_eq)
  with Cons show ?case by (auto split: option.splits)
qed simp

lemma last_page_unique:
  assumes "unique_pages apps" "app \<in> set apps" "ra_Definition app = Some d" "p \<in> set (ad_Pages d)"
    and "page_slug (app, p) = s" "s \<noteq> []"
  shows "last_page apps s = Some p"
proof -
  obtain p' where p': "last_page apps s = Some p'" using last_page_exists[OF assms(2-6)] by blast
  from last_page_Some[OF this] obtain app' d' where "app' \<in> set apps" "ra_Definition app' = Some d'" "p' \<in> set (ad_Pages d')"
    "page_slug (app', p') = s" by blast
  then have "(app', p') = (app, p)"
    using assms by (intro unique_pagesD[OF assms(1)]) (auto intro: published_is_runtime)
  with p' show ?thesis by simp
qed

lemma sync_committed:
  assumes "SyncPublishedAppPages prio now (Inr apps) st = (None, st')"
  shows "sync_apps prio now apps st = Inr st'"
  using assms by (auto simp: SyncPublishedAppPages_def split: sum.splits)

text \<open>
  C30: after the pages of all apps are synchronised, and while no two pages share a qualified slug, a
  visitor who is shown the page of a published definition sees the content of that page, and its
  security section has admitted him to read it.
\<close>

theorem page_guarded:
  assumes "SyncPublishedAppPages prio now (Inr apps) st = (None, st')" "ps_pages st \<noteq> None" "unique_pages apps"
    and "app \<in> set apps" "ra_Definition app = Some d" "p \<in> set (ad_Pages d)"
    and "page_slug (app, p) = slug" "slug \<noteq> []" "\<not> HasPrefix (trim_lower (ra_Namespace app)) ''_''"
    and "renderPageBySlug gt roles (Inr apps) st' user slug sec = PageShown row"
  shows "pr_content row = pg_Content p \<and>
    (\<exists>sev. loadSecurityEvaluatorForConfig roles app [] (pg_Security p) user = Inr sev \<and> AllowsRecord gt sev ''R'' [])"
proof -
  have m: "(app, p) \<in> set (runtime_pages apps)" by (rule published_is_runtime[OF assms(4-6)])
  note f = find_page[OF m assms(7-9)]
  obtain ap where ap: "find (\<lambda>ap. page_slug ap = slug) (runtime_pages apps) = Some ap"
    using m assms(7) by (metis (mono_tags, lifting) find_None_iff not_None_eq)
  then have "ap = (app, p)"
    using m assms(7,8) by (intro unique_pagesD[OF assms(3)]) (auto dest: find_Some_mem)
  with ap f(1) have "findRuntimePageBySlugWithApps apps slug = Some (app, p)" by simp
  from shown_page[OF assms(10) this]
    sync_apps_content[OF sync_committed[OF assms(1)] assms(2) f(2) last_page_unique[OF assms(3-8)]]
  show ?thesis by simp
qed

text \<open>
  When two pages of a definition share their slug, the last one is stored but the first one
  guards it: whoever the section of the first page lets in is shown the content of the last, whatever
  its own section says.
\<close>

theorem duplicate_slug_bypasses_security:
  assumes "SyncPublishedAppPages prio now (Inr [app]) st = (None, st')" "ps_pages st \<noteq> None"
    and "ra_Definition app = Some d" "ad_Pages d = p # ps @ [p']"
    and "page_slug (app, p) = slug" "page_slug (app, p') = slug" "slug \<noteq> []"
    and "\<not> HasPrefix (trim_lower (ra_Namespace app)) ''_''"
    and "loadSecurityEvaluatorForConfig roles app [] (pg_Security p) user = Inr sev" "AllowsRecord gt sev ''R'' []"
  shows "\<exists>row. renderPageBySlug gt roles (Inr [app]) st' user slug ''Builder'' = PageShown row \<and> pr_content row = pg_Content p'"
proof -
  have r: "runtime_pages [app] = (app, p) # map (Pair app) (ps @ [p'])"
    by (simp add: runtime_pages_def runtimeDefinitionForApp_def assms(3,4))
  then have m: "(app, p) \<in> set (runtime_pages [app])" by simp
  note f = find_page[OF m assms(5,7,8)]
  have "findRuntimePageBySlugWithApps [app] slug = Some (app, p)" by (simp add: f(1) r assms(5))
  then have e: "LoadPageSecurityEvaluator roles (Inr [app]) slug (TrimSpace user) = Inr (Some sev)"
    using assms(9) by (simp add: LoadPageSecurityEvaluator_def) (simp add: loadSecurityEvaluatorForConfig_def)
  have "last_page [app] slug = Some p'"
    using assms(6,7) by (simp add: page_at_def assms(3,4) page_slug_def)
  from sync_apps_content[OF sync_committed[OF assms(1)] assms(2) f(2) this] obtain row where
    "loadPageBySlug st' slug = Some row" "pr_content row = pg_Content p'" by blast
  with e assms(10) show ?thesis by (simp add: renderPageBySlug_def pageReadAccess_def)
qed

text \<open>
  The qualified slug of a page is read back as its namespace and slug, except that a namespace that
  begins with an underscore is never read back; invalid slugs and namespaces give no qualified slug.
\<close>

theorem page_slug_roundtrip:
  "ParseQualifiedPageSlug (QualifiedPageSlug ns s) =
     (if QualifiedPageSlug ns s = [] \<or> HasPrefix (trim_lower ns) ''_'' then None
      else Some (trim_lower ns, trim_lower s))"
  by (rule parse_qualified)

end
