(* ===== verification/PagesSamples.thy ===== *)
theory PagesSamples
  imports ValidateSamples AppPagesLaws
begin

text \<open>Concrete pages, and the properties of their synchronisation and of visits applied to them.\<close>

definition sample_page :: "string \<Rightarrow> string \<Rightarrow> AppDefinitionSecurity \<Rightarrow> AppDefinitionPage" where
  "sample_page slug content security = \<lparr>pg_Name = ''P'', pg_Slug = slug, pg_Label = [], pg_Description = [],
     pg_SearchKeywords = [], pg_EditorMode = [], pg_Status = ''published'', pg_Content = content, pg_Actions = [],
     pg_Security = security\<rparr>"

definition staff_only :: AppDefinitionSecurity where
  "staff_only = zero_security\<lparr>se_Roles := [''staff'']\<rparr>"

definition news_definition :: AppDefinition where
  "news_definition = zero_definition\<lparr>ad_Name := ''n'', ad_Namespace := ''n'',
     ad_Pages := [sample_page ''a'' ''open'' zero_security]\<rparr>"

definition news_app :: RegisteredApp where "news_app = registered ''n'' ''n'' (Some news_definition)"

definition twice_definition :: AppDefinition where
  "twice_definition = zero_definition\<lparr>ad_Name := ''n'', ad_Namespace := ''n'',
     ad_Pages := [sample_page ''a'' ''open'' zero_security, sample_page ''a'' ''secret'' staff_only]\<rparr>"

definition twice_app :: RegisteredApp where "twice_app = registered ''n'' ''n'' (Some twice_definition)"

definition no_pages :: page_store where "no_pages = \<lparr>ps_pages = Some [], ps_versions = None\<rparr>"

definition page_time :: "string \<Rightarrow> nat" where "page_time s = 0"

definition synced_store :: "RegisteredApp \<Rightarrow> page_store" where
  "synced_store app = (case sync_apps page_time 7 [app] no_pages of Inl e \<Rightarrow> no_pages | Inr st \<Rightarrow> st)"

lemma synced_news:
  "case sync_apps page_time 7 [news_app] no_pages of Inl e \<Rightarrow> False
   | Inr st \<Rightarrow> map pr_slug (stored_pages st) = [''n_a''] \<and> map pr_content (stored_pages st) = [''open'']"
  by code_simp

lemma synced_twice:
  "case sync_apps page_time 7 [twice_app] no_pages of Inl e \<Rightarrow> False
   | Inr st \<Rightarrow> map pr_slug (stored_pages st) = [''n_a''] \<and> map pr_content (stored_pages st) = [''secret'']"
  by code_simp

lemma synced_apps:
  "SyncPublishedAppPages page_time 7 (Inr [news_app]) no_pages = (None, synced_store news_app)"
  "SyncPublishedAppPages page_time 7 (Inr [twice_app]) no_pages = (None, synced_store twice_app)"
  using synced_news synced_twice
  by (auto simp: SyncPublishedAppPages_def synced_store_def simp del: sync_apps.simps split: sum.splits)

lemma sample_slugs:
  "unique_pages [news_app] \<and> page_slug (news_app, sample_page ''a'' ''open'' zero_security) = ''n_a'' \<and>
   page_slug (twice_app, sample_page ''a'' ''open'' zero_security) = ''n_a'' \<and>
   page_slug (twice_app, sample_page ''a'' ''secret'' staff_only) = ''n_a'' \<and>
   \<not> HasPrefix (trim_lower ''n'') ''_''"
  by code_simp

lemma page_sync_exact_witness:
  "case syncPublishedAppPagesTx page_time 7 twice_app None (Some twice_definition) no_pages of Inl e \<Rightarrow> False
   | Inr st \<Rightarrow> rows_at st ''n_a'' = next_rows 7 ''n'' None (Some twice_definition) no_pages ''n_a''"
proof (cases "syncPublishedAppPagesTx page_time 7 twice_app None (Some twice_definition) no_pages")
  case (Inl e)
  with synced_twice show ?thesis by (simp add: twice_app_def registered_def and_then_def)
next
  case (Inr st)
  from page_sync_exact[OF this, of "''n_a''"] Inr show ?thesis by (simp add: no_pages_def twice_app_def registered_def)
qed

definition no_roles :: "string \<Rightarrow> string \<Rightarrow> (app_error, string list) result" where "no_roles u a = Inr []"

lemma open_section: "loadSecurityEvaluatorForConfig no_roles app [] zero_security u = Inr None"
  by (simp add: loadSecurityEvaluatorForConfig_def no_roles_def zero_security_def Let_def)

lemma page_guarded_witness:
  "case renderPageBySlug epoch no_roles (Inr [news_app]) (synced_store news_app) [] ''n_a'' ''Public'' of
     PageShown row \<Rightarrow> pr_content row = ''open'' | _ \<Rightarrow> False"
proof -
  let ?p = "sample_page ''a'' ''open'' zero_security"
  let ?r = "renderPageBySlug epoch no_roles (Inr [news_app]) (synced_store news_app) [] ''n_a'' ''Public''"
  have "case ?r of PageShown row \<Rightarrow> True | _ \<Rightarrow> False" by code_simp
  then obtain row where row: "?r = PageShown row" by (auto split: page_response.splits)
  have "pr_content row = pg_Content ?p \<and> (\<exists>sev. loadSecurityEvaluatorForConfig no_roles news_app [] (pg_Security ?p) [] = Inr sev \<and>
      AllowsRecord epoch sev ''R'' [])"
    by (rule page_guarded[OF synced_apps(1) _ _ _ _ _ _ _ _ row, where app = news_app and d = news_definition and p = ?p])
      (use sample_slugs in \<open>simp_all add: no_pages_def news_app_def news_definition_def registered_def\<close>)
  with row show ?thesis by (simp add: sample_page_def)
qed

lemma duplicate_slug_bypasses_security_witness:
  "case renderPageBySlug epoch no_roles (Inr [twice_app]) (synced_store twice_app) [] ''n_a'' ''Builder'' of
     PageShown row \<Rightarrow> pr_content row = ''secret'' | _ \<Rightarrow> False"
proof -
  let ?p = "sample_page ''a'' ''open'' zero_security" and ?p' = "sample_page ''a'' ''secret'' staff_only"
  have "\<exists>row. renderPageBySlug epoch no_roles (Inr [twice_app]) (synced_store twice_app) [] ''n_a'' ''Builder'' = PageShown row \<and>
      pr_content row = pg_Content ?p'"
    by (rule duplicate_slug_bypasses_security[OF synced_apps(2), where d = twice_definition and p = ?p and ps = "[]" and p' = ?p' and
        sev = None])
      (use sample_slugs in \<open>simp_all add: no_pages_def twice_app_def twice_definition_def registered_def sample_page_def
        open_section AllowsRecord_def\<close>)
  then show ?thesis by (auto simp: sample_page_def)
qed

end
