(* ===== verification/AuthzLaws.thy ===== *)
theory AuthzLaws
  imports Authz Transition
begin

text \<open>
  The administration never removes the last administrator, one request after the other; the permission
  cache agrees with the tables as long as they change through it, and otherwise answers what they said
  less than its lifetime ago; and the sessions that a change of a role rotates are exactly those of the
  users who hold it.
\<close>

section \<open>Roles and permissions\<close>

lemma seed_roles_iff:
  "r \<in> set (seed_roles t u app) \<longleftrightarrow>
     (\<exists>a. (u, r, a) \<in> set (at_user_role t) \<union> set (group_roles t) \<and> counts_in app a)"
proof -
  have "r \<in> set (seed_roles t u app) \<longleftrightarrow> (\<exists>x. x \<in> set (at_user_role t @ group_roles t) \<and>
      (case x of (u', r', a) \<Rightarrow> u' = u \<and> counts_in app a) \<and> r = (case x of (u', r', a) \<Rightarrow> r'))"
    unfolding seed_roles_def set_map set_filter by (simp only: image_iff Bex_def mem_Collect_eq conj_assoc)
  then show ?thesis by (auto simp: split_paired_Ex)
qed

lemma group_roles_cong:
  "at_group_membership t = at_group_membership t' \<Longrightarrow> at_group_role t = at_group_role t' \<Longrightarrow> group_roles t = group_roles t'"
  by (simp add: group_roles_def)

lemma with_inherited_mono:
  "at_role_inheritance t = at_role_inheritance t' \<Longrightarrow> set rs \<subseteq> set rs' \<Longrightarrow> with_inherited t rs \<subseteq> with_inherited t' rs'"
  by (auto simp: with_inherited_def)

lemma with_inherited_iff: "x \<in> with_inherited t rs \<longleftrightarrow> (\<exists>r \<in> set rs. (r, x) \<in> (set (at_role_inheritance t))\<^sup>*)"
  by (auto simp: with_inherited_def rtrancl_eq_or_trancl)

lemma roles_permit_iff:
  "roles_permit t action rs \<longleftrightarrow> (\<exists>(r, p) \<in> set (at_role_permission t). r \<in> rs \<and> is_platform_permission t action p)"
  by (auto simp: roles_permit_def list_ex_iff)

lemma roles_permit_mono:
  assumes "set (at_role_permission t) \<subseteq> set (at_role_permission t')" "rs \<subseteq> rs'"
    and "\<And>p. is_platform_permission t action p \<Longrightarrow> is_platform_permission t' action p"
  shows "roles_permit t action rs \<Longrightarrow> roles_permit t' action rs'"
  using assms by (fastforce simp: roles_permit_iff)

lemma permitted_user: "has_permission t u action app \<Longrightarrow> u \<in> set (authz_users t)"
proof -
  assume "has_permission t u action app"
  then have "effective_roles t u app \<noteq> {}" by (auto simp: has_permission_def roles_permit_iff)
  then have "set (seed_roles t u app) \<noteq> {}" by (auto simp: effective_roles_def with_inherited_def)
  then obtain r where "r \<in> set (seed_roles t u app)" by (meson ex_in_conv)
  then obtain a where "(u, r, a) \<in> set (at_user_role t @ group_roles t)"
    unfolding set_append using seed_roles_iff[of r t u app] by blast
  then have "fst (u, r, a) \<in> set (map fst (at_user_role t @ group_roles t))" by (metis imageI set_map)
  then show ?thesis by (simp add: authz_users_def)
qed

lemma global_admins_set: "set (global_admins t) = {u. has_permission t u ''admin'' []}"
  by (auto simp: global_admins_def dest: permitted_user)

definition administered :: "authz_tables \<Rightarrow> bool" where
  "administered t \<longleftrightarrow> (\<exists>u. has_permission t u ''admin'' [])"

lemma administered_iff: "administered t \<longleftrightarrow> global_admins t \<noteq> []"
proof -
  have "global_admins t \<noteq> [] \<longleftrightarrow> set (global_admins t) \<noteq> {}" by simp
  then show ?thesis unfolding global_admins_set by (auto simp: administered_def)
qed

lemma administered_mono: "(\<And>u. has_permission t u ''admin'' [] \<Longrightarrow> has_permission t' u ''admin'' []) \<Longrightarrow> administered t \<Longrightarrow> administered t'"
  by (auto simp: administered_def)

section \<open>What each operation does to the permissions\<close>

lemma set_insert_row [simp]: "set (insert_row x xs) = insert x (set xs)"
  by (auto simp: insert_row_def)

lemma permission_frame:
  assumes "at_role_inheritance t' = at_role_inheritance t" "at_role_permission t' = at_role_permission t"
    and "at_permission t' = at_permission t" "seed_roles t' u app = seed_roles t u app"
  shows "has_permission t' u action app = has_permission t u action app"
  using assms by (simp add: has_permission_def effective_roles_def with_inherited_def roles_permit_def is_platform_permission_def)

lemma permission_roles [simp]: "has_permission (t\<lparr>at_role := x\<rparr>) = has_permission t"
  by (intro ext permission_frame) (simp_all add: seed_roles_def group_roles_def)

lemma grant_user_role:
  "has_permission t u action app \<Longrightarrow> has_permission (t\<lparr>at_user_role := insert_row x (at_user_role t)\<rparr>) u action app"
proof -
  let ?t = "t\<lparr>at_user_role := insert_row x (at_user_role t)\<rparr>"
  have "set (seed_roles t u app) \<subseteq> set (seed_roles ?t u app)"
    by (auto simp: seed_roles_iff group_roles_cong[of ?t t])
  then have "effective_roles t u app \<subseteq> effective_roles ?t u app"
    unfolding effective_roles_def by (intro with_inherited_mono) simp_all
  from roles_permit_mono[OF _ this, of t ?t action]
  show "has_permission t u action app \<Longrightarrow> has_permission ?t u action app"
    by (simp add: has_permission_def is_platform_permission_def)
qed

text \<open>An assignment matters only to its user.\<close>

lemma seed_other_user:
  assumes "\<And>r a. (u, r, a) \<in> set (at_user_role t') \<longleftrightarrow> (u, r, a) \<in> set (at_user_role t)"
    and "group_roles t' = group_roles t"
  shows "set (seed_roles t' u app) = set (seed_roles t u app)"
  using assms by (auto simp: seed_roles_iff)

lemma permission_other_user:
  assumes "u \<noteq> v"
  shows "has_permission (t\<lparr>at_user_role := insert_row (v, r, a) (at_user_role t)\<rparr>) u action app = has_permission t u action app"
    "has_permission (delete_user_role (v, r, a) t) u action app = has_permission t u action app"
proof -
  have same: "has_permission t' u action app = has_permission t u action app"
    if "at_role_inheritance t' = at_role_inheritance t" "at_role_permission t' = at_role_permission t"
      "at_permission t' = at_permission t" "set (seed_roles t' u app) = set (seed_roles t u app)" for t'
    using that by (simp add: has_permission_def effective_roles_def with_inherited_def roles_permit_def is_platform_permission_def)
  show "has_permission (t\<lparr>at_user_role := insert_row (v, r, a) (at_user_role t)\<rparr>) u action app = has_permission t u action app"
    using assms by (intro same seed_other_user) (auto simp: group_roles_def)
  show "has_permission (delete_user_role (v, r, a) t) u action app = has_permission t u action app"
    using assms by (intro same seed_other_user) (auto simp: group_roles_def delete_user_role_def)
qed

lemma grant_role_permission:
  "has_permission t u action app \<Longrightarrow> has_permission (t\<lparr>at_role_permission := insert_row x (at_role_permission t)\<rparr>) u action app"
proof -
  let ?t = "t\<lparr>at_role_permission := insert_row x (at_role_permission t)\<rparr>"
  have "effective_roles ?t u app = effective_roles t u app"
    by (simp add: effective_roles_def with_inherited_def seed_roles_def group_roles_def)
  then show "has_permission t u action app \<Longrightarrow> has_permission ?t u action app"
    using roles_permit_mono[of t ?t "effective_roles t u app" "effective_roles t u app" action]
    by (auto simp: has_permission_def is_platform_permission_def)
qed

lemma more_permissions:
  assumes "\<And>p. is_platform_permission t action p \<Longrightarrow> is_platform_permission (t\<lparr>at_permission := ps\<rparr>) action p"
  shows "has_permission t u action app \<Longrightarrow> has_permission (t\<lparr>at_permission := ps\<rparr>) u action app"
proof -
  have "effective_roles (t\<lparr>at_permission := ps\<rparr>) u app = effective_roles t u app"
    by (simp add: effective_roles_def with_inherited_def seed_roles_def group_roles_def)
  then show "has_permission t u action app \<Longrightarrow> has_permission (t\<lparr>at_permission := ps\<rparr>) u action app"
    using roles_permit_mono[of t "t\<lparr>at_permission := ps\<rparr>" "effective_roles t u app" "effective_roles t u app" action] assms
    by (simp add: has_permission_def)
qed

section \<open>The last administrator\<close>

lemma revoke_user_role_keeps:
  assumes "user_role_guard x t = None" "administered t"
  shows "administered (delete_user_role x t)"
proof -
  obtain u r a where x: "x = (u, r, a)" by (cases x)
  show ?thesis
  proof (cases "a = [] \<and> roleHasGlobalAdminPermission t r \<and> x \<in> set (at_user_role t)")
    case True
    with assms(1) have "countGlobalAdminsAfterUserRoleRevocation x t \<noteq> 0" by (simp add: user_role_guard_def x split: if_splits)
    then show ?thesis by (simp add: countGlobalAdminsAfterUserRoleRevocation_def administered_iff)
  next
    case False
    have "has_permission (delete_user_role x t) v ''admin'' []" if "has_permission t v ''admin'' []" for v
    proof -
      from that obtain s p q where s: "(s, p) \<in> set (at_role_permission t)" "is_platform_permission t ''admin'' p"
        "q \<in> set (seed_roles t v [])" "(q, s) \<in> (set (at_role_inheritance t))\<^sup>*"
        by (auto simp: has_permission_def roles_permit_iff effective_roles_def with_inherited_iff)
      then obtain a' where a': "(v, q, a') \<in> set (at_user_role t) \<union> set (group_roles t)" "a' = []"
        by (auto simp: seed_roles_iff counts_in_def)
      have "x \<notin> set (at_user_role t) \<or> (v, q, a') \<noteq> x"
      proof (rule ccontr)
        assume "\<not> (x \<notin> set (at_user_role t) \<or> (v, q, a') \<noteq> x)"
        with x a' have eq: "x \<in> set (at_user_role t)" "q = r" "a = []" by auto
        have "roleHasGlobalAdminPermission t r"
          using s eq(2) by (auto simp: roleHasGlobalAdminPermission_def roles_permit_iff with_inherited_iff)
        with False eq show False by simp
      qed
      with a' have "q \<in> set (seed_roles (delete_user_role x t) v [])"
        by (auto simp: seed_roles_iff counts_in_def delete_user_role_def group_roles_def)
      with s show ?thesis
        by (auto simp: has_permission_def roles_permit_iff effective_roles_def with_inherited_iff delete_user_role_def
          is_platform_permission_def)
    qed
    then show ?thesis using assms(2) by (rule administered_mono)
  qed
qed

lemma revoke_role_permission_keeps:
  assumes "role_permission_guard x t = None" "administered t"
  shows "administered (delete_role_permission x t)"
proof (cases "is_platform_permission t ''admin'' (snd x) \<and> x \<in> set (at_role_permission t)")
  case True
  with assms(1) have "countGlobalAdminsAfterRolePermissionRevocation x t \<noteq> 0"
    by (auto simp: role_permission_guard_def split: if_splits)
  then show ?thesis by (simp add: countGlobalAdminsAfterRolePermissionRevocation_def administered_iff)
next
  case False
  have "has_permission (delete_role_permission x t) v ''admin'' []" if "has_permission t v ''admin'' []" for v
  proof -
    have e: "effective_roles (delete_role_permission x t) v [] = effective_roles t v []"
      by (simp add: effective_roles_def with_inherited_def seed_roles_def group_roles_def delete_role_permission_def)
    from that obtain s p where "(s, p) \<in> set (at_role_permission t)" "is_platform_permission t ''admin'' p"
      "s \<in> effective_roles t v []" by (auto simp: has_permission_def roles_permit_iff)
    moreover from this False have "(s, p) \<noteq> x \<or> x \<notin> set (at_role_permission t)" by auto
    ultimately show ?thesis
      by (auto simp: has_permission_def roles_permit_iff e) (auto simp: delete_role_permission_def is_platform_permission_def)
  qed
  then show ?thesis using assms(2) by (rule administered_mono)
qed


section \<open>Requests\<close>

text \<open>What the server does to the authorization state; the time and the state of the database come with
  each request.\<close>

datatype authz_request =
    GrantRole admin_request
  | RevokeRole admin_request
  | GrantPermission admin_request
  | RevokePermission admin_request
  | NewRole string admin_request
  | NewPermission string admin_request
  | AskPermission string string string
  | AskVersion string

fun serve :: "bool \<Rightarrow> nat \<Rightarrow> authz_request \<Rightarrow> authz_state \<Rightarrow> authz_state" where
  "serve up now (GrantRole q) st = snd (handleGrantUserRole up q st)"
| "serve up now (RevokeRole q) st = snd (handleRevokeUserRole up q st)"
| "serve up now (GrantPermission q) st = snd (handleGrantRolePermission up q st)"
| "serve up now (RevokePermission q) st = snd (handleRevokeRolePermission up q st)"
| "serve up now (NewRole i q) st = snd (handleCreateRole up i q st)"
| "serve up now (NewPermission i q) st = snd (handleCreatePermission up i q st)"
| "serve up now (AskPermission u a app) st = snd (UserHasPermission up now u a app st)"
| "serve up now (AskVersion u) st = snd (GetOrInitUserSessionVersion up u st)"

text \<open>The cache agrees with the tables.\<close>

definition coherent :: "authz_state \<Rightarrow> bool" where
  "coherent st \<longleftrightarrow> (\<forall>u a app b e. as_cache st (u, a, app) = Some (b, e) \<longrightarrow> b = has_permission (as_tables st) u a app)"

definition authz_ok :: "authz_state \<Rightarrow> bool" where
  "authz_ok st \<longleftrightarrow> administered (as_tables st) \<and> coherent st"

lemma coherent_cong: "as_tables st' = as_tables st \<Longrightarrow> as_cache st' = as_cache st \<Longrightarrow> coherent st' = coherent st"
  by (simp add: coherent_def)

lemma invalidated_coherent [simp]: "coherent (invalidate_all st)"
  by (simp add: coherent_def invalidate_all_def)

lemma invalidate_simps [simp]:
  "as_tables (invalidate_all st) = as_tables st" "as_versions (invalidate_all st) = as_versions st"
  "as_tables (invalidate_user u st) = as_tables st" "as_versions (invalidate_user u st) = as_versions st"
  "as_tables (on_tables f st) = f (as_tables st)" "as_versions (on_tables f st) = as_versions st"
  "as_cache (on_tables f st) = as_cache st"
  by (simp_all add: invalidate_all_def invalidate_user_def on_tables_def)

lemma invalidated_user_coherent:
  assumes "coherent st" "\<And>u a app. u \<noteq> v \<Longrightarrow> has_permission t u a app = has_permission (as_tables st) u a app"
  shows "coherent (invalidate_user v (st\<lparr>as_tables := t\<rparr>))"
  using assms by (auto simp: coherent_def invalidate_user_def)

lemma bump_frame: "bump_users us st = Inr st' \<Longrightarrow> as_tables st' = as_tables st \<and> as_cache st' = as_cache st"
  by (auto simp: bump_users_def split: if_splits)

lemma bump_ok:
  "bump_user up u st = Inr st' \<Longrightarrow> authz_ok st' = authz_ok st" "bump_role up r st = Inr st' \<Longrightarrow> authz_ok st' = authz_ok st"
  by (auto simp: bump_user_def bump_role_def authz_ok_def coherent_def split: if_splits dest!: bump_frame)

lemma change_and_bump_ok:
  assumes "authz_ok st" "\<And>st'. change = Inr st' \<Longrightarrow> authz_ok st'" "\<And>st' st''. bump st' = Inr st'' \<Longrightarrow> authz_ok st'' = authz_ok st'"
  shows "authz_ok (snd (change_and_bump change bump e1 e2 done st))"
  using assms by (auto simp: change_and_bump_def split: sum.split)

lemma GrantUserRole_ok:
  assumes "GrantUserRole up u r a st = Inr st'" "authz_ok st"
  shows "authz_ok st'"
proof -
  let ?t = "(as_tables st)\<lparr>at_user_role := insert_row (TrimSpace u, TrimSpace r, TrimSpace a) (at_user_role (as_tables st))\<rparr>"
  from assms(1) have st': "st' = invalidate_user (TrimSpace u) (st\<lparr>as_tables := ?t\<rparr>)"
    by (auto simp: GrantUserRole_def Let_def on_tables_def split: if_splits)
  have "coherent st'" unfolding st' using assms(2) permission_other_user(1)
    by (intro invalidated_user_coherent) (auto simp: authz_ok_def)
  moreover have "administered (as_tables st')"
    using administered_mono[of "as_tables st" ?t] grant_user_role assms(2) by (simp add: st' authz_ok_def)
  ultimately show ?thesis by (simp add: authz_ok_def)
qed

lemma RevokeUserRole_ok:
  assumes "RevokeUserRole up u r a st = Inr st'" "authz_ok st"
  shows "authz_ok st'"
proof -
  let ?x = "(TrimSpace u, TrimSpace r, TrimSpace a)"
  from assms(1) have g: "user_role_guard ?x (as_tables st) = None"
    and st': "st' = invalidate_user (TrimSpace u) (st\<lparr>as_tables := delete_user_role ?x (as_tables st)\<rparr>)"
    by (auto simp: RevokeUserRole_def Let_def on_tables_def split: if_splits option.splits)
  have "coherent st'" unfolding st' using assms(2) permission_other_user(2)
    by (intro invalidated_user_coherent) (auto simp: authz_ok_def)
  moreover have "administered (as_tables st')"
    using revoke_user_role_keeps[OF g] assms(2) by (simp add: st' authz_ok_def)
  ultimately show ?thesis by (simp add: authz_ok_def)
qed

lemma GrantRolePermission_ok:
  assumes "GrantRolePermission up r p st = Inr st'" "authz_ok st"
  shows "authz_ok st'"
  using assms administered_mono[OF grant_role_permission]
  by (auto simp: GrantRolePermission_def authz_ok_def split: if_splits)

lemma RevokeRolePermission_ok:
  assumes "RevokeRolePermission up r p st = Inr st'" "authz_ok st"
  shows "authz_ok st'"
  using assms revoke_role_permission_keeps
  by (auto simp: RevokeRolePermission_def authz_ok_def split: if_splits option.splits)

lemma CreateRole_ok:
  assumes "CreateRole up i n d p st = Inr st'" "authz_ok st"
  shows "authz_ok st'"
  using assms by (auto simp: CreateRole_def Let_def authz_ok_def administered_def split: if_splits)

lemma described_permission:
  "is_platform_permission (t\<lparr>at_permission := map (\<lambda>p. if P p then p\<lparr>pm_Description := d\<rparr> else p) ps\<rparr>) act i =
   is_platform_permission (t\<lparr>at_permission := ps\<rparr>) act i"
  by (induction ps) (auto simp: is_platform_permission_def)

lemma CreatePermission_ok:
  assumes "CreatePermission up i r a s d st = Inr st'" "authz_ok st"
  shows "authz_ok st'"
proof -
  let ?same = "\<lambda>p. pm_Resource p = trim_lower r \<and> pm_Action p = trim_lower a \<and> pm_Scope p = trim_lower s"
  let ?ps = "if list_ex ?same (at_permission (as_tables st))
      then map (\<lambda>p. if ?same p then p\<lparr>pm_Description := TrimSpace d\<rparr> else p) (at_permission (as_tables st))
      else at_permission (as_tables st) @ [\<lparr>pm_ID = i, pm_Resource = trim_lower r, pm_Action = trim_lower a,
        pm_Scope = trim_lower s, pm_Description = TrimSpace d\<rparr>]"
  from assms(1) have st': "st' = invalidate_all (st\<lparr>as_tables := (as_tables st)\<lparr>at_permission := ?ps\<rparr>\<rparr>)"
    by (auto simp: CreatePermission_def Let_def on_tables_def split: if_splits)
  have "is_platform_permission ((as_tables st)\<lparr>at_permission := ?ps\<rparr>) act p"
    if "is_platform_permission (as_tables st) act p" for act p
    using that by (simp add: described_permission) (simp add: is_platform_permission_def)
  from administered_mono[OF more_permissions[OF this]] assms(2) show ?thesis
    by (simp add: authz_ok_def st')
qed

lemma UserHasPermission_ok: "authz_ok st \<Longrightarrow> authz_ok (snd (UserHasPermission up now u a app st))"
  by (auto simp: UserHasPermission_def Let_def authz_ok_def coherent_def split: option.splits)

lemma handlers_ok:
  assumes "authz_ok st"
  shows "authz_ok (snd (handleGrantUserRole up q st))" "authz_ok (snd (handleRevokeUserRole up q st))"
    "authz_ok (snd (handleGrantRolePermission up q st))" "authz_ok (snd (handleRevokeRolePermission up q st))"
    "authz_ok (snd (handleCreateRole up i q st))" "authz_ok (snd (handleCreatePermission up i q st))"
proof -
  have role: "authz_ok (snd (change_and_bump (CreateRole up i n d p st) Inr e1 e2 code st))" for n d p e1 e2 code
    by (rule change_and_bump_ok[OF assms]) (auto intro: CreateRole_ok[OF _ assms])
  have permission: "authz_ok (snd (change_and_bump (CreatePermission up i r a s d st) Inr e1 e2 code st))"
    for r a s d e1 e2 code
    by (rule change_and_bump_ok[OF assms]) (auto intro: CreatePermission_ok[OF _ assms])
  show "authz_ok (snd (handleCreateRole up i q st))"
    by (simp add: handleCreateRole_def Let_def role assms split: sum.split option.split)
  show "authz_ok (snd (handleCreatePermission up i q st))"
    by (simp add: handleCreatePermission_def Let_def permission assms split: sum.split)
  note grant = change_and_bump_ok[OF assms GrantUserRole_ok[OF _ assms] bump_ok(1)]
  note revoke = change_and_bump_ok[OF assms RevokeUserRole_ok[OF _ assms] bump_ok(1)]
  note permit = change_and_bump_ok[OF assms GrantRolePermission_ok[OF _ assms] bump_ok(2)]
  note forbid = change_and_bump_ok[OF assms RevokeRolePermission_ok[OF _ assms] bump_ok(2)]
  show "authz_ok (snd (handleGrantUserRole up q st))"
    by (simp add: handleGrantUserRole_def Let_def grant assms split: sum.split)
  show "authz_ok (snd (handleRevokeUserRole up q st))"
    by (simp add: handleRevokeUserRole_def Let_def revoke assms split: sum.split)
  show "authz_ok (snd (handleGrantRolePermission up q st))"
    by (simp add: handleGrantRolePermission_def Let_def permit assms split: sum.split)
  show "authz_ok (snd (handleRevokeRolePermission up q st))"
    by (simp add: handleRevokeRolePermission_def Let_def forbid assms split: sum.split)
qed

lemma GetOrInit_frame:
  "as_tables (snd (GetOrInitUserSessionVersion up u st)) = as_tables st"
  "as_cache (snd (GetOrInitUserSessionVersion up u st)) = as_cache st"
  by (simp_all add: GetOrInitUserSessionVersion_def split: option.split)

lemma GetOrInit_ok: "authz_ok st \<Longrightarrow> authz_ok (snd (GetOrInitUserSessionVersion up u st))"
  by (simp add: authz_ok_def coherent_def GetOrInit_frame)

lemma serve_ok: "authz_ok st \<Longrightarrow> authz_ok (serve up now q st)"
  by (cases q) (simp_all add: handlers_ok UserHasPermission_ok GetOrInit_ok)

definition served :: "authz_state \<Rightarrow> authz_state \<Rightarrow> bool" where
  "served st st' \<longleftrightarrow> (\<exists>up now q. st' = serve up now q st)"

definition authz_start :: "authz_state \<Rightarrow> bool" where
  "authz_start st \<longleftrightarrow> administered (as_tables st) \<and> as_cache st = Map.empty"

interpretation administration: invariant_system authz_start served authz_ok
proof unfold_locales
  show "authz_start st \<Longrightarrow> authz_ok st" for st by (simp add: authz_start_def authz_ok_def coherent_def)
  show "authz_ok st \<Longrightarrow> served st st' \<Longrightarrow> authz_ok st'" for st st' using serve_ok by (auto simp: served_def)
qed



text \<open>
  In a server that starts with an empty cache and is the only writer of the authorization tables,
  the cache is never stale: whatever requests were handled before, a question for a permission is
  answered as the tables say, if it is answered.
\<close>

theorem cached_permissions_exact:
  assumes "served\<^sup>*\<^sup>* st st'" "authz_start st" "fst (UserHasPermission up now u action app st') = Inr b"
  shows "b = has_permission (as_tables st') u action app"
  using administration.reachable_inv[OF assms(2,1)] assms(3)
  by (auto simp: authz_ok_def coherent_def UserHasPermission_def Let_def split: option.splits if_splits)

section \<open>Staleness\<close>

text \<open>The tables may also change outside the server.\<close>

datatype authz_event = Request bool authz_request | Edited authz_tables

fun occur :: "nat \<times> authz_event \<Rightarrow> authz_state \<Rightarrow> authz_state" where
  "occur (now, Request up q) st = serve up now q st"
| "occur (now, Edited t) st = st\<lparr>as_tables := t\<rparr>"

text \<open>The state after some events, with the tables there were at the time of each.\<close>

fun timeline :: "(nat \<times> authz_event) list \<Rightarrow> authz_state \<Rightarrow> (nat \<times> authz_tables) list \<times> authz_state" where
  "timeline [] st = ([], st)"
| "timeline (e # es) st = (case timeline es (occur e st) of (past, st') \<Rightarrow> ((fst e, as_tables st) # past, st'))"

definition explained :: "(nat \<times> authz_tables) set \<Rightarrow> authz_state \<Rightarrow> bool" where
  "explained past st \<longleftrightarrow> (\<forall>u a app b e. as_cache st (u, a, app) = Some (b, e) \<longrightarrow>
     (\<exists>(t, T) \<in> past. e = t + authzCacheTTL \<and> b = has_permission T u a app))"

text \<open>Apart from a question, no request adds to the cache.\<close>

definition shrinks :: "authz_state \<Rightarrow> authz_state \<Rightarrow> bool" where
  "shrinks st st' \<longleftrightarrow> as_cache st' \<subseteq>\<^sub>m as_cache st"

lemma shrinks_simps [simp]:
  "shrinks st st" "shrinks st (invalidate_all st')" "shrinks st (invalidate_user u (on_tables f st))"
  by (auto simp: shrinks_def invalidate_all_def invalidate_user_def on_tables_def map_le_def)

lemma change_and_bump_shrinks:
  assumes "\<And>st'. change = Inr st' \<Longrightarrow> shrinks st st'" "\<And>st' st''. bump st' = Inr st'' \<Longrightarrow> as_cache st'' = as_cache st'"
  shows "shrinks st (snd (change_and_bump change bump e1 e2 done st))"
  using assms by (auto simp: change_and_bump_def shrinks_def split: sum.split)

lemma operations_shrink:
  "GrantUserRole up u r a st = Inr st' \<Longrightarrow> shrinks st st'" "RevokeUserRole up u r a st = Inr st' \<Longrightarrow> shrinks st st'"
  "GrantRolePermission up r p st = Inr st' \<Longrightarrow> shrinks st st'" "RevokeRolePermission up r p st = Inr st' \<Longrightarrow> shrinks st st'"
  "CreateRole up i n d k st = Inr st' \<Longrightarrow> shrinks st st'" "CreatePermission up i n a s d st = Inr st' \<Longrightarrow> shrinks st st'"
  by (auto simp: GrantUserRole_def RevokeUserRole_def GrantRolePermission_def RevokeRolePermission_def CreateRole_def
      CreatePermission_def Let_def split: if_splits option.splits)

lemma bump_cache:
  "bump_user up u st = Inr st' \<Longrightarrow> as_cache st' = as_cache st" "bump_role up r st = Inr st' \<Longrightarrow> as_cache st' = as_cache st"
  by (auto simp: bump_user_def bump_role_def split: if_splits dest!: bump_frame)

lemma creation_shrinks:
  "shrinks st (snd (change_and_bump (CreateRole up i n d k st) Inr e1 e2 code st))"
  "shrinks st (snd (change_and_bump (CreatePermission up i n a s d st) Inr e1 e2 code st))"
  by (auto intro!: change_and_bump_shrinks intro: operations_shrink)

lemma handlers_shrink:
  "shrinks st (snd (handleGrantUserRole up q st))" "shrinks st (snd (handleRevokeUserRole up q st))"
  "shrinks st (snd (handleGrantRolePermission up q st))" "shrinks st (snd (handleRevokeRolePermission up q st))"
  "shrinks st (snd (handleCreateRole up i q st))" "shrinks st (snd (handleCreatePermission up i q st))"
  by (simp_all add: handleGrantUserRole_def handleRevokeUserRole_def handleGrantRolePermission_def
      handleRevokeRolePermission_def handleCreateRole_def handleCreatePermission_def Let_def change_and_bump_shrinks[OF operations_shrink(1) bump_cache(1)]
      change_and_bump_shrinks[OF operations_shrink(2) bump_cache(1)]
      change_and_bump_shrinks[OF operations_shrink(3) bump_cache(2)]
      change_and_bump_shrinks[OF operations_shrink(4) bump_cache(2)]
      creation_shrinks split: sum.split option.split)

lemma explained_shrinks: "explained past st \<Longrightarrow> shrinks st st' \<Longrightarrow> explained past st'"
  unfolding explained_def shrinks_def map_le_def by (metis domI)

lemma explained_mono: "explained past st \<Longrightarrow> past \<subseteq> past' \<Longrightarrow> explained past' st"
  unfolding explained_def by blast

lemma explained_asked:
  assumes "explained past st" "(now, as_tables st) \<in> past"
  shows "explained past (snd (UserHasPermission up now u a app st))"
  using assms by (auto simp: explained_def UserHasPermission_def Let_def split: option.splits)

lemma explained_occur:
  assumes "explained past st"
  shows "explained (insert (fst e, as_tables st) past) (occur e st)"
proof -
  have base: "explained (insert (fst e, as_tables st) past) st" by (rule explained_mono[OF assms]) auto
  obtain now ev where e: "e = (now, ev)" by (cases e)
  show ?thesis
  proof (cases ev)
    case (Edited t)
    with base show ?thesis by (simp add: e explained_def)
  next
    case (Request up q)
    show ?thesis
    proof (cases q)
      case (AskPermission u a app)
      with explained_asked[OF base] show ?thesis by (simp add: e Request)
    next
      case (AskVersion u)
      with base show ?thesis by (simp add: e Request explained_def GetOrInit_frame)
    qed (use explained_shrinks[OF base] handlers_shrink in \<open>auto simp: e Request\<close>)
  qed
qed

lemma explained_timeline:
  "timeline es st = (past, st') \<Longrightarrow> explained past0 st \<Longrightarrow> explained (past0 \<union> set past) st'"
proof (induction es arbitrary: st past past0)
  case (Cons e es)
  from Cons.prems(1) obtain past1 where t: "timeline es (occur e st) = (past1, st')" "past = (fst e, as_tables st) # past1"
    by (auto split: prod.splits)
  have "insert (fst e, as_tables st) past0 \<union> set past1 = past0 \<union> set past" by (auto simp: t(2))
  with Cons.IH[OF t(1) explained_occur[OF Cons.prems(2)]] show ?case by simp
qed simp

lemma timeline_times: "timeline es st = (past, st') \<Longrightarrow> fst ` set past = fst ` set es"
proof (induction es arbitrary: st past)
  case (Cons e es)
  then obtain past1 where t: "timeline es (occur e st) = (past1, st')" "past = (fst e, as_tables st) # past1"
    by (auto split: prod.splits)
  from Cons.IH[OF t(1)] show ?case by (simp add: t(2))
qed simp

text \<open>
  Even when the authorization tables change behind the server's back, an answer about a permission
  is what the tables said at some event less than thirty seconds ago, or what they say now.
\<close>

theorem stale_answer_bound:
  assumes "timeline es st = (past, st')" "as_cache st = Map.empty" "list_all (\<lambda>e. fst e \<le> now) es"
    and "fst (UserHasPermission up now u action app st') = Inr b"
  shows "\<exists>(t, T) \<in> set ((now, as_tables st') # past). t \<le> now \<and> now < t + 30 * 10 ^ 9 \<and> has_permission T u action app = b"
proof (cases "b = has_permission (as_tables st') u action app")
  case True
  then show ?thesis by (auto intro!: bexI[of _ "(now, as_tables st')"])
next
  case False
  with assms(4) obtain e where e: "as_cache st' (u, action, app) = Some (b, e)" "now < e"
    by (auto simp: UserHasPermission_def Let_def split: option.splits if_splits)
  have "explained {} st" using assms(2) by (simp add: explained_def)
  from explained_timeline[OF assms(1) this] e obtain t T where t: "(t, T) \<in> set past" "e = t + authzCacheTTL"
    "b = has_permission T u action app" by (fastforce simp: explained_def)
  have "t \<in> fst ` set es" using t(1) timeline_times[OF assms(1)] by (metis fst_conv imageI)
  with assms(3) have "t \<le> now" by (auto simp: list_all_iff)
  with t e(2) show ?thesis by (intro bexI[of _ "(t, T)"]) (auto simp: authzCacheTTL_def)
qed


section \<open>Rotated sessions\<close>

lemma impacted_role_iff: "x \<in> impacted_roles t r \<longleftrightarrow> (x, r) \<in> (set (at_role_inheritance t))\<^sup>*"
  by (auto simp: impacted_roles_def rtrancl_eq_or_trancl trancl_converse)

text \<open>The users whose sessions are rotated for a role are exactly those who hold it, in some application or globally.\<close>

lemma impacted_iff: "u \<in> set (impacted_users t r) \<longleftrightarrow> (\<exists>app. r \<in> effective_roles t u app)"
proof
  assume "u \<in> set (impacted_users t r)"
  then obtain x a where x: "(u, x, a) \<in> set (at_user_role t) \<union> set (group_roles t)" "x \<in> impacted_roles t r"
    unfolding impacted_users_def by auto
  then have "x \<in> set (seed_roles t u a)" by (auto simp: seed_roles_iff counts_in_def)
  with x(2) show "\<exists>app. r \<in> effective_roles t u app"
    by (auto simp: effective_roles_def with_inherited_iff impacted_role_iff)
next
  assume "\<exists>app. r \<in> effective_roles t u app"
  then obtain x a where "(u, x, a) \<in> set (at_user_role t @ group_roles t)" "x \<in> impacted_roles t r"
  proof -
    assume that: "\<And>x a. (u, x, a) \<in> set (at_user_role t @ group_roles t) \<Longrightarrow> x \<in> impacted_roles t r \<Longrightarrow> thesis"
    from \<open>\<exists>app. r \<in> effective_roles t u app\<close> obtain app x where x: "x \<in> set (seed_roles t u app)"
      "(x, r) \<in> (set (at_role_inheritance t))\<^sup>*" by (auto simp: effective_roles_def with_inherited_iff)
    then obtain a where "(u, x, a) \<in> set (at_user_role t @ group_roles t)" by (auto simp: seed_roles_iff)
    with x(2) show thesis by (intro that) (simp_all add: impacted_role_iff)
  qed
  then have "(u, x, a) \<in> set (filter (\<lambda>(u, x, a). x \<in> impacted_roles t r) (at_user_role t @ group_roles t))" by simp
  then show "u \<in> set (impacted_users t r)" unfolding impacted_users_def by (metis (no_types, lifting) case_prod_conv imageI set_map set_remdups)
qed

lemma role_permission_local:
  assumes "\<And>s. s \<noteq> r \<Longrightarrow> (s, q) \<in> set (at_role_permission t') \<longleftrightarrow> (s, q) \<in> set (at_role_permission t)"
    and "\<And>s q'. q' \<noteq> q \<Longrightarrow> (s, q') \<in> set (at_role_permission t') \<longleftrightarrow> (s, q') \<in> set (at_role_permission t)"
    and "t' = t\<lparr>at_role_permission := rp\<rparr>" "has_permission t' u action app \<noteq> has_permission t u action app"
  shows "r \<in> effective_roles t u app"
proof (rule ccontr)
  assume n: "r \<notin> effective_roles t u app"
  have e: "effective_roles t' u app = effective_roles t u app" "is_platform_permission t' = is_platform_permission t"
    by (simp_all add: assms(3) effective_roles_def with_inherited_def seed_roles_def group_roles_def
      is_platform_permission_def fun_eq_iff)
  have "(s, x) \<in> set (at_role_permission t') \<longleftrightarrow> (s, x) \<in> set (at_role_permission t)" if "s \<in> effective_roles t u app" for s x
    using assms(1)[of s] assms(2)[of x s] n that by (cases "x = q") auto
  then have "has_permission t' u action app = has_permission t u action app"
    by (auto simp: has_permission_def roles_permit_iff e)
  with assms(4) show False ..
qed

definition rotated :: "string \<Rightarrow> authz_state \<Rightarrow> authz_state \<Rightarrow> bool" where
  "rotated u st st' \<longleftrightarrow> as_versions st' u = Some (bumped (as_versions st u)) \<and>
     (\<forall>action app. as_cache st' (u, action, app) = None)"

lemma bump_versions: "bump_users us st = Inr st' \<Longrightarrow> u \<in> set us \<Longrightarrow> as_versions st' u = Some (bumped (as_versions st u))"
  by (auto simp: bump_users_def split: if_splits)

lemma change_and_bump_done:
  "change_and_bump change bump e1 e2 done st = (AdminDone code, st') \<Longrightarrow>
     st' = st \<or> (\<exists>st1. change = Inr st1 \<and> bump st1 = Inr st')"
  by (auto simp: change_and_bump_def split: sum.splits if_splits)

lemma user_role_rotates:
  assumes "change = Inr (invalidate_user v (on_tables f st))" "bump_user up v (invalidate_user v (on_tables f st)) = Inr st'"
    and "\<And>t u action app. u \<noteq> v \<Longrightarrow> has_permission (f t) u action app = has_permission t u action app"
    and "has_permission (as_tables st') u action app \<noteq> has_permission (as_tables st) u action app"
  shows "rotated u st st'"
proof -
  from assms(2) have b: "bump_users [v] (invalidate_user v (on_tables f st)) = Inr st'" by (simp add: bump_user_def split: if_splits)
  note frame = bump_frame[OF b]
  with assms(3,4) have u: "u = v" by auto
  with bump_versions[OF b, of v] frame show ?thesis by (simp add: rotated_def u) (simp add: invalidate_user_def)
qed

lemma role_permission_rotates:
  assumes "bump_role up r (invalidate_all (on_tables f st)) = Inr st'"
    and "has_permission (as_tables st') u action app \<noteq> has_permission (as_tables st) u action app"
    and "has_permission (f (as_tables st)) u action app \<noteq> has_permission (as_tables st) u action app \<Longrightarrow>
      r \<in> effective_roles (as_tables st) u app"
    and "effective_roles (f (as_tables st)) = effective_roles (as_tables st)"
  shows "rotated u st st'"
proof -
  from assms(1) have b: "bump_users (impacted_users (f (as_tables st)) r) (invalidate_all (on_tables f st)) = Inr st'"
    by (simp add: bump_role_def split: if_splits)
  note frame = bump_frame[OF b]
  with assms(2,3) have "r \<in> effective_roles (f (as_tables st)) u app" by (simp add: assms(4))
  then have "u \<in> set (impacted_users (f (as_tables st)) r)" using impacted_iff by blast
  from bump_versions[OF b this] frame show ?thesis by (simp add: rotated_def) (simp add: invalidate_all_def)
qed

lemma effective_role_permission [simp]:
  "effective_roles (t\<lparr>at_role_permission := x\<rparr>) = effective_roles t" "effective_roles (delete_role_permission y t) = effective_roles t"
  by (simp_all add: effective_roles_def with_inherited_def seed_roles_def group_roles_def delete_role_permission_def fun_eq_iff)

text \<open>A handler that is done has done nothing or both the change and the rotation.\<close>

lemma handlers_done:
  "handleGrantUserRole up q st = (AdminDone code, st') \<Longrightarrow>
     st' = st \<or> (\<exists>v r a st1. TrimSpace v = v \<and> GrantUserRole up v r a st = Inr st1 \<and> bump_user up v st1 = Inr st')"
  "handleRevokeUserRole up q st = (AdminDone code, st') \<Longrightarrow>
     st' = st \<or> (\<exists>v r a st1. TrimSpace v = v \<and> RevokeUserRole up v r a st = Inr st1 \<and> bump_user up v st1 = Inr st')"
  "handleGrantRolePermission up q st = (AdminDone code, st') \<Longrightarrow>
     st' = st \<or> (\<exists>r p st1. GrantRolePermission up r p st = Inr st1 \<and> bump_role up r st1 = Inr st')"
  "handleRevokeRolePermission up q st = (AdminDone code, st') \<Longrightarrow>
     st' = st \<or> (\<exists>r p st1. RevokeRolePermission up r p st = Inr st1 \<and> bump_role up r st1 = Inr st')"
  unfolding handleGrantUserRole_def handleRevokeUserRole_def handleGrantRolePermission_def handleRevokeRolePermission_def
    Let_def
  by (auto split: sum.splits if_splits dest!: change_and_bump_done intro: TrimSpace_idem)

lemma user_role_change:
  assumes "GrantUserRole up v r a st = Inr st1 \<or> RevokeUserRole up v r a st = Inr st1" "bump_user up v st1 = Inr st'"
    and "TrimSpace v = v" "has_permission (as_tables st') u action app \<noteq> has_permission (as_tables st) u action app"
  shows "rotated u st st'"
  using assms(1)
proof
  assume g: "GrantUserRole up v r a st = Inr st1"
  let ?f = "\<lambda>t. t\<lparr>at_user_role := insert_row (v, TrimSpace r, TrimSpace a) (at_user_role t)\<rparr>"
  from g assms(3) have "st1 = invalidate_user v (on_tables ?f st)"
    by (auto simp: GrantUserRole_def Let_def split: if_splits)
  with assms(2) user_role_rotates[OF refl, of up v ?f st st'] permission_other_user(1) assms(4) show ?thesis by blast
next
  assume g: "RevokeUserRole up v r a st = Inr st1"
  let ?f = "delete_user_role (v, TrimSpace r, TrimSpace a)"
  from g assms(3) have "st1 = invalidate_user v (on_tables ?f st)"
    by (auto simp: RevokeUserRole_def Let_def split: if_splits option.splits)
  with assms(2) user_role_rotates[OF refl, of up v ?f st st'] permission_other_user(2) assms(4) show ?thesis by blast
qed

lemma role_permission_change:
  assumes "GrantRolePermission up r p st = Inr st1 \<or> RevokeRolePermission up r p st = Inr st1" "bump_role up r st1 = Inr st'"
    and "has_permission (as_tables st') u action app \<noteq> has_permission (as_tables st) u action app"
  shows "rotated u st st'"
  using assms(1)
proof
  assume g: "GrantRolePermission up r p st = Inr st1"
  let ?f = "\<lambda>t. t\<lparr>at_role_permission := insert_row (r, p) (at_role_permission t)\<rparr>"
  from g have "st1 = invalidate_all (on_tables ?f st)" by (auto simp: GrantRolePermission_def split: if_splits)
  with assms(2) show ?thesis
    using role_permission_rotates[of up r ?f st st' u action app] assms(3)
      role_permission_local[OF _ _ refl, of r p "insert_row (r, p) (at_role_permission (as_tables st))" "as_tables st" u action app]
    by auto
next
  assume g: "RevokeRolePermission up r p st = Inr st1"
  let ?f = "delete_role_permission (r, p)"
  from g have "st1 = invalidate_all (on_tables ?f st)" by (auto simp: RevokeRolePermission_def split: if_splits option.splits)
  with assms(2) show ?thesis
    using role_permission_rotates[of up r ?f st st' u action app] assms(3)
      role_permission_local[OF _ _ refl, of r p "filter (\<lambda>y. y \<noteq> (r, p)) (at_role_permission (as_tables st))" "as_tables st" u action app]
    by (auto simp: delete_role_permission_def[of "(r, p)" "as_tables st"])
qed

text \<open>
  When one of the four handlers of the access control page reports success, every user whose
  permissions it changed gets a new session version, and no cached answer about him is left.
\<close>

lemma permission_change_rotates:
  assumes "handler \<in> {handleGrantUserRole, handleRevokeUserRole, handleGrantRolePermission, handleRevokeRolePermission}"
    and "handler up q st = (AdminDone code, st')"
    and "has_permission (as_tables st') u action app \<noteq> has_permission (as_tables st) u action app"
  shows "rotated u st st'"
proof -
  have ne: "st' \<noteq> st" using assms(3) by auto
  from assms(1) consider "handler = handleGrantUserRole" | "handler = handleRevokeUserRole"
    | "handler = handleGrantRolePermission" | "handler = handleRevokeRolePermission" by auto
  then show ?thesis
  proof cases
    case 1
    with handlers_done(1) assms(2,3) ne user_role_change show ?thesis by metis
  next
    case 2
    with handlers_done(2) assms(2,3) ne user_role_change show ?thesis by metis
  next
    case 3
    with handlers_done(3) assms(2,3) ne role_permission_change show ?thesis by metis
  next
    case 4
    with handlers_done(4) assms(2,3) ne role_permission_change show ?thesis by metis
  qed
qed


section \<open>Concurrent revocations\<close>

text \<open>
  Each request runs its queries and its deletion as separate statements: several revocations of
  assignments interleave, \<open>job i\<close> being the assignment the request \<open>i\<close> revokes.
\<close>

datatype revocation = Asked | Checked | Refused | Deleted

inductive revocation_step ::
  "(nat \<Rightarrow> string \<times> string \<times> string) \<Rightarrow> (nat \<Rightarrow> revocation) \<times> authz_tables \<Rightarrow> (nat \<Rightarrow> revocation) \<times> authz_tables \<Rightarrow> bool"
  for job where
  passed: "ph i = Asked \<Longrightarrow> user_role_guard (job i) t = None \<Longrightarrow> revocation_step job (ph, t) (ph(i := Checked), t)"
| refused: "ph i = Asked \<Longrightarrow> user_role_guard (job i) t = Some e \<Longrightarrow> revocation_step job (ph, t) (ph(i := Refused), t)"
| deleted: "ph i = Checked \<Longrightarrow> revocation_step job (ph, t) (ph(i := Deleted), delete_user_role (job i) t)"

definition two_admins :: "string \<Rightarrow> string \<Rightarrow> string \<Rightarrow> string \<Rightarrow> authz_tables" where
  "two_admins u1 u2 r p = \<lparr>at_role = [\<lparr>rl_ID = r, rl_Name = ''admin'', rl_Description = [], rl_Priority = 10\<rparr>],
     at_permission = [\<lparr>pm_ID = p, pm_Resource = ''platform'', pm_Action = ''admin'', pm_Scope = ''global'', pm_Description = []\<rparr>],
     at_role_permission = [(r, p)], at_user_role = [(u1, r, []), (u2, r, [])], at_group_membership = [],
     at_group_role = [], at_role_inheritance = []\<rparr>"

lemma two_admins_permission:
  "has_permission (two_admins u1 u2 r p) u ''admin'' [] \<longleftrightarrow> u = u1 \<or> u = u2"
  "u1 \<noteq> u2 \<Longrightarrow> has_permission (delete_user_role (u1, r, []) (two_admins u1 u2 r p)) u ''admin'' [] \<longleftrightarrow> u = u2"
  "u1 \<noteq> u2 \<Longrightarrow> has_permission (delete_user_role (u2, r, []) (two_admins u1 u2 r p)) u ''admin'' [] \<longleftrightarrow> u = u1"
  "\<not> has_permission (delete_user_role (u2, r, []) (delete_user_role (u1, r, []) (two_admins u1 u2 r p))) u ''admin'' []"
  by (auto simp: has_permission_def roles_permit_iff effective_roles_def with_inherited_iff seed_roles_iff counts_in_def
      two_admins_def delete_user_role_def group_roles_def is_platform_permission_def)

lemma guard_passes:
  "administered (delete_user_role x t) \<Longrightarrow> user_role_guard x t = None"
  by (auto simp: user_role_guard_def countGlobalAdminsAfterUserRoleRevocation_def administered_iff split: prod.splits)

text \<open>
  C19: two administrators who are revoked at the same time pass the guard both, and the platform is
  left without an administrator: the guard and the deletion are not one transaction.
\<close>

theorem concurrent_revocations_remove_all_admins:
  assumes "u1 \<noteq> u2" "job 0 = (u1, r, [])" "job 1 = (u2, r, [])"
  shows "\<exists>ph t. (revocation_step job)\<^sup>*\<^sup>* (\<lambda>_. Asked, two_admins u1 u2 r p) (ph, t) \<and>
    ph 0 = Deleted \<and> ph 1 = Deleted \<and> global_admins t = []"
proof -
  let ?t = "two_admins u1 u2 r p"
  let ?ph1 = "(\<lambda>_. Asked)(0 := Checked)"
  let ?ph2 = "?ph1(1 := Checked)"
  let ?t1 = "delete_user_role (job 0) ?t"
  have g: "user_role_guard (job 0) ?t = None" "user_role_guard (job 1) ?t = None"
    using assms by (auto intro!: guard_passes simp: administered_def two_admins_permission)
  have "revocation_step job (\<lambda>_. Asked, ?t) (?ph1, ?t)" by (intro passed g) simp
  moreover have "revocation_step job (?ph1, ?t) (?ph2, ?t)" by (intro passed g) simp
  moreover have "revocation_step job (?ph2, ?t) (?ph2(0 := Deleted), ?t1)" by (intro deleted) simp
  moreover have "revocation_step job (?ph2(0 := Deleted), ?t1) (?ph2(0 := Deleted, 1 := Deleted), delete_user_role (job 1) ?t1)"
    by (intro deleted) simp
  ultimately have "(revocation_step job)\<^sup>*\<^sup>* (\<lambda>_. Asked, ?t) (?ph2(0 := Deleted, 1 := Deleted), delete_user_role (job 1) ?t1)"
    by (meson rtranclp.rtrancl_into_rtrancl rtranclp.rtrancl_refl)
  moreover have "global_admins (delete_user_role (job 1) ?t1) = []"
    using two_admins_permission(4) administered_iff[of "delete_user_role (job 1) ?t1"] assms(2,3) by (simp add: administered_def)
  ultimately show ?thesis by fastforce
qed

section \<open>Roles of applications\<close>

lemma uuid_has_hyphen: "IsValidUUID s \<Longrightarrow> CHR ''-'' \<in> set s"
proof -
  assume "IsValidUUID s"
  then have "8 < length s" "s ! 8 = CHR ''-''" by (auto simp: IsValidUUID_def split: if_splits)
  then show ?thesis by (metis nth_mem)
qed

lemma uuid_not_identifier: "IsValidUUID s \<Longrightarrow> \<not> IsSafeIdentifier s"
proof
  assume u: "IsValidUUID s" and i: "IsSafeIdentifier s"
  from i have "\<forall>c \<in> set s. ident_tail c" by (auto simp: IsSafeIdentifier_def ident_tail_def list_all_iff split: list.splits)
  with uuid_has_hyphen[OF u] have "ident_tail (CHR ''-'')" by blast
  then show False by (simp add: ident_tail_def ident_head_def is_upper_byte_def is_lower_byte_def is_digit_byte_def)
qed

text \<open>
  A role that the access control page grants for an application never has an effect in any
  application: the page accepts only safe identifiers, the runtime asks for the UUID of the application.
\<close>

theorem app_scoped_grant_ineffective:
  assumes "handleGrantUserRole up q st = (response, st')" "aq_form q = Some f" "TrimSpace (f ''app_id'') \<noteq> []"
    and "IsValidUUID appID"
  shows "effective_roles (as_tables st') u appID = effective_roles (as_tables st) u appID"
proof -
  let ?v = "TrimSpace (f ''user_id'')" and ?r = "TrimSpace (f ''role_id'')" and ?a = "TrimSpace (f ''app_id'')"
  have "as_tables st' = as_tables st \<or> (IsSafeIdentifier ?a \<and>
      as_tables st' = (as_tables st)\<lparr>at_user_role := insert_row (?v, ?r, ?a) (at_user_role (as_tables st))\<rparr>)"
    using assms(1-3) by (auto simp: handleGrantUserRole_def post_form_def Let_def change_and_bump_def GrantUserRole_def
        bump_user_def split: if_splits sum.splits dest!: bump_frame)
  then show ?thesis
  proof
    assume c: "IsSafeIdentifier ?a \<and>
      as_tables st' = (as_tables st)\<lparr>at_user_role := insert_row (?v, ?r, ?a) (at_user_role (as_tables st))\<rparr>"
    with assms(4) uuid_not_identifier have "?a \<noteq> appID" by blast
    with assms(3) have "\<not> counts_in appID ?a" by (simp add: counts_in_def)
    moreover have "group_roles (as_tables st') = group_roles (as_tables st)" using c by (intro group_roles_cong) simp_all
    ultimately have "set (seed_roles (as_tables st') u appID) = set (seed_roles (as_tables st) u appID)"
      using c by (auto simp: seed_roles_iff)
    with c show ?thesis by (simp add: effective_roles_def with_inherited_def)
  qed simp
qed

end
