(* ===== verification/HttpLaws.thy ===== *)
theory HttpLaws
  imports HttpAuth AuthzLaws
begin

text \<open>
  A handler behind \<open>withAuth\<close> runs only for a session that is signed in, current, permitted and
  protected against forgery; a change of permissions ends the sessions it concerns, for good; a login
  opens the routes of its user; every changing request leaves its entry in the audit log.

  That a handler runs is expressed by its influence: the response of a route differs for two handlers
  only when they run.
\<close>

section \<open>One middleware at a time\<close>

lemma RequireAuth_reached:
  "RequireAuth E h r st \<noteq> RequireAuth E h' r st \<Longrightarrow>
     \<exists>cx. resolveSession r = Some cx \<and> h (r\<lparr>rq_Context := cx\<rparr>) st \<noteq> h' (r\<lparr>rq_Context := cx\<rparr>) st"
  by (auto simp: RequireAuth_def split: option.splits)

lemma requireFreshSession_reached:
  "requireFreshSession E h r st \<noteq> requireFreshSession E h' r st \<Longrightarrow>
     cx_UserID (rq_Context r) = [] \<and> h r st \<noteq> h' r st \<or> cx_IsAgent (rq_Context r) \<and> h r st \<noteq> h' r st \<or>
     (\<exists>v a. session_version r = Some (int v) \<and>
        GetOrInitUserSessionVersion (we_up E) (cx_UserID (rq_Context r)) (ws_authz st) = (Inr v, a) \<and>
        h r (st\<lparr>ws_authz := a\<rparr>) \<noteq> h' r (st\<lparr>ws_authz := a\<rparr>))"
  by (auto simp: requireFreshSession_def Let_def split: option.splits sum.splits prod.splits if_splits)

lemma Audit_reached: "Audit E h r st \<noteq> Audit E h' r st \<Longrightarrow> h r st \<noteq> h' r st"
  by (auto simp: Audit_def)

lemma RequirePermission_reached:
  "RequirePermission E p h r st \<noteq> RequirePermission E p h' r st \<Longrightarrow> cx_UserID (rq_Context r) \<noteq> [] \<and>
     (\<exists>a. UserHasPermission (we_up E) (we_now E) (cx_UserID (rq_Context r)) p (cx_AppID (rq_Context r)) (ws_authz st) = (Inr True, a) \<and>
        h r (st\<lparr>ws_authz := a\<rparr>) \<noteq> h' r (st\<lparr>ws_authz := a\<rparr>))"
  by (auto simp: RequirePermission_def Let_def split: sum.splits prod.splits if_splits)

lemma WithAppScope_reached:
  "WithAppScope h r st \<noteq> WithAppScope h' r st \<Longrightarrow>
     \<exists>app. h (r\<lparr>rq_Context := (rq_Context r)\<lparr>cx_AppID := app\<rparr>\<rparr>) st \<noteq> h' (r\<lparr>rq_Context := (rq_Context r)\<lparr>cx_AppID := app\<rparr>\<rparr>) st"
  by (auto simp: WithAppScope_def Let_def split: if_splits)

definition forgery_checked :: "http_request \<Rightarrow> bool" where
  "forgery_checked r \<longleftrightarrow> IsBearerRequest r \<or> \<not> changing_method (rq_Method r) \<or>
     (case rq_Session r of None \<Rightarrow> False
      | Some s \<Rightarrow> session_string s ''csrf_token'' \<noteq> [] \<and> csrf_token r = session_string s ''csrf_token'')"

lemma RequireCSRF_reached: "RequireCSRF h r st \<noteq> RequireCSRF h' r st \<Longrightarrow> forgery_checked r \<and> h r st \<noteq> h' r st"
  by (auto simp: RequireCSRF_def forgery_checked_def Let_def split: option.splits if_splits)

lemma forgery_checked_context [simp]: "forgery_checked (r\<lparr>rq_Context := cx\<rparr>) = forgery_checked r"
  by (simp add: forgery_checked_def IsBearerRequest_def csrf_token_def Let_def cong: option.case_cong)

lemma session_version_context [simp]: "session_version (r\<lparr>rq_Context := cx\<rparr>) = session_version r"
  by (simp add: session_version_def)

section \<open>The routes of signed-in users\<close>

text \<open>The version a session of the user must have.\<close>

definition current_version :: "authz_state \<Rightarrow> string \<Rightarrow> nat" where
  "current_version a u = (case as_versions a u of None \<Rightarrow> 1 | Some v \<Rightarrow> v)"

definition session_of :: "session_values \<Rightarrow> string \<Rightarrow> bool" where
  "session_of s u \<longleftrightarrow> s ''authenticated'' = Some (SvBool True) \<and> s ''user_id'' = Some (SvString u) \<and> u \<noteq> []"

lemma GetOrInit_version: "GetOrInitUserSessionVersion up u a = (Inr v, a') \<Longrightarrow> v = current_version a u \<and> up"
  by (auto simp: GetOrInitUserSessionVersion_def current_version_def split: if_splits option.splits)

lemma resolveSession_Some:
  assumes "resolveSession r = Some cx"
  shows "\<exists>s. rq_Session r = Some s \<and> session_of s (cx_UserID cx) \<and> cx_AppID cx = cx_AppID (rq_Context r) \<and>
    cx_IsAgent cx = cx_IsAgent (rq_Context r)"
proof -
  from assms obtain s where s: "rq_Session r = Some s" "session_context s (rq_Context r) = Some cx"
    by (auto simp: resolveSession_def split: option.splits)
  then have "session_string s ''user_id'' = cx_UserID cx" "cx_UserID cx \<noteq> []" "s ''authenticated'' = Some (SvBool True)"
    "cx_AppID cx = cx_AppID (rq_Context r)" "cx_IsAgent cx = cx_IsAgent (rq_Context r)"
    by (auto simp: session_context_def Let_def split: if_splits)
  moreover from this(1,2) have "s ''user_id'' = Some (SvString (cx_UserID cx))"
    by (auto simp: session_string_def split: option.splits session_value.splits)
  ultimately show ?thesis using s(1) by (auto simp: session_of_def)
qed

lemma UserHasPermission_exact:
  "coherent a \<Longrightarrow> UserHasPermission up now u p app a = (Inr b, a') \<Longrightarrow> b = has_permission (as_tables a) u p app"
  by (auto simp: UserHasPermission_def Let_def coherent_def split: option.splits if_splits)

lemma GetOrInit_coherent: "GetOrInitUserSessionVersion up u a = (x, a') \<Longrightarrow> coherent a' = coherent a \<and> as_tables a' = as_tables a"
  by (metis GetOrInit_frame coherent_cong snd_conv)

lemma route_reached:
  assumes "serve_route E p h r st \<noteq> serve_route E p h' r st" "coherent (ws_authz st)"
  shows "\<exists>s u. rq_Session r = Some s \<and> session_of s u \<and> session_version r = Some (int (current_version (ws_authz st) u)) \<and>
    has_permission (as_tables (ws_authz st)) u p [] \<and> forgery_checked r"
proof -
  let ?r = "r\<lparr>rq_Context := no_context\<rparr>"
  from assms(1) obtain cx where cx: "resolveSession ?r = Some cx" and n: "requireFreshSession E
      (Audit E (RequirePermission E p (WithAppScope (RequireCSRF h)))) (?r\<lparr>rq_Context := cx\<rparr>) st \<noteq> requireFreshSession E
      (Audit E (RequirePermission E p (WithAppScope (RequireCSRF h')))) (?r\<lparr>rq_Context := cx\<rparr>) st"
    unfolding serve_route_def withAuth_def by (blast dest: RequireAuth_reached)
  from resolveSession_Some[OF cx] obtain s where s: "rq_Session r = Some s" "session_of s (cx_UserID cx)"
    "cx_AppID cx = []" "\<not> cx_IsAgent cx" by (auto simp: no_context_def)
  with requireFreshSession_reached[OF n] obtain v a where v: "session_version r = Some (int v)"
    "GetOrInitUserSessionVersion (we_up E) (cx_UserID cx) (ws_authz st) = (Inr v, a)" and n1:
    "Audit E (RequirePermission E p (WithAppScope (RequireCSRF h))) (?r\<lparr>rq_Context := cx\<rparr>) (st\<lparr>ws_authz := a\<rparr>) \<noteq>
     Audit E (RequirePermission E p (WithAppScope (RequireCSRF h'))) (?r\<lparr>rq_Context := cx\<rparr>) (st\<lparr>ws_authz := a\<rparr>)"
    by (auto simp: session_of_def)
  from RequirePermission_reached[OF Audit_reached[OF n1]] obtain a' where
    p: "UserHasPermission (we_up E) (we_now E) (cx_UserID cx) p (cx_AppID cx) a = (Inr True, a')" and n2:
      "WithAppScope (RequireCSRF h) (?r\<lparr>rq_Context := cx\<rparr>) (st\<lparr>ws_authz := a'\<rparr>) \<noteq>
       WithAppScope (RequireCSRF h') (?r\<lparr>rq_Context := cx\<rparr>) (st\<lparr>ws_authz := a'\<rparr>)" by auto
  from WithAppScope_reached[OF n2] have "forgery_checked r" by (auto dest!: RequireCSRF_reached)
  moreover from p GetOrInit_coherent[OF v(2)] assms(2) have "has_permission (as_tables (ws_authz st)) (cx_UserID cx) p []"
    using UserHasPermission_exact[of a] by (metis s(3))
  moreover from GetOrInit_version[OF v(2)] have "v = current_version (ws_authz st) (cx_UserID cx)" by simp
  ultimately show ?thesis using s v(1) by blast
qed


section \<open>Sessions end with the permissions they were given\<close>

lemma bump_versions_mono:
  assumes "bump_users us a = Inr a'"
  shows "current_version a u \<le> current_version a' u"
  using assms by (auto simp: bump_users_def current_version_def bumped_def split: if_splits option.split)

lemma version_cong: "as_versions a = as_versions a' \<Longrightarrow> current_version a = current_version a'"
  by (simp add: current_version_def fun_eq_iff)

lemma change_and_bump_mono:
  assumes "\<And>a'. change = Inr a' \<Longrightarrow> current_version a' u = current_version a u"
    and "\<And>a' a''. bump a' = Inr a'' \<Longrightarrow> current_version a' u \<le> current_version a'' u"
  shows "current_version a u \<le> current_version (snd (change_and_bump change bump e1 e2 code a)) u"
  using assms(1) assms(2) by (fastforce simp: change_and_bump_def split: sum.split)

lemma operations_versions:
  "GrantUserRole up u r x a = Inr a' \<Longrightarrow> as_versions a' = as_versions a"
  "RevokeUserRole up u r x a = Inr a' \<Longrightarrow> as_versions a' = as_versions a"
  "GrantRolePermission up r p a = Inr a' \<Longrightarrow> as_versions a' = as_versions a"
  "RevokeRolePermission up r p a = Inr a' \<Longrightarrow> as_versions a' = as_versions a"
  "CreateRole up i n d k a = Inr a' \<Longrightarrow> as_versions a' = as_versions a"
  "CreatePermission up i n x s d a = Inr a' \<Longrightarrow> as_versions a' = as_versions a"
  by (auto simp: GrantUserRole_def RevokeUserRole_def GrantRolePermission_def RevokeRolePermission_def CreateRole_def
      CreatePermission_def Let_def split: if_splits option.splits)

lemma bump_mono:
  "bump_user up v a = Inr a' \<Longrightarrow> current_version a u \<le> current_version a' u"
  "bump_role up r a = Inr a' \<Longrightarrow> current_version a u \<le> current_version a' u"
  by (auto simp: bump_user_def bump_role_def split: if_splits intro: bump_versions_mono)

lemma changes_mono:
  "current_version a u \<le> current_version (snd (change_and_bump (GrantUserRole up v r x a) (bump_user up v) e1 e2 c a)) u"
  "current_version a u \<le> current_version (snd (change_and_bump (RevokeUserRole up v r x a) (bump_user up v) e1 e2 c a)) u"
  "current_version a u \<le> current_version (snd (change_and_bump (GrantRolePermission up r p a) (bump_role up r) e1 e2 c a)) u"
  "current_version a u \<le> current_version (snd (change_and_bump (RevokeRolePermission up r p a) (bump_role up r) e1 e2 c a)) u"
  "current_version a u \<le> current_version (snd (change_and_bump (CreateRole up i n d k a) Inr e1 e2 c a)) u"
  "current_version a u \<le> current_version (snd (change_and_bump (CreatePermission up i n y s d a) Inr e1 e2 c a)) u"
  by (rule change_and_bump_mono; auto dest!: operations_versions version_cong intro: bump_mono)+

lemma serve_versions: "current_version a u \<le> current_version (serve up now q a) u"
proof (cases q)
  case (AskVersion v)
  then show ?thesis by (simp add: GetOrInitUserSessionVersion_def current_version_def split: option.split)
next
  case (AskPermission v p x)
  have "as_versions (serve up now q a) = as_versions a"
    by (simp add: AskPermission UserHasPermission_def Let_def split: option.split)
  then show ?thesis by (simp add: current_version_def)
qed (simp_all add: handleGrantUserRole_def handleRevokeUserRole_def handleGrantRolePermission_def
    handleRevokeRolePermission_def handleCreateRole_def handleCreatePermission_def Let_def changes_mono
    split: sum.split option.split)

lemma versions_grow: "served\<^sup>*\<^sup>* a a' \<Longrightarrow> current_version a u \<le> current_version a' u"
proof (induction rule: rtranclp_induct)
  case (step b c)
  then show ?case by (auto simp: served_def intro: le_trans[OF _ serve_versions])
qed simp

lemma rotated_version: "rotated u a a' \<Longrightarrow> current_version a u < current_version a' u"
  by (auto simp: rotated_def current_version_def bumped_def split: option.splits)

lemma redirectToLogin_context [simp]: "redirectToLogin E (r\<lparr>rq_Context := cx\<rparr>) = redirectToLogin E r"
  by (simp add: redirectToLogin_def loginRedirectTarget_def redirect_to_def Let_def)

lemma outdated_session_refused:
  assumes "rq_Session r = Some s" "session_of s u" "session_version r = Some v" "v < int (current_version (ws_authz st) u)"
  shows "fst (serve_route E p h r st) \<in> {redirectToLogin E r, http_error 500 ''Session security check failed''}"
proof (cases "resolveSession (r\<lparr>rq_Context := no_context\<rparr>)")
  case None
  then show ?thesis by (simp add: serve_route_def withAuth_def RequireAuth_def)
next
  case (Some cx)
  from resolveSession_Some[OF this] assms(1,2) have "cx_UserID cx = u" "u \<noteq> []" "\<not> cx_IsAgent cx"
    by (auto simp: session_of_def no_context_def)
  with Some assms(3,4) show ?thesis
    by (auto simp: serve_route_def withAuth_def RequireAuth_def requireFreshSession_def Let_def
        dest!: GetOrInit_version split: prod.split sum.split)
qed

text \<open>
  C6: when an administrator's change of an assignment or of a permission of a role succeeds and alters
  what some user may do, no session that the user had at that time opens any route again, whatever
  requests about roles and permissions are handled in between.
\<close>

theorem changed_permissions_end_sessions:
  assumes "handler \<in> {handleGrantUserRole, handleRevokeUserRole, handleGrantRolePermission, handleRevokeRolePermission}"
    and "handler up q a = (AdminDone code, a')"
    and "has_permission (as_tables a') u action app \<noteq> has_permission (as_tables a) u action app"
    and "served\<^sup>*\<^sup>* a' (ws_authz st)"
    and "rq_Session r = Some s" "session_of s u" "session_version r = Some (int v)" "v \<le> current_version a u"
  shows "fst (serve_route E p h r st) \<in> {redirectToLogin E r, http_error 500 ''Session security check failed''}"
proof -
  from permission_change_rotates[OF assms(1-3)] have "current_version a u < current_version a' u" by (rule rotated_version)
  with versions_grow[OF assms(4), of u] assms(8) have "int v < int (current_version (ws_authz st) u)" by simp
  with outdated_session_refused assms(5-7) show ?thesis by metis
qed

section \<open>A login opens the routes\<close>

text \<open>A chain lets the handler run with the request \<open>r'\<close> in the state \<open>st'\<close>.\<close>

lemma RequireCSRF_pass: "forgery_checked r \<Longrightarrow> RequireCSRF h r st = h r st"
  by (auto simp: RequireCSRF_def forgery_checked_def Let_def split: option.splits)

definition app_scope :: "http_request \<Rightarrow> string" where
  "app_scope r = (let q = TrimSpace (rq_Query r ''app_id'') in if q = [] then TrimSpace (rq_Header r ''X-App-ID'') else q)"

definition valid_scope :: "http_request \<Rightarrow> bool" where
  "valid_scope r \<longleftrightarrow> app_scope r = [] \<or> length (app_scope r) \<le> 64 \<and> list_all app_id_byte (app_scope r)"

lemma scope_context [simp]:
  "app_scope (r\<lparr>rq_Context := cx\<rparr>) = app_scope r" "valid_scope (r\<lparr>rq_Context := cx\<rparr>) = valid_scope r"
proof -
  show a: "app_scope (r\<lparr>rq_Context := cx\<rparr>) = app_scope r" by (simp add: app_scope_def Let_def)
  show "valid_scope (r\<lparr>rq_Context := cx\<rparr>) = valid_scope r" by (simp add: valid_scope_def a)
qed

lemma WithAppScope_pass:
  "valid_scope r \<Longrightarrow> WithAppScope h r st = h (r\<lparr>rq_Context := (rq_Context r)\<lparr>cx_AppID := app_scope r\<rparr>\<rparr>) st"
  by (auto simp: WithAppScope_def valid_scope_def app_scope_def Let_def)

lemma UserHasPermission_pass:
  assumes "coherent a" "has_permission (as_tables a) u p app"
  shows "\<exists>a'. UserHasPermission True now u p app a = (Inr True, a')"
  using assms by (auto simp: UserHasPermission_def Let_def coherent_def split: option.split)

lemma session_context_of: "session_of s u \<Longrightarrow> \<exists>cx'. session_context s cx = Some cx' \<and> cx_UserID cx' = u \<and>
   cx_AppID cx' = cx_AppID cx \<and> cx_IsAgent cx' = cx_IsAgent cx"
  by (auto simp: session_of_def session_context_def session_string_def Let_def)

lemma GetOrInit_current: "\<exists>a'. GetOrInitUserSessionVersion True u a = (Inr (current_version a u), a')"
  by (cases "as_versions a u") (auto simp: GetOrInitUserSessionVersion_def current_version_def)

lemma GetOrInit_kept: "GetOrInitUserSessionVersion up u a = (Inr v, a') \<Longrightarrow> v = current_version a' u"
  by (auto simp: GetOrInitUserSessionVersion_def current_version_def split: if_splits option.splits)

lemma current_session_passes:
  assumes "we_up E" "rq_Session r = Some s" "session_of s u" "session_version r = Some (int (current_version (ws_authz st) u))"
    and "coherent (ws_authz st)" "has_permission (as_tables (ws_authz st)) u p []" "forgery_checked r" "valid_scope r"
  shows "\<exists>cx a. cx_UserID cx = u \<and> as_tables a = as_tables (ws_authz st) \<and>
    serve_route E p h r st = Audit E (\<lambda>_ _. h (r\<lparr>rq_Context := cx\<lparr>cx_AppID := app_scope r\<rparr>\<rparr>) (st\<lparr>ws_authz := a\<rparr>)) (r\<lparr>rq_Context := cx\<rparr>) st"
proof -
  let ?r = "r\<lparr>rq_Context := no_context\<rparr>"
  from session_context_of[OF assms(3), of no_context] obtain cx where cx: "session_context s no_context = Some cx"
    "cx_UserID cx = u" "cx_AppID cx = []" "\<not> cx_IsAgent cx" by (auto simp: no_context_def)
  with assms(2) have r: "resolveSession ?r = Some cx" by (simp add: resolveSession_def)
  from assms(3) have ne: "u \<noteq> []" by (simp add: session_of_def)
  obtain a where a: "GetOrInitUserSessionVersion (we_up E) u (ws_authz st) = (Inr (current_version (ws_authz st) u), a)"
    using GetOrInit_current assms(1) by auto
  note c = GetOrInit_coherent[OF a]
  from UserHasPermission_pass[of a u p "[]"] assms(1,5,6) c obtain a' where
    p: "UserHasPermission (we_up E) (we_now E) u p [] a = (Inr True, a')" by auto
  have t: "as_tables a' = as_tables a" using p by (auto simp: UserHasPermission_def Let_def split: option.splits if_splits)
  have v: "valid_scope (r\<lparr>rq_Context := cx\<rparr>)" using assms(8) by simp
  have "serve_route E p h r st = Audit E (\<lambda>_ _. h (r\<lparr>rq_Context := cx\<lparr>cx_AppID := app_scope r\<rparr>\<rparr>) (st\<lparr>ws_authz := a'\<rparr>)) (r\<lparr>rq_Context := cx\<rparr>) st"
    using r cx ne assms(4,7) a p v
    by (simp add: serve_route_def withAuth_def RequireAuth_def requireFreshSession_def Audit_def RequirePermission_def
        WithAppScope_pass RequireCSRF_pass)
  with cx(2) t c show ?thesis by auto
qed

lemma find_SomeD: "find P xs = Some x \<Longrightarrow> x \<in> set xs \<and> P x"
  by (induction xs) (auto split: if_splits)

lemma login_saves:
  assumes "loginPostHandler E r st = (resp, st')" "rs_Cookie resp = CookieSaved s" "s ''authenticated'' = Some (SvBool True)"
  shows "\<exists>u f. u \<in> set (ws_users st) \<and> rq_Form r = Some f \<and> us_Email u = f ''email'' \<and>
    we_bcrypt E (us_PasswordHash u) (f ''password'') \<and> s ''user_id'' = Some (SvString (us_ID u)) \<and>
    s ''session_version'' = Some (SvInt (int (current_version (ws_authz st') (us_ID u)))) \<and>
    s ''csrf_token'' = Some (SvString (we_random E)) \<and> as_tables (ws_authz st') = as_tables (ws_authz st) \<and>
    coherent (ws_authz st') = coherent (ws_authz st)"
proof -
  from assms have post: "rq_Method r = ''POST''" by (auto simp: loginPostHandler_def http_error_def split: if_splits)
  with assms obtain f where f: "rq_Form r = Some f" by (auto simp: loginPostHandler_def http_error_def split: option.splits)
  have failed: "rs_Cookie (fst (handleFailedLogin E r st)) = CookieSaved s \<Longrightarrow> s ''authenticated'' = Some (SvBool False)"
    by (auto simp: handleFailedLogin_def redirect_to_def Let_def)
  from assms(1) post f failed assms(2,3) obtain u where
    u: "we_up E" "find (\<lambda>u. us_Email u = f ''email'') (ws_users st) = Some u" "we_bcrypt E (us_PasswordHash u) (f ''password'')"
    by (auto simp: loginPostHandler_def Let_def split: if_splits option.splits)
  obtain v a where g: "GetOrInitUserSessionVersion True (us_ID u) (ws_authz st) = (Inr v, a)" "v = current_version a (us_ID u)"
    using GetOrInit_current[of "us_ID u" "ws_authz st"] GetOrInit_kept by blast
  note c = GetOrInit_coherent[OF g(1)]
  from u(2) have "u \<in> set (ws_users st)" "us_Email u = f ''email''" using find_SomeD by fastforce+
  moreover from assms(1) post f u g(1) have "resp = redirect_to r 200 (if sanitizeLoginNext E (TrimSpace (f ''next'')) = ''/'' then we_home E
      else sanitizeLoginNext E (TrimSpace (f ''next''))) (CookieSaved (login_session E (case rq_Session r of None \<Rightarrow> Map.empty | Some s \<Rightarrow> s) u
      (primary_role_name (as_tables (ws_authz st)) (us_ID u)) v))" "st' = st\<lparr>ws_authz := a\<rparr>"
    by (simp_all add: loginPostHandler_def Let_def)
  ultimately show ?thesis using assms(2) u(3) f g(2) c
    by (intro exI[of _ u] exI[of _ f]) (auto simp: redirect_to_def login_session_def)
qed

text \<open>
  After a successful login, a request with the new cookie and its token reaches the handler of every
  route whose permission the user holds, and the handler sees that user.
\<close>

theorem login_opens_routes:
  assumes "loginPostHandler E r st = (resp, st')" "rs_Cookie resp = CookieSaved s" "s ''authenticated'' = Some (SvBool True)"
    and "coherent (ws_authz st)" "list_all (\<lambda>u. us_ID u \<noteq> []) (ws_users st)" "we_random E \<noteq> []"
    and "we_up E'" "rq_Session r' = Some s" "csrf_token r' = we_random E" "valid_scope r'"
  shows "\<exists>u f. rq_Form r = Some f \<and> u \<in> set (ws_users st) \<and> us_Email u = f ''email'' \<and>
    we_bcrypt E (us_PasswordHash u) (f ''password'') \<and>
    (if has_permission (as_tables (ws_authz st)) (us_ID u) p []
     then \<exists>r'' st''. cx_UserID (rq_Context r'') = us_ID u \<and> fst (serve_route E' p h r' st') = fst (h r'' st'')
     else \<forall>h'. serve_route E' p h r' st' = serve_route E' p h' r' st')"
proof -
  from login_saves[OF assms(1-3)] obtain u f where u: "u \<in> set (ws_users st)" "rq_Form r = Some f" "us_Email u = f ''email''"
    "we_bcrypt E (us_PasswordHash u) (f ''password'')" "s ''user_id'' = Some (SvString (us_ID u))"
    "s ''session_version'' = Some (SvInt (int (current_version (ws_authz st') (us_ID u))))"
    "s ''csrf_token'' = Some (SvString (we_random E))" "as_tables (ws_authz st') = as_tables (ws_authz st)"
    "coherent (ws_authz st')" using assms(4) by blast
  from u(1) assms(5) have "us_ID u \<noteq> []" by (auto simp: list_all_iff)
  with u(5) assms(3) have s: "session_of s (us_ID u)" by (simp add: session_of_def)
  have "\<exists>r'' st''. cx_UserID (rq_Context r'') = us_ID u \<and> fst (serve_route E' p h r' st') = fst (h r'' st'')"
    if "has_permission (as_tables (ws_authz st)) (us_ID u) p []"
  proof -
    from u(6) assms(8) have v: "session_version r' = Some (int (current_version (ws_authz st') (us_ID u)))"
      by (simp add: session_version_def)
    from u(7) assms(6,8,9) have f: "forgery_checked r'" by (simp add: forgery_checked_def session_string_def)
    from that u(8) have h: "has_permission (as_tables (ws_authz st')) (us_ID u) p []" by simp
    from current_session_passes[OF assms(7,8) s v u(9) h f assms(10), of h] obtain cx a where cx: "cx_UserID cx = us_ID u" "serve_route E' p h r' st' =
        Audit E' (\<lambda>_ _. h (r'\<lparr>rq_Context := cx\<lparr>cx_AppID := app_scope r'\<rparr>\<rparr>) (st'\<lparr>ws_authz := a\<rparr>)) (r'\<lparr>rq_Context := cx\<rparr>) st'" by blast
    then have "fst (serve_route E' p h r' st') = fst (h (r'\<lparr>rq_Context := cx\<lparr>cx_AppID := app_scope r'\<rparr>\<rparr>) (st'\<lparr>ws_authz := a\<rparr>))"
      by (simp add: Audit_def split: prod.split)
    moreover have "cx_UserID (rq_Context (r'\<lparr>rq_Context := cx\<lparr>cx_AppID := app_scope r'\<rparr>\<rparr>)) = us_ID u" using cx(1) by simp
    ultimately show ?thesis by blast
  qed
  moreover have "serve_route E' p h r' st' = serve_route E' p h' r' st'"
    if "\<not> has_permission (as_tables (ws_authz st)) (us_ID u) p []" for h'
    using route_reached[of E' p h r' st' h'] that u(5,8,9) assms(8) by (auto simp: session_of_def)
  ultimately have "if has_permission (as_tables (ws_authz st)) (us_ID u) p []
     then \<exists>r'' st''. cx_UserID (rq_Context r'') = us_ID u \<and> fst (serve_route E' p h r' st') = fst (h r'' st'')
     else \<forall>h'. serve_route E' p h r' st' = serve_route E' p h' r' st'" by presburger
  with u(1-4) show ?thesis by blast
qed

section \<open>Agents\<close>

definition usable_token :: "web_env \<Rightarrow> agent_token_row \<Rightarrow> bool" where
  "usable_token E t \<longleftrightarrow> \<not> tk_Revoked t \<and> (case tk_ExpiresAt t of None \<Rightarrow> True | Some e \<Rightarrow> we_now E \<le> e)"

lemma RequireAuthWithAgents_reached:
  "RequireAuthWithAgents E h r st \<noteq> RequireAuthWithAgents E h' r st \<Longrightarrow>
     \<exists>cx st'. resolveSessionOrAgent E r st = (Some cx, st') \<and> h (r\<lparr>rq_Context := cx\<rparr>) st' \<noteq> h' (r\<lparr>rq_Context := cx\<rparr>) st'"
  by (auto simp: RequireAuthWithAgents_def split: option.splits prod.splits)

lemma resolveAgent_Some:
  assumes "resolveAgent E r token st = (Some cx, st')"
  shows "we_up E \<and> (\<exists>t \<in> set (ws_tokens st). tk_Hash t = we_sha256 E token \<and> usable_token E t \<and> tk_UserID t = cx_UserID cx)"
proof -
  from assms obtain u where u: "ResolveAgentToken E token st = (Inr u, st')" "cx_UserID cx = u"
    by (auto simp: resolveAgent_def split: prod.splits sum.splits)
  from u(1) have up: "we_up E" by (auto simp: ResolveAgentToken_def split: if_splits)
  obtain t where t: "find (\<lambda>t. tk_Hash t = we_sha256 E token) (ws_tokens st) = Some t"
    using u(1) by (cases "find (\<lambda>t. tk_Hash t = we_sha256 E token) (ws_tokens st)") (simp_all add: ResolveAgentToken_def split: if_splits)
  have t2: "usable_token E t" "tk_UserID t = u"
    using u(1) by (simp_all add: ResolveAgentToken_def usable_token_def t split: if_splits option.splits)
  from find_SomeD[OF t] have "t \<in> set (ws_tokens st)" "tk_Hash t = we_sha256 E token" by simp_all
  with t2 u(2) up show ?thesis by (intro conjI bexI[of _ t]) simp_all
qed

text \<open>
  A handler behind \<open>withAuthOrAgentOnly\<close> runs for a bearer token only if the hash of the token is
  stored and neither revoked nor expired, whatever session the request carries besides, and for a
  request without a bearer token only if its session is current and the forgery check passes.
\<close>

theorem agent_routes:
  assumes "serve_agent_route E h r st \<noteq> serve_agent_route E h' r st"
  shows "if IsBearerRequest r
    then \<exists>t \<in> set (ws_tokens st). tk_Hash t = we_sha256 E (ParseBearer (rq_Header r ''Authorization'')) \<and> usable_token E t
    else \<exists>s u. rq_Session r = Some s \<and> session_of s u \<and>
      session_version r = Some (int (current_version (ws_authz st) u)) \<and> forgery_checked r"
proof -
  let ?r = "r\<lparr>rq_Context := no_context\<rparr>" and ?token = "ParseBearer (rq_Header r ''Authorization'')"
  from assms obtain cx st' where cx: "resolveSessionOrAgent E ?r st = (Some cx, st')" and
    n: "requireFreshSession E (Audit E (RequireCSRF h)) (?r\<lparr>rq_Context := cx\<rparr>) st' \<noteq>
      requireFreshSession E (Audit E (RequireCSRF h')) (?r\<lparr>rq_Context := cx\<rparr>) st'"
    unfolding serve_agent_route_def withAuthOrAgentOnly_def by (blast dest: RequireAuthWithAgents_reached)
  show ?thesis
  proof (cases "IsBearerRequest r")
    case True
    with cx have "resolveAgent E ?r ?token st = (Some cx, st')"
      by (simp add: resolveSessionOrAgent_def IsBearerRequest_def Let_def)
    from resolveAgent_Some[OF this] True show ?thesis by auto
  next
    case False
    with cx have r: "resolveSession ?r = Some cx" "st' = st"
      by (auto simp: resolveSessionOrAgent_def IsBearerRequest_def Let_def)
    from resolveSession_Some[OF r(1)] obtain s where s: "rq_Session r = Some s" "session_of s (cx_UserID cx)" "\<not> cx_IsAgent cx"
      by (auto simp: no_context_def)
    with requireFreshSession_reached[OF n] obtain v a where v: "session_version r = Some (int v)"
      "GetOrInitUserSessionVersion (we_up E) (cx_UserID cx) (ws_authz st) = (Inr v, a)" and
      n1: "Audit E (RequireCSRF h) (?r\<lparr>rq_Context := cx\<rparr>) (st\<lparr>ws_authz := a\<rparr>) \<noteq>
        Audit E (RequireCSRF h') (?r\<lparr>rq_Context := cx\<rparr>) (st\<lparr>ws_authz := a\<rparr>)"
      by (auto simp: session_of_def r(2))
    from RequireCSRF_reached[OF Audit_reached[OF n1]] have "forgery_checked r" by simp
    with False s v(1) GetOrInit_version[OF v(2)] show ?thesis by auto
  qed
qed

section \<open>The audit log\<close>

text \<open>A session that is signed in and current.\<close>

definition accepted_session :: "web_env \<Rightarrow> http_request \<Rightarrow> web_state \<Rightarrow> bool" where
  "accepted_session E r st \<longleftrightarrow> we_up E \<and> (case resolveSession (r\<lparr>rq_Context := no_context\<rparr>) of None \<Rightarrow> False
     | Some cx \<Rightarrow> session_version r = Some (int (current_version (ws_authz st) (cx_UserID cx))))"

lemma log_security_event_audit [simp]: "ws_audit (log_security_event E k r u st) = ws_audit st"
  by (simp add: log_security_event_def)

lemma permission_chain_audit:
  assumes "\<And>r st. ws_audit (snd (h r st)) = ws_audit st"
  shows "ws_audit (snd (RequirePermission E p (WithAppScope (RequireCSRF h)) r st)) = ws_audit st"
proof -
  have c: "ws_audit (snd (RequireCSRF h r st)) = ws_audit st" for r st
    using assms by (simp add: RequireCSRF_def Let_def split: option.split)
  have a: "ws_audit (snd (WithAppScope (RequireCSRF h) r st)) = ws_audit st" for r st
    by (simp add: WithAppScope_def Let_def c)
  show ?thesis by (simp add: RequirePermission_def redirectForbidden_def Let_def a split: prod.split sum.split)
qed

text \<open>
  Of the requests to a protected route that may change something, exactly those with an accepted
  session leave an entry in the audit log, allowed or refused, with the user of the session and the
  status of the response.
\<close>

theorem audit_exact:
  assumes "\<And>r st. ws_audit (snd (h r st)) = ws_audit st" "changing_method (rq_Method r)" "we_up E"
  shows "ws_audit (snd (serve_route E p h r st)) = ws_audit st @
    (if accepted_session E r st
     then [audit_event (r\<lparr>rq_Context := the (resolveSession (r\<lparr>rq_Context := no_context\<rparr>))\<rparr>) (rs_Status (fst (serve_route E p h r st)))]
     else [])"
proof (cases "resolveSession (r\<lparr>rq_Context := no_context\<rparr>)")
  case None
  then show ?thesis by (simp add: serve_route_def withAuth_def RequireAuth_def accepted_session_def)
next
  case (Some cx)
  from resolveSession_Some[OF this] have cx: "cx_UserID cx \<noteq> []" "\<not> cx_IsAgent cx"
    by (auto simp: no_context_def session_of_def)
  obtain a where a: "GetOrInitUserSessionVersion True (cx_UserID cx) (ws_authz st) =
      (Inr (current_version (ws_authz st) (cx_UserID cx)), a)" using GetOrInit_current by blast
  have k: "ws_audit (snd (RequirePermission E p (WithAppScope (RequireCSRF h)) r' st')) = ws_audit st'" for r' st'
    by (rule permission_chain_audit[OF assms(1)])
  show ?thesis
    using Some cx assms(2,3) a
    by (simp add: serve_route_def withAuth_def RequireAuth_def requireFreshSession_def Audit_def accepted_session_def
        k split: prod.split option.split)
       (metis (no_types, lifting) k snd_conv web_state.select_convs(4) web_state.surjective web_state.update_convs(1))
qed

end
