(* ===== verification/AuthzSamples.thy ===== *)
theory AuthzSamples
  imports AuthzLaws
begin

text \<open>Concrete runs that instantiate the theorems about users, roles and permissions.\<close>

definition uuid_of :: "string \<Rightarrow> string" where
  "uuid_of c = ''00000000-0000-0000-0000-00000000000'' @ c"

abbreviation "alice \<equiv> uuid_of ''a''"
abbreviation "bob \<equiv> uuid_of ''b''"
abbreviation "admin_role \<equiv> uuid_of ''c''"
abbreviation "admin_permission \<equiv> uuid_of ''d''"

definition two_admin_server :: authz_state where
  "two_admin_server = \<lparr>as_tables = two_admins alice bob admin_role admin_permission, as_cache = Map.empty, as_versions = Map.empty\<rparr>"

definition assignment_request :: "string \<Rightarrow> string \<Rightarrow> admin_request" where
  "assignment_request user app = \<lparr>aq_method = ''POST'', aq_form = Some (\<lambda>k. if k = ''user_id'' then user
     else if k = ''role_id'' then admin_role else if k = ''app_id'' then app else [])\<rparr>"

definition revoked_state :: authz_state where
  "revoked_state = \<lparr>as_tables = delete_user_role (alice, admin_role, []) (as_tables two_admin_server),
     as_cache = Map.empty, as_versions = [alice \<mapsto> 2]\<rparr>"

lemma uuid_of_distinct: "uuid_of x = uuid_of y \<longleftrightarrow> x = y"
  by (simp add: uuid_of_def)

lemma sample_ids:
  "TrimSpace alice = alice" "TrimSpace bob = bob" "TrimSpace admin_role = admin_role" "TrimSpace [] = []"
  "IsValidUUID alice" "IsValidUUID bob" "IsValidUUID admin_role" "TrimSpace ''crm'' = ''crm''"
  by code_simp+

lemma sample_guard: "user_role_guard (alice, admin_role, []) (as_tables two_admin_server) = None"
  by (auto intro!: guard_passes simp: administered_def two_admin_server_def two_admins_permission uuid_of_distinct)

lemma sample_deleted:
  "RevokeUserRole True alice admin_role [] two_admin_server = Inr (revoked_state\<lparr>as_versions := Map.empty\<rparr>)"
  unfolding RevokeUserRole_def Let_def sample_ids sample_guard
  by (simp add: revoked_state_def invalidate_user_def on_tables_def) (simp add: two_admin_server_def fun_eq_iff)

lemma sample_bumped: "bump_user True alice (revoked_state\<lparr>as_versions := Map.empty\<rparr>) = Inr revoked_state"
  by (simp add: bump_user_def bump_users_def bumped_def revoked_state_def fun_eq_iff)

lemma sample_fields:
  "(if ''user_id'' = ''user_id'' then x else y) = x" "(if ''role_id'' = ''user_id'' then x else y) = y"
  "(if ''role_id'' = ''role_id'' then x else y) = x" "(if ''app_id'' = ''user_id'' then x else y) = y"
  "(if ''app_id'' = ''role_id'' then x else y) = y" "(if ''app_id'' = ''app_id'' then x else y) = x"
  by simp_all

lemma sample_revocation:
  "handleRevokeUserRole True (assignment_request alice []) two_admin_server = (AdminDone ''user_role_revoked'', revoked_state)"
proof -
  have f: "post_form (assignment_request alice []) = Inr (\<lambda>k. if k = ''user_id'' then alice
     else if k = ''role_id'' then admin_role else if k = ''app_id'' then [] else [])"
    by (simp add: post_form_def assignment_request_def)
  show ?thesis unfolding handleRevokeUserRole_def f Let_def sum.case sample_fields sample_ids
    by (simp add: sample_ids sample_deleted sample_bumped change_and_bump_def)
qed

lemma sample_served: "served\<^sup>*\<^sup>* two_admin_server revoked_state"
proof -
  have "revoked_state = serve True 0 (RevokeRole (assignment_request alice [])) two_admin_server"
    by (simp add: sample_revocation)
  then have "served two_admin_server revoked_state" unfolding served_def by (intro exI)
  then show ?thesis by (rule r_into_rtranclp)
qed

lemma sample_admins: "has_permission (as_tables two_admin_server) u ''admin'' [] \<longleftrightarrow> u = alice \<or> u = bob"
  "has_permission (as_tables revoked_state) u ''admin'' [] \<longleftrightarrow> u = bob"
  by (simp_all add: two_admin_server_def revoked_state_def two_admins_permission uuid_of_distinct)

lemma sample_start: "authz_start two_admin_server"
  using sample_admins(1) by (auto simp: authz_start_def administered_def two_admin_server_def)


theorem cached_permissions_exact_witness:
  "fst (UserHasPermission True 5 alice ''admin'' [] revoked_state) = Inr False \<and>
   False = has_permission (as_tables revoked_state) alice ''admin'' []"
proof -
  have a: "fst (UserHasPermission True 5 alice ''admin'' [] revoked_state) = Inr False"
    by (simp add: UserHasPermission_def Let_def sample_admins uuid_of_distinct) (simp add: revoked_state_def)
  with cached_permissions_exact[OF sample_served sample_start a] show ?thesis by simp
qed

text \<open>The answer of the cache outlives an edit of the tables from outside.\<close>

definition stale_events :: "(nat \<times> authz_event) list" where
  "stale_events = [(1, Request True (AskPermission alice ''admin'' [])), (2, Edited (as_tables revoked_state))]"

definition stale_state :: authz_state where
  "stale_state = snd (timeline stale_events two_admin_server)"

theorem stale_answer_bound_witness:
  "\<exists>past. timeline stale_events two_admin_server = (past, stale_state) \<and>
     fst (UserHasPermission True 3 alice ''admin'' [] stale_state) = Inr True \<and>
     \<not> has_permission (as_tables stale_state) alice ''admin'' [] \<and>
     (\<exists>(t, T) \<in> set ((3, as_tables stale_state) # past). t \<le> 3 \<and> 3 < t + 30 * 10 ^ 9 \<and>
        has_permission T alice ''admin'' [] = True)"
proof -
  obtain past where t: "timeline stale_events two_admin_server = (past, stale_state)"
    unfolding stale_state_def by (metis prod.collapse)
  have s: "stale_state = two_admin_server\<lparr>as_tables := as_tables revoked_state,
      as_cache := [(alice, ''admin'', []) \<mapsto> (True, 1 + authzCacheTTL)]\<rparr>"
    using sample_admins(1)[of alice]
    by (simp add: stale_state_def stale_events_def UserHasPermission_def Let_def) (simp add: two_admin_server_def)
  have a: "fst (UserHasPermission True 3 alice ''admin'' [] stale_state) = Inr True"
    unfolding s UserHasPermission_def Let_def by (simp add: authzCacheTTL_def)
  have e: "as_cache two_admin_server = Map.empty" "list_all (\<lambda>e. fst e \<le> 3) stale_events"
    by (simp_all add: two_admin_server_def stale_events_def)
  have n: "\<not> has_permission (as_tables stale_state) alice ''admin'' []"
    using sample_admins(2)[of alice] by (simp add: s uuid_of_distinct)
  from stale_answer_bound[OF t e a] t a n show ?thesis by blast
qed

lemma sample_rotated: "rotated alice two_admin_server revoked_state"
  using permission_change_rotates[where handler = handleRevokeUserRole, OF _ sample_revocation, where u = alice and action = "''admin''" and app = "[]"]
  by (simp add: sample_admins uuid_of_distinct)

theorem concurrent_revocations_remove_all_admins_witness:
  "\<exists>ph t. (revocation_step (\<lambda>i. (if i = 0 then alice else bob, admin_role, [])))\<^sup>*\<^sup>*
       (\<lambda>_. Asked, two_admins alice bob admin_role admin_permission) (ph, t) \<and>
     ph 0 = Deleted \<and> ph 1 = Deleted \<and> global_admins t = []"
  by (rule concurrent_revocations_remove_all_admins) (simp_all add: uuid_of_distinct)

theorem app_scoped_grant_ineffective_witness:
  "effective_roles (as_tables (snd (handleGrantUserRole True (assignment_request alice ''crm'') revoked_state))) alice (uuid_of ''e'')
     = effective_roles (as_tables revoked_state) alice (uuid_of ''e'')"
proof (rule app_scoped_grant_ineffective [OF prod.collapse [symmetric]])
  show "aq_form (assignment_request alice ''crm'') = Some (\<lambda>k. if k = ''user_id'' then alice
     else if k = ''role_id'' then admin_role else if k = ''app_id'' then ''crm'' else [])"
    by (simp add: assignment_request_def)
  show "IsValidUUID (uuid_of ''e'')" by code_simp
qed (simp add: sample_ids)

end
