(* ===== verification/HttpSamples.thy ===== *)
theory HttpSamples
  imports HttpLaws AuthzSamples
begin

text \<open>Concrete runs that instantiate the theorems about sessions, routes, agents and the audit log.\<close>

definition sample_env :: web_env where
  "sample_env = \<lparr>we_up = True, we_now = 10, we_random = ''nonce'', we_sha256 = id, we_bcrypt = (=), we_url = (\<lambda>_. None),
     we_home = ''/task''\<rparr>"

definition alice_row :: user_row where
  "alice_row = \<lparr>us_ID = alice, us_Name = ''Alice'', us_Email = ''alice'', us_PasswordHash = ''pass''\<rparr>"

definition bob_token :: agent_token_row where
  "bob_token = \<lparr>tk_ID = ''1'', tk_UserID = bob, tk_Hash = ''secret'', tk_Label = [], tk_Revoked = False, tk_ExpiresAt = None,
     tk_LastUsedAt = None\<rparr>"

definition sample_web :: web_state where
  "sample_web = \<lparr>ws_authz = two_admin_server, ws_users = [alice_row], ws_tokens = [bob_token], ws_audit = [], ws_events = []\<rparr>"

definition sample_request :: "string \<Rightarrow> (string \<Rightarrow> string) \<Rightarrow> (string \<Rightarrow> string) \<Rightarrow> session_values \<Rightarrow> http_request" where
  "sample_request m hs f s = \<lparr>rq_Method = m, rq_Path = ''/admin/access'', rq_URI = ''/admin/access'', rq_Header = hs,
     rq_Query = (\<lambda>_. []), rq_Form = Some f, rq_Session = Some s, rq_RemoteAddr = ''::1'', rq_UserAgent = [], rq_Context = no_context\<rparr>"

definition alice_session :: session_values where
  "alice_session = login_session sample_env Map.empty alice_row ''admin'' 1"

definition answer :: "nat \<Rightarrow> handler" where
  "answer code r st = (http_error code (cx_UserID (rq_Context r)), st)"

abbreviation "blank \<equiv> (\<lambda>_ :: string. [] :: string)"
abbreviation "alice_get \<equiv> sample_request ''GET'' blank blank alice_session"
abbreviation "alice_post \<equiv> sample_request ''POST'' (blank(''X-CSRF-Token'' := ''nonce'')) blank alice_session"

lemma sample_session:
  "session_of alice_session alice" "alice_session ''csrf_token'' = Some (SvString ''nonce'')"
  "session_version (sample_request m hs f alice_session) = Some 1" "alice \<noteq> []"
  by (simp_all add: session_of_def alice_session_def login_session_def alice_row_def sample_env_def session_version_def
      sample_request_def uuid_of_def)

lemma sample_fields_request:
  "rq_Session (sample_request m hs f s) = Some s" "rq_Form (sample_request m hs f s) = Some f"
  "rq_Method (sample_request m hs f s) = m" "rq_Header (sample_request m hs f s) = hs"
  "rq_Context (sample_request m hs f s) = no_context" "valid_scope (sample_request m hs f s) = (TrimSpace (hs ''X-App-ID'') = [] \<or>
     length (TrimSpace (hs ''X-App-ID'')) \<le> 64 \<and> list_all app_id_byte (TrimSpace (hs ''X-App-ID'')))"
  by (simp_all add: sample_request_def valid_scope_def app_scope_def)

lemma sample_trims: "TrimSpace ''nonce'' = ''nonce''" "ParseBearer [] = []" "ParseBearer ''Bearer secret'' = ''secret''"
  by code_simp+

lemma sample_forgery: "forgery_checked alice_get" "forgery_checked alice_post"
  by (simp_all add: forgery_checked_def sample_fields_request changing_method_def csrf_token_def sample_session
      session_string_def sample_trims)

lemma sample_coherent: "coherent (ws_authz sample_web)" "current_version (ws_authz sample_web) u = 1"
  by (simp_all add: coherent_def sample_web_def two_admin_server_def current_version_def)

lemma sample_permission: "has_permission (as_tables (ws_authz sample_web)) alice ''admin'' []"
  by (simp add: sample_web_def sample_admins)

lemma sample_passes:
  assumes "r \<in> {alice_get, alice_post}"
  shows "rs_Status (fst (serve_route sample_env ''admin'' (answer code) r sample_web)) = code"
proof -
  from assms have r: "rq_Session r = Some alice_session" "session_version r = Some (int (current_version (ws_authz sample_web) alice))"
    "forgery_checked r" "valid_scope r"
    by (auto simp: sample_fields_request sample_session sample_coherent sample_forgery)
  have "we_up sample_env" by (simp add: sample_env_def)
  from current_session_passes[OF this r(1) sample_session(1) r(2) sample_coherent(1) sample_permission r(3,4), of "answer code"]
  show ?thesis by (auto simp: Audit_def answer_def http_error_def)
qed

lemma sample_influence:
  "serve_route sample_env ''admin'' (answer 200) alice_get sample_web \<noteq> serve_route sample_env ''admin'' (answer 204) alice_get sample_web"
  using sample_passes[of alice_get 200] sample_passes[of alice_get 204] by auto


theorem changed_permissions_end_sessions_witness:
  "fst (serve_route sample_env ''view'' (answer 200) alice_get (sample_web\<lparr>ws_authz := revoked_state\<rparr>))
     \<in> {redirectToLogin sample_env alice_get, http_error 500 ''Session security check failed''}"
proof (rule changed_permissions_end_sessions [where handler = handleRevokeUserRole, OF _ sample_revocation])
  show "has_permission (as_tables revoked_state) alice ''admin'' [] \<noteq> has_permission (as_tables two_admin_server) alice ''admin'' []"
    by (simp add: sample_admins uuid_of_distinct)
  show "session_version alice_get = Some (int 1)" "session_of alice_session alice" by (simp_all add: sample_session)
  show "1 \<le> current_version two_admin_server alice" by (simp add: current_version_def two_admin_server_def)
qed (simp_all add: sample_fields_request)

definition login_form :: "string \<Rightarrow> string" where
  "login_form = blank(''email'' := ''alice'', ''password'' := ''pass'')"

definition login_request :: http_request where
  "login_request = sample_request ''POST'' blank login_form Map.empty"

definition login_state :: web_state where
  "login_state = snd (loginPostHandler sample_env login_request sample_web)"

lemma sample_login:
  "loginPostHandler sample_env login_request sample_web = (fst (loginPostHandler sample_env login_request sample_web), login_state)"
  by (simp add: login_state_def)

lemma sample_login_cookie:
  "rs_Cookie (fst (loginPostHandler sample_env login_request sample_web)) =
     CookieSaved (login_session sample_env Map.empty alice_row (primary_role_name (as_tables two_admin_server) alice) 1)"
proof -
  have "GetOrInitUserSessionVersion True alice two_admin_server = (Inr 1, two_admin_server\<lparr>as_versions := [alice \<mapsto> 1]\<rparr>)"
    by (simp add: GetOrInitUserSessionVersion_def two_admin_server_def)
  then show ?thesis
    by (simp add: loginPostHandler_def login_request_def sample_fields_request login_form_def sample_web_def alice_row_def
        sample_env_def redirect_to_def Let_def sanitizeLoginNext_def)
qed

theorem login_opens_routes_witness:
  "\<exists>u f. rq_Form login_request = Some f \<and> u \<in> set (ws_users sample_web) \<and> us_Email u = f ''email'' \<and>
     we_bcrypt sample_env (us_PasswordHash u) (f ''password'') \<and>
     (if has_permission (as_tables (ws_authz sample_web)) (us_ID u) ''admin'' []
      then \<exists>r'' st''. cx_UserID (rq_Context r'') = us_ID u \<and> fst (serve_route sample_env ''admin'' (answer 200)
        (sample_request ''POST'' (blank(''X-CSRF-Token'' := ''nonce'')) blank (login_session sample_env Map.empty alice_row
          (primary_role_name (as_tables two_admin_server) alice) 1)) login_state) = fst (answer 200 r'' st'')
      else \<forall>h'. serve_route sample_env ''admin'' (answer 200)
        (sample_request ''POST'' (blank(''X-CSRF-Token'' := ''nonce'')) blank (login_session sample_env Map.empty alice_row
          (primary_role_name (as_tables two_admin_server) alice) 1)) login_state = serve_route sample_env ''admin'' h'
        (sample_request ''POST'' (blank(''X-CSRF-Token'' := ''nonce'')) blank (login_session sample_env Map.empty alice_row
          (primary_role_name (as_tables two_admin_server) alice) 1)) login_state)"
proof (rule login_opens_routes [OF sample_login sample_login_cookie])
  show "login_session sample_env Map.empty alice_row (primary_role_name (as_tables two_admin_server) alice) 1 ''authenticated'' =
      Some (SvBool True)" by (simp add: login_session_def)
  show "coherent (ws_authz sample_web)" by (rule sample_coherent)
  show "list_all (\<lambda>u. us_ID u \<noteq> []) (ws_users sample_web)" by (simp add: sample_web_def alice_row_def uuid_of_def)
qed (simp_all add: sample_env_def sample_fields_request csrf_token_def sample_trims)

definition agent_request :: http_request where
  "agent_request = sample_request ''POST'' (blank(''Authorization'' := ''Bearer secret'')) blank Map.empty"

lemma sample_agent: "rs_Status (fst (serve_agent_route sample_env (answer code) agent_request sample_web)) = code"
  by (simp add: serve_agent_route_def withAuthOrAgentOnly_def RequireAuthWithAgents_def resolveSessionOrAgent_def Let_def
      agent_request_def sample_fields_request sample_trims resolveAgent_def ResolveAgentToken_def sample_env_def sample_web_def
      bob_token_def LookupUserIdentity_def alice_row_def requireFreshSession_def Audit_def RequireCSRF_def IsBearerRequest_def
      answer_def http_error_def split: prod.split)

theorem agent_routes_witness:
  "if IsBearerRequest agent_request
   then \<exists>t \<in> set (ws_tokens sample_web). tk_Hash t = we_sha256 sample_env (ParseBearer (rq_Header agent_request ''Authorization'')) \<and>
     usable_token sample_env t
   else \<exists>s u. rq_Session agent_request = Some s \<and> session_of s u \<and>
     session_version agent_request = Some (int (current_version (ws_authz sample_web) u)) \<and> forgery_checked agent_request"
  by (rule agent_routes [of sample_env "answer 200" _ _ "answer 204"])
    (use sample_agent[of 200] sample_agent[of 204] in auto)

theorem audit_exact_witness:
  "ws_audit (snd (serve_route sample_env ''admin'' (answer 200) alice_post sample_web)) = ws_audit sample_web @
    (if accepted_session sample_env alice_post sample_web
     then [audit_event (alice_post\<lparr>rq_Context := the (resolveSession (alice_post\<lparr>rq_Context := no_context\<rparr>))\<rparr>)
       (rs_Status (fst (serve_route sample_env ''admin'' (answer 200) alice_post sample_web)))] else [])"
  by (rule audit_exact) (simp_all add: answer_def changing_method_def sample_fields_request sample_env_def)

end
