(* ===== verification/RealtimeHub.thy ===== *)
theory RealtimeHub
  imports AppLookup Transition "HOL-Library.AList" "HOL-Library.Multiset"
begin

text \<open>
  The realtime hub, \<open>internal/realtime/hub.go\<close>: subscriptions with channels of capacity 12, the
  presence of clients on records, its expiry, and the events that tell the subscribers.

  A Go map is an association list with distinct keys, in the order a loop visits it. A channel is
  the list of the events it holds. The clock is an argument of the operations that read it. An
  operation that sends events takes the lock twice, once to change the state and once to collect the
  receivers, so its events wait in between: the step relation keeps them in a list of pending
  broadcasts and lets other operations run before they are sent.
\<close>

section \<open>Data\<close>

record PresenceView =
  vw_UserID :: string
  vw_UserName :: string
  vw_Status :: string

record Event =
  evt_Type :: string
  evt_Table :: string
  evt_RecordID :: string
  evt_Kind :: string
  evt_ActorUserID :: string
  evt_ActorClientID :: string
  evt_At :: string
  evt_Presence :: "PresenceView list"

record subscriber =
  su_table :: string
  su_recordID :: string
  su_ch :: "Event list"

record presenceEntry =
  pe_ClientID :: string
  pe_UserID :: string
  pe_UserName :: string
  pe_Status :: string
  pe_LastSeen :: gotime

record Hub =
  hb_presenceTTL :: int
  hb_subscriptions :: "(int \<times> subscriber) list"
  hb_nextSubID :: int
  hb_presenceByKey :: "(string \<times> (string \<times> presenceEntry) list) list"

definition default_ttl :: int where "default_ttl = 35 * 1000000000"

definition newHub :: "int \<Rightarrow> Hub" where
  "newHub ttl = \<lparr>hb_presenceTTL = (if ttl \<le> 0 then default_ttl else ttl), hb_subscriptions = [], hb_nextSubID = 0,
     hb_presenceByKey = []\<rparr>"

definition channel_capacity :: nat where "channel_capacity = 12"

section \<open>Names and times\<close>

definition normalizeTable :: "string \<Rightarrow> string" where
  "normalizeTable t = trim_lower t"

definition normalizePresenceStatus :: "string \<Rightarrow> string" where
  "normalizePresenceStatus s = (if ToLower (TrimSpace s) = ''editing'' then ''editing'' else ''viewing'')"

definition presenceKey :: "string \<Rightarrow> string \<Rightarrow> string" where
  "presenceKey table recordID = normalizeTable table @ '':'' @ TrimSpace recordID"

definition splitPresenceKey :: "string \<Rightarrow> string \<times> string" where
  "splitPresenceKey key = (case cut1 (CHR '':'') key of
     None \<Rightarrow> (TrimSpace key, []) | Some (a, b) \<Rightarrow> (TrimSpace a, TrimSpace b))"

text \<open>\<open>UTC().Format(time.RFC3339Nano)\<close>: the fraction of the second without its trailing zeros.\<close>

definition format_fraction :: "nat \<Rightarrow> string" where
  "format_fraction ns = (if ns = 0 then []
     else CHR ''.'' # rev (dropWhile (\<lambda>c. c = CHR ''0'') (rev (pad_digits 9 ns))))"

definition format_nano_utc :: "gotime \<Rightarrow> string" where
  "format_nano_utc t = (let s = format_RFC3339 (t\<lparr>t_off := (\<lambda>_. 0)\<rparr>) in
     take (length s - 1) s @ format_fraction (t_nsec t) @ ''Z'')"

section \<open>Presence\<close>

definition is_stale :: "gotime \<Rightarrow> int \<Rightarrow> presenceEntry \<Rightarrow> bool" where
  "is_stale now ttl e \<longleftrightarrow> ttl < time_Sub now (pe_LastSeen e)"

definition display_name :: "presenceEntry \<Rightarrow> string" where
  "display_name e = (if TrimSpace (pe_UserName e) \<noteq> [] then TrimSpace (pe_UserName e)
     else if TrimSpace (pe_UserID e) \<noteq> [] then TrimSpace (pe_UserID e) else ''Someone'')"

definition user_key :: "presenceEntry \<Rightarrow> string" where
  "user_key e = (if TrimSpace (pe_UserID e) \<noteq> [] then TrimSpace (pe_UserID e) else ''name:'' @ display_name e)"

definition entry_view :: "presenceEntry \<Rightarrow> PresenceView" where
  "entry_view e = \<lparr>vw_UserID = pe_UserID e, vw_UserName = display_name e,
     vw_Status = normalizePresenceStatus (pe_Status e)\<rparr>"

definition merge_view :: "PresenceView \<Rightarrow> PresenceView \<Rightarrow> PresenceView" where
  "merge_view ex v =
     (let ex1 = (if vw_Status ex \<noteq> ''editing'' \<and> vw_Status v = ''editing'' then ex\<lparr>vw_Status := ''editing''\<rparr> else ex);
          ex2 = (if TrimSpace (vw_UserName ex1) = [] \<and> TrimSpace (vw_UserName v) \<noteq> []
            then ex1\<lparr>vw_UserName := vw_UserName v\<rparr> else ex1)
      in if TrimSpace (vw_UserID ex2) = [] \<and> TrimSpace (vw_UserID v) \<noteq> []
         then ex2\<lparr>vw_UserID := vw_UserID v\<rparr> else ex2)"

text \<open>The loop that fills \<open>byUser\<close>.\<close>

fun by_user :: "gotime \<Rightarrow> int \<Rightarrow> presenceEntry list \<Rightarrow> (string \<times> PresenceView) list \<Rightarrow> (string \<times> PresenceView) list" where
  "by_user now ttl [] acc = acc"
| "by_user now ttl (e # es) acc =
     (if is_stale now ttl e then by_user now ttl es acc
      else by_user now ttl es (case map_of acc (user_key e) of
          None \<Rightarrow> AList.update (user_key e) (entry_view e) acc
        | Some ex \<Rightarrow> AList.update (user_key e) (merge_view ex (entry_view e)) acc))"

definition view_key :: "PresenceView \<Rightarrow> bool \<times> string \<times> string" where
  "view_key v = (vw_Status v \<noteq> ''editing'', vw_UserName v, vw_UserID v)"

definition snapshotFromEntries :: "(string \<times> presenceEntry) list \<Rightarrow> gotime \<Rightarrow> int \<Rightarrow> PresenceView list" where
  "snapshotFromEntries entries now ttl = sort_key view_key (map snd (by_user now ttl (map snd entries) []))"

definition presence_of :: "Hub \<Rightarrow> string \<Rightarrow> (string \<times> presenceEntry) list" where
  "presence_of h key = (case map_of (hb_presenceByKey h) key of None \<Rightarrow> [] | Some es \<Rightarrow> es)"

definition PresenceSnapshot :: "gotime \<Rightarrow> Hub \<Rightarrow> string \<Rightarrow> string \<Rightarrow> PresenceView list" where
  "PresenceSnapshot now h table recordID =
     (if normalizeTable table = [] \<or> TrimSpace recordID = [] then []
      else snapshotFromEntries (presence_of h (presenceKey table recordID)) now (hb_presenceTTL h))"

section \<open>Subscriptions and events\<close>

definition Subscribe :: "string \<Rightarrow> string \<Rightarrow> Hub \<Rightarrow> int \<times> Hub" where
  "Subscribe table recordID h =
     (let n = hb_nextSubID h + 1 in
      (n, h\<lparr>hb_nextSubID := n, hb_subscriptions := AList.update n
         \<lparr>su_table = normalizeTable table, su_recordID = TrimSpace recordID, su_ch = []\<rparr> (hb_subscriptions h)\<rparr>))"

definition unsubscribe :: "int \<Rightarrow> Hub \<Rightarrow> Hub" where
  "unsubscribe n h = h\<lparr>hb_subscriptions := AList.delete n (hb_subscriptions h)\<rparr>"

definition hears :: "subscriber \<Rightarrow> Event \<Rightarrow> bool" where
  "hears s e \<longleftrightarrow> su_table s = evt_Table e \<and> (su_recordID s = [] \<or> su_recordID s = evt_RecordID e)"

definition offer :: "Event \<Rightarrow> subscriber \<Rightarrow> subscriber" where
  "offer e s = (if hears s e \<and> length (su_ch s) < channel_capacity then s\<lparr>su_ch := su_ch s @ [e]\<rparr> else s)"

definition broadcast :: "Event \<Rightarrow> Hub \<Rightarrow> Hub" where
  "broadcast e h = h\<lparr>hb_subscriptions := map (\<lambda>(n, s). (n, offer e s)) (hb_subscriptions h)\<rparr>"

definition change_event :: "gotime \<Rightarrow> string \<Rightarrow> string \<Rightarrow> string \<Rightarrow> string \<Rightarrow> string \<Rightarrow> Event" where
  "change_event now table recordID kind actorUserID actorClientID =
     \<lparr>evt_Type = ''record.changed'', evt_Table = table, evt_RecordID = recordID, evt_Kind = TrimSpace kind,
      evt_ActorUserID = TrimSpace actorUserID, evt_ActorClientID = TrimSpace actorClientID,
      evt_At = format_nano_utc now, evt_Presence = []\<rparr>"

definition PublishRecordChange ::
  "gotime \<Rightarrow> string \<Rightarrow> string \<Rightarrow> string \<Rightarrow> string \<Rightarrow> string \<Rightarrow> Hub \<Rightarrow> Hub" where
  "PublishRecordChange now table recordID kind actorUserID actorClientID h =
     (let t = normalizeTable table; r = TrimSpace recordID in
      if t = [] \<or> r = [] then h else broadcast (change_event now t r kind actorUserID actorClientID) h)"

definition presence_event :: "gotime \<Rightarrow> string \<Rightarrow> string \<Rightarrow> PresenceView list \<Rightarrow> Event" where
  "presence_event now table recordID views =
     \<lparr>evt_Type = ''presence.updated'', evt_Table = table, evt_RecordID = recordID, evt_Kind = [], evt_ActorUserID = [],
      evt_ActorClientID = [], evt_At = format_nano_utc now, evt_Presence = views\<rparr>"

text \<open>The critical section of \<open>UpsertPresence\<close>: the new state and the event to broadcast, if any.\<close>

definition upsert_locked ::
  "gotime \<Rightarrow> string \<Rightarrow> string \<Rightarrow> string \<Rightarrow> string \<Rightarrow> string \<Rightarrow> string \<Rightarrow> Hub \<Rightarrow> Hub \<times> Event option" where
  "upsert_locked now table recordID clientID userID userName status h =
     (let t = normalizeTable table; r = TrimSpace recordID; c = TrimSpace clientID; u = TrimSpace userID;
          name = TrimSpace userName; st = normalizePresenceStatus status in
      if t = [] \<or> r = [] \<or> c = [] \<or> u = [] then (h, None)
      else
        (let key = presenceKey t r; old = presence_of h key;
             changed = (case map_of old c of None \<Rightarrow> True
               | Some ex \<Rightarrow> pe_Status ex \<noteq> st \<or> pe_UserName ex \<noteq> name \<or> pe_UserID ex \<noteq> u);
             new = AList.update c \<lparr>pe_ClientID = c, pe_UserID = u, pe_UserName = name, pe_Status = st,
                                   pe_LastSeen = now\<rparr> old;
             h' = h\<lparr>hb_presenceByKey := AList.update key new (hb_presenceByKey h)\<rparr>
         in (h', if changed then Some (presence_event now t r (snapshotFromEntries new now (hb_presenceTTL h)))
                 else None)))"

definition UpsertPresence ::
  "gotime \<Rightarrow> string \<Rightarrow> string \<Rightarrow> string \<Rightarrow> string \<Rightarrow> string \<Rightarrow> string \<Rightarrow> Hub \<Rightarrow> Hub" where
  "UpsertPresence now table recordID clientID userID userName status h =
     (case upsert_locked now table recordID clientID userID userName status h of
        (h', None) \<Rightarrow> h' | (h', Some e) \<Rightarrow> broadcast e h')"

text \<open>The critical section of the janitor: stale entries go, and so do records left without any.\<close>

definition fresh_entries :: "gotime \<Rightarrow> int \<Rightarrow> (string \<times> presenceEntry) list \<Rightarrow> (string \<times> presenceEntry) list" where
  "fresh_entries now ttl es = filter (\<lambda>ce. \<not> is_stale now ttl (snd ce)) es"

definition cleanup_locked :: "gotime \<Rightarrow> Hub \<Rightarrow> Hub \<times> Event list" where
  "cleanup_locked now h =
     (let ttl = hb_presenceTTL h; swept = map (\<lambda>(k, es). (k, fresh_entries now ttl es)) (hb_presenceByKey h) in
      (h\<lparr>hb_presenceByKey := filter (\<lambda>kes. snd kes \<noteq> []) swept\<rparr>,
       map (\<lambda>(k, es). case splitPresenceKey k of (t, r) \<Rightarrow>
              presence_event now t r (snapshotFromEntries (fresh_entries now ttl es) now ttl))
         (filter (\<lambda>(k, es). fresh_entries now ttl es \<noteq> es) (hb_presenceByKey h))))"

definition cleanupStalePresence :: "gotime \<Rightarrow> Hub \<Rightarrow> Hub" where
  "cleanupStalePresence now h = (case cleanup_locked now h of (h', es) \<Rightarrow> fold broadcast es h')"

section \<open>Steps\<close>

text \<open>The hub with the broadcasts that have not been sent yet.\<close>

record hub_state =
  st_hub :: Hub
  st_pending :: "Event list"

text \<open>The receiver takes the first event of its channel.\<close>

definition receive :: "int \<Rightarrow> Hub \<Rightarrow> Hub" where
  "receive n h = h\<lparr>hb_subscriptions := map (\<lambda>(m, s). (m, if m = n then s\<lparr>su_ch := tl (su_ch s)\<rparr> else s))
     (hb_subscriptions h)\<rparr>"

inductive hub_step :: "hub_state \<Rightarrow> hub_state \<Rightarrow> bool" where
  step_subscribe: "hub_step s (s\<lparr>st_hub := snd (Subscribe table recordID (st_hub s))\<rparr>)"
| step_unsubscribe: "hub_step s (s\<lparr>st_hub := unsubscribe n (st_hub s)\<rparr>)"
| step_publish: "normalizeTable table \<noteq> [] \<Longrightarrow> TrimSpace recordID \<noteq> [] \<Longrightarrow>
    hub_step s (s\<lparr>st_pending := st_pending s @
      [change_event now (normalizeTable table) (TrimSpace recordID) kind actor client]\<rparr>)"
| step_upsert: "upsert_locked now table recordID clientID userID userName status (st_hub s) = (h', e) \<Longrightarrow>
    hub_step s \<lparr>st_hub = h', st_pending = st_pending s @ (case e of None \<Rightarrow> [] | Some e \<Rightarrow> [e])\<rparr>"
| step_cleanup: "cleanup_locked now (st_hub s) = (h', es) \<Longrightarrow>
    hub_step s \<lparr>st_hub = h', st_pending = st_pending s @ es\<rparr>"
| step_broadcast: "st_pending s = xs @ e # ys \<Longrightarrow>
    hub_step s \<lparr>st_hub = broadcast e (st_hub s), st_pending = xs @ ys\<rparr>"
| step_receive: "hub_step s (s\<lparr>st_hub := receive n (st_hub s)\<rparr>)"

definition hub_start :: "int \<Rightarrow> hub_state" where
  "hub_start ttl = \<lparr>st_hub = newHub ttl, st_pending = []\<rparr>"

inductive_cases hub_stepE: "hub_step s s'"

end
