(* ===== verification/RealtimeLaws.thy ===== *)
theory RealtimeLaws
  imports RealtimeHub
begin

text \<open>
  The invariant of the realtime hub and the properties of its operations: bounded channels, events
  only for those who listen, presence keyed by client, snapshots with one view per user.
\<close>

section \<open>Invariant\<close>

definition sub_ok :: "subscriber \<Rightarrow> bool" where
  "sub_ok s \<longleftrightarrow> length (su_ch s) \<le> channel_capacity \<and> (\<forall>e \<in> set (su_ch s). hears s e)"

definition entry_ok :: "string \<Rightarrow> presenceEntry \<Rightarrow> bool" where
  "entry_ok c e \<longleftrightarrow> pe_ClientID e = c \<and> c \<noteq> [] \<and> pe_UserID e \<noteq> [] \<and> TrimSpace (pe_UserID e) = pe_UserID e
     \<and> pe_Status e \<in> {''editing'', ''viewing''}"

definition room_ok :: "string \<Rightarrow> (string \<times> presenceEntry) list \<Rightarrow> bool" where
  "room_ok k es \<longleftrightarrow> es \<noteq> [] \<and> distinct (map fst es) \<and> (\<forall>(c, e) \<in> set es. entry_ok c e)
     \<and> (\<exists>t r. k = presenceKey t r \<and> normalizeTable t \<noteq> [] \<and> TrimSpace r \<noteq> [])"

definition subs_ok :: "Hub \<Rightarrow> bool" where
  "subs_ok h \<longleftrightarrow> distinct (map fst (hb_subscriptions h)) \<and> 0 \<le> hb_nextSubID h \<and>
     (\<forall>(n, s) \<in> set (hb_subscriptions h). 0 < n \<and> n \<le> hb_nextSubID h \<and> sub_ok s)"

definition rooms_ok :: "Hub \<Rightarrow> bool" where
  "rooms_ok h \<longleftrightarrow> distinct (map fst (hb_presenceByKey h)) \<and> (\<forall>(k, es) \<in> set (hb_presenceByKey h). room_ok k es)"

definition hub_inv :: "Hub \<Rightarrow> bool" where
  "hub_inv h \<longleftrightarrow> 0 < hb_presenceTTL h \<and> subs_ok h \<and> rooms_ok h"

lemma set_update: "x \<in> set (AList.update k v al) \<Longrightarrow> x = (k, v) \<or> x \<in> set al"
  by (induction al) (auto split: if_splits)

lemma fst_comp_map_snd [simp]: "fst \<circ> (\<lambda>(k, v). (k, f k v)) = fst"
  by auto

lemma sub_ok_offer: "sub_ok s \<Longrightarrow> sub_ok (offer e s)"
  by (auto simp: sub_ok_def offer_def hears_def)

lemma subs_ok_Subscribe: "subs_ok h \<Longrightarrow> subs_ok (snd (Subscribe table recordID h))"
  by (fastforce simp: subs_ok_def Subscribe_def Let_def sub_ok_def distinct_update dest!: set_update)

lemma subs_ok_unsubscribe: "subs_ok h \<Longrightarrow> subs_ok (unsubscribe n h)"
  by (auto simp: subs_ok_def unsubscribe_def AList.delete_eq distinct_map_filter)

lemma subs_ok_broadcast: "subs_ok h \<Longrightarrow> subs_ok (broadcast e h)"
  unfolding subs_ok_def broadcast_def by (auto simp: sub_ok_offer)

lemma subs_ok_receive: "subs_ok h \<Longrightarrow> subs_ok (receive n h)"
proof -
  have "sub_ok s \<Longrightarrow> sub_ok (s\<lparr>su_ch := tl (su_ch s)\<rparr>)" for s
    by (cases "su_ch s") (auto simp: sub_ok_def hears_def)
  then show "subs_ok h \<Longrightarrow> subs_ok (receive n h)"
    unfolding subs_ok_def receive_def by auto
qed

lemma room_of: "rooms_ok h \<Longrightarrow> map_of (hb_presenceByKey h) k = Some es \<Longrightarrow> room_ok k es"
  by (auto simp: rooms_ok_def dest: map_of_SomeD)

lemma presence_of_ok:
  assumes "rooms_ok h"
  shows "distinct (map fst (presence_of h k))" "(c, e) \<in> set (presence_of h k) \<Longrightarrow> entry_ok c e"
proof -
  show "distinct (map fst (presence_of h k))"
    using room_of[OF assms] by (auto simp: presence_of_def room_ok_def split: option.split)
  assume "(c, e) \<in> set (presence_of h k)"
  then obtain es where "map_of (hb_presenceByKey h) k = Some es" "(c, e) \<in> set es"
    by (cases "map_of (hb_presenceByKey h) k") (auto simp: presence_of_def)
  then show "entry_ok c e" using room_of[OF assms] by (fastforce simp: room_ok_def)
qed

lemma rooms_ok_upsert:
  assumes "rooms_ok h" "upsert_locked now table recordID clientID userID userName status h = (h', e)"
  shows "rooms_ok h'"
proof (cases "h' = h")
  case False
  let ?t = "normalizeTable table" and ?r = "TrimSpace recordID" and ?c = "TrimSpace clientID"
  let ?e = "\<lparr>pe_ClientID = ?c, pe_UserID = TrimSpace userID, pe_UserName = TrimSpace userName,
    pe_Status = normalizePresenceStatus status, pe_LastSeen = now\<rparr>"
  let ?new = "AList.update ?c ?e (presence_of h (presenceKey ?t ?r))"
  have blank: "?t \<noteq> []" "?r \<noteq> []" "?c \<noteq> []" "TrimSpace userID \<noteq> []"
    and h': "h' = h\<lparr>hb_presenceByKey := AList.update (presenceKey ?t ?r) ?new (hb_presenceByKey h)\<rparr>"
    using assms(2) False by (auto simp: upsert_locked_def Let_def split: if_splits)
  have "entry_ok ?c ?e"
    using blank by (simp add: entry_ok_def normalizePresenceStatus_def)
  moreover have "\<exists>t r. presenceKey ?t ?r = presenceKey t r \<and> normalizeTable t \<noteq> [] \<and> TrimSpace r \<noteq> []"
    using blank(1,2) by (intro exI[of _ ?t] exI[of _ ?r] conjI) (simp_all add: normalizeTable_def)
  moreover have "?new \<noteq> []" by (cases "presence_of h (presenceKey ?t ?r)") auto
  ultimately have "room_ok (presenceKey ?t ?r) ?new"
    unfolding room_ok_def using presence_of_ok[OF assms(1), where k = "presenceKey ?t ?r"]
    by (auto simp: distinct_update dest!: set_update)
  then show ?thesis
    using assms(1) by (auto simp: h' rooms_ok_def distinct_update dest!: set_update)
qed (use assms in simp)

lemma rooms_ok_cleanup: "rooms_ok h \<Longrightarrow> rooms_ok (fst (cleanup_locked now h))"
proof -
  assume ok: "rooms_ok h"
  let ?swept = "map (\<lambda>(k, es). (k, fresh_entries now (hb_presenceTTL h) es)) (hb_presenceByKey h)"
  have "room_ok k (fresh_entries now (hb_presenceTTL h) es)"
    if "(k, es) \<in> set (hb_presenceByKey h)" "fresh_entries now (hb_presenceTTL h) es \<noteq> []" for k es
    using ok that by (fastforce simp: rooms_ok_def room_ok_def fresh_entries_def distinct_map_filter)
  moreover have "distinct (map fst ?swept)" using ok by (simp add: rooms_ok_def)
  ultimately show ?thesis
    by (auto simp: rooms_ok_def cleanup_locked_def Let_def intro: distinct_map_filter)
qed

lemma upsert_frame:
  "upsert_locked now table recordID clientID userID userName status h = (h', e) \<Longrightarrow>
     hb_subscriptions h' = hb_subscriptions h \<and> hb_nextSubID h' = hb_nextSubID h \<and> hb_presenceTTL h' = hb_presenceTTL h"
  by (auto simp: upsert_locked_def Let_def split: if_splits)

lemma hub_inv_step: "hub_inv (st_hub s) \<Longrightarrow> hub_step s s' \<Longrightarrow> hub_inv (st_hub s')"
proof (erule hub_stepE)
  fix table recordID
  assume "hub_inv (st_hub s)" "s' = s\<lparr>st_hub := snd (Subscribe table recordID (st_hub s))\<rparr>"
  then show ?thesis by (simp add: hub_inv_def subs_ok_Subscribe) (simp add: Subscribe_def Let_def rooms_ok_def)
next
  fix n
  assume "hub_inv (st_hub s)" "s' = s\<lparr>st_hub := unsubscribe n (st_hub s)\<rparr>"
  then show ?thesis by (simp add: hub_inv_def subs_ok_unsubscribe) (simp add: unsubscribe_def rooms_ok_def)
next
  fix now table recordID clientID userID userName status h' e
  assume inv: "hub_inv (st_hub s)" and s': "s' = \<lparr>st_hub = h', st_pending = st_pending s @ (case e of None \<Rightarrow> [] | Some e \<Rightarrow> [e])\<rparr>"
    and up: "upsert_locked now table recordID clientID userID userName status (st_hub s) = (h', e)"
  show ?thesis using inv rooms_ok_upsert[OF _ up] upsert_frame[OF up] by (simp add: s' hub_inv_def subs_ok_def)
next
  fix now h' es
  assume inv: "hub_inv (st_hub s)" and s': "s' = \<lparr>st_hub = h', st_pending = st_pending s @ es\<rparr>"
    and up: "cleanup_locked now (st_hub s) = (h', es)"
  have "rooms_ok h'" using rooms_ok_cleanup[of "st_hub s" now] inv up by (simp add: hub_inv_def)
  moreover have "hb_subscriptions h' = hb_subscriptions (st_hub s) \<and> hb_nextSubID h' = hb_nextSubID (st_hub s)
      \<and> hb_presenceTTL h' = hb_presenceTTL (st_hub s)" using up by (auto simp: cleanup_locked_def Let_def)
  ultimately show ?thesis using inv by (simp add: s' hub_inv_def subs_ok_def)
next
  fix xs e ys
  assume "hub_inv (st_hub s)" "s' = \<lparr>st_hub = broadcast e (st_hub s), st_pending = xs @ ys\<rparr>"
  then show ?thesis by (simp add: hub_inv_def subs_ok_broadcast) (simp add: broadcast_def rooms_ok_def)
next
  fix n
  assume "hub_inv (st_hub s)" "s' = s\<lparr>st_hub := receive n (st_hub s)\<rparr>"
  then show ?thesis by (simp add: hub_inv_def subs_ok_receive) (simp add: receive_def rooms_ok_def)
qed (simp_all)

lemma hub_inv_start: "hub_inv (st_hub (hub_start ttl))"
  by (simp add: hub_start_def newHub_def hub_inv_def subs_ok_def rooms_ok_def default_ttl_def)

interpretation hub: invariant_system "\<lambda>s. s = hub_start ttl" hub_step "\<lambda>s. hub_inv (st_hub s)" for ttl
  by unfold_locales (use hub_inv_start hub_inv_step in auto)

section \<open>Snapshots\<close>

definition acc_ok :: "(string \<times> PresenceView) list \<Rightarrow> bool" where
  "acc_ok acc \<longleftrightarrow> distinct (map fst acc) \<and> (\<forall>(k, v) \<in> set acc. vw_UserID v = k \<and> TrimSpace k = k \<and> k \<noteq> [] \<and>
     TrimSpace (vw_UserName v) \<noteq> [])"

definition editing_in :: "(string \<times> PresenceView) list \<Rightarrow> string \<Rightarrow> bool" where
  "editing_in acc k \<longleftrightarrow> (\<exists>v. map_of acc k = Some v \<and> vw_Status v = ''editing'')"

lemma display_name_nonblank: "TrimSpace (display_name e) \<noteq> []"
  by (simp add: display_name_def TrimSpace_plain plain_byte_def)

lemma entry_ok_key: "entry_ok c e \<Longrightarrow> user_key e = pe_UserID e"
  by (simp add: entry_ok_def user_key_def)

lemma entry_ok_status: "entry_ok c e \<Longrightarrow> normalizePresenceStatus (pe_Status e) = pe_Status e"
  by (auto simp: entry_ok_def normalizePresenceStatus_def ToLower_def lower_byte_def is_upper_byte_def
      TrimSpace_plain plain_byte_def)

lemma merge_view_ok:
  assumes "TrimSpace (vw_UserName ex) \<noteq> []" "TrimSpace (vw_UserID ex) \<noteq> []"
  shows "merge_view ex v = (if vw_Status v = ''editing'' then ex\<lparr>vw_Status := ''editing''\<rparr> else ex)"
  using assms by (simp add: merge_view_def Let_def)

lemma acc_ok_step:
  assumes "acc_ok acc" "entry_ok c e"
  defines "acc' \<equiv> (case map_of acc (user_key e) of None \<Rightarrow> AList.update (user_key e) (entry_view e) acc
    | Some ex \<Rightarrow> AList.update (user_key e) (merge_view ex (entry_view e)) acc)"
  shows "acc_ok acc'" "set (map fst acc') = insert (pe_UserID e) (set (map fst acc))"
    and "editing_in acc' k \<longleftrightarrow> editing_in acc k \<or> (k = pe_UserID e \<and> pe_Status e = ''editing'')"
proof -
  have key: "user_key e = pe_UserID e" using assms(2) by (rule entry_ok_key)
  obtain v where acc': "acc' = AList.update (pe_UserID e) v acc" and v: "vw_UserID v = pe_UserID e"
    "TrimSpace (vw_UserName v) \<noteq> []"
    "vw_Status v = ''editing'' \<longleftrightarrow> editing_in acc (pe_UserID e) \<or> pe_Status e = ''editing''"
  proof (cases "map_of acc (pe_UserID e)")
    case None
    then show ?thesis using that[of "entry_view e"]
      by (simp add: acc'_def key entry_view_def display_name_nonblank entry_ok_status[OF assms(2)] editing_in_def)
  next
    case (Some ex)
    then have ex: "vw_UserID ex = pe_UserID e" "TrimSpace (vw_UserName ex) \<noteq> []" "TrimSpace (pe_UserID e) \<noteq> []"
      using assms(1,2) map_of_SomeD[OF Some] by (auto simp: acc_ok_def entry_ok_def)
    then have "merge_view ex (entry_view e) = (if pe_Status e = ''editing'' then ex\<lparr>vw_Status := ''editing''\<rparr> else ex)"
      by (simp add: merge_view_ok entry_view_def entry_ok_status[OF assms(2)])
    then show ?thesis using that[of "merge_view ex (entry_view e)"] Some ex
      by (simp add: acc'_def key editing_in_def)
  qed
  show "acc_ok acc'"
    using assms(1,2) v by (auto simp: acc' acc_ok_def entry_ok_def distinct_update dest!: set_update)
  show "set (map fst acc') = insert (pe_UserID e) (set (map fst acc))"
    using dom_update[of "pe_UserID e" v acc] by (simp add: acc' dom_map_of_conv_image_fst)
  show "editing_in acc' k \<longleftrightarrow> editing_in acc k \<or> (k = pe_UserID e \<and> pe_Status e = ''editing'')"
    using v(3) by (auto simp: editing_in_def acc' update_conv')
qed

lemma by_user_spec:
  assumes "acc_ok acc" "\<forall>e \<in> set es. \<exists>c. entry_ok c e"
  shows "acc_ok (by_user now ttl es acc) \<and>
    set (map fst (by_user now ttl es acc)) =
      set (map fst acc) \<union> {pe_UserID e | e. e \<in> set es \<and> \<not> is_stale now ttl e} \<and>
    (editing_in (by_user now ttl es acc) k \<longleftrightarrow> editing_in acc k \<or>
      (\<exists>e \<in> set es. \<not> is_stale now ttl e \<and> pe_UserID e = k \<and> pe_Status e = ''editing''))"
  using assms
proof (induction es arbitrary: acc)
  case (Cons e es)
  obtain c where e: "entry_ok c e" using Cons.prems by auto
  have es: "\<forall>e \<in> set es. \<exists>c. entry_ok c e" using Cons.prems by simp
  show ?case
  proof (cases "is_stale now ttl e")
    case True
    then show ?thesis using Cons.IH[OF Cons.prems(1) es] by auto
  next
    case False
    let ?acc = "case map_of acc (user_key e) of None \<Rightarrow> AList.update (user_key e) (entry_view e) acc
      | Some ex \<Rightarrow> AList.update (user_key e) (merge_view ex (entry_view e)) acc"
    note step = acc_ok_step[OF Cons.prems(1) e]
    have next_acc: "by_user now ttl (e # es) acc = by_user now ttl es ?acc" using False by simp
    show ?thesis
      unfolding next_acc using Cons.IH[OF step(1) es] step(2) step(3)[of k] False by auto
  qed
qed simp

lemma singleton_list: "set xs = {x} \<Longrightarrow> distinct xs \<Longrightarrow> xs = [x]"
  by (cases xs rule: list.exhaust; cases "tl xs") auto

lemma sole_value: "\<exists>c e. P c e \<and> f e = u \<Longrightarrow> (\<And>c e. P c e \<Longrightarrow> f e = u) \<Longrightarrow> {f e | c e. P c e} = {u}"
  by blast

lemma acc_ok_editing:
  assumes "acc_ok acc"
  shows "{vw_UserID v | v. v \<in> set (map snd acc) \<and> vw_Status v = ''editing''} = {k. editing_in acc k}"
proof (intro set_eqI iffI)
  fix k assume "k \<in> {vw_UserID v | v. v \<in> set (map snd acc) \<and> vw_Status v = ''editing''}"
  then obtain k' v where v: "(k', v) \<in> set acc" "vw_Status v = ''editing''" "k = vw_UserID v" by auto
  then have "k' = k" "map_of acc k' = Some v" using assms by (auto simp: acc_ok_def)
  then show "k \<in> {k. editing_in acc k}" using v by (auto simp: editing_in_def)
next
  fix k assume "k \<in> {k. editing_in acc k}"
  then obtain v where v: "map_of acc k = Some v" "vw_Status v = ''editing''" by (auto simp: editing_in_def)
  then have mem: "(k, v) \<in> set acc" by (simp add: map_of_SomeD)
  then have "vw_UserID v = k" using assms by (auto simp: acc_ok_def)
  moreover have "v \<in> set (map snd acc)" using mem by force
  ultimately show "k \<in> {vw_UserID v | v. v \<in> set (map snd acc) \<and> vw_Status v = ''editing''}"
    using v(2) by blast
qed

lemma acc_ok_views: "acc_ok acc \<Longrightarrow> map vw_UserID (map snd acc) = map fst acc"
  by (auto simp: acc_ok_def)

lemma snapshot_views_of:
  assumes "\<forall>(c, e) \<in> set entries. entry_ok c e"
  shows "distinct (map vw_UserID (snapshotFromEntries entries now ttl)) \<and>
    set (map vw_UserID (snapshotFromEntries entries now ttl)) =
      {pe_UserID e | c e. (c, e) \<in> set entries \<and> \<not> is_stale now ttl e} \<and>
    {vw_UserID v | v. v \<in> set (snapshotFromEntries entries now ttl) \<and> vw_Status v = ''editing''} =
      {pe_UserID e | c e. (c, e) \<in> set entries \<and> \<not> is_stale now ttl e \<and> pe_Status e = ''editing''} \<and>
    sorted (map view_key (snapshotFromEntries entries now ttl))"
proof -
  let ?acc = "by_user now ttl (map snd entries) []"
  have es: "\<forall>e \<in> set (map snd entries). \<exists>c. entry_ok c e" using assms by fastforce
  have "acc_ok []" by (simp add: acc_ok_def)
  note spec = by_user_spec[OF this es, of now ttl]
  have acc: "acc_ok ?acc" using spec by blast
  have dist: "distinct (map fst ?acc)" using acc by (simp add: acc_ok_def)
  have ids: "map vw_UserID (map snd ?acc) = map fst ?acc" by (rule acc_ok_views[OF acc])
  have "mset (map vw_UserID (snapshotFromEntries entries now ttl)) = mset (map fst ?acc)"
    unfolding ids[symmetric] by (simp add: snapshotFromEntries_def multiset.map_comp)
  then have "distinct (map vw_UserID (snapshotFromEntries entries now ttl))"
    using dist mset_eq_imp_distinct_iff by blast
  moreover have "set (map vw_UserID (snapshotFromEntries entries now ttl)) = set (map fst ?acc)"
    unfolding ids[symmetric] by (simp add: snapshotFromEntries_def image_image)
  moreover have "set (map fst ?acc) = {pe_UserID e | c e. (c, e) \<in> set entries \<and> \<not> is_stale now ttl e}"
    unfolding spec[THEN conjunct2, THEN conjunct1] by force
  moreover have "{vw_UserID v | v. v \<in> set (snapshotFromEntries entries now ttl) \<and> vw_Status v = ''editing''} =
      {k. editing_in ?acc k}"
    unfolding acc_ok_editing[OF acc, symmetric] by (simp add: snapshotFromEntries_def)
  moreover have "{k. editing_in ?acc k} =
      {pe_UserID e | c e. (c, e) \<in> set entries \<and> \<not> is_stale now ttl e \<and> pe_Status e = ''editing''}"
  proof (intro set_eqI)
    fix k
    have "editing_in ?acc k \<longleftrightarrow> (\<exists>e \<in> set (map snd entries). \<not> is_stale now ttl e \<and> pe_UserID e = k \<and> pe_Status e = ''editing'')"
      using spec[where k = k] by (simp add: editing_in_def)
    then show "k \<in> {k. editing_in ?acc k} \<longleftrightarrow>
        k \<in> {pe_UserID e | c e. (c, e) \<in> set entries \<and> \<not> is_stale now ttl e \<and> pe_Status e = ''editing''}"
      by force
  qed
  moreover have "sorted (map view_key (snapshotFromEntries entries now ttl))"
    by (simp add: snapshotFromEntries_def)
  ultimately show ?thesis by simp
qed

text \<open>
  The presence snapshot of a record whose entries are well formed has one view per user, for
  exactly the users with an entry that has not expired, a user being shown as editing exactly when
  one of these entries is editing; the views are sorted, editors first.
\<close>
theorem snapshot_views:
  assumes "\<forall>(c, e) \<in> set entries. entry_ok c e"
  shows "distinct (map vw_UserID (snapshotFromEntries entries now ttl)) \<and>
    set (map vw_UserID (snapshotFromEntries entries now ttl)) =
      {pe_UserID e | c e. (c, e) \<in> set entries \<and> \<not> is_stale now ttl e} \<and>
    {vw_UserID v | v. v \<in> set (snapshotFromEntries entries now ttl) \<and> vw_Status v = ''editing''} =
      {pe_UserID e | c e. (c, e) \<in> set entries \<and> \<not> is_stale now ttl e \<and> pe_Status e = ''editing''} \<and>
    sorted (map view_key (snapshotFromEntries entries now ttl))"
  by (rule snapshot_views_of[OF assms])

section \<open>Properties\<close>

text \<open>
  C24: whatever the operations and however the broadcasts interleave with them, every channel holds
  at most 12 events, all of them about the table and record its subscriber listens to, subscription
  numbers are unique and never reused, and every presence entry is a client of a known user.
\<close>
theorem hub_invariant:
  assumes "hub_step\<^sup>*\<^sup>* (hub_start ttl) s"
  shows "hub_inv (st_hub s)"
  by (rule hub.reachable_inv[OF refl assms])

text \<open>
  The janitor removes exactly the entries that have expired, and announces exactly the records
  that lost one, by the names they were entered under.
\<close>
theorem cleanup_exact:
  assumes "hub_inv h" "cleanup_locked now h = (h', events)"
  shows "presence_of h' k = fresh_entries now (hb_presenceTTL h) (presence_of h k) \<and>
    length events = length (filter (\<lambda>(k, es). list_ex (\<lambda>ce. is_stale now (hb_presenceTTL h) (snd ce)) es)
      (hb_presenceByKey h))"
proof
  let ?f = "fresh_entries now (hb_presenceTTL h)"
  have fresh_Nil: "?f [] = []" by (simp add: fresh_entries_def)
  have "map_of (filter (\<lambda>kes. snd kes \<noteq> []) (map (\<lambda>(k, es). (k, ?f es)) al)) k =
      (case map_of al k of None \<Rightarrow> None | Some es \<Rightarrow> if ?f es = [] then None else Some (?f es))"
    if "distinct (map fst al)" for al :: "(string \<times> (string \<times> presenceEntry) list) list"
    using that
  proof (induction al)
    case (Cons a al)
    obtain k' es where a: "a = (k', es)" by (cases a)
    show ?case
    proof (cases "k' = k")
      case True
      then have "map_of al k = None" using Cons.prems by (simp add: a map_of_eq_None_iff)
      then show ?thesis using Cons True by (simp add: a)
    qed (use Cons in \<open>simp add: a\<close>)
  qed simp
  moreover have "distinct (map fst (hb_presenceByKey h))" using assms(1) by (simp add: hub_inv_def rooms_ok_def)
  ultimately show "presence_of h' k = ?f (presence_of h k)"
    using assms(2) by (auto simp: cleanup_locked_def Let_def presence_of_def fresh_Nil split: option.splits if_splits)
  have "?f es \<noteq> es \<longleftrightarrow> list_ex (\<lambda>ce. is_stale now (hb_presenceTTL h) (snd ce)) es" for es
    by (auto simp: fresh_entries_def filter_id_conv list_ex_iff)
  then show "length events = length (filter (\<lambda>(k, es). list_ex (\<lambda>ce. is_stale now (hb_presenceTTL h) (snd ce)) es)
      (hb_presenceByKey h))"
    using assms(2) by (auto simp: cleanup_locked_def Let_def)
qed

text \<open>
  A client that returns after its entry expired, and before the janitor removed it, with the
  status and name it had, appears in the snapshot of the record again without any event being sent:
  whoever was told in between that it had left is not told that it is back.
\<close>
theorem return_after_expiry_is_silent:
  assumes "map_of (presence_of h (presenceKey table recordID)) (TrimSpace clientID) = Some ex"
    and "pe_UserID ex = TrimSpace userID" "pe_UserName ex = TrimSpace userName"
    and "pe_Status ex = normalizePresenceStatus status"
    and "\<forall>(c, e) \<in> set (presence_of h (presenceKey table recordID)). entry_ok c e \<and> is_stale now (hb_presenceTTL h) e"
    and "normalizeTable table \<noteq> []" "TrimSpace recordID \<noteq> []" "0 < hb_presenceTTL h"
  shows "snd (upsert_locked now table recordID clientID userID userName status h) = None \<and>
    PresenceSnapshot now h table recordID = [] \<and>
    map vw_UserID (PresenceSnapshot now (fst (upsert_locked now table recordID clientID userID userName status h))
      table recordID) = [TrimSpace userID]"
proof -
  let ?k = "presenceKey table recordID" and ?c = "TrimSpace clientID" and ?u = "TrimSpace userID"
  let ?old = "presence_of h ?k" and ?ttl = "hb_presenceTTL h"
  let ?e = "\<lparr>pe_ClientID = ?c, pe_UserID = ?u, pe_UserName = TrimSpace userName,
    pe_Status = normalizePresenceStatus status, pe_LastSeen = now\<rparr>"
  let ?new = "AList.update ?c ?e ?old"
  have key: "presenceKey (normalizeTable table) (TrimSpace recordID) = ?k" "normalizeTable (normalizeTable table) = normalizeTable table"
    by (simp_all add: presenceKey_def normalizeTable_def)
  have ok: "entry_ok c e \<and> is_stale now ?ttl e" if "(c, e) \<in> set ?old" for c e using assms(5) that by blast
  have "entry_ok ?c ex" using ok map_of_SomeD[OF assms(1)] by blast
  then have c: "?c \<noteq> []" "?u \<noteq> []" using assms(2) by (auto simp: entry_ok_def)
  have up: "upsert_locked now table recordID clientID userID userName status h =
      (h\<lparr>hb_presenceByKey := AList.update ?k ?new (hb_presenceByKey h)\<rparr>, None)"
    using assms(1-4,6,7) c by (simp add: upsert_locked_def Let_def key)
  have "by_user now ttl es [] = []" if "\<forall>e \<in> set es. is_stale now ttl e" for ttl es
    using that by (induction es) auto
  moreover have "\<forall>e \<in> set (map snd ?old). is_stale now ?ttl e" using ok by auto
  ultimately have "by_user now ?ttl (map snd ?old) [] = []" by blast
  then have before: "PresenceSnapshot now h table recordID = []"
    by (simp add: PresenceSnapshot_def snapshotFromEntries_def)
  have "time_Sub now now = 0" by (simp add: time_Sub_def int64_min_def int64_max_def)
  then have fresh: "\<not> is_stale now ?ttl ?e" using assms(8) by (simp add: is_stale_def)
  have "entry_ok ?c ?e" using c by (simp add: entry_ok_def normalizePresenceStatus_def)
  then have new_ok: "\<forall>(c, e) \<in> set ?new. entry_ok c e" using ok by (auto dest!: set_update)
  have new_mem: "(?c, ?e) \<in> set ?new" by (rule map_of_SomeD) (simp add: update_conv')
  have only: "e = ?e" if "(c, e) \<in> set ?new" "\<not> is_stale now ?ttl e" for c e
    using set_update[OF that(1)] ok that(2) by blast
  have "\<exists>c e. (c, e) \<in> set ?new \<and> \<not> is_stale now ?ttl e \<and> pe_UserID e = ?u"
    by (intro exI[of _ ?c] exI[of _ ?e] conjI) (rule new_mem, rule fresh, simp)
  moreover have "pe_UserID e = ?u" if "(c, e) \<in> set ?new \<and> \<not> is_stale now ?ttl e" for c e
    unfolding only[OF that[THEN conjunct1] that[THEN conjunct2]] by simp
  ultimately have "{pe_UserID e | c e. (c, e) \<in> set ?new \<and> \<not> is_stale now ?ttl e} = {?u}"
    by (intro sole_value[where f = pe_UserID]) blast+
  then have "set (map vw_UserID (snapshotFromEntries ?new now ?ttl)) = {?u}"
    "distinct (map vw_UserID (snapshotFromEntries ?new now ?ttl))"
    using snapshot_views_of[OF new_ok, of now ?ttl] by simp_all
  then have "map vw_UserID (snapshotFromEntries ?new now ?ttl) = [?u]"
    by (rule singleton_list)
  then show ?thesis
    using before assms(6,7) by (simp add: up PresenceSnapshot_def presence_of_def update_conv')
qed

section \<open>A hub with one client\<close>

definition clock :: "int \<Rightarrow> gotime" where
  "clock s = \<lparr>t_sec = s, t_nsec = 0, t_off = utc\<rparr>"

definition ann_entry :: presenceEntry where
  "ann_entry = \<lparr>pe_ClientID = ''c1'', pe_UserID = ''u1'', pe_UserName = ''Ann'', pe_Status = ''viewing'', pe_LastSeen = clock 0\<rparr>"

definition ann_hub :: Hub where
  "ann_hub = (newHub 35000000000)\<lparr>hb_presenceByKey := [(''ticket:7'', [(''c1'', ann_entry)])]\<rparr>"

lemma clean_words: "TrimSpace ''u1'' = ''u1''" "TrimSpace ''c1'' = ''c1''" "TrimSpace ''Ann'' = ''Ann''" "TrimSpace ''7'' = ''7''"
  "TrimSpace ''ticket'' = ''ticket''" "TrimSpace ''viewing'' = ''viewing''"
  by (rule TrimSpace_plain; simp add: plain_byte_def)+

lemma lower_words: "ToLower ''ticket'' = ''ticket''" "ToLower ''viewing'' = ''viewing''"
  by (simp_all add: ToLower_def lower_byte_def is_upper_byte_def)

lemma ann_ok: "entry_ok ''c1'' ann_entry" "is_stale (clock 40) 35000000000 ann_entry"
  by (simp_all add: entry_ok_def ann_entry_def clean_words is_stale_def time_Sub_def clock_def int64_min_def int64_max_def)

lemma ticket_key: "presenceKey ''ticket'' ''7'' = ''ticket:7''"
  by (simp add: presenceKey_def normalizeTable_def clean_words lower_words)

lemma ann_hub_inv: "hub_inv ann_hub"
proof -
  have "\<exists>t r. ''ticket:7'' = presenceKey t r \<and> normalizeTable t \<noteq> [] \<and> TrimSpace r \<noteq> []"
    by (intro exI[of _ "''ticket''"] exI[of _ "''7''"]) (simp add: ticket_key normalizeTable_def clean_words lower_words)
  then have "room_ok ''ticket:7'' [(''c1'', ann_entry)]"
    unfolding room_ok_def using ann_ok(1) by simp
  then show ?thesis by (simp add: ann_hub_def newHub_def hub_inv_def subs_ok_def rooms_ok_def)
qed

lemma snapshot_views_witness:
  "distinct (map vw_UserID (snapshotFromEntries [(''c1'', ann_entry)] (clock 1) 35)) \<and>
    set (map vw_UserID (snapshotFromEntries [(''c1'', ann_entry)] (clock 1) 35)) =
      {pe_UserID e | c e. (c, e) \<in> set [(''c1'', ann_entry)] \<and> \<not> is_stale (clock 1) 35 e} \<and>
    {vw_UserID v | v. v \<in> set (snapshotFromEntries [(''c1'', ann_entry)] (clock 1) 35) \<and> vw_Status v = ''editing''} =
      {pe_UserID e | c e. (c, e) \<in> set [(''c1'', ann_entry)] \<and> \<not> is_stale (clock 1) 35 e \<and> pe_Status e = ''editing''} \<and>
    sorted (map view_key (snapshotFromEntries [(''c1'', ann_entry)] (clock 1) 35))"
  by (rule snapshot_views) (simp add: ann_ok)

lemma hub_invariant_witness:
  "hub_inv (st_hub ((hub_start 5)\<lparr>st_hub := snd (Subscribe ''ticket'' [] (st_hub (hub_start 5)))\<rparr>))"
  by (rule hub_invariant) (rule r_into_rtranclp, rule step_subscribe)

lemma cleanup_exact_witness:
  "presence_of (fst (cleanup_locked (clock 40) ann_hub)) ''ticket:7'' =
      fresh_entries (clock 40) (hb_presenceTTL ann_hub) (presence_of ann_hub ''ticket:7'') \<and>
   length (snd (cleanup_locked (clock 40) ann_hub)) =
      length (filter (\<lambda>(k, es). list_ex (\<lambda>ce. is_stale (clock 40) (hb_presenceTTL ann_hub) (snd ce)) es)
        (hb_presenceByKey ann_hub))"
  by (rule cleanup_exact[OF ann_hub_inv]) simp

lemma return_after_expiry_is_silent_witness:
  "snd (upsert_locked (clock 40) ''ticket'' ''7'' ''c1'' ''u1'' ''Ann'' ''viewing'' ann_hub) = None \<and>
    PresenceSnapshot (clock 40) ann_hub ''ticket'' ''7'' = [] \<and>
    map vw_UserID (PresenceSnapshot (clock 40)
      (fst (upsert_locked (clock 40) ''ticket'' ''7'' ''c1'' ''u1'' ''Ann'' ''viewing'' ann_hub)) ''ticket'' ''7'') = [TrimSpace ''u1'']"
proof (rule return_after_expiry_is_silent[where ex = ann_entry])
  have room: "presence_of ann_hub (presenceKey ''ticket'' ''7'') = [(''c1'', ann_entry)]"
    by (simp add: ticket_key presence_of_def ann_hub_def)
  show "map_of (presence_of ann_hub (presenceKey ''ticket'' ''7'')) (TrimSpace ''c1'') = Some ann_entry"
    by (simp add: room clean_words)
  show "\<forall>(c, e) \<in> set (presence_of ann_hub (presenceKey ''ticket'' ''7'')). entry_ok c e \<and> is_stale (clock 40) (hb_presenceTTL ann_hub) e"
    unfolding room using ann_ok by (simp add: ann_hub_def newHub_def)
qed (simp_all add: ann_entry_def clean_words lower_words normalizePresenceStatus_def normalizeTable_def ann_hub_def newHub_def)

end
