(* ===== verification/TaskEngine.thy ===== *)
theory TaskEngine
  imports SaveValues Transition
begin

text \<open>
  The task engine, \<open>internal/db/TaskEngine.go\<close>, over the tables it reads and writes: the tasks, their
  definitions and the children of container definitions. A row is a record; its identifier is
  opaque. A query is a search of the table, a statement an update of the matching rows after the
  trigger \<open>base_task_before_write\<close> of migration 077 accepts them. JSON documents are dynamic values.

  Arguments stand for what the engine does not decide: \<open>member g u\<close>, the group membership the
  trigger looks up, and \<open>script\<close>, the outcome of a task script, which may write to the tables.
\<close>

datatype task_error =
    TaskNotFound nat
  | InvalidTransition string string
  | RowRejected
  | DefinitionNotFound string
  | DefinitionNotActive string
  | UnknownFollowOn string
  | RunIfFailed task_error
  | RunIfNotBoolean
  | TaskScriptFailed task_error
  | ScriptError string
  | NilMapWrite

section \<open>States\<close>

definition taskTransitions :: "(string \<times> string list) list" where
  "taskTransitions =
     [(''ready'', [''ready'', ''in_progress'', ''skipped'']),
      (''in_progress'', [''in_progress'', ''ready_to_close'', ''pending'', ''skipped'', ''closed'']),
      (''pending'', [''pending'', ''ready'', ''in_progress'', ''skipped'']),
      (''ready_to_close'', [''ready_to_close'', ''closed'', ''in_progress'', ''skipped'']),
      (''closed'', []),
      (''skipped'', [])]"

definition allowedTaskTransition :: "string \<Rightarrow> string \<Rightarrow> bool" where
  "allowedTaskTransition f t = (case map_of taskTransitions f of None \<Rightarrow> False | Some edges \<Rightarrow> t \<in> set edges)"

section \<open>Tables\<close>

record TaskSpawnRule =
  rule_On :: string
  rule_DefinitionSlug :: string
  rule_InputMapping :: "(string \<times> gval) list"
  rule_Assign :: string

record TaskDefinition =
  td_ID :: string
  td_Slug :: string
  td_DisplayName :: string
  td_IsContainer :: bool
  td_ScriptText :: string
  td_RunIfScript :: string
  td_DefaultGroupID :: string
  td_SpawnRules :: "TaskSpawnRule list"
  td_IsActive :: bool
  td_deleted :: bool

record task_row =
  tk_id :: nat
  tk_title :: string
  tk_state :: string
  tk_parent :: "nat option"
  tk_group :: "string option"
  tk_assigned :: "string option"
  tk_requested :: "string option"
  tk_definition :: "string option"
  tk_variables :: gval
  tk_closure :: "string option"
  tk_deleted :: bool

text \<open>Child definitions of a container, in the order of the query.\<close>

record task_db =
  db_tasks :: "task_row list"
  db_defs :: "TaskDefinition list"
  db_children :: "(string \<times> string list) list"
  db_next :: nat

type_synonym 'a engine = "task_db \<Rightarrow> (task_error, 'a \<times> task_db) result"

definition find_task :: "nat \<Rightarrow> task_db \<Rightarrow> task_row option" where
  "find_task t db = find (\<lambda>r. tk_id r = t) (db_tasks db)"

text \<open>The trigger: the row it stores, or \<open>None\<close> when it raises.\<close>

definition valid_states :: "string list" where
  "valid_states = [''new'', ''pending'', ''ready'', ''in_progress'', ''ready_to_close'', ''closed'', ''skipped'']"

definition base_task_before_write :: "(string \<Rightarrow> string \<Rightarrow> bool) \<Rightarrow> task_row \<Rightarrow> task_row option" where
  "base_task_before_write member r =
     (let closure = (case tk_closure r of None \<Rightarrow> None
            | Some c \<Rightarrow> if TrimByte (CHR '' '') c = [] then None else Some (TrimByte (CHR '' '') c)) in
      if (case tk_assigned r of None \<Rightarrow> False
          | Some u \<Rightarrow> (case tk_group r of None \<Rightarrow> True | Some g \<Rightarrow> \<not> member g u)) then None
      else if tk_state r \<notin> set valid_states then None
      else if tk_state r \<in> {''pending'', ''in_progress'', ''ready_to_close''} \<and> (tk_group r = None \<or> tk_assigned r = None)
        then None
      else if tk_state r = ''closed'' then
        (case closure of None \<Rightarrow> Some (r\<lparr>tk_closure := Some ''completed''\<rparr>)
         | Some c \<Rightarrow> if c \<in> {''completed'', ''cancelled''} then Some (r\<lparr>tk_closure := Some c\<rparr>) else None)
      else Some (r\<lparr>tk_closure := None\<rparr>))"

definition update_task :: "(string \<Rightarrow> string \<Rightarrow> bool) \<Rightarrow> nat \<Rightarrow> (task_row \<Rightarrow> task_row) \<Rightarrow> unit engine" where
  "update_task member t f db =
     (case find_task t db of None \<Rightarrow> Inr ((), db)
      | Some r \<Rightarrow> (case base_task_before_write member (f r) of None \<Rightarrow> Inl RowRejected
          | Some r' \<Rightarrow> Inr ((), db\<lparr>db_tasks := map (\<lambda>x. if tk_id x = t then r' else x) (db_tasks db)\<rparr>)))"

definition getTaskDefinition :: "task_db \<Rightarrow> string \<Rightarrow> (task_error, TaskDefinition) result" where
  "getTaskDefinition db i = (case find (\<lambda>d. td_ID d = i \<and> \<not> td_deleted d) (db_defs db) of
     None \<Rightarrow> Inl (DefinitionNotFound i) | Some d \<Rightarrow> Inr d)"

definition getTaskDefinitionChildren :: "task_db \<Rightarrow> string \<Rightarrow> string list" where
  "getTaskDefinitionChildren db i = (case map_of (db_children db) i of None \<Rightarrow> [] | Some cs \<Rightarrow> cs)"

section \<open>Spawning\<close>

definition nullable :: "string \<Rightarrow> string option" where
  "nullable s = (if s = [] then None else Some s)"

definition initial_variables :: "gval \<Rightarrow> gval" where
  "initial_variables inputs = GMap [(''inputs'', inputs), (''locals'', GMap []), (''outputs'', GMap [])]"

definition insert_task ::
  "(string \<Rightarrow> string \<Rightarrow> bool) \<Rightarrow> TaskDefinition \<Rightarrow> nat option \<Rightarrow> string \<Rightarrow> gval \<Rightarrow> nat engine" where
  "insert_task member d parent requestedBy inputs db =
     (let r = \<lparr>tk_id = db_next db, tk_title = td_DisplayName d, tk_state = ''ready'', tk_parent = parent,
               tk_group = nullable (td_DefaultGroupID d), tk_assigned = None, tk_requested = nullable requestedBy,
               tk_definition = Some (td_ID d), tk_variables = initial_variables inputs, tk_closure = None,
               tk_deleted = False\<rparr> in
      if TrimByte (CHR '' '') (td_DisplayName d) = [] then Inl RowRejected
      else (case base_task_before_write member r of None \<Rightarrow> Inl RowRejected
        | Some r' \<Rightarrow> Inr (db_next db, db\<lparr>db_tasks := db_tasks db @ [r'], db_next := Suc (db_next db)\<rparr>)))"

text \<open>
  \<open>spawnTaskForDefinition\<close> and its loop over the children. Nothing bounds the depth of the
  containers, so the recursion takes fuel and \<open>None\<close> is the run that has not returned.
\<close>

fun spawnTaskForDefinition ::
  "(string \<Rightarrow> string \<Rightarrow> bool) \<Rightarrow> nat \<Rightarrow> TaskDefinition \<Rightarrow> nat option \<Rightarrow> string \<Rightarrow> gval \<Rightarrow> task_db
     \<Rightarrow> (task_error, nat \<times> task_db) result option"
  and spawn_children ::
  "(string \<Rightarrow> string \<Rightarrow> bool) \<Rightarrow> nat \<Rightarrow> string list \<Rightarrow> nat \<Rightarrow> string \<Rightarrow> task_db
     \<Rightarrow> (task_error, unit \<times> task_db) result option" where
  "spawnTaskForDefinition member 0 d parent requestedBy inputs db = None"
| "spawnTaskForDefinition member (Suc n) d parent requestedBy inputs db =
     (if \<not> td_IsActive d then Some (Inl (DefinitionNotActive (td_Slug d)))
      else (case insert_task member d parent requestedBy inputs db of
          Inl e \<Rightarrow> Some (Inl e)
        | Inr (t, db1) \<Rightarrow>
            if td_IsContainer d
            then map_option (map_sum id (\<lambda>(_, db2). (t, db2)))
              (spawn_children member n (getTaskDefinitionChildren db1 (td_ID d)) t requestedBy db1)
            else Some (Inr (t, db1))))"
| "spawn_children member n [] t requestedBy db = Some (Inr ((), db))"
| "spawn_children member n (c # cs) t requestedBy db =
     (case getTaskDefinition db c of Inl e \<Rightarrow> Some (Inl e)
      | Inr d \<Rightarrow> (case spawnTaskForDefinition member n d (Some t) requestedBy (GMap []) db of
          None \<Rightarrow> None
        | Some (Inl e) \<Rightarrow> Some (Inl e)
        | Some (Inr (_, db1)) \<Rightarrow> spawn_children member n cs t requestedBy db1))"

definition SpawnTaskInstance ::
  "(string \<Rightarrow> string \<Rightarrow> bool) \<Rightarrow> nat \<Rightarrow> string \<Rightarrow> nat option \<Rightarrow> string \<Rightarrow> gval \<Rightarrow> task_db
     \<Rightarrow> (task_error, nat \<times> task_db) result option" where
  "SpawnTaskInstance member fuel definitionID parent requestedBy inputs db =
     (case getTaskDefinition db definitionID of Inl e \<Rightarrow> Some (Inl e)
      | Inr d \<Rightarrow> spawnTaskForDefinition member fuel d parent requestedBy inputs db)"

section \<open>Starting\<close>

definition transitionTaskInTx :: "(string \<Rightarrow> string \<Rightarrow> bool) \<Rightarrow> nat \<Rightarrow> string \<Rightarrow> unit engine" where
  "transitionTaskInTx member t toState db =
     (case find_task t db of
        Some r \<Rightarrow>
          if tk_deleted r then Inl (TaskNotFound t)
          else if \<not> allowedTaskTransition (tk_state r) toState then Inl (InvalidTransition (tk_state r) toState)
          else update_task member t (\<lambda>r. r\<lparr>tk_state := toState\<rparr>) db
      | None \<Rightarrow> Inl (TaskNotFound t))"

text \<open>\<open>json.Unmarshal\<close> of a document into a map: \<open>null\<close> gives a nil map, another non-object none.\<close>

definition decode_map :: "gval \<Rightarrow> (string \<times> gval) list option" where
  "decode_map v = (case v of GMap kvs \<Rightarrow> Some kvs | GNil \<Rightarrow> None | _ \<Rightarrow> Some [])"

definition vars_of :: "gval \<Rightarrow> (string \<times> gval) list" where
  "vars_of v = (case decode_map v of None \<Rightarrow> [] | Some kvs \<Rightarrow> kvs)"

definition readTaskVariables :: "nat \<Rightarrow> task_db \<Rightarrow> (task_error, (string \<times> gval) list) result" where
  "readTaskVariables t db = (case find_task t db of None \<Rightarrow> Inl (TaskNotFound t) | Some r \<Rightarrow> Inr (vars_of (tk_variables r)))"

definition getDefinitionIDByTaskID :: "nat \<Rightarrow> task_db \<Rightarrow> string" where
  "getDefinitionIDByTaskID t db = (case find_task t db of None \<Rightarrow> []
     | Some r \<Rightarrow> (case tk_definition r of None \<Rightarrow> [] | Some i \<Rightarrow> i))"

definition task_options :: "nat \<Rightarrow> string \<Rightarrow> (string \<times> gval) list \<Rightarrow> string \<Rightarrow> ScriptExecutionOptions" where
  "task_options t code vars actor =
     \<lparr>so_Code = code, so_AppScope = [], so_TableName = ''base_task'', so_EventName = ''task_run'',
      so_TriggerType = ''task_engine'', so_Language = [], so_UserID = actor, so_System = (TrimSpace actor = []),
      so_RequestID = [], so_Input = GMap [(''task_id'', GOther (Itoa (int t))), (''variables'', GMap vars)],
      so_Payload = GNil, so_Record = [], so_PreviousRecord = []\<rparr>"

type_synonym task_script = "ScriptExecutionOptions \<Rightarrow> gval engine"

definition executeTaskGoja :: "task_script \<Rightarrow> nat \<Rightarrow> string \<Rightarrow> (string \<times> gval) list \<Rightarrow> string \<Rightarrow> gval engine" where
  "executeTaskGoja script t code vars actor db =
     (if TrimSpace code = [] then Inl (ScriptError ''script code is required'')
      else script (task_options t code vars actor) db)"

definition evalTaskCondition :: "task_script \<Rightarrow> nat \<Rightarrow> string \<Rightarrow> (string \<times> gval) list \<Rightarrow> string \<Rightarrow> bool engine" where
  "evalTaskCondition script t code vars actor db =
     (case executeTaskGoja script t code vars actor db of Inl e \<Rightarrow> Inl e
      | Inr (GBool b, db1) \<Rightarrow> Inr (b, db1) | Inr (_, db1) \<Rightarrow> Inl RunIfNotBoolean)"

definition run_task_script :: "task_script \<Rightarrow> nat \<Rightarrow> TaskDefinition \<Rightarrow> (string \<times> gval) list \<Rightarrow> string \<Rightarrow> unit engine" where
  "run_task_script script t d vars actor db =
     (if TrimSpace (td_ScriptText d) = [] then Inr ((), db)
      else (case executeTaskGoja script t (td_ScriptText d) vars actor db of
          Inl e \<Rightarrow> Inl (TaskScriptFailed e) | Inr (_, db1) \<Rightarrow> Inr ((), db1)))"

definition runTaskHooks :: "(string \<Rightarrow> string \<Rightarrow> bool) \<Rightarrow> task_script \<Rightarrow> nat \<Rightarrow> string \<Rightarrow> unit engine" where
  "runTaskHooks member script t actor db =
     (let i = getDefinitionIDByTaskID t db in
      if i = [] then Inr ((), db)
      else (case getTaskDefinition db i of Inl e \<Rightarrow> Inl e
        | Inr d \<Rightarrow> (case readTaskVariables t db of Inl e \<Rightarrow> Inl e
            | Inr vars \<Rightarrow>
                if TrimSpace (td_RunIfScript d) = [] then run_task_script script t d vars actor db
                else (case evalTaskCondition script t (td_RunIfScript d) vars actor db of
                    Inl e \<Rightarrow> Inl (RunIfFailed e)
                  | Inr (allowed, db1) \<Rightarrow>
                      if \<not> allowed then transitionTaskInTx member t ''skipped'' db1
                      else run_task_script script t d vars actor db1))))"

definition StartTask :: "(string \<Rightarrow> string \<Rightarrow> bool) \<Rightarrow> task_script \<Rightarrow> nat \<Rightarrow> string \<Rightarrow> unit engine" where
  "StartTask member script t actor db =
     (case transitionTaskInTx member t ''in_progress'' db of Inl e \<Rightarrow> Inl e
      | Inr (_, db1) \<Rightarrow> runTaskHooks member script t actor db1)"

section \<open>Completing\<close>

definition sub_map :: "(string \<times> gval) list \<Rightarrow> string \<Rightarrow> (string \<times> gval) list option" where
  "sub_map vars k = (case mapget vars k of Some (GMap kvs) \<Rightarrow> Some kvs | _ \<Rightarrow> None)"

definition put :: "string \<Rightarrow> gval \<Rightarrow> (string \<times> gval) list \<Rightarrow> (string \<times> gval) list" where
  "put k v kvs = (k, v) # filter (\<lambda>e. fst e \<noteq> k) kvs"

text \<open>
  Publication of the outputs to the parent. A row that is missing ends it silently. The source
  ignores the refusal of the write, but the statement has aborted the transaction and the next
  query fails, so the refusal is an error here. A write into the nil map that a JSON \<open>null\<close>
  decodes to is a panic.
\<close>

definition publish_outputs :: "(string \<Rightarrow> string \<Rightarrow> bool) \<Rightarrow> task_row \<Rightarrow> unit engine" where
  "publish_outputs member r db =
     (case (tk_parent r, sub_map (vars_of (tk_variables r)) ''outputs'', tk_definition r) of
        (Some p, Some outputs, Some i) \<Rightarrow>
          (case find (\<lambda>d. td_ID d = i) (db_defs db) of None \<Rightarrow> Inr ((), db)
           | Some d \<Rightarrow> (case find_task p db of None \<Rightarrow> Inr ((), db)
               | Some pr \<Rightarrow> (case decode_map (tk_variables pr) of None \<Rightarrow> Inl NilMapWrite
                   | Some pvars \<Rightarrow>
                       (let pouts = (case sub_map pvars ''outputs'' of None \<Rightarrow> [] | Some o' \<Rightarrow> o');
                            pvars' = put ''outputs'' (GMap (put (td_Slug d) (GMap outputs) pouts)) pvars in
                        update_task member p (\<lambda>x. x\<lparr>tk_variables := GMap pvars'\<rparr>) db))))
      | _ \<Rightarrow> Inr ((), db))"

definition resolveScopeRef :: "(string \<times> gval) list \<Rightarrow> gval \<Rightarrow> gval option" where
  "resolveScopeRef scope ref =
     (case ref of
        GStr s \<Rightarrow>
          if \<not> HasPrefix s ''$'' then Some ref
          else (case cut1 (CHR ''.'') (TrimPrefix s ''$'') of None \<Rightarrow> None
            | Some (sec, k) \<Rightarrow> (case sub_map scope sec of None \<Rightarrow> None | Some m \<Rightarrow> mapget m k))
      | _ \<Rightarrow> Some ref)"

definition rule_inputs :: "(string \<times> gval) list \<Rightarrow> TaskSpawnRule \<Rightarrow> gval" where
  "rule_inputs vars rule = GMap (List.map_filter (\<lambda>(k, src). map_option (Pair k) (resolveScopeRef vars src))
     (rule_InputMapping rule))"

definition spawnFollowOn ::
  "(string \<Rightarrow> string \<Rightarrow> bool) \<Rightarrow> nat \<Rightarrow> string \<Rightarrow> string option \<Rightarrow> string \<Rightarrow> gval \<Rightarrow> task_db
     \<Rightarrow> (task_error, nat \<times> task_db) result option" where
  "spawnFollowOn member fuel slug groupID requestedBy inputs db =
     (case find (\<lambda>d. td_Slug d = slug \<and> td_IsActive d \<and> \<not> td_deleted d) (db_defs db) of
        None \<Rightarrow> Some (Inl (UnknownFollowOn slug))
      | Some d0 \<Rightarrow> (case getTaskDefinition db (td_ID d0) of Inl e \<Rightarrow> Some (Inl e)
          | Inr d \<Rightarrow> spawnTaskForDefinition member fuel
              (case groupID of None \<Rightarrow> d | Some g \<Rightarrow> d\<lparr>td_DefaultGroupID := g\<rparr>) None requestedBy inputs db))"

text \<open>The loop over the rules; the variable \<open>groupID\<close> of the source is a parameter of the loop.\<close>

fun fire_rules ::
  "(string \<Rightarrow> string \<Rightarrow> bool) \<Rightarrow> nat \<Rightarrow> (string \<times> gval) list \<Rightarrow> string \<Rightarrow> string \<Rightarrow> string option
     \<Rightarrow> TaskSpawnRule list \<Rightarrow> task_db \<Rightarrow> (task_error, unit \<times> task_db) result option" where
  "fire_rules member fuel vars reason actor groupID [] db = Some (Inr ((), db))"
| "fire_rules member fuel vars reason actor groupID (rule # rules) db =
     (if rule_On rule \<noteq> reason then fire_rules member fuel vars reason actor groupID rules db
      else
        (let g = (if rule_Assign rule = ''pool'' then None else groupID) in
         case spawnFollowOn member fuel (rule_DefinitionSlug rule) g actor (rule_inputs vars rule) db of
           None \<Rightarrow> None
         | Some (Inl e) \<Rightarrow> Some (Inl e)
         | Some (Inr (_, db1)) \<Rightarrow> fire_rules member fuel vars reason actor g rules db1))"

definition fireSpawnRules ::
  "(string \<Rightarrow> string \<Rightarrow> bool) \<Rightarrow> nat \<Rightarrow> nat \<Rightarrow> string \<Rightarrow> string \<Rightarrow> task_db
     \<Rightarrow> (task_error, unit \<times> task_db) result option" where
  "fireSpawnRules member fuel t reason actor db =
     (let i = getDefinitionIDByTaskID t db in
      if i = [] then Some (Inr ((), db))
      else (case getTaskDefinition db i of Inl e \<Rightarrow> Some (Inl e)
        | Inr d \<Rightarrow> (case readTaskVariables t db of Inl e \<Rightarrow> Some (Inl e)
            | Inr vars \<Rightarrow> fire_rules member fuel vars reason actor
                (case find_task t db of None \<Rightarrow> None | Some r \<Rightarrow> tk_group r) (td_SpawnRules d) db)))"

definition onTaskClosed ::
  "(string \<Rightarrow> string \<Rightarrow> bool) \<Rightarrow> nat \<Rightarrow> nat \<Rightarrow> string \<Rightarrow> task_db \<Rightarrow> (task_error, unit \<times> task_db) result option" where
  "onTaskClosed member fuel t actor db =
     (case find_task t db of None \<Rightarrow> Some (Inl (TaskNotFound t))
      | Some r \<Rightarrow> (case publish_outputs member r db of Inl e \<Rightarrow> Some (Inl e)
          | Inr (_, db1) \<Rightarrow> fireSpawnRules member fuel t ''completed'' actor db1))"

definition CompleteTask ::
  "(string \<Rightarrow> string \<Rightarrow> bool) \<Rightarrow> nat \<Rightarrow> nat \<Rightarrow> string \<Rightarrow> task_db \<Rightarrow> (task_error, unit \<times> task_db) result option" where
  "CompleteTask member fuel t actor db =
     (case transitionTaskInTx member t ''closed'' db of Inl e \<Rightarrow> Some (Inl e)
      | Inr (_, db1) \<Rightarrow> (case update_task member t (\<lambda>r. r\<lparr>tk_closure := Some ''completed''\<rparr>) db1 of
            Inl e \<Rightarrow> Some (Inl e)
          | Inr (_, db2) \<Rightarrow> onTaskClosed member fuel t actor db2))"

end
