(* ===== verification/TaskLaws.thy ===== *)
theory TaskLaws
  imports TaskEngine
begin

text \<open>
  Properties of the task engine: tasks move along the edges of the state machine only, closed and
  skipped tasks are final, spawning creates ready tasks and nothing else and returns when no
  container contains itself, and what the spawn rules do with groups.
\<close>

section \<open>Spawning\<close>

lemma before_write_ready:
  "tk_state r = ''ready'' \<Longrightarrow> tk_assigned r = None \<Longrightarrow> base_task_before_write member r = Some (r\<lparr>tk_closure := None\<rparr>)"
  by (simp add: base_task_before_write_def valid_states_def)

definition spawned :: "task_db \<Rightarrow> task_db \<Rightarrow> task_row list \<Rightarrow> bool" where
  "spawned db db' rows \<longleftrightarrow> db_tasks db' = db_tasks db @ rows \<and> db_defs db' = db_defs db \<and>
     db_children db' = db_children db \<and> db_next db' = db_next db + length rows \<and>
     map tk_id rows = [db_next db..<db_next db'] \<and>
     (\<forall>r \<in> set rows. tk_state r = ''ready'' \<and> \<not> tk_deleted r \<and> tk_assigned r = None)"

lemma spawned_refl: "spawned db db []"
  by (simp add: spawned_def)

lemma spawned_trans: "spawned a b rs \<Longrightarrow> spawned b c ss \<Longrightarrow> spawned a c (rs @ ss)"
proof -
  assume ab: "spawned a b rs" and bc: "spawned b c ss"
  then have "db_next a \<le> db_next b" "db_next c = db_next b + length ss" by (simp_all add: spawned_def)
  then have "[db_next a..<db_next c] = [db_next a..<db_next b] @ [db_next b..<db_next c]"
    using upt_add_eq_append[of "db_next a" "db_next b" "length ss"] by simp
  with ab bc show ?thesis by (auto simp: spawned_def)
qed

lemma insert_task_spawned:
  assumes "insert_task member d parent req ins db = Inr (t, db')"
  shows "\<exists>r. spawned db db' [r] \<and> t = db_next db \<and> tk_parent r = parent \<and> tk_definition r = Some (td_ID d)"
  using assms by (auto simp: insert_task_def Let_def before_write_ready spawned_def split: if_splits)

lemma spawn_rows:
  "spawnTaskForDefinition member n d parent req ins db = Some (Inr (t, db')) \<Longrightarrow>
     \<exists>r rs. spawned db db' (r # rs) \<and> t = db_next db \<and> tk_parent r = parent \<and> tk_definition r = Some (td_ID d)"
  and spawn_children_rows:
  "spawn_children member n cs p req db = Some (Inr (u, db')) \<Longrightarrow> \<exists>rs. spawned db db' rs"
proof (induction member n d parent req ins db and member n cs p req db arbitrary: t db' and u db'
    rule: spawnTaskForDefinition_spawn_children.induct)
  case (2 member n d parent req ins db)
  then have act: "td_IsActive d" by (auto split: if_splits)
  obtain t1 db1 where ins: "insert_task member d parent req ins db = Inr (t1, db1)"
    using 2(2) act by (auto split: sum.splits)
  obtain r where r: "spawned db db1 [r]" "t1 = db_next db" "tk_parent r = parent" "tk_definition r = Some (td_ID d)"
    using insert_task_spawned[OF ins] by blast
  show ?case
  proof (cases "td_IsContainer d")
    case True
    then obtain u where c: "spawn_children member n (getTaskDefinitionChildren db1 (td_ID d)) t1 req db1 = Some (Inr (u, db'))"
      and t: "t = t1"
      using 2(2) act ins by (auto simp: map_sum_id_Inr)
    obtain rs where "spawned db1 db' rs" using 2(1)[OF _ ins refl True c] act by blast
    then show ?thesis using spawned_trans[OF r(1)] r t by auto
  next
    case False
    then show ?thesis using 2(2) act ins r by auto
  qed
next
  case (3 member n t req db)
  then show ?case using spawned_refl by auto
next
  case (4 member n c cs p req db)
  then obtain d t1 db1 where d: "getTaskDefinition db c = Inr d"
    and s: "spawnTaskForDefinition member n d (Some p) req (GMap []) db = Some (Inr (t1, db1))"
    and rest: "spawn_children member n cs p req db1 = Some (Inr (u, db'))"
    by (auto split: sum.splits option.splits)
  show ?case using 4(1)[OF d s] 4(2)[OF d s refl refl rest] spawned_trans by blast
qed simp

text \<open>Containers that do not contain themselves: the children of a definition have smaller rank.\<close>

definition ranked :: "(string \<Rightarrow> nat) \<Rightarrow> task_db \<Rightarrow> bool" where
  "ranked rk db \<longleftrightarrow> (\<forall>i. \<forall>c \<in> set (getTaskDefinitionChildren db i). rk c < rk i)"

lemma getTaskDefinition_id: "getTaskDefinition db i = Inr d \<Longrightarrow> td_ID d = i"
  by (auto simp: getTaskDefinition_def split: option.splits dest: find_Some_mem)

lemma spawn_returns:
  "ranked rk db \<Longrightarrow> rk (td_ID d) < n \<Longrightarrow> spawnTaskForDefinition member n d parent req ins db \<noteq> None"
  and spawn_children_returns:
  "ranked rk db \<Longrightarrow> \<forall>c \<in> set cs. rk c < n \<Longrightarrow> spawn_children member n cs p req db \<noteq> None"
proof (induction member n d parent req ins db and member n cs p req db
    rule: spawnTaskForDefinition_spawn_children.induct)
  case (2 member n d parent req ins db)
  show ?case
  proof (cases "td_IsActive d \<and> td_IsContainer d")
    case True
    show ?thesis
    proof (cases "insert_task member d parent req ins db")
      case (Inr tdb)
      obtain t1 db1 where tdb: "tdb = (t1, db1)" by (cases tdb)
      have ins: "insert_task member d parent req ins db = Inr (t1, db1)" using Inr tdb by simp
      have same: "getTaskDefinitionChildren db1 i = getTaskDefinitionChildren db i" for i
        using insert_task_spawned[OF ins] by (auto simp: spawned_def getTaskDefinitionChildren_def)
      have "ranked rk db1" using 2(2) by (simp add: ranked_def same)
      have "\<forall>c \<in> set (getTaskDefinitionChildren db1 (td_ID d)). rk c < n"
        using 2(2,3) unfolding same ranked_def by fastforce
      then have "spawn_children member n (getTaskDefinitionChildren db1 (td_ID d)) t1 req db1 \<noteq> None"
        using 2(1)[OF _ ins refl] True \<open>ranked rk db1\<close> by blast
      then show ?thesis using True ins by simp
    qed (use True in simp)
  qed (auto split: sum.splits)
next
  case (4 member n c cs p req db)
  show ?case
  proof (cases "getTaskDefinition db c")
    case (Inr d)
    have "spawnTaskForDefinition member n d (Some p) req (GMap []) db \<noteq> None"
      using 4(1)[OF Inr 4(3)] 4(4) getTaskDefinition_id[OF Inr] by simp
    then obtain res where res: "spawnTaskForDefinition member n d (Some p) req (GMap []) db = Some res" by blast
    show ?thesis
    proof (cases res)
      case (Inr tdb)
      obtain t1 db1 where tdb: "tdb = (t1, db1)" by (cases tdb)
      have s: "spawnTaskForDefinition member n d (Some p) req (GMap []) db = Some (Inr (t1, db1))"
        using res Inr tdb by simp
      have "getTaskDefinitionChildren db1 i = getTaskDefinitionChildren db i" for i
        using spawn_rows[OF s] by (auto simp: spawned_def getTaskDefinitionChildren_def)
      then have "ranked rk db1" using 4(3) by (simp add: ranked_def)
      then show ?thesis
        using 4(2)[OF \<open>getTaskDefinition db c = Inr d\<close> s refl refl] 4(4) s \<open>getTaskDefinition db c = Inr d\<close> by simp
    qed (use res \<open>getTaskDefinition db c = Inr d\<close> in simp)
  qed simp
qed simp_all

text \<open>
  Spawning a task creates one ready task for the definition and, below it, ready tasks only; it
  changes no existing task and no definition. It returns, with an error or a task, whenever the
  containers are well founded, with fuel one more than the rank of the definition.
\<close>
theorem spawn_creates_ready_tasks:
  assumes "ranked rk db" "rk (td_ID d) < fuel"
  shows "case spawnTaskForDefinition member fuel d parent req ins db of
      None \<Rightarrow> False
    | Some (Inl e) \<Rightarrow> True
    | Some (Inr (t, db')) \<Rightarrow> \<exists>r rs. db_tasks db' = db_tasks db @ r # rs \<and> db_defs db' = db_defs db \<and>
        tk_id r = t \<and> tk_parent r = parent \<and> tk_definition r = Some (td_ID d) \<and>
        list_all (\<lambda>x. tk_state x = ''ready'' \<and> tk_assigned x = None) (r # rs)"
proof (cases "spawnTaskForDefinition member fuel d parent req ins db")
  case None
  then show ?thesis using spawn_returns[OF assms] by blast
next
  case (Some res)
  show ?thesis
  proof (cases res)
    case (Inr tdb)
    obtain t db' where tdb: "tdb = (t, db')" by (cases tdb)
    obtain r rs where r: "spawned db db' (r # rs)" "t = db_next db" "tk_parent r = parent" "tk_definition r = Some (td_ID d)"
      using spawn_rows[of member fuel d parent req ins db t db'] Some Inr tdb by auto
    have "map tk_id (r # rs) = [db_next db..<db_next db']" "db_next db < db_next db'"
      using r(1) by (simp_all only: spawned_def) simp
    then have "tk_id r = t" using r(2) by (simp add: upt_conv_Cons)
    then show ?thesis using r Some Inr tdb by (auto simp: spawned_def list_all_iff)
  qed (simp add: Some)
qed

text \<open>
  Nothing in the engine or in the schema keeps a container from containing itself, and spawning
  an active container that does never returns, whatever the fuel.
\<close>
theorem self_container_never_returns:
  assumes "find (\<lambda>x. td_ID x = td_ID d \<and> \<not> td_deleted x) (db_defs db) = Some d"
    and "td_IsActive d" "td_IsContainer d" "TrimByte (CHR '' '') (td_DisplayName d) \<noteq> []"
    and "map_of (db_children db) (td_ID d) = Some (td_ID d # cs)"
  shows "spawnTaskForDefinition member fuel d parent req ins db = None"
  using assms
proof (induction fuel arbitrary: parent ins db)
  case (Suc n)
  obtain t1 db1 where ins: "insert_task member d parent req ins db = Inr (t1, db1)"
    using Suc.prems by (auto simp: insert_task_def Let_def before_write_ready)
  then have "db_defs db1 = db_defs db" "db_children db1 = db_children db"
    using insert_task_spawned[OF ins] by (auto simp: spawned_def)
  moreover from this have "spawnTaskForDefinition member n d (Some t1) req (GMap []) db1 = None"
    using Suc by simp
  ultimately show ?case
    using Suc.prems ins by (simp add: getTaskDefinitionChildren_def getTaskDefinition_def)
qed simp

section \<open>The state machine\<close>

text \<open>Where the edges lead, and the order it gives on tables: no task is lost or moves another way.\<close>

definition leads_to :: "string \<Rightarrow> string \<Rightarrow> bool" where
  "leads_to = allowedTaskTransition\<^sup>*\<^sup>*"

definition state_le :: "task_db \<Rightarrow> task_db \<Rightarrow> bool" where
  "state_le a b \<longleftrightarrow> (\<forall>t r. find_task t a = Some r \<longrightarrow> (\<exists>r'. find_task t b = Some r' \<and> leads_to (tk_state r) (tk_state r')))"

lemma leads_to_refl [simp]: "leads_to s s"
  by (simp add: leads_to_def)

lemma leads_to_edge: "allowedTaskTransition s u \<Longrightarrow> leads_to s u"
  by (auto simp: leads_to_def)

lemma state_le_refl: "state_le a a"
  by (simp add: state_le_def)

lemma state_le_trans: "state_le a b \<Longrightarrow> state_le b c \<Longrightarrow> state_le a c"
  unfolding state_le_def leads_to_def by (meson rtranclp_trans)

lemma leads_to_final: "leads_to s u \<Longrightarrow> s = ''closed'' \<or> s = ''skipped'' \<Longrightarrow> u = s"
  unfolding leads_to_def
  by (induction rule: rtranclp_induct) (auto simp: allowedTaskTransition_def taskTransitions_def)

lemma find_task_append: "find_task t db = Some r \<Longrightarrow> spawned db db' rows \<Longrightarrow> find_task t db' = Some r"
  unfolding find_task_def spawned_def by (induction "db_tasks db" arbitrary: db db') (auto simp: find_Some_iff nth_append)

lemma spawned_state_le: "spawned db db' rows \<Longrightarrow> state_le db db'"
  unfolding state_le_def using find_task_append leads_to_refl by blast

lemma find_map_update:
  "find (\<lambda>r. tk_id r = t) (map (\<lambda>x. if tk_id x = k then r' else x) rows) =
     (if t = k then (if find (\<lambda>r. tk_id r = k) rows = None then None else Some r')
      else find (\<lambda>r. tk_id r = t) rows)" if "tk_id r' = k"
  using that by (induction rows) auto

lemma before_write_keeps:
  "base_task_before_write member r = Some r' \<Longrightarrow> tk_id r' = tk_id r \<and> tk_state r' = tk_state r \<and>
     tk_variables r' = tk_variables r \<and> tk_group r' = tk_group r \<and> tk_assigned r' = tk_assigned r \<and>
     tk_parent r' = tk_parent r \<and> tk_definition r' = tk_definition r \<and> tk_deleted r' = tk_deleted r"
  unfolding base_task_before_write_def Let_def
  by (auto split: if_split_asm option.split_asm)

lemma update_task_Inr:
  assumes "update_task member k f db = Inr (u, db')" "\<And>r. tk_id (f r) = tk_id r"
  shows "db_defs db' = db_defs db \<and> db_children db' = db_children db \<and>
    (case find_task k db of None \<Rightarrow> db' = db
     | Some r \<Rightarrow> \<exists>r'. base_task_before_write member (f r) = Some r' \<and>
         (\<forall>t. find_task t db' = (if t = k then Some r' else find_task t db)))"
proof (cases "find_task k db")
  case (Some r)
  then have "tk_id r = k" by (auto simp: find_task_def dest: find_Some_mem)
  moreover obtain r' where r': "base_task_before_write member (f r) = Some r'"
    using assms(1) Some by (auto simp: update_task_def split: option.splits)
  ultimately have "tk_id r' = k" using before_write_keeps[OF r'] assms(2) by simp
  then show ?thesis
    using assms(1) Some r' by (auto simp: update_task_def find_task_def find_map_update)
qed (use assms in \<open>simp add: update_task_def\<close>)

lemma update_task_state_le:
  assumes "update_task member k f db = Inr (u, db')" "\<And>r. tk_id (f r) = tk_id r"
    and "\<And>r. find_task k db = Some r \<Longrightarrow> leads_to (tk_state r) (tk_state (f r))"
  shows "state_le db db'"
  unfolding state_le_def
proof (intro allI impI)
  fix t r
  assume t: "find_task t db = Some r"
  show "\<exists>r'. find_task t db' = Some r' \<and> leads_to (tk_state r) (tk_state r')"
  proof (cases "find_task k db")
    case None
    then show ?thesis using update_task_Inr[OF assms(1,2)] t by auto
  next
    case (Some q)
    then obtain q' where q': "base_task_before_write member (f q) = Some q'"
      "\<forall>t. find_task t db' = (if t = k then Some q' else find_task t db)"
      using update_task_Inr[OF assms(1,2)] by auto
    then show ?thesis using t Some assms(3)[OF Some] before_write_keeps[OF q'(1)] by auto
  qed
qed

lemma transition_state_le: "transitionTaskInTx member t s db = Inr (u, db') \<Longrightarrow> state_le db db'"
  by (auto simp: transitionTaskInTx_def split: option.splits if_splits intro!: update_task_state_le leads_to_edge)

text \<open>A script may write to the tables, but moves a task along the edges only.\<close>

definition polite :: "task_script \<Rightarrow> bool" where
  "polite script \<longleftrightarrow> (\<forall>opts db v db'. script opts db = Inr (v, db') \<longrightarrow> state_le db db')"

lemma goja_state_le: "polite script \<Longrightarrow> executeTaskGoja script t code vars actor db = Inr (v, db') \<Longrightarrow> state_le db db'"
  unfolding polite_def executeTaskGoja_def by (meson Inl_Inr_False)

lemma condition_state_le:
  "polite script \<Longrightarrow> evalTaskCondition script t code vars actor db = Inr (b, db') \<Longrightarrow> state_le db db'"
  unfolding evalTaskCondition_def by (auto split: sum.splits gval.splits dest: goja_state_le)

lemma run_script_state_le:
  "polite script \<Longrightarrow> run_task_script script t d vars actor db = Inr (u, db') \<Longrightarrow> state_le db db'"
  unfolding run_task_script_def by (auto split: sum.splits if_splits intro: state_le_refl dest: goja_state_le)

lemma hooks_state_le:
  assumes "polite script" "runTaskHooks member script t actor db = Inr (u, db')"
  shows "state_le db db'"
proof -
  obtain d vars where cases: "getDefinitionIDByTaskID t db = [] \<and> db' = db \<or>
      (if TrimSpace (td_RunIfScript d) = [] then run_task_script script t d vars actor db
       else (case evalTaskCondition script t (td_RunIfScript d) vars actor db of
           Inl e \<Rightarrow> Inl (RunIfFailed e)
         | Inr (allowed, db1) \<Rightarrow> if \<not> allowed then transitionTaskInTx member t ''skipped'' db1
             else run_task_script script t d vars actor db1)) = Inr (u, db')"
    using assms(2) unfolding runTaskHooks_def Let_def
    by (cases "getDefinitionIDByTaskID t db = []") (simp, simp split: sum.split_asm)
  show ?thesis
  proof (cases "db' = db")
    case False
    show ?thesis
    proof (cases "TrimSpace (td_RunIfScript d) = []")
      case True
      then show ?thesis using cases False run_script_state_le[OF assms(1)] by simp
    next
      case run_if: False
      then obtain b db1 where c: "evalTaskCondition script t (td_RunIfScript d) vars actor db = Inr (b, db1)"
        "(if \<not> b then transitionTaskInTx member t ''skipped'' db1 else run_task_script script t d vars actor db1) = Inr (u, db')"
        using cases False by (auto split: sum.split_asm)
      have "state_le db1 db'"
        using c(2) run_script_state_le[OF assms(1)] transition_state_le by (cases b) simp_all
      then show ?thesis using condition_state_le[OF assms(1) c(1)] state_le_trans by blast
    qed
  qed (simp add: state_le_refl)
qed

lemma start_state_le:
  assumes "polite script" "StartTask member script t actor db = Inr (u, db')"
  shows "state_le db db'"
  using assms unfolding StartTask_def
  by (auto split: sum.split_asm intro: state_le_trans transition_state_le hooks_state_le)

lemma publish_state_le: "publish_outputs member r db = Inr (u, db') \<Longrightarrow> state_le db db'"
  unfolding publish_outputs_def Let_def
  by (auto split: option.split_asm simp: state_le_refl elim!: update_task_state_le)

lemma follow_on_state_le:
  "spawnFollowOn member fuel slug g req ins db = Some (Inr (t, db')) \<Longrightarrow> state_le db db'"
  unfolding spawnFollowOn_def
  by (auto split: option.split_asm sum.split_asm dest!: spawn_rows intro: spawned_state_le)

lemma fire_rules_state_le:
  "fire_rules member fuel vars reason actor g rules db = Some (Inr (u, db')) \<Longrightarrow> state_le db db'"
proof (induction rules arbitrary: g db)
  case (Cons rule rules)
  show ?case
  proof (cases "rule_On rule = reason")
    case True
    let ?g = "if rule_Assign rule = ''pool'' then None else g"
    obtain t db1 where f: "spawnFollowOn member fuel (rule_DefinitionSlug rule) ?g actor (rule_inputs vars rule) db = Some (Inr (t, db1))"
      "fire_rules member fuel vars reason actor ?g rules db1 = Some (Inr (u, db'))"
      using Cons.prems True by (auto simp: Let_def split: option.split_asm sum.split_asm)
    show ?thesis using follow_on_state_le[OF f(1)] Cons.IH[OF f(2)] by (rule state_le_trans)
  qed (use Cons in simp)
qed (simp add: state_le_refl)

lemma complete_state_le:
  assumes "CompleteTask member fuel t actor db = Some (Inr (u, db'))"
  shows "state_le db db'"
proof -
  obtain db1 db2 r db3 where s: "transitionTaskInTx member t ''closed'' db = Inr ((), db1)"
    "update_task member t (\<lambda>r. r\<lparr>tk_closure := Some ''completed''\<rparr>) db1 = Inr ((), db2)"
    "publish_outputs member r db2 = Inr ((), db3)"
    "fireSpawnRules member fuel t ''completed'' actor db3 = Some (Inr (u, db'))"
    using assms unfolding CompleteTask_def onTaskClosed_def
    by (auto split: sum.split_asm option.split_asm)
  have "state_le db3 db'"
    using s(4) unfolding fireSpawnRules_def Let_def
    by (auto split: if_split_asm sum.split_asm intro: state_le_refl fire_rules_state_le)
  moreover have "state_le db1 db2" using s(2) by (rule update_task_state_le) simp_all
  ultimately show ?thesis
    using transition_state_le[OF s(1)] publish_state_le[OF s(3)] by (blast intro: state_le_trans)
qed

text \<open>A run of the engine: operations that succeed and commit, with any arguments and polite scripts.\<close>

inductive task_step :: "task_db \<Rightarrow> task_db \<Rightarrow> bool" where
  "polite script \<Longrightarrow> StartTask member script t actor db = Inr ((), db') \<Longrightarrow> task_step db db'"
| "CompleteTask member fuel t actor db = Some (Inr ((), db')) \<Longrightarrow> task_step db db'"
| "SpawnTaskInstance member fuel d parent req ins db = Some (Inr (t, db')) \<Longrightarrow> task_step db db'"

inductive_cases task_stepE: "task_step db db'"

lemma task_step_le: "task_step db db' \<Longrightarrow> state_le db db'"
  by (erule task_stepE)
    (auto simp: SpawnTaskInstance_def split: sum.split_asm dest!: spawn_rows
      intro: start_state_le complete_state_le spawned_state_le)

interpretation tasks: history_system "\<lambda>_. True" task_step "\<lambda>_. True" state_le
  by unfold_locales (auto intro: state_le_refl state_le_trans task_step_le)


text \<open>
  A task starts only from an open state, and only when it is assigned to a member of its group,
  which tasks that the engine itself spawns are not: each must be assigned before it can start.
\<close>
theorem start_needs_assignment:
  assumes "StartTask member script t actor db = Inr (u, db')"
  shows "\<exists>r g a. find_task t db = Some r \<and> \<not> tk_deleted r \<and>
    tk_state r \<in> {''ready'', ''in_progress'', ''pending'', ''ready_to_close''} \<and>
    tk_group r = Some g \<and> tk_assigned r = Some a \<and> member g a"
proof -
  obtain db1 where "transitionTaskInTx member t ''in_progress'' db = Inr ((), db1)"
    using assms by (auto simp: StartTask_def split: sum.splits)
  then obtain r where r: "find_task t db = Some r" "\<not> tk_deleted r" "allowedTaskTransition (tk_state r) ''in_progress''"
    "base_task_before_write member (r\<lparr>tk_state := ''in_progress''\<rparr>) \<noteq> None"
    by (auto simp: transitionTaskInTx_def update_task_def split: option.split_asm if_split_asm)
  have "tk_state r \<in> {''ready'', ''in_progress'', ''pending'', ''ready_to_close''}"
    using r(3) by (auto simp: allowedTaskTransition_def taskTransitions_def split: if_splits)
  moreover have "\<exists>g a. tk_group r = Some g \<and> tk_assigned r = Some a \<and> member g a"
    using r(4) by (auto simp: base_task_before_write_def split: if_splits option.splits)
  ultimately show ?thesis using r by blast
qed

text \<open>
  The group of the closed task, which \<open>same\<close> means to copy, has no influence on any rule after
  a \<open>pool\<close> rule: the pool rule clears the variable for the rest of the loop.
\<close>
theorem pool_rule_clears_the_group:
  assumes "rule_On rule = reason" "rule_Assign rule = ''pool''"
  shows "fire_rules member fuel vars reason actor g (rule # rules) db =
    fire_rules member fuel vars reason actor g' (rule # rules) db"
  using assms by simp

section \<open>A small table\<close>

definition box :: TaskDefinition where
  "box = \<lparr>td_ID = ''d1'', td_Slug = ''box'', td_DisplayName = ''Box'', td_IsContainer = True, td_ScriptText = [],
     td_RunIfScript = [], td_DefaultGroupID = [], td_SpawnRules = [], td_IsActive = True, td_deleted = False\<rparr>"

definition chore :: task_row where
  "chore = \<lparr>tk_id = 0, tk_title = ''Chore'', tk_state = ''ready'', tk_parent = None, tk_group = Some ''g'',
     tk_assigned = Some ''u1'', tk_requested = None, tk_definition = None, tk_variables = GMap [], tk_closure = None,
     tk_deleted = False\<rparr>"

definition box_db :: "(string \<times> string list) list \<Rightarrow> task_db" where
  "box_db children = \<lparr>db_tasks = [chore], db_defs = [box], db_children = children, db_next = 1\<rparr>"

lemma spawn_creates_ready_tasks_witness:
  "case spawnTaskForDefinition (\<lambda>_ _. True) 1 box None ''u1'' (GMap []) (box_db []) of
      None \<Rightarrow> False
    | Some (Inl e) \<Rightarrow> True
    | Some (Inr (t, db')) \<Rightarrow> \<exists>r rs. db_tasks db' = db_tasks (box_db []) @ r # rs \<and> db_defs db' = db_defs (box_db []) \<and>
        tk_id r = t \<and> tk_parent r = None \<and> tk_definition r = Some (td_ID box) \<and>
        list_all (\<lambda>x. tk_state x = ''ready'' \<and> tk_assigned x = None) (r # rs)"
  by (rule spawn_creates_ready_tasks[where rk = "\<lambda>_. 0"])
    (simp_all add: ranked_def getTaskDefinitionChildren_def box_db_def)

lemma self_container_never_returns_witness:
  "spawnTaskForDefinition (\<lambda>_ _. True) 1000 box None ''u1'' (GMap []) (box_db [(''d1'', [''d1''])]) = None"
  by (rule self_container_never_returns) (simp_all add: box_db_def box_def TrimByte_def)


lemma start_needs_assignment_witness:
  "\<exists>r g a. find_task 0 (box_db []) = Some r \<and> \<not> tk_deleted r \<and>
    tk_state r \<in> {''ready'', ''in_progress'', ''pending'', ''ready_to_close''} \<and>
    tk_group r = Some g \<and> tk_assigned r = Some a \<and> g = ''g''"
proof (rule start_needs_assignment)
  show "StartTask (\<lambda>g a. g = ''g'') (\<lambda>_ db. Inr (GNil, db)) 0 ''u1'' (box_db []) =
      Inr ((), (box_db [])\<lparr>db_tasks := [chore\<lparr>tk_state := ''in_progress''\<rparr>]\<rparr>)"
    by (simp add: StartTask_def transitionTaskInTx_def find_task_def box_db_def chore_def allowedTaskTransition_def
        taskTransitions_def update_task_def base_task_before_write_def valid_states_def runTaskHooks_def
        getDefinitionIDByTaskID_def)
qed

definition pool_rule :: TaskSpawnRule where
  "pool_rule = \<lparr>rule_On = ''completed'', rule_DefinitionSlug = ''box'', rule_InputMapping = [], rule_Assign = ''pool''\<rparr>"

lemma pool_rule_clears_the_group_witness:
  "fire_rules (\<lambda>_ _. True) 5 [] ''completed'' ''u1'' (Some ''g'') [pool_rule, pool_rule\<lparr>rule_Assign := ''same''\<rparr>] (box_db []) =
   fire_rules (\<lambda>_ _. True) 5 [] ''completed'' ''u1'' (Some ''h'') [pool_rule, pool_rule\<lparr>rule_Assign := ''same''\<rparr>] (box_db [])"
  by (rule pool_rule_clears_the_group) (simp_all add: pool_rule_def)

end
