(* ===== verification/TableQuery.thy ===== *)
theory TableQuery
  imports SaveValues
begin

text \<open>
  The query language of the list views, \<open>cmd/server/table_query.go\<close>: the columns a query may name,
  the tokenizer, the parser and the generation of parameterised SQL. The tokenizer may not advance,
  so its loop carries fuel and \<open>None\<close> is the run that has not returned. The parser indexes the token
  after the next one without a test: \<open>IndexOutOfRange\<close> is that panic.
\<close>

section \<open>Columns\<close>

record tableQueryColumn =
  tq_Name :: string
  tq_Label :: string
  tq_DataType :: string
  tq_IsDateLike :: bool
  tq_IsNumber :: bool
  tq_IsBoolean :: bool
  tq_InputKind :: string
  tq_ReferenceTo :: string
  tq_ChoiceLabels :: "string \<Rightarrow> string option"

definition isDateLikeDataType :: "string \<Rightarrow> string \<Rightarrow> bool" where
  "isDateLikeDataType dataType name =
     (let l = ToLower (TrimSpace dataType) in
      Contains l ''date'' \<or> Contains l ''time'' \<or> Contains l ''timestamp'' \<or> HasSuffix (ToLower name) ''_at'')"

definition isNumericDataType :: "string \<Rightarrow> string \<Rightarrow> bool" where
  "isNumericDataType dataType name =
     (let l = ToLower (TrimSpace dataType) in
      list_ex (Contains l) [''int'', ''numeric'', ''decimal'', ''float'', ''double'', ''serial''])"

definition isBooleanDataType :: "string \<Rightarrow> string \<Rightarrow> bool" where
  "isBooleanDataType dataType name =
     (let l = ToLower (TrimSpace dataType) in
      l = ''bool'' \<or> l = ''boolean'' \<or> HasPrefix (ToLower name) ''is_'')"

definition queryInputKind :: "string \<Rightarrow> string \<Rightarrow> string" where
  "queryInputKind dataType name =
     (if isDateLikeDataType dataType name
      then (if Contains (ToLower dataType) ''time'' then ''datetime-local'' else ''date'')
      else if isNumericDataType dataType name then ''number''
      else if isBooleanDataType dataType name then ''boolean''
      else ''text'')"

text \<open>The labels of the declared choices; a later choice of the same value wins.\<close>

definition choice_labels :: "ChoiceOption list \<Rightarrow> string \<Rightarrow> string option" where
  "choice_labels cs = fold (\<lambda>c m.
     (let v = TrimSpace (ch_Value c); l = TrimSpace (ch_Label c) in
      if v = [] then m else m(v \<mapsto> (if l = [] then v else l)))) cs Map.empty"

definition enum_labels :: "string \<Rightarrow> string \<Rightarrow> string option" where
  "enum_labels dataType = fold (\<lambda>item m.
     (let v = TrimSpace item in if v = [] then m else m(v \<mapsto> ReplaceByte (CHR ''_'') '' '' v)))
     (Split1 (CHR ''|'') (TrimPrefix (ToLower (TrimSpace dataType)) ''enum:'')) Map.empty"

text \<open>
  One column of the query: \<open>meta\<close> is the metadata of the physical column, when it has any, and
  \<open>infer\<close> the search for a referenced table.
\<close>

definition query_column :: "(string \<Rightarrow> string) \<Rightarrow> Column option \<Rightarrow> string \<Rightarrow> tableQueryColumn" where
  "query_column infer meta name =
     (let label = (case meta of None \<Rightarrow> name
            | Some m \<Rightarrow> if TrimSpace (co_LABEL m) = [] then name else co_LABEL m);
          dataType = (case meta of None \<Rightarrow> ''text''
            | Some m \<Rightarrow> if TrimSpace (co_DATA_TYPE m) = [] then ''text'' else co_DATA_TYPE m);
          ref0 = (case meta of None \<Rightarrow> []
            | Some m \<Rightarrow> (case co_REFERENCE_TABLE m of None \<Rightarrow> [] | Some r \<Rightarrow> TrimSpace r));
          choices = (case meta of None \<Rightarrow> Map.empty | Some m \<Rightarrow> choice_labels (co_CHOICES m));
          ref = (if ref0 = [] \<and> HasSuffix (ToLower name) ''_id'' then infer name else ref0);
          labels = (if (\<forall>c \<in> set (case meta of None \<Rightarrow> [] | Some m \<Rightarrow> co_CHOICES m). TrimSpace (ch_Value c) = [])
                      \<and> HasPrefix (ToLower (TrimSpace dataType)) ''enum:''
                    then enum_labels dataType else choices)
      in \<lparr>tq_Name = name, tq_Label = label, tq_DataType = dataType,
          tq_IsDateLike = isDateLikeDataType dataType name, tq_IsNumber = isNumericDataType dataType name,
          tq_IsBoolean = isBooleanDataType dataType name, tq_InputKind = queryInputKind dataType name,
          tq_ReferenceTo = ref, tq_ChoiceLabels = labels\<rparr>)"

definition loadTableQueryColumns ::
  "(string \<Rightarrow> string) \<Rightarrow> Column list option \<Rightarrow> string list \<Rightarrow> tableQueryColumn list" where
  "loadTableQueryColumns infer cols physicalCols =
     (let metas = fold (\<lambda>c m. m(ToLower (co_NAME c) \<mapsto> c)) (case cols of None \<Rightarrow> [] | Some cs \<Rightarrow> cs) Map.empty in
      map (\<lambda>name. query_column infer (metas (ToLower name)) name) physicalCols)"

section \<open>Tokens\<close>

datatype tq_type = QEOF | QIdent | QLiteral | QOp | QLParen | QRParen

datatype tableQueryToken = QTok (tq_typ: tq_type) (tq_val: string)

datatype tq_error =
    UnterminatedQuote
  | UnexpectedQueryToken string
  | ExpectedColumn
  | ExpectedOperator string
  | ExpectedValue string
  | ExpectedQueryRParen
  | UnknownQueryColumn string
  | NotQueryable string
  | InvalidQueryDate string
  | InvalidQueryNumber string
  | InvalidQueryBool string
  | IndexOutOfRange

definition alnum_byte :: "char \<Rightarrow> bool" where
  "alnum_byte c \<longleftrightarrow> is_digit_byte c \<or> is_lower_byte c \<or> is_upper_byte c"

definition isIdentifierToken :: "string \<Rightarrow> bool" where
  "isIdentifierToken s = (case s of [] \<Rightarrow> False
     | c # _ \<Rightarrow> \<not> is_digit_byte c \<and> list_all (\<lambda>c. c = CHR ''_'' \<or> alnum_byte c) s)"

definition word_stop :: "char \<Rightarrow> bool" where
  "word_stop c \<longleftrightarrow> c = CHR '' '' \<or> c = CHR 0x09 \<or> c = CHR 0x0A \<or> c = CHR ''('' \<or> c = CHR '')'' \<or>
     c = CHR ''='' \<or> c = CHR ''>'' \<or> c = CHR ''<'' \<or> c = CHR ''!''"

definition at_logical :: "string \<Rightarrow> bool" where
  "at_logical s \<longleftrightarrow> HasPrefix s ''&&'' \<or> HasPrefix s ''||''"

fun take_word :: "string \<Rightarrow> string \<times> string" where
  "take_word [] = ([], [])"
| "take_word (c # s) =
     (if word_stop c \<or> at_logical (c # s) then ([], c # s)
      else (case take_word s of (w, r) \<Rightarrow> (c # w, r)))"

definition two_byte_op :: "string \<Rightarrow> bool" where
  "two_byte_op s \<longleftrightarrow> list_ex (HasPrefix s) [''&&'', ''||'', ''>='', ''<='', ''!='']"

definition query_word_token :: "string \<Rightarrow> tableQueryToken" where
  "query_word_token w = QTok (if isIdentifierToken (TrimSpace w) then QIdent else QLiteral) (TrimSpace w)"

definition query_space :: "char \<Rightarrow> bool" where
  "query_space c \<longleftrightarrow> c = CHR '' '' \<or> c = CHR 0x09 \<or> c = CHR 0x0A"

definition query_angle :: "char \<Rightarrow> bool" where
  "query_angle c \<longleftrightarrow> c = CHR ''='' \<or> c = CHR ''>'' \<or> c = CHR ''<''"

definition query_quote :: "char \<Rightarrow> bool" where
  "query_quote c \<longleftrightarrow> c = dquote \<or> c = squote"

text \<open>One turn of the loop at a nonempty rest: the token it appends, if any, and the rest after it.\<close>

definition token_step :: "char \<Rightarrow> string \<Rightarrow> (tq_error, tableQueryToken option \<times> string) result" where
  "token_step c s =
     (if query_space c then Inr (None, s)
      else if c = CHR ''('' then Inr (Some (QTok QLParen [c]), s)
      else if c = CHR '')'' then Inr (Some (QTok QRParen [c]), s)
      else if two_byte_op (c # s) then Inr (Some (QTok QOp (c # take 1 s)), drop 1 s)
      else if query_angle c then Inr (Some (QTok QOp [c]), s)
      else if query_quote c then
        (case cut1 c s of None \<Rightarrow> Inl UnterminatedQuote
         | Some (lit, r) \<Rightarrow> Inr (Some (QTok QLiteral lit), r))
      else (case take_word (c # s) of (w, r) \<Rightarrow> Inr (Some (query_word_token w), r)))"

definition emit :: "'t option \<Rightarrow> ('e, 't list) result option \<Rightarrow> ('e, 't list) result option" where
  "emit t r = (case t of None \<Rightarrow> r | Some t' \<Rightarrow> map_option (map_sum id ((#) t')) r)"

fun tokenize_loop :: "nat \<Rightarrow> string \<Rightarrow> (tq_error, tableQueryToken list) result option" where
  "tokenize_loop 0 s = None"
| "tokenize_loop (Suc n) [] = Some (Inr [QTok QEOF []])"
| "tokenize_loop (Suc n) (c # s) =
     (case token_step c s of Inl e \<Rightarrow> Some (Inl e) | Inr (t, r) \<Rightarrow> emit t (tokenize_loop n r))"

section \<open>The parser\<close>

datatype tableQueryCondition = Cond (cd_Column: string) (cd_Operator: string) (cd_Value: string)

datatype tableQueryNode =
    QCond tableQueryCondition
  | QAnd tableQueryNode tableQueryNode
  | QOr tableQueryNode tableQueryNode

definition tq_comparison :: "string \<Rightarrow> bool" where
  "tq_comparison v \<longleftrightarrow> v \<in> {''='', ''!='', ''<'', ''>'', ''<='', ''>=''}"

definition isLogicalOperator :: "string \<Rightarrow> bool" where
  "isLogicalOperator v \<longleftrightarrow> v = ''&&'' \<or> v = ''||''"

definition tq_peek :: "tableQueryToken list \<Rightarrow> tableQueryToken" where
  "tq_peek ts = (case ts of [] \<Rightarrow> QTok QEOF [] | t # _ \<Rightarrow> t)"

definition tq_at :: "string \<Rightarrow> tableQueryToken list \<Rightarrow> bool" where
  "tq_at op ts \<longleftrightarrow> tq_typ (tq_peek ts) = QOp \<and> tq_val (tq_peek ts) = op"

type_synonym 'a tq_res = "(tq_error, tableQueryToken, 'a) parsed"

definition is_word :: "tableQueryToken \<Rightarrow> bool" where
  "is_word t \<longleftrightarrow> tq_typ t = QIdent \<or> tq_typ t = QLiteral"

text \<open>The two loops of \<open>parseCondition\<close>: the words of the column and those of the value.\<close>

fun column_words :: "tableQueryToken list \<Rightarrow> string list tq_res" where
  "column_words [] = ok [] []"
| "column_words (t # ts) =
     (if \<not> is_word t then ok [] (t # ts)
      else (case ts of [] \<Rightarrow> fail IndexOutOfRange
        | u # _ \<Rightarrow> (if tq_typ u = QOp \<and> tq_comparison (tq_val u) then ok [tq_val t] ts
            else bind_p (column_words ts) (\<lambda>ws us. ok (tq_val t # ws) us))))"

fun value_words :: "string \<Rightarrow> tableQueryToken list \<Rightarrow> string list tq_res" where
  "value_words op [] = ok [] []"
| "value_words op (t # ts) =
     (if tq_typ t = QEOF \<or> tq_typ t = QRParen then ok [] (t # ts)
      else if tq_typ t = QOp \<and> isLogicalOperator (tq_val t) then ok [] (t # ts)
      else if \<not> is_word t then fail (ExpectedValue op)
      else bind_p (value_words op ts) (\<lambda>ws us. ok (tq_val t # ws) us))"

definition parseCondition :: "tableQueryToken list \<Rightarrow> tableQueryNode tq_res" where
  "parseCondition ts = bind_p (column_words ts) (\<lambda>cs us.
     if cs = [] then fail ExpectedColumn
     else let column = TrimSpace (Join cs '' ''); op = tq_peek us in
       if tq_typ op \<noteq> QOp \<or> \<not> tq_comparison (tq_val op) then fail (ExpectedOperator column)
       else bind_p (value_words (tq_val op) (tl us)) (\<lambda>vs ws.
         if vs = [] then fail (ExpectedValue (tq_val op))
         else ok (QCond (Cond column (tq_val op) (TrimSpace (Join vs '' '')))) ws))"

function (sequential) queryOr and queryOrLoop and queryAnd and queryAndLoop and queryPrimary where
  "queryOr (0::nat) ts = (None :: tableQueryNode tq_res)"
| "queryOr (Suc n) ts = bind_p (queryAnd n ts) (queryOrLoop n)"
| "queryOrLoop 0 left ts = (None :: tableQueryNode tq_res)"
| "queryOrLoop (Suc n) left ts =
     (if tq_at ''||'' ts then bind_p (queryAnd n (tl ts)) (\<lambda>r us. queryOrLoop n (QOr left r) us)
      else ok left ts)"
| "queryAnd 0 ts = (None :: tableQueryNode tq_res)"
| "queryAnd (Suc n) ts = bind_p (queryPrimary n ts) (queryAndLoop n)"
| "queryAndLoop 0 left ts = (None :: tableQueryNode tq_res)"
| "queryAndLoop (Suc n) left ts =
     (if tq_at ''&&'' ts then bind_p (queryPrimary n (tl ts)) (\<lambda>r us. queryAndLoop n (QAnd left r) us)
      else ok left ts)"
| "queryPrimary 0 ts = (None :: tableQueryNode tq_res)"
| "queryPrimary (Suc n) ts =
     (if tq_typ (tq_peek ts) = QLParen
      then bind_p (queryOr n (tl ts)) (\<lambda>node us.
        if tq_typ (tq_peek us) \<noteq> QRParen then fail ExpectedQueryRParen else ok node (tl us))
      else parseCondition ts)"

  by pat_completeness auto
termination by size_change

section \<open>SQL\<close>

datatype sql_arg = ArgTime gotime | ArgFloat f64 | ArgBool bool | ArgText string

definition normalizeOperator :: "string \<Rightarrow> string" where
  "normalizeOperator op = (if tq_comparison op then (if op = ''!='' then ''<>'' else op) else ''='')"

definition parseDateLikeValue :: "string \<Rightarrow> gotime option" where
  "parseDateLikeValue raw =
     first_parse [layout_RFC3339, layout_T_minutes, layout_space_minutes, date_chunks] (TrimSpace raw)"

definition parseBoolValue :: "string \<Rightarrow> bool option" where
  "parseBoolValue raw =
     (let v = ToLower (TrimSpace raw) in
      if v \<in> {''true'', ''1'', ''yes''} then Some True
      else if v \<in> {''false'', ''0'', ''no''} then Some False else None)"

definition normalizeQueryLookupKey :: "string \<Rightarrow> string" where
  "normalizeQueryLookupKey raw = filter (\<lambda>c. is_lower_byte c \<or> is_digit_byte c) (ToLower (TrimSpace raw))"

definition placeholder :: "sql_arg list \<Rightarrow> string" where
  "placeholder args = CHR ''$'' # Itoa (int (length args))"

definition buildTextConditionSQL :: "string \<Rightarrow> string \<Rightarrow> string \<Rightarrow> sql_arg list \<Rightarrow> string \<times> sql_arg list" where
  "buildTextConditionSQL quotedCol operator val args =
     (let lower = (\<lambda>op. ''LOWER(CAST('' @ quotedCol @ '' AS TEXT)) '' @ op @ '' LOWER('' @
                      placeholder (args @ [ArgText val]) @ '')'') in
      if operator = ''='' \<or> operator = ''!='' then
        (if Contains val ''*'' then
           (let args' = args @ [ArgText (ReplaceByte (CHR ''*'') ''%'' val)] in
            (''CAST('' @ quotedCol @ '' AS TEXT) '' @ (if operator = ''!='' then ''NOT ILIKE'' else ''ILIKE'') @ '' '' @
               placeholder args', args'))
         else (lower (if operator = ''!='' then ''<>'' else ''=''), args @ [ArgText val]))
      else (lower (normalizeOperator operator), args @ [ArgText val]))"

type_synonym tq_meta = "(string \<times> tableQueryColumn) list"

definition quoted_of :: "(string \<Rightarrow> string option) \<Rightarrow> string \<Rightarrow> string" where
  "quoted_of quoted name = (case quoted name of None \<Rightarrow> [] | Some q \<Rightarrow> q)"

definition comparison_sql :: "string \<Rightarrow> string \<Rightarrow> sql_arg \<Rightarrow> sql_arg list \<Rightarrow> string \<times> sql_arg list" where
  "comparison_sql q operator a args =
     (q @ '' '' @ normalizeOperator operator @ '' '' @ placeholder (args @ [a]), args @ [a])"

definition buildConditionSQL ::
  "tq_meta \<Rightarrow> (string \<Rightarrow> string option) \<Rightarrow> tableQueryCondition \<Rightarrow> sql_arg list \<Rightarrow> (tq_error, string \<times> sql_arg list) result" where
  "buildConditionSQL metas quoted cond args =
     (case mapget metas (normalizeQueryLookupKey (cd_Column cond)) of
        None \<Rightarrow> Inl (UnknownQueryColumn (cd_Column cond))
      | Some m \<Rightarrow>
          (let q = quoted_of quoted (tq_Name m); v = TrimSpace (cd_Value cond) in
           if q = [] then Inl (NotQueryable (cd_Column cond))
           else if tq_IsDateLike m then
             (case parseDateLikeValue v of None \<Rightarrow> Inl (InvalidQueryDate (tq_Name m))
              | Some t \<Rightarrow> Inr (comparison_sql q (cd_Operator cond) (ArgTime t) args))
           else if tq_IsNumber m then
             (case ParseFloat v of None \<Rightarrow> Inl (InvalidQueryNumber (tq_Name m))
              | Some x \<Rightarrow> Inr (comparison_sql q (cd_Operator cond) (ArgFloat x) args))
           else if tq_IsBoolean m then
             (case parseBoolValue v of None \<Rightarrow> Inl (InvalidQueryBool (tq_Name m))
              | Some b \<Rightarrow> Inr (comparison_sql q (cd_Operator cond) (ArgBool b) args))
           else Inr (buildTextConditionSQL q (cd_Operator cond) v args)))"

fun buildStructuredQuerySQL ::
  "tq_meta \<Rightarrow> (string \<Rightarrow> string option) \<Rightarrow> tableQueryNode \<Rightarrow> sql_arg list \<Rightarrow> (tq_error, string \<times> sql_arg list) result" where
  "buildStructuredQuerySQL metas quoted (QCond c) args = buildConditionSQL metas quoted c args"
| "buildStructuredQuerySQL metas quoted (QAnd l r) args =
     (case buildStructuredQuerySQL metas quoted l args of Inl e \<Rightarrow> Inl e
      | Inr (ls, args1) \<Rightarrow> (case buildStructuredQuerySQL metas quoted r args1 of Inl e \<Rightarrow> Inl e
          | Inr (rs, args2) \<Rightarrow> Inr (''('' @ ls @ '' AND '' @ rs @ '')'', args2)))"
| "buildStructuredQuerySQL metas quoted (QOr l r) args =
     (case buildStructuredQuerySQL metas quoted l args of Inl e \<Rightarrow> Inl e
      | Inr (ls, args1) \<Rightarrow> (case buildStructuredQuerySQL metas quoted r args1 of Inl e \<Rightarrow> Inl e
          | Inr (rs, args2) \<Rightarrow> Inr (''('' @ ls @ '' OR '' @ rs @ '')'', args2)))"

definition buildPlainTextWhereClause :: "tableQueryColumn list \<Rightarrow> (string \<Rightarrow> string option) \<Rightarrow> string" where
  "buildPlainTextWhereClause columns quoted =
     ''('' @ Join (map (\<lambda>c. ''CAST('' @ quoted_of quoted (tq_Name c) @ '' AS TEXT) ILIKE $1'') columns) '' OR '' @ '')''"

text \<open>
  The index of the columns: a later insertion replaces an earlier one, so the list has the latest
  first. The search over the keys is over those that are present.
\<close>

definition query_index :: "tableQueryColumn list \<Rightarrow> tq_meta" where
  "query_index columns = fold (\<lambda>c m.
     (normalizeQueryLookupKey (tq_Label c), c) # (normalizeQueryLookupKey (tq_Name c), c) # (ToLower (tq_Name c), c) # m)
     columns []"

definition looksLikeStructuredQuery :: "string \<Rightarrow> tq_meta \<Rightarrow> bool" where
  "looksLikeStructuredQuery raw metas =
     (let l = ToLower raw in
      Contains l ''&&'' \<or> Contains l ''||'' \<or>
      list_ex (\<lambda>(name, _). Contains l (name @ ''='') \<or> Contains l (name @ '' '')) metas \<or>
      ContainsAny raw ''<>!='')"

definition tokenizeTableQuery :: "nat \<Rightarrow> string \<Rightarrow> (tq_error, tableQueryToken list) result option" where
  "tokenizeTableQuery fuel raw = tokenize_loop fuel raw"

definition query_fuel :: "'t list \<Rightarrow> nat" where
  "query_fuel ts = 5 * length ts + 6"

text \<open>The clause, its arguments and whether the query was structured.\<close>

definition buildTableWhereClause ::
  "nat \<Rightarrow> string \<Rightarrow> tableQueryColumn list \<Rightarrow> (string \<Rightarrow> string option)
     \<Rightarrow> (tq_error, string \<times> sql_arg list \<times> bool) result option" where
  "buildTableWhereClause fuel raw columns quoted =
     (let text = TrimSpace raw; metas = query_index columns in
      if text = [] then Some (Inr ([], [], False))
      else if \<not> looksLikeStructuredQuery text metas
      then Some (Inr (buildPlainTextWhereClause columns quoted, [ArgText (''%'' @ text @ ''%'')], False))
      else (case tokenizeTableQuery fuel text of None \<Rightarrow> None
        | Some (Inl e) \<Rightarrow> Some (Inl e)
        | Some (Inr ts) \<Rightarrow> (case queryOr (query_fuel ts) ts of None \<Rightarrow> None
            | Some (Inl e) \<Rightarrow> Some (Inl e)
            | Some (Inr (root, us)) \<Rightarrow>
                if tq_typ (tq_peek us) \<noteq> QEOF then Some (Inl (UnexpectedQueryToken (tq_val (tq_peek us))))
                else Some (map_sum id (\<lambda>(sql, args). (sql, args, True))
                  (buildStructuredQuerySQL metas quoted root [])))))"

end
