(* ===== verification/TableQueryLaws.thy ===== *)
theory TableQueryLaws
  imports TableQuery
begin

text \<open>
  Properties of the list queries: when the tokenizer returns, that the parser returns and never
  indexes past its tokens, and that the SQL consists of quoted columns, fixed operators and
  placeholders numbered like the arguments, so that no value of a query becomes SQL text.
\<close>

section \<open>The tokenizer\<close>

abbreviation bang :: char where "bang \<equiv> CHR ''!''"

fun bangs_paired :: "string \<Rightarrow> bool" where
  "bangs_paired [] = True"
| "bangs_paired (c # s) = ((if c = bang then HasPrefix s ''='' else True) \<and> bangs_paired s)"

definition quote_free :: "string \<Rightarrow> bool" where
  "quote_free s \<longleftrightarrow> list_all (\<lambda>c. \<not> query_quote c) s"

lemma HasPrefix_Cons [simp]: "HasPrefix (c # s) (d # p) \<longleftrightarrow> c = d \<and> HasPrefix s p"
  and HasPrefix_Nil [simp]: "HasPrefix s []" "\<not> HasPrefix [] (d # p)"
  by (auto simp: HasPrefix_def)

lemma two_byte_op_iff: "two_byte_op (c # s) \<longleftrightarrow>
    (\<exists>d t. s = d # t \<and> (c = d \<and> (c = CHR ''&'' \<or> c = CHR ''|'') \<or> d = CHR ''='' \<and> (c = CHR ''>'' \<or> c = CHR ''<'' \<or> c = bang)))"
  by (cases s) (auto simp: two_byte_op_def)

lemma take_word_at_bang: "\<exists>w q. take_word (p @ bang # t) = (w, q @ bang # t) \<and> suffix q p"
proof (induction p)
  case Nil
  show ?case by (intro exI[of _ "[]"]) (simp add: word_stop_def)
next
  case (Cons c p)
  then obtain w q where "take_word (p @ bang # t) = (w, q @ bang # t)" "suffix q p" by blast
  then show ?case
    by (cases "word_stop c \<or> at_logical (c # p @ bang # t)")
      (auto intro: exI[of _ "c # p"] exI[of _ q] simp: suffix_Cons)
qed

lemma token_step_Inr:
  assumes "token_step c s = Inr (tk, r)"
  shows "r = s \<or> two_byte_op (c # s) \<and> r = drop 1 s \<or> (\<exists>a. query_quote c \<and> cut1 c s = Some (a, r)) \<or>
    (\<exists>w. take_word (c # s) = (w, r) \<and> \<not> two_byte_op (c # s) \<and>
       \<not> (query_space c \<or> c = CHR ''('' \<or> c = CHR '')'' \<or> query_angle c))"
  using assms unfolding token_step_def by (auto split: if_splits option.splits prod.splits)

lemma token_step_total: "\<not> query_quote c \<Longrightarrow> \<exists>tk r. token_step c s = Inr (tk, r)"
  unfolding token_step_def by (simp split: prod.split)

lemma token_step_at_bang:
  assumes "quote_free (c # p)"
  shows "\<exists>tk q. token_step c (p @ bang # t) = Inr (tk, q @ bang # t) \<and> suffix q (c # p)"
proof -
  have q: "\<not> query_quote c" using assms by (simp add: quote_free_def)
  then obtain tk r where st: "token_step c (p @ bang # t) = Inr (tk, r)" using token_step_total by blast
  obtain w u where w: "take_word (c # p @ bang # t) = (w, u @ bang # t)" "suffix u (c # p)"
    using take_word_at_bang[of "c # p" t] by auto
  have "\<exists>v. drop 1 (p @ bang # t) = v @ bang # t \<and> suffix v p" if "two_byte_op (c # p @ bang # t)"
    using that by (cases p) (auto simp: two_byte_op_iff suffix_Cons)
  with token_step_Inr[OF st] q w have "\<exists>v. r = v @ bang # t \<and> suffix v (c # p)"
    by (auto simp: suffix_Cons)
  with st show ?thesis by blast
qed

lemma lone_bang_stuck:
  assumes "\<not> HasPrefix t ''=''"
  shows "token_step bang t = Inr (Some (QTok QLiteral []), bang # t)"
  using assms by (auto simp: token_step_def two_byte_op_iff query_word_token_def isIdentifierToken_def word_stop_def query_space_def
      query_angle_def query_quote_def dquote_def squote_def)

lemma emit_None [simp]: "emit t None = None"
  by (simp add: emit_def split: option.splits)

lemma tokenize_lone_bang:
  assumes "quote_free p" and "\<not> HasPrefix t ''=''"
  shows "tokenize_loop n (p @ bang # t) = None"
  using assms(1)
proof (induction n arbitrary: p)
  case (Suc n)
  show ?case
  proof (cases p)
    case Nil
    with Suc.IH[of "[]"] show ?thesis by (simp add: lone_bang_stuck[OF assms(2)] quote_free_def)
  next
    case (Cons c p')
    with Suc.prems obtain tk q where "token_step c (p' @ bang # t) = Inr (tk, q @ bang # t)" "suffix q (c # p')"
      using token_step_at_bang[of c p' t] by auto
    moreover from this(2) have "set q \<subseteq> set (c # p')" by (rule set_mono_suffix)
    then have "quote_free q" using Suc.prems Cons unfolding quote_free_def list_all_iff by blast
    ultimately show ?thesis using Suc.IH[of q] Cons by simp
  qed
qed simp

lemma lone_bang_split: "\<not> bangs_paired s \<Longrightarrow> \<exists>p t. s = p @ bang # t \<and> \<not> HasPrefix t ''=''"
proof (induction s)
  case (Cons c s)
  then show ?case by (metis append_Cons append_Nil bangs_paired.simps(2))
qed simp

section \<open>Enough fuel\<close>

lemma bangs_paired_suffix: "bangs_paired s \<Longrightarrow> suffix t s \<Longrightarrow> bangs_paired t"
  by (induction s) (auto simp: suffix_Cons)

lemma take_word_suffix: "take_word s = (w, r) \<Longrightarrow> suffix r s"
  by (induction s arbitrary: w r) (auto simp: suffix_Cons split: if_splits prod.splits)

lemma take_word_progress:
  assumes "\<not> word_stop c" "\<not> at_logical (c # s)" "take_word (c # s) = (w, r)"
  shows "suffix r s"
  using assms take_word_suffix[of s] by (auto split: prod.splits)

lemma cut1_suffix: "cut1 c s = Some (a, b) \<Longrightarrow> suffix b s"
  using cut1_Some[of c s a b] by (auto simp: suffix_def intro: exI[of _ "a @ [c]"])

lemma word_stop_iff:
  "word_stop c \<longleftrightarrow> query_space c \<or> c = CHR ''('' \<or> c = CHR '')'' \<or> query_angle c \<or> c = bang"
  by (auto simp: word_stop_def query_space_def query_angle_def)

lemma token_step_suffix:
  assumes "token_step c s = Inr (tk, r)" "bangs_paired (c # s)"
  shows "suffix r s"
proof -
  have "two_byte_op (c # s)" if "c = bang \<or> at_logical (c # s)"
    using that assms(2) unfolding two_byte_op_def at_logical_def by (elim disjE) simp_all
  then have "suffix r s" if "take_word (c # s) = (w, r)" "\<not> two_byte_op (c # s)"
    "\<not> (query_space c \<or> c = CHR ''('' \<or> c = CHR '')'' \<or> query_angle c)" for w
    using that take_word_progress[OF _ _ that(1)] by (auto simp: word_stop_iff)
  with token_step_Inr[OF assms(1)] show ?thesis by (auto intro: cut1_suffix simp: suffix_drop)
qed

definition eof_ended :: "tableQueryToken list \<Rightarrow> bool" where
  "eof_ended ts \<longleftrightarrow> ts \<noteq> [] \<and> tq_typ (last ts) = QEOF"

definition tokens_end :: "(tq_error, tableQueryToken list) result option \<Rightarrow> bool" where
  "tokens_end r \<longleftrightarrow> (case r of None \<Rightarrow> False | Some (Inl e) \<Rightarrow> e \<noteq> IndexOutOfRange | Some (Inr ts) \<Rightarrow> eof_ended ts)"

lemma tokens_end_emit: "tokens_end r \<Longrightarrow> tokens_end (emit t r)"
  by (auto simp: tokens_end_def emit_def eof_ended_def split: option.splits sum.splits)

lemma token_step_error: "token_step c s = Inl e \<Longrightarrow> e = UnterminatedQuote"
  by (auto simp: token_step_def split: if_splits option.splits prod.splits)

lemma tokenize_returns:
  "bangs_paired s \<Longrightarrow> length s < n \<Longrightarrow> tokens_end (tokenize_loop n s)"
proof (induction n s rule: tokenize_loop.induct)
  case (3 n c s)
  show ?case
  proof (cases "token_step c s")
    case (Inl e)
    then show ?thesis using token_step_error by (fastforce simp: tokens_end_def)
  next
    case (Inr p)
    then obtain tk r where st: "token_step c s = Inr (tk, r)" by (cases p) auto
    from token_step_suffix[OF st "3.prems"(1)] have "suffix r s" .
    with "3.prems" have "bangs_paired r" "length r < n"
      using bangs_paired_suffix[of "c # s" r] suffix_length_le[of r s] by (auto simp: suffix_Cons)
    with "3.IH"[OF st refl] show ?thesis by (simp add: st tokens_end_emit)
  qed
qed (simp_all add: tokens_end_def eof_ended_def)

section \<open>The parser\<close>

definition parses :: "nat \<Rightarrow> 'a tq_res \<Rightarrow> bool" where
  "parses n r \<longleftrightarrow> yields (\<lambda>e. e = IndexOutOfRange) (\<lambda>_ us. eof_ended us \<and> length us \<le> n) r"

lemma parses_simps [simp]:
  "parses n (fail e) \<longleftrightarrow> e \<noteq> IndexOutOfRange" "parses n (ok x us) \<longleftrightarrow> eof_ended us \<and> length us \<le> n" "\<not> parses n None"
  by (simp_all add: parses_def)

lemma parses_mono: "parses m r \<Longrightarrow> m \<le> n \<Longrightarrow> parses n r"
  unfolding parses_def by (erule yields_mono) auto

lemma parses_bind:
  assumes "parses m r" and "\<And>x us. r = Some (Inr (x, us)) \<Longrightarrow> eof_ended us \<Longrightarrow> length us \<le> m \<Longrightarrow> parses n (f x us)"
  shows "parses n (bind_p r f)"
  using assms unfolding parses_def by (auto intro: yields_bind)

lemma eof_ended_tl: "eof_ended (t # ts) \<Longrightarrow> tq_typ t \<noteq> QEOF \<Longrightarrow> eof_ended ts"
  by (cases ts) (auto simp: eof_ended_def)

lemma peek_Cons:
  assumes "tq_typ (tq_peek ts) \<noteq> QEOF" "eof_ended ts"
  shows "eof_ended (tl ts) \<and> (\<exists>m. length ts = Suc m)"
  using assms by (cases ts) (auto simp: tq_peek_def intro: eof_ended_tl)

lemma column_words_parses: "eof_ended ts \<Longrightarrow> parses (length ts) (column_words ts)"
proof (induction ts rule: column_words.induct)
  case (2 t ts)
  show ?case
  proof (cases "is_word t")
    case True
    with "2.prems" have e: "eof_ended ts" by (auto simp: is_word_def intro: eof_ended_tl)
    then obtain u us where ts: "ts = u # us" by (cases ts) (auto simp: eof_ended_def)
    show ?thesis
    proof (cases "tq_typ u = QOp \<and> tq_comparison (tq_val u)")
      case False
      with "2.IH"[of u us] True e ts have "parses (length ts) (column_words ts)" by simp
      with False True ts show ?thesis by (auto intro!: parses_bind)
    qed (use True e ts in simp)
  qed (use "2.prems" in simp)
qed (simp add: eof_ended_def)

lemma value_words_parses: "eof_ended ts \<Longrightarrow> parses (length ts) (value_words op ts)"
proof (induction op ts rule: value_words.induct)
  case (2 op t ts)
  show ?case
  proof (cases "(tq_typ t = QEOF \<or> tq_typ t = QRParen) \<or> (tq_typ t = QOp \<and> isLogicalOperator (tq_val t)) \<or> \<not> is_word t")
    case False
    with "2.prems" have "eof_ended ts" by (auto intro: eof_ended_tl)
    with "2.IH" False have "parses (length ts) (value_words op ts)" by auto
    with False show ?thesis by (auto intro!: parses_bind)
  qed (use "2.prems" in auto)
qed (simp add: eof_ended_def)

lemma op_Cons: "tq_typ (tq_peek ts) = QOp \<Longrightarrow> eof_ended ts \<Longrightarrow> eof_ended (tl ts) \<and> (\<exists>m. length ts = Suc m)"
  by (rule peek_Cons) auto

lemma rparen_Cons: "tq_typ (tq_peek ts) = QRParen \<Longrightarrow> eof_ended ts \<Longrightarrow> eof_ended (tl ts) \<and> (\<exists>m. length ts = Suc m)"
  by (rule peek_Cons) auto

lemma parseCondition_parses: "eof_ended ts \<Longrightarrow> parses (length ts - 1) (parseCondition ts)"
  unfolding parseCondition_def Let_def
  by (auto intro!: parses_bind[OF column_words_parses] parses_bind[OF value_words_parses] dest!: op_Cons) arith+

definition query_parser_at :: "nat \<Rightarrow> bool" where
  "query_parser_at n \<longleftrightarrow> (\<forall>ts left. eof_ended ts \<longrightarrow>
     (5 * length ts + 5 \<le> n \<longrightarrow> parses (length ts - 1) (queryOr n ts)) \<and>
     (5 * length ts + 4 \<le> n \<longrightarrow> parses (length ts) (queryOrLoop n left ts)) \<and>
     (5 * length ts + 3 \<le> n \<longrightarrow> parses (length ts - 1) (queryAnd n ts)) \<and>
     (5 * length ts + 2 \<le> n \<longrightarrow> parses (length ts) (queryAndLoop n left ts)) \<and>
     (5 * length ts + 1 \<le> n \<longrightarrow> parses (length ts - 1) (queryPrimary n ts)))"

lemma tq_at_tl: "tq_at op ts \<Longrightarrow> eof_ended ts \<Longrightarrow> eof_ended (tl ts) \<and> (\<exists>m. length ts = Suc m)"
  by (rule peek_Cons) (auto simp: tq_at_def)

lemma query_parser: "query_parser_at n"
proof (induction n)
  case 0
  then show ?case by (simp add: query_parser_at_def)
next
  case (Suc n)
  then have IH: "eof_ended ts \<Longrightarrow> 5 * length ts + 5 \<le> n \<Longrightarrow> parses (length ts - 1) (queryOr n ts)"
    "eof_ended ts \<Longrightarrow> 5 * length ts + 4 \<le> n \<Longrightarrow> parses (length ts) (queryOrLoop n left ts)"
    "eof_ended ts \<Longrightarrow> 5 * length ts + 3 \<le> n \<Longrightarrow> parses (length ts - 1) (queryAnd n ts)"
    "eof_ended ts \<Longrightarrow> 5 * length ts + 2 \<le> n \<Longrightarrow> parses (length ts) (queryAndLoop n left ts)"
    "eof_ended ts \<Longrightarrow> 5 * length ts + 1 \<le> n \<Longrightarrow> parses (length ts - 1) (queryPrimary n ts)" for ts left
    by (simp_all add: query_parser_at_def)
  have len: "eof_ended ts \<Longrightarrow> 0 < length ts" for ts by (simp add: eof_ended_def)
  have or: "parses (length ts - 1) (queryOr (Suc n) ts)" if "eof_ended ts" "5 * length ts + 5 \<le> Suc n" for ts
    using that len[OF that(1)] by (auto intro!: parses_bind[OF IH(3)] parses_mono[OF IH(2)])
  have orl: "parses (length ts) (queryOrLoop (Suc n) left ts)" if "eof_ended ts" "5 * length ts + 4 \<le> Suc n" for ts left
    using that by (auto dest!: tq_at_tl intro!: parses_bind[OF IH(3)] parses_mono[OF IH(2)])
  have an: "parses (length ts - 1) (queryAnd (Suc n) ts)" if "eof_ended ts" "5 * length ts + 3 \<le> Suc n" for ts
    using that len[OF that(1)] by (auto intro!: parses_bind[OF IH(5)] parses_mono[OF IH(4)])
  have anl: "parses (length ts) (queryAndLoop (Suc n) left ts)" if "eof_ended ts" "5 * length ts + 2 \<le> Suc n" for ts left
    using that by (auto dest!: tq_at_tl intro!: parses_bind[OF IH(5)] parses_mono[OF IH(4)])
  have pr: "parses (length ts - 1) (queryPrimary (Suc n) ts)" if "eof_ended ts" "5 * length ts + 1 \<le> Suc n" for ts
  proof (cases "tq_typ (tq_peek ts) = QLParen")
    case True
    with that peek_Cons[of ts] obtain m where tl: "eof_ended (tl ts)" "length ts = Suc m" by auto
    with that have "parses (length (tl ts) - 1) (queryOr n (tl ts))" by (intro IH(1)) auto
    with True tl show ?thesis by (auto intro!: parses_bind dest!: rparen_Cons)
  qed (use that parseCondition_parses[of ts] in simp)
  show ?case
    unfolding query_parser_at_def by (intro allI impI conjI) (erule (1) or orl an anl pr)+
qed

lemma queryOr_parses: "eof_ended ts \<Longrightarrow> parses (length ts - 1) (queryOr (query_fuel ts) ts)"
  using query_parser[of "query_fuel ts"] by (auto simp: query_parser_at_def query_fuel_def)


section \<open>The language of the SQL\<close>

definition sql_operators :: "string list" where
  "sql_operators = [''='', ''<>'', ''<'', ''>'', ''<='', ''>='']"

text \<open>
  \<open>where_sql Q i sql j\<close>: the clauses over the quoted columns \<open>Q\<close> whose placeholders are numbered,
  from left to right, from \<open>i + 1\<close> to \<open>j\<close>.
\<close>

inductive where_sql :: "string set \<Rightarrow> nat \<Rightarrow> string \<Rightarrow> nat \<Rightarrow> bool" for Q where
  compare: "q \<in> Q \<Longrightarrow> op \<in> set sql_operators \<Longrightarrow>
    where_sql Q i (q @ '' '' @ op @ '' $'' @ Itoa (int (Suc i))) (Suc i)"
| like: "q \<in> Q \<Longrightarrow> op \<in> {''ILIKE'', ''NOT ILIKE''} \<Longrightarrow>
    where_sql Q i (''CAST('' @ q @ '' AS TEXT) '' @ op @ '' $'' @ Itoa (int (Suc i))) (Suc i)"
| lower: "q \<in> Q \<Longrightarrow> op \<in> set sql_operators \<Longrightarrow>
    where_sql Q i (''LOWER(CAST('' @ q @ '' AS TEXT)) '' @ op @ '' LOWER($'' @ Itoa (int (Suc i)) @ '')'') (Suc i)"
| conj: "where_sql Q i l j \<Longrightarrow> where_sql Q j r k \<Longrightarrow> where_sql Q i (''('' @ l @ '' AND '' @ r @ '')'') k"
| disj: "where_sql Q i l j \<Longrightarrow> where_sql Q j r k \<Longrightarrow> where_sql Q i (''('' @ l @ '' OR '' @ r @ '')'') k"

lemma normalizeOperator_sql: "normalizeOperator op \<in> set sql_operators"
  by (auto simp: normalizeOperator_def tq_comparison_def sql_operators_def)

lemma comparison_where_sql:
  assumes "q \<in> Q" "comparison_sql q op a args = (sql, args')"
  shows "where_sql Q (length args) sql (length args') \<and> prefix args args'"
  using assms where_sql.compare[OF assms(1) normalizeOperator_sql[of op], of "length args"]
  by (auto simp: comparison_sql_def placeholder_def)

lemma text_where_sql:
  assumes "q \<in> Q" "buildTextConditionSQL q op v args = (sql, args')"
  shows "where_sql Q (length args) sql (length args') \<and> prefix args args'"
proof -
  have lower: "where_sql Q (length args) (''LOWER(CAST('' @ q @ '' AS TEXT)) '' @ o' @ '' LOWER('' @
      placeholder (args @ [ArgText v]) @ '')'') (Suc (length args))" if "o' \<in> set sql_operators" for o'
    using where_sql.lower[OF assms(1) that, of "length args"] by (simp add: placeholder_def)
  have like: "where_sql Q (length args) (''CAST('' @ q @ '' AS TEXT) '' @ o' @ '' '' @
      placeholder (args @ [ArgText w])) (Suc (length args))" if "o' \<in> {''ILIKE'', ''NOT ILIKE''}" for o' w
    using where_sql.like[OF assms(1) that, of "length args"] by (simp add: placeholder_def)
  have ops: "''<>'' \<in> set sql_operators" "''='' \<in> set sql_operators" by (simp_all add: sql_operators_def)
  show ?thesis
  proof (cases "op = ''='' \<or> op = ''!=''")
    case True
    with assms(2) lower[OF ops(1)] lower[OF ops(2)] like[of "''ILIKE''"] like[of "''NOT ILIKE''"] show ?thesis
      by (cases "Contains v ''*''"; cases "op = ''!=''") (auto simp: buildTextConditionSQL_def Let_def)
  next
    case False
    with assms(2) lower[OF normalizeOperator_sql] show ?thesis
      by (auto simp: buildTextConditionSQL_def Let_def)
  qed
qed

definition quoted_set :: "(string \<Rightarrow> string option) \<Rightarrow> string set" where
  "quoted_set quoted = {q. \<exists>name. quoted name = Some q}"

lemma condition_where_sql:
  assumes "buildConditionSQL metas quoted c args = Inr (sql, args')"
  shows "where_sql (quoted_set quoted) (length args) sql (length args') \<and> prefix args args'"
proof -
  from assms obtain m where m: "mapget metas (normalizeQueryLookupKey (cd_Column c)) = Some m"
    "quoted_of quoted (tq_Name m) \<noteq> []"
    by (auto simp: buildConditionSQL_def Let_def split: option.splits if_splits)
  then have q: "quoted_of quoted (tq_Name m) \<in> quoted_set quoted"
    by (auto simp: quoted_of_def quoted_set_def split: option.splits)
  show ?thesis using assms m
    by (auto simp: buildConditionSQL_def Let_def split: option.splits if_splits
        dest!: comparison_where_sql[OF q] text_where_sql[OF q])
qed

lemma structured_where_sql:
  "buildStructuredQuerySQL metas quoted node args = Inr (sql, args') \<Longrightarrow>
     where_sql (quoted_set quoted) (length args) sql (length args') \<and> prefix args args'"
proof (induction node arbitrary: args sql args')
  case (QCond c)
  then show ?case by (simp add: condition_where_sql)
next
  case (QAnd l r)
  from QAnd.prems obtain ls a1 rs where l: "buildStructuredQuerySQL metas quoted l args = Inr (ls, a1)"
    and r: "buildStructuredQuerySQL metas quoted r a1 = Inr (rs, args')" and sql: "sql = ''('' @ ls @ '' AND '' @ rs @ '')''"
    by (auto split: sum.splits)
  from QAnd.IH(1)[OF l] QAnd.IH(2)[OF r] show ?case unfolding sql
    by (blast intro: where_sql.conj prefix_order.trans)
next
  case (QOr l r)
  from QOr.prems obtain ls a1 rs where l: "buildStructuredQuerySQL metas quoted l args = Inr (ls, a1)"
    and r: "buildStructuredQuerySQL metas quoted r a1 = Inr (rs, args')" and sql: "sql = ''('' @ ls @ '' OR '' @ rs @ '')''"
    by (auto split: sum.splits)
  from QOr.IH(1)[OF l] QOr.IH(2)[OF r] show ?case unfolding sql
    by (blast intro: where_sql.disj prefix_order.trans)
qed

section \<open>Values do not reach the text\<close>

text \<open>What of a query determines the text: everything but the values, of which only the presence of a wildcard.\<close>

fun query_shape :: "tableQueryNode \<Rightarrow> tableQueryNode" where
  "query_shape (QCond c) = QCond (Cond (cd_Column c) (cd_Operator c) (if Contains (TrimSpace (cd_Value c)) ''*'' then ''*'' else []))"
| "query_shape (QAnd l r) = QAnd (query_shape l) (query_shape r)"
| "query_shape (QOr l r) = QOr (query_shape l) (query_shape r)"

lemma text_shape:
  assumes "Contains v ''*'' = Contains w ''*''" "length args = length brgs"
  shows "fst (buildTextConditionSQL q op v args) = fst (buildTextConditionSQL q op w brgs) \<and>
    length (snd (buildTextConditionSQL q op v args)) = length (snd (buildTextConditionSQL q op w brgs))"
  using assms by (simp add: buildTextConditionSQL_def Let_def placeholder_def)

lemma comparison_shape:
  assumes "length args = length brgs"
  shows "fst (comparison_sql q op a args) = fst (comparison_sql q op b brgs) \<and>
    length (snd (comparison_sql q op a args)) = length (snd (comparison_sql q op b brgs))"
  using assms by (simp add: comparison_sql_def placeholder_def)

lemma condition_shape:
  assumes "buildConditionSQL metas quoted c args = Inr (sql, args')" "buildConditionSQL metas quoted d brgs = Inr (sql', brgs')"
    and "cd_Column c = cd_Column d" "cd_Operator c = cd_Operator d"
    and "Contains (TrimSpace (cd_Value c)) ''*'' = Contains (TrimSpace (cd_Value d)) ''*''" "length args = length brgs"
  shows "sql = sql' \<and> length args' = length brgs'"
proof -
  note t = text_shape[OF assms(5,6)] and k = comparison_shape[OF assms(6)]
  from assms(1) obtain m where m: "mapget metas (normalizeQueryLookupKey (cd_Column c)) = Some m"
    "quoted_of quoted (tq_Name m) \<noteq> []"
    by (auto simp: buildConditionSQL_def Let_def split: option.splits if_splits)
  consider "tq_IsDateLike m" | "\<not> tq_IsDateLike m" "tq_IsNumber m" | "\<not> tq_IsDateLike m" "\<not> tq_IsNumber m" "tq_IsBoolean m"
    | "\<not> tq_IsDateLike m" "\<not> tq_IsNumber m" "\<not> tq_IsBoolean m" by blast
  then show ?thesis
  proof cases
    case 4
    with m assms t[of "quoted_of quoted (tq_Name m)" "cd_Operator d"] show ?thesis
      by (simp add: buildConditionSQL_def Let_def)
  next
    case 1
    with m assms k[of "quoted_of quoted (tq_Name m)" "cd_Operator d"] show ?thesis
      by (auto simp: buildConditionSQL_def Let_def comparison_sql_def placeholder_def split: option.splits)
  next
    case 2
    with m assms k[of "quoted_of quoted (tq_Name m)" "cd_Operator d"] show ?thesis
      by (auto simp: buildConditionSQL_def Let_def comparison_sql_def placeholder_def split: option.splits)
  next
    case 3
    with m assms k[of "quoted_of quoted (tq_Name m)" "cd_Operator d"] show ?thesis
      by (auto simp: buildConditionSQL_def Let_def comparison_sql_def placeholder_def split: option.splits)
  qed
qed

lemma structured_shape:
  assumes "query_shape n = query_shape n'"
    and "buildStructuredQuerySQL metas quoted n args = Inr (sql, args')"
    and "buildStructuredQuerySQL metas quoted n' brgs = Inr (sql', brgs')" and "length args = length brgs"
  shows "sql = sql' \<and> length args' = length brgs'"
  using assms
proof (induction n arbitrary: n' args sql args' brgs sql' brgs')
  case (QCond c)
  from QCond.prems(1) obtain d where n': "n' = QCond d" by (cases n') auto
  with QCond.prems(1) have "cd_Column c = cd_Column d" "cd_Operator c = cd_Operator d"
    "Contains (TrimSpace (cd_Value c)) ''*'' = Contains (TrimSpace (cd_Value d)) ''*''" by (auto split: if_splits)
  from condition_shape[OF _ _ this QCond.prems(4)] QCond.prems(2,3) n' show ?case by simp
next
  case (QAnd l r)
  from QAnd.prems(1) obtain l' r' where n': "n' = QAnd l' r'" "query_shape l = query_shape l'" "query_shape r = query_shape r'"
    by (cases n') auto
  from QAnd.prems(2-3) n'(1) obtain ls a1 rs ls' b1 rs' where
    l: "buildStructuredQuerySQL metas quoted l args = Inr (ls, a1)" "buildStructuredQuerySQL metas quoted l' brgs = Inr (ls', b1)"
    and r: "buildStructuredQuerySQL metas quoted r a1 = Inr (rs, args')" "buildStructuredQuerySQL metas quoted r' b1 = Inr (rs', brgs')"
    and sql: "sql = ''('' @ ls @ '' AND '' @ rs @ '')''" "sql' = ''('' @ ls' @ '' AND '' @ rs' @ '')''"
    by (auto split: sum.splits)
  from QAnd.IH(1)[OF n'(2) l QAnd.prems(4)] QAnd.IH(2)[OF n'(3) r] sql show ?case by simp
next
  case (QOr l r)
  from QOr.prems(1) obtain l' r' where n': "n' = QOr l' r'" "query_shape l = query_shape l'" "query_shape r = query_shape r'"
    by (cases n') auto
  from QOr.prems(2-3) n'(1) obtain ls a1 rs ls' b1 rs' where
    l: "buildStructuredQuerySQL metas quoted l args = Inr (ls, a1)" "buildStructuredQuerySQL metas quoted l' brgs = Inr (ls', b1)"
    and r: "buildStructuredQuerySQL metas quoted r a1 = Inr (rs, args')" "buildStructuredQuerySQL metas quoted r' b1 = Inr (rs', brgs')"
    and sql: "sql = ''('' @ ls @ '' OR '' @ rs @ '')''" "sql' = ''('' @ ls' @ '' OR '' @ rs' @ '')''"
    by (auto split: sum.splits)
  from QOr.IH(1)[OF n'(2) l QOr.prems(4)] QOr.IH(2)[OF n'(3) r] sql show ?case by simp
qed


section \<open>Properties\<close>

text \<open>
  C25: the SQL of a structured query is a clause over the quoted columns, built from the fixed
  operators, with one placeholder per argument, numbered from 1 in the order of the arguments: no
  text of the query appears in it.
\<close>
theorem list_query_sql:
  assumes "buildTableWhereClause fuel raw columns quoted = Some (Inr (sql, args, True))"
  shows "where_sql (quoted_set quoted) 0 sql (length args)"
proof -
  from assms obtain node where "buildStructuredQuerySQL (query_index columns) quoted node [] = Inr (sql, args)"
    by (auto simp: buildTableWhereClause_def Let_def map_sum_id_Inr split: if_splits option.splits sum.splits prod.splits)
  from structured_where_sql[OF this] show ?thesis by simp
qed

text \<open>
  Two queries that differ only in their values, and agree in which of them have a wildcard, have
  the same SQL text and the same number of arguments.
\<close>
theorem values_never_in_sql:
  assumes "query_shape n = query_shape n'"
    and "buildStructuredQuerySQL metas quoted n [] = Inr (sql, args)"
    and "buildStructuredQuerySQL metas quoted n' [] = Inr (sql', args')"
  shows "sql = sql' \<and> length args = length args'"
  using structured_shape[OF assms] by simp

text \<open>
  A query in which every exclamation mark begins a \<open>!=\<close> is answered, with a clause or an error
  and never with an index past the tokens; as many turns as it has bytes are enough.
\<close>
theorem list_query_returns:
  assumes "bangs_paired (TrimSpace raw)" "length raw < fuel"
  shows "\<exists>r. buildTableWhereClause fuel raw columns quoted = Some r \<and> r \<noteq> Inl IndexOutOfRange"
proof -
  have "length (TrimSpace raw) < fuel" using length_TrimSpace[of raw] assms(2) by linarith
  from tokenize_returns[OF assms(1) this] consider
      e where "tokenize_loop fuel (TrimSpace raw) = Some (Inl e)" "e \<noteq> IndexOutOfRange"
    | ts where "tokenize_loop fuel (TrimSpace raw) = Some (Inr ts)" "eof_ended ts"
    by (auto simp: tokens_end_def split: option.splits sum.splits)
  then show ?thesis
  proof cases
    case 1
    then show ?thesis by (auto simp: buildTableWhereClause_def tokenizeTableQuery_def Let_def)
  next
    case 2
    have "e \<noteq> IndexOutOfRange" if "buildStructuredQuerySQL metas quoted node args = Inl e" for metas node args e
      using that by (induction node arbitrary: args)
        (auto simp: buildConditionSQL_def Let_def split: option.splits if_splits sum.splits prod.splits)
    with 2 queryOr_parses[OF 2(2)] show ?thesis
      by (auto simp: buildTableWhereClause_def tokenizeTableQuery_def Let_def parses_def yields_def
          split: option.splits sum.splits prod.splits)
  qed
qed

text \<open>
  C26: an exclamation mark that no \<open>=\<close> follows, before any quote, is never passed: the tokenizer
  appends empty tokens for ever, so a search for such a text never returns.
\<close>
theorem lone_bang_never_returns:
  assumes "TrimSpace raw = p @ CHR ''!'' # t" "quote_free p" "\<not> HasPrefix t ''=''"
  shows "buildTableWhereClause fuel raw columns quoted = None"
proof -
  have "looksLikeStructuredQuery (TrimSpace raw) metas" for metas
    unfolding looksLikeStructuredQuery_def ContainsAny_def Let_def assms(1) by simp
  then show ?thesis
    using tokenize_lone_bang[OF assms(2,3), of fuel] assms(1)
    by (simp add: buildTableWhereClause_def tokenizeTableQuery_def Let_def)
qed

text \<open>
  The key of a column's name also finds a later column by its label: conditions on the first are
  then applied to the second.
\<close>
lemma label_captures_column:
  assumes "normalizeQueryLookupKey (tq_Label c) = normalizeQueryLookupKey (tq_Name d)"
  shows "mapget (query_index (cs @ [d, c])) (normalizeQueryLookupKey (tq_Name d)) = Some c"
  using assms by (simp add: query_index_def)

section \<open>A small list\<close>

definition name_column :: tableQueryColumn where
  "name_column = query_column (\<lambda>_. []) None ''name''"

definition name_quoted :: "string \<Rightarrow> string option" where
  "name_quoted = [''name'' \<mapsto> ''\"name\"'']"

lemma andy_query_eval:
  "case buildTableWhereClause 20 ''Name=Andy*'' [name_column] name_quoted of
     Some (Inr (sql, args, structured)) \<Rightarrow> structured \<and> sql = ''CAST(\"name\" AS TEXT) ILIKE $1'' \<and>
       (case args of [ArgText v] \<Rightarrow> v = ''Andy%'' | _ \<Rightarrow> False)
   | _ \<Rightarrow> False"
  by code_simp


lemma list_query_sql_witness:
  "\<exists>sql args. buildTableWhereClause 20 ''Name=Andy*'' [name_column] name_quoted = Some (Inr (sql, args, True)) \<and>
     where_sql (quoted_set name_quoted) 0 sql (length args)"
proof -
  from andy_query_eval obtain sql args where
    "buildTableWhereClause 20 ''Name=Andy*'' [name_column] name_quoted = Some (Inr (sql, args, True))"
    by (auto split: option.splits sum.splits prod.splits)
  from this list_query_sql[OF this] show ?thesis by blast
qed

lemma values_never_in_sql_witness:
  "(case (buildStructuredQuerySQL (query_index [name_column]) name_quoted (QCond (Cond ''name'' ''='' ''Ann'')) [],
          buildStructuredQuerySQL (query_index [name_column]) name_quoted (QCond (Cond ''name'' ''='' ''x; drop'')) []) of
      (Inr (sql, args), Inr (sql', args')) \<Rightarrow> sql = sql' \<and> length args = length args'
    | _ \<Rightarrow> False)"
proof -
  have shape: "query_shape (QCond (Cond ''name'' ''='' ''Ann'')) = query_shape (QCond (Cond ''name'' ''='' ''x; drop''))"
    by code_simp
  have "case buildStructuredQuerySQL (query_index [name_column]) name_quoted (QCond (Cond ''name'' ''='' ''Ann'')) [] of
      Inr _ \<Rightarrow> True | _ \<Rightarrow> False"
    "case buildStructuredQuerySQL (query_index [name_column]) name_quoted (QCond (Cond ''name'' ''='' ''x; drop'')) [] of
      Inr _ \<Rightarrow> True | _ \<Rightarrow> False" by code_simp+
  with values_never_in_sql[OF shape] show ?thesis by (auto split: sum.splits prod.splits)
qed

lemma list_query_returns_witness:
  "\<exists>r. buildTableWhereClause 8 ''a != 1'' [name_column] name_quoted = Some r \<and> r \<noteq> Inl IndexOutOfRange"
proof (rule list_query_returns)
  show "bangs_paired (TrimSpace ''a != 1'')" by code_simp
qed simp

lemma lone_bang_never_returns_witness:
  "buildTableWhereClause 1000000 ''hello! world'' [name_column] name_quoted = None"
proof (rule lone_bang_never_returns)
  show "TrimSpace ''hello! world'' = ''hello'' @ CHR ''!'' # '' world''" by code_simp
  show "quote_free ''hello''" by code_simp
  show "\<not> HasPrefix '' world'' ''=''" by code_simp
qed

end
