(* ===== verification/AppEditor.thy ===== *)
theory AppEditor
  imports AppPages
begin

text \<open>
  What the requests of the app editor share (\<open>cmd/server/handleAppEditorObjectSave.go\<close>): the errors, the values of a
  form, the ids of the objects of a definition, and the search for the entry an id names. The theories of
  the edits and of the deletions follow.

  A form is a function from keys to the submitted values. The decoders of \<open>encoding/json\<close> and the YAML library
  are the record \<open>editor_codec\<close>: they answer \<open>None\<close> on an error.
\<close>

section \<open>Parameters and errors\<close>

record editor_codec =
  ec_strings :: "string \<Rightarrow> string list option"
  ec_forms :: "string \<Rightarrow> AppDefinitionForm list option"
  ec_actions :: "string \<Rightarrow> AppDefinitionAction list option"
  ec_security :: "string \<Rightarrow> AppDefinitionSecurity option"
  ec_policies :: "string \<Rightarrow> AppDefinitionDataPolicy list option"
  ec_triggers :: "string \<Rightarrow> AppDefinitionTrigger list option"
  ec_related :: "string \<Rightarrow> AppDefinitionRelatedList list option"
  ec_lists :: "string \<Rightarrow> AppDefinitionList list option"
  ec_rows :: "string \<Rightarrow> (string \<times> gval) list list option"
  ec_choices :: "string \<Rightarrow> ChoiceOption list option"
  ec_marshal :: "AppDefinition \<Rightarrow> string option"
  ec_unmarshal :: "string \<Rightarrow> AppDefinition option"
  ec_legacy_scripts :: "string \<Rightarrow> bool"

datatype parse_error = LegacyScripts | YAMLSyntax | DefinitionRefused definition_error

datatype edit_error =
    FieldNeeded string
  | ObjectExists string string string
  | ObjectMissing string string string
  | BadObjectID string
  | BadJSON string
  | TitleWithoutSlug
  | SystemColumnKept
  | YAMLNeeded
  | YAMLRefused parse_error
  | UnsupportedObject

type_synonym form_values = "string \<Rightarrow> string list"
type_synonym edit = "string \<Rightarrow> form_values \<Rightarrow> AppDefinition \<Rightarrow> (edit_error, AppDefinition) result"

definition ParseAppDefinition :: "editor_codec \<Rightarrow> string \<Rightarrow> (parse_error, AppDefinition option) result" where
  "ParseAppDefinition ec raw =
     (let content = TrimSpace raw in
      if content = [] then Inr None
      else if ec_legacy_scripts ec content then Inl LegacyScripts
      else (case ec_unmarshal ec content of None \<Rightarrow> Inl YAMLSyntax
        | Some d \<Rightarrow> (case normalizeAppDefinition d of Inl e \<Rightarrow> Inl (DefinitionRefused e) | Inr d' \<Rightarrow> Inr (Some d'))))"

section \<open>Values of the form\<close>

definition formValue :: "form_values \<Rightarrow> string \<Rightarrow> string" where
  "formValue form key = (case form key of [] \<Rightarrow> [] | v # vs \<Rightarrow> v)"

abbreviation text_value :: "form_values \<Rightarrow> string \<Rightarrow> string" where
  "text_value form key \<equiv> TrimSpace (formValue form key)"

abbreviation lower_value :: "form_values \<Rightarrow> string \<Rightarrow> string" where
  "lower_value form key \<equiv> trim_lower (formValue form key)"

definition parseBoolFormValue :: "string \<Rightarrow> bool" where
  "parseBoolFormValue v \<longleftrightarrow> trim_lower v \<in> {''1'', ''true'', ''on'', ''yes''}"

definition parseIntFormValue :: "string \<Rightarrow> int" where
  "parseIntFormValue v = (case ParseInt10 (TrimSpace v) of None \<Rightarrow> 0 | Some n \<Rightarrow> n)"

text \<open>The parse functions of the source share one shape: a blank text is the zero value.\<close>

definition blank_or :: "'a \<Rightarrow> (string \<Rightarrow> 'a option) \<Rightarrow> string \<Rightarrow> 'a option" where
  "blank_or zero dec raw = (let r = TrimSpace raw in if r = [] then Some zero else dec r)"

definition parseStringArrayJSON :: "editor_codec \<Rightarrow> string \<Rightarrow> string list option" where
  "parseStringArrayJSON ec = blank_or [] (\<lambda>r. map_option (\<lambda>items. filter (\<lambda>i. i \<noteq> []) (map TrimSpace items)) (ec_strings ec r))"

definition parseDefinitionFormsJSON :: "editor_codec \<Rightarrow> string \<Rightarrow> AppDefinitionForm list option" where
  "parseDefinitionFormsJSON ec = blank_or [] (ec_forms ec)"

definition parseDefinitionActionsJSON :: "editor_codec \<Rightarrow> string \<Rightarrow> AppDefinitionAction list option" where
  "parseDefinitionActionsJSON ec = blank_or [] (ec_actions ec)"

definition empty_security :: AppDefinitionSecurity where
  "empty_security = \<lparr>se_Roles = [], se_Notes = [], se_Rules = []\<rparr>"

definition parseDefinitionSecurityJSON :: "editor_codec \<Rightarrow> string \<Rightarrow> AppDefinitionSecurity option" where
  "parseDefinitionSecurityJSON ec = blank_or empty_security (ec_security ec)"

definition parseDefinitionDataPoliciesJSON :: "editor_codec \<Rightarrow> string \<Rightarrow> AppDefinitionDataPolicy list option" where
  "parseDefinitionDataPoliciesJSON ec = blank_or [] (ec_policies ec)"

definition parseDefinitionTableTriggersJSON :: "editor_codec \<Rightarrow> string \<Rightarrow> AppDefinitionTrigger list option" where
  "parseDefinitionTableTriggersJSON ec = blank_or [] (ec_triggers ec)"

definition parseDefinitionRelatedListsJSON :: "editor_codec \<Rightarrow> string \<Rightarrow> AppDefinitionRelatedList list option" where
  "parseDefinitionRelatedListsJSON ec = blank_or [] (ec_related ec)"

definition parseDefinitionListsJSON :: "editor_codec \<Rightarrow> string \<Rightarrow> AppDefinitionList list option" where
  "parseDefinitionListsJSON ec = blank_or [] (ec_lists ec)"

definition parseSeedRowsJSON :: "editor_codec \<Rightarrow> string \<Rightarrow> (string \<times> gval) list list option" where
  "parseSeedRowsJSON ec = blank_or [] (ec_rows ec)"

definition parseChoiceOptionsJSON :: "editor_codec \<Rightarrow> string \<Rightarrow> ChoiceOption list option" where
  "parseChoiceOptionsJSON ec = blank_or [] (\<lambda>r. case ec_choices ec r of Some options \<Rightarrow> Some options
     | None \<Rightarrow> map_option (\<lambda>vs. map (\<lambda>v. \<lparr>ch_Value = v, ch_Label = []\<rparr>) (filter (\<lambda>v. v \<noteq> []) (map TrimSpace vs))) (ec_strings ec r))"

definition json_field :: "string \<Rightarrow> 'a option \<Rightarrow> (edit_error, 'a) result" where
  "json_field key parsed = (case parsed of None \<Rightarrow> Inl (BadJSON key) | Some x \<Rightarrow> Inr x)"

section \<open>Slugs\<close>

fun slug_loop :: "string \<Rightarrow> bool \<Rightarrow> string \<Rightarrow> string" where
  "slug_loop builder lastDash [] = builder"
| "slug_loop builder lastDash (c # s) =
     (if slug_head c then slug_loop (builder @ [c]) False s
      else if builder = [] \<or> lastDash then slug_loop builder lastDash s
      else slug_loop (builder @ ''-'') True s)"

definition pageSlugFromTitle :: "string \<Rightarrow> string" where
  "pageSlugFromTitle title =
     (let t = trim_lower title in
      if t = [] then []
      else let s = TrimByte (CHR ''-'') (slug_loop [] False t);
               slug = (if 64 < length s then TrimByte (CHR ''-'') (take 64 s) else s)
           in if simplePageSlugPattern slug then slug else [])"

section \<open>Object ids\<close>

definition parseLegacyTableFormID :: "string \<Rightarrow> (string \<times> string) option" where
  "parseLegacyTableFormID v = (case cut1 (CHR '':'') (trim_lower v) of None \<Rightarrow> None
     | Some (t, f) \<Rightarrow> if t = [] \<or> f = [] then None else Some (t, f))"

definition parseAppEditorTableScopedID :: "string \<Rightarrow> string \<Rightarrow> (string \<times> string) option" where
  "parseAppEditorTableScopedID oid pre = (case cut1 (CHR '':'') (TrimPrefix oid pre) of None \<Rightarrow> None
     | Some (t, n) \<Rightarrow> if t = [] \<or> n = [] then None else Some (trim_lower t, trim_lower n))"

definition parseAppEditorColumnID :: "string \<Rightarrow> (string \<times> string) option" where
  "parseAppEditorColumnID oid = (case cut1 (CHR '':'') (TrimPrefix oid ''column:'') of None \<Rightarrow> None
     | Some (t, c) \<Rightarrow> if t = [] \<or> c = [] then None else Some (trim_lower t, trim_lower c))"

text \<open>\<open>strings.SplitN\<close> into at most three parts.\<close>

definition split3 :: "string \<Rightarrow> string list" where
  "split3 s = (case cut1 (CHR '':'') s of None \<Rightarrow> [s]
     | Some (a, r) \<Rightarrow> (case cut1 (CHR '':'') r of None \<Rightarrow> [a, r] | Some (b, c) \<Rightarrow> [a, b, c]))"

definition parseAppEditorMethodID :: "string \<Rightarrow> (string \<times> string \<times> string) option" where
  "parseAppEditorMethodID oid = (case split3 (TrimPrefix oid ''method:'') of
     [a, s, m] \<Rightarrow> Some (trim_lower a, trim_lower s, trim_lower m) | _ \<Rightarrow> None)"

definition parseAppEditorScopedName :: "string \<Rightarrow> string \<Rightarrow> string option" where
  "parseAppEditorScopedName oid pre = map_option (\<lambda>(app, n). trim_lower n) (cut1 (CHR '':'') (TrimPrefix oid pre))"

definition parseAppEditorSeedID :: "string \<Rightarrow> (string \<times> string \<times> int) option" where
  "parseAppEditorSeedID oid = (case split3 (TrimPrefix oid ''seed:'') of
     [a, t, i] \<Rightarrow> map_option (\<lambda>n. (trim_lower a, trim_lower t, n)) (ParseInt10 (TrimSpace i)) | _ \<Rightarrow> None)"

section \<open>Entries\<close>

text \<open>
  The lookups of the source answer a pointer to the first entry that matches, through which the handler writes:
  \<open>edit_first\<close> is the list with that entry replaced.
\<close>

fun edit_first :: "edit_error \<Rightarrow> ('a \<Rightarrow> bool) \<Rightarrow> ('a \<Rightarrow> (edit_error, 'a) result) \<Rightarrow> 'a list \<Rightarrow> (edit_error, 'a list) result" where
  "edit_first e p f [] = Inl e"
| "edit_first e p f (x # xs) = (if p x then and_then (f x) (\<lambda>y. Inr (y # xs))
     else and_then (edit_first e p f xs) (\<lambda>ys. Inr (x # ys)))"

fun delete_first :: "edit_error \<Rightarrow> ('a \<Rightarrow> bool) \<Rightarrow> 'a list \<Rightarrow> (edit_error, 'a list) result" where
  "delete_first e p [] = Inl e"
| "delete_first e p (x # xs) = (if p x then Inr xs else and_then (delete_first e p xs) (\<lambda>ys. Inr (x # ys)))"

definition name_taken :: "string list \<Rightarrow> string \<Rightarrow> bool" where
  "name_taken names name \<longleftrightarrow> list_ex (\<lambda>m. EqualFold m name) names"

text \<open>A new entry of a section: its name is required and must not be taken.\<close>

definition add_entry :: "string \<Rightarrow> ('a \<Rightarrow> string) \<Rightarrow> 'a \<Rightarrow> 'a list \<Rightarrow> (edit_error, 'a list) result" where
  "add_entry kind nm x xs =
     (if nm x = [] then Inl (FieldNeeded ''name'')
      else if name_taken (map nm xs) (nm x) then Inl (ObjectExists kind (nm x) [])
      else Inr (xs @ [x]))"

definition requireDefinitionTable ::
  "string \<Rightarrow> (AppDefinitionTable \<Rightarrow> (edit_error, AppDefinitionTable) result) \<Rightarrow> AppDefinition \<Rightarrow> (edit_error, AppDefinition) result" where
  "requireDefinitionTable tn f d =
     and_then (edit_first (ObjectMissing ''table'' tn []) (\<lambda>t. dt_Name t = tn) f (ad_Tables d)) (\<lambda>ts. Inr (d\<lparr>ad_Tables := ts\<rparr>))"

definition scoped :: "string \<Rightarrow> string \<Rightarrow> string \<Rightarrow> (string \<Rightarrow> (edit_error, 'a) result) \<Rightarrow> (edit_error, 'a) result" where
  "scoped kind pre oid f = (case parseAppEditorScopedName oid pre of None \<Rightarrow> Inl (BadObjectID kind) | Some n \<Rightarrow> f n)"

definition table_scoped ::
  "string \<Rightarrow> string \<Rightarrow> string \<Rightarrow> (string \<Rightarrow> string \<Rightarrow> (edit_error, 'a) result) \<Rightarrow> (edit_error, 'a) result" where
  "table_scoped kind pre oid f =
     (case parseAppEditorTableScopedID oid pre of None \<Rightarrow> Inl (BadObjectID kind) | Some (t, n) \<Rightarrow> f t n)"

end
