(* ===== verification/AppEdits.thy ===== *)
theory AppEdits
  imports AppEditor
begin

text \<open>
  The cases of \<open>saveAppEditorObject\<close> (\<open>cmd/server/handleAppEditorObjectSave.go\<close>): for every kind of object
  what its form makes of the definition, and the switch over them. The id is read with its prefix; a case that
  the source takes on an equal id has no use for it.
\<close>

section \<open>The application\<close>

definition save_application :: "editor_codec \<Rightarrow> edit" where
  "save_application ec oid form d = and_then (json_field ''dependencies'' (parseStringArrayJSON ec (formValue form ''dependencies'')))
     (\<lambda>deps. Inr (d\<lparr>ad_Label := text_value form ''label'', ad_Description := text_value form ''description'',
       ad_Dependencies := deps\<rparr>))"

definition save_yaml :: "editor_codec \<Rightarrow> RegisteredApp \<Rightarrow> edit" where
  "save_yaml ec app oid form d = (case ParseAppDefinition ec (formValue form ''definition_yaml'') of
     Inl e \<Rightarrow> Inl (YAMLRefused e)
   | Inr None \<Rightarrow> Inl YAMLNeeded
   | Inr (Some p) \<Rightarrow> Inr (p\<lparr>ad_Name := (if TrimSpace (ad_Name p) = [] then ra_Name app else ad_Name p),
       ad_Namespace := (if TrimSpace (ad_Namespace p) = [] then ra_Namespace app else ad_Namespace p)\<rparr>))"

definition new_dependency :: edit where
  "new_dependency oid form d = and_then (add_entry ''dependency'' (\<lambda>n. n) (lower_value form ''name'') (ad_Dependencies d))
     (\<lambda>deps. Inr (d\<lparr>ad_Dependencies := deps\<rparr>))"

definition save_dependency :: edit where
  "save_dependency oid form d = scoped ''dependency'' ''dependency:'' oid (\<lambda>n.
     and_then (edit_first (ObjectMissing ''dependency'' n []) (\<lambda>m. m = n) (\<lambda>m. Inr (text_value form ''name'')) (ad_Dependencies d))
       (\<lambda>deps. Inr (d\<lparr>ad_Dependencies := deps\<rparr>)))"

section \<open>Tables and columns\<close>

definition new_table :: edit where
  "new_table oid form d = and_then (add_entry ''table'' dt_Name
     \<lparr>dt_Name = lower_value form ''name'', dt_Extends = lower_value form ''extends'',
      dt_Extensible = parseBoolFormValue (formValue form ''extensible''), dt_LabelSingular = text_value form ''label_singular'',
      dt_LabelPlural = text_value form ''label_plural'', dt_Description = text_value form ''description'',
      dt_DisplayField = lower_value form ''display_field'', dt_Columns = [], dt_Forms = [], dt_Lists = [], dt_DataPolicies = [],
      dt_Triggers = [], dt_RelatedLists = [], dt_Security = empty_security\<rparr> (ad_Tables d)) (\<lambda>ts. Inr (d\<lparr>ad_Tables := ts\<rparr>))"

definition save_table :: "editor_codec \<Rightarrow> edit" where
  "save_table ec oid form d = requireDefinitionTable (TrimSpace (TrimPrefix oid ''table:'')) (\<lambda>t.
     and_then (json_field ''forms'' (parseDefinitionFormsJSON ec (formValue form ''forms''))) (\<lambda>forms.
     and_then (json_field ''lists'' (parseDefinitionListsJSON ec (formValue form ''lists''))) (\<lambda>lists.
       Inr (t\<lparr>dt_LabelSingular := text_value form ''label_singular'', dt_LabelPlural := text_value form ''label_plural'',
         dt_DisplayField := lower_value form ''display_field'', dt_Description := text_value form ''description'',
         dt_Extensible := parseBoolFormValue (formValue form ''extensible''), dt_Forms := forms, dt_Lists := lists\<rparr>)))) d"

definition new_column :: "editor_codec \<Rightarrow> edit" where
  "new_column ec oid form d = requireDefinitionTable (lower_value form ''table_name'') (\<lambda>t.
     let name = lower_value form ''name'' in
     if name = [] then Inl (FieldNeeded ''name'')
     else if name_taken (map dc_Name (dt_Columns t)) name then Inl (ObjectExists ''column'' name (lower_value form ''table_name''))
     else and_then (json_field ''choices'' (parseChoiceOptionsJSON ec (formValue form ''choices''))) (\<lambda>choices.
       Inr (t\<lparr>dt_Columns := dt_Columns t @ [\<lparr>dc_Name = name, dc_Label = text_value form ''label'',
         dc_DataType = text_value form ''data_type'', dc_IsNullable = parseBoolFormValue (formValue form ''is_nullable''),
         dc_DefaultValue = text_value form ''default_value'', dc_Prefix = text_value form ''prefix'',
         dc_ValidationRegex = text_value form ''validation_regex'', dc_ValidationExpr = [],
         dc_ConditionExpr = text_value form ''condition_expr'', dc_ValidationMessage = text_value form ''validation_message'',
         dc_ReferenceTable = text_value form ''reference_table'', dc_Choices = choices\<rparr>]\<rparr>))) d"

definition save_column :: "editor_codec \<Rightarrow> edit" where
  "save_column ec oid form d = (case parseAppEditorColumnID oid of None \<Rightarrow> Inl (BadObjectID ''column'')
   | Some (tn, cn) \<Rightarrow> requireDefinitionTable tn (\<lambda>t.
       and_then (edit_first (ObjectMissing ''column'' cn tn) (\<lambda>c. dc_Name c = cn) (\<lambda>c.
         and_then (json_field ''choices'' (parseChoiceOptionsJSON ec (formValue form ''choices''))) (\<lambda>choices.
           Inr (c\<lparr>dc_Label := text_value form ''label'', dc_DataType := text_value form ''data_type'',
             dc_IsNullable := parseBoolFormValue (formValue form ''is_nullable''), dc_Prefix := text_value form ''prefix'',
             dc_ReferenceTable := text_value form ''reference_table'', dc_Choices := choices,
             dc_DefaultValue := text_value form ''default_value'', dc_ValidationRegex := text_value form ''validation_regex'',
             dc_ConditionExpr := text_value form ''condition_expr'',
             dc_ValidationMessage := text_value form ''validation_message''\<rparr>))) (dt_Columns t))
         (\<lambda>cs. Inr (t\<lparr>dt_Columns := cs\<rparr>))) d)"

section \<open>Parts of a table\<close>

text \<open>A new part of a table: the table and the name come from the form.\<close>

definition new_part ::
  "string \<Rightarrow> string \<Rightarrow> (AppDefinitionTable \<Rightarrow> string list) \<Rightarrow> (string \<Rightarrow> string \<Rightarrow> AppDefinitionTable \<Rightarrow> (edit_error, AppDefinitionTable) result)
     \<Rightarrow> form_values \<Rightarrow> AppDefinition \<Rightarrow> (edit_error, AppDefinition) result" where
  "new_part key kind names add form d =
     (let tn = lower_value form key in
      if tn = [] then Inl (FieldNeeded key)
      else requireDefinitionTable tn (\<lambda>t.
        let name = lower_value form ''name'' in
        if name = [] then Inl (FieldNeeded ''name'')
        else if name_taken (names t) name then Inl (ObjectExists kind name tn)
        else add tn name t) d)"

definition new_form :: edit where
  "new_form oid form = new_part ''table'' ''form'' (\<lambda>t. map fo_Name (dt_Forms t)) (\<lambda>tn name t.
     Inr (t\<lparr>dt_Forms := dt_Forms t @ [\<lparr>fo_Name = name, fo_Label = text_value form ''label'',
       fo_Description = text_value form ''description'', fo_Fields = [], fo_Actions = [], fo_Security = empty_security\<rparr>]\<rparr>)) form"

definition new_data_policy :: edit where
  "new_data_policy oid form = new_part ''table_name'' ''data policy'' (\<lambda>t. map dp_Name (dt_DataPolicies t)) (\<lambda>tn name t.
     Inr (t\<lparr>dt_DataPolicies := dt_DataPolicies t @ [\<lparr>dp_Name = name, dp_Label = text_value form ''label'',
       dp_Description = text_value form ''description'', dp_Condition = text_value form ''condition'',
       dp_Action = text_value form ''action'', dp_Enabled = parseBoolFormValue (formValue form ''enabled'')\<rparr>]\<rparr>)) form"

text \<open>The trigger a form describes; the switch takes its name and its table from elsewhere.\<close>

definition form_trigger :: "string \<Rightarrow> string \<Rightarrow> form_values \<Rightarrow> AppDefinitionTrigger" where
  "form_trigger name tn form = \<lparr>tr_Name = name, tr_Label = text_value form ''label'',
     tr_Description = text_value form ''description'', tr_Event = text_value form ''event'', tr_Table = tn,
     tr_Condition = text_value form ''condition'', tr_Call = text_value form ''call'', tr_Mode = text_value form ''mode'',
     tr_Order = parseIntFormValue (formValue form ''order''), tr_Enabled = parseBoolFormValue (formValue form ''enabled'')\<rparr>"

definition new_table_trigger :: edit where
  "new_table_trigger oid form = new_part ''table_name'' ''trigger'' (\<lambda>t. map tr_Name (dt_Triggers t)) (\<lambda>tn name t.
     Inr (t\<lparr>dt_Triggers := dt_Triggers t @ [form_trigger name tn form]\<rparr>)) form"

definition new_related_list :: "editor_codec \<Rightarrow> edit" where
  "new_related_list ec oid form = new_part ''table_name'' ''related list'' (\<lambda>t. map rl_Name (dt_RelatedLists t)) (\<lambda>tn name t.
     and_then (json_field ''columns'' (parseStringArrayJSON ec (formValue form ''columns''))) (\<lambda>columns.
       Inr (t\<lparr>dt_RelatedLists := dt_RelatedLists t @ [\<lparr>rl_Name = name, rl_Label = text_value form ''label'',
         rl_Table = lower_value form ''table'', rl_ReferenceField = lower_value form ''reference_field'', rl_Columns = columns\<rparr>]\<rparr>))) form"

text \<open>The security rule a form describes.\<close>

definition form_rule :: "string \<Rightarrow> string \<Rightarrow> form_values \<Rightarrow> AppDefinitionSecurityRule" where
  "form_rule name tn form = \<lparr>sr_Name = name, sr_Description = text_value form ''description'',
     sr_Order = parseIntFormValue (formValue form ''order''), sr_Effect = lower_value form ''effect'',
     sr_Operation = TrimSpace (ToUpper (formValue form ''operation'')), sr_Table = tn, sr_Field = lower_value form ''field'',
     sr_Condition = text_value form ''condition'', sr_Role = lower_value form ''role''\<rparr>"

definition new_security_rule :: edit where
  "new_security_rule oid form = new_part ''table_name'' ''security rule'' (\<lambda>t. map sr_Name (se_Rules (dt_Security t))) (\<lambda>tn name t.
     Inr (t\<lparr>dt_Security := (dt_Security t)\<lparr>se_Rules := se_Rules (dt_Security t) @ [form_rule name tn form]\<rparr>\<rparr>)) form"

text \<open>Edits of a named part: the table and the name come from the id.\<close>

definition save_data_policy :: edit where
  "save_data_policy oid form d = table_scoped ''data policy'' ''table-data-policy:'' oid (\<lambda>tn n. requireDefinitionTable tn (\<lambda>t.
     and_then (edit_first (ObjectMissing ''data policy'' n tn) (\<lambda>p. dp_Name p = n) (\<lambda>p.
       Inr (p\<lparr>dp_Label := text_value form ''label'', dp_Description := text_value form ''description'',
         dp_Condition := text_value form ''condition'', dp_Action := text_value form ''action'',
         dp_Enabled := parseBoolFormValue (formValue form ''enabled'')\<rparr>)) (dt_DataPolicies t))
       (\<lambda>ps. Inr (t\<lparr>dt_DataPolicies := ps\<rparr>))) d)"

definition save_table_trigger :: edit where
  "save_table_trigger oid form d = table_scoped ''table trigger'' ''table-trigger:'' oid (\<lambda>tn n. requireDefinitionTable tn (\<lambda>t.
     and_then (edit_first (ObjectMissing ''trigger'' n tn) (\<lambda>r. tr_Name r = n)
       (\<lambda>r. Inr (form_trigger (tr_Name r) (tr_Table r) form)) (dt_Triggers t))
       (\<lambda>rs. Inr (t\<lparr>dt_Triggers := rs\<rparr>))) d)"

definition save_related_list :: "editor_codec \<Rightarrow> edit" where
  "save_related_list ec oid form d = table_scoped ''related list'' ''table-related-list:'' oid (\<lambda>tn n. requireDefinitionTable tn (\<lambda>t.
     and_then (edit_first (ObjectMissing ''related list'' n tn) (\<lambda>r. rl_Name r = n) (\<lambda>r.
       and_then (json_field ''columns'' (parseStringArrayJSON ec (formValue form ''columns''))) (\<lambda>columns.
         Inr (r\<lparr>rl_Label := text_value form ''label'', rl_Table := lower_value form ''table'',
           rl_ReferenceField := lower_value form ''reference_field'', rl_Columns := columns\<rparr>))) (dt_RelatedLists t))
       (\<lambda>rs. Inr (t\<lparr>dt_RelatedLists := rs\<rparr>))) d)"

text \<open>A security rule can be renamed.\<close>

definition save_security_rule :: edit where
  "save_security_rule oid form d = table_scoped ''security rule'' ''table-security-rule:'' oid (\<lambda>tn n. requireDefinitionTable tn (\<lambda>t.
     and_then (edit_first (ObjectMissing ''security rule'' n tn) (\<lambda>r. sr_Name r = n)
       (\<lambda>r. Inr (form_rule (lower_value form ''name'') tn form)) (se_Rules (dt_Security t)))
       (\<lambda>rs. Inr (t\<lparr>dt_Security := (dt_Security t)\<lparr>se_Rules := rs\<rparr>\<rparr>))) d)"

text \<open>Edits of a whole section of a table.\<close>

definition section_table :: "string \<Rightarrow> string \<Rightarrow> string" where
  "section_table oid pre = trim_lower (TrimPrefix oid pre)"

definition save_data_policies :: "editor_codec \<Rightarrow> edit" where
  "save_data_policies ec oid form = requireDefinitionTable (section_table oid ''table-data-policies:'') (\<lambda>t.
     and_then (json_field ''data_policies'' (parseDefinitionDataPoliciesJSON ec (formValue form ''data_policies'')))
       (\<lambda>ps. Inr (t\<lparr>dt_DataPolicies := ps\<rparr>)))"

definition save_table_triggers :: "editor_codec \<Rightarrow> edit" where
  "save_table_triggers ec oid form = requireDefinitionTable (section_table oid ''table-triggers:'') (\<lambda>t.
     and_then (json_field ''table_triggers'' (parseDefinitionTableTriggersJSON ec (formValue form ''table_triggers'')))
       (\<lambda>rs. Inr (t\<lparr>dt_Triggers := rs\<rparr>)))"

definition save_related_lists :: "editor_codec \<Rightarrow> edit" where
  "save_related_lists ec oid form = requireDefinitionTable (section_table oid ''table-related-lists:'') (\<lambda>t.
     and_then (json_field ''related_lists'' (parseDefinitionRelatedListsJSON ec (formValue form ''related_lists'')))
       (\<lambda>rs. Inr (t\<lparr>dt_RelatedLists := rs\<rparr>)))"

definition save_table_security :: "editor_codec \<Rightarrow> edit" where
  "save_table_security ec oid form = requireDefinitionTable (section_table oid ''table-security:'') (\<lambda>t.
     and_then (json_field ''security'' (parseDefinitionSecurityJSON ec (formValue form ''security'')))
       (\<lambda>se. Inr (t\<lparr>dt_Security := se\<rparr>)))"

section \<open>Forms\<close>

definition requireDefinitionFormAsset ::
  "string \<Rightarrow> string \<Rightarrow> (AppDefinitionAssetForm \<Rightarrow> (edit_error, AppDefinitionAssetForm) result) \<Rightarrow> AppDefinition
     \<Rightarrow> (edit_error, AppDefinition) result" where
  "requireDefinitionFormAsset oid pre f d = (let n = trim_lower (TrimPrefix oid pre) in
     and_then (edit_first (ObjectMissing ''form'' n []) (\<lambda>g. af_Name g = n) f (ad_Forms d)) (\<lambda>fs. Inr (d\<lparr>ad_Forms := fs\<rparr>)))"

definition save_asset_form :: edit where
  "save_asset_form oid form = requireDefinitionFormAsset oid ''form:'' (\<lambda>g.
     Inr (g\<lparr>af_Label := text_value form ''label'', af_Description := text_value form ''description''\<rparr>))"

definition save_asset_layout :: "editor_codec \<Rightarrow> edit" where
  "save_asset_layout ec oid form = requireDefinitionFormAsset oid ''form-layout:'' (\<lambda>g.
     and_then (json_field ''layout'' (parseStringArrayJSON ec (formValue form ''layout'')))
       (\<lambda>layout. Inr (g\<lparr>af_Layout := layout, af_Fields := layout\<rparr>)))"

definition save_asset_actions :: "editor_codec \<Rightarrow> edit" where
  "save_asset_actions ec oid form = requireDefinitionFormAsset oid ''form-actions:'' (\<lambda>g.
     and_then (json_field ''actions'' (parseDefinitionActionsJSON ec (formValue form ''actions'')))
       (\<lambda>actions. Inr (g\<lparr>af_Actions := actions\<rparr>)))"

definition save_asset_security :: "editor_codec \<Rightarrow> edit" where
  "save_asset_security ec oid form = requireDefinitionFormAsset oid ''form-security:'' (\<lambda>g.
     and_then (json_field ''security'' (parseDefinitionSecurityJSON ec (formValue form ''security'')))
       (\<lambda>se. Inr (g\<lparr>af_Security := se\<rparr>)))"

text \<open>The form of a table; one without a name answers to \<open>default\<close>.\<close>

definition form_key :: "AppDefinitionForm \<Rightarrow> string" where
  "form_key f = or_default (trim_lower (fo_Name f)) ''default''"

definition requireDefinitionLegacyTableForm ::
  "string \<Rightarrow> string \<Rightarrow> (AppDefinitionForm \<Rightarrow> (edit_error, AppDefinitionForm) result) \<Rightarrow> AppDefinition
     \<Rightarrow> (edit_error, AppDefinition) result" where
  "requireDefinitionLegacyTableForm oid pre f d = (case parseLegacyTableFormID (TrimPrefix oid pre) of None \<Rightarrow> Inl (BadObjectID ''table form'')
     | Some (tn, n) \<Rightarrow> requireDefinitionTable tn (\<lambda>t.
         and_then (edit_first (ObjectMissing ''form'' n tn) (\<lambda>g. form_key g = n) f (dt_Forms t))
           (\<lambda>fs. Inr (t\<lparr>dt_Forms := fs\<rparr>))) d)"

definition save_table_form :: edit where
  "save_table_form oid form = requireDefinitionLegacyTableForm oid ''tableform:'' (\<lambda>g.
     Inr (g\<lparr>fo_Label := text_value form ''label'', fo_Description := text_value form ''description''\<rparr>))"

definition save_table_form_layout :: "editor_codec \<Rightarrow> edit" where
  "save_table_form_layout ec oid form = requireDefinitionLegacyTableForm oid ''tableform-layout:'' (\<lambda>g.
     and_then (json_field ''layout'' (parseStringArrayJSON ec (formValue form ''layout'')))
       (\<lambda>layout. Inr (g\<lparr>fo_Fields := layout\<rparr>)))"

definition save_table_form_actions :: "editor_codec \<Rightarrow> edit" where
  "save_table_form_actions ec oid form = requireDefinitionLegacyTableForm oid ''tableform-actions:'' (\<lambda>g.
     and_then (json_field ''actions'' (parseDefinitionActionsJSON ec (formValue form ''actions'')))
       (\<lambda>actions. Inr (g\<lparr>fo_Actions := actions\<rparr>)))"

definition save_table_form_security :: "editor_codec \<Rightarrow> edit" where
  "save_table_form_security ec oid form = requireDefinitionLegacyTableForm oid ''tableform-security:'' (\<lambda>g.
     and_then (json_field ''security'' (parseDefinitionSecurityJSON ec (formValue form ''security'')))
       (\<lambda>se. Inr (g\<lparr>fo_Security := se\<rparr>)))"

section \<open>Roles, services and methods\<close>

definition new_role :: edit where
  "new_role oid form d = and_then (add_entry ''role'' ro_Name
     \<lparr>ro_Name = text_value form ''name'', ro_Label = text_value form ''label'', ro_Description = text_value form ''description''\<rparr>
     (ad_Roles d)) (\<lambda>rs. Inr (d\<lparr>ad_Roles := rs\<rparr>))"

definition save_role :: edit where
  "save_role oid form d = scoped ''role'' ''role:'' oid (\<lambda>n.
     and_then (edit_first (ObjectMissing ''role'' n []) (\<lambda>r. ro_Name r = n) (\<lambda>r.
       Inr (r\<lparr>ro_Label := text_value form ''label'', ro_Description := text_value form ''description''\<rparr>)) (ad_Roles d))
       (\<lambda>rs. Inr (d\<lparr>ad_Roles := rs\<rparr>)))"

definition new_service :: edit where
  "new_service oid form d = and_then (add_entry ''service'' sv_Name
     \<lparr>sv_Name = text_value form ''name'', sv_Label = text_value form ''label'', sv_Description = text_value form ''description'',
      sv_Methods = []\<rparr> (ad_Services d)) (\<lambda>ss. Inr (d\<lparr>ad_Services := ss\<rparr>))"

definition requireDefinitionServiceByName ::
  "string \<Rightarrow> (AppDefinitionService \<Rightarrow> (edit_error, AppDefinitionService) result) \<Rightarrow> AppDefinition \<Rightarrow> (edit_error, AppDefinition) result" where
  "requireDefinitionServiceByName n f d =
     and_then (edit_first (ObjectMissing ''service'' n []) (\<lambda>s. sv_Name s = n) f (ad_Services d)) (\<lambda>ss. Inr (d\<lparr>ad_Services := ss\<rparr>))"

definition save_service :: edit where
  "save_service oid form d = scoped ''service'' ''service:'' oid (\<lambda>n. requireDefinitionServiceByName n (\<lambda>s.
     Inr (s\<lparr>sv_Label := text_value form ''label'', sv_Description := text_value form ''description''\<rparr>)) d)"

definition new_method :: "editor_codec \<Rightarrow> edit" where
  "new_method ec oid form = requireDefinitionServiceByName (lower_value form ''service_name'') (\<lambda>s.
     and_then (json_field ''roles'' (parseStringArrayJSON ec (formValue form ''roles''))) (\<lambda>roles.
     and_then (add_entry ''method'' me_Name
       \<lparr>me_Name = text_value form ''name'', me_Label = text_value form ''label'', me_Description = text_value form ''description'',
        me_Visibility = text_value form ''visibility'', me_Language = text_value form ''language'', me_Roles = roles,
        me_Script = formValue form ''script''\<rparr> (sv_Methods s)) (\<lambda>ms. Inr (s\<lparr>sv_Methods := ms\<rparr>))))"

definition save_method :: "editor_codec \<Rightarrow> edit" where
  "save_method ec oid form d = (case parseAppEditorMethodID oid of None \<Rightarrow> Inl (BadObjectID ''method'')
   | Some (app, sn, mn) \<Rightarrow> requireDefinitionServiceByName sn (\<lambda>s.
       and_then (edit_first (ObjectMissing ''method'' mn sn) (\<lambda>m. me_Name m = mn) (\<lambda>m.
         and_then (json_field ''roles'' (parseStringArrayJSON ec (formValue form ''roles''))) (\<lambda>roles.
           Inr (m\<lparr>me_Label := text_value form ''label'', me_Description := text_value form ''description'',
             me_Visibility := text_value form ''visibility'', me_Language := text_value form ''language'', me_Roles := roles,
             me_Script := formValue form ''script''\<rparr>))) (sv_Methods s))
         (\<lambda>ms. Inr (s\<lparr>sv_Methods := ms\<rparr>))) d)"

section \<open>Endpoints, triggers and schedules\<close>

text \<open>What an endpoint form says beyond the name.\<close>

definition form_endpoint :: "string \<Rightarrow> string list \<Rightarrow> form_values \<Rightarrow> AppDefinitionEndpoint" where
  "form_endpoint name roles form = \<lparr>en_Name = name, en_Label = text_value form ''label'',
     en_Description = text_value form ''description'', en_Method = text_value form ''method'', en_Path = text_value form ''path'',
     en_Call = text_value form ''call'', en_Roles = roles, en_Enabled = parseBoolFormValue (formValue form ''enabled'')\<rparr>"

definition new_endpoint :: "editor_codec \<Rightarrow> edit" where
  "new_endpoint ec oid form d = and_then (json_field ''roles'' (parseStringArrayJSON ec (formValue form ''roles''))) (\<lambda>roles.
     and_then (add_entry ''endpoint'' en_Name (form_endpoint (text_value form ''name'') roles form) (ad_Endpoints d))
       (\<lambda>es. Inr (d\<lparr>ad_Endpoints := es\<rparr>)))"

definition save_endpoint :: "editor_codec \<Rightarrow> edit" where
  "save_endpoint ec oid form d = scoped ''endpoint'' ''endpoint:'' oid (\<lambda>n.
     and_then (edit_first (ObjectMissing ''endpoint'' n []) (\<lambda>e. en_Name e = n) (\<lambda>e.
       and_then (json_field ''roles'' (parseStringArrayJSON ec (formValue form ''roles'')))
         (\<lambda>roles. Inr (form_endpoint (en_Name e) roles form))) (ad_Endpoints d))
       (\<lambda>es. Inr (d\<lparr>ad_Endpoints := es\<rparr>)))"

definition new_trigger :: edit where
  "new_trigger oid form d = and_then (add_entry ''trigger'' tr_Name
     (form_trigger (text_value form ''name'') (text_value form ''table'') form) (ad_Triggers d)) (\<lambda>rs. Inr (d\<lparr>ad_Triggers := rs\<rparr>))"

definition save_trigger :: edit where
  "save_trigger oid form d = scoped ''trigger'' ''trigger:'' oid (\<lambda>n.
     and_then (edit_first (ObjectMissing ''trigger'' n []) (\<lambda>r. tr_Name r = n)
       (\<lambda>r. Inr (form_trigger (tr_Name r) (text_value form ''table'') form)) (ad_Triggers d))
       (\<lambda>rs. Inr (d\<lparr>ad_Triggers := rs\<rparr>)))"

definition form_schedule :: "string \<Rightarrow> form_values \<Rightarrow> AppDefinitionSchedule" where
  "form_schedule name form = \<lparr>sh_Name = name, sh_Label = text_value form ''label'', sh_Description = text_value form ''description'',
     sh_Cron = text_value form ''cron'', sh_Call = text_value form ''call'',
     sh_Enabled = parseBoolFormValue (formValue form ''enabled'')\<rparr>"

definition new_schedule :: edit where
  "new_schedule oid form d = and_then (add_entry ''schedule'' sh_Name (form_schedule (text_value form ''name'') form) (ad_Schedules d))
     (\<lambda>ss. Inr (d\<lparr>ad_Schedules := ss\<rparr>))"

definition save_schedule :: edit where
  "save_schedule oid form d = scoped ''schedule'' ''schedule:'' oid (\<lambda>n.
     and_then (edit_first (ObjectMissing ''schedule'' n []) (\<lambda>s. sh_Name s = n) (\<lambda>s. Inr (form_schedule (sh_Name s) form)) (ad_Schedules d))
       (\<lambda>ss. Inr (d\<lparr>ad_Schedules := ss\<rparr>)))"

section \<open>Pages\<close>

definition requireDefinitionPage ::
  "string \<Rightarrow> string \<Rightarrow> (AppDefinitionPage \<Rightarrow> (edit_error, AppDefinitionPage) result) \<Rightarrow> AppDefinition \<Rightarrow> (edit_error, AppDefinition) result" where
  "requireDefinitionPage oid pre f d = scoped ''page'' pre oid (\<lambda>n.
     and_then (edit_first (ObjectMissing ''page'' n []) (\<lambda>p. pg_Slug p = n) f (ad_Pages d)) (\<lambda>ps. Inr (d\<lparr>ad_Pages := ps\<rparr>)))"

definition save_page :: edit where
  "save_page oid form = requireDefinitionPage oid ''page:'' (\<lambda>p.
     let title = text_value form ''title'' in
     if title = [] then Inl (FieldNeeded ''title'')
     else Inr (p\<lparr>pg_Name := title, pg_Label := title, pg_SearchKeywords := text_value form ''search_keywords'',
       pg_Content := formValue form ''content'',
       pg_EditorMode := (if TrimSpace (pg_EditorMode p) = [] then ''wysiwyg'' else pg_EditorMode p),
       pg_Status := (if TrimSpace (pg_Status p) = [] then ''published'' else pg_Status p)\<rparr>))"

definition new_page :: edit where
  "new_page oid form d =
     (let title = text_value form ''title''; slug = pageSlugFromTitle title in
      if title = [] then Inl (FieldNeeded ''title'')
      else if slug = [] then Inl TitleWithoutSlug
      else and_then (add_entry ''page'' pg_Slug
        \<lparr>pg_Name = title, pg_Slug = slug, pg_Label = title, pg_Description = [], pg_SearchKeywords = text_value form ''search_keywords'',
         pg_EditorMode = ''wysiwyg'', pg_Status = ''published'', pg_Content = formValue form ''content'', pg_Actions = [],
         pg_Security = empty_security\<rparr> (ad_Pages d)) (\<lambda>ps. Inr (d\<lparr>ad_Pages := ps\<rparr>)))"

definition save_page_layout :: edit where
  "save_page_layout oid form = requireDefinitionPage oid ''page-layout:'' (\<lambda>p. Inr (p\<lparr>pg_Content := formValue form ''content''\<rparr>))"

definition save_page_actions :: "editor_codec \<Rightarrow> edit" where
  "save_page_actions ec oid form = requireDefinitionPage oid ''page-actions:'' (\<lambda>p.
     and_then (json_field ''actions'' (parseDefinitionActionsJSON ec (formValue form ''actions'')))
       (\<lambda>actions. Inr (p\<lparr>pg_Actions := actions\<rparr>)))"

definition save_page_security :: "editor_codec \<Rightarrow> edit" where
  "save_page_security ec oid form = requireDefinitionPage oid ''page-security:'' (\<lambda>p.
     and_then (json_field ''security'' (parseDefinitionSecurityJSON ec (formValue form ''security'')))
       (\<lambda>se. Inr (p\<lparr>pg_Security := se\<rparr>)))"

section \<open>Client scripts, seeds and documentation\<close>

definition newline :: string where "newline = [CHR 0x0A]"

definition defaultJavaScriptBusinessScript :: string where
  "defaultJavaScriptBusinessScript = ''async function run(ctx) {'' @ newline @ ''  console.log('' @ [CHR 0x22] @ ''Hello, world''
     @ [CHR 0x22] @ '');'' @ newline @ ''}''"

definition new_client_script :: edit where
  "new_client_script oid form d = and_then (add_entry ''client script'' cs_Name
     \<lparr>cs_Name = lower_value form ''name'', cs_Label = text_value form ''label'', cs_Description = text_value form ''description'',
      cs_Table = lower_value form ''table'', cs_Event = lower_value form ''event'', cs_Field = lower_value form ''field'',
      cs_Language = lower_value form ''language'',
      cs_Script = firstNonEmpty [text_value form ''script'', defaultJavaScriptBusinessScript],
      cs_Enabled = parseBoolFormValue (formValue form ''enabled'')\<rparr> (ad_ClientScripts d)) (\<lambda>ss. Inr (d\<lparr>ad_ClientScripts := ss\<rparr>))"

definition requireDefinitionClientScript ::
  "string \<Rightarrow> string \<Rightarrow> (AppDefinitionClientScript \<Rightarrow> AppDefinitionClientScript) \<Rightarrow> AppDefinition \<Rightarrow> (edit_error, AppDefinition) result" where
  "requireDefinitionClientScript oid pre f d = scoped ''client script'' pre oid (\<lambda>n.
     and_then (edit_first (ObjectMissing ''client script'' n []) (\<lambda>s. cs_Name s = n) (\<lambda>s. Inr (f s)) (ad_ClientScripts d))
       (\<lambda>ss. Inr (d\<lparr>ad_ClientScripts := ss\<rparr>)))"

definition save_client_script :: edit where
  "save_client_script oid form = requireDefinitionClientScript oid ''client-script:'' (\<lambda>s.
     s\<lparr>cs_Label := text_value form ''label'', cs_Description := text_value form ''description'',
       cs_Table := lower_value form ''table'', cs_Event := lower_value form ''event'', cs_Field := lower_value form ''field'',
       cs_Language := lower_value form ''language'', cs_Enabled := parseBoolFormValue (formValue form ''enabled'')\<rparr>)"

definition save_client_script_code :: edit where
  "save_client_script_code oid form = requireDefinitionClientScript oid ''client-script-code:'' (\<lambda>s.
     s\<lparr>cs_Script := formValue form ''script''\<rparr>)"

text \<open>The index in the id of a seed is not read.\<close>

definition requireDefinitionSeed ::
  "string \<Rightarrow> (AppDefinitionSeed \<Rightarrow> (edit_error, AppDefinitionSeed) result) \<Rightarrow> AppDefinition \<Rightarrow> (edit_error, AppDefinition) result" where
  "requireDefinitionSeed oid f d = (case split3 (TrimPrefix oid ''seed:'') of
     [a, t, i] \<Rightarrow> and_then (edit_first (ObjectMissing ''seed'' (trim_lower t) []) (\<lambda>s. sd_Table s = trim_lower t) f (ad_Seeds d))
       (\<lambda>ss. Inr (d\<lparr>ad_Seeds := ss\<rparr>))
   | _ \<Rightarrow> Inl (BadObjectID ''seed''))"

definition save_seed :: "editor_codec \<Rightarrow> edit" where
  "save_seed ec oid form = requireDefinitionSeed oid (\<lambda>s.
     and_then (json_field ''rows'' (parseSeedRowsJSON ec (formValue form ''rows''))) (\<lambda>rows. Inr (s\<lparr>sd_Rows := rows\<rparr>)))"

definition new_documentation :: edit where
  "new_documentation oid form d = and_then (add_entry ''documentation article'' do_Name
     \<lparr>do_Name = lower_value form ''name'', do_Label = text_value form ''label'', do_Description = text_value form ''description'',
      do_Category = [], do_Visibility = [], do_Content = [], do_Related = []\<rparr> (ad_Documentation d))
     (\<lambda>as. Inr (d\<lparr>ad_Documentation := as\<rparr>))"

definition requireDefinitionDocumentation ::
  "string \<Rightarrow> string \<Rightarrow> (AppDefinitionDocumentation \<Rightarrow> (edit_error, AppDefinitionDocumentation) result) \<Rightarrow> AppDefinition
     \<Rightarrow> (edit_error, AppDefinition) result" where
  "requireDefinitionDocumentation oid pre f d = scoped ''documentation'' pre oid (\<lambda>n.
     and_then (edit_first (ObjectMissing ''documentation article'' n []) (\<lambda>a. do_Name a = n) f (ad_Documentation d))
       (\<lambda>as. Inr (d\<lparr>ad_Documentation := as\<rparr>)))"

definition save_documentation :: edit where
  "save_documentation oid form = requireDefinitionDocumentation oid ''documentation:'' (\<lambda>a.
     Inr (a\<lparr>do_Label := text_value form ''label'', do_Description := text_value form ''description''\<rparr>))"

definition save_documentation_content :: edit where
  "save_documentation_content oid form = requireDefinitionDocumentation oid ''documentation-content:'' (\<lambda>a.
     Inr (a\<lparr>do_Content := formValue form ''content''\<rparr>))"

definition save_documentation_category :: edit where
  "save_documentation_category oid form = requireDefinitionDocumentation oid ''documentation-category:'' (\<lambda>a.
     Inr (a\<lparr>do_Category := text_value form ''category''\<rparr>))"

definition save_documentation_visibility :: edit where
  "save_documentation_visibility oid form = requireDefinitionDocumentation oid ''documentation-visibility:'' (\<lambda>a.
     Inr (a\<lparr>do_Visibility := text_value form ''visibility''\<rparr>))"

definition save_documentation_related :: "editor_codec \<Rightarrow> edit" where
  "save_documentation_related ec oid form = requireDefinitionDocumentation oid ''documentation-related:'' (\<lambda>a.
     and_then (json_field ''related'' (parseStringArrayJSON ec (formValue form ''related''))) (\<lambda>related. Inr (a\<lparr>do_Related := related\<rparr>)))"

section \<open>The switch\<close>

definition id_is :: "string \<Rightarrow> string \<Rightarrow> bool" where
  "id_is name oid \<longleftrightarrow> oid = name"

definition id_starts :: "string \<Rightarrow> string \<Rightarrow> bool" where
  "id_starts pre oid \<longleftrightarrow> HasPrefix oid pre"

definition table_edits :: "editor_codec \<Rightarrow> ((string \<Rightarrow> bool) \<times> edit) list" where
  "table_edits ec = [
     (id_is ''new:table'', new_table), (id_starts ''table:'', save_table ec), (id_is ''new:column'', new_column ec),
     (id_is ''new:form'', new_form), (id_is ''new:data-policy'', new_data_policy), (id_is ''new:table-trigger'', new_table_trigger),
     (id_is ''new:related-list'', new_related_list ec), (id_is ''new:security-rule'', new_security_rule),
     (id_is ''new:dependency'', new_dependency), (id_starts ''form:'', save_asset_form),
     (id_starts ''form-layout:'', save_asset_layout ec), (id_starts ''form-actions:'', save_asset_actions ec),
     (id_starts ''form-security:'', save_asset_security ec), (id_starts ''tableform:'', save_table_form),
     (id_starts ''tableform-layout:'', save_table_form_layout ec), (id_starts ''tableform-actions:'', save_table_form_actions ec),
     (id_starts ''tableform-security:'', save_table_form_security ec), (id_starts ''table-data-policy:'', save_data_policy),
     (id_starts ''table-trigger:'', save_table_trigger), (id_starts ''table-related-list:'', save_related_list ec),
     (id_starts ''table-security-rule:'', save_security_rule), (id_starts ''column:'', save_column ec)]"

definition behaviour_edits :: "editor_codec \<Rightarrow> ((string \<Rightarrow> bool) \<times> edit) list" where
  "behaviour_edits ec = [
     (id_is ''new:role'', new_role), (id_starts ''role:'', save_role), (id_is ''new:service'', new_service),
     (id_starts ''service:'', save_service), (id_is ''new:method'', new_method ec), (id_starts ''method:'', save_method ec),
     (id_is ''new:endpoint'', new_endpoint ec), (id_starts ''endpoint:'', save_endpoint ec), (id_is ''new:trigger'', new_trigger),
     (id_starts ''trigger:'', save_trigger), (id_is ''new:schedule'', new_schedule), (id_starts ''schedule:'', save_schedule),
     (id_starts ''dependency:'', save_dependency), (id_starts ''page:'', save_page), (id_is ''new:page'', new_page),
     (id_starts ''page-layout:'', save_page_layout), (id_starts ''page-actions:'', save_page_actions ec),
     (id_starts ''page-security:'', save_page_security ec), (id_is ''new:client-script'', new_client_script),
     (id_starts ''client-script:'', save_client_script), (id_starts ''client-script-code:'', save_client_script_code)]"

definition section_edits :: "editor_codec \<Rightarrow> ((string \<Rightarrow> bool) \<times> edit) list" where
  "section_edits ec = [
     (id_starts ''table-data-policies:'', save_data_policies ec), (id_starts ''table-triggers:'', save_table_triggers ec),
     (id_starts ''table-related-lists:'', save_related_lists ec), (id_starts ''table-security:'', save_table_security ec),
     (id_starts ''seed:'', save_seed ec), (id_is ''new:documentation'', new_documentation),
     (id_starts ''documentation:'', save_documentation), (id_starts ''documentation-content:'', save_documentation_content),
     (id_starts ''documentation-category:'', save_documentation_category),
     (id_starts ''documentation-visibility:'', save_documentation_visibility),
     (id_starts ''documentation-related:'', save_documentation_related ec)]"

definition editor_cases :: "editor_codec \<Rightarrow> RegisteredApp \<Rightarrow> ((string \<Rightarrow> bool) \<times> edit) list" where
  "editor_cases ec app = [(id_starts ''application:'', save_application ec), (id_starts ''yaml:'', save_yaml ec app)]
     @ table_edits ec @ behaviour_edits ec @ section_edits ec"

fun first_case :: "((string \<Rightarrow> bool) \<times> edit) list \<Rightarrow> edit" where
  "first_case [] oid form d = Inl UnsupportedObject"
| "first_case ((guard, edit) # cases) oid form d = (if guard oid then edit oid form d else first_case cases oid form d)"

definition edit_object :: "editor_codec \<Rightarrow> RegisteredApp \<Rightarrow> edit" where
  "edit_object ec app = first_case (editor_cases ec app)"

section \<open>The id after a save\<close>

definition resolveSavedObjectID :: "string \<Rightarrow> form_values \<Rightarrow> string" where
  "resolveSavedObjectID oid form =
     (let name = lower_value form ''name''; app = lower_value form ''app_name''; tn = lower_value form ''table_name'';
          in_app = (\<lambda>pre. if name \<noteq> [] then pre @ app @ '':'' @ name else oid);
          in_table = (\<lambda>pre tn. if tn \<noteq> [] \<and> name \<noteq> [] then pre @ tn @ '':'' @ name else oid)
      in if oid = ''new:table'' then (if name \<noteq> [] then ''table:'' @ name else oid)
      else if oid = ''new:column'' then in_table ''column:'' tn
      else if oid = ''new:role'' then in_app ''role:''
      else if oid = ''new:form'' then in_table ''tableform:'' (lower_value form ''table'')
      else if oid = ''new:data-policy'' then in_table ''table-data-policy:'' tn
      else if oid = ''new:table-trigger'' then in_table ''table-trigger:'' tn
      else if oid = ''new:related-list'' then in_table ''table-related-list:'' tn
      else if oid = ''new:security-rule'' then in_table ''table-security-rule:'' tn
      else if oid = ''new:dependency'' then in_app ''dependency:''
      else if oid = ''new:page'' then
        (if pageSlugFromTitle (formValue form ''title'') \<noteq> [] then ''page:'' @ app @ '':'' @ pageSlugFromTitle (formValue form ''title'') else oid)
      else if oid = ''new:client-script'' then (if app \<noteq> [] then in_app ''client-script:'' else oid)
      else if oid = ''new:documentation'' then in_app ''documentation:''
      else if oid = ''new:service'' then in_app ''service:''
      else if oid = ''new:method'' then
        (if app \<noteq> [] \<and> lower_value form ''service_name'' \<noteq> [] \<and> name \<noteq> []
         then ''method:'' @ app @ '':'' @ lower_value form ''service_name'' @ '':'' @ name else oid)
      else if oid = ''new:endpoint'' then in_app ''endpoint:''
      else if oid = ''new:trigger'' then in_app ''trigger:''
      else if oid = ''new:schedule'' then in_app ''schedule:''
      else oid)"

end
