(* ===== verification/AppDeletes.thy ===== *)
theory AppDeletes
  imports AppEdits
begin

text \<open>
  The deletions of the app editor: \<open>deleteAppEditorObject\<close> of \<open>cmd/server/handleAppEditorObjectSave.go\<close> and the
  apps and ids its requests resolve to.
\<close>

type_synonym removal = "string \<Rightarrow> AppDefinition \<Rightarrow> (edit_error, AppDefinition) result"

section \<open>Removals\<close>

definition delete_table :: removal where
  "delete_table oid d = (let n = trim_lower (TrimPrefix oid ''table:'') in
     and_then (delete_first (ObjectMissing ''table'' n []) (\<lambda>t. dt_Name t = n) (ad_Tables d)) (\<lambda>ts. Inr (d\<lparr>ad_Tables := ts\<rparr>)))"

definition delete_column :: removal where
  "delete_column oid d = (case parseAppEditorColumnID oid of None \<Rightarrow> Inl (BadObjectID ''column'')
   | Some (tn, cn) \<Rightarrow> if IsSystemColumnName cn then Inl SystemColumnKept
       else requireDefinitionTable tn (\<lambda>t. and_then (delete_first (ObjectMissing ''column'' cn tn) (\<lambda>c. dc_Name c = cn) (dt_Columns t))
         (\<lambda>cs. Inr (t\<lparr>dt_Columns := cs\<rparr>))) d)"

definition delete_asset_form :: removal where
  "delete_asset_form oid d = (let n = trim_lower (TrimPrefix oid ''form:'') in
     and_then (delete_first (ObjectMissing ''form'' n []) (\<lambda>f. af_Name f = n) (ad_Forms d)) (\<lambda>fs. Inr (d\<lparr>ad_Forms := fs\<rparr>)))"

definition delete_table_form :: removal where
  "delete_table_form oid d = (case parseLegacyTableFormID (TrimPrefix oid ''tableform:'') of None \<Rightarrow> Inl (BadObjectID ''table form'')
   | Some (tn, n) \<Rightarrow> requireDefinitionTable tn (\<lambda>t. and_then (delete_first (ObjectMissing ''form'' n tn) (\<lambda>f. form_key f = n) (dt_Forms t))
       (\<lambda>fs. Inr (t\<lparr>dt_Forms := fs\<rparr>))) d)"

definition delete_data_policy :: removal where
  "delete_data_policy oid d = table_scoped ''data policy'' ''table-data-policy:'' oid (\<lambda>tn n. requireDefinitionTable tn (\<lambda>t.
     and_then (delete_first (ObjectMissing ''data policy'' n tn) (\<lambda>p. dp_Name p = n) (dt_DataPolicies t)) (\<lambda>ps. Inr (t\<lparr>dt_DataPolicies := ps\<rparr>))) d)"

definition delete_table_trigger :: removal where
  "delete_table_trigger oid d = table_scoped ''table trigger'' ''table-trigger:'' oid (\<lambda>tn n. requireDefinitionTable tn (\<lambda>t.
     and_then (delete_first (ObjectMissing ''trigger'' n tn) (\<lambda>r. tr_Name r = n) (dt_Triggers t)) (\<lambda>rs. Inr (t\<lparr>dt_Triggers := rs\<rparr>))) d)"

definition delete_related_list :: removal where
  "delete_related_list oid d = table_scoped ''related list'' ''table-related-list:'' oid (\<lambda>tn n. requireDefinitionTable tn (\<lambda>t.
     and_then (delete_first (ObjectMissing ''related list'' n tn) (\<lambda>r. rl_Name r = n) (dt_RelatedLists t)) (\<lambda>rs. Inr (t\<lparr>dt_RelatedLists := rs\<rparr>))) d)"

definition delete_security_rule :: removal where
  "delete_security_rule oid d = table_scoped ''security rule'' ''table-security-rule:'' oid (\<lambda>tn n. requireDefinitionTable tn (\<lambda>t.
     and_then (delete_first (ObjectMissing ''security rule'' n tn) (\<lambda>r. sr_Name r = n) (se_Rules (dt_Security t)))
       (\<lambda>rs. Inr (t\<lparr>dt_Security := (dt_Security t)\<lparr>se_Rules := rs\<rparr>\<rparr>))) d)"

definition delete_role :: removal where
  "delete_role oid d = scoped ''role'' ''role:'' oid (\<lambda>n.
     and_then (delete_first (ObjectMissing ''role'' n []) (\<lambda>r. ro_Name r = n) (ad_Roles d)) (\<lambda>rs. Inr (d\<lparr>ad_Roles := rs\<rparr>)))"

definition delete_service :: removal where
  "delete_service oid d = scoped ''service'' ''service:'' oid (\<lambda>n.
     and_then (delete_first (ObjectMissing ''service'' n []) (\<lambda>s. sv_Name s = n) (ad_Services d)) (\<lambda>ss. Inr (d\<lparr>ad_Services := ss\<rparr>)))"

definition delete_method :: removal where
  "delete_method oid d = (case parseAppEditorMethodID oid of None \<Rightarrow> Inl (BadObjectID ''method'')
   | Some (app, sn, mn) \<Rightarrow> requireDefinitionServiceByName sn (\<lambda>s.
       and_then (delete_first (ObjectMissing ''method'' mn sn) (\<lambda>m. me_Name m = mn) (sv_Methods s)) (\<lambda>ms. Inr (s\<lparr>sv_Methods := ms\<rparr>))) d)"

definition delete_trigger :: removal where
  "delete_trigger oid d = scoped ''trigger'' ''trigger:'' oid (\<lambda>n.
     and_then (delete_first (ObjectMissing ''trigger'' n []) (\<lambda>r. tr_Name r = n) (ad_Triggers d)) (\<lambda>rs. Inr (d\<lparr>ad_Triggers := rs\<rparr>)))"

definition delete_schedule :: removal where
  "delete_schedule oid d = scoped ''schedule'' ''schedule:'' oid (\<lambda>n.
     and_then (delete_first (ObjectMissing ''schedule'' n []) (\<lambda>s. sh_Name s = n) (ad_Schedules d)) (\<lambda>ss. Inr (d\<lparr>ad_Schedules := ss\<rparr>)))"

definition delete_dependency :: removal where
  "delete_dependency oid d = scoped ''dependency'' ''dependency:'' oid (\<lambda>n.
     and_then (delete_first (ObjectMissing ''dependency'' n []) (\<lambda>m. m = n) (ad_Dependencies d)) (\<lambda>ds. Inr (d\<lparr>ad_Dependencies := ds\<rparr>)))"

definition delete_page :: removal where
  "delete_page oid d = scoped ''page'' ''page:'' oid (\<lambda>n.
     and_then (delete_first (ObjectMissing ''page'' n []) (\<lambda>p. pg_Slug p = n) (ad_Pages d)) (\<lambda>ps. Inr (d\<lparr>ad_Pages := ps\<rparr>)))"

definition delete_endpoint :: removal where
  "delete_endpoint oid d = scoped ''endpoint'' ''endpoint:'' oid (\<lambda>n.
     and_then (delete_first (ObjectMissing ''endpoint'' n []) (\<lambda>e. en_Name e = n) (ad_Endpoints d)) (\<lambda>es. Inr (d\<lparr>ad_Endpoints := es\<rparr>)))"

definition delete_client_script :: removal where
  "delete_client_script oid d = scoped ''client script'' ''client-script:'' oid (\<lambda>n.
     and_then (delete_first (ObjectMissing ''client script'' n []) (\<lambda>s. cs_Name s = n) (ad_ClientScripts d)) (\<lambda>ss. Inr (d\<lparr>ad_ClientScripts := ss\<rparr>)))"

definition delete_seed :: removal where
  "delete_seed oid d = (case parseAppEditorSeedID oid of None \<Rightarrow> Inl (BadObjectID ''seed'')
   | Some (app, tn, i) \<Rightarrow>
       if i < 0 \<or> int (length (ad_Seeds d)) \<le> i then Inl (ObjectMissing ''seed'' tn [])
       else if sd_Table (ad_Seeds d ! nat i) \<noteq> tn then Inl (ObjectMissing ''seed'' tn [])
       else Inr (d\<lparr>ad_Seeds := take (nat i) (ad_Seeds d) @ drop (nat i + 1) (ad_Seeds d)\<rparr>))"

definition delete_documentation :: removal where
  "delete_documentation oid d = scoped ''documentation'' ''documentation:'' oid (\<lambda>n.
     and_then (delete_first (ObjectMissing ''documentation article'' n []) (\<lambda>a. do_Name a = n) (ad_Documentation d))
       (\<lambda>as. Inr (d\<lparr>ad_Documentation := as\<rparr>)))"

definition delete_cases :: "((string \<Rightarrow> bool) \<times> removal) list" where
  "delete_cases = [
     (id_starts ''table:'', delete_table), (id_starts ''column:'', delete_column), (id_starts ''form:'', delete_asset_form),
     (id_starts ''tableform:'', delete_table_form), (id_starts ''table-data-policy:'', delete_data_policy),
     (id_starts ''table-trigger:'', delete_table_trigger), (id_starts ''table-related-list:'', delete_related_list),
     (id_starts ''table-security-rule:'', delete_security_rule), (id_starts ''role:'', delete_role),
     (id_starts ''service:'', delete_service), (id_starts ''method:'', delete_method), (id_starts ''trigger:'', delete_trigger),
     (id_starts ''schedule:'', delete_schedule), (id_starts ''dependency:'', delete_dependency), (id_starts ''page:'', delete_page),
     (id_starts ''endpoint:'', delete_endpoint), (id_starts ''client-script:'', delete_client_script),
     (id_starts ''seed:'', delete_seed), (id_starts ''documentation:'', delete_documentation)]"

fun first_removal :: "((string \<Rightarrow> bool) \<times> removal) list \<Rightarrow> removal" where
  "first_removal [] oid d = Inl UnsupportedObject"
| "first_removal ((guard, remove) # cases) oid d = (if guard oid then remove oid d else first_removal cases oid d)"

definition delete_object :: removal where
  "delete_object = first_removal delete_cases"

definition resolveDeletedObjectID :: "string \<Rightarrow> string" where
  "resolveDeletedObjectID oid =
     (let in_table = (\<lambda>pre. case parseAppEditorTableScopedID oid pre of None \<Rightarrow> [] | Some (tn, n) \<Rightarrow> ''table:'' @ tn) in
      if HasPrefix oid ''column:'' then (case parseAppEditorColumnID oid of None \<Rightarrow> [] | Some (tn, cn) \<Rightarrow> ''table:'' @ tn)
      else if HasPrefix oid ''method:'' then
        (case parseAppEditorMethodID oid of None \<Rightarrow> [] | Some (app, sn, mn) \<Rightarrow> ''service:'' @ app @ '':'' @ sn)
      else if HasPrefix oid ''tableform:'' then
        (case parseLegacyTableFormID (TrimPrefix oid ''tableform:'') of None \<Rightarrow> [] | Some (tn, n) \<Rightarrow> ''table:'' @ tn)
      else if HasPrefix oid ''table-data-policy:'' then in_table ''table-data-policy:''
      else if HasPrefix oid ''table-trigger:'' then in_table ''table-trigger:''
      else if HasPrefix oid ''table-related-list:'' then in_table ''table-related-list:''
      else if HasPrefix oid ''table-security-rule:'' then in_table ''table-security-rule:''
      else [])"

section \<open>The app of a request\<close>

text \<open>The app that has a table in its published definition.\<close>

definition table_owner :: "RegisteredApp list \<Rightarrow> string \<Rightarrow> string" where
  "table_owner apps tn = (if trim_lower tn = [] then []
     else (case find (\<lambda>a. case ra_Definition a of None \<Rightarrow> False
         | Some d \<Rightarrow> list_ex (\<lambda>t. dt_Name t = trim_lower tn) (ad_Tables d)) apps of None \<Rightarrow> [] | Some a \<Rightarrow> ra_Name a))"

definition app_part :: "string \<Rightarrow> string \<Rightarrow> string" where
  "app_part oid pre = (case cut1 (CHR '':'') (TrimPrefix oid pre) of None \<Rightarrow> [] | Some (a, r) \<Rightarrow> trim_lower a)"

text \<open>The cases of \<open>resolveAppEditorAppName\<close> in three groups, each in the order of the source.\<close>

definition app_prefixes :: "string list" where
  "app_prefixes = [''role:'', ''service:'', ''endpoint:'', ''client-script:'', ''client-script-code:'', ''trigger:'', ''schedule:'',
     ''dependency:'', ''page:'', ''documentation:'', ''documentation-content:'', ''documentation-category:'',
     ''documentation-visibility:'', ''documentation-related:'']"

definition section_prefixes :: "string list" where
  "section_prefixes = [''table-data-policies:'', ''table-triggers:'', ''table-related-lists:'', ''table-security:'', ''table:'']"

definition part_prefixes :: "string list" where
  "part_prefixes = [''table-security-rule:'', ''table-data-policy:'', ''table-trigger:'', ''table-related-list:'', ''column:'']"

definition resolveAppEditorAppName :: "RegisteredApp list \<Rightarrow> string \<Rightarrow> string \<Rightarrow> string" where
  "resolveAppEditorAppName apps appName oid =
     (let name = trim_lower appName in
      if name \<noteq> [] then name
      else if HasPrefix oid ''application:'' then trim_lower (TrimPrefix oid ''application:'')
      else if HasPrefix oid ''yaml:'' then trim_lower (TrimPrefix oid ''yaml:'')
      else if HasPrefix oid ''method:'' then
        (case split3 (TrimPrefix oid ''method:'') of [a, s, m] \<Rightarrow> trim_lower a | _ \<Rightarrow> [])
      else if HasPrefix oid ''seed:'' then app_part oid ''seed:''
      else (case find (HasPrefix oid) app_prefixes of Some pre \<Rightarrow> app_part oid pre
        | None \<Rightarrow> (case find (HasPrefix oid) section_prefixes of Some pre \<Rightarrow> table_owner apps (TrimPrefix oid pre)
        | None \<Rightarrow> (case find (HasPrefix oid) part_prefixes of None \<Rightarrow> []
        | Some pre \<Rightarrow> (case parseAppEditorTableScopedID oid pre of None \<Rightarrow> [] | Some (tn, n) \<Rightarrow> table_owner apps tn)))))"

end
