(* ===== verification/AppDrafts.thy ===== *)
theory AppDrafts
  imports AppDeletes
begin

text \<open>
  The table of apps and the requests of the app editor against it: reading the active apps, saving and
  publishing a definition, creating an app (\<open>internal/db/AppDefinition.go\<close>), and the handlers that edit or
  delete an object of a draft (\<open>cmd/server/handleAppEditorObjectSave.go\<close>).

  A row of \<open>_app\<close> is a record; the null texts and numbers the queries replace by a blank and by zero are
  these here. The order of the query of the active apps, the other steps of the transaction of a publication
  and the seeds after it, the content of the landing page and the order of loops over maps are arguments. The
  redirect that answers a request is given by the app and the object it leads to.
\<close>

section \<open>Rows\<close>

record app_row =
  aw_ID :: string
  aw_name :: string
  aw_namespace :: string
  aw_label :: string
  aw_description :: string
  aw_status :: string
  aw_deleted :: bool
  aw_definition_yaml :: string
  aw_published_yaml :: string
  aw_definition_version :: int
  aw_published_version :: int

record drafts_env =
  de_codec :: editor_codec
  de_checkers :: checkers
  de_order :: "app_row list \<Rightarrow> app_row list"
  de_visit :: "RegisteredApp list \<Rightarrow> RegisteredApp list"
  de_landing_content :: string
  de_replace_content :: "string \<Rightarrow> bool"
  de_publish_steps :: "RegisteredApp \<Rightarrow> AppDefinition option \<Rightarrow> AppDefinition \<Rightarrow> string option"
  de_seeds :: "string \<Rightarrow> string option"

datatype draft_error =
    AppNameNeeded
  | NoSuchApp
  | PublishedUnreadable string parse_error
  | DraftUnreadable string parse_error
  | EditRefused edit_error
  | PrepareRefused prepare_error
  | ValidationRefused validate_error
  | MarshalFailed
  | DefinitionNeeded
  | PublishStepFailed string
  | SeedsFailed string
  | NamespaceNeeded
  | AppExists string
  | RowRefused

section \<open>Reading\<close>

definition cloneAppDefinition :: "editor_codec \<Rightarrow> AppDefinition option \<Rightarrow> AppDefinition option" where
  "cloneAppDefinition ec definition = (case definition of None \<Rightarrow> None
     | Some d \<Rightarrow> (case ec_marshal ec d of None \<Rightarrow> Some d
        | Some content \<Rightarrow> (case ParseAppDefinition ec content of Inl e \<Rightarrow> Some d | Inr cloned \<Rightarrow> cloned)))"

definition read_definition :: "editor_codec \<Rightarrow> string \<Rightarrow> (parse_error, AppDefinition option) result" where
  "read_definition ec yaml = (if TrimSpace yaml = [] then Inr None else ParseAppDefinition ec yaml)"

definition or_text :: "string \<Rightarrow> string \<Rightarrow> string" where
  "or_text new old = (if TrimSpace new = [] then old else TrimSpace new)"

text \<open>One row of the query of the active apps.\<close>

definition read_app :: "editor_codec \<Rightarrow> app_row \<Rightarrow> (draft_error, RegisteredApp) result" where
  "read_app ec r =
     (let name = trim_lower (aw_name r); label0 = TrimSpace (aw_label r) in
      case read_definition ec (aw_published_yaml r) of Inl e \<Rightarrow> Inl (PublishedUnreadable name e)
      | Inr published \<Rightarrow>
          and_then (case read_definition ec (aw_definition_yaml r) of Inr draft \<Rightarrow> Inr draft
            | Inl e \<Rightarrow> if published = None then Inl (DraftUnreadable name e) else Inr None) (\<lambda>draft.
          Inr \<lparr>ra_ID = aw_ID r, ra_Name = name, ra_Namespace = trim_lower (aw_namespace r),
            ra_Label = (let l = (if label0 = [] then ToUpper name else label0) in
              case published of None \<Rightarrow> l | Some d \<Rightarrow> or_text (ad_Label d) l),
            ra_Description = (case published of None \<Rightarrow> aw_description r | Some d \<Rightarrow> or_text (ad_Description d) (aw_description r)),
            ra_Status = aw_status r,
            ra_DefinitionYAML = (if draft = None \<and> TrimSpace (aw_definition_yaml r) = [] \<and> TrimSpace (aw_published_yaml r) \<noteq> []
              then aw_published_yaml r else aw_definition_yaml r),
            ra_PublishedDefinitionYAML = aw_published_yaml r,
            ra_DefinitionVersion = aw_definition_version r, ra_PublishedVersion = aw_published_version r,
            ra_Definition = published,
            ra_DraftDefinition = (case draft of None \<Rightarrow> cloneAppDefinition ec published | Some d \<Rightarrow> Some d)\<rparr>))"

definition live_row :: "app_row \<Rightarrow> bool" where
  "live_row r \<longleftrightarrow> \<not> aw_deleted r \<and> aw_status r = ''active''"

definition listActiveAppsUncached :: "drafts_env \<Rightarrow> app_row list \<Rightarrow> (draft_error, RegisteredApp list) result" where
  "listActiveAppsUncached env rows = map_result (read_app (de_codec env)) (de_order env (filter live_row rows))"

definition GetActiveAppByName :: "drafts_env \<Rightarrow> app_row list \<Rightarrow> string \<Rightarrow> (draft_error, RegisteredApp) result" where
  "GetActiveAppByName env rows appName =
     (if trim_lower appName = [] then Inl AppNameNeeded
      else and_then (listActiveAppsUncached env rows) (\<lambda>apps.
        case findRegisteredAppByNameOrNamespace apps (trim_lower appName) of None \<Rightarrow> Inl NoSuchApp | Some app \<Rightarrow> Inr app))"

section \<open>Writing\<close>

text \<open>The landing page of the built-in apps.\<close>

definition landing_page :: "drafts_env \<Rightarrow> AppDefinitionPage" where
  "landing_page env = \<lparr>pg_Name = ''Landing'', pg_Slug = ''landing'', pg_Label = ''Landing'',
     pg_Description = ''Default signed-in landing page for the out-of-the-box base app.'', pg_SearchKeywords = [],
     pg_EditorMode = ''html'', pg_Status = ''published'', pg_Content = de_landing_content env, pg_Actions = [], pg_Security = empty_security\<rparr>"

definition repair_landing :: "drafts_env \<Rightarrow> AppDefinitionPage \<Rightarrow> AppDefinitionPage" where
  "repair_landing env p = (let l = landing_page env in
     p\<lparr>pg_Name := (if TrimSpace (pg_Name p) = [] then pg_Name l else pg_Name p),
       pg_Label := (if TrimSpace (pg_Label p) = [] then pg_Label l else pg_Label p),
       pg_Description := (if TrimSpace (pg_Description p) = [] then pg_Description l else pg_Description p),
       pg_EditorMode := (if trim_lower (pg_EditorMode p) = [] then pg_EditorMode l else pg_EditorMode p),
       pg_Status := (if EqualFold (TrimSpace (pg_Status p)) ''published'' then pg_Status p else ''published''),
       pg_Content := (if de_replace_content env (pg_Content p) then pg_Content l else pg_Content p)\<rparr>)"

definition ensureSystemLandingPage :: "drafts_env \<Rightarrow> AppDefinition \<Rightarrow> AppDefinition" where
  "ensureSystemLandingPage env d = (let l = landing_page env; is_landing = (\<lambda>p. trim_lower (pg_Slug p) = pg_Slug l) in
     if list_ex is_landing (ad_Pages d)
     then d\<lparr>ad_Pages := takeWhile (\<lambda>p. \<not> is_landing p) (ad_Pages d) @ (case dropWhile (\<lambda>p. \<not> is_landing p) (ad_Pages d) of
         [] \<Rightarrow> [] | p # ps \<Rightarrow> repair_landing env p # ps)\<rparr>
     else d\<lparr>ad_Pages := sort_key pg_Slug (ad_Pages d @ [l])\<rparr>)"

definition landed :: "drafts_env \<Rightarrow> RegisteredApp \<Rightarrow> AppDefinition \<Rightarrow> AppDefinition" where
  "landed env app d = (if appUsesOOTBLandingPage app then ensureSystemLandingPage env d else d)"

text \<open>What a definition must pass before it is stored, and its text.\<close>

definition acceptable ::
  "drafts_env \<Rightarrow> RegisteredApp list \<Rightarrow> RegisteredApp \<Rightarrow> AppDefinition \<Rightarrow> (draft_error, AppDefinition \<times> string) result" where
  "acceptable env apps app d0 = (case prepareDefinitionForApp app d0 of Inl e \<Rightarrow> Inl (PrepareRefused e)
     | Inr d \<Rightarrow> (case validateAppDefinitionForApp (de_checkers env) (de_visit env) (Inr apps) app d of
         Some e \<Rightarrow> Inl (ValidationRefused e)
       | None \<Rightarrow> (case ec_marshal (de_codec env) d of None \<Rightarrow> Inl MarshalFailed | Some content \<Rightarrow> Inr (d, content))))"

text \<open>The rows of \<open>WHERE name = $1 OR namespace = $1\<close>.\<close>

definition row_matches :: "string \<Rightarrow> app_row \<Rightarrow> bool" where
  "row_matches n r \<longleftrightarrow> aw_name r = n \<or> aw_namespace r = n"

definition update_rows :: "string \<Rightarrow> (app_row \<Rightarrow> app_row) \<Rightarrow> app_row list \<Rightarrow> (draft_error, app_row list) result" where
  "update_rows n f rows = (if \<not> list_ex (row_matches n) rows then Inl NoSuchApp
     else Inr (map (\<lambda>r. if row_matches n r then f r else r) rows))"

definition store_draft :: "string \<Rightarrow> app_row \<Rightarrow> app_row" where
  "store_draft content r = r\<lparr>aw_definition_yaml := content,
     aw_definition_version := (if aw_definition_yaml r = content then aw_definition_version r
       else max (aw_definition_version r) (aw_published_version r) + 1)\<rparr>"

definition store_published :: "AppDefinition \<Rightarrow> string \<Rightarrow> app_row \<Rightarrow> app_row" where
  "store_published d content r = r\<lparr>aw_label := ad_Label d, aw_description := ad_Description d, aw_published_yaml := content,
     aw_published_version := max (aw_definition_version r) 1\<rparr>"

definition SaveAppDefinition :: "drafts_env \<Rightarrow> app_row list \<Rightarrow> string \<Rightarrow> AppDefinition \<Rightarrow> (draft_error, app_row list) result" where
  "SaveAppDefinition env rows appName d =
     and_then (GetActiveAppByName env rows appName) (\<lambda>app.
     and_then (listActiveAppsUncached env rows) (\<lambda>apps.
     and_then (acceptable env apps app (landed env app d)) (\<lambda>(d', content).
       update_rows (ra_Name app) (store_draft content) rows)))"

text \<open>A publication answers its error, if any, and the rows it leaves: the seeds come after the commit.\<close>

definition PublishAppDefinition :: "drafts_env \<Rightarrow> app_row list \<Rightarrow> string \<Rightarrow> draft_error option \<times> app_row list" where
  "PublishAppDefinition env rows appName =
     (case and_then (GetActiveAppByName env rows appName) (\<lambda>app. and_then (listActiveAppsUncached env rows) (\<lambda>apps.
        case (case ra_DraftDefinition app of None \<Rightarrow> ra_Definition app | Some d \<Rightarrow> Some d) of None \<Rightarrow> Inl DefinitionNeeded
        | Some d0 \<Rightarrow> (case cloneAppDefinition (de_codec env) (Some d0) of None \<Rightarrow> Inl DefinitionNeeded
           | Some d1 \<Rightarrow> and_then (acceptable env apps app (landed env app d1)) (\<lambda>(d, content).
              case de_publish_steps env app (cloneAppDefinition (de_codec env) (ra_Definition app)) d of Some e \<Rightarrow> Inl (PublishStepFailed e)
              | None \<Rightarrow> and_then (update_rows (ra_Name app) (store_published d content) rows) (\<lambda>rows'. Inr (app, rows')))))) of
       Inl e \<Rightarrow> (Some e, rows)
     | Inr (app, rows') \<Rightarrow> (case de_seeds env (ra_Name app) of Some e \<Rightarrow> (Some (SeedsFailed e), rows') | None \<Rightarrow> (None, rows')))"

text \<open>\<open>CHECK\<close> constraints of the table.\<close>

definition name_constraint :: "string \<Rightarrow> bool" where
  "name_constraint n \<longleftrightarrow> (case n of [] \<Rightarrow> False | c # s \<Rightarrow> is_lower_byte c \<and> 1 \<le> length s \<and> length s \<le> 62 \<and>
     list_all (\<lambda>c. is_lower_byte c \<or> is_digit_byte c \<or> c = CHR ''_'') s)"

definition CreateApp :: "drafts_env \<Rightarrow> string \<Rightarrow> app_row list \<Rightarrow> string \<Rightarrow> string \<Rightarrow> string \<Rightarrow> (draft_error, app_row list) result" where
  "CreateApp env new_id rows namespace label description =
     (let ns = trim_lower namespace; l = (if TrimSpace label = [] then ToUpper ns else TrimSpace label); desc = TrimSpace description in
      if ns = [] then Inl NamespaceNeeded
      else let app = \<lparr>ra_ID = [], ra_Name = ns, ra_Namespace = ns, ra_Label = l, ra_Description = desc, ra_Status = ''active'',
               ra_DefinitionYAML = [], ra_PublishedDefinitionYAML = [], ra_DefinitionVersion = 0, ra_PublishedVersion = 0,
               ra_Definition = None, ra_DraftDefinition = None\<rparr>;
             d = \<lparr>ad_Name = ns, ad_Namespace = ns, ad_Label = l, ad_Description = desc, ad_Dependencies = [], ad_Roles = [],
               ad_Tables = [], ad_Forms = [], ad_Pages = [], ad_ClientScripts = [], ad_Seeds = [], ad_Documentation = [],
               ad_Services = [], ad_Endpoints = [], ad_Triggers = [], ad_Schedules = []\<rparr>
           in case listActiveAppsUncached env rows of Inl e \<Rightarrow> Inl e
            | Inr apps \<Rightarrow> and_then (acceptable env apps app d) (\<lambda>(d', content).
                if \<not> name_constraint ns then Inl RowRefused
                else if list_ex (\<lambda>r. aw_name r = ns) rows then Inl (AppExists ns)
                else Inr (rows @ [\<lparr>aw_ID = new_id, aw_name = ns, aw_namespace = ns, aw_label = l, aw_description = desc, aw_status = ''active'',
                  aw_deleted = False, aw_definition_yaml = content, aw_published_yaml = [], aw_definition_version = 1,
                  aw_published_version = 0\<rparr>])))"

section \<open>Editing\<close>

definition editable :: "drafts_env \<Rightarrow> RegisteredApp \<Rightarrow> AppDefinition option" where
  "editable env app = (case cloneAppDefinition (de_codec env) (ra_DraftDefinition app) of
     None \<Rightarrow> cloneAppDefinition (de_codec env) (ra_Definition app) | Some d \<Rightarrow> Some d)"

definition fresh_definition :: "RegisteredApp \<Rightarrow> AppDefinition" where
  "fresh_definition app = \<lparr>ad_Name = ra_Name app, ad_Namespace = ra_Namespace app, ad_Label = ra_Label app,
     ad_Description = ra_Description app, ad_Dependencies = [], ad_Roles = [], ad_Tables = [], ad_Forms = [], ad_Pages = [],
     ad_ClientScripts = [], ad_Seeds = [], ad_Documentation = [], ad_Services = [], ad_Endpoints = [], ad_Triggers = [],
     ad_Schedules = []\<rparr>"

definition refused :: "(edit_error, 'a) result \<Rightarrow> (draft_error, 'a) result" where
  "refused r = (case r of Inl e \<Rightarrow> Inl (EditRefused e) | Inr x \<Rightarrow> Inr x)"

text \<open>The name is resolved against the apps once more, here as in the source.\<close>

definition request_app :: "drafts_env \<Rightarrow> app_row list \<Rightarrow> string \<Rightarrow> string \<Rightarrow> string" where
  "request_app env rows appName oid =
     resolveAppEditorAppName (case listActiveAppsUncached env rows of Inl e \<Rightarrow> [] | Inr apps \<Rightarrow> apps) appName oid"

definition saveAppEditorObject ::
  "drafts_env \<Rightarrow> app_row list \<Rightarrow> string \<Rightarrow> string \<Rightarrow> form_values \<Rightarrow> (draft_error, app_row list) result" where
  "saveAppEditorObject env rows appName oid form =
     (if request_app env rows appName oid = [] then Inl AppNameNeeded
      else and_then (GetActiveAppByName env rows (request_app env rows appName oid)) (\<lambda>app.
        and_then (refused (edit_object (de_codec env) app oid form
            (case editable env app of None \<Rightarrow> fresh_definition app | Some d \<Rightarrow> d)))
          (SaveAppDefinition env rows (ra_Name app))))"

definition deleteAppEditorObject :: "drafts_env \<Rightarrow> app_row list \<Rightarrow> string \<Rightarrow> string \<Rightarrow> (draft_error, app_row list) result" where
  "deleteAppEditorObject env rows appName oid =
     (if request_app env rows appName oid = [] then Inl AppNameNeeded
      else and_then (GetActiveAppByName env rows (request_app env rows appName oid)) (\<lambda>app.
        case editable env app of None \<Rightarrow> Inl DefinitionNeeded
        | Some d \<Rightarrow> and_then (refused (delete_object oid d)) (SaveAppDefinition env rows (ra_Name app))))"

section \<open>Requests\<close>

text \<open>
  A request is its method, whether its form could be read, the values of its body and those of its URL.
  \<open>FormValue\<close> looks at the body first.
\<close>

record editor_request =
  er_post :: bool
  er_readable :: bool
  er_form :: form_values
  er_query :: form_values

definition all_values :: "editor_request \<Rightarrow> form_values" where
  "all_values req key = er_form req key @ er_query req key"

datatype editor_answer =
    InvalidMethod
  | InvalidForm
  | MissingObjectID
  | MissingAppName
  | RequestFailed draft_error
  | RedirectTo string string

definition handleCreateAppEditorApp :: "drafts_env \<Rightarrow> string \<Rightarrow> editor_request \<Rightarrow> app_row list \<Rightarrow> editor_answer \<times> app_row list" where
  "handleCreateAppEditorApp env new_id req rows =
     (if \<not> er_post req then (InvalidMethod, rows)
      else if \<not> er_readable req then (InvalidForm, rows)
      else let form = all_values req; ns = lower_value form ''namespace'' in
        case CreateApp env new_id rows ns (text_value form ''label'') (text_value form ''description'') of
          Inl e \<Rightarrow> (RequestFailed e, rows) | Inr rows' \<Rightarrow> (RedirectTo ns (''application:'' @ ns), rows'))"

definition handleAppEditorObjectDelete :: "drafts_env \<Rightarrow> editor_request \<Rightarrow> app_row list \<Rightarrow> editor_answer \<times> app_row list" where
  "handleAppEditorObjectDelete env req rows =
     (let form = all_values req; oid = text_value form ''object_id''; app = request_app env rows (lower_value form ''app_name'') oid in
      if \<not> er_post req then (InvalidMethod, rows)
      else if \<not> er_readable req then (InvalidForm, rows)
      else if oid = [] then (MissingObjectID, rows)
      else if app = [] then (MissingAppName, rows)
      else (case deleteAppEditorObject env rows app oid of Inl e \<Rightarrow> (RequestFailed e, rows)
        | Inr rows' \<Rightarrow> (RedirectTo app (TrimSpace (resolveDeletedObjectID oid)), rows')))"

definition handleAppEditorDefinitionWrite :: "drafts_env \<Rightarrow> bool \<Rightarrow> editor_request \<Rightarrow> app_row list \<Rightarrow> editor_answer \<times> app_row list" where
  "handleAppEditorDefinitionWrite env publish req rows =
     (let form = all_values req; oid = text_value form ''object_id''; app = request_app env rows (lower_value form ''app_name'') oid in
      if \<not> er_post req then (InvalidMethod, rows)
      else if \<not> er_readable req then (InvalidForm, rows)
      else if oid = [] \<and> \<not> publish then (MissingObjectID, rows)
      else if app = [] then (MissingAppName, rows)
      else (case (if oid = [] then Inr rows else saveAppEditorObject env rows app oid (er_form req)) of Inl e \<Rightarrow> (RequestFailed e, rows)
        | Inr saved \<Rightarrow>
            let active = (if oid = [] then oid else resolveSavedObjectID oid (er_form req)) in
            if \<not> publish then (RedirectTo app active, saved)
            else (case PublishAppDefinition env saved app of
                (Some e, rows') \<Rightarrow> (RequestFailed e, rows') | (None, rows') \<Rightarrow> (RedirectTo app active, rows'))))"

end
