(* ===== verification/AppEditorLaws.thy ===== *)
theory AppEditorLaws
  imports AppDeletes AppNormalizeLaws
begin

text \<open>
  The edits of the app editor against their specification: a definition stands for the multiset of its
  objects, a creation adds the one its redirect names, an edit of an object keeps them all, and a deletion
  removes the one it names with all it contains.
\<close>

section \<open>Objects\<close>

datatype object = Object (object_kind: string) (object_scope: string) (object_name: string)

definition table_objects :: "AppDefinitionTable \<Rightarrow> object list" where
  "table_objects t = Object ''table'' [] (dt_Name t)
     # map (\<lambda>c. Object ''column'' (dt_Name t) (dc_Name c)) (dt_Columns t)
     @ map (\<lambda>f. Object ''table form'' (dt_Name t) (form_key f)) (dt_Forms t)
     @ map (\<lambda>p. Object ''data policy'' (dt_Name t) (dp_Name p)) (dt_DataPolicies t)
     @ map (\<lambda>r. Object ''table trigger'' (dt_Name t) (tr_Name r)) (dt_Triggers t)
     @ map (\<lambda>r. Object ''related list'' (dt_Name t) (rl_Name r)) (dt_RelatedLists t)
     @ map (\<lambda>r. Object ''security rule'' (dt_Name t) (sr_Name r)) (se_Rules (dt_Security t))"

definition service_objects :: "AppDefinitionService \<Rightarrow> object list" where
  "service_objects s = Object ''service'' [] (sv_Name s) # map (\<lambda>m. Object ''method'' (sv_Name s) (me_Name m)) (sv_Methods s)"

definition objects :: "AppDefinition \<Rightarrow> object list" where
  "objects d = concat (map table_objects (ad_Tables d)) @ concat (map service_objects (ad_Services d))
     @ map (\<lambda>f. Object ''form'' [] (af_Name f)) (ad_Forms d)
     @ map (\<lambda>r. Object ''role'' [] (ro_Name r)) (ad_Roles d)
     @ map (\<lambda>e. Object ''endpoint'' [] (en_Name e)) (ad_Endpoints d)
     @ map (\<lambda>r. Object ''trigger'' [] (tr_Name r)) (ad_Triggers d)
     @ map (\<lambda>s. Object ''schedule'' [] (sh_Name s)) (ad_Schedules d)
     @ map (\<lambda>n. Object ''dependency'' [] n) (ad_Dependencies d)
     @ map (\<lambda>p. Object ''page'' [] (pg_Slug p)) (ad_Pages d)
     @ map (\<lambda>s. Object ''client script'' [] (cs_Name s)) (ad_ClientScripts d)
     @ map (\<lambda>s. Object ''seed'' [] (sd_Table s)) (ad_Seeds d)
     @ map (\<lambda>a. Object ''documentation'' [] (do_Name a)) (ad_Documentation d)"

section \<open>Lists\<close>

lemma edit_firstE:
  assumes "edit_first e p f xs = Inr ys"
  obtains as x bs y where "xs = as @ x # bs" "ys = as @ y # bs" "p x" "f x = Inr y" "\<And>a. a \<in> set as \<Longrightarrow> \<not> p a"
  using assms
proof (induction xs arbitrary: ys thesis)
  case (Cons z zs)
  show ?case
  proof (cases "p z")
    case True
    with Cons.prems(2) obtain y where "f z = Inr y" "ys = y # zs" by (auto simp: and_then_Inr)
    with True show ?thesis by (intro Cons.prems(1)[of "[]" z zs y]) simp_all
  next
    case False
    with Cons.prems(2) obtain ws where w: "edit_first e p f zs = Inr ws" "ys = z # ws" by (auto simp: and_then_Inr)
    from Cons.IH[OF _ w(1)] obtain as x bs y where
      "zs = as @ x # bs" "ws = as @ y # bs" "p x" "f x = Inr y" "\<And>a. a \<in> set as \<Longrightarrow> \<not> p a" by blast
    with False w(2) show ?thesis by (intro Cons.prems(1)[of "z # as" x bs y]) auto
  qed
qed simp

lemma delete_firstE:
  assumes "delete_first e p xs = Inr ys"
  obtains as x bs where "xs = as @ x # bs" "ys = as @ bs" "p x" "\<And>a. a \<in> set as \<Longrightarrow> \<not> p a"
  using assms
proof (induction xs arbitrary: ys thesis)
  case (Cons z zs)
  show ?case
  proof (cases "p z")
    case True
    with Cons.prems(2) show ?thesis by (intro Cons.prems(1)[of "[]" z zs]) simp_all
  next
    case False
    with Cons.prems(2) obtain ws where w: "delete_first e p zs = Inr ws" "ys = z # ws" by (auto simp: and_then_Inr)
    from Cons.IH[OF _ w(1)] obtain as x bs where
      "zs = as @ x # bs" "ws = as @ bs" "p x" "\<And>a. a \<in> set as \<Longrightarrow> \<not> p a" by blast
    with False w(2) show ?thesis by (intro Cons.prems(1)[of "z # as" x bs]) auto
  qed
qed simp

lemma add_entry_Inr:
  "add_entry kind nm x xs = Inr ys \<longleftrightarrow> nm x \<noteq> [] \<and> \<not> name_taken (map nm xs) (nm x) \<and> ys = xs @ [x]"
  by (auto simp: add_entry_def)

lemma json_field_Inr: "json_field key parsed = Inr x \<longleftrightarrow> parsed = Some x"
  by (cases parsed) (auto simp: json_field_def)

text \<open>What an edit of the first match keeps, for the objects \<open>g\<close> reads off an entry.\<close>

lemma edit_first_same:
  assumes "edit_first e p f xs = Inr ys" "\<And>x y. p x \<Longrightarrow> f x = Inr y \<Longrightarrow> g y = g x"
  shows "map g ys = map g xs"
  using assms by (auto elim!: edit_firstE)

lemma edit_first_mset:
  assumes "edit_first e p f xs = Inr ys" "\<And>x y. p x \<Longrightarrow> f x = Inr y \<Longrightarrow> mset (g y) = mset (g x) + M"
  shows "mset (concat (map g ys)) = mset (concat (map g xs)) + M"
  using assms(1)
proof (rule edit_firstE)
  fix as x bs y assume "xs = as @ x # bs" "ys = as @ y # bs" "p x" "f x = Inr y"
  with assms(2)[of x y] show ?thesis by simp
qed

lemma delete_first_mset:
  assumes "delete_first e p xs = Inr ys"
  obtains x where "p x" "x \<in> set xs" "mset (map g xs) = add_mset (g x) (mset (map g ys))"
  using assms by (auto elim!: delete_firstE)

lemma delete_first_concat:
  assumes "delete_first e p xs = Inr ys"
  obtains x where "p x" "mset (concat (map g xs)) = mset (g x) + mset (concat (map g ys))"
  using assms by (auto elim!: delete_firstE)

lemma scoped_Inr: "scoped kind pre oid f = Inr y \<longleftrightarrow> (\<exists>n. parseAppEditorScopedName oid pre = Some n \<and> f n = Inr y)"
  by (auto simp: scoped_def split: option.splits)

lemma table_scoped_Inr:
  "table_scoped kind pre oid f = Inr y \<longleftrightarrow> (\<exists>t n. parseAppEditorTableScopedID oid pre = Some (t, n) \<and> f t n = Inr y)"
  by (auto simp: table_scoped_def split: option.splits)

section \<open>Deletions\<close>

text \<open>The object an id names.\<close>

definition in_app :: "string \<Rightarrow> string \<Rightarrow> string \<Rightarrow> object option" where
  "in_app kind pre oid = map_option (Object kind []) (parseAppEditorScopedName oid pre)"

definition in_table :: "string \<Rightarrow> string \<Rightarrow> string \<Rightarrow> object option" where
  "in_table kind pre oid = map_option (\<lambda>(tn, n). Object kind tn n) (parseAppEditorTableScopedID oid pre)"

definition named_object :: "string \<Rightarrow> object option" where
  "named_object oid =
     (if id_starts ''table:'' oid then Some (Object ''table'' [] (trim_lower (TrimPrefix oid ''table:'')))
      else if id_starts ''column:'' oid then map_option (\<lambda>(tn, n). Object ''column'' tn n) (parseAppEditorColumnID oid)
      else if id_starts ''form:'' oid then Some (Object ''form'' [] (trim_lower (TrimPrefix oid ''form:'')))
      else if id_starts ''tableform:'' oid then
        map_option (\<lambda>(tn, n). Object ''table form'' tn n) (parseLegacyTableFormID (TrimPrefix oid ''tableform:''))
      else if id_starts ''table-data-policy:'' oid then in_table ''data policy'' ''table-data-policy:'' oid
      else if id_starts ''table-trigger:'' oid then in_table ''table trigger'' ''table-trigger:'' oid
      else if id_starts ''table-related-list:'' oid then in_table ''related list'' ''table-related-list:'' oid
      else if id_starts ''table-security-rule:'' oid then in_table ''security rule'' ''table-security-rule:'' oid
      else if id_starts ''role:'' oid then in_app ''role'' ''role:'' oid
      else if id_starts ''service:'' oid then in_app ''service'' ''service:'' oid
      else if id_starts ''method:'' oid then map_option (\<lambda>(app, sn, n). Object ''method'' sn n) (parseAppEditorMethodID oid)
      else if id_starts ''trigger:'' oid then in_app ''trigger'' ''trigger:'' oid
      else if id_starts ''schedule:'' oid then in_app ''schedule'' ''schedule:'' oid
      else if id_starts ''dependency:'' oid then in_app ''dependency'' ''dependency:'' oid
      else if id_starts ''page:'' oid then in_app ''page'' ''page:'' oid
      else if id_starts ''endpoint:'' oid then in_app ''endpoint'' ''endpoint:'' oid
      else if id_starts ''client-script:'' oid then in_app ''client script'' ''client-script:'' oid
      else if id_starts ''seed:'' oid then map_option (\<lambda>(app, tn, i). Object ''seed'' [] tn) (parseAppEditorSeedID oid)
      else if id_starts ''documentation:'' oid then in_app ''documentation'' ''documentation:'' oid
      else None)"

text \<open>A table and a service contain the objects in their scope.\<close>

definition removes :: "object option \<Rightarrow> AppDefinition \<Rightarrow> AppDefinition \<Rightarrow> bool" where
  "removes ob d d' \<longleftrightarrow> (case ob of None \<Rightarrow> False
     | Some b \<Rightarrow> \<exists>gone. mset (objects d) = mset (objects d') + add_mset b gone \<and>
         (if object_kind b \<in> {''table'', ''service''} then set_mset gone \<subseteq> {x. object_scope x = object_name b} else gone = {#}))"

lemma removes_one:
  "mset (objects d) = add_mset b (mset (objects d')) \<Longrightarrow> object_kind b \<noteq> ''table'' \<Longrightarrow> object_kind b \<noteq> ''service'' \<Longrightarrow> removes (Some b) d d'"
  by (simp add: removes_def)

lemma part_removed:
  assumes "requireDefinitionTable tn f d = Inr d'"
    and "\<And>t t'. dt_Name t = tn \<Longrightarrow> f t = Inr t' \<Longrightarrow> mset (table_objects t) = add_mset b (mset (table_objects t'))"
    and "object_kind b \<noteq> ''table''" "object_kind b \<noteq> ''service''"
  shows "removes (Some b) d d'"
proof (rule removes_one)
  from assms(1) obtain ts where t: "edit_first (ObjectMissing ''table'' tn []) (\<lambda>t. dt_Name t = tn) f (ad_Tables d) = Inr ts"
    "d' = d\<lparr>ad_Tables := ts\<rparr>" by (auto simp: requireDefinitionTable_def and_then_Inr)
  from t(1) obtain as x bs y where "ad_Tables d = as @ x # bs" "ts = as @ y # bs" "dt_Name x = tn" "f x = Inr y" by (rule edit_firstE)
  with assms(2)[of x y] t(2) show "mset (objects d) = add_mset b (mset (objects d'))" by (simp add: objects_def)
qed (use assms in simp_all)

lemmas removal_defs = scoped_Inr table_scoped_Inr and_then_Inr

lemma removes_group:
  assumes "mset (objects d) = mset (objects d') + add_mset b gone" "set_mset gone \<subseteq> {x. object_scope x = object_name b}"
    and "object_kind b \<in> {''table'', ''service''}"
  shows "removes (Some b) d d'"
  unfolding removes_def option.case using assms by (intro exI[of _ gone]) simp

lemma delete_table_removes:
  assumes "delete_table oid d = Inr d'"
  shows "removes (Some (Object ''table'' [] (trim_lower (TrimPrefix oid ''table:'')))) d d'"
proof -
  from assms obtain as x bs where t: "ad_Tables d = as @ x # bs" "d' = d\<lparr>ad_Tables := as @ bs\<rparr>"
    "dt_Name x = trim_lower (TrimPrefix oid ''table:'')"
    by (auto simp: delete_table_def Let_def and_then_Inr elim!: delete_firstE)
  show ?thesis
    by (rule removes_group[where gone = "mset (tl (table_objects x))"]) (use t in \<open>auto simp: objects_def table_objects_def\<close>)
qed

lemma delete_column_removes:
  assumes "delete_column oid d = Inr d'"
  shows "removes (map_option (\<lambda>(tn, n). Object ''column'' tn n) (parseAppEditorColumnID oid)) d d'"
proof -
  from assms obtain tn cn where p: "parseAppEditorColumnID oid = Some (tn, cn)"
    and r: "requireDefinitionTable tn (\<lambda>t. and_then (delete_first (ObjectMissing ''column'' cn tn) (\<lambda>c. dc_Name c = cn) (dt_Columns t))
      (\<lambda>cs. Inr (t\<lparr>dt_Columns := cs\<rparr>))) d = Inr d'"
    by (auto simp: delete_column_def split: option.splits if_splits)
  have "removes (Some (Object ''column'' tn cn)) d d'"
    by (rule part_removed[OF r]) (auto simp: and_then_Inr table_objects_def elim!: delete_firstE)
  with p show ?thesis by simp
qed

lemma delete_table_form_removes:
  assumes "delete_table_form oid d = Inr d'"
  shows "removes (map_option (\<lambda>(tn, n). Object ''table form'' tn n) (parseLegacyTableFormID (TrimPrefix oid ''tableform:''))) d d'"
proof -
  from assms obtain tn n where p: "parseLegacyTableFormID (TrimPrefix oid ''tableform:'') = Some (tn, n)"
    and r: "requireDefinitionTable tn (\<lambda>t. and_then (delete_first (ObjectMissing ''form'' n tn) (\<lambda>f. form_key f = n) (dt_Forms t))
      (\<lambda>fs. Inr (t\<lparr>dt_Forms := fs\<rparr>))) d = Inr d'"
    by (auto simp: delete_table_form_def split: option.splits)
  have "removes (Some (Object ''table form'' tn n)) d d'"
    by (rule part_removed[OF r]) (auto simp: and_then_Inr table_objects_def elim!: delete_firstE)
  with p show ?thesis by simp
qed

lemma delete_data_policy_removes: "delete_data_policy oid d = Inr d' \<Longrightarrow> removes (in_table ''data policy'' ''table-data-policy:'' oid) d d'"
  by (auto simp: delete_data_policy_def table_scoped_Inr in_table_def and_then_Inr table_objects_def elim!: part_removed delete_firstE)

lemma delete_table_trigger_removes: "delete_table_trigger oid d = Inr d' \<Longrightarrow> removes (in_table ''table trigger'' ''table-trigger:'' oid) d d'"
  by (auto simp: delete_table_trigger_def table_scoped_Inr in_table_def and_then_Inr table_objects_def elim!: part_removed delete_firstE)

lemma delete_related_list_removes: "delete_related_list oid d = Inr d' \<Longrightarrow> removes (in_table ''related list'' ''table-related-list:'' oid) d d'"
  by (auto simp: delete_related_list_def table_scoped_Inr in_table_def and_then_Inr table_objects_def elim!: part_removed delete_firstE)

lemma delete_security_rule_removes:
  "delete_security_rule oid d = Inr d' \<Longrightarrow> removes (in_table ''security rule'' ''table-security-rule:'' oid) d d'"
  by (auto simp: delete_security_rule_def table_scoped_Inr in_table_def and_then_Inr table_objects_def elim!: part_removed delete_firstE)

text \<open>The sections of the definition.\<close>

lemma section_removes:
  "delete_asset_form oid d = Inr d' \<Longrightarrow> removes (Some (Object ''form'' [] (trim_lower (TrimPrefix oid ''form:'')))) d d'"
  "delete_role oid d = Inr d' \<Longrightarrow> removes (in_app ''role'' ''role:'' oid) d d'"
  "delete_trigger oid d = Inr d' \<Longrightarrow> removes (in_app ''trigger'' ''trigger:'' oid) d d'"
  "delete_schedule oid d = Inr d' \<Longrightarrow> removes (in_app ''schedule'' ''schedule:'' oid) d d'"
  "delete_dependency oid d = Inr d' \<Longrightarrow> removes (in_app ''dependency'' ''dependency:'' oid) d d'"
  "delete_page oid d = Inr d' \<Longrightarrow> removes (in_app ''page'' ''page:'' oid) d d'"
  "delete_endpoint oid d = Inr d' \<Longrightarrow> removes (in_app ''endpoint'' ''endpoint:'' oid) d d'"
  "delete_client_script oid d = Inr d' \<Longrightarrow> removes (in_app ''client script'' ''client-script:'' oid) d d'"
  "delete_documentation oid d = Inr d' \<Longrightarrow> removes (in_app ''documentation'' ''documentation:'' oid) d d'"
  by (auto simp: delete_asset_form_def delete_role_def delete_trigger_def delete_schedule_def delete_dependency_def delete_page_def
      delete_endpoint_def delete_client_script_def delete_documentation_def Let_def scoped_Inr in_app_def and_then_Inr objects_def
      intro!: removes_one elim!: delete_firstE)

lemma delete_service_removes:
  assumes "delete_service oid d = Inr d'"
  shows "removes (in_app ''service'' ''service:'' oid) d d'"
proof -
  from assms obtain n as x bs where n: "parseAppEditorScopedName oid ''service:'' = Some n"
    and t: "ad_Services d = as @ x # bs" "d' = d\<lparr>ad_Services := as @ bs\<rparr>" "sv_Name x = n"
    by (auto simp: delete_service_def scoped_Inr and_then_Inr elim!: delete_firstE)
  have "removes (Some (Object ''service'' [] n)) d d'"
    by (rule removes_group[where gone = "mset (tl (service_objects x))"]) (use t in \<open>auto simp: objects_def service_objects_def\<close>)
  with n show ?thesis by (simp add: in_app_def)
qed

lemma delete_method_removes:
  "delete_method oid d = Inr d' \<Longrightarrow> removes (map_option (\<lambda>(app, sn, n). Object ''method'' sn n) (parseAppEditorMethodID oid)) d d'"
  by (auto simp: delete_method_def requireDefinitionServiceByName_def and_then_Inr objects_def service_objects_def split: option.splits
      intro!: removes_one elim!: delete_firstE edit_firstE)

lemma delete_seed_removes:
  assumes "delete_seed oid d = Inr d'"
  shows "removes (map_option (\<lambda>(app, tn, i). Object ''seed'' [] tn) (parseAppEditorSeedID oid)) d d'"
proof -
  from assms obtain app tn i where p: "parseAppEditorSeedID oid = Some (app, tn, i)"
    and i: "nat i < length (ad_Seeds d)" "sd_Table (ad_Seeds d ! nat i) = tn"
    and d: "d' = d\<lparr>ad_Seeds := take (nat i) (ad_Seeds d) @ drop (nat i + 1) (ad_Seeds d)\<rparr>"
    by (auto simp: delete_seed_def split: option.splits if_splits)
  have "ad_Seeds d = take (nat i) (ad_Seeds d) @ ad_Seeds d ! nat i # drop (nat i + 1) (ad_Seeds d)" using id_take_nth_drop[OF i(1)] by simp
  then have "mset (map (\<lambda>s. Object ''seed'' [] (sd_Table s)) (ad_Seeds d)) =
      add_mset (Object ''seed'' [] tn) (mset (map (\<lambda>s. Object ''seed'' [] (sd_Table s)) (take (nat i) (ad_Seeds d) @ drop (nat i + 1) (ad_Seeds d))))"
    using i(2) by (metis (no_types, lifting) list.simps(9) map_append mset.simps(2) mset_append union_mset_add_mset_right)
  then have "removes (Some (Object ''seed'' [] tn)) d d'" by (intro removes_one) (simp_all add: objects_def d)
  with p show ?thesis by simp
qed

lemma removes_if:
  "(if g then a else b) = Inr d' \<Longrightarrow> (a = Inr d' \<Longrightarrow> removes x d d') \<Longrightarrow> (b = Inr d' \<Longrightarrow> removes y d d') \<Longrightarrow>
     removes (if g then x else y) d d'"
  by (simp split: if_splits)


section \<open>Creations\<close>

definition new_among :: "object \<Rightarrow> object list \<Rightarrow> bool" where
  "new_among b xs \<longleftrightarrow> (\<forall>x \<in> set xs. object_kind x = object_kind b \<and> object_scope x = object_scope b \<longrightarrow> \<not> EqualFold (object_name x) (object_name b))"

definition adds :: "object \<Rightarrow> AppDefinition \<Rightarrow> AppDefinition \<Rightarrow> bool" where
  "adds b d d' \<longleftrightarrow> mset (objects d') = add_mset b (mset (objects d)) \<and> new_among b (objects d)"

definition part_kinds :: "string list" where
  "part_kinds = [''column'', ''table form'', ''data policy'', ''table trigger'', ''related list'', ''security rule'']"

lemma part_scope: "x \<in> set (table_objects t) \<Longrightarrow> object_kind x \<in> set part_kinds \<Longrightarrow> object_scope x = dt_Name t"
  by (auto simp: table_objects_def part_kinds_def)

lemma part_of_table: "x \<in> set (objects d) \<Longrightarrow> object_kind x \<in> set part_kinds \<Longrightarrow> \<exists>t \<in> set (ad_Tables d). x \<in> set (table_objects t)"
  by (auto simp: objects_def service_objects_def part_kinds_def)

lemma table_part_added:
  assumes "requireDefinitionTable tn f d = Inr d'" "distinct (map dt_Name (ad_Tables d))"
    and "\<And>t t'. t \<in> set (ad_Tables d) \<Longrightarrow> dt_Name t = tn \<Longrightarrow> f t = Inr t' \<Longrightarrow>
      mset (table_objects t') = add_mset b (mset (table_objects t)) \<and> new_among b (table_objects t)"
    and "object_kind b \<in> set part_kinds" "object_scope b = tn"
  shows "adds b d d' \<and> tn \<in> set (map dt_Name (ad_Tables d))"
proof -
  from assms(1) obtain ts where t: "edit_first (ObjectMissing ''table'' tn []) (\<lambda>t. dt_Name t = tn) f (ad_Tables d) = Inr ts"
    "d' = d\<lparr>ad_Tables := ts\<rparr>" by (auto simp: requireDefinitionTable_def and_then_Inr)
  from t(1) obtain as x bs y where l: "ad_Tables d = as @ x # bs" "ts = as @ y # bs" "dt_Name x = tn" "f x = Inr y" by (rule edit_firstE)
  have k: "mset (table_objects y) = add_mset b (mset (table_objects x))" "new_among b (table_objects x)"
    using assms(3)[OF _ l(3,4)] l(1) by auto
  have "new_among b (objects d)"
    unfolding new_among_def
  proof (intro ballI impI)
    fix z assume z: "z \<in> set (objects d)" "object_kind z = object_kind b \<and> object_scope z = object_scope b"
    with assms(4) part_of_table obtain t where "t \<in> set (ad_Tables d)" "z \<in> set (table_objects t)" by metis
    moreover have "dt_Name t = tn" using part_scope[OF \<open>z \<in> set (table_objects t)\<close>] z(2) assms(4,5) by simp
    moreover have "x \<in> set (ad_Tables d)" using l(1) by simp
    ultimately have "t = x" using assms(2) l(3) by (metis distinct_map inj_onD)
    with \<open>z \<in> set (table_objects t)\<close> k(2) z(2) show "\<not> EqualFold (object_name z) (object_name b)" by (simp add: new_among_def)
  qed
  with k(1) l t(2) show ?thesis by (simp add: adds_def objects_def)
qed

text \<open>Table names and service names are identifiers, so that ids can be taken apart.\<close>

lemma safe_no_colon: "IsSafeIdentifier s \<Longrightarrow> CHR '':'' \<notin> set s"
  using safe_plain by (fastforce simp: plain_byte_def IsSafeIdentifier_def list_all_iff ident_tail_def ident_head_def is_upper_byte_def
      is_lower_byte_def is_digit_byte_def split: list.splits)

definition lowered :: "object \<Rightarrow> object" where
  "lowered b = Object (object_kind b) (object_scope b) (ToLower (object_name b))"

text \<open>A creation adds a new object, and the id of the answer names it in lower case, as the normalisation of the draft will.\<close>

definition created :: "string \<Rightarrow> form_values \<Rightarrow> AppDefinition \<Rightarrow> AppDefinition \<Rightarrow> bool" where
  "created oid form d d' \<longleftrightarrow> (\<exists>b. adds b d d' \<and> named_object (resolveSavedObjectID oid form) = Some (lowered b))"

lemma createdI: "adds b d d' \<Longrightarrow> named_object (resolveSavedObjectID oid form) = Some (lowered b) \<Longrightarrow> created oid form d d'"
  by (auto simp: created_def)

lemma in_app_id: "CHR '':'' \<notin> set app \<Longrightarrow> in_app kind pre (pre @ app @ '':'' @ n) = Some (Object kind [] (trim_lower n))"
  by (simp add: in_app_def parseAppEditorScopedName_def TrimPrefix_def cut1_append)

lemma in_table_id:
  "CHR '':'' \<notin> set tn \<Longrightarrow> tn \<noteq> [] \<Longrightarrow> n \<noteq> [] \<Longrightarrow> in_table kind pre (pre @ tn @ '':'' @ n) = Some (Object kind (trim_lower tn) (trim_lower n))"
  by (simp add: in_table_def parseAppEditorTableScopedID_def TrimPrefix_def cut1_append)

text \<open>The sections of the definition.\<close>

lemma names_of_kind:
  assumes "z \<in> set (objects d)"
  shows "object_kind z = ''table'' \<Longrightarrow> object_name z \<in> dt_Name ` set (ad_Tables d)"
    "object_kind z = ''role'' \<Longrightarrow> object_name z \<in> ro_Name ` set (ad_Roles d)"
    "object_kind z = ''dependency'' \<Longrightarrow> object_name z \<in> set (ad_Dependencies d)"
    "object_kind z = ''service'' \<Longrightarrow> object_name z \<in> sv_Name ` set (ad_Services d)"
    "object_kind z = ''endpoint'' \<Longrightarrow> object_name z \<in> en_Name ` set (ad_Endpoints d)"
    "object_kind z = ''trigger'' \<Longrightarrow> object_name z \<in> tr_Name ` set (ad_Triggers d)"
    "object_kind z = ''schedule'' \<Longrightarrow> object_name z \<in> sh_Name ` set (ad_Schedules d)"
    "object_kind z = ''page'' \<Longrightarrow> object_name z \<in> pg_Slug ` set (ad_Pages d)"
    "object_kind z = ''client script'' \<Longrightarrow> object_name z \<in> cs_Name ` set (ad_ClientScripts d)"
    "object_kind z = ''documentation'' \<Longrightarrow> object_name z \<in> do_Name ` set (ad_Documentation d)"
  using assms unfolding objects_def table_objects_def service_objects_def set_append set_map set_concat by fastforce+

lemma entry_adds:
  assumes "and_then (add_entry kind nm x xs) (\<lambda>ys. Inr (upd ys)) = Inr d'"
    and "\<And>z. z \<in> set (objects d) \<Longrightarrow> object_kind z = object_kind b \<Longrightarrow> object_name z \<in> nm ` set xs"
    and "mset (objects (upd (xs @ [x]))) = add_mset b (mset (objects d))" "object_name b = nm x"
  shows "adds b d d' \<and> object_name b \<noteq> []"
proof -
  from assms(1) have x: "nm x \<noteq> []" "\<not> name_taken (map nm xs) (nm x)" "d' = upd (xs @ [x])"
    by (auto simp: and_then_Inr add_entry_Inr)
  have "\<not> EqualFold (object_name z) (object_name b)" if z: "z \<in> set (objects d)" "object_kind z = object_kind b" for z
  proof -
    from assms(2)[OF z] obtain y where "y \<in> set xs" "object_name z = nm y" by blast
    with x(2) assms(4) show ?thesis by (simp add: name_taken_def list_ex_iff)
  qed
  with x assms(3,4) show ?thesis by (simp add: adds_def new_among_def)
qed

lemma new_table_adds: "new_table oid form d = Inr d' \<Longrightarrow> adds (Object ''table'' [] (lower_value form ''name'')) d d' \<and> lower_value form ''name'' \<noteq> []"
  unfolding new_table_def by (drule entry_adds[where d = d and b = "Object ''table'' [] (lower_value form ''name'')"]) (auto simp: objects_def table_objects_def service_objects_def empty_security_def dest: names_of_kind)

lemma new_role_adds: "new_role oid form d = Inr d' \<Longrightarrow> adds (Object ''role'' [] (text_value form ''name'')) d d' \<and> text_value form ''name'' \<noteq> []"
  unfolding new_role_def by (drule entry_adds[where d = d and b = "Object ''role'' [] (text_value form ''name'')"]) (auto simp: objects_def table_objects_def service_objects_def dest: names_of_kind)

lemma new_dependency_adds: "new_dependency oid form d = Inr d' \<Longrightarrow> adds (Object ''dependency'' [] (lower_value form ''name'')) d d' \<and> lower_value form ''name'' \<noteq> []"
  unfolding new_dependency_def by (drule entry_adds[where d = d and b = "Object ''dependency'' [] (lower_value form ''name'')"]) (auto simp: objects_def table_objects_def service_objects_def dest: names_of_kind)

lemma new_service_adds: "new_service oid form d = Inr d' \<Longrightarrow> adds (Object ''service'' [] (text_value form ''name'')) d d' \<and> text_value form ''name'' \<noteq> []"
  unfolding new_service_def by (drule entry_adds[where d = d and b = "Object ''service'' [] (text_value form ''name'')"]) (auto simp: objects_def table_objects_def service_objects_def dest: names_of_kind)

lemma new_trigger_adds: "new_trigger oid form d = Inr d' \<Longrightarrow> adds (Object ''trigger'' [] (text_value form ''name'')) d d' \<and> text_value form ''name'' \<noteq> []"
  unfolding new_trigger_def by (drule entry_adds[where d = d and b = "Object ''trigger'' [] (text_value form ''name'')"]) (auto simp: objects_def table_objects_def service_objects_def form_trigger_def dest: names_of_kind)

lemma new_schedule_adds: "new_schedule oid form d = Inr d' \<Longrightarrow> adds (Object ''schedule'' [] (text_value form ''name'')) d d' \<and> text_value form ''name'' \<noteq> []"
  unfolding new_schedule_def by (drule entry_adds[where d = d and b = "Object ''schedule'' [] (text_value form ''name'')"]) (auto simp: objects_def table_objects_def service_objects_def form_schedule_def dest: names_of_kind)

lemma new_client_script_adds: "new_client_script oid form d = Inr d' \<Longrightarrow> adds (Object ''client script'' [] (lower_value form ''name'')) d d' \<and> lower_value form ''name'' \<noteq> []"
  unfolding new_client_script_def by (drule entry_adds[where d = d and b = "Object ''client script'' [] (lower_value form ''name'')"]) (auto simp: objects_def table_objects_def service_objects_def dest: names_of_kind)

lemma new_documentation_adds: "new_documentation oid form d = Inr d' \<Longrightarrow> adds (Object ''documentation'' [] (lower_value form ''name'')) d d' \<and> lower_value form ''name'' \<noteq> []"
  unfolding new_documentation_def by (drule entry_adds[where d = d and b = "Object ''documentation'' [] (lower_value form ''name'')"]) (auto simp: objects_def table_objects_def service_objects_def dest: names_of_kind)

lemma new_endpoint_adds:
  assumes "new_endpoint ec oid form d = Inr d'"
  shows "adds (Object ''endpoint'' [] (text_value form ''name'')) d d' \<and> text_value form ''name'' \<noteq> []"
proof -
  from assms obtain roles where
    "and_then (add_entry ''endpoint'' en_Name (form_endpoint (text_value form ''name'') roles form) (ad_Endpoints d))
       (\<lambda>es. Inr (d\<lparr>ad_Endpoints := es\<rparr>)) = Inr d'" unfolding new_endpoint_def and_then_Inr[of "json_field _ _"] by blast
  then have "adds (Object ''endpoint'' [] (text_value form ''name'')) d d' \<and> object_name (Object ''endpoint'' [] (text_value form ''name'')) \<noteq> []"
    by (rule entry_adds) (auto dest: names_of_kind, simp_all add: objects_def form_endpoint_def)
  then show ?thesis by simp
qed

lemma new_page_adds:
  assumes "new_page oid form d = Inr d'"
  shows "adds (Object ''page'' [] (pageSlugFromTitle (text_value form ''title''))) d d' \<and> pageSlugFromTitle (text_value form ''title'') \<noteq> []"
proof -
  let ?slug = "pageSlugFromTitle (text_value form ''title'')"
  from assms have "and_then (add_entry ''page'' pg_Slug
        \<lparr>pg_Name = text_value form ''title'', pg_Slug = ?slug, pg_Label = text_value form ''title'', pg_Description = [],
         pg_SearchKeywords = text_value form ''search_keywords'', pg_EditorMode = ''wysiwyg'', pg_Status = ''published'',
         pg_Content = formValue form ''content'', pg_Actions = [], pg_Security = empty_security\<rparr> (ad_Pages d))
       (\<lambda>ps. Inr (d\<lparr>ad_Pages := ps\<rparr>)) = Inr d'"
    unfolding new_page_def Let_def by (simp only: split: if_splits) simp_all
  then have "adds (Object ''page'' [] ?slug) d d' \<and> object_name (Object ''page'' [] ?slug) \<noteq> []"
    by (rule entry_adds) (auto dest: names_of_kind, simp_all add: objects_def)
  then show ?thesis by simp
qed

text \<open>The parts of a table.\<close>

lemma fresh_part:
  assumes "\<not> name_taken names n" "\<And>z. z \<in> set zs \<Longrightarrow> object_kind z = object_kind b \<Longrightarrow> \<exists>m \<in> set names. ToLower m = ToLower (object_name z)"
    and "object_name b = n"
  shows "new_among b zs"
  using assms by (fastforce simp: new_among_def name_taken_def list_ex_iff EqualFold_def)

lemma part_adds:
  assumes "new_part key kind names add form d = Inr d'" "distinct (map dt_Name (ad_Tables d))" "k \<in> set part_kinds"
    and "\<And>t t'. t \<in> set (ad_Tables d) \<Longrightarrow> add (lower_value form key) (lower_value form ''name'') t = Inr t' \<Longrightarrow> dt_Name t = lower_value form key \<Longrightarrow>
      mset (table_objects t') = add_mset (Object k (lower_value form key) (lower_value form ''name'')) (mset (table_objects t))"
    and "\<And>t z. t \<in> set (ad_Tables d) \<Longrightarrow> z \<in> set (table_objects t) \<Longrightarrow> object_kind z = k \<Longrightarrow>
      \<exists>m \<in> set (names t). ToLower m = ToLower (object_name z)"
  shows "adds (Object k (lower_value form key) (lower_value form ''name'')) d d' \<and> lower_value form key \<in> set (map dt_Name (ad_Tables d)) \<and>
    lower_value form key \<noteq> [] \<and> lower_value form ''name'' \<noteq> []"
proof -
  let ?tn = "lower_value form key" and ?n = "lower_value form ''name''"
  let ?f = "\<lambda>t. let name = ?n in if name = [] then Inl (FieldNeeded ''name'')
        else if name_taken (names t) name then Inl (ObjectExists kind name ?tn) else add ?tn name t"
  from assms(1) have tn: "?tn \<noteq> []" and r: "requireDefinitionTable ?tn ?f d = Inr d'"
    by (auto simp: new_part_def Let_def split: if_splits)
  have f: "?n \<noteq> [] \<and> \<not> name_taken (names t) ?n \<and> add ?tn ?n t = Inr t'" if "?f t = Inr t'" for t t'
    using that by (simp add: Let_def split: if_splits)
  have "adds (Object k ?tn ?n) d d' \<and> ?tn \<in> set (map dt_Name (ad_Tables d))"
  proof (rule table_part_added[OF r assms(2)])
    fix t t' assume t: "t \<in> set (ad_Tables d)" "dt_Name t = ?tn" "?f t = Inr t'"
    have "new_among (Object k ?tn ?n) (table_objects t)"
      by (rule fresh_part[of "names t" ?n]) (use f[OF t(3)] assms(5)[OF t(1)] in auto)
    with f[OF t(3)] assms(4)[OF t(1) _ t(2)] show "mset (table_objects t') = add_mset (Object k ?tn ?n) (mset (table_objects t)) \<and>
        new_among (Object k ?tn ?n) (table_objects t)" by simp
  qed (use assms(3) in simp_all)
  moreover from r have "?n \<noteq> []"
    by (auto simp: requireDefinitionTable_def and_then_Inr Let_def elim!: edit_firstE split: if_splits)
  ultimately show ?thesis using tn by simp
qed

lemma new_data_policy_adds:
  assumes "new_data_policy oid form d = Inr d'" "distinct (map dt_Name (ad_Tables d))"
  shows "adds (Object ''data policy'' (lower_value form ''table_name'') (lower_value form ''name'')) d d' \<and>
    lower_value form ''table_name'' \<in> set (map dt_Name (ad_Tables d)) \<and> lower_value form ''table_name'' \<noteq> [] \<and> lower_value form ''name'' \<noteq> []"
  by (rule part_adds[OF assms(1)[unfolded new_data_policy_def] assms(2)]) (auto simp: part_kinds_def table_objects_def )

lemma new_table_trigger_adds:
  assumes "new_table_trigger oid form d = Inr d'" "distinct (map dt_Name (ad_Tables d))"
  shows "adds (Object ''table trigger'' (lower_value form ''table_name'') (lower_value form ''name'')) d d' \<and>
    lower_value form ''table_name'' \<in> set (map dt_Name (ad_Tables d)) \<and> lower_value form ''table_name'' \<noteq> [] \<and> lower_value form ''name'' \<noteq> []"
  by (rule part_adds[OF assms(1)[unfolded new_table_trigger_def] assms(2)]) (auto simp: part_kinds_def table_objects_def form_trigger_def)

lemma new_related_list_adds:
  assumes "new_related_list ec oid form d = Inr d'" "distinct (map dt_Name (ad_Tables d))"
  shows "adds (Object ''related list'' (lower_value form ''table_name'') (lower_value form ''name'')) d d' \<and>
    lower_value form ''table_name'' \<in> set (map dt_Name (ad_Tables d)) \<and> lower_value form ''table_name'' \<noteq> [] \<and> lower_value form ''name'' \<noteq> []"
  by (rule part_adds[OF assms(1)[unfolded new_related_list_def] assms(2)]) (auto simp: part_kinds_def table_objects_def and_then_Inr)

lemma new_security_rule_adds:
  assumes "new_security_rule oid form d = Inr d'" "distinct (map dt_Name (ad_Tables d))"
  shows "adds (Object ''security rule'' (lower_value form ''table_name'') (lower_value form ''name'')) d d' \<and>
    lower_value form ''table_name'' \<in> set (map dt_Name (ad_Tables d)) \<and> lower_value form ''table_name'' \<noteq> [] \<and> lower_value form ''name'' \<noteq> []"
  by (rule part_adds[OF assms(1)[unfolded new_security_rule_def] assms(2)]) (auto simp: part_kinds_def table_objects_def form_rule_def)

lemma form_key_safe: "IsSafeIdentifier (fo_Name f) \<Longrightarrow> form_key f = ToLower (fo_Name f)"
  by (cases "fo_Name f") (auto simp: form_key_def or_default_def TrimSpace_ToLower IsSafeIdentifier_def)

lemma new_form_adds:
  assumes "new_form oid form d = Inr d'" "definition_ok d"
  shows "adds (Object ''table form'' (lower_value form ''table'') (lower_value form ''name'')) d d' \<and>
    lower_value form ''table'' \<in> set (map dt_Name (ad_Tables d)) \<and> lower_value form ''table'' \<noteq> [] \<and> lower_value form ''name'' \<noteq> []"
proof -
  have ok: "distinct (map dt_Name (ad_Tables d))" "\<And>t f. t \<in> set (ad_Tables d) \<Longrightarrow> f \<in> set (dt_Forms t) \<Longrightarrow> IsSafeIdentifier (fo_Name f)"
    using assms(2) by (auto simp: definition_ok_def names_ok_def table_ok_def list_all_iff)
  have n: "lower_value form ''name'' \<noteq> []" 
    using assms(1) by (auto simp: new_form_def new_part_def requireDefinitionTable_def and_then_Inr Let_def elim!: edit_firstE split: if_splits)
  show ?thesis
  proof (rule part_adds[OF assms(1)[unfolded new_form_def] ok(1)])
    fix t z assume "t \<in> set (ad_Tables d)" "z \<in> set (table_objects t)" "object_kind z = ''table form''"
    then obtain f where "f \<in> set (dt_Forms t)" "object_name z = ToLower (fo_Name f)"
      using ok(2) by (auto simp: table_objects_def form_key_safe)
    then show "\<exists>m \<in> set (map fo_Name (dt_Forms t)). ToLower m = ToLower (object_name z)" by auto
  qed (use n in \<open>auto simp: part_kinds_def table_objects_def form_key_def or_default_def norm_simps\<close>)
qed

text \<open>Columns and methods, whose scope is not tested for a blank.\<close>

lemma new_column_adds:
  assumes "new_column ec oid form d = Inr d'" "distinct (map dt_Name (ad_Tables d))"
  shows "adds (Object ''column'' (lower_value form ''table_name'') (lower_value form ''name'')) d d' \<and>
    lower_value form ''table_name'' \<in> set (map dt_Name (ad_Tables d)) \<and> lower_value form ''name'' \<noteq> []"
proof -
  note r = assms(1)[unfolded new_column_def]
  have "adds (Object ''column'' (lower_value form ''table_name'') (lower_value form ''name'')) d d' \<and>
      lower_value form ''table_name'' \<in> set (map dt_Name (ad_Tables d))"
    by (rule table_part_added[OF r assms(2)])
      (auto simp: part_kinds_def table_objects_def and_then_Inr Let_def new_among_def name_taken_def list_ex_iff split: if_splits)
  moreover from r have "lower_value form ''name'' \<noteq> []"
    by (auto simp: requireDefinitionTable_def and_then_Inr Let_def elim!: edit_firstE split: if_splits)
  ultimately show ?thesis by simp
qed

lemma new_method_adds:
  assumes "new_method ec oid form d = Inr d'" "distinct (map sv_Name (ad_Services d))"
  shows "adds (Object ''method'' (lower_value form ''service_name'') (text_value form ''name'')) d d' \<and>
    lower_value form ''service_name'' \<in> set (map sv_Name (ad_Services d)) \<and> text_value form ''name'' \<noteq> []"
proof -
  let ?b = "Object ''method'' (lower_value form ''service_name'') (text_value form ''name'')"
  from assms(1) obtain as x bs m where s: "ad_Services d = as @ x # bs" "sv_Name x = lower_value form ''service_name''"
    "d' = d\<lparr>ad_Services := as @ x\<lparr>sv_Methods := sv_Methods x @ [m]\<rparr> # bs\<rparr>" "me_Name m = text_value form ''name''"
    "text_value form ''name'' \<noteq> []" "\<not> name_taken (map me_Name (sv_Methods x)) (text_value form ''name'')"
    by (fastforce simp: new_method_def requireDefinitionServiceByName_def and_then_Inr add_entry_Inr elim!: edit_firstE)
  have "new_among ?b (objects d)"
    unfolding new_among_def
  proof (intro ballI impI)
    fix z assume z: "z \<in> set (objects d)" "object_kind z = object_kind ?b \<and> object_scope z = object_scope ?b"
    then obtain sv where "sv \<in> set (ad_Services d)" "sv_Name sv = lower_value form ''service_name''" "z \<in> set (service_objects sv)"
      by (auto simp: objects_def table_objects_def service_objects_def)
    moreover have "x \<in> set (ad_Services d)" using s(1) by simp
    ultimately have "sv = x" "z \<in> set (service_objects sv)" using assms(2) s(2) by (metis distinct_map inj_onD, metis)
    then show "\<not> EqualFold (object_name z) (object_name ?b)"
      using s(6) z(2) by (auto simp: service_objects_def name_taken_def list_ex_iff)
  qed
  with s show ?thesis by (simp add: adds_def objects_def service_objects_def)
qed

section \<open>The ids of new objects\<close>

lemmas id_simps = resolveSavedObjectID_def named_object_def id_starts_def HasPrefix_def lowered_def Let_def

lemma lower_text: "ToLower (text_value form key) = lower_value form key"
  by (simp add: TrimSpace_ToLower)

lemma in_app_named:
  assumes "CHR '':'' \<notin> set app" "n \<noteq> []" "trim_lower n = n"
  shows "named_object (''role:'' @ app @ '':'' @ n) = Some (Object ''role'' [] n)"
    "named_object (''dependency:'' @ app @ '':'' @ n) = Some (Object ''dependency'' [] n)"
    "named_object (''service:'' @ app @ '':'' @ n) = Some (Object ''service'' [] n)"
    "named_object (''endpoint:'' @ app @ '':'' @ n) = Some (Object ''endpoint'' [] n)"
    "named_object (''trigger:'' @ app @ '':'' @ n) = Some (Object ''trigger'' [] n)"
    "named_object (''schedule:'' @ app @ '':'' @ n) = Some (Object ''schedule'' [] n)"
    "named_object (''page:'' @ app @ '':'' @ n) = Some (Object ''page'' [] n)"
    "named_object (''client-script:'' @ app @ '':'' @ n) = Some (Object ''client script'' [] n)"
    "named_object (''documentation:'' @ app @ '':'' @ n) = Some (Object ''documentation'' [] n)"
  using assms in_app_id[OF assms(1), of _ "''role:''" n] in_app_id[OF assms(1), of _ "''dependency:''" n]
    in_app_id[OF assms(1), of _ "''service:''" n] in_app_id[OF assms(1), of _ "''endpoint:''" n]
    in_app_id[OF assms(1), of _ "''trigger:''" n] in_app_id[OF assms(1), of _ "''schedule:''" n]
    in_app_id[OF assms(1), of _ "''page:''" n] in_app_id[OF assms(1), of _ "''client-script:''" n]
    in_app_id[OF assms(1), of _ "''documentation:''" n]
  by (simp_all add: named_object_def id_starts_def HasPrefix_def)

lemma in_table_named:
  assumes "CHR '':'' \<notin> set tn" "tn \<noteq> []" "n \<noteq> []" "trim_lower tn = tn" "trim_lower n = n"
  shows "named_object (''column:'' @ tn @ '':'' @ n) = Some (Object ''column'' tn n)"
    "named_object (''table-data-policy:'' @ tn @ '':'' @ n) = Some (Object ''data policy'' tn n)"
    "named_object (''table-trigger:'' @ tn @ '':'' @ n) = Some (Object ''table trigger'' tn n)"
    "named_object (''table-related-list:'' @ tn @ '':'' @ n) = Some (Object ''related list'' tn n)"
    "named_object (''table-security-rule:'' @ tn @ '':'' @ n) = Some (Object ''security rule'' tn n)"
  using assms in_table_id[OF assms(1-3), of _ "''table-data-policy:''"] in_table_id[OF assms(1-3), of _ "''table-trigger:''"]
    in_table_id[OF assms(1-3), of _ "''table-related-list:''"] in_table_id[OF assms(1-3), of _ "''table-security-rule:''"]
  by (simp_all add: named_object_def id_starts_def HasPrefix_def parseAppEditorColumnID_def TrimPrefix_def cut1_append)

lemma table_form_named:
  assumes "IsSafeIdentifier tn" "n \<noteq> []" "trim_lower tn = tn" "trim_lower n = n"
  shows "named_object (''tableform:'' @ tn @ '':'' @ n) = Some (Object ''table form'' tn n)"
proof -
  have "tn \<noteq> []" using assms(1) by (auto simp: IsSafeIdentifier_def)
  have low: "ToLower tn = tn" "ToLower n = n" "TrimSpace n = n" using assms(3,4) by (metis TrimSpace_ToLower ToLower_idem TrimSpace_idem)+
  have "TrimSpace ((tn @ '':'') @ n) = (tn @ '':'') @ n"
    by (rule TrimSpace_after_plain) (use assms(2) low(3) safe_plain[OF assms(1)] in \<open>auto simp: plain_byte_def\<close>)
  with low have "trim_lower (tn @ CHR '':'' # n) = tn @ CHR '':'' # n" by (simp add: ToLower_def lower_byte_def is_upper_byte_def)
  then have "parseLegacyTableFormID (tn @ CHR '':'' # n) = Some (tn, n)"
    using \<open>tn \<noteq> []\<close> assms(2) cut1_append[OF safe_no_colon[OF assms(1)]] by (simp add: parseLegacyTableFormID_def)
  then show ?thesis by (simp add: named_object_def id_starts_def HasPrefix_def TrimPrefix_def)
qed

lemma method_named:
  assumes "CHR '':'' \<notin> set app" "CHR '':'' \<notin> set sn" "trim_lower sn = sn" "trim_lower n = n"
  shows "named_object (''method:'' @ app @ '':'' @ sn @ '':'' @ n) = Some (Object ''method'' sn n)"
  using assms cut1_append[OF assms(1)] cut1_append[OF assms(2)]
  by (simp add: named_object_def id_starts_def HasPrefix_def parseAppEditorMethodID_def split3_def TrimPrefix_def)

lemma slug_lower: "simplePageSlugPattern s \<Longrightarrow> ToLower s = s \<and> trim_lower s = s"
proof -
  assume "simplePageSlugPattern s"
  then have t: "list_all slug_tail s" by (auto simp: simplePageSlugPattern_def slug_tail_def split: list.splits)
  then have "ToLower s = s"
    by (auto simp: ToLower_def list_all_iff slug_tail_def slug_head_def lower_byte_def is_upper_byte_def is_lower_byte_def is_digit_byte_def
        intro!: map_idI)
  moreover have "TrimSpace s = s"
    by (rule TrimSpace_plain) (use t in \<open>auto simp: list_all_iff slug_tail_def slug_head_def plain_byte_def is_lower_byte_def is_digit_byte_def\<close>)
  ultimately show ?thesis by simp
qed

lemma title_slug: "pageSlugFromTitle (TrimSpace v) = pageSlugFromTitle v"
  by (simp add: pageSlugFromTitle_def norm_simps)

lemma title_slug_lower: "ToLower (pageSlugFromTitle v) = pageSlugFromTitle v \<and> trim_lower (pageSlugFromTitle v) = pageSlugFromTitle v"
proof -
  have "pageSlugFromTitle v = [] \<or> simplePageSlugPattern (pageSlugFromTitle v)" by (simp add: pageSlugFromTitle_def Let_def)
  then show ?thesis using slug_lower by auto
qed

section \<open>Creations refine additions\<close>

lemma lower_again: "trim_lower (lower_value form key) = lower_value form key" "ToLower (lower_value form key) = lower_value form key"
  by (simp_all add: norm_simps)

lemma section_created:
  assumes "CHR '':'' \<notin> set (lower_value form ''app_name'')"
  shows "new_table oid form d = Inr d' \<Longrightarrow> created ''new:table'' form d d'"
    "new_role oid form d = Inr d' \<Longrightarrow> created ''new:role'' form d d'"
    "new_dependency oid form d = Inr d' \<Longrightarrow> created ''new:dependency'' form d d'"
    "new_service oid form d = Inr d' \<Longrightarrow> created ''new:service'' form d d'"
    "new_endpoint ec oid form d = Inr d' \<Longrightarrow> created ''new:endpoint'' form d d'"
    "new_trigger oid form d = Inr d' \<Longrightarrow> created ''new:trigger'' form d d'"
    "new_schedule oid form d = Inr d' \<Longrightarrow> created ''new:schedule'' form d d'"
    "new_documentation oid form d = Inr d' \<Longrightarrow> created ''new:documentation'' form d d'"
proof -
  let ?n = "lower_value form ''name''"
  have empty: "text_value form ''name'' \<noteq> [] \<longleftrightarrow> ?n \<noteq> []" by (metis lower_text ToLower_eq_Nil)
  note ids = in_app_named[OF assms _ lower_again(1)[of form "''name''"]]
  have named: "lowered (Object k s (text_value form ''name'')) = Object k s ?n" "lowered (Object k s ?n) = Object k s ?n" for k s
    using lower_text lower_again(2) by (simp_all add: lowered_def)
  show "new_table oid form d = Inr d' \<Longrightarrow> created ''new:table'' form d d'"
    by (drule new_table_adds, rule createdI, erule conjunct1)
      (simp add: named resolveSavedObjectID_def named_object_def id_starts_def HasPrefix_def TrimPrefix_def lower_again)
  show "new_role oid form d = Inr d' \<Longrightarrow> created ''new:role'' form d d'"
    by (drule new_role_adds, rule createdI, erule conjunct1) (use ids(1) empty in \<open>simp add: named resolveSavedObjectID_def\<close>)
  show "new_dependency oid form d = Inr d' \<Longrightarrow> created ''new:dependency'' form d d'"
    by (drule new_dependency_adds, rule createdI, erule conjunct1) (use ids(2) in \<open>simp add: named resolveSavedObjectID_def\<close>)
  show "new_service oid form d = Inr d' \<Longrightarrow> created ''new:service'' form d d'"
    by (drule new_service_adds, rule createdI, erule conjunct1) (use ids(3) empty in \<open>simp add: named resolveSavedObjectID_def\<close>)
  show "new_endpoint ec oid form d = Inr d' \<Longrightarrow> created ''new:endpoint'' form d d'"
    by (drule new_endpoint_adds, rule createdI, erule conjunct1) (use ids(4) empty in \<open>simp add: named resolveSavedObjectID_def\<close>)
  show "new_trigger oid form d = Inr d' \<Longrightarrow> created ''new:trigger'' form d d'"
    by (drule new_trigger_adds, rule createdI, erule conjunct1) (use ids(5) empty in \<open>simp add: named resolveSavedObjectID_def\<close>)
  show "new_schedule oid form d = Inr d' \<Longrightarrow> created ''new:schedule'' form d d'"
    by (drule new_schedule_adds, rule createdI, erule conjunct1) (use ids(6) empty in \<open>simp add: named resolveSavedObjectID_def\<close>)
  show "new_documentation oid form d = Inr d' \<Longrightarrow> created ''new:documentation'' form d d'"
    by (drule new_documentation_adds, rule createdI, erule conjunct1) (use ids(9) in \<open>simp add: named resolveSavedObjectID_def\<close>)
qed

lemma part_created:
  assumes "definition_ok d"
  shows "new_column ec oid form d = Inr d' \<Longrightarrow> created ''new:column'' form d d'"
    "new_form oid form d = Inr d' \<Longrightarrow> created ''new:form'' form d d'"
    "new_data_policy oid form d = Inr d' \<Longrightarrow> created ''new:data-policy'' form d d'"
    "new_table_trigger oid form d = Inr d' \<Longrightarrow> created ''new:table-trigger'' form d d'"
    "new_related_list ec oid form d = Inr d' \<Longrightarrow> created ''new:related-list'' form d d'"
    "new_security_rule oid form d = Inr d' \<Longrightarrow> created ''new:security-rule'' form d d'"
proof -
  let ?n = "lower_value form ''name''" and ?tn = "lower_value form ''table_name''"
  have dist: "distinct (map dt_Name (ad_Tables d))" and safe: "\<And>tn. tn \<in> set (map dt_Name (ad_Tables d)) \<Longrightarrow> IsSafeIdentifier tn"
    using assms by (auto simp: definition_ok_def names_ok_def list_all_iff)
  have named: "lowered (Object k s ?n) = Object k s ?n" for k s using lower_again(2) by (simp add: lowered_def)
  have ids: "tn \<in> set (map dt_Name (ad_Tables d)) \<Longrightarrow> CHR '':'' \<notin> set tn \<and> tn \<noteq> []" for tn
    using safe safe_no_colon by (fastforce simp: IsSafeIdentifier_def)
  note table_ids = in_table_named[OF _ _ _ lower_again(1) lower_again(1), of form "''table_name''" form "''name''"]
  show "new_column ec oid form d = Inr d' \<Longrightarrow> created ''new:column'' form d d'"
    by (drule new_column_adds[OF _ dist], rule createdI, erule conjunct1) (use ids[of ?tn] table_ids(1) in \<open>simp add: named resolveSavedObjectID_def\<close>)
  show "new_form oid form d = Inr d' \<Longrightarrow> created ''new:form'' form d d'"
    by (drule new_form_adds[OF _ assms], rule createdI, erule conjunct1)
      (use table_form_named[OF safe _ lower_again(1) lower_again(1), of form "''table''" form "''name''"] in \<open>simp add: named resolveSavedObjectID_def\<close>)
  show "new_data_policy oid form d = Inr d' \<Longrightarrow> created ''new:data-policy'' form d d'"
    by (drule new_data_policy_adds[OF _ dist], rule createdI, erule conjunct1) (use ids[of ?tn] table_ids(2) in \<open>simp add: named resolveSavedObjectID_def\<close>)
  show "new_table_trigger oid form d = Inr d' \<Longrightarrow> created ''new:table-trigger'' form d d'"
    by (drule new_table_trigger_adds[OF _ dist], rule createdI, erule conjunct1) (use ids[of ?tn] table_ids(3) in \<open>simp add: named resolveSavedObjectID_def\<close>)
  show "new_related_list ec oid form d = Inr d' \<Longrightarrow> created ''new:related-list'' form d d'"
    by (drule new_related_list_adds[OF _ dist], rule createdI, erule conjunct1) (use ids[of ?tn] table_ids(4) in \<open>simp add: named resolveSavedObjectID_def\<close>)
  show "new_security_rule oid form d = Inr d' \<Longrightarrow> created ''new:security-rule'' form d d'"
    by (drule new_security_rule_adds[OF _ dist], rule createdI, erule conjunct1) (use ids[of ?tn] table_ids(5) in \<open>simp add: named resolveSavedObjectID_def\<close>)
qed

lemma app_created:
  assumes "definition_ok d" "CHR '':'' \<notin> set (lower_value form ''app_name'')"
  shows "new_method ec oid form d = Inr d' \<Longrightarrow> lower_value form ''app_name'' \<noteq> [] \<Longrightarrow> created ''new:method'' form d d'"
    "new_client_script oid form d = Inr d' \<Longrightarrow> lower_value form ''app_name'' \<noteq> [] \<Longrightarrow> created ''new:client-script'' form d d'"
    "new_page oid form d = Inr d' \<Longrightarrow> created ''new:page'' form d d'"
proof -
  let ?n = "lower_value form ''name''" and ?sn = "lower_value form ''service_name''"
  have dist: "distinct (map sv_Name (ad_Services d))" and safe: "\<And>sn. sn \<in> set (map sv_Name (ad_Services d)) \<Longrightarrow> CHR '':'' \<notin> set sn \<and> sn \<noteq> []"
    using assms(1) safe_no_colon by (fastforce simp: definition_ok_def names_ok_def list_all_iff IsSafeIdentifier_def)+
  have empty: "text_value form ''name'' \<noteq> [] \<longleftrightarrow> ?n \<noteq> []" by (metis lower_text ToLower_eq_Nil)
  have named: "lowered (Object k s (text_value form ''name'')) = Object k s ?n" "lowered (Object k s ?n) = Object k s ?n" for k s
    using lower_text lower_again(2) by (simp_all add: lowered_def)
  show "new_method ec oid form d = Inr d' \<Longrightarrow> lower_value form ''app_name'' \<noteq> [] \<Longrightarrow> created ''new:method'' form d d'"
    by (drule new_method_adds[OF _ dist], rule createdI, erule conjunct1)
      (use safe[of ?sn] empty method_named[OF assms(2) _ lower_again(1) lower_again(1), of form "''service_name''" form "''name''"]
        in \<open>simp add: named resolveSavedObjectID_def\<close>)
  show "new_client_script oid form d = Inr d' \<Longrightarrow> lower_value form ''app_name'' \<noteq> [] \<Longrightarrow> created ''new:client-script'' form d d'"
    by (drule new_client_script_adds, rule createdI, erule conjunct1)
      (use in_app_named(8)[OF assms(2) _ lower_again(1)[of form "''name''"]] in \<open>simp add: named resolveSavedObjectID_def\<close>)
  let ?slug = "pageSlugFromTitle (formValue form ''title'')"
  note slug = title_slug_lower[of "formValue form ''title''"]
  show "new_page oid form d = Inr d' \<Longrightarrow> created ''new:page'' form d d'"
    by (drule new_page_adds, rule createdI, erule conjunct1)
      (use in_app_named(7)[OF assms(2) _ slug[THEN conjunct2]] slug[THEN conjunct1] in
        \<open>simp add: lowered_def title_slug resolveSavedObjectID_def\<close>)
qed

lemma case_elim:
  "(if g oid then a else b) = Inr d' \<Longrightarrow> (g oid \<Longrightarrow> a = Inr d' \<Longrightarrow> P) \<Longrightarrow> (b = Inr d' \<Longrightarrow> P) \<Longrightarrow> P"
  by (simp split: if_splits)

lemma clash: "id_starts (c # p) oid \<Longrightarrow> HasPrefix oid (e # q) \<Longrightarrow> c = e"
  by (cases oid) (auto simp: id_starts_def HasPrefix_def)

text \<open>
  C38: a creation on a well-formed draft adds exactly one object: no object of its kind has the name in its
  place yet, all others stay, and the id of the answer names the new object.
\<close>

theorem creation_adds_one:
  assumes "edit_object ec app oid form d = Inr d'" "HasPrefix oid ''new:''" "definition_ok d"
    and "lower_value form ''app_name'' \<noteq> []" "CHR '':'' \<notin> set (lower_value form ''app_name'')"
  shows "created oid form d d'"
proof -
  note no_prefix = clash[OF _ assms(2)]
  have "edit_object ec app oid form d = Inr d' \<Longrightarrow> created oid form d d'"
    unfolding edit_object_def editor_cases_def table_edits_def behaviour_edits_def section_edits_def append.simps first_case.simps
    by ((erule case_elim, (drule no_prefix, simp; fail | simp add: id_is_def section_created[OF assms(5)] part_created[OF assms(3)]
      app_created[OF assms(3,5)] assms(4); fail))+, simp)
  with assms(1) show ?thesis by simp
qed

section \<open>Edits\<close>

text \<open>The ids whose forms have no say in what objects there are.\<close>

definition kept_prefixes :: "string list" where
  "kept_prefixes = [''form:'', ''form-layout:'', ''form-actions:'', ''form-security:'', ''tableform:'', ''tableform-layout:'',
     ''tableform-actions:'', ''tableform-security:'', ''table-data-policy:'', ''table-trigger:'', ''table-related-list:'', ''column:'',
     ''role:'', ''service:'', ''method:'', ''endpoint:'', ''trigger:'', ''schedule:'', ''page:'', ''page-layout:'', ''page-actions:'',
     ''page-security:'', ''client-script:'', ''client-script-code:'', ''seed:'', ''documentation:'', ''documentation-content:'',
     ''documentation-category:'', ''documentation-visibility:'', ''documentation-related:'']"

definition keeps_objects :: "string \<Rightarrow> bool" where
  "keeps_objects oid \<longleftrightarrow> list_ex (\<lambda>p. id_starts p oid) kept_prefixes"

lemma part_kept:
  assumes "requireDefinitionTable tn f d = Inr d'" "\<And>t t'. f t = Inr t' \<Longrightarrow> table_objects t' = table_objects t"
  shows "objects d' = objects d"
  using assms by (auto simp: requireDefinitionTable_def and_then_Inr objects_def elim!: edit_firstE)

lemma form_kept: "requireDefinitionFormAsset oid pre f d = Inr d' \<Longrightarrow> (\<And>g g'. f g = Inr g' \<Longrightarrow> af_Name g' = af_Name g) \<Longrightarrow> objects d' = objects d"
  by (auto simp: requireDefinitionFormAsset_def Let_def and_then_Inr objects_def elim!: edit_firstE)

lemma table_form_kept:
  assumes "requireDefinitionLegacyTableForm oid pre f d = Inr d'" "\<And>g g'. f g = Inr g' \<Longrightarrow> fo_Name g' = fo_Name g"
  shows "objects d' = objects d"
proof -
  from assms(1) obtain tn n where "requireDefinitionTable tn (\<lambda>t.
      and_then (edit_first (ObjectMissing ''form'' n tn) (\<lambda>g. form_key g = n) f (dt_Forms t)) (\<lambda>fs. Inr (t\<lparr>dt_Forms := fs\<rparr>))) d = Inr d'"
    by (auto simp: requireDefinitionLegacyTableForm_def split: option.splits)
  then show ?thesis
    by (rule part_kept) (use assms(2) in \<open>auto simp: and_then_Inr table_objects_def form_key_def elim!: edit_firstE\<close>)
qed

lemma service_kept:
  "requireDefinitionServiceByName n f d = Inr d' \<Longrightarrow> (\<And>s s'. f s = Inr s' \<Longrightarrow> service_objects s' = service_objects s) \<Longrightarrow> objects d' = objects d"
  by (auto simp: requireDefinitionServiceByName_def and_then_Inr objects_def elim!: edit_firstE)

lemma page_kept: "requireDefinitionPage oid pre f d = Inr d' \<Longrightarrow> (\<And>p p'. f p = Inr p' \<Longrightarrow> pg_Slug p' = pg_Slug p) \<Longrightarrow> objects d' = objects d"
  by (auto simp: requireDefinitionPage_def scoped_Inr and_then_Inr objects_def elim!: edit_firstE)

lemma script_kept: "requireDefinitionClientScript oid pre f d = Inr d' \<Longrightarrow> (\<And>s. cs_Name (f s) = cs_Name s) \<Longrightarrow> objects d' = objects d"
  by (auto simp: requireDefinitionClientScript_def scoped_Inr and_then_Inr objects_def elim!: edit_firstE)

lemma article_kept:
  "requireDefinitionDocumentation oid pre f d = Inr d' \<Longrightarrow> (\<And>a a'. f a = Inr a' \<Longrightarrow> do_Name a' = do_Name a) \<Longrightarrow> objects d' = objects d"
  by (auto simp: requireDefinitionDocumentation_def scoped_Inr and_then_Inr objects_def elim!: edit_firstE)

lemma seed_kept: "requireDefinitionSeed oid f d = Inr d' \<Longrightarrow> (\<And>s s'. f s = Inr s' \<Longrightarrow> sd_Table s' = sd_Table s) \<Longrightarrow> objects d' = objects d"
  by (auto simp: requireDefinitionSeed_def and_then_Inr objects_def split: list.splits elim!: edit_firstE)

lemma asset_edits_keep:
  "save_asset_form oid form d = Inr d' \<Longrightarrow> objects d' = objects d"
  "save_asset_layout ec oid form d = Inr d' \<Longrightarrow> objects d' = objects d"
  "save_asset_actions ec oid form d = Inr d' \<Longrightarrow> objects d' = objects d"
  "save_asset_security ec oid form d = Inr d' \<Longrightarrow> objects d' = objects d"
  unfolding save_asset_form_def save_asset_layout_def save_asset_actions_def save_asset_security_def
  by (erule form_kept; auto simp: and_then_Inr)+

lemma table_form_edits_keep:
  "save_table_form oid form d = Inr d' \<Longrightarrow> objects d' = objects d"
  "save_table_form_layout ec oid form d = Inr d' \<Longrightarrow> objects d' = objects d"
  "save_table_form_actions ec oid form d = Inr d' \<Longrightarrow> objects d' = objects d"
  "save_table_form_security ec oid form d = Inr d' \<Longrightarrow> objects d' = objects d"
  unfolding save_table_form_def save_table_form_layout_def save_table_form_actions_def save_table_form_security_def
  by (erule table_form_kept; auto simp: and_then_Inr)+

lemma part_edits_keep:
  "save_data_policy oid form d = Inr d' \<Longrightarrow> objects d' = objects d"
  "save_table_trigger oid form d = Inr d' \<Longrightarrow> objects d' = objects d"
  "save_related_list ec oid form d = Inr d' \<Longrightarrow> objects d' = objects d"
  "save_column ec oid form d = Inr d' \<Longrightarrow> objects d' = objects d"
  unfolding save_data_policy_def save_table_trigger_def save_related_list_def save_column_def
  by (auto simp: table_scoped_Inr and_then_Inr table_objects_def form_trigger_def split: option.splits elim!: part_kept edit_firstE)

lemma behaviour_edits_keep:
  "save_role oid form d = Inr d' \<Longrightarrow> objects d' = objects d"
  "save_endpoint ec oid form d = Inr d' \<Longrightarrow> objects d' = objects d"
  "save_trigger oid form d = Inr d' \<Longrightarrow> objects d' = objects d"
  "save_schedule oid form d = Inr d' \<Longrightarrow> objects d' = objects d"
  unfolding save_role_def save_endpoint_def save_trigger_def save_schedule_def
  by (auto simp: scoped_Inr and_then_Inr objects_def form_endpoint_def form_trigger_def form_schedule_def elim!: edit_firstE)

lemma service_edits_keep:
  "save_service oid form d = Inr d' \<Longrightarrow> objects d' = objects d"
  "save_method ec oid form d = Inr d' \<Longrightarrow> objects d' = objects d"
  unfolding save_service_def save_method_def
  by (auto simp: scoped_Inr and_then_Inr service_objects_def split: option.splits elim!: service_kept edit_firstE)

lemma page_edits_keep:
  "save_page oid form d = Inr d' \<Longrightarrow> objects d' = objects d"
  "save_page_layout oid form d = Inr d' \<Longrightarrow> objects d' = objects d"
  "save_page_actions ec oid form d = Inr d' \<Longrightarrow> objects d' = objects d"
  "save_page_security ec oid form d = Inr d' \<Longrightarrow> objects d' = objects d"
  unfolding save_page_def save_page_layout_def save_page_actions_def save_page_security_def Let_def
  by (erule page_kept; auto simp: and_then_Inr split: if_splits)+

lemma other_edits_keep:
  "save_client_script oid form d = Inr d' \<Longrightarrow> objects d' = objects d"
  "save_client_script_code oid form d = Inr d' \<Longrightarrow> objects d' = objects d"
  "save_seed ec oid form d = Inr d' \<Longrightarrow> objects d' = objects d"
  unfolding save_client_script_def save_client_script_code_def save_seed_def
  by ((erule script_kept | erule seed_kept); auto simp: and_then_Inr)+

lemma article_edits_keep:
  "save_documentation oid form d = Inr d' \<Longrightarrow> objects d' = objects d"
  "save_documentation_content oid form d = Inr d' \<Longrightarrow> objects d' = objects d"
  "save_documentation_category oid form d = Inr d' \<Longrightarrow> objects d' = objects d"
  "save_documentation_visibility oid form d = Inr d' \<Longrightarrow> objects d' = objects d"
  "save_documentation_related ec oid form d = Inr d' \<Longrightarrow> objects d' = objects d"
  unfolding save_documentation_def save_documentation_content_def save_documentation_category_def save_documentation_visibility_def
    save_documentation_related_def
  by (erule article_kept; auto simp: and_then_Inr)+

lemmas edits_keep = asset_edits_keep table_form_edits_keep part_edits_keep behaviour_edits_keep service_edits_keep page_edits_keep
  other_edits_keep article_edits_keep

lemma not_kept:
  assumes "id_starts p oid" "list_all (\<lambda>q. \<not> prefix p q \<and> \<not> prefix q p) kept_prefixes"
  shows "\<not> keeps_objects oid"
proof
  assume "keeps_objects oid"
  then obtain q where "q \<in> set kept_prefixes" "prefix q oid" by (auto simp: keeps_objects_def list_ex_iff id_starts_def HasPrefix_def)
  with assms show False by (auto simp: id_starts_def HasPrefix_def list_all_iff dest: prefix_same_cases)
qed

lemma not_kept_id: "id_is p oid \<Longrightarrow> list_all (\<lambda>q. \<not> prefix q p) kept_prefixes \<Longrightarrow> \<not> keeps_objects oid"
  by (auto simp: id_is_def keeps_objects_def list_ex_iff list_all_iff id_starts_def HasPrefix_def)

lemma other_cases:
  "id_starts ''application:'' oid \<Longrightarrow> \<not> keeps_objects oid" "id_starts ''yaml:'' oid \<Longrightarrow> \<not> keeps_objects oid"
  "id_starts ''table:'' oid \<Longrightarrow> \<not> keeps_objects oid" "id_starts ''table-security-rule:'' oid \<Longrightarrow> \<not> keeps_objects oid"
  "id_starts ''dependency:'' oid \<Longrightarrow> \<not> keeps_objects oid" "id_starts ''table-data-policies:'' oid \<Longrightarrow> \<not> keeps_objects oid"
  "id_starts ''table-triggers:'' oid \<Longrightarrow> \<not> keeps_objects oid" "id_starts ''table-related-lists:'' oid \<Longrightarrow> \<not> keeps_objects oid"
  "id_starts ''table-security:'' oid \<Longrightarrow> \<not> keeps_objects oid"
  by (erule not_kept; simp add: kept_prefixes_def)+

lemma new_cases: "id_is (''new:'' @ k) oid \<Longrightarrow> \<not> keeps_objects oid"
  by (erule not_kept_id) (simp add: kept_prefixes_def)

lemma new_case: "id_is p oid \<Longrightarrow> HasPrefix p ''new:'' \<Longrightarrow> \<not> keeps_objects oid"
  using new_cases by (auto simp: HasPrefix_def prefix_def)

text \<open>
  An edit of an object that is there renames, adds, drops and reorders nothing: the definition has the same
  objects in the same order. The exceptions are the forms that name objects themselves: those of the application
  and its YAML, of a table and its sections, of a dependency and of a security rule.
\<close>

theorem edits_keep_objects:
  assumes "edit_object ec app oid form d = Inr d'" "keeps_objects oid"
  shows "objects d' = objects d"
proof -
  have "edit_object ec app oid form d = Inr d' \<Longrightarrow> keeps_objects oid \<Longrightarrow> objects d' = objects d"
    unfolding edit_object_def editor_cases_def table_edits_def behaviour_edits_def section_edits_def append.simps first_case.simps
    by ((erule case_elim, (erule edits_keep | (drule other_cases, simp; fail) | (drule new_case, simp add: HasPrefix_def, simp; fail)))+, simp)
  with assms show ?thesis by simp
qed

section \<open>Seeds\<close>

text \<open>
  An edit of a seed does not look at the index in its id: of several seeds of a table it always changes
  the first, whichever was opened, while a deletion removes the one of the index.
\<close>

theorem seed_edit_ignores_index:
  assumes "CHR '':'' \<notin> set a" "CHR '':'' \<notin> set t"
  shows "save_seed ec (''seed:'' @ a @ '':'' @ t @ '':'' @ i) form d = save_seed ec (''seed:'' @ a @ '':'' @ t @ '':'' @ j) form d"
  using cut1_append[OF assms(1)] cut1_append[OF assms(2)]
  by (simp add: save_seed_def requireDefinitionSeed_def TrimPrefix_def split3_def)

end
