(* ===== verification/AppDraftsLaws.thy ===== *)
theory AppDraftsLaws
  imports AppDrafts AppEditorLaws
begin

text \<open>
  What the requests of the app editor do to the table of apps: a request that fails leaves it alone, one that
  succeeds stores a validated definition as the draft of the app and touches nothing else of its rows; and what
  happens when the name of one app is the namespace of another.
\<close>

section \<open>Names\<close>

text \<open>Only the YAML of an application names it.\<close>

lemma part_name: "requireDefinitionTable tn f d = Inr d' \<Longrightarrow> ad_Name d' = ad_Name d"
  by (auto simp: requireDefinitionTable_def and_then_Inr)

lemma required_name:
  "requireDefinitionFormAsset oid pre g d = Inr d' \<Longrightarrow> ad_Name d' = ad_Name d"
  "requireDefinitionServiceByName n h d = Inr d' \<Longrightarrow> ad_Name d' = ad_Name d"
  "requireDefinitionPage oid pre p d = Inr d' \<Longrightarrow> ad_Name d' = ad_Name d"
  "requireDefinitionClientScript oid pre s d = Inr d' \<Longrightarrow> ad_Name d' = ad_Name d"
  "requireDefinitionDocumentation oid pre a d = Inr d' \<Longrightarrow> ad_Name d' = ad_Name d"
  "requireDefinitionSeed oid q d = Inr d' \<Longrightarrow> ad_Name d' = ad_Name d"
  by (auto simp: requireDefinitionFormAsset_def requireDefinitionServiceByName_def requireDefinitionPage_def
    requireDefinitionClientScript_def requireDefinitionDocumentation_def requireDefinitionSeed_def scoped_Inr and_then_Inr Let_def
    split: list.splits)

lemma legacy_form_name: "requireDefinitionLegacyTableForm oid pre f d = Inr d' \<Longrightarrow> ad_Name d' = ad_Name d"
  by (auto simp: requireDefinitionLegacyTableForm_def split: option.splits dest: part_name)

lemmas name_rules = part_name required_name legacy_form_name
lemmas name_simps = scoped_Inr table_scoped_Inr and_then_Inr

lemma deletions_keep_name: "delete_object oid d = Inr d' \<Longrightarrow> ad_Name d' = ad_Name d"
  unfolding delete_object_def delete_cases_def first_removal.simps
  by (simp split: if_splits add: delete_table_def delete_column_def delete_asset_form_def delete_table_form_def delete_data_policy_def
    delete_table_trigger_def delete_related_list_def delete_security_rule_def delete_role_def delete_service_def delete_method_def
    delete_trigger_def delete_schedule_def delete_dependency_def delete_page_def delete_endpoint_def delete_client_script_def
    delete_seed_def delete_documentation_def;
    auto simp: name_simps Let_def split: option.splits if_splits dest: name_rules)

lemmas edit_defs = save_application_def new_dependency_def save_dependency_def new_table_def save_table_def new_column_def
  save_column_def new_form_def new_data_policy_def new_table_trigger_def new_related_list_def new_security_rule_def save_data_policy_def
  save_table_trigger_def save_related_list_def save_security_rule_def save_data_policies_def save_table_triggers_def
  save_related_lists_def save_table_security_def save_asset_form_def save_asset_layout_def save_asset_actions_def save_asset_security_def
  save_table_form_def save_table_form_layout_def save_table_form_actions_def save_table_form_security_def new_role_def save_role_def
  new_service_def save_service_def new_method_def save_method_def new_endpoint_def save_endpoint_def new_trigger_def save_trigger_def
  new_schedule_def save_schedule_def save_page_def new_page_def save_page_layout_def save_page_actions_def save_page_security_def
  new_client_script_def save_client_script_def save_client_script_code_def save_seed_def new_documentation_def save_documentation_def
  save_documentation_content_def save_documentation_category_def save_documentation_visibility_def save_documentation_related_def

lemma new_part_name: "new_part key kind names add form d = Inr d' \<Longrightarrow> ad_Name d' = ad_Name d"
  by (auto simp: new_part_def Let_def split: if_splits dest: part_name)

lemma edits_keep_name:
  assumes "edit_object ec app oid form d = Inr d'" "\<not> HasPrefix oid ''yaml:''"
  shows "ad_Name d' = ad_Name d"
proof -
  have "edit_object ec app oid form d = Inr d' \<Longrightarrow> \<not> id_starts ''yaml:'' oid \<Longrightarrow> ad_Name d' = ad_Name d"
    unfolding edit_object_def editor_cases_def table_edits_def behaviour_edits_def section_edits_def append.simps first_case.simps
    by ((erule case_elim, (simp; fail | simp add: edit_defs; auto simp: name_simps Let_def split: option.splits if_splits
      dest: name_rules new_part_name; fail))+, simp)
  with assms show ?thesis by (simp add: id_starts_def)
qed

section \<open>What a save stores\<close>

lemma acceptableD:
  assumes "acceptable env apps app d0 = Inr (d, content)"
  shows "ad_Name d = ra_Name app" "ad_Namespace d = ra_Namespace app" "ec_marshal (de_codec env) d = Some content"
    and "validateAppDefinitionForApp (de_checkers env) (de_visit env) (Inr apps) app d = None"
  using assms by (auto simp: acceptable_def prepareDefinitionForApp_def Let_def split: sum.splits option.splits if_splits)

lemma SaveAppDefinition_InrE:
  assumes "SaveAppDefinition env rows n d0 = Inr rows'"
  obtains app apps d content where "GetActiveAppByName env rows n = Inr app" "listActiveAppsUncached env rows = Inr apps"
    "acceptable env apps app (landed env app d0) = Inr (d, content)" "list_ex (row_matches (ra_Name app)) rows"
    "rows' = map (\<lambda>r. if row_matches (ra_Name app) r then store_draft content r else r) rows"
  using assms by (auto simp: SaveAppDefinition_def and_then_Inr update_rows_def split: if_splits prod.splits)

lemma found_app:
  assumes "GetActiveAppByName env rows n = Inr app"
  obtains apps where "listActiveAppsUncached env rows = Inr apps" "app \<in> set apps"
proof -
  from assms obtain apps where a: "listActiveAppsUncached env rows = Inr apps"
    "findRegisteredAppByNameOrNamespace apps (trim_lower n) = Some app"
    by (auto simp: GetActiveAppByName_def and_then_Inr split: if_splits option.splits)
  from a(2) have "app \<in> set apps"
    by (auto simp: findRegisteredAppByNameOrNamespace_def findExactRegisteredAppByNameOrNamespace_def Let_def find_Some_iff
      split: option.splits if_splits)
  with a(1) show ?thesis by (rule that)
qed

text \<open>What a request may do to a row it writes: the draft is replaced, and its version rises when the text changes.\<close>

definition draft_stored :: "string \<Rightarrow> app_row \<Rightarrow> app_row \<Rightarrow> bool" where
  "draft_stored content r r' \<longleftrightarrow> aw_definition_yaml r' = content \<and>
     r'\<lparr>aw_definition_yaml := aw_definition_yaml r, aw_definition_version := aw_definition_version r\<rparr> = r \<and>
     (if content = aw_definition_yaml r then aw_definition_version r' = aw_definition_version r
      else aw_definition_version r < aw_definition_version r' \<and> aw_published_version r < aw_definition_version r')"

definition draft_saved :: "drafts_env \<Rightarrow> app_row list \<Rightarrow> app_row list \<Rightarrow> bool" where
  "draft_saved env rows rows' \<longleftrightarrow> (\<exists>apps app d content. listActiveAppsUncached env rows = Inr apps \<and> app \<in> set apps \<and>
     ad_Name d = ra_Name app \<and> ad_Namespace d = ra_Namespace app \<and>
     validateAppDefinitionForApp (de_checkers env) (de_visit env) (Inr apps) app d = None \<and>
     ec_marshal (de_codec env) d = Some content \<and> list_ex (row_matches (ra_Name app)) rows \<and>
     list_all2 (\<lambda>r r'. if row_matches (ra_Name app) r then draft_stored content r r' else r' = r) rows rows')"

lemma draft_stored_store: "draft_stored content r (store_draft content r)"
  by (simp add: draft_stored_def store_draft_def)

lemma save_saves:
  assumes "SaveAppDefinition env rows n d0 = Inr rows'"
  shows "draft_saved env rows rows'"
  using assms
proof (rule SaveAppDefinition_InrE)
  fix app apps d content
  assume g: "GetActiveAppByName env rows n = Inr app" "listActiveAppsUncached env rows = Inr apps"
    and a: "acceptable env apps app (landed env app d0) = Inr (d, content)"
    and m: "list_ex (row_matches (ra_Name app)) rows"
    and r: "rows' = map (\<lambda>r. if row_matches (ra_Name app) r then store_draft content r else r) rows"
  from g have "app \<in> set apps" by (auto elim: found_app)
  with g(2) m acceptableD[OF a] show ?thesis
    unfolding draft_saved_def r
    by (intro exI[of _ apps] exI[of _ app] exI[of _ d] exI[of _ content])
      (simp add: list.rel_map list.rel_refl draft_stored_store)
qed

lemma refused_Inr: "refused r = Inr x \<longleftrightarrow> r = Inr x"
  by (simp add: refused_def split: sum.split)

lemma object_saves:
  "saveAppEditorObject env rows n oid form = Inr rows' \<Longrightarrow> draft_saved env rows rows'"
  "deleteAppEditorObject env rows n oid = Inr rows' \<Longrightarrow> draft_saved env rows rows'"
  by (auto simp: saveAppEditorObject_def deleteAppEditorObject_def and_then_Inr split: if_splits option.splits dest: save_saves)

definition draft_request :: "drafts_env \<Rightarrow> app_row list \<Rightarrow> editor_answer \<times> app_row list \<Rightarrow> bool" where
  "draft_request env rows res \<longleftrightarrow> (case res of (RedirectTo app active, rows') \<Rightarrow> draft_saved env rows rows' | (_, rows') \<Rightarrow> rows' = rows)"


section \<open>Shared namespaces\<close>

text \<open>
  What the library of YAML documents: reading what was written gives the value that was written; and that the
  query of the apps answers rows of the table.
\<close>

definition faithful_env :: "drafts_env \<Rightarrow> bool" where
  "faithful_env env \<longleftrightarrow> (\<forall>d c. ec_marshal (de_codec env) d = Some c \<longrightarrow> TrimSpace c \<noteq> [] \<and> ec_unmarshal (de_codec env) (TrimSpace c) = Some d)
     \<and> (\<forall>rows. set (de_order env rows) \<subseteq> set rows)"

text \<open>The constraints of the table keep the names of its rows in this form.\<close>

definition plain_row :: "app_row \<Rightarrow> bool" where
  "plain_row r \<longleftrightarrow> aw_name r \<noteq> [] \<and> trim_lower (aw_name r) = aw_name r \<and> trim_lower (aw_namespace r) = aw_namespace r"

lemma normalized_name: "normalizeAppDefinition d = Inr d' \<Longrightarrow> ad_Name d' = trim_lower (ad_Name d)"
  by (elim normalizeAppDefinition_InrE) (simp add: normalize_behaviour_keeps normalize_header_def)

lemma parsed_name:
  assumes "faithful_env env" "ec_marshal (de_codec env) d = Some c" "ParseAppDefinition (de_codec env) c = Inr x"
  shows "\<exists>p. x = Some p \<and> ad_Name p = trim_lower (ad_Name d)"
proof -
  have "TrimSpace c \<noteq> []" "ec_unmarshal (de_codec env) (TrimSpace c) = Some d" using assms(1,2) by (auto simp: faithful_env_def)
  with assms(3) show ?thesis
    by (auto simp: ParseAppDefinition_def Let_def normalized_name split: if_splits sum.splits)
qed

lemma cloned_name:
  assumes "faithful_env env" "trim_lower (ad_Name d) = ad_Name d"
  shows "\<exists>d'. cloneAppDefinition (de_codec env) (Some d) = Some d' \<and> ad_Name d' = ad_Name d"
  using parsed_name[OF assms(1), of d] assms(2) by (auto simp: cloneAppDefinition_def split: option.split sum.split)

lemma map_result_mem: "map_result f xs = Inr ys \<Longrightarrow> y \<in> set ys \<Longrightarrow> \<exists>x \<in> set xs. f x = Inr y"
  by (induction xs arbitrary: ys) (auto split: sum.splits)

lemma app_row_of:
  assumes "faithful_env env" "GetActiveAppByName env rows n = Inr app"
  obtains r where "r \<in> set rows" "read_app (de_codec env) r = Inr app"
proof -
  from assms(2) obtain apps where a: "listActiveAppsUncached env rows = Inr apps" "app \<in> set apps" by (rule found_app)
  then obtain r where "r \<in> set (de_order env (filter live_row rows))" "read_app (de_codec env) r = Inr app"
    by (auto simp: listActiveAppsUncached_def dest: map_result_mem)
  moreover have "set (de_order env (filter live_row rows)) \<subseteq> set (filter live_row rows)"
    using assms(1) unfolding faithful_env_def by blast
  ultimately show ?thesis by (intro that[of r]) auto
qed

lemma read_app_names:
  assumes "read_app ec r = Inr app"
  shows "ra_Name app = trim_lower (aw_name r)" "ra_Namespace app = trim_lower (aw_namespace r)"
  using assms by (auto simp: read_app_def Let_def and_then_Inr split: sum.splits)

lemma read_app_draft:
  assumes "read_app ec r = Inr app" "read_definition ec (aw_definition_yaml r) = Inr (Some p)"
  shows "ra_DraftDefinition app = Some p"
  using assms by (auto simp: read_app_def Let_def and_then_Inr split: sum.splits)

lemma save_refused:
  assumes "GetActiveAppByName env rows n = Inr app" "trim_lower (ad_Name d) \<noteq> []" "trim_lower (ad_Name d) \<noteq> ra_Name app"
  shows "SaveAppDefinition env rows n d \<noteq> Inr rows'"
proof
  assume "SaveAppDefinition env rows n d = Inr rows'"
  then obtain app' apps d' content where g: "GetActiveAppByName env rows n = Inr app'"
    and a: "acceptable env apps app' (landed env app' d) = Inr (d', content)" by (rule SaveAppDefinition_InrE)
  have l: "ad_Name (landed env app' d) = ad_Name d" by (simp add: landed_def ensureSystemLandingPage_def Let_def)
  from a assms g l show False
    by (auto simp: acceptable_def prepareDefinitionForApp_def Let_def or_default_def normalized_name split: sum.splits option.splits if_splits)
qed

lemma save_stores:
  assumes "SaveAppDefinition env rows n d0 = Inr rows'" "GetActiveAppByName env rows n = Inr app"
  obtains d content where "ad_Name d = ra_Name app" "ec_marshal (de_codec env) d = Some content"
    "\<And>r'. r' \<in> set rows' \<Longrightarrow> row_matches (ra_Name app) r' \<Longrightarrow> aw_definition_yaml r' = content"
    "\<And>r'. r' \<in> set rows' \<Longrightarrow> \<exists>r \<in> set rows. aw_name r' = aw_name r \<and> aw_namespace r' = aw_namespace r"
  using assms(1)
proof (rule SaveAppDefinition_InrE)
  fix app' apps d content
  assume g: "GetActiveAppByName env rows n = Inr app'" and a: "acceptable env apps app' (landed env app' d0) = Inr (d, content)"
    and r: "rows' = map (\<lambda>r. if row_matches (ra_Name app') r then store_draft content r else r) rows"
  from g assms(2) have "app' = app" by simp
  with acceptableD[OF a] r show ?thesis
    by (intro that[of d content]) (auto simp: row_matches_def store_draft_def intro: rev_bexI)
qed

text \<open>
  C40: when the draft of an app is saved, it is also stored as the draft of every app whose namespace is the name of
  the first; such an app then carries a definition with the name of the other, and no object of its draft
  can be edited or deleted any more.
\<close>

theorem save_takes_over_namespace:
  assumes "faithful_env env" "list_all plain_row rows"
    and "GetActiveAppByName env rows n = Inr a" "SaveAppDefinition env rows n d = Inr rows'"
    and "\<exists>r \<in> set rows'. row_matches (ra_Name a) r \<and> read_definition (de_codec env) (aw_definition_yaml r) = Inr (Some p)"
    and "GetActiveAppByName env rows' (ra_Name b) = Inr b" "ra_Namespace b = ra_Name a" "ra_Name b \<noteq> ra_Name a"
    and "\<not> HasPrefix oid ''yaml:''"
  shows "ra_DraftDefinition b = Some p \<and> ad_Name p = ra_Name a \<and>
     saveAppEditorObject env rows' (ra_Name b) oid form \<noteq> Inr rows'' \<and> deleteAppEditorObject env rows' (ra_Name b) oid \<noteq> Inr rows''"
proof -
  from assms(4,3) obtain dd content where d: "ad_Name dd = ra_Name a" "ec_marshal (de_codec env) dd = Some content"
    "\<And>r'. r' \<in> set rows' \<Longrightarrow> row_matches (ra_Name a) r' \<Longrightarrow> aw_definition_yaml r' = content"
    "\<And>r'. r' \<in> set rows' \<Longrightarrow> \<exists>r \<in> set rows. aw_name r' = aw_name r \<and> aw_namespace r' = aw_namespace r"
    by (rule save_stores) blast
  from assms(5) d(3) have p: "read_definition (de_codec env) content = Inr (Some p)" by auto
  obtain r0 where r0: "r0 \<in> set rows" "read_app (de_codec env) r0 = Inr a" using app_row_of[OF assms(1,3)] .
  have a: "trim_lower (ra_Name a) = ra_Name a" "ra_Name a \<noteq> []"
    using read_app_names[OF r0(2)] assms(2) r0(1) by (auto simp: list_all_iff plain_row_def)
  have pn: "ad_Name p = ra_Name a"
    using parsed_name[OF assms(1) d(2), of "Some p"] p d(1) a(1) by (auto simp: read_definition_def split: if_splits)
  obtain rb where rb: "rb \<in> set rows'" "read_app (de_codec env) rb = Inr b" using app_row_of[OF assms(1,6)] .
  have "aw_namespace rb = ra_Name a"
    using read_app_names(2)[OF rb(2)] d(4)[OF rb(1)] assms(2,7) by (auto simp: list_all_iff plain_row_def)
  with d(3)[OF rb(1)] p have db: "ra_DraftDefinition b = Some p"
    by (intro read_app_draft[OF rb(2)]) (simp add: row_matches_def)
  obtain e where e: "editable env b = Some e" "ad_Name e = ra_Name a"
    using cloned_name[OF assms(1), of p] pn a(1) db by (auto simp: editable_def)
  have bn: "trim_lower (ra_Name b) = ra_Name b" "ra_Name b \<noteq> []"
    using read_app_names(1)[OF rb(2)] assms(6) by (auto simp: GetActiveAppByName_def split: if_splits)
  have "request_app env rows' (ra_Name b) oid = ra_Name b" using bn by (simp add: request_app_def resolveAppEditorAppName_def Let_def)
  moreover have "SaveAppDefinition env rows' (ra_Name b) x \<noteq> Inr rows''" if "ad_Name x = ra_Name a" for x
    by (rule save_refused[OF assms(6)]) (use that a assms(8) in auto)
  ultimately show ?thesis
    using assms(6,9) e db pn edits_keep_name[of "de_codec env" b oid form e] deletions_keep_name[of oid e]
    by (auto simp: saveAppEditorObject_def deleteAppEditorObject_def and_then_Inr refused_Inr)
qed

end
