(* ===== verification/AppEditorSamples.thy ===== *)
theory AppEditorSamples
  imports AppSamples AppDraftsLaws
begin

text \<open>Concrete drafts, forms and rows, and the properties of the app editor applied to them.\<close>

section \<open>A codec\<close>

text \<open>It writes the definitions that have the names of one app and a label, as their labels.\<close>

definition shelf :: "string \<Rightarrow> AppDefinition" where
  "shelf l = zero_definition\<lparr>ad_Name := ''crm'', ad_Namespace := ''lib'', ad_Label := l\<rparr>"

definition is_shelf :: "AppDefinition \<Rightarrow> bool" where
  "is_shelf d \<longleftrightarrow> ad_Name d = ''crm'' \<and> ad_Namespace d = ''lib'' \<and> ad_Description d = [] \<and> ad_Dependencies d = [] \<and>
     ad_Roles d = [] \<and> ad_Tables d = [] \<and> ad_Forms d = [] \<and> ad_Pages d = [] \<and>
     ad_ClientScripts d = [] \<and> ad_Seeds d = [] \<and> ad_Documentation d = [] \<and> ad_Services d = [] \<and>
     ad_Endpoints d = [] \<and> ad_Triggers d = [] \<and> ad_Schedules d = []"

definition shelf_codec :: editor_codec where
  "shelf_codec = \<lparr>ec_strings = \<lambda>t. None, ec_forms = \<lambda>t. None, ec_actions = \<lambda>t. None, ec_security = \<lambda>t. None, ec_policies = \<lambda>t. None,
     ec_triggers = \<lambda>t. None, ec_related = \<lambda>t. None, ec_lists = \<lambda>t. None, ec_rows = \<lambda>t. None, ec_choices = \<lambda>t. None,
     ec_marshal = \<lambda>d. if is_shelf d \<and> TrimSpace (ad_Label d) = ad_Label d \<and> ad_Label d \<noteq> [] then Some (ad_Label d) else None,
     ec_unmarshal = \<lambda>t. Some (shelf t), ec_legacy_scripts = \<lambda>t. False\<rparr>"

lemma is_shelf_iff: "is_shelf d \<longleftrightarrow> d = shelf (ad_Label d)"
  by (cases d) (simp add: is_shelf_def shelf_def zero_definition_def)

definition answers :: "(string \<times> string) list \<Rightarrow> form_values" where
  "answers vs k = (case map_of vs k of None \<Rightarrow> [] | Some v \<Rightarrow> [v])"

section \<open>Edits of a draft\<close>

definition library_definition :: AppDefinition where
  "library_definition = (case normalizeAppDefinition library_draft of Inl e \<Rightarrow> zero_definition | Inr d \<Rightarrow> d)"

lemma library_definition_ok: "definition_ok library_definition"
  by code_simp

definition edited :: "(edit_error, AppDefinition) result \<Rightarrow> AppDefinition" where
  "edited r = (case r of Inl e \<Rightarrow> zero_definition | Inr d \<Rightarrow> d)"

lemma edited_Inr: "(case r of Inl e \<Rightarrow> False | Inr d \<Rightarrow> True) \<Longrightarrow> r = Inr (edited r)"
  by (auto simp: edited_def split: sum.splits)

definition role_form :: form_values where
  "role_form = answers [(''app_name'', ''library''), (''name'', '' Clerk ''), (''label'', ''Clerk'')]"

abbreviation with_role :: AppDefinition where
  "with_role \<equiv> edited (edit_object shelf_codec zero_app ''new:role'' role_form library_definition)"

lemma role_made: "edit_object shelf_codec zero_app ''new:role'' role_form library_definition = Inr with_role"
  by (rule edited_Inr) code_simp

lemma role_app: "lower_value role_form ''app_name'' = ''library''"
  by code_simp

lemma creation_adds_one_witness: "created ''new:role'' role_form library_definition with_role"
  by (rule creation_adds_one[OF role_made _ library_definition_ok]) (simp_all only: role_app, simp_all add: HasPrefix_def)

abbreviation without_table :: AppDefinition where
  "without_table \<equiv> edited (delete_object ''table:lib_book'' library_definition)"

lemma table_gone: "delete_object ''table:lib_book'' library_definition = Inr without_table"
  by (rule edited_Inr) code_simp


abbreviation with_label :: AppDefinition where
  "with_label \<equiv> edited (edit_object shelf_codec zero_app ''method:library:net:ping'' (answers [(''label'', ''Ping'')]) library_definition)"

lemma label_set:
  "edit_object shelf_codec zero_app ''method:library:net:ping'' (answers [(''label'', ''Ping'')]) library_definition = Inr with_label"
  by (rule edited_Inr) code_simp

lemma edits_keep_objects_witness: "objects with_label = objects library_definition"
  by (rule edits_keep_objects[OF label_set]) code_simp

lemma seed_edit_ignores_index_witness:
  "save_seed shelf_codec (''seed:'' @ ''library'' @ '':'' @ ''lib_book'' @ '':'' @ ''1'') (answers []) library_definition =
   save_seed shelf_codec (''seed:'' @ ''library'' @ '':'' @ ''lib_book'' @ '':'' @ ''0'') (answers []) library_definition"
  by (rule seed_edit_ignores_index) simp_all

section \<open>Two apps that share a name\<close>

text \<open>The namespace of the second app is the name of the first.\<close>

definition shared_env :: drafts_env where
  "shared_env = \<lparr>de_codec = shelf_codec, de_checkers = \<lparr>ck_regex = \<lambda>p v. None, ck_mail = \<lambda>v. False, ck_uri = \<lambda>v. False\<rparr>,
     de_order = \<lambda>rows. rows, de_visit = \<lambda>apps. apps, de_landing_content = [], de_replace_content = \<lambda>c. False,
     de_publish_steps = \<lambda>app old new. None, de_seeds = \<lambda>n. None\<rparr>"

definition row_of :: "string \<Rightarrow> string \<Rightarrow> string \<Rightarrow> app_row" where
  "row_of name namespace yaml = \<lparr>aw_ID = name, aw_name = name, aw_namespace = namespace, aw_label = name, aw_description = [],
     aw_status = ''active'', aw_deleted = False, aw_definition_yaml = yaml, aw_published_yaml = [], aw_definition_version = 1,
     aw_published_version = 0\<rparr>"

definition shared_rows :: "app_row list" where
  "shared_rows = [row_of ''crm'' ''lib'' ''Contacts'', row_of ''notes'' ''crm'' []]"

definition saved_rows :: "app_row list" where
  "saved_rows = map (\<lambda>r. r\<lparr>aw_definition_yaml := ''Customers'', aw_definition_version := 2\<rparr>) shared_rows"

definition found :: "app_row list \<Rightarrow> string \<Rightarrow> RegisteredApp" where
  "found rows n = (case GetActiveAppByName shared_env rows n of Inl e \<Rightarrow> zero_app | Inr a \<Rightarrow> a)"

lemma found_Inr:
  "(case GetActiveAppByName shared_env rows n of Inl e \<Rightarrow> False | Inr a \<Rightarrow> True) \<Longrightarrow> GetActiveAppByName shared_env rows n = Inr (found rows n)"
  by (auto simp: found_def split: sum.splits)

lemma shared_found:
  "GetActiveAppByName shared_env shared_rows ''crm'' = Inr (found shared_rows ''crm'')"
  "GetActiveAppByName shared_env saved_rows ''notes'' = Inr (found saved_rows ''notes'')"
  by (rule found_Inr, code_simp)+

lemma shared_names:
  "ra_Name (found shared_rows ''crm'') = ''crm''" "ra_Name (found saved_rows ''notes'') = ''notes''"
  "ra_Namespace (found saved_rows ''notes'') = ''crm''"
  by code_simp+

lemma shared_saved: "SaveAppDefinition shared_env shared_rows ''crm'' (shelf ''Customers'') = Inr saved_rows"
proof -
  have "case SaveAppDefinition shared_env shared_rows ''crm'' (shelf ''Customers'') of Inl e \<Rightarrow> False | Inr rows \<Rightarrow> rows = saved_rows"
    by code_simp
  then show ?thesis by (auto split: sum.splits)
qed

definition saved_shelf :: AppDefinition where
  "saved_shelf = (case read_definition shelf_codec ''Customers'' of Inr (Some d) \<Rightarrow> d | _ \<Rightarrow> zero_definition)"

lemma saved_shelf_read: "read_definition shelf_codec ''Customers'' = Inr (Some saved_shelf)"
proof -
  have "case read_definition shelf_codec ''Customers'' of Inr (Some d) \<Rightarrow> True | _ \<Rightarrow> False" by code_simp
  then show ?thesis by (auto simp: saved_shelf_def split: sum.splits option.splits)
qed

lemma shared_faithful: "faithful_env shared_env"
  by (auto simp: faithful_env_def shared_env_def shelf_codec_def is_shelf_iff)

lemma shared_plain: "list_all plain_row shared_rows"
  by code_simp

lemma save_takes_over_namespace_witness:
  "ra_DraftDefinition (found saved_rows ''notes'') = Some saved_shelf \<and> ad_Name saved_shelf = ''crm'' \<and>
   saveAppEditorObject shared_env saved_rows ''notes'' ''new:role'' role_form \<noteq> Inr saved_rows \<and>
   deleteAppEditorObject shared_env saved_rows ''notes'' ''new:role'' \<noteq> Inr saved_rows"
proof -
  have "\<exists>r \<in> set saved_rows. row_matches ''crm'' r \<and>
      read_definition (de_codec shared_env) (aw_definition_yaml r) = Inr (Some saved_shelf)"
    using saved_shelf_read by (simp add: saved_rows_def shared_rows_def row_matches_def row_of_def shared_env_def)
  then have "\<exists>r \<in> set saved_rows. row_matches (ra_Name (found shared_rows ''crm'')) r \<and>
      read_definition (de_codec shared_env) (aw_definition_yaml r) = Inr (Some saved_shelf)"
    by (simp only: shared_names)
  from save_takes_over_namespace[OF shared_faithful shared_plain shared_found(1) shared_saved this,
      of "found saved_rows ''notes''" "''new:role''" role_form saved_rows]
  show ?thesis by (simp add: shared_names shared_found HasPrefix_def)
qed

end
