(* ===== verification/Spec2Isabelle.thy ===== *)
theory Spec2Isabelle
  imports ScriptRecordsSamples RichText ObservabilityQueue Migrations SchemaSamples ProviderLaws RecordBulkSamples TablesSamples PagesSamples HttpSamples RealtimeLaws TaskLaws TableQueryLaws AppEditorSamples
begin

text \<open>
  A model of velm, a server on which a business builds its own applications. An app is a definition in YAML:
  tables with columns, forms, lists, security rules, services with methods in JavaScript, endpoints, triggers,
  schedules and pages. The definitions are stored in the table \<open>_app\<close>, edited in the app editor, published into a
  schema of the database, and interpreted at run time: every request to a record, a page or an endpoint finds
  the definition that governs it, asks its rules, and reads or writes rows.

  \<^bold>\<open>Conventions.\<close> A Go struct is a record with one field per member, a pointer that may be nil an option, an error
  a value of an error type beside the result, \<open>(e, 'a) result\<close>. A string is a list of bytes. A loop over a map
  takes the order of its visits as an argument, and so nothing is proved for one order only unless it says so.
  The state of a handler, mostly the rows of the tables it touches, is passed and returned. What is not code of the
  repository is an argument: the answers of the database to a statement, YAML, regular expressions, the script
  engine, the HTML parser, the name service, the clock, random tokens. What a theorem needs of them
  is a hypothesis, and its witness satisfies it with concrete functions.

  \<^bold>\<open>Foundations.\<close> \<open>Prelude\<close>, \<open>GoStrings\<close>, \<open>GoNumbers\<close>, \<open>GoTime\<close> and \<open>GoJson\<close> model what the code uses of the standard library,
  \<open>Parsing\<close> the combinators of its parsers, and \<open>Transition\<close> is the interface of components that run in steps.

  \<^bold>\<open>Expressions\<close> (\<open>internal/db/ExpressionEval.go\<close>): \<open>ExprScan\<close>, \<open>ExprParse\<close> and \<open>ExprEval\<close>. \<open>ExprPrint\<close> is a reference
  printer whose texts are read back, \<open>ExprLaws\<close> shows that every evaluation returns and which fields it reads.

  \<^bold>\<open>Forms and rules.\<close> \<open>DataTypes\<close> (\<open>MetadataGuards.go\<close>, \<open>Identifiers.go\<close>), \<open>Validation\<close> (\<open>Validation.go\<close>) against its
  declarative specification, \<open>SecurityRules\<close> (\<open>SecurityRules.go\<close>), and \<open>SecurityLaws\<close>: rules decide by first match, and a rule
  that the acceptance of a definition calls shadowed is dead.

  \<^bold>\<open>Definitions\<close> (\<open>AppDefinition.go\<close> and its neighbours): \<open>AppTypes\<close> is the data, \<open>AppNormalize\<close> and \<open>AppValidate\<close> are what a
  definition passes before it is stored, \<open>AppTables\<close> its tables as the runtime sees them, \<open>AppLookup\<close> and
  \<open>AppDispatch\<close> how apps, endpoints, methods and triggers are found and run (\<open>AppRuntime.go\<close>). The laws: a normal
  form is well formed, and the calls and columns of an accepted definition resolve at run time. \<open>MetadataCache\<close>
  (\<open>RequestMetadataCache.go\<close>) answers as the database would. \<open>AppPages\<close> (\<open>PageRuntime.go\<close>, \<open>page_route.go\<close>) has the stored pages,
  their synchronisation and their delivery behind the security of the page.

  \<^bold>\<open>The app editor\<close> (\<open>cmd/server/handleAppEditorObjectSave.go\<close>, \<open>AppDefinition.go\<close>): \<open>AppEditor\<close>, \<open>AppEdits\<close> and \<open>AppDeletes\<close> are the
  edits of a draft, \<open>AppDrafts\<close> the table \<open>_app\<close> with its reads, saves and publications. \<open>AppEditorLaws\<close> compares the edits
  with their effect on the objects of a definition; \<open>AppDraftsLaws\<close> has what a request may change, and the loss of
  the draft of an app whose namespace is the name of another.

  \<^bold>\<open>Users.\<close> \<open>Authz\<close> (\<open>AuthzAdmin.go\<close>, \<open>AuthzQueries.go\<close>, \<open>AuthzEffective.go\<close>, \<open>SessionSecurity.go\<close>) has the roles and
  permissions with their administration, \<open>HttpAuth\<close> (\<open>internal/auth\<close>, \<open>internal/authz\<close>, \<open>cmd/server/routes.go\<close>) the sessions
  and the middleware of the routes. The laws: an administrator remains when requests follow one another and none when
  two overlap, a guarded handler runs for permitted sessions only, a change of permissions ends sessions.

  \<^bold>\<open>Records.\<close> \<open>SaveValues\<close>, \<open>RecordSave\<close> (\<open>HandleSave.go\<close>) and \<open>RecordBulk\<close> (\<open>handleBulkUpdate.go\<close>, \<open>handleSoftDelete.go\<close>) are the
  handlers that write records, \<open>SaveRace\<close> their interleaving, \<open>ScriptRecords\<close> (\<open>ScriptOps.go\<close>, \<open>ScriptActor.go\<close>) the records as scripts
  see them, \<open>TableQuery\<close> (\<open>cmd/server/table_query.go\<close>) the queries of the lists. The laws: what is written has passed
  the checks, no save overwrites another it has not seen, and the values of a query never become SQL.

  \<^bold>\<open>Services of the platform.\<close> \<open>TaskEngine\<close> (\<open>TaskEngine.go\<close>), \<open>RealtimeHub\<close> (\<open>internal/realtime/hub.go\<close>), \<open>SchemaJobs\<close>
  (\<open>BuilderSchemaJobs.go\<close>), \<open>Migrations\<close> (\<open>Migrations.go\<close>), \<open>ObservabilityQueue\<close>, \<open>RichText\<close>, and \<open>ProviderDestination\<close>
  (\<open>internal/security\<close>), each with its laws in the theory itself or in the one named after it. A theory whose name
  ends in \<open>Samples\<close> applies the properties to concrete values.

  \<^bold>\<open>Fuel.\<close> The parser of expressions takes \<open>8 * n + 9\<close> steps for \<open>n\<close> tokens, that of list queries \<open>5 * n + 6\<close>; the lemmas beside
  them show that this is enough and that more changes nothing. The tokenizer of list queries takes \<open>n + 1\<close> rounds for
  \<open>n\<close> bytes: it returns within them or never, and the property of the lone exclamation mark is that it may not.
  The spawning of task instances takes one more than the rank of the definition, when no container contains itself.

  \<^bold>\<open>Not modelled.\<close> HTML and templates, the HTTP client and server, the handlers that only read and render, logs and
  metrics, the script engine, the AI features, the importers and exporters, the command-line tools. They are glue
  between the parts above, or their core is a library. Of a publication, the statements that build the schema and the
  seeds are arguments. Case folding is that of ASCII; the other letters of Unicode are left as they are.
\<close>

end
